(* ===== verification/Prelude.thy ===== *)
theory Prelude
  imports Complex_Main "HOL-Library.List_Lexorder" "HOL-Library.Char_ord"
begin

text \<open>
  Shared vocabulary of the development.

  \<^item> \<open>pyval\<close>: the JSON-like values the Python code puts into dictionaries, audit payloads
    and results (a dictionary is an association list in insertion order).
  \<^item> \<open>py_error\<close>: the exceptions the modelled code raises.  An operation that can raise
    returns \<open>py_error + 'a\<close>; the text of a message is kept without its interpolated values.
  \<^item> \<open>bindR\<close>, \<open>guardR\<close>: sequencing of operations that can raise.
  \<^item> \<open>put_row\<close> and the locale \<open>row_table\<close>: a database table as a list of rows in insertion
    order, updated by primary key.
  \<^item> \<open>atomically\<close>: the \<open>try: ... db.commit() except: db.rollback(); raise\<close> frame of the
    service functions.
  \<^item> string helpers with the meaning of the Python methods of the same name on ASCII text.
\<close>

named_theorems row_simps "look-up after update of a table"
named_theorems frame_simps "components of the state an operation leaves alone"

section \<open>Python values and errors\<close>

datatype pyval =
    PNone
  | PBool bool
  | PInt int
  | PFloat rat
  | PStr string
  | PTime int
  | PList "pyval list"
  | PDict "(string \<times> pyval) list"

datatype py_error =
    ValueError string
  | KeyError string
  | TypeError string
  | ValidationError string
  | RuntimeContextError string
  | HTTPException int string
  | IntegrityError string
  | OperationalError string
  | MultipleResultsFound

type_synonym 'a res = "py_error + 'a"

fun dict_get :: "pyval \<Rightarrow> string \<Rightarrow> pyval" where
  "dict_get (PDict kvs) k = (case map_of kvs k of None \<Rightarrow> PNone | Some v \<Rightarrow> v)"
| "dict_get _ k = PNone"

text \<open>Truth value of a Python object, as \<open>if x\<close> and \<open>x or y\<close> read it.\<close>

fun truthy :: "pyval \<Rightarrow> bool" where
  "truthy PNone = False"
| "truthy (PBool b) = b"
| "truthy (PInt i) = (i \<noteq> 0)"
| "truthy (PFloat x) = (x \<noteq> 0)"
| "truthy (PStr s) = (s \<noteq> [])"
| "truthy (PTime t) = True"
| "truthy (PList xs) = (xs \<noteq> [])"
| "truthy (PDict kvs) = (kvs \<noteq> [])"

definition py_or :: "pyval \<Rightarrow> pyval \<Rightarrow> pyval" where
  "py_or a b = (if truthy a then a else b)"

text \<open>Item assignment and \<open>pop(key, None)\<close> on a dictionary.\<close>

fun dict_put :: "string \<Rightarrow> 'v \<Rightarrow> (string \<times> 'v) list \<Rightarrow> (string \<times> 'v) list" where
  "dict_put k v [] = [(k, v)]"
| "dict_put k v ((k', v') # kvs) = (if k' = k then (k, v) # kvs else (k', v') # dict_put k v kvs)"

definition dict_pop :: "string \<Rightarrow> (string \<times> 'v) list \<Rightarrow> (string \<times> 'v) list" where
  "dict_pop k kvs = filter (\<lambda>(k', v). k' \<noteq> k) kvs"

lemma map_of_dict_put [simp]: "map_of (dict_put k v kvs) = (map_of kvs)(k \<mapsto> v)"
  by (induction k v kvs rule: dict_put.induct) auto

lemma map_of_dict_pop [simp]: "map_of (dict_pop k kvs) = (map_of kvs)(k := None)"
  by (induction kvs) (auto simp: dict_pop_def)

definition opt_str :: "string option \<Rightarrow> pyval" where
  "opt_str v = (case v of None \<Rightarrow> PNone | Some s \<Rightarrow> PStr s)"

definition opt_time :: "int option \<Rightarrow> pyval" where
  "opt_time v = (case v of None \<Rightarrow> PNone | Some t \<Rightarrow> PTime t)"

definition opt_float :: "rat option \<Rightarrow> pyval" where
  "opt_float v = (case v of None \<Rightarrow> PNone | Some x \<Rightarrow> PFloat x)"

definition str_list :: "string list \<Rightarrow> pyval" where
  "str_list ss = PList (map PStr ss)"

definition opt_int :: "int option \<Rightarrow> pyval" where
  "opt_int v = (case v of None \<Rightarrow> PNone | Some i \<Rightarrow> PInt i)"

section \<open>Sequencing operations that can raise\<close>

definition bindR :: "'e + 'a \<Rightarrow> ('a \<Rightarrow> 'e + 'b) \<Rightarrow> 'e + 'b" where
  "bindR m f = (case m of Inl e \<Rightarrow> Inl e | Inr x \<Rightarrow> f x)"

definition guardR :: "bool \<Rightarrow> 'e \<Rightarrow> 'e + 'a \<Rightarrow> 'e + 'a" where
  "guardR c e m = (if c then m else Inl e)"

lemma bindR_simps [simp]:
  "bindR (Inl e) f = Inl e"
  "bindR (Inr x) f = f x"
  by (simp_all add: bindR_def)

lemma bindR_Inr_iff [simp]: "bindR m f = Inr y \<longleftrightarrow> (\<exists>x. m = Inr x \<and> f x = Inr y)"
  by (cases m) auto

lemma bindR_Inl_iff: "bindR m f = Inl e \<longleftrightarrow> m = Inl e \<or> (\<exists>x. m = Inr x \<and> f x = Inl e)"
  by (cases m) auto

lemma bindR_cong [fundef_cong]:
  "m = m' \<Longrightarrow> (\<And>x. m' = Inr x \<Longrightarrow> f x = g x) \<Longrightarrow> bindR m f = bindR m' g"
  by (cases m') auto

lemma guardR_simps [simp]:
  "guardR True e m = m"
  "guardR False e m = Inl e"
  by (simp_all add: guardR_def)

lemma guardR_Inr_iff [simp]: "guardR c e m = Inr y \<longleftrightarrow> c \<and> m = Inr y"
  by (simp add: guardR_def)

text \<open>Taking a successful run apart: every guard passed and every call returned.\<close>

lemma bindR_E:
  assumes "bindR m f = Inr y"
  obtains x where "m = Inr x" "f x = Inr y"
  using assms by (cases m) auto

lemma bindR_pairE:
  assumes "bindR m (\<lambda>(a, b). f a b) = Inr y"
  obtains a b where "m = Inr (a, b)" "f a b = Inr y"
  using assms by (cases m) auto

lemma if_Inl_E:
  assumes "(if c then Inl e else m) = Inr y"
  obtains "\<not> c" "m = Inr y"
  using assms by (cases c) auto

lemma if_Inl_E':
  assumes "(if c then m else Inl e) = Inr y"
  obtains "c" "m = Inr y"
  using assms by (cases c) auto

lemma case_pair_E:
  assumes "(case p of (a, b) \<Rightarrow> f a b) = Inr y"
  obtains a b where "p = (a, b)" "f a b = Inr y"
  using assms by (cases p) auto

lemma case_option_E:
  assumes "(case v of None \<Rightarrow> Inl e | Some a \<Rightarrow> f a) = Inr y"
  obtains a where "v = Some a" "f a = Inr y"
  using assms by (cases v) auto

lemmas run_elims = case_option_E if_Inl_E if_Inl_E' bindR_pairE bindR_E case_pair_E

text \<open>
  A service function runs inside \<open>try\<close>; it commits at its normal end and rolls back and
  re-raises on any exception, so a failed call leaves the committed state it started from.
\<close>

definition atomically :: "('s \<Rightarrow> py_error + ('a \<times> 's)) \<Rightarrow> 's \<Rightarrow> 's \<times> (py_error + 'a)" where
  "atomically body s =
     (case body s of Inl e \<Rightarrow> (s, Inl e) | Inr (x, s') \<Rightarrow> (s', Inr x))"

lemma atomically_Inl: "body s = Inl e \<Longrightarrow> atomically body s = (s, Inl e)"
  by (simp add: atomically_def)

lemma atomically_Inr: "body s = Inr (x, s') \<Longrightarrow> atomically body s = (s', Inr x)"
  by (simp add: atomically_def)

lemma atomically_cases:
  obtains (err) e where "body s = Inl e" "atomically body s = (s, Inl e)"
  | (ok) x s' where "body s = Inr (x, s')" "atomically body s = (s', Inr x)"
  by (cases "body s") (auto simp: atomically_def)

lemma atomically_error_iff [simp]:
  "snd (atomically body s) = Inl e \<longleftrightarrow> body s = Inl e"
  by (rule atomically_cases [of body s]) auto

lemma atomically_error_state:
  "snd (atomically body s) = Inl e \<Longrightarrow> fst (atomically body s) = s"
  by (rule atomically_cases [of body s]) auto

lemma atomically_preserves:
  assumes "\<And>x s'. body s = Inr (x, s') \<Longrightarrow> P s'" and "P s"
  shows "P (fst (atomically body s))"
  using assms by (cases rule: atomically_cases [of body s]) auto

section \<open>Tables\<close>

definition put_row :: "('r \<Rightarrow> 'k) \<Rightarrow> 'r \<Rightarrow> 'r list \<Rightarrow> 'r list" where
  "put_row key r rs = map (\<lambda>x. if key x = key r then r else x) rs"

lemma put_row_Nil [simp]: "put_row key r [] = []"
  by (simp add: put_row_def)

lemma put_row_Cons [simp]:
  "put_row key r (x # xs) = (if key x = key r then r else x) # put_row key r xs"
  by (simp add: put_row_def)

lemma length_put_row [simp]: "length (put_row key r rs) = length rs"
  by (simp add: put_row_def)

lemma keys_put_row [simp]: "map key (put_row key r rs) = map key rs"
  by (simp add: put_row_def)

lemma set_put_row: "set (put_row key r rs) \<subseteq> insert r {x \<in> set rs. key x \<noteq> key r}"
  by (auto simp: put_row_def)

lemma put_row_absent: "key r \<notin> key ` set rs \<Longrightarrow> put_row key r rs = rs"
  by (induction rs) auto

lemma find_Some_iff': "List.find P xs = Some x \<Longrightarrow> x \<in> set xs \<and> P x"
  by (induction xs) (auto split: if_splits)

lemma find_None_iff': "List.find P xs = None \<longleftrightarrow> (\<forall>x\<in>set xs. \<not> P x)"
  by (induction xs) auto

lemma find_append: "List.find P (xs @ ys) = (case List.find P xs of None \<Rightarrow> List.find P ys | Some x \<Rightarrow> Some x)"
  by (induction xs) auto

lemma find_key_distinct:
  "distinct (map key rs) \<Longrightarrow> r \<in> set rs \<Longrightarrow> List.find (\<lambda>x. key x = key r) rs = Some r"
  by (induction rs) (auto simp: image_iff)

lemma find_put_row_same:
  "k \<in> key ` set rs \<Longrightarrow> key r = k \<Longrightarrow> List.find (\<lambda>x. key x = k) (put_row key r rs) = Some r"
  by (induction rs) auto

lemma find_put_row_other:
  "key r \<noteq> k \<Longrightarrow> List.find (\<lambda>x. key x = k) (put_row key r rs) = List.find (\<lambda>x. key x = k) rs"
  by (induction rs) auto

lemma map_put_row:
  assumes "distinct (map key rs)" "List.find (\<lambda>x. key x = key r) rs = Some r0" "f r = f r0"
  shows "map f (put_row key r rs) = map f rs"
proof -
  have "x = r0" if "x \<in> set rs" "key x = key r" for x
    using find_key_distinct [OF assms(1) that(1)] that(2) assms(2) by simp
  then show ?thesis by (auto simp: put_row_def assms(3))
qed

text \<open>A column no update changes: looking it up is not affected by the update.\<close>

lemma find_put_row_map:
  assumes "\<And>x. List.find (\<lambda>y. key y = key r) rs = Some x \<Longrightarrow> col x = col r"
  shows "map_option col (List.find (\<lambda>x. key x = k) (put_row key r rs))
       = map_option col (List.find (\<lambda>x. key x = k) rs)"
proof (cases "key r = k")
  case True
  show ?thesis
  proof (cases "k \<in> key ` set rs")
    case True
    then have "List.find (\<lambda>y. key y = k) rs \<noteq> None"
      by (auto simp: find_None_iff')
    then obtain x where x: "List.find (\<lambda>y. key y = k) rs = Some x"
      by blast
    have "List.find (\<lambda>x. key x = k) (put_row key r rs) = Some r"
      using True \<open>key r = k\<close> by (rule find_put_row_same)
    moreover have "col x = col r" using x assms \<open>key r = k\<close> by simp
    ultimately show ?thesis using x by simp
  next
    case False
    with \<open>key r = k\<close> show ?thesis by (simp add: put_row_absent)
  qed
next
  case False
  then show ?thesis by (simp add: find_put_row_other)
qed

text \<open>
  The interface of a table inside the database record: reading the rows, replacing the rows.
  Its laws are those of a record field; every table of the database is an instance.
\<close>

locale row_table =
  fixes rows :: "'s \<Rightarrow> 'r list"
    and set_rows :: "'r list \<Rightarrow> 's \<Rightarrow> 's"
    and key :: "'r \<Rightarrow> 'k"
  assumes rows_set_rows: "rows (set_rows rs s) = rs"
    and set_rows_set_rows: "set_rows rs' (set_rows rs s) = set_rows rs' s"
begin

lemma get_after_put:
  "List.find (\<lambda>x. key x = key r) (rows s) = Some r0 \<Longrightarrow>
   List.find (\<lambda>x. key x = key r) (rows (set_rows (put_row key r (rows s)) s)) = Some r"
proof -
  assume "List.find (\<lambda>x. key x = key r) (rows s) = Some r0"
  then have "r0 \<in> set (rows s) \<and> key r0 = key r" by (rule find_Some_iff')
  then have "key r \<in> key ` set (rows s)" by (metis image_eqI)
  then show ?thesis by (simp add: rows_set_rows find_put_row_same)
qed

lemma get_after_put_other:
  "key r \<noteq> k \<Longrightarrow>
   List.find (\<lambda>x. key x = k) (rows (set_rows (put_row key r (rows s)) s))
     = List.find (\<lambda>x. key x = k) (rows s)"
  by (simp add: rows_set_rows find_put_row_other)

lemma get_column_after_put:
  "(\<And>x. List.find (\<lambda>y. key y = key r) (rows s) = Some x \<Longrightarrow> col x = col r) \<Longrightarrow>
   map_option col (List.find (\<lambda>x. key x = k) (rows (set_rows (put_row key r (rows s)) s)))
     = map_option col (List.find (\<lambda>x. key x = k) (rows s))"
  by (simp add: rows_set_rows find_put_row_map)

lemma keys_after_put: "map key (rows (set_rows (put_row key r (rows s)) s)) = map key (rows s)"
  by (simp add: rows_set_rows)

lemma get_after_insert:
  "List.find (\<lambda>x. key x = k) (rows s) = Some r0 \<Longrightarrow>
   List.find (\<lambda>x. key x = k) (rows (set_rows (rows s @ [r]) s)) = Some r0"
  by (simp add: rows_set_rows find_append)

end

text \<open>\<open>Query.one_or_none()\<close>: none, the only row, or an exception when several match.\<close>

definition one_or_none :: "('r \<Rightarrow> bool) \<Rightarrow> 'r list \<Rightarrow> 'r option res" where
  "one_or_none P rs =
     (case filter P rs of [] \<Rightarrow> Inr None | [r] \<Rightarrow> Inr (Some r) | _ \<Rightarrow> Inl MultipleResultsFound)"

section \<open>Sums over selected rows\<close>

lemma sum_list_map_append: "sum_list (map f (xs @ ys)) = sum_list (map f xs) + sum_list (map f ys)"
  for f :: "'a \<Rightarrow> int"
  by simp

lemma sum_list_filter_none:
  "(\<And>x. x \<in> set xs \<Longrightarrow> \<not> P x) \<Longrightarrow> sum_list (map f (filter P xs)) = 0"
  for f :: "'a \<Rightarrow> int"
  by (induction xs) auto

lemma sum_list_nonneg_int: "(\<And>x. x \<in> set xs \<Longrightarrow> 0 \<le> f x) \<Longrightarrow> 0 \<le> sum_list (map f xs)"
  for f :: "'a \<Rightarrow> int"
  by (induction xs) auto

section \<open>Strings\<close>

definition upper_char :: "char \<Rightarrow> char" where
  "upper_char c = (let n = of_char c :: nat in
     if 97 \<le> n \<and> n \<le> 122 then char_of (n - 32) else c)"

definition py_upper :: "string \<Rightarrow> string" where
  "py_upper s = map upper_char s"

definition is_upper :: "char \<Rightarrow> bool" where
  "is_upper c = (let n = of_char c :: nat in 65 \<le> n \<and> n \<le> 90)"

definition lower_char :: "char \<Rightarrow> char" where
  "lower_char c = (if is_upper c then char_of ((of_char c :: nat) + 32) else c)"

definition py_lower :: "string \<Rightarrow> string" where
  "py_lower s = map lower_char s"

text \<open>\<open>needle in haystack\<close> on strings.\<close>

fun is_prefix_of :: "string \<Rightarrow> string \<Rightarrow> bool" where
  "is_prefix_of [] ys = True"
| "is_prefix_of (x # xs) [] = False"
| "is_prefix_of (x # xs) (y # ys) = (x = y \<and> is_prefix_of xs ys)"

fun is_infix_of :: "string \<Rightarrow> string \<Rightarrow> bool" where
  "is_infix_of xs [] = (xs = [])"
| "is_infix_of xs (y # ys) = (is_prefix_of xs (y # ys) \<or> is_infix_of xs ys)"

definition contains_any :: "string list \<Rightarrow> string \<Rightarrow> bool" where
  "contains_any tokens s = list_ex (\<lambda>t. is_infix_of t s) tokens"

text \<open>\<open>a or b\<close> on optional strings: the empty string is false.\<close>

definition str_or :: "string option \<Rightarrow> string option \<Rightarrow> string option" where
  "str_or a b = (case a of None \<Rightarrow> b | Some s \<Rightarrow> if s = [] then b else a)"

definition is_space :: "char \<Rightarrow> bool" where
  "is_space c = (let n = of_char c :: nat in n = 32 \<or> (9 \<le> n \<and> n \<le> 13) \<or> (28 \<le> n \<and> n \<le> 31))"

definition py_strip :: "string \<Rightarrow> string" where
  "py_strip s = rev (dropWhile is_space (rev (dropWhile is_space s)))"

lemma py_strip_no_space:
  "(\<And>c. c \<in> set s \<Longrightarrow> \<not> is_space c) \<Longrightarrow> py_strip s = s"
proof -
  assume a: "\<And>c. c \<in> set s \<Longrightarrow> \<not> is_space c"
  have d: "dropWhile is_space xs = xs" if "set xs = set s" for xs
    using that a by (cases xs) auto
  show ?thesis by (simp add: py_strip_def d)
qed

text \<open>\<open>s.replace(pat, '')\<close> for a non-empty pattern, and \<open>s.strip('{}')\<close>.\<close>

fun remove_skip :: "nat \<Rightarrow> string \<Rightarrow> string \<Rightarrow> string" where
  "remove_skip k pat [] = []"
| "remove_skip (Suc k) pat (c # cs) = remove_skip k pat cs"
| "remove_skip 0 pat (c # cs) =
     (if is_prefix_of pat (c # cs) then remove_skip (length pat - 1) pat cs
      else c # remove_skip 0 pat cs)"

definition strip_braces :: "string \<Rightarrow> string" where
  "strip_braces s = (let brace = (\<lambda>c. c = CHR ''{'' \<or> c = CHR ''}'')
     in rev (dropWhile brace (rev (dropWhile brace s))))"

text \<open>
  \<open>int(s, 16)\<close>: optional sign and \<open>0x\<close> prefix, digits with single underscores between them.
\<close>

definition hex_value :: "char \<Rightarrow> int option" where
  "hex_value c = (let n = of_char c :: nat in
     if 48 \<le> n \<and> n \<le> 57 then Some (int n - 48)
     else if 97 \<le> n \<and> n \<le> 102 then Some (int n - 87)
     else if 65 \<le> n \<and> n \<le> 70 then Some (int n - 55) else None)"

fun hex_digits :: "string \<Rightarrow> bool \<Rightarrow> int \<Rightarrow> int option" where
  "hex_digits [] after_digit acc = (if after_digit then Some acc else None)"
| "hex_digits (c # cs) after_digit acc =
     (if c = CHR ''_'' then (if after_digit then hex_digits cs False acc else None)
      else (case hex_value c of None \<Rightarrow> None | Some v \<Rightarrow> hex_digits cs True (16 * acc + v)))"

definition hex_magnitude :: "string \<Rightarrow> int option" where
  "hex_magnitude s =
     (if take 2 s \<in> {''0x'', ''0X''}
      then hex_digits (if take 1 (drop 2 s) = ''_'' then drop 3 s else drop 2 s) False 0
      else hex_digits s False 0)"

definition py_int16 :: "string \<Rightarrow> int option" where
  "py_int16 s = (case py_strip s of
       [] \<Rightarrow> None
     | c # cs \<Rightarrow> (if c = CHR ''-'' then map_option uminus (hex_magnitude cs)
                 else if c = CHR ''+'' then hex_magnitude cs else hex_magnitude (c # cs)))"

fun hex_text :: "nat \<Rightarrow> int \<Rightarrow> string" where
  "hex_text 0 v = []"
| "hex_text (Suc k) v =
     hex_text k (v div 16) @ [(let n = nat (v mod 16) in char_of (if n < 10 then 48 + n else 87 + n))]"

text \<open>\<open>str(uuid.UUID(s))\<close>: the canonical text of an identifier, \<open>None\<close> where it raises \<open>ValueError\<close>.\<close>

definition py_uuid :: "string \<Rightarrow> string option" where
  "py_uuid s =
     (let digits = filter (\<lambda>c. c \<noteq> CHR ''-'')
            (strip_braces (remove_skip 0 ''uuid:'' (remove_skip 0 ''urn:'' s)))
      in if length digits \<noteq> 32 then None
         else (case py_int16 digits of
                 None \<Rightarrow> None
               | Some v \<Rightarrow>
                   (if v < 0 \<or> 2 ^ 128 \<le> v then None
                    else (let h = hex_text 32 v in
                      Some (take 8 h @ ''-'' @ take 4 (drop 8 h) @ ''-'' @ take 4 (drop 12 h)
                            @ ''-'' @ take 4 (drop 16 h) @ ''-'' @ drop 20 h)))))"

end
