(* ===== verification/Money.thy ===== *)
theory Money
  imports Prelude
begin

text \<open>
  Money values (\<^verbatim>\<open>models/money.py\<close>) and their exact decimal presentation
  (\<^verbatim>\<open>services/money_presentation.py\<close>).  \<open>mk_money\<close> is the pydantic constructor with its
  bounds and closed currency set; \<open>money_validate\<close> is \<open>Money.model_validate\<close> on an untrusted
  dictionary (extra keys forbidden, strict integers).
\<close>

definition MAX_MINOR :: int where
  "MAX_MINOR = 2 ^ 53 - 1"

definition CURRENCY_EXPONENTS :: "string \<rightharpoonup> nat" where
  "CURRENCY_EXPONENTS =
     map_of [(''USD'', 2), (''MXN'', 2), (''JPY'', 0), (''BHD'', 3)]"

record money =
  amount_minor :: int
  currency_code :: string

definition money_ok :: "money \<Rightarrow> bool" where
  "money_ok m \<longleftrightarrow> - MAX_MINOR \<le> amount_minor m \<and> amount_minor m \<le> MAX_MINOR
     \<and> CURRENCY_EXPONENTS (currency_code m) \<noteq> None"

definition mk_money :: "int \<Rightarrow> string \<Rightarrow> money res" where
  "mk_money a c =
     (if \<not> (- MAX_MINOR \<le> a \<and> a \<le> MAX_MINOR) then Inl (ValidationError ''amount_minor'')
      else if CURRENCY_EXPONENTS c = None then Inl (ValidationError ''currency_code'')
      else Inr \<lparr>amount_minor = a, currency_code = c\<rparr>)"

definition exponent :: "money \<Rightarrow> nat" where
  "exponent m = the (CURRENCY_EXPONENTS (currency_code m))"

definition model_dump :: "money \<Rightarrow> pyval" where
  "model_dump m =
     PDict [(''amount_minor'', PInt (amount_minor m)), (''currency_code'', PStr (currency_code m))]"

definition from_legacy_usd :: "int \<Rightarrow> money res" where
  "from_legacy_usd cents = mk_money cents ''USD''"

definition money_fields :: "string \<Rightarrow> money \<Rightarrow> (string \<times> pyval) list" where
  "money_fields name m = [(name, model_dump m)]"

text \<open>
  \<open>Money.model_validate\<close> on a dictionary: exactly the two declared fields, a strict integer
  (a bool is not one) and a string from the closed set.
\<close>

definition money_validate :: "pyval \<Rightarrow> money res" where
  "money_validate v =
     (case v of
        PDict kvs \<Rightarrow>
          (if set (map fst kvs) \<noteq> {''amount_minor'', ''currency_code''}
           then Inl (ValidationError ''fields'')
           else (case (map_of kvs ''amount_minor'', map_of kvs ''currency_code'') of
                   (Some (PInt a), Some (PStr c)) \<Rightarrow> mk_money a c
                 | _ \<Rightarrow> Inl (ValidationError ''field types'')))
      | _ \<Rightarrow> Inl (ValidationError ''not a dictionary''))"

lemma mk_money_Inr_iff:
  "mk_money a c = Inr m \<longleftrightarrow> m = \<lparr>amount_minor = a, currency_code = c\<rparr> \<and> money_ok m"
  by (auto simp: mk_money_def money_ok_def)

lemma mk_money_InrD:
  assumes "mk_money a c = Inr m"
  shows "amount_minor m = a" "currency_code m = c" "money_ok m"
  using assms by (auto simp: mk_money_Inr_iff)

lemma mk_money_of_ok: "money_ok m \<Longrightarrow> mk_money (amount_minor m) (currency_code m) = Inr m"
  by (simp add: mk_money_Inr_iff)

lemma money_validate_dump: "money_validate (model_dump m) = mk_money (amount_minor m) (currency_code m)"
  by (auto simp: money_validate_def model_dump_def)

lemma money_validate_ok: "money_validate v = Inr m \<Longrightarrow> money_ok m"
  by (auto simp: money_validate_def mk_money_Inr_iff
           split: pyval.splits if_splits option.splits)

lemma model_dump_inject [simp]: "model_dump m = model_dump m' \<longleftrightarrow> m = m'"
  by (cases m; cases m') (auto simp: model_dump_def)

section \<open>Presentation\<close>

text \<open>Decimal digits of a non-negative integer, as \<open>str\<close> prints it.\<close>

fun digits_fuel :: "nat \<Rightarrow> nat \<Rightarrow> string" where
  "digits_fuel 0 n = []"
| "digits_fuel (Suc f) n =
     (if n < 10 then [char_of (48 + n)]
      else digits_fuel f (n div 10) @ [char_of (48 + n mod 10)])"

definition show_nat :: "nat \<Rightarrow> string" where
  "show_nat n = digits_fuel (Suc n) n"

definition show_int :: "int \<Rightarrow> string" where
  "show_int i = (if i < 0 then CHR ''-'' # show_nat (nat (- i)) else show_nat (nat i))"

fun digits_value :: "string \<Rightarrow> nat" where
  "digits_value s = foldl (\<lambda>acc c. 10 * acc + (of_char c - 48)) 0 s"

lemma of_char_digit: "d < 10 \<Longrightarrow> of_char (char_of (48 + d) :: char) = (48 + d :: nat)"
  by (simp add: of_char_mod_256)

lemma digits_value_digits_fuel: "n < f \<Longrightarrow> digits_value (digits_fuel f n) = n"
proof (induction f arbitrary: n)
  case 0
  then show ?case by simp
next
  case (Suc f)
  show ?case
  proof (cases "n < 10")
    case True
    then show ?thesis by (simp add: of_char_digit)
  next
    case False
    with Suc.prems have "n div 10 < f" by arith
    then have "digits_value (digits_fuel f (n div 10)) = n div 10" by (rule Suc.IH)
    with False show ?thesis by (simp add: of_char_digit)
  qed
qed

lemma digits_value_show_nat: "digits_value (show_nat n) = n"
  unfolding show_nat_def by (rule digits_value_digits_fuel) simp

lemma show_nat_inject: "show_nat m = show_nat n \<Longrightarrow> m = n"
  by (metis digits_value_show_nat)


text \<open>Thousands separators: \<open>f"{whole:,}"\<close>, working on the reversed digits.\<close>

fun group3 :: "string \<Rightarrow> string" where
  "group3 (a # b # c # d # ds) = a # b # c # CHR '','' # group3 (d # ds)"
| "group3 ds = ds"

definition with_commas :: "nat \<Rightarrow> string" where
  "with_commas n = rev (group3 (rev (show_nat n)))"

definition zero_pad :: "nat \<Rightarrow> nat \<Rightarrow> string" where
  "zero_pad w n = (let s = show_nat n in replicate (w - length s) (CHR ''0'') @ s)"

definition SUPPORTED_VOICE_LOCALES :: "string list" where
  "SUPPORTED_VOICE_LOCALES =
     [''en-US'', ''es-MX'', ''es-ES'', ''es-US'', ''fr-CA'', ''fr-FR'', ''de-DE'', ''pt-BR'', ''it-IT'']"

definition display_digits :: "money \<Rightarrow> string" where
  "display_digits m =
     (let e = exponent m; n = nat \<bar>amount_minor m\<bar>;
          whole = n div 10 ^ e; fraction = n mod 10 ^ e;
          digits = with_commas whole @ (if e \<noteq> 0 then CHR ''.'' # zero_pad e fraction else [])
      in if amount_minor m < 0 then CHR ''-'' # digits else digits)"

definition display_text :: "money \<Rightarrow> string" where
  "display_text m = currency_code m @ '' '' @ display_digits m"

definition project_money :: "money \<Rightarrow> string \<Rightarrow> pyval res" where
  "project_money m locale =
     (if locale \<notin> set SUPPORTED_VOICE_LOCALES
      then Inl (ValueError ''Unsupported voice presentation locale'')
      else Inr (PDict [(''money'', model_dump m), (''locale'', PStr locale),
                       (''display_text'', PStr (display_text m))]))"

definition presentation_entry :: "money \<Rightarrow> money \<Rightarrow> string \<Rightarrow> pyval" where
  "presentation_entry transaction billing locale =
     (case (project_money transaction locale, project_money billing locale) of
        (Inr t, Inr b) \<Rightarrow> PDict [(''transaction'', t), (''billing'', b)]
      | _ \<Rightarrow> PNone)"

definition project_transaction_money :: "money \<Rightarrow> money \<Rightarrow> (string \<times> pyval) list" where
  "project_transaction_money transaction billing =
     [(''money'', model_dump transaction), (''billing_money'', model_dump billing),
      (''presentations'',
         PDict (map (\<lambda>l. (l, presentation_entry transaction billing l)) SUPPORTED_VOICE_LOCALES))]"

definition resolve_support_locale :: "string \<Rightarrow> string option \<Rightarrow> string res" where
  "resolve_support_locale profile_locale override =
     (case override of
        Some l \<Rightarrow> (if l \<notin> set SUPPORTED_VOICE_LOCALES
                   then Inl (ValueError ''Unsupported support language.'') else Inr l)
      | None \<Rightarrow> Inr (if profile_locale \<in> set SUPPORTED_VOICE_LOCALES then profile_locale else ''en-US''))"

subsection \<open>Reading a presentation back\<close>

text \<open>The digits of a presentation, sign, separator and point removed, are the minor amount.\<close>

definition is_digit :: "char \<Rightarrow> bool" where
  "is_digit c = (48 \<le> (of_char c :: nat) \<and> (of_char c :: nat) \<le> 57)"

definition read_digits :: "string \<Rightarrow> int" where
  "read_digits s =
     (let n = int (digits_value (filter is_digit s)) in if CHR ''-'' \<in> set s then - n else n)"

lemma digits_fuel_digits: "c \<in> set (digits_fuel f n) \<Longrightarrow> is_digit c"
  by (induction f arbitrary: n) (auto simp: is_digit_def of_char_digit split: if_splits)

lemma show_nat_digits: "c \<in> set (show_nat n) \<Longrightarrow> is_digit c"
  unfolding show_nat_def by (rule digits_fuel_digits)

lemma filter_digits_show_nat [simp]: "filter is_digit (show_nat n) = show_nat n"
  by (rule filter_True) (blast intro: show_nat_digits)

lemma filter_digits_group3: "filter is_digit (group3 ds) = filter is_digit ds"
  by (induction ds rule: group3.induct) (auto simp: is_digit_def)

lemma filter_digits_with_commas: "filter is_digit (with_commas n) = show_nat n"
  by (simp add: with_commas_def rev_filter [symmetric] filter_digits_group3)

lemma digits_value_append:
  "digits_value (xs @ ys) = digits_value xs * 10 ^ length ys + digits_value ys"
proof (induction ys rule: rev_induct)
  case (snoc y ys)
  have step: "digits_value (zs @ [y]) = 10 * digits_value zs + (of_char y - 48)" for zs
    by simp
  have "digits_value (xs @ ys @ [y]) = 10 * digits_value (xs @ ys) + (of_char y - 48)"
    using step [of "xs @ ys"] by (simp only: append_assoc)
  then show ?case by (simp only: snoc step length_append) (simp add: algebra_simps)
qed simp

lemma length_digits_fuel:
  "n < f \<Longrightarrow> n < 10 ^ w \<Longrightarrow> 0 < w \<Longrightarrow> length (digits_fuel f n) \<le> w"
proof (induction f arbitrary: n w)
  case 0
  then show ?case by simp
next
  case (Suc f)
  show ?case
  proof (cases "n < 10")
    case True
    with Suc.prems show ?thesis by simp
  next
    case False
    have "w \<noteq> 1" using False Suc.prems(2) by auto
    with Suc.prems(3) have w: "1 < w" by simp
    then obtain v where v: "w = Suc v" "0 < v" by (cases w) auto
    have "n div 10 < f" using False Suc.prems(1) by arith
    moreover have "n div 10 < 10 ^ v" using Suc.prems(2) v(1) by (simp add: less_mult_imp_div_less mult.commute)
    ultimately have "length (digits_fuel f (n div 10)) \<le> v" using v(2) by (rule Suc.IH)
    with False v(1) show ?thesis by simp
  qed
qed

lemma digits_value_zero_pad:
  "digits_value (replicate k (CHR ''0'') @ s) = digits_value s"
  by (induction k) simp_all

lemma zero_pad_facts:
  assumes "n < 10 ^ w" "0 < w"
  shows "length (zero_pad w n) = w" "digits_value (zero_pad w n) = n"
    "filter is_digit (zero_pad w n) = zero_pad w n"
proof -
  have "length (show_nat n) \<le> w"
    unfolding show_nat_def using assms by (intro length_digits_fuel) auto
  then show "length (zero_pad w n) = w" by (simp add: zero_pad_def Let_def)
  show "digits_value (zero_pad w n) = n"
    by (simp only: zero_pad_def Let_def digits_value_zero_pad digits_value_show_nat)
  show "filter is_digit (zero_pad w n) = zero_pad w n"
    by (simp add: zero_pad_def Let_def is_digit_def [of "CHR ''0''"])
qed

lemma minus_not_digit: "\<not> is_digit (CHR ''-'')" "\<not> is_digit (CHR ''.'')" "\<not> is_digit (CHR '','')"
  by (simp_all add: is_digit_def)

lemma minus_notin_group3: "CHR ''-'' \<notin> set ds \<Longrightarrow> CHR ''-'' \<notin> set (group3 ds)"
  by (induction ds rule: group3.induct) auto

lemma minus_notin_digits: "CHR ''-'' \<notin> set (with_commas n)" "CHR ''-'' \<notin> set (zero_pad w m)"
  using show_nat_digits minus_not_digit(1)
  by (auto simp: with_commas_def zero_pad_def Let_def dest: minus_notin_group3
           intro!: minus_notin_group3)

lemma read_display_digits: "read_digits (display_digits m) = amount_minor m"
proof -
  define e n where "e = exponent m" and "n = nat \<bar>amount_minor m\<bar>"
  define ds where "ds = with_commas (n div 10 ^ e) @ (if e \<noteq> 0 then CHR ''.'' # zero_pad e (n mod 10 ^ e) else [])"
  have no_minus: "CHR ''-'' \<notin> set ds" by (simp add: ds_def minus_notin_digits)
  have "digits_value (filter is_digit ds) = n"
  proof (cases "e = 0")
    case True
    then have "filter is_digit ds = show_nat n" by (simp add: ds_def filter_digits_with_commas)
    then show ?thesis by (simp only: digits_value_show_nat)
  next
    case False
    then have pad: "length (zero_pad e (n mod 10 ^ e)) = e"
      "digits_value (zero_pad e (n mod 10 ^ e)) = n mod 10 ^ e"
      "filter is_digit (zero_pad e (n mod 10 ^ e)) = zero_pad e (n mod 10 ^ e)"
      by (simp_all only: zero_pad_facts mod_less_divisor zero_less_power zero_less_numeral neq0_conv)
    have "filter is_digit ds = show_nat (n div 10 ^ e) @ zero_pad e (n mod 10 ^ e)"
      using False by (simp add: ds_def filter_digits_with_commas minus_not_digit pad(3))
    then have "digits_value (filter is_digit ds) = n div 10 ^ e * 10 ^ e + n mod 10 ^ e"
      by (simp only: digits_value_append digits_value_show_nat pad)
    then show ?thesis by (simp only: div_mult_mod_eq)
  qed
  moreover have "display_digits m = (if amount_minor m < 0 then CHR ''-'' # ds else ds)"
    by (simp add: display_digits_def ds_def e_def n_def Let_def)
  ultimately show ?thesis
    using no_minus by (auto simp: read_digits_def minus_not_digit n_def simp del: digits_value.simps)
qed

lemma currency_code_length: "CURRENCY_EXPONENTS c \<noteq> None \<Longrightarrow> length c = 3"
  by (auto simp: CURRENCY_EXPONENTS_def split: if_splits)

end
