(* ===== verification/Bank_State.thy ===== *)
theory Bank_State
  imports Money
begin

text \<open>
  The relational state of the banking service: one record per ORM class of
  \<^verbatim>\<open>models/credit_card.py\<close>, \<^verbatim>\<open>models/origination.py\<close>, \<^verbatim>\<open>models/audit.py\<close>,
  \<^verbatim>\<open>models/fraud.py\<close> and \<^verbatim>\<open>models/identity.py\<close> the modelled code reads or writes, and one
  list of rows per table in \<open>bank_db\<close>.

  Identifiers are the canonical text of their UUIDs (\<^verbatim>\<open>utils/database.py\<close> compares and stores
  them so); times are microseconds since the epoch, UTC.  \<open>uuid4()\<close> draws from the stream
  \<open>d_uuid\<close>: the \<open>n\<close>-th draw of the state's life is \<open>d_uuid d n\<close>.  \<open>d_locked\<close> holds the ids of the
  rows other transactions have locked, which \<open>FOR UPDATE NOWAIT\<close> refuses.
\<close>

section \<open>Rows\<close>

record user =
  u_id :: string
  u_auth_provider_uid :: string
  u_email :: "string option"

text \<open>The underwriting profile of \<^verbatim>\<open>models/kyc.py\<close>.\<close>

record user_credit_profile =
  uc_user_id :: string
  uc_credit_score :: int
  uc_credit_tier :: string
  uc_stated_annual_income_cents :: int
  uc_income_confirmed_at :: "int option"

record credit_product =
  cp_product_code :: string
  cp_product_name :: string
  cp_min_credit_limit_cents :: int
  cp_max_credit_limit_cents :: int
  cp_is_active :: bool

record credit_account =
  ca_id :: string
  ca_customer_id :: string
  ca_product_code :: string
  ca_status :: string
  ca_credit_limit_cents :: int
  ca_cleared_balance_cents :: int
  ca_available_credit_cents :: int
  ca_currency :: string
  ca_payment_due_date :: "int option"
  ca_last_payment_date :: "int option"
  ca_opened_at :: "int option"
  ca_last_limit_increase_at :: "int option"

record issued_card =
  ic_id :: string
  ic_account_id :: string
  ic_cardholder_name :: string
  ic_card_token :: string
  ic_last_four :: string
  ic_is_active :: bool
  ic_exp_month :: int
  ic_exp_year :: int
  ic_status :: string
  ic_is_virtual :: bool

text \<open>The merchant columns of an authorization; latitude and longitude are decimal columns.\<close>

record merchant_columns =
  mc_merchant_id :: "string option"
  mc_merchant_store_id :: "string option"
  mc_merchant_slug :: "string option"
  mc_transaction_channel :: "string option"
  mc_entry_mode :: "string option"
  mc_merchant_country_code :: "string option"
  mc_merchant_city :: "string option"
  mc_merchant_region :: "string option"
  mc_merchant_postal_code :: "string option"
  mc_merchant_latitude :: "rat option"
  mc_merchant_longitude :: "rat option"
  mc_ip_country_code :: "string option"
  mc_shipping_country_code :: "string option"
  mc_is_digital_goods :: bool

record transaction_authorization =
  ta_id :: string
  ta_card_id :: string
  ta_account_id :: string
  ta_transaction_amount_cents :: int
  ta_transaction_currency :: string
  ta_billing_amount_cents :: int
  ta_billing_currency :: string
  ta_status :: string
  ta_decline_reason :: string
  ta_auth_code :: string
  ta_retrieval_reference_number :: string
  ta_card_network :: string
  ta_merchant_category_code :: string
  ta_merchant_name :: "string option"
  ta_merchant :: merchant_columns
  ta_fraud_risk_score :: "int option"
  ta_created_at :: int
  ta_expires_at :: int

record posted_transaction =
  pt_id :: string
  pt_account_id :: string
  pt_authorization_id :: "string option"
  pt_journal_transaction_id :: "string option"
  pt_auth_code :: "string option"
  pt_retrieval_reference_number :: "string option"
  pt_amount_cents :: int
  pt_description :: string
  pt_posted_at :: int

record account =
  ac_id :: string
  ac_user_id :: "string option"
  ac_account_number :: string
  ac_account_type :: string
  ac_product_name :: string
  ac_product_code :: "string option"
  ac_credit_account_id :: "string option"
  ac_status :: string
  ac_credit_limit_cents :: int
  ac_cleared_balance_cents :: int
  ac_available_credit_cents :: int
  ac_currency :: string

record transaction =
  tx_id :: string
  tx_idempotency_key :: string
  tx_user_id :: "string option"
  tx_status :: string
  tx_description :: string
  tx_request_hash :: "string option"
  tx_response_payload :: "pyval option"
  tx_response_status :: "int option"
  tx_currency_code :: string

record account_ledger_entry =
  le_entry_id :: string
  le_transaction_id :: string
  le_account_id :: string
  le_amount_minor :: int
  le_entry_type :: string
  le_posted_at :: int

record audit_outbox =
  ob_id :: string
  ob_event_id :: string
  ob_event_type :: string
  ob_schema_version :: int
  ob_payload :: pyval
  ob_created_at :: int

record fraud_case_action =
  fa_id :: string
  fa_fraud_alert_id :: string
  fa_action_type :: string
  fa_status :: string
  fa_idempotency_key :: "string option"
  fa_request_payload :: pyval
  fa_result_payload :: pyval
  fa_created_at :: int
  fa_completed_at :: "int option"

record fraud_alert =
  al_id :: string
  al_customer_id :: string
  al_auth_provider_uid :: string
  al_credit_account_id :: string
  al_card_id :: string
  al_card_last_four :: string
  al_status :: string
  al_source :: string
  al_message_thread_id :: string
  al_suspicious_authorization_ids :: "string list"
  al_suspicious_transactions :: "pyval list"
  al_remediation_status :: string
  al_triaged_at :: "int option"
  al_triage_summary :: "string option"
  al_selected_disputed_authorization_ids :: "string list"
  al_selected_disputed_transaction_ids :: "string list"
  al_provisional_credit_cents :: int
  al_replacement_card_id :: "string option"
  al_triage_message_thread_id :: "string option"
  al_triage_message_id :: "string option"
  al_created_at :: int
  al_resolved_at :: "int option"

record fraud_model_decision =
  dm_id :: string
  dm_authorization_id :: string
  dm_customer_id :: string
  dm_credit_account_id :: string
  dm_card_id :: string
  dm_score :: int
  dm_threshold :: int
  dm_decision :: string
  dm_reason_codes :: "string list"
  dm_feature_snapshot :: pyval
  dm_model_version :: string
  dm_created_at :: int

record user_secure_message =
  sm_id :: string
  sm_message_id :: string
  sm_user_id :: string
  sm_sender :: string
  sm_category :: "string option"
  sm_message :: string
  sm_thread_id :: string
  sm_is_user_read :: bool
  sm_is_agent_read :: bool

record bank_db =
  d_uuid :: "nat \<Rightarrow> string"
  d_draws :: nat
  d_locked :: "string list"
  d_users :: "user list"
  d_profiles :: "user_credit_profile list"
  d_products :: "credit_product list"
  d_credit_accounts :: "credit_account list"
  d_cards :: "issued_card list"
  d_auths :: "transaction_authorization list"
  d_posted :: "posted_transaction list"
  d_accounts :: "account list"
  d_transactions :: "transaction list"
  d_entries :: "account_ledger_entry list"
  d_outbox :: "audit_outbox list"
  d_case_actions :: "fraud_case_action list"
  d_alerts :: "fraud_alert list"
  d_decisions :: "fraud_model_decision list"
  d_messages :: "user_secure_message list"

section \<open>Drawing identifiers\<close>

definition uuid4 :: "bank_db \<Rightarrow> string \<times> bank_db" where
  "uuid4 d = (d_uuid d (d_draws d), d\<lparr>d_draws := Suc (d_draws d)\<rparr>)"

fun uuid4s :: "nat \<Rightarrow> bank_db \<Rightarrow> string list \<times> bank_db" where
  "uuid4s 0 d = ([], d)"
| "uuid4s (Suc n) d =
     (let (u, d1) = uuid4 d; (us, d2) = uuid4s n d1 in (u # us, d2))"

lemma uuid4s_eq:
  "uuid4s n d = (map (d_uuid d) [d_draws d..<d_draws d + n], d\<lparr>d_draws := d_draws d + n\<rparr>)"
proof (induction n arbitrary: d)
  case (Suc n)
  have "[d_draws d..<d_draws d + Suc n] = d_draws d # [Suc (d_draws d)..<d_draws d + Suc n]"
    by (simp add: upt_conv_Cons)
  then show ?case by (simp add: uuid4_def Suc)
qed simp

section \<open>Reading and writing rows\<close>

definition get_account :: "string \<Rightarrow> bank_db \<Rightarrow> account option" where
  "get_account i d = List.find (\<lambda>a. ac_id a = i) (d_accounts d)"

definition put_account :: "account \<Rightarrow> bank_db \<Rightarrow> bank_db" where
  "put_account a d = d\<lparr>d_accounts := put_row ac_id a (d_accounts d)\<rparr>"

definition get_credit_account :: "string \<Rightarrow> bank_db \<Rightarrow> credit_account option" where
  "get_credit_account i d = List.find (\<lambda>a. ca_id a = i) (d_credit_accounts d)"

definition put_credit_account :: "credit_account \<Rightarrow> bank_db \<Rightarrow> bank_db" where
  "put_credit_account a d = d\<lparr>d_credit_accounts := put_row ca_id a (d_credit_accounts d)\<rparr>"

definition put_card :: "issued_card \<Rightarrow> bank_db \<Rightarrow> bank_db" where
  "put_card c d = d\<lparr>d_cards := put_row ic_id c (d_cards d)\<rparr>"

definition put_auth :: "transaction_authorization \<Rightarrow> bank_db \<Rightarrow> bank_db" where
  "put_auth a d = d\<lparr>d_auths := put_row ta_id a (d_auths d)\<rparr>"

definition put_transaction :: "transaction \<Rightarrow> bank_db \<Rightarrow> bank_db" where
  "put_transaction t d = d\<lparr>d_transactions := put_row tx_id t (d_transactions d)\<rparr>"

definition put_alert :: "fraud_alert \<Rightarrow> bank_db \<Rightarrow> bank_db" where
  "put_alert a d = d\<lparr>d_alerts := put_row al_id a (d_alerts d)\<rparr>"

definition put_case_action :: "fraud_case_action \<Rightarrow> bank_db \<Rightarrow> bank_db" where
  "put_case_action a d = d\<lparr>d_case_actions := put_row fa_id a (d_case_actions d)\<rparr>"

text \<open>
  \<open>db.add\<close> of a statement line: \<open>journal_transaction_id\<close> is \<open>UNIQUE\<close>, so a second line for the
  same journal transaction fails at the flush.
\<close>

definition add_posted_transaction :: "posted_transaction \<Rightarrow> bank_db \<Rightarrow> bank_db res" where
  "add_posted_transaction p d =
     (if pt_journal_transaction_id p \<noteq> None
         \<and> pt_journal_transaction_id p \<in> pt_journal_transaction_id ` set (d_posted d)
      then Inl (IntegrityError ''posted_transactions.journal_transaction_id'')
      else Inr (d\<lparr>d_posted := d_posted d @ [p]\<rparr>))"

interpretation accounts: row_table d_accounts "\<lambda>rs d. d\<lparr>d_accounts := rs\<rparr>" ac_id
  by unfold_locales simp_all

interpretation credit_accounts: row_table d_credit_accounts "\<lambda>rs d. d\<lparr>d_credit_accounts := rs\<rparr>" ca_id
  by unfold_locales simp_all

interpretation cards: row_table d_cards "\<lambda>rs d. d\<lparr>d_cards := rs\<rparr>" ic_id
  by unfold_locales simp_all

interpretation auths: row_table d_auths "\<lambda>rs d. d\<lparr>d_auths := rs\<rparr>" ta_id
  by unfold_locales simp_all

interpretation transactions: row_table d_transactions "\<lambda>rs d. d\<lparr>d_transactions := rs\<rparr>" tx_id
  by unfold_locales simp_all

interpretation alerts: row_table d_alerts "\<lambda>rs d. d\<lparr>d_alerts := rs\<rparr>" al_id
  by unfold_locales simp_all

interpretation case_actions: row_table d_case_actions "\<lambda>rs d. d\<lparr>d_case_actions := rs\<rparr>" fa_id
  by unfold_locales simp_all

lemma get_account_id: "get_account i d = Some a \<Longrightarrow> ac_id a = i \<and> a \<in> set (d_accounts d)"
  unfolding get_account_def by (auto dest: find_Some_iff')

lemma get_credit_account_id:
  "get_credit_account i d = Some a \<Longrightarrow> ca_id a = i \<and> a \<in> set (d_credit_accounts d)"
  unfolding get_credit_account_def by (auto dest: find_Some_iff')

lemma get_put_account [row_simps]:
  "get_account (ac_id a) d \<noteq> None \<Longrightarrow> get_account (ac_id a) (put_account a d) = Some a"
  using accounts.get_after_put [of a d] by (auto simp: get_account_def put_account_def)

lemma get_put_account_other [row_simps]:
  "ac_id a \<noteq> i \<Longrightarrow> get_account i (put_account a d) = get_account i d"
  using accounts.get_after_put_other [of a i d] by (simp add: get_account_def put_account_def)

lemma get_put_credit_account [row_simps]:
  "get_credit_account (ca_id a) d \<noteq> None \<Longrightarrow>
   get_credit_account (ca_id a) (put_credit_account a d) = Some a"
  using credit_accounts.get_after_put [of a d]
  by (auto simp: get_credit_account_def put_credit_account_def)

lemma get_put_credit_account_other [row_simps]:
  "ca_id a \<noteq> i \<Longrightarrow> get_credit_account i (put_credit_account a d) = get_credit_account i d"
  using credit_accounts.get_after_put_other [of a i d]
  by (simp add: get_credit_account_def put_credit_account_def)

lemma put_simps [frame_simps]:
  "d_accounts (put_credit_account c d) = d_accounts d"
  "d_entries (put_credit_account c d) = d_entries d"
  "d_transactions (put_credit_account c d) = d_transactions d"
  "d_entries (put_account a d) = d_entries d"
  "d_transactions (put_account a d) = d_transactions d"
  "d_credit_accounts (put_account a d) = d_credit_accounts d"
  "d_uuid (put_account a d) = d_uuid d" "d_draws (put_account a d) = d_draws d"
  "d_uuid (put_credit_account c d) = d_uuid d" "d_draws (put_credit_account c d) = d_draws d"
  by (simp_all add: put_credit_account_def put_account_def)

lemma get_frame [frame_simps]:
  "get_account i (put_credit_account c d) = get_account i d"
  "get_credit_account i (put_account a d) = get_credit_account i d"
  by (simp_all add: get_account_def get_credit_account_def put_credit_account_def put_account_def)

text \<open>An attribute assignment on the row object of an account, as it now stands.\<close>

definition update_account :: "(account \<Rightarrow> account) \<Rightarrow> string \<Rightarrow> bank_db \<Rightarrow> bank_db" where
  "update_account f i d = (case get_account i d of None \<Rightarrow> d | Some a \<Rightarrow> put_account (f a) d)"

lemma update_account_get:
  assumes f: "\<And>a. ac_id (f a) = ac_id a"
  shows "get_account j (update_account f i d) =
    (if j = i then map_option f (get_account i d) else get_account j d)"
proof (cases "get_account i d")
  case None
  then show ?thesis by (simp add: update_account_def)
next
  case (Some a)
  then have i: "ac_id (f a) = i" by (simp add: f get_account_id)
  show ?thesis
    using Some i get_put_account [of "f a" d] get_put_account_other [of "f a" j d]
    by (simp add: update_account_def)
qed

lemma update_account_frame [frame_simps]:
  "d_entries (update_account f i d) = d_entries d"
  "d_transactions (update_account f i d) = d_transactions d"
  "d_credit_accounts (update_account f i d) = d_credit_accounts d"
  by (simp_all add: update_account_def frame_simps split: option.split)

section \<open>The audit outbox\<close>

text \<open>\<^verbatim>\<open>record_audit_event\<close>: appends one row inside the running transaction.\<close>

definition record_audit_event ::
    "int \<Rightarrow> string \<Rightarrow> pyval \<Rightarrow> string option \<Rightarrow> int \<Rightarrow> bank_db \<Rightarrow> bank_db" where
  "record_audit_event now event_type payload event_id schema_version d =
     (let (eid, d1) = (case event_id of Some e \<Rightarrow> (e, d) | None \<Rightarrow> uuid4 d);
          (i, d2) = uuid4 d1
      in d2\<lparr>d_outbox := d_outbox d2 @
             [\<lparr>ob_id = i, ob_event_id = eid, ob_event_type = event_type,
               ob_schema_version = schema_version, ob_payload = payload, ob_created_at = now\<rparr>]\<rparr>)"

abbreviation audit :: "int \<Rightarrow> string \<Rightarrow> (string \<times> pyval) list \<Rightarrow> bank_db \<Rightarrow> bank_db" where
  "audit now event_type payload \<equiv> record_audit_event now event_type (PDict payload) None 1"

lemma posted_frame [frame_simps]:
  assumes "add_posted_transaction s d = Inr d'"
  shows "d_accounts d' = d_accounts d" "d_credit_accounts d' = d_credit_accounts d"
    "d_entries d' = d_entries d" "d_transactions d' = d_transactions d" "d_uuid d' = d_uuid d"
    "d_draws d' = d_draws d" "d_posted d' = d_posted d @ [s]" "d_auths d' = d_auths d" "d_cards d' = d_cards d"
    "get_account i d' = get_account i d" "get_credit_account i d' = get_credit_account i d"
  using assms by (auto simp: add_posted_transaction_def get_account_def get_credit_account_def split: if_splits)

lemma put_transaction_frame [frame_simps]:
  "d_accounts (put_transaction t d) = d_accounts d" "d_entries (put_transaction t d) = d_entries d"
  "d_credit_accounts (put_transaction t d) = d_credit_accounts d" "d_posted (put_transaction t d) = d_posted d"
  "d_auths (put_transaction t d) = d_auths d" "d_uuid (put_transaction t d) = d_uuid d"
  "d_draws (put_transaction t d) = d_draws d"
  "get_account i (put_transaction t d) = get_account i d"
  "get_credit_account i (put_transaction t d) = get_credit_account i d"
  by (simp_all add: put_transaction_def get_account_def get_credit_account_def)

lemma record_audit_event_frame [frame_simps]:
  "d_accounts (record_audit_event now t p e v d) = d_accounts d"
  "d_credit_accounts (record_audit_event now t p e v d) = d_credit_accounts d"
  "d_entries (record_audit_event now t p e v d) = d_entries d"
  "d_transactions (record_audit_event now t p e v d) = d_transactions d"
  "d_auths (record_audit_event now t p e v d) = d_auths d"
  "d_cards (record_audit_event now t p e v d) = d_cards d"
  "d_posted (record_audit_event now t p e v d) = d_posted d"
  "d_case_actions (record_audit_event now t p e v d) = d_case_actions d"
  "d_alerts (record_audit_event now t p e v d) = d_alerts d"
  "d_decisions (record_audit_event now t p e v d) = d_decisions d"
  "d_messages (record_audit_event now t p e v d) = d_messages d"
  "d_users (record_audit_event now t p e v d) = d_users d"
  "d_products (record_audit_event now t p e v d) = d_products d"
  "d_uuid (record_audit_event now t p e v d) = d_uuid d"
  "d_draws d \<le> d_draws (record_audit_event now t p e v d)"
  by (auto simp: record_audit_event_def uuid4_def split: option.splits)

lemma get_record_audit_event [frame_simps]:
  "get_account i (record_audit_event now t p e v d) = get_account i d"
  "get_credit_account i (record_audit_event now t p e v d) = get_credit_account i d"
  by (simp_all add: get_account_def get_credit_account_def frame_simps)


section \<open>A sample state\<close>

text \<open>
  One customer with a checking, a savings and a yen account, one card product, one card account
  and one card; the state the development's concrete instances start from.
\<close>

definition sample_uuid :: "nat \<Rightarrow> string" where
  "sample_uuid n = ''u-'' @ replicate n (CHR ''x'')"

lemma sample_uuid_inj: "inj sample_uuid"
proof (rule injI)
  fix m n
  assume "sample_uuid m = sample_uuid n"
  then have "length (sample_uuid m) = length (sample_uuid n)" by simp
  then show "m = n" by (simp add: sample_uuid_def)
qed

definition sample_deposit :: "string \<Rightarrow> string \<Rightarrow> int \<Rightarrow> string \<Rightarrow> account" where
  "sample_deposit i kind bal cur =
     \<lparr>ac_id = i, ac_user_id = Some ''U1'', ac_account_number = i, ac_account_type = kind,
      ac_product_name = ''Everyday'', ac_product_code = Some ''CHECKING_EVERYDAY'',
      ac_credit_account_id = None, ac_status = ''ACTIVE'', ac_credit_limit_cents = 0,
      ac_cleared_balance_cents = bal, ac_available_credit_cents = 0, ac_currency = cur\<rparr>"

definition sample_card_account :: credit_account where
  "sample_card_account =
     \<lparr>ca_id = ''CR1'', ca_customer_id = ''U1'', ca_product_code = ''PLAT'', ca_status = ''ACTIVE'',
      ca_credit_limit_cents = 500000, ca_cleared_balance_cents = 20000,
      ca_available_credit_cents = 480000, ca_currency = ''USD'', ca_payment_due_date = None,
      ca_last_payment_date = None, ca_opened_at = None, ca_last_limit_increase_at = None\<rparr>"

definition sample_card :: issued_card where
  "sample_card =
     \<lparr>ic_id = ''K1'', ic_account_id = ''CR1'', ic_cardholder_name = ''A Customer'',
      ic_card_token = ''tok_1'', ic_last_four = ''4242'', ic_is_active = True, ic_exp_month = 12,
      ic_exp_year = 2028, ic_status = ''ACTIVE'', ic_is_virtual = False\<rparr>"

definition sample_product :: credit_product where
  "sample_product =
     \<lparr>cp_product_code = ''PLAT'', cp_product_name = ''Platinum'',
      cp_min_credit_limit_cents = 100000, cp_max_credit_limit_cents = 2000000, cp_is_active = True\<rparr>"

definition sample_db :: bank_db where
  "sample_db =
     \<lparr>d_uuid = sample_uuid, d_draws = 0, d_locked = [],
      d_users = [\<lparr>u_id = ''U1'', u_auth_provider_uid = ''uid-1'', u_email = None\<rparr>],
      d_profiles = [],
      d_products = [sample_product], d_credit_accounts = [sample_card_account],
      d_cards = [sample_card], d_auths = [], d_posted = [],
      d_accounts = [sample_deposit ''CHK1'' ''CHECKING'' 100000 ''USD'',
                    sample_deposit ''SAV1'' ''SAVINGS'' 5000 ''USD'',
                    sample_deposit ''YEN1'' ''SAVINGS'' 900 ''JPY''],
      d_transactions = [], d_entries = [], d_outbox = [], d_case_actions = [],
      d_alerts = [], d_decisions = [], d_messages = []\<rparr>"

end
