(* ===== verification/Journal.thy ===== *)
theory Journal
  imports Bank_State "HOL-Library.Multiset"
begin

text \<open>
  The canonical double-entry journal (\<^verbatim>\<open>services/financial_journal.py\<close>): clearing and card
  mirror accounts, and \<open>post_financial_transaction\<close>, the only writer of transactions and ledger
  entries.  Neither commits; a caller's rollback undoes them.

  \<open>journal_ok\<close> is the journal's well-formedness: identifiers and idempotency keys are unique,
  every transaction balances, and every entry is positive, has a side, belongs to a transaction
  and to an account of that transaction's currency.  \<open>uuid_fresh\<close> states what \<open>uuid4\<close> promises:
  a draw is new.
\<close>

section \<open>Data\<close>

record journal_entry_spec =
  js_account_id :: string
  js_direction :: string
  js_money :: money

record journal_posting =
  jp_transaction :: transaction
  jp_entries :: "account_ledger_entry list"
  jp_event_id :: string

record posting_request =
  pr_idempotency_key :: string
  pr_description :: string
  pr_entries :: "journal_entry_spec list"
  pr_source_type :: string
  pr_currency :: string
  pr_source_references :: "(string \<times> pyval) list"
  pr_user_id :: "string option"
  pr_posted_at :: "int option"

definition FINANCIAL_EVENT_TYPE :: string where
  "FINANCIAL_EVENT_TYPE = ''FINANCIAL_TRANSACTION_POSTED''"

definition FINANCIAL_EVENT_SCHEMA_VERSION :: int where
  "FINANCIAL_EVENT_SCHEMA_VERSION = 2"

section \<open>Accounts the journal creates\<close>

definition add_account :: "account \<Rightarrow> bank_db \<Rightarrow> bank_db" where
  "add_account a d = d\<lparr>d_accounts := d_accounts d @ [a]\<rparr>"

text \<open>
  \<^verbatim>\<open>ensure_system_journal_account\<close>; \<open>account_number\<close> is a \<open>UNIQUE\<close> column, so
  \<open>one_or_none\<close> is the first match.
\<close>

definition system_account_number :: "string \<Rightarrow> string \<Rightarrow> string" where
  "system_account_number account_number currency =
     (if currency \<noteq> ''USD'' then account_number @ ''_'' @ currency else account_number)"

definition ensure_system_journal_account ::
    "string \<Rightarrow> string \<Rightarrow> string \<Rightarrow> bank_db \<Rightarrow> (account \<times> bank_db) res" where
  "ensure_system_journal_account account_number description currency d =
     bindR (mk_money 0 currency) (\<lambda>_.
       let number = system_account_number account_number currency in
       case List.find (\<lambda>a. ac_account_number a = number) (d_accounts d) of
         Some account \<Rightarrow>
           (if ac_currency account \<noteq> currency
            then Inl (ValueError ''Clearing account denomination mismatch'')
            else Inr (account, d))
       | None \<Rightarrow>
           (let (i, d1) = uuid4 d;
                account = \<lparr>ac_id = i, ac_user_id = None, ac_account_number = number,
                  ac_account_type = ''SYSTEM'', ac_product_name = description,
                  ac_product_code = None, ac_credit_account_id = None, ac_status = ''ACTIVE'',
                  ac_credit_limit_cents = 0, ac_cleared_balance_cents = 0,
                  ac_available_credit_cents = 0, ac_currency = currency\<rparr>
            in Inr (account, add_account account d1)))"

definition sync_mirror :: "credit_account \<Rightarrow> account \<Rightarrow> account" where
  "sync_mirror c a = a\<lparr>ac_status := ca_status c,
     ac_cleared_balance_cents := ca_cleared_balance_cents c,
     ac_available_credit_cents := ca_available_credit_cents c,
     ac_credit_limit_cents := ca_credit_limit_cents c\<rparr>"

definition ensure_credit_journal_account ::
    "credit_account \<Rightarrow> bank_db \<Rightarrow> (account \<times> bank_db) res" where
  "ensure_credit_journal_account c d =
     (case List.find (\<lambda>a. ac_credit_account_id a = Some (ca_id c)) (d_accounts d) of
        Some account \<Rightarrow>
          (if ac_currency account \<noteq> ca_currency c
           then Inl (ValueError ''Card journal mirror denomination mismatch'')
           else Inr (sync_mirror c account, put_account (sync_mirror c account) d))
      | None \<Rightarrow>
          (let (i, d1) = uuid4 d;
               account = \<lparr>ac_id = i, ac_user_id = Some (ca_customer_id c),
                 ac_account_number = ''CARD-'' @ ca_id c, ac_account_type = ''CREDIT_CARD'',
                 ac_product_name = ''Card receivable ('' @ ca_product_code c @ '')'',
                 ac_product_code = None, ac_credit_account_id = Some (ca_id c),
                 ac_status = ca_status c, ac_credit_limit_cents = ca_credit_limit_cents c,
                 ac_cleared_balance_cents = ca_cleared_balance_cents c,
                 ac_available_credit_cents = ca_available_credit_cents c,
                 ac_currency = ca_currency c\<rparr>
           in Inr (account, add_account account d1)))"

section \<open>Posting\<close>

fun normalize_entries :: "string \<Rightarrow> journal_entry_spec list \<Rightarrow> journal_entry_spec list res" where
  "normalize_entries currency [] = Inr []"
| "normalize_entries currency (spec # specs) =
     (let direction = py_upper (js_direction spec) in
      if currency_code (js_money spec) \<noteq> currency
      then Inl (ValueError ''Journal entry currency does not match transaction currency'')
      else if direction \<notin> {''DEBIT'', ''CREDIT''}
      then Inl (ValueError ''Invalid journal direction'')
      else if amount_minor (js_money spec) \<le> 0
      then Inl (ValueError ''Journal amounts must be positive; direction carries the sign.'')
      else bindR (normalize_entries currency specs) (\<lambda>rest.
             Inr (spec\<lparr>js_direction := direction\<rparr> # rest)))"

definition spec_total :: "string \<Rightarrow> journal_entry_spec list \<Rightarrow> int" where
  "spec_total direction specs =
     sum_list (map (\<lambda>s. amount_minor (js_money s)) (filter (\<lambda>s. js_direction s = direction) specs))"

definition requested_signature :: "journal_entry_spec list \<Rightarrow> (string \<times> string \<times> int) multiset" where
  "requested_signature specs =
     mset (map (\<lambda>s. (js_account_id s, js_direction s, amount_minor (js_money s))) specs)"

definition existing_signature :: "account_ledger_entry list \<Rightarrow> (string \<times> string \<times> int) multiset" where
  "existing_signature es = mset (map (\<lambda>e. (le_account_id e, le_entry_type e, le_amount_minor e)) es)"

text \<open>
  The payload filter \<open>LIKE '%"transaction_id":"<id>"%'\<close>: the serialized payload has the key
  \<open>transaction_id\<close> with that value somewhere.
\<close>

fun mentions_transaction :: "string \<Rightarrow> pyval \<Rightarrow> bool" where
  "mentions_transaction i (PDict kvs) =
     list_ex (\<lambda>(k, v). (k = ''transaction_id'' \<and> v = PStr i) \<or> mentions_transaction i v) kvs"
| "mentions_transaction i (PList vs) = list_ex (mentions_transaction i) vs"
| "mentions_transaction i _ = False"

definition entries_of :: "string \<Rightarrow> account_ledger_entry list \<Rightarrow> account_ledger_entry list" where
  "entries_of i es = filter (\<lambda>e. le_transaction_id e = i) es"

definition replay_posting ::
    "posting_request \<Rightarrow> journal_entry_spec list \<Rightarrow> transaction \<Rightarrow> bank_db \<Rightarrow> (journal_posting \<times> bank_db) res" where
  "replay_posting r normalized existing d =
     (let existing_entries = sort_key le_entry_id (entries_of (tx_id existing) (d_entries d)) in
      if pr_currency r \<noteq> tx_currency_code existing
         \<or> requested_signature normalized \<noteq> existing_signature existing_entries
      then Inl (ValueError ''Financial transaction idempotency key was reused with different journal entries'')
      else bindR (one_or_none (\<lambda>ob. ob_event_type ob = FINANCIAL_EVENT_TYPE
                                  \<and> mentions_transaction (tx_id existing) (ob_payload ob)) (d_outbox d))
        (\<lambda>event. Inr (\<lparr>jp_transaction = existing, jp_entries = existing_entries,
                       jp_event_id = (case event of Some ob \<Rightarrow> ob_event_id ob
                                      | None \<Rightarrow> ''existing:'' @ tx_id existing)\<rparr>, d)))"

definition financial_event_payload ::
    "string \<Rightarrow> posting_request \<Rightarrow> int \<Rightarrow> string \<Rightarrow> account_ledger_entry list \<Rightarrow> pyval" where
  "financial_event_payload event_id r timestamp tid es =
     PDict [(''event_id'', PStr event_id),
            (''schema_version'', PInt FINANCIAL_EVENT_SCHEMA_VERSION),
            (''transaction_id'', PStr tid),
            (''event_time'', PTime timestamp),
            (''posted_at'', PTime timestamp),
            (''currency_code'', PStr (pr_currency r)),
            (''source_type'', PStr (pr_source_type r)),
            (''source_references'', PDict (pr_source_references r)),
            (''description'', PStr (pr_description r)),
            (''entries'', PList (map (\<lambda>e.
               PDict [(''entry_id'', PStr (le_entry_id e)),
                      (''account_id'', PStr (le_account_id e)),
                      (''direction'', PStr (le_entry_type e)),
                      (''money'', model_dump \<lparr>amount_minor = le_amount_minor e,
                                              currency_code = pr_currency r\<rparr>)]) es))]"

definition journal_entries ::
    "string \<Rightarrow> int \<Rightarrow> (journal_entry_spec \<times> string) list \<Rightarrow> account_ledger_entry list" where
  "journal_entries tid timestamp specs = map (\<lambda>(s, eid).
     \<lparr>le_entry_id = eid, le_transaction_id = tid, le_account_id = js_account_id s,
      le_amount_minor = amount_minor (js_money s), le_entry_type = js_direction s,
      le_posted_at = timestamp\<rparr>) specs"

definition append_posting ::
    "int \<Rightarrow> posting_request \<Rightarrow> journal_entry_spec list \<Rightarrow> bank_db \<Rightarrow> (journal_posting \<times> bank_db) res" where
  "append_posting now r normalized d =
     (let account_ids = remdups (map js_account_id normalized);
          accounts = filter (\<lambda>a. ac_id a \<in> set account_ids) (d_accounts d)
      in if length accounts \<noteq> length account_ids
         then Inl (ValueError ''Journal entry account not found'')
         else if list_ex (\<lambda>a. ac_currency a \<noteq> pr_currency r) accounts
         then Inl (ValueError ''Journal account denomination does not match transaction currency'')
         else
           (let timestamp = (case pr_posted_at r of Some t \<Rightarrow> t | None \<Rightarrow> now);
                (tid, d1) = uuid4 d;
                transaction = \<lparr>tx_id = tid, tx_idempotency_key = pr_idempotency_key r,
                  tx_user_id = pr_user_id r, tx_status = ''COMPLETED'',
                  tx_description = pr_description r, tx_request_hash = None,
                  tx_response_payload = None, tx_response_status = None,
                  tx_currency_code = pr_currency r\<rparr>;
                (eids, d2) = uuid4s (length normalized) d1;
                entries = journal_entries tid timestamp (zip normalized eids);
                d3 = d2\<lparr>d_transactions := d_transactions d2 @ [transaction],
                        d_entries := d_entries d2 @ entries\<rparr>;
                (event_id, d4) = uuid4 d3;
                d5 = record_audit_event now FINANCIAL_EVENT_TYPE
                       (financial_event_payload event_id r timestamp tid entries)
                       (Some event_id) FINANCIAL_EVENT_SCHEMA_VERSION d4
            in Inr (\<lparr>jp_transaction = transaction, jp_entries = entries, jp_event_id = event_id\<rparr>, d5)))"

definition post_financial_transaction ::
    "int \<Rightarrow> posting_request \<Rightarrow> bank_db \<Rightarrow> (journal_posting \<times> bank_db) res" where
  "post_financial_transaction now r d =
     bindR (mk_money 0 (pr_currency r)) (\<lambda>_.
     bindR (normalize_entries (pr_currency r) (pr_entries r)) (\<lambda>normalized.
       if length normalized < 2
       then Inl (ValueError ''A financial transaction requires at least two journal entries.'')
       else if spec_total ''DEBIT'' normalized \<noteq> spec_total ''CREDIT'' normalized
       then Inl (ValueError ''Unbalanced transaction'')
       else (case List.find (\<lambda>t. tx_idempotency_key t = pr_idempotency_key r) (d_transactions d) of
               Some existing \<Rightarrow> replay_posting r normalized existing d
             | None \<Rightarrow> append_posting now r normalized d)))"

section \<open>Well-formed journals\<close>

definition side_total :: "string \<Rightarrow> account_ledger_entry list \<Rightarrow> int" where
  "side_total side es = sum_list (map le_amount_minor (filter (\<lambda>e. le_entry_type e = side) es))"

definition entry_ok :: "bank_db \<Rightarrow> account_ledger_entry \<Rightarrow> bool" where
  "entry_ok d e \<longleftrightarrow> 0 < le_amount_minor e \<and> le_entry_type e \<in> {''DEBIT'', ''CREDIT''} \<and>
     (\<exists>t \<in> set (d_transactions d). tx_id t = le_transaction_id e
        \<and> map_option ac_currency (get_account (le_account_id e) d) = Some (tx_currency_code t))"

definition balanced :: "bank_db \<Rightarrow> transaction \<Rightarrow> bool" where
  "balanced d t \<longleftrightarrow> side_total ''DEBIT'' (entries_of (tx_id t) (d_entries d))
                 = side_total ''CREDIT'' (entries_of (tx_id t) (d_entries d))
     \<and> 2 \<le> length (entries_of (tx_id t) (d_entries d))
     \<and> CURRENCY_EXPONENTS (tx_currency_code t) \<noteq> None"

definition journal_ok :: "bank_db \<Rightarrow> bool" where
  "journal_ok d \<longleftrightarrow> distinct (map ac_id (d_accounts d))
     \<and> distinct (map tx_id (d_transactions d))
     \<and> distinct (map tx_idempotency_key (d_transactions d))
     \<and> (\<forall>t \<in> set (d_transactions d). balanced d t)
     \<and> (\<forall>e \<in> set (d_entries d). entry_ok d e)"

definition uuid_fresh :: "bank_db \<Rightarrow> bool" where
  "uuid_fresh d \<longleftrightarrow> inj (d_uuid d)
     \<and> (\<forall>n \<ge> d_draws d. d_uuid d n \<notin> tx_id ` set (d_transactions d)
                        \<and> d_uuid d n \<notin> ac_id ` set (d_accounts d))"


section \<open>What posting does\<close>

lemma normalize_entries_sound:
  assumes "normalize_entries c specs = Inr ns"
  shows "length ns = length specs" "map js_account_id ns = map js_account_id specs"
    "map js_money ns = map js_money specs"
    "\<And>s. s \<in> set ns \<Longrightarrow> js_direction s \<in> {''DEBIT'', ''CREDIT''}
        \<and> 0 < amount_minor (js_money s) \<and> currency_code (js_money s) = c"
proof -
  from assms have "length ns = length specs \<and> map js_account_id ns = map js_account_id specs
      \<and> map js_money ns = map js_money specs
      \<and> (\<forall>s \<in> set ns. js_direction s \<in> {''DEBIT'', ''CREDIT''}
          \<and> 0 < amount_minor (js_money s) \<and> currency_code (js_money s) = c)"
  proof (induction specs arbitrary: ns)
    case (Cons spec specs)
    then obtain rest where rest: "normalize_entries c specs = Inr rest"
      and ns: "ns = spec\<lparr>js_direction := py_upper (js_direction spec)\<rparr> # rest"
      and ok: "currency_code (js_money spec) = c" "0 < amount_minor (js_money spec)"
        "py_upper (js_direction spec) \<in> {''DEBIT'', ''CREDIT''}"
      by (auto simp: Let_def split: if_splits)
    from Cons.IH [OF rest] ns ok show ?case by simp
  qed simp
  then show "length ns = length specs" "map js_account_id ns = map js_account_id specs"
    "map js_money ns = map js_money specs"
    "\<And>s. s \<in> set ns \<Longrightarrow> js_direction s \<in> {''DEBIT'', ''CREDIT''}
        \<and> 0 < amount_minor (js_money s) \<and> currency_code (js_money s) = c"
    by blast+
qed

lemma journal_entries_fields:
  assumes "e \<in> set (journal_entries tid ts (zip specs eids))"
  obtains s where "s \<in> set specs" "le_transaction_id e = tid" "le_account_id e = js_account_id s"
    "le_amount_minor e = amount_minor (js_money s)" "le_entry_type e = js_direction s"
  using assms by (auto simp: journal_entries_def dest: set_zip_leftD)

lemma side_total_journal_entries:
  "length eids = length specs \<Longrightarrow>
   side_total side (journal_entries tid ts (zip specs eids)) = spec_total side specs"
proof (induction specs arbitrary: eids)
  case (Cons s specs)
  then obtain u us where eids: "eids = u # us" by (cases eids) auto
  with Cons have "side_total side (journal_entries tid ts (zip specs us)) = spec_total side specs"
    by simp
  then show ?case
    by (simp add: eids side_total_def spec_total_def journal_entries_def)
qed (simp add: side_total_def spec_total_def journal_entries_def)

lemma signature_journal_entries:
  "length eids = length specs \<Longrightarrow>
   existing_signature (journal_entries tid ts (zip specs eids)) = requested_signature specs"
proof (induction specs arbitrary: eids)
  case (Cons s specs)
  then obtain u us where eids: "eids = u # us" by (cases eids) auto
  with Cons have "existing_signature (journal_entries tid ts (zip specs us)) = requested_signature specs"
    by simp
  then show ?case
    by (simp add: eids existing_signature_def requested_signature_def journal_entries_def)
qed (simp add: existing_signature_def requested_signature_def journal_entries_def)

lemma entries_of_journal_entries [simp]:
  "entries_of tid (journal_entries tid ts ps) = journal_entries tid ts ps"
  "t \<noteq> tid \<Longrightarrow> entries_of t (journal_entries tid ts ps) = []"
  by (auto simp: entries_of_def journal_entries_def filter_empty_conv intro!: filter_True)

lemma entries_of_append: "entries_of i (xs @ ys) = entries_of i xs @ entries_of i ys"
  by (simp add: entries_of_def)

text \<open>The transaction and entries an append adds; nothing else of the journal changes.\<close>

definition new_transaction :: "posting_request \<Rightarrow> bank_db \<Rightarrow> transaction" where
  "new_transaction r d =
     \<lparr>tx_id = d_uuid d (d_draws d), tx_idempotency_key = pr_idempotency_key r,
      tx_user_id = pr_user_id r, tx_status = ''COMPLETED'', tx_description = pr_description r,
      tx_request_hash = None, tx_response_payload = None, tx_response_status = None,
      tx_currency_code = pr_currency r\<rparr>"

definition new_entries :: "int \<Rightarrow> posting_request \<Rightarrow> journal_entry_spec list \<Rightarrow> bank_db \<Rightarrow> account_ledger_entry list" where
  "new_entries now r ns d =
     journal_entries (d_uuid d (d_draws d)) (case pr_posted_at r of Some t \<Rightarrow> t | None \<Rightarrow> now)
       (zip ns (map (d_uuid d) [Suc (d_draws d)..<Suc (d_draws d) + length ns]))"

lemma side_total_new_entries [simp]: "side_total side (new_entries now r ns d) = spec_total side ns"
  unfolding new_entries_def by (rule side_total_journal_entries) (simp del: upt_Suc)

lemma entries_of_new_entries [simp]:
  "entries_of (d_uuid d (d_draws d)) (new_entries now r ns d) = new_entries now r ns d"
  "t \<noteq> d_uuid d (d_draws d) \<Longrightarrow> entries_of t (new_entries now r ns d) = []"
  by (simp_all add: new_entries_def)

lemma length_new_entries [simp]: "length (new_entries now r ns d) = length ns"
  by (simp add: new_entries_def journal_entries_def del: upt_Suc)

lemma append_posting_effect:
  assumes "append_posting now r ns d = Inr (p, d')"
  shows "jp_transaction p = new_transaction r d" "jp_entries p = new_entries now r ns d"
    "d_transactions d' = d_transactions d @ [new_transaction r d]"
    "d_entries d' = d_entries d @ new_entries now r ns d"
    "d_accounts d' = d_accounts d" "d_credit_accounts d' = d_credit_accounts d"
    "d_auths d' = d_auths d" "d_cards d' = d_cards d" "d_posted d' = d_posted d"
    "d_case_actions d' = d_case_actions d" "d_uuid d' = d_uuid d" "d_draws d < d_draws d'"
    "length (filter (\<lambda>a. ac_id a \<in> set (map js_account_id ns)) (d_accounts d))
       = length (remdups (map js_account_id ns))"
    "\<And>a. a \<in> set (d_accounts d) \<Longrightarrow> ac_id a \<in> js_account_id ` set ns \<Longrightarrow> ac_currency a = pr_currency r"
  using assms
  by (auto simp: append_posting_def uuid4_def uuid4s_eq Let_def frame_simps list_ex_iff
        new_transaction_def new_entries_def image_iff record_audit_event_def
      split: if_splits)

lemma filter_ids_complete:
  assumes d: "distinct (map key xs)" and len: "length (filter (\<lambda>x. key x \<in> set ids) xs) = length (remdups ids)"
    and i: "i \<in> set ids"
  shows "\<exists>x \<in> set xs. key x = i"
proof -
  let ?ks = "map key (filter (\<lambda>x. key x \<in> set ids) xs)"
  have "distinct ?ks" using d by (rule distinct_map_filter)
  moreover have sub: "set ?ks \<subseteq> set ids" by auto
  moreover have "length ?ks = card (set ids)" using len by (simp add: length_remdups_card_conv)
  ultimately have "card (set ?ks) = card (set ids)" by (metis distinct_card)
  then have "set ?ks = set ids" using sub by (intro card_subset_eq) auto
  with i have "i \<in> set ?ks" by simp
  then show ?thesis by auto
qed

lemma append_posting_accounts:
  assumes ap: "append_posting now r ns d = Inr (p, d')" and ok: "journal_ok d" and s: "s \<in> set ns"
  shows "map_option ac_currency (get_account (js_account_id s) d) = Some (pr_currency r)"
proof -
  note eff = append_posting_effect [OF ap]
  have dist: "distinct (map ac_id (d_accounts d))" using ok by (simp add: journal_ok_def)
  obtain a where a: "a \<in> set (d_accounts d)" "ac_id a = js_account_id s"
    using filter_ids_complete [OF dist eff(13), of "js_account_id s"] s by auto
  have "get_account (js_account_id s) d = Some a"
    using find_key_distinct [OF dist a(1)] a(2) by (simp add: get_account_def)
  moreover have "ac_currency a = pr_currency r" using eff(14) [OF a(1)] a(2) s by auto
  ultimately show ?thesis by simp
qed


lemma new_entries_ok:
  assumes norm: "normalize_entries (pr_currency r) specs = Inr ns"
    and ap: "append_posting now r ns d = Inr (p, d')" and ok: "journal_ok d"
    and e: "e \<in> set (new_entries now r ns d)"
  shows "entry_ok d' e"
proof -
  obtain s where s: "s \<in> set ns" "le_transaction_id e = d_uuid d (d_draws d)"
    "le_account_id e = js_account_id s" "le_amount_minor e = amount_minor (js_money s)"
    "le_entry_type e = js_direction s"
    using e unfolding new_entries_def by (rule journal_entries_fields)
  note eff = append_posting_effect [OF ap]
  have "map_option ac_currency (get_account (js_account_id s) d') = Some (pr_currency r)"
    using append_posting_accounts [OF ap ok s(1)] eff(5) by (simp add: get_account_def)
  then show ?thesis
    using normalize_entries_sound(4) [OF norm s(1)] s eff(3)
    by (auto simp: entry_ok_def new_transaction_def)
qed

lemma append_posting_ok:
  assumes norm: "normalize_entries (pr_currency r) specs = Inr ns"
    and bal: "spec_total ''DEBIT'' ns = spec_total ''CREDIT'' ns" and len: "2 \<le> length ns"
    and cur: "CURRENCY_EXPONENTS (pr_currency r) \<noteq> None"
    and key: "List.find (\<lambda>t. tx_idempotency_key t = pr_idempotency_key r) (d_transactions d) = None"
    and ap: "append_posting now r ns d = Inr (p, d')"
    and ok: "journal_ok d" and fresh: "uuid_fresh d"
  shows "journal_ok d'"
proof -
  note eff = append_posting_effect [OF ap]
  let ?tid = "d_uuid d (d_draws d)" and ?t = "new_transaction r d" and ?es = "new_entries now r ns d"
  have tid: "tx_id ?t = ?tid" by (simp add: new_transaction_def)
  have new: "?tid \<notin> tx_id ` set (d_transactions d)" using fresh by (simp add: uuid_fresh_def)
  have old_entries: "le_transaction_id e \<in> tx_id ` set (d_transactions d)" if "e \<in> set (d_entries d)" for e
    using ok that by (force simp: journal_ok_def entry_ok_def)
  have "le_transaction_id e \<noteq> ?tid" if "e \<in> set (d_entries d)" for e
    using old_entries [OF that] new by metis
  then have none: "entries_of ?tid (d_entries d) = []"
    by (simp add: entries_of_def filter_empty_conv)
  have "balanced d' t" if "t \<in> set (d_transactions d')" for t
  proof (cases "t = ?t")
    case True
    then show ?thesis
      using bal len cur
      by (simp add: balanced_def eff(4) entries_of_append none tid) (simp add: new_transaction_def)
  next
    case False
    with that have t: "t \<in> set (d_transactions d)" by (simp add: eff(3))
    then have "tx_id t \<noteq> ?tid" using new by (metis imageI)
    then have "entries_of (tx_id t) (d_entries d') = entries_of (tx_id t) (d_entries d)"
      by (simp add: eff(4) entries_of_append)
    then show ?thesis using ok t by (simp add: journal_ok_def balanced_def)
  qed
  moreover have "entry_ok d' e" if "e \<in> set (d_entries d')" for e
  proof (cases "e \<in> set ?es")
    case True
    then show ?thesis by (rule new_entries_ok [OF norm ap ok])
  next
    case False
    with that have "e \<in> set (d_entries d)" by (simp add: eff(4))
    then have "entry_ok d e" using ok by (simp add: journal_ok_def)
    then show ?thesis by (auto simp: entry_ok_def eff(3,5) get_account_def)
  qed
  moreover have "distinct (map tx_id (d_transactions d'))"
    using ok new by (simp add: journal_ok_def eff(3) tid)
  moreover have "distinct (map tx_idempotency_key (d_transactions d'))"
    using ok key by (auto simp: journal_ok_def eff(3) new_transaction_def find_None_iff')
  ultimately show ?thesis using ok by (simp add: journal_ok_def eff(5))
qed

lemma append_posting_fresh:
  assumes ap: "append_posting now r ns d = Inr (p, d')" and fresh: "uuid_fresh d"
  shows "uuid_fresh d'"
proof -
  note eff = append_posting_effect [OF ap]
  have "d_uuid d n \<noteq> d_uuid d (d_draws d)" if "d_draws d' \<le> n" for n
    using fresh eff(12) that by (auto simp: uuid_fresh_def dest: injD)
  then show ?thesis
    using fresh eff(12) by (auto simp: uuid_fresh_def eff(3,5,11) new_transaction_def)
qed

lemma post_cases:
  assumes "post_financial_transaction now r d = Inr (p, d')"
  obtains (replay) ns existing where
      "normalize_entries (pr_currency r) (pr_entries r) = Inr ns"
      "List.find (\<lambda>t. tx_idempotency_key t = pr_idempotency_key r) (d_transactions d) = Some existing"
      "replay_posting r ns existing d = Inr (p, d')" "d' = d" "jp_transaction p = existing"
      "tx_currency_code existing = pr_currency r"
  | (append) ns where
      "normalize_entries (pr_currency r) (pr_entries r) = Inr ns"
      "2 \<le> length ns" "spec_total ''DEBIT'' ns = spec_total ''CREDIT'' ns"
      "List.find (\<lambda>t. tx_idempotency_key t = pr_idempotency_key r) (d_transactions d) = None"
      "append_posting now r ns d = Inr (p, d')" "CURRENCY_EXPONENTS (pr_currency r) \<noteq> None"
proof -
  have cur: "CURRENCY_EXPONENTS (pr_currency r) \<noteq> None"
    using assms by (auto simp: post_financial_transaction_def mk_money_def split: if_splits)
  obtain ns where ns: "normalize_entries (pr_currency r) (pr_entries r) = Inr ns"
    and len: "\<not> length ns < 2" and bal: "spec_total ''DEBIT'' ns = spec_total ''CREDIT'' ns"
    and rest: "(case List.find (\<lambda>t. tx_idempotency_key t = pr_idempotency_key r) (d_transactions d) of
               Some existing \<Rightarrow> replay_posting r ns existing d
             | None \<Rightarrow> append_posting now r ns d) = Inr (p, d')"
    using assms unfolding post_financial_transaction_def bindR_Inr_iff by (auto split: if_splits)
  show thesis
  proof (cases "List.find (\<lambda>t. tx_idempotency_key t = pr_idempotency_key r) (d_transactions d)")
    case None
    with rest have "append_posting now r ns d = Inr (p, d')" by simp
    with ns len bal None cur show thesis by (intro append) simp_all
  next
    case (Some existing)
    with rest have rp: "replay_posting r ns existing d = Inr (p, d')" by simp
    then have "d' = d \<and> jp_transaction p = existing \<and> tx_currency_code existing = pr_currency r"
      unfolding replay_posting_def Let_def by (simp split: if_splits) force
    then have "d' = d" "jp_transaction p = existing" "tx_currency_code existing = pr_currency r"
      by blast+
    then show thesis by (rule replay [OF ns Some rp])
  qed
qed

text \<open>
  The contract of the journal as its callers use it: posting keeps the invariant, never
  forgets or alters what is posted, and leaves a state it can be repeated in.
\<close>

locale posting_service =
  fixes post :: "'r \<Rightarrow> 's \<Rightarrow> py_error + ('p \<times> 's)"
    and inv :: "'s \<Rightarrow> bool"
    and posted :: "'s \<Rightarrow> 't list"
    and header :: "'p \<Rightarrow> 't"
  assumes post_inv: "inv s \<Longrightarrow> post r s = Inr (p, s') \<Longrightarrow> inv s'"
    and post_grows: "post r s = Inr (p, s') \<Longrightarrow> \<exists>ts. posted s' = posted s @ ts"
    and post_records: "post r s = Inr (p, s') \<Longrightarrow> header p \<in> set (posted s')"
begin

fun post_all :: "'r list \<Rightarrow> 's \<Rightarrow> py_error + ('p list \<times> 's)" where
  "post_all [] s = Inr ([], s)"
| "post_all (r # rs) s =
     bindR (post r s) (\<lambda>(p, s1). bindR (post_all rs s1) (\<lambda>(ps, s2). Inr (p # ps, s2)))"

lemma post_all_ConsE:
  assumes "post_all (r # rs) s = Inr (qs, s')"
  obtains p s1 ps where "post r s = Inr (p, s1)" "post_all rs s1 = Inr (ps, s')" "qs = p # ps"
proof (cases "post r s")
  case (Inl e)
  with assms show ?thesis by simp
next
  case (Inr ps1)
  obtain p s1 where ps1: "ps1 = (p, s1)" by (cases ps1)
  show ?thesis
  proof (cases "post_all rs s1")
    case (Inl e)
    with assms Inr ps1 show ?thesis by simp
  next
    case (Inr ps2)
    with assms \<open>post r s = Inr ps1\<close> ps1 show ?thesis
      by (cases ps2) (simp add: that)
  qed
qed

lemma post_all_inv: "inv s \<Longrightarrow> post_all rs s = Inr (ps, s') \<Longrightarrow> inv s'"
proof (induction rs arbitrary: s ps)
  case (Cons r rs)
  from Cons.prems(2) show ?case
    by (rule post_all_ConsE) (use Cons.IH Cons.prems(1) post_inv in blast)
qed simp

lemma post_all_grows: "post_all rs s = Inr (ps, s') \<Longrightarrow> \<exists>ts. posted s' = posted s @ ts"
proof (induction rs arbitrary: s ps)
  case (Cons r rs)
  from Cons.prems obtain p s1 qs where p: "post r s = Inr (p, s1)" and rest: "post_all rs s1 = Inr (qs, s')"
    by (rule post_all_ConsE)
  from post_grows [OF p] obtain ts where "posted s1 = posted s @ ts" ..
  moreover from Cons.IH [OF rest] obtain us where "posted s' = posted s1 @ us" ..
  ultimately have "posted s' = posted s @ (ts @ us)" by simp
  then show ?case ..
qed simp

lemma post_all_records:
  "post_all rs s = Inr (ps, s') \<Longrightarrow> p \<in> set ps \<Longrightarrow> header p \<in> set (posted s')"
proof (induction rs arbitrary: s ps)
  case (Cons r rs)
  from Cons.prems(1) obtain q s1 qs where q: "post r s = Inr (q, s1)"
    and rest: "post_all rs s1 = Inr (qs, s')" and ps: "ps = q # qs"
    by (rule post_all_ConsE)
  have "header q \<in> set (posted s')"
    using post_records [OF q] post_all_grows [OF rest] by auto
  then show ?case using Cons.IH [OF rest] Cons.prems(2) ps by auto
qed simp

end

lemma post_ok:
  assumes "journal_ok d \<and> uuid_fresh d" and "post_financial_transaction now r d = Inr (p, d')"
  shows "journal_ok d' \<and> uuid_fresh d'"
  using assms(2)
proof (cases rule: post_cases)
  case replay
  with assms(1) show ?thesis by simp
next
  case append
  then show ?thesis
    using assms(1) append_posting_ok [OF append(1,3,2,6,4,5)] append_posting_fresh [OF append(5)] by blast
qed

lemma post_transactions:
  assumes "post_financial_transaction now r d = Inr (p, d')"
  shows "(\<exists>ts. d_transactions d' = d_transactions d @ ts) \<and> jp_transaction p \<in> set (d_transactions d')"
  using assms
proof (cases rule: post_cases)
  case replay
  then show ?thesis by (auto dest: find_Some_iff')
next
  case append
  then show ?thesis using append_posting_effect(1,3) [OF append(5)] by simp
qed

interpretation journal: posting_service
  "post_financial_transaction now" "\<lambda>d. journal_ok d \<and> uuid_fresh d" d_transactions jp_transaction
  for now
  by unfold_locales (use post_ok post_transactions in blast)+


section \<open>Repeating a posting\<close>

lemma existing_signature_sort [simp]: "existing_signature (sort_key f es) = existing_signature es"
  by (simp only: existing_signature_def mset_map mset_sort)

text \<open>The event an append wrote is the only one that names its transaction.\<close>

definition events_of :: "string \<Rightarrow> bank_db \<Rightarrow> audit_outbox list" where
  "events_of tid d = filter (\<lambda>ob. ob_event_type ob = FINANCIAL_EVENT_TYPE
                               \<and> mentions_transaction tid (ob_payload ob)) (d_outbox d)"

lemma mentions_payload: "mentions_transaction tid (financial_event_payload eid r ts tid es)"
  by (simp add: financial_event_payload_def)

lemma append_posting_event:
  assumes "append_posting now r ns d = Inr (p, d')"
  shows "\<exists>ob. d_outbox d' = d_outbox d @ [ob] \<and> ob_event_id ob = jp_event_id p
    \<and> ob_event_type ob = FINANCIAL_EVENT_TYPE \<and> mentions_transaction (tx_id (jp_transaction p)) (ob_payload ob)"
  using assms
  by (auto simp: append_posting_def Let_def uuid4_def uuid4s_eq record_audit_event_def mentions_payload
      split: if_splits)

lemma replay_after_append:
  assumes norm: "normalize_entries (pr_currency r) (pr_entries r) = Inr ns"
    and ap: "append_posting now r ns d = Inr (p, d')"
    and none: "entries_of (d_uuid d (d_draws d)) (d_entries d) = []"
    and unseen: "events_of (d_uuid d (d_draws d)) d = []"
  shows "replay_posting r ns (jp_transaction p) d'
     = Inr (\<lparr>jp_transaction = jp_transaction p, jp_entries = sort_key le_entry_id (jp_entries p),
             jp_event_id = jp_event_id p\<rparr>, d')"
proof -
  note eff = append_posting_effect [OF ap]
  obtain ob where ob: "d_outbox d' = d_outbox d @ [ob]" "ob_event_id ob = jp_event_id p"
    "ob_event_type ob = FINANCIAL_EVENT_TYPE" "mentions_transaction (tx_id (jp_transaction p)) (ob_payload ob)"
    using append_posting_event [OF ap] by blast
  have tid: "tx_id (jp_transaction p) = d_uuid d (d_draws d)" by (simp add: eff(1) new_transaction_def)
  have es: "entries_of (tx_id (jp_transaction p)) (d_entries d') = jp_entries p"
    by (simp add: eff(2,4) entries_of_append none tid)
  have sig: "existing_signature (jp_entries p) = requested_signature ns"
    unfolding eff(2) new_entries_def by (rule signature_journal_entries) (simp del: upt_Suc)
  have ev: "one_or_none (\<lambda>ob. ob_event_type ob = FINANCIAL_EVENT_TYPE
          \<and> mentions_transaction (tx_id (jp_transaction p)) (ob_payload ob)) (d_outbox d') = Inr (Some ob)"
    using unseen ob(3,4) unfolding one_or_none_def ob(1) events_of_def tid by simp
  have cur: "tx_currency_code (jp_transaction p) = pr_currency r"
    by (simp add: eff(1) new_transaction_def)
  show ?thesis
    unfolding replay_posting_def Let_def es ev existing_signature_sort sig cur
    by (simp add: ob(2))
qed

section \<open>Positions: what the journal says an account holds\<close>

definition signed :: "account_ledger_entry \<Rightarrow> int" where
  "signed e = (if le_entry_type e = ''CREDIT'' then le_amount_minor e else - le_amount_minor e)"

definition position :: "string \<Rightarrow> account_ledger_entry list \<Rightarrow> int" where
  "position aid es = sum_list (map signed (filter (\<lambda>e. le_account_id e = aid) es))"

definition spec_position :: "string \<Rightarrow> journal_entry_spec list \<Rightarrow> int" where
  "spec_position aid specs =
     sum_list (map (\<lambda>s. if js_direction s = ''CREDIT'' then amount_minor (js_money s)
                        else - amount_minor (js_money s))
       (filter (\<lambda>s. js_account_id s = aid) specs))"

lemma position_append [simp]: "position aid (xs @ ys) = position aid xs + position aid ys"
  by (simp add: position_def)

lemma position_journal_entries:
  "length eids = length specs \<Longrightarrow>
   position aid (journal_entries tid ts (zip specs eids)) = spec_position aid specs"
proof (induction specs arbitrary: eids)
  case (Cons s specs)
  then obtain u us where eids: "eids = u # us" by (cases eids) auto
  with Cons have "position aid (journal_entries tid ts (zip specs us)) = spec_position aid specs"
    by simp
  then show ?case
    by (simp add: eids position_def spec_position_def journal_entries_def signed_def)
qed (simp add: position_def spec_position_def journal_entries_def)

lemma position_new_entries [simp]: "position aid (new_entries now r ns d) = spec_position aid ns"
  unfolding new_entries_def by (rule position_journal_entries) (simp del: upt_Suc)

text \<open>The two-line transfer every caller posts: one debit, one credit of the same Money.\<close>

definition two_lines :: "string \<Rightarrow> string \<Rightarrow> money \<Rightarrow> journal_entry_spec list" where
  "two_lines debit_id credit_id m =
     [\<lparr>js_account_id = debit_id, js_direction = ''DEBIT'', js_money = m\<rparr>,
      \<lparr>js_account_id = credit_id, js_direction = ''CREDIT'', js_money = m\<rparr>]"

lemma py_upper_sides [simp]:
  "py_upper ''DEBIT'' = ''DEBIT''" "py_upper ''CREDIT'' = ''CREDIT''"
  by (code_simp)+

lemma normalize_two_lines_Inr:
  "normalize_entries c (two_lines a b m) = Inr ns \<Longrightarrow>
   ns = two_lines a b m \<and> currency_code m = c \<and> 0 < amount_minor m"
  by (auto simp: two_lines_def Let_def split: if_splits)

lemma spec_position_two_lines:
  "spec_position aid (two_lines a b m)
     = (if aid = b then amount_minor m else 0) - (if aid = a then amount_minor m else 0)"
  by (auto simp: spec_position_def two_lines_def)

text \<open>
  What a caller that posts two lines under a new key gets: the effect of the append, and the
  position of each account moved by exactly the amount.
\<close>

lemma post_two_lines_effect:
  assumes post: "post_financial_transaction now r d = Inr (p, d')"
    and lines: "pr_entries r = two_lines a b m"
    and new: "List.find (\<lambda>t. tx_idempotency_key t = pr_idempotency_key r) (d_transactions d) = None"
  shows "append_posting now r (two_lines a b m) d = Inr (p, d')"
    "currency_code m = pr_currency r" "0 < amount_minor m"
    "\<And>aid. position aid (d_entries d') = position aid (d_entries d)
        + ((if aid = b then amount_minor m else 0) - (if aid = a then amount_minor m else 0))"
proof -
  from post have ap: "append_posting now r (two_lines a b m) d = Inr (p, d')
      \<and> currency_code m = pr_currency r \<and> 0 < amount_minor m"
  proof (cases rule: post_cases)
    case replay
    with new show ?thesis by simp
  next
    case append
    with normalize_two_lines_Inr [of "pr_currency r" a b m] show ?thesis by (auto simp: lines)
  qed
  then show "append_posting now r (two_lines a b m) d = Inr (p, d')"
    "currency_code m = pr_currency r" "0 < amount_minor m" by blast+
  then show "\<And>aid. position aid (d_entries d') = position aid (d_entries d)
        + ((if aid = b then amount_minor m else 0) - (if aid = a then amount_minor m else 0))"
    by (simp add: append_posting_effect(4) spec_position_two_lines)
qed

end
