(* ===== verification/Reconciliation.thy ===== *)
theory Reconciliation
  imports Journal
begin

text \<open>
  The bank's own audit of its books (\<^verbatim>\<open>services/money_reconciliation.py\<close>): \<open>reconcile_money\<close>
  and \<open>migration_blockers\<close>, read as the abstract specification of every service that posts.
  \<open>books_ok\<close> is the invariant the services keep; a database that satisfies it has no blocker.
  It depends only on a signature of the tables, which the services' balance updates do not touch.
\<close>

section \<open>The reconciliation report\<close>

record reconciliation =
  rp_invalid_accounts :: "(string \<times> string) list"
  rp_mirror_conflicts :: "string list"
  rp_mixed_transactions :: "string list"
  rp_unresolved_transactions :: "string list"
  rp_header_conflicts :: "string list"
  rp_orphan_entries :: "string list"
  rp_unbalanced_transactions :: "string list"
  rp_balance_differences :: "(string \<times> int \<times> int) list"
  rp_inferred_transaction_currencies :: "(string \<times> string) list"

definition SUPPORTED :: "string list" where
  "SUPPORTED = [''USD'', ''MXN'', ''JPY'', ''BHD'']"

definition orphan :: "bank_db \<Rightarrow> account_ledger_entry \<Rightarrow> bool" where
  "orphan d e \<longleftrightarrow> le_account_id e \<notin> ac_id ` set (d_accounts d)
     \<or> le_transaction_id e \<notin> tx_id ` set (d_transactions d)"

text \<open>A credit adds and a debit subtracts, the other way round on a card receivable.\<close>

definition entry_sign :: "account \<Rightarrow> account_ledger_entry \<Rightarrow> int" where
  "entry_sign a e =
     (let sign = (if le_entry_type e = ''CREDIT'' then 1 else -1)
      in if ac_account_type a = ''CREDIT_CARD'' then - sign else sign)"

definition journal_minor :: "bank_db \<Rightarrow> account \<Rightarrow> int" where
  "journal_minor d a =
     sum_list (map (\<lambda>e. entry_sign a e * le_amount_minor e)
       (filter (\<lambda>e. \<not> orphan d e \<and> le_account_id e = ac_id a) (d_entries d)))"

definition posting_currencies :: "bank_db \<Rightarrow> transaction \<Rightarrow> string list" where
  "posting_currencies d t =
     remdups (List.map_filter (\<lambda>e. map_option ac_currency (get_account (le_account_id e) d))
       (entries_of (tx_id t) (d_entries d)))"

definition signed_total :: "account_ledger_entry list \<Rightarrow> int" where
  "signed_total es =
     sum_list (map (\<lambda>e. le_amount_minor e * (if le_entry_type e = ''CREDIT'' then 1 else -1)) es)"

definition mirror_conflict :: "bank_db \<Rightarrow> account \<Rightarrow> bool" where
  "mirror_conflict d a =
     (case ac_credit_account_id a of
        None \<Rightarrow> False
      | Some c \<Rightarrow> (case get_credit_account c d of
                    None \<Rightarrow> True
                  | Some cc \<Rightarrow> ac_currency a \<noteq> ca_currency cc))"

definition reconcile_money :: "bank_db \<Rightarrow> reconciliation" where
  "reconcile_money d =
     (let single = (\<lambda>t. length (posting_currencies d t) = 1
                        \<and> hd (posting_currencies d t) \<in> set SUPPORTED) in
      \<lparr>rp_invalid_accounts =
         map (\<lambda>a. (''ledger.accounts'', ac_id a)) (filter (\<lambda>a. ac_currency a \<notin> set SUPPORTED) (d_accounts d))
         @ map (\<lambda>c. (''cards.credit_accounts'', ca_id c)) (filter (\<lambda>c. ca_currency c \<notin> set SUPPORTED) (d_credit_accounts d)),
       rp_mirror_conflicts = map ac_id (filter (mirror_conflict d) (d_accounts d)),
       rp_mixed_transactions =
         map tx_id (filter (\<lambda>t. 1 < length (posting_currencies d t)) (d_transactions d)),
       rp_unresolved_transactions =
         map tx_id (filter (\<lambda>t. \<not> 1 < length (posting_currencies d t) \<and> \<not> single t) (d_transactions d)),
       rp_header_conflicts =
         map tx_id (filter (\<lambda>t. single t \<and> tx_currency_code t \<noteq> hd (posting_currencies d t)) (d_transactions d)),
       rp_orphan_entries = map le_entry_id (filter (orphan d) (d_entries d)),
       rp_unbalanced_transactions =
         map tx_id (filter (\<lambda>t. signed_total (entries_of (tx_id t) (d_entries d)) \<noteq> 0) (d_transactions d)),
       rp_balance_differences =
         map (\<lambda>a. (ac_id a, ac_cleared_balance_cents a, journal_minor d a))
           (filter (\<lambda>a. ac_cleared_balance_cents a \<noteq> journal_minor d a) (d_accounts d)),
       rp_inferred_transaction_currencies =
         map (\<lambda>t. (tx_id t, hd (posting_currencies d t))) (filter single (d_transactions d))\<rparr>)"

definition migration_blockers :: "reconciliation \<Rightarrow> (string \<times> string list) list" where
  "migration_blockers r =
     filter (\<lambda>(k, v). v \<noteq> [])
       [(''invalid_accounts'', map snd (rp_invalid_accounts r)),
        (''mirror_conflicts'', rp_mirror_conflicts r),
        (''mixed_transactions'', rp_mixed_transactions r),
        (''unresolved_transactions'', rp_unresolved_transactions r),
        (''header_conflicts'', rp_header_conflicts r),
        (''orphan_entries'', rp_orphan_entries r),
        (''unbalanced_transactions'', rp_unbalanced_transactions r)]"

section \<open>The invariant of the books\<close>

definition denominations_ok :: "bank_db \<Rightarrow> bool" where
  "denominations_ok d \<longleftrightarrow>
     (\<forall>a \<in> set (d_accounts d). ac_currency a \<in> set SUPPORTED \<and> \<not> mirror_conflict d a)
     \<and> (\<forall>c \<in> set (d_credit_accounts d). ca_currency c \<in> set SUPPORTED)
     \<and> distinct (map ca_id (d_credit_accounts d))"

definition books_ok :: "bank_db \<Rightarrow> bool" where
  "books_ok d \<longleftrightarrow> journal_ok d \<and> denominations_ok d \<and> uuid_fresh d"

lemma SUPPORTED_iff: "c \<in> set SUPPORTED \<longleftrightarrow> CURRENCY_EXPONENTS c \<noteq> None"
  by (auto simp: SUPPORTED_def CURRENCY_EXPONENTS_def)

lemma signed_total_sides:
  "(\<And>e. e \<in> set es \<Longrightarrow> le_entry_type e \<in> {''DEBIT'', ''CREDIT''}) \<Longrightarrow>
   signed_total es = side_total ''CREDIT'' es - side_total ''DEBIT'' es"
proof (induction es)
  case (Cons e es)
  then have "le_entry_type e = ''DEBIT'' \<or> le_entry_type e = ''CREDIT''" by simp
  with Cons show ?case by (auto simp: signed_total_def side_total_def)
qed (simp add: signed_total_def side_total_def)

lemma remdups_replicate: "0 < n \<Longrightarrow> remdups (replicate n x) = [x]"
proof (induction n)
  case (Suc n)
  then show ?case by (cases n) auto
qed simp

lemma posting_currencies_ok:
  assumes ok: "journal_ok d" and t: "t \<in> set (d_transactions d)"
  shows "posting_currencies d t = [tx_currency_code t]"
proof -
  let ?es = "entries_of (tx_id t) (d_entries d)"
  have cur: "map_option ac_currency (get_account (le_account_id e) d) = Some (tx_currency_code t)"
    if "e \<in> set ?es" for e
  proof -
    from that have e: "e \<in> set (d_entries d)" "le_transaction_id e = tx_id t"
      by (auto simp: entries_of_def)
    with ok obtain u where u: "u \<in> set (d_transactions d)" "tx_id u = tx_id t"
      "map_option ac_currency (get_account (le_account_id e) d) = Some (tx_currency_code u)"
      by (auto simp: journal_ok_def entry_ok_def)
    moreover have "u = t"
      using ok u(1,2) t by (auto simp: journal_ok_def distinct_map inj_on_def)
    ultimately show ?thesis by simp
  qed
  have map: "List.map_filter (\<lambda>e. map_option ac_currency (get_account (le_account_id e) d)) es
      = replicate (length es) (tx_currency_code t)"
    if "set es \<subseteq> set ?es" for es
    using that by (induction es) (auto simp: map_filter_simps cur)
  have "?es \<noteq> []"
    using ok t by (force simp: journal_ok_def balanced_def)
  then show ?thesis
    unfolding posting_currencies_def map [OF subset_refl] by (intro remdups_replicate) simp
qed

lemma books_ok_no_blockers:
  "books_ok d \<Longrightarrow> migration_blockers (reconcile_money d) = []"
proof -
  assume ok: "books_ok d"
  then have j: "journal_ok d" and den: "denominations_ok d" by (simp_all add: books_ok_def)
  have cur: "posting_currencies d t = [tx_currency_code t]" if "t \<in> set (d_transactions d)" for t
    using j that by (rule posting_currencies_ok)
  have sup: "tx_currency_code t \<in> set SUPPORTED" if "t \<in> set (d_transactions d)" for t
    using j that by (simp add: SUPPORTED_iff journal_ok_def balanced_def)
  have bal: "signed_total (entries_of (tx_id t) (d_entries d)) = 0" if t: "t \<in> set (d_transactions d)" for t
  proof -
    have "le_entry_type e \<in> {''DEBIT'', ''CREDIT''}" if "e \<in> set (entries_of (tx_id t) (d_entries d))" for e
      using j that by (auto simp: journal_ok_def entry_ok_def entries_of_def)
    then show ?thesis
      using j t by (simp add: signed_total_sides journal_ok_def balanced_def)
  qed
  have orph: "\<not> orphan d e" if "e \<in> set (d_entries d)" for e
  proof -
    from j that obtain t a where "t \<in> set (d_transactions d)" "tx_id t = le_transaction_id e"
      "get_account (le_account_id e) d = Some a"
      by (auto simp: journal_ok_def entry_ok_def)
    then show ?thesis using get_account_id by (force simp: orphan_def)
  qed
  have "rp_invalid_accounts (reconcile_money d) = []" "rp_mirror_conflicts (reconcile_money d) = []"
    using den by (simp_all add: reconcile_money_def Let_def denominations_ok_def filter_empty_conv)
  moreover have "rp_mixed_transactions (reconcile_money d) = []"
    "rp_unresolved_transactions (reconcile_money d) = []"
    "rp_header_conflicts (reconcile_money d) = []"
    using cur sup by (simp_all add: reconcile_money_def Let_def filter_empty_conv)
  moreover have "rp_orphan_entries (reconcile_money d) = []"
    "rp_unbalanced_transactions (reconcile_money d) = []"
    using orph bal by (simp_all add: reconcile_money_def Let_def filter_empty_conv)
  ultimately show ?thesis by (simp add: migration_blockers_def)
qed

section \<open>What the invariant depends on\<close>

definition acct_sig :: "bank_db \<Rightarrow> (string \<times> string \<times> string option) list" where
  "acct_sig d = map (\<lambda>a. (ac_id a, ac_currency a, ac_credit_account_id a)) (d_accounts d)"

definition card_sig :: "bank_db \<Rightarrow> (string \<times> string) list" where
  "card_sig d = map (\<lambda>c. (ca_id c, ca_currency c)) (d_credit_accounts d)"

definition tx_sig :: "bank_db \<Rightarrow> (string \<times> string \<times> string) list" where
  "tx_sig d = map (\<lambda>t. (tx_id t, tx_idempotency_key t, tx_currency_code t)) (d_transactions d)"

lemma map_via:
  assumes "map f xs = map f ys" "\<And>x. g x = h (f x)"
  shows "map g xs = map g ys"
proof -
  have "map g zs = map h (map f zs)" for zs by (simp add: assms(2))
  then show ?thesis by (simp only: assms(1))
qed

lemma find_sig:
  assumes "map (\<lambda>x. (key x, col x)) xs = map (\<lambda>x. (key x, col x)) ys"
  shows "map_option col (List.find (\<lambda>x. key x = k) xs) = map_option col (List.find (\<lambda>x. key x = k) ys)"
proof -
  have "length xs = length ys" using assms by (metis length_map)
  then show ?thesis using assms by (induction xs ys rule: list_induct2) auto
qed

lemma ball_sig:
  assumes "map f xs = map f ys" "\<And>x y. f x = f y \<Longrightarrow> P x = Q y"
  shows "(\<forall>x\<in>set xs. P x) = (\<forall>y\<in>set ys. Q y)"
proof -
  have "length xs = length ys" using assms(1) by (metis length_map)
  then show ?thesis using assms(1)
  proof (induction xs ys rule: list_induct2)
    case (Cons x xs y ys)
    then have "P x = Q y" using assms(2) by simp
    with Cons show ?case by simp
  qed simp
qed

lemma get_account_sig:
  assumes "acct_sig d = acct_sig d'"
  shows "map_option ac_currency (get_account i d) = map_option ac_currency (get_account i d')"
proof -
  have "map (\<lambda>x. (ac_id x, ac_currency x)) (d_accounts d) = map (\<lambda>x. (ac_id x, ac_currency x)) (d_accounts d')"
    using assms unfolding acct_sig_def by (rule map_via [where h = "\<lambda>(a, b, c). (a, b)"]) simp
  then show ?thesis unfolding get_account_def by (rule find_sig)
qed

lemma get_credit_account_sig:
  "card_sig d = card_sig d' \<Longrightarrow>
   map_option ca_currency (get_credit_account i d) = map_option ca_currency (get_credit_account i d')"
  unfolding get_credit_account_def by (rule find_sig) (simp add: card_sig_def)

lemma mirror_conflict_currency:
  "mirror_conflict d a = (case ac_credit_account_id a of None \<Rightarrow> False
     | Some c \<Rightarrow> map_option ca_currency (get_credit_account c d) \<noteq> Some (ac_currency a))"
  by (auto simp: mirror_conflict_def split: option.splits)

lemma denominations_ok_sig:
  assumes "acct_sig d = acct_sig d'" "card_sig d = card_sig d'"
  shows "denominations_ok d = denominations_ok d'"
proof -
  have "(\<forall>a \<in> set (d_accounts d). ac_currency a \<in> set SUPPORTED \<and> \<not> mirror_conflict d a)
      = (\<forall>a \<in> set (d_accounts d'). ac_currency a \<in> set SUPPORTED \<and> \<not> mirror_conflict d' a)"
    by (rule ball_sig [OF assms(1) [unfolded acct_sig_def]])
      (auto simp: mirror_conflict_currency get_credit_account_sig [OF assms(2)] split: option.splits)
  moreover have "(\<forall>c \<in> set (d_credit_accounts d). ca_currency c \<in> set SUPPORTED)
      = (\<forall>c \<in> set (d_credit_accounts d'). ca_currency c \<in> set SUPPORTED)"
    by (rule ball_sig [OF assms(2) [unfolded card_sig_def]]) auto
  moreover have "map ca_id (d_credit_accounts d) = map ca_id (d_credit_accounts d')"
    using assms(2) unfolding card_sig_def by (rule map_via [where h = fst]) simp
  ultimately show ?thesis by (simp add: denominations_ok_def)
qed

lemma tx_ids_sig:
  "tx_sig d = tx_sig d' \<Longrightarrow> map tx_id (d_transactions d) = map tx_id (d_transactions d')"
  unfolding tx_sig_def by (erule map_via [where h = fst]) simp

lemma tx_keys_sig:
  "tx_sig d = tx_sig d' \<Longrightarrow>
   map tx_idempotency_key (d_transactions d) = map tx_idempotency_key (d_transactions d')"
  unfolding tx_sig_def by (erule map_via [where h = "fst \<circ> snd"]) simp

lemma ac_ids_sig:
  "acct_sig d = acct_sig d' \<Longrightarrow> map ac_id (d_accounts d) = map ac_id (d_accounts d')"
  unfolding acct_sig_def by (erule map_via [where h = fst]) simp

lemma bex_sig:
  assumes "map f xs = map f ys" "\<And>x y. f x = f y \<Longrightarrow> P x = Q y"
  shows "(\<exists>x\<in>set xs. P x) = (\<exists>y\<in>set ys. Q y)"
  using ball_sig [of f xs ys "\<lambda>x. \<not> P x" "\<lambda>y. \<not> Q y"] assms by blast

lemma journal_ok_sig:
  assumes tx: "tx_sig d = tx_sig d'" and ac: "acct_sig d = acct_sig d'"
    and es: "d_entries d = d_entries d'"
  shows "journal_ok d = journal_ok d'"
proof -
  have "entry_ok d e = entry_ok d' e" for e
    unfolding entry_ok_def get_account_sig [OF ac]
    by (rule arg_cong [where f = "\<lambda>q. _ \<and> _ \<and> q"], rule bex_sig [OF tx [unfolded tx_sig_def]]) auto
  moreover have "(\<forall>t \<in> set (d_transactions d). balanced d t) = (\<forall>t \<in> set (d_transactions d'). balanced d' t)"
    by (rule ball_sig [OF tx [unfolded tx_sig_def]]) (auto simp: balanced_def es)
  ultimately show ?thesis
    by (simp add: journal_ok_def es tx_ids_sig [OF tx] tx_keys_sig [OF tx] ac_ids_sig [OF ac])
qed

text \<open>
  The frame rule of the services: a step that leaves the signatures and the entries alone, and
  at most draws more identifiers, keeps the books.
\<close>

lemma books_ok_frame:
  assumes ok: "books_ok d" and tx: "tx_sig d' = tx_sig d" and ac: "acct_sig d' = acct_sig d"
    and cc: "card_sig d' = card_sig d" and es: "d_entries d' = d_entries d"
    and u: "d_uuid d' = d_uuid d" "d_draws d \<le> d_draws d'"
  shows "books_ok d'"
proof -
  have "tx_id ` set (d_transactions d') = tx_id ` set (d_transactions d)"
    "ac_id ` set (d_accounts d') = ac_id ` set (d_accounts d)"
    using tx_ids_sig [OF tx] ac_ids_sig [OF ac] by (metis list.set_map)+
  then have "uuid_fresh d'"
    using ok u by (auto simp: books_ok_def uuid_fresh_def)
  with ok show ?thesis
    by (simp add: books_ok_def journal_ok_sig [OF tx ac es] denominations_ok_sig [OF ac cc])
qed


section \<open>Steps that keep the books\<close>

lemma books_distinct:
  assumes "books_ok d"
  shows "distinct (map ac_id (d_accounts d))" "distinct (map ca_id (d_credit_accounts d))"
    "distinct (map tx_id (d_transactions d))" "distinct (map tx_idempotency_key (d_transactions d))"
  using assms by (simp_all add: books_ok_def journal_ok_def denominations_ok_def)

lemma books_put_account:
  assumes ok: "books_ok d" and a: "get_account (ac_id a) d = Some a0"
    and same: "ac_currency a = ac_currency a0" "ac_credit_account_id a = ac_credit_account_id a0"
  shows "books_ok (put_account a d)"
proof (rule books_ok_frame [OF ok])
  show "acct_sig (put_account a d) = acct_sig d"
    unfolding acct_sig_def put_account_def
    using same get_account_id [OF a]
    by (simp add: map_put_row [OF books_distinct(1) [OF ok] a [unfolded get_account_def],
          of "\<lambda>a. (ac_id a, ac_currency a, ac_credit_account_id a)"])
qed (simp_all add: frame_simps tx_sig_def card_sig_def)

lemma update_account_books:
  assumes ok: "books_ok d" and f: "\<And>a. ac_id (f a) = ac_id a" "\<And>a. ac_currency (f a) = ac_currency a"
    "\<And>a. ac_credit_account_id (f a) = ac_credit_account_id a"
  shows "books_ok (update_account f i d)"
proof (cases "get_account i d")
  case None
  with ok show ?thesis by (simp add: update_account_def)
next
  case (Some a)
  then have g: "get_account (ac_id (f a)) d = Some a" by (simp add: f get_account_id)
  from books_put_account [OF ok g] show ?thesis by (simp add: update_account_def Some f)
qed

lemma books_put_credit_account:
  assumes ok: "books_ok d" and c: "get_credit_account (ca_id c) d = Some c0"
    and same: "ca_currency c = ca_currency c0"
  shows "books_ok (put_credit_account c d)"
proof (rule books_ok_frame [OF ok])
  show "card_sig (put_credit_account c d) = card_sig d"
    unfolding card_sig_def put_credit_account_def
    using same get_credit_account_id [OF c]
    by (simp add: map_put_row [OF books_distinct(2) [OF ok] c [unfolded get_credit_account_def],
          of "\<lambda>c. (ca_id c, ca_currency c)"])
qed (simp_all add: frame_simps tx_sig_def acct_sig_def)

lemma books_put_transaction:
  assumes ok: "books_ok d" and t0: "t0 \<in> set (d_transactions d)"
    and same: "tx_id t = tx_id t0" "tx_idempotency_key t = tx_idempotency_key t0"
      "tx_currency_code t = tx_currency_code t0"
  shows "books_ok (put_transaction t d)"
proof (rule books_ok_frame [OF ok])
  have "List.find (\<lambda>x. tx_id x = tx_id t) (d_transactions d) = Some t0"
    using find_key_distinct [OF books_distinct(3) [OF ok] t0] same(1) by simp
  then have f: "List.find (\<lambda>x. tx_id x = tx_id t) (d_transactions d) = Some t0" .
  show "tx_sig (put_transaction t d) = tx_sig d"
    unfolding tx_sig_def put_transaction_def
    using same by (simp add: map_put_row [OF books_distinct(3) [OF ok] f,
          of "\<lambda>t. (tx_id t, tx_idempotency_key t, tx_currency_code t)"])
qed (simp_all add: put_transaction_def acct_sig_def card_sig_def)

lemma books_audit:
  "books_ok d \<Longrightarrow> books_ok (record_audit_event now t p e v d)"
  by (erule books_ok_frame) (simp_all add: frame_simps tx_sig_def acct_sig_def card_sig_def)

lemma books_uuid4: "books_ok d \<Longrightarrow> books_ok (snd (uuid4 d))"
  by (erule books_ok_frame) (simp_all add: uuid4_def tx_sig_def acct_sig_def card_sig_def)

lemma books_post:
  assumes ok: "books_ok d" and post: "post_financial_transaction now r d = Inr (p, d')"
  shows "books_ok d'"
proof -
  have "journal_ok d' \<and> uuid_fresh d'"
    using ok by (intro journal.post_inv [OF _ post]) (simp add: books_ok_def)
  moreover have "denominations_ok d'"
    using post
  proof (cases rule: post_cases)
    case replay
    with ok show ?thesis by (simp add: books_ok_def)
  next
    case append
    have "acct_sig d' = acct_sig d" "card_sig d' = card_sig d"
      using append_posting_effect(5,6) [OF append(5)] by (simp_all add: acct_sig_def card_sig_def)
    then have "denominations_ok d' = denominations_ok d" by (rule denominations_ok_sig)
    with ok show ?thesis by (simp add: books_ok_def)
  qed
  ultimately show ?thesis by (simp add: books_ok_def)
qed

lemma books_add_account:
  assumes ok: "books_ok d" and i: "ac_id a = fst (uuid4 d)"
    and cur: "ac_currency a \<in> set SUPPORTED" and mirror: "\<not> mirror_conflict d a"
  shows "books_ok (add_account a (snd (uuid4 d)))"
proof -
  let ?d = "add_account a (snd (uuid4 d))"
  have fresh: "ac_id a \<notin> ac_id ` set (d_accounts d)" "ac_id a \<notin> tx_id ` set (d_transactions d)"
    using ok i by (simp_all add: books_ok_def uuid_fresh_def uuid4_def)
  have get: "map_option ac_currency (get_account j d) = Some c \<Longrightarrow>
      map_option ac_currency (get_account j ?d) = Some c" for j c
    by (auto simp: get_account_def add_account_def uuid4_def find_append)
  have "journal_ok ?d"
  proof -
    have "entry_ok ?d e" if "entry_ok d e" for e
      using that get by (auto simp: entry_ok_def) (auto simp: add_account_def uuid4_def)
    then show ?thesis
      using ok fresh by (auto simp: books_ok_def journal_ok_def add_account_def uuid4_def balanced_def)
  qed
  moreover have "denominations_ok ?d"
  proof -
    have "get_credit_account i ?d = get_credit_account i d" for i
      by (simp add: get_credit_account_def add_account_def uuid4_def)
    then have "mirror_conflict ?d x = mirror_conflict d x" for x
      unfolding mirror_conflict_def by (simp split: option.split)
    then show ?thesis
      using ok cur mirror by (auto simp: books_ok_def denominations_ok_def) (auto simp: add_account_def uuid4_def)
  qed
  moreover have "uuid_fresh ?d"
    using ok i by (auto simp: books_ok_def uuid_fresh_def add_account_def uuid4_def dest: injD)
  ultimately show ?thesis by (simp add: books_ok_def)
qed

text \<open>What \<open>ensure_system_journal_account\<close> and \<open>ensure_credit_journal_account\<close> give their callers.\<close>

lemma get_added_account:
  assumes ok: "books_ok d" and i: "ac_id a = fst (uuid4 d)"
  shows "get_account (ac_id a) (add_account a (snd (uuid4 d))) = Some a"
proof -
  have "ac_id a \<notin> ac_id ` set (d_accounts d)"
    using ok i by (simp add: books_ok_def uuid_fresh_def uuid4_def)
  then have "List.find (\<lambda>x. ac_id x = ac_id a) (d_accounts d) = None"
    unfolding find_None_iff' by (metis imageI)
  then show ?thesis by (simp add: get_account_def add_account_def uuid4_def find_append)
qed

lemma ensure_system_facts:
  assumes ok: "books_ok d" and e: "ensure_system_journal_account n desc c d = Inr (a, d')"
  shows "books_ok d'" "get_account (ac_id a) d' = Some a" "ac_currency a = c"
    "d_entries d' = d_entries d" "d_transactions d' = d_transactions d"
    "d_credit_accounts d' = d_credit_accounts d"
    "\<And>i b. get_account i d = Some b \<Longrightarrow> get_account i d' = Some b"
proof -
  let ?m = "List.find (\<lambda>a. ac_account_number a = system_account_number n c) (d_accounts d)"
  have "books_ok d' \<and> get_account (ac_id a) d' = Some a \<and> ac_currency a = c
      \<and> d_entries d' = d_entries d \<and> d_transactions d' = d_transactions d
      \<and> d_credit_accounts d' = d_credit_accounts d
      \<and> (\<forall>i b. get_account i d = Some b \<longrightarrow> get_account i d' = Some b)"
  proof (cases ?m)
    case (Some x)
    have "get_account (ac_id x) d = Some x"
      using find_key_distinct [OF books_distinct(1) [OF ok]] find_Some_iff' [OF Some]
      by (simp add: get_account_def)
    with Some e ok show ?thesis
      by (auto simp: ensure_system_journal_account_def Let_def split: if_splits)
  next
    case None
    have cur: "c \<in> set SUPPORTED"
      using e by (auto simp: ensure_system_journal_account_def mk_money_def SUPPORTED_iff split: if_splits)
    from None e have a: "ac_id a = fst (uuid4 d)" "ac_currency a = c" "ac_credit_account_id a = None"
      and d': "d' = add_account a (snd (uuid4 d))"
      by (auto simp: ensure_system_journal_account_def Let_def uuid4_def split: if_splits)
    have "\<not> mirror_conflict d a" by (simp add: mirror_conflict_def a)
    then have "books_ok d'" unfolding d' using cur a by (intro books_add_account [OF ok]) simp_all
    moreover have "get_account (ac_id a) d' = Some a" unfolding d' by (rule get_added_account [OF ok a(1)])
    ultimately show ?thesis
      by (auto simp: d' a add_account_def uuid4_def get_account_def find_append)
  qed
  then show "books_ok d'" "get_account (ac_id a) d' = Some a" "ac_currency a = c"
    "d_entries d' = d_entries d" "d_transactions d' = d_transactions d"
    "d_credit_accounts d' = d_credit_accounts d"
    "\<And>i b. get_account i d = Some b \<Longrightarrow> get_account i d' = Some b"
    by blast+
qed


lemma ensure_credit_facts:
  assumes ok: "books_ok d" and c: "get_credit_account (ca_id c) d = Some c"
    and e: "ensure_credit_journal_account c d = Inr (a, d')"
  shows "books_ok d'" "get_account (ac_id a) d' = Some a" "ac_currency a = ca_currency c"
    "ac_credit_account_id a = Some (ca_id c)"
    "ac_cleared_balance_cents a = ca_cleared_balance_cents c"
    "ac_available_credit_cents a = ca_available_credit_cents c"
    "d_entries d' = d_entries d" "d_transactions d' = d_transactions d"
    "d_credit_accounts d' = d_credit_accounts d"
    "\<And>i b. get_account i d = Some b \<Longrightarrow> i \<noteq> ac_id a \<Longrightarrow> get_account i d' = Some b"
proof -
  let ?m = "List.find (\<lambda>a. ac_credit_account_id a = Some (ca_id c)) (d_accounts d)"
  have "books_ok d' \<and> get_account (ac_id a) d' = Some a \<and> ac_currency a = ca_currency c
      \<and> ac_credit_account_id a = Some (ca_id c)
      \<and> ac_cleared_balance_cents a = ca_cleared_balance_cents c
      \<and> ac_available_credit_cents a = ca_available_credit_cents c
      \<and> d_entries d' = d_entries d \<and> d_transactions d' = d_transactions d
      \<and> d_credit_accounts d' = d_credit_accounts d
      \<and> (\<forall>i b. get_account i d = Some b \<longrightarrow> i \<noteq> ac_id a \<longrightarrow> get_account i d' = Some b)"
  proof (cases ?m)
    case (Some x)
    have x: "get_account (ac_id x) d = Some x" "ac_credit_account_id x = Some (ca_id c)"
      using find_key_distinct [OF books_distinct(1) [OF ok]] find_Some_iff' [OF Some]
      by (simp_all add: get_account_def)
    from Some e have cur: "ac_currency x = ca_currency c" and a: "a = sync_mirror c x"
      and d': "d' = put_account (sync_mirror c x) d"
      by (auto simp: ensure_credit_journal_account_def split: if_splits)
    have g: "get_account (ac_id (sync_mirror c x)) d = Some x" by (simp add: sync_mirror_def x)
    have "books_ok d'" unfolding d'
      by (rule books_put_account [OF ok g]) (simp_all add: sync_mirror_def)
    moreover have "get_account (ac_id a) d' = Some a"
      unfolding d' a by (rule get_put_account) (simp add: sync_mirror_def x)
    moreover have "get_account i d' = Some b" if "get_account i d = Some b" "i \<noteq> ac_id a" for i b
      unfolding d' using that by (subst get_put_account_other) (simp_all add: a)
    ultimately show ?thesis
      by (simp add: d' a frame_simps) (simp add: sync_mirror_def cur x)
  next
    case None
    from None e have a: "ac_id a = fst (uuid4 d)" "ac_currency a = ca_currency c"
        "ac_credit_account_id a = Some (ca_id c)"
        "ac_cleared_balance_cents a = ca_cleared_balance_cents c"
        "ac_available_credit_cents a = ca_available_credit_cents c"
      and d': "d' = add_account a (snd (uuid4 d))"
      by (auto simp: ensure_credit_journal_account_def Let_def uuid4_def)
    have "ca_currency c \<in> set SUPPORTED"
      using ok get_credit_account_id [OF c] by (simp add: books_ok_def denominations_ok_def)
    moreover have "\<not> mirror_conflict d a" by (simp add: mirror_conflict_def a c)
    ultimately have "books_ok d'" unfolding d' using a by (intro books_add_account [OF ok]) simp_all
    moreover have "get_account (ac_id a) d' = Some a" unfolding d' by (rule get_added_account [OF ok a(1)])
    ultimately show ?thesis
      by (auto simp: d' a add_account_def uuid4_def get_account_def find_append)
  qed
  then show "books_ok d'" "get_account (ac_id a) d' = Some a" "ac_currency a = ca_currency c"
    "ac_credit_account_id a = Some (ca_id c)"
    "ac_cleared_balance_cents a = ca_cleared_balance_cents c"
    "ac_available_credit_cents a = ca_available_credit_cents c"
    "d_entries d' = d_entries d" "d_transactions d' = d_transactions d"
    "d_credit_accounts d' = d_credit_accounts d"
    "\<And>i b. get_account i d = Some b \<Longrightarrow> i \<noteq> ac_id a \<Longrightarrow> get_account i d' = Some b"
    by blast+
qed

lemma ensure_credit_frame [frame_simps]:
  assumes "ensure_credit_journal_account c d = Inr (j, d')"
  shows "d_posted d' = d_posted d" "d_auths d' = d_auths d" "d_cards d' = d_cards d"
    "d_case_actions d' = d_case_actions d" "d_outbox d' = d_outbox d" "d_uuid d' = d_uuid d"
  using assms by (auto simp: ensure_credit_journal_account_def put_account_def add_account_def uuid4_def Let_def
      split: option.splits if_splits)

lemma ensure_credit_mirror:
  assumes ok: "books_ok d" and e: "ensure_credit_journal_account c d = Inr (j, d')"
    and i: "get_account i d = Some b" "ac_credit_account_id b = None"
  shows "i \<noteq> ac_id j"
proof
  assume eq: "i = ac_id j"
  let ?m = "List.find (\<lambda>a. ac_credit_account_id a = Some (ca_id c)) (d_accounts d)"
  show False
  proof (cases ?m)
    case (Some x)
    have x: "get_account (ac_id x) d = Some x" "ac_credit_account_id x = Some (ca_id c)"
      using find_key_distinct [OF books_distinct(1) [OF ok]] find_Some_iff' [OF Some]
      by (simp_all add: get_account_def)
    have "ac_id j = ac_id x"
      using Some e by (auto simp: ensure_credit_journal_account_def sync_mirror_def split: if_splits)
    with x i eq show False by simp
  next
    case None
    with e have "ac_id j = d_uuid d (d_draws d)"
      by (auto simp: ensure_credit_journal_account_def uuid4_def Let_def)
    then have "ac_id j \<notin> ac_id ` set (d_accounts d)"
      using ok by (simp add: books_ok_def uuid_fresh_def)
    moreover have "i = ac_id b" "b \<in> set (d_accounts d)" using get_account_id [OF i(1)] by auto
    ultimately show False using eq by (metis imageI)
  qed
qed

lemma books_frame_put_posted:
  "books_ok d \<Longrightarrow> add_posted_transaction s d = Inr d' \<Longrightarrow> books_ok d'"
  by (erule books_ok_frame) (simp_all add: posted_frame tx_sig_def acct_sig_def card_sig_def)

lemma uuid4_frame:
  assumes "uuid4 d = (i, d')"
  shows "d_accounts d' = d_accounts d" "d_credit_accounts d' = d_credit_accounts d"
    "d_entries d' = d_entries d" "d_transactions d' = d_transactions d" "d_uuid d' = d_uuid d"
    "d_posted d' = d_posted d" "d_auths d' = d_auths d"
    "get_account k d' = get_account k d" "get_credit_account k d' = get_credit_account k d"
    "books_ok d \<Longrightarrow> books_ok d'"
  using assms books_uuid4 [of d] by (auto simp: uuid4_def get_account_def get_credit_account_def)

section \<open>Cached balances against the journal\<close>

definition is_cash :: "account \<Rightarrow> bool" where
  "is_cash a \<longleftrightarrow> ac_account_type a \<in> {''CHECKING'', ''SAVINGS''}"

definition is_card :: "account \<Rightarrow> bool" where
  "is_card a \<longleftrightarrow> ac_account_type a = ''CREDIT_CARD''"

text \<open>Only card receivables mirror a card account.\<close>

definition mirrors_ok :: "bank_db \<Rightarrow> bool" where
  "mirrors_ok d \<longleftrightarrow> (\<forall>a \<in> set (d_accounts d). ac_credit_account_id a \<noteq> None \<longrightarrow> is_card a)"

text \<open>With a well-formed journal no entry is an orphan, so the report reads positions.\<close>

lemma journal_minor_position:
  assumes "books_ok d"
  shows "journal_minor d a = (if is_card a then - position (ac_id a) (d_entries d) else position (ac_id a) (d_entries d))"
proof -
  have orph: "\<not> orphan d e" if "e \<in> set (d_entries d)" for e
  proof -
    from assms that obtain t b where "t \<in> set (d_transactions d)" "tx_id t = le_transaction_id e"
      "get_account (le_account_id e) d = Some b"
      by (auto simp: books_ok_def journal_ok_def entry_ok_def)
    then show ?thesis using get_account_id by (force simp: orphan_def)
  qed
  have "filter (\<lambda>e. \<not> orphan d e \<and> le_account_id e = ac_id a) (d_entries d)
      = filter (\<lambda>e. le_account_id e = ac_id a) (d_entries d)"
    by (rule filter_cong) (simp_all add: orph)
  moreover have "sum_list (map (\<lambda>e. entry_sign a e * le_amount_minor e) es)
      = (if is_card a then - sum_list (map signed es) else sum_list (map signed es))" for es
  proof -
    have "entry_sign a e * le_amount_minor e = (if is_card a then - signed e else signed e)" for e
      by (simp add: entry_sign_def signed_def is_card_def)
    then show ?thesis by (induction es) simp_all
  qed
  ultimately show ?thesis by (simp add: journal_minor_def position_def)
qed

text \<open>How far an account's cached balance is from what the journal says.\<close>

definition drift :: "bank_db \<Rightarrow> account \<Rightarrow> int" where
  "drift d a = ac_cleared_balance_cents a - journal_minor d a"

lemma drift_position:
  "books_ok d \<Longrightarrow> drift d a = (if is_card a then ac_cleared_balance_cents a + position (ac_id a) (d_entries d)
                             else ac_cleared_balance_cents a - position (ac_id a) (d_entries d))"
  by (simp add: drift_def journal_minor_position)

lemma no_differences_iff:
  "rp_balance_differences (reconcile_money d) = [] \<longleftrightarrow> (\<forall>a \<in> set (d_accounts d). drift d a = 0)"
  by (simp add: reconcile_money_def Let_def filter_empty_conv drift_def)


lemma drift_cong:
  assumes "books_ok d" "books_ok d'" "ac_id a' = ac_id a" "ac_account_type a' = ac_account_type a"
    and "ac_cleared_balance_cents a' - ac_cleared_balance_cents a
       = (if is_card a then position (ac_id a) (d_entries d) - position (ac_id a) (d_entries d')
          else position (ac_id a) (d_entries d') - position (ac_id a) (d_entries d))"
  shows "drift d' a' = drift d a"
proof (cases "is_card a")
  case True
  with assms show ?thesis by (simp add: drift_position is_card_def)
next
  case False
  with assms show ?thesis by (simp add: drift_position is_card_def)
qed


lemma sample_books: "books_ok sample_db"
proof -
  have "uuid_fresh sample_db"
    unfolding uuid_fresh_def by (simp add: sample_db_def sample_uuid_inj sample_deposit_def) (simp add: sample_uuid_def)
  moreover have "journal_ok sample_db"
    by (simp add: journal_ok_def sample_db_def sample_deposit_def)
  moreover have "denominations_ok sample_db"
    by (simp add: denominations_ok_def sample_db_def sample_deposit_def SUPPORTED_def mirror_conflict_def
        sample_card_account_def)
  ultimately show ?thesis by (simp add: books_ok_def)
qed

section \<open>Properties of the journal\<close>

definition sample_request :: posting_request where
  "sample_request =
     \<lparr>pr_idempotency_key = ''k-1'', pr_description = ''test'',
      pr_entries = two_lines ''CHK1'' ''SAV1'' \<lparr>amount_minor = 2500, currency_code = ''USD''\<rparr>,
      pr_source_type = ''TEST'', pr_currency = ''USD'', pr_source_references = [],
      pr_user_id = Some ''U1'', pr_posted_at = None\<rparr>"

text \<open>C21. A posting that succeeds is the append of one balanced transaction (or, under a known
  key, nothing): the books keep every invariant of the reconciliation, all earlier transactions
  and entries stay as they were, and the posted transaction's debits equal its credits.\<close>

theorem posting_keeps_books:
  assumes "books_ok d" and "post_financial_transaction now r d = Inr (p, d')"
  shows "books_ok d' \<and> migration_blockers (reconcile_money d') = []
    \<and> (\<exists>ts. d_transactions d' = d_transactions d @ ts) \<and> (\<exists>es. d_entries d' = d_entries d @ es)
    \<and> jp_transaction p \<in> set (d_transactions d')
    \<and> side_total ''DEBIT'' (entries_of (tx_id (jp_transaction p)) (d_entries d'))
      = side_total ''CREDIT'' (entries_of (tx_id (jp_transaction p)) (d_entries d'))"
proof -
  have ok: "books_ok d'" by (rule books_post [OF assms])
  have tx: "\<exists>ts. d_transactions d' = d_transactions d @ ts" "jp_transaction p \<in> set (d_transactions d')"
    using post_transactions [OF assms(2)] by blast+
  have "\<exists>es. d_entries d' = d_entries d @ es"
    using assms(2) by (cases rule: post_cases) (auto dest: append_posting_effect(4))
  moreover have "balanced d' (jp_transaction p)"
    using ok tx(2) by (simp add: books_ok_def journal_ok_def)
  ultimately show ?thesis
    using ok tx books_ok_no_blockers [OF ok] by (simp add: balanced_def)
qed

lemma sample_posting_succeeds:
  "\<exists>p d'. post_financial_transaction 7 sample_request sample_db = Inr (p, d')"
proof -
  have "\<not> isl (post_financial_transaction 7 sample_request sample_db)" by code_simp
  then show ?thesis by (cases "post_financial_transaction 7 sample_request sample_db") auto
qed

theorem posting_keeps_books_witness:
  "\<exists>p d'. post_financial_transaction 7 sample_request sample_db = Inr (p, d') \<and> books_ok d'"
  using sample_posting_succeeds posting_keeps_books [OF sample_books] by blast


text \<open>C26. Posting is idempotent: repeating an accepted posting, at any later time, returns the same
  transaction with the same event id and the same entries, and changes nothing.  (The entries of
  the repetition come in the order of their ids.)\<close>

theorem posting_idempotent:
  assumes "books_ok d" and "post_financial_transaction now r d = Inr (p, d')"
    and "List.find (\<lambda>t. tx_idempotency_key t = pr_idempotency_key r) (d_transactions d) = None"
    and "events_of (d_uuid d (d_draws d)) d = []"
  shows "\<exists>p'. post_financial_transaction later r d' = Inr (p', d')
    \<and> jp_transaction p' = jp_transaction p \<and> jp_event_id p' = jp_event_id p
    \<and> mset (jp_entries p') = mset (jp_entries p)"
  using assms(2)
proof (cases rule: post_cases)
  case replay
  with assms(3) show ?thesis by simp
next
  case (append ns)
  note eff = append_posting_effect [OF append(5)]
  have "le_transaction_id e \<noteq> d_uuid d (d_draws d)" if "e \<in> set (d_entries d)" for e
  proof -
    from assms(1) that have "le_transaction_id e \<in> tx_id ` set (d_transactions d)"
      by (force simp: books_ok_def journal_ok_def entry_ok_def)
    with assms(1) show ?thesis by (auto simp: books_ok_def uuid_fresh_def)
  qed
  then have none: "entries_of (d_uuid d (d_draws d)) (d_entries d) = []"
    by (simp add: entries_of_def filter_empty_conv)
  have key: "List.find (\<lambda>t. tx_idempotency_key t = pr_idempotency_key r) (d_transactions d')
      = Some (jp_transaction p)"
    using assms(3) by (simp add: eff(1,3) find_append) (simp add: new_transaction_def)
  have cur: "mk_money 0 (pr_currency r) = Inr \<lparr>amount_minor = 0, currency_code = pr_currency r\<rparr>"
    using append(6) by (simp add: mk_money_def MAX_MINOR_def)
  have "post_financial_transaction later r d' = replay_posting r ns (jp_transaction p) d'"
    using append(1,2,3) key cur by (simp add: post_financial_transaction_def)
  also have "\<dots> = Inr (\<lparr>jp_transaction = jp_transaction p, jp_entries = sort_key le_entry_id (jp_entries p),
             jp_event_id = jp_event_id p\<rparr>, d')"
    by (rule replay_after_append [OF append(1,5) none assms(4)])
  finally show ?thesis by simp
qed

theorem posting_idempotent_witness:
  "\<exists>p d' p'. post_financial_transaction 7 sample_request sample_db = Inr (p, d')
     \<and> post_financial_transaction 9 sample_request d' = Inr (p', d')
     \<and> jp_transaction p' = jp_transaction p"
proof -
  obtain p d' where p: "post_financial_transaction 7 sample_request sample_db = Inr (p, d')"
    using sample_posting_succeeds by blast
  have "List.find (\<lambda>t. tx_idempotency_key t = pr_idempotency_key sample_request) (d_transactions sample_db) = None"
    "events_of (d_uuid sample_db (d_draws sample_db)) sample_db = []"
    by (simp_all add: sample_db_def events_of_def)
  from posting_idempotent [OF sample_books p this, of 9] p show ?thesis by blast
qed

text \<open>Reusing an idempotency key for different journal lines is refused: a posting whose key
  names a transaction with another multiset of (account, side, amount), or another currency,
  raises and posts nothing.\<close>

theorem posting_key_reuse_refused:
  assumes "List.find (\<lambda>t. tx_idempotency_key t = pr_idempotency_key r) (d_transactions d) = Some t"
    and "normalize_entries (pr_currency r) (pr_entries r) = Inr ns"
    and "requested_signature ns \<noteq> existing_signature (entries_of (tx_id t) (d_entries d))
         \<or> tx_currency_code t \<noteq> pr_currency r"
  shows "\<exists>e. post_financial_transaction now r d = Inl e"
  using assms
  by (cases "mk_money 0 (pr_currency r)") (auto simp: post_financial_transaction_def replay_posting_def)

definition sample_posted_db :: bank_db where
  "sample_posted_db = (case post_financial_transaction 7 sample_request sample_db of
     Inr (p, d') \<Rightarrow> d' | Inl e \<Rightarrow> sample_db)"

theorem posting_key_reuse_refused_witness:
  "\<exists>e. post_financial_transaction 8
     (sample_request\<lparr>pr_entries := two_lines ''CHK1'' ''SAV1'' \<lparr>amount_minor = 1, currency_code = ''USD''\<rparr>\<rparr>)
     sample_posted_db = Inl e"
proof -
  let ?r = "sample_request\<lparr>pr_entries := two_lines ''CHK1'' ''SAV1'' \<lparr>amount_minor = 1, currency_code = ''USD''\<rparr>\<rparr>"
  let ?t = "new_transaction sample_request sample_db"
  let ?ns = "two_lines ''CHK1'' ''SAV1'' \<lparr>amount_minor = 1, currency_code = ''USD''\<rparr>"
  have "List.find (\<lambda>t. tx_idempotency_key t = pr_idempotency_key ?r) (d_transactions sample_posted_db) = Some ?t"
    by code_simp
  moreover have "normalize_entries (pr_currency ?r) (pr_entries ?r) = Inr ?ns" by code_simp
  moreover have "requested_signature ?ns \<noteq> existing_signature (entries_of (tx_id ?t) (d_entries sample_posted_db))"
    by code_simp
  ultimately show ?thesis using posting_key_reuse_refused [of ?r sample_posted_db ?t ?ns 8] by blast
qed

end
