(* ===== verification/Ledger.thy ===== *)
theory Ledger
  imports Reconciliation
begin

text \<open>
  \<open>LedgerService\<close> (\<^verbatim>\<open>services/ledger.py\<close>): idempotent double-entry transfers between two
  universal accounts.  \<open>sha256_json\<close> stands for hashing the canonical JSON of the request;
  \<open>commit_ok\<close> is false when the commit itself reports a lock conflict.
\<close>

section \<open>Operations\<close>

record transfer_args =
  tr_source_account_id :: string
  tr_dest_account_id :: string
  tr_money :: money
  tr_description :: string
  tr_idempotency_key :: string
  tr_user_id :: "string option"
  tr_request_payload :: "pyval option"

definition CONFLICT :: py_error where
  "CONFLICT = HTTPException 409 ''Account concurrency lock conflict or timeout. Please retry.''"

definition lock_order :: "string list \<Rightarrow> string list" where
  "lock_order account_ids = sort (remdups account_ids)"

definition acquire_account_locks :: "string list \<Rightarrow> bank_db \<Rightarrow> account list res" where
  "acquire_account_locks account_ids d =
     (let sorted_ids = lock_order account_ids;
          accounts = sort_key ac_id (filter (\<lambda>a. ac_id a \<in> set sorted_ids) (d_accounts d))
      in if list_ex (\<lambda>a. ac_id a \<in> set (d_locked d)) accounts then Inl CONFLICT
         else if length accounts \<noteq> length sorted_ids
         then Inl (HTTPException 404 ''One or more specified accounts were not found.'')
         else Inr accounts)"

definition transfer_replay :: "transfer_args \<Rightarrow> string option \<Rightarrow> transaction \<Rightarrow> pyval option res" where
  "transfer_replay args req_hash existing_tx =
     (let previous = (case tx_response_payload existing_tx of None \<Rightarrow> PDict [] | Some v \<Rightarrow> v)
      in if tx_currency_code existing_tx \<noteq> currency_code (tr_money args)
            \<or> dict_get previous ''money'' \<noteq> model_dump (tr_money args)
            \<or> dict_get previous ''source_account_id'' \<noteq> PStr (tr_source_account_id args)
            \<or> dict_get previous ''dest_account_id'' \<noteq> PStr (tr_dest_account_id args)
         then Inl (HTTPException 409 ''Idempotency key collision with altered parameters.'')
         else if req_hash \<noteq> None \<and> tx_request_hash existing_tx \<noteq> None
                 \<and> req_hash \<noteq> tx_request_hash existing_tx
         then Inl (HTTPException 409 ''Idempotency key collision with altered parameters.'')
         else Inr (tx_response_payload existing_tx))"

definition check_funds :: "account \<Rightarrow> int \<Rightarrow> unit res" where
  "check_funds src amount =
     (if is_cash src then
        (if ac_cleared_balance_cents src < amount
         then Inl (HTTPException 422 ''Insufficient cash funds in checking/savings account.'') else Inr ())
      else if is_card src then
        (if ac_available_credit_cents src < amount
         then Inl (HTTPException 422 ''Insufficient available credit.'') else Inr ())
      else Inr ())"

definition debit_source :: "int \<Rightarrow> account \<Rightarrow> account" where
  "debit_source amount a =
     (if is_cash a then a\<lparr>ac_cleared_balance_cents := ac_cleared_balance_cents a - amount\<rparr>
      else if is_card a then a\<lparr>ac_available_credit_cents := ac_available_credit_cents a - amount,
                              ac_cleared_balance_cents := ac_cleared_balance_cents a + amount\<rparr>
      else a)"

definition credit_dest :: "int \<Rightarrow> account \<Rightarrow> account" where
  "credit_dest amount a =
     (if is_cash a then a\<lparr>ac_cleared_balance_cents := ac_cleared_balance_cents a + amount\<rparr>
      else if is_card a then a\<lparr>ac_available_credit_cents := ac_available_credit_cents a + amount,
                              ac_cleared_balance_cents := ac_cleared_balance_cents a - amount\<rparr>
      else a)"

definition transfer_request :: "transfer_args \<Rightarrow> account \<Rightarrow> account \<Rightarrow> posting_request" where
  "transfer_request args src dst =
     \<lparr>pr_idempotency_key = tr_idempotency_key args, pr_description = tr_description args,
      pr_entries = two_lines (ac_id src) (ac_id dst) (tr_money args),
      pr_source_type = ''ACCOUNT_TRANSFER'',
      pr_currency = (if ac_currency src = [] then ''USD'' else ac_currency src),
      pr_source_references = [(''source_account_id'', PStr (ac_id src)),
                              (''destination_account_id'', PStr (ac_id dst))],
      pr_user_id = (case tr_user_id args of Some u \<Rightarrow> Some u | None \<Rightarrow> ac_user_id src),
      pr_posted_at = None\<rparr>"

definition transfer_result :: "transfer_args \<Rightarrow> transaction \<Rightarrow> account \<Rightarrow> account \<Rightarrow> pyval" where
  "transfer_result args tx src dst =
     PDict [(''status'', PStr ''SUCCESS''),
            (''transaction_id'', PStr (tx_id tx)),
            (''source_account_id'', PStr (ac_id src)),
            (''dest_account_id'', PStr (ac_id dst)),
            (''money'', model_dump (tr_money args)),
            (''idempotency_key'', PStr (tr_idempotency_key args))]"

text \<open>Steps 2 to 5 of \<open>execute_transfer\<close>, for a key that is not known.\<close>

definition transfer_fresh ::
    "int \<Rightarrow> string option \<Rightarrow> transfer_args \<Rightarrow> bank_db \<Rightarrow> (pyval \<times> bank_db) res" where
  "transfer_fresh now req_hash args d =
     (let money = tr_money args; amount = amount_minor money in
      bindR (acquire_account_locks [tr_source_account_id args, tr_dest_account_id args] d) (\<lambda>locks.
      case (List.find (\<lambda>a. ac_id a = tr_source_account_id args) locks,
            List.find (\<lambda>a. ac_id a = tr_dest_account_id args) locks) of
        (Some src, Some dst) \<Rightarrow>
          if ac_currency src \<noteq> currency_code money \<or> ac_currency dst \<noteq> currency_code money
          then Inl (HTTPException 422 ''Transfer account denomination mismatch.'')
          else bindR (check_funds src amount) (\<lambda>_.
            bindR (post_financial_transaction now (transfer_request args src dst) d) (\<lambda>(posting, d1).
              let d2 = update_account (debit_source amount) (ac_id src) d1;
                  d3 = update_account (credit_dest amount) (ac_id dst) d2;
                  tx = jp_transaction posting;
                  result = transfer_result args tx src dst;
                  d4 = put_transaction (tx\<lparr>tx_request_hash := req_hash,
                         tx_response_payload := Some result, tx_response_status := Some 200\<rparr>) d3;
                  d5 = record_audit_event now ''MONETARY_TRANSFER_EXECUTED'' result None 1 d4
              in Inr (result, d5)))
      | _ \<Rightarrow> Inl (KeyError ''locks'')))"

definition transfer_body ::
    "(pyval \<Rightarrow> string) \<Rightarrow> int \<Rightarrow> bool \<Rightarrow> transfer_args \<Rightarrow> bank_db \<Rightarrow> (pyval \<times> bank_db) res" where
  "transfer_body sha256_json now commit_ok args d =
     (if amount_minor (tr_money args) \<le> 0
      then Inl (HTTPException 400 ''Transfer amount must be positive.'')
      else
        let req_hash = map_option sha256_json (tr_request_payload args);
            run = bindR (transfer_fresh now req_hash args d)
                    (\<lambda>(result, d'). if commit_ok then Inr (result, d') else Inl CONFLICT)
        in (case List.find (\<lambda>t. tx_idempotency_key t = tr_idempotency_key args) (d_transactions d) of
              None \<Rightarrow> run
            | Some existing_tx \<Rightarrow>
                bindR (transfer_replay args req_hash existing_tx) (\<lambda>payload.
                  case payload of Some result \<Rightarrow> Inr (result, d) | None \<Rightarrow> run)))"

definition execute_transfer ::
    "(pyval \<Rightarrow> string) \<Rightarrow> int \<Rightarrow> bool \<Rightarrow> transfer_args \<Rightarrow> bank_db \<Rightarrow> bank_db \<times> pyval res" where
  "execute_transfer sha256_json now commit_ok args = atomically (transfer_body sha256_json now commit_ok args)"

section \<open>Lock order\<close>

lemma lock_order_set: "set xs = set ys \<Longrightarrow> lock_order xs = lock_order ys"
proof -
  assume eq: "set xs = set ys"
  have "mset (remdups xs) = mset (remdups ys)"
    using eq by (simp add: set_eq_iff_mset_remdups_eq)
  then show ?thesis
    unfolding lock_order_def by (metis properties_for_sort mset_sort sorted_sort)
qed

lemma lock_order_sorted: "sorted (lock_order xs)" "distinct (lock_order xs)"
  by (simp_all add: lock_order_def)

section \<open>Effect of a transfer\<close>

lemma acquire_account_locks_get:
  assumes ok: "books_ok d" and l: "acquire_account_locks ids d = Inr locks"
  shows "List.find (\<lambda>a. ac_id a = i) locks = Some a \<Longrightarrow> get_account i d = Some a"
proof -
  assume f: "List.find (\<lambda>a. ac_id a = i) locks = Some a"
  from l have "set locks \<subseteq> set (d_accounts d)"
    by (auto simp: acquire_account_locks_def Let_def split: if_splits)
  with find_Some_iff' [OF f] have "a \<in> set (d_accounts d)" "ac_id a = i" by auto
  then show ?thesis
    using find_key_distinct [OF books_distinct(1) [OF ok]] by (auto simp: get_account_def)
qed

lemma update_simps [simp]:
  "ac_id (debit_source n a) = ac_id a" "ac_currency (debit_source n a) = ac_currency a"
  "ac_credit_account_id (debit_source n a) = ac_credit_account_id a"
  "ac_account_type (debit_source n a) = ac_account_type a"
  "ac_id (credit_dest n a) = ac_id a" "ac_currency (credit_dest n a) = ac_currency a"
  "ac_credit_account_id (credit_dest n a) = ac_credit_account_id a"
  "ac_account_type (credit_dest n a) = ac_account_type a"
  by (simp_all add: debit_source_def credit_dest_def)

text \<open>The facts every property of a new transfer starts from.\<close>

lemma transfer_fresh_effect:
  assumes ok: "books_ok d" and t: "transfer_fresh now h args d = Inr (result, d')"
  obtains src dst p d1 where
    "get_account (tr_source_account_id args) d = Some src"
    "get_account (tr_dest_account_id args) d = Some dst"
    "ac_currency src = currency_code (tr_money args)" "ac_currency dst = currency_code (tr_money args)"
    "check_funds src (amount_minor (tr_money args)) = Inr ()"
    "post_financial_transaction now (transfer_request args src dst) d = Inr (p, d1)"
    "result = transfer_result args (jp_transaction p) src dst"
    "d' = record_audit_event now ''MONETARY_TRANSFER_EXECUTED'' result None 1
       (put_transaction ((jp_transaction p)\<lparr>tx_request_hash := h,
          tx_response_payload := Some result, tx_response_status := Some 200\<rparr>)
         (update_account (credit_dest (amount_minor (tr_money args))) (ac_id dst)
           (update_account (debit_source (amount_minor (tr_money args))) (ac_id src) d1)))"
proof -
  obtain locks where locks: "acquire_account_locks [tr_source_account_id args, tr_dest_account_id args] d = Inr locks"
    using t by (auto simp: transfer_fresh_def Let_def)
  obtain src dst where sd: "List.find (\<lambda>a. ac_id a = tr_source_account_id args) locks = Some src"
    "List.find (\<lambda>a. ac_id a = tr_dest_account_id args) locks = Some dst"
    using t locks by (auto simp: transfer_fresh_def Let_def split: option.splits)
  from t locks sd obtain p d1 where
    post: "post_financial_transaction now (transfer_request args src dst) d = Inr (p, d1)" and
    cur: "ac_currency src = currency_code (tr_money args)" "ac_currency dst = currency_code (tr_money args)" and
    funds: "check_funds src (amount_minor (tr_money args)) = Inr ()" and
    result: "result = transfer_result args (jp_transaction p) src dst" and
    d': "d' = record_audit_event now ''MONETARY_TRANSFER_EXECUTED'' result None 1
       (put_transaction ((jp_transaction p)\<lparr>tx_request_hash := h,
          tx_response_payload := Some result, tx_response_status := Some 200\<rparr>)
         (update_account (credit_dest (amount_minor (tr_money args))) (ac_id dst)
           (update_account (debit_source (amount_minor (tr_money args))) (ac_id src) d1)))"
    by (auto simp: transfer_fresh_def Let_def split: if_splits)
  show thesis
    by (rule that [OF acquire_account_locks_get [OF ok locks sd(1)] acquire_account_locks_get [OF ok locks sd(2)]
          cur funds post result d'])
qed


lemma transfer_append:
  assumes "post_financial_transaction now (transfer_request args src dst) d = Inr (p, d1)"
    and "List.find (\<lambda>t. tx_idempotency_key t = tr_idempotency_key args) (d_transactions d) = None"
  shows "append_posting now (transfer_request args src dst) (two_lines (ac_id src) (ac_id dst) (tr_money args)) d = Inr (p, d1)"
  using assms by (intro post_two_lines_effect(1) [OF assms(1)]) (simp_all add: transfer_request_def)

lemma transfer_fresh_books:
  assumes ok: "books_ok d" and t: "transfer_fresh now h args d = Inr (result, d')"
  shows "books_ok d'"
proof -
  obtain src dst p d1 where
    post: "post_financial_transaction now (transfer_request args src dst) d = Inr (p, d1)" and
    d': "d' = record_audit_event now ''MONETARY_TRANSFER_EXECUTED'' result None 1
       (put_transaction ((jp_transaction p)\<lparr>tx_request_hash := h,
          tx_response_payload := Some result, tx_response_status := Some 200\<rparr>)
         (update_account (credit_dest (amount_minor (tr_money args))) (ac_id dst)
           (update_account (debit_source (amount_minor (tr_money args))) (ac_id src) d1)))"
    using transfer_fresh_effect [OF ok t] by metis
  let ?d3 = "update_account (credit_dest (amount_minor (tr_money args))) (ac_id dst)
           (update_account (debit_source (amount_minor (tr_money args))) (ac_id src) d1)"
  have "books_ok ?d3"
    by (intro update_account_books books_post [OF ok post]) simp_all
  moreover have "jp_transaction p \<in> set (d_transactions ?d3)"
    using post_transactions [OF post] by (simp add: frame_simps)
  ultimately show ?thesis
    unfolding d' by (intro books_audit books_put_transaction) simp_all
qed

lemma execute_transfer_cases:
  obtains (rejected) e where "execute_transfer sha now cok args d = (d, Inl e)"
  | (replayed) existing result where
      "List.find (\<lambda>t. tx_idempotency_key t = tr_idempotency_key args) (d_transactions d) = Some existing"
      "transfer_replay args (map_option sha (tr_request_payload args)) existing = Inr (Some result)"
      "execute_transfer sha now cok args d = (d, Inr result)"
  | (executed) result d' where
      "0 < amount_minor (tr_money args)" "cok"
      "transfer_fresh now (map_option sha (tr_request_payload args)) args d = Inr (result, d')"
      "execute_transfer sha now cok args d = (d', Inr result)"
proof (cases rule: atomically_cases [of "transfer_body sha now cok args" d])
  case (err e)
  then show thesis by (intro rejected) (simp add: execute_transfer_def)
next
  case (ok result d')
  let ?h = "map_option sha (tr_request_payload args)"
  let ?find = "List.find (\<lambda>t. tx_idempotency_key t = tr_idempotency_key args) (d_transactions d)"
  let ?run = "bindR (transfer_fresh now ?h args d)
                (\<lambda>(result, d'). if cok then Inr (result, d') else Inl CONFLICT)"
  have ex: "execute_transfer sha now cok args d = (d', Inr result)" using ok(2) by (simp add: execute_transfer_def)
  have pos: "0 < amount_minor (tr_money args)" using ok(1) by (auto simp: transfer_body_def split: if_splits)
  have run: thesis if "?run = Inr (result, d')"
    using that pos ex by (intro executed) (auto split: if_splits)
  show thesis
  proof (cases ?find)
    case None
    with ok(1) pos show thesis by (intro run) (simp add: transfer_body_def Let_def)
  next
    case (Some existing)
    with ok(1) pos obtain payload where payload: "transfer_replay args ?h existing = Inr payload"
      and rest: "(case payload of Some result \<Rightarrow> Inr (result, d) | None \<Rightarrow> ?run) = Inr (result, d')"
      unfolding transfer_body_def Let_def by auto
    show thesis
    proof (cases payload)
      case None
      with rest show thesis by (intro run) simp
    next
      case (Some r)
      with rest have "r = result" "d' = d" by simp_all
      with payload Some \<open>?find = Some existing\<close> ex show thesis by (intro replayed) simp_all
    qed
  qed
qed


text \<open>The accounts of a new transfer, after it: source debited, destination credited, in that order.\<close>

lemma transfer_fresh_accounts:
  assumes ok: "books_ok d" and t: "transfer_fresh now h args d = Inr (result, d')"
    and new: "List.find (\<lambda>t. tx_idempotency_key t = tr_idempotency_key args) (d_transactions d) = None"
  shows "get_account i d' = map_option
      ((if i = tr_dest_account_id args then credit_dest (amount_minor (tr_money args)) else id)
       \<circ> (if i = tr_source_account_id args then debit_source (amount_minor (tr_money args)) else id))
      (get_account i d)"
    and "position i (d_entries d') = position i (d_entries d)
      + (if i = tr_dest_account_id args then amount_minor (tr_money args) else 0)
      - (if i = tr_source_account_id args then amount_minor (tr_money args) else 0)"
proof -
  obtain src dst p d1 where sd: "get_account (tr_source_account_id args) d = Some src"
      "get_account (tr_dest_account_id args) d = Some dst" and
    post: "post_financial_transaction now (transfer_request args src dst) d = Inr (p, d1)" and
    d': "d' = record_audit_event now ''MONETARY_TRANSFER_EXECUTED'' result None 1
       (put_transaction ((jp_transaction p)\<lparr>tx_request_hash := h,
          tx_response_payload := Some result, tx_response_status := Some 200\<rparr>)
         (update_account (credit_dest (amount_minor (tr_money args))) (ac_id dst)
           (update_account (debit_source (amount_minor (tr_money args))) (ac_id src) d1)))"
    using transfer_fresh_effect [OF ok t] by metis
  note ap = transfer_append [OF post new]
  have ids: "ac_id src = tr_source_account_id args" "ac_id dst = tr_dest_account_id args"
    using sd by (simp_all add: get_account_id)
  have d1: "get_account j d1 = get_account j d" for j
    by (simp add: get_account_def append_posting_effect(5) [OF ap])
  have "get_account i d' = get_account i (update_account (credit_dest (amount_minor (tr_money args))) (ac_id dst)
           (update_account (debit_source (amount_minor (tr_money args))) (ac_id src) d1))"
    unfolding d' by (simp add: get_account_def frame_simps put_transaction_def)
  then show "get_account i d' = map_option
      ((if i = tr_dest_account_id args then credit_dest (amount_minor (tr_money args)) else id)
       \<circ> (if i = tr_source_account_id args then debit_source (amount_minor (tr_money args)) else id))
      (get_account i d)"
    by (simp add: update_account_get ids d1 option.map_comp option.map_id)
  have "position i (d_entries d') = position i (d_entries d1)"
    unfolding d' by (simp add: frame_simps put_transaction_def)
  then show "position i (d_entries d') = position i (d_entries d)
      + (if i = tr_dest_account_id args then amount_minor (tr_money args) else 0)
      - (if i = tr_source_account_id args then amount_minor (tr_money args) else 0)"
    by (simp add: append_posting_effect(4) [OF ap] spec_position_two_lines ids)
qed

text \<open>The reply a transfer stores is the one a repetition reads back.\<close>

lemma transfer_fresh_recorded:
  assumes ok: "books_ok d" and t: "transfer_fresh now h args d = Inr (result, d')"
    and new: "List.find (\<lambda>t. tx_idempotency_key t = tr_idempotency_key args) (d_transactions d) = None"
  shows "\<exists>tx. List.find (\<lambda>t. tx_idempotency_key t = tr_idempotency_key args) (d_transactions d') = Some tx
     \<and> tx_request_hash tx = h \<and> tx_response_payload tx = Some result
     \<and> tx_currency_code tx = currency_code (tr_money args)"
    and "dict_get result ''money'' = model_dump (tr_money args)"
    and "dict_get result ''source_account_id'' = PStr (tr_source_account_id args)"
    and "dict_get result ''dest_account_id'' = PStr (tr_dest_account_id args)"
proof -
  obtain src dst p d1 where sd: "get_account (tr_source_account_id args) d = Some src"
      "get_account (tr_dest_account_id args) d = Some dst" and
    post: "post_financial_transaction now (transfer_request args src dst) d = Inr (p, d1)" and
    result: "result = transfer_result args (jp_transaction p) src dst" and
    d': "d' = record_audit_event now ''MONETARY_TRANSFER_EXECUTED'' result None 1
       (put_transaction ((jp_transaction p)\<lparr>tx_request_hash := h,
          tx_response_payload := Some result, tx_response_status := Some 200\<rparr>)
         (update_account (credit_dest (amount_minor (tr_money args))) (ac_id dst)
           (update_account (debit_source (amount_minor (tr_money args))) (ac_id src) d1)))"
    using transfer_fresh_effect [OF ok t] by metis
  note ap = transfer_append [OF post new]
  have ids: "ac_id src = tr_source_account_id args" "ac_id dst = tr_dest_account_id args"
    using sd by (simp_all add: get_account_id)
  let ?tx = "(jp_transaction p)\<lparr>tx_request_hash := h, tx_response_payload := Some result,
               tx_response_status := Some 200\<rparr>"
  have p: "tx_id ?tx = d_uuid d (d_draws d)" "tx_idempotency_key ?tx = tr_idempotency_key args"
    "tx_currency_code ?tx = currency_code (tr_money args)"
    using post_two_lines_effect(2) [OF post] new
    by (simp_all add: append_posting_effect(1) [OF ap] new_transaction_def transfer_request_def)
  have txs: "d_transactions d1 = d_transactions d @ [jp_transaction p]"
    by (simp add: append_posting_effect(1,3) [OF ap])
  have old: "put_row tx_id ?tx (d_transactions d) = d_transactions d"
    by (rule put_row_absent) (use ok p(1) in \<open>simp add: books_ok_def uuid_fresh_def\<close>)
  have "d_transactions d' = d_transactions d @ [?tx]"
    unfolding d' using old by (simp add: frame_simps put_transaction_def txs) (simp add: put_row_def)
  then have "List.find (\<lambda>t. tx_idempotency_key t = tr_idempotency_key args) (d_transactions d') = Some ?tx"
    using p(2) by (simp add: find_append new)
  then show "\<exists>tx. List.find (\<lambda>t. tx_idempotency_key t = tr_idempotency_key args) (d_transactions d') = Some tx
     \<and> tx_request_hash tx = h \<and> tx_response_payload tx = Some result
     \<and> tx_currency_code tx = currency_code (tr_money args)"
    using p(3) by auto
  show "dict_get result ''money'' = model_dump (tr_money args)"
    "dict_get result ''source_account_id'' = PStr (tr_source_account_id args)"
    "dict_get result ''dest_account_id'' = PStr (tr_dest_account_id args)"
    by (simp_all add: result transfer_result_def ids)
qed


section \<open>Properties of transfers\<close>

definition sample_transfer :: transfer_args where
  "sample_transfer =
     \<lparr>tr_source_account_id = ''CHK1'', tr_dest_account_id = ''SAV1'',
      tr_money = \<lparr>amount_minor = 2500, currency_code = ''USD''\<rparr>, tr_description = ''rent'',
      tr_idempotency_key = ''key-1'', tr_user_id = None, tr_request_payload = None\<rparr>"

abbreviation sample_execute :: "bank_db \<times> pyval res" where
  "sample_execute \<equiv> execute_transfer (\<lambda>_. ''hash'') 7 True sample_transfer sample_db"

lemma sample_execute_ok: "\<exists>result. snd sample_execute = Inr result"
proof -
  have "\<not> isl (snd sample_execute)" by code_simp
  then show ?thesis by (cases "snd sample_execute") auto
qed

text \<open>C27. Every call of \<open>execute_transfer\<close>, accepted or not, keeps the books free of reconciliation
  blockers; a call that raises leaves the database exactly as it was.\<close>

theorem transfer_keeps_books:
  assumes "books_ok d"
  shows "books_ok (fst (execute_transfer sha now cok args d))
    \<and> migration_blockers (reconcile_money (fst (execute_transfer sha now cok args d))) = []
    \<and> (isl (snd (execute_transfer sha now cok args d)) \<longrightarrow> fst (execute_transfer sha now cok args d) = d)"
proof (cases rule: execute_transfer_cases [of sha now cok args d])
  case rejected
  with assms books_ok_no_blockers show ?thesis by simp
next
  case replayed
  with assms books_ok_no_blockers show ?thesis by simp
next
  case (executed result d')
  have "books_ok d'" by (rule transfer_fresh_books [OF assms executed(3)])
  with executed(4) books_ok_no_blockers show ?thesis by simp
qed

theorem transfer_keeps_books_witness:
  "books_ok (fst sample_execute) \<and> d_transactions (fst sample_execute) \<noteq> []"
proof -
  have "d_transactions (fst sample_execute) \<noteq> []" by code_simp
  then show ?thesis using transfer_keeps_books [OF sample_books] by blast
qed

text \<open>C29. A new transfer between two different cash accounts takes exactly the amount from the
  source, gives exactly the amount to the destination, never overdraws the source, and touches no
  other account.\<close>

theorem transfer_moves_money:
  assumes "books_ok d" and "snd (execute_transfer sha now cok args d) = Inr result"
    and "List.find (\<lambda>t. tx_idempotency_key t = tr_idempotency_key args) (d_transactions d) = None"
    and "get_account (tr_source_account_id args) d = Some src" "is_cash src"
    and "get_account (tr_dest_account_id args) d = Some dst" "is_cash dst"
    and "tr_source_account_id args \<noteq> tr_dest_account_id args"
  shows "let d' = fst (execute_transfer sha now cok args d); amount = amount_minor (tr_money args) in
      get_account (tr_source_account_id args) d'
        = Some (src\<lparr>ac_cleared_balance_cents := ac_cleared_balance_cents src - amount\<rparr>)
    \<and> get_account (tr_dest_account_id args) d'
        = Some (dst\<lparr>ac_cleared_balance_cents := ac_cleared_balance_cents dst + amount\<rparr>)
    \<and> 0 < amount \<and> amount \<le> ac_cleared_balance_cents src
    \<and> (\<forall>i. i \<notin> {tr_source_account_id args, tr_dest_account_id args}
          \<longrightarrow> get_account i d' = get_account i d)"
proof (cases rule: execute_transfer_cases [of sha now cok args d])
  case (rejected e)
  with assms(2) show ?thesis by simp
next
  case (replayed existing r)
  with assms(3) show ?thesis by simp
next
  case (executed r d')
  note acc = transfer_fresh_accounts(1) [OF assms(1) executed(3) assms(3)]
  obtain src' where "get_account (tr_source_account_id args) d = Some src'"
    "check_funds src' (amount_minor (tr_money args)) = Inr ()"
    using transfer_fresh_effect [OF assms(1) executed(3)] by metis
  then have "amount_minor (tr_money args) \<le> ac_cleared_balance_cents src"
    using assms(4,5) by (auto simp: check_funds_def split: if_splits)
  then show ?thesis
    using assms(4-8) executed(1,4)
    by (simp add: Let_def acc debit_source_def credit_dest_def option.map_id)
qed

theorem transfer_moves_money_witness:
  "map_option ac_cleared_balance_cents (get_account ''CHK1'' (fst sample_execute)) = Some 97500
   \<and> map_option ac_cleared_balance_cents (get_account ''SAV1'' (fst sample_execute)) = Some 7500"
proof -
  obtain result where r: "snd sample_execute = Inr result" using sample_execute_ok by blast
  let ?src = "sample_deposit ''CHK1'' ''CHECKING'' 100000 ''USD''"
  let ?dst = "sample_deposit ''SAV1'' ''SAVINGS'' 5000 ''USD''"
  have h: "List.find (\<lambda>t. tx_idempotency_key t = tr_idempotency_key sample_transfer) (d_transactions sample_db) = None"
    "get_account (tr_source_account_id sample_transfer) sample_db = Some ?src" "is_cash ?src"
    "get_account (tr_dest_account_id sample_transfer) sample_db = Some ?dst" "is_cash ?dst"
    "tr_source_account_id sample_transfer \<noteq> tr_dest_account_id sample_transfer"
    by (simp_all add: sample_db_def sample_transfer_def get_account_def sample_deposit_def is_cash_def)
  from transfer_moves_money [OF sample_books r h] show ?thesis
    by (simp add: Let_def sample_transfer_def sample_deposit_def)
qed

text \<open>C30. No transfer moves an account's cached balance away from the journal: for every checking,
  savings or card account the reconciliation difference (cached minus journal) is the same before
  and after, whoever else the transfer involves, also when source and destination coincide.\<close>

theorem transfer_no_drift:
  assumes "books_ok d" and "snd (execute_transfer sha now cok args d) = Inr result"
    and "get_account i d = Some a" and "is_cash a \<or> is_card a"
    and "List.find (\<lambda>t. tx_idempotency_key t = tr_idempotency_key args) (d_transactions d) = None"
  shows "\<exists>a'. get_account i (fst (execute_transfer sha now cok args d)) = Some a'
    \<and> ac_account_type a' = ac_account_type a
    \<and> drift (fst (execute_transfer sha now cok args d)) a' = drift d a"
proof (cases rule: execute_transfer_cases [of sha now cok args d])
  case (rejected e)
  with assms(2) show ?thesis by simp
next
  case (replayed existing r)
  with assms(5) show ?thesis by simp
next
  case (executed r d')
  let ?n = "amount_minor (tr_money args)"
  define a' where "a' = ((if i = tr_dest_account_id args then credit_dest ?n else id)
       \<circ> (if i = tr_source_account_id args then debit_source ?n else id)) a"
  have get: "get_account i d' = Some a'"
    using transfer_fresh_accounts(1) [OF assms(1) executed(3) assms(5), of i] assms(3)
    by (simp add: a'_def)
  have type: "ac_account_type a' = ac_account_type a" by (simp add: a'_def)
  have i: "ac_id a = i" using assms(3) by (simp add: get_account_id)
  have "drift d' a' = drift d a"
  proof (rule drift_cong)
    show "ac_cleared_balance_cents a' - ac_cleared_balance_cents a
       = (if is_card a then position (ac_id a) (d_entries d) - position (ac_id a) (d_entries d')
          else position (ac_id a) (d_entries d') - position (ac_id a) (d_entries d))"
      unfolding i transfer_fresh_accounts(2) [OF assms(1) executed(3) assms(5)]
      using assms(4) by (auto simp: a'_def debit_source_def credit_dest_def is_cash_def is_card_def)
  qed (use assms(1) transfer_fresh_books [OF assms(1) executed(3)] in \<open>simp_all add: a'_def\<close>)
  with get type executed(4) show ?thesis by simp
qed

theorem transfer_no_drift_witness:
  "\<exists>a'. get_account ''SAV1'' (fst sample_execute) = Some a' \<and> drift (fst sample_execute) a' = 5000"
proof -
  obtain result where r: "snd sample_execute = Inr result" using sample_execute_ok by blast
  let ?a = "sample_deposit ''SAV1'' ''SAVINGS'' 5000 ''USD''"
  have h: "get_account ''SAV1'' sample_db = Some ?a" "is_cash ?a \<or> is_card ?a"
    "List.find (\<lambda>t. tx_idempotency_key t = tr_idempotency_key sample_transfer) (d_transactions sample_db) = None"
    by (simp_all add: sample_db_def sample_transfer_def get_account_def sample_deposit_def is_cash_def)
  have "drift sample_db ?a = 5000" by (simp add: drift_def journal_minor_def sample_db_def sample_deposit_def)
  with transfer_no_drift [OF sample_books r h] show ?thesis by auto
qed

text \<open>C31. A transfer is idempotent: repeating an accepted one with the same arguments, at any later
  time, returns the stored reply and changes nothing; with another amount, currency, source or
  destination under the same key it is refused and changes nothing.\<close>

theorem transfer_idempotent:
  assumes "books_ok d" and "snd (execute_transfer sha now cok args d) = Inr result"
    and "List.find (\<lambda>t. tx_idempotency_key t = tr_idempotency_key args) (d_transactions d) = None"
  shows "let d' = fst (execute_transfer sha now cok args d) in
      execute_transfer sha later cok' args d' = (d', Inr result)
    \<and> (\<forall>args'. tr_idempotency_key args' = tr_idempotency_key args
         \<longrightarrow> (tr_money args', tr_source_account_id args', tr_dest_account_id args')
             \<noteq> (tr_money args, tr_source_account_id args, tr_dest_account_id args)
         \<longrightarrow> (\<exists>e. execute_transfer sha later cok' args' d' = (d', Inl e)))"
proof (cases rule: execute_transfer_cases [of sha now cok args d])
  case (rejected e)
  with assms(2) show ?thesis by simp
next
  case (replayed existing r)
  with assms(3) show ?thesis by simp
next
  case (executed r d')
  then have r: "r = result" using assms(2) by simp
  note rec = transfer_fresh_recorded [OF assms(1) executed(3)[unfolded r] assms(3)]
  obtain tx where tx: "List.find (\<lambda>t. tx_idempotency_key t = tr_idempotency_key args) (d_transactions d') = Some tx"
    "tx_request_hash tx = map_option sha (tr_request_payload args)" "tx_response_payload tx = Some result"
    "tx_currency_code tx = currency_code (tr_money args)"
    using rec(1) by blast
  have same: "execute_transfer sha later cok' args d' = (d', Inr result)"
    using executed(1) tx rec(2-4)
    by (simp add: execute_transfer_def atomically_def transfer_body_def transfer_replay_def)
  have other: "\<exists>e. execute_transfer sha later cok' args' d' = (d', Inl e)"
    if "tr_idempotency_key args' = tr_idempotency_key args"
      "(tr_money args', tr_source_account_id args', tr_dest_account_id args')
         \<noteq> (tr_money args, tr_source_account_id args, tr_dest_account_id args)" for args'
  proof (cases "0 < amount_minor (tr_money args')")
    case False
    then show ?thesis by (simp add: execute_transfer_def atomically_def transfer_body_def)
  next
    case True
    have "model_dump (tr_money args) \<noteq> model_dump (tr_money args')
        \<or> tr_source_account_id args \<noteq> tr_source_account_id args'
        \<or> tr_dest_account_id args \<noteq> tr_dest_account_id args'"
      using that(2) by auto
    then have "\<exists>e. transfer_replay args' (map_option sha (tr_request_payload args')) tx = Inl e"
      using rec(2-4) tx(3) by (auto simp: transfer_replay_def Let_def)
    then show ?thesis
      using True tx(1) that(1) by (auto simp: execute_transfer_def atomically_def transfer_body_def Let_def)
  qed
  show ?thesis using same other executed(4) by (simp add: Let_def)
qed

theorem transfer_idempotent_witness:
  "\<exists>result. snd sample_execute = Inr result
     \<and> execute_transfer (\<lambda>_. ''hash'') 9 False sample_transfer (fst sample_execute)
       = (fst sample_execute, Inr result)"
proof -
  obtain result where r: "snd sample_execute = Inr result" using sample_execute_ok by blast
  have h: "List.find (\<lambda>t. tx_idempotency_key t = tr_idempotency_key sample_transfer) (d_transactions sample_db) = None"
    by (simp add: sample_db_def)
  from transfer_idempotent [OF sample_books r h, of 9 False] r show ?thesis by (auto simp: Let_def)
qed

text \<open>Locks are taken in one global order: the list of rows a transfer locks is sorted, without
  repetitions, and does not depend on the order the accounts were named in, so two transfers
  between the same accounts in opposite directions cannot wait for each other in a cycle.\<close>

theorem locks_in_global_order:
  "sorted (lock_order ids) \<and> distinct (lock_order ids) \<and> set (lock_order ids) = set ids
   \<and> acquire_account_locks [a, b] d = acquire_account_locks [b, a] d"
proof -
  have "lock_order [a, b] = lock_order [b, a]" by (rule lock_order_set) auto
  then show ?thesis by (simp add: lock_order_sorted acquire_account_locks_def) (simp add: lock_order_def)
qed

end
