(* ===== verification/Card_Repository.thy ===== *)
theory Card_Repository
  imports Reconciliation
begin

text \<open>
  \<open>CreditCardRepository\<close> (\<^verbatim>\<open>repositories/credit_card.py\<close>) and \<open>AccountsRepository\<close>
  (\<^verbatim>\<open>repositories/accounts.py\<close>): the queries of the card and deposit services, and the one
  computation of available credit.

  The queries are functions of the state; a query ordered by a time column is stable for rows of
  one instant.  The last section proves what \<open>recalculate_available_credit\<close> promises.
\<close>

section \<open>Identity\<close>

definition get_user_by_auth_provider_uid :: "string \<Rightarrow> bank_db \<Rightarrow> user option" where
  "get_user_by_auth_provider_uid uid d = List.find (\<lambda>u. u_auth_provider_uid u = uid) (d_users d)"

definition get_user_by_id :: "string \<Rightarrow> bank_db \<Rightarrow> user option" where
  "get_user_by_id i d = List.find (\<lambda>u. u_id u = i) (d_users d)"

definition NO_USER :: string where
  "NO_USER = ''00000000-0000-0000-0000-000000000000''"

definition resolve_user_id :: "string \<Rightarrow> bank_db \<Rightarrow> string" where
  "resolve_user_id customer_id d =
     (let by_uid = (case get_user_by_auth_provider_uid customer_id d of
                      Some user \<Rightarrow> u_id user | None \<Rightarrow> NO_USER)
      in case py_uuid customer_id of
           Some uuid_val \<Rightarrow> (if get_user_by_id uuid_val d \<noteq> None then uuid_val else by_uid)
         | None \<Rightarrow> by_uid)"

section \<open>Accounts\<close>

definition get_account_by_customer ::
    "string \<Rightarrow> bank_db \<Rightarrow> credit_account option" where
  "get_account_by_customer customer_id d =
     (let uid = resolve_user_id customer_id d
      in List.find (\<lambda>a. ca_customer_id a = uid \<and> ca_status a = ''ACTIVE'') (d_credit_accounts d))"

definition get_account_by_id_for_customer ::
    "string \<Rightarrow> string \<Rightarrow> bank_db \<Rightarrow> credit_account option" where
  "get_account_by_id_for_customer account_id customer_id d =
     (let uid = resolve_user_id customer_id d
      in List.find (\<lambda>a. ca_id a = account_id \<and> ca_customer_id a = uid \<and> ca_status a = ''ACTIVE'')
           (d_credit_accounts d))"

text \<open>The account queries of the deposit side; \<open>lock\<close> is \<open>FOR UPDATE NOWAIT\<close>.\<close>

definition lock_first :: "('r \<Rightarrow> string) \<Rightarrow> bool \<Rightarrow> 'r option \<Rightarrow> bank_db \<Rightarrow> 'r option res" where
  "lock_first key lock row d =
     (case row of
        Some r \<Rightarrow> (if lock \<and> key r \<in> set (d_locked d)
                   then Inl (OperationalError ''could not obtain lock on row'') else Inr (Some r))
      | None \<Rightarrow> Inr None)"

definition get_deposit_account_for_user ::
    "string \<Rightarrow> string \<Rightarrow> bool \<Rightarrow> bank_db \<Rightarrow> account option res" where
  "get_deposit_account_for_user user_id account_id lock d =
     lock_first ac_id lock
       (List.find (\<lambda>a. ac_id a = account_id \<and> ac_user_id a = Some user_id \<and> ac_status a = ''ACTIVE'')
          (d_accounts d)) d"

definition get_credit_account_for_user ::
    "string \<Rightarrow> string \<Rightarrow> bool \<Rightarrow> bank_db \<Rightarrow> credit_account option res" where
  "get_credit_account_for_user user_id credit_account_id lock d =
     lock_first ca_id lock
       (List.find (\<lambda>a. ca_id a = credit_account_id \<and> ca_customer_id a = user_id \<and> ca_status a = ''ACTIVE'')
          (d_credit_accounts d)) d"

definition list_funding_accounts_for_user :: "string \<Rightarrow> bank_db \<Rightarrow> account list" where
  "list_funding_accounts_for_user user_id d =
     filter (\<lambda>a. ac_user_id a = Some user_id \<and> ac_status a = ''ACTIVE'' \<and> is_cash a) (d_accounts d)"

section \<open>Cards\<close>

definition get_card_by_id :: "string \<Rightarrow> bank_db \<Rightarrow> issued_card option" where
  "get_card_by_id i d = List.find (\<lambda>c. ic_id c = i) (d_cards d)"

definition get_card_by_id_for_account :: "string \<Rightarrow> string \<Rightarrow> bank_db \<Rightarrow> issued_card option" where
  "get_card_by_id_for_account i account_id d =
     List.find (\<lambda>c. ic_id c = i \<and> ic_account_id c = account_id) (d_cards d)"

definition get_card_by_token :: "string \<Rightarrow> bank_db \<Rightarrow> issued_card option" where
  "get_card_by_token token d = List.find (\<lambda>c. ic_card_token c = token) (d_cards d)"

definition list_cards_by_account :: "string \<Rightarrow> bank_db \<Rightarrow> issued_card list" where
  "list_cards_by_account account_id d = filter (\<lambda>c. ic_account_id c = account_id) (d_cards d)"

definition list_active_cards_by_account :: "string \<Rightarrow> bank_db \<Rightarrow> issued_card list" where
  "list_active_cards_by_account account_id d =
     filter (\<lambda>c. ic_account_id c = account_id \<and> ic_status c = ''ACTIVE'' \<and> ic_is_active c) (d_cards d)"

text \<open>\<open>query(IssuedCard, FinancialAccount).join(FinancialAccount)\<close>: each card with its account.\<close>

definition cards_with_accounts :: "bank_db \<Rightarrow> (issued_card \<times> credit_account) list" where
  "cards_with_accounts d =
     List.map_filter (\<lambda>c. map_option (Pair c) (get_credit_account (ic_account_id c) d)) (d_cards d)"

definition get_card_and_account_by_customer_secured ::
    "string \<Rightarrow> string \<Rightarrow> bank_db \<Rightarrow> (issued_card \<times> credit_account) option" where
  "get_card_and_account_by_customer_secured card_id customer_id d =
     (let uid = resolve_user_id customer_id d
      in List.find (\<lambda>(c, a). ic_id c = card_id \<and> ca_customer_id a = uid) (cards_with_accounts d))"

definition get_card_by_customer_secured ::
    "string \<Rightarrow> string \<Rightarrow> bank_db \<Rightarrow> issued_card option" where
  "get_card_by_customer_secured card_id customer_id d =
     (let uid = resolve_user_id customer_id d
      in map_option fst
           (List.find (\<lambda>(c, a). ic_id c = card_id \<and> ca_customer_id a = uid) (cards_with_accounts d)))"

definition get_card_by_token_secured ::
    "string \<Rightarrow> string \<Rightarrow> bank_db \<Rightarrow> issued_card option" where
  "get_card_by_token_secured card_token customer_id d =
     (let uid = resolve_user_id customer_id d
      in map_option fst
           (List.find (\<lambda>(c, a). ic_card_token c = card_token \<and> ca_customer_id a = uid)
              (cards_with_accounts d)))"

definition get_active_card_for_customer ::
    "string \<Rightarrow> bank_db \<Rightarrow> (issued_card \<times> credit_account) option" where
  "get_active_card_for_customer customer_id d =
     (let uid = resolve_user_id customer_id d
      in List.find (\<lambda>(c, a). ca_customer_id a = uid \<and> ca_status a = ''ACTIVE''
                           \<and> ic_status c = ''ACTIVE'' \<and> ic_is_active c) (cards_with_accounts d))"

definition list_active_cards_for_simulation ::
    "bank_db \<Rightarrow> (issued_card \<times> credit_account \<times> user option) list" where
  "list_active_cards_for_simulation d =
     map (\<lambda>(c, a). (c, a, get_user_by_id (ca_customer_id a) d))
       (filter (\<lambda>(c, a). ca_status a = ''ACTIVE'' \<and> ic_status c = ''ACTIVE'' \<and> ic_is_active c)
          (cards_with_accounts d))"

definition save_card :: "issued_card \<Rightarrow> bank_db \<Rightarrow> bank_db" where
  "save_card c d =
     (if get_card_by_id (ic_id c) d \<noteq> None then put_card c d
      else d\<lparr>d_cards := d_cards d @ [c]\<rparr>)"

section \<open>Statement lines\<close>

definition list_ledger_entries :: "string \<Rightarrow> nat option \<Rightarrow> bank_db \<Rightarrow> posted_transaction list" where
  "list_ledger_entries account_id limit d =
     (let rows = sort_key (\<lambda>p. - pt_posted_at p) (filter (\<lambda>p. pt_account_id p = account_id) (d_posted d))
      in case limit of None \<Rightarrow> rows | Some n \<Rightarrow> (if n = 0 then rows else take n rows))"

definition get_ledger_entry_by_id :: "string \<Rightarrow> bank_db \<Rightarrow> posted_transaction option" where
  "get_ledger_entry_by_id i d = List.find (\<lambda>p. pt_id p = i) (d_posted d)"

definition get_ledger_entry_by_id_for_account ::
    "string \<Rightarrow> string \<Rightarrow> bank_db \<Rightarrow> posted_transaction option" where
  "get_ledger_entry_by_id_for_account i account_id d =
     List.find (\<lambda>p. pt_id p = i \<and> pt_account_id p = account_id) (d_posted d)"

definition get_fraud_provisional_credit_entry ::
    "string \<Rightarrow> string \<Rightarrow> bank_db \<Rightarrow> posted_transaction option" where
  "get_fraud_provisional_credit_entry account_id original_tx_id d =
     List.find (\<lambda>p. pt_account_id p = account_id \<and> pt_authorization_id p = None
                  \<and> pt_description p = ''FRAUD_PROVISIONAL_CREDIT_REF_'' @ original_tx_id) (d_posted d)"

definition get_reversal_entry :: "string \<Rightarrow> string \<Rightarrow> bank_db \<Rightarrow> posted_transaction option" where
  "get_reversal_entry account_id original_tx_id d =
     List.find (\<lambda>p. pt_account_id p = account_id \<and> pt_authorization_id p = None
                  \<and> pt_description p \<in> {''FEE_REVERSAL_REF_'' @ original_tx_id,
                                         ''REVERSAL_REF_'' @ original_tx_id}) (d_posted d)"

text \<open>SQL \<open>LIKE\<close>: an underscore stands for any character, a percent sign for any text.\<close>

fun sql_like :: "string \<Rightarrow> string \<Rightarrow> bool" where
  "sql_like [] s = (s = [])"
| "sql_like (p # ps) [] = (p = CHR ''%'' \<and> sql_like ps [])"
| "sql_like (p # ps) (c # cs) =
     (if p = CHR ''%'' then sql_like ps (c # cs) \<or> sql_like (p # ps) cs
      else (p = CHR ''_'' \<or> p = c) \<and> sql_like ps cs)"

definition get_annual_reversal_entry :: "string \<Rightarrow> int \<Rightarrow> bank_db \<Rightarrow> posted_transaction option" where
  "get_annual_reversal_entry account_id year_start d =
     List.find (\<lambda>p. pt_account_id p = account_id \<and> year_start \<le> pt_posted_at p
                  \<and> (sql_like ''FEE_REVERSAL_REF_%'' (pt_description p)
                     \<or> sql_like ''REVERSAL_REF_%'' (pt_description p))) (d_posted d)"

section \<open>Authorization holds\<close>

definition list_authorizations ::
    "string \<Rightarrow> string option \<Rightarrow> bank_db \<Rightarrow> transaction_authorization list" where
  "list_authorizations account_id status d =
     sort_key (\<lambda>a. - ta_created_at a)
       (filter (\<lambda>a. ta_account_id a = account_id
                  \<and> (case status of None \<Rightarrow> True | Some s \<Rightarrow> s = [] \<or> ta_status a = s)) (d_auths d))"

definition list_recent_authorizations ::
    "string \<Rightarrow> int \<Rightarrow> nat \<Rightarrow> bank_db \<Rightarrow> transaction_authorization list" where
  "list_recent_authorizations account_id since limit d =
     take limit (sort_key (\<lambda>a. - ta_created_at a)
       (filter (\<lambda>a. ta_account_id a = account_id \<and> since \<le> ta_created_at a) (d_auths d)))"

definition list_pending_authorizations :: "string \<Rightarrow> bank_db \<Rightarrow> transaction_authorization list" where
  "list_pending_authorizations account_id d =
     sort_key (\<lambda>a. - ta_created_at a)
       (filter (\<lambda>a. ta_account_id a = account_id \<and> ta_status a = ''PENDING'') (d_auths d))"

definition get_authorization_by_id :: "string \<Rightarrow> bank_db \<Rightarrow> transaction_authorization option" where
  "get_authorization_by_id i d = List.find (\<lambda>a. ta_id a = i) (d_auths d)"

definition get_authorization_by_id_for_account ::
    "string \<Rightarrow> string \<Rightarrow> bank_db \<Rightarrow> transaction_authorization option" where
  "get_authorization_by_id_for_account i account_id d =
     List.find (\<lambda>a. ta_id a = i \<and> ta_account_id a = account_id) (d_auths d)"

definition get_authorization_by_rrn ::
    "string \<Rightarrow> string list option \<Rightarrow> bank_db \<Rightarrow> transaction_authorization option" where
  "get_authorization_by_rrn rrn statuses d =
     List.find (\<lambda>a. ta_retrieval_reference_number a = rrn
                  \<and> (case statuses of None \<Rightarrow> True | Some ss \<Rightarrow> ss = [] \<or> ta_status a \<in> set ss)) (d_auths d)"

definition get_credit_product :: "string \<Rightarrow> bank_db \<Rightarrow> credit_product option" where
  "get_credit_product code d = List.find (\<lambda>p. cp_product_code p = code) (d_products d)"

definition ACTIVE_HOLDS :: "string list" where
  "ACTIVE_HOLDS = [''PENDING'', ''FLAGGED'']"

definition active_hold :: "string \<Rightarrow> transaction_authorization \<Rightarrow> bool" where
  "active_hold account_id a \<longleftrightarrow> ta_account_id a = account_id \<and> ta_status a \<in> set ACTIVE_HOLDS"

fun sum_holds :: "string \<Rightarrow> (int \<times> string) list \<Rightarrow> int \<Rightarrow> int res" where
  "sum_holds currency [] acc = Inr acc"
| "sum_holds currency ((amount, cur) # holds) acc =
     bindR (mk_money amount cur) (\<lambda>money.
       if currency_code money \<noteq> currency \<or> amount_minor money < 0
       then Inl (ValueError ''Authorization billing Money does not match the account'')
       else sum_holds currency holds (acc + amount_minor money))"

definition get_pending_auth_total :: "string \<Rightarrow> bank_db \<Rightarrow> int res" where
  "get_pending_auth_total account_id d =
     (case get_credit_account account_id d of
        None \<Rightarrow> Inl (ValueError ''Authorization account does not exist'')
      | Some account \<Rightarrow>
          (let holds = map (\<lambda>a. (ta_billing_amount_cents a, ta_billing_currency a))
                         (filter (active_hold account_id) (d_auths d))
           in bindR (sum_holds (ca_currency account) holds 0) (\<lambda>acc.
              bindR (mk_money acc (ca_currency account)) (\<lambda>m. Inr (amount_minor m)))))"

definition calculate_available_credit_cents :: "credit_account \<Rightarrow> bank_db \<Rightarrow> int res" where
  "calculate_available_credit_cents account d =
     bindR (get_pending_auth_total (ca_id account) d) (\<lambda>pending_sum.
       let raw_available = ca_credit_limit_cents account - ca_cleared_balance_cents account - pending_sum
       in Inr (max 0 (min (ca_credit_limit_cents account) raw_available)))"

definition recalculate_available_credit ::
    "credit_account \<Rightarrow> bank_db \<Rightarrow> (credit_account \<times> bank_db) res" where
  "recalculate_available_credit account d =
     bindR (calculate_available_credit_cents account d) (\<lambda>cents.
       let account' = account\<lparr>ca_available_credit_cents := cents\<rparr>
       in Inr (account', put_credit_account account' d))"

section \<open>What the computation promises\<close>

definition hold_total :: "string \<Rightarrow> bank_db \<Rightarrow> int" where
  "hold_total account_id d = sum_list (map ta_billing_amount_cents (filter (active_hold account_id) (d_auths d)))"

lemma sum_holds_Inr:
  "sum_holds c hs acc = Inr r \<Longrightarrow>
   r = acc + sum_list (map fst hs) \<and> (\<forall>(a, c') \<in> set hs. 0 \<le> a \<and> c' = c)"
proof (induction c hs acc rule: sum_holds.induct)
  case (2 c a cur hs acc)
  then obtain m where m: "mk_money a cur = Inr m" "currency_code m = c" "0 \<le> amount_minor m"
    "sum_holds c hs (acc + amount_minor m) = Inr r"
    by (auto split: if_splits)
  with 2(1) [OF m(1)] show ?case using mk_money_InrD [OF m(1)] by auto
qed simp

lemma sum_holds_complete:
  "(\<forall>(a, c') \<in> set hs. 0 \<le> a \<and> a \<le> MAX_MINOR \<and> c' = c) \<Longrightarrow> CURRENCY_EXPONENTS c \<noteq> None \<Longrightarrow>
   sum_holds c hs acc = Inr (acc + sum_list (map fst hs))"
  by (induction c hs acc rule: sum_holds.induct) (auto simp: mk_money_def MAX_MINOR_def)

lemma pending_total_Inr:
  assumes "get_pending_auth_total i d = Inr t"
  shows "t = hold_total i d" "0 \<le> t" "\<exists>a. get_credit_account i d = Some a"
    "\<And>h a. h \<in> set (d_auths d) \<Longrightarrow> active_hold i h \<Longrightarrow> get_credit_account i d = Some a \<Longrightarrow>
       0 \<le> ta_billing_amount_cents h \<and> ta_billing_currency h = ca_currency a"
proof -
  let ?hs = "map (\<lambda>a. (ta_billing_amount_cents a, ta_billing_currency a)) (filter (active_hold i) (d_auths d))"
  from assms obtain a where a: "get_credit_account i d = Some a"
    by (auto simp: get_pending_auth_total_def split: option.splits)
  with assms obtain r m where r: "sum_holds (ca_currency a) ?hs 0 = Inr r"
    and m: "mk_money r (ca_currency a) = Inr m" "t = amount_minor m"
    by (auto simp: get_pending_auth_total_def)
  note s = sum_holds_Inr [OF r]
  have t: "t = r" using m mk_money_InrD(1) by auto
  have map: "map fst ?hs = map ta_billing_amount_cents (filter (active_hold i) (d_auths d))" by simp
  show "t = hold_total i d"
    using s unfolding t hold_total_def map by simp
  have "0 \<le> sum_list (map fst ?hs)"
    by (rule sum_list_nonneg_int) (use s in auto)
  then show "0 \<le> t" using s t by simp
  show "\<exists>a. get_credit_account i d = Some a" using a by blast
  show "\<And>h a. h \<in> set (d_auths d) \<Longrightarrow> active_hold i h \<Longrightarrow> get_credit_account i d = Some a \<Longrightarrow>
       0 \<le> ta_billing_amount_cents h \<and> ta_billing_currency h = ca_currency a"
    using s a by auto
qed

lemma recalculate_effect:
  assumes "recalculate_available_credit a d = Inr (a', d')"
  shows "a' = a\<lparr>ca_available_credit_cents :=
            max 0 (min (ca_credit_limit_cents a)
              (ca_credit_limit_cents a - ca_cleared_balance_cents a - hold_total (ca_id a) d))\<rparr>"
    "d' = put_credit_account a' d" "0 \<le> hold_total (ca_id a) d"
proof -
  from assms obtain t where t: "get_pending_auth_total (ca_id a) d = Inr t"
    and a: "a' = a\<lparr>ca_available_credit_cents := max 0 (min (ca_credit_limit_cents a)
              (ca_credit_limit_cents a - ca_cleared_balance_cents a - t))\<rparr>"
    and d: "d' = put_credit_account a' d"
    by (auto simp: recalculate_available_credit_def calculate_available_credit_cents_def Let_def)
  show "a' = a\<lparr>ca_available_credit_cents :=
            max 0 (min (ca_credit_limit_cents a)
              (ca_credit_limit_cents a - ca_cleared_balance_cents a - hold_total (ca_id a) d))\<rparr>"
    using a pending_total_Inr(1) [OF t] by simp
  show "d' = put_credit_account a' d" by (rule d)
  show "0 \<le> hold_total (ca_id a) d" using pending_total_Inr(1,2) [OF t] by simp
qed

lemma recalculate_same:
  assumes "recalculate_available_credit a d = Inr (a', d')"
  shows "ca_id a' = ca_id a" "ca_currency a' = ca_currency a" "ca_status a' = ca_status a"
    "ca_cleared_balance_cents a' = ca_cleared_balance_cents a"
    "ca_credit_limit_cents a' = ca_credit_limit_cents a" "ca_customer_id a' = ca_customer_id a"
  by (simp_all add: recalculate_effect(1) [OF assms])

lemma hold_total_cong: "d_auths d = d_auths d' \<Longrightarrow> hold_total i d = hold_total i d'"
  by (simp add: hold_total_def)

lemma cards_with_accounts_mem:
  "(c, a) \<in> set (cards_with_accounts d) \<Longrightarrow> c \<in> set (d_cards d) \<and> get_credit_account (ic_account_id c) d = Some a"
  by (auto simp: cards_with_accounts_def map_filter_def)

lemma resolved_user:
  assumes "resolve_user_id customer d \<noteq> NO_USER"
  shows "\<exists>u \<in> set (d_users d). u_id u = resolve_user_id customer d
    \<and> (u_auth_provider_uid u = customer \<or> py_uuid customer = Some (u_id u))"
proof (cases "\<exists>i u. py_uuid customer = Some i \<and> get_user_by_id i d = Some u")
  case True
  then obtain i u where i: "py_uuid customer = Some i" "get_user_by_id i d = Some u" by blast
  then have "u \<in> set (d_users d) \<and> u_id u = i" by (auto simp: get_user_by_id_def dest: find_Some_iff')
  then show ?thesis using i by (auto simp: resolve_user_id_def Let_def)
next
  case False
  then have by_uid: "resolve_user_id customer d = (case get_user_by_auth_provider_uid customer d of
      Some user \<Rightarrow> u_id user | None \<Rightarrow> NO_USER)"
    by (auto simp: resolve_user_id_def Let_def split: option.split)
  with assms obtain u where u: "get_user_by_auth_provider_uid customer d = Some u"
    by (auto split: option.splits)
  then have "u \<in> set (d_users d) \<and> u_auth_provider_uid u = customer"
    by (auto simp: get_user_by_auth_provider_uid_def dest: find_Some_iff')
  then show ?thesis using u by_uid by auto
qed

text \<open>Available credit is never negative and never above the limit; between these bounds it is the
  limit less the cleared debt less the active holds, and computing it changes nothing else.\<close>

theorem available_credit_within_limit:
  assumes "recalculate_available_credit a d = Inr (a', d')" and "0 \<le> ca_credit_limit_cents a"
    and "get_credit_account (ca_id a) d = Some a0"
  shows "get_credit_account (ca_id a) d' = Some a'
    \<and> 0 \<le> ca_available_credit_cents a' \<and> ca_available_credit_cents a' \<le> ca_credit_limit_cents a'
    \<and> a' = a\<lparr>ca_available_credit_cents := ca_available_credit_cents a'\<rparr>
    \<and> (0 \<le> ca_cleared_balance_cents a \<and> ca_cleared_balance_cents a + hold_total (ca_id a) d \<le> ca_credit_limit_cents a
        \<longrightarrow> ca_available_credit_cents a' + ca_cleared_balance_cents a + hold_total (ca_id a) d
            = ca_credit_limit_cents a)"
proof -
  note e = recalculate_effect [OF assms(1)]
  have "ca_id a' = ca_id a" by (simp add: e(1))
  then have "get_credit_account (ca_id a) d' = Some a'"
    using get_put_credit_account [of a' d] assms(3) by (simp add: e(2))
  then show ?thesis using assms(2) e(3) by (simp add: e(1))
qed

theorem available_credit_within_limit_witness:
  "\<exists>a' d'. recalculate_available_credit sample_card_account sample_db = Inr (a', d')
     \<and> ca_available_credit_cents a' \<le> 500000"
proof -
  have "\<not> isl (recalculate_available_credit sample_card_account sample_db)" by code_simp
  then obtain a' d' where r: "recalculate_available_credit sample_card_account sample_db = Inr (a', d')"
    by (cases "recalculate_available_credit sample_card_account sample_db") auto
  have "get_credit_account (ca_id sample_card_account) sample_db = Some sample_card_account"
    "0 \<le> ca_credit_limit_cents sample_card_account"
    by (simp_all add: sample_db_def sample_card_account_def get_credit_account_def)
  from available_credit_within_limit [OF r this(2,1)] recalculate_effect(1) [OF r] r show ?thesis
    by (auto simp: sample_card_account_def)
qed

text \<open>The secured card look-ups never leak another customer's card: the card they return stands on
  a credit account of the customer the caller's identity resolves to, and a caller whose identity
  resolves to nobody gets nothing.\<close>

theorem secured_lookup_is_owned:
  assumes "\<And>u. u \<in> set (d_users d) \<Longrightarrow> u_id u \<noteq> NO_USER"
    and "get_card_by_customer_secured card_id customer d = Some c
       \<or> get_card_by_token_secured token customer d = Some c
       \<or> get_card_and_account_by_customer_secured card_id customer d = Some (c, acc)
       \<or> get_active_card_for_customer customer d = Some (c, acc)"
    and "\<And>a. a \<in> set (d_credit_accounts d) \<Longrightarrow> \<exists>u \<in> set (d_users d). u_id u = ca_customer_id a"
  shows "\<exists>a u. get_credit_account (ic_account_id c) d = Some a \<and> u \<in> set (d_users d)
    \<and> ca_customer_id a = u_id u
    \<and> (u_auth_provider_uid u = customer \<or> py_uuid customer = Some (u_id u))"
proof -
  let ?uid = "resolve_user_id customer d"
  obtain a where a: "(c, a) \<in> set (cards_with_accounts d)" "ca_customer_id a = ?uid"
    using assms(2)
    by (auto simp: get_card_by_customer_secured_def get_card_by_token_secured_def Let_def
        get_card_and_account_by_customer_secured_def get_active_card_for_customer_def
        dest!: find_Some_iff')
  then have g: "get_credit_account (ic_account_id c) d = Some a" by (simp add: cards_with_accounts_mem)
  then have "a \<in> set (d_credit_accounts d)" using get_credit_account_id by blast
  with assms(3) obtain v where v: "v \<in> set (d_users d)" "u_id v = ca_customer_id a" by blast
  with assms(1) have nz: "?uid \<noteq> NO_USER" by (metis a(2))
  have "\<exists>u \<in> set (d_users d). u_id u = ?uid \<and> (u_auth_provider_uid u = customer \<or> py_uuid customer = Some (u_id u))"
    using nz by (rule resolved_user)
  with g a(2) show ?thesis by auto
qed

theorem secured_lookup_is_owned_witness:
  "\<exists>a u. get_credit_account ''CR1'' sample_db = Some a \<and> u \<in> set (d_users sample_db) \<and> ca_customer_id a = u_id u"
proof -
  have "get_card_by_token_secured ''tok_1'' ''uid-1'' sample_db = Some sample_card"
    by code_simp
  moreover have "\<And>u. u \<in> set (d_users sample_db) \<Longrightarrow> u_id u \<noteq> NO_USER"
    by (simp add: sample_db_def NO_USER_def)
  moreover have "\<And>a. a \<in> set (d_credit_accounts sample_db) \<Longrightarrow> \<exists>u \<in> set (d_users sample_db). u_id u = ca_customer_id a"
    by (simp add: sample_db_def sample_card_account_def)
  ultimately have "\<exists>a u. get_credit_account (ic_account_id sample_card) sample_db = Some a \<and> u \<in> set (d_users sample_db)
    \<and> ca_customer_id a = u_id u \<and> (u_auth_provider_uid u = ''uid-1'' \<or> py_uuid ''uid-1'' = Some (u_id u))"
    using secured_lookup_is_owned [of sample_db _ "''uid-1''" sample_card "''tok_1''"] by blast
  then show ?thesis by (simp add: sample_card_def) blast
qed

end
