(* ===== verification/Accounts.thy ===== *)
theory Accounts
  imports Card_Repository
begin

text \<open>
  \<open>AccountsService\<close> (\<^verbatim>\<open>services/accounts.py\<close>) and its payment models
  (\<^verbatim>\<open>models/payment.py\<close>): the bill payment from a deposit account to a card account, and the
  transaction list of a deposit account with its running balance.

  \<open>sha256\<close> and \<open>sha256_json\<close> stand for the digests of a text and of a canonical JSON document.
  \<open>commit_outcome\<close> says what the database answers to the final commit: success, a lock conflict,
  or a unique-key conflict with a concurrent transaction, whose committed state it carries.
\<close>

section \<open>Payment models\<close>

record bill_payment_request =
  br_source_account_id :: string
  br_credit_account_id :: string
  br_money :: money

text \<open>\<open>BillPaymentRequest.model_validate\<close> on an untrusted value.\<close>

definition bill_request_validate :: "pyval \<Rightarrow> bill_payment_request res" where
  "bill_request_validate data =
     (case data of
        PDict kvs \<Rightarrow>
          (let bad_currency = (case dict_get data ''money'' of
                 PDict ms \<Rightarrow> (case dict_get (PDict ms) ''currency_code'' of
                               PStr code \<Rightarrow> CURRENCY_EXPONENTS code = None | _ \<Rightarrow> True)
               | _ \<Rightarrow> False)
           in if bad_currency then Inl (HTTPException 400 ''Unsupported or malformed currency.'')
              else if set (map fst kvs) \<noteq> {''source_account_id'', ''credit_account_id'', ''money''}
              then Inl (ValidationError ''fields'')
              else (case (dict_get data ''source_account_id'', dict_get data ''credit_account_id'') of
                      (PStr s, PStr c) \<Rightarrow>
                        bindR (money_validate (dict_get data ''money'')) (\<lambda>m.
                          if amount_minor m \<le> 0 then Inl (ValidationError ''Payment amount must be positive'')
                          else Inr \<lparr>br_source_account_id = s, br_credit_account_id = c, br_money = m\<rparr>)
                    | _ \<Rightarrow> Inl (ValidationError ''field types'')))
      | _ \<Rightarrow> Inl (ValidationError ''not a dictionary''))"

record bill_payment_result =
  bp_transaction_id :: string
  bp_money :: money
  bp_source_cleared_balance :: money
  bp_credit_cleared_balance :: money
  bp_credit_available_credit :: money
  bp_message :: string

definition BILL_MESSAGE :: string where
  "BILL_MESSAGE = ''Bill payment successfully processed.''"

definition bill_result_dump :: "bill_payment_result \<Rightarrow> pyval" where
  "bill_result_dump r =
     PDict [(''status'', PStr ''SUCCESS''), (''disposition'', PStr ''POSTED''),
            (''transaction_id'', PStr (bp_transaction_id r)),
            (''money'', model_dump (bp_money r)),
            (''source_cleared_balance'', model_dump (bp_source_cleared_balance r)),
            (''credit_cleared_balance'', model_dump (bp_credit_cleared_balance r)),
            (''credit_available_credit'', model_dump (bp_credit_available_credit r)),
            (''message'', PStr (bp_message r))]"

definition BILL_REQUIRED :: "string list" where
  "BILL_REQUIRED = [''transaction_id'', ''money'', ''source_cleared_balance'',
     ''credit_cleared_balance'', ''credit_available_credit'']"

definition BILL_DEFAULTED :: "string list" where
  "BILL_DEFAULTED = [''status'', ''disposition'', ''message'']"

definition literal_default :: "(string \<times> pyval) list \<Rightarrow> string \<Rightarrow> string \<Rightarrow> bool" where
  "literal_default kvs k v = (case map_of kvs k of None \<Rightarrow> True | Some x \<Rightarrow> x = PStr v)"

definition bill_result_validate :: "pyval \<Rightarrow> bill_payment_result res" where
  "bill_result_validate v =
     (case v of
        PDict kvs \<Rightarrow>
          (if \<not> (set BILL_REQUIRED \<subseteq> set (map fst kvs)
                 \<and> set (map fst kvs) \<subseteq> set (BILL_REQUIRED @ BILL_DEFAULTED))
           then Inl (ValidationError ''fields'')
           else if \<not> (literal_default kvs ''status'' ''SUCCESS'' \<and> literal_default kvs ''disposition'' ''POSTED'')
           then Inl (ValidationError ''literal'')
           else (case (dict_get v ''transaction_id'',
                       case map_of kvs ''message'' of None \<Rightarrow> PStr BILL_MESSAGE | Some m \<Rightarrow> m) of
                   (PStr tid, PStr msg) \<Rightarrow>
                     bindR (money_validate (dict_get v ''money'')) (\<lambda>m.
                     bindR (money_validate (dict_get v ''source_cleared_balance'')) (\<lambda>s.
                     bindR (money_validate (dict_get v ''credit_cleared_balance'')) (\<lambda>c.
                     bindR (money_validate (dict_get v ''credit_available_credit'')) (\<lambda>a.
                       Inr \<lparr>bp_transaction_id = tid, bp_money = m, bp_source_cleared_balance = s,
                            bp_credit_cleared_balance = c, bp_credit_available_credit = a,
                            bp_message = msg\<rparr>))))
                 | _ \<Rightarrow> Inl (ValidationError ''field types'')))
      | _ \<Rightarrow> Inl (ValidationError ''not a dictionary''))"

section \<open>Bill payment\<close>

datatype commit_outcome = Committed | Lock_Conflict | Unique_Conflict bank_db

definition db_commit :: "commit_outcome \<Rightarrow> bank_db \<Rightarrow> bank_db res" where
  "db_commit outcome d =
     (case outcome of
        Committed \<Rightarrow> Inr d
      | Lock_Conflict \<Rightarrow> Inl (OperationalError ''lock conflict at commit'')
      | Unique_Conflict other \<Rightarrow> Inl (IntegrityError ''unique conflict at commit''))"

record payment_args =
  bi_source_account_id :: string
  bi_credit_account_id :: string
  bi_money :: money
  bi_idempotency_key :: string

text \<open>The guards before the \<open>try\<close>: the canonical account ids.\<close>

definition bill_guards :: "payment_args \<Rightarrow> (string \<times> string) res" where
  "bill_guards args =
     (if amount_minor (bi_money args) \<le> 0
      then Inl (HTTPException 400 ''Payment requires positive Money.'')
      else if py_strip (bi_idempotency_key args) = [] \<or> 128 < length (bi_idempotency_key args)
      then Inl (HTTPException 400 ''A non-empty Idempotency-Key (max 128 characters) is required.'')
      else (case (py_uuid (bi_source_account_id args), py_uuid (bi_credit_account_id args)) of
              (Some s, Some c) \<Rightarrow> Inr (s, c)
            | _ \<Rightarrow> Inl (HTTPException 400 ''Account identifiers must be UUIDs.'')))"

definition bill_durable_key :: "(string \<Rightarrow> string) \<Rightarrow> string \<Rightarrow> payment_args \<Rightarrow> string" where
  "bill_durable_key sha256 user_id args =
     ''bill-payment:'' @ sha256 (user_id @ '':'' @ bi_idempotency_key args)"

definition bill_request_hash :: "(pyval \<Rightarrow> string) \<Rightarrow> string \<Rightarrow> string \<Rightarrow> money \<Rightarrow> string" where
  "bill_request_hash sha256_json source credit m =
     sha256_json (PDict [(''source_account_id'', PStr source), (''credit_account_id'', PStr credit),
                         (''money'', model_dump m)])"

definition bill_replay :: "string \<Rightarrow> string \<Rightarrow> bank_db \<Rightarrow> pyval option res" where
  "bill_replay durable_key request_hash d =
     (case List.find (\<lambda>t. tx_idempotency_key t = durable_key) (d_transactions d) of
        None \<Rightarrow> Inr None
      | Some existing \<Rightarrow>
          (if tx_request_hash existing \<noteq> Some request_hash
           then Inl (HTTPException 409 ''Idempotency key reused with different account, amount, or currency.'')
           else (case tx_response_payload existing of
                   None \<Rightarrow> Inl (HTTPException 409 ''Payment is in progress. Retry with the same key.'')
                 | Some payload \<Rightarrow>
                     bindR (bill_result_validate payload) (\<lambda>r. Inr (Some (bill_result_dump r))))))"

definition find_mirror :: "string \<Rightarrow> bank_db \<Rightarrow> account option" where
  "find_mirror credit_id d = List.find (\<lambda>a. ac_credit_account_id a = Some credit_id) (d_accounts d)"

definition bill_posting :: "string \<Rightarrow> string \<Rightarrow> string \<Rightarrow> string \<Rightarrow> account \<Rightarrow> account \<Rightarrow> money \<Rightarrow> posting_request" where
  "bill_posting durable_key user_id source credit deposit_acc journal_acc m =
     \<lparr>pr_idempotency_key = durable_key,
      pr_description = ''Credit Card Bill Payment to Account ending in '' @ drop (length credit - 4) credit,
      pr_entries = two_lines (ac_id deposit_acc) (ac_id journal_acc) m,
      pr_source_type = ''CREDIT_CARD_BILL_PAYMENT'', pr_currency = currency_code m,
      pr_source_references = [(''source_account_id'', PStr source), (''credit_account_id'', PStr credit)],
      pr_user_id = Some user_id, pr_posted_at = None\<rparr>"

definition bill_statement :: "string \<Rightarrow> int \<Rightarrow> string \<Rightarrow> string \<Rightarrow> int \<Rightarrow> posted_transaction" where
  "bill_statement i now credit tid amount =
     \<lparr>pt_id = i, pt_account_id = credit, pt_authorization_id = None,
      pt_journal_transaction_id = Some tid, pt_auth_code = None,
      pt_retrieval_reference_number = None, pt_amount_cents = amount,
      pt_description = ''Bill Payment Received - Thank You'', pt_posted_at = now\<rparr>"

text \<open>
  From the balance checks on: the mirror is locked and synchronised, the payment is posted, the two
  balances move, the available credit is recomputed and the reply is stored with the transaction.
\<close>

definition bill_apply ::
    "int \<Rightarrow> string \<Rightarrow> string \<Rightarrow> string \<Rightarrow> account \<Rightarrow> credit_account \<Rightarrow> money
     \<Rightarrow> bank_db \<Rightarrow> (pyval \<times> bank_db) res" where
  "bill_apply now durable_key request_hash user_id deposit_acc credit_acc m d =
     (let amount = amount_minor m; cur = currency_code m; mirror = find_mirror (ca_id credit_acc) d
      in if (case mirror of None \<Rightarrow> False | Some a \<Rightarrow> ac_id a \<in> set (d_locked d))
         then Inl (OperationalError ''could not obtain lock on row'')
         else if (case mirror of None \<Rightarrow> False | Some a \<Rightarrow> ac_currency a \<noteq> cur)
         then Inl (HTTPException 422 ''Card journal denomination mismatch.'')
         else
           bindR (ensure_credit_journal_account credit_acc d) (\<lambda>(journal_acc, d1).
           bindR (post_financial_transaction now
                    (bill_posting durable_key user_id (ac_id deposit_acc) (ca_id credit_acc)
                       deposit_acc journal_acc m) d1) (\<lambda>(posting, d2).
           let d3 = update_account (\<lambda>a. a\<lparr>ac_cleared_balance_cents := ac_cleared_balance_cents a - amount\<rparr>)
                      (ac_id deposit_acc) d2;
               credit1 = credit_acc\<lparr>ca_cleared_balance_cents := ca_cleared_balance_cents credit_acc - amount\<rparr>
           in bindR (recalculate_available_credit credit1 (put_credit_account credit1 d3)) (\<lambda>(credit2, d4).
           let d5 = update_account (\<lambda>a. a\<lparr>ac_cleared_balance_cents := ca_cleared_balance_cents credit2,
                                         ac_available_credit_cents := ca_available_credit_cents credit2\<rparr>)
                      (ac_id journal_acc) d4;
               (i, d6) = uuid4 d5;
               tx = jp_transaction posting
           in bindR (add_posted_transaction (bill_statement i now (ca_id credit_acc) (tx_id tx) amount) d6) (\<lambda>d7.
           let balance = (case get_account (ac_id deposit_acc) d7 of
                            Some a \<Rightarrow> ac_cleared_balance_cents a | None \<Rightarrow> 0)
           in bindR (mk_money balance cur) (\<lambda>source_balance.
           bindR (mk_money (ca_cleared_balance_cents credit2) cur) (\<lambda>credit_balance.
           bindR (mk_money (ca_available_credit_cents credit2) cur) (\<lambda>available.
           let result = \<lparr>bp_transaction_id = tx_id tx, bp_money = m,
                 bp_source_cleared_balance = source_balance, bp_credit_cleared_balance = credit_balance,
                 bp_credit_available_credit = available, bp_message = BILL_MESSAGE\<rparr>;
               d8 = put_transaction (tx\<lparr>tx_request_hash := Some request_hash,
                      tx_response_payload := Some (bill_result_dump result),
                      tx_response_status := Some 200\<rparr>) d7;
               d9 = audit now ''BILL_PAYMENT_EXECUTED''
                      [(''source_account_id'', PStr (ac_id deposit_acc)),
                       (''credit_account_id'', PStr (ca_id credit_acc)),
                       (''money'', model_dump m), (''transaction_id'', PStr (tx_id tx)),
                       (''statement_transaction_id'', PStr i)] d8
           in Inr (bill_result_dump result, d9)))))))))"

definition bill_post ::
    "int \<Rightarrow> commit_outcome \<Rightarrow> string \<Rightarrow> string \<Rightarrow> string \<Rightarrow> account \<Rightarrow> credit_account \<Rightarrow> money
     \<Rightarrow> bank_db \<Rightarrow> (pyval \<times> bank_db) res" where
  "bill_post now outcome durable_key request_hash user_id deposit_acc credit_acc m d =
     bindR (bill_apply now durable_key request_hash user_id deposit_acc credit_acc m d) (\<lambda>(result, d9).
     bindR (db_commit outcome d9) (\<lambda>d10. Inr (result, d10)))"

definition bill_body ::
    "int \<Rightarrow> commit_outcome \<Rightarrow> string \<Rightarrow> string \<Rightarrow> string \<Rightarrow> string \<Rightarrow> string \<Rightarrow> money
     \<Rightarrow> bank_db \<Rightarrow> (pyval \<times> bank_db) res" where
  "bill_body now outcome durable_key request_hash user_id source credit m d =
     bindR (bill_replay durable_key request_hash d) (\<lambda>previous.
     case previous of Some r \<Rightarrow> Inr (r, d) | None \<Rightarrow>
     bindR (get_deposit_account_for_user user_id source True d) (\<lambda>deposit.
     case deposit of None \<Rightarrow> Inl (HTTPException 404 ''Source deposit account not found.'')
     | Some deposit_acc \<Rightarrow>
     if \<not> is_cash deposit_acc then Inl (HTTPException 404 ''Source deposit account not found.'') else
     bindR (get_credit_account_for_user user_id credit True d) (\<lambda>card.
     case card of None \<Rightarrow> Inl (HTTPException 404 ''Target credit account not found.'')
     | Some credit_acc \<Rightarrow>
     bindR (bill_replay durable_key request_hash d) (\<lambda>previous.
     case previous of Some r \<Rightarrow> Inr (r, d) | None \<Rightarrow>
     if ac_currency deposit_acc \<noteq> currency_code m \<or> ca_currency credit_acc \<noteq> currency_code m
     then Inl (HTTPException 422 ''Payment and both account currencies must match.'')
     else if ac_cleared_balance_cents deposit_acc < amount_minor m
     then Inl (HTTPException 422 ''Insufficient funds in source account.'')
     else if ca_cleared_balance_cents credit_acc < amount_minor m
     then Inl (HTTPException 422 ''Payment exceeds outstanding card balance.'')
     else bill_post now outcome durable_key request_hash user_id deposit_acc credit_acc m d))))"

text \<open>
  \<open>execute_bill_payment_for_user\<close>: the rollback, the translation of the database's errors, and the
  replay of the winner after a unique-key conflict.
\<close>

definition execute_bill_payment_for_user ::
    "(string \<Rightarrow> string) \<Rightarrow> (pyval \<Rightarrow> string) \<Rightarrow> int \<Rightarrow> commit_outcome \<Rightarrow> user \<Rightarrow> payment_args
     \<Rightarrow> bank_db \<Rightarrow> bank_db \<times> pyval res" where
  "execute_bill_payment_for_user sha256 sha256_json now outcome user args d =
     (case bill_guards args of
        Inl e \<Rightarrow> (d, Inl e)
      | Inr (source, credit) \<Rightarrow>
          (let durable_key = bill_durable_key sha256 (u_id user) args;
               request_hash = bill_request_hash sha256_json source credit (bi_money args);
               rolled_back = (case outcome of Unique_Conflict other \<Rightarrow> other | _ \<Rightarrow> d)
           in case bill_body now outcome durable_key request_hash (u_id user) source credit (bi_money args) d of
                Inr (r, d') \<Rightarrow> (d', Inr r)
              | Inl (OperationalError _) \<Rightarrow>
                  (d, Inl (HTTPException 409 ''Account lock conflict. Retry with the same Idempotency-Key.''))
              | Inl (IntegrityError _) \<Rightarrow>
                  (rolled_back,
                   bindR (bill_replay durable_key request_hash rolled_back) (\<lambda>previous.
                     case previous of Some r \<Rightarrow> Inr r
                     | None \<Rightarrow> Inl (HTTPException 409 ''Concurrent payment conflict. Retry with the same Idempotency-Key.'')))
              | Inl e \<Rightarrow> (d, Inl e)))"

definition execute_bill_payment ::
    "(string \<Rightarrow> string) \<Rightarrow> (pyval \<Rightarrow> string) \<Rightarrow> int \<Rightarrow> commit_outcome \<Rightarrow> string \<Rightarrow> payment_args
     \<Rightarrow> bank_db \<Rightarrow> bank_db \<times> pyval res" where
  "execute_bill_payment sha256 sha256_json now outcome token_user_id args d =
     (case get_user_by_auth_provider_uid token_user_id d of
        None \<Rightarrow> (d, Inl (HTTPException 404 ''User profile not resolved.''))
      | Some user \<Rightarrow> execute_bill_payment_for_user sha256 sha256_json now outcome user args d)"

section \<open>The transactions of a deposit account\<close>

record deposit_line =
  dl_entry_id :: string
  dl_transaction_id :: string
  dl_money :: money
  dl_entry_type :: string
  dl_description :: string
  dl_posted_at :: int
  dl_running_balance :: money
  dl_pending :: bool

definition find_transaction :: "string \<Rightarrow> bank_db \<Rightarrow> transaction option" where
  "find_transaction i d = List.find (\<lambda>t. tx_id t = i) (d_transactions d)"

fun deposit_lines ::
    "bank_db \<Rightarrow> string \<Rightarrow> int \<Rightarrow> account_ledger_entry list \<Rightarrow> deposit_line list res" where
  "deposit_lines d cur running_bal [] = Inr []"
| "deposit_lines d cur running_bal (entry # es) =
     (let tx = find_transaction (le_transaction_id entry) d;
          is_pending = (case tx of Some t \<Rightarrow> tx_status t = ''PENDING'' | None \<Rightarrow> False);
          signed_minor = (if le_entry_type entry = ''CREDIT'' then le_amount_minor entry
                          else - le_amount_minor entry)
      in bindR (mk_money (le_amount_minor entry) cur) (\<lambda>m.
         bindR (mk_money running_bal cur) (\<lambda>balance.
         bindR (deposit_lines d cur (if is_pending then running_bal else running_bal - signed_minor) es) (\<lambda>rest.
           Inr (\<lparr>dl_entry_id = le_entry_id entry, dl_transaction_id = le_transaction_id entry,
                 dl_money = m, dl_entry_type = le_entry_type entry,
                 dl_description = (case tx of Some t \<Rightarrow> tx_description t | None \<Rightarrow> ''Posted Transaction''),
                 dl_posted_at = le_posted_at entry, dl_running_balance = balance,
                 dl_pending = is_pending\<rparr> # rest)))))"

definition get_deposit_transactions :: "string \<Rightarrow> string \<Rightarrow> bank_db \<Rightarrow> deposit_line list res" where
  "get_deposit_transactions token_user_id account_id d =
     (case get_user_by_auth_provider_uid token_user_id d of
        None \<Rightarrow> Inl (HTTPException 404 ''User profile not found.'')
      | Some user \<Rightarrow>
          (case List.find (\<lambda>a. ac_id a = account_id \<and> ac_user_id a = Some (u_id user)
                             \<and> ac_status a = ''ACTIVE'') (d_accounts d) of
             None \<Rightarrow> Inl (HTTPException 404 ''Account not found.'')
           | Some account \<Rightarrow>
               deposit_lines d (ac_currency account) (ac_cleared_balance_cents account)
                 (sort_key (\<lambda>e. - le_posted_at e)
                    (filter (\<lambda>e. le_account_id e = ac_id account) (d_entries d)))))"

section \<open>Effect of a bill payment\<close>

lemma bill_apply_steps:
  assumes "bill_apply now key h uid dep c m d = Inr (r, d')"
  obtains j d1 p d2 c2 d4 i d6 d7 sb cb ab where
    "ensure_credit_journal_account c d = Inr (j, d1)"
    "post_financial_transaction now (bill_posting key uid (ac_id dep) (ca_id c) dep j m) d1 = Inr (p, d2)"
    "recalculate_available_credit (c\<lparr>ca_cleared_balance_cents := ca_cleared_balance_cents c - amount_minor m\<rparr>)
       (put_credit_account (c\<lparr>ca_cleared_balance_cents := ca_cleared_balance_cents c - amount_minor m\<rparr>)
         (update_account (\<lambda>a. a\<lparr>ac_cleared_balance_cents := ac_cleared_balance_cents a - amount_minor m\<rparr>)
                      (ac_id dep) d2)) = Inr (c2, d4)"
    "add_posted_transaction (bill_statement i now (ca_id c) (tx_id (jp_transaction p)) (amount_minor m)) 
       d6 = Inr d7"
    "uuid4 (update_account (\<lambda>a. a\<lparr>ac_cleared_balance_cents := ca_cleared_balance_cents c2,
                                         ac_available_credit_cents := ca_available_credit_cents c2\<rparr>)
                      (ac_id j) d4) = (i, d6)"
    "mk_money (case get_account (ac_id dep) d7 of Some a \<Rightarrow> ac_cleared_balance_cents a | None \<Rightarrow> 0) (currency_code m) = Inr sb"
    "mk_money (ca_cleared_balance_cents c2) (currency_code m) = Inr cb"
    "mk_money (ca_available_credit_cents c2) (currency_code m) = Inr ab"
    "r = bill_result_dump \<lparr>bp_transaction_id = tx_id (jp_transaction p), bp_money = m,
                 bp_source_cleared_balance = sb, bp_credit_cleared_balance = cb,
                 bp_credit_available_credit = ab, bp_message = BILL_MESSAGE\<rparr>"
    "d' = audit now ''BILL_PAYMENT_EXECUTED''
                      [(''source_account_id'', PStr (ac_id dep)),
                       (''credit_account_id'', PStr (ca_id c)),
                       (''money'', model_dump m), (''transaction_id'', PStr (tx_id (jp_transaction p))),
                       (''statement_transaction_id'', PStr i)] 
           (put_transaction ((jp_transaction p)\<lparr>tx_request_hash := Some h,
                      tx_response_payload := Some r,
                      tx_response_status := Some 200\<rparr>) d7)"
    "find_mirror (ca_id c) d = None \<or> (\<exists>x. find_mirror (ca_id c) d = Some x \<and> ac_currency x = currency_code m)"
  using assms unfolding bill_apply_def Let_def
    apply (elim run_elims)
    apply (rule that)
    apply assumption+
    apply (auto split: option.splits)
  done

lemma bill_apply_effect:
  assumes ok: "books_ok d" and mir: "mirrors_ok d" and dep: "get_account (ac_id dep) d = Some dep" "is_cash dep"
    and c: "get_credit_account (ca_id c) d = Some c"
    and new: "List.find (\<lambda>t. tx_idempotency_key t = key) (d_transactions d) = None"
    and run: "bill_apply now key h uid dep c m d = Inr (r, d')"
  shows "books_ok d' \<and> 0 < amount_minor m
    \<and> get_account (ac_id dep) d' = Some (dep\<lparr>ac_cleared_balance_cents := ac_cleared_balance_cents dep - amount_minor m\<rparr>)
    \<and> position (ac_id dep) (d_entries d') = position (ac_id dep) (d_entries d) - amount_minor m
    \<and> (\<exists>c2 j. get_credit_account (ca_id c) d' = Some c2
        \<and> c2 = c\<lparr>ca_cleared_balance_cents := ca_cleared_balance_cents c - amount_minor m,
                ca_available_credit_cents := max 0 (min (ca_credit_limit_cents c)
                  (ca_credit_limit_cents c - (ca_cleared_balance_cents c - amount_minor m) - hold_total (ca_id c) d))\<rparr>
        \<and> get_account (ac_id j) d' = Some j \<and> ac_credit_account_id j = Some (ca_id c)
        \<and> ac_cleared_balance_cents j = ca_cleared_balance_cents c2
        \<and> ac_available_credit_cents j = ca_available_credit_cents c2
        \<and> position (ac_id j) (d_entries d') = position (ac_id j) (d_entries d) + amount_minor m)
    \<and> (\<exists>i tid. d_posted d' = d_posted d @ [bill_statement i now (ca_id c) tid (amount_minor m)])
    \<and> (\<exists>tx. List.find (\<lambda>t. tx_idempotency_key t = key) (d_transactions d') = Some tx
          \<and> tx_request_hash tx = Some h \<and> tx_response_payload tx = Some r)
    \<and> (\<exists>b. r = bill_result_dump b \<and> money_ok (bp_source_cleared_balance b)
           \<and> money_ok (bp_credit_cleared_balance b) \<and> money_ok (bp_credit_available_credit b)
           \<and> bp_money b = m)"
proof (cases rule: bill_apply_steps [OF run])
  case (1 j d1 p d2 c2 d4 i d6 d7 sb cb ab)
  let ?n = "amount_minor m"
  let ?f = "\<lambda>a. a\<lparr>ac_cleared_balance_cents := ac_cleared_balance_cents a - ?n\<rparr>"
  let ?g = "\<lambda>a. a\<lparr>ac_cleared_balance_cents := ca_cleared_balance_cents c2,
                   ac_available_credit_cents := ca_available_credit_cents c2\<rparr>"
  let ?c1 = "c\<lparr>ca_cleared_balance_cents := ca_cleared_balance_cents c - ?n\<rparr>"
  note e = ensure_credit_facts [OF ok c 1(1)] note ef = ensure_credit_frame [OF 1(1)]
  have "ac_credit_account_id dep = None"
    using mir dep get_account_id [OF dep(1)] by (auto simp: mirrors_ok_def is_cash_def is_card_def)
  then have neq: "ac_id dep \<noteq> ac_id j" by (rule ensure_credit_mirror [OF ok 1(1) dep(1)])
  have dep1: "get_account (ac_id dep) d1 = Some dep" by (rule e(10) [OF dep(1) neq])
  have new1: "List.find (\<lambda>t. tx_idempotency_key t = pr_idempotency_key
        (bill_posting key uid (ac_id dep) (ca_id c) dep j m)) (d_transactions d1) = None"
    using new by (simp add: bill_posting_def e(8))
  have lines: "pr_entries (bill_posting key uid (ac_id dep) (ca_id c) dep j m) = two_lines (ac_id dep) (ac_id j) m"
    by (simp add: bill_posting_def)
  note pe = post_two_lines_effect [OF 1(2) lines new1]
  note ap = append_posting_effect [OF pe(1)]
  have ok2: "books_ok d2" by (rule books_post [OF e(1) 1(2)])
  have g2: "get_account k d2 = get_account k d1" for k by (simp add: get_account_def ap(5))
  have c2': "get_credit_account (ca_id c) d2 = Some c"
    using c by (simp add: get_credit_account_def ap(6) e(9))
  let ?d3 = "update_account ?f (ac_id dep) d2"
  have ok3: "books_ok ?d3" by (rule update_account_books [OF ok2]) simp_all
  have g3: "get_account k ?d3 = (if k = ac_id dep then Some (?f dep) else get_account k d1)" for k
    by (subst update_account_get) (simp_all add: g2 dep1)
  have c3: "get_credit_account (ca_id ?c1) ?d3 = Some c"
    using c2' by (simp add: get_credit_account_def frame_simps)
  have ok3': "books_ok (put_credit_account ?c1 ?d3)"
    by (rule books_put_credit_account [OF ok3 c3]) simp
  note r = recalculate_effect [OF 1(3)] note rs = recalculate_same [OF 1(3)]
  have c3': "get_credit_account (ca_id c2) (put_credit_account ?c1 ?d3) = Some ?c1"
    using get_put_credit_account [of ?c1 ?d3] c3 rs(1) by simp
  have ok4: "books_ok d4" unfolding r(2)
    by (rule books_put_credit_account [OF ok3' c3']) (simp add: rs)
  have g4: "get_account k d4 = get_account k ?d3" for k by (simp add: r(2) frame_simps)
  have c4: "get_credit_account (ca_id c) d4 = Some c2"
    unfolding r(2) using get_put_credit_account [of c2 "put_credit_account ?c1 ?d3"] c3' rs(1) by simp
  let ?d5 = "update_account ?g (ac_id j) d4"
  have ok5: "books_ok ?d5" by (rule update_account_books [OF ok4]) simp_all
  have g5: "get_account k ?d5 = (if k = ac_id j then Some (?g j) else get_account k ?d3)" for k
    using neq by (subst update_account_get) (simp_all add: g4 g3 e(2))
  note u = uuid4_frame [OF 1(5)] note pf = posted_frame [OF 1(4)]
  have ok7: "books_ok d7" by (rule books_frame_put_posted [OF u(10) [OF ok5] 1(4)])
  let ?tx = "(jp_transaction p)\<lparr>tx_request_hash := Some h, tx_response_payload := Some r, tx_response_status := Some 200\<rparr>"
  have txs: "d_transactions d7 = d_transactions d @ [jp_transaction p]"
    by (simp add: pf u frame_simps r(2) ap(1,3) e(8))
  have ok': "books_ok d'"
    unfolding 1(10) by (intro books_audit books_put_transaction [OF ok7, of "jp_transaction p"]) (simp_all add: txs)
  have acc: "get_account k d' = get_account k ?d5" for k
    by (simp add: 1(10) frame_simps pf u)
  have es: "d_entries d' = d_entries d2" by (simp add: 1(10) frame_simps pf u r(2))
  have pos: "position k (d_entries d') = position k (d_entries d)
        + ((if k = ac_id j then ?n else 0) - (if k = ac_id dep then ?n else 0))" for k
    unfolding es pe(4) e(7) ..
  have cr: "get_credit_account (ca_id c) d' = Some c2"
    by (simp add: 1(10) frame_simps pf u) (simp add: get_credit_account_def frame_simps c4 [unfolded get_credit_account_def])
  have holds: "hold_total (ca_id c) (put_credit_account ?c1 ?d3) = hold_total (ca_id c) d"
    by (rule hold_total_cong)
      (simp add: put_credit_account_def update_account_def put_account_def ap(7) ef split: option.split)
  have posted: "d_posted d' = d_posted d @ [bill_statement i now (ca_id c) (tx_id (jp_transaction p)) ?n]"
    by (simp add: 1(10) frame_simps pf u r(2))
      (simp add: put_credit_account_def update_account_def put_account_def ap(9) ef split: option.split)
  have id: "tx_id (jp_transaction p) \<notin> tx_id ` set (d_transactions d)"
  proof -
    have "distinct (map tx_id (d_transactions d7))" by (rule books_distinct(3) [OF ok7])
    then show ?thesis by (auto simp: txs)
  qed
  have "put_row tx_id ?tx (d_transactions d) = d_transactions d"
    by (rule put_row_absent) (use id in simp)
  then have "d_transactions d' = d_transactions d @ [?tx]"
    unfolding 1(10) by (simp add: frame_simps put_transaction_def txs) (simp add: put_row_def)
  then have stored: "List.find (\<lambda>t. tx_idempotency_key t = key) (d_transactions d') = Some ?tx"
    using new by (simp add: find_append ap(1) new_transaction_def bill_posting_def)
  note mm = mk_money_InrD [OF 1(6)] mk_money_InrD [OF 1(7)] mk_money_InrD [OF 1(8)]
  show ?thesis
  proof (intro conjI)
    show "books_ok d'" "0 < ?n" by (fact ok') (fact pe(3))
    show "get_account (ac_id dep) d' = Some (?f dep)" using neq by (simp add: acc g5 g3)
    show "position (ac_id dep) (d_entries d') = position (ac_id dep) (d_entries d) - ?n"
      using neq by (simp add: pos)
    show "\<exists>c2 j. get_credit_account (ca_id c) d' = Some c2
        \<and> c2 = c\<lparr>ca_cleared_balance_cents := ca_cleared_balance_cents c - amount_minor m,
                ca_available_credit_cents := max 0 (min (ca_credit_limit_cents c)
                  (ca_credit_limit_cents c - (ca_cleared_balance_cents c - amount_minor m) - hold_total (ca_id c) d))\<rparr>
        \<and> get_account (ac_id j) d' = Some j \<and> ac_credit_account_id j = Some (ca_id c)
        \<and> ac_cleared_balance_cents j = ca_cleared_balance_cents c2
        \<and> ac_available_credit_cents j = ca_available_credit_cents c2
        \<and> position (ac_id j) (d_entries d') = position (ac_id j) (d_entries d) + amount_minor m"
    proof (intro exI conjI)
      show "get_credit_account (ca_id c) d' = Some c2" by (rule cr)
      show "c2 = c\<lparr>ca_cleared_balance_cents := ca_cleared_balance_cents c - amount_minor m,
                ca_available_credit_cents := max 0 (min (ca_credit_limit_cents c)
                  (ca_credit_limit_cents c - (ca_cleared_balance_cents c - amount_minor m) - hold_total (ca_id c) d))\<rparr>"
        using r(1) holds by simp
      show "get_account (ac_id (?g j)) d' = Some (?g j)" by (simp add: acc g5)
      show "ac_credit_account_id (?g j) = Some (ca_id c)" by (simp add: e(4))
      show "position (ac_id (?g j)) (d_entries d') = position (ac_id (?g j)) (d_entries d) + amount_minor m"
        using neq by (simp add: pos)
    qed simp_all
    show "\<exists>i tid. d_posted d' = d_posted d @ [bill_statement i now (ca_id c) tid ?n]" using posted by blast
    show "\<exists>tx. List.find (\<lambda>t. tx_idempotency_key t = key) (d_transactions d') = Some tx
          \<and> tx_request_hash tx = Some h \<and> tx_response_payload tx = Some r"
      using stored by auto
    show "\<exists>b. r = bill_result_dump b \<and> money_ok (bp_source_cleared_balance b)
           \<and> money_ok (bp_credit_cleared_balance b) \<and> money_ok (bp_credit_available_credit b) \<and> bp_money b = m"
      using mm(3,6,9) 1(9) by (metis bill_payment_result.select_convs(2-5))
  qed
qed

lemma bill_result_roundtrip:
  "money_ok (bp_money b) \<Longrightarrow> money_ok (bp_source_cleared_balance b) \<Longrightarrow>
   money_ok (bp_credit_cleared_balance b) \<Longrightarrow> money_ok (bp_credit_available_credit b) \<Longrightarrow>
   bill_result_validate (bill_result_dump b) = Inr b"
  by (auto simp: bill_result_validate_def bill_result_dump_def BILL_REQUIRED_def BILL_DEFAULTED_def
      literal_default_def money_validate_dump mk_money_of_ok)

lemma db_commit_Inr [simp]: "db_commit outcome d = Inr d' \<longleftrightarrow> outcome = Committed \<and> d' = d"
  by (auto simp: db_commit_def split: commit_outcome.splits)

lemma lock_first_Inr: "lock_first key lock row d = Inr (Some r) \<Longrightarrow> row = Some r"
  by (auto simp: lock_first_def split: option.splits if_splits)

lemma deposit_lookup:
  assumes "books_ok d" "get_deposit_account_for_user uid i True d = Inr (Some dep)"
  shows "get_account (ac_id dep) d = Some dep \<and> ac_id dep = i \<and> ac_user_id dep = Some uid \<and> ac_status dep = ''ACTIVE''"
  using assms find_key_distinct [OF books_distinct(1) [OF assms(1)]]
  by (auto simp: get_deposit_account_for_user_def get_account_def dest!: lock_first_Inr find_Some_iff')

lemma credit_lookup:
  assumes "books_ok d" "get_credit_account_for_user uid i True d = Inr (Some c)"
  shows "get_credit_account (ca_id c) d = Some c \<and> ca_id c = i \<and> ca_customer_id c = uid \<and> ca_status c = ''ACTIVE''"
  using assms find_key_distinct [OF books_distinct(2) [OF assms(1)]]
  by (auto simp: get_credit_account_for_user_def get_credit_account_def dest!: lock_first_Inr find_Some_iff')

lemma bill_body_cases:
  assumes "bill_body now outcome key h uid source credit m d = Inr (r, d')"
  obtains (replayed) "bill_replay key h d = Inr (Some r)" "d' = d"
  | (paid) dep c where "bill_replay key h d = Inr None"
      "get_deposit_account_for_user uid source True d = Inr (Some dep)" "is_cash dep"
      "get_credit_account_for_user uid credit True d = Inr (Some c)"
      "ac_currency dep = currency_code m" "ca_currency c = currency_code m"
      "amount_minor m \<le> ac_cleared_balance_cents dep" "amount_minor m \<le> ca_cleared_balance_cents c"
      "bill_apply now key h uid dep c m d = Inr (r, d')"
proof -
  from assms obtain prev where prev: "bill_replay key h d = Inr prev"
    unfolding bill_body_def by (elim bindR_E)
  show thesis
  proof (cases prev)
    case (Some v)
    then show thesis using assms prev by (intro replayed) (simp_all add: bill_body_def)
  next
    case None
    from assms show thesis
      unfolding bill_body_def bill_post_def prev None bindR_simps option.case
      by (elim run_elims) (rule paid, (simp add: prev None)+)
  qed
qed

lemma bill_replay_None_iff:
  "bill_replay key h d = Inr None \<longleftrightarrow> List.find (\<lambda>t. tx_idempotency_key t = key) (d_transactions d) = None"
  by (auto simp: bill_replay_def split: option.splits if_splits)

section \<open>Properties of bill payments\<close>

text \<open>The outcome of a call: refused before the database, undone, replayed, or paid.\<close>

lemma execute_bill_cases:
  assumes "outcome = Committed \<or> outcome = Lock_Conflict"
  obtains (refused) e where "execute_bill_payment_for_user sha sj now outcome user args d = (d, Inl e)"
  | (completed) s c r d' where "bill_guards args = Inr (s, c)"
      "bill_body now outcome (bill_durable_key sha (u_id user) args)
         (bill_request_hash sj s c (bi_money args)) (u_id user) s c (bi_money args) d = Inr (r, d')"
      "execute_bill_payment_for_user sha sj now outcome user args d = (d', Inr r)"
  | (recovered) s c r where "bill_guards args = Inr (s, c)"
      "bill_replay (bill_durable_key sha (u_id user) args)
         (bill_request_hash sj s c (bi_money args)) d = Inr (Some r)"
      "execute_bill_payment_for_user sha sj now outcome user args d = (d, Inr r)"
proof (cases "bill_guards args")
  case (Inl e)
  then show thesis by (intro refused) (simp add: execute_bill_payment_for_user_def)
next
  case (Inr sc)
  obtain s c where sc: "sc = (s, c)" by (cases sc)
  let ?k = "bill_durable_key sha (u_id user) args" and ?h = "bill_request_hash sj s c (bi_money args)"
  have rb: "(case outcome of Unique_Conflict other \<Rightarrow> other | _ \<Rightarrow> d) = d"
    using assms by auto
  show thesis
  proof (cases "bill_body now outcome ?k ?h (u_id user) s c (bi_money args) d")
    case (Inr rd)
    then show thesis
      using \<open>bill_guards args = Inr sc\<close> sc
      by (cases rd) (intro completed, auto simp: execute_bill_payment_for_user_def Let_def)
  next
    case (Inl e)
    show thesis
    proof (cases "\<exists>x. e = IntegrityError x")
      case False
      then show thesis
        using Inl \<open>bill_guards args = Inr sc\<close> sc
        by (cases e) (auto simp: execute_bill_payment_for_user_def Let_def intro: refused)
    next
      case True
      show thesis
      proof (cases "bill_replay ?k ?h d")
        case (Inl e')
        with True \<open>bill_body _ _ _ _ _ _ _ _ _ = Inl e\<close> \<open>bill_guards args = Inr sc\<close> sc rb show thesis
          by (intro refused) (auto simp: execute_bill_payment_for_user_def Let_def)
      next
        case (Inr v)
        then show thesis
          using True \<open>bill_body _ _ _ _ _ _ _ _ _ = Inl e\<close> \<open>bill_guards args = Inr sc\<close> sc rb refused recovered
          by (cases v) (auto simp: execute_bill_payment_for_user_def Let_def)
      qed
    qed
  qed
qed

definition sample_id :: "char \<Rightarrow> string" where
  "sample_id x = ''00000000-0000-0000-0000-00000000000'' @ [x]"

definition sample_pay_db :: bank_db where
  "sample_pay_db = sample_db\<lparr>
     d_accounts := [(sample_deposit ''CHK1'' ''CHECKING'' 100000 ''USD'')\<lparr>ac_id := sample_id (CHR ''a'')\<rparr>],
     d_credit_accounts := [sample_card_account\<lparr>ca_id := sample_id (CHR ''c'')\<rparr>]\<rparr>"

definition sample_payment :: payment_args where
  "sample_payment = \<lparr>bi_source_account_id = ''{0000000000000000000000000000000A}'',
     bi_credit_account_id = sample_id (CHR ''c''),
     bi_money = \<lparr>amount_minor = 15000, currency_code = ''USD''\<rparr>, bi_idempotency_key = ''pay-1''\<rparr>"

definition sample_user :: user where
  "sample_user = \<lparr>u_id = ''U1'', u_auth_provider_uid = ''uid-1'', u_email = None\<rparr>"

abbreviation sample_pay :: "bank_db \<times> pyval res" where
  "sample_pay \<equiv> execute_bill_payment_for_user (\<lambda>s. s) (\<lambda>_. ''h'') 7 Committed sample_user sample_payment sample_pay_db"

lemma sample_pay_ok: "\<exists>r. snd sample_pay = Inr r"
proof -
  have "\<not> isl (snd sample_pay)" by code_simp
  then show ?thesis by (cases "snd sample_pay") auto
qed

lemma sample_pay_books: "books_ok sample_pay_db \<and> mirrors_ok sample_pay_db"
proof -
  have "uuid_fresh sample_pay_db"
    unfolding uuid_fresh_def
    by (simp add: sample_pay_db_def sample_db_def sample_uuid_inj sample_deposit_def)
      (simp add: sample_uuid_def sample_id_def)
  moreover have "journal_ok sample_pay_db"
    by (simp add: journal_ok_def sample_pay_db_def sample_db_def)
  moreover have "denominations_ok sample_pay_db"
    by (simp add: denominations_ok_def sample_pay_db_def sample_db_def sample_deposit_def SUPPORTED_def
        mirror_conflict_def sample_card_account_def)
  ultimately show ?thesis
    by (simp add: books_ok_def mirrors_ok_def sample_pay_db_def sample_db_def sample_deposit_def)
qed

text \<open>Every bill payment, accepted, replayed or refused, keeps the books free of reconciliation
  blockers; one that raises leaves the database as it was.\<close>

theorem bill_payment_keeps_books:
  assumes "books_ok d" "mirrors_ok d" and "outcome = Committed \<or> outcome = Lock_Conflict"
  shows "let (d', res) = execute_bill_payment_for_user sha sj now outcome user args d in
     books_ok d' \<and> migration_blockers (reconcile_money d') = [] \<and> (isl res \<longrightarrow> d' = d)"
  using assms(3)
proof (cases rule: execute_bill_cases [of outcome sha sj now user args d])
  case (refused e)
  then show ?thesis using assms(1) books_ok_no_blockers by simp
next
  case (recovered s c r)
  then show ?thesis using assms(1) books_ok_no_blockers by simp
next
  case (completed s c r d')
  have "books_ok d'"
    using completed(2)
  proof (cases rule: bill_body_cases)
    case replayed
    with assms(1) show ?thesis by simp
  next
    case (paid dep ca)
    note l = deposit_lookup [OF assms(1) paid(2)] credit_lookup [OF assms(1) paid(4)]
    have new: "List.find (\<lambda>t. tx_idempotency_key t = bill_durable_key sha (u_id user) args) (d_transactions d) = None"
      using paid(1) by (simp add: bill_replay_None_iff)
    show ?thesis
      using bill_apply_effect [OF assms(1,2) conjunct1 [OF l(1)] paid(3) conjunct1 [OF l(2)] new paid(9)] by (rule conjunct1)
  qed
  then show ?thesis using completed(3) books_ok_no_blockers by simp
qed

theorem bill_payment_keeps_books_witness:
  "books_ok (fst sample_pay) \<and> d_posted (fst sample_pay) \<noteq> []"
proof -
  have "d_posted (fst sample_pay) \<noteq> []" by code_simp
  then show ?thesis
    using bill_payment_keeps_books [of sample_pay_db Committed "\<lambda>s. s" "\<lambda>_. ''h''" 7 sample_user sample_payment]
      sample_pay_books
    by (auto simp: Let_def split: prod.splits)
qed

text \<open>C34. A new bill payment moves exactly its amount: it leaves the customer's own active deposit
  account, which could afford it, and the customer's own card debt, which was at least as large,
  shrinks by it; the available credit is the recomputed one, the card's journal mirror equals the
  card account, the journal positions of both move by the amount, and one statement line records it.\<close>

theorem bill_payment_moves_money:
  assumes "books_ok d" "mirrors_ok d"
    and "snd (execute_bill_payment_for_user sha sj now Committed user args d) = Inr r"
    and "List.find (\<lambda>t. tx_idempotency_key t = bill_durable_key sha (u_id user) args) (d_transactions d) = None"
  shows "\<exists>dep c c2 j. let d' = fst (execute_bill_payment_for_user sha sj now Committed user args d);
      n = amount_minor (bi_money args) in
      py_uuid (bi_source_account_id args) = Some (ac_id dep) \<and> get_account (ac_id dep) d = Some dep
    \<and> ac_user_id dep = Some (u_id user) \<and> is_cash dep \<and> 0 < n \<and> n \<le> ac_cleared_balance_cents dep
    \<and> py_uuid (bi_credit_account_id args) = Some (ca_id c) \<and> get_credit_account (ca_id c) d = Some c
    \<and> ca_customer_id c = u_id user \<and> n \<le> ca_cleared_balance_cents c
    \<and> get_account (ac_id dep) d' = Some (dep\<lparr>ac_cleared_balance_cents := ac_cleared_balance_cents dep - n\<rparr>)
    \<and> get_credit_account (ca_id c) d' = Some c2
    \<and> ca_cleared_balance_cents c2 = ca_cleared_balance_cents c - n
    \<and> ca_available_credit_cents c2 = max 0 (min (ca_credit_limit_cents c)
        (ca_credit_limit_cents c - ca_cleared_balance_cents c2 - hold_total (ca_id c) d))
    \<and> get_account (ac_id j) d' = Some j \<and> ac_credit_account_id j = Some (ca_id c)
    \<and> ac_cleared_balance_cents j = ca_cleared_balance_cents c2
    \<and> ac_available_credit_cents j = ca_available_credit_cents c2
    \<and> position (ac_id j) (d_entries d') = position (ac_id j) (d_entries d) + n
    \<and> position (ac_id dep) (d_entries d') = position (ac_id dep) (d_entries d) - n
    \<and> (\<exists>i tid. d_posted d' = d_posted d @ [bill_statement i now (ca_id c) tid n])"
proof -
  have new: "bill_replay (bill_durable_key sha (u_id user) args) h d = Inr None" for h
    using assms(4) by (simp add: bill_replay_None_iff)
  from disjI1 [OF refl] show ?thesis
  proof (cases rule: execute_bill_cases [of Committed sha sj now user args d])
    case (refused e)
    with assms(3) show ?thesis by simp
  next
    case (recovered s c r)
    with new show ?thesis by simp
  next
    case (completed s c r d')
    from completed(2) show ?thesis
    proof (cases rule: bill_body_cases)
      case replayed
      with new show ?thesis by simp
    next
      case (paid dep ca)
      note l = deposit_lookup [OF assms(1) paid(2)] credit_lookup [OF assms(1) paid(4)]
      have ids: "py_uuid (bi_source_account_id args) = Some s" "py_uuid (bi_credit_account_id args) = Some c"
        using completed(1) by (auto simp: bill_guards_def split: if_splits option.splits)
      have dep: "get_account (ac_id dep) d = Some dep" and cc: "get_credit_account (ca_id ca) d = Some ca"
        using l by blast+
      from bill_apply_effect [OF assms(1,2) dep paid(3) cc assms(4) paid(9)] obtain c2 j where
        "get_credit_account (ca_id ca) d' = Some c2"
        "c2 = ca\<lparr>ca_cleared_balance_cents := ca_cleared_balance_cents ca - amount_minor (bi_money args),
                ca_available_credit_cents := max 0 (min (ca_credit_limit_cents ca)
                  (ca_credit_limit_cents ca - (ca_cleared_balance_cents ca - amount_minor (bi_money args)) - hold_total (ca_id ca) d))\<rparr>"
        "get_account (ac_id j) d' = Some j \<and> ac_credit_account_id j = Some (ca_id ca)
        \<and> ac_cleared_balance_cents j = ca_cleared_balance_cents c2
        \<and> ac_available_credit_cents j = ca_available_credit_cents c2
        \<and> position (ac_id j) (d_entries d') = position (ac_id j) (d_entries d) + amount_minor (bi_money args)"
        by blast
      note e2 = this
      note eff = bill_apply_effect [OF assms(1,2) dep paid(3) cc assms(4) paid(9)]
      have dp: "get_account (ac_id dep) d'
          = Some (dep\<lparr>ac_cleared_balance_cents := ac_cleared_balance_cents dep - amount_minor (bi_money args)\<rparr>)"
        and ps: "position (ac_id dep) (d_entries d') = position (ac_id dep) (d_entries d) - amount_minor (bi_money args)"
        and po: "\<exists>i tid. d_posted d' = d_posted d @ [bill_statement i now (ca_id ca) tid (amount_minor (bi_money args))]"
        and n: "0 < amount_minor (bi_money args)"
        using eff by blast+
      show ?thesis
        unfolding completed(3) fst_conv Let_def
        by (rule exI [of _ dep], rule exI [of _ ca], rule exI [of _ c2], rule exI [of _ j], intro conjI)
          (use dep cc e2 dp ps po n l ids paid(3,7,8) in auto)
    qed
  qed
qed

theorem bill_payment_moves_money_witness:
  "map_option ac_cleared_balance_cents (get_account (sample_id (CHR ''a'')) (fst sample_pay)) = Some 85000"
proof -
  obtain r where r: "snd sample_pay = Inr r" using sample_pay_ok by blast
  have new: "List.find (\<lambda>t. tx_idempotency_key t = bill_durable_key (\<lambda>s. s) (u_id sample_user) sample_payment)
       (d_transactions sample_pay_db) = None"
    by (simp add: sample_pay_db_def sample_db_def)
  have id: "py_uuid (bi_source_account_id sample_payment) = Some (sample_id (CHR ''a''))" by code_simp
  have get: "get_account (sample_id (CHR ''a'')) sample_pay_db
      = Some ((sample_deposit ''CHK1'' ''CHECKING'' 100000 ''USD'')\<lparr>ac_id := sample_id (CHR ''a'')\<rparr>)"
    by (simp add: sample_pay_db_def get_account_def)
  obtain dep where dep: "py_uuid (bi_source_account_id sample_payment) = Some (ac_id dep)"
    "get_account (ac_id dep) sample_pay_db = Some dep"
    "get_account (ac_id dep) (fst sample_pay)
       = Some (dep\<lparr>ac_cleared_balance_cents := ac_cleared_balance_cents dep - amount_minor (bi_money sample_payment)\<rparr>)"
    using bill_payment_moves_money [OF conjunct1 [OF sample_pay_books] conjunct2 [OF sample_pay_books] r new]
    unfolding Let_def by blast
  have "ac_id dep = sample_id (CHR ''a'')" using dep(1) id by simp
  with dep(2) get have "dep = (sample_deposit ''CHK1'' ''CHECKING'' 100000 ''USD'')\<lparr>ac_id := sample_id (CHR ''a'')\<rparr>"
    by simp
  with dep(3) show ?thesis by (simp add: sample_payment_def sample_deposit_def)
qed

text \<open>A bill payment happens at most once per idempotency key: repeating an accepted one, at any
  time and whatever the commit would answer, returns the same reply and changes nothing; a request
  with another digest under the same key is refused and changes nothing.\<close>

theorem bill_payment_idempotent:
  assumes "books_ok d" "mirrors_ok d" "money_ok (bi_money args)"
    and "execute_bill_payment_for_user sha sj now Committed user args d = (d', Inr r)"
    and "List.find (\<lambda>t. tx_idempotency_key t = bill_durable_key sha (u_id user) args) (d_transactions d) = None"
  shows "execute_bill_payment_for_user sha sj later outcome user args d' = (d', Inr r)
    \<and> (\<forall>args' s s' c c'. bi_idempotency_key args' = bi_idempotency_key args
         \<longrightarrow> bill_guards args = Inr (s, c) \<longrightarrow> bill_guards args' = Inr (s', c')
         \<longrightarrow> bill_request_hash sj s' c' (bi_money args') \<noteq> bill_request_hash sj s c (bi_money args)
         \<longrightarrow> (\<exists>e. execute_bill_payment_for_user sha sj later outcome user args' d' = (d', Inl e)))"
proof -
  let ?k = "bill_durable_key sha (u_id user) args"
  have new: "bill_replay ?k h d = Inr None" for h
    using assms(5) by (simp add: bill_replay_None_iff)
  have "\<exists>s c b tx. bill_guards args = Inr (s, c) \<and> r = bill_result_dump b \<and> bill_result_validate r = Inr b
      \<and> List.find (\<lambda>t. tx_idempotency_key t = ?k) (d_transactions d') = Some tx
      \<and> tx_request_hash tx = Some (bill_request_hash sj s c (bi_money args)) \<and> tx_response_payload tx = Some r"
    using disjI1 [OF refl]
  proof (cases rule: execute_bill_cases [of Committed sha sj now user args d])
    case (refused e)
    with assms(4) show ?thesis by simp
  next
    case (recovered s c r)
    with new show ?thesis by simp
  next
    case (completed s c r' d'')
    then have eq: "r' = r" "d'' = d'" using assms(4) by simp_all
    from completed(2) show ?thesis
    proof (cases rule: bill_body_cases)
      case replayed
      with new show ?thesis by simp
    next
      case (paid dep ca)
      have dep: "get_account (ac_id dep) d = Some dep" and cc: "get_credit_account (ca_id ca) d = Some ca"
        using deposit_lookup [OF assms(1) paid(2)] credit_lookup [OF assms(1) paid(4)] by blast+
      from bill_apply_effect [OF assms(1,2) dep paid(3) cc assms(5) paid(9)] obtain b tx where
        "r' = bill_result_dump b" "money_ok (bp_source_cleared_balance b)"
        "money_ok (bp_credit_cleared_balance b)" "money_ok (bp_credit_available_credit b)" "bp_money b = bi_money args"
        "List.find (\<lambda>t. tx_idempotency_key t = ?k) (d_transactions d'') = Some tx"
        "tx_request_hash tx = Some (bill_request_hash sj s c (bi_money args))" "tx_response_payload tx = Some r'"
        by blast
      moreover from this have "bill_result_validate r' = Inr b"
        using assms(3) by (simp add: bill_result_roundtrip)
      ultimately show ?thesis using completed(1) eq by metis
    qed
  qed
  then obtain s c b tx where st: "bill_guards args = Inr (s, c)" "r = bill_result_dump b"
    "bill_result_validate r = Inr b" "List.find (\<lambda>t. tx_idempotency_key t = ?k) (d_transactions d') = Some tx"
    "tx_request_hash tx = Some (bill_request_hash sj s c (bi_money args))" "tx_response_payload tx = Some r"
    by blast
  have again: "bill_replay ?k (bill_request_hash sj s c (bi_money args)) d' = Inr (Some r)"
    using st by (simp add: bill_replay_def)
  have other: "\<exists>e. execute_bill_payment_for_user sha sj later outcome user args' d' = (d', Inl e)"
    if a: "bi_idempotency_key args' = bi_idempotency_key args" "bill_guards args' = Inr (s', c')"
      "bill_request_hash sj s' c' (bi_money args') \<noteq> bill_request_hash sj s c (bi_money args)" for args' s' c'
  proof -
    have "bill_durable_key sha (u_id user) args' = ?k" using a(1) by (simp add: bill_durable_key_def)
    then have "bill_replay (bill_durable_key sha (u_id user) args') (bill_request_hash sj s' c' (bi_money args')) d'
        = Inl (HTTPException 409 ''Idempotency key reused with different account, amount, or currency.'')"
      using st(4,5) a(3) by (simp add: bill_replay_def)
    then show ?thesis
      by (simp add: execute_bill_payment_for_user_def a(2) Let_def bill_body_def)
  qed
  show ?thesis
    using st(1) again other by (auto simp: execute_bill_payment_for_user_def Let_def bill_body_def)
qed

theorem bill_payment_idempotent_witness:
  "\<exists>r d'. sample_pay = (d', Inr r)
     \<and> execute_bill_payment_for_user (\<lambda>s. s) (\<lambda>_. ''h'') 9 Lock_Conflict sample_user sample_payment d' = (d', Inr r)"
proof -
  obtain r where r: "sample_pay = (fst sample_pay, Inr r)" using sample_pay_ok by (metis prod.collapse)
  have "money_ok (bi_money sample_payment)"
    by (simp add: sample_payment_def money_ok_def MAX_MINOR_def CURRENCY_EXPONENTS_def)
  moreover have "List.find (\<lambda>t. tx_idempotency_key t = bill_durable_key (\<lambda>s. s) (u_id sample_user) sample_payment)
       (d_transactions sample_pay_db) = None"
    by (simp add: sample_pay_db_def sample_db_def)
  ultimately have "execute_bill_payment_for_user (\<lambda>s. s) (\<lambda>_. ''h'') 9 Lock_Conflict sample_user sample_payment (fst sample_pay)
      = (fst sample_pay, Inr r)"
    using bill_payment_idempotent [OF conjunct1 [OF sample_pay_books] conjunct2 [OF sample_pay_books] _ r]
    by blast
  with r show ?thesis by blast
qed

section \<open>Properties of the transaction list\<close>

definition is_pending :: "bank_db \<Rightarrow> account_ledger_entry \<Rightarrow> bool" where
  "is_pending d e \<longleftrightarrow> (case find_transaction (le_transaction_id e) d of
     Some t \<Rightarrow> tx_status t = ''PENDING'' | None \<Rightarrow> False)"

definition settled :: "bank_db \<Rightarrow> account_ledger_entry list \<Rightarrow> int" where
  "settled d es = sum_list (map signed (filter (\<lambda>e. \<not> is_pending d e) es))"

lemma deposit_lines_running:
  assumes "deposit_lines d cur bal es = Inr ls"
  shows "map dl_entry_id ls = map le_entry_id es
    \<and> (\<forall>k < length ls. amount_minor (dl_running_balance (ls ! k)) = bal - settled d (take k es))"
  using assms
proof (induction es arbitrary: bal ls)
  case (Cons e es)
  let ?bal = "if is_pending d e then bal else bal - signed e"
  have pend: "(case find_transaction (le_transaction_id e) d of Some t \<Rightarrow> tx_status t = ''PENDING'' | None \<Rightarrow> False)
      = is_pending d e" by (simp add: is_pending_def)
  from Cons.prems obtain b rest l where rest: "deposit_lines d cur ?bal es = Inr rest" and l: "ls = l # rest"
    and b: "mk_money bal cur = Inr b" "dl_running_balance l = b" "dl_entry_id l = le_entry_id e"
    unfolding deposit_lines.simps Let_def pend signed_def [symmetric] by (elim run_elims) auto
  note IH = Cons.IH [OF rest]
  have "amount_minor (dl_running_balance (ls ! k)) = bal - settled d (take k (e # es))" if "k < length ls" for k
  proof (cases k)
    case 0
    then show ?thesis using b mk_money_InrD(1) [OF b(1)] by (simp add: l settled_def)
  next
    case (Suc n)
    then show ?thesis using IH that by (simp add: l settled_def)
  qed
  then show ?case using IH b by (simp add: l)
qed simp

lemma sum_list_sort_key: "sum_list (map f (sort_key k xs)) = sum_list (map f xs)" for f :: "'a \<Rightarrow> int"
  by (metis mset_map mset_sort sum_mset_sum_list)

text \<open>The transaction list of a deposit account explains its balance: it has one line per journal
  entry, newest first, the first line shows the current balance, each line's running balance is
  the current one without the settled entries above it, and what remains below the oldest line is
  exactly the difference the reconciliation would report (nothing, for a reconciled account).\<close>

theorem deposit_history_explains_balance:
  assumes "books_ok d" and "get_deposit_transactions uid aid d = Inr ls"
    and "\<And>e. e \<in> set (d_entries d) \<Longrightarrow> \<not> is_pending d e"
  shows "\<exists>a es. get_account aid d = Some a
    \<and> mset es = mset (filter (\<lambda>e. le_account_id e = aid) (d_entries d))
    \<and> sorted (map (\<lambda>e. - le_posted_at e) es) \<and> map dl_entry_id ls = map le_entry_id es
    \<and> (\<forall>k < length ls. amount_minor (dl_running_balance (ls ! k))
          = ac_cleared_balance_cents a - sum_list (map signed (take k es)))
    \<and> (is_cash a \<longrightarrow> ac_cleared_balance_cents a - sum_list (map signed es) = drift d a)"
proof -
  let ?es = "\<lambda>a. sort_key (\<lambda>e. - le_posted_at e) (filter (\<lambda>e. le_account_id e = ac_id a) (d_entries d))"
  from assms(2) obtain u :: user and a where
    f: "List.find (\<lambda>a. ac_id a = aid \<and> ac_user_id a = Some (u_id u) \<and> ac_status a = ''ACTIVE'') (d_accounts d) = Some a"
    and ls: "deposit_lines d (ac_currency a) (ac_cleared_balance_cents a) (?es a) = Inr ls"
    unfolding get_deposit_transactions_def by (elim run_elims)
  from find_Some_iff' [OF f] have a: "a \<in> set (d_accounts d)" "ac_id a = aid" by auto
  have get: "get_account aid d = Some a"
    using find_key_distinct [OF books_distinct(1) [OF assms(1)] a(1)] a(2) by (simp add: get_account_def)
  note run = deposit_lines_running [OF ls]
  have np: "filter (\<lambda>e. \<not> is_pending d e) (take k (?es a)) = take k (?es a)" for k
    by (rule filter_True) (use assms(3) in \<open>auto dest: in_set_takeD\<close>)
  have settled: "settled d (take k (?es a)) = sum_list (map signed (take k (?es a)))" for k
    by (simp only: settled_def np)
  have "is_cash a \<longrightarrow> ac_cleared_balance_cents a - sum_list (map signed (?es a)) = drift d a"
    by (auto simp: drift_position [OF assms(1)] is_card_def is_cash_def position_def sum_list_sort_key)
  then show ?thesis
    using get run settled by (intro exI [of _ a] exI [of _ "?es a"]) (simp add: a(2))
qed

theorem deposit_history_explains_balance_witness:
  "\<exists>ls. get_deposit_transactions ''uid-1'' ''CHK1'' sample_posted_db = Inr ls \<and> length ls = 1"
proof -
  have "\<not> isl (get_deposit_transactions ''uid-1'' ''CHK1'' sample_posted_db)" by code_simp
  then obtain ls where ls: "get_deposit_transactions ''uid-1'' ''CHK1'' sample_posted_db = Inr ls"
    by (cases "get_deposit_transactions ''uid-1'' ''CHK1'' sample_posted_db") auto
  obtain p d' where p: "post_financial_transaction 7 sample_request sample_db = Inr (p, d')"
    using sample_posting_succeeds by blast
  then have d': "d' = sample_posted_db" by (simp add: sample_posted_db_def)
  have ok: "books_ok sample_posted_db" using books_post [OF sample_books p] d' by simp
  have "list_all (\<lambda>e. \<not> is_pending sample_posted_db e) (d_entries sample_posted_db)" by code_simp
  then have "\<And>e. e \<in> set (d_entries sample_posted_db) \<Longrightarrow> \<not> is_pending sample_posted_db e"
    by (simp add: list_all_iff)
  from deposit_history_explains_balance [OF ok ls this] obtain es where
    es: "mset es = mset (filter (\<lambda>e. le_account_id e = ''CHK1'') (d_entries sample_posted_db))"
    "map dl_entry_id ls = map le_entry_id es" by blast
  have "length (filter (\<lambda>e. le_account_id e = ''CHK1'') (d_entries sample_posted_db)) = 1" by code_simp
  moreover have "length ls = length es" using es(2) by (metis length_map)
  moreover have "length es = length (filter (\<lambda>e. le_account_id e = ''CHK1'') (d_entries sample_posted_db))"
    using es(1) by (metis size_mset)
  ultimately show ?thesis using ls by auto
qed

end
