(* ===== verification/Floats.thy ===== *)
theory Floats
  imports Prelude "HOL-Library.Log_Nat"
begin

text \<open>
  The floating-point arithmetic of the scoring code.  A finite Python float is the rational it
  denotes; \<open>fl\<close> rounds a rational to the nearest double (ties to even, 53 significant bits, in the
  range without overflow or subnormals the code works in), so \<open>a / b\<close> on integers is \<open>fl (a / b)\<close>,
  which Python rounds once.  \<open>py_round x n\<close> is the built-in \<open>round\<close>: the exact value of \<open>x\<close> rounded
  to \<open>n\<close> decimals, ties to even, read back as a double.
\<close>

definition round_half_even :: "rat \<Rightarrow> int" where
  "round_half_even x =
     (let f = floor x; r = x - of_int f
      in if r < 1 / 2 then f else if 1 / 2 < r then f + 1 else if even f then f else f + 1)"

definition two_to :: "int \<Rightarrow> rat" where
  "two_to k = (if 0 \<le> k then 2 ^ nat k else 1 / 2 ^ nat (- k))"

text \<open>The exponent \<open>s\<close> with \<open>2\<^sup>s \<le> x < 2\<^bsup>s+1\<^esup>\<close>, for a positive \<open>x\<close>.\<close>

definition binary_exponent :: "rat \<Rightarrow> int" where
  "binary_exponent x =
     (let (p, q) = quotient_of x;
          k = int (floorlog 2 (nat p)) - int (floorlog 2 (nat q))
      in if two_to k \<le> x then k else k - 1)"

definition fl :: "rat \<Rightarrow> rat" where
  "fl x = (if x = 0 then 0
           else (let ulp = two_to (binary_exponent (abs x) - 52)
                 in of_int (round_half_even (x / ulp)) * ulp))"

definition py_round :: "rat \<Rightarrow> nat \<Rightarrow> rat" where
  "py_round x n = fl (of_int (round_half_even (x * 10 ^ n)) / 10 ^ n)"

lemma round_half_even_error: "\<bar>of_int (round_half_even x) - x\<bar> \<le> 1 / 2"
proof -
  have "of_int \<lfloor>x\<rfloor> \<le> x" "x < of_int \<lfloor>x\<rfloor> + 1" by linarith+
  then show ?thesis by (simp add: round_half_even_def Let_def)
qed

lemma round_half_even_of_int [simp]: "round_half_even (of_int n) = n"
  by (simp add: round_half_even_def)

lemma round_half_even_mono_int: "of_int n \<le> x \<Longrightarrow> n \<le> round_half_even x"
proof -
  assume "of_int n \<le> x"
  then have "n \<le> \<lfloor>x\<rfloor>" by (simp add: le_floor_iff)
  then show ?thesis by (simp add: round_half_even_def Let_def)
qed

lemma two_to_pos [simp]: "0 < two_to k"
  by (simp add: two_to_def)

lemma fl_zero [simp]: "fl 0 = 0"
  by (simp add: fl_def)

lemma fl_nonneg: "0 \<le> x \<Longrightarrow> 0 \<le> fl x"
proof -
  assume "0 \<le> x"
  then have "of_int 0 \<le> x / two_to k" for k by (simp add: divide_nonneg_pos)
  then have "0 \<le> round_half_even (x / two_to k)" for k by (rule round_half_even_mono_int)
  then show ?thesis unfolding fl_def Let_def by (simp add: mult_nonneg_nonneg less_imp_le)
qed

end
