(* ===== verification/Merchants.thy ===== *)
theory Merchants
  imports Floats
begin

text \<open>
  Merchant look-ups: \<open>MerchantIntelligenceService\<close>
  (\<^verbatim>\<open>services/merchant_intelligence_service.py\<close>), a curated list of brands with aliases, and
  \<open>MerchantEnrichmentService\<close> (\<^verbatim>\<open>services/merchant_service.py\<close>), which matches a descriptor
  against the merchant stores.  The curated rows and the cached stores are parameters.  An alias
  index built from Python sets is taken in the order of the rows' names and aliases.
\<close>

section \<open>Curated intelligence\<close>

record intelligence_row =
  ir_name :: string
  ir_aliases :: "string list"
  ir_type :: string
  ir_mccs :: "string list"
  ir_risk :: int
  ir_flags :: "string list"

record intelligence =
  in_matched :: bool
  in_normalized_merchant :: "string option"
  in_merchant_type :: "string option"
  in_mccs :: "string list"
  in_merchant_risk_score :: "int option"
  in_flags :: "string list"
  in_match_type :: "string option"
  in_matched_alias :: "string option"
  in_mcc_match :: bool

definition is_token_char :: "char \<Rightarrow> bool" where
  "is_token_char c = (let n = of_char c :: nat in (65 \<le> n \<and> n \<le> 90) \<or> (48 \<le> n \<and> n \<le> 57))"

text \<open>The maximal runs of characters that satisfy a predicate (\<open>re.findall\<close>, \<open>split\<close>).\<close>

fun runs :: "(char \<Rightarrow> bool) \<Rightarrow> string \<Rightarrow> string \<Rightarrow> string list" where
  "runs P [] cur = (if cur = [] then [] else [cur])"
| "runs P (c # cs) cur =
     (if P c then runs P cs (cur @ [c])
      else (if cur = [] then runs P cs [] else cur # runs P cs []))"

definition descriptor_tokens :: "string \<Rightarrow> string list" where
  "descriptor_tokens v = runs is_token_char (py_upper v) []"

fun join_space :: "string list \<Rightarrow> string" where
  "join_space [] = []"
| "join_space [w] = w"
| "join_space (w # ws) = w @ '' '' @ join_space ws"

definition split_space :: "string \<Rightarrow> string list" where
  "split_space s = runs (\<lambda>c. \<not> is_space c) s []"

definition normalize_descriptor :: "string \<Rightarrow> string" where
  "normalize_descriptor v = join_space (descriptor_tokens v)"

definition alias_index :: "intelligence_row list \<Rightarrow> (string \<times> intelligence_row) list" where
  "alias_index rows =
     sort_key (\<lambda>(a, r). - int (length a))
       (concat (map (\<lambda>row. map (\<lambda>a. (a, row))
          (filter (\<lambda>a. a \<noteq> []) (map normalize_descriptor (remdups (ir_name row # ir_aliases row))))) rows))"

definition is_alpha :: "char \<Rightarrow> bool" where
  "is_alpha c = (let n = of_char c :: nat in is_upper c \<or> (97 \<le> n \<and> n \<le> 122))"

fun py_title :: "bool \<Rightarrow> string \<Rightarrow> string" where
  "py_title after_alpha [] = []"
| "py_title after_alpha (c # cs) =
     (if is_alpha c then (if after_alpha then lower_char c else upper_char c) # py_title True cs
      else c # py_title False cs)"

definition alias_matches :: "string \<Rightarrow> string \<Rightarrow> bool" where
  "alias_matches descriptor alias =
     (let alias_tokens = split_space alias in
      descriptor = alias \<or> is_infix_of alias descriptor \<or> is_infix_of descriptor alias
      \<or> (alias_tokens \<noteq> [] \<and> set alias_tokens \<subseteq> set (split_space descriptor)))"

definition intelligence_lookup ::
    "intelligence_row list \<Rightarrow> string \<Rightarrow> string option \<Rightarrow> intelligence" where
  "intelligence_lookup rows raw_descriptor mcc =
     (let descriptor = normalize_descriptor raw_descriptor in
      case List.find (\<lambda>(alias, row). alias_matches descriptor alias) (alias_index rows) of
        Some (alias, row) \<Rightarrow>
          \<lparr>in_matched = True, in_normalized_merchant = Some (ir_name row),
           in_merchant_type = Some (ir_type row), in_mccs = ir_mccs row,
           in_merchant_risk_score = Some (ir_risk row), in_flags = sort (map py_upper (ir_flags row)),
           in_match_type = Some (if descriptor = alias then ''exact'' else ''alias''),
           in_matched_alias = Some alias,
           in_mcc_match = (case mcc of None \<Rightarrow> False | Some m \<Rightarrow> m \<noteq> [] \<and> m \<in> set (ir_mccs row))\<rparr>
      | None \<Rightarrow>
          \<lparr>in_matched = False,
           in_normalized_merchant = (if descriptor = [] then None else Some (py_title False descriptor)),
           in_merchant_type = None, in_mccs = [], in_merchant_risk_score = None, in_flags = [],
           in_match_type = None, in_matched_alias = None, in_mcc_match = False\<rparr>)"

section \<open>Merchant stores\<close>

record merchant_dto =
  md_merchant_id :: string
  md_merchant_slug :: string
  md_merchant_store_id :: "string option"
  md_clean_name :: string
  md_location_name :: string
  md_raw_descriptor_pattern :: string
  md_mcc :: string
  md_category :: string
  md_country_code :: string
  md_city :: "string option"
  md_region :: "string option"
  md_postal_code :: "string option"
  md_latitude :: "rat option"
  md_longitude :: "rat option"
  md_card_present_capable :: bool
  md_ecommerce_capable :: bool
  md_high_risk_flags :: "string list"
  md_logo_url :: "string option"
  md_merchant_domain :: "string option"
  md_is_subscription :: bool
  md_is_international :: bool
  md_risk_score :: int

definition HIGH_RISK_FLAG_KEYWORDS :: "(string \<times> string) list" where
  "HIGH_RISK_FLAG_KEYWORDS =
     [(''GIFT'', ''GIFT_CARD''), (''RAZER'', ''DIGITAL_GOODS''), (''GAME'', ''GAMING''),
      (''CRYPTO'', ''CRYPTO_LIKE''), (''ELECTRONIC'', ''ELECTRONICS''), (''BEST BUY'', ''ELECTRONICS''),
      (''APPLE'', ''ELECTRONICS'')]"

definition keyword_flags :: "(string \<times> string) list \<Rightarrow> string \<Rightarrow> string list" where
  "keyword_flags table haystack = map snd (filter (\<lambda>(k, f). is_infix_of k haystack) table)"

definition infer_high_risk_flags :: "string \<Rightarrow> string \<Rightarrow> string list" where
  "infer_high_risk_flags clean_name raw_descriptor =
     sort (remdups (keyword_flags HIGH_RISK_FLAG_KEYWORDS (py_upper (clean_name @ '' '' @ raw_descriptor))))"

definition is_ecommerce_descriptor :: "string \<Rightarrow> bool" where
  "is_ecommerce_descriptor raw =
     contains_any [''ONLINE'', ''.COM'', ''MKTPLACE'', ''STREAMING'', ''SUBSCRIPTION'', ''PRIME'',
                   ''ORDER'', ''DIGITAL''] (py_upper raw)"

record enrichment =
  en_merchant_id :: string
  en_merchant_slug :: string
  en_merchant_store_id :: "string option"
  en_clean_name :: string
  en_raw_descriptor :: string
  en_merchant_domain :: "string option"
  en_logo_url :: "string option"
  en_mcc :: string
  en_category :: string
  en_country_code :: string
  en_city :: "string option"
  en_region :: "string option"
  en_postal_code :: "string option"
  en_latitude :: "rat option"
  en_longitude :: "rat option"
  en_card_present_capable :: bool
  en_ecommerce_capable :: bool
  en_high_risk_flags :: "string list"
  en_is_subscription :: bool
  en_is_international :: bool
  en_risk_score :: int
  en_merchant_intelligence :: intelligence

definition store_matches :: "string \<Rightarrow> merchant_dto \<Rightarrow> bool" where
  "store_matches upper_desc dto =
     (is_infix_of (py_upper (filter (\<lambda>c. c \<noteq> CHR ''%'') (md_raw_descriptor_pattern dto))) upper_desc
      \<or> is_infix_of (py_upper (md_clean_name dto)) upper_desc
      \<or> is_infix_of (py_upper (md_location_name dto)) upper_desc)"

definition store_enrichment :: "intelligence \<Rightarrow> merchant_dto \<Rightarrow> enrichment" where
  "store_enrichment intel dto =
     \<lparr>en_merchant_id = md_merchant_id dto, en_merchant_slug = md_merchant_slug dto,
      en_merchant_store_id = md_merchant_store_id dto, en_clean_name = md_clean_name dto,
      en_raw_descriptor = md_raw_descriptor_pattern dto, en_merchant_domain = md_merchant_domain dto,
      en_logo_url = md_logo_url dto, en_mcc = md_mcc dto, en_category = md_category dto, en_country_code = md_country_code dto,
      en_city = md_city dto, en_region = md_region dto, en_postal_code = md_postal_code dto,
      en_latitude = md_latitude dto, en_longitude = md_longitude dto,
      en_card_present_capable = md_card_present_capable dto,
      en_ecommerce_capable = md_ecommerce_capable dto,
      en_high_risk_flags = md_high_risk_flags dto, en_is_subscription = md_is_subscription dto,
      en_is_international = md_is_international dto, en_risk_score = md_risk_score dto,
      en_merchant_intelligence = intel\<rparr>"

definition display_name :: "intelligence \<Rightarrow> string \<Rightarrow> string" where
  "display_name intel raw_descriptor =
     (let normalized_name = (if in_matched intel then in_normalized_merchant intel else None)
      in the (str_or normalized_name
               (str_or (Some (py_strip raw_descriptor)) (Some ''Unrecognized Merchant''))))"

definition generic_enrichment :: "intelligence \<Rightarrow> string \<Rightarrow> string option \<Rightarrow> string \<Rightarrow> enrichment" where
  "generic_enrichment intel raw_descriptor mcc country =
     (let fallback_mcc = the (str_or mcc (Some ''0000''))
      in \<lparr>en_merchant_id = ''generic-merchant'', en_merchant_slug = ''generic-'' @ fallback_mcc,
          en_merchant_store_id = None, en_clean_name = display_name intel raw_descriptor,
          en_raw_descriptor = the (str_or (Some (py_strip raw_descriptor)) (Some ''Unrecognized Merchant'')),
          en_merchant_domain = None, en_logo_url = None,
          en_mcc = fallback_mcc, en_category = ''General Merchandise'', en_country_code = country,
          en_city = None, en_region = None, en_postal_code = None,
          en_latitude = None, en_longitude = None,
          en_card_present_capable = (country = ''USA''),
          en_ecommerce_capable = is_ecommerce_descriptor raw_descriptor,
          en_high_risk_flags = infer_high_risk_flags raw_descriptor raw_descriptor,
          en_is_subscription = False, en_is_international = (country \<noteq> ''USA''),
          en_risk_score = (if country \<noteq> ''USA'' then 30 else 0),
          en_merchant_intelligence = intel\<rparr>)"

definition enrich_transaction ::
    "intelligence_row list \<Rightarrow> merchant_dto list \<Rightarrow> string \<Rightarrow> string option \<Rightarrow> string \<Rightarrow> enrichment" where
  "enrich_transaction rows stores raw_descriptor mcc country =
     (let intel = intelligence_lookup rows raw_descriptor mcc
      in case List.find (store_matches (py_upper raw_descriptor)) stores of
           Some dto \<Rightarrow> store_enrichment intel dto
         | None \<Rightarrow> generic_enrichment intel raw_descriptor mcc country)"

section \<open>The store catalogue\<close>

text \<open>
  The rows of \<^verbatim>\<open>merchant_master\<close> and \<^verbatim>\<open>merchant_stores\<close> and the data transfer objects the
  in-memory cache builds from them.  The taxonomy (the primary category of a category code) is a
  parameter; decimal columns are rationals and \<open>float\<close> of one rounds.
\<close>

record merchant_master =
  mm_id :: string
  mm_merchant_slug :: string
  mm_clean_name :: string
  mm_default_mcc :: string
  mm_merchant_domain :: "string option"
  mm_logo_url :: "string option"
  mm_is_subscription :: bool

record merchant_store =
  ms_id :: string
  ms_merchant_id :: string
  ms_location_name :: string
  ms_raw_descriptor :: string
  ms_country_code :: string
  ms_city :: "string option"
  ms_region :: "string option"
  ms_postal_code :: "string option"
  ms_latitude :: "rat option"
  ms_longitude :: "rat option"
  ms_card_present_capable :: bool
  ms_ecommerce_capable :: bool
  ms_high_risk_flags :: "string option"
  ms_is_international :: bool
  ms_risk_score :: int

record store_geo =
  sg_city :: "string option"
  sg_region :: "string option"
  sg_postal_code :: "string option"
  sg_latitude :: "rat option"
  sg_longitude :: "rat option"

definition geo :: "string \<Rightarrow> string \<Rightarrow> string \<Rightarrow> rat \<Rightarrow> rat \<Rightarrow> store_geo" where
  "geo city region postal lat lon =
     \<lparr>sg_city = Some city, sg_region = Some region, sg_postal_code = Some postal,
      sg_latitude = Some (fl lat), sg_longitude = Some (fl lon)\<rparr>"

definition NO_GEO :: store_geo where
  "NO_GEO = \<lparr>sg_city = None, sg_region = None, sg_postal_code = None, sg_latitude = None, sg_longitude = None\<rparr>"

definition KNOWN_STORE_GEO :: "(string \<times> store_geo) list" where
  "KNOWN_STORE_GEO =
     [(''MOUNTAIN VIEW CA'', geo ''Mountain View'' ''CA'' ''94043'' (373861 / 10000) (- (1220839 / 10000))),
      (''SAN FRANCISCO CA'', geo ''San Francisco'' ''CA'' ''94103'' (377749 / 10000) (- (1224194 / 10000))),
      (''NEW YORK NY'', geo ''New York'' ''NY'' ''10001'' (407128 / 10000) (- (740060 / 10000))),
      (''CHICAGO IL'', geo ''Chicago'' ''IL'' ''60601'' (418781 / 10000) (- (876298 / 10000))),
      (''SEATTLE WA'', geo ''Seattle'' ''WA'' ''98101'' (476062 / 10000) (- (1223321 / 10000))),
      (''DALLAS TX'', geo ''Dallas'' ''TX'' ''75201'' (327767 / 10000) (- (967970 / 10000))),
      (''LOS ANGELES CA'', geo ''Los Angeles'' ''CA'' ''90012'' (340522 / 10000) (- (1182437 / 10000))),
      (''CANCUN MX'', geo ''Cancun'' ''QR'' ''77500'' (211619 / 10000) (- (868515 / 10000))),
      (''CDMX'', geo ''Mexico City'' ''CMX'' ''06000'' (194326 / 10000) (- (991332 / 10000))),
      (''MEXICO CITY'', geo ''Mexico City'' ''CMX'' ''06000'' (194326 / 10000) (- (991332 / 10000)))]"

definition infer_store_geo :: "string \<Rightarrow> string \<Rightarrow> store_geo" where
  "infer_store_geo location_name raw_descriptor =
     (let haystack = py_upper (location_name @ '' '' @ raw_descriptor) in
      case List.find (\<lambda>(marker, g). is_infix_of marker haystack) KNOWN_STORE_GEO of
        Some (marker, g) \<Rightarrow> g
      | None \<Rightarrow> NO_GEO)"

definition master_of :: "merchant_master list \<Rightarrow> merchant_store \<Rightarrow> merchant_master option" where
  "master_of masters s = List.find (\<lambda>m. mm_id m = ms_merchant_id s) masters"

definition store_dto :: "(string \<rightharpoonup> string) \<Rightarrow> merchant_master list \<Rightarrow> merchant_store \<Rightarrow> merchant_dto" where
  "store_dto taxonomy masters s =
     (let m = master_of masters s;
          name = (case m of Some r \<Rightarrow> mm_clean_name r | None \<Rightarrow> ms_location_name s);
          mcc_val = (case m of Some r \<Rightarrow> mm_default_mcc r | None \<Rightarrow> ''0000'');
          inferred = infer_store_geo (ms_location_name s) (ms_raw_descriptor s);
          online = is_ecommerce_descriptor (ms_raw_descriptor s);
          flags = runs (\<lambda>c. c \<noteq> CHR '','') (case ms_high_risk_flags s of None \<Rightarrow> [] | Some f \<Rightarrow> f) []
      in \<lparr>md_merchant_id = (case m of Some r \<Rightarrow> mm_id r | None \<Rightarrow> ms_merchant_id s),
          md_merchant_slug = (case m of Some r \<Rightarrow> mm_merchant_slug r | None \<Rightarrow> []),
          md_merchant_store_id = Some (ms_id s), md_clean_name = name,
          md_location_name = ms_location_name s, md_raw_descriptor_pattern = ms_raw_descriptor s,
          md_mcc = mcc_val,
          md_category = (case taxonomy mcc_val of Some c \<Rightarrow> c | None \<Rightarrow> ''MERCHANDISE''),
          md_country_code = ms_country_code s,
          md_city = str_or (ms_city s) (sg_city inferred),
          md_region = str_or (ms_region s) (sg_region inferred),
          md_postal_code = str_or (ms_postal_code s) (sg_postal_code inferred),
          md_latitude = (case ms_latitude s of Some x \<Rightarrow> Some (fl x) | None \<Rightarrow> sg_latitude inferred),
          md_longitude = (case ms_longitude s of Some x \<Rightarrow> Some (fl x) | None \<Rightarrow> sg_longitude inferred),
          md_card_present_capable = (ms_card_present_capable s \<and> \<not> online),
          md_ecommerce_capable = (ms_ecommerce_capable s \<or> online),
          md_high_risk_flags = (if flags = [] then infer_high_risk_flags name (ms_raw_descriptor s) else flags),
          md_logo_url = Option.bind m mm_logo_url, md_merchant_domain = Option.bind m mm_merchant_domain,
          md_is_subscription = (case m of Some r \<Rightarrow> mm_is_subscription r | None \<Rightarrow> False),
          md_is_international = ms_is_international s, md_risk_score = ms_risk_score s\<rparr>)"

definition load_cache :: "(string \<rightharpoonup> string) \<Rightarrow> merchant_master list \<Rightarrow> merchant_store list \<Rightarrow> merchant_dto list" where
  "load_cache taxonomy masters all_stores = map (store_dto taxonomy masters) all_stores"

text \<open>The first store of each brand, in the order of the stores.\<close>

fun brands_from :: "string list \<Rightarrow> merchant_dto list \<Rightarrow> merchant_dto list" where
  "brands_from seen [] = []"
| "brands_from seen (dto # dtos) =
     (if md_merchant_id dto \<in> set seen then brands_from seen dtos
      else dto # brands_from (md_merchant_id dto # seen) dtos)"

definition get_by_id :: "merchant_dto list \<Rightarrow> string \<Rightarrow> merchant_dto option" where
  "get_by_id stores merchant_id = List.find (\<lambda>dto. md_merchant_id dto = merchant_id) stores"

definition get_by_slug :: "merchant_dto list \<Rightarrow> string \<Rightarrow> merchant_dto option" where
  "get_by_slug stores merchant_slug =
     List.find (\<lambda>dto. md_merchant_slug dto \<noteq> [] \<and> md_merchant_slug dto = merchant_slug) stores"

definition list_merchants ::
    "merchant_dto list \<Rightarrow> string option \<Rightarrow> string option \<Rightarrow> bool option \<Rightarrow> merchant_dto list" where
  "list_merchants stores category country is_international =
     filter (\<lambda>dto. (case str_or category None of None \<Rightarrow> True
                   | Some c \<Rightarrow> py_lower (md_category dto) = py_lower c)
               \<and> (case str_or country None of None \<Rightarrow> True
                   | Some c \<Rightarrow> py_upper (md_country_code dto) = py_upper c)
               \<and> (case is_international of None \<Rightarrow> True | Some b \<Rightarrow> md_is_international dto = b))
       (brands_from [] stores)"

definition build_generic_merchant :: "string \<Rightarrow> string \<Rightarrow> bool \<Rightarrow> merchant_dto" where
  "build_generic_merchant mcc country_code is_international =
     \<lparr>md_merchant_id = ''generic-merchant'', md_merchant_slug = ''generic-'' @ py_lower mcc,
      md_merchant_store_id = None, md_clean_name = ''Generic Merchant'',
      md_location_name = ''Generic Merchant'', md_raw_descriptor_pattern = ''GENERIC MERCHANT'',
      md_mcc = mcc, md_category = ''MERCHANDISE'', md_country_code = country_code, md_city = None,
      md_region = None, md_postal_code = None, md_latitude = None, md_longitude = None,
      md_card_present_capable = (\<not> is_international), md_ecommerce_capable = False,
      md_high_risk_flags = [], md_logo_url = None, md_merchant_domain = None,
      md_is_subscription = False, md_is_international = is_international,
      md_risk_score = (if is_international then 30 else 0)\<rparr>"

text \<open>The pool \<open>get_random_merchant\<close> draws from; \<open>pick\<close> is the draw.\<close>

definition or_pool :: "'a list \<Rightarrow> 'a list \<Rightarrow> 'a list" where
  "or_pool xs ys = (if xs = [] then ys else xs)"

definition DIGITAL_WORDS :: "string list" where
  "DIGITAL_WORDS = [''ONLINE'', ''STREAMING'', ''SUBSCRIPTION'', ''BILL'', ''.COM'', ''MKTPLACE'',
     ''PRIME'', ''ORDER'', ''/'']"

definition metro_member :: "string \<Rightarrow> merchant_dto \<Rightarrow> bool" where
  "metro_member home_metro dto =
     (let desc = py_upper (md_raw_descriptor_pattern dto); metro = py_upper home_metro in
      md_is_subscription dto \<or> contains_any DIGITAL_WORDS desc \<or> is_infix_of metro desc
      \<or> list_ex (\<lambda>w. 2 < length w \<and> is_infix_of w desc) (split_space metro))"

definition merchant_pool ::
    "merchant_dto list \<Rightarrow> bool \<Rightarrow> string option \<Rightarrow> string option \<Rightarrow> string option \<Rightarrow> merchant_dto list" where
  "merchant_pool stores is_international category country home_metro =
     (let given = (\<lambda>v. str_or v None);
          pool0 = filter (\<lambda>dto. md_is_international dto = is_international) stores;
          pool1 = (case given country of None \<Rightarrow> pool0
                   | Some c \<Rightarrow> or_pool (filter (\<lambda>dto. py_upper (md_country_code dto) = py_upper c) pool0) pool0);
          pool2 = (case given category of None \<Rightarrow> pool1
                   | Some c \<Rightarrow> or_pool (filter (\<lambda>dto. py_lower (md_category dto) = py_lower c) pool1) pool1);
          pool3 = (case given home_metro of None \<Rightarrow> pool2
                   | Some metro \<Rightarrow> (if is_international then pool2
                                   else or_pool (filter (metro_member metro) pool2) pool2))
      in or_pool pool3 stores)"

definition get_random_merchant ::
    "(merchant_dto list \<Rightarrow> merchant_dto) \<Rightarrow> merchant_dto list \<Rightarrow> bool \<Rightarrow> string option \<Rightarrow> string option
     \<Rightarrow> string option \<Rightarrow> merchant_dto \<times> string" where
  "get_random_merchant pick stores is_international category country home_metro =
     (let pool = merchant_pool stores is_international category country home_metro;
          dto = (if pool = []
                 then build_generic_merchant (if is_international then ''7011'' else ''5311'')
                        (case str_or country None of Some c \<Rightarrow> py_upper c
                         | None \<Rightarrow> if is_international then ''MEX'' else ''USA'') is_international
                 else pick pool)
      in (dto, md_raw_descriptor_pattern dto))"

section \<open>Facts\<close>

lemma or_pool_subset: "set (or_pool xs ys) \<subseteq> set xs \<union> set ys"
  by (auto simp: or_pool_def)

lemma or_pool_Nil [simp]: "or_pool xs ys = [] \<longleftrightarrow> xs = [] \<and> ys = []"
  by (simp add: or_pool_def)

text \<open>Enrichment always answers, and says truly where its answer comes from: either every
  merchant field is that of the first store whose pattern, brand or location occurs in the
  descriptor, or no store matches and the answer is the generic merchant of the caller's country,
  priced at risk 30 abroad and 0 at home; it never answers with an empty name.\<close>

theorem enrichment_is_grounded:
  assumes "\<And>s. s \<in> set stores \<Longrightarrow> md_clean_name s \<noteq> []" "\<And>r. r \<in> set rows \<Longrightarrow> ir_name r \<noteq> []"
  shows "let e = enrich_transaction rows stores raw mcc country in
      en_clean_name e \<noteq> []
    \<and> ((\<exists>pre s post. stores = pre @ s # post \<and> store_matches (py_upper raw) s
          \<and> (\<forall>x \<in> set pre. \<not> store_matches (py_upper raw) x)
          \<and> en_merchant_id e = md_merchant_id s \<and> en_country_code e = md_country_code s
          \<and> en_high_risk_flags e = md_high_risk_flags s)
       \<or> ((\<forall>s \<in> set stores. \<not> store_matches (py_upper raw) s) \<and> en_merchant_id e = ''generic-merchant''
          \<and> en_merchant_store_id e = None \<and> en_country_code e = country
          \<and> en_risk_score e = (if country = ''USA'' then 0 else 30)))"
proof (cases "List.find (store_matches (py_upper raw)) stores")
  case None
  have name: "\<forall>n. in_normalized_merchant (intelligence_lookup rows raw mcc) = Some n
      \<longrightarrow> in_matched (intelligence_lookup rows raw mcc) \<longrightarrow> n \<noteq> []"
  proof -
    have "(a, r) \<in> set (alias_index rows) \<Longrightarrow> r \<in> set rows" for a r
      by (auto simp: alias_index_def)
    then have "List.find (\<lambda>(alias, row). alias_matches (normalize_descriptor raw) alias) (alias_index rows)
        = Some (a, r) \<Longrightarrow> ir_name r \<noteq> []" for a r
      by (metis assms(2) find_Some_iff')
    then show ?thesis by (auto simp: intelligence_lookup_def Let_def split: option.splits)
  qed
  then have "display_name (intelligence_lookup rows raw mcc) raw \<noteq> []"
    by (auto simp: display_name_def Let_def str_or_def split: option.split)
  moreover have "\<forall>s \<in> set stores. \<not> store_matches (py_upper raw) s"
    using None by (simp add: find_None_iff')
  ultimately show ?thesis
    by (simp add: enrich_transaction_def None Let_def generic_enrichment_def)
next
  case (Some s)
  then obtain i where i: "i < length stores" "store_matches (py_upper raw) (stores ! i)" "s = stores ! i"
    "\<And>j. j < i \<Longrightarrow> \<not> store_matches (py_upper raw) (stores ! j)"
    by (auto simp: find_Some_iff)
  have "stores = take i stores @ s # drop (Suc i) stores"
    using i(1,3) by (simp add: id_take_nth_drop)
  moreover have "\<not> store_matches (py_upper raw) x" if "x \<in> set (take i stores)" for x
    using that i(1,4) by (auto simp: in_set_conv_nth)
  ultimately have "\<exists>pre s' post. stores = pre @ s' # post \<and> store_matches (py_upper raw) s'
      \<and> (\<forall>x \<in> set pre. \<not> store_matches (py_upper raw) x) \<and> s' = s"
    using i(2,3) by blast
  moreover have "md_clean_name s \<noteq> []" using assms(1) i(1,3) by simp
  ultimately show ?thesis
    by (simp add: enrich_transaction_def Let_def Some store_enrichment_def) blast
qed

definition sample_store :: merchant_dto where
  "sample_store =
     \<lparr>md_merchant_id = ''m1'', md_merchant_slug = ''acme'', md_merchant_store_id = Some ''s1'',
      md_clean_name = ''Acme'', md_location_name = ''Acme Dallas'', md_raw_descriptor_pattern = ''ACME #%'',
      md_mcc = ''5411'', md_category = ''FOOD'', md_country_code = ''USA'', md_city = None, md_region = None,
      md_postal_code = None, md_latitude = None, md_longitude = None, md_card_present_capable = True,
      md_ecommerce_capable = False, md_high_risk_flags = [], md_logo_url = None, md_merchant_domain = None, md_is_subscription = False,
      md_is_international = False, md_risk_score = 0\<rparr>"

theorem enrichment_is_grounded_witness:
  "en_merchant_id (enrich_transaction [] [sample_store] ''acme #12 dallas'' None ''USA'') = ''m1''
   \<and> en_clean_name (enrich_transaction [] [sample_store] ''acme #12 dallas'' None ''USA'') \<noteq> []"
proof -
  have "en_merchant_id (enrich_transaction [] [sample_store] ''acme #12 dallas'' None ''USA'') = ''m1''"
    by code_simp
  then show ?thesis
    using enrichment_is_grounded [of "[sample_store]" "[]" "''acme #12 dallas''" None "''USA''"]
    by (simp add: sample_store_def Let_def)
qed

end
