(* ===== verification/Fraud_Scoring.thy ===== *)
theory Fraud_Scoring
  imports Card_Repository Merchants "HOL-Library.Sublist"
begin

text \<open>
  \<open>FraudScoringService\<close> (\<^verbatim>\<open>services/fraud_scoring.py\<close>): feature extraction from an
  authorization request, its context and the account's recent authorizations, and the additive
  score with its reason codes.

  A request and its context are records of the fields the card-network schema declares.  The MCC
  resource, the merchant-intelligence rows and the great-circle distance (trigonometry of the C
  library) are parameters.  Times are microseconds, so ages are compared exactly.
\<close>

section \<open>Requests, context and settings\<close>

record auth_payload =
  ap_card_token :: string
  ap_amount_cents :: int
  ap_retrieval_reference_number :: string
  ap_merchant_category_code :: string
  ap_merchant_name :: string
  ap_card_network :: string
  ap_merchant :: merchant_columns
  ap_country_code :: "string option"
  ap_merchant_high_risk_flags :: "string list"
  ap_merchant_intelligence :: "intelligence option"
  ap_synthetic_fraud_label :: "string option"
  ap_fraud_pattern_label :: "string option"
  ap_fraud_pattern_sequence :: "int option"
  ap_created_at :: "int option"
  ap_is_fraud_simulation :: bool
  ap_risk_score :: "int option"

record scoring_context = merchant_columns +
  cx_high_risk_flags :: "string list"
  cx_intelligence :: "intelligence option"
  cx_synthetic_fraud_label :: "string option"
  cx_fraud_pattern_label :: "string option"
  cx_fraud_pattern_sequence :: "int option"

record mcc_row =
  mr_primary_category :: "string option"
  mr_detailed_category :: "string option"
  mr_risk_level :: "string option"
  mr_risk_score :: "int option"
  mr_velocity_risk :: "string option"
  mr_chargeback_prone :: "bool option"
  mr_risk_flags :: "string list"

record scoring_resources =
  sr_mcc_rows :: "string \<rightharpoonup> mcc_row"
  sr_intelligence_rows :: "intelligence_row list"
  sr_haversine_miles :: "rat \<Rightarrow> rat \<Rightarrow> rat \<Rightarrow> rat \<Rightarrow> rat"

record scoring_service =
  ss_flag_threshold :: int
  ss_alert_threshold :: int
  ss_alerts_enabled :: bool

definition FRAUD_SCORER_VERSION :: string where
  "FRAUD_SCORER_VERSION = ''local-deterministic-v1''"

definition DEFAULT_SCORING :: scoring_service where
  "DEFAULT_SCORING = \<lparr>ss_flag_threshold = 20, ss_alert_threshold = 70, ss_alerts_enabled = True\<rparr>"

definition HIGH_RISK_MCCS :: "string list" where
  "HIGH_RISK_MCCS = [''5947'', ''5967'', ''6051'', ''6211'', ''7995'']"

definition DOMESTIC_COUNTRY_CODES :: "string list" where
  "DOMESTIC_COUNTRY_CODES = [''USA'', ''US'', ''PRI'', ''PR'', ''VIR'', ''GU'', ''GUM'', ''ASM'', ''MNP'']"

definition DESCRIPTOR_FLAG_KEYWORDS :: "(string \<times> string) list" where
  "DESCRIPTOR_FLAG_KEYWORDS =
     [(''ONLINE'', ''ONLINE''), (''.COM'', ''ONLINE''), (''MKTPLACE'', ''MARKETPLACE''),
      (''GIFT'', ''GIFT_CARD''), (''RAZER'', ''GAMING''), (''GAME'', ''GAMING''),
      (''BEST BUY'', ''ELECTRONICS''), (''APPLE'', ''ELECTRONICS''), (''CRYPTO'', ''CRYPTO_LIKE'')]"

definition is_domestic_country :: "string \<Rightarrow> bool" where
  "is_domestic_country country_code =
     (py_upper (the (str_or (Some country_code) (Some ''USA''))) \<in> set DOMESTIC_COUNTRY_CODES)"

section \<open>Features\<close>

record features =
  f_amount_cents :: int
  f_merchant_category_code :: string
  f_merchant_name :: string
  f_transaction_channel :: string
  f_entry_mode :: string
  f_merchant_country_code :: string
  f_merchant_city :: "string option"
  f_merchant_region :: "string option"
  f_merchant_postal_code :: "string option"
  f_merchant_latitude :: "rat option"
  f_merchant_longitude :: "rat option"
  f_ip_country_code :: "string option"
  f_shipping_country_code :: "string option"
  f_is_digital_goods :: bool
  f_descriptor_flags :: "string list"
  f_is_international_like :: bool
  f_distance_from_recent :: "rat option"
  f_minutes_since_last :: "rat option"
  f_recent_auth_count_10m :: nat
  f_recent_auth_count_1h :: nat
  f_recent_flagged_count_24h :: nat
  f_amount_ratio :: "rat option"
  f_same_mcc_count_1h :: nat
  f_credit_utilization_after_auth :: "rat option"
  f_available_credit_ratio :: "rat option"
  f_has_explicit_simulation_flag :: bool
  f_has_risk_score_override :: bool
  f_synthetic_fraud_label :: "string option"
  f_fraud_pattern_label :: "string option"
  f_fraud_pattern_sequence :: "int option"
  f_mcc :: mcc_row
  f_intelligence :: intelligence

definition NO_MCC_ROW :: mcc_row where
  "NO_MCC_ROW = \<lparr>mr_primary_category = None, mr_detailed_category = None, mr_risk_level = None,
     mr_risk_score = None, mr_velocity_risk = None, mr_chargeback_prone = None, mr_risk_flags = []\<rparr>"

definition mcc_snapshot_features :: "scoring_resources \<Rightarrow> string \<Rightarrow> mcc_row" where
  "mcc_snapshot_features res mcc = (case sr_mcc_rows res mcc of None \<Rightarrow> NO_MCC_ROW | Some row \<Rightarrow> row)"

definition merchant_intelligence_snapshot ::
    "scoring_resources \<Rightarrow> string \<Rightarrow> string \<Rightarrow> scoring_context \<Rightarrow> intelligence" where
  "merchant_intelligence_snapshot res merchant_name mcc context =
     (case cx_intelligence context of
        Some i \<Rightarrow> i
      | None \<Rightarrow> intelligence_lookup (sr_intelligence_rows res) merchant_name (Some mcc))"

text \<open>What the loop over the recent authorizations collects.\<close>

record recent_stats =
  rs_10m :: nat
  rs_1h :: nat
  rs_flagged_24h :: nat
  rs_same_mcc_1h :: nat
  rs_amounts :: "int list"
  rs_location :: "(rat \<times> rat \<times> int) option"

definition NO_RECENT :: recent_stats where
  "NO_RECENT = \<lparr>rs_10m = 0, rs_1h = 0, rs_flagged_24h = 0, rs_same_mcc_1h = 0, rs_amounts = [],
                rs_location = None\<rparr>"

definition minutes :: "int \<Rightarrow> int" where
  "minutes n = n * 60000000"

definition card_present_location :: "transaction_authorization \<Rightarrow> (rat \<times> rat \<times> int) option" where
  "card_present_location a =
     (if mc_transaction_channel (ta_merchant a) \<in> {Some ''CARD_PRESENT'', Some ''WALLET''}
      then (case (mc_merchant_latitude (ta_merchant a), mc_merchant_longitude (ta_merchant a)) of
              (Some lat, Some lon) \<Rightarrow> Some (fl lat, fl lon, ta_created_at a)
            | _ \<Rightarrow> None)
      else None)"

definition count_recent ::
    "int \<Rightarrow> string \<Rightarrow> transaction_authorization \<Rightarrow> recent_stats \<Rightarrow> recent_stats" where
  "count_recent now mcc auth st =
     (let age = now - ta_created_at auth in
      if age < 0 then st
      else \<lparr>rs_10m = rs_10m st + (if age \<le> minutes 10 then 1 else 0),
            rs_1h = rs_1h st + (if age \<le> minutes 60 then 1 else 0),
            rs_flagged_24h = rs_flagged_24h st
              + (if age \<le> minutes (24 * 60) \<and> ta_status auth = ''FLAGGED'' then 1 else 0),
            rs_same_mcc_1h = rs_same_mcc_1h st
              + (if age \<le> minutes 60 \<and> ta_merchant_category_code auth = mcc then 1 else 0),
            rs_amounts = rs_amounts st @
              (if age \<le> minutes (24 * 60) then [ta_transaction_amount_cents auth] else []),
            rs_location = (case rs_location st of Some l \<Rightarrow> Some l | None \<Rightarrow> card_present_location auth)\<rparr>)"

definition recent_window ::
    "int \<Rightarrow> string \<Rightarrow> transaction_authorization list \<Rightarrow> recent_stats" where
  "recent_window now mcc recent = foldl (\<lambda>st auth. count_recent now mcc auth st) NO_RECENT recent"

definition float_quotient :: "int \<Rightarrow> int \<Rightarrow> rat" where
  "float_quotient a b = fl (of_int a / of_int b)"

definition amount_ratio :: "int \<Rightarrow> int list \<Rightarrow> rat option" where
  "amount_ratio amount_cents amounts =
     (let average = (if amounts = [] then 0 else float_quotient (sum_list amounts) (int (length amounts)))
      in if average = 0 then None
         else Some (py_round (fl (fl (of_int amount_cents) / average)) 2))"

definition extract_authorization_features ::
    "scoring_resources \<Rightarrow> int \<Rightarrow> auth_payload \<Rightarrow> scoring_context \<Rightarrow> transaction_authorization list
     \<Rightarrow> credit_account option \<Rightarrow> features" where
  "extract_authorization_features res clock payload context recent account =
     (let amount = ap_amount_cents payload;
          mcc = the (str_or (Some (ap_merchant_category_code payload)) (Some ''0000''));
          name = the (str_or (Some (ap_merchant_name payload)) (Some ''Unknown Merchant''));
          now = (case ap_created_at payload of Some t \<Rightarrow> t | None \<Rightarrow> clock);
          asked = ap_merchant payload;
          country = py_upper (the (str_or (mc_merchant_country_code context)
                      (str_or (mc_merchant_country_code asked) (Some ''USA''))));
          lat = map_option fl (mc_merchant_latitude context);
          lon = map_option fl (mc_merchant_longitude context);
          st = recent_window now mcc recent;
          (distance, since) = (case (lat, lon, rs_location st) of
             (Some la, Some lo, Some (plat, plon, seen)) \<Rightarrow>
               (Some (py_round (sr_haversine_miles res plat plon la lo) 1),
                Some (py_round (fl (float_quotient (now - seen) 1000000 / 60)) 1))
           | _ \<Rightarrow> (None, None));
          limit = (case account of Some a \<Rightarrow> ca_credit_limit_cents a | None \<Rightarrow> 0);
          available = (case account of Some a \<Rightarrow> ca_available_credit_cents a | None \<Rightarrow> 0)
      in \<lparr>f_amount_cents = amount, f_merchant_category_code = mcc, f_merchant_name = name,
          f_transaction_channel = the (str_or (mc_transaction_channel context)
             (str_or (mc_transaction_channel asked) (Some ''CARD_PRESENT''))),
          f_entry_mode = the (str_or (mc_entry_mode context) (str_or (mc_entry_mode asked) (Some ''CHIP''))),
          f_merchant_country_code = country,
          f_merchant_city = str_or (mc_merchant_city context) (mc_merchant_city asked),
          f_merchant_region = str_or (mc_merchant_region context) (mc_merchant_region asked),
          f_merchant_postal_code = str_or (mc_merchant_postal_code context) (mc_merchant_postal_code asked),
          f_merchant_latitude = lat, f_merchant_longitude = lon,
          f_ip_country_code = str_or (mc_ip_country_code context) (mc_ip_country_code asked),
          f_shipping_country_code = str_or (mc_shipping_country_code context) (mc_shipping_country_code asked),
          f_is_digital_goods = mc_is_digital_goods context,
          f_descriptor_flags = sort (remdups (keyword_flags DESCRIPTOR_FLAG_KEYWORDS (py_upper name)
                                              @ cx_high_risk_flags context)),
          f_is_international_like = (\<not> is_domestic_country country),
          f_distance_from_recent = distance, f_minutes_since_last = since,
          f_recent_auth_count_10m = rs_10m st, f_recent_auth_count_1h = rs_1h st,
          f_recent_flagged_count_24h = rs_flagged_24h st,
          f_amount_ratio = amount_ratio amount (rs_amounts st),
          f_same_mcc_count_1h = rs_same_mcc_1h st,
          f_credit_utilization_after_auth = (if limit = 0 then None
             else Some (py_round (float_quotient (limit - max 0 (available - amount)) limit) 4)),
          f_available_credit_ratio = (if limit = 0 then None
             else Some (py_round (float_quotient available limit) 4)),
          f_has_explicit_simulation_flag = ap_is_fraud_simulation payload,
          f_has_risk_score_override = (ap_risk_score payload \<noteq> None),
          f_synthetic_fraud_label = str_or (cx_synthetic_fraud_label context) (ap_synthetic_fraud_label payload),
          f_fraud_pattern_label = str_or (cx_fraud_pattern_label context) (ap_fraud_pattern_label payload),
          f_fraud_pattern_sequence = (case cx_fraud_pattern_sequence context of
             None \<Rightarrow> ap_fraud_pattern_sequence payload
           | Some n \<Rightarrow> if n = 0 then ap_fraud_pattern_sequence payload else Some n),
          f_mcc = mcc_snapshot_features res mcc,
          f_intelligence = merchant_intelligence_snapshot res name mcc context\<rparr>)"

section \<open>The score\<close>

text \<open>\<open>if c: score += n; reason_codes.append(code)\<close>\<close>

definition hit :: "bool \<Rightarrow> int \<Rightarrow> string \<Rightarrow> int \<times> string list \<Rightarrow> int \<times> string list" where
  "hit c n code = (\<lambda>(score, codes). if c then (score + n, codes @ [code]) else (score, codes))"

definition has_flag :: "features \<Rightarrow> string list \<Rightarrow> bool" where
  "has_flag f wanted = list_ex (\<lambda>w. w \<in> set (f_descriptor_flags f)) wanted"

definition at_least :: "rat \<Rightarrow> rat option \<Rightarrow> bool" where
  "at_least bound v = (case v of None \<Rightarrow> False | Some x \<Rightarrow> bound \<le> x)"

definition at_most :: "rat \<Rightarrow> rat option \<Rightarrow> bool" where
  "at_most bound v = (case v of None \<Rightarrow> False | Some x \<Rightarrow> x \<le> bound)"

definition coarse_country_mismatch :: "features \<Rightarrow> bool" where
  "coarse_country_mismatch f =
     (let country = py_upper (the (str_or (Some (f_merchant_country_code f)) (Some ''USA'')));
          up = (\<lambda>v. py_upper (the (str_or v (Some ''''))));
          coarse = filter (\<lambda>c. c \<noteq> []) [up (f_ip_country_code f), up (f_shipping_country_code f)]
      in country \<noteq> [] \<and> coarse \<noteq> [] \<and> country \<notin> set coarse)"

definition score_features :: "features \<Rightarrow> int \<times> string list" where
  "score_features f =
     (let channel = py_upper (the (str_or (Some (f_transaction_channel f)) (Some ''CARD_PRESENT'')));
          country = py_upper (the (str_or (Some (f_merchant_country_code f)) (Some ''USA'')));
          remote = channel \<in> {''CARD_NOT_PRESENT'', ''ECOMMERCE''};
          foreign = \<not> is_domestic_country country;
          s0 = (3, []);
          s1 = hit (f_merchant_category_code f \<in> set HIGH_RISK_MCCS) 18 ''HIGH_RISK_MCC'' s0;
          s2 = hit (remote \<and> has_flag f [''ONLINE'', ''MARKETPLACE'']) 8 ''CARD_NOT_PRESENT_DESCRIPTOR'' s1;
          s3 = hit (f_is_digital_goods f \<or> has_flag f [''GIFT_CARD'', ''DIGITAL_GOODS'', ''GAMING'']) 20
                 ''GIFT_CARD_OR_DIGITAL_GOODS'' s2;
          s4 = hit (has_flag f [''ELECTRONICS''] \<and> 2 \<le> f_same_mcc_count_1h f) 12 ''ELECTRONICS_BURST'' s3;
          s5 = hit (3 \<le> f_recent_auth_count_10m f) 18 ''VELOCITY_SPIKE_10M'' s4;
          s6 = hit (6 \<le> f_recent_auth_count_1h f) 10 ''VELOCITY_SPIKE_1H'' s5;
          s7 = hit (at_least 4 (f_amount_ratio f)) 15 ''AMOUNT_OUTLIER'' s6;
          s8 = hit (at_least 500 (f_distance_from_recent f) \<and> at_most 180 (f_minutes_since_last f)) 30
                 ''IMPOSSIBLE_TRAVEL'' s7;
          s9 = hit foreign 10 ''INTERNATIONAL_ANOMALY'' s8;
          s10 = hit (foreign \<and> channel \<in> {''CARD_PRESENT'', ''WALLET''}) 12
                  ''FOREIGN_CARD_PRESENT_ANOMALY'' s9;
          s11 = hit (remote \<and> coarse_country_mismatch f) 14 ''UNUSUAL_ECOMMERCE_COUNTRY'' s10;
          s12 = hit (at_least (fl (85 / 100)) (f_credit_utilization_after_auth f)
                     \<or> at_most (fl (15 / 100)) (f_available_credit_ratio f)) 12 ''NEAR_LIMIT_PRESSURE'' s11;
          (score, codes) = hit (0 < f_recent_flagged_count_24h f) 15 ''RECENT_FLAGGED_ACTIVITY'' s12
      in (max 0 (min 100 score), if codes = [] then [''BASELINE_LOW_RISK''] else codes))"

record fraud_decision =
  fd_score :: int
  fd_threshold :: int
  fd_decision :: string
  fd_reason_codes :: "string list"
  fd_features :: features
  fd_model_version :: string

definition is_flagged :: "fraud_decision \<Rightarrow> bool" where
  "is_flagged d \<longleftrightarrow> fd_decision d = ''FLAGGED''"

definition evaluate_authorization ::
    "scoring_resources \<Rightarrow> scoring_service \<Rightarrow> int \<Rightarrow> auth_payload \<Rightarrow> scoring_context
     \<Rightarrow> transaction_authorization list \<Rightarrow> credit_account option \<Rightarrow> fraud_decision" where
  "evaluate_authorization res service clock payload context recent account =
     (let f = extract_authorization_features res clock payload context recent account;
          (raw, codes) =
            (if f_has_explicit_simulation_flag f \<or> f_has_risk_score_override f
             then (case ap_risk_score payload of Some r \<Rightarrow> r | None \<Rightarrow> 85, [''EXPLICIT_SIMULATION_OVERRIDE''])
             else score_features f);
          score = max 0 (min 100 raw)
      in \<lparr>fd_score = score, fd_threshold = ss_flag_threshold service,
          fd_decision = (if ss_flag_threshold service < score then ''FLAGGED'' else ''APPROVED''),
          fd_reason_codes = codes, fd_features = f, fd_model_version = FRAUD_SCORER_VERSION\<rparr>)"

section \<open>Properties\<close>

text \<open>The price list of the reason codes, in the order the scorer asks for them.\<close>

definition WEIGHTS :: "(string \<times> int) list" where
  "WEIGHTS =
     [(''HIGH_RISK_MCC'', 18), (''CARD_NOT_PRESENT_DESCRIPTOR'', 8), (''GIFT_CARD_OR_DIGITAL_GOODS'', 20),
      (''ELECTRONICS_BURST'', 12), (''VELOCITY_SPIKE_10M'', 18), (''VELOCITY_SPIKE_1H'', 10),
      (''AMOUNT_OUTLIER'', 15), (''IMPOSSIBLE_TRAVEL'', 30), (''INTERNATIONAL_ANOMALY'', 10),
      (''FOREIGN_CARD_PRESENT_ANOMALY'', 12), (''UNUSUAL_ECOMMERCE_COUNTRY'', 14),
      (''NEAR_LIMIT_PRESSURE'', 12), (''RECENT_FLAGGED_ACTIVITY'', 15)]"

definition weight :: "string \<Rightarrow> int" where
  "weight code = (case map_of WEIGHTS code of Some n \<Rightarrow> n | None \<Rightarrow> 0)"

definition explained :: "string list \<Rightarrow> int \<times> string list \<Rightarrow> bool" where
  "explained asked s \<longleftrightarrow> fst s = 3 + sum_list (map weight (snd s)) \<and> subseq (snd s) asked"

lemma explained_hit:
  "explained asked s \<Longrightarrow> weight code = n \<Longrightarrow> explained (asked @ [code]) (hit c n code s)"
  by (cases s) (auto simp: explained_def hit_def list_emb_append_mono intro: subseq_order.trans [OF _ list_emb_append2])

lemma explained_start: "explained [] (3, [])"
  by (simp add: explained_def)

lemma map_weight_codes: "map weight (map fst WEIGHTS) = map snd WEIGHTS"
  by (simp add: WEIGHTS_def weight_def)

lemma weight_nonneg: "0 \<le> weight c"
  by (simp add: weight_def WEIGHTS_def)

lemma codes_in_order: "map fst WEIGHTS =
   ((((((((((((([] @ [''HIGH_RISK_MCC''])
       @ [''CARD_NOT_PRESENT_DESCRIPTOR'']) @ [''GIFT_CARD_OR_DIGITAL_GOODS''])
       @ [''ELECTRONICS_BURST'']) @ [''VELOCITY_SPIKE_10M''])
       @ [''VELOCITY_SPIKE_1H'']) @ [''AMOUNT_OUTLIER''])
       @ [''IMPOSSIBLE_TRAVEL'']) @ [''INTERNATIONAL_ANOMALY''])
       @ [''FOREIGN_CARD_PRESENT_ANOMALY'']) @ [''UNUSUAL_ECOMMERCE_COUNTRY''])
       @ [''NEAR_LIMIT_PRESSURE'']) @ [''RECENT_FLAGGED_ACTIVITY''])"
  by (simp add: WEIGHTS_def)

text \<open>The fired codes and their total, before the score is clamped.\<close>

lemma score_features_hits:
  "\<exists>S. score_features f = (case S of (score, codes) \<Rightarrow>
       (max 0 (min 100 score), if codes = [] then [''BASELINE_LOW_RISK''] else codes))
     \<and> explained (map fst WEIGHTS) S"
  unfolding score_features_def Let_def codes_in_order
  by (rule exI, rule conjI, rule refl, intro explained_hit explained_start)
    (simp_all add: weight_def WEIGHTS_def)

lemma subseq_subset: "subseq xs ys \<Longrightarrow> set xs \<subseteq> set ys"
  by (induction rule: list_emb.induct) auto

lemma subseq_distinct': "subseq xs ys \<Longrightarrow> distinct ys \<Longrightarrow> distinct xs"
  by (induction rule: list_emb.induct) (auto dest!: subseq_subset)

lemma score_features_explained:
  obtains codes where "subseq codes (map fst WEIGHTS)" "distinct codes"
    "score_features f = (min 100 (3 + sum_list (map weight codes)),
                         if codes = [] then [''BASELINE_LOW_RISK''] else codes)"
proof -
  obtain score codes where s: "score_features f =
       (max 0 (min 100 score), if codes = [] then [''BASELINE_LOW_RISK''] else codes)"
    "explained (map fst WEIGHTS) (score, codes)"
    using score_features_hits [of f] by auto
  have "0 \<le> sum_list (map weight codes)" by (rule sum_list_nonneg_int) (rule weight_nonneg)
  moreover have "distinct (map fst WEIGHTS)" by (simp add: WEIGHTS_def)
  ultimately show thesis
    using s subseq_distinct' by (intro that [of codes]) (auto simp: explained_def)
qed

lemma sum_weight_mono:
  assumes "distinct xs" "set xs \<subseteq> set ys"
  shows "sum_list (map weight xs) \<le> sum_list (map weight ys)"
proof -
  have "sum_list (map weight xs) = sum weight (set xs)"
    using assms(1) by (simp add: sum_list_distinct_conv_sum_set)
  also have "\<dots> \<le> sum weight (set ys)"
    using assms(2) weight_nonneg by (intro sum_mono2) auto
  also have "\<dots> = sum_list (map weight (remdups ys))"
    using sum_list_distinct_conv_sum_set [of "remdups ys" weight] by (simp only: distinct_remdups set_remdups)
  also have "\<dots> \<le> sum_list (map weight ys)"
  proof (induction ys)
    case (Cons y ys)
    with weight_nonneg [of y] show ?case by simp
  qed simp
  finally show ?thesis .
qed

text \<open>C35. The reason codes explain the score: they are distinct, come in the order of the price list,
  and the score is 3 plus their weights, capped at 100 (with no signal the only code is the baseline
  and the score is 3); so more evidence never lowers a score.\<close>

theorem score_is_explained:
  "(case score_features f of (score, codes) \<Rightarrow>
      distinct codes \<and> codes \<noteq> [] \<and> 3 \<le> score \<and> score \<le> 100
    \<and> score = min 100 (3 + sum_list (map weight codes))
    \<and> (codes = [''BASELINE_LOW_RISK''] \<and> score = 3 \<or> subseq codes (map fst WEIGHTS)))
   \<and> (set (snd (score_features f)) - {''BASELINE_LOW_RISK''} \<subseteq> set (snd (score_features g))
      \<longrightarrow> fst (score_features f) \<le> fst (score_features g))"
proof -
  have base: "weight ''BASELINE_LOW_RISK'' = 0" by (simp add: weight_def WEIGHTS_def)
  have nobase: "''BASELINE_LOW_RISK'' \<notin> set (map fst WEIGHTS)" by (simp add: WEIGHTS_def)
  obtain cs where cs: "subseq cs (map fst WEIGHTS)" "distinct cs"
    "score_features f = (min 100 (3 + sum_list (map weight cs)), if cs = [] then [''BASELINE_LOW_RISK''] else cs)"
    by (rule score_features_explained)
  obtain ds where ds: "subseq ds (map fst WEIGHTS)" "distinct ds"
    "score_features g = (min 100 (3 + sum_list (map weight ds)), if ds = [] then [''BASELINE_LOW_RISK''] else ds)"
    by (rule score_features_explained)
  have nonneg: "0 \<le> sum_list (map weight cs)" by (rule sum_list_nonneg_int) (rule weight_nonneg)
  have "set cs \<subseteq> set ds" if "set (snd (score_features f)) - {''BASELINE_LOW_RISK''} \<subseteq> set (snd (score_features g))"
  proof -
    have "''BASELINE_LOW_RISK'' \<notin> set cs" using subseq_subset [OF cs(1)] nobase by blast
    with that show ?thesis by (cases cs) (auto simp: cs(3) ds(3) split: if_splits)
  qed
  then have mono: "set (snd (score_features f)) - {''BASELINE_LOW_RISK''} \<subseteq> set (snd (score_features g))
      \<longrightarrow> fst (score_features f) \<le> fst (score_features g)"
    using sum_weight_mono [OF cs(2), of ds] unfolding cs(3) ds(3) fst_conv by (auto simp: min_def)
  define S where "S = sum_list (map weight cs)"
  have S: "0 \<le> S" "cs = [] \<Longrightarrow> S = 0" using nonneg by (simp_all add: S_def)
  have "case score_features f of (score, codes) \<Rightarrow>
      distinct codes \<and> codes \<noteq> [] \<and> 3 \<le> score \<and> score \<le> 100
    \<and> score = min 100 (3 + sum_list (map weight codes))
    \<and> (codes = [''BASELINE_LOW_RISK''] \<and> score = 3 \<or> subseq codes (map fst WEIGHTS))"
  proof (cases "cs = []")
    case True
    then show ?thesis unfolding cs(3) by (simp add: base)
  next
    case False
    have "3 \<le> min 100 (3 + S)" "min 100 (3 + S) \<le> 100" using S(1) by simp_all
    then show ?thesis using False cs(1,2) unfolding cs(3) S_def by simp
  qed
  with mono show ?thesis by blast
qed

definition sample_merchant :: merchant_columns where
  "sample_merchant =
     \<lparr>mc_merchant_id = None, mc_merchant_store_id = None, mc_merchant_slug = None,
      mc_transaction_channel = Some ''CARD_PRESENT'', mc_entry_mode = None,
      mc_merchant_country_code = Some ''MEX'', mc_merchant_city = None, mc_merchant_region = None,
      mc_merchant_postal_code = None, mc_merchant_latitude = None, mc_merchant_longitude = None,
      mc_ip_country_code = None, mc_shipping_country_code = None, mc_is_digital_goods = False\<rparr>"

definition sample_auth_payload :: auth_payload where
  "sample_auth_payload =
     \<lparr>ap_card_token = ''tok_1'', ap_amount_cents = 4200, ap_retrieval_reference_number = ''RRN1'',
      ap_merchant_category_code = ''5411'', ap_merchant_name = ''TIENDA'', ap_card_network = ''VISA'',
      ap_merchant = sample_merchant, ap_country_code = None, ap_merchant_high_risk_flags = [],
      ap_merchant_intelligence = None, ap_synthetic_fraud_label = None, ap_fraud_pattern_label = None,
      ap_fraud_pattern_sequence = None, ap_created_at = Some 5, ap_is_fraud_simulation = False,
      ap_risk_score = None\<rparr>"

definition sample_context :: scoring_context where
  "sample_context = merchant_columns.extend sample_merchant
     (scoring_context.fields [] None None None None)"

definition sample_resources :: scoring_resources where
  "sample_resources = \<lparr>sr_mcc_rows = (\<lambda>_. None), sr_intelligence_rows = [],
                       sr_haversine_miles = (\<lambda>_ _ _ _. 0)\<rparr>"

abbreviation sample_features :: features where
  "sample_features \<equiv> extract_authorization_features sample_resources 9 sample_auth_payload sample_context []
     None"

theorem score_is_explained_witness:
  "score_features sample_features = (25, [''INTERNATIONAL_ANOMALY'', ''FOREIGN_CARD_PRESENT_ANOMALY''])
   \<and> fst (score_features (sample_features\<lparr>f_merchant_country_code := ''USA''\<rparr>)) \<le> fst (score_features sample_features)"
proof -
  have "score_features sample_features = (25, [''INTERNATIONAL_ANOMALY'', ''FOREIGN_CARD_PRESENT_ANOMALY''])"
    by code_simp
  moreover have "snd (score_features (sample_features\<lparr>f_merchant_country_code := ''USA''\<rparr>)) = [''BASELINE_LOW_RISK'']"
    by code_simp
  ultimately show ?thesis
    using score_is_explained [of "sample_features\<lparr>f_merchant_country_code := ''USA''\<rparr>" sample_features] by simp
qed

text \<open>The verdict: the score lies between 0 and 100, the authorization is flagged exactly when the
  score exceeds the service's threshold, and an explicit simulation flag or risk score replaces the
  computed score (85 when none is given) and says so.\<close>

theorem verdict_follows_threshold:
  "let dec = evaluate_authorization res service clock payload context recent account in
     0 \<le> fd_score dec \<and> fd_score dec \<le> 100
   \<and> (is_flagged dec \<longleftrightarrow> ss_flag_threshold service < fd_score dec)
   \<and> fd_threshold dec = ss_flag_threshold service
   \<and> (ap_is_fraud_simulation payload \<or> ap_risk_score payload \<noteq> None \<longleftrightarrow>
        fd_reason_codes dec = [''EXPLICIT_SIMULATION_OVERRIDE''])
   \<and> (ap_is_fraud_simulation payload \<or> ap_risk_score payload \<noteq> None \<longrightarrow>
        fd_score dec = max 0 (min 100 (case ap_risk_score payload of Some r \<Rightarrow> r | None \<Rightarrow> 85)))
   \<and> (\<not> (ap_is_fraud_simulation payload \<or> ap_risk_score payload \<noteq> None) \<longrightarrow>
        (fd_score dec, fd_reason_codes dec) = score_features (fd_features dec))"
proof -
  let ?f = "extract_authorization_features res clock payload context recent account"
  have o: "f_has_explicit_simulation_flag ?f = ap_is_fraud_simulation payload"
    "f_has_risk_score_override ?f = (ap_risk_score payload \<noteq> None)"
    by (simp_all add: extract_authorization_features_def Let_def split: prod.split)
  obtain cs where cs: "subseq cs (map fst WEIGHTS)" "distinct cs"
    "score_features ?f = (min 100 (3 + sum_list (map weight cs)), if cs = [] then [''BASELINE_LOW_RISK''] else cs)"
    by (rule score_features_explained)
  have "''EXPLICIT_SIMULATION_OVERRIDE'' \<notin> set (map fst WEIGHTS)" by (simp add: WEIGHTS_def)
  then have "''EXPLICIT_SIMULATION_OVERRIDE'' \<notin> set cs" using subseq_subset [OF cs(1)] by blast
  then have no: "snd (score_features ?f) \<noteq> [''EXPLICIT_SIMULATION_OVERRIDE'']"
    by (auto simp: cs(3))
  have nonneg: "0 \<le> sum_list (map weight cs)" by (rule sum_list_nonneg_int) (rule weight_nonneg)
  then have clamp: "max 0 (min 100 (fst (score_features ?f))) = fst (score_features ?f)"
    by (simp add: cs(3))
  show ?thesis
  proof (cases "ap_is_fraud_simulation payload \<or> ap_risk_score payload \<noteq> None")
    case True
    then show ?thesis
      by (simp add: evaluate_authorization_def o is_flagged_def Let_def)
  next
    case False
    have dec: "evaluate_authorization res service clock payload context recent account
      = \<lparr>fd_score = fst (score_features ?f), fd_threshold = ss_flag_threshold service,
          fd_decision = (if ss_flag_threshold service < fst (score_features ?f) then ''FLAGGED'' else ''APPROVED''),
          fd_reason_codes = snd (score_features ?f), fd_features = ?f, fd_model_version = FRAUD_SCORER_VERSION\<rparr>"
      using False unfolding evaluate_authorization_def Let_def o
      by (cases "score_features ?f") (use clamp in simp)
    have "0 \<le> fst (score_features ?f)" "fst (score_features ?f) \<le> 100"
      using nonneg by (simp_all add: cs(3))
    then show ?thesis using False no unfolding dec by (simp add: is_flagged_def Let_def)
  qed
qed

theorem verdict_follows_threshold_witness:
  "is_flagged (evaluate_authorization sample_resources DEFAULT_SCORING 9 sample_auth_payload sample_context [] None)"
proof -
  have "snd (score_features sample_features) \<noteq> [''EXPLICIT_SIMULATION_OVERRIDE'']"
    "fst (score_features sample_features) = 25" by code_simp+
  moreover have "fd_features (evaluate_authorization sample_resources DEFAULT_SCORING 9 sample_auth_payload sample_context [] None)
      = sample_features"
    by (simp add: evaluate_authorization_def Let_def split: prod.split)
  moreover have h: "\<not> (ap_is_fraud_simulation sample_auth_payload \<or> ap_risk_score sample_auth_payload \<noteq> None)"
    by (simp add: sample_auth_payload_def)
  note v = verdict_follows_threshold [of sample_resources DEFAULT_SCORING 9 sample_auth_payload sample_context "[]" None, unfolded Let_def]
  from v h have "(fd_score (evaluate_authorization sample_resources DEFAULT_SCORING 9 sample_auth_payload sample_context [] None),
      fd_reason_codes (evaluate_authorization sample_resources DEFAULT_SCORING 9 sample_auth_payload sample_context [] None))
    = score_features (fd_features (evaluate_authorization sample_resources DEFAULT_SCORING 9 sample_auth_payload sample_context [] None))"
    by blast
  ultimately have "fd_score (evaluate_authorization sample_resources DEFAULT_SCORING 9 sample_auth_payload sample_context [] None) = 25"
    by (metis fst_conv)
  moreover have "ss_flag_threshold DEFAULT_SCORING = 20" by (simp add: DEFAULT_SCORING_def)
  ultimately show ?thesis using v by simp
qed

lemma recent_window_counts:
  "recent_window now mcc recent =
     (let old = filter (\<lambda>a. ta_created_at a \<le> now) recent in
      \<lparr>rs_10m = length (filter (\<lambda>a. now - ta_created_at a \<le> minutes 10) old),
       rs_1h = length (filter (\<lambda>a. now - ta_created_at a \<le> minutes 60) old),
       rs_flagged_24h = length (filter (\<lambda>a. now - ta_created_at a \<le> minutes (24 * 60) \<and> ta_status a = ''FLAGGED'') old),
       rs_same_mcc_1h = length (filter (\<lambda>a. now - ta_created_at a \<le> minutes 60 \<and> ta_merchant_category_code a = mcc) old),
       rs_amounts = map ta_transaction_amount_cents (filter (\<lambda>a. now - ta_created_at a \<le> minutes (24 * 60)) old),
       rs_location = (case List.map_filter card_present_location old of [] \<Rightarrow> None | l # ls \<Rightarrow> Some l)\<rparr>)"
  unfolding recent_window_def
proof (induction recent rule: rev_induct)
  case Nil
  then show ?case by (simp add: NO_RECENT_def map_filter_simps)
next
  case (snoc a recent)
  have mf: "List.map_filter card_present_location (xs @ [a]) = List.map_filter card_present_location xs
      @ (case card_present_location a of None \<Rightarrow> [] | Some l \<Rightarrow> [l])" for xs
    by (simp add: map_filter_def split: option.split)
  show ?case
    unfolding foldl_append foldl.simps snoc.IH Let_def filter_append map_append
    by (simp add: mf count_recent_def Let_def split: list.split option.split)
qed

text \<open>C36. Velocity counts what it says: the ten-minute and one-hour counts, the flagged count, the
  same-merchant-code count and the amounts averaged over are those of the authorizations in the
  respective window before the request (later ones never count), and windows nest.\<close>

theorem velocity_windows:
  "let f = extract_authorization_features res clock payload context recent account;
       now = (case ap_created_at payload of Some t \<Rightarrow> t | None \<Rightarrow> clock);
       inside = (\<lambda>n. filter (\<lambda>a. 0 \<le> now - ta_created_at a \<and> now - ta_created_at a \<le> minutes n) recent) in
     f_recent_auth_count_10m f = length (inside 10) \<and> f_recent_auth_count_1h f = length (inside 60)
   \<and> f_recent_flagged_count_24h f = length (filter (\<lambda>a. ta_status a = ''FLAGGED'') (inside (24 * 60)))
   \<and> f_same_mcc_count_1h f = length (filter (\<lambda>a. ta_merchant_category_code a = f_merchant_category_code f) (inside 60))
   \<and> f_amount_ratio f = amount_ratio (ap_amount_cents payload) (map ta_transaction_amount_cents (inside (24 * 60)))
   \<and> f_recent_auth_count_10m f \<le> f_recent_auth_count_1h f \<and> f_recent_auth_count_1h f \<le> length recent"
proof -
  let ?f = "extract_authorization_features res clock payload context recent account"
  let ?now = "case ap_created_at payload of Some t \<Rightarrow> t | None \<Rightarrow> clock"
  let ?w = "\<lambda>n. filter (\<lambda>a. 0 \<le> ?now - ta_created_at a \<and> ?now - ta_created_at a \<le> minutes n) recent"
  let ?st = "recent_window ?now (f_merchant_category_code ?f) recent"
  have f: "f_recent_auth_count_10m ?f = rs_10m ?st" "f_recent_auth_count_1h ?f = rs_1h ?st"
    "f_recent_flagged_count_24h ?f = rs_flagged_24h ?st" "f_same_mcc_count_1h ?f = rs_same_mcc_1h ?st"
    "f_amount_ratio ?f = amount_ratio (ap_amount_cents payload) (rs_amounts ?st)"
    by (simp_all add: extract_authorization_features_def Let_def split: prod.split)
  have w: "filter (\<lambda>a. ?now - ta_created_at a \<le> minutes n) (filter (\<lambda>a. ta_created_at a \<le> ?now) recent) = ?w n"
    and w': "filter (\<lambda>a. ?now - ta_created_at a \<le> minutes n \<and> P a) (filter (\<lambda>a. ta_created_at a \<le> ?now) recent)
      = filter P (?w n)" for n P
    by (simp_all add: conj_commute conj_left_commute)
  have nest: "length (?w 10) \<le> length (?w 60)"
  proof -
    have "?w 10 = filter (\<lambda>a. ?now - ta_created_at a \<le> minutes 10) (?w 60)"
      by (auto simp: minutes_def intro!: filter_cong)
    then show ?thesis by (rule ssubst) (rule length_filter_le)
  qed
  have c: "rs_10m ?st = length (?w 10)" "rs_1h ?st = length (?w 60)"
    "rs_flagged_24h ?st = length (filter (\<lambda>a. ta_status a = ''FLAGGED'') (?w (24 * 60)))"
    "rs_same_mcc_1h ?st = length (filter (\<lambda>a. ta_merchant_category_code a = f_merchant_category_code ?f) (?w 60))"
    "rs_amounts ?st = map ta_transaction_amount_cents (?w (24 * 60))"
    by (simp_all only: recent_window_counts Let_def recent_stats.select_convs w w')
  have len: "length (?w 60) \<le> length recent" by (rule length_filter_le)
  show ?thesis
    unfolding Let_def f c using nest len by (intro conjI) (rule refl | assumption)+
qed

end
