(* ===== verification/Fraud_Store.thy ===== *)
theory Fraud_Store
  imports Card_Repository
begin

text \<open>
  Fraud records: \<open>FraudAlertRepository\<close> and \<open>FraudDecisionRepository\<close>
  (\<^verbatim>\<open>repositories/fraud.py\<close>), the money facts of fraud workflows
  (\<^verbatim>\<open>services/fraud_money.py\<close>) and the secure message a workflow sends
  (\<^verbatim>\<open>repositories/identity.py\<close>, \<^verbatim>\<open>services/messaging.py\<close>; the push notifications that follow
  it leave the database alone and their failures are caught).
\<close>

section \<open>Alerts\<close>

text \<open>\<open>order_by(key.desc()).first()\<close>\<close>

definition latest :: "('r \<Rightarrow> int) \<Rightarrow> 'r list \<Rightarrow> 'r option" where
  "latest key rows = (case sort_key (\<lambda>r. - key r) rows of [] \<Rightarrow> None | r # rs \<Rightarrow> Some r)"

record alert_request =
  ar_customer_id :: string
  ar_auth_provider_uid :: string
  ar_credit_account_id :: string
  ar_card_id :: string
  ar_card_last_four :: string
  ar_message_thread_id :: string
  ar_suspicious_authorization_ids :: "string list"
  ar_suspicious_transactions :: "pyval list"
  ar_source :: string
  ar_status :: string

definition create_alert :: "int \<Rightarrow> alert_request \<Rightarrow> bank_db \<Rightarrow> fraud_alert \<times> bank_db" where
  "create_alert now r d =
     (let (i, d1) = uuid4 d;
          alert = \<lparr>al_id = i, al_customer_id = ar_customer_id r,
            al_auth_provider_uid = ar_auth_provider_uid r,
            al_credit_account_id = ar_credit_account_id r, al_card_id = ar_card_id r,
            al_card_last_four = ar_card_last_four r, al_status = ar_status r, al_source = ar_source r,
            al_message_thread_id = ar_message_thread_id r,
            al_suspicious_authorization_ids = ar_suspicious_authorization_ids r,
            al_suspicious_transactions = ar_suspicious_transactions r,
            al_remediation_status = ''NOT_STARTED'', al_triaged_at = None, al_triage_summary = None,
            al_selected_disputed_authorization_ids = [], al_selected_disputed_transaction_ids = [],
            al_provisional_credit_cents = 0, al_replacement_card_id = None,
            al_triage_message_thread_id = None, al_triage_message_id = None,
            al_created_at = now, al_resolved_at = None\<rparr>
      in (alert, d1\<lparr>d_alerts := d_alerts d1 @ [alert]\<rparr>))"

definition get_alert_by_id :: "string \<Rightarrow> bank_db \<Rightarrow> fraud_alert option" where
  "get_alert_by_id i d = List.find (\<lambda>a. al_id a = i) (d_alerts d)"

definition get_alert_for_customer ::
    "string \<Rightarrow> string option \<Rightarrow> string option \<Rightarrow> bank_db \<Rightarrow> fraud_alert option" where
  "get_alert_for_customer i auth_provider_uid customer_id d =
     List.find (\<lambda>a. al_id a = i
        \<and> (case str_or auth_provider_uid None of None \<Rightarrow> True | Some u \<Rightarrow> al_auth_provider_uid a = u)
        \<and> (case customer_id of None \<Rightarrow> True | Some c \<Rightarrow> al_customer_id a = c)) (d_alerts d)"

definition get_latest_open_alert_for_customer ::
    "string option \<Rightarrow> string option \<Rightarrow> bank_db \<Rightarrow> fraud_alert option" where
  "get_latest_open_alert_for_customer customer_id auth_provider_uid d =
     (case customer_id of
        Some c \<Rightarrow> latest al_created_at (filter (\<lambda>a. al_status a = ''OPEN'' \<and> al_customer_id a = c) (d_alerts d))
      | None \<Rightarrow>
          (case str_or auth_provider_uid None of
             Some u \<Rightarrow> latest al_created_at
                         (filter (\<lambda>a. al_status a = ''OPEN'' \<and> al_auth_provider_uid a = u) (d_alerts d))
           | None \<Rightarrow> None))"

definition get_open_alert_for_account :: "string \<Rightarrow> bank_db \<Rightarrow> fraud_alert option" where
  "get_open_alert_for_account credit_account_id d =
     latest al_created_at
       (filter (\<lambda>a. al_credit_account_id a = credit_account_id \<and> al_status a = ''OPEN'') (d_alerts d))"

definition get_latest_customer_reported_alert_for_account :: "string \<Rightarrow> bank_db \<Rightarrow> fraud_alert option" where
  "get_latest_customer_reported_alert_for_account credit_account_id d =
     latest al_created_at
       (filter (\<lambda>a. al_credit_account_id a = credit_account_id \<and> al_source a = ''CUSTOMER_REPORTED''
                  \<and> al_status a \<in> {''OPEN'', ''TRIAGED_PENDING_REVIEW''}) (d_alerts d))"

definition count_open_alerts :: "bank_db \<Rightarrow> nat" where
  "count_open_alerts d = length (filter (\<lambda>a. al_status a = ''OPEN'') (d_alerts d))"

definition list_open_alerts_for_lifecycle_sweep ::
    "int \<Rightarrow> string list \<Rightarrow> nat \<Rightarrow> bank_db \<Rightarrow> fraud_alert list" where
  "list_open_alerts_for_lifecycle_sweep cutoff sources limit d =
     take limit (sort_key al_created_at
       (filter (\<lambda>a. al_status a = ''OPEN'' \<and> al_created_at a \<le> cutoff \<and> al_source a \<in> set sources) (d_alerts d)))"

definition append_suspicious_authorization ::
    "string \<Rightarrow> string \<Rightarrow> pyval \<Rightarrow> bank_db \<Rightarrow> fraud_alert option \<times> bank_db" where
  "append_suspicious_authorization alert_id authorization_id suspicious d =
     (case get_alert_by_id alert_id d of
        None \<Rightarrow> (None, d)
      | Some alert \<Rightarrow>
          (if authorization_id \<in> set (al_suspicious_authorization_ids alert) then (Some alert, d)
           else (let alert' = alert\<lparr>
                       al_suspicious_authorization_ids := al_suspicious_authorization_ids alert @ [authorization_id],
                       al_suspicious_transactions := al_suspicious_transactions alert @ [suspicious]\<rparr>
                 in (Some alert', put_alert alert' d))))"

definition resolve_alert :: "int \<Rightarrow> string \<Rightarrow> string \<Rightarrow> bank_db \<Rightarrow> fraud_alert option \<times> bank_db" where
  "resolve_alert now alert_id resolved_status d =
     (case get_alert_by_id alert_id d of
        None \<Rightarrow> (None, d)
      | Some alert \<Rightarrow>
          (let alert' = alert\<lparr>al_status := resolved_status, al_resolved_at := Some now\<rparr>
           in (Some alert', put_alert alert' d)))"

record triage_marks =
  tm_remediation_status :: string
  tm_triage_summary :: "string option"
  tm_disputed_authorization_ids :: "string list option"
  tm_disputed_transaction_ids :: "string list option"
  tm_provisional_credit_cents :: "int option"
  tm_replacement_card_id :: "string option"
  tm_message_thread_id :: "string option"
  tm_message_id :: "string option"

definition given :: "'a option \<Rightarrow> 'a \<Rightarrow> 'a" where
  "given v old = (case v of None \<Rightarrow> old | Some x \<Rightarrow> x)"

definition given_opt :: "'a option \<Rightarrow> 'a option \<Rightarrow> 'a option" where
  "given_opt v old = (case v of None \<Rightarrow> old | Some x \<Rightarrow> Some x)"

definition mark_triaged :: "int \<Rightarrow> string \<Rightarrow> triage_marks \<Rightarrow> bank_db \<Rightarrow> fraud_alert option \<times> bank_db" where
  "mark_triaged now alert_id m d =
     (case get_alert_by_id alert_id d of
        None \<Rightarrow> (None, d)
      | Some alert \<Rightarrow>
          (let alert' = alert\<lparr>al_remediation_status := tm_remediation_status m,
                 al_triaged_at := Some now, al_triage_summary := tm_triage_summary m,
                 al_selected_disputed_authorization_ids :=
                   given (tm_disputed_authorization_ids m) (al_selected_disputed_authorization_ids alert),
                 al_selected_disputed_transaction_ids :=
                   given (tm_disputed_transaction_ids m) (al_selected_disputed_transaction_ids alert),
                 al_provisional_credit_cents := given (tm_provisional_credit_cents m) (al_provisional_credit_cents alert),
                 al_replacement_card_id := given_opt (tm_replacement_card_id m) (al_replacement_card_id alert),
                 al_triage_message_thread_id := given_opt (tm_message_thread_id m) (al_triage_message_thread_id alert),
                 al_triage_message_id := given_opt (tm_message_id m) (al_triage_message_id alert)\<rparr>
           in (Some alert', put_alert alert' d)))"

definition expire_no_response ::
    "int \<Rightarrow> string \<Rightarrow> string \<Rightarrow> string \<Rightarrow> string option \<Rightarrow> bank_db \<Rightarrow> fraud_alert option \<times> bank_db" where
  "expire_no_response now alert_id resolved_status remediation_status summary d =
     (case get_alert_by_id alert_id d of
        None \<Rightarrow> (None, d)
      | Some alert \<Rightarrow>
          (let alert' = alert\<lparr>al_status := resolved_status, al_remediation_status := remediation_status,
                 al_triaged_at := Some now, al_resolved_at := Some now, al_triage_summary := summary\<rparr>
           in (Some alert', put_alert alert' d)))"

section \<open>Case actions\<close>

definition get_case_action_by_idempotency_key ::
    "string \<Rightarrow> string \<Rightarrow> bank_db \<Rightarrow> fraud_case_action option" where
  "get_case_action_by_idempotency_key alert_id key d =
     List.find (\<lambda>a. fa_fraud_alert_id a = alert_id \<and> fa_idempotency_key a = Some key) (d_case_actions d)"

definition create_case_action ::
    "int \<Rightarrow> string \<Rightarrow> string \<Rightarrow> string \<Rightarrow> string option \<Rightarrow> pyval \<Rightarrow> pyval \<Rightarrow> int option
     \<Rightarrow> bank_db \<Rightarrow> fraud_case_action \<times> bank_db" where
  "create_case_action now alert_id action_type status key request result completed_at d =
     (case (case str_or key None of None \<Rightarrow> None
            | Some k \<Rightarrow> get_case_action_by_idempotency_key alert_id k d) of
        Some existing \<Rightarrow> (existing, d)
      | None \<Rightarrow>
          (let (i, d1) = uuid4 d;
               action = \<lparr>fa_id = i, fa_fraud_alert_id = alert_id, fa_action_type = action_type,
                 fa_status = status, fa_idempotency_key = key, fa_request_payload = request,
                 fa_result_payload = result, fa_created_at = now, fa_completed_at = completed_at\<rparr>
           in (action, d1\<lparr>d_case_actions := d_case_actions d1 @ [action]\<rparr>)))"

definition complete_case_action ::
    "int \<Rightarrow> string \<Rightarrow> string \<Rightarrow> pyval \<Rightarrow> bank_db \<Rightarrow> fraud_case_action option \<times> bank_db" where
  "complete_case_action now action_id status result d =
     (case List.find (\<lambda>a. fa_id a = action_id) (d_case_actions d) of
        None \<Rightarrow> (None, d)
      | Some action \<Rightarrow>
          (let action' = action\<lparr>fa_status := status, fa_result_payload := result,
                                fa_completed_at := Some now\<rparr>
           in (Some action', put_case_action action' d)))"

definition get_latest_successful_case_action ::
    "string \<Rightarrow> string \<Rightarrow> bank_db \<Rightarrow> fraud_case_action option" where
  "get_latest_successful_case_action alert_id action_type d =
     latest (\<lambda>a. case fa_completed_at a of None \<Rightarrow> 0 | Some t \<Rightarrow> t)
       (filter (\<lambda>a. fa_fraud_alert_id a = alert_id \<and> fa_action_type a = action_type
                  \<and> fa_status a = ''SUCCEEDED'') (d_case_actions d))"

definition list_case_actions :: "string \<Rightarrow> bank_db \<Rightarrow> fraud_case_action list" where
  "list_case_actions alert_id d =
     sort_key fa_created_at (filter (\<lambda>a. fa_fraud_alert_id a = alert_id) (d_case_actions d))"

section \<open>Model decisions\<close>

record decision_request =
  dr_authorization_id :: string
  dr_customer_id :: string
  dr_credit_account_id :: string
  dr_card_id :: string
  dr_score :: int
  dr_threshold :: int
  dr_decision :: string
  dr_reason_codes :: "string list"
  dr_feature_snapshot :: pyval
  dr_model_version :: string

definition get_decision_for_authorization :: "string \<Rightarrow> bank_db \<Rightarrow> fraud_model_decision option" where
  "get_decision_for_authorization i d = List.find (\<lambda>x. dm_authorization_id x = i) (d_decisions d)"

definition record_model_decision ::
    "int \<Rightarrow> decision_request \<Rightarrow> bank_db \<Rightarrow> fraud_model_decision \<times> bank_db" where
  "record_model_decision now r d =
     (case get_decision_for_authorization (dr_authorization_id r) d of
        Some existing \<Rightarrow> (existing, d)
      | None \<Rightarrow>
          (let (i, d1) = uuid4 d;
               row = \<lparr>dm_id = i, dm_authorization_id = dr_authorization_id r,
                 dm_customer_id = dr_customer_id r, dm_credit_account_id = dr_credit_account_id r,
                 dm_card_id = dr_card_id r, dm_score = dr_score r, dm_threshold = dr_threshold r,
                 dm_decision = dr_decision r, dm_reason_codes = dr_reason_codes r,
                 dm_feature_snapshot = dr_feature_snapshot r, dm_model_version = dr_model_version r,
                 dm_created_at = now\<rparr>
           in (row, d1\<lparr>d_decisions := d_decisions d1 @ [row]\<rparr>)))"

section \<open>Money facts\<close>

definition authorization_money_facts :: "transaction_authorization \<Rightarrow> (string \<times> pyval) list res" where
  "authorization_money_facts a =
     bindR (mk_money (ta_transaction_amount_cents a) (ta_transaction_currency a)) (\<lambda>t.
     bindR (mk_money (ta_billing_amount_cents a) (ta_billing_currency a)) (\<lambda>b.
       Inr (project_transaction_money t b)))"

definition require_fraud_account :: "fraud_alert \<Rightarrow> bank_db \<Rightarrow> credit_account res" where
  "require_fraud_account alert d =
     (case get_credit_account (al_credit_account_id alert) d of
        None \<Rightarrow> Inl (ValueError ''Fraud account ownership cannot be verified'')
      | Some account \<Rightarrow>
          (if ca_customer_id account \<noteq> al_customer_id alert
           then Inl (ValueError ''Fraud account ownership cannot be verified'') else Inr account))"

definition FACT_KEYS :: "string list" where
  "FACT_KEYS = [''authorization_id'', ''transaction_id'', ''merchant_name'', ''merchant_category_code'',
     ''card_network'', ''created_at'', ''pending'', ''source'']"

definition fact_reference ::
    "credit_account \<Rightarrow> pyval \<Rightarrow> bank_db
     \<Rightarrow> (posted_transaction option \<times> transaction_authorization option) res" where
  "fact_reference account item d =
     (case (dict_get item ''transaction_id'', dict_get item ''authorization_id'') of
        (tid, aid) \<Rightarrow>
          if truthy tid then
            (case tid of PStr i \<Rightarrow>
               (case get_ledger_entry_by_id_for_account i (ca_id account) d of
                  None \<Rightarrow> Inl (ValueError ''Fraud posting is unavailable for this account'')
                | Some p \<Rightarrow> Inr (Some p, case pt_authorization_id p of None \<Rightarrow> None
                                        | Some a \<Rightarrow> get_authorization_by_id a d))
             | _ \<Rightarrow> Inl (ValueError ''Fraud posting is unavailable for this account''))
          else if truthy aid then
            (case aid of PStr i \<Rightarrow>
               (case get_authorization_by_id_for_account i (ca_id account) d of
                  None \<Rightarrow> Inl (ValueError ''Fraud authorization is unavailable for this account'')
                | Some a \<Rightarrow> Inr (None, Some a))
             | _ \<Rightarrow> Inl (ValueError ''Fraud authorization is unavailable for this account''))
          else Inl (ValueError ''Fraud monetary facts require an authoritative transaction reference''))"

definition fraud_money_fact :: "credit_account \<Rightarrow> pyval \<Rightarrow> bank_db \<Rightarrow> pyval res" where
  "fraud_money_fact account item d =
     bindR (fact_reference account item d) (\<lambda>(posting, authorization).
     bindR (case (posting, authorization) of
              (Some p, _) \<Rightarrow> mk_money \<bar>pt_amount_cents p\<bar> (ca_currency account)
            | (None, Some a) \<Rightarrow> mk_money (ta_billing_amount_cents a) (ta_billing_currency a)
            | (None, None) \<Rightarrow> Inl (TypeError ''authorization'')) (\<lambda>billing.
     if currency_code billing \<noteq> ca_currency account
     then Inl (ValueError ''Fraud billing currency does not match the account'')
     else bindR (case authorization of
                   Some a \<Rightarrow> mk_money (ta_transaction_amount_cents a) (ta_transaction_currency a)
                 | None \<Rightarrow> Inr billing) (\<lambda>original.
          Inr (PDict (map (\<lambda>k. (k, dict_get item k)) FACT_KEYS @ project_transaction_money original billing)))))"

fun mapR :: "('a \<Rightarrow> 'b res) \<Rightarrow> 'a list \<Rightarrow> 'b list res" where
  "mapR f [] = Inr []"
| "mapR f (x # xs) = bindR (f x) (\<lambda>y. bindR (mapR f xs) (\<lambda>ys. Inr (y # ys)))"

definition fraud_money_facts :: "fraud_alert \<Rightarrow> bank_db \<Rightarrow> pyval list res" where
  "fraud_money_facts alert d =
     bindR (require_fraud_account alert d) (\<lambda>account.
       mapR (\<lambda>item. fraud_money_fact account item d) (al_suspicious_transactions alert))"

definition MONEY_RESULT_FIELDS :: "string list" where
  "MONEY_RESULT_FIELDS = [''voided_amount'', ''credited_amount'', ''available_credit'', ''cleared_balance'']"

definition historical_money :: "(string \<times> pyval) list \<Rightarrow> string \<Rightarrow> string \<Rightarrow> money option res" where
  "historical_money result currency field =
     (case map_of result field of
        Some v \<Rightarrow> bindR (money_validate v) (\<lambda>m. Inr (Some m))
      | None \<Rightarrow>
          (case map_of result (field @ ''_cents'') of
             Some v \<Rightarrow>
               (if currency \<noteq> ''USD''
                then Inl (ValueError ''Historical USD fraud result cannot be used for a non-USD account'')
                else (case v of PInt n \<Rightarrow> bindR (from_legacy_usd n) (\<lambda>m. Inr (Some m))
                      | _ \<Rightarrow> Inl (ValidationError ''amount_minor'')))
           | None \<Rightarrow> Inr None))"

fun normalize_fields ::
    "(string \<times> pyval) list \<Rightarrow> string \<Rightarrow> string list \<Rightarrow> (string \<times> pyval) list \<Rightarrow> (string \<times> pyval) list res" where
  "normalize_fields result currency [] normalized = Inr normalized"
| "normalize_fields result currency (field # fs) normalized =
     bindR (historical_money result currency field) (\<lambda>money.
       case money of
         None \<Rightarrow> normalize_fields result currency fs normalized
       | Some m \<Rightarrow>
           (if currency_code m \<noteq> currency
            then Inl (ValueError ''Fraud result denomination does not match the account'')
            else normalize_fields result currency fs
                   (dict_put field (model_dump m) (dict_pop (field @ ''_cents'') normalized))))"

definition normalize_historical_fraud_action ::
    "(string \<times> pyval) list \<Rightarrow> string \<Rightarrow> (string \<times> pyval) list res" where
  "normalize_historical_fraud_action result currency =
     normalize_fields result currency MONEY_RESULT_FIELDS result"

section \<open>Secure messages\<close>

definition create_secure_message ::
    "int \<Rightarrow> string \<Rightarrow> string \<Rightarrow> string \<Rightarrow> string option \<Rightarrow> string \<Rightarrow> bank_db \<Rightarrow> string \<times> bank_db" where
  "create_secure_message now auth_provider_uid sender body category thread_id d =
     (let (message_id, d1) = uuid4 d;
          (user_id, d2) = (case get_user_by_auth_provider_uid auth_provider_uid d1 of
             Some u \<Rightarrow> (u_id u, d1)
           | None \<Rightarrow> (let (i, d2) = uuid4 d1
                      in (i, d2\<lparr>d_users := d_users d2 @ [\<lparr>u_id = i, u_auth_provider_uid = auth_provider_uid, u_email = None\<rparr>]\<rparr>)));
          (row_id, d3) = uuid4 d2;
          d4 = d3\<lparr>d_messages := d_messages d3 @
                 [\<lparr>sm_id = row_id, sm_message_id = message_id, sm_user_id = user_id, sm_sender = sender,
                   sm_category = category, sm_message = body, sm_thread_id = thread_id,
                   sm_is_user_read = (sender = ''user''), sm_is_agent_read = (sender \<noteq> ''user'')\<rparr>]\<rparr>
      in (message_id, audit now ''MESSAGE_SENT''
            [(''message_id'', PStr message_id), (''user_id'', PStr auth_provider_uid),
             (''sender'', PStr sender), (''thread_id'', PStr thread_id)] d4))"

section \<open>Properties\<close>

text \<open>What a step of the fraud workflow leaves alone: the books, the cards and the holds.\<close>

definition same_books :: "bank_db \<Rightarrow> bank_db \<Rightarrow> bool" where
  "same_books d d' \<longleftrightarrow> d_accounts d' = d_accounts d \<and> d_credit_accounts d' = d_credit_accounts d
     \<and> d_cards d' = d_cards d \<and> d_auths d' = d_auths d \<and> d_posted d' = d_posted d
     \<and> d_transactions d' = d_transactions d \<and> d_entries d' = d_entries d
     \<and> d_products d' = d_products d \<and> d_uuid d' = d_uuid d \<and> d_draws d \<le> d_draws d'"

lemma same_books_refl [simp]: "same_books d d"
  by (simp add: same_books_def)

lemma same_books_trans: "same_books d1 d2 \<Longrightarrow> same_books d2 d3 \<Longrightarrow> same_books d1 d3"
  by (simp add: same_books_def)

lemma same_books_ok: "books_ok d \<Longrightarrow> same_books d d' \<Longrightarrow> books_ok d'"
  by (erule books_ok_frame) (simp_all add: same_books_def tx_sig_def acct_sig_def card_sig_def)

lemma same_books_get:
  assumes "same_books d d'"
  shows "get_account i d' = get_account i d" "get_credit_account i d' = get_credit_account i d"
    "hold_total i d' = hold_total i d"
  using assms by (simp_all add: same_books_def get_account_def get_credit_account_def hold_total_def)

lemma same_books_audit: "same_books d (record_audit_event now t p e v d)"
  by (simp add: same_books_def frame_simps)

lemma same_books_uuid4: "same_books d (snd (uuid4 d))"
  by (simp add: same_books_def uuid4_def)

lemma same_books_case_action:
  "same_books d (snd (create_case_action now al ty st k rq rs c d))"
  "same_books d (snd (complete_case_action now i st rs d))"
  by (auto simp: same_books_def create_case_action_def complete_case_action_def uuid4_def put_case_action_def
      Let_def split: option.split)

lemma same_books_message: "same_books d (snd (create_secure_message now u s b c t d))"
proof -
  have "same_books x (record_audit_event n e p v w x)" for x n e p v w by (rule same_books_audit)
  then show ?thesis
    by (auto simp: create_secure_message_def uuid4_def Let_def same_books_def frame_simps
        split: option.split prod.split intro: order_trans [OF _ record_audit_event_frame(15)])
qed

text \<open>Case actions are recorded once: creating an action under a key already used for the alert
  returns the first action and changes nothing, so a retried remediation step cannot run twice, and
  an alert never holds two actions under one key.\<close>

definition action_keys_unique :: "bank_db \<Rightarrow> bool" where
  "action_keys_unique d \<longleftrightarrow>
     distinct (map (\<lambda>a. (fa_fraud_alert_id a, fa_idempotency_key a))
       (filter (\<lambda>a. fa_idempotency_key a \<noteq> None) (d_case_actions d)))"

theorem case_action_at_most_once:
  assumes "action_keys_unique d" and "key \<noteq> []"
    and "create_case_action now al ty st (Some key) rq rs c d = (a, d')"
  shows "action_keys_unique d'
    \<and> create_case_action later al ty' st' (Some key) rq' rs' c' d' = (a, d')
    \<and> get_case_action_by_idempotency_key al key d' = Some a"
proof (cases "get_case_action_by_idempotency_key al key d")
  case (Some e)
  with assms show ?thesis by (simp add: create_case_action_def str_or_def)
next
  case None
  then have a: "fa_fraud_alert_id a = al" "fa_idempotency_key a = Some key"
    and d': "d_case_actions d' = d_case_actions d @ [a]"
    using assms(2,3) by (auto simp: create_case_action_def str_or_def uuid4_def Let_def)
  have new: "get_case_action_by_idempotency_key al key d' = Some a"
    using None a by (simp add: get_case_action_by_idempotency_key_def d' find_append)
  have "(al, Some key) \<notin> (\<lambda>a. (fa_fraud_alert_id a, fa_idempotency_key a)) ` set (d_case_actions d)"
    using None by (force simp: get_case_action_by_idempotency_key_def find_None_iff')
  then have "action_keys_unique d'"
    using assms(1) a by (auto simp: action_keys_unique_def d')
  with new assms(2) show ?thesis by (simp add: create_case_action_def str_or_def)
qed

theorem case_action_at_most_once_witness:
  "\<exists>a d'. create_case_action 1 ''al'' ''t'' ''PENDING'' (Some ''k'') PNone PNone None sample_db = (a, d')
     \<and> create_case_action 2 ''al'' ''t'' ''PENDING'' (Some ''k'') PNone PNone None d' = (a, d')"
proof -
  obtain a d' where c: "create_case_action 1 ''al'' ''t'' ''PENDING'' (Some ''k'') PNone PNone None sample_db = (a, d')"
    by fastforce
  have "action_keys_unique sample_db" by (simp add: action_keys_unique_def sample_db_def)
  from case_action_at_most_once [OF this _ c] c show ?thesis by blast
qed

lemma normalize_fields_effect:
  assumes "normalize_fields result cur fs acc = Inr nrm"
    and "distinct fs" "\<forall>f \<in> set fs. \<forall>g \<in> set fs. f \<noteq> g @ ''_cents''"
  shows "(\<forall>f \<in> set fs. (map_of result f \<noteq> None \<or> map_of result (f @ ''_cents'') \<noteq> None) \<longrightarrow>
            map_of nrm (f @ ''_cents'') = None
            \<and> (\<exists>m. historical_money result cur f = Inr (Some m) \<and> map_of nrm f = Some (model_dump m)
                  \<and> currency_code m = cur \<and> money_ok m))
    \<and> (\<forall>f \<in> set fs. map_of result f = None \<and> map_of result (f @ ''_cents'') = None \<longrightarrow>
            map_of nrm f = map_of acc f \<and> map_of nrm (f @ ''_cents'') = map_of acc (f @ ''_cents''))
    \<and> (\<forall>k. (\<forall>f \<in> set fs. k \<noteq> f \<and> k \<noteq> f @ ''_cents'') \<longrightarrow> map_of nrm k = map_of acc k)"
  using assms
proof (induction fs arbitrary: acc)
  case (Cons f fs)
  from Cons.prems(1) obtain money where m: "historical_money result cur f = Inr money"
    by (auto elim: bindR_E)
  have sep: "\<forall>g \<in> set fs. g \<noteq> f \<and> g \<noteq> f @ ''_cents'' \<and> g @ ''_cents'' \<noteq> f \<and> g @ ''_cents'' \<noteq> f @ ''_cents''"
    using Cons.prems(2,3) by auto
  have prems: "distinct fs" "\<forall>f \<in> set fs. \<forall>g \<in> set fs. f \<noteq> g @ ''_cents''" using Cons.prems(2,3) by auto
  show ?case
  proof (cases money)
    case None
    then have absent: "map_of result f = None \<and> map_of result (f @ ''_cents'') = None"
      using m by (auto simp: historical_money_def elim!: bindR_E split: option.splits if_splits pyval.splits)
    have "normalize_fields result cur fs acc = Inr nrm"
      using Cons.prems(1) m None by simp
    from Cons.IH [OF this prems] absent sep show ?thesis by auto
  next
    case (Some mm)
    have ok: "money_ok mm"
      using m Some
      by (auto simp: historical_money_def from_legacy_usd_def mk_money_Inr_iff elim!: bindR_E dest: money_validate_ok
          split: option.splits if_splits pyval.splits)
    have present: "map_of result f \<noteq> None \<or> map_of result (f @ ''_cents'') \<noteq> None"
      using m Some by (auto simp: historical_money_def split: option.splits)
    have run: "normalize_fields result cur fs (dict_put f (model_dump mm) (dict_pop (f @ ''_cents'') acc)) = Inr nrm"
      and cur: "currency_code mm = cur"
      using Cons.prems(1) m Some by (auto split: if_splits)
    have ne: "f \<noteq> f @ ''_cents''" by simp
    note IH = Cons.IH [OF run prems]
    have "map_of nrm f = Some (model_dump mm)" "map_of nrm (f @ ''_cents'') = None"
      using IH sep ne by auto
    then show ?thesis using IH sep present cur ok m Some by auto
  qed
qed simp

text \<open>The Money an amount is read as: the stored Money, or the cents of a dollar account.\<close>

lemma historical_amount:
  assumes "historical_money result cur f = Inr (Some m)"
  shows "case (map_of result f, map_of result (f @ ''_cents'')) of
      (Some v, _) \<Rightarrow> money_validate v = Inr m
    | (None, Some c) \<Rightarrow> c = PInt (amount_minor m) \<and> cur = ''USD'' \<and> currency_code m = ''USD''
    | (None, None) \<Rightarrow> False"
  using assms by (auto simp: historical_money_def from_legacy_usd_def mk_money_Inr_iff split: option.splits if_splits pyval.splits)

lemma money_result_fields_sep:
  "distinct MONEY_RESULT_FIELDS" "\<forall>f \<in> set MONEY_RESULT_FIELDS. \<forall>g \<in> set MONEY_RESULT_FIELDS. f \<noteq> g @ ''_cents''"
  by (simp_all add: MONEY_RESULT_FIELDS_def)

lemma normalize_fields_stable:
  "(\<forall>f \<in> set fs. map_of result (f @ ''_cents'') = None
      \<and> (map_of result f = None \<or> (\<exists>m. map_of result f = Some (model_dump m) \<and> currency_code m = cur \<and> money_ok m))) \<Longrightarrow>
   distinct fs \<Longrightarrow> (\<forall>f \<in> set fs. map_of acc f = map_of result f \<and> map_of acc (f @ ''_cents'') = None) \<Longrightarrow>
   (\<forall>f \<in> set fs. \<forall>g \<in> set fs. f \<noteq> g @ ''_cents'') \<Longrightarrow>
   \<exists>nrm. normalize_fields result cur fs acc = Inr nrm \<and> map_of nrm = map_of acc"
proof (induction fs arbitrary: acc)
  case (Cons f fs)
  show ?case
  proof (cases "map_of result f")
    case None
    then have "historical_money result cur f = Inr None"
      using Cons.prems(1) by (simp add: historical_money_def)
    then show ?thesis using Cons.IH [of acc] Cons.prems by simp
  next
    case (Some v)
    then obtain m where m: "v = model_dump m" "currency_code m = cur" "money_ok m"
      using Cons.prems(1) by auto
    have h: "historical_money result cur f = Inr (Some m)"
      using mk_money_of_ok [OF m(3)] m(1) Some by (simp add: historical_money_def money_validate_dump)
    let ?acc = "dict_put f (model_dump m) (dict_pop (f @ ''_cents'') acc)"
    have acc: "map_of ?acc = map_of acc"
      using Cons.prems(3) Some m(1) by (auto simp: fun_eq_iff)
    have "\<exists>nrm. normalize_fields result cur fs ?acc = Inr nrm \<and> map_of nrm = map_of ?acc"
      using Cons.prems acc by (intro Cons.IH) auto
    then show ?thesis using h m(2) acc by simp
  qed
qed simp

text \<open>C37. Historical results are read safely: the compatibility edge turns every amount of a stored
  remediation result into Money of the account's own currency without changing it: the Money it held, or, of a dollar
  account, exactly its legacy cents; the Money reads back as itself; no ambiguous cents field is left behind, every
  other field is kept, a result of another currency is refused, and reading again changes nothing.\<close>

theorem historical_results_are_normalized:
  assumes "normalize_historical_fraud_action result cur = Inr nrm"
  shows "(\<forall>f \<in> set MONEY_RESULT_FIELDS. map_of nrm (f @ ''_cents'') = None
        \<and> (case (map_of result f, map_of result (f @ ''_cents'')) of
            (Some v, _) \<Rightarrow> \<exists>m. money_validate v = Inr m \<and> map_of nrm f = Some (model_dump m) \<and> currency_code m = cur
          | (None, Some c) \<Rightarrow> cur = ''USD'' \<and> (\<exists>n. c = PInt n
              \<and> map_of nrm f = Some (model_dump \<lparr>amount_minor = n, currency_code = ''USD''\<rparr>))
          | (None, None) \<Rightarrow> map_of nrm f = None)
        \<and> (\<forall>v. map_of nrm f = Some v \<longrightarrow> (\<exists>m. v = model_dump m \<and> money_validate v = Inr m \<and> currency_code m = cur)))
    \<and> (\<forall>k. (\<forall>f \<in> set MONEY_RESULT_FIELDS. k \<noteq> f \<and> k \<noteq> f @ ''_cents'') \<longrightarrow> map_of nrm k = map_of result k)
    \<and> (\<exists>again. normalize_historical_fraud_action nrm cur = Inr again \<and> map_of again = map_of nrm)"
proof -
  note eff = normalize_fields_effect [OF assms [unfolded normalize_historical_fraud_action_def] money_result_fields_sep]
  have fields: "map_of nrm (f @ ''_cents'') = None
        \<and> (case (map_of result f, map_of result (f @ ''_cents'')) of
            (Some v, _) \<Rightarrow> \<exists>m. money_validate v = Inr m \<and> map_of nrm f = Some (model_dump m) \<and> currency_code m = cur
          | (None, Some c) \<Rightarrow> cur = ''USD'' \<and> (\<exists>n. c = PInt n
              \<and> map_of nrm f = Some (model_dump \<lparr>amount_minor = n, currency_code = ''USD''\<rparr>))
          | (None, None) \<Rightarrow> map_of nrm f = None)
        \<and> (map_of nrm f = None \<or> (\<exists>m. map_of nrm f = Some (model_dump m) \<and> currency_code m = cur \<and> money_ok m))"
    if f: "f \<in> set MONEY_RESULT_FIELDS" for f
  proof (cases "map_of result f = None \<and> map_of result (f @ ''_cents'') = None")
    case True
    then have "map_of nrm f = map_of result f" "map_of nrm (f @ ''_cents'') = map_of result (f @ ''_cents'')"
      using eff f by blast+
    with True show ?thesis by simp
  next
    case False
    then obtain m where m: "map_of nrm (f @ ''_cents'') = None" "historical_money result cur f = Inr (Some m)"
      "map_of nrm f = Some (model_dump m)" "currency_code m = cur" "money_ok m"
      using eff f by blast
    have "m = \<lparr>amount_minor = amount_minor m, currency_code = currency_code m\<rparr>" by simp
    with m(1,3-) historical_amount [OF m(2)] show ?thesis by (auto split: option.splits)
  qed
  have valid: "\<exists>m. v = model_dump m \<and> money_validate v = Inr m \<and> currency_code m = cur"
    if "f \<in> set MONEY_RESULT_FIELDS" "map_of nrm f = Some v" for f v
    using fields [OF that(1)] that(2) by (auto simp: money_validate_dump dest: mk_money_of_ok)
  have "\<exists>again. normalize_historical_fraud_action nrm cur = Inr again \<and> map_of again = map_of nrm"
    unfolding normalize_historical_fraud_action_def
    by (rule normalize_fields_stable [OF _ money_result_fields_sep(1) _ money_result_fields_sep(2)]) (simp_all add: fields)
  moreover have "map_of nrm k = map_of result k" if "\<forall>f \<in> set MONEY_RESULT_FIELDS. k \<noteq> f \<and> k \<noteq> f @ ''_cents''" for k
    using eff that by blast
  ultimately show ?thesis
    using fields [THEN conjunct1] fields [THEN conjunct2, THEN conjunct1] valid by (intro conjI ballI allI impI) assumption+
qed

theorem historical_results_are_normalized_witness:
  "\<exists>nrm. normalize_historical_fraud_action [(''voided_amount_cents'', PInt 1200), (''note'', PStr ''x'')] ''USD'' = Inr nrm
     \<and> map_of nrm ''voided_amount'' = Some (model_dump \<lparr>amount_minor = 1200, currency_code = ''USD''\<rparr>)
     \<and> map_of nrm ''voided_amount_cents'' = None"
proof -
  have "\<not> isl (normalize_historical_fraud_action [(''voided_amount_cents'', PInt 1200), (''note'', PStr ''x'')] ''USD'')"
    by code_simp
  then obtain nrm where n: "normalize_historical_fraud_action [(''voided_amount_cents'', PInt 1200), (''note'', PStr ''x'')] ''USD'' = Inr nrm"
    by (cases "normalize_historical_fraud_action [(''voided_amount_cents'', PInt 1200), (''note'', PStr ''x'')] ''USD''") auto
  have "''voided_amount'' \<in> set MONEY_RESULT_FIELDS" by (simp add: MONEY_RESULT_FIELDS_def)
  with historical_results_are_normalized [OF n] n show ?thesis by fastforce
qed

end
