(* ===== verification/Fraud_Alerts.thy ===== *)
theory Fraud_Alerts
  imports Fraud_Store
begin

text \<open>
  \<open>FraudAlertService\<close> (\<^verbatim>\<open>services/fraud_alerts.py\<close>): opening or extending the alert of an account,
  the customer's review of an open alert, resolving it, and the sweep that expires alerts nobody
  answered.  Digests are a parameter (\<open>sha256_json\<close> of the canonical JSON of a value).

  Sending the customer message of a new alert commits the running transaction
  (\<open>create_message\<close> commits unless told otherwise); such an operation also returns the state a
  later rollback goes back to.
\<close>

section \<open>Texts\<close>

fun join_with :: "string \<Rightarrow> string list \<Rightarrow> string" where
  "join_with sep [] = []"
| "join_with sep [w] = w"
| "join_with sep (w # ws) = w @ sep @ join_with sep ws"

definition NEWLINE :: string where
  "NEWLINE = [CHR 0x0A]"

text \<open>A value inside an f-string, for the values these messages quote.\<close>

definition text_of :: "pyval \<Rightarrow> string" where
  "text_of v = (case v of PStr s \<Rightarrow> s | PInt n \<Rightarrow> show_int n | PNone \<Rightarrow> ''None'' | _ \<Rightarrow> [])"

definition shown_text :: "pyval \<Rightarrow> string \<Rightarrow> string" where
  "shown_text txn side =
     text_of (dict_get (dict_get (dict_get (dict_get txn ''presentations'') ''en-US'') side) ''display_text'')"

definition build_customer_message :: "string \<Rightarrow> pyval list \<Rightarrow> string" where
  "build_customer_message card_last_four suspicious =
     join_with NEWLINE
       ([''We noticed suspicious transactions on your credit card ending in '' @ card_last_four @ ''.'',
         ''Please review these recent purchases:'']
        @ map (\<lambda>txn. ''- '' @ text_of (dict_get txn ''merchant_name'') @ '': '' @ shown_text txn ''transaction''
                 @ '' (billed '' @ shown_text txn ''billing'' @ '')'') suspicious
        @ [''If you did not make these purchases, chat now with a credit card support agent at /support/voice?entry=fraud-alert.'',
           ''If you recognize these purchases, acknowledge them in secure messaging so we can close the fraud alert.''])"

definition build_voice_context_summary :: "string \<Rightarrow> pyval list \<Rightarrow> string" where
  "build_voice_context_summary card_last_four suspicious =
     (let base = ''Customer has an active fraud alert on card ending in '' @ card_last_four @ ''.'' in
      if suspicious = [] then base
      else base @ '' Flagged transactions are '' @
        join_with '', '' (map (\<lambda>txn. shown_text txn ''transaction'' @ '' at ''
          @ text_of (py_or (dict_get txn ''merchant_name'') (PStr ''Unknown merchant''))) suspicious) @ ''.'')"

definition alert_result :: "fraud_alert \<Rightarrow> pyval" where
  "alert_result alert =
     PDict [(''fraud_alert_id'', PStr (al_id alert)), (''status'', PStr (al_status alert)),
            (''source'', PStr (al_source alert)), (''remediation_status'', PStr (al_remediation_status alert)),
            (''card_id'', PStr (al_card_id alert)), (''card_last_four'', PStr (al_card_last_four alert)),
            (''triaged_at'', opt_time (al_triaged_at alert)), (''resolved_at'', opt_time (al_resolved_at alert))]"

section \<open>Opening an alert\<close>

record alert_outcome =
  ao_fraud_alert_id :: string
  ao_thread_id :: string
  ao_message_id :: "string option"
  ao_created :: bool

definition authorization_fact :: "transaction_authorization \<Rightarrow> (string \<times> pyval) list res" where
  "authorization_fact a =
     bindR (authorization_money_facts a) (\<lambda>facts.
       Inr ([(''authorization_id'', PStr (ta_id a)), (''merchant_name'', opt_str (ta_merchant_name a))]
            @ facts @
            [(''merchant_category_code'', PStr (ta_merchant_category_code a)),
             (''card_network'', PStr (ta_card_network a)), (''created_at'', PTime (ta_created_at a))]))"

text \<open>
  \<open>create_or_update_alert_from_model_decision\<close>: the outcome, the state after it and the state a later
  rollback returns to.
\<close>

definition open_model_alert ::
    "int \<Rightarrow> user \<Rightarrow> issued_card \<Rightarrow> credit_account \<Rightarrow> transaction_authorization \<Rightarrow> fraud_model_decision
     \<Rightarrow> pyval \<Rightarrow> bank_db \<Rightarrow> alert_outcome \<times> bank_db \<times> bank_db" where
  "open_model_alert now customer crd account auth dec suspicious d =
     (let uid = the (str_or (Some (u_auth_provider_uid customer)) (Some (u_id customer)));
          (thread_id, d1) = uuid4 d;
          (alert, d2) = create_alert now
             \<lparr>ar_customer_id = u_id customer, ar_auth_provider_uid = uid,
              ar_credit_account_id = ca_id account, ar_card_id = ic_id crd,
              ar_card_last_four = ic_last_four crd, ar_message_thread_id = thread_id,
              ar_suspicious_authorization_ids = [ta_id auth], ar_suspicious_transactions = [suspicious],
              ar_source = ''MODEL_DETECTED_FRAUD'', ar_status = ''OPEN''\<rparr> d1;
          d3 = audit now ''FRAUD_ALERT_CREATED''
             [(''fraud_alert_id'', PStr (al_id alert)), (''correlation_id'', PStr (al_id alert)),
              (''customer_id'', PStr (u_id customer)), (''credit_account_id'', PStr (ca_id account)),
              (''card_last_four'', PStr (ic_last_four crd)), (''authorization_ids'', str_list [ta_id auth]),
              (''source'', PStr (al_source alert)), (''score'', PInt (dm_score dec)),
              (''reason_codes'', str_list (dm_reason_codes dec))] d2;
          (message_id, d4) = create_secure_message now uid ''bank''
             (build_customer_message (ic_last_four crd) [suspicious]) (Some ''Fraud Alert'') thread_id d3;
          d5 = audit now ''FRAUD_ALERT_CUSTOMER_NOTIFIED''
             [(''fraud_alert_id'', PStr (al_id alert)), (''correlation_id'', PStr (al_id alert)),
              (''customer_id'', PStr (u_id customer)), (''message_id'', PStr message_id),
              (''thread_id'', PStr thread_id), (''channel'', PStr ''SECURE_MESSAGE_AND_PUSH''),
              (''source'', PStr (al_source alert))] d4
      in (\<lparr>ao_fraud_alert_id = al_id alert, ao_thread_id = thread_id, ao_message_id = Some message_id,
           ao_created = True\<rparr>, d5, d4))"

definition update_model_alert ::
    "int \<Rightarrow> user \<Rightarrow> credit_account \<Rightarrow> transaction_authorization \<Rightarrow> fraud_model_decision \<Rightarrow> pyval
     \<Rightarrow> fraud_alert \<Rightarrow> bank_db \<Rightarrow> alert_outcome \<times> bank_db" where
  "update_model_alert now customer account auth dec suspicious existing d =
     (let (updated, d1) = append_suspicious_authorization (al_id existing) (ta_id auth) suspicious d;
          alert = (case updated of Some a \<Rightarrow> a | None \<Rightarrow> existing)
      in (\<lparr>ao_fraud_alert_id = al_id alert, ao_thread_id = al_message_thread_id alert,
           ao_message_id = None, ao_created = False\<rparr>,
          audit now ''FRAUD_ALERT_UPDATED''
            [(''fraud_alert_id'', PStr (al_id alert)), (''correlation_id'', PStr (al_id alert)),
             (''customer_id'', PStr (u_id customer)), (''credit_account_id'', PStr (ca_id account)),
             (''authorization_id'', PStr (ta_id auth)), (''source'', PStr (al_source alert)),
             (''score'', PInt (dm_score dec)), (''reason_codes'', str_list (dm_reason_codes dec))] d1))"

definition create_or_update_alert_from_model_decision ::
    "int \<Rightarrow> user \<Rightarrow> issued_card \<Rightarrow> credit_account \<Rightarrow> transaction_authorization \<Rightarrow> fraud_model_decision
     \<Rightarrow> bank_db \<Rightarrow> bank_db \<Rightarrow> (alert_outcome \<times> bank_db \<times> bank_db) res" where
  "create_or_update_alert_from_model_decision now customer crd account auth dec saved d =
     bindR (authorization_fact auth) (\<lambda>fact.
       let suspicious = PDict (fact @ [(''fraud_score'', PInt (dm_score dec)),
             (''reason_codes'', str_list (dm_reason_codes dec)), (''model_version'', PStr (dm_model_version dec))])
       in case get_open_alert_for_account (ca_id account) d of
            Some existing \<Rightarrow>
              (let (outcome, d') = update_model_alert now customer account auth dec suspicious existing d
               in Inr (outcome, d', saved))
          | None \<Rightarrow> Inr (open_model_alert now customer crd account auth dec suspicious d))"

section \<open>Reviewing an alert\<close>

record alert_selection =
  as_disputed_authorizations :: "string list"
  as_disputed_transactions :: "string list"
  as_recognized_authorizations :: "string list"
  as_recognized_transactions :: "string list"

definition normalized_ids :: "string list \<Rightarrow> string list" where
  "normalized_ids vs = sort (remdups (filter (\<lambda>s. s \<noteq> []) (map py_strip vs)))"

definition normalized_selection :: "alert_selection \<Rightarrow> alert_selection" where
  "normalized_selection sel =
     \<lparr>as_disputed_authorizations = normalized_ids (as_disputed_authorizations sel),
      as_disputed_transactions = normalized_ids (as_disputed_transactions sel),
      as_recognized_authorizations = normalized_ids (as_recognized_authorizations sel),
      as_recognized_transactions = normalized_ids (as_recognized_transactions sel)\<rparr>"

definition alert_transaction_ids :: "fraud_alert \<Rightarrow> string list" where
  "alert_transaction_ids alert =
     map (\<lambda>item. text_of (dict_get item ''transaction_id''))
       (filter (\<lambda>item. truthy (dict_get item ''transaction_id'')) (al_suspicious_transactions alert))"

record selection_review =
  sr_fraud_alert_id :: string
  sr_selection_status :: string
  sr_selection :: alert_selection
  sr_fingerprint :: string
  sr_ready_to_propose :: bool
  sr_remaining_item_count :: nat

definition selection_json :: "string \<Rightarrow> string \<Rightarrow> alert_selection \<Rightarrow> pyval" where
  "selection_json alert_id status sel =
     PDict [(''fraud_alert_id'', PStr alert_id), (''selection_status'', PStr status),
            (''disputed_authorization_ids'', str_list (as_disputed_authorizations sel)),
            (''disputed_transaction_ids'', str_list (as_disputed_transactions sel)),
            (''recognized_authorization_ids'', str_list (as_recognized_authorizations sel)),
            (''recognized_transaction_ids'', str_list (as_recognized_transactions sel))]"

text \<open>The refusals are the \<open>error\<close> codes of the replies with \<open>success\<close> false.\<close>

definition review_open_alert_selection ::
    "(pyval \<Rightarrow> string) \<Rightarrow> string \<Rightarrow> string \<Rightarrow> string \<Rightarrow> alert_selection \<Rightarrow> bank_db \<Rightarrow> string + selection_review" where
  "review_open_alert_selection sha256_json auth_provider_uid fraud_alert_id selection_status selection d =
     (case get_latest_open_alert_for_customer None (Some auth_provider_uid) d of
        None \<Rightarrow> Inl ''ACTIVE_FRAUD_ALERT_REQUIRED''
      | Some alert \<Rightarrow>
          if al_id alert \<noteq> py_strip fraud_alert_id then Inl ''ACTIVE_FRAUD_ALERT_REQUIRED''
          else
            (let status = py_upper (py_strip selection_status);
                 sel = normalized_selection selection;
                 allowed_auths = set (al_suspicious_authorization_ids alert);
                 allowed_txs = set (alert_transaction_ids alert);
                 auths = set (as_disputed_authorizations sel) \<union> set (as_recognized_authorizations sel);
                 txs = set (as_disputed_transactions sel) \<union> set (as_recognized_transactions sel);
                 complete = (auths = allowed_auths \<and> txs = allowed_txs)
             in if status \<notin> {''UNCERTAIN'', ''PARTIAL'', ''COMPLETE''} then Inl ''INVALID_SELECTION_STATUS''
                else if set (as_disputed_authorizations sel) \<inter> set (as_recognized_authorizations sel) \<noteq> {}
                  \<or> set (as_disputed_transactions sel) \<inter> set (as_recognized_transactions sel) \<noteq> {}
                then Inl ''CONFLICTING_FRAUD_SELECTION''
                else if \<not> auths \<subseteq> allowed_auths \<or> \<not> txs \<subseteq> allowed_txs
                then Inl ''FRAUD_SELECTION_OUT_OF_SCOPE''
                else if status = ''COMPLETE'' \<and> \<not> complete then Inl ''FRAUD_SELECTION_INCOMPLETE''
                else (let status' = (if status \<noteq> ''COMPLETE'' \<and> complete then ''COMPLETE'' else status)
                      in Inr \<lparr>sr_fraud_alert_id = al_id alert, sr_selection_status = status',
                              sr_selection = sel,
                              sr_fingerprint = sha256_json (selection_json (al_id alert) status' sel),
                              sr_ready_to_propose = (status' = ''COMPLETE''),
                              sr_remaining_item_count =
                                length (filter (\<lambda>a. a \<notin> auths) (remdups (al_suspicious_authorization_ids alert)))
                                + length (filter (\<lambda>t. t \<notin> txs) (remdups (alert_transaction_ids alert)))\<rparr>)))"

section \<open>Resolving and expiring\<close>

definition resolve_open_alert_for_customer ::
    "int \<Rightarrow> string \<Rightarrow> string \<Rightarrow> bank_db \<Rightarrow> fraud_alert option \<times> bank_db" where
  "resolve_open_alert_for_customer now auth_provider_uid resolution d =
     (case get_latest_open_alert_for_customer None (Some auth_provider_uid) d of
        None \<Rightarrow> (None, d)
      | Some found \<Rightarrow>
          (let (resolved, d1) = resolve_alert now (al_id found) (''RESOLVED_'' @ py_upper resolution) d;
               alert = (case resolved of Some a \<Rightarrow> a | None \<Rightarrow> found)
           in (Some alert,
               audit now ''FRAUD_ALERT_RESOLVED''
                 [(''fraud_alert_id'', PStr (al_id alert)), (''correlation_id'', PStr (al_id alert)),
                  (''customer_id'', PStr (al_customer_id alert)),
                  (''credit_account_id'', PStr (al_credit_account_id alert)),
                  (''resolution'', PStr (py_upper resolution)), (''status'', PStr (al_status alert))] d1)))"

record sweep =
  sw_max_age_minutes :: int
  sw_limit :: nat
  sw_sources :: "string list"
  sw_dry_run :: bool

definition SWEEP_SOURCES :: "string list" where
  "SWEEP_SOURCES = [''MODEL_DETECTED_FRAUD'', ''SIMULATION_TARGETED_FRAUD'']"

definition sweep_sources :: "sweep \<Rightarrow> string list" where
  "sweep_sources s = (if sw_sources s = [] then SWEEP_SOURCES else sw_sources s)"

definition sweep_cutoff :: "int \<Rightarrow> sweep \<Rightarrow> int" where
  "sweep_cutoff now s = now - sw_max_age_minutes s * 60000000"

definition expire_alert :: "int \<Rightarrow> sweep \<Rightarrow> fraud_alert \<Rightarrow> bank_db \<Rightarrow> bank_db" where
  "expire_alert now s alert d =
     (let cutoff = sweep_cutoff now s;
          age = show_int (sw_max_age_minutes s);
          (action, d1) = create_case_action now (al_id alert) ''FRAUD_ALERT_RESPONSE_TIMEOUT'' ''SUCCEEDED''
            (Some (''fraud-alert-timeout:'' @ al_id alert @ '':'' @ age @ ''m''))
            (PDict [(''max_age_minutes'', PInt (sw_max_age_minutes s)), (''cutoff'', PTime cutoff),
                    (''sources'', str_list (sweep_sources s))])
            (PDict [(''status'', PStr ''EXPIRED_NO_CUSTOMER_RESPONSE''),
                    (''remediation_status'', PStr ''NO_CUSTOMER_RESPONSE'')]) (Some now) d;
          (expired, d2) = expire_no_response now (al_id alert) ''EXPIRED_NO_CUSTOMER_RESPONSE''
            ''NO_CUSTOMER_RESPONSE''
            (Some (''Customer did not respond to the fraud alert within the '' @ age @
                   ''-minute demo lifecycle window.'')) d1
      in audit now ''FRAUD_ALERT_RESPONSE_TIMEOUT''
           [(''fraud_alert_id'', PStr (al_id alert)), (''correlation_id'', PStr (al_id alert)),
            (''customer_id'', PStr (al_customer_id alert)),
            (''credit_account_id'', PStr (al_credit_account_id alert)),
            (''card_id'', PStr (al_card_id alert)), (''source'', PStr (al_source alert)),
            (''max_age_minutes'', PInt (sw_max_age_minutes s)), (''cutoff'', PTime cutoff),
            (''status'', opt_str (map_option al_status expired)),
            (''remediation_status'', opt_str (map_option al_remediation_status expired))] d2)"

record sweep_report =
  sp_matched :: "fraud_alert list"
  sp_expired_count :: nat

definition expire_stale_open_alerts :: "int \<Rightarrow> sweep \<Rightarrow> bank_db \<Rightarrow> sweep_report \<times> bank_db" where
  "expire_stale_open_alerts now s d =
     (let alerts = list_open_alerts_for_lifecycle_sweep (sweep_cutoff now s) (sweep_sources s) (sw_limit s) d
      in if sw_dry_run s then (\<lparr>sp_matched = alerts, sp_expired_count = 0\<rparr>, d)
         else (\<lparr>sp_matched = alerts, sp_expired_count = length alerts\<rparr>,
               fold (expire_alert now s) alerts d))"

section \<open>Rows and frames\<close>

lemma latest_None_iff [simp]: "latest k rs = None \<longleftrightarrow> rs = []"
proof -
  have "sort_key (\<lambda>r. - k r) rs = [] \<longleftrightarrow> rs = []" by (metis length_0_conv length_sort)
  then show ?thesis by (cases "sort_key (\<lambda>r. - k r) rs") (auto simp: latest_def)
qed

lemma latest_mem: "latest k rs = Some r \<Longrightarrow> r \<in> set rs"
  by (auto simp: latest_def split: list.splits dest!: arg_cong [where f = set])

lemma same_books_alert: "same_books d (put_alert a d)"
  by (simp add: same_books_def put_alert_def)

lemma alerts_frame [frame_simps]:
  "d_alerts (snd (uuid4 d)) = d_alerts d"
  "d_alerts (snd (create_secure_message now u s b c t d)) = d_alerts d"
  "d_alerts (snd (create_case_action now al ty st k rq rs c' d)) = d_alerts d"
  "d_alerts (put_alert a d) = put_row al_id a (d_alerts d)"
  by (auto simp: uuid4_def create_secure_message_def create_case_action_def put_alert_def frame_simps Let_def
      split: option.split prod.split)

lemma put_row_same:
  "distinct (map key rs) \<Longrightarrow> r0 \<in> set rs \<Longrightarrow> key r = key r0 \<Longrightarrow> f r = f r0 \<Longrightarrow>
   map f (put_row key r rs) = map f rs"
  by (auto simp: put_row_def distinct_map inj_on_def)

lemma length_filter_map: "map P rs = map P rs' \<Longrightarrow> length (filter P rs) = length (filter P rs')"
proof -
  assume "map P rs = map P rs'"
  moreover have "length (filter P xs) = length (filter id (map P xs))" for xs by (simp add: filter_map)
  ultimately show "length (filter P rs) = length (filter P rs')" by metis
qed

section \<open>Properties\<close>

text \<open>An account has at most one open alert; identifiers are unique and fresh.\<close>

definition open_for :: "string \<Rightarrow> fraud_alert \<Rightarrow> bool" where
  "open_for account_id a \<longleftrightarrow> al_credit_account_id a = account_id \<and> al_status a = ''OPEN''"

definition alerts_ok :: "bank_db \<Rightarrow> bool" where
  "alerts_ok d \<longleftrightarrow> distinct (map al_id (d_alerts d)) \<and> inj (d_uuid d)
     \<and> (\<forall>n \<ge> d_draws d. d_uuid d n \<notin> al_id ` set (d_alerts d))
     \<and> (\<forall>i. length (filter (open_for i) (d_alerts d)) \<le> 1)"

lemma open_alert_iff:
  "get_open_alert_for_account i d = None \<longleftrightarrow> filter (open_for i) (d_alerts d) = []"
proof -
  have "open_for i = (\<lambda>a. al_credit_account_id a = i \<and> al_status a = ''OPEN'')"
    by (simp add: open_for_def fun_eq_iff)
  then show ?thesis by (simp add: get_open_alert_for_account_def)
qed

lemma open_alert_Some:
  "get_open_alert_for_account i d = Some a \<Longrightarrow> a \<in> set (d_alerts d) \<and> open_for i a"
  by (auto simp: get_open_alert_for_account_def open_for_def dest!: latest_mem)

lemma append_suspicious_effect:
  assumes ok: "alerts_ok d" and a: "a \<in> set (d_alerts d)"
    and run: "append_suspicious_authorization (al_id a) i item d = (u, d')"
  obtains a' where "u = Some a'" "a' \<in> set (d_alerts d')" "i \<in> set (al_suspicious_authorization_ids a')"
    "al_id a' = al_id a" "al_credit_account_id a' = al_credit_account_id a" "al_status a' = al_status a"
    "set (al_suspicious_authorization_ids a) \<subseteq> set (al_suspicious_authorization_ids a')"
    "alerts_ok d'" "same_books d d'"
proof -
  have dist: "distinct (map al_id (d_alerts d))" using ok by (simp add: alerts_ok_def)
  have g: "get_alert_by_id (al_id a) d = Some a"
    using find_key_distinct [OF dist a] by (simp add: get_alert_by_id_def)
  show thesis
  proof (cases "i \<in> set (al_suspicious_authorization_ids a)")
    case True
    with run g have "u = Some a" "d' = d" by (simp_all add: append_suspicious_authorization_def)
    with True ok a show thesis by (intro that [of a]) simp_all
  next
    case False
    let ?a = "a\<lparr>al_suspicious_authorization_ids := al_suspicious_authorization_ids a @ [i],
               al_suspicious_transactions := al_suspicious_transactions a @ [item]\<rparr>"
    have u: "u = Some ?a" and d': "d' = put_alert ?a d"
      using run g False by (simp_all add: append_suspicious_authorization_def Let_def)
    have mem: "?a \<in> set (d_alerts d')"
      using a by (auto simp: d' put_alert_def put_row_def image_iff intro: bexI [of _ a])
    have ids: "map al_id (d_alerts d') = map al_id (d_alerts d)"
      by (simp add: d' put_alert_def)
    have "length (filter (open_for k) (d_alerts d')) = length (filter (open_for k) (d_alerts d))" for k
      by (rule length_filter_map)
        (use put_row_same [OF dist a, of ?a "open_for k"] in \<open>simp add: d' put_alert_def open_for_def\<close>)
    moreover have "al_id ` set (d_alerts d') = al_id ` set (d_alerts d)"
      using arg_cong [OF ids, of set] by simp
    ultimately have "alerts_ok d'"
      using ok unfolding alerts_ok_def ids by (simp add: d' put_alert_def)
    then show thesis using u mem by (intro that [of ?a]) (auto simp: d' same_books_alert)
  qed
qed

lemma alerts_ok_frame:
  "alerts_ok d \<Longrightarrow> d_alerts d' = d_alerts d \<Longrightarrow> same_books d d' \<Longrightarrow> alerts_ok d'"
  by (auto simp: alerts_ok_def same_books_def)

lemma pair_eqE:
  assumes "(case p of (a, b) \<Rightarrow> f a b) = y"
  obtains a b where "p = (a, b)" "f a b = y"
  using assms by (cases p) auto

lemma open_model_alert_steps:
  assumes "open_model_alert now customer crd account auth dec item d = (outcome, d', saved)"
  obtains a d2 d3 where
      "al_id a = d_uuid d (Suc (d_draws d))" "al_credit_account_id a = ca_id account" "al_status a = ''OPEN''"
      "al_suspicious_authorization_ids a = [ta_id auth]"
      "d2 = d\<lparr>d_draws := Suc (Suc (d_draws d)), d_alerts := d_alerts d @ [a]\<rparr>"
      "ao_fraud_alert_id outcome = al_id a" "ao_created outcome"
      "\<exists>t p e v. d3 = record_audit_event now t p e v d2"
      "\<exists>u s b c t. saved = snd (create_secure_message now u s b c t d3)"
      "\<exists>t p e v. d' = record_audit_event now t p e v saved"
  using assms unfolding open_model_alert_def Let_def
proof (elim pair_eqE, goal_cases)
  case (1 t d1 a d2 m d4)
  from 1(2,3) have a: "al_id a = d_uuid d (Suc (d_draws d))" "al_credit_account_id a = ca_id account"
      "al_status a = ''OPEN''" "al_suspicious_authorization_ids a = [ta_id auth]"
      "d2 = d\<lparr>d_draws := Suc (Suc (d_draws d)), d_alerts := d_alerts d @ [a]\<rparr>"
    by (auto simp: uuid4_def create_alert_def Let_def)
  show ?case
  proof (rule 1(1) [OF a])
    show "ao_fraud_alert_id outcome = al_id a" "ao_created outcome" using 1(5) by auto
    show "\<exists>u s b c t. saved = snd (create_secure_message now u s b c t (audit now ''FRAUD_ALERT_CREATED''
             [(''fraud_alert_id'', PStr (al_id a)), (''correlation_id'', PStr (al_id a)),
              (''customer_id'', PStr (u_id customer)), (''credit_account_id'', PStr (ca_id account)),
              (''card_last_four'', PStr (ic_last_four crd)), (''authorization_ids'', str_list [ta_id auth]),
              (''source'', PStr (al_source a)), (''score'', PInt (dm_score dec)),
              (''reason_codes'', str_list (dm_reason_codes dec))] d2))"
      using 1(4,5) by (metis prod.inject snd_conv)
    show "\<exists>t p e v. d' = record_audit_event now t p e v saved" using 1(5) by auto
  qed blast
qed

text \<open>C38. An account never has two open alerts.  Reporting a flagged authorization returns the one open
  alert of its account, which lists the authorization; a new alert is opened exactly when the account
  had none; money, cards and holds are untouched, also in the state a later rollback returns to.\<close>

theorem one_open_alert:
  assumes "alerts_ok d"
    and "create_or_update_alert_from_model_decision now customer crd account auth dec d d = Inr (outcome, d', saved)"
  shows "alerts_ok d' \<and> same_books d d' \<and> same_books d saved
    \<and> (ao_created outcome \<longleftrightarrow> get_open_alert_for_account (ca_id account) d = None)
    \<and> (\<exists>a. filter (open_for (ca_id account)) (d_alerts d') = [a]
         \<and> al_id a = ao_fraud_alert_id outcome \<and> ta_id auth \<in> set (al_suspicious_authorization_ids a))"
proof -
  obtain item where run: "(case get_open_alert_for_account (ca_id account) d of
            Some existing \<Rightarrow>
              (let (outcome, d') = update_model_alert now customer account auth dec item existing d
               in Inr (outcome, d', d))
          | None \<Rightarrow> Inr (open_model_alert now customer crd account auth dec item d)) = (Inr (outcome, d', saved) :: _ res)"
    using assms(2) unfolding create_or_update_alert_from_model_decision_def Let_def by (elim bindR_E) blast
  have one: "filter (open_for k) (d_alerts x) = [a]"
    if "alerts_ok x" "a \<in> set (d_alerts x)" "open_for k a" for x k a
  proof -
    have "length (filter (open_for k) (d_alerts x)) \<le> 1" using that(1) by (simp add: alerts_ok_def)
    moreover have "a \<in> set (filter (open_for k) (d_alerts x))" using that by simp
    ultimately show ?thesis
      by (cases "filter (open_for k) (d_alerts x)" rule: list.exhaust) auto
  qed
  show ?thesis
  proof (cases "get_open_alert_for_account (ca_id account) d")
    case (Some e)
    note e = open_alert_Some [OF Some]
    obtain u d1 where ap: "append_suspicious_authorization (al_id e) (ta_id auth) item d = (u, d1)" by fastforce
    from e append_suspicious_effect [OF assms(1) _ ap] obtain a where
      a: "u = Some a" "a \<in> set (d_alerts d1)" "ta_id auth \<in> set (al_suspicious_authorization_ids a)"
        "al_id a = al_id e" "al_credit_account_id a = al_credit_account_id e" "al_status a = al_status e"
        "alerts_ok d1" "same_books d d1" by metis
    have outcome: "ao_fraud_alert_id outcome = al_id a" "\<not> ao_created outcome" and saved: "saved = d"
      and d': "\<exists>t p e v. d' = record_audit_event now t p e v d1"
      using run Some ap a(1) by (auto simp: update_model_alert_def)
    have same: "same_books d1 d'" "d_alerts d' = d_alerts d1"
      using d' by (auto simp: same_books_audit frame_simps)
    have ok: "alerts_ok d'" by (rule alerts_ok_frame [OF a(7) same(2,1)])
    have "filter (open_for (ca_id account)) (d_alerts d') = [a]"
      by (rule one [OF ok]) (use a e same in \<open>auto simp: open_for_def\<close>)
    then show ?thesis
      using ok outcome a saved Some same_books_trans [OF a(8) same(1)] by auto
  next
    case None
    have none: "filter (open_for (ca_id account)) (d_alerts d) = []" using None by (simp add: open_alert_iff)
    from run None have new: "open_model_alert now customer crd account auth dec item d = (outcome, d', saved)"
      by simp
    obtain a d2 d3 where
      c: "al_id a = d_uuid d (Suc (d_draws d))" "al_credit_account_id a = ca_id account" "al_status a = ''OPEN''"
        "al_suspicious_authorization_ids a = [ta_id auth]"
      and d2: "d2 = d\<lparr>d_draws := Suc (Suc (d_draws d)), d_alerts := d_alerts d @ [a]\<rparr>"
      and out: "ao_fraud_alert_id outcome = al_id a" "ao_created outcome"
      and d3: "\<exists>t p e v. d3 = record_audit_event now t p e v d2"
      and d4: "\<exists>u s b c t. saved = snd (create_secure_message now u s b c t d3)"
      and d': "\<exists>t p e v. d' = record_audit_event now t p e v saved"
      by (rule open_model_alert_steps [OF new])
    have s2: "same_books d d2" by (simp add: d2 same_books_def)
    have s3: "same_books d2 d3" "d_alerts d3 = d_alerts d2" using d3 by (auto simp: same_books_audit frame_simps)
    have s4: "same_books d3 saved" "d_alerts saved = d_alerts d3" using d4 by (auto simp: same_books_message frame_simps)
    have s5: "same_books saved d'" "d_alerts d' = d_alerts saved" using d' by (auto simp: same_books_audit frame_simps)
    note s24 = same_books_trans [OF same_books_trans [OF s2 s3(1)] s4(1)]
    note s = same_books_trans [OF s24 s5(1)]
    have al: "d_alerts d' = d_alerts d @ [a]" by (simp add: s5 s4 s3 d2)
    have cnt: "length (filter (open_for k) (d_alerts d')) \<le> 1" for k
    proof (cases "k = ca_id account")
      case True
      then show ?thesis using none by (simp add: al)
    next
      case False
      then have "\<not> open_for k a" by (simp add: open_for_def c)
      then show ?thesis using assms(1) by (simp add: al alerts_ok_def)
    qed
    have draws: "Suc (Suc (d_draws d)) \<le> d_draws d'"
      using s3(1) s4(1) s5(1) by (simp add: same_books_def d2)
    have uu: "d_uuid d' = d_uuid d" using s by (simp add: same_books_def)
    have "alerts_ok d'"
      unfolding alerts_ok_def
    proof (intro conjI allI impI)
      show "distinct (map al_id (d_alerts d'))"
        using assms(1) by (auto simp: alerts_ok_def al c)
      show "inj (d_uuid d')" using assms(1) by (simp add: alerts_ok_def uu)
      show "length (filter (open_for i) (d_alerts d')) \<le> 1" for i by (rule cnt)
      show "d_uuid d' n \<notin> al_id ` set (d_alerts d')" if "d_draws d' \<le> n" for n
        using assms(1) that draws by (auto simp: alerts_ok_def al c uu dest: injD)
    qed
    then show ?thesis
      using s s24 out none c None by (simp add: al open_for_def)
  qed
qed

definition sample_hold :: transaction_authorization where
  "sample_hold =
     \<lparr>ta_id = ''H1'', ta_card_id = ''K1'', ta_account_id = ''CR1'', ta_transaction_amount_cents = 4200,
      ta_transaction_currency = ''USD'', ta_billing_amount_cents = 4200, ta_billing_currency = ''USD'',
      ta_status = ''FLAGGED'', ta_decline_reason = ''NONE'', ta_auth_code = ''123456'',
      ta_retrieval_reference_number = ''RRN1'', ta_card_network = ''VISA'',
      ta_merchant_category_code = ''5411'', ta_merchant_name = Some ''ACME'',
      ta_merchant = \<lparr>mc_merchant_id = None, mc_merchant_store_id = None, mc_merchant_slug = None,
        mc_transaction_channel = Some ''CARD_PRESENT'', mc_entry_mode = Some ''CHIP'',
        mc_merchant_country_code = Some ''USA'', mc_merchant_city = None, mc_merchant_region = None,
        mc_merchant_postal_code = None, mc_merchant_latitude = None, mc_merchant_longitude = None,
        mc_ip_country_code = None, mc_shipping_country_code = None, mc_is_digital_goods = False\<rparr>,
      ta_fraud_risk_score = Some 75, ta_created_at = 100, ta_expires_at = 200\<rparr>"

definition sample_verdict :: fraud_model_decision where
  "sample_verdict =
     \<lparr>dm_id = ''D1'', dm_authorization_id = ''H1'', dm_customer_id = ''U1'', dm_credit_account_id = ''CR1'',
      dm_card_id = ''K1'', dm_score = 75, dm_threshold = 20, dm_decision = ''FLAGGED'',
      dm_reason_codes = [''VELOCITY_SPIKE_10M''], dm_feature_snapshot = PDict [], dm_model_version = ''v'',
      dm_created_at = 100\<rparr>"

definition sample_customer :: user where
  "sample_customer = \<lparr>u_id = ''U1'', u_auth_provider_uid = ''uid-1'', u_email = None\<rparr>"

abbreviation sample_alerted :: "(alert_outcome \<times> bank_db \<times> bank_db) res" where
  "sample_alerted \<equiv> create_or_update_alert_from_model_decision 100 sample_customer sample_card
     sample_card_account sample_hold sample_verdict sample_db sample_db"

lemma sample_alerts_ok: "alerts_ok sample_db"
  using sample_uuid_inj by (simp add: alerts_ok_def sample_db_def)

lemma sample_alerted_runs: "\<exists>out d' sv. sample_alerted = Inr (out, d', sv)"
proof -
  have "get_open_alert_for_account (ca_id sample_card_account) sample_db = None"
    by (simp add: get_open_alert_for_account_def sample_db_def)
  moreover have "\<exists>f. authorization_fact sample_hold = Inr f"
    by (simp add: authorization_fact_def authorization_money_facts_def sample_hold_def mk_money_def MAX_MINOR_def
        CURRENCY_EXPONENTS_def)
  ultimately have "\<exists>item. sample_alerted
      = Inr (open_model_alert 100 sample_customer sample_card sample_card_account sample_hold sample_verdict item sample_db)"
    by (auto simp: create_or_update_alert_from_model_decision_def Let_def)
  then show ?thesis by (metis prod_cases3)
qed

theorem one_open_alert_witness:
  "\<exists>out d' sv a. sample_alerted = Inr (out, d', sv) \<and> filter (open_for ''CR1'') (d_alerts d') = [a]
     \<and> ''H1'' \<in> set (al_suspicious_authorization_ids a)"
proof -
  obtain out d' sv where r: "sample_alerted = Inr (out, d', sv)" using sample_alerted_runs by blast
  from one_open_alert [OF sample_alerts_ok r] show ?thesis
    using r by (auto simp: sample_card_account_def sample_hold_def)
qed

text \<open>A review says ready only for a complete and consistent answer: it is about the customer's own
  open alert, every listed item belongs to it, none is both recognized and disputed, the answer is
  ready to propose exactly when every flagged item is covered, and then nothing remains.\<close>

theorem review_is_exact:
  assumes "review_open_alert_selection sha uid alert_id status selection d = Inr r"
  shows "\<exists>a \<in> set (d_alerts d). al_id a = sr_fraud_alert_id r \<and> al_status a = ''OPEN''
    \<and> al_auth_provider_uid a = uid \<and> al_id a = py_strip alert_id
    \<and> (let s = sr_selection r;
           auths = set (as_disputed_authorizations s) \<union> set (as_recognized_authorizations s);
           txs = set (as_disputed_transactions s) \<union> set (as_recognized_transactions s) in
         auths \<subseteq> set (al_suspicious_authorization_ids a) \<and> txs \<subseteq> set (alert_transaction_ids a)
       \<and> set (as_disputed_authorizations s) \<inter> set (as_recognized_authorizations s) = {}
       \<and> set (as_disputed_transactions s) \<inter> set (as_recognized_transactions s) = {}
       \<and> (sr_ready_to_propose r \<longleftrightarrow> auths = set (al_suspicious_authorization_ids a)
                                      \<and> txs = set (alert_transaction_ids a))
       \<and> (sr_ready_to_propose r \<longleftrightarrow> sr_remaining_item_count r = 0)
       \<and> (sr_ready_to_propose r \<longleftrightarrow> sr_selection_status r = ''COMPLETE'')
       \<and> sr_fingerprint r = sha (selection_json (al_id a) (sr_selection_status r) s))"
proof -
  obtain a where a: "get_latest_open_alert_for_customer None (Some uid) d = Some a" "al_id a = py_strip alert_id"
    using assms by (auto simp: review_open_alert_selection_def split: option.splits if_splits)
  then have mem: "a \<in> set (d_alerts d)" "al_status a = ''OPEN''" "al_auth_provider_uid a = uid"
    by (auto simp: get_latest_open_alert_for_customer_def str_or_def split: if_splits dest!: latest_mem)
  let ?s = "normalized_selection selection"
  let ?auths = "set (as_disputed_authorizations ?s) \<union> set (as_recognized_authorizations ?s)"
  let ?txs = "set (as_disputed_transactions ?s) \<union> set (as_recognized_transactions ?s)"
  let ?complete = "?auths = set (al_suspicious_authorization_ids a) \<and> ?txs = set (alert_transaction_ids a)"
  let ?st = "py_upper (py_strip status)"
  let ?st' = "if ?st \<noteq> ''COMPLETE'' \<and> ?complete then ''COMPLETE'' else ?st"
  from assms have g: "set (as_disputed_authorizations ?s) \<inter> set (as_recognized_authorizations ?s) = {}"
      "set (as_disputed_transactions ?s) \<inter> set (as_recognized_transactions ?s) = {}"
      "?auths \<subseteq> set (al_suspicious_authorization_ids a)" "?txs \<subseteq> set (alert_transaction_ids a)"
      "?st = ''COMPLETE'' \<longrightarrow> ?complete"
    and r: "r = \<lparr>sr_fraud_alert_id = al_id a, sr_selection_status = ?st', sr_selection = ?s,
                 sr_fingerprint = sha (selection_json (al_id a) ?st' ?s),
                 sr_ready_to_propose = (?st' = ''COMPLETE''),
                 sr_remaining_item_count =
                   length (filter (\<lambda>x. x \<notin> ?auths) (remdups (al_suspicious_authorization_ids a)))
                   + length (filter (\<lambda>t. t \<notin> ?txs) (remdups (alert_transaction_ids a)))\<rparr>"
    unfolding review_open_alert_selection_def a(1) option.case Let_def by - (elim if_Inl_E, blast)+
  have ready: "sr_ready_to_propose r \<longleftrightarrow> ?complete" using g(5) by (auto simp: r)
  have "sr_remaining_item_count r = 0 \<longleftrightarrow>
      set (al_suspicious_authorization_ids a) \<subseteq> ?auths \<and> set (alert_transaction_ids a) \<subseteq> ?txs"
    by (auto simp: r filter_empty_conv)
  then have zero: "sr_remaining_item_count r = 0 \<longleftrightarrow> ?complete" using g(3,4) by blast
  have sel: "sr_selection r = ?s" "sr_fraud_alert_id r = al_id a"
    "sr_fingerprint r = sha (selection_json (al_id a) (sr_selection_status r) ?s)"
    "sr_ready_to_propose r \<longleftrightarrow> sr_selection_status r = ''COMPLETE''" by (simp_all add: r)
  show ?thesis
    by (rule bexI [OF _ mem(1)], unfold Let_def sel(1,2,3), intro conjI)
      (use mem a g ready zero sel in blast)+
qed

definition sample_alert :: fraud_alert where
  "sample_alert =
     \<lparr>al_id = ''A1'', al_customer_id = ''U1'', al_auth_provider_uid = ''uid-1'', al_credit_account_id = ''CR1'',
      al_card_id = ''K1'', al_card_last_four = ''4242'', al_status = ''OPEN'', al_source = ''MODEL_DETECTED_FRAUD'',
      al_message_thread_id = ''T1'', al_suspicious_authorization_ids = [''H1''],
      al_suspicious_transactions = [PDict [(''authorization_id'', PStr ''H1'')]],
      al_remediation_status = ''NOT_STARTED'', al_triaged_at = None, al_triage_summary = None,
      al_selected_disputed_authorization_ids = [], al_selected_disputed_transaction_ids = [],
      al_provisional_credit_cents = 0, al_replacement_card_id = None, al_triage_message_thread_id = None,
      al_triage_message_id = None, al_created_at = 100, al_resolved_at = None\<rparr>"

definition sample_alert_db :: bank_db where
  "sample_alert_db = sample_db\<lparr>d_alerts := [sample_alert], d_auths := [sample_hold]\<rparr>"

definition sample_selection :: alert_selection where
  "sample_selection = \<lparr>as_disputed_authorizations = ['' H1 ''], as_disputed_transactions = [],
     as_recognized_authorizations = [], as_recognized_transactions = []\<rparr>"

theorem review_is_exact_witness:
  "\<exists>r. review_open_alert_selection (\<lambda>_. ''h'') ''uid-1'' ''A1'' ''complete'' sample_selection sample_alert_db = Inr r
     \<and> sr_remaining_item_count r = 0"
proof -
  have "case review_open_alert_selection (\<lambda>_. ''h'') ''uid-1'' ''A1'' ''complete'' sample_selection sample_alert_db of
      Inl e \<Rightarrow> False | Inr r \<Rightarrow> sr_ready_to_propose r" by code_simp
  then obtain r where r: "review_open_alert_selection (\<lambda>_. ''h'') ''uid-1'' ''A1'' ''complete'' sample_selection sample_alert_db = Inr r"
    "sr_ready_to_propose r" by (auto split: sum.splits)
  with review_is_exact [OF r(1)] show ?thesis by (auto simp: Let_def)
qed

text \<open>What expiring does to one alert.\<close>

definition expired_alert :: "int \<Rightarrow> sweep \<Rightarrow> fraud_alert \<Rightarrow> fraud_alert" where
  "expired_alert now s a =
     a\<lparr>al_status := ''EXPIRED_NO_CUSTOMER_RESPONSE'', al_remediation_status := ''NO_CUSTOMER_RESPONSE'',
       al_triaged_at := Some now, al_resolved_at := Some now,
       al_triage_summary := Some (''Customer did not respond to the fraud alert within the ''
          @ show_int (sw_max_age_minutes s) @ ''-minute demo lifecycle window.'')\<rparr>"

lemma expire_alert_effect:
  assumes dist: "distinct (map al_id (d_alerts d))"
  shows "d_alerts (expire_alert now s alert d)
      = map (\<lambda>x. if al_id x = al_id alert then expired_alert now s x else x) (d_alerts d)"
    "same_books d (expire_alert now s alert d)"
proof -
  obtain a d1 where c: "create_case_action now (al_id alert) ''FRAUD_ALERT_RESPONSE_TIMEOUT'' ''SUCCEEDED''
            (Some (''fraud-alert-timeout:'' @ al_id alert @ '':'' @ show_int (sw_max_age_minutes s) @ ''m''))
            (PDict [(''max_age_minutes'', PInt (sw_max_age_minutes s)), (''cutoff'', PTime (sweep_cutoff now s)),
                    (''sources'', str_list (sweep_sources s))])
            (PDict [(''status'', PStr ''EXPIRED_NO_CUSTOMER_RESPONSE''),
                    (''remediation_status'', PStr ''NO_CUSTOMER_RESPONSE'')]) (Some now) d = (a, d1)"
    by fastforce
  have d1: "d_alerts d1 = d_alerts d" "same_books d d1"
    using alerts_frame(3) [of now "al_id alert" _ _ _ _ _ _ d] same_books_case_action(1) [of d now "al_id alert"] c
    by (metis snd_conv)+
  obtain e d2 where x: "expire_no_response now (al_id alert) ''EXPIRED_NO_CUSTOMER_RESPONSE''
            ''NO_CUSTOMER_RESPONSE''
            (Some (''Customer did not respond to the fraud alert within the '' @ show_int (sw_max_age_minutes s) @
                   ''-minute demo lifecycle window.'')) d1 = (e, d2)" by fastforce
  have d2: "d_alerts d2 = map (\<lambda>x. if al_id x = al_id alert then expired_alert now s x else x) (d_alerts d)
      \<and> same_books d1 d2"
  proof (cases "get_alert_by_id (al_id alert) d1")
    case None
    then have "\<forall>x \<in> set (d_alerts d). al_id x \<noteq> al_id alert"
      by (simp add: get_alert_by_id_def find_None_iff' d1)
    then have "map (\<lambda>x. if al_id x = al_id alert then expired_alert now s x else x) (d_alerts d) = d_alerts d"
      by (intro map_idI) simp
    with None x d1 show ?thesis by (simp add: expire_no_response_def)
  next
    case (Some b)
    then have b: "b \<in> set (d_alerts d)" "al_id b = al_id alert"
      by (auto simp: get_alert_by_id_def d1 dest: find_Some_iff')
    have uniq: "x = b" if "x \<in> set (d_alerts d)" "al_id x = al_id alert" for x
      using dist b that by (auto simp: distinct_map inj_on_def)
    have d2: "d2 = put_alert (expired_alert now s b) d1"
      using x Some by (simp add: expire_no_response_def expired_alert_def Let_def)
    have "al_id (expired_alert now s b) = al_id alert" by (simp add: expired_alert_def b)
    then have "d_alerts d2 = map (\<lambda>x. if al_id x = al_id alert then expired_alert now s x else x) (d_alerts d)"
      unfolding d2 using uniq by (auto simp: put_alert_def put_row_def d1)
    then show ?thesis by (simp add: d2 same_books_alert)
  qed
  have "\<exists>t p e' v. expire_alert now s alert d = record_audit_event now t p e' v d2"
    unfolding expire_alert_def Let_def c prod.case x by blast
  then show "d_alerts (expire_alert now s alert d)
      = map (\<lambda>x. if al_id x = al_id alert then expired_alert now s x else x) (d_alerts d)"
    "same_books d (expire_alert now s alert d)"
    using d2 same_books_trans [OF same_books_trans [OF d1(2) conjunct2 [OF d2]] same_books_audit]
    by (auto simp: frame_simps)
qed

lemma expire_fold_effect:
  assumes "distinct (map al_id (d_alerts d))"
  shows "d_alerts (fold (expire_alert now s) as d)
      = map (\<lambda>x. if al_id x \<in> al_id ` set as then expired_alert now s x else x) (d_alerts d)
    \<and> same_books d (fold (expire_alert now s) as d)"
  using assms
proof (induction as arbitrary: d)
  case (Cons a as)
  note e = expire_alert_effect [OF Cons.prems, of now s a]
  have ids: "al_id (expired_alert now s x) = al_id x" for x by (simp add: expired_alert_def)
  have "map al_id (d_alerts (expire_alert now s a d)) = map al_id (d_alerts d)"
    by (simp add: e(1) ids)
  then have dist: "distinct (map al_id (d_alerts (expire_alert now s a d)))" using Cons.prems by simp
  have twice: "expired_alert now s (expired_alert now s x) = expired_alert now s x" for x
    by (simp add: expired_alert_def)
  show ?case
    using Cons.IH [OF dist] same_books_trans [OF e(2)] by (simp add: e(1) ids twice)
qed simp

definition stale :: "int \<Rightarrow> sweep \<Rightarrow> fraud_alert \<Rightarrow> bool" where
  "stale now s a \<longleftrightarrow> al_status a = ''OPEN'' \<and> al_created_at a \<le> sweep_cutoff now s
     \<and> al_source a \<in> set (sweep_sources s)"

lemma sweep_list:
  "set (list_open_alerts_for_lifecycle_sweep (sweep_cutoff now s) (sweep_sources s) n d)
     \<subseteq> {a \<in> set (d_alerts d). stale now s a}"
  by (auto simp: list_open_alerts_for_lifecycle_sweep_def stale_def dest: in_set_takeD)

text \<open>C39. The sweep makes progress and only expires what it should: with a positive limit, each run
  reduces the number of stale open alerts by the number of alerts it reports, until none is left;
  every other alert, and all money, is untouched; a dry run changes nothing.\<close>

theorem sweep_makes_progress:
  assumes "distinct (map al_id (d_alerts d))"
  shows "let (report, d') = expire_stale_open_alerts now s d;
             left = (\<lambda>x. filter (stale now s) (d_alerts x)) in
      length (sp_matched report) = min (sw_limit s) (length (left d))
    \<and> (sw_dry_run s \<longrightarrow> d' = d \<and> sp_expired_count report = 0)
    \<and> (\<not> sw_dry_run s \<longrightarrow>
          length (left d') + sp_expired_count report = length (left d)
        \<and> sp_expired_count report = length (sp_matched report)
        \<and> same_books d d'
        \<and> filter (\<lambda>a. \<not> stale now s a \<and> al_id a \<notin> al_id ` set (left d)) (d_alerts d') = filter (\<lambda>a. \<not> stale now s a) (d_alerts d))"
proof -
  let ?L = "list_open_alerts_for_lifecycle_sweep (sweep_cutoff now s) (sweep_sources s) (sw_limit s) d"
  let ?left = "\<lambda>x. filter (stale now s) (d_alerts x)"
  have st: "stale now s = (\<lambda>a. al_status a = ''OPEN'' \<and> al_created_at a \<le> sweep_cutoff now s
     \<and> al_source a \<in> set (sweep_sources s))" by (simp add: stale_def fun_eq_iff)
  have L: "?L = take (sw_limit s) (sort_key al_created_at (?left d))"
    by (simp add: list_open_alerts_for_lifecycle_sweep_def st)
  have len: "length ?L = min (sw_limit s) (length (?left d))" by (simp add: L min.commute)
  have sub: "set ?L \<subseteq> {a \<in> set (d_alerts d). stale now s a}" by (rule sweep_list)
  have dl: "distinct ?L"
    using assms by (simp add: L distinct_map)
  let ?d = "fold (expire_alert now s) ?L d"
  note e = conjunct1 [OF expire_fold_effect [OF assms, of now s ?L]]
    conjunct2 [OF expire_fold_effect [OF assms, of now s ?L]]
  have closed: "\<not> stale now s (expired_alert now s x)" for x by (simp add: stale_def expired_alert_def)
  have inj: "al_id x \<in> al_id ` set ?L \<longleftrightarrow> x \<in> set ?L" if "x \<in> set (d_alerts d)" for x
    using assms sub that by (auto simp: distinct_map inj_on_def)
  have al: "d_alerts ?d = map (\<lambda>x. if x \<in> set ?L then expired_alert now s x else x) (d_alerts d)"
    unfolding e(1) using inj by simp
  have left': "?left ?d = filter (\<lambda>x. x \<notin> set ?L) (?left d)"
  proof -
    have "filter (stale now s) (map (\<lambda>x. if x \<in> A then expired_alert now s x else x) xs)
        = filter (\<lambda>x. x \<notin> A) (filter (stale now s) xs)" for xs A
      by (induction xs) (simp_all add: closed)
    then show ?thesis unfolding al .
  qed
  have "length (filter (\<lambda>x. x \<in> set ?L) (?left d)) = length ?L"
  proof -
    have "distinct (filter (\<lambda>x. x \<in> set ?L) (?left d))" using assms by (simp add: distinct_map)
    moreover have "set (filter (\<lambda>x. x \<in> set ?L) (?left d)) = set ?L" using sub by auto
    ultimately show ?thesis using dl by (metis distinct_card)
  qed
  moreover have "length (filter (\<lambda>x. x \<in> set ?L) (?left d)) + length (filter (\<lambda>x. x \<notin> set ?L) (?left d)) = length (?left d)"
    by (rule sum_length_filter_compl)
  ultimately have count: "length (?left ?d) + length ?L = length (?left d)" unfolding left' by simp
  have ids: "al_id (expired_alert now s x) = al_id x" for x by (simp add: expired_alert_def)
  have other: "filter (\<lambda>a. \<not> stale now s a \<and> al_id a \<notin> al_id ` set (?left d)) (d_alerts ?d)
      = filter (\<lambda>a. \<not> stale now s a) (d_alerts d)"
  proof -
    have g: "filter (\<lambda>a. \<not> stale now s a \<and> al_id a \<notin> al_id ` set (?left d))
           (map (\<lambda>x. if x \<in> set ?L then expired_alert now s x else x) xs)
        = filter (\<lambda>a. \<not> stale now s a) xs" if "set xs \<subseteq> set (d_alerts d)" for xs
      using that
    proof (induction xs)
      case (Cons x xs)
      then have x: "x \<in> set (d_alerts d)" by simp
      have "x \<in> set ?L \<Longrightarrow> al_id x \<in> al_id ` set (?left d)" using sub by auto
      moreover have "\<not> stale now s x \<Longrightarrow> al_id x \<notin> al_id ` set (?left d)"
        using assms x by (auto simp: distinct_map inj_on_def)
      moreover have "\<not> stale now s x \<Longrightarrow> x \<notin> set ?L" using sub by auto
      ultimately show ?case using Cons by (auto simp: ids)
    qed simp
    show ?thesis unfolding al by (rule g) simp
  qed
  show ?thesis
    using len count e(2) other by (simp add: expire_stale_open_alerts_def Let_def)
qed

theorem sweep_makes_progress_witness:
  "let s = \<lparr>sw_max_age_minutes = 30, sw_limit = 100, sw_sources = [], sw_dry_run = False\<rparr> in
     filter (stale 9000000000 s) (d_alerts (snd (expire_stale_open_alerts 9000000000 s sample_alert_db))) = []"
proof -
  let ?s = "\<lparr>sw_max_age_minutes = 30, sw_limit = 100, sw_sources = [], sw_dry_run = False\<rparr>"
  have "distinct (map al_id (d_alerts sample_alert_db))" by (simp add: sample_alert_db_def)
  from sweep_makes_progress [OF this, of 9000000000 ?s]
  have "length (filter (stale 9000000000 ?s) (d_alerts (snd (expire_stale_open_alerts 9000000000 ?s sample_alert_db))))
      + min 100 (length (filter (stale 9000000000 ?s) (d_alerts sample_alert_db)))
      = length (filter (stale 9000000000 ?s) (d_alerts sample_alert_db))"
    by (auto simp: Let_def split: prod.splits)
  moreover have "length (filter (stale 9000000000 ?s) (d_alerts sample_alert_db)) \<le> 100"
    by (simp add: sample_alert_db_def)
  ultimately show ?thesis by (simp add: Let_def)
qed

end
