(* ===== verification/Card_Posting.thy ===== *)
theory Card_Posting
  imports Card_Repository
begin

text \<open>
  The journal step that card settlement (\<^verbatim>\<open>services/card_network.py\<close>), fee reversal and provisional
  fraud credit (\<^verbatim>\<open>services/credit_card.py\<close>) share: the card's journal mirror and a system clearing
  account are ensured, then one balanced two-line transaction is posted between them.  A charge
  debits the receivable, a credit credits it.
\<close>

section \<open>The step\<close>

record card_posting =
  kp_clearing :: string
  kp_clearing_description :: string
  kp_key :: string
  kp_description :: string
  kp_source_type :: string
  kp_references :: "(string \<times> pyval) list"
  kp_currency :: string
  kp_posted_at :: int
  kp_amount_minor :: int
  kp_charge :: bool

definition card_posting_request :: "card_posting \<Rightarrow> credit_account \<Rightarrow> string \<Rightarrow> string \<Rightarrow> money \<Rightarrow> posting_request" where
  "card_posting_request k c receivable clearing m =
     \<lparr>pr_idempotency_key = kp_key k, pr_description = kp_description k,
      pr_entries = (if kp_charge k then two_lines receivable clearing m else two_lines clearing receivable m),
      pr_source_type = kp_source_type k, pr_currency = kp_currency k,
      pr_source_references = kp_references k, pr_user_id = Some (ca_customer_id c),
      pr_posted_at = Some (kp_posted_at k)\<rparr>"

definition post_card_journal ::
    "int \<Rightarrow> card_posting \<Rightarrow> credit_account \<Rightarrow> bank_db \<Rightarrow> (account \<times> journal_posting \<times> bank_db) res" where
  "post_card_journal now k c d =
     bindR (ensure_credit_journal_account c d) (\<lambda>(journal_account, d1).
     bindR (ensure_system_journal_account (kp_clearing k) (kp_clearing_description k) (ca_currency c) d1)
       (\<lambda>(clearing_account, d2).
     bindR (mk_money (kp_amount_minor k) (kp_currency k)) (\<lambda>m.
     bindR (post_financial_transaction now
              (card_posting_request k c (ac_id journal_account) (ac_id clearing_account) m) d2) (\<lambda>(posting, d3).
       Inr (journal_account, posting, d3)))))"

text \<open>Mirrors carry numbers of their own, so a clearing account is never one of them.\<close>

definition CARD_PREFIX :: string where
  "CARD_PREFIX = ''CARD-''"

definition mirror_numbers_ok :: "bank_db \<Rightarrow> bool" where
  "mirror_numbers_ok d \<longleftrightarrow> (\<forall>a \<in> set (d_accounts d).
     ac_credit_account_id a \<noteq> None \<longrightarrow> take 5 (ac_account_number a) = CARD_PREFIX)"

lemma ensure_credit_numbers:
  assumes "mirror_numbers_ok d" "ensure_credit_journal_account c d = Inr (j, d')"
  shows "mirror_numbers_ok d'"
proof (cases "List.find (\<lambda>a. ac_credit_account_id a = Some (ca_id c)) (d_accounts d)")
  case None
  with assms show ?thesis
    by (auto simp: ensure_credit_journal_account_def mirror_numbers_ok_def add_account_def uuid4_def Let_def CARD_PREFIX_def)
next
  case (Some a)
  note a = find_Some_iff' [OF Some]
  have d': "d' = put_account (sync_mirror c a) d"
    using assms(2) Some by (auto simp: ensure_credit_journal_account_def split: if_splits)
  have n: "take 5 (ac_account_number (sync_mirror c a)) = CARD_PREFIX"
    using assms(1) a by (auto simp: mirror_numbers_ok_def sync_mirror_def)
  show ?thesis
    unfolding mirror_numbers_ok_def
  proof (intro ballI impI)
    fix b assume "b \<in> set (d_accounts d')" "ac_credit_account_id b \<noteq> None"
    then show "take 5 (ac_account_number b) = CARD_PREFIX"
      using n assms(1) subsetD [OF set_put_row, of b ac_id "sync_mirror c a" "d_accounts d"]
      by (auto simp: d' put_account_def mirror_numbers_ok_def)
  qed
qed

lemma system_number_prefix:
  "take 5 n \<noteq> CARD_PREFIX \<Longrightarrow> 5 \<le> length n \<Longrightarrow> take 5 (system_account_number n c) \<noteq> CARD_PREFIX"
  by (simp add: system_account_number_def)

lemma ensure_system_plain:
  assumes nums: "mirror_numbers_ok d" and n: "take 5 n \<noteq> CARD_PREFIX" "5 \<le> length n"
    and e: "ensure_system_journal_account n desc c d = Inr (a, d')"
  shows "ac_credit_account_id a = None" "mirror_numbers_ok d'" "d_auths d' = d_auths d" "d_posted d' = d_posted d"
    "d_cards d' = d_cards d" "d_case_actions d' = d_case_actions d" "d_uuid d' = d_uuid d" "d_alerts d' = d_alerts d"
proof -
  have "ac_credit_account_id a = None \<and> mirror_numbers_ok d' \<and> d_auths d' = d_auths d \<and> d_posted d' = d_posted d
     \<and> d_cards d' = d_cards d \<and> d_case_actions d' = d_case_actions d \<and> d_uuid d' = d_uuid d \<and> d_alerts d' = d_alerts d"
  proof (cases "List.find (\<lambda>a. ac_account_number a = system_account_number n c) (d_accounts d)")
    case None
    with e nums show ?thesis
      by (auto simp: ensure_system_journal_account_def mirror_numbers_ok_def add_account_def uuid4_def Let_def)
  next
    case (Some x)
    with e have "x = a" "d' = d" by (auto simp: ensure_system_journal_account_def Let_def split: if_splits)
    with find_Some_iff' [OF Some] system_number_prefix [OF n] nums show ?thesis
      by (auto simp: mirror_numbers_ok_def)
  qed
  then show "ac_credit_account_id a = None" "mirror_numbers_ok d'" "d_auths d' = d_auths d" "d_posted d' = d_posted d"
    "d_cards d' = d_cards d" "d_case_actions d' = d_case_actions d" "d_uuid d' = d_uuid d" "d_alerts d' = d_alerts d"
    by blast+
qed

lemma ensure_credit_alerts:
  "ensure_credit_journal_account c d = Inr (j, d') \<Longrightarrow> d_alerts d' = d_alerts d"
  by (auto simp: ensure_credit_journal_account_def put_account_def add_account_def uuid4_def Let_def
      split: option.splits if_splits)

lemma append_posting_more:
  assumes "append_posting now r ns d = Inr (p, d')"
  shows "d_alerts d' = d_alerts d"
  using assms by (auto simp: append_posting_def uuid4_def uuid4s_eq Let_def record_audit_event_def split: if_splits)

section \<open>Its effect\<close>

text \<open>What the three services rely on.\<close>

lemma post_card_journal_steps:
  assumes "post_card_journal now k c d = Inr (j, p, d')"
  obtains d1 s d2 m where "ensure_credit_journal_account c d = Inr (j, d1)"
    "ensure_system_journal_account (kp_clearing k) (kp_clearing_description k) (ca_currency c) d1 = Inr (s, d2)"
    "mk_money (kp_amount_minor k) (kp_currency k) = Inr m"
    "post_financial_transaction now (card_posting_request k c (ac_id j) (ac_id s) m) d2 = Inr (p, d')"
  using assms unfolding post_card_journal_def
proof (elim bindR_pairE bindR_E, goal_cases)
  case (1 ja d1 s d2 m pa d3)
  from 1(6) have eq: "ja = j" "pa = p" "d3 = d'" by simp_all
  show ?case by (rule 1(1) [OF 1(2) [unfolded eq] 1(3) 1(4) 1(5) [unfolded eq]])
qed

lemma post_card_journal_effect:
  assumes ok: "books_ok d" and nums: "mirror_numbers_ok d"
    and c: "get_credit_account (ca_id c) d = Some c"
    and sys: "take 5 (kp_clearing k) \<noteq> CARD_PREFIX" "5 \<le> length (kp_clearing k)"
    and new: "List.find (\<lambda>t. tx_idempotency_key t = kp_key k) (d_transactions d) = None"
    and run: "post_card_journal now k c d = Inr (j, p, d')"
  shows "books_ok d'" "mirror_numbers_ok d'" "get_account (ac_id j) d' = Some j" "ac_credit_account_id j = Some (ca_id c)"
    "d_credit_accounts d' = d_credit_accounts d" "d_auths d' = d_auths d" "d_posted d' = d_posted d"
    "d_cards d' = d_cards d" "d_case_actions d' = d_case_actions d" "d_alerts d' = d_alerts d"
    "0 < kp_amount_minor k" "ca_currency c = kp_currency k"
    "d_transactions d' = d_transactions d @ [jp_transaction p]" "tx_idempotency_key (jp_transaction p) = kp_key k"
    "position (ac_id j) (d_entries d') = position (ac_id j) (d_entries d)
       + (if kp_charge k then - kp_amount_minor k else kp_amount_minor k)"
    "\<And>i b. get_account i d = Some b \<Longrightarrow> i \<noteq> ac_id j \<Longrightarrow> get_account i d' = Some b"
    "tx_id (jp_transaction p) \<notin> tx_id ` set (d_transactions d)"
proof -
  obtain d1 s d2 m where e: "ensure_credit_journal_account c d = Inr (j, d1)"
    and s: "ensure_system_journal_account (kp_clearing k) (kp_clearing_description k) (ca_currency c) d1 = Inr (s, d2)"
    and m: "mk_money (kp_amount_minor k) (kp_currency k) = Inr m"
    and p: "post_financial_transaction now (card_posting_request k c (ac_id j) (ac_id s) m) d2 = Inr (p, d')"
    by (rule post_card_journal_steps [OF run])
  note ef = ensure_credit_facts [OF ok c e] note ef2 = ensure_credit_frame [OF e]
  note sf = ensure_system_facts [OF ef(1) s]
  note sp = ensure_system_plain [OF ensure_credit_numbers [OF nums e] sys s]
  let ?r = "card_posting_request k c (ac_id j) (ac_id s) m"
  have j2: "get_account (ac_id j) d2 = Some j" by (rule sf(7) [OF ef(2)])
  have neq: "ac_id s \<noteq> ac_id j"
  proof
    assume eq: "ac_id s = ac_id j"
    have "Some s = Some j" using sf(2) [unfolded eq] j2 by (rule trans [OF sym])
    then show False using sp(1) ef(4) by simp
  qed
  have txs: "d_transactions d2 = d_transactions d" by (simp add: sf ef)
  have new2: "List.find (\<lambda>t. tx_idempotency_key t = pr_idempotency_key ?r) (d_transactions d2) = None"
    using new by (simp add: card_posting_request_def txs)
  define a where "a = (if kp_charge k then ac_id j else ac_id s)"
  define b where "b = (if kp_charge k then ac_id s else ac_id j)"
  have lines: "pr_entries ?r = two_lines a b m" by (simp add: card_posting_request_def a_def b_def)
  note pe = post_two_lines_effect [OF p lines new2] note ap = append_posting_effect [OF pe(1)]
  have mm: "amount_minor m = kp_amount_minor k" "currency_code m = kp_currency k" using mk_money_InrD [OF m] by simp_all
  have ok': "books_ok d'" by (rule books_post [OF sf(1) p])
  then show "books_ok d'" .
  have accs: "d_accounts d' = d_accounts d2" by (rule ap(5))
  have g: "get_account i d' = get_account i d2" for i by (simp add: get_account_def accs)
  show "mirror_numbers_ok d'" using sp(2) by (simp add: mirror_numbers_ok_def accs)
  show "get_account (ac_id j) d' = Some j" by (simp add: g j2)
  show "ac_credit_account_id j = Some (ca_id c)" by (rule ef(4))
  show "d_credit_accounts d' = d_credit_accounts d" by (simp add: ap sf ef)
  show "d_auths d' = d_auths d" "d_posted d' = d_posted d" "d_cards d' = d_cards d"
    "d_case_actions d' = d_case_actions d" by (simp_all add: ap sp ef2)
  show "d_alerts d' = d_alerts d"
    by (simp add: append_posting_more [OF pe(1)] sp ensure_credit_alerts [OF e])
  show "0 < kp_amount_minor k" using pe(3) mm by simp
  have tx: "jp_transaction p = new_transaction ?r d2" by (rule ap(1))
  show "tx_idempotency_key (jp_transaction p) = kp_key k"
    by (simp add: tx new_transaction_def card_posting_request_def)
  show add: "d_transactions d' = d_transactions d @ [jp_transaction p]" by (simp add: ap txs)
  show "tx_id (jp_transaction p) \<notin> tx_id ` set (d_transactions d)"
    using books_distinct(3) [OF ok'] by (simp add: add)
  show "position (ac_id j) (d_entries d') = position (ac_id j) (d_entries d)
       + (if kp_charge k then - kp_amount_minor k else kp_amount_minor k)"
    using neq by (simp add: pe(4) sf ef mm a_def b_def)
  show "\<And>i b. get_account i d = Some b \<Longrightarrow> i \<noteq> ac_id j \<Longrightarrow> get_account i d' = Some b"
    using ef(10) sf(7) by (simp add: g)
  have "ac_currency j = pr_currency ?r"
    by (rule ap(14) [of j]) (use get_account_id [OF j2] in \<open>auto simp: two_lines_def a_def b_def\<close>)
  then show "ca_currency c = kp_currency k" using ef(3) by (simp add: card_posting_request_def)
qed

text \<open>Also when the key was used before and the first posting is returned, the books stay in order.\<close>

lemma post_frame:
  assumes "post_financial_transaction now r d = Inr (p, d')"
  shows "d_accounts d' = d_accounts d" "d_credit_accounts d' = d_credit_accounts d" "d_auths d' = d_auths d"
    "d_posted d' = d_posted d" "d_cards d' = d_cards d" "d_uuid d' = d_uuid d" "d_draws d \<le> d_draws d'"
proof -
  have "d_accounts d' = d_accounts d \<and> d_credit_accounts d' = d_credit_accounts d \<and> d_auths d' = d_auths d
    \<and> d_posted d' = d_posted d \<and> d_cards d' = d_cards d \<and> d_uuid d' = d_uuid d \<and> d_draws d \<le> d_draws d'"
    using assms
  proof (cases rule: post_cases)
    case (append ns)
    note ap = append_posting_effect [OF append(5)]
    show ?thesis using less_imp_le [OF ap(12)] by (simp add: ap)
  qed simp
  then show "d_accounts d' = d_accounts d" "d_credit_accounts d' = d_credit_accounts d" "d_auths d' = d_auths d"
    "d_posted d' = d_posted d" "d_cards d' = d_cards d" "d_uuid d' = d_uuid d" "d_draws d \<le> d_draws d'" by blast+
qed

lemma ensure_credit_draws: "ensure_credit_journal_account c d = Inr (j, d') \<Longrightarrow> d_draws d \<le> d_draws d'"
  by (auto simp: ensure_credit_journal_account_def put_account_def add_account_def uuid4_def Let_def
      split: option.splits if_splits)

lemma ensure_system_draws:
  "ensure_system_journal_account n desc c d = Inr (a, d') \<Longrightarrow> d_draws d \<le> d_draws d' \<and> d_uuid d' = d_uuid d
     \<and> d_auths d' = d_auths d \<and> d_posted d' = d_posted d \<and> d_cards d' = d_cards d"
  by (auto simp: ensure_system_journal_account_def add_account_def uuid4_def Let_def split: option.splits if_splits)

lemma post_card_journal_frame:
  assumes "post_card_journal now k c d = Inr (j, p, d')"
  shows "d_auths d' = d_auths d" "d_posted d' = d_posted d" "d_cards d' = d_cards d" "d_uuid d' = d_uuid d"
    "d_draws d \<le> d_draws d'"
  using post_card_journal_steps [OF assms] ensure_credit_frame ensure_credit_draws ensure_system_draws post_frame
  by (metis order_trans)+

lemma post_card_journal_books:
  assumes ok: "books_ok d" and c: "get_credit_account (ca_id c) d = Some c"
    and run: "post_card_journal now k c d = Inr (j, p, d')"
  shows "books_ok d'" "get_account (ac_id j) d' = Some j" "d_credit_accounts d' = d_credit_accounts d"
proof -
  obtain d1 s d2 m where e: "ensure_credit_journal_account c d = Inr (j, d1)"
    and s: "ensure_system_journal_account (kp_clearing k) (kp_clearing_description k) (ca_currency c) d1 = Inr (s, d2)"
    and p: "post_financial_transaction now (card_posting_request k c (ac_id j) (ac_id s) m) d2 = Inr (p, d')"
    by (rule post_card_journal_steps [OF run])
  note ef = ensure_credit_facts [OF ok c e] note sf = ensure_system_facts [OF ef(1) s] note pf = post_frame [OF p]
  show "books_ok d'" by (rule books_post [OF sf(1) p])
  show "get_account (ac_id j) d' = Some j" using sf(7) [OF ef(2)] by (simp add: get_account_def pf)
  show "d_credit_accounts d' = d_credit_accounts d" by (simp add: pf sf ef)
qed

text \<open>Moving the debt of the card account and bringing its mirror level with it.\<close>

definition level_mirror :: "credit_account \<Rightarrow> account \<Rightarrow> account" where
  "level_mirror c a = a\<lparr>ac_cleared_balance_cents := ca_cleared_balance_cents c,
                        ac_available_credit_cents := ca_available_credit_cents c\<rparr>"

lemma level_mirror_simps [simp]:
  "ac_id (level_mirror c a) = ac_id a" "ac_credit_account_id (level_mirror c a) = ac_credit_account_id a"
  "ac_currency (level_mirror c a) = ac_currency a" "ac_account_number (level_mirror c a) = ac_account_number a"
  "ac_cleared_balance_cents (level_mirror c a) = ca_cleared_balance_cents c"
  "ac_available_credit_cents (level_mirror c a) = ca_available_credit_cents c"
  by (simp_all add: level_mirror_def)

lemma move_debt_effect:
  assumes ok: "books_ok d" and c: "get_credit_account (ca_id c) d = Some c0"
    and same: "ca_id c0 = ca_id c" "ca_currency c0 = ca_currency c" and j: "get_account (ac_id j) d = Some j"
  shows "books_ok (update_account (level_mirror c) (ac_id j) (put_credit_account c d))"
    "get_credit_account (ca_id c) (update_account (level_mirror c) (ac_id j) (put_credit_account c d)) = Some c"
    "get_account i (update_account (level_mirror c) (ac_id j) (put_credit_account c d))
       = (if i = ac_id j then Some (level_mirror c j) else get_account i d)"
    "d_entries (update_account (level_mirror c) (ac_id j) (put_credit_account c d)) = d_entries d"
    "d_transactions (update_account (level_mirror c) (ac_id j) (put_credit_account c d)) = d_transactions d"
    "d_auths (update_account (level_mirror c) (ac_id j) (put_credit_account c d)) = d_auths d"
    "d_posted (update_account (level_mirror c) (ac_id j) (put_credit_account c d)) = d_posted d"
proof -
  let ?d = "put_credit_account c d"
  have "books_ok ?d" by (rule books_put_credit_account [OF ok c]) (simp add: same)
  then show "books_ok (update_account (level_mirror c) (ac_id j) ?d)"
    by (rule update_account_books) (simp_all add: level_mirror_def)
  have "get_credit_account (ca_id c) ?d = Some c" using c by (simp add: get_put_credit_account)
  then show "get_credit_account (ca_id c) (update_account (level_mirror c) (ac_id j) ?d) = Some c"
    by (simp add: get_credit_account_def frame_simps)
  show "get_account i (update_account (level_mirror c) (ac_id j) ?d)
       = (if i = ac_id j then Some (level_mirror c j) else get_account i d)"
    by (subst update_account_get) (simp_all add: frame_simps j)
qed (auto simp: update_account_def put_account_def put_credit_account_def frame_simps split: option.splits)

section \<open>Ending a hold\<close>

lemma sum_put_row:
  fixes g :: "'r \<Rightarrow> int"
  assumes "distinct (map key rs)" "r0 \<in> set rs" "key r = key r0"
  shows "sum_list (map g (filter P (put_row key r rs)))
    = sum_list (map g (filter P rs)) - (if P r0 then g r0 else 0) + (if P r then g r else 0)"
  using assms
proof (induction rs)
  case (Cons x xs)
  show ?case
  proof (cases "key x = key r0")
    case True
    with Cons.prems have x: "x = r0" by (force simp: image_iff)
    have "key r \<notin> key ` set xs" using Cons.prems True by auto
    then have "put_row key r xs = xs" by (rule put_row_absent)
    then show ?thesis using Cons.prems by (simp add: x)
  next
    case False
    with Cons show ?thesis by auto
  qed
qed simp

lemma end_hold_total:
  assumes "distinct (map ta_id (d_auths d))" "h \<in> set (d_auths d)" "ta_status h \<in> set ACTIVE_HOLDS" "s \<notin> set ACTIVE_HOLDS"
  shows "hold_total i (put_auth (h\<lparr>ta_status := s\<rparr>) d)
    = hold_total i d - (if ta_account_id h = i then ta_billing_amount_cents h else 0)"
  using sum_put_row [OF assms(1,2), of "h\<lparr>ta_status := s\<rparr>" ta_billing_amount_cents "active_hold i"] assms(3,4)
  by (simp add: hold_total_def put_auth_def active_hold_def)

lemma put_auth_frame:
  "d_accounts (put_auth h d) = d_accounts d" "d_credit_accounts (put_auth h d) = d_credit_accounts d"
  "d_entries (put_auth h d) = d_entries d" "d_transactions (put_auth h d) = d_transactions d"
  "d_posted (put_auth h d) = d_posted d" "d_uuid (put_auth h d) = d_uuid d" "d_draws (put_auth h d) = d_draws d"
  "d_cards (put_auth h d) = d_cards d"
  "get_credit_account i (put_auth h d) = get_credit_account i d" "get_account i (put_auth h d) = get_account i d"
  "books_ok d \<Longrightarrow> books_ok (put_auth h d)"
  by (simp_all add: put_auth_def get_credit_account_def get_account_def)
     (erule books_ok_frame, simp_all add: tx_sig_def acct_sig_def card_sig_def)

lemma sample_mirror_numbers: "mirror_numbers_ok sample_db"
  by (simp add: mirror_numbers_ok_def sample_db_def sample_deposit_def)

end
