(* ===== verification/Card_Network.thy ===== *)
theory Card_Network
  imports Fraud_Alerts Fraud_Scoring Card_Posting
begin

text \<open>
  The card network adapter (\<^verbatim>\<open>services/card_network.py\<close>): real-time authorization holds, their
  settlement and their reversal.

  A \<open>network\<close> value fixes what a request finds outside the database: the clock, the drawn
  authorization code, the scoring resources and settings and the cached merchant stores (\<open>None\<close>
  when loading them raises, which the code logs and ignores).  Log lines and the event published to
  the live stream (its failure is caught) leave the database alone.

  Opening a fraud alert commits in the middle of an authorization, so \<open>authorize_hold\<close> also returns
  the state a later failure rolls back to.
\<close>

section \<open>Context of a request\<close>

record network =
  nw_clock :: int
  nw_auth_code :: int
  nw_scoring :: scoring_resources
  nw_service :: scoring_service
  nw_stores :: "merchant_dto list option"

definition ONLINE_DESCRIPTOR_TOKENS :: "string list" where
  "ONLINE_DESCRIPTOR_TOKENS = [''ONLINE'', ''.COM'', ''MKTPLACE'', ''STREAMING'', ''SUBSCRIPTION'', ''DIGITAL'', ''GIFT CARD'']"

definition CARD_PRESENT_ENTRY_MODES :: "string list" where
  "CARD_PRESENT_ENTRY_MODES = [''CHIP'', ''CONTACTLESS'', ''MAG_STRIPE'']"

definition CARD_NOT_PRESENT_CHANNELS :: "string list" where
  "CARD_NOT_PRESENT_CHANNELS = [''CARD_NOT_PRESENT'', ''ECOMMERCE'']"

definition uuid_or_none :: "string option \<Rightarrow> string option" where
  "uuid_or_none v = (case v of None \<Rightarrow> None | Some s \<Rightarrow> if s = [] then None else py_uuid s)"

definition upper_or_empty :: "string option \<Rightarrow> string" where
  "upper_or_empty v = py_upper (case v of None \<Rightarrow> [] | Some s \<Rightarrow> s)"

definition normalize_transaction_channel ::
    "string option \<Rightarrow> string option \<Rightarrow> string \<Rightarrow> string \<times> string" where
  "normalize_transaction_channel given_channel given_mode merchant_name =
     (let channel0 = upper_or_empty given_channel; mode0 = upper_or_empty given_mode;
          descriptor = py_upper merchant_name;
          channel = (if channel0 \<noteq> [] then channel0
                     else if mode0 \<in> set CARD_PRESENT_ENTRY_MODES then ''CARD_PRESENT''
                     else if contains_any ONLINE_DESCRIPTOR_TOKENS descriptor then ''ECOMMERCE''
                     else ''CARD_PRESENT'');
          mode = (if mode0 \<noteq> [] then mode0
                  else if channel = ''WALLET'' then ''CONTACTLESS''
                  else if channel \<in> set CARD_NOT_PRESENT_CHANNELS then ''ECOMMERCE''
                  else ''CHIP'')
      in (channel, mode))"

definition rat_or :: "rat option \<Rightarrow> rat option \<Rightarrow> rat option" where
  "rat_or a b = (case a of None \<Rightarrow> b | Some x \<Rightarrow> if x = 0 then b else a)"

definition requested_context :: "auth_payload \<Rightarrow> scoring_context" where
  "requested_context payload =
     (let asked = ap_merchant payload;
          country = upper_or_empty (str_or (mc_merchant_country_code asked) (ap_country_code payload))
      in merchant_columns.extend
           (asked\<lparr>mc_merchant_id := uuid_or_none (mc_merchant_id asked),
                  mc_merchant_store_id := uuid_or_none (mc_merchant_store_id asked),
                  mc_merchant_country_code := (if country = [] then None else Some country)\<rparr>)
           (scoring_context.fields (ap_merchant_high_risk_flags payload) (ap_merchant_intelligence payload)
              (ap_synthetic_fraud_label payload) (ap_fraud_pattern_label payload)
              (ap_fraud_pattern_sequence payload)))"

definition enriched_context :: "enrichment \<Rightarrow> scoring_context \<Rightarrow> scoring_context" where
  "enriched_context e c =
     c\<lparr>mc_merchant_id := str_or (mc_merchant_id c) (uuid_or_none (Some (en_merchant_id e))),
       mc_merchant_slug := str_or (mc_merchant_slug c) (Some (en_merchant_slug e)),
       mc_merchant_store_id := str_or (mc_merchant_store_id c) (uuid_or_none (en_merchant_store_id e)),
       mc_merchant_country_code := str_or (mc_merchant_country_code c) (Some (en_country_code e)),
       mc_merchant_city := str_or (mc_merchant_city c) (en_city e),
       mc_merchant_region := str_or (mc_merchant_region c) (en_region e),
       mc_merchant_postal_code := str_or (mc_merchant_postal_code c) (en_postal_code e),
       mc_merchant_latitude := rat_or (mc_merchant_latitude c) (en_latitude e),
       mc_merchant_longitude := rat_or (mc_merchant_longitude c) (en_longitude e),
       mc_is_digital_goods := (mc_is_digital_goods c \<or> ''DIGITAL_GOODS'' \<in> set (en_high_risk_flags e)),
       cx_high_risk_flags := (if cx_high_risk_flags c = [] then en_high_risk_flags e else cx_high_risk_flags c),
       cx_intelligence := (case cx_intelligence c of None \<Rightarrow> Some (en_merchant_intelligence e) | i \<Rightarrow> i)\<rparr>"

definition build_authorization_context :: "network \<Rightarrow> auth_payload \<Rightarrow> scoring_context" where
  "build_authorization_context nw payload =
     (let c0 = requested_context payload; name = ap_merchant_name payload;
          c1 = (if mc_merchant_country_code c0 = None \<or> str_or (mc_merchant_id c0) None = None
                   \<or> str_or (mc_merchant_store_id c0) None = None
                then (case nw_stores nw of None \<Rightarrow> c0
                      | Some stores \<Rightarrow>
                          enriched_context (enrich_transaction (sr_intelligence_rows (nw_scoring nw)) stores name
                             (Some (ap_merchant_category_code payload)) ''USA'') c0)
                else c0);
          (channel, mode) = normalize_transaction_channel (mc_transaction_channel c1) (mc_entry_mode c1) name
      in c1\<lparr>mc_transaction_channel := Some channel, mc_entry_mode := Some mode\<rparr>)"

section \<open>Authorization\<close>

record authorization_reply =
  ny_action_code :: string
  ny_auth_code :: string
  ny_authorization_id :: "string option"
  ny_retrieval_reference_number :: "string option"
  ny_fraud_alert_id :: "string option"
  ny_status :: string
  ny_fraud_decision :: "fraud_decision option"
  ny_transaction_channel :: "string option"
  ny_merchant_country_code :: "string option"
  ny_decline_reason :: string

definition duplicate_reply :: "transaction_authorization \<Rightarrow> authorization_reply" where
  "duplicate_reply a =
     \<lparr>ny_action_code = (if ta_status a = ''PENDING'' then ''00'' else ''51''), ny_auth_code = ta_auth_code a,
      ny_authorization_id = Some (ta_id a),
      ny_retrieval_reference_number = Some (ta_retrieval_reference_number a),
      ny_fraud_alert_id = None, ny_status = ta_status a, ny_fraud_decision = None,
      ny_transaction_channel = None, ny_merchant_country_code = None, ny_decline_reason = ta_decline_reason a\<rparr>"

definition declined_reply :: "string \<Rightarrow> string \<Rightarrow> authorization_reply" where
  "declined_reply action reason =
     \<lparr>ny_action_code = action, ny_auth_code = ''000000'', ny_authorization_id = None,
      ny_retrieval_reference_number = None, ny_fraud_alert_id = None, ny_status = ''DECLINED'',
      ny_fraud_decision = None, ny_transaction_channel = None, ny_merchant_country_code = None,
      ny_decline_reason = reason\<rparr>"

text \<open>The card and account checks: a refusal is its action code, reason and the ids the audit row names.\<close>

definition authorization_checks ::
    "auth_payload \<Rightarrow> bank_db \<Rightarrow> (string \<times> string \<times> (string \<times> pyval) list) + (issued_card \<times> credit_account)" where
  "authorization_checks payload d =
     (case get_card_by_token (ap_card_token payload) d of
        None \<Rightarrow> Inl (''75'', ''CARD_NOT_FOUND'', [])
      | Some crd \<Rightarrow>
          if ic_status crd \<noteq> ''ACTIVE'' \<or> \<not> ic_is_active crd
          then Inl (''75'', ''CARD_BLOCKED'', [(''card_id'', PStr (ic_id crd)), (''account_id'', PStr (ic_account_id crd))])
          else (case get_credit_account (ic_account_id crd) d of
                  None \<Rightarrow> Inl (''83'', ''ACCOUNT_NOT_FOUND'', [(''card_id'', PStr (ic_id crd))])
                | Some account \<Rightarrow>
                    if ca_status account \<noteq> ''ACTIVE''
                    then Inl (''83'', ''ACCOUNT_FROZEN'', [(''card_id'', PStr (ic_id crd)), (''account_id'', PStr (ca_id account))])
                    else Inr (crd, account)))"

text \<open>A hold row; the two currency columns keep their default.\<close>

definition hold_row ::
    "string \<Rightarrow> issued_card \<Rightarrow> credit_account \<Rightarrow> auth_payload \<Rightarrow> scoring_context \<Rightarrow> string \<Rightarrow> string \<Rightarrow> string
     \<Rightarrow> int option \<Rightarrow> int \<Rightarrow> int \<Rightarrow> transaction_authorization" where
  "hold_row i crd account payload ctx status reason auth_code score created expires =
     \<lparr>ta_id = i, ta_card_id = ic_id crd, ta_account_id = ca_id account,
      ta_transaction_amount_cents = ap_amount_cents payload, ta_transaction_currency = ''USD'',
      ta_billing_amount_cents = ap_amount_cents payload, ta_billing_currency = ''USD'',
      ta_status = status, ta_decline_reason = reason, ta_auth_code = auth_code,
      ta_retrieval_reference_number = ap_retrieval_reference_number payload,
      ta_card_network = ap_card_network payload,
      ta_merchant_category_code = ap_merchant_category_code payload,
      ta_merchant_name = Some (ap_merchant_name payload), ta_merchant = merchant_columns.truncate ctx,
      ta_fraud_risk_score = score, ta_created_at = created, ta_expires_at = expires\<rparr>"

definition refuse ::
    "network \<Rightarrow> auth_payload \<Rightarrow> string \<Rightarrow> (string \<times> pyval) list \<Rightarrow> bank_db \<Rightarrow> bank_db" where
  "refuse nw payload reason ids d =
     audit (nw_clock nw) ''CREDIT_AUTHORIZATION_DECLINED''
       (ids @ [(''retrieval_reference_number'', PStr (ap_retrieval_reference_number payload)),
               (''amount_cents'', PInt (ap_amount_cents payload)), (''reason'', PStr reason)]) d"

definition decline_for_funds ::
    "network \<Rightarrow> auth_payload \<Rightarrow> issued_card \<Rightarrow> credit_account \<Rightarrow> scoring_context \<Rightarrow> bank_db \<Rightarrow> bank_db" where
  "decline_for_funds nw payload crd account ctx d =
     (let (i, d1) = uuid4 d;
          row = hold_row i crd account payload ctx ''DECLINED'' ''INSUFFICIENT_FUNDS'' ''000000'' None
                  (nw_clock nw) (nw_clock nw)
      in refuse nw payload ''INSUFFICIENT_FUNDS''
           [(''authorization_id'', PStr i), (''card_id'', PStr (ic_id crd)), (''account_id'', PStr (ca_id account)),
            (''currency'', PStr (the (str_or (Some (ca_currency account)) (Some ''USD''))))]
           (d1\<lparr>d_auths := d_auths d1 @ [row]\<rparr>))"

definition mcc_dump :: "mcc_row \<Rightarrow> (string \<times> pyval) list" where
  "mcc_dump r =
     [(''mcc_primary_category'', opt_str (mr_primary_category r)),
      (''mcc_detailed_category'', opt_str (mr_detailed_category r)), (''mcc_risk_level'', opt_str (mr_risk_level r)),
      (''mcc_risk_score'', opt_int (mr_risk_score r)), (''mcc_velocity_risk'', opt_str (mr_velocity_risk r)),
      (''mcc_chargeback_prone'', case mr_chargeback_prone r of None \<Rightarrow> PNone | Some b \<Rightarrow> PBool b),
      (''mcc_risk_flags'', str_list (mr_risk_flags r))]"

definition intelligence_dump :: "intelligence \<Rightarrow> (string \<times> pyval) list" where
  "intelligence_dump i =
     [(''merchant_intelligence_matched'', PBool (in_matched i)),
      (''normalized_merchant'', opt_str (in_normalized_merchant i)), (''merchant_type'', opt_str (in_merchant_type i)),
      (''merchant_intelligence_mccs'', str_list (in_mccs i)),
      (''merchant_intelligence_risk_score'', opt_int (in_merchant_risk_score i)),
      (''merchant_intelligence_flags'', str_list (in_flags i)),
      (''merchant_intelligence_match_type'', opt_str (in_match_type i)),
      (''merchant_intelligence_mcc_match'', PBool (in_mcc_match i))]"

definition features_dump :: "features \<Rightarrow> pyval" where
  "features_dump f =
     PDict ([(''amount_cents'', PInt (f_amount_cents f)),
       (''merchant_category_code'', PStr (f_merchant_category_code f)), (''merchant_name'', PStr (f_merchant_name f)),
       (''transaction_channel'', PStr (f_transaction_channel f)), (''entry_mode'', PStr (f_entry_mode f)),
       (''merchant_country_code'', PStr (f_merchant_country_code f)), (''merchant_city'', opt_str (f_merchant_city f)),
       (''merchant_region'', opt_str (f_merchant_region f)),
       (''merchant_postal_code'', opt_str (f_merchant_postal_code f)),
       (''merchant_latitude'', opt_float (f_merchant_latitude f)),
       (''merchant_longitude'', opt_float (f_merchant_longitude f)),
       (''ip_country_code'', opt_str (f_ip_country_code f)),
       (''shipping_country_code'', opt_str (f_shipping_country_code f)),
       (''is_digital_goods'', PBool (f_is_digital_goods f)), (''descriptor_flags'', str_list (f_descriptor_flags f)),
       (''is_international_like'', PBool (f_is_international_like f)),
       (''distance_from_recent_card_present_location'', opt_float (f_distance_from_recent f)),
       (''minutes_since_last_card_present_location'', opt_float (f_minutes_since_last f)),
       (''recent_auth_count_10m'', PInt (int (f_recent_auth_count_10m f))),
       (''recent_auth_count_1h'', PInt (int (f_recent_auth_count_1h f))),
       (''recent_flagged_count_24h'', PInt (int (f_recent_flagged_count_24h f))),
       (''amount_to_recent_average_ratio'', opt_float (f_amount_ratio f)),
       (''same_mcc_count_1h'', PInt (int (f_same_mcc_count_1h f))),
       (''credit_utilization_after_auth'', opt_float (f_credit_utilization_after_auth f)),
       (''available_credit_ratio'', opt_float (f_available_credit_ratio f)),
       (''has_explicit_simulation_flag'', PBool (f_has_explicit_simulation_flag f)),
       (''has_risk_score_override'', PBool (f_has_risk_score_override f)),
       (''synthetic_fraud_label'', opt_str (f_synthetic_fraud_label f)),
       (''fraud_pattern_label'', opt_str (f_fraud_pattern_label f)),
       (''fraud_pattern_sequence'', opt_int (f_fraud_pattern_sequence f))]
       @ mcc_dump (f_mcc f) @ intelligence_dump (f_intelligence f))"

text \<open>
  The hold, the model's verdict on it and, for a high score, the fraud alert: the hold, the alert, the
  state and the state a later failure rolls back to.
\<close>

definition record_hold ::
    "network \<Rightarrow> auth_payload \<Rightarrow> issued_card \<Rightarrow> credit_account \<Rightarrow> scoring_context \<Rightarrow> int \<Rightarrow> fraud_decision
     \<Rightarrow> bank_db \<Rightarrow> transaction_authorization \<times> fraud_model_decision \<times> bank_db" where
  "record_hold nw payload crd account ctx now verdict d =
     (let (i, d1) = uuid4 d;
          hold = hold_row i crd account payload ctx
                   (if is_flagged verdict then ''FLAGGED'' else ''PENDING'') ''NONE''
                   (show_int (nw_auth_code nw)) (Some (fd_score verdict)) now (now + minutes (7 * 24 * 60));
          (dec, d2) = record_model_decision (nw_clock nw)
            \<lparr>dr_authorization_id = i, dr_customer_id = ca_customer_id account,
             dr_credit_account_id = ca_id account, dr_card_id = ic_id crd, dr_score = fd_score verdict,
             dr_threshold = fd_threshold verdict, dr_decision = fd_decision verdict,
             dr_reason_codes = fd_reason_codes verdict, dr_feature_snapshot = features_dump (fd_features verdict),
             dr_model_version = fd_model_version verdict\<rparr> (d1\<lparr>d_auths := d_auths d1 @ [hold]\<rparr>);
          d3 = audit (nw_clock nw) ''FRAUD_MODEL_DECISION_RECORDED''
            [(''decision_id'', PStr (dm_id dec)), (''authorization_id'', PStr i),
             (''customer_id'', PStr (ca_customer_id account)), (''credit_account_id'', PStr (ca_id account)),
             (''card_id'', PStr (ic_id crd)), (''score'', PInt (fd_score verdict)),
             (''threshold'', PInt (fd_threshold verdict)), (''decision'', PStr (fd_decision verdict)),
             (''reason_codes'', str_list (fd_reason_codes verdict)),
             (''model_version'', PStr (fd_model_version verdict))] d2
      in (hold, dec, d3))"

definition raise_alert ::
    "network \<Rightarrow> issued_card \<Rightarrow> credit_account \<Rightarrow> transaction_authorization \<Rightarrow> fraud_model_decision
     \<Rightarrow> fraud_decision \<Rightarrow> bank_db \<Rightarrow> bank_db \<Rightarrow> (alert_outcome option \<times> bank_db \<times> bank_db) res" where
  "raise_alert nw crd account hold dec verdict saved d =
     (if ss_alerts_enabled (nw_service nw) \<and> is_flagged verdict
         \<and> ss_alert_threshold (nw_service nw) \<le> fd_score verdict
      then (case get_user_by_id (ca_customer_id account) d of
              Some customer \<Rightarrow>
                bindR (create_or_update_alert_from_model_decision (nw_clock nw) customer crd account hold dec saved d)
                  (\<lambda>(outcome, d', saved'). Inr (Some outcome, d', saved'))
            | None \<Rightarrow> Inr (None, d, saved))
      else Inr (None, d, saved))"

definition approve_hold ::
    "network \<Rightarrow> auth_payload \<Rightarrow> issued_card \<Rightarrow> credit_account \<Rightarrow> scoring_context \<Rightarrow> fraud_decision
     \<Rightarrow> transaction_authorization \<Rightarrow> alert_outcome option \<Rightarrow> bank_db \<Rightarrow> (authorization_reply \<times> bank_db) res" where
  "approve_hold nw payload crd account ctx verdict hold alert d =
     bindR (recalculate_available_credit account d) (\<lambda>(account', d1).
       Inr (\<lparr>ny_action_code = ''00'', ny_auth_code = ta_auth_code hold,
             ny_authorization_id = Some (ta_id hold),
             ny_retrieval_reference_number = Some (ta_retrieval_reference_number hold),
             ny_fraud_alert_id = map_option ao_fraud_alert_id alert, ny_status = ta_status hold,
             ny_fraud_decision = Some verdict, ny_transaction_channel = mc_transaction_channel ctx,
             ny_merchant_country_code = mc_merchant_country_code ctx, ny_decline_reason = ''NONE''\<rparr>,
            audit (nw_clock nw)
              (if ta_status hold = ''FLAGGED'' then ''CREDIT_AUTHORIZATION_FLAGGED'' else ''CREDIT_AUTHORIZATION_AUTHORIZED'')
              [(''authorization_id'', PStr (ta_id hold)), (''card_id'', PStr (ic_id crd)),
               (''account_id'', PStr (ca_id account)),
               (''retrieval_reference_number'', PStr (ap_retrieval_reference_number payload)),
               (''amount_cents'', PInt (ap_amount_cents payload)),
               (''currency'', PStr (the (str_or (Some (ca_currency account)) (Some ''USD'')))),
               (''status'', PStr (ta_status hold))] d1))"

definition judge ::
    "network \<Rightarrow> auth_payload \<Rightarrow> credit_account \<Rightarrow> scoring_context \<Rightarrow> int \<Rightarrow> bank_db \<Rightarrow> fraud_decision" where
  "judge nw payload account ctx now d =
     evaluate_authorization (nw_scoring nw) (nw_service nw) (nw_clock nw) (payload\<lparr>ap_created_at := Some now\<rparr>) ctx
       (list_recent_authorizations (ca_id account) (now - minutes (24 * 60)) 100 d) (Some account)"

definition authorize_hold ::
    "network \<Rightarrow> auth_payload \<Rightarrow> issued_card \<Rightarrow> credit_account \<Rightarrow> scoring_context \<Rightarrow> bank_db
     \<Rightarrow> bank_db \<times> (authorization_reply \<times> bank_db) res" where
  "authorize_hold nw payload crd account ctx d =
     (let now = (case ap_created_at payload of Some t \<Rightarrow> t | None \<Rightarrow> nw_clock nw);
          verdict = judge nw payload account ctx now d;
          (hold, dec, d1) = record_hold nw payload crd account ctx now verdict d
      in case raise_alert nw crd account hold dec verdict d d1 of
           Inl e \<Rightarrow> (d, Inl e)
         | Inr (alert, d2, saved) \<Rightarrow> (saved, approve_hold nw payload crd account ctx verdict hold alert d2))"

definition process_authorization ::
    "network \<Rightarrow> auth_payload \<Rightarrow> bank_db \<Rightarrow> bank_db \<times> authorization_reply res" where
  "process_authorization nw payload d =
     (case get_authorization_by_rrn (ap_retrieval_reference_number payload) None d of
        Some existing \<Rightarrow> (d, Inr (duplicate_reply existing))
      | None \<Rightarrow>
          (case authorization_checks payload d of
             Inl (action, reason, ids) \<Rightarrow> (refuse nw payload reason ids d, Inr (declined_reply action reason))
           | Inr (crd, account) \<Rightarrow>
               (let ctx = build_authorization_context nw payload in
                if ca_available_credit_cents account < ap_amount_cents payload
                then (decline_for_funds nw payload crd account ctx d,
                      Inr (declined_reply ''51'' ''INSUFFICIENT_FUNDS''))
                else (case authorize_hold nw payload crd account ctx d of
                        (saved, Inl e) \<Rightarrow> (saved, Inl e)
                      | (saved, Inr (reply, d')) \<Rightarrow> (d', Inr reply)))))"

section \<open>Settlement\<close>

definition posted_description :: "network \<Rightarrow> transaction_authorization \<Rightarrow> string" where
  "posted_description nw auth =
     (let raw = py_strip (case ta_merchant_name auth of None \<Rightarrow> [] | Some n \<Rightarrow> n) in
      if raw = [] then ''Card Purchase''
      else (case nw_stores nw of None \<Rightarrow> raw
            | Some stores \<Rightarrow>
                (let clean = py_strip (en_clean_name (enrich_transaction (sr_intelligence_rows (nw_scoring nw)) stores raw
                                (Some (ta_merchant_category_code auth)) ''USA''))
                 in if clean = [] then raw else clean)))"

record settlement_payload =
  sl_retrieval_reference_number :: string
  sl_amount_cents :: int
  sl_posted_at :: "int option"

definition settlement_posting ::
    "network \<Rightarrow> settlement_payload \<Rightarrow> transaction_authorization \<Rightarrow> credit_account \<Rightarrow> card_posting" where
  "settlement_posting nw payload auth account =
     \<lparr>kp_clearing = ''SYSTEM_CARD_MERCHANT_CLEARING'',
      kp_clearing_description = ''Card network merchant settlement clearing'',
      kp_key = ''card-settlement:'' @ sl_retrieval_reference_number payload,
      kp_description = posted_description nw auth, kp_source_type = ''CARD_SETTLEMENT'',
      kp_references = [(''authorization_id'', PStr (ta_id auth)),
        (''retrieval_reference_number'', PStr (sl_retrieval_reference_number payload)),
        (''credit_account_id'', PStr (ca_id account))],
      kp_currency = the (str_or (Some (ta_billing_currency auth)) (str_or (Some (ca_currency account)) (Some ''USD''))),
      kp_posted_at = (case sl_posted_at payload of Some t \<Rightarrow> t | None \<Rightarrow> nw_clock nw),
      kp_amount_minor = sl_amount_cents payload, kp_charge = True\<rparr>"

record settlement_reply =
  sy_posted_transaction_id :: string
  sy_transaction_id :: string
  sy_financial_event_id :: string
  sy_cleared_balance_cents :: int
  sy_available_credit_cents :: int

definition settle_body ::
    "network \<Rightarrow> settlement_payload \<Rightarrow> transaction_authorization \<Rightarrow> credit_account \<Rightarrow> bank_db
     \<Rightarrow> (settlement_reply \<times> bank_db) res" where
  "settle_body nw payload auth account d =
     (let k = settlement_posting nw payload auth account; amount = sl_amount_cents payload in
      bindR (post_card_journal (nw_clock nw) k account d) (\<lambda>(journal_account, posting, d1).
      let (i, d2) = uuid4 d1;
          line = \<lparr>pt_id = i, pt_account_id = ca_id account, pt_authorization_id = Some (ta_id auth),
             pt_journal_transaction_id = Some (tx_id (jp_transaction posting)),
             pt_auth_code = Some (ta_auth_code auth),
             pt_retrieval_reference_number = Some (sl_retrieval_reference_number payload),
             pt_amount_cents = - amount, pt_description = kp_description k, pt_posted_at = kp_posted_at k\<rparr>
      in bindR (add_posted_transaction line d2) (\<lambda>d3.
      let account1 = account\<lparr>ca_cleared_balance_cents := ca_cleared_balance_cents account + amount\<rparr>
      in bindR (recalculate_available_credit account1 (put_credit_account account1 d3)) (\<lambda>(account2, d4).
      let d5 = update_account (level_mirror account2) (ac_id journal_account) d4;
          d6 = audit (nw_clock nw) ''CREDIT_TRANSACTION_SETTLED''
            [(''authorization_id'', PStr (ta_id auth)), (''posted_transaction_id'', PStr i),
             (''transaction_id'', PStr (tx_id (jp_transaction posting))),
             (''financial_event_id'', PStr (jp_event_id posting)), (''account_id'', PStr (ca_id account)),
             (''retrieval_reference_number'', PStr (sl_retrieval_reference_number payload)),
             (''amount_cents'', PInt amount), (''currency'', PStr (kp_currency k))] d5
      in Inr (\<lparr>sy_posted_transaction_id = i, sy_transaction_id = tx_id (jp_transaction posting),
               sy_financial_event_id = jp_event_id posting,
               sy_cleared_balance_cents = ca_cleared_balance_cents account2,
               sy_available_credit_cents = ca_available_credit_cents account2\<rparr>, d6)))))"

definition process_settlement :: "network \<Rightarrow> settlement_payload \<Rightarrow> bank_db \<Rightarrow> bank_db \<times> settlement_reply res" where
  "process_settlement nw payload = atomically (\<lambda>d.
     if sl_amount_cents payload \<le> 0 then Inl (ValueError ''Settlement amount must be positive.'')
     else (case get_authorization_by_rrn (sl_retrieval_reference_number payload) (Some [''PENDING'', ''FLAGGED'']) d of
             None \<Rightarrow> Inl (ValueError (''No active authorization hold found with RRN: '' @ sl_retrieval_reference_number payload))
           | Some auth \<Rightarrow>
               (let d1 = put_auth (auth\<lparr>ta_status := ''SETTLED''\<rparr>) d in
                case get_credit_account (ta_account_id auth) d1 of
                  None \<Rightarrow> Inl (ValueError ''Credit account not found'')
                | Some account \<Rightarrow> settle_body nw payload auth account d1)))"

section \<open>Reversal\<close>

definition reversal_body ::
    "int \<Rightarrow> string \<Rightarrow> string option \<Rightarrow> bank_db \<Rightarrow> (int \<times> bank_db) res" where
  "reversal_body now rrn reason d =
     (case get_authorization_by_rrn rrn (Some [''PENDING'', ''FLAGGED'']) d of
        None \<Rightarrow> Inl (ValueError (''No active authorization hold found with RRN: '' @ rrn @ '' to reverse.''))
      | Some auth \<Rightarrow>
          (let d1 = put_auth (auth\<lparr>ta_status := ''REVERSED''\<rparr>) d in
           case get_credit_account (ta_account_id auth) d1 of
             None \<Rightarrow> Inl (ValueError ''Credit account not found'')
           | Some account \<Rightarrow>
               bindR (recalculate_available_credit account d1) (\<lambda>(account', d2).
                 Inr (ca_available_credit_cents account',
                   audit now ''CREDIT_AUTHORIZATION_REVERSED''
                     [(''authorization_id'', PStr (ta_id auth)), (''account_id'', PStr (ca_id account)),
                      (''retrieval_reference_number'', PStr rrn),
                      (''amount_cents'', PInt (if ta_billing_amount_cents auth \<noteq> 0 then ta_billing_amount_cents auth
                                              else ta_transaction_amount_cents auth)),
                      (''currency'', PStr (the (str_or (Some (ta_billing_currency auth))
                                             (str_or (Some (ca_currency account)) (Some ''USD''))))),
                      (''reason'', PStr (the (str_or reason (Some ''NETWORK_REVERSAL''))))] d2))))"

definition process_reversal :: "int \<Rightarrow> string \<Rightarrow> string option \<Rightarrow> bank_db \<Rightarrow> bank_db \<times> int res" where
  "process_reversal now rrn reason = atomically (reversal_body now rrn reason)"

section \<open>What the handlers leave alone\<close>

definition same_money :: "bank_db \<Rightarrow> bank_db \<Rightarrow> bool" where
  "same_money d d' \<longleftrightarrow> d_accounts d' = d_accounts d \<and> d_credit_accounts d' = d_credit_accounts d
     \<and> d_cards d' = d_cards d \<and> d_posted d' = d_posted d \<and> d_transactions d' = d_transactions d
     \<and> d_entries d' = d_entries d \<and> d_uuid d' = d_uuid d \<and> d_draws d \<le> d_draws d'"

lemma same_money_trans: "same_money d1 d2 \<Longrightarrow> same_money d2 d3 \<Longrightarrow> same_money d1 d3"
  by (simp add: same_money_def)

lemma same_books_money: "same_books d d' \<Longrightarrow> same_money d d'"
  by (simp add: same_books_def same_money_def)

lemma same_money_books: "books_ok d \<Longrightarrow> same_money d d' \<Longrightarrow> books_ok d'"
  by (erule books_ok_frame) (simp_all add: same_money_def tx_sig_def acct_sig_def card_sig_def)

lemma refuse_effect: "same_books d (refuse nw payload reason ids d)"
  unfolding refuse_def by (rule same_books_audit)

lemma decline_for_funds_effect:
  obtains row where "d_auths (decline_for_funds nw payload crd account ctx d) = d_auths d @ [row]"
    "same_money d (decline_for_funds nw payload crd account ctx d)" "ta_status row = ''DECLINED''"
    "ta_retrieval_reference_number row = ap_retrieval_reference_number payload"
    "ta_id row = d_uuid d (d_draws d)" "d_draws d < d_draws (decline_for_funds nw payload crd account ctx d)"
proof -
  let ?row = "hold_row (d_uuid d (d_draws d)) crd account payload ctx ''DECLINED'' ''INSUFFICIENT_FUNDS'' ''000000'' None
                  (nw_clock nw) (nw_clock nw)"
  let ?d = "d\<lparr>d_draws := Suc (d_draws d), d_auths := d_auths d @ [?row]\<rparr>"
  obtain r where r: "decline_for_funds nw payload crd account ctx d = refuse nw payload ''INSUFFICIENT_FUNDS'' r ?d"
    by (simp add: decline_for_funds_def uuid4_def)
  have b: "same_books ?d (decline_for_funds nw payload crd account ctx d)"
    unfolding r by (rule refuse_effect)
  show thesis
    by (rule that [of ?row]) (use b in \<open>simp_all add: same_books_def same_money_def hold_row_def\<close>)
qed

lemma record_model_decision_frame:
  "same_books d (snd (record_model_decision now r d))"
  by (auto simp: record_model_decision_def uuid4_def same_books_def Let_def split: option.split)

lemma record_hold_effect:
  assumes "record_hold nw payload crd account ctx now verdict d = (hold, dec, d')"
  shows "d_auths d' = d_auths d @ [hold]" "same_money d d'" "ta_id hold = d_uuid d (d_draws d)"
    "d_draws d < d_draws d'" "d_users d' = d_users d"
    "hold = hold_row (ta_id hold) crd account payload ctx (if is_flagged verdict then ''FLAGGED'' else ''PENDING'')
        ''NONE'' (show_int (nw_auth_code nw)) (Some (fd_score verdict)) now (now + minutes (7 * 24 * 60))"
proof -
  let ?h = "hold_row (d_uuid d (d_draws d)) crd account payload ctx (if is_flagged verdict then ''FLAGGED'' else ''PENDING'')
        ''NONE'' (show_int (nw_auth_code nw)) (Some (fd_score verdict)) now (now + minutes (7 * 24 * 60))"
  let ?d1 = "d\<lparr>d_draws := Suc (d_draws d), d_auths := d_auths d @ [?h]\<rparr>"
  obtain r d2 where h: "hold = ?h" and m: "record_model_decision (nw_clock nw) r ?d1 = (dec, d2)"
    and d': "\<exists>t p e v. d' = record_audit_event (nw_clock nw) t p e v d2"
    using assms unfolding record_hold_def Let_def
  proof (elim pair_eqE, goal_cases)
    case (1 i d1 dec' d2)
    from 1(2) have i: "i = d_uuid d (d_draws d)" and d1: "d1 = d\<lparr>d_draws := Suc (d_draws d)\<rparr>"
      by (simp_all add: uuid4_def)
    have dec: "dec' = dec" using 1(4) by simp
    have d1': "d1\<lparr>d_auths := d_auths d1 @ [?h]\<rparr> = ?d1" by (simp add: d1)
    have h: "hold = ?h" using 1(4) unfolding i by simp
    have d': "\<exists>t p e v. d' = record_audit_event (nw_clock nw) t p e v d2" using 1(4) by auto
    show ?case by (rule 1(1) [OF h 1(3) [unfolded i dec d1'] d'])
  qed
  have b: "same_books ?d1 d2" using record_model_decision_frame [of ?d1 "nw_clock nw" r] m by simp
  have u: "d_users d2 = d_users d"
    using m by (auto simp: record_model_decision_def uuid4_def Let_def split: option.splits)
  have b': "same_books ?d1 d'" using d' same_books_trans [OF b same_books_audit] by blast
  then show "d_auths d' = d_auths d @ [hold]" "same_money d d'" "d_draws d < d_draws d'"
    by (simp_all add: h same_books_def same_money_def)
  show "ta_id hold = d_uuid d (d_draws d)" by (simp add: h hold_row_def)
  then show "hold = hold_row (ta_id hold) crd account payload ctx (if is_flagged verdict then ''FLAGGED'' else ''PENDING'')
        ''NONE'' (show_int (nw_auth_code nw)) (Some (fd_score verdict)) now (now + minutes (7 * 24 * 60))"
    by (simp add: h)
  show "d_users d' = d_users d" using d' u by (auto simp: frame_simps)
qed

lemma record_hold_alerts:
  assumes "record_hold nw payload crd account ctx now verdict d = (hold, dec, d')"
  shows "d_alerts d' = d_alerts d"
  using assms unfolding record_hold_def Let_def
proof (elim pair_eqE, goal_cases)
  case (1 i d1 dec' d2)
  from 1(1) have "d_alerts d1 = d_alerts d" by (auto simp: uuid4_def)
  moreover have "d_alerts d2 = d_alerts d1"
    using 1(2) by (auto simp: record_model_decision_def uuid4_def Let_def split: option.splits)
  ultimately show ?case using 1(3) by (auto simp: frame_simps)
qed

lemma open_model_alert_auths:
  assumes "open_model_alert now customer crd account auth dec item d = (out, d', saved)"
  shows "d_auths d' = d_auths d" "d_auths saved = d_auths d" "d_credit_accounts d' = d_credit_accounts d"
proof -
  from open_model_alert_steps [OF assms] obtain a d2 d3 where
      d2: "d2 = d\<lparr>d_draws := Suc (Suc (d_draws d)), d_alerts := d_alerts d @ [a]\<rparr>"
      and d3: "\<exists>t p e v. d3 = record_audit_event now t p e v d2"
      and d4: "\<exists>u s b c t. saved = snd (create_secure_message now u s b c t d3)"
      and d': "\<exists>t p e v. d' = record_audit_event now t p e v saved" by metis
  have "same_books d d2" by (simp add: d2 same_books_def)
  moreover have "same_books d2 d3" "same_books d3 saved" "same_books saved d'"
    using d3 d4 d' by (auto simp: same_books_audit same_books_message)
  ultimately show "d_auths d' = d_auths d" "d_auths saved = d_auths d" "d_credit_accounts d' = d_credit_accounts d"
    by (simp_all add: same_books_def)
qed

lemma create_or_update_frame:
  assumes "create_or_update_alert_from_model_decision now customer crd account auth dec saved d = Inr (out, d', saved')"
  shows "same_books d d'" "saved' = saved \<or> same_books d saved'"
proof -
  obtain item where run: "(case get_open_alert_for_account (ca_id account) d of
            Some existing \<Rightarrow>
              (let (outcome, d') = update_model_alert now customer account auth dec item existing d
               in Inr (outcome, d', saved))
          | None \<Rightarrow> Inr (open_model_alert now customer crd account auth dec item d)) = (Inr (out, d', saved') :: _ res)"
    using assms unfolding create_or_update_alert_from_model_decision_def Let_def by (elim bindR_E) blast
  have "same_books d d' \<and> (saved' = saved \<or> same_books d saved')"
  proof (cases "get_open_alert_for_account (ca_id account) d")
    case (Some e)
    obtain u d1 where ap: "append_suspicious_authorization (al_id e) (ta_id auth) item d = (u, d1)" by fastforce
    have s1: "same_books d d1"
      using ap by (auto simp: append_suspicious_authorization_def Let_def same_books_alert split: option.splits if_splits)
    have "saved' = saved" "\<exists>t p e v. d' = record_audit_event now t p e v d1"
      using run Some ap by (auto simp: update_model_alert_def Let_def split: option.splits)
    then show ?thesis using same_books_trans [OF s1 same_books_audit] by blast
  next
    case None
    with run have new: "open_model_alert now customer crd account auth dec item d = (out, d', saved')" by simp
    from open_model_alert_steps [OF new] obtain a d2 d3 where
      d2: "d2 = d\<lparr>d_draws := Suc (Suc (d_draws d)), d_alerts := d_alerts d @ [a]\<rparr>"
      and d3: "\<exists>t p e v. d3 = record_audit_event now t p e v d2"
      and d4: "\<exists>u s b c t. saved' = snd (create_secure_message now u s b c t d3)"
      and d': "\<exists>t p e v. d' = record_audit_event now t p e v saved'" by metis
    have s2: "same_books d d2" by (simp add: d2 same_books_def)
    have s3: "same_books d2 d3" using d3 by (auto simp: same_books_audit)
    have s4: "same_books d3 saved'" using d4 by (auto simp: same_books_message)
    have s5: "same_books saved' d'" using d' by (auto simp: same_books_audit)
    note s = same_books_trans [OF same_books_trans [OF s2 s3] s4]
    show ?thesis using s same_books_trans [OF s s5] by simp
  qed
  then show "same_books d d'" "saved' = saved \<or> same_books d saved'" by blast+
qed

lemma raise_alert_frame:
  assumes "raise_alert nw crd account hold dec verdict saved d = Inr (alert, d', saved')"
  shows "same_books d d'" "saved' = saved \<or> same_books d saved' \<and> is_flagged verdict"
proof -
  have "same_books d d' \<and> (saved' = saved \<or> same_books d saved' \<and> is_flagged verdict)"
  proof (cases "ss_alerts_enabled (nw_service nw) \<and> is_flagged verdict
         \<and> ss_alert_threshold (nw_service nw) \<le> fd_score verdict \<and> get_user_by_id (ca_customer_id account) d \<noteq> None")
    case True
    then obtain c where c: "get_user_by_id (ca_customer_id account) d = Some c" by blast
    with assms True obtain out where
      "create_or_update_alert_from_model_decision (nw_clock nw) c crd account hold dec saved d = Inr (out, d', saved')"
      unfolding raise_alert_def by (auto split: prod.splits)
    from create_or_update_frame [OF this] True show ?thesis by blast
  next
    case False
    then have "raise_alert nw crd account hold dec verdict saved d = Inr (None, d, saved)"
      by (auto simp: raise_alert_def)
    with assms show ?thesis by simp
  qed
  then show "same_books d d'" "saved' = saved \<or> same_books d saved' \<and> is_flagged verdict" by blast+
qed

text \<open>The hold a successful or half-failed authorization leaves.\<close>

definition fresh_hold ::
    "network \<Rightarrow> auth_payload \<Rightarrow> issued_card \<Rightarrow> credit_account \<Rightarrow> bank_db \<Rightarrow> transaction_authorization \<Rightarrow> bool" where
  "fresh_hold nw payload crd a d h \<longleftrightarrow> ta_id h = d_uuid d (d_draws d) \<and> ta_status h \<in> {''PENDING'', ''FLAGGED''}
     \<and> ta_account_id h = ca_id a \<and> ta_card_id h = ic_id crd \<and> ta_billing_amount_cents h = ap_amount_cents payload
     \<and> ta_billing_currency h = ''USD'' \<and> ta_decline_reason h = ''NONE''
     \<and> ta_retrieval_reference_number h = ap_retrieval_reference_number payload"

lemma authorize_hold_cases:
  assumes "authorize_hold nw payload crd a ctx d = (saved, r)"
  obtains (lost) e where "r = Inl e" "saved = d"
  | (kept) e h where "r = Inl e" "d_auths saved = d_auths d @ [h]" "same_money d saved"
      "fresh_hold nw payload crd a d h" "ta_status h = ''FLAGGED''" "d_draws d < d_draws saved"
  | (approved) h d1 a' d2 d' reply where "r = Inr (reply, d')" "d_auths d1 = d_auths d @ [h]" "same_money d d1"
      "fresh_hold nw payload crd a d h" "d_draws d < d_draws d1" "recalculate_available_credit a d1 = Inr (a', d2)"
      "\<exists>t p e v. d' = record_audit_event (nw_clock nw) t p e v d2"
      "ny_action_code reply = ''00''" "ny_status reply = ta_status h" "ny_authorization_id reply = Some (ta_id h)"
proof -
  let ?now = "case ap_created_at payload of Some t \<Rightarrow> t | None \<Rightarrow> nw_clock nw"
  let ?v = "judge nw payload a ctx ?now d"
  obtain h dec d0 where rec: "record_hold nw payload crd a ctx ?now ?v d = (h, dec, d0)" by (metis prod_cases3)
  note re = record_hold_effect [OF rec]
  have fresh: "fresh_hold nw payload crd a d h"
    unfolding fresh_hold_def using re(3) by (subst re(6), simp add: hold_row_def)+
  have flag: "is_flagged ?v \<longleftrightarrow> ta_status h = ''FLAGGED''"
    by (subst re(6)) (simp add: hold_row_def)
  show thesis
  proof (cases "raise_alert nw crd a h dec ?v d d0")
    case (Inl e)
    with assms rec show thesis by (intro lost [of e]) (auto simp: authorize_hold_def Let_def)
  next
    case (Inr out)
    then obtain al d1 sv where al: "raise_alert nw crd a h dec ?v d d0 = Inr (al, d1, sv)" by (metis prod_cases3)
    note ra = raise_alert_frame [OF al]
    have run: "saved = sv" "r = approve_hold nw payload crd a ctx ?v h al d1"
      using assms rec al by (simp_all add: authorize_hold_def Let_def)
    show thesis
    proof (cases "recalculate_available_credit a d1")
      case (Inl e)
      then have e: "r = Inl e" by (simp add: run approve_hold_def)
      show thesis
      proof (cases "sv = d")
        case True
        with e show thesis by (intro lost [of e]) (auto simp: run)
      next
        case False
        with ra(2) have sb: "same_books d0 sv" and "is_flagged ?v" by auto
        then have st: "ta_status h = ''FLAGGED''" using flag by simp
        have au: "d_auths sv = d_auths d0" "d_draws d0 \<le> d_draws sv" using sb by (simp_all add: same_books_def)
        show thesis
          by (rule kept [OF e]) (use au re(1,4) fresh st same_money_trans [OF re(2) same_books_money [OF sb]]
              in \<open>simp_all add: run\<close>)
      qed
    next
      case (Inr p)
      then obtain a' d2 where rc: "recalculate_available_credit a d1 = Inr (a', d2)" by (metis surj_pair)
      have au: "d_auths d1 = d_auths d0" "d_draws d0 \<le> d_draws d1" using ra(1) by (simp_all add: same_books_def)
      obtain reply d' where r: "r = Inr (reply, d')" "\<exists>t p e v. d' = record_audit_event (nw_clock nw) t p e v d2"
        "ny_action_code reply = ''00''" "ny_status reply = ta_status h" "ny_authorization_id reply = Some (ta_id h)"
        unfolding run(2) approve_hold_def rc by simp blast
      show thesis
        by (rule approved [OF r(1) _ _ fresh _ rc r(2-5)])
          (use au re(1,4) same_money_trans [OF re(2) same_books_money [OF ra(1)]] in simp_all)
    qed
  qed
qed

lemma process_authorization_cases:
  assumes "process_authorization nw payload d = (d', r)"
  obtains (duplicate) e where "get_authorization_by_rrn (ap_retrieval_reference_number payload) None d = Some e"
      "d' = d" "r = Inr (duplicate_reply e)"
  | (refused) x y z where "get_authorization_by_rrn (ap_retrieval_reference_number payload) None d = None"
      "authorization_checks payload d = Inl (x, y, z)"
      "d' = refuse nw payload y z d" "r = Inr (declined_reply x y)"
  | (funds) crd a where "get_authorization_by_rrn (ap_retrieval_reference_number payload) None d = None"
      "authorization_checks payload d = Inr (crd, a)" "ca_available_credit_cents a < ap_amount_cents payload"
      "d' = decline_for_funds nw payload crd a (build_authorization_context nw payload) d"
      "r = Inr (declined_reply ''51'' ''INSUFFICIENT_FUNDS'')"
  | (failed) crd a e where "get_authorization_by_rrn (ap_retrieval_reference_number payload) None d = None"
      "authorization_checks payload d = Inr (crd, a)" "ap_amount_cents payload \<le> ca_available_credit_cents a" "r = Inl e"
      "d' = d \<or> (\<exists>h. d_auths d' = d_auths d @ [h] \<and> same_money d d' \<and> d_draws d < d_draws d'
                     \<and> fresh_hold nw payload crd a d h \<and> ta_status h = ''FLAGGED'')"
  | (approved) crd a h d1 a' d2 reply where "get_authorization_by_rrn (ap_retrieval_reference_number payload) None d = None"
      "authorization_checks payload d = Inr (crd, a)" "ap_amount_cents payload \<le> ca_available_credit_cents a"
      "r = Inr reply" "d_auths d1 = d_auths d @ [h]" "same_money d d1"
      "fresh_hold nw payload crd a d h" "d_draws d < d_draws d1" "recalculate_available_credit a d1 = Inr (a', d2)"
      "\<exists>t p e v. d' = record_audit_event (nw_clock nw) t p e v d2"
      "ny_action_code reply = ''00''" "ny_status reply = ta_status h" "ny_authorization_id reply = Some (ta_id h)"
proof (cases "get_authorization_by_rrn (ap_retrieval_reference_number payload) None d")
  case (Some e)
  with assms show thesis by (intro duplicate [of e]) (auto simp: process_authorization_def)
next
  case None
  show thesis
  proof (cases "authorization_checks payload d")
    case (Inl x)
    obtain x1 x2 x3 where x: "x = (x1, x2, x3)" by (metis prod_cases3)
    show thesis
      by (rule refused [OF None Inl [unfolded x]])
        (use assms None Inl in \<open>simp_all add: process_authorization_def x\<close>)
  next
    case (Inr y)
    obtain crd a where y: "y = (crd, a)" by fastforce
    let ?ctx = "build_authorization_context nw payload"
    obtain saved r0 where ah: "authorize_hold nw payload crd a ?ctx d = (saved, r0)" by fastforce
    show thesis
    proof (cases "ca_available_credit_cents a < ap_amount_cents payload")
      case True
      show thesis
        by (rule funds [OF None Inr [unfolded y] True])
          (use assms None Inr True in \<open>simp_all add: process_authorization_def y Let_def\<close>)
    next
      case False
      then have le: "ap_amount_cents payload \<le> ca_available_credit_cents a" by simp
      have pa: "process_authorization nw payload d = (case (saved, r0) of
          (saved, Inl e) \<Rightarrow> (saved, Inl e) | (saved, Inr (reply, d')) \<Rightarrow> (d', Inr reply))"
        using None Inr False by (simp add: process_authorization_def y ah Let_def)
      from ah show thesis
      proof (cases rule: authorize_hold_cases)
        case (lost e)
        with pa assms show thesis by (intro failed [OF None Inr [unfolded y] le, of e]) auto
      next
        case (kept e h)
        show thesis
          by (rule failed [OF None Inr [unfolded y] le, of e]) (use kept pa assms in auto)
      next
        case (approved h d1 a' d2 d'' reply)
        have "r = Inr reply" "d' = d''" using pa approved(1) assms by simp_all
        then show thesis
          by (intro that(5) [OF None Inr [unfolded y] le _ approved(2-6) _ approved(8-10)]) (use approved(7) in simp_all)
      qed
    qed
  qed
qed

section \<open>Properties of authorizations\<close>

lemma authorization_checks_Inr:
  assumes "authorization_checks payload d = Inr (crd, a)"
  shows "get_card_by_token (ap_card_token payload) d = Some crd" "ic_status crd = ''ACTIVE''" "ic_is_active crd"
    "get_credit_account (ic_account_id crd) d = Some a" "ca_status a = ''ACTIVE''" "ca_id a = ic_account_id crd"
  using assms get_credit_account_id [of "ic_account_id crd" d a]
  by (auto simp: authorization_checks_def split: option.splits if_splits)

lemma recalculate_frame:
  assumes "recalculate_available_credit a d = Inr (a', d')"
  shows "d_accounts d' = d_accounts d" "d_cards d' = d_cards d" "d_posted d' = d_posted d" "d_auths d' = d_auths d"
    "d_transactions d' = d_transactions d" "d_entries d' = d_entries d" "d_uuid d' = d_uuid d" "d_draws d' = d_draws d"
    "get_credit_account (ca_id a) d \<noteq> None \<Longrightarrow> get_credit_account (ca_id a) d' = Some a'"
    "hold_total i d' = hold_total i d"
  unfolding recalculate_effect(2) [OF assms]
  using get_put_credit_account [of a' d] recalculate_same(1) [OF assms]
  by (simp_all add: put_credit_account_def hold_total_def)

definition available_current :: "bank_db \<Rightarrow> credit_account \<Rightarrow> bool" where
  "available_current d a \<longleftrightarrow> ca_available_credit_cents a = max 0 (min (ca_credit_limit_cents a)
     (ca_credit_limit_cents a - ca_cleared_balance_cents a - hold_total (ca_id a) d))"

text \<open>C2. An approved authorization never takes an account over its limit: the card and the account are
  active, one hold of the requested amount is added, debt plus all active holds stays within the
  limit, the available credit is brought up to date, and nothing else of the money moves.  Only
  accounts in US dollars can be approved.\<close>

theorem authorization_within_credit:
  assumes "process_authorization nw payload d = (d', Inr reply)" and "ny_action_code reply = ''00''"
    and "get_authorization_by_rrn (ap_retrieval_reference_number payload) None d = None"
    and "0 < ap_amount_cents payload" and "\<forall>a \<in> set (d_credit_accounts d). available_current d a"
  shows "\<exists>crd a a' h. get_card_by_token (ap_card_token payload) d = Some crd
    \<and> ic_status crd = ''ACTIVE'' \<and> ic_is_active crd
    \<and> get_credit_account (ic_account_id crd) d = Some a \<and> ca_status a = ''ACTIVE'' \<and> ca_currency a = ''USD''
    \<and> d_auths d' = d_auths d @ [h] \<and> active_hold (ca_id a) h \<and> ny_authorization_id reply = Some (ta_id h)
    \<and> ta_billing_amount_cents h = ap_amount_cents payload
    \<and> hold_total (ca_id a) d' = hold_total (ca_id a) d + ap_amount_cents payload
    \<and> ca_cleared_balance_cents a + hold_total (ca_id a) d' \<le> ca_credit_limit_cents a
    \<and> get_credit_account (ca_id a) d' = Some a' \<and> available_current d' a'
    \<and> ca_cleared_balance_cents a' = ca_cleared_balance_cents a \<and> ca_credit_limit_cents a' = ca_credit_limit_cents a
    \<and> d_accounts d' = d_accounts d \<and> d_entries d' = d_entries d \<and> d_transactions d' = d_transactions d
    \<and> d_posted d' = d_posted d"
  using assms(1)
proof (cases rule: process_authorization_cases)
  case (approved crd a h d1 a' d2 reply')
  note ch = authorization_checks_Inr [OF approved(2)]
  have get: "get_credit_account (ca_id a) d = Some a" using ch by simp
  have gets: "get_credit_account (ca_id a) d1 = Some a"
    using get approved(6) by (simp add: get_credit_account_def same_money_def)
  note re = recalculate_effect [OF approved(9)] note rs = recalculate_same [OF approved(9)]
  note rf = recalculate_frame [OF approved(9)]
  have act: "active_hold (ca_id a) h"
    using approved(7) by (auto simp: fresh_hold_def active_hold_def ACTIVE_HOLDS_def)
  have amt: "ta_billing_amount_cents h = ap_amount_cents payload" "ta_billing_currency h = ''USD''"
    using approved(7) by (simp_all add: fresh_hold_def)
  have au: "d_auths d' = d_auths d1" using approved(10) rf(4) by (auto simp: frame_simps)
  have holds: "hold_total (ca_id a) d1 = hold_total (ca_id a) d + ap_amount_cents payload"
    using act amt by (simp add: hold_total_def approved(5))
  have ht: "hold_total i d' = hold_total i d1" for i using au by (rule hold_total_cong)
  obtain t where t: "get_pending_auth_total (ca_id a) d1 = Inr t"
    using approved(9) by (auto simp: recalculate_available_credit_def calculate_available_credit_cents_def)
  have "ta_billing_currency h = ca_currency a"
    using pending_total_Inr(4) [OF t, of h a] act gets approved(5) by simp
  then have usd: "ca_currency a = ''USD''" using amt by simp
  have "available_current d a" using assms(5) get_credit_account_id [OF get] by blast
  then have within: "ca_cleared_balance_cents a + hold_total (ca_id a) d1 \<le> ca_credit_limit_cents a"
    using approved(3) assms(4) holds by (auto simp: available_current_def max_def min_def split: if_splits)
  have get': "get_credit_account (ca_id a) d' = Some a'"
    using approved(10) rf(9) gets by (auto simp: frame_simps)
  have cur: "available_current d' a'" by (simp add: available_current_def ht rs re(1))
  have sm: "d_accounts d' = d_accounts d \<and> d_entries d' = d_entries d \<and> d_transactions d' = d_transactions d
    \<and> d_posted d' = d_posted d"
    using approved(6,10) rf by (auto simp: same_money_def frame_simps)
  have id: "ny_authorization_id reply = Some (ta_id h)" using approved(4,13) by simp
  show ?thesis
    by (rule exI [of _ crd], rule exI [of _ a], rule exI [of _ a'], rule exI [of _ h], intro conjI)
      (use ch usd act amt id holds within ht get' cur rs sm approved(5) au in simp_all)
qed (use assms(2,3) in \<open>auto simp: declined_reply_def authorization_checks_def split: option.splits if_splits\<close>)

definition sample_network :: network where
  "sample_network =
     \<lparr>nw_clock = 9, nw_auth_code = 123456, nw_scoring = sample_resources, nw_service = DEFAULT_SCORING,
      nw_stores = Some []\<rparr>"

definition sample_swipe :: auth_payload where
  "sample_swipe = sample_auth_payload\<lparr>ap_card_token := ''tok_1'', ap_retrieval_reference_number := ''RRN9'',
     ap_amount_cents := 2500, ap_risk_score := Some 5\<rparr>"

lemma sample_current: "\<forall>a \<in> set (d_credit_accounts sample_db). available_current sample_db a"
  by (simp add: available_current_def sample_db_def sample_card_account_def hold_total_def)

lemma judge_override:
  assumes "ap_risk_score payload = Some r"
  shows "fd_score (judge nw payload a ctx now d) = max 0 (min 100 r)"
    "is_flagged (judge nw payload a ctx now d) \<longleftrightarrow> ss_flag_threshold (nw_service nw) < max 0 (min 100 r)"
proof -
  have o: "f_has_risk_score_override (extract_authorization_features res clock
      (payload\<lparr>ap_created_at := Some now\<rparr>) ctx recent acc)" for res clock recent acc
    using assms by (simp add: extract_authorization_features_def Let_def split: prod.split)
  show "fd_score (judge nw payload a ctx now d) = max 0 (min 100 r)"
    "is_flagged (judge nw payload a ctx now d) \<longleftrightarrow> ss_flag_threshold (nw_service nw) < max 0 (min 100 r)"
    unfolding judge_def evaluate_authorization_def Let_def
    by (simp_all add: o assms is_flagged_def)
qed

lemma recalculate_runs:
  assumes "get_credit_account (ca_id a) d = Some a0" "ca_currency a0 = c" "CURRENCY_EXPONENTS c \<noteq> None"
    and "\<forall>h \<in> set (d_auths d). active_hold (ca_id a) h \<longrightarrow>
       0 \<le> ta_billing_amount_cents h \<and> ta_billing_amount_cents h \<le> MAX_MINOR \<and> ta_billing_currency h = c"
    and "hold_total (ca_id a) d \<le> MAX_MINOR"
  shows "\<exists>a' d'. recalculate_available_credit a d = Inr (a', d')"
proof -
  let ?hs = "map (\<lambda>h. (ta_billing_amount_cents h, ta_billing_currency h)) (filter (active_hold (ca_id a)) (d_auths d))"
  have "sum_holds c ?hs 0 = Inr (0 + sum_list (map fst ?hs))"
    by (rule sum_holds_complete) (use assms(3,4) in auto)
  moreover have "map fst ?hs = map ta_billing_amount_cents (filter (active_hold (ca_id a)) (d_auths d))" by simp
  ultimately have sum: "sum_holds c ?hs 0 = Inr (hold_total (ca_id a) d)" by (simp only: hold_total_def add_0)
  have "0 \<le> hold_total (ca_id a) d"
    unfolding hold_total_def by (rule sum_list_nonneg_int) (use assms(4) in auto)
  then have money: "mk_money (hold_total (ca_id a) d) c = Inr \<lparr>amount_minor = hold_total (ca_id a) d, currency_code = c\<rparr>"
    using assms(3,5) by (simp add: mk_money_def MAX_MINOR_def)
  have "get_pending_auth_total (ca_id a) d = Inr (hold_total (ca_id a) d)"
    using sum money by (simp only: get_pending_auth_total_def assms(1,2) option.case Let_def bindR_simps money.simps)
  then show ?thesis by (simp add: recalculate_available_credit_def calculate_available_credit_cents_def Let_def)
qed

lemma authorize_unflagged:
  assumes "\<not> is_flagged (judge nw payload a ctx (case ap_created_at payload of Some t \<Rightarrow> t | None \<Rightarrow> nw_clock nw) d)"
    and "get_credit_account (ca_id a) d = Some a" "ca_currency a = ''USD''" "d_auths d = []"
    and "0 < ap_amount_cents payload" "ap_amount_cents payload \<le> MAX_MINOR"
  shows "\<exists>saved reply d'. authorize_hold nw payload crd a ctx d = (saved, Inr (reply, d'))
     \<and> ny_action_code reply = ''00'' \<and> ny_status reply = ''PENDING''"
proof -
  let ?now = "case ap_created_at payload of Some t \<Rightarrow> t | None \<Rightarrow> nw_clock nw"
  let ?v = "judge nw payload a ctx ?now d"
  obtain h dec d0 where rec: "record_hold nw payload crd a ctx ?now ?v d = (h, dec, d0)" by (metis prod_cases3)
  note re = record_hold_effect [OF rec]
  have al: "raise_alert nw crd a h dec ?v d d0 = Inr (None, d0, d)" using assms(1) by (simp add: raise_alert_def)
  have h: "ta_billing_amount_cents h = ap_amount_cents payload" "ta_billing_currency h = ''USD''" "ta_status h = ''PENDING''"
    by (subst re(6), simp add: hold_row_def assms(1))+
  have get0: "get_credit_account (ca_id a) d0 = Some a"
    using assms(2) re(2) by (simp add: get_credit_account_def same_money_def)
  have "hold_total (ca_id a) d0 \<le> MAX_MINOR"
    using assms(5,6) by (simp add: hold_total_def re(1) assms(4) h)
  then have "\<exists>a' d'. recalculate_available_credit a d0 = Inr (a', d')"
    using assms(3,5,6) get0 by (intro recalculate_runs [of a d0 a "''USD''"])
      (simp_all add: re(1) assms(4) h CURRENCY_EXPONENTS_def)
  then obtain a' d' where r: "recalculate_available_credit a d0 = Inr (a', d')" by blast
  show ?thesis
    using rec al r h(3) by (simp add: authorize_hold_def Let_def approve_hold_def)
qed

lemma sample_authorized:
  "\<exists>d' reply. process_authorization sample_network sample_swipe sample_db = (d', Inr reply)
     \<and> ny_action_code reply = ''00'' \<and> ny_status reply = ''PENDING''"
proof -
  have none: "get_authorization_by_rrn (ap_retrieval_reference_number sample_swipe) None sample_db = None"
    by (simp add: get_authorization_by_rrn_def sample_db_def)
  have checks: "authorization_checks sample_swipe sample_db = Inr (sample_card, sample_card_account)"
    by (simp add: authorization_checks_def get_card_by_token_def get_credit_account_def sample_db_def
        sample_swipe_def sample_card_def sample_card_account_def)
  have flag: "\<not> is_flagged (judge sample_network sample_swipe sample_card_account ctx now sample_db)" for ctx now
    by (subst judge_override(2) [of _ 5]) (simp_all add: sample_swipe_def sample_network_def DEFAULT_SCORING_def)
  have avail: "\<not> ca_available_credit_cents sample_card_account < ap_amount_cents sample_swipe"
    by (simp add: sample_card_account_def sample_swipe_def)
  have get: "get_credit_account (ca_id sample_card_account) sample_db = Some sample_card_account"
    by (simp add: get_credit_account_def sample_db_def)
  have usd: "ca_currency sample_card_account = ''USD''" by (simp add: sample_card_account_def)
  have empty: "d_auths sample_db = []" by (simp add: sample_db_def)
  have amt: "0 < ap_amount_cents sample_swipe" "ap_amount_cents sample_swipe \<le> MAX_MINOR"
    by (simp_all add: sample_swipe_def MAX_MINOR_def)
  from authorize_unflagged [OF flag get usd empty amt] obtain sv reply d' where
    "authorize_hold sample_network sample_swipe sample_card sample_card_account
       (build_authorization_context sample_network sample_swipe) sample_db = (sv, Inr (reply, d'))"
    "ny_action_code reply = ''00''" "ny_status reply = ''PENDING''"
    by blast
  with none checks avail show ?thesis by (simp add: process_authorization_def Let_def)
qed

theorem authorization_within_credit_witness:
  "\<exists>a'. get_credit_account ''CR1'' (fst (process_authorization sample_network sample_swipe sample_db)) = Some a'
     \<and> hold_total ''CR1'' (fst (process_authorization sample_network sample_swipe sample_db)) = 2500"
proof -
  obtain d' reply where r: "process_authorization sample_network sample_swipe sample_db = (d', Inr reply)"
      "ny_action_code reply = ''00''"
    using sample_authorized by blast
  have none: "get_authorization_by_rrn (ap_retrieval_reference_number sample_swipe) None sample_db = None"
    by (simp add: get_authorization_by_rrn_def sample_db_def)
  have amt: "ap_amount_cents sample_swipe = 2500" by (simp add: sample_swipe_def)
  have crd: "get_card_by_token (ap_card_token sample_swipe) sample_db = Some sample_card"
    by (simp add: get_card_by_token_def sample_db_def sample_swipe_def sample_card_def)
  obtain c a a' where c: "get_card_by_token (ap_card_token sample_swipe) sample_db = Some c"
    "get_credit_account (ic_account_id c) sample_db = Some a" "get_credit_account (ca_id a) d' = Some a'"
    "hold_total (ca_id a) d' = hold_total (ca_id a) sample_db + 2500"
    using authorization_within_credit [OF r none _ sample_current] unfolding amt by auto
  have "ca_id a = ''CR1''"
  proof -
    have "c = sample_card" using c(1) crd by simp
    then show ?thesis using get_credit_account_id [OF c(2)] by (simp add: sample_card_def)
  qed
  moreover have "hold_total ''CR1'' sample_db = 0" by (simp add: hold_total_def sample_db_def)
  ultimately show ?thesis using c(3,4) by (simp add: r)
qed

text \<open>C5. A swipe is decided once: after an approved authorization, any request with the same reference
  number changes nothing and answers with the recorded authorization; its action code is 00 only
  while the hold is pending (a hold that was approved as flagged answers 51).\<close>

theorem authorization_replay:
  assumes "process_authorization nw payload d = (d', Inr reply)" and "ny_action_code reply = ''00''"
    and "get_authorization_by_rrn (ap_retrieval_reference_number payload) None d = None"
    and "ap_retrieval_reference_number payload' = ap_retrieval_reference_number payload"
  shows "\<exists>again. process_authorization nw' payload' d' = (d', Inr again)
    \<and> ny_authorization_id again = ny_authorization_id reply \<and> ny_status again = ny_status reply
    \<and> ny_decline_reason again = ''NONE''
    \<and> (ny_action_code again = ''00'' \<longleftrightarrow> ny_status reply = ''PENDING'')
    \<and> (ny_action_code again = ''51'' \<longleftrightarrow> ny_status reply = ''FLAGGED'')"
  using assms(1)
proof (cases rule: process_authorization_cases)
  case (approved crd a h d1 a' d2 reply')
  have au: "d_auths d' = d_auths d @ [h]"
    using approved(5,10) recalculate_frame(4) [OF approved(9)] by (auto simp: frame_simps)
  have fr: "ta_retrieval_reference_number h = ap_retrieval_reference_number payload" "ta_decline_reason h = ''NONE''"
    "ta_status h \<in> {''PENDING'', ''FLAGGED''}"
    using approved(7) by (simp_all add: fresh_hold_def)
  have "get_authorization_by_rrn (ap_retrieval_reference_number payload') None d' = Some h"
    using assms(3,4) fr(1) by (simp add: get_authorization_by_rrn_def au find_append)
  then have "process_authorization nw' payload' d' = (d', Inr (duplicate_reply h))"
    by (simp add: process_authorization_def)
  then show ?thesis
    using approved(4,12,13) fr by (auto simp: duplicate_reply_def)
qed (use assms(2,3) in \<open>auto simp: declined_reply_def authorization_checks_def split: option.splits if_splits\<close>)

theorem authorization_replay_witness:
  "\<exists>d' reply again. process_authorization sample_network sample_swipe sample_db = (d', Inr reply)
     \<and> process_authorization sample_network sample_swipe d' = (d', Inr again)
     \<and> ny_authorization_id again = ny_authorization_id reply \<and> ny_action_code again = ''00''"
proof -
  obtain d' reply where r: "process_authorization sample_network sample_swipe sample_db = (d', Inr reply)"
      "ny_action_code reply = ''00''" "ny_status reply = ''PENDING''"
    using sample_authorized by blast
  have none: "get_authorization_by_rrn (ap_retrieval_reference_number sample_swipe) None sample_db = None"
    by (simp add: get_authorization_by_rrn_def sample_db_def)
  from authorization_replay [OF r(1,2) none refl, of sample_network] r show ?thesis by blast
qed

text \<open>C4. A failed authorization moves no money.  It leaves the state as it was, or, when the fraud alert
  it opened had already been committed, it leaves one flagged hold behind whose reference number is
  then answered as a duplicate.\<close>

theorem failed_authorization_effect:
  assumes "process_authorization nw payload d = (d', Inl e)"
  shows "same_money d d' \<and> (d' = d \<or>
    (\<exists>h. d_auths d' = d_auths d @ [h] \<and> ta_status h = ''FLAGGED''
       \<and> ta_billing_amount_cents h = ap_amount_cents payload
       \<and> process_authorization nw' payload d' = (d', Inr (duplicate_reply h))))"
  using assms
proof (cases rule: process_authorization_cases)
  case (failed crd a e')
  have "same_money d d" by (simp add: same_money_def)
  moreover have "process_authorization nw' payload d' = (d', Inr (duplicate_reply h))"
    if "d_auths d' = d_auths d @ [h]" "fresh_hold nw payload crd a d h" for h
    using that failed(1)
    by (simp add: process_authorization_def get_authorization_by_rrn_def find_append fresh_hold_def)
  ultimately show ?thesis using failed(5) by (fastforce simp: fresh_hold_def)
qed simp_all

text \<open>An account in another currency and a suspicious swipe: the alert is committed, the swipe fails.\<close>

definition sample_mxn_db :: bank_db where
  "sample_mxn_db = sample_db\<lparr>d_credit_accounts := [sample_card_account\<lparr>ca_currency := ''MXN''\<rparr>]\<rparr>"

definition sample_loud_swipe :: auth_payload where
  "sample_loud_swipe = sample_swipe\<lparr>ap_risk_score := Some 90\<rparr>"

lemma sample_loud_fails:
  "\<exists>d' e h. process_authorization sample_network sample_loud_swipe sample_mxn_db = (d', Inl e) \<and> d_auths d' = [h]"
proof -
  let ?a = "sample_card_account\<lparr>ca_currency := ''MXN''\<rparr>" let ?d = sample_mxn_db
  let ?p = sample_loud_swipe let ?ctx = "build_authorization_context sample_network sample_loud_swipe"
  let ?now = "case ap_created_at ?p of Some t \<Rightarrow> t | None \<Rightarrow> nw_clock sample_network"
  let ?v = "judge sample_network ?p ?a ?ctx ?now ?d"
  have r90: "ap_risk_score ?p = Some 90" and amt: "ap_amount_cents ?p = 2500" and caid: "ca_id ?a = ''CR1''"
    by (simp_all add: sample_loud_swipe_def sample_swipe_def sample_card_account_def)
  have flag: "is_flagged ?v" "fd_score ?v = 90"
    unfolding judge_override [OF r90] by (simp_all add: sample_network_def DEFAULT_SCORING_def)
  obtain h dec d0 where rec: "record_hold sample_network ?p sample_card ?a ?ctx ?now ?v ?d = (h, dec, d0)"
    by (metis prod_cases3)
  note re = record_hold_effect [OF rec]
  have h: "ta_billing_amount_cents h = 2500" "ta_billing_currency h = ''USD''" "ta_status h = ''FLAGGED''"
      "ta_transaction_amount_cents h = 2500" "ta_transaction_currency h = ''USD''" "ta_account_id h = ''CR1''"
    by (subst re(6), simp add: hold_row_def flag amt caid)+
  have thr: "ss_alerts_enabled (nw_service sample_network)" "ss_alert_threshold (nw_service sample_network) = 70"
    by (simp_all add: sample_network_def DEFAULT_SCORING_def)
  have user: "get_user_by_id (ca_customer_id sample_card_account) d0 = Some sample_customer"
    by (simp add: get_user_by_id_def re(5) sample_mxn_db_def sample_db_def sample_card_account_def sample_customer_def)
  have "\<exists>f. authorization_fact h = Inr f"
    by (simp add: authorization_fact_def authorization_money_facts_def h mk_money_def MAX_MINOR_def CURRENCY_EXPONENTS_def)
  moreover have none: "get_open_alert_for_account (ca_id ?a) d0 = None" if "d_alerts d0 = []"
    by (simp add: get_open_alert_for_account_def that)
  moreover have al0: "d_alerts d0 = []"
    using record_hold_alerts [OF rec] by (simp add: sample_mxn_db_def sample_db_def)
  ultimately obtain item where "create_or_update_alert_from_model_decision (nw_clock sample_network) sample_customer
      sample_card ?a h dec ?d d0
      = Inr (open_model_alert (nw_clock sample_network) sample_customer sample_card ?a h dec item d0)"
    by (auto simp: create_or_update_alert_from_model_decision_def Let_def)
  moreover obtain out d1 sv where op: "open_model_alert (nw_clock sample_network) sample_customer sample_card ?a h dec item d0
      = (out, d1, sv)" by (metis prod_cases3)
  ultimately have al: "raise_alert sample_network sample_card ?a h dec ?v ?d d0 = Inr (Some out, d1, sv)"
    by (simp add: raise_alert_def flag user thr)
  have au: "d_auths d1 = [h]" "d_auths sv = [h]" "d_credit_accounts d1 = [?a]"
    using open_model_alert_auths [OF op] re(1,2)
    by (simp_all add: sample_mxn_db_def sample_db_def same_money_def)
  have "recalculate_available_credit ?a d1 = Inl (ValueError ''Authorization billing Money does not match the account'')"
    by (simp add: recalculate_available_credit_def calculate_available_credit_cents_def get_pending_auth_total_def
        get_credit_account_def au active_hold_def ACTIVE_HOLDS_def h mk_money_def MAX_MINOR_def CURRENCY_EXPONENTS_def
        sample_card_account_def)
  then have "\<exists>e. authorize_hold sample_network ?p sample_card ?a ?ctx ?d = (sv, Inl e)"
    by (simp add: authorize_hold_def rec al Let_def approve_hold_def)
  moreover have "get_authorization_by_rrn (ap_retrieval_reference_number ?p) None ?d = None"
    by (simp add: get_authorization_by_rrn_def sample_mxn_db_def sample_db_def)
  moreover have "authorization_checks ?p ?d = Inr (sample_card, ?a)"
    by (simp add: authorization_checks_def get_card_by_token_def get_credit_account_def sample_mxn_db_def sample_db_def
        sample_loud_swipe_def sample_swipe_def sample_card_def sample_card_account_def)
  moreover have "\<not> ca_available_credit_cents ?a < ap_amount_cents ?p"
    by (simp add: sample_card_account_def sample_loud_swipe_def sample_swipe_def)
  ultimately show ?thesis using au(2) by (auto simp: process_authorization_def Let_def)
qed

theorem failed_authorization_effect_witness:
  "\<exists>d' e h. process_authorization sample_network sample_loud_swipe sample_mxn_db = (d', Inl e)
     \<and> d_auths d' = [h] \<and> ta_status h = ''FLAGGED''"
proof -
  obtain d' e h where r: "process_authorization sample_network sample_loud_swipe sample_mxn_db = (d', Inl e)"
    "d_auths d' = [h]" using sample_loud_fails by blast
  from failed_authorization_effect [OF r(1), of sample_network] r(2) have "ta_status h = ''FLAGGED''"
    by (auto simp: sample_mxn_db_def sample_db_def)
  with r show ?thesis by blast
qed

section \<open>Properties of reversals and settlements\<close>

lemma active_rrn:
  assumes "get_authorization_by_rrn rrn (Some [''PENDING'', ''FLAGGED'']) d = Some h"
  shows "h \<in> set (d_auths d)" "ta_status h \<in> set ACTIVE_HOLDS" "ta_retrieval_reference_number h = rrn"
  using find_Some_iff' [OF assms [unfolded get_authorization_by_rrn_def]] by (auto simp: ACTIVE_HOLDS_def)

text \<open>A reversal releases exactly one active hold: its row becomes REVERSED, the account's holds fall by
  its billed amount, the returned available credit is the up-to-date one, and the debt, the journal
  and the statement stay as they were.  A reversal that raises changes nothing.\<close>

theorem reversal_releases_hold:
  assumes "process_reversal now rrn reason d = (d', Inr avail)" and "distinct (map ta_id (d_auths d))"
  shows "\<exists>h a a'. h \<in> set (d_auths d) \<and> ta_retrieval_reference_number h = rrn \<and> ta_status h \<in> {''PENDING'', ''FLAGGED''}
    \<and> d_auths d' = put_row ta_id (h\<lparr>ta_status := ''REVERSED''\<rparr>) (d_auths d)
    \<and> get_credit_account (ta_account_id h) d = Some a \<and> get_credit_account (ta_account_id h) d' = Some a'
    \<and> hold_total (ca_id a) d' = hold_total (ca_id a) d - ta_billing_amount_cents h
    \<and> (\<forall>i. i \<noteq> ca_id a \<longrightarrow> hold_total i d' = hold_total i d)
    \<and> a' = a\<lparr>ca_available_credit_cents := avail\<rparr> \<and> available_current d' a'
    \<and> d_accounts d' = d_accounts d \<and> d_entries d' = d_entries d \<and> d_transactions d' = d_transactions d
    \<and> d_posted d' = d_posted d"
proof -
  have run: "reversal_body now rrn reason d = Inr (avail, d')"
    using assms(1) by (auto simp: process_reversal_def atomically_def split: sum.splits)
  obtain h where h: "get_authorization_by_rrn rrn (Some [''PENDING'', ''FLAGGED'']) d = Some h"
    using run by (auto simp: reversal_body_def split: option.splits)
  note ah = active_rrn [OF h]
  let ?d1 = "put_auth (h\<lparr>ta_status := ''REVERSED''\<rparr>) d"
  obtain a where a: "get_credit_account (ta_account_id h) d = Some a"
    using run h by (auto simp: reversal_body_def Let_def put_auth_frame split: option.splits)
  obtain a' d2 where rc: "recalculate_available_credit a ?d1 = Inr (a', d2)" and av: "avail = ca_available_credit_cents a'"
    and d': "\<exists>t p e v. d' = record_audit_event now t p e v d2"
    using run h a by (auto simp: reversal_body_def Let_def put_auth_frame) blast
  have aid: "ca_id a = ta_account_id h" using get_credit_account_id [OF a] by simp
  note re = recalculate_effect [OF rc] note rf = recalculate_frame [OF rc]
  have au: "d_auths d' = put_row ta_id (h\<lparr>ta_status := ''REVERSED''\<rparr>) (d_auths d)"
    using d' rf(4) by (auto simp: frame_simps put_auth_def)
  have ht: "hold_total i d' = hold_total i ?d1" for i
    by (rule hold_total_cong) (simp add: au put_auth_def)
  have ht1: "hold_total i ?d1 = hold_total i d - (if ta_account_id h = i then ta_billing_amount_cents h else 0)" for i
    by (rule end_hold_total [OF assms(2) ah(1,2)]) (simp add: ACTIVE_HOLDS_def)
  have ga: "get_credit_account (ta_account_id h) d' = Some a'"
    using d' rf(9) a aid by (auto simp: frame_simps put_auth_frame)
  have same: "d_accounts d' = d_accounts d" "d_entries d' = d_entries d" "d_transactions d' = d_transactions d"
    "d_posted d' = d_posted d" using d' rf by (auto simp: frame_simps put_auth_frame)
  have upd: "a' = a\<lparr>ca_available_credit_cents := avail\<rparr>" using re(1) by (simp add: av)
  have cur: "available_current d' a'"
    by (simp add: available_current_def ht re(1))
  have st: "ta_status h \<in> {''PENDING'', ''FLAGGED''}" using ah(2) by (simp add: ACTIVE_HOLDS_def)
  show ?thesis
    by (rule exI [of _ h], rule exI [of _ a], rule exI [of _ a'], intro conjI)
      (use ah st au a ga ht ht1 aid upd cur same in simp_all)
qed

definition sample_held_db :: bank_db where
  "sample_held_db = sample_db\<lparr>d_auths := [sample_hold]\<rparr>"

theorem reversal_releases_hold_witness:
  "\<exists>d' avail. process_reversal 300 ''RRN1'' None sample_held_db = (d', Inr avail) \<and> hold_total ''CR1'' d' = 0"
proof -
  have h: "get_authorization_by_rrn ''RRN1'' (Some [''PENDING'', ''FLAGGED'']) sample_held_db = Some sample_hold"
    by (simp add: get_authorization_by_rrn_def sample_held_db_def sample_hold_def)
  have a: "get_credit_account (ta_account_id sample_hold) sample_held_db = Some sample_card_account"
    by (simp add: get_credit_account_def sample_held_db_def sample_db_def sample_hold_def sample_card_account_def)
  have "\<exists>a' d'. recalculate_available_credit sample_card_account
      (put_auth (sample_hold\<lparr>ta_status := ''REVERSED''\<rparr>) sample_held_db) = Inr (a', d')"
    by (rule recalculate_runs [of _ _ sample_card_account "''USD''"])
      (simp_all add: put_auth_def sample_held_db_def sample_db_def get_credit_account_def sample_card_account_def
        CURRENCY_EXPONENTS_def active_hold_def ACTIVE_HOLDS_def sample_hold_def hold_total_def MAX_MINOR_def)
  then obtain d' avail where r: "process_reversal 300 ''RRN1'' None sample_held_db = (d', Inr avail)"
    by (auto simp: process_reversal_def atomically_def reversal_body_def h a put_auth_frame Let_def)
  have "distinct (map ta_id (d_auths sample_held_db))" by (simp add: sample_held_db_def)
  from reversal_releases_hold [OF r this] obtain h a where
    "h \<in> set (d_auths sample_held_db)" "get_credit_account (ta_account_id h) sample_held_db = Some a"
    "hold_total (ca_id a) d' = hold_total (ca_id a) sample_held_db - ta_billing_amount_cents h" by blast
  moreover from this have "h = sample_hold" by (simp add: sample_held_db_def)
  moreover have "hold_total ''CR1'' sample_held_db = 4200"
    by (simp add: hold_total_def sample_held_db_def active_hold_def ACTIVE_HOLDS_def sample_hold_def)
  ultimately have "hold_total ''CR1'' d' = 0"
    using get_credit_account_id [OF a] a by (simp add: sample_hold_def sample_card_account_def)
  with r show ?thesis by blast
qed

definition settlement_line ::
    "string \<Rightarrow> network \<Rightarrow> settlement_payload \<Rightarrow> transaction_authorization \<Rightarrow> credit_account \<Rightarrow> journal_posting
     \<Rightarrow> posted_transaction" where
  "settlement_line i nw payload h a p =
     \<lparr>pt_id = i, pt_account_id = ca_id a, pt_authorization_id = Some (ta_id h),
      pt_journal_transaction_id = Some (tx_id (jp_transaction p)), pt_auth_code = Some (ta_auth_code h),
      pt_retrieval_reference_number = Some (sl_retrieval_reference_number payload),
      pt_amount_cents = - sl_amount_cents payload,
      pt_description = kp_description (settlement_posting nw payload h a),
      pt_posted_at = kp_posted_at (settlement_posting nw payload h a)\<rparr>"

lemma process_settlement_steps:
  assumes "process_settlement nw payload d = (d', Inr reply)"
  obtains h a j p d1 i d2 d3 a2 d4 where "0 < sl_amount_cents payload"
    "get_authorization_by_rrn (sl_retrieval_reference_number payload) (Some [''PENDING'', ''FLAGGED'']) d = Some h"
    "get_credit_account (ta_account_id h) d = Some a"
    "post_card_journal (nw_clock nw) (settlement_posting nw payload h a) a (put_auth (h\<lparr>ta_status := ''SETTLED''\<rparr>) d) = Inr (j, p, d1)"
    "uuid4 d1 = (i, d2)" "add_posted_transaction (settlement_line i nw payload h a p) d2 = Inr d3"
    "recalculate_available_credit (a\<lparr>ca_cleared_balance_cents := ca_cleared_balance_cents a + sl_amount_cents payload\<rparr>)
       (put_credit_account (a\<lparr>ca_cleared_balance_cents := ca_cleared_balance_cents a + sl_amount_cents payload\<rparr>) d3) = Inr (a2, d4)"
    "\<exists>t y e v. d' = record_audit_event (nw_clock nw) t y e v (update_account (level_mirror a2) (ac_id j) d4)"
proof -
  obtain h a where g: "0 < sl_amount_cents payload"
    "get_authorization_by_rrn (sl_retrieval_reference_number payload) (Some [''PENDING'', ''FLAGGED'']) d = Some h"
    "get_credit_account (ta_account_id h) d = Some a"
    and body: "settle_body nw payload h a (put_auth (h\<lparr>ta_status := ''SETTLED''\<rparr>) d) = Inr (reply, d')"
    using assms
    by (auto simp: process_settlement_def atomically_def Let_def put_auth_frame split: sum.splits if_splits option.splits)
  from body show thesis
    unfolding settle_body_def Let_def
  proof (elim run_elims, goal_cases)
    case (1 j jp p d1 i d2 d3 a2 d4)
    have fin: "\<exists>t y e v. d' = record_audit_event (nw_clock nw) t y e v (update_account (level_mirror a2) (ac_id j) d4)"
      using 1(6) by auto
    show ?case
      by (rule that [OF g 1(1) [unfolded 1(2)] 1(3) 1(4) [folded settlement_line_def] 1(5) fin])
  qed
qed

text \<open>C3. A settlement moves exactly its amount: one active hold becomes SETTLED and stops counting, the
  debt grows by the amount, the available credit is recomputed, the card's journal mirror is level
  with the card account and its journal position falls by the amount, one statement line records the
  charge, and the books stay in order.\<close>

theorem settlement_moves_debt:
  assumes ok: "books_ok d" "mirror_numbers_ok d" "distinct (map ta_id (d_auths d))"
    and run: "process_settlement nw payload d = (d', Inr reply)"
    and new: "List.find (\<lambda>t. tx_idempotency_key t = ''card-settlement:'' @ sl_retrieval_reference_number payload)
       (d_transactions d) = None"
  shows "\<exists>h a a' j line. let n = sl_amount_cents payload in
      h \<in> set (d_auths d) \<and> ta_retrieval_reference_number h = sl_retrieval_reference_number payload
    \<and> ta_status h \<in> {''PENDING'', ''FLAGGED''} \<and> 0 < n
    \<and> d_auths d' = put_row ta_id (h\<lparr>ta_status := ''SETTLED''\<rparr>) (d_auths d)
    \<and> get_credit_account (ta_account_id h) d = Some a \<and> get_credit_account (ta_account_id h) d' = Some a'
    \<and> hold_total (ca_id a) d' = hold_total (ca_id a) d - ta_billing_amount_cents h
    \<and> a' = a\<lparr>ca_cleared_balance_cents := ca_cleared_balance_cents a + n,
             ca_available_credit_cents := ca_available_credit_cents a'\<rparr> \<and> available_current d' a'
    \<and> get_account (ac_id j) d' = Some j \<and> ac_credit_account_id j = Some (ca_id a)
    \<and> ac_cleared_balance_cents j = ca_cleared_balance_cents a'
    \<and> ac_available_credit_cents j = ca_available_credit_cents a'
    \<and> position (ac_id j) (d_entries d') = position (ac_id j) (d_entries d) - n
    \<and> d_posted d' = d_posted d @ [line] \<and> pt_amount_cents line = - n \<and> pt_account_id line = ca_id a
    \<and> pt_authorization_id line = Some (ta_id h) \<and> books_ok d'"
proof (cases rule: process_settlement_steps [OF run])
  case (1 h a j p d1 i d2 d3 a2 d4)
  note ah = active_rrn [OF 1(2)]
  let ?n = "sl_amount_cents payload" let ?d0 = "put_auth (h\<lparr>ta_status := ''SETTLED''\<rparr>) d"
  let ?a1 = "a\<lparr>ca_cleared_balance_cents := ca_cleared_balance_cents a + ?n\<rparr>"
  have aid: "ca_id a = ta_account_id h" using get_credit_account_id [OF 1(3)] by simp
  have pre: "books_ok ?d0" "mirror_numbers_ok ?d0" "get_credit_account (ca_id a) ?d0 = Some a"
    using ok 1(3) aid by (simp_all add: put_auth_frame mirror_numbers_ok_def)
  have sys: "take 5 (kp_clearing (settlement_posting nw payload h a)) \<noteq> CARD_PREFIX"
      "5 \<le> length (kp_clearing (settlement_posting nw payload h a))"
    by (simp_all add: settlement_posting_def CARD_PREFIX_def)
  have key: "List.find (\<lambda>t. tx_idempotency_key t = kp_key (settlement_posting nw payload h a)) (d_transactions ?d0) = None"
    using new by (simp add: settlement_posting_def put_auth_frame)
  note pj = post_card_journal_effect [OF pre sys key 1(4)]
  have charge: "kp_charge (settlement_posting nw payload h a)" "kp_amount_minor (settlement_posting nw payload h a) = ?n"
    by (simp_all add: settlement_posting_def)
  note u = uuid4_frame [OF 1(5)] note pf = posted_frame [OF 1(6)]
  have ok3: "books_ok d3" by (rule books_frame_put_posted [OF u(10) [OF pj(1)] 1(6)])
  have c3: "get_credit_account (ca_id a) d3 = Some a"
    using pre(3) by (simp add: get_credit_account_def pf u pj(5))
  have j3: "get_account (ac_id j) d3 = Some j" using pj(3) by (simp add: get_account_def pf u)
  have okp: "books_ok (put_credit_account ?a1 d3)"
    by (rule books_put_credit_account [OF ok3, of _ a]) (simp_all add: c3)
  note r = recalculate_effect [OF 1(7)] note rs = recalculate_same [OF 1(7)]
  have cp: "get_credit_account (ca_id a2) (put_credit_account ?a1 d3) = Some ?a1"
    using get_put_credit_account [of ?a1 d3] c3 rs(1) by simp
  have jp: "get_account (ac_id j) (put_credit_account ?a1 d3) = Some j" by (simp add: frame_simps j3)
  note mv = move_debt_effect [OF okp cp _ _ jp, folded r(2)]
  have mv': "books_ok (update_account (level_mirror a2) (ac_id j) d4)"
      "get_credit_account (ca_id a2) (update_account (level_mirror a2) (ac_id j) d4) = Some a2"
      "get_account (ac_id j) (update_account (level_mirror a2) (ac_id j) d4) = Some (level_mirror a2 j)"
    using mv(1,2) mv(3) [of "ac_id j"] rs by simp_all
  let ?d5 = "update_account (level_mirror a2) (ac_id j) d4"
  have same5: "d_auths ?d5 = d_auths d3" "d_posted ?d5 = d_posted d3" "d_entries ?d5 = d_entries d3"
    using mv(4,6,7) rs by (simp_all add: put_credit_account_def)
  have au: "d_auths d' = put_row ta_id (h\<lparr>ta_status := ''SETTLED''\<rparr>) (d_auths d)"
    using 1(8) same5 by (auto simp: frame_simps pf u pj(6)) (simp_all add: put_auth_def)
  have ht: "hold_total k d' = hold_total k d - (if ta_account_id h = k then ta_billing_amount_cents h else 0)" for k
  proof -
    have "hold_total k d' = hold_total k ?d0" by (rule hold_total_cong) (simp add: au put_auth_def)
    also have "\<dots> = hold_total k d - (if ta_account_id h = k then ta_billing_amount_cents h else 0)"
      by (rule end_hold_total [OF ok(3) ah(1,2)]) (simp add: ACTIVE_HOLDS_def)
    finally show ?thesis .
  qed
  have hp: "hold_total (ca_id a) (put_credit_account ?a1 d3) = hold_total (ca_id a) d'"
    by (rule hold_total_cong) (simp add: au put_credit_account_def pf u pj(6), simp add: put_auth_def)
  have ga: "get_credit_account (ta_account_id h) d' = Some a2"
    using 1(8) mv'(2) rs(1) aid by (auto simp: frame_simps)
  have gj: "get_account (ac_id (level_mirror a2 j)) d' = Some (level_mirror a2 j)"
    using 1(8) mv'(3) by (auto simp: frame_simps)
  have es: "d_entries d' = d_entries d1" using 1(8) same5 by (auto simp: frame_simps pf u)
  have pos: "position (ac_id (level_mirror a2 j)) (d_entries d') = position (ac_id (level_mirror a2 j)) (d_entries d) - ?n"
    using pj(15) charge by (simp add: es put_auth_frame)
  have po: "d_posted d' = d_posted d @ [settlement_line i nw payload h a p]"
    using 1(8) same5 by (auto simp: frame_simps pf u pj(7) put_auth_frame)
  have upd: "a2 = a\<lparr>ca_cleared_balance_cents := ca_cleared_balance_cents a + ?n,
             ca_available_credit_cents := ca_available_credit_cents a2\<rparr>" using r(1) by simp
  have cur: "available_current d' a2" using r(1) hp by (simp add: available_current_def)
  have ok': "books_ok d'" using 1(8) mv'(1) by (auto intro: books_audit)
  have mirror: "ac_credit_account_id (level_mirror a2 j) = Some (ca_id a)" using pj(4) by simp
  have st: "ta_status h \<in> {''PENDING'', ''FLAGGED''}" using ah(2) by (simp add: ACTIVE_HOLDS_def)
  have hta: "hold_total (ca_id a) d' = hold_total (ca_id a) d - ta_billing_amount_cents h" by (simp add: ht aid)
  show ?thesis
    unfolding Let_def
    by (rule exI [of _ h], rule exI [of _ a], rule exI [of _ a2], rule exI [of _ "level_mirror a2 j"],
        rule exI [of _ "settlement_line i nw payload h a p"], intro conjI)
      (fact ah(1) ah(3) st 1(1) au 1(3) ga hta upd cur gj mirror pos po ok' | simp add: settlement_line_def)+
qed

definition sample_settlement :: settlement_payload where
  "sample_settlement = \<lparr>sl_retrieval_reference_number = ''RRN1'', sl_amount_cents = 4100, sl_posted_at = Some 500\<rparr>"

abbreviation sample_settled :: "bank_db \<times> settlement_reply res" where
  "sample_settled \<equiv> process_settlement (sample_network\<lparr>nw_stores := None\<rparr>) sample_settlement sample_held_db"

lemma sample_settled_ok: "\<exists>d' reply. sample_settled = (d', Inr reply)"
proof -
  have "\<not> isl (snd sample_settled)" by code_simp
  then show ?thesis by (cases sample_settled; cases "snd sample_settled") auto
qed

lemma sample_held_ok: "books_ok sample_held_db" "mirror_numbers_ok sample_held_db" "distinct (map ta_id (d_auths sample_held_db))"
proof -
  show "books_ok sample_held_db"
    by (rule books_ok_frame [OF sample_books])
      (simp_all add: sample_held_db_def tx_sig_def acct_sig_def card_sig_def)
qed (use sample_mirror_numbers in \<open>simp_all add: mirror_numbers_ok_def sample_held_db_def\<close>)

theorem settlement_moves_debt_witness:
  "\<exists>d' reply a'. sample_settled = (d', Inr reply) \<and> get_credit_account ''CR1'' d' = Some a'
     \<and> ca_cleared_balance_cents a' = 24100 \<and> hold_total ''CR1'' d' = 0"
proof -
  obtain d' reply where r: "sample_settled = (d', Inr reply)" using sample_settled_ok by blast
  have new: "List.find (\<lambda>t. tx_idempotency_key t = ''card-settlement:'' @ sl_retrieval_reference_number sample_settlement)
       (d_transactions sample_held_db) = None"
    by (simp add: sample_held_db_def sample_db_def)
  obtain h a a' where o: "h \<in> set (d_auths sample_held_db)" "get_credit_account (ta_account_id h) sample_held_db = Some a"
    "get_credit_account (ta_account_id h) d' = Some a'"
    "hold_total (ca_id a) d' = hold_total (ca_id a) sample_held_db - ta_billing_amount_cents h"
    "a' = a\<lparr>ca_cleared_balance_cents := ca_cleared_balance_cents a + sl_amount_cents sample_settlement,
             ca_available_credit_cents := ca_available_credit_cents a'\<rparr>"
    using settlement_moves_debt [OF sample_held_ok r new] unfolding Let_def by blast
  have h: "h = sample_hold" using o(1) by (simp add: sample_held_db_def)
  have "get_credit_account ''CR1'' sample_held_db = Some sample_card_account"
    by (simp add: get_credit_account_def sample_held_db_def sample_db_def sample_card_account_def)
  then have a: "a = sample_card_account" using o(2) by (simp add: h sample_hold_def)
  have "hold_total ''CR1'' sample_held_db = 4200"
    by (simp add: hold_total_def sample_held_db_def active_hold_def ACTIVE_HOLDS_def sample_hold_def)
  then have "hold_total ''CR1'' d' = 0" using o(4) by (simp add: a h sample_card_account_def sample_hold_def)
  moreover have "ca_cleared_balance_cents a' = 24100"
    by (subst o(5)) (simp add: a sample_card_account_def sample_settlement_def)
  moreover have "get_credit_account ''CR1'' d' = Some a'" using o(3) by (simp add: h sample_hold_def)
  ultimately show ?thesis using r by blast
qed

section \<open>The life of a hold\<close>

text \<open>The specification of a hold: an active hold is settled or reversed, and no other row changes.\<close>

inductive hold_step :: "transaction_authorization \<Rightarrow> transaction_authorization \<Rightarrow> bool" where
  hold_settled: "ta_status h \<in> {''PENDING'', ''FLAGGED''} \<Longrightarrow> hold_step h (h\<lparr>ta_status := ''SETTLED''\<rparr>)"
| hold_reversed: "ta_status h \<in> {''PENDING'', ''FLAGGED''} \<Longrightarrow> hold_step h (h\<lparr>ta_status := ''REVERSED''\<rparr>)"

inductive_cases hold_step_cases: "hold_step h h'"

text \<open>One call of the network.\<close>

inductive network_step :: "bank_db \<Rightarrow> bank_db \<Rightarrow> bool" where
  net_authorization: "network_step d (fst (process_authorization nw payload d))"
| net_settlement: "network_step d (fst (process_settlement nw settlement d))"
| net_reversal: "network_step d (fst (process_reversal now rrn reason d))"

definition charge_count :: "bank_db \<Rightarrow> string \<Rightarrow> nat" where
  "charge_count d i = length (filter (\<lambda>p. pt_authorization_id p = Some i) (d_posted d))"

definition network_ok :: "bank_db \<Rightarrow> bool" where
  "network_ok d \<longleftrightarrow> books_ok d \<and> distinct (map ta_id (d_auths d))
     \<and> (\<forall>n \<ge> d_draws d. d_uuid d n \<notin> ta_id ` set (d_auths d))
     \<and> (\<forall>p \<in> set (d_posted d). \<forall>i. pt_authorization_id p = Some i \<longrightarrow> i \<in> ta_id ` set (d_auths d))
     \<and> (\<forall>h \<in> set (d_auths d). charge_count d (ta_id h) = (if ta_status h = ''SETTLED'' then 1 else 0))"

lemma books_recalculate:
  assumes "books_ok d" "recalculate_available_credit a d = Inr (a', d')" "get_credit_account (ca_id a) d = Some a0"
    "ca_currency a0 = ca_currency a"
  shows "books_ok d'"
  unfolding recalculate_effect(2) [OF assms(2)]
  by (rule books_put_credit_account [OF assms(1), of _ a0]) (use recalculate_same [OF assms(2)] assms(3,4) in simp_all)

lemma authorization_growth:
  assumes run: "process_authorization nw payload d = (d', r)" and ok: "books_ok d"
  shows "books_ok d' \<and> d_posted d' = d_posted d \<and> d_uuid d' = d_uuid d \<and> d_draws d \<le> d_draws d'
    \<and> (d_auths d' = d_auths d \<or> (\<exists>h. d_auths d' = d_auths d @ [h] \<and> ta_id h = d_uuid d (d_draws d)
          \<and> d_draws d < d_draws d' \<and> ta_status h \<noteq> ''SETTLED''))"
  using run
proof (cases rule: process_authorization_cases)
  case (duplicate e)
  with ok show ?thesis by simp
next
  case (refused x y z)
  with refuse_effect [of d nw payload y z] same_books_ok [OF ok] show ?thesis by (simp add: same_books_def)
next
  case (funds crd a)
  obtain row where "d_auths d' = d_auths d @ [row]" "same_money d d'" "ta_status row = ''DECLINED''"
    "ta_id row = d_uuid d (d_draws d)" "d_draws d < d_draws d'"
    using decline_for_funds_effect [of nw payload crd a "build_authorization_context nw payload" d]
    unfolding funds(4) [symmetric] by metis
  with same_money_books [OF ok] show ?thesis by (auto simp: same_money_def)
next
  case (failed crd a e)
  then show ?thesis using same_money_books [OF ok] ok by (auto simp: same_money_def fresh_hold_def)
next
  case (approved crd a h d1 a' d2 reply)
  note rf = recalculate_frame [OF approved(9)]
  have "get_credit_account (ca_id a) d = Some a" using authorization_checks_Inr [OF approved(2)] by simp
  then have "get_credit_account (ca_id a) d1 = Some a"
    using approved(6) by (simp add: get_credit_account_def same_money_def)
  then have "books_ok d2" using books_recalculate [OF same_money_books [OF ok approved(6)] approved(9)] by simp
  then have "books_ok d'" using approved(10) by (auto intro: books_audit)
  moreover have "d_posted d' = d_posted d" "d_uuid d' = d_uuid d" "d_auths d' = d_auths d @ [h]" "d_draws d < d_draws d'"
    using approved(5,6,8,10) rf by (auto simp: frame_simps same_money_def intro: less_le_trans [OF _ record_audit_event_frame(15)])
  moreover have "ta_status h \<noteq> ''SETTLED''" using approved(7) by (auto simp: fresh_hold_def)
  ultimately show ?thesis using approved(7) by (auto simp: fresh_hold_def)
qed

lemma settlement_frame:
  assumes run: "process_settlement nw payload d = (d', Inr reply)" and ok: "books_ok d"
  obtains h line where "books_ok d'" "h \<in> set (d_auths d)" "ta_status h \<in> {''PENDING'', ''FLAGGED''}"
    "d_auths d' = put_row ta_id (h\<lparr>ta_status := ''SETTLED''\<rparr>) (d_auths d)" "d_posted d' = d_posted d @ [line]"
    "pt_authorization_id line = Some (ta_id h)" "d_uuid d' = d_uuid d" "d_draws d \<le> d_draws d'"
proof (cases rule: process_settlement_steps [OF run])
  case (1 h a j p d1 i d2 d3 a2 d4)
  note ah = active_rrn [OF 1(2)]
  let ?n = "sl_amount_cents payload" let ?d0 = "put_auth (h\<lparr>ta_status := ''SETTLED''\<rparr>) d"
  let ?a1 = "a\<lparr>ca_cleared_balance_cents := ca_cleared_balance_cents a + ?n\<rparr>"
  have aid: "ca_id a = ta_account_id h" using get_credit_account_id [OF 1(3)] by simp
  have pre: "books_ok ?d0" "get_credit_account (ca_id a) ?d0 = Some a"
    using ok 1(3) aid by (simp_all add: put_auth_frame)
  note pb = post_card_journal_books [OF pre 1(4)] note pfr = post_card_journal_frame [OF 1(4)]
  note u = uuid4_frame [OF 1(5)] note pf = posted_frame [OF 1(6)]
  have ok3: "books_ok d3" by (rule books_frame_put_posted [OF u(10) [OF pb(1)] 1(6)])
  have c3: "get_credit_account (ca_id a) d3 = Some a"
    using pre(2) by (simp add: get_credit_account_def pf u pb(3))
  have okp: "books_ok (put_credit_account ?a1 d3)"
    by (rule books_put_credit_account [OF ok3, of _ a]) (simp_all add: c3)
  have cp: "get_credit_account (ca_id ?a1) (put_credit_account ?a1 d3) = Some ?a1"
    using get_put_credit_account [of ?a1 d3] c3 by simp
  have ok4: "books_ok d4" by (rule books_recalculate [OF okp 1(7) cp refl])
  let ?d5 = "update_account (level_mirror a2) (ac_id j) d4"
  have ok5: "books_ok ?d5" by (rule update_account_books [OF ok4]) (simp_all add: level_mirror_def)
  note rf = recalculate_frame [OF 1(7)]
  have same5: "d_auths ?d5 = d_auths d3" "d_posted ?d5 = d_posted d3" "d_uuid ?d5 = d_uuid d3" "d_draws ?d5 = d_draws d3"
    using rf by (auto simp: update_account_def put_account_def put_credit_account_def split: option.split)
  show thesis
  proof (rule that [of h "settlement_line i nw payload h a p"])
    show "books_ok d'" using 1(8) ok5 by (auto intro: books_audit)
    show "d_auths d' = put_row ta_id (h\<lparr>ta_status := ''SETTLED''\<rparr>) (d_auths d)"
      using 1(8) same5 by (auto simp: frame_simps pf u pfr) (simp_all add: put_auth_def)
    show "d_posted d' = d_posted d @ [settlement_line i nw payload h a p]"
      using 1(8) same5 by (auto simp: frame_simps pf u pfr put_auth_frame)
    show "d_uuid d' = d_uuid d" using 1(8) same5 by (auto simp: frame_simps pf u pfr put_auth_frame)
    have "d_draws d1 \<le> d_draws d3" using 1(5) by (simp add: pf) (auto simp: uuid4_def)
    then have "d_draws d \<le> d_draws ?d5" using pfr(5) by (simp add: same5 put_auth_frame)
    then show "d_draws d \<le> d_draws d'"
      using 1(8) by (auto intro: order_trans [OF _ record_audit_event_frame(15)])
  qed (use ah in \<open>simp_all add: ACTIVE_HOLDS_def settlement_line_def\<close>)
qed

lemma reversal_frame:
  assumes run: "process_reversal now rrn reason d = (d', Inr avail)" and ok: "books_ok d"
  obtains h where "books_ok d'" "h \<in> set (d_auths d)" "ta_status h \<in> {''PENDING'', ''FLAGGED''}"
    "d_auths d' = put_row ta_id (h\<lparr>ta_status := ''REVERSED''\<rparr>) (d_auths d)" "d_posted d' = d_posted d"
    "d_uuid d' = d_uuid d" "d_draws d \<le> d_draws d'"
proof -
  have run: "reversal_body now rrn reason d = Inr (avail, d')"
    using run by (auto simp: process_reversal_def atomically_def split: sum.splits)
  obtain h where h: "get_authorization_by_rrn rrn (Some [''PENDING'', ''FLAGGED'']) d = Some h"
    using run by (auto simp: reversal_body_def split: option.splits)
  note ah = active_rrn [OF h]
  let ?d1 = "put_auth (h\<lparr>ta_status := ''REVERSED''\<rparr>) d"
  obtain a where a: "get_credit_account (ta_account_id h) d = Some a"
    using run h by (auto simp: reversal_body_def Let_def put_auth_frame split: option.splits)
  obtain a' d2 where rc: "recalculate_available_credit a ?d1 = Inr (a', d2)"
    and d': "\<exists>t p e v. d' = record_audit_event now t p e v d2"
    using run h a by (auto simp: reversal_body_def Let_def put_auth_frame) blast
  note rf = recalculate_frame [OF rc]
  have aid: "ca_id a = ta_account_id h" using get_credit_account_id [OF a] by simp
  have "books_ok d2"
    by (rule books_recalculate [OF _ rc, of a]) (use ok a aid in \<open>simp_all add: put_auth_frame\<close>)
  show thesis
  proof (rule that [of h])
    show "books_ok d'" using d' \<open>books_ok d2\<close> by (auto intro: books_audit)
    show "d_auths d' = put_row ta_id (h\<lparr>ta_status := ''REVERSED''\<rparr>) (d_auths d)"
      using d' rf(4) by (auto simp: frame_simps put_auth_def)
    show "d_posted d' = d_posted d" "d_uuid d' = d_uuid d" using d' rf by (auto simp: frame_simps put_auth_frame)
    show "d_draws d \<le> d_draws d'"
      using d' rf(8) by (auto simp: put_auth_frame intro: order_trans [OF _ record_audit_event_frame(15)])
  qed (use ah in \<open>simp_all add: ACTIVE_HOLDS_def\<close>)
qed

lemma network_ok_end:
  assumes ok: "network_ok d" and b: "books_ok d'" and h: "h \<in> set (d_auths d)" "ta_status h \<in> {''PENDING'', ''FLAGGED''}"
    and au: "d_auths d' = put_row ta_id (h\<lparr>ta_status := st\<rparr>) (d_auths d)"
    and po: "d_posted d' = d_posted d @ ps" and u: "d_uuid d' = d_uuid d" "d_draws d \<le> d_draws d'"
    and ps: "\<forall>p \<in> set ps. pt_authorization_id p = Some (ta_id h)" "length ps = (if st = ''SETTLED'' then 1 else 0)"
  shows "network_ok d'"
  unfolding network_ok_def
proof (intro conjI)
  have dist: "distinct (map ta_id (d_auths d))" using ok by (simp add: network_ok_def)
  have ids: "map ta_id (d_auths d') = map ta_id (d_auths d)" by (simp add: au)
  have idset: "ta_id ` set (d_auths d') = ta_id ` set (d_auths d)" using arg_cong [OF ids, of set] by simp
  show "distinct (map ta_id (d_auths d'))" using dist ids by simp
  show "\<forall>n \<ge> d_draws d'. d_uuid d' n \<notin> ta_id ` set (d_auths d')"
    using ok u by (auto simp: network_ok_def idset)
  show "\<forall>p \<in> set (d_posted d'). \<forall>i. pt_authorization_id p = Some i \<longrightarrow> i \<in> ta_id ` set (d_auths d')"
    unfolding idset using ok ps(1) h(1) by (auto simp: network_ok_def po)
  have cnt: "charge_count d' i = charge_count d i + (if ta_id h = i then length ps else 0)" for i
  proof (cases "ta_id h = i")
    case True
    with ps(1) have "filter (\<lambda>p. pt_authorization_id p = Some i) ps = ps" by (simp add: filter_id_conv)
    with True show ?thesis by (simp add: charge_count_def po)
  next
    case False
    with ps(1) have "filter (\<lambda>p. pt_authorization_id p = Some i) ps = []" by (auto simp: filter_empty_conv)
    with False show ?thesis by (simp add: charge_count_def po)
  qed
  have c0: "charge_count d (ta_id g) = (if ta_status g = ''SETTLED'' then 1 else 0)" if "g \<in> set (d_auths d)" for g
    using ok that by (simp add: network_ok_def)
  have "charge_count d (ta_id h) = 0" using c0 [OF h(1)] h(2) by auto
  note ch = this
  show "\<forall>g \<in> set (d_auths d'). charge_count d' (ta_id g) = (if ta_status g = ''SETTLED'' then 1 else 0)"
  proof
    fix g assume "g \<in> set (d_auths d')"
    then consider "g = h\<lparr>ta_status := st\<rparr>" | "g \<in> set (d_auths d)" "ta_id g \<noteq> ta_id h"
      using set_put_row [of ta_id "h\<lparr>ta_status := st\<rparr>" "d_auths d"] by (auto simp: au)
    then show "charge_count d' (ta_id g) = (if ta_status g = ''SETTLED'' then 1 else 0)"
    proof cases
      case 1
      with ch ps(2) show ?thesis by (simp add: cnt)
    next
      case 2
      then have "charge_count d' (ta_id g) = charge_count d (ta_id g)" by (simp add: cnt)
      with c0 [OF 2(1)] show ?thesis by simp
    qed
  qed
qed (rule b)

lemma put_row_holds:
  assumes "distinct (map ta_id rs)" "h \<in> set rs" "hold_step h h'" "ta_id h' = ta_id h" "g \<in> set rs"
  shows "\<exists>g' \<in> set (put_row ta_id h' rs). ta_id g' = ta_id g \<and> hold_step\<^sup>*\<^sup>* g g'"
proof (cases "ta_id g = ta_id h")
  case True
  then have "g = h" using assms(1,2,5) by (auto simp: distinct_map dest: inj_onD)
  moreover have "h' \<in> set (put_row ta_id h' rs)" using assms(2,4) by (force simp: put_row_def)
  ultimately show ?thesis using assms(3,4) by blast
next
  case False
  then have "g \<in> set (put_row ta_id h' rs)" using assms(4,5) by (force simp: put_row_def)
  then show ?thesis by blast
qed

definition holds_follow :: "bank_db \<Rightarrow> bank_db \<Rightarrow> bool" where
  "holds_follow d d' \<longleftrightarrow>
     (\<forall>h \<in> set (d_auths d). \<exists>h' \<in> set (d_auths d'). ta_id h' = ta_id h \<and> hold_step\<^sup>*\<^sup>* h h')"

lemma holds_follow_refl: "d_auths d' = d_auths d \<Longrightarrow> holds_follow d d'"
  by (auto simp: holds_follow_def)

lemma holds_follow_trans: "holds_follow d d' \<Longrightarrow> holds_follow d' d'' \<Longrightarrow> holds_follow d d''"
  unfolding holds_follow_def by (metis rtranclp_trans)

lemma failed_calls:
  "process_settlement nw payload d = (d', Inl e) \<Longrightarrow> d' = d"
  "process_reversal now rrn reason d = (d', Inl e) \<Longrightarrow> d' = d"
  by (auto simp: process_settlement_def process_reversal_def atomically_def Let_def
      split: sum.splits option.splits if_splits)

lemma network_step_ok:
  assumes "network_step d d'" and ok: "network_ok d"
  shows "network_ok d' \<and> holds_follow d d'"
  using assms(1)
proof (cases rule: network_step.cases)
  case (net_authorization nw payload)
  obtain r where run: "process_authorization nw payload d = (d', r)" using net_authorization by (metis surjective_pairing)
  have ok0: "books_ok d" using ok by (simp add: network_ok_def)
  note g = authorization_growth [OF run ok0]
  show ?thesis
  proof (cases "d_auths d' = d_auths d")
    case True
    with g ok show ?thesis by (auto simp: network_ok_def charge_count_def intro: holds_follow_refl)
  next
    case False
    then obtain h where h: "d_auths d' = d_auths d @ [h]" "ta_id h = d_uuid d (d_draws d)" "d_draws d < d_draws d'"
      "ta_status h \<noteq> ''SETTLED''" using g by blast
    have new: "ta_id h \<notin> ta_id ` set (d_auths d)" using ok by (simp add: network_ok_def h(2))
    have "inj (d_uuid d)" using ok0 by (simp add: books_ok_def uuid_fresh_def)
    then have "\<forall>n \<ge> d_draws d'. d_uuid d n \<noteq> ta_id h" using h(2,3) by (auto dest: injD)
    moreover have "charge_count d (ta_id h) = 0"
      using ok new by (auto simp: network_ok_def charge_count_def filter_empty_conv)
    moreover have "charge_count d' i = charge_count d i" for i using g by (simp add: charge_count_def)
    ultimately have "network_ok d'" using ok g h new by (auto simp: network_ok_def)
    moreover have "holds_follow d d'" by (auto simp: holds_follow_def h(1))
    ultimately show ?thesis by blast
  qed
next
  case (net_settlement nw payload)
  obtain r where run: "process_settlement nw payload d = (d', r)" using net_settlement by (metis surjective_pairing)
  show ?thesis
  proof (cases r)
    case (Inl e)
    with failed_calls(1) run have "d' = d" by blast
    with ok show ?thesis by (simp add: holds_follow_refl)
  next
    case (Inr reply)
    have ok0: "books_ok d" using ok by (simp add: network_ok_def)
    obtain h line where s: "books_ok d'" "h \<in> set (d_auths d)" "ta_status h \<in> {''PENDING'', ''FLAGGED''}"
      "d_auths d' = put_row ta_id (h\<lparr>ta_status := ''SETTLED''\<rparr>) (d_auths d)" "d_posted d' = d_posted d @ [line]"
      "pt_authorization_id line = Some (ta_id h)" "d_uuid d' = d_uuid d" "d_draws d \<le> d_draws d'"
      by (rule settlement_frame [OF run [unfolded Inr] ok0])
    have "network_ok d'"
      by (rule network_ok_end [OF ok s(1-3) s(4) s(5,7,8)]) (simp_all add: s(6))
    moreover have "holds_follow d d'"
      unfolding holds_follow_def s(4)
      using ok s(2) hold_settled [OF s(3)] by (auto simp: network_ok_def intro: put_row_holds)
    ultimately show ?thesis by blast
  qed
next
  case (net_reversal now rrn reason)
  obtain r where run: "process_reversal now rrn reason d = (d', r)" using net_reversal by (metis surjective_pairing)
  show ?thesis
  proof (cases r)
    case (Inl e)
    with failed_calls(2) run have "d' = d" by blast
    with ok show ?thesis by (simp add: holds_follow_refl)
  next
    case (Inr avail)
    have ok0: "books_ok d" using ok by (simp add: network_ok_def)
    obtain h where s: "books_ok d'" "h \<in> set (d_auths d)" "ta_status h \<in> {''PENDING'', ''FLAGGED''}"
      "d_auths d' = put_row ta_id (h\<lparr>ta_status := ''REVERSED''\<rparr>) (d_auths d)" "d_posted d' = d_posted d"
      "d_uuid d' = d_uuid d" "d_draws d \<le> d_draws d'"
      by (rule reversal_frame [OF run [unfolded Inr] ok0])
    have "network_ok d'"
      by (rule network_ok_end [OF ok s(1-3) s(4) _ s(6,7), of "[]"]) (simp_all add: s(5))
    moreover have "holds_follow d d'"
      unfolding holds_follow_def s(4)
      using ok s(2) hold_reversed [OF s(3)] by (auto simp: network_ok_def intro: put_row_holds)
    ultimately show ?thesis by blast
  qed
qed

text \<open>C1. Whatever sequence of authorizations, settlements and reversals the network sends, accepted or
  refused: the books stay in order, every hold follows the life of an active hold (settled or reversed
  once, never reopened), and a hold has exactly one statement line when it is SETTLED and none
  otherwise, so no authorization is ever charged twice.\<close>

theorem settled_exactly_once:
  assumes "network_step\<^sup>*\<^sup>* d d'" and "network_ok d"
  shows "network_ok d'
    \<and> (\<forall>h \<in> set (d_auths d). \<exists>h' \<in> set (d_auths d'). ta_id h' = ta_id h \<and> hold_step\<^sup>*\<^sup>* h h')
    \<and> (\<forall>h \<in> set (d_auths d'). charge_count d' (ta_id h) = (if ta_status h = ''SETTLED'' then 1 else 0))"
  using assms(1)
proof (induction rule: rtranclp_induct)
  case base
  with assms(2) show ?case by (auto simp: network_ok_def)
next
  case (step y z)
  then have "network_ok y" "holds_follow d y" by (simp_all add: holds_follow_def)
  with network_step_ok [OF step.hyps(2)] have "network_ok z" "holds_follow d z" by (auto intro: holds_follow_trans)
  then show ?case by (simp add: holds_follow_def network_ok_def)
qed

lemma hold_closed: "hold_step\<^sup>*\<^sup>* h h' \<Longrightarrow> ta_status h \<notin> {''PENDING'', ''FLAGGED''} \<Longrightarrow> h' = h"
  by (induction rule: rtranclp_induct) (auto elim: hold_step_cases)

lemma sample_network_ok: "network_ok sample_held_db"
  using sample_held_ok by (simp add: network_ok_def charge_count_def)
    (simp add: sample_held_db_def sample_db_def sample_hold_def sample_uuid_def)

theorem settled_exactly_once_witness:
  "network_step\<^sup>*\<^sup>* sample_held_db (fst sample_settled)
   \<and> charge_count (fst sample_settled) (ta_id sample_hold) = 1"
proof -
  have run: "network_step\<^sup>*\<^sup>* sample_held_db (fst sample_settled)" by (blast intro: net_settlement)
  have all: "\<forall>h \<in> set (d_auths (fst sample_settled)). charge_count (fst sample_settled) (ta_id h)
      = (if ta_status h = ''SETTLED'' then 1 else 0)"
    using settled_exactly_once [OF run sample_network_ok] by blast
  have "sample_hold\<lparr>ta_status := ''SETTLED''\<rparr> \<in> set (d_auths (fst sample_settled))" by code_simp
  with all run show ?thesis by fastforce
qed

end
