(* ===== verification/Card_Service.thy ===== *)
theory Card_Service
  imports Card_Network
begin

text \<open>
  The card operations of \<^verbatim>\<open>services/credit_card.py\<close>: the wallet queue and the statuses read back from
  the audit outbox, freezing a card and unfreezing it, the replacement of a compromised card, and the
  credit-limit increase with its policy.  Operations with a \<open>commit_transaction\<close> flag are given as the
  body a caller runs inside its own transaction; \<open>atomically\<close> of the body is the call that commits.
\<close>

section \<open>Wallet provisioning\<close>

definition quoted :: "string \<Rightarrow> string" where
  "quoted s = CHR 0x27 # s @ [CHR 0x27]"

definition dict_get_default :: "pyval \<Rightarrow> string \<Rightarrow> pyval \<Rightarrow> pyval" where
  "dict_get_default v k fallback =
     (case v of PDict kvs \<Rightarrow> (case map_of kvs k of None \<Rightarrow> fallback | Some x \<Rightarrow> x) | _ \<Rightarrow> fallback)"

record wallet_status =
  ws_wallet_provider :: pyval
  ws_wallet_provisioning_status :: pyval
  ws_wallet_queued_at :: int

definition wallet_status_of :: "audit_outbox \<Rightarrow> wallet_status" where
  "wallet_status_of row =
     \<lparr>ws_wallet_provider = dict_get_default (ob_payload row) ''wallet_provider'' (PStr ''GOOGLE_WALLET''),
      ws_wallet_provisioning_status = dict_get_default (ob_payload row) ''status'' (PStr ''QUEUED''),
      ws_wallet_queued_at = ob_created_at row\<rparr>"

text \<open>Later rows replace earlier ones of the same token.\<close>

definition add_wallet_status ::
    "string \<Rightarrow> (string \<times> wallet_status) list \<Rightarrow> audit_outbox \<Rightarrow> (string \<times> wallet_status) list" where
  "add_wallet_status account_id statuses row =
     (let token = dict_get (ob_payload row) ''card_token''
      in if text_of (dict_get (ob_payload row) ''account_id'') \<noteq> account_id then statuses
         else if \<not> truthy token then statuses
         else dict_put (text_of token) (wallet_status_of row) statuses)"

definition get_wallet_status_by_card_token :: "string \<Rightarrow> bank_db \<Rightarrow> (string \<times> wallet_status) list" where
  "get_wallet_status_by_card_token account_id d =
     foldl (add_wallet_status account_id) []
       (sort_key ob_created_at (filter (\<lambda>row. ob_event_type row = ''WALLET_PROVISIONING_QUEUED'') (d_outbox d)))"

definition queue_wallet_provisioning ::
    "int \<Rightarrow> string \<Rightarrow> string \<Rightarrow> string \<Rightarrow> string \<Rightarrow> string option \<Rightarrow> bank_db \<Rightarrow> (pyval \<times> bank_db) res" where
  "queue_wallet_provisioning now account_id card_token wallet_provider initiated_by fraud_alert_id d =
     (case get_credit_account account_id d of
        None \<Rightarrow> Inl (ValueError (''Account '' @ quoted account_id @ '' not found.''))
      | Some account \<Rightarrow>
          (case get_card_by_token card_token d of
             None \<Rightarrow> Inl (ValueError ''Card not found for the specified account.'')
           | Some crd \<Rightarrow>
               if ic_account_id crd \<noteq> ca_id account
               then Inl (ValueError ''Card not found for the specified account.'')
               else if \<not> ic_is_active crd \<or> ic_status crd \<noteq> ''ACTIVE''
               then Inl (ValueError ''Only active cards can be provisioned to a wallet.'')
               else Inr (PDict [(''account_id'', PStr (ca_id account)), (''card_token'', PStr (ic_card_token crd)),
                    (''wallet_provider'', PStr wallet_provider), (''wallet_provisioning_status'', PStr ''QUEUED''),
                    (''fraud_alert_id'', opt_str fraud_alert_id),
                    (''message'', PStr ''Digital wallet provisioning queued successfully.'')],
                  audit now ''WALLET_PROVISIONING_QUEUED''
                    [(''account_id'', PStr (ca_id account)), (''card_token'', PStr (ic_card_token crd)),
                     (''wallet_provider'', PStr wallet_provider), (''status'', PStr ''QUEUED''),
                     (''initiated_by'', PStr initiated_by), (''fraud_alert_id'', opt_str fraud_alert_id),
                     (''correlation_id'', opt_str (str_or fraud_alert_id (Some (ic_card_token crd))))] d)))"

section \<open>Freezing\<close>

definition set_card_status ::
    "int \<Rightarrow> string \<Rightarrow> string \<Rightarrow> string \<Rightarrow> string \<Rightarrow> bank_db \<Rightarrow> bank_db \<times> pyval res" where
  "set_card_status now status event card_token reason = atomically (\<lambda>d.
     case get_card_by_token card_token d of
       None \<Rightarrow> Inl (ValueError (''Card token '' @ quoted card_token @ '' not found.''))
     | Some crd \<Rightarrow>
         Inr (PDict [(''card_token'', PStr card_token), (''status'', PStr status)],
              audit now event [(''account_id'', PStr (ic_account_id crd)), (''card_token'', PStr card_token),
                               (''reason'', PStr reason)]
                (save_card (crd\<lparr>ic_status := status\<rparr>) d)))"

definition freeze_card :: "int \<Rightarrow> string \<Rightarrow> string \<Rightarrow> bank_db \<Rightarrow> bank_db \<times> pyval res" where
  "freeze_card now = set_card_status now ''BLOCKED'' ''CARD_FROZEN''"

definition unfreeze_card :: "int \<Rightarrow> string \<Rightarrow> string \<Rightarrow> bank_db \<Rightarrow> bank_db \<times> pyval res" where
  "unfreeze_card now = set_card_status now ''ACTIVE'' ''CARD_UNFROZEN''"

section \<open>Replacement\<close>

text \<open>The calendar year of a time, proleptic Gregorian, UTC (\<open>datetime.now(utc).year\<close>).\<close>

definition year_of :: "int \<Rightarrow> int" where
  "year_of now =
     (let z = now div 86400000000 + 719468;
          era = z div 146097; doe = z mod 146097;
          yoe = (doe - doe div 1460 + doe div 36524 - doe div 146096) div 365;
          doy = doe - (365 * yoe + yoe div 4 - yoe div 100);
          mp = (5 * doy + 2) div 153
      in yoe + era * 400 + (if 10 \<le> mp then 1 else 0))"

definition OPEN_CARD_STATUSES :: "string list" where
  "OPEN_CARD_STATUSES = [''ACTIVE'', ''BLOCKED'', ''REPORTED_STOLEN'']"

text \<open>The card to replace and the cards to deactivate.\<close>

definition replaced_card :: "string option \<Rightarrow> string \<Rightarrow> bank_db \<Rightarrow> issued_card res" where
  "replaced_card compromised account_id d =
     (case str_or compromised None of
        Some i \<Rightarrow>
          (case get_card_by_id_for_account i account_id d of
             None \<Rightarrow> Inl (ValueError ''Compromised card not found for the specified account.'')
           | Some crd \<Rightarrow> (if ic_status crd \<in> set OPEN_CARD_STATUSES then Inr crd
                else Inl (ValueError (''Card '' @ quoted i @ '' is not eligible for replacement.''))))
      | None \<Rightarrow>
          (let cards = list_cards_by_account account_id d
           in case List.find ic_is_active cards of
                Some crd \<Rightarrow> Inr crd
              | None \<Rightarrow>
                  (case List.find (\<lambda>c. ic_status c \<in> {''BLOCKED'', ''REPORTED_STOLEN''}) cards of
                     Some crd \<Rightarrow> Inr crd
                   | None \<Rightarrow> Inl (ValueError ''No existing card found for replacement.''))))"

definition cards_to_deactivate :: "string option \<Rightarrow> string \<Rightarrow> issued_card \<Rightarrow> bank_db \<Rightarrow> issued_card list" where
  "cards_to_deactivate compromised account_id crd d =
     (if str_or compromised None \<noteq> None then [crd] else filter ic_is_active (list_cards_by_account account_id d))"

definition deactivated :: "issued_card \<Rightarrow> issued_card" where
  "deactivated crd = crd\<lparr>ic_is_active := False,
     ic_status := (if ic_status crd = ''ACTIVE'' then ''BLOCKED'' else ic_status crd)\<rparr>"

definition replacement_for :: "int \<Rightarrow> string \<Rightarrow> string \<Rightarrow> string \<Rightarrow> bool \<Rightarrow> string \<Rightarrow> issued_card \<Rightarrow> issued_card" where
  "replacement_for now i account_id token virtual last_four current =
     \<lparr>ic_id = i, ic_account_id = account_id, ic_cardholder_name = ic_cardholder_name current,
      ic_card_token = token, ic_last_four = last_four, ic_is_active = True,
      ic_exp_month = ic_exp_month current, ic_exp_year = max (ic_exp_year current) (year_of now + 4),
      ic_status = ''ACTIVE'', ic_is_virtual = virtual\<rparr>"

record replacement_request =
  rq_account_id :: string
  rq_reason :: string
  rq_issue_virtual_card :: bool
  rq_fraud_alert_id :: "string option"
  rq_compromised_card_id :: "string option"

text \<open>
  \<open>token\<close> and \<open>last_four\<close> are the draws of \<open>secrets\<close>.  The reply carries the two cards; the token
  column is unique.
\<close>

definition issue_replacement_card ::
    "int \<Rightarrow> string \<Rightarrow> string \<Rightarrow> replacement_request \<Rightarrow> bank_db \<Rightarrow> ((issued_card \<times> issued_card) \<times> bank_db) res" where
  "issue_replacement_card now token last_four rq d =
     (case get_credit_account (rq_account_id rq) d of
        None \<Rightarrow> Inl (ValueError (''Account '' @ quoted (rq_account_id rq) @ '' not found.''))
      | Some account \<Rightarrow>
          bindR (replaced_card (rq_compromised_card_id rq) (ca_id account) d) (\<lambda>current.
          let d1 = fold (\<lambda>c. save_card (deactivated c))
                     (cards_to_deactivate (rq_compromised_card_id rq) (ca_id account) current d) d;
              (i, d2) = uuid4 d1;
              new_card = replacement_for now i (ca_id account) token (rq_issue_virtual_card rq) last_four current
          in if token \<in> ic_card_token ` set (d_cards d2) then Inl (IntegrityError ''issued_card.card_token'')
             else Inr ((current, new_card),
               audit now ''CARD_REPLACED''
                 [(''account_id'', PStr (ca_id account)), (''old_card_id'', PStr (ic_id current)),
                  (''old_card_token'', PStr (ic_card_token current)), (''new_card_id'', PStr i),
                  (''new_card_token'', PStr token), (''new_last_four'', PStr last_four),
                  (''reason'', PStr (rq_reason rq)), (''is_virtual'', PBool (rq_issue_virtual_card rq)),
                  (''fraud_alert_id'', opt_str (rq_fraud_alert_id rq)),
                  (''compromised_card_id'', opt_str (str_or (rq_compromised_card_id rq) None)),
                  (''correlation_id'', opt_str (str_or (rq_fraud_alert_id rq) (Some token)))]
                 (save_card new_card d2))))"

section \<open>Credit limit\<close>

record limit_facts =
  lf_account_status :: string
  lf_currency_code :: string
  lf_current_limit_minor :: int
  lf_product_active :: "bool option"
  lf_minimum_limit_minor :: "int option"
  lf_maximum_limit_minor :: "int option"

text \<open>\<open>evaluate_credit_limit\<close>: the first guard that refuses, or \<open>None\<close>.\<close>

definition evaluate_credit_limit :: "limit_facts \<Rightarrow> int \<Rightarrow> string \<Rightarrow> string option" where
  "evaluate_credit_limit facts amount currency =
     (if lf_account_status facts \<noteq> ''ACTIVE'' then Some ''ACCOUNT_INACTIVE''
      else if lf_currency_code facts \<noteq> ''USD'' \<or> currency \<noteq> ''USD'' then Some ''UNSUPPORTED_CURRENCY''
      else if \<not> (0 < lf_current_limit_minor facts \<and> lf_current_limit_minor facts \<le> MAX_MINOR)
      then Some ''ACCOUNT_LIMIT_INVALID''
      else (case (lf_product_active facts, lf_minimum_limit_minor facts, lf_maximum_limit_minor facts) of
              (Some True, Some low, Some high) \<Rightarrow>
                (if \<not> (0 < low \<and> low \<le> high \<and> high \<le> MAX_MINOR) then Some ''PRODUCT_POLICY_INVALID''
                 else if \<not> (0 < amount \<and> amount \<le> MAX_MINOR) then Some ''REQUESTED_LIMIT_INVALID''
                 else if amount \<le> lf_current_limit_minor facts then Some ''LIMIT_NOT_INCREASED''
                 else if \<not> (low \<le> amount \<and> amount \<le> high) then Some ''PRODUCT_LIMIT_OUT_OF_BOUNDS''
                 else None)
            | _ \<Rightarrow> Some ''PRODUCT_POLICY_UNAVAILABLE''))"

definition limit_facts_of :: "credit_account \<Rightarrow> credit_product option \<Rightarrow> limit_facts" where
  "limit_facts_of account product =
     \<lparr>lf_account_status = ca_status account, lf_currency_code = ca_currency account,
      lf_current_limit_minor = ca_credit_limit_cents account,
      lf_product_active = map_option cp_is_active product,
      lf_minimum_limit_minor = map_option cp_min_credit_limit_cents product,
      lf_maximum_limit_minor = map_option cp_max_credit_limit_cents product\<rparr>"

definition apply_limit_increase :: "int \<Rightarrow> string \<Rightarrow> int \<Rightarrow> bank_db \<Rightarrow> (credit_account \<times> bank_db) res" where
  "apply_limit_increase now account_id requested d =
     (if \<not> (0 < requested \<and> requested \<le> MAX_MINOR)
      then Inl (ValueError ''Requested limit must be positive canonical integer minor units.'')
      else (case get_credit_account account_id d of
         None \<Rightarrow> Inl (ValueError ''An owned account is required.'')
       | Some account \<Rightarrow>
           (case evaluate_credit_limit (limit_facts_of account (get_credit_product (ca_product_code account) d))
                   requested ''USD'' of
              Some reason \<Rightarrow> Inl (ValueError (''Credit-limit policy refused the request: '' @ reason @ ''.''))
            | None \<Rightarrow>
                (let change = requested - ca_credit_limit_cents account;
                     available = ca_available_credit_cents account + change
                 in if \<not> (- MAX_MINOR \<le> ca_available_credit_cents account \<and> ca_available_credit_cents account \<le> MAX_MINOR)
                    then Inl (ValueError ''Current available credit exceeds the canonical Money range.'')
                    else if \<not> (- MAX_MINOR \<le> available \<and> available \<le> MAX_MINOR)
                    then Inl (ValueError ''Available credit exceeds the canonical Money range.'')
                    else (let account' = account\<lparr>ca_credit_limit_cents := requested,
                                ca_available_credit_cents := available, ca_last_limit_increase_at := Some now\<rparr>
                          in Inr (account', audit now ''CREDIT_LIMIT_INCREASED''
                               [(''account_id'', PStr account_id), (''new_limit_cents'', PInt requested)]
                               (put_credit_account account' d)))))))"


section \<open>Properties\<close>

text \<open>A row that comes last in time is sorted last.\<close>

lemma sort_key_snoc:
  assumes "\<forall>x \<in> set xs. k x \<le> k y"
  shows "sort_key k (xs @ [y]) = sort_key k xs @ [y]"
proof (rule properties_for_sort_key)
  show "mset (sort_key k xs @ [y]) = mset (xs @ [y])" by simp
  show "filter (\<lambda>x. k y' = k x) (sort_key k xs @ [y]) = filter (\<lambda>x. k y' = k x) (xs @ [y])"
    if "y' \<in> set (sort_key k xs @ [y])" for y'
  proof -
    have flip: "(\<lambda>x. k y' = k x) = (\<lambda>x. k x = k y')" by auto
    show ?thesis unfolding flip filter_append by (simp add: sort_key_stable)
  qed
  show "sorted (map k (sort_key k xs @ [y]))" using assms by (simp add: sorted_append)
qed

text \<open>What is queued for a wallet is what the next look-up reports: after a successful request the
  token's status is the request's provider, QUEUED, and its time, provided the outbox holds nothing
  later; the statuses of every other token and account are as before, and no money moves.\<close>

theorem wallet_status_roundtrip:
  assumes run: "queue_wallet_provisioning now account_id token provider by alert d = Inr (reply, d')"
    and past: "\<forall>row \<in> set (d_outbox d). ob_created_at row \<le> now" and named: "token \<noteq> []"
  shows "same_books d d' \<and> (\<forall>other. get_wallet_status_by_card_token other d' =
      (if other = account_id
       then dict_put token \<lparr>ws_wallet_provider = PStr provider, ws_wallet_provisioning_status = PStr ''QUEUED'',
              ws_wallet_queued_at = now\<rparr> (get_wallet_status_by_card_token other d)
       else get_wallet_status_by_card_token other d))"
proof -
  obtain a crd where g: "get_credit_account account_id d = Some a" "get_card_by_token token d = Some crd"
    using run by (auto simp: queue_wallet_provisioning_def split: option.splits)
  have a: "ca_id a = account_id" using get_credit_account_id [OF g(1)] by simp
  have t: "ic_card_token crd = token" using g(2) by (auto simp: get_card_by_token_def dest: find_Some_iff')
  obtain row where row: "d_outbox d' = d_outbox d @ [row]" "ob_event_type row = ''WALLET_PROVISIONING_QUEUED''"
    "ob_created_at row = now" and pay: "ob_payload row = PDict
       [(''account_id'', PStr account_id), (''card_token'', PStr token), (''wallet_provider'', PStr provider),
        (''status'', PStr ''QUEUED''), (''initiated_by'', PStr by), (''fraud_alert_id'', opt_str alert),
        (''correlation_id'', opt_str (str_or alert (Some token)))]"
    using run g a t by (auto simp: queue_wallet_provisioning_def record_audit_event_def uuid4_def Let_def split: if_splits)
  have sorted: "sort_key ob_created_at (filter (\<lambda>r. ob_event_type r = ''WALLET_PROVISIONING_QUEUED'') (d_outbox d'))
      = sort_key ob_created_at (filter (\<lambda>r. ob_event_type r = ''WALLET_PROVISIONING_QUEUED'') (d_outbox d)) @ [row]"
    using past by (simp add: row sort_key_snoc)
  have st: "wallet_status_of row = \<lparr>ws_wallet_provider = PStr provider, ws_wallet_provisioning_status = PStr ''QUEUED'',
      ws_wallet_queued_at = now\<rparr>"
    by (simp add: wallet_status_of_def dict_get_default_def pay row(3))
  have "same_books d d'" using run g a by (auto simp: queue_wallet_provisioning_def same_books_audit split: if_splits)
  then show ?thesis
    using named by (auto simp: get_wallet_status_by_card_token_def sorted add_wallet_status_def Let_def pay st text_of_def)
qed

theorem wallet_status_roundtrip_witness:
  "\<exists>reply d'. queue_wallet_provisioning 7 ''CR1'' ''tok_1'' ''GOOGLE_WALLET'' ''CUSTOMER'' None sample_db = Inr (reply, d')
     \<and> map_option ws_wallet_queued_at (map_of (get_wallet_status_by_card_token ''CR1'' d') ''tok_1'') = Some 7"
proof -
  have "\<not> isl (queue_wallet_provisioning 7 ''CR1'' ''tok_1'' ''GOOGLE_WALLET'' ''CUSTOMER'' None sample_db)"
    by code_simp
  then obtain reply d' where r: "queue_wallet_provisioning 7 ''CR1'' ''tok_1'' ''GOOGLE_WALLET'' ''CUSTOMER'' None sample_db
      = Inr (reply, d')"
    by (cases "queue_wallet_provisioning 7 ''CR1'' ''tok_1'' ''GOOGLE_WALLET'' ''CUSTOMER'' None sample_db") auto
  have "\<forall>row \<in> set (d_outbox sample_db). ob_created_at row \<le> 7" by (simp add: sample_db_def)
  with r wallet_status_roundtrip [OF r] show ?thesis by simp
qed

text \<open>A successful increase, step by step.\<close>

lemma limit_increase_steps:
  assumes run: "apply_limit_increase now account_id requested d = Inr (a', d')"
  obtains a p where "get_credit_account account_id d = Some a" "get_credit_product (ca_product_code a) d = Some p"
    "cp_is_active p" "ca_status a = ''ACTIVE''" "ca_currency a = ''USD''" "ca_credit_limit_cents a < requested"
    "cp_min_credit_limit_cents p \<le> requested" "requested \<le> cp_max_credit_limit_cents p"
    "a' = a\<lparr>ca_credit_limit_cents := requested,
      ca_available_credit_cents := ca_available_credit_cents a + (requested - ca_credit_limit_cents a),
      ca_last_limit_increase_at := Some now\<rparr>"
    "d' = audit now ''CREDIT_LIMIT_INCREASED''
       [(''account_id'', PStr account_id), (''new_limit_cents'', PInt requested)] (put_credit_account a' d)"
proof -
  obtain a where a: "get_credit_account account_id d = Some a"
    using run by (auto simp: apply_limit_increase_def split: option.splits if_splits)
  have pol: "evaluate_credit_limit (limit_facts_of a (get_credit_product (ca_product_code a) d)) requested ''USD'' = None"
    using run a by (auto simp: apply_limit_increase_def split: option.splits if_splits)
  then obtain p where p: "get_credit_product (ca_product_code a) d = Some p" "cp_is_active p"
    "ca_status a = ''ACTIVE''" "ca_currency a = ''USD''" "ca_credit_limit_cents a < requested"
    "cp_min_credit_limit_cents p \<le> requested" "requested \<le> cp_max_credit_limit_cents p"
    by (auto simp: evaluate_credit_limit_def limit_facts_of_def split: if_splits option.splits bool.splits)
  show ?thesis
    by (rule that [OF a p]) (use run a pol in \<open>auto simp: apply_limit_increase_def Let_def split: if_splits\<close>)
qed

text \<open>A limit increase obeys the policy and touches one row: the account is active and in USD, the new
  limit is a strict increase inside the bounds of the account's active product, limit and available
  credit grow by the same amount, the books stay in order.  The available credit then agrees with debt
  and holds exactly when the account was not over its limit: an account whose debt and holds exceed the
  limit gets the whole increase as available credit.\<close>

theorem limit_increase_within_policy:
  assumes run: "apply_limit_increase now account_id requested d = Inr (a', d')"
    and ok: "books_ok d" and cur: "\<forall>a \<in> set (d_credit_accounts d). available_current d a"
    and debt: "\<forall>a \<in> set (d_credit_accounts d). 0 \<le> ca_cleared_balance_cents a + hold_total (ca_id a) d"
  shows "\<exists>a p. get_credit_account account_id d = Some a \<and> get_credit_product (ca_product_code a) d = Some p
    \<and> ca_status a = ''ACTIVE'' \<and> ca_currency a = ''USD'' \<and> cp_is_active p
    \<and> ca_credit_limit_cents a < requested
    \<and> cp_min_credit_limit_cents p \<le> requested \<and> requested \<le> cp_max_credit_limit_cents p
    \<and> a' = a\<lparr>ca_credit_limit_cents := requested,
             ca_available_credit_cents := ca_available_credit_cents a + (requested - ca_credit_limit_cents a),
             ca_last_limit_increase_at := Some now\<rparr>
    \<and> d_credit_accounts d' = put_row ca_id a' (d_credit_accounts d) \<and> get_credit_account account_id d' = Some a'
    \<and> d_accounts d' = d_accounts d \<and> d_auths d' = d_auths d \<and> d_entries d' = d_entries d \<and> books_ok d'
    \<and> (available_current d' a'
         = (ca_cleared_balance_cents a + hold_total (ca_id a) d \<le> ca_credit_limit_cents a))"
proof -
  obtain a p where a: "get_credit_account account_id d = Some a" and p: "get_credit_product (ca_product_code a) d = Some p"
    "cp_is_active p" "ca_status a = ''ACTIVE''" "ca_currency a = ''USD''" "ca_credit_limit_cents a < requested"
    "cp_min_credit_limit_cents p \<le> requested" "requested \<le> cp_max_credit_limit_cents p"
    and a': "a' = a\<lparr>ca_credit_limit_cents := requested,
      ca_available_credit_cents := ca_available_credit_cents a + (requested - ca_credit_limit_cents a),
      ca_last_limit_increase_at := Some now\<rparr>"
    and d': "d' = audit now ''CREDIT_LIMIT_INCREASED''
       [(''account_id'', PStr account_id), (''new_limit_cents'', PInt requested)] (put_credit_account a' d)"
    using limit_increase_steps [OF run] by blast
  note ai = get_credit_account_id [OF a]
  have okp: "books_ok (put_credit_account a' d)"
    by (rule books_put_credit_account [OF ok, of _ a]) (simp_all add: a' a ai)
  have ga: "get_credit_account account_id d' = Some a'"
    using get_put_credit_account [of a' d] a ai by (simp add: d' frame_simps a')
  have h: "hold_total (ca_id a) d' = hold_total (ca_id a) d"
    by (rule hold_total_cong) (simp add: d' frame_simps put_credit_account_def)
  have now_cur: "ca_available_credit_cents a = max 0 (min (ca_credit_limit_cents a)
      (ca_credit_limit_cents a - ca_cleared_balance_cents a - hold_total (ca_id a) d))"
    using cur ai by (simp add: available_current_def)
  have "available_current d' a' = (ca_cleared_balance_cents a + hold_total (ca_id a) d \<le> ca_credit_limit_cents a)"
    unfolding available_current_def using now_cur p(5) debt ai by (auto simp: a' h min_def max_def)
  with a p a' ga okp show ?thesis
    by (intro exI [of _ a] exI [of _ p]) (simp add: d' frame_simps put_credit_account_def books_audit)
qed

theorem limit_increase_within_policy_witness:
  "\<exists>a' d'. apply_limit_increase 9 ''CR1'' 600000 sample_db = Inr (a', d') \<and> available_current d' a'"
proof -
  have "\<not> isl (apply_limit_increase 9 ''CR1'' 600000 sample_db)" by code_simp
  then obtain a' d' where r: "apply_limit_increase 9 ''CR1'' 600000 sample_db = Inr (a', d')"
    by (cases "apply_limit_increase 9 ''CR1'' 600000 sample_db") auto
  have debt: "\<forall>a \<in> set (d_credit_accounts sample_db). 0 \<le> ca_cleared_balance_cents a + hold_total (ca_id a) sample_db"
    by (simp add: sample_db_def hold_total_def sample_card_account_def)
  obtain a where a: "get_credit_account ''CR1'' sample_db = Some a" and iff: "available_current d' a'
      = (ca_cleared_balance_cents a + hold_total (ca_id a) sample_db \<le> ca_credit_limit_cents a)"
    using limit_increase_within_policy [OF r sample_books sample_current debt] by blast
  have "a = sample_card_account" using a by (simp add: sample_db_def get_credit_account_def sample_card_account_def)
  then have "available_current d' a'" unfolding iff by (simp add: sample_card_account_def hold_total_def sample_db_def)
  with r show ?thesis by blast
qed

text \<open>Saving a list of rows already in the card table.\<close>

lemma save_card_frame [frame_simps]:
  "d_uuid (save_card c d) = d_uuid d" "d_draws (save_card c d) = d_draws d"
  "d_credit_accounts (save_card c d) = d_credit_accounts d" "d_accounts (save_card c d) = d_accounts d"
  "d_auths (save_card c d) = d_auths d" "d_posted (save_card c d) = d_posted d"
  "d_entries (save_card c d) = d_entries d" "d_transactions (save_card c d) = d_transactions d"
  by (simp_all add: save_card_def put_card_def)

lemma fold_save_frame:
  "d_uuid (fold (\<lambda>c. save_card (f c)) cs d) = d_uuid d \<and> d_draws (fold (\<lambda>c. save_card (f c)) cs d) = d_draws d
   \<and> d_credit_accounts (fold (\<lambda>c. save_card (f c)) cs d) = d_credit_accounts d
   \<and> d_accounts (fold (\<lambda>c. save_card (f c)) cs d) = d_accounts d \<and> d_auths (fold (\<lambda>c. save_card (f c)) cs d) = d_auths d
   \<and> d_posted (fold (\<lambda>c. save_card (f c)) cs d) = d_posted d \<and> d_entries (fold (\<lambda>c. save_card (f c)) cs d) = d_entries d
   \<and> d_transactions (fold (\<lambda>c. save_card (f c)) cs d) = d_transactions d"
  by (induction cs arbitrary: d) (simp_all add: frame_simps)

text \<open>A replacement touches cards only.\<close>

lemma issue_replacement_frame:
  assumes "issue_replacement_card now token last_four rq d = Inr (cards, d')"
  shows "d_credit_accounts d' = d_credit_accounts d" "d_accounts d' = d_accounts d" "d_auths d' = d_auths d"
    "d_posted d' = d_posted d" "d_entries d' = d_entries d" "d_transactions d' = d_transactions d"
    "d_uuid d' = d_uuid d" "d_draws d \<le> d_draws d'"
proof -
  have "\<exists>cs c t p e v. d' = record_audit_event now t p e v
      (save_card c (snd (uuid4 (fold (\<lambda>c. save_card (deactivated c)) cs d))))"
    using assms by (auto simp: issue_replacement_card_def Let_def uuid4_def split: option.splits if_splits) blast
  then obtain cs where "\<exists>c t p e v. d' = record_audit_event now t p e v
      (save_card c (snd (uuid4 (fold (\<lambda>c. save_card (deactivated c)) cs d))))" by blast
  then show "d_credit_accounts d' = d_credit_accounts d" "d_accounts d' = d_accounts d" "d_auths d' = d_auths d"
    "d_posted d' = d_posted d" "d_entries d' = d_entries d" "d_transactions d' = d_transactions d"
    "d_uuid d' = d_uuid d" "d_draws d \<le> d_draws d'"
    using fold_save_frame [of deactivated cs d]
    by (auto simp: frame_simps uuid4_def intro: order_trans [OF _ record_audit_event_frame(15)])
qed

lemma fold_save_cards:
  assumes "distinct (map ic_id (d_cards d))" "set cs \<subseteq> set (d_cards d)" "distinct cs"
  shows "d_cards (fold (\<lambda>c. save_card (deactivated c)) cs d)
      = map (\<lambda>c. if c \<in> set cs then deactivated c else c) (d_cards d)"
    "d_credit_accounts (fold (\<lambda>c. save_card (deactivated c)) cs d) = d_credit_accounts d"
    "d_accounts (fold (\<lambda>c. save_card (deactivated c)) cs d) = d_accounts d"
    "d_auths (fold (\<lambda>c. save_card (deactivated c)) cs d) = d_auths d"
    "d_uuid (fold (\<lambda>c. save_card (deactivated c)) cs d) = d_uuid d"
    "d_draws (fold (\<lambda>c. save_card (deactivated c)) cs d) = d_draws d"
  using assms
proof (induction cs rule: rev_induct)
  case (snoc x xs)
  let ?d = "fold (\<lambda>c. save_card (deactivated c)) xs d"
  {
    case 1
    have IH: "d_cards ?d = map (\<lambda>c. if c \<in> set xs then deactivated c else c) (d_cards d)"
      using snoc(1) 1 by simp
    have key: "ic_id (deactivated c) = ic_id c" for c by (simp add: deactivated_def)
    have ids: "map ic_id (d_cards ?d) = map ic_id (d_cards d)" by (simp add: IH key)
    have x: "x \<in> set (d_cards d)" "x \<notin> set xs" using 1 by auto
    have same: "c = x" if "c \<in> set (d_cards d)" "ic_id c = ic_id x" for c
      using 1 that x(1) by (auto simp: distinct_map dest: inj_onD)
    have "ic_id x \<in> ic_id ` set (d_cards ?d)" using x(1) arg_cong [OF ids, of set] by (metis imageI list.set_map)
    then have "get_card_by_id (ic_id x) ?d \<noteq> None" by (auto simp: get_card_by_id_def find_None_iff')
    then have "d_cards (save_card (deactivated x) ?d) = put_row ic_id (deactivated x) (d_cards ?d)"
      by (simp add: save_card_def put_card_def key)
    also have "\<dots> = map (\<lambda>c. if c \<in> set (xs @ [x]) then deactivated c else c) (d_cards d)"
      using same x(2) by (auto simp: put_row_def IH key o_def)
    finally show ?case by simp
  next
    case 2 then show ?case using snoc by (simp add: frame_simps)
  next
    case 3 then show ?case using snoc by (simp add: frame_simps)
  next
    case 4 then show ?case using snoc by (simp add: frame_simps)
  next
    case 5 then show ?case using snoc by (simp add: frame_simps)
  next
    case 6 then show ?case using snoc by (simp add: frame_simps)
  }
qed simp_all

lemma replaced_card_Inr:
  assumes "replaced_card named account_id d = Inr crd"
  shows "crd \<in> set (d_cards d)" "ic_account_id crd = account_id"
    "str_or named None = None \<Longrightarrow> \<not> ic_is_active crd \<Longrightarrow> list_ex ic_is_active (list_cards_by_account account_id d) = False"
proof -
  have "crd \<in> set (d_cards d) \<and> ic_account_id crd = account_id
     \<and> (str_or named None = None \<longrightarrow> \<not> ic_is_active crd \<longrightarrow> list_ex ic_is_active (list_cards_by_account account_id d) = False)"
  proof (cases "str_or named None")
    case None
    then show ?thesis
      using assms find_Some_iff' [of _ "list_cards_by_account account_id d" crd]
      by (auto simp: replaced_card_def Let_def list_cards_by_account_def list_ex_iff find_None_iff' split: option.splits)
  next
    case (Some i)
    then show ?thesis
      using assms by (auto simp: replaced_card_def get_card_by_id_for_account_def dest: find_Some_iff' split: option.splits if_splits)
  qed
  then show "crd \<in> set (d_cards d)" "ic_account_id crd = account_id"
    "str_or named None = None \<Longrightarrow> \<not> ic_is_active crd \<Longrightarrow> list_ex ic_is_active (list_cards_by_account account_id d) = False"
    by blast+
qed

text \<open>The cards a replacement deactivates.\<close>

definition retired :: "replacement_request \<Rightarrow> issued_card \<Rightarrow> issued_card \<Rightarrow> bool" where
  "retired rq old c \<longleftrightarrow> (if str_or (rq_compromised_card_id rq) None = None
     then ic_account_id c = rq_account_id rq \<and> ic_is_active c else c = old)"

lemma issue_replacement_steps:
  assumes run: "issue_replacement_card now token last_four rq d = Inr ((old, new), d')"
    and ids: "distinct (map ic_id (d_cards d))" and uuids: "\<forall>n \<ge> d_draws d. d_uuid d n \<notin> ic_id ` set (d_cards d)"
  shows "old \<in> set (d_cards d)" "ic_account_id old = rq_account_id rq" "get_credit_account (rq_account_id rq) d \<noteq> None"
    "d_cards d' = map (\<lambda>c. if retired rq old c then deactivated c else c) (d_cards d) @ [new]"
    "\<exists>i. new = replacement_for now i (rq_account_id rq) token (rq_issue_virtual_card rq) last_four old"
    "token \<notin> ic_card_token ` set (d_cards d)"
    "d_credit_accounts d' = d_credit_accounts d" "d_accounts d' = d_accounts d" "d_auths d' = d_auths d"
    "replaced_card (rq_compromised_card_id rq) (rq_account_id rq) d = Inr old"
proof -
  obtain a where a: "get_credit_account (rq_account_id rq) d = Some a" "ca_id a = rq_account_id rq"
    using run get_credit_account_id by (fastforce simp: issue_replacement_card_def split: option.splits)
  then show "get_credit_account (rq_account_id rq) d \<noteq> None" by simp
  let ?cs = "cards_to_deactivate (rq_compromised_card_id rq) (rq_account_id rq) old d"
  let ?d1 = "fold (\<lambda>c. save_card (deactivated c)) ?cs d"
  show rc: "replaced_card (rq_compromised_card_id rq) (rq_account_id rq) d = Inr old"
    using run a by (auto simp: issue_replacement_card_def Let_def uuid4_def split: if_splits)
  note old = replaced_card_Inr [OF rc]
  show "old \<in> set (d_cards d)" "ic_account_id old = rq_account_id rq" by (rule old)+
  have cs: "set ?cs \<subseteq> set (d_cards d)" "distinct ?cs"
    using old(1) ids by (auto simp: cards_to_deactivate_def list_cards_by_account_def distinct_map)
  note f = fold_save_cards [OF ids cs]
  let ?i = "d_uuid ?d1 (d_draws ?d1)"
  have new: "new = replacement_for now ?i (rq_account_id rq) token (rq_issue_virtual_card rq) last_four old"
    and d': "\<exists>t p e v. d' = record_audit_event now t p e v (save_card new (?d1\<lparr>d_draws := Suc (d_draws ?d1)\<rparr>))"
    and tok: "token \<notin> ic_card_token ` set (d_cards ?d1)"
    using run a rc by (auto simp: issue_replacement_card_def Let_def uuid4_def split: if_splits)
  then show "\<exists>i. new = replacement_for now i (rq_account_id rq) token (rq_issue_virtual_card rq) last_four old" by blast
  have tk: "ic_card_token (deactivated c) = ic_card_token c" "ic_id (deactivated c) = ic_id c" for c
    by (simp_all add: deactivated_def)
  have toks: "map ic_card_token (d_cards ?d1) = map ic_card_token (d_cards d)" by (simp add: f tk)
  show "token \<notin> ic_card_token ` set (d_cards d)" using tok arg_cong [OF toks, of set] by simp
  have "ic_id new \<notin> ic_id ` set (d_cards ?d1)"
    using uuids by (auto simp: f new replacement_for_def image_iff tk split: if_splits)
  then have "get_card_by_id (ic_id new) (?d1\<lparr>d_draws := Suc (d_draws ?d1)\<rparr>) = None"
    unfolding get_card_by_id_def find_None_iff' by (simp add: image_iff) metis
  then have "d_cards d' = d_cards ?d1 @ [new]" using d' by (auto simp: frame_simps save_card_def)
  moreover have "c \<in> set ?cs \<longleftrightarrow> retired rq old c" if "c \<in> set (d_cards d)" for c
    using that by (auto simp: cards_to_deactivate_def retired_def list_cards_by_account_def)
  ultimately show "d_cards d' = map (\<lambda>c. if retired rq old c then deactivated c else c) (d_cards d) @ [new]"
    by (simp add: f cong: map_cong)
  show "d_credit_accounts d' = d_credit_accounts d" "d_accounts d' = d_accounts d" "d_auths d' = d_auths d"
    using d' by (auto simp: frame_simps f)
qed

text \<open>C7. Replacing a card takes the old one out of use: the replaced card belongs to the account and, after
  the call, a swipe with its token can open no hold and change no balance: under a new reference number it is declined
  as blocked, under a known one it is answered from the authorization recorded before; only the cards the request retires are
  changed; the one new card is active, on the same account, for the same holder; without a named
  compromised card it is the account's only active card; no account, hold or balance changes.\<close>

theorem replacement_retires_card:
  assumes run: "issue_replacement_card now token last_four rq d = Inr ((old, new), d')"
    and ids: "distinct (map ic_id (d_cards d))" "distinct (map ic_card_token (d_cards d))"
    and uuids: "\<forall>n \<ge> d_draws d. d_uuid d n \<notin> ic_id ` set (d_cards d)"
  shows "old \<in> set (d_cards d) \<and> ic_account_id old = rq_account_id rq
    \<and> d_cards d' = map (\<lambda>c. if retired rq old c then deactivated c else c) (d_cards d) @ [new]
    \<and> ic_account_id new = rq_account_id rq \<and> ic_status new = ''ACTIVE'' \<and> ic_is_active new
    \<and> ic_card_token new = token \<and> ic_cardholder_name new = ic_cardholder_name old \<and> ic_exp_year old \<le> ic_exp_year new
    \<and> (\<forall>nw payload. ap_card_token payload = ic_card_token old \<longrightarrow>
         (case get_authorization_by_rrn (ap_retrieval_reference_number payload) None d' of
            None \<Rightarrow> (\<exists>found. process_authorization nw payload d'
              = (refuse nw payload ''CARD_BLOCKED'' found d', Inr (declined_reply ''75'' ''CARD_BLOCKED'')))
          | Some existing \<Rightarrow> existing \<in> set (d_auths d) \<and> process_authorization nw payload d' = (d', Inr (duplicate_reply existing)))
         \<and> d_auths (fst (process_authorization nw payload d')) = d_auths d
         \<and> d_credit_accounts (fst (process_authorization nw payload d')) = d_credit_accounts d)
    \<and> (str_or (rq_compromised_card_id rq) None = None \<longrightarrow> list_active_cards_by_account (rq_account_id rq) d' = [new])
    \<and> d_credit_accounts d' = d_credit_accounts d \<and> d_accounts d' = d_accounts d \<and> d_auths d' = d_auths d"
proof -
  note st = issue_replacement_steps [OF run ids(1) uuids] note old = replaced_card_Inr [OF st(10)]
  let ?g = "\<lambda>c. if retired rq old c then deactivated c else c"
  have tk: "ic_card_token (?g c) = ic_card_token c" "ic_account_id (?g c) = ic_account_id c" for c
    by (simp_all add: deactivated_def)
  have gone: "ic_is_active (?g old) = False"
  proof (cases "str_or (rq_compromised_card_id rq) None = None")
    case True
    then show ?thesis using st(2) by (auto simp: retired_def deactivated_def)
  qed (auto simp: retired_def deactivated_def)
  have "List.find (\<lambda>c. ic_card_token c = ic_card_token old) (map ?g (d_cards d)) = Some (?g old)"
  proof -
    have "map ic_card_token (map ?g (d_cards d)) = map ic_card_token (d_cards d)" by (simp add: o_def tk)
    then have "distinct (map ic_card_token (map ?g (d_cards d)))" using ids(2) by (simp only:)
    moreover have "?g old \<in> set (map ?g (d_cards d))" using st(1) by simp
    ultimately have "List.find (\<lambda>c. ic_card_token c = ic_card_token (?g old)) (map ?g (d_cards d)) = Some (?g old)"
      by (rule find_key_distinct)
    then show ?thesis unfolding tk(1) [of old] .
  qed
  then have "get_card_by_token (ic_card_token old) d' = Some (?g old)"
    by (simp add: get_card_by_token_def st(4) find_append)
  then have blocked: "\<exists>found. authorization_checks payload d' = Inl (''75'', ''CARD_BLOCKED'', found)"
    if "ap_card_token payload = ic_card_token old" for payload
    using that gone by (simp add: authorization_checks_def)
  have "case get_authorization_by_rrn (ap_retrieval_reference_number payload) None d' of
        None \<Rightarrow> (\<exists>found. process_authorization nw payload d'
          = (refuse nw payload ''CARD_BLOCKED'' found d', Inr (declined_reply ''75'' ''CARD_BLOCKED'')))
      | Some existing \<Rightarrow> existing \<in> set (d_auths d) \<and> process_authorization nw payload d' = (d', Inr (duplicate_reply existing))"
    "d_auths (fst (process_authorization nw payload d')) = d_auths d \<and>
      d_credit_accounts (fst (process_authorization nw payload d')) = d_credit_accounts d"
    if "ap_card_token payload = ic_card_token old" for nw payload
    using blocked [OF that] st(7,9) find_Some_iff' [of _ "d_auths d"]
    by (auto simp: process_authorization_def refuse_def frame_simps get_authorization_by_rrn_def split: option.split)
  moreover have "list_active_cards_by_account (rq_account_id rq) d' = [new]"
    if "str_or (rq_compromised_card_id rq) None = None"
    using st(5) that by (auto simp: list_active_cards_by_account_def st(4) filter_map o_def retired_def deactivated_def
        replacement_for_def filter_empty_conv)
  ultimately show ?thesis
    using st old by (auto simp: replacement_for_def)
qed

definition sample_replacement :: replacement_request where
  "sample_replacement = \<lparr>rq_account_id = ''CR1'', rq_reason = ''FRAUD'', rq_issue_virtual_card = True,
     rq_fraud_alert_id = None, rq_compromised_card_id = Some ''K1''\<rparr>"

theorem replacement_retires_card_witness:
  "\<exists>old new d'. issue_replacement_card 9 ''tok_2'' ''7777'' sample_replacement sample_db = Inr ((old, new), d')
     \<and> length (d_cards d') = 2"
proof -
  have "\<not> isl (issue_replacement_card 9 ''tok_2'' ''7777'' sample_replacement sample_db)" by code_simp
  then obtain old new d' where r: "issue_replacement_card 9 ''tok_2'' ''7777'' sample_replacement sample_db = Inr ((old, new), d')"
    by (cases "issue_replacement_card 9 ''tok_2'' ''7777'' sample_replacement sample_db") auto
  have "d_cards d' = map (\<lambda>c. if retired sample_replacement old c then deactivated c else c) (d_cards sample_db) @ [new]"
    using replacement_retires_card [OF r] by (simp add: sample_db_def sample_card_def sample_uuid_def)
  with r show ?thesis by (simp add: sample_db_def)
qed

end
