(* ===== verification/Card_Refunds.thy ===== *)
theory Card_Refunds
  imports Card_Service
begin

text \<open>
  The three operations of \<^verbatim>\<open>services/credit_card.py\<close> that give money back: \<open>reverse_posted_fee\<close>, and the
  two remediation steps of the fraud workflow, \<open>void_fraud_authorization_hold\<close> and
  \<open>apply_fraud_provisional_credit\<close>, which are keyed by a case action and answer a repeated call with the
  recorded result.  The last two are the bodies a caller runs in its transaction; \<open>atomically\<close> of the
  body is the call that commits.
\<close>

section \<open>Reversing a posted charge\<close>

definition refund_line ::
    "string \<Rightarrow> string \<Rightarrow> string \<Rightarrow> int \<Rightarrow> string \<Rightarrow> int \<Rightarrow> posted_transaction" where
  "refund_line i account_id journal_id amount desc posted_at =
     \<lparr>pt_id = i, pt_account_id = account_id, pt_authorization_id = None,
      pt_journal_transaction_id = Some journal_id, pt_auth_code = None,
      pt_retrieval_reference_number = None, pt_amount_cents = amount, pt_description = desc,
      pt_posted_at = posted_at\<rparr>"

definition reversal_description :: "posted_transaction \<Rightarrow> string" where
  "reversal_description original =
     (if pt_description original = ''LATE_FEE'' then ''FEE_REVERSAL_REF_'' else ''REVERSAL_REF_'') @ pt_id original"

definition reversal_posting :: "int \<Rightarrow> posted_transaction \<Rightarrow> credit_account \<Rightarrow> card_posting" where
  "reversal_posting now original account =
     \<lparr>kp_clearing = ''SYSTEM_CARD_REVERSAL_CLEARING'',
      kp_clearing_description = ''Card reversal and dispute clearing'',
      kp_key = ''card-reversal:'' @ pt_id original, kp_description = reversal_description original,
      kp_source_type = ''CARD_POSTED_TRANSACTION_REVERSAL'',
      kp_references = [(''credit_account_id'', PStr (ca_id account)),
        (''original_statement_transaction_id'', PStr (pt_id original))],
      kp_currency = ca_currency account, kp_posted_at = now,
      kp_amount_minor = \<bar>pt_amount_cents original\<bar>, kp_charge = False\<rparr>"

record fee_reversal =
  fr_account_id :: string
  fr_reversed_amount_cents :: int
  fr_transaction_id :: string
  fr_cleared_balance_cents :: int
  fr_available_credit_cents :: int

text \<open>From the checks on: the balances move by the amount, without a new computation of the credit.\<close>

definition reverse_charge ::
    "int \<Rightarrow> posted_transaction \<Rightarrow> credit_account \<Rightarrow> bank_db \<Rightarrow> (fee_reversal \<times> bank_db) res" where
  "reverse_charge now original account d =
     (let amount = \<bar>pt_amount_cents original\<bar> in
      bindR (post_card_journal now (reversal_posting now original account) account d) (\<lambda>(journal_account, posting, d1).
      let (i, d2) = uuid4 d1;
          tid = tx_id (jp_transaction posting)
      in bindR (add_posted_transaction (refund_line i (ca_id account) tid amount (reversal_description original) now) d2) (\<lambda>d3.
      let account' = account\<lparr>ca_cleared_balance_cents := ca_cleared_balance_cents account - amount,
                ca_available_credit_cents := ca_available_credit_cents account + amount\<rparr>;
          d4 = update_account (level_mirror account') (ac_id journal_account) (put_credit_account account' d3)
      in Inr (\<lparr>fr_account_id = ca_id account, fr_reversed_amount_cents = amount, fr_transaction_id = tid,
               fr_cleared_balance_cents = ca_cleared_balance_cents account',
               fr_available_credit_cents = ca_available_credit_cents account'\<rparr>,
              audit now ''FEE_REVERSED''
                [(''account_id'', PStr (ca_id account)), (''reversal_amount_cents'', PInt amount),
                 (''transaction_id'', PStr tid), (''financial_event_id'', PStr (jp_event_id posting))] d4))))"

definition reverse_posted_fee :: "int \<Rightarrow> string \<Rightarrow> string \<Rightarrow> string \<Rightarrow> bank_db \<Rightarrow> bank_db \<times> fee_reversal res" where
  "reverse_posted_fee now account_id transaction_id reason = atomically (\<lambda>d.
     case get_credit_account account_id d of
       None \<Rightarrow> Inl (ValueError (''Account '' @ quoted account_id @ '' not found.''))
     | Some account \<Rightarrow>
         (case get_ledger_entry_by_id transaction_id d of
            None \<Rightarrow> Inl (ValueError (''Original transaction '' @ quoted transaction_id @ '' not found in ledger.''))
          | Some original \<Rightarrow>
              if pt_account_id original \<noteq> account_id
              then Inl (ValueError (''Original transaction '' @ quoted transaction_id @ '' not found in ledger.''))
              else if 0 \<le> pt_amount_cents original
              then Inl (ValueError (''Transaction '' @ quoted transaction_id @ '' is a credit and cannot be reversed (Amount: ''
                     @ show_int (pt_amount_cents original) @ '' cents).''))
              else (case get_reversal_entry account_id transaction_id d of
                      Some prior \<Rightarrow> Inl (ValueError (''Transaction '' @ quoted transaction_id
                         @ '' has already been reversed in ledger (Reversal ID: '' @ pt_id prior @ '').''))
                    | None \<Rightarrow> reverse_charge now original account d)))"

section \<open>The remediation steps\<close>

text \<open>\<open>result_payload or {}\<close>, normalised, marked as a replay.\<close>

definition replay_case_action :: "fraud_case_action \<Rightarrow> string \<Rightarrow> bank_db \<Rightarrow> ((string \<times> pyval) list \<times> bank_db) res" where
  "replay_case_action action account_id d =
     (case get_credit_account account_id d of
        None \<Rightarrow> Inl (ValueError ''Fraud result account no longer exists'')
      | Some account \<Rightarrow>
          bindR (normalize_historical_fraud_action
                   (case fa_result_payload action of PDict kvs \<Rightarrow> kvs | _ \<Rightarrow> []) (ca_currency account)) (\<lambda>result.
            Inr (dict_put ''idempotent_replay'' (PBool True) result, d)))"

definition succeeded_action :: "string \<Rightarrow> string \<Rightarrow> bank_db \<Rightarrow> fraud_case_action option" where
  "succeeded_action alert_id key d =
     (case get_case_action_by_idempotency_key alert_id key d of
        Some action \<Rightarrow> if fa_status action = ''SUCCEEDED'' then Some action else None
      | None \<Rightarrow> None)"

record remediation =
  rm_account_id :: string
  rm_item_id :: string
  rm_fraud_alert_id :: string
  rm_reason :: string

definition void_result ::
    "remediation \<Rightarrow> credit_account \<Rightarrow> transaction_authorization \<Rightarrow> money \<Rightarrow> money \<Rightarrow> (string \<times> pyval) list" where
  "void_result rm account auth release available =
     [(''account_id'', PStr (ca_id account)), (''authorization_id'', PStr (ta_id auth)),
      (''fraud_alert_id'', PStr (rm_fraud_alert_id rm))]
     @ money_fields ''voided_amount'' release @ [(''authorization_status'', PStr ''REVERSED'')]
     @ money_fields ''available_credit'' available
     @ [(''message'', PStr ''Pending fraud authorization reversed.'')]"

definition void_hold ::
    "int \<Rightarrow> remediation \<Rightarrow> string \<Rightarrow> credit_account \<Rightarrow> transaction_authorization \<Rightarrow> bank_db
     \<Rightarrow> ((string \<times> pyval) list \<times> bank_db) res" where
  "void_hold now rm key account auth d =
     (let (action, d1) = create_case_action now (rm_fraud_alert_id rm) ''FRAUD_AUTHORIZATION_VOIDED'' ''PENDING'' (Some key)
            (PDict [(''account_id'', PStr (ca_id account)), (''authorization_id'', PStr (ta_id auth)),
                    (''reason'', PStr (rm_reason rm))]) (PDict []) None d
      in bindR (mk_money (ta_billing_amount_cents auth) (ta_billing_currency auth)) (\<lambda>release.
         if currency_code release \<noteq> ca_currency account \<or> amount_minor release < 0
         then Inl (ValueError ''Authorization billing Money does not match the account'')
         else bindR (recalculate_available_credit account (put_auth (auth\<lparr>ta_status := ''REVERSED''\<rparr>) d1)) (\<lambda>(account', d2).
         bindR (mk_money (ca_available_credit_cents account') (ca_currency account')) (\<lambda>available.
         let result = void_result rm account auth release available;
             d3 = audit now ''FRAUD_AUTHORIZATION_VOIDED''
               [(''fraud_alert_id'', PStr (rm_fraud_alert_id rm)), (''correlation_id'', PStr (rm_fraud_alert_id rm)),
                (''account_id'', PStr (ca_id account)), (''card_id'', PStr (ta_card_id auth)),
                (''authorization_id'', PStr (ta_id auth)), (''money'', model_dump release),
                (''reason'', PStr (rm_reason rm))] d2
         in Inr (result, snd (complete_case_action now (fa_id action) ''SUCCEEDED'' (PDict result) d3))))))"

definition void_fraud_authorization_hold ::
    "int \<Rightarrow> remediation \<Rightarrow> bank_db \<Rightarrow> ((string \<times> pyval) list \<times> bank_db) res" where
  "void_fraud_authorization_hold now rm d =
     (let key = ''fraud-auth-void:'' @ rm_item_id rm in
      case succeeded_action (rm_fraud_alert_id rm) key d of
        Some action \<Rightarrow> replay_case_action action (rm_account_id rm) d
      | None \<Rightarrow>
          (case get_credit_account (rm_account_id rm) d of
             None \<Rightarrow> Inl (ValueError (''Account '' @ quoted (rm_account_id rm) @ '' not found.''))
           | Some account \<Rightarrow>
               (case get_authorization_by_id_for_account (rm_item_id rm) (ca_id account) d of
                  None \<Rightarrow> Inl (ValueError (''Authorization '' @ quoted (rm_item_id rm) @ '' not found for account.''))
                | Some auth \<Rightarrow>
                    if ta_status auth \<notin> {''PENDING'', ''FLAGGED''}
                    then Inl (ValueError (''Authorization '' @ quoted (rm_item_id rm) @ '' is not pending and cannot be voided.''))
                    else void_hold now rm key account auth d)))"

definition provisional_posting :: "int \<Rightarrow> remediation \<Rightarrow> posted_transaction \<Rightarrow> credit_account \<Rightarrow> card_posting" where
  "provisional_posting now rm original account =
     \<lparr>kp_clearing = ''SYSTEM_FRAUD_LOSS_CLEARING'',
      kp_clearing_description = ''Fraud provisional credit loss clearing'',
      kp_key = ''fraud-provisional-credit-journal:'' @ rm_item_id rm,
      kp_description = ''Fraud provisional credit for '' @ rm_item_id rm,
      kp_source_type = ''FRAUD_PROVISIONAL_CREDIT'',
      kp_references = [(''fraud_alert_id'', PStr (rm_fraud_alert_id rm)),
        (''original_statement_transaction_id'', PStr (pt_id original)), (''credit_account_id'', PStr (ca_id account))],
      kp_currency = ca_currency account, kp_posted_at = now,
      kp_amount_minor = \<bar>pt_amount_cents original\<bar>, kp_charge = False\<rparr>"

definition provisional_result ::
    "remediation \<Rightarrow> credit_account \<Rightarrow> posted_transaction \<Rightarrow> string \<Rightarrow> string \<Rightarrow> money \<Rightarrow> money \<Rightarrow> money \<Rightarrow> (string \<times> pyval) list" where
  "provisional_result rm account original line_id journal_id credited cleared available =
     [(''account_id'', PStr (ca_id account)), (''transaction_id'', PStr (pt_id original)),
      (''provisional_credit_transaction_id'', PStr line_id), (''fraud_alert_id'', PStr (rm_fraud_alert_id rm))]
     @ money_fields ''credited_amount'' credited @ [(''journal_transaction_id'', PStr journal_id)]
     @ money_fields ''cleared_balance'' cleared @ money_fields ''available_credit'' available
     @ [(''message'', PStr ''Provisional fraud credit applied pending investigation.'')]"

definition credit_provisionally ::
    "int \<Rightarrow> remediation \<Rightarrow> string \<Rightarrow> credit_account \<Rightarrow> posted_transaction \<Rightarrow> bank_db
     \<Rightarrow> ((string \<times> pyval) list \<times> bank_db) res" where
  "credit_provisionally now rm key account original d =
     (let (action, d0) = create_case_action now (rm_fraud_alert_id rm) ''FRAUD_PROVISIONAL_CREDIT_APPLIED'' ''PENDING'' (Some key)
            (PDict [(''account_id'', PStr (ca_id account)), (''transaction_id'', PStr (pt_id original)),
                    (''reason'', PStr (rm_reason rm))]) (PDict []) None d;
          amount = \<bar>pt_amount_cents original\<bar>
      in bindR (post_card_journal now (provisional_posting now rm original account) account d0) (\<lambda>(journal_account, posting, d1).
         let (i, d2) = uuid4 d1; tid = tx_id (jp_transaction posting) in
         bindR (add_posted_transaction (refund_line i (ca_id account) tid amount
                  (''FRAUD_PROVISIONAL_CREDIT_REF_'' @ rm_item_id rm) now) d2) (\<lambda>d3.
         let account1 = account\<lparr>ca_cleared_balance_cents := ca_cleared_balance_cents account - amount\<rparr> in
         bindR (recalculate_available_credit account1 (put_credit_account account1 d3)) (\<lambda>(account2, d4).
         let d5 = update_account (level_mirror account2) (ac_id journal_account) d4 in
         bindR (mk_money amount (ca_currency account)) (\<lambda>credited.
         bindR (mk_money (ca_cleared_balance_cents account2) (ca_currency account)) (\<lambda>cleared.
         bindR (mk_money (ca_available_credit_cents account2) (ca_currency account)) (\<lambda>available.
         let result = provisional_result rm account original i tid credited cleared available;
             d6 = audit now ''FRAUD_PROVISIONAL_CREDIT_APPLIED''
               [(''fraud_alert_id'', PStr (rm_fraud_alert_id rm)), (''correlation_id'', PStr (rm_fraud_alert_id rm)),
                (''account_id'', PStr (ca_id account)), (''posted_transaction_id'', PStr (pt_id original)),
                (''provisional_credit_transaction_id'', PStr i), (''money'', model_dump credited),
                (''transaction_id'', PStr tid), (''financial_event_id'', PStr (jp_event_id posting)),
                (''reason'', PStr (rm_reason rm))] d5
         in Inr (result, snd (complete_case_action now (fa_id action) ''SUCCEEDED'' (PDict result) d6)))))))))"

definition apply_fraud_provisional_credit ::
    "int \<Rightarrow> remediation \<Rightarrow> bank_db \<Rightarrow> ((string \<times> pyval) list \<times> bank_db) res" where
  "apply_fraud_provisional_credit now rm d =
     (let key = ''fraud-provisional-credit:'' @ rm_item_id rm in
      case succeeded_action (rm_fraud_alert_id rm) key d of
        Some action \<Rightarrow> replay_case_action action (rm_account_id rm) d
      | None \<Rightarrow>
          (case get_credit_account (rm_account_id rm) d of
             None \<Rightarrow> Inl (ValueError (''Account '' @ quoted (rm_account_id rm) @ '' not found.''))
           | Some account \<Rightarrow>
               (case get_ledger_entry_by_id_for_account (rm_item_id rm) (ca_id account) d of
                  None \<Rightarrow> Inl (ValueError (''Posted transaction '' @ quoted (rm_item_id rm) @ '' not found for account.''))
                | Some original \<Rightarrow>
                    if 0 \<le> pt_amount_cents original
                    then Inl (ValueError (''Posted transaction '' @ quoted (rm_item_id rm)
                           @ '' is not a debit and cannot receive a provisional credit.''))
                    else if get_fraud_provisional_credit_entry (ca_id account) (rm_item_id rm) d \<noteq> None
                    then Inl (ValueError (''Posted transaction '' @ quoted (rm_item_id rm)
                           @ '' already has a provisional fraud credit.''))
                    else credit_provisionally now rm key account original d)))"

section \<open>The shared step\<close>

text \<open>A credit posted to the card's journal and its statement line.\<close>

lemma refund_prefix:
  assumes ok: "books_ok d" "mirror_numbers_ok d" and a: "get_credit_account (ca_id a) d = Some a"
    and sys: "take 5 (kp_clearing k) \<noteq> CARD_PREFIX" "5 \<le> length (kp_clearing k)" and credit: "\<not> kp_charge k"
    and new: "List.find (\<lambda>t. tx_idempotency_key t = kp_key k) (d_transactions d) = None"
    and run: "post_card_journal now k a d = Inr (j, p, d1)" "uuid4 d1 = (i, d2)" "add_posted_transaction line d2 = Inr d3"
  shows "books_ok d3" "get_credit_account (ca_id a) d3 = Some a" "get_account (ac_id j) d3 = Some j"
    "ac_credit_account_id j = Some (ca_id a)" "0 < kp_amount_minor k" "d_auths d3 = d_auths d"
    "d_posted d3 = d_posted d @ [line]" "d_case_actions d3 = d_case_actions d" "d_alerts d3 = d_alerts d"
    "d_cards d3 = d_cards d"
    "position (ac_id j) (d_entries d3) = position (ac_id j) (d_entries d) + kp_amount_minor k"
proof -
  note pj = post_card_journal_effect [OF ok a sys new run(1)]
  note u = uuid4_frame [OF run(2)] note pf = posted_frame [OF run(3)]
  have more: "d_case_actions d3 = d_case_actions d1" "d_alerts d3 = d_alerts d1"
    using run(2,3) by (auto simp: uuid4_def add_posted_transaction_def split: if_splits)
  show "books_ok d3" by (rule books_frame_put_posted [OF u(10) [OF pj(1)] run(3)])
  show "get_credit_account (ca_id a) d3 = Some a" using a by (simp add: get_credit_account_def pf u pj(5))
  show "get_account (ac_id j) d3 = Some j" using pj(3) by (simp add: get_account_def pf u)
  show "ac_credit_account_id j = Some (ca_id a)" "0 < kp_amount_minor k" by (rule pj)+
  show "d_auths d3 = d_auths d" "d_posted d3 = d_posted d @ [line]" "d_cards d3 = d_cards d"
    using run(2) by (simp_all add: pf u pj(6-8)) (auto simp: uuid4_def pj(8))
  show "d_case_actions d3 = d_case_actions d" "d_alerts d3 = d_alerts d" by (simp_all add: more pj(9,10))
  show "position (ac_id j) (d_entries d3) = position (ac_id j) (d_entries d) + kp_amount_minor k"
    using pj(15) credit by (simp add: pf u)
qed

section \<open>Properties\<close>

lemma reverse_posted_fee_steps:
  assumes "reverse_posted_fee now account_id txid reason d = (d', Inr rv)"
  obtains a original where "get_credit_account account_id d = Some a" "get_ledger_entry_by_id txid d = Some original"
    "pt_account_id original = account_id" "pt_amount_cents original < 0" "get_reversal_entry account_id txid d = None"
    "reverse_charge now original a d = Inr (rv, d')"
  using assms by (auto simp: reverse_posted_fee_def atomically_def split: sum.splits option.splits if_splits)

lemma reverse_charge_steps:
  assumes "reverse_charge now original a d = Inr (rv, d')"
  obtains j p d1 i d2 d3 where "post_card_journal now (reversal_posting now original a) a d = Inr (j, p, d1)"
    "uuid4 d1 = (i, d2)"
    "add_posted_transaction (refund_line i (ca_id a) (tx_id (jp_transaction p)) \<bar>pt_amount_cents original\<bar>
       (reversal_description original) now) d2 = Inr d3"
    "\<exists>t pl e v. d' = record_audit_event now t pl e v (update_account (level_mirror
       (a\<lparr>ca_cleared_balance_cents := ca_cleared_balance_cents a - \<bar>pt_amount_cents original\<bar>,
          ca_available_credit_cents := ca_available_credit_cents a + \<bar>pt_amount_cents original\<bar>\<rparr>)) (ac_id j)
       (put_credit_account (a\<lparr>ca_cleared_balance_cents := ca_cleared_balance_cents a - \<bar>pt_amount_cents original\<bar>,
          ca_available_credit_cents := ca_available_credit_cents a + \<bar>pt_amount_cents original\<bar>\<rparr>) d3))"
  using assms unfolding reverse_charge_def Let_def
proof (elim run_elims, goal_cases)
  case (1 j jp p d1 i d2 d3)
  show ?case
    by (rule 1(1) [OF 1(2) [unfolded 1(3)] 1(4,5)]) (use 1(6) in auto)
qed

lemma reversed_again:
  assumes "get_credit_account account_id d \<noteq> None" "get_ledger_entry_by_id txid d = Some original"
    "pt_account_id original = account_id" "pt_amount_cents original < 0" "get_reversal_entry account_id txid d \<noteq> None"
  shows "\<exists>e. reverse_posted_fee now account_id txid reason d = (d, Inl (ValueError e))"
  using assms by (auto simp: reverse_posted_fee_def atomically_def)

text \<open>A posted charge is reversed once and exactly: the charge belongs to the account, debt and
  available credit move by its amount, the journal mirror is level with the account and its position
  rises by the amount, one statement line records the credit, the books stay in order, and any second
  reversal of the charge is refused without effect.\<close>

theorem fee_reversed_once:
  assumes ok: "books_ok d" "mirror_numbers_ok d"
    and run: "reverse_posted_fee now account_id txid reason d = (d', Inr rv)"
    and new: "List.find (\<lambda>t. tx_idempotency_key t = ''card-reversal:'' @ txid) (d_transactions d) = None"
  shows "\<exists>a original j line. let n = \<bar>pt_amount_cents original\<bar> in
      get_credit_account account_id d = Some a \<and> original \<in> set (d_posted d) \<and> pt_id original = txid
    \<and> pt_account_id original = account_id \<and> pt_amount_cents original < 0
    \<and> get_credit_account account_id d' = Some (a\<lparr>ca_cleared_balance_cents := ca_cleared_balance_cents a - n,
         ca_available_credit_cents := ca_available_credit_cents a + n\<rparr>)
    \<and> get_account (ac_id j) d' = Some j \<and> ac_credit_account_id j = Some account_id
    \<and> ac_cleared_balance_cents j = ca_cleared_balance_cents a - n
    \<and> position (ac_id j) (d_entries d') = position (ac_id j) (d_entries d) + n
    \<and> d_posted d' = d_posted d @ [line] \<and> pt_amount_cents line = n \<and> pt_account_id line = account_id
    \<and> d_auths d' = d_auths d \<and> books_ok d'
    \<and> (\<forall>now' reason'. \<exists>e. reverse_posted_fee now' account_id txid reason' d' = (d', Inl (ValueError e)))"
proof (cases rule: reverse_posted_fee_steps [OF run])
  case (1 a original)
  have aid: "ca_id a = account_id" using get_credit_account_id [OF 1(1)] by simp
  have oid: "pt_id original = txid" "original \<in> set (d_posted d)"
    using 1(2) by (auto simp: get_ledger_entry_by_id_def dest: find_Some_iff')
  let ?n = "\<bar>pt_amount_cents original\<bar>" let ?k = "reversal_posting now original a"
  let ?a = "a\<lparr>ca_cleared_balance_cents := ca_cleared_balance_cents a - ?n,
              ca_available_credit_cents := ca_available_credit_cents a + ?n\<rparr>"
  obtain j p d1 i d2 d3 where st: "post_card_journal now ?k a d = Inr (j, p, d1)" "uuid4 d1 = (i, d2)"
    "add_posted_transaction (refund_line i (ca_id a) (tx_id (jp_transaction p)) ?n (reversal_description original) now) d2 = Inr d3"
    and d': "\<exists>t pl e v. d' = record_audit_event now t pl e v
        (update_account (level_mirror ?a) (ac_id j) (put_credit_account ?a d3))"
    by (rule reverse_charge_steps [OF 1(6)]) blast
  have k: "take 5 (kp_clearing ?k) \<noteq> CARD_PREFIX" "5 \<le> length (kp_clearing ?k)" "\<not> kp_charge ?k"
    "kp_amount_minor ?k = ?n" "kp_key ?k = ''card-reversal:'' @ txid"
    by (simp_all add: reversal_posting_def CARD_PREFIX_def oid)
  have ga: "get_credit_account (ca_id a) d = Some a" using 1(1) aid by simp
  note rp = refund_prefix [OF ok ga k(1-3) new [folded k(5)] st]
  have same: "get_credit_account (ca_id ?a) d3 = Some a" "ca_id a = ca_id ?a" "ca_currency a = ca_currency ?a"
    using rp(2) by simp_all
  note mv = move_debt_effect [OF rp(1) same rp(3)]
  let ?line = "refund_line i (ca_id a) (tx_id (jp_transaction p)) ?n (reversal_description original) now"
  have posted: "d_posted d' = d_posted d @ [?line]" using d' mv(7) by (auto simp: frame_simps rp)
  have gc: "get_credit_account account_id d' = Some ?a" using d' mv(2) by (auto simp: frame_simps aid)
  have gj: "get_account (ac_id j) d' = Some (level_mirror ?a j)" using d' mv(3) [of "ac_id j"] by (auto simp: frame_simps)
  have pos: "position (ac_id j) (d_entries d') = position (ac_id j) (d_entries d) + ?n"
    using d' mv(4) rp(11) k(4) by (auto simp: frame_simps)
  have again: "\<exists>e. reverse_posted_fee now' account_id txid reason' d' = (d', Inl (ValueError e))" for now' reason'
  proof (rule reversed_again)
    show "get_ledger_entry_by_id txid d' = Some original"
      using 1(2) by (simp add: get_ledger_entry_by_id_def posted find_append)
    have "?line \<in> set (d_posted d')" by (simp add: posted)
    moreover have "pt_account_id ?line = account_id" "pt_authorization_id ?line = None"
      "pt_description ?line \<in> {''FEE_REVERSAL_REF_'' @ txid, ''REVERSAL_REF_'' @ txid}"
      by (simp_all add: refund_line_def reversal_description_def aid oid)
    ultimately show "get_reversal_entry account_id txid d' \<noteq> None"
      unfolding get_reversal_entry_def find_None_iff' by blast
  qed (use 1 gc in simp_all)
  have ok': "books_ok d'" using d' mv(1) by (auto intro: books_audit)
  have au: "d_auths d' = d_auths d" using d' mv(6) by (auto simp: frame_simps rp)
  show ?thesis
    unfolding Let_def
    by (rule exI [of _ a], rule exI [of _ original], rule exI [of _ "level_mirror ?a j"], rule exI [of _ ?line], intro conjI allI)
      (fact 1(1,3,4) oid gc posted ok' au again | simp add: gj pos rp(4) aid refund_line_def)+
qed

definition sample_charge :: posted_transaction where
  "sample_charge = \<lparr>pt_id = ''P1'', pt_account_id = ''CR1'', pt_authorization_id = None,
     pt_journal_transaction_id = None, pt_auth_code = None, pt_retrieval_reference_number = None,
     pt_amount_cents = - 2500, pt_description = ''LATE_FEE'', pt_posted_at = 50\<rparr>"

definition sample_charged_db :: bank_db where
  "sample_charged_db = sample_db\<lparr>d_posted := [sample_charge]\<rparr>"

lemma sample_charged_ok: "books_ok sample_charged_db" "mirror_numbers_ok sample_charged_db"
proof -
  show "books_ok sample_charged_db"
    by (rule books_ok_frame [OF sample_books]) (simp_all add: sample_charged_db_def tx_sig_def acct_sig_def card_sig_def)
qed (use sample_mirror_numbers in \<open>simp add: mirror_numbers_ok_def sample_charged_db_def\<close>)

abbreviation sample_fee_reversal :: "bank_db \<times> fee_reversal res" where
  "sample_fee_reversal \<equiv> reverse_posted_fee 60 ''CR1'' ''P1'' ''GOODWILL'' sample_charged_db"

theorem fee_reversed_once_witness:
  "\<exists>d' rv e. sample_fee_reversal = (d', Inr rv) \<and> length (d_posted d') = 2
     \<and> reverse_posted_fee 61 ''CR1'' ''P1'' ''AGAIN'' d' = (d', Inl (ValueError e))"
proof -
  have "\<not> isl (snd sample_fee_reversal)" by code_simp
  then obtain d' rv where r: "sample_fee_reversal = (d', Inr rv)"
    by (cases sample_fee_reversal; cases "snd sample_fee_reversal") auto
  have new: "List.find (\<lambda>t. tx_idempotency_key t = ''card-reversal:'' @ ''P1'') (d_transactions sample_charged_db) = None"
    by (simp add: sample_charged_db_def sample_db_def)
  obtain line where "d_posted d' = d_posted sample_charged_db @ [line]"
    "\<forall>now' reason'. \<exists>e. reverse_posted_fee now' ''CR1'' ''P1'' reason' d' = (d', Inl (ValueError e))"
    using fee_reversed_once [OF sample_charged_ok r new] unfolding Let_def by blast
  with r show ?thesis by (simp add: sample_charged_db_def)
qed

section \<open>Repeated remediation\<close>

lemma dict_put_new: "k \<notin> fst ` set kvs \<Longrightarrow> dict_put k v kvs = kvs @ [(k, v)]"
  by (induction k v kvs rule: dict_put.induct) auto

lemma completed_action:
  assumes create: "create_case_action now al ty ''PENDING'' (Some key) rq rs None d = (action, d0)"
    and first: "get_case_action_by_idempotency_key al key d = None" and key: "key \<noteq> []"
    and fresh: "\<forall>n \<ge> d_draws d. d_uuid d n \<notin> fa_id ` set (d_case_actions d)"
    and same: "d_case_actions dm = d_case_actions d0"
  shows "succeeded_action al key (snd (complete_case_action later (fa_id action) ''SUCCEEDED'' result dm))
      = Some (action\<lparr>fa_status := ''SUCCEEDED'', fa_result_payload := result, fa_completed_at := Some later\<rparr>)"
    "same_books d d0" "same_books dm (snd (complete_case_action later (fa_id action) ''SUCCEEDED'' result dm))"
    "d_alerts (snd (complete_case_action later (fa_id action) ''SUCCEEDED'' result dm)) = d_alerts dm"
proof -
  have act: "fa_id action = d_uuid d (d_draws d)" "fa_fraud_alert_id action = al" "fa_idempotency_key action = Some key"
    "d_case_actions d0 = d_case_actions d @ [action]"
    using create first key by (auto simp: create_case_action_def str_or_def uuid4_def Let_def)
  have new: "\<forall>x \<in> set (d_case_actions d). fa_id x \<noteq> fa_id action" by (metis act(1) fresh imageI order_refl)
  let ?action = "action\<lparr>fa_status := ''SUCCEEDED'', fa_result_payload := result, fa_completed_at := Some later\<rparr>"
  have "List.find (\<lambda>a. fa_id a = fa_id action) (d_case_actions d) = None" using new by (simp add: find_None_iff')
  then have found: "List.find (\<lambda>a. fa_id a = fa_id action) (d_case_actions dm) = Some action"
    by (simp add: same act(4) find_append)
  have cc: "complete_case_action later (fa_id action) ''SUCCEEDED'' result dm = (Some ?action, put_case_action ?action dm)"
    by (simp add: complete_case_action_def found Let_def)
  have absent: "put_row fa_id ?action (d_case_actions d) = d_case_actions d"
    by (rule put_row_absent) (use new in auto)
  have rows: "d_case_actions (snd (complete_case_action later (fa_id action) ''SUCCEEDED'' result dm)) = d_case_actions d @ [?action]"
    using absent [unfolded put_row_def] by (simp add: cc put_case_action_def same act(4) put_row_def)
  show "succeeded_action al key (snd (complete_case_action later (fa_id action) ''SUCCEEDED'' result dm)) = Some ?action"
    using first act(2,3) by (simp add: succeeded_action_def get_case_action_by_idempotency_key_def rows find_append)
  show "same_books d d0"
    using same_books_case_action(1) [of d now al ty "''PENDING''" "Some key" rq rs None] create by simp
  show "same_books dm (snd (complete_case_action later (fa_id action) ''SUCCEEDED'' result dm))"
    by (rule same_books_case_action)
  show "d_alerts (snd (complete_case_action later (fa_id action) ''SUCCEEDED'' result dm)) = d_alerts dm"
    by (simp add: cc put_case_action_def)
qed

lemma money_read_back: "money_ok m \<Longrightarrow> money_validate (model_dump m) = Inr m"
  by (simp add: money_validate_dump mk_money_of_ok)

lemma normalized_results:
  assumes "money_ok m1" "money_ok m2" "currency_code m1 = cur" "currency_code m2 = cur"
  shows "normalize_historical_fraud_action (void_result rm a h m1 m2) cur = Inr (void_result rm a h m1 m2)"
    "money_ok m3 \<Longrightarrow> currency_code m3 = cur \<Longrightarrow>
     normalize_historical_fraud_action (provisional_result rm a o' i t m1 m2 m3) cur = Inr (provisional_result rm a o' i t m1 m2 m3)"
  using assms
  by (simp_all add: normalize_historical_fraud_action_def MONEY_RESULT_FIELDS_def historical_money_def void_result_def
      provisional_result_def money_fields_def dict_pop_def money_read_back
      del: bindR_Inr_iff)

lemma replay_recorded:
  assumes "get_credit_account i d = Some a" "fa_result_payload action = PDict result"
    "normalize_historical_fraud_action result (ca_currency a) = Inr result" "''idempotent_replay'' \<notin> fst ` set result"
  shows "replay_case_action action i d = Inr (result @ [(''idempotent_replay'', PBool True)], d)"
  using assms by (simp add: replay_case_action_def dict_put_new)

lemma no_success: "get_case_action_by_idempotency_key al key d = None \<Longrightarrow> succeeded_action al key d = None"
  by (simp add: succeeded_action_def)

lemma void_steps:
  assumes run: "void_fraud_authorization_hold now rm d = Inr (result, d')"
    and none: "succeeded_action (rm_fraud_alert_id rm) (''fraud-auth-void:'' @ rm_item_id rm) d = None"
  obtains a h rq action d1 m a' d2 avail d3 where "get_credit_account (rm_account_id rm) d = Some a"
    "get_authorization_by_id_for_account (rm_item_id rm) (ca_id a) d = Some h" "ta_status h \<in> {''PENDING'', ''FLAGGED''}"
    "create_case_action now (rm_fraud_alert_id rm) ''FRAUD_AUTHORIZATION_VOIDED'' ''PENDING''
       (Some (''fraud-auth-void:'' @ rm_item_id rm)) rq (PDict []) None d = (action, d1)"
    "mk_money (ta_billing_amount_cents h) (ta_billing_currency h) = Inr m" "currency_code m = ca_currency a"
    "recalculate_available_credit a (put_auth (h\<lparr>ta_status := ''REVERSED''\<rparr>) d1) = Inr (a', d2)"
    "mk_money (ca_available_credit_cents a') (ca_currency a') = Inr avail" "result = void_result rm a h m avail"
    "\<exists>t p e v. d3 = record_audit_event now t p e v d2"
    "d' = snd (complete_case_action now (fa_id action) ''SUCCEEDED'' (PDict result) d3)"
proof -
  obtain a h where g: "get_credit_account (rm_account_id rm) d = Some a"
    "get_authorization_by_id_for_account (rm_item_id rm) (ca_id a) d = Some h" "ta_status h \<in> {''PENDING'', ''FLAGGED''}"
    and run: "void_hold now rm (''fraud-auth-void:'' @ rm_item_id rm) a h d = Inr (result, d')"
    using run none by (auto simp: void_fraud_authorization_hold_def Let_def split: option.splits if_splits)
  from run show thesis
    unfolding void_hold_def Let_def
  proof (elim run_elims, goal_cases)
    case (1 action d1 m a' d2 avail)
    show ?case
      by (rule that [OF g 1(1) 1(2) _ 1(4,5)]) (use 1(3,6) in auto)
  qed
qed

text \<open>Voiding a disputed authorization ends that hold and frees its amount, once: the hold is an active
  one of the account, only it and the account's recomputed available credit change, no money is posted,
  and repeating the step, at any later time, returns the recorded result marked as a replay and changes
  nothing.\<close>

theorem void_releases_hold_once:
  assumes run: "void_fraud_authorization_hold now rm d = Inr (result, d')"
    and ok: "books_ok d" "distinct (map ta_id (d_auths d))"
    and first: "get_case_action_by_idempotency_key (rm_fraud_alert_id rm) (''fraud-auth-void:'' @ rm_item_id rm) d = None"
    and fresh: "\<forall>n \<ge> d_draws d. d_uuid d n \<notin> fa_id ` set (d_case_actions d)"
  shows "\<exists>a a' h. get_credit_account (rm_account_id rm) d = Some a \<and> h \<in> set (d_auths d) \<and> ta_id h = rm_item_id rm
    \<and> ta_account_id h = ca_id a \<and> ta_status h \<in> {''PENDING'', ''FLAGGED''}
    \<and> d_auths d' = put_row ta_id (h\<lparr>ta_status := ''REVERSED''\<rparr>) (d_auths d)
    \<and> hold_total (ca_id a) d' = hold_total (ca_id a) d - ta_billing_amount_cents h
    \<and> d_credit_accounts d' = put_row ca_id a' (d_credit_accounts d) \<and> get_credit_account (rm_account_id rm) d' = Some a'
    \<and> a' = a\<lparr>ca_available_credit_cents := ca_available_credit_cents a'\<rparr> \<and> available_current d' a'
    \<and> d_accounts d' = d_accounts d \<and> d_posted d' = d_posted d \<and> d_entries d' = d_entries d \<and> books_ok d'
    \<and> (\<forall>later. void_fraud_authorization_hold later rm d' = Inr (result @ [(''idempotent_replay'', PBool True)], d'))"
proof (cases rule: void_steps [OF run no_success [OF first]])
  case (1 a h rq action d1 m a' d2 avail d3)
  have aid: "ca_id a = rm_account_id rm" using get_credit_account_id [OF 1(1)] by simp
  have h: "h \<in> set (d_auths d)" "ta_id h = rm_item_id rm" "ta_account_id h = ca_id a"
    using 1(2) by (auto simp: get_authorization_by_id_for_account_def dest: find_Some_iff')
  let ?d0 = "put_auth (h\<lparr>ta_status := ''REVERSED''\<rparr>) d1"
  note rf = recalculate_frame [OF 1(7)] note re = recalculate_effect [OF 1(7)] note rs = recalculate_same [OF 1(7)]
  have c3: "d_case_actions d3 = d_case_actions d1"
    using 1(10) re(2) by (auto simp: frame_simps put_credit_account_def put_auth_def)
  note ca = completed_action [OF 1(4) first _ fresh c3]
  have sb1: "same_books d d1" using ca(2) by simp
  have sb3: "same_books d3 d'" using ca(3) [of now "PDict result"] by (simp add: 1(11))
  have g1: "get_credit_account (ca_id a) ?d0 = Some a"
    using 1(1) same_books_get [OF sb1] by (simp add: put_auth_frame aid)
  have b0: "books_ok ?d0" using same_books_ok [OF ok(1) sb1] by (simp add: put_auth_frame)
  have b2: "books_ok d2" by (rule books_recalculate [OF b0 1(7) g1 refl])
  then have "books_ok d3" using 1(10) by (auto intro: books_audit)
  then have okd: "books_ok d'" by (rule same_books_ok [OF _ sb3])
  have d3: "d_auths d3 = put_row ta_id (h\<lparr>ta_status := ''REVERSED''\<rparr>) (d_auths d)"
    "d_credit_accounts d3 = put_row ca_id a' (d_credit_accounts d)" "d_accounts d3 = d_accounts d"
    "d_posted d3 = d_posted d" "d_entries d3 = d_entries d"
    using 1(10) rf re(2) sb1 by (auto simp: frame_simps put_auth_frame put_credit_account_def same_books_def)
      (simp_all add: put_auth_def)
  have fr: "d_auths d' = put_row ta_id (h\<lparr>ta_status := ''REVERSED''\<rparr>) (d_auths d)"
    "d_credit_accounts d' = put_row ca_id a' (d_credit_accounts d)" "d_accounts d' = d_accounts d"
    "d_posted d' = d_posted d" "d_entries d' = d_entries d"
    using sb3 d3 by (simp_all add: same_books_def)
  have ht: "hold_total (ca_id a) d' = hold_total (ca_id a) d - ta_billing_amount_cents h"
  proof -
    have "hold_total (ca_id a) d' = hold_total (ca_id a) (put_auth (h\<lparr>ta_status := ''REVERSED''\<rparr>) d)"
      by (rule hold_total_cong) (simp add: fr put_auth_def)
    also have "\<dots> = hold_total (ca_id a) d - ta_billing_amount_cents h"
      by (subst end_hold_total [OF ok(2) h(1)]) (use 1(3) h in \<open>simp_all add: ACTIVE_HOLDS_def\<close>)
    finally show ?thesis .
  qed
  have "hold_total (ca_id a) ?d0 = hold_total (ca_id a) d'"
    by (rule hold_total_cong) (use sb1 fr in \<open>simp add: put_auth_def same_books_def\<close>)
  then have cur: "available_current d' a'" by (simp add: available_current_def re(1))
  have "get_credit_account (ca_id a') d3 = Some a'"
    using 1(10) re(2) get_put_credit_account [of a' ?d0] g1 rs(1) by (auto simp: frame_simps)
  then have ga: "get_credit_account (rm_account_id rm) d' = Some a'"
    using same_books_get(2) [OF sb3] rs(1) aid by simp
  have again: "void_fraud_authorization_hold later rm d' = Inr (result @ [(''idempotent_replay'', PBool True)], d')" for later
  proof -
    note mm = mk_money_InrD [OF 1(5)] note ma = mk_money_InrD [OF 1(8)]
    have "normalize_historical_fraud_action result (ca_currency a') = Inr result"
      unfolding 1(9) by (rule normalized_results(1)) (use mm ma rs(2) 1(6) in simp_all)
    moreover have "''idempotent_replay'' \<notin> fst ` set result" by (simp add: 1(9) void_result_def money_fields_def)
    ultimately have "replay_case_action (action\<lparr>fa_status := ''SUCCEEDED'', fa_result_payload := PDict result,
        fa_completed_at := Some now\<rparr>) (rm_account_id rm) d' = Inr (result @ [(''idempotent_replay'', PBool True)], d')"
      using ga by (intro replay_recorded) simp_all
    then show ?thesis using ca(1) [of now "PDict result", folded 1(11)] by (simp add: void_fraud_authorization_hold_def)
  qed
  have upd: "a' = a\<lparr>ca_available_credit_cents := ca_available_credit_cents a'\<rparr>" using re(1) by simp
  show ?thesis
    by (rule exI [of _ a], rule exI [of _ a'], rule exI [of _ h], intro conjI allI)
      (fact 1(1,3) h fr ht ga upd cur okd again)+
qed

definition sample_void :: remediation where
  "sample_void = \<lparr>rm_account_id = ''CR1'', rm_item_id = ''H1'', rm_fraud_alert_id = ''A1'', rm_reason = ''FRAUD''\<rparr>"

theorem void_releases_hold_once_witness:
  "\<exists>result d'. void_fraud_authorization_hold 300 sample_void sample_held_db = Inr (result, d') \<and> hold_total ''CR1'' d' = 0"
proof -
  have "\<not> isl (void_fraud_authorization_hold 300 sample_void sample_held_db)" by code_simp
  then obtain result d' where r: "void_fraud_authorization_hold 300 sample_void sample_held_db = Inr (result, d')"
    by (cases "void_fraud_authorization_hold 300 sample_void sample_held_db") auto
  have "get_case_action_by_idempotency_key (rm_fraud_alert_id sample_void) (''fraud-auth-void:'' @ rm_item_id sample_void) sample_held_db = None"
    "\<forall>n \<ge> d_draws sample_held_db. d_uuid sample_held_db n \<notin> fa_id ` set (d_case_actions sample_held_db)"
    by (simp_all add: get_case_action_by_idempotency_key_def sample_held_db_def sample_db_def)
  from void_releases_hold_once [OF r sample_held_ok(1,3) this] obtain a h where
    "get_credit_account (rm_account_id sample_void) sample_held_db = Some a" "h \<in> set (d_auths sample_held_db)"
    "hold_total (ca_id a) d' = hold_total (ca_id a) sample_held_db - ta_billing_amount_cents h" by blast
  then have "hold_total ''CR1'' d' = 0"
    using get_credit_account_id [of "''CR1''" sample_held_db a]
    by (simp add: sample_void_def sample_held_db_def hold_total_def active_hold_def ACTIVE_HOLDS_def sample_hold_def)
  with r show ?thesis by blast
qed

lemma provisional_steps:
  assumes run: "apply_fraud_provisional_credit now rm d = Inr (result, d')"
    and none: "succeeded_action (rm_fraud_alert_id rm) (''fraud-provisional-credit:'' @ rm_item_id rm) d = None"
  obtains a original rq action d0 j p d1 i d2 d3 a2 d4 m1 m2 m3 d6 where
    "get_credit_account (rm_account_id rm) d = Some a"
    "get_ledger_entry_by_id_for_account (rm_item_id rm) (ca_id a) d = Some original" "pt_amount_cents original < 0"
    "get_fraud_provisional_credit_entry (ca_id a) (rm_item_id rm) d = None"
    "create_case_action now (rm_fraud_alert_id rm) ''FRAUD_PROVISIONAL_CREDIT_APPLIED'' ''PENDING''
       (Some (''fraud-provisional-credit:'' @ rm_item_id rm)) rq (PDict []) None d = (action, d0)"
    "post_card_journal now (provisional_posting now rm original a) a d0 = Inr (j, p, d1)" "uuid4 d1 = (i, d2)"
    "add_posted_transaction (refund_line i (ca_id a) (tx_id (jp_transaction p)) \<bar>pt_amount_cents original\<bar>
       (''FRAUD_PROVISIONAL_CREDIT_REF_'' @ rm_item_id rm) now) d2 = Inr d3"
    "recalculate_available_credit (a\<lparr>ca_cleared_balance_cents := ca_cleared_balance_cents a - \<bar>pt_amount_cents original\<bar>\<rparr>)
       (put_credit_account (a\<lparr>ca_cleared_balance_cents := ca_cleared_balance_cents a - \<bar>pt_amount_cents original\<bar>\<rparr>) d3) = Inr (a2, d4)"
    "mk_money \<bar>pt_amount_cents original\<bar> (ca_currency a) = Inr m1"
    "mk_money (ca_cleared_balance_cents a2) (ca_currency a) = Inr m2"
    "mk_money (ca_available_credit_cents a2) (ca_currency a) = Inr m3"
    "result = provisional_result rm a original i (tx_id (jp_transaction p)) m1 m2 m3"
    "\<exists>t pl e v. d6 = record_audit_event now t pl e v (update_account (level_mirror a2) (ac_id j) d4)"
    "d' = snd (complete_case_action now (fa_id action) ''SUCCEEDED'' (PDict result) d6)"
proof -
  obtain a original where g: "get_credit_account (rm_account_id rm) d = Some a"
    "get_ledger_entry_by_id_for_account (rm_item_id rm) (ca_id a) d = Some original" "pt_amount_cents original < 0"
    "get_fraud_provisional_credit_entry (ca_id a) (rm_item_id rm) d = None"
    and run: "credit_provisionally now rm (''fraud-provisional-credit:'' @ rm_item_id rm) a original d = Inr (result, d')"
    using run none by (auto simp: apply_fraud_provisional_credit_def Let_def split: option.splits if_splits)
  from run show thesis
    unfolding credit_provisionally_def Let_def
  proof (elim run_elims, goal_cases)
    case (1 action d0 j jp p d1 i d2 d3 a2 d4 m1 m2 m3)
    show ?case
      by (rule that [OF g 1(1) 1(2) [unfolded 1(3)] 1(4,5,6,7,8,9)]) (use 1(10) in auto)
  qed
qed

text \<open>C6. A disputed charge is credited provisionally once and exactly: the debit belongs to the account,
  the debt falls by its amount and the available credit is recomputed, the journal mirror is level with
  the account and its position rises by the amount, one statement line records the credit, the books
  stay in order, and repeating the step returns the recorded result marked as a replay and changes
  nothing.\<close>

theorem provisional_credit_once:
  assumes run: "apply_fraud_provisional_credit now rm d = Inr (result, d')"
    and ok: "books_ok d" "mirror_numbers_ok d"
    and first: "get_case_action_by_idempotency_key (rm_fraud_alert_id rm) (''fraud-provisional-credit:'' @ rm_item_id rm) d = None"
    and new: "List.find (\<lambda>t. tx_idempotency_key t = ''fraud-provisional-credit-journal:'' @ rm_item_id rm) (d_transactions d) = None"
    and fresh: "\<forall>n \<ge> d_draws d. d_uuid d n \<notin> fa_id ` set (d_case_actions d)"
  shows "\<exists>a a' original j line. let n = \<bar>pt_amount_cents original\<bar> in
      get_credit_account (rm_account_id rm) d = Some a \<and> original \<in> set (d_posted d) \<and> pt_id original = rm_item_id rm
    \<and> pt_account_id original = ca_id a \<and> pt_amount_cents original < 0
    \<and> get_credit_account (rm_account_id rm) d' = Some a'
    \<and> a' = a\<lparr>ca_cleared_balance_cents := ca_cleared_balance_cents a - n,
             ca_available_credit_cents := ca_available_credit_cents a'\<rparr> \<and> available_current d' a'
    \<and> get_account (ac_id j) d' = Some j \<and> ac_credit_account_id j = Some (ca_id a)
    \<and> ac_cleared_balance_cents j = ca_cleared_balance_cents a'
    \<and> ac_available_credit_cents j = ca_available_credit_cents a'
    \<and> position (ac_id j) (d_entries d') = position (ac_id j) (d_entries d) + n
    \<and> d_posted d' = d_posted d @ [line] \<and> pt_amount_cents line = n \<and> pt_account_id line = ca_id a
    \<and> d_auths d' = d_auths d \<and> books_ok d'
    \<and> (\<forall>later. apply_fraud_provisional_credit later rm d' = Inr (result @ [(''idempotent_replay'', PBool True)], d'))"
proof (cases rule: provisional_steps [OF run no_success [OF first]])
  case (1 a original rq action d0 j p d1 i d2 d3 a2 d4 m1 m2 m3 d6)
  let ?n = "\<bar>pt_amount_cents original\<bar>" let ?k = "provisional_posting now rm original a"
  let ?a1 = "a\<lparr>ca_cleared_balance_cents := ca_cleared_balance_cents a - ?n\<rparr>"
  let ?line = "refund_line i (ca_id a) (tx_id (jp_transaction p)) ?n (''FRAUD_PROVISIONAL_CREDIT_REF_'' @ rm_item_id rm) now"
  have aid: "ca_id a = rm_account_id rm" using get_credit_account_id [OF 1(1)] by simp
  have o: "original \<in> set (d_posted d)" "pt_id original = rm_item_id rm" "pt_account_id original = ca_id a"
    using 1(2) by (auto simp: get_ledger_entry_by_id_for_account_def dest: find_Some_iff')
  have sb0: "same_books d d0" using completed_action(2) [OF 1(5) first _ fresh refl] by simp
  have ok0: "books_ok d0" "mirror_numbers_ok d0" "get_credit_account (ca_id a) d0 = Some a"
    using same_books_ok [OF ok(1) sb0] ok(2) 1(1) same_books_get [OF sb0] sb0
    by (simp_all add: mirror_numbers_ok_def same_books_def aid)
  have k: "take 5 (kp_clearing ?k) \<noteq> CARD_PREFIX" "5 \<le> length (kp_clearing ?k)" "\<not> kp_charge ?k" "kp_amount_minor ?k = ?n"
    by (simp_all add: provisional_posting_def CARD_PREFIX_def)
  have key: "List.find (\<lambda>t. tx_idempotency_key t = kp_key ?k) (d_transactions d0) = None"
    using new sb0 by (simp add: provisional_posting_def same_books_def)
  note rp = refund_prefix [OF ok0 k(1-3) key 1(6-8)]
  note re = recalculate_effect [OF 1(9)] note rs = recalculate_same [OF 1(9)] note rf = recalculate_frame [OF 1(9)]
  have okp: "books_ok (put_credit_account ?a1 d3)"
    by (rule books_put_credit_account [OF rp(1), of _ a]) (simp_all add: rp(2))
  have cp: "get_credit_account (ca_id a2) (put_credit_account ?a1 d3) = Some ?a1"
    using get_put_credit_account [of ?a1 d3] rp(2) rs(1) by simp
  have jp: "get_account (ac_id j) (put_credit_account ?a1 d3) = Some j" by (simp add: frame_simps rp(3))
  have same: "ca_id ?a1 = ca_id a2" "ca_currency ?a1 = ca_currency a2" using rs by simp_all
  note mv = move_debt_effect [OF okp cp same jp, folded re(2)]
  let ?d5 = "update_account (level_mirror a2) (ac_id j) d4"
  have c6: "d_case_actions d6 = d_case_actions d0"
    using 1(14) re(2) rp(8) by (auto simp: frame_simps update_account_def put_account_def put_credit_account_def split: option.split)
  note ca = completed_action [OF 1(5) first _ fresh c6]
  have sb6: "same_books ?d5 d'"
    using 1(14) same_books_trans [OF same_books_audit] ca(3) [of now "PDict result"] by (auto simp: 1(15))
  have fr: "d_posted d' = d_posted d @ [?line]" "d_auths d' = d_auths d" "d_entries d' = d_entries d3"
    using sb6 mv(4,6,7) rp(6,7) sb0 by (simp_all add: same_books_def put_credit_account_def)
  have ga: "get_credit_account (rm_account_id rm) d' = Some a2"
    using same_books_get(2) [OF sb6] mv(2) rs(1) aid by simp
  have gj: "get_account (ac_id j) d' = Some (level_mirror a2 j)"
    using same_books_get(1) [OF sb6] mv(3) [of "ac_id j"] by simp
  have pos: "position (ac_id j) (d_entries d') = position (ac_id j) (d_entries d) + ?n"
    using rp(11) k(4) sb0 by (simp add: fr same_books_def)
  have okd: "books_ok d'" by (rule same_books_ok [OF mv(1) sb6])
  have "hold_total (ca_id a) (put_credit_account ?a1 d3) = hold_total (ca_id a) d'"
    by (rule hold_total_cong) (use fr rp(6) sb0 in \<open>simp add: put_credit_account_def same_books_def\<close>)
  then have cur: "available_current d' a2" by (simp add: available_current_def re(1))
  have upd: "a2 = a\<lparr>ca_cleared_balance_cents := ca_cleared_balance_cents a - ?n,
      ca_available_credit_cents := ca_available_credit_cents a2\<rparr>" using re(1) by simp
  have again: "apply_fraud_provisional_credit later rm d' = Inr (result @ [(''idempotent_replay'', PBool True)], d')" for later
  proof -
    note m1 = mk_money_InrD [OF 1(10)] note m2 = mk_money_InrD [OF 1(11)] note m3 = mk_money_InrD [OF 1(12)]
    have "normalize_historical_fraud_action result (ca_currency a2) = Inr result"
      unfolding 1(13) by (rule normalized_results(2)) (use m1 m2 m3 rs(2) in simp_all)
    moreover have "''idempotent_replay'' \<notin> fst ` set result" by (simp add: 1(13) provisional_result_def money_fields_def)
    ultimately have "replay_case_action (action\<lparr>fa_status := ''SUCCEEDED'', fa_result_payload := PDict result,
        fa_completed_at := Some now\<rparr>) (rm_account_id rm) d' = Inr (result @ [(''idempotent_replay'', PBool True)], d')"
      using ga by (intro replay_recorded) simp_all
    then show ?thesis using ca(1) [of now "PDict result", folded 1(15)] by (simp add: apply_fraud_provisional_credit_def)
  qed
  show ?thesis
    unfolding Let_def
    by (rule exI [of _ a], rule exI [of _ a2], rule exI [of _ original], rule exI [of _ "level_mirror a2 j"],
        rule exI [of _ ?line], intro conjI allI)
      (fact 1(1,3) o ga upd cur fr okd again | simp add: gj pos rp(4) refund_line_def)+
qed

definition sample_credit :: remediation where
  "sample_credit = \<lparr>rm_account_id = ''CR1'', rm_item_id = ''P1'', rm_fraud_alert_id = ''A1'', rm_reason = ''FRAUD''\<rparr>"

theorem provisional_credit_once_witness:
  "\<exists>result d' a'. apply_fraud_provisional_credit 300 sample_credit sample_charged_db = Inr (result, d')
     \<and> get_credit_account ''CR1'' d' = Some a' \<and> ca_cleared_balance_cents a' = 17500"
proof -
  have "\<not> isl (apply_fraud_provisional_credit 300 sample_credit sample_charged_db)" by code_simp
  then obtain result d' where r: "apply_fraud_provisional_credit 300 sample_credit sample_charged_db = Inr (result, d')"
    by (cases "apply_fraud_provisional_credit 300 sample_credit sample_charged_db") auto
  have pre: "get_case_action_by_idempotency_key (rm_fraud_alert_id sample_credit) (''fraud-provisional-credit:'' @ rm_item_id sample_credit) sample_charged_db = None"
    "List.find (\<lambda>t. tx_idempotency_key t = ''fraud-provisional-credit-journal:'' @ rm_item_id sample_credit) (d_transactions sample_charged_db) = None"
    "\<forall>n \<ge> d_draws sample_charged_db. d_uuid sample_charged_db n \<notin> fa_id ` set (d_case_actions sample_charged_db)"
    by (simp_all add: get_case_action_by_idempotency_key_def sample_charged_db_def sample_db_def)
  obtain a a' original where o: "get_credit_account (rm_account_id sample_credit) sample_charged_db = Some a"
    "original \<in> set (d_posted sample_charged_db)" "get_credit_account (rm_account_id sample_credit) d' = Some a'"
    "a' = a\<lparr>ca_cleared_balance_cents := ca_cleared_balance_cents a - \<bar>pt_amount_cents original\<bar>,
            ca_available_credit_cents := ca_available_credit_cents a'\<rparr>"
    using provisional_credit_once [OF r sample_charged_ok pre] unfolding Let_def by blast
  have "original = sample_charge" "a = sample_card_account"
    using o(1,2) by (simp_all add: sample_charged_db_def sample_db_def get_credit_account_def sample_credit_def sample_card_account_def)
  then have "ca_cleared_balance_cents a' = 17500"
    by (subst o(4)) (simp add: sample_charge_def sample_card_account_def)
  with r o(3) show ?thesis by (simp add: sample_credit_def)
qed

text \<open>
  The two refunds do not look at each other's statement lines: one charge of 25.00 can be reversed and
  credited provisionally, which gives 50.00 back.
\<close>

lemma charge_refunded_twice:
  "case apply_fraud_provisional_credit 300 sample_credit (fst sample_fee_reversal) of
     Inl e \<Rightarrow> False
   | Inr (result, d') \<Rightarrow> map_option ca_cleared_balance_cents (get_credit_account ''CR1'' d') = Some 15000"
  by code_simp

end
