(* ===== verification/Card_Views.thy ===== *)
theory Card_Views
  imports Card_Refunds Accounts
begin

text \<open>
  The read models of \<^verbatim>\<open>services/credit_card.py\<close> and the taxonomy of \<^verbatim>\<open>services/taxonomy_service.py\<close>: the
  FDX account, real-time balance, unified transactions and payment networks, and the summary and history
  the bank's own screens show.  Amounts in the FDX views are floats, \<open>round(cents / 100.0, 2)\<close>; times
  stand for their ISO texts, which sort as the times do.  The two-level cache of the taxonomy is left
  out: the map is a function of the reference rows and of the resource file.
\<close>

section \<open>Taxonomy\<close>

record taxonomy_row =
  tr_mcc :: string
  tr_primary :: string
  tr_detailed :: string

definition DEFAULT_TAXONOMY_MAP :: "taxonomy_row list" where
  "DEFAULT_TAXONOMY_MAP = map (\<lambda>(m, p, d). \<lparr>tr_mcc = m, tr_primary = p, tr_detailed = d\<rparr>)
     [(''5311'', ''MERCHANDISE'', ''MERCHANDISE_DEPARTMENT_STORES''),
      (''5411'', ''GROCERY'', ''GROCERY_SUPERMARKETS''),
      (''5814'', ''DINING'', ''DINING_FAST_FOOD''),
      (''5812'', ''DINING'', ''DINING_RESTAURANTS''),
      (''4511'', ''OTHER_TRAVEL'', ''OTHER_TRAVEL_FLIGHTS''),
      (''7011'', ''OTHER_TRAVEL'', ''OTHER_TRAVEL_LODGING''),
      (''4121'', ''OTHER_TRAVEL'', ''OTHER_TRAVEL_TAXI''),
      (''8011'', ''HEALTHCARE'', ''HEALTHCARE_MEDICAL''),
      (''5541'', ''GAS_AUTOMOTIVE'', ''GAS_AUTOMOTIVE_FUEL''),
      (''5200'', ''HOME_IMPROVEMENT'', ''HOME_IMPROVEMENT_HARDWARE''),
      (''5912'', ''HEALTHCARE'', ''HEALTHCARE_PHARMACIES''),
      (''7298'', ''PERSONAL_CARE'', ''PERSONAL_CARE_SPAS''),
      (''4814'', ''OTHER'', ''OTHER_TELECOMMUNICATIONS''),
      (''4899'', ''OTHER'', ''OTHER_ENTERTAINMENT''),
      (''FEE'', ''FEES'', ''FEES_LATE'')]"

text \<open>
  The rows the map is built from: the reference table when it can be read and is not empty, the
  resource file when that can be read, the built-in table otherwise.
\<close>

record taxonomy =
  tm_reference :: "taxonomy_row list option"
  tm_resource :: "taxonomy_row list option"

definition load_resource_taxonomy_map :: "taxonomy \<Rightarrow> taxonomy_row list" where
  "load_resource_taxonomy_map tm = (case tm_resource tm of Some rows \<Rightarrow> rows | None \<Rightarrow> DEFAULT_TAXONOMY_MAP)"

definition get_taxonomy_map :: "taxonomy \<Rightarrow> taxonomy_row list" where
  "get_taxonomy_map tm =
     (case tm_reference tm of
        Some (r # rs) \<Rightarrow> r # rs
      | _ \<Rightarrow> load_resource_taxonomy_map tm)"

record personal_finance_category =
  pf_primary :: string
  pf_detailed :: string
  pf_confidence_level :: string

text \<open>A later row of the same code replaces an earlier one.\<close>

definition get_category :: "taxonomy \<Rightarrow> string \<Rightarrow> personal_finance_category" where
  "get_category tm mcc =
     (case List.find (\<lambda>r. tr_mcc r = mcc) (rev (get_taxonomy_map tm)) of
        Some r \<Rightarrow> \<lparr>pf_primary = tr_primary r, pf_detailed = tr_detailed r, pf_confidence_level = ''VERY_HIGH''\<rparr>
      | None \<Rightarrow> \<lparr>pf_primary = ''MERCHANDISE'', pf_detailed = ''MERCHANDISE_OTHER'', pf_confidence_level = ''VERY_HIGH''\<rparr>)"

section \<open>FDX views\<close>

definition cents_float :: "int \<Rightarrow> rat" where
  "cents_float n = py_round (fl (of_int n / 100)) 2"

text \<open>The check all four views start with.\<close>

definition owned_account :: "string \<Rightarrow> string \<Rightarrow> bank_db \<Rightarrow> credit_account res" where
  "owned_account account_id customer_id d =
     (case get_credit_account account_id d of
        None \<Rightarrow> Inl (ValueError ''Account not found or access denied.'')
      | Some account \<Rightarrow>
          (if ca_customer_id account \<noteq> resolve_user_id customer_id d
           then Inl (ValueError ''Account not found or access denied.'') else Inr account))"

record fdx_account =
  fx_account_id :: string
  fx_account_number_display :: string
  fx_product_name :: string
  fx_status :: string
  fx_account_type :: string
  fx_current_balance :: rat
  fx_available_credit :: rat
  fx_credit_line :: rat
  fx_iso_currency_code :: string

definition get_fdx_account :: "string \<Rightarrow> string \<Rightarrow> bank_db \<Rightarrow> fdx_account res" where
  "get_fdx_account account_id customer_id d =
     bindR (owned_account account_id customer_id d) (\<lambda>account.
       Inr \<lparr>fx_account_id = ca_id account,
            fx_account_number_display = (case list_cards_by_account account_id d of
               c # cs \<Rightarrow> if ic_last_four c \<noteq> [] then ic_last_four c else ''3333'' | [] \<Rightarrow> ''3333''),
            fx_product_name = ''Nova Horizon Elite Credit Card'', fx_status = ca_status account,
            fx_account_type = ''CREDIT_CARD'',
            fx_current_balance = cents_float (ca_cleared_balance_cents account),
            fx_available_credit = cents_float (ca_available_credit_cents account),
            fx_credit_line = cents_float (ca_credit_limit_cents account), fx_iso_currency_code = ''USD''\<rparr>)"

record realtime_balance =
  rb_account_id :: string
  rb_credit_limit :: rat
  rb_cleared_balance :: rat
  rb_pending_authorizations_amount :: rat
  rb_realtime_available_credit :: rat
  rb_iso_currency_code :: string

definition pending_amount_cents :: "string \<Rightarrow> bank_db \<Rightarrow> int" where
  "pending_amount_cents account_id d =
     sum_list (map ta_transaction_amount_cents (list_pending_authorizations account_id d))"

definition realtime_available_cents :: "credit_account \<Rightarrow> bank_db \<Rightarrow> int" where
  "realtime_available_cents account d =
     ca_credit_limit_cents account - ca_cleared_balance_cents account - pending_amount_cents (ca_id account) d"

definition get_realtime_balance :: "string \<Rightarrow> string \<Rightarrow> bank_db \<Rightarrow> realtime_balance res" where
  "get_realtime_balance account_id customer_id d =
     bindR (owned_account account_id customer_id d) (\<lambda>account.
       Inr \<lparr>rb_account_id = ca_id account, rb_credit_limit = cents_float (ca_credit_limit_cents account),
            rb_cleared_balance = cents_float (ca_cleared_balance_cents account),
            rb_pending_authorizations_amount = cents_float (pending_amount_cents (ca_id account) d),
            rb_realtime_available_credit = cents_float (realtime_available_cents account d),
            rb_iso_currency_code = ''USD''\<rparr>)"

record fdx_transaction =
  ft_account_id :: string
  ft_transaction_id :: string
  ft_pending_transaction_id :: "string option"
  ft_pending :: bool
  ft_amount :: rat
  ft_iso_currency_code :: string
  ft_description :: string
  ft_transaction_type :: string
  ft_posted_timestamp :: "int option"
  ft_transaction_timestamp :: int
  ft_personal_finance_category :: personal_finance_category
  ft_reference_number :: "string option"
  ft_auth_code :: "string option"
  ft_payment_method :: "string option"

definition pending_view :: "taxonomy \<Rightarrow> string \<Rightarrow> transaction_authorization \<Rightarrow> fdx_transaction" where
  "pending_view tm account_id a =
     \<lparr>ft_account_id = account_id, ft_transaction_id = ta_id a, ft_pending_transaction_id = Some (ta_id a),
      ft_pending = True, ft_amount = cents_float (ta_transaction_amount_cents a),
      ft_iso_currency_code = the (str_or (Some (ta_transaction_currency a)) (Some ''USD'')),
      ft_description = the (str_or (ta_merchant_name a) (Some ''Pending Charge'')),
      ft_transaction_type = ''CREDITCARD'', ft_posted_timestamp = None,
      ft_transaction_timestamp = ta_created_at a,
      ft_personal_finance_category = get_category tm (ta_merchant_category_code a),
      ft_reference_number = Some (ta_retrieval_reference_number a), ft_auth_code = Some (ta_auth_code a),
      ft_payment_method = Some (ta_card_network a)\<rparr>"

definition line_authorization :: "posted_transaction \<Rightarrow> bank_db \<Rightarrow> transaction_authorization option" where
  "line_authorization p d =
     (case pt_authorization_id p of None \<Rightarrow> None | Some i \<Rightarrow> get_authorization_by_id i d)"

definition posted_type :: "posted_transaction \<Rightarrow> string" where
  "posted_type p =
     (if is_infix_of ''FEE'' (py_upper (pt_description p)) \<or> is_infix_of ''REVERSAL'' (py_upper (pt_description p))
      then ''ADJUSTMENT'' else if 0 < pt_amount_cents p then ''DIRECTDEPOSIT'' else ''CREDITCARD'')"

definition posted_view :: "taxonomy \<Rightarrow> string \<Rightarrow> bank_db \<Rightarrow> posted_transaction \<Rightarrow> fdx_transaction" where
  "posted_view tm account_id d p =
     \<lparr>ft_account_id = account_id, ft_transaction_id = pt_id p,
      ft_pending_transaction_id = str_or (pt_authorization_id p) None,
      ft_pending = False, ft_amount = cents_float \<bar>pt_amount_cents p\<bar>, ft_iso_currency_code = ''USD'',
      ft_description = the (str_or (Some (pt_description p)) (Some ''Posted Transaction'')),
      ft_transaction_type = posted_type p, ft_posted_timestamp = Some (pt_posted_at p),
      ft_transaction_timestamp = pt_posted_at p,
      ft_personal_finance_category = get_category tm
        (case line_authorization p d of
           Some a \<Rightarrow> the (str_or (Some (ta_merchant_category_code a)) (Some ''5411'')) | None \<Rightarrow> ''5411''),
      ft_reference_number = pt_retrieval_reference_number p, ft_auth_code = pt_auth_code p,
      ft_payment_method = None\<rparr>"

record paginated_transactions =
  pg_transactions :: "fdx_transaction list"
  pg_total :: nat

definition unified_transactions :: "taxonomy \<Rightarrow> string \<Rightarrow> bank_db \<Rightarrow> fdx_transaction list" where
  "unified_transactions tm account_id d =
     sort_key (\<lambda>t. - ft_transaction_timestamp t)
       (map (pending_view tm account_id) (list_pending_authorizations account_id d)
        @ map (posted_view tm account_id d) (list_ledger_entries account_id None d))"

definition get_unified_transactions ::
    "taxonomy \<Rightarrow> string \<Rightarrow> string \<Rightarrow> nat \<Rightarrow> nat \<Rightarrow> bank_db \<Rightarrow> paginated_transactions res" where
  "get_unified_transactions tm account_id customer_id offset limit d =
     bindR (owned_account account_id customer_id d) (\<lambda>account.
       let unified = unified_transactions tm account_id d
       in Inr \<lparr>pg_transactions = take limit (drop offset unified), pg_total = length unified\<rparr>)"

record payment_network =
  pn_bank_id :: string
  pn_identifier :: string
  pn_type :: string
  pn_transfer_in :: bool
  pn_transfer_out :: bool

definition get_payment_networks :: "string \<Rightarrow> string \<Rightarrow> bank_db \<Rightarrow> (payment_network list \<times> nat) res" where
  "get_payment_networks account_id customer_id d =
     bindR (owned_account account_id customer_id d) (\<lambda>account.
       Inr ([\<lparr>pn_bank_id = ''010088889'', pn_identifier = ''1111222233335820'', pn_type = ''US_ACH'',
              pn_transfer_in = True, pn_transfer_out = True\<rparr>], 1))"

section \<open>The summary\<close>

definition wallet_fields :: "(string \<times> wallet_status) list \<Rightarrow> string \<Rightarrow> (string \<times> pyval) list" where
  "wallet_fields statuses token =
     (case map_of statuses token of
        None \<Rightarrow> []
      | Some w \<Rightarrow> [(''wallet_provider'', ws_wallet_provider w),
                   (''wallet_provisioning_status'', ws_wallet_provisioning_status w),
                   (''wallet_queued_at'', PTime (ws_wallet_queued_at w))])"

definition card_dto :: "(string \<times> wallet_status) list \<Rightarrow> issued_card \<Rightarrow> pyval" where
  "card_dto statuses c =
     PDict ([(''card_id'', PStr (ic_id c)), (''cardholder_name'', PStr (ic_cardholder_name c)),
             (''last_four'', PStr (ic_last_four c)), (''card_token'', PStr (ic_card_token c)),
             (''status'', PStr (ic_status c)), (''is_virtual'', PBool (ic_is_virtual c)),
             (''exp_month'', PInt (ic_exp_month c)), (''exp_year'', PInt (ic_exp_year c))]
            @ wallet_fields statuses (ic_card_token c))"

text \<open>\<open>None\<close> when the customer has no active card account; the available credit is recomputed first.\<close>

definition get_account_summary_dto :: "string \<Rightarrow> bank_db \<Rightarrow> ((string \<times> pyval) list option \<times> bank_db) res" where
  "get_account_summary_dto customer_id d =
     (case get_account_by_customer customer_id d of
        None \<Rightarrow> Inr (None, d)
      | Some account0 \<Rightarrow>
          bindR (recalculate_available_credit account0 d) (\<lambda>(account, d').
          bindR (mk_money (ca_credit_limit_cents account) (ca_currency account)) (\<lambda>credit_limit.
          bindR (mk_money (ca_cleared_balance_cents account) (ca_currency account)) (\<lambda>cleared_balance.
          bindR (mk_money (ca_available_credit_cents account) (ca_currency account)) (\<lambda>available_credit.
          let statuses = get_wallet_status_by_card_token (ca_id account) d'
          in Inr (Some ([(''account_id'', PStr (ca_id account)), (''currency_code'', PStr (ca_currency account))]
                    @ money_fields ''credit_limit'' credit_limit @ money_fields ''cleared_balance'' cleared_balance
                    @ money_fields ''available_credit'' available_credit
                    @ [(''status'', PStr (ca_status account)),
                       (''cards'', PList (map (card_dto statuses) (list_cards_by_account (ca_id account) d')))]), d'))))))"

section \<open>The history\<close>

definition category_value :: "personal_finance_category \<Rightarrow> pyval" where
  "category_value c =
     PDict [(''primary'', PStr (pf_primary c)), (''detailed'', PStr (pf_detailed c)),
            (''confidence_level'', PStr (pf_confidence_level c))]"

definition merchant_fields :: "transaction_authorization option \<Rightarrow> bank_db \<Rightarrow> (string \<times> pyval) list" where
  "merchant_fields auth d =
     (let merchant = (\<lambda>f. case auth of None \<Rightarrow> PNone | Some a \<Rightarrow> opt_str (f (ta_merchant a)));
          crd = (case auth of None \<Rightarrow> None | Some a \<Rightarrow> get_card_by_id (ta_card_id a) d)
      in [(''merchant_id'', merchant (\<lambda>m. str_or (mc_merchant_id m) None)),
          (''merchant_slug'', merchant mc_merchant_slug),
          (''merchant_store_id'', merchant (\<lambda>m. str_or (mc_merchant_store_id m) None)),
          (''cardholder_name'', case crd of Some c \<Rightarrow> PStr (ic_cardholder_name c) | None \<Rightarrow> PStr ''Cardholder''),
          (''last_four'', case crd of Some c \<Rightarrow> PStr (ic_last_four c) | None \<Rightarrow> PNone)])"

definition pending_item :: "taxonomy \<Rightarrow> bank_db \<Rightarrow> transaction_authorization \<Rightarrow> (string \<times> pyval) list res" where
  "pending_item tm d a =
     bindR (mk_money (ta_billing_amount_cents a) (ta_billing_currency a)) (\<lambda>billing.
     bindR (mk_money (ta_transaction_amount_cents a) (ta_transaction_currency a)) (\<lambda>original.
       Inr ([(''id'', PStr (ta_id a)), (''money'', model_dump billing), (''transaction_money'', model_dump original),
             (''billing_money'', model_dump billing),
             (''description'', PStr (the (str_or (ta_merchant_name a) (Some (ta_auth_code a))))),
             (''posted_at'', PTime (ta_created_at a)), (''pending'', PBool True),
             (''personal_finance_category'', category_value (get_category tm (ta_merchant_category_code a))),
             (''merchant_category_code'', PStr (ta_merchant_category_code a))]
            @ merchant_fields (Some a) d)))"

definition posted_item :: "taxonomy \<Rightarrow> credit_account \<Rightarrow> bank_db \<Rightarrow> posted_transaction \<Rightarrow> (string \<times> pyval) list res" where
  "posted_item tm account d p =
     (let auth = line_authorization p d;
          mcc = (case auth of Some a \<Rightarrow> ta_merchant_category_code a | None \<Rightarrow> ''5411'')
      in bindR (mk_money (pt_amount_cents p) (ca_currency account)) (\<lambda>money.
         let item = [(''id'', PStr (pt_id p)), (''money'', model_dump money), (''description'', PStr (pt_description p)),
               (''posted_at'', PTime (pt_posted_at p)), (''posted_timestamp'', PTime (pt_posted_at p)),
               (''pending'', PBool False), (''personal_finance_category'', category_value (get_category tm mcc)),
               (''merchant_category_code'', PStr mcc)] @ merchant_fields auth d
         in case auth of
              None \<Rightarrow> Inr item
            | Some a \<Rightarrow>
                bindR (mk_money (ta_transaction_amount_cents a) (ta_transaction_currency a)) (\<lambda>original.
                bindR (mk_money (ta_billing_amount_cents a) (ta_billing_currency a)) (\<lambda>billing.
                  Inr (item @ [(''transaction_money'', model_dump original), (''billing_money'', model_dump billing)])))))"

definition history_account :: "string \<Rightarrow> string option \<Rightarrow> bank_db \<Rightarrow> credit_account option" where
  "history_account customer_id account_id d =
     (case str_or account_id None of
        Some i \<Rightarrow> get_account_by_id_for_customer i customer_id d
      | None \<Rightarrow> get_account_by_customer customer_id d)"

definition get_transaction_history_dto ::
    "taxonomy \<Rightarrow> string \<Rightarrow> string option \<Rightarrow> bank_db \<Rightarrow> (string \<times> pyval) list list option res" where
  "get_transaction_history_dto tm customer_id account_id d =
     (case history_account customer_id account_id d of
        None \<Rightarrow> Inr None
      | Some account \<Rightarrow>
          bindR (mapR (pending_item tm d) (list_authorizations (ca_id account) (Some ''PENDING'') d)) (\<lambda>pending.
          bindR (mapR (posted_item tm account d) (list_ledger_entries (ca_id account) None d)) (\<lambda>posted.
            Inr (Some (pending @ posted)))))"

section \<open>Properties\<close>

lemma mapR_Inr:
  "mapR f xs = Inr ys \<Longrightarrow> length ys = length xs \<and> (\<forall>i < length xs. f (xs ! i) = Inr (ys ! i))"
proof (induction xs arbitrary: ys)
  case (Cons x xs)
  then obtain y zs where y: "f x = Inr y" "mapR f xs = Inr zs" "ys = y # zs" by auto
  then show ?case using Cons.IH [OF y(2)] by (auto simp: nth_Cons split: nat.split)
qed simp

lemma mapR_ids:
  assumes "mapR f xs = Inr ys" and "\<And>x y. x \<in> set xs \<Longrightarrow> f x = Inr y \<Longrightarrow> g y = h x"
  shows "map g ys = map h xs"
  using assms by (induction f xs arbitrary: ys rule: mapR.induct) auto

lemma pending_item_id: "pending_item tm d a = Inr item \<Longrightarrow> map_of item ''id'' = Some (PStr (ta_id a))
    \<and> map_of item ''money'' = Some (model_dump \<lparr>amount_minor = ta_billing_amount_cents a, currency_code = ta_billing_currency a\<rparr>)"
  by (auto simp: pending_item_def mk_money_Inr_iff)

lemma posted_item_id: "posted_item tm account d p = Inr item \<Longrightarrow> map_of item ''id'' = Some (PStr (pt_id p))
    \<and> map_of item ''money'' = Some (model_dump \<lparr>amount_minor = pt_amount_cents p, currency_code = ca_currency account\<rparr>)"
  by (auto simp: posted_item_def Let_def mk_money_Inr_iff split: option.splits)

text \<open>C40. A customer's history is their own and complete: a list is returned only for an active account of
  the resolved customer (the named one, if one is named); it holds every pending hold and every statement line of
  that account exactly once, holds first, each with its own amount as Money, in billing and account
  currency respectively.\<close>

theorem history_is_owned_and_complete:
  assumes "get_transaction_history_dto tm customer_id account_id d = Inr (Some items)"
  shows "\<exists>account \<in> set (d_credit_accounts d).
      ca_customer_id account = resolve_user_id customer_id d \<and> ca_status account = ''ACTIVE''
    \<and> (\<forall>i. str_or account_id None = Some i \<longrightarrow> ca_id account = i)
    \<and> map (\<lambda>item. map_of item ''id'') items
        = map (\<lambda>a. Some (PStr (ta_id a))) (list_authorizations (ca_id account) (Some ''PENDING'') d)
          @ map (\<lambda>p. Some (PStr (pt_id p))) (list_ledger_entries (ca_id account) None d)
    \<and> map (\<lambda>item. map_of item ''money'') items
        = map (\<lambda>a. Some (model_dump \<lparr>amount_minor = ta_billing_amount_cents a, currency_code = ta_billing_currency a\<rparr>))
            (list_authorizations (ca_id account) (Some ''PENDING'') d)
          @ map (\<lambda>p. Some (model_dump \<lparr>amount_minor = pt_amount_cents p, currency_code = ca_currency account\<rparr>))
            (list_ledger_entries (ca_id account) None d)
    \<and> mset (list_authorizations (ca_id account) (Some ''PENDING'') d)
        = mset (filter (\<lambda>a. ta_account_id a = ca_id account \<and> ta_status a = ''PENDING'') (d_auths d))
    \<and> mset (list_ledger_entries (ca_id account) None d)
        = mset (filter (\<lambda>p. pt_account_id p = ca_id account) (d_posted d))"
proof -
  obtain account pending posted where h: "history_account customer_id account_id d = Some account"
    and pe: "mapR (pending_item tm d) (list_authorizations (ca_id account) (Some ''PENDING'') d) = Inr pending"
    and po: "mapR (posted_item tm account d) (list_ledger_entries (ca_id account) None d) = Inr posted"
    and items: "items = pending @ posted"
    using assms by (auto simp: get_transaction_history_dto_def split: option.splits)
  have own: "account \<in> set (d_credit_accounts d)" "ca_customer_id account = resolve_user_id customer_id d"
    "ca_status account = ''ACTIVE''" "\<forall>i. str_or account_id None = Some i \<longrightarrow> ca_id account = i"
    using h find_Some_iff' [of _ "d_credit_accounts d" account]
    by (auto simp: history_account_def get_account_by_id_for_customer_def get_account_by_customer_def Let_def split: option.splits)
  show ?thesis
    using own mapR_ids [OF pe, of "\<lambda>i. map_of i ''id''"] mapR_ids [OF po, of "\<lambda>i. map_of i ''id''"]
      mapR_ids [OF pe, of "\<lambda>i. map_of i ''money''"] mapR_ids [OF po, of "\<lambda>i. map_of i ''money''"]
      pending_item_id posted_item_id
    by (intro bexI [of _ account]) (auto simp: items list_authorizations_def list_ledger_entries_def)
qed

definition sample_taxonomy :: taxonomy where
  "sample_taxonomy = \<lparr>tm_reference = None, tm_resource = None\<rparr>"

theorem history_is_owned_and_complete_witness:
  "\<exists>items. get_transaction_history_dto sample_taxonomy ''uid-1'' None sample_charged_db = Inr (Some items) \<and> length items = 1"
proof -
  have "case get_transaction_history_dto sample_taxonomy ''uid-1'' None sample_charged_db of
      Inr (Some items) \<Rightarrow> True | _ \<Rightarrow> False" by code_simp
  then obtain items where r: "get_transaction_history_dto sample_taxonomy ''uid-1'' None sample_charged_db = Inr (Some items)"
    by (auto split: sum.splits option.splits)
  obtain account where a: "account \<in> set (d_credit_accounts sample_charged_db)"
    "map (\<lambda>item. map_of item ''id'') items
        = map (\<lambda>a. Some (PStr (ta_id a))) (list_authorizations (ca_id account) (Some ''PENDING'') sample_charged_db)
          @ map (\<lambda>p. Some (PStr (pt_id p))) (list_ledger_entries (ca_id account) None sample_charged_db)"
    using history_is_owned_and_complete [OF r] by blast
  from arg_cong [OF a(2), of length] a(1) have "length items = 1"
    by (simp add: sample_charged_db_def sample_db_def sample_card_account_def list_authorizations_def list_ledger_entries_def sample_charge_def)
  with r show ?thesis by blast
qed

text \<open>
  The real-time balance counts pending holds only, where the account's available credit counts flagged
  ones too: with a flagged hold it reports the flagged amount as still available.
\<close>

lemma realtime_balance_overstates:
  assumes "available_current d a"
    and "0 \<le> ca_credit_limit_cents a - ca_cleared_balance_cents a - hold_total (ca_id a) d"
    and "\<forall>h \<in> set (d_auths d). ta_transaction_amount_cents h = ta_billing_amount_cents h"
    and "0 \<le> ca_cleared_balance_cents a + hold_total (ca_id a) d"
  shows "realtime_available_cents a d = ca_available_credit_cents a
     + sum_list (map ta_billing_amount_cents (filter (\<lambda>h. ta_account_id h = ca_id a \<and> ta_status h = ''FLAGGED'') (d_auths d)))"
proof -
  have eq: "sum_list (map ta_transaction_amount_cents (filter P (d_auths d))) = sum_list (map ta_billing_amount_cents (filter P (d_auths d)))" for P
    using assms(3) by (metis (no_types, lifting) filter_is_subset map_cong subsetD)
  have p: "pending_amount_cents (ca_id a) d
      = sum_list (map ta_billing_amount_cents (filter (\<lambda>h. ta_account_id h = ca_id a \<and> ta_status h = ''PENDING'') (d_auths d)))"
    unfolding pending_amount_cents_def list_pending_authorizations_def
    by (subst eq [symmetric], rule sum_list_sort_key)
  have split: "sum_list (map f (filter (active_hold i) hs))
      = sum_list (map f (filter (\<lambda>h. ta_account_id h = i \<and> ta_status h = ''PENDING'') hs))
        + (sum_list (map f (filter (\<lambda>h. ta_account_id h = i \<and> ta_status h = ''FLAGGED'') hs)) :: int)" for f i hs
    by (induction hs) (auto simp: active_hold_def ACTIVE_HOLDS_def)
  show ?thesis
    using assms(1,2,4) by (simp add: realtime_available_cents_def available_current_def p hold_total_def split)
qed

end
