(* ===== verification/Fraud_Triage.thy ===== *)
theory Fraud_Triage
  imports Card_Refunds
begin

text \<open>
  The fraud triage workflow of \<^verbatim>\<open>services/fraud_alerts.py\<close>: the customer recognizes the flagged activity
  or disputes items of the alert; disputed holds are voided, disputed charges are credited
  provisionally, the compromised card is replaced, the customer gets a secure message, and the whole
  runs in one transaction under a workflow key.  \<open>triage_customer_reported_fraud\<close> opens the alert
  itself; \<open>execute_scenario_customer_action\<close> drives the same workflow from an outcome label.
\<close>

section \<open>Recorded workflow results\<close>

definition normalize_item :: "string \<Rightarrow> pyval \<Rightarrow> pyval res" where
  "normalize_item currency v =
     (case v of
        PDict kvs \<Rightarrow> bindR (normalize_historical_fraud_action kvs currency) (\<lambda>r. Inr (PDict r))
      | _ \<Rightarrow> Inl (TypeError ''fraud action result''))"

definition normalize_item_list :: "string \<Rightarrow> pyval \<Rightarrow> pyval res" where
  "normalize_item_list currency v =
     (case v of
        PList items \<Rightarrow> bindR (mapR (normalize_item currency) items) (\<lambda>rs. Inr (PList rs))
      | _ \<Rightarrow> Inl (TypeError ''fraud action results''))"

definition WORKFLOW_LISTS :: "string list" where
  "WORKFLOW_LISTS = [''voided_authorizations'', ''provisional_credits'']"

fun normalize_lists ::
    "(string \<times> pyval) list \<Rightarrow> string \<Rightarrow> string list \<Rightarrow> (string \<times> pyval) list \<Rightarrow> (string \<times> pyval) list res" where
  "normalize_lists result currency [] normalized = Inr normalized"
| "normalize_lists result currency (field # fs) normalized =
     (case map_of result field of
        None \<Rightarrow> normalize_lists result currency fs normalized
      | Some v \<Rightarrow> bindR (normalize_item_list currency v) (\<lambda>v'.
          normalize_lists result currency fs (dict_put field v' normalized)))"

definition normalize_historical_fraud_workflow ::
    "(string \<times> pyval) list \<Rightarrow> string \<Rightarrow> (string \<times> pyval) list res" where
  "normalize_historical_fraud_workflow result currency = normalize_lists result currency WORKFLOW_LISTS result"

definition stored_result :: "fraud_case_action \<Rightarrow> (string \<times> pyval) list" where
  "stored_result action = (case fa_result_payload action of PDict kvs \<Rightarrow> kvs | _ \<Rightarrow> [])"

section \<open>Keys and messages\<close>

record triage_world =
  tw_sha256 :: "string \<Rightarrow> string"
  tw_clock :: int
  tw_card_token :: string
  tw_last_four :: string

record triage_request =
  tq_auth_provider_uid :: string
  tq_fraud_alert_id :: string
  tq_disputed_authorization_ids :: "string list"
  tq_disputed_transaction_ids :: "string list"
  tq_issue_replacement :: bool
  tq_escalate :: bool
  tq_idempotency_key :: "string option"

text \<open>\<open>sha256(...).hexdigest()\<close> is the parameter \<open>tw_sha256\<close>.\<close>

definition build_triage_idempotency_key :: "triage_world \<Rightarrow> string list \<Rightarrow> string list \<Rightarrow> bool \<Rightarrow> bool \<Rightarrow> string" where
  "build_triage_idempotency_key w auths txs issue_replacement escalate =
     (let part = (\<lambda>ids. the (str_or (Some (join_with '','' (sort ids))) (Some ''none'')));
          replacement_part = (if issue_replacement then ''replace'' else ''no-replace'');
          escalation_part = (if escalate then ''escalate'' else ''no-escalate'');
          material = part auths @ '':'' @ part txs @ '':'' @ replacement_part @ '':'' @ escalation_part
      in ''triage:'' @ take 32 (tw_sha256 w material) @ '':'' @ replacement_part @ '':'' @ escalation_part)"

definition recognized_triage_message :: "fraud_alert \<Rightarrow> string" where
  "recognized_triage_message alert = join_with NEWLINE
     [''Your fraud alert for card ending in '' @ al_card_last_four alert @ '' has been marked as recognized activity.'',
      ''No credits, card replacement, or fraud investigation actions were applied.'',
      ''Thank you for reviewing the alert.'']"

definition send_triage_secure_message :: "triage_world \<Rightarrow> string \<Rightarrow> fraud_alert \<Rightarrow> string \<Rightarrow> bank_db \<Rightarrow> string \<times> bank_db" where
  "send_triage_secure_message w auth_provider_uid alert body d =
     create_secure_message (tw_clock w) auth_provider_uid ''bank'' body (Some ''Fraud Alert'') (al_message_thread_id alert) d"

text \<open>\<open>sum(item[field]['amount_minor'] for item in items)\<close>.\<close>

fun total_of :: "string \<Rightarrow> (string \<times> pyval) list list \<Rightarrow> int res" where
  "total_of field [] = Inr 0"
| "total_of field (item # items) =
     (case dict_get (dict_get (PDict item) field) ''amount_minor'' of
        PInt n \<Rightarrow> bindR (total_of field items) (\<lambda>t. Inr (n + t))
      | _ \<Rightarrow> Inl (KeyError field))"

definition shown_total :: "string \<Rightarrow> string \<Rightarrow> (string \<times> pyval) list list \<Rightarrow> string res" where
  "shown_total currency field items =
     bindR (total_of field items) (\<lambda>total. bindR (mk_money total currency) (\<lambda>m. Inr (display_text m)))"

text \<open>What the remediation has done so far, as the messages and results report it.\<close>

record remediation_report =
  rr_voided :: "(string \<times> pyval) list list"
  rr_credits :: "(string \<times> pyval) list list"
  rr_replacement :: "(issued_card \<times> issued_card) option"
  rr_escalated :: bool

definition disputed_line :: "triage_request \<Rightarrow> pyval \<Rightarrow> string option" where
  "disputed_line q txn =
     (if dict_get txn ''authorization_id'' \<in> PStr ` set (tq_disputed_authorization_ids q)
         \<or> dict_get txn ''transaction_id'' \<in> PStr ` set (tq_disputed_transaction_ids q)
      then Some (''- '' @ text_of (dict_get txn ''merchant_name'') @ '': '' @ shown_text txn ''transaction''
             @ '' (billed '' @ shown_text txn ''billing'' @ '')'')
      else None)"

definition pending_review_message :: "triage_request \<Rightarrow> fraud_alert \<Rightarrow> remediation_report \<Rightarrow> bank_db \<Rightarrow> string res" where
  "pending_review_message q alert rr d =
     bindR (fraud_money_facts alert d) (\<lambda>suspicious.
     bindR (require_fraud_account alert d) (\<lambda>account.
     let disputed = List.map_filter (disputed_line q) suspicious; cur = ca_currency account in
     bindR (if rr_voided rr = [] then Inr [] else bindR (shown_total cur ''voided_amount'' (rr_voided rr)) (\<lambda>t.
              Inr [''We released pending authorization holds totaling '' @ t @ ''.''])) (\<lambda>voided_lines.
     bindR (if rr_credits rr = [] then Inr [] else bindR (shown_total cur ''credited_amount'' (rr_credits rr)) (\<lambda>t.
              Inr [''We applied provisional credits totaling '' @ t @ '' pending the full fraud investigation.''])) (\<lambda>credit_lines.
       Inr (join_with NEWLINE
         ([''Your fraud case for card ending in '' @ al_card_last_four alert
             @ '' is now pending review by our fraud specialist team.'']
          @ (if disputed = [] then [] else ''Disputed transactions:'' # disputed)
          @ voided_lines @ credit_lines
          @ (case rr_replacement rr of None \<Rightarrow> []
             | Some (old, new) \<Rightarrow> [''We issued a replacement virtual card ending in '' @ ic_last_four new @ ''.''])
          @ (if rr_escalated rr then [''A human fraud specialist has also been asked to review the case.''] else [])
          @ [''These actions remain pending the final fraud investigation outcome.'']))))))"

definition build_triage_summary :: "remediation_report \<Rightarrow> string" where
  "build_triage_summary rr =
     the (str_or (Some (join_with ''; ''
       ((if rr_voided rr = [] then [] else [show_nat (length (rr_voided rr)) @ '' pending authorization(s) reversed''])
        @ (if rr_credits rr = [] then [] else [show_nat (length (rr_credits rr)) @ '' provisional credit(s) applied''])
        @ (if rr_replacement rr = None then [] else [''replacement virtual card issued''])
        @ (if rr_escalated rr then [''human fraud specialist review requested''] else []))))
       (Some ''Fraud case triaged''))"

definition customer_safe_triage_result_summary :: "remediation_report \<Rightarrow> string" where
  "customer_safe_triage_result_summary rr =
     join_with '' ''
       ([if rr_escalated rr then ''Your fraud report was escalated to a specialist.''
         else ''Your fraud report was submitted for specialist review.'']
        @ (if rr_voided rr = [] then [] else [show_nat (length (rr_voided rr)) @ '' pending ''
             @ (if length (rr_voided rr) = 1 then ''charge was'' else ''charges were'') @ '' released.''])
        @ (if rr_credits rr = [] then [] else [show_nat (length (rr_credits rr)) @ '' provisional ''
             @ (if length (rr_credits rr) = 1 then ''credit was'' else ''credits were'') @ '' applied.''])
        @ (case rr_replacement rr of None \<Rightarrow> []
           | Some (old, new) \<Rightarrow> [''Your compromised card was blocked, and a replacement virtual card''
               @ (if ic_last_four new = [] then [] else '' ending in '' @ ic_last_four new) @ '' is active.''])
        @ [''A secure message with the case details was sent.''])"

section \<open>The workflow\<close>

text \<open>The reply of a call: a refusal the caller reads from \<open>success\<close>, or a result.\<close>

definition refused :: "string \<Rightarrow> pyval \<Rightarrow> (string \<times> pyval) list" where
  "refused message alert = [(''success'', PBool False), (''message'', PStr message), (''fraud_alert'', alert)]"

definition alert_facts :: "fraud_alert \<Rightarrow> (string \<times> pyval) list" where
  "alert_facts alert =
     [(''fraud_alert_id'', PStr (al_id alert)), (''correlation_id'', PStr (al_id alert)),
      (''customer_id'', PStr (al_customer_id alert)), (''credit_account_id'', PStr (al_credit_account_id alert)),
      (''card_id'', PStr (al_card_id alert))]"

definition message_sent :: "triage_world \<Rightarrow> fraud_alert \<Rightarrow> string \<Rightarrow> bank_db \<Rightarrow> bank_db" where
  "message_sent w alert message_id =
     audit (tw_clock w) ''FRAUD_TRIAGE_MESSAGE_SENT''
       [(''fraud_alert_id'', PStr (al_id alert)), (''correlation_id'', PStr (al_id alert)),
        (''customer_id'', PStr (al_customer_id alert)), (''thread_id'', PStr (al_message_thread_id alert)),
        (''message_id'', PStr message_id)]"

definition recognized_result :: "fraud_alert \<Rightarrow> string \<Rightarrow> (string \<times> pyval) list" where
  "recognized_result alert message_id =
     [(''success'', PBool True), (''message'', PStr ''Fraud alert marked as recognized activity.''),
      (''customer_safe_result_summary'', PStr (''The fraud alert has been resolved because you recognized all ''
         @ ''reviewed activity. Your card remains active, no dispute was opened, and no replacement was issued. ''
         @ ''A secure message with the details was sent.'')),
      (''fraud_alert'', alert_result alert), (''outcome'', PStr ''CUSTOMER_RECOGNIZED''),
      (''voided_authorizations'', PList []), (''provisional_credits'', PList []), (''replacement_card'', PNone),
      (''secure_message'', PDict [(''thread_id'', PStr (al_message_thread_id alert)), (''message_id'', PStr message_id)]),
      (''escalated'', PBool False)]"

text \<open>The branch without a dispute.\<close>

definition triage_recognized ::
    "triage_world \<Rightarrow> triage_request \<Rightarrow> fraud_alert \<Rightarrow> fraud_case_action \<Rightarrow> bank_db \<Rightarrow> (string \<times> pyval) list \<times> bank_db" where
  "triage_recognized w q alert action d =
     (let (resolved, d1) = resolve_alert (tw_clock w) (al_id alert) ''RESOLVED_CUSTOMER_RECOGNIZED'' d;
          alert1 = (case resolved of Some a \<Rightarrow> a | None \<Rightarrow> alert);
          (message_id, d2) = send_triage_secure_message w (tq_auth_provider_uid q) alert1 (recognized_triage_message alert1) d1;
          (marked, d3) = mark_triaged (tw_clock w) (al_id alert1)
            \<lparr>tm_remediation_status = ''CUSTOMER_RECOGNIZED'',
             tm_triage_summary = Some ''Customer recognized all suspicious transactions.'',
             tm_disputed_authorization_ids = Some [], tm_disputed_transaction_ids = Some [],
             tm_provisional_credit_cents = Some 0, tm_replacement_card_id = None,
             tm_message_thread_id = Some (al_message_thread_id alert1), tm_message_id = Some message_id\<rparr> d2;
          alert2 = (case marked of Some a \<Rightarrow> a | None \<Rightarrow> alert1);
          d4 = audit (tw_clock w) ''FRAUD_ALERT_RESOLVED''
            (alert_facts alert2 @ [(''resolution'', PStr ''CUSTOMER_RECOGNIZED''), (''status'', PStr (al_status alert2))]) d3;
          d5 = audit (tw_clock w) ''FRAUD_CASE_TRIAGED''
            (alert_facts alert2 @ [(''outcome'', PStr ''CUSTOMER_RECOGNIZED''), (''disputed_authorization_ids'', PList []),
               (''disputed_transaction_ids'', PList [])]) d4;
          d6 = message_sent w alert2 message_id d5;
          result = recognized_result alert2 message_id
      in (result, snd (complete_case_action (tw_clock w) (fa_id action) ''SUCCEEDED'' (PDict result) d6)))"

text \<open>One remediation step after another, each on the state the previous one left.\<close>

fun run_each :: "('i \<Rightarrow> bank_db \<Rightarrow> ('r \<times> bank_db) res) \<Rightarrow> 'i list \<Rightarrow> bank_db \<Rightarrow> ('r list \<times> bank_db) res" where
  "run_each f [] d = Inr ([], d)"
| "run_each f (x # xs) d =
     bindR (f x d) (\<lambda>(r, d1). bindR (run_each f xs d1) (\<lambda>(rs, d2). Inr (r # rs, d2)))"

definition step_for :: "fraud_alert \<Rightarrow> string \<Rightarrow> remediation" where
  "step_for alert item =
     \<lparr>rm_account_id = al_credit_account_id alert, rm_item_id = item, rm_fraud_alert_id = al_id alert,
      rm_reason = ''CUSTOMER_CONFIRMED_FRAUD''\<rparr>"

definition triage_replacement :: "fraud_alert \<Rightarrow> replacement_request" where
  "triage_replacement alert =
     \<lparr>rq_account_id = al_credit_account_id alert, rq_reason = ''CUSTOMER_FRAUD_REISSUE'', rq_issue_virtual_card = True,
      rq_fraud_alert_id = Some (al_id alert), rq_compromised_card_id = Some (al_card_id alert)\<rparr>"

definition remediate ::
    "triage_world \<Rightarrow> triage_request \<Rightarrow> fraud_alert \<Rightarrow> bank_db \<Rightarrow> (remediation_report \<times> bank_db) res" where
  "remediate w q alert d =
     bindR (run_each (\<lambda>i. void_fraud_authorization_hold (tw_clock w) (step_for alert i)) (tq_disputed_authorization_ids q) d)
       (\<lambda>(voided, d1).
     bindR (run_each (\<lambda>i. apply_fraud_provisional_credit (tw_clock w) (step_for alert i)) (tq_disputed_transaction_ids q) d1)
       (\<lambda>(credits, d2).
     bindR (if tq_issue_replacement q
            then bindR (issue_replacement_card (tw_clock w) (tw_card_token w) (tw_last_four w) (triage_replacement alert) d2)
                   (\<lambda>(cards, d'). Inr (Some cards, d'))
            else Inr (None, d2)) (\<lambda>(replacement, d3).
       Inr (\<lparr>rr_voided = voided, rr_credits = credits, rr_replacement = replacement, rr_escalated = tq_escalate q\<rparr>, d3))))"

definition replacement_value :: "fraud_alert \<Rightarrow> issued_card \<times> issued_card \<Rightarrow> pyval" where
  "replacement_value alert cards =
     (let (old, new) = cards in
      PDict [(''account_id'', PStr (al_credit_account_id alert)), (''old_card_id'', PStr (ic_id old)),
             (''old_card_token'', PStr (ic_card_token old)), (''new_card_id'', PStr (ic_id new)),
             (''new_card_token'', PStr (ic_card_token new)), (''new_last_four'', PStr (ic_last_four new)),
             (''status'', PStr (ic_status new)), (''replacement_status'', PStr ''ISSUED''),
             (''is_virtual'', PBool (ic_is_virtual new)), (''fraud_alert_id'', PStr (al_id alert)),
             (''compromised_card_id'', PStr (al_card_id alert)),
             (''message'', PStr ''Replacement virtual card issued.'')])"

definition disputed_result :: "fraud_alert \<Rightarrow> remediation_report \<Rightarrow> string \<Rightarrow> (string \<times> pyval) list" where
  "disputed_result alert rr message_id =
     [(''success'', PBool True), (''message'', PStr ''Fraud case triaged and pending specialist review.''),
      (''customer_safe_result_summary'', PStr (customer_safe_triage_result_summary rr)),
      (''fraud_alert'', alert_result alert), (''outcome'', PStr (al_remediation_status alert)),
      (''voided_authorizations'', PList (map PDict (rr_voided rr))),
      (''provisional_credits'', PList (map PDict (rr_credits rr))),
      (''replacement_card'', case rr_replacement rr of None \<Rightarrow> PNone | Some cards \<Rightarrow> replacement_value alert cards),
      (''secure_message'', PDict [(''thread_id'', PStr (al_message_thread_id alert)), (''message_id'', PStr message_id)]),
      (''escalated'', PBool (rr_escalated rr))]"

definition triage_disputed ::
    "triage_world \<Rightarrow> triage_request \<Rightarrow> credit_account \<Rightarrow> fraud_alert \<Rightarrow> fraud_case_action \<Rightarrow> bank_db
     \<Rightarrow> ((string \<times> pyval) list \<times> bank_db) res" where
  "triage_disputed w q account alert action d =
     bindR (remediate w q alert d) (\<lambda>(rr, d1).
     bindR (total_of ''credited_amount'' (rr_credits rr)) (\<lambda>credit_total.
     bindR (total_of ''voided_amount'' (rr_voided rr)) (\<lambda>void_total.
     bindR (pending_review_message q alert rr d1) (\<lambda>body.
     let (message_id, d2) = send_triage_secure_message w (tq_auth_provider_uid q) alert body d1;
         new_card_id = map_option (\<lambda>(old, new). ic_id new) (rr_replacement rr);
         (marked, d3) = mark_triaged (tw_clock w) (al_id alert)
            \<lparr>tm_remediation_status = (if tq_escalate q then ''ESCALATED'' else ''PENDING_SPECIALIST_REVIEW''),
             tm_triage_summary = Some (build_triage_summary rr),
             tm_disputed_authorization_ids = Some (tq_disputed_authorization_ids q),
             tm_disputed_transaction_ids = Some (tq_disputed_transaction_ids q),
             tm_provisional_credit_cents = Some credit_total, tm_replacement_card_id = new_card_id,
             tm_message_thread_id = Some (al_message_thread_id alert), tm_message_id = Some message_id\<rparr> d2;
         triaged = (case marked of Some a \<Rightarrow> a | None \<Rightarrow> alert)\<lparr>al_status := ''TRIAGED_PENDING_REVIEW''\<rparr>;
         d4 = put_alert triaged d3
     in bindR (mk_money void_total (ca_currency account)) (\<lambda>void_money.
        bindR (mk_money credit_total (ca_currency account)) (\<lambda>credit_money.
        let d5 = audit (tw_clock w) ''FRAUD_CASE_TRIAGED''
              (alert_facts triaged @ [(''outcome'', PStr (al_remediation_status triaged)),
                 (''disputed_authorization_ids'', str_list (tq_disputed_authorization_ids q)),
                 (''disputed_transaction_ids'', str_list (tq_disputed_transaction_ids q)),
                 (''voided_authorizations'', model_dump void_money), (''provisional_credit'', model_dump credit_money),
                 (''replacement_card_id'', opt_str new_card_id), (''escalated'', PBool (tq_escalate q))]) d4;
            d6 = message_sent w triaged message_id d5;
            result = disputed_result triaged rr message_id
        in Inr (result, snd (complete_case_action (tw_clock w) (fa_id action) ''SUCCEEDED'' (PDict result) d6))))))))"

definition workflow_key :: "triage_world \<Rightarrow> triage_request \<Rightarrow> string" where
  "workflow_key w q =
     (case str_or (tq_idempotency_key q) None of
        Some k \<Rightarrow> k
      | None \<Rightarrow> build_triage_idempotency_key w (tq_disputed_authorization_ids q) (tq_disputed_transaction_ids q)
                  (tq_issue_replacement q) (tq_escalate q))"

text \<open>The disputed items the alert does not list.\<close>

definition out_of_scope :: "triage_request \<Rightarrow> fraud_alert \<Rightarrow> py_error option" where
  "out_of_scope q alert =
     (let allowed = al_suspicious_authorization_ids alert;
          unexpected = sort (remdups (filter (\<lambda>i. i \<notin> set allowed) (tq_disputed_authorization_ids q)));
          unexpected_txs = sort (remdups (filter (\<lambda>i. i \<notin> set (alert_transaction_ids alert)) (tq_disputed_transaction_ids q)))
      in if allowed \<noteq> [] \<and> unexpected \<noteq> []
         then Some (ValueError (''Authorization ids are not part of this fraud alert: '' @ join_with '', '' unexpected))
         else if unexpected_txs \<noteq> []
         then Some (ValueError (''Transaction ids are not part of this fraud alert: '' @ join_with '', '' unexpected_txs))
         else None)"

definition triage_fraud_case_in_transaction ::
    "triage_world \<Rightarrow> triage_request \<Rightarrow> bank_db \<Rightarrow> ((string \<times> pyval) list \<times> bank_db) res" where
  "triage_fraud_case_in_transaction w q d =
     (case get_alert_for_customer (tq_fraud_alert_id q) (Some (tq_auth_provider_uid q)) None d of
        None \<Rightarrow> Inr (refused ''No fraud alert found for the customer.'' PNone, d)
      | Some alert \<Rightarrow>
          bindR (require_fraud_account alert d) (\<lambda>account.
          let key = workflow_key w q in
          case succeeded_action (al_id alert) key d of
            Some action \<Rightarrow>
              bindR (normalize_historical_fraud_workflow (stored_result action) (ca_currency account)) (\<lambda>result.
                Inr (dict_put ''idempotent_replay'' (PBool True) result, d))
          | None \<Rightarrow>
              (let (action, d1) = create_case_action (tw_clock w) (al_id alert) ''FRAUD_CASE_TRIAGED'' ''PENDING'' (Some key)
                     (PDict [(''disputed_authorization_ids'', str_list (tq_disputed_authorization_ids q)),
                             (''disputed_transaction_ids'', str_list (tq_disputed_transaction_ids q)),
                             (''issue_replacement'', PBool (tq_issue_replacement q)),
                             (''escalate'', PBool (tq_escalate q))]) (PDict []) None d
               in case out_of_scope q alert of
                    Some e \<Rightarrow> Inl e
                  | None \<Rightarrow>
                      if tq_disputed_authorization_ids q = [] \<and> tq_disputed_transaction_ids q = []
                      then Inr (triage_recognized w q alert action d1)
                      else triage_disputed w q account alert action d1)))"

definition triage_fraud_case :: "triage_world \<Rightarrow> triage_request \<Rightarrow> bank_db \<Rightarrow> bank_db \<times> (string \<times> pyval) list res" where
  "triage_fraud_case w q = atomically (triage_fraud_case_in_transaction w q)"

section \<open>Scenario outcomes\<close>

definition for_alert :: "triage_request \<Rightarrow> fraud_alert \<Rightarrow> triage_request" where
  "for_alert q alert = q\<lparr>tq_auth_provider_uid := al_auth_provider_uid alert, tq_fraud_alert_id := al_id alert\<rparr>"

definition execute_scenario_customer_action ::
    "triage_world \<Rightarrow> string \<Rightarrow> triage_request \<Rightarrow> bank_db \<Rightarrow> bank_db \<times> (string \<times> pyval) list res" where
  "execute_scenario_customer_action w outcome_label q d =
     (case get_alert_by_id (tq_fraud_alert_id q) d of
        None \<Rightarrow> (d, Inr (refused ''No fraud alert found for scenario customer action.'' PNone))
      | Some alert \<Rightarrow>
          (let outcome = py_lower (py_strip outcome_label) in
           if outcome \<in> {''false_positive'', ''confirmed_legitimate''}
           then triage_fraud_case w ((for_alert q alert)\<lparr>tq_disputed_authorization_ids := [], tq_disputed_transaction_ids := [],
                  tq_issue_replacement := False, tq_escalate := False\<rparr>) d
           else if outcome = ''unresolved''
           then (d, Inr [(''success'', PBool True),
                  (''message'', PStr ''Scenario outcome intentionally left the fraud alert open.''),
                  (''fraud_alert'', alert_result alert), (''outcome'', PStr ''UNRESOLVED'')])
           else if outcome \<in> {''customer_disputed'', ''confirmed_fraud'', ''expected_fraud''}
           then (let auths = (if tq_disputed_authorization_ids q = [] then al_suspicious_authorization_ids alert
                              else tq_disputed_authorization_ids q)
                 in if auths = [] \<and> tq_disputed_transaction_ids q = []
                    then (d, Inr (refused ''Scenario disputed-fraud action has no suspicious authorizations or transactions to triage.''
                            (alert_result alert)))
                    else triage_fraud_case w ((for_alert q alert)\<lparr>tq_disputed_authorization_ids := auths\<rparr>) d)
           else (d, Inr (refused (''Unsupported scenario customer action outcome: '' @ outcome_label) (alert_result alert)))))"

section \<open>Activity the customer reports\<close>

text \<open>The eligible items as the alert will list them, each with the card it was made with.\<close>

definition reported_authorization ::
    "credit_account \<Rightarrow> bank_db \<Rightarrow> string \<Rightarrow> (string list \<times> pyval) res" where
  "reported_authorization account d i =
     (case get_authorization_by_id_for_account i (ca_id account) d of
        None \<Rightarrow> Inl (ValueError (''Pending authorization '' @ quoted i @ '' is not eligible for this account.''))
      | Some a \<Rightarrow>
          if ta_status a \<noteq> ''PENDING''
          then Inl (ValueError (''Pending authorization '' @ quoted i @ '' is not eligible for this account.''))
          else bindR (authorization_money_facts a) (\<lambda>facts.
            Inr ([ta_card_id a], PDict ([(''authorization_id'', PStr (ta_id a)), (''transaction_id'', PNone),
                (''merchant_name'', PStr (the (str_or (ta_merchant_name a) (Some (ta_auth_code a)))))]
              @ facts @
              [(''merchant_category_code'', PStr (ta_merchant_category_code a)), (''card_network'', PStr (ta_card_network a)),
               (''created_at'', PTime (ta_created_at a)), (''pending'', PBool True), (''source'', PStr ''CUSTOMER_REPORTED'')]))))"

definition reported_transaction ::
    "credit_account \<Rightarrow> bank_db \<Rightarrow> string \<Rightarrow> (string list \<times> pyval) res" where
  "reported_transaction account d i =
     (case get_ledger_entry_by_id_for_account i (ca_id account) d of
        None \<Rightarrow> Inl (ValueError (''Posted transaction '' @ quoted i @ '' is not an eligible debit for this account.''))
      | Some p \<Rightarrow>
          if 0 \<le> pt_amount_cents p
          then Inl (ValueError (''Posted transaction '' @ quoted i @ '' is not an eligible debit for this account.''))
          else (let auth = (case pt_authorization_id p of None \<Rightarrow> None | Some a \<Rightarrow> get_authorization_by_id a d) in
            bindR (case auth of Some a \<Rightarrow> mk_money (ta_transaction_amount_cents a) (ta_transaction_currency a)
                   | None \<Rightarrow> mk_money \<bar>pt_amount_cents p\<bar> (ca_currency account)) (\<lambda>original.
            bindR (mk_money \<bar>pt_amount_cents p\<bar> (ca_currency account)) (\<lambda>billing.
              Inr (case auth of Some a \<Rightarrow> [ta_card_id a] | None \<Rightarrow> [],
                PDict ([(''authorization_id'', opt_str (str_or (pt_authorization_id p) None)), (''transaction_id'', PStr (pt_id p)),
                  (''merchant_name'', PStr (pt_description p))]
                @ project_transaction_money original billing @
                [(''merchant_category_code'', case auth of Some a \<Rightarrow> PStr (ta_merchant_category_code a) | None \<Rightarrow> PNone),
                 (''card_network'', case auth of Some a \<Rightarrow> PStr (ta_card_network a) | None \<Rightarrow> PNone),
                 (''created_at'', PTime (pt_posted_at p)), (''pending'', PBool False),
                 (''source'', PStr ''CUSTOMER_REPORTED'')]))))))"

definition reported_card :: "credit_account \<Rightarrow> string list \<Rightarrow> bank_db \<Rightarrow> issued_card res" where
  "reported_card account card_ids d =
     (if 1 < length (remdups card_ids)
      then Inl (ValueError ''Selected transactions span multiple cards; open a separate case for each card.'')
      else (case (case card_ids of
                    c # cs \<Rightarrow> get_card_by_id_for_account c (ca_id account) d
                  | [] \<Rightarrow> (case list_active_cards_by_account (ca_id account) d of [] \<Rightarrow> None | k # ks \<Rightarrow> Some k)) of
              None \<Rightarrow> Inl (ValueError ''No card instrument could be resolved for the selected transactions.'')
            | Some crd \<Rightarrow> Inr crd))"

definition conflict :: "string \<Rightarrow> string \<Rightarrow> fraud_alert \<Rightarrow> (string \<times> pyval) list" where
  "conflict code message alert = refused message (alert_result alert) @ [(''conflict'', PStr code)]"

text \<open>What an earlier report of the account answers at once; \<open>None\<close> when the workflow goes on with it.\<close>

definition earlier_report ::
    "triage_request \<Rightarrow> credit_account \<Rightarrow> fraud_alert \<Rightarrow> bank_db \<Rightarrow> (string \<times> pyval) list option res" where
  "earlier_report q account alert d =
     (let actions = filter (\<lambda>a. fa_action_type a = ''FRAUD_CASE_TRIAGED'') (list_case_actions (al_id alert) d);
          options = (\<lambda>a. (truthy (dict_get_default (fa_request_payload a) ''issue_replacement'' (PBool True)),
                          truthy (dict_get_default (fa_request_payload a) ''escalate'' (PBool False))))
      in if sort (al_suspicious_authorization_ids alert) \<noteq> tq_disputed_authorization_ids q
           \<or> sort (alert_transaction_ids alert) \<noteq> tq_disputed_transaction_ids q
         then Inr (Some (conflict ''ACTIVE_CUSTOMER_REPORTED_ALERT''
                ''A different customer-reported fraud case is already active for this account.'' alert))
         else if actions \<noteq> [] \<and> options (last actions) \<noteq> (tq_issue_replacement q, tq_escalate q)
         then Inr (Some (conflict ''CUSTOMER_REPORTED_OPTIONS_CHANGED''
                ''This customer-reported case was already submitted with different remediation options.'' alert))
         else if al_status alert = ''TRIAGED_PENDING_REVIEW''
         then (case get_latest_successful_case_action (al_id alert) ''FRAUD_CASE_TRIAGED'' d of
                 None \<Rightarrow> Inl (ValueError ''The existing customer-reported case has no completed triage result.'')
               | Some completed \<Rightarrow>
                   bindR (normalize_historical_fraud_workflow (stored_result completed) (ca_currency account)) (\<lambda>result.
                     Inr (Some (dict_put ''intake_source'' (PStr ''CUSTOMER_REPORTED'')
                                 (dict_put ''idempotent_replay'' (PBool True) result)))))
         else Inr None)"

text \<open>Opening the alert of the report; its commit keeps it whatever the workflow does next.\<close>

definition open_reported_alert ::
    "triage_world \<Rightarrow> triage_request \<Rightarrow> user \<Rightarrow> credit_account \<Rightarrow> issued_card \<Rightarrow> pyval list \<Rightarrow> bank_db \<Rightarrow> fraud_alert \<times> bank_db" where
  "open_reported_alert w q customer account crd suspicious d =
     (let (thread_id, d1) = uuid4 d;
          (alert, d2) = create_alert (tw_clock w)
             \<lparr>ar_customer_id = u_id customer,
              ar_auth_provider_uid = the (str_or (Some (u_auth_provider_uid customer)) (Some (tq_auth_provider_uid q))),
              ar_credit_account_id = ca_id account, ar_card_id = ic_id crd,
              ar_card_last_four = ic_last_four crd, ar_message_thread_id = thread_id,
              ar_suspicious_authorization_ids = tq_disputed_authorization_ids q,
              ar_suspicious_transactions = suspicious, ar_source = ''CUSTOMER_REPORTED'', ar_status = ''OPEN''\<rparr> d1
      in (alert, audit (tw_clock w) ''FRAUD_ALERT_CREATED''
           [(''fraud_alert_id'', PStr (al_id alert)), (''correlation_id'', PStr (al_id alert)),
            (''customer_id'', PStr (u_id customer)), (''credit_account_id'', PStr (ca_id account)),
            (''card_last_four'', PStr (ic_last_four crd)),
            (''authorization_ids'', str_list (tq_disputed_authorization_ids q)),
            (''transaction_ids'', str_list (tq_disputed_transaction_ids q)), (''source'', PStr ''CUSTOMER_REPORTED'')] d2))"

text \<open>The report up to its alert: an answer, or the alert to triage and the state with it.\<close>

definition prepare_report ::
    "triage_world \<Rightarrow> triage_request \<Rightarrow> bank_db \<Rightarrow> ((string \<times> pyval) list + (fraud_alert \<times> bank_db)) res" where
  "prepare_report w q d =
     (if tq_disputed_authorization_ids q = [] \<and> tq_disputed_transaction_ids q = []
      then Inl (ValueError ''Select at least one pending authorization or posted transaction to dispute.'')
      else (case get_account_by_customer (tq_auth_provider_uid q) d of
         None \<Rightarrow> Inr (Inl (refused ''No credit card account found for the customer.'' PNone))
       | Some account \<Rightarrow>
           (case get_user_by_id (ca_customer_id account) d of
              None \<Rightarrow> Inr (Inl (refused ''Customer identity record was not found.'' PNone))
            | Some customer \<Rightarrow>
                (let opened = get_open_alert_for_account (ca_id account) d;
                     earlier = get_latest_customer_reported_alert_for_account (ca_id account) d
                 in case (case opened of Some a \<Rightarrow> al_source a \<noteq> ''CUSTOMER_REPORTED'' | None \<Rightarrow> False) of
                      True \<Rightarrow> Inr (Inl (conflict ''ACTIVE_FRAUD_ALERT''
                        ''A fraud alert is already active for this account. Inspect that alert before proceeding.'' (the opened)))
                    | False \<Rightarrow>
                        bindR (case earlier of None \<Rightarrow> Inr None | Some alert \<Rightarrow> earlier_report q account alert d) (\<lambda>answer.
                        case answer of
                          Some reply \<Rightarrow> Inr (Inl reply)
                        | None \<Rightarrow>
                            bindR (mapR (reported_authorization account d) (tq_disputed_authorization_ids q)) (\<lambda>auths.
                            bindR (mapR (reported_transaction account d) (tq_disputed_transaction_ids q)) (\<lambda>txs.
                            bindR (reported_card account (concat (map fst (auths @ txs))) d) (\<lambda>crd.
                            case earlier of
                              Some alert \<Rightarrow> Inr (Inr (alert, d))
                            | None \<Rightarrow>
                                (case opened of
                                   Some a \<Rightarrow> Inr (Inl (conflict ''ACTIVE_FRAUD_ALERT''
                                     ''A fraud alert became active while the customer report was being prepared. Inspect that alert before proceeding.'' a))
                                 | None \<Rightarrow> Inr (Inr (open_reported_alert w q customer account crd (map snd (auths @ txs)) d)))))))))))"

definition normalized_report :: "triage_request \<Rightarrow> triage_request" where
  "normalized_report q =
     q\<lparr>tq_disputed_authorization_ids := normalized_ids (tq_disputed_authorization_ids q),
       tq_disputed_transaction_ids := normalized_ids (tq_disputed_transaction_ids q)\<rparr>"

definition triage_customer_reported_fraud ::
    "triage_world \<Rightarrow> triage_request \<Rightarrow> bank_db \<Rightarrow> bank_db \<times> (string \<times> pyval) list res" where
  "triage_customer_reported_fraud w q0 d =
     (let q = normalized_report q0 in
      case prepare_report w q d of
        Inl e \<Rightarrow> (d, Inl e)
      | Inr (Inl reply) \<Rightarrow> (d, Inr reply)
      | Inr (Inr (alert, d1)) \<Rightarrow>
          (let key = build_triage_idempotency_key w (tq_disputed_authorization_ids q) (tq_disputed_transaction_ids q)
                       (tq_issue_replacement q) (tq_escalate q)
           in case triage_fraud_case w (q\<lparr>tq_fraud_alert_id := al_id alert, tq_idempotency_key := Some key\<rparr>) d1 of
                (d2, Inl e) \<Rightarrow> (d2, Inl e)
              | (d2, Inr result) \<Rightarrow> (d2, Inr (dict_put ''intake_source'' (PStr ''CUSTOMER_REPORTED'') result))))"

section \<open>Properties\<close>

text \<open>
  What remediation may change on behalf of an alert: the holds listed as disputed may end, statement lines
  may be added that each give back one disputed debit of the account, the account's own row may be
  recomputed, and the books stay in order.  Everything else keeps its value.
\<close>

definition disputed_hold :: "string \<Rightarrow> string set \<Rightarrow> transaction_authorization \<Rightarrow> bool" where
  "disputed_hold account_id auths h \<longleftrightarrow> ta_account_id h = account_id \<and> ta_id h \<in> auths"

definition refund_of :: "string \<Rightarrow> string set \<Rightarrow> bank_db \<Rightarrow> posted_transaction \<Rightarrow> bool" where
  "refund_of account_id txs d line \<longleftrightarrow> pt_account_id line = account_id \<and>
     (\<exists>debit \<in> set (d_posted d). pt_id debit \<in> txs \<and> pt_account_id debit = account_id
        \<and> pt_amount_cents debit < 0 \<and> pt_amount_cents line = - pt_amount_cents debit)"

definition remediated :: "string \<Rightarrow> string set \<Rightarrow> string set \<Rightarrow> bank_db \<Rightarrow> bank_db \<Rightarrow> bool" where
  "remediated account_id auths txs d d' \<longleftrightarrow> books_ok d'
     \<and> map ta_id (d_auths d') = map ta_id (d_auths d) \<and> holds_follow d d'
     \<and> filter (\<lambda>h. \<not> disputed_hold account_id auths h) (d_auths d') = filter (\<lambda>h. \<not> disputed_hold account_id auths h) (d_auths d)
     \<and> filter (\<lambda>a. ca_id a \<noteq> account_id) (d_credit_accounts d') = filter (\<lambda>a. ca_id a \<noteq> account_id) (d_credit_accounts d)
     \<and> (\<exists>lines. d_posted d' = d_posted d @ lines \<and> (\<forall>line \<in> set lines. refund_of account_id txs d' line))"

lemma same_books_remediated: "books_ok d \<Longrightarrow> same_books d d' \<Longrightarrow> remediated i A T d d'"
  by (frule (1) same_books_ok) (simp add: remediated_def same_books_def holds_follow_refl)

lemma filter_weaken:
  assumes "filter P xs = filter P ys" "\<And>x. Q x \<Longrightarrow> P x"
  shows "filter Q xs = filter Q ys"
proof -
  have "filter Q zs = filter Q (filter P zs)" for zs using assms(2) by (induction zs) auto
  then show ?thesis using assms(1) by metis
qed

lemma remediated_trans:
  assumes "remediated i A T d d'" "remediated i A' T' d' d''"
  shows "remediated i (A \<union> A') (T \<union> T') d d''"
proof -
  obtain l l' where l: "d_posted d' = d_posted d @ l" "\<forall>x \<in> set l. refund_of i T d' x"
    "d_posted d'' = d_posted d' @ l'" "\<forall>x \<in> set l'. refund_of i T' d'' x"
    using assms by (auto simp: remediated_def)
  have "refund_of i (T \<union> T') d'' x" if "x \<in> set (l @ l')" for x
    using that l by (auto simp: refund_of_def)
  then have lines: "\<exists>lines. d_posted d'' = d_posted d @ lines \<and> (\<forall>x \<in> set lines. refund_of i (T \<union> T') d'' x)"
    using l by (intro exI [of _ "l @ l'"]) simp
  have f: "filter (\<lambda>h. \<not> disputed_hold i (A \<union> A') h) (d_auths d'') = filter (\<lambda>h. \<not> disputed_hold i (A \<union> A') h) (d_auths d')"
    "filter (\<lambda>h. \<not> disputed_hold i (A \<union> A') h) (d_auths d') = filter (\<lambda>h. \<not> disputed_hold i (A \<union> A') h) (d_auths d)"
    by (rule filter_weaken [of "\<lambda>h. \<not> disputed_hold i A' h"]; use assms in \<open>auto simp: remediated_def disputed_hold_def\<close>)
      (rule filter_weaken [of "\<lambda>h. \<not> disputed_hold i A h"]; use assms in \<open>auto simp: remediated_def disputed_hold_def\<close>)
  have "holds_follow d d''" using assms by (auto simp: remediated_def intro: holds_follow_trans)
  with assms f lines show ?thesis by (simp add: remediated_def)
qed

lemma filter_put_row_out: "\<not> P r \<Longrightarrow> (\<And>x. x \<in> set rs \<Longrightarrow> key x = key r \<Longrightarrow> \<not> P x) \<Longrightarrow> filter P (put_row key r rs) = filter P rs"
  by (induction rs) auto

lemma void_remediated:
  assumes run: "void_fraud_authorization_hold now rm d = Inr (result, d')"
    and ok: "books_ok d" "distinct (map ta_id (d_auths d))"
  shows "remediated (rm_account_id rm) {rm_item_id rm} {} d d'"
proof (cases "succeeded_action (rm_fraud_alert_id rm) (''fraud-auth-void:'' @ rm_item_id rm) d")
  case (Some action)
  then have "d' = d" using run by (auto simp: void_fraud_authorization_hold_def replay_case_action_def split: option.splits)
  then show ?thesis by (simp add: same_books_remediated ok)
next
  case None
  show ?thesis
  proof (cases rule: void_steps [OF run None])
    case (1 a h rq action d1 m a' d2 avail d3)
    have aid: "ca_id a = rm_account_id rm" using get_credit_account_id [OF 1(1)] by simp
    have h: "h \<in> set (d_auths d)" "ta_id h = rm_item_id rm" "ta_account_id h = ca_id a"
      using 1(2) by (auto simp: get_authorization_by_id_for_account_def dest: find_Some_iff')
    let ?h = "h\<lparr>ta_status := ''REVERSED''\<rparr>" let ?d0 = "put_auth ?h d1"
    note rf = recalculate_frame [OF 1(7)] note re = recalculate_effect [OF 1(7)] note rs = recalculate_same [OF 1(7)]
    have sb1: "same_books d d1" using same_books_case_action(1) 1(4) by (metis snd_conv)
    have sb3: "same_books d3 d'" unfolding 1(11) by (rule same_books_case_action(2))
    have g1: "get_credit_account (ca_id a) ?d0 = Some a"
      using 1(1) same_books_get [OF sb1] by (simp add: put_auth_frame aid)
    have "books_ok ?d0" using same_books_ok [OF ok(1) sb1] by (simp add: put_auth_frame)
    then have "books_ok d2" by (rule books_recalculate [OF _ 1(7) g1 refl])
    then have "books_ok d3" using 1(10) by (auto intro: books_audit)
    then have okd: "books_ok d'" by (rule same_books_ok [OF _ sb3])
    have fr: "d_auths d' = put_row ta_id ?h (d_auths d)" "d_posted d' = d_posted d"
      "d_credit_accounts d' = put_row ca_id a' (d_credit_accounts d)"
      using sb3 1(10) rf re(2) sb1 by (auto simp: same_books_def frame_simps put_auth_frame put_credit_account_def)
        (simp_all add: put_auth_def)
    have "filter (\<lambda>x. \<not> disputed_hold (rm_account_id rm) {rm_item_id rm} x) (put_row ta_id ?h (d_auths d))
        = filter (\<lambda>x. \<not> disputed_hold (rm_account_id rm) {rm_item_id rm} x) (d_auths d)"
    proof (rule filter_put_row_out)
      fix x assume "x \<in> set (d_auths d)" "ta_id x = ta_id ?h"
      then have "x = h" using ok(2) h(1) by (auto simp: distinct_map dest: inj_onD)
      then show "\<not> \<not> disputed_hold (rm_account_id rm) {rm_item_id rm} x" using h aid by (simp add: disputed_hold_def)
    qed (use h aid in \<open>simp add: disputed_hold_def\<close>)
    moreover have "filter (\<lambda>a. ca_id a \<noteq> rm_account_id rm) (put_row ca_id a' (d_credit_accounts d))
        = filter (\<lambda>a. ca_id a \<noteq> rm_account_id rm) (d_credit_accounts d)"
      by (rule filter_put_row_out) (use rs(1) aid in simp_all)
    moreover have "holds_follow d d'"
      unfolding holds_follow_def fr(1) using put_row_holds [OF ok(2) h(1) hold_reversed [OF 1(3)]] by simp
    ultimately show ?thesis using okd by (simp add: remediated_def fr)
  qed
qed

lemma credit_remediated:
  assumes run: "apply_fraud_provisional_credit now rm d = Inr (result, d')" and ok: "books_ok d"
  shows "remediated (rm_account_id rm) {} {rm_item_id rm} d d'"
proof (cases "succeeded_action (rm_fraud_alert_id rm) (''fraud-provisional-credit:'' @ rm_item_id rm) d")
  case (Some action)
  then have "d' = d" using run by (auto simp: apply_fraud_provisional_credit_def replay_case_action_def split: option.splits)
  then show ?thesis by (simp add: same_books_remediated ok)
next
  case None
  show ?thesis
  proof (cases rule: provisional_steps [OF run None])
    case (1 a original rq action d0 j p d1 i d2 d3 a2 d4 m1 m2 m3 d6)
    let ?n = "\<bar>pt_amount_cents original\<bar>"
    let ?a1 = "a\<lparr>ca_cleared_balance_cents := ca_cleared_balance_cents a - ?n\<rparr>"
    let ?line = "refund_line i (ca_id a) (tx_id (jp_transaction p)) ?n (''FRAUD_PROVISIONAL_CREDIT_REF_'' @ rm_item_id rm) now"
    have aid: "ca_id a = rm_account_id rm" using get_credit_account_id [OF 1(1)] by simp
    have o: "original \<in> set (d_posted d)" "pt_id original = rm_item_id rm" "pt_account_id original = ca_id a"
      using 1(2) by (auto simp: get_ledger_entry_by_id_for_account_def dest: find_Some_iff')
    have sb0: "same_books d d0" using same_books_case_action(1) 1(5) by (metis snd_conv)
    have ok0: "books_ok d0" "get_credit_account (ca_id a) d0 = Some a"
      using same_books_ok [OF ok sb0] 1(1) same_books_get [OF sb0] by (simp_all add: aid)
    note pb = post_card_journal_books [OF ok0 1(6)] note pfr = post_card_journal_frame [OF 1(6)]
    note u = uuid4_frame [OF 1(7)] note pf = posted_frame [OF 1(8)]
    have ok3: "books_ok d3" by (rule books_frame_put_posted [OF u(10) [OF pb(1)] 1(8)])
    have c3: "get_credit_account (ca_id a) d3 = Some a"
      using ok0(2) by (simp add: get_credit_account_def pf u pb(3))
    have okp: "books_ok (put_credit_account ?a1 d3)"
      by (rule books_put_credit_account [OF ok3, of _ a]) (simp_all add: c3)
    have cp: "get_credit_account (ca_id ?a1) (put_credit_account ?a1 d3) = Some ?a1"
      using get_put_credit_account [of ?a1 d3] c3 by simp
    have ok4: "books_ok d4" by (rule books_recalculate [OF okp 1(9) cp refl])
    let ?d5 = "update_account (level_mirror a2) (ac_id j) d4"
    have ok5: "books_ok ?d5" by (rule update_account_books [OF ok4]) (simp_all add: level_mirror_def)
    note rf = recalculate_frame [OF 1(9)] note re = recalculate_effect [OF 1(9)] note rs = recalculate_same [OF 1(9)]
    have sb6: "same_books ?d5 d'"
      using 1(14) same_books_trans [OF same_books_audit same_books_case_action(2)] by (auto simp: 1(15))
    have same5: "d_auths ?d5 = d_auths d3" "d_posted ?d5 = d_posted d3"
      "d_credit_accounts ?d5 = put_row ca_id a2 (put_row ca_id ?a1 (d_credit_accounts d3))"
      using rf re(2) by (auto simp: update_account_def put_account_def put_credit_account_def split: option.split)
    have fr: "d_posted d' = d_posted d @ [?line]" "d_auths d' = d_auths d"
      "d_credit_accounts d' = put_row ca_id a2 (put_row ca_id ?a1 (d_credit_accounts d))"
      using sb6 same5 sb0 by (simp_all add: same_books_def pf u pfr pb(3))
    have "filter (\<lambda>a. ca_id a \<noteq> rm_account_id rm) (put_row ca_id a2 (put_row ca_id ?a1 (d_credit_accounts d)))
        = filter (\<lambda>a. ca_id a \<noteq> rm_account_id rm) (put_row ca_id ?a1 (d_credit_accounts d))"
      by (rule filter_put_row_out) (use rs(1) aid in simp_all)
    moreover have "\<dots> = filter (\<lambda>a. ca_id a \<noteq> rm_account_id rm) (d_credit_accounts d)"
      by (rule filter_put_row_out) (use aid in simp_all)
    moreover have "refund_of (rm_account_id rm) {rm_item_id rm} d' ?line"
      using o 1(3) aid by (auto simp: refund_of_def fr refund_line_def)
    moreover have "books_ok d'" by (rule same_books_ok [OF ok5 sb6])
    ultimately show ?thesis by (simp add: remediated_def fr holds_follow_refl)
  qed
qed

lemma run_each_remediated:
  assumes step: "\<And>x d r d'. f x d = Inr (r, d') \<Longrightarrow> books_ok d \<Longrightarrow> distinct (map ta_id (d_auths d)) \<Longrightarrow> remediated i (A x) (T x) d d'"
    and "run_each f xs d = Inr (rs, d')" "books_ok d" "distinct (map ta_id (d_auths d))"
  shows "remediated i (\<Union>x \<in> set xs. A x) (\<Union>x \<in> set xs. T x) d d'"
  using assms(2-4)
proof (induction xs arbitrary: d rs)
  case Nil
  then show ?case by (simp add: same_books_remediated)
next
  case (Cons x xs)
  obtain r d1 rs' where s: "f x d = Inr (r, d1)" "run_each f xs d1 = Inr (rs', d')"
    using Cons.prems(1) by auto
  note one = step [OF s(1) Cons.prems(2,3)]
  then have "remediated i (\<Union>x \<in> set xs. A x) (\<Union>x \<in> set xs. T x) d1 d'"
    using Cons.prems(3) by (intro Cons.IH [OF s(2)]) (simp_all add: remediated_def)
  with one show ?case by (auto dest: remediated_trans)
qed

lemma remediate_remediated:
  assumes run: "remediate w q alert d = Inr (rr, d')" and ok: "books_ok d" "distinct (map ta_id (d_auths d))"
  shows "remediated (al_credit_account_id alert) (set (tq_disputed_authorization_ids q)) (set (tq_disputed_transaction_ids q)) d d'"
  using run unfolding remediate_def
proof (elim run_elims, goal_cases)
  case (1 voided d1 credits d2 replacement d3)
  let ?i = "al_credit_account_id alert"
  have a: "remediated ?i (set (tq_disputed_authorization_ids q)) {} d d1"
    using run_each_remediated [of _ ?i "\<lambda>x. {x}" "\<lambda>x. {}", OF _ 1(1) ok] void_remediated [of _ "step_for alert _"]
    by (simp add: step_for_def)
  have ok1: "books_ok d1" "distinct (map ta_id (d_auths d1))" using a ok(2) by (simp_all add: remediated_def)
  have b: "remediated ?i {} (set (tq_disputed_transaction_ids q)) d1 d2"
    using run_each_remediated [of _ ?i "\<lambda>x. {}" "\<lambda>x. {x}", OF _ 1(2) ok1] credit_remediated [of _ "step_for alert _"]
    by (simp add: step_for_def)
  have ok2: "books_ok d2" using b by (simp add: remediated_def)
  have c: "remediated ?i {} {} d2 d3"
  proof (cases "tq_issue_replacement q")
    case False
    with 1(3) ok2 show ?thesis by (simp add: same_books_remediated)
  next
    case True
    then obtain cards where "issue_replacement_card (tw_clock w) (tw_card_token w) (tw_last_four w) (triage_replacement alert) d2 = Inr (cards, d3)"
      using 1(3) by auto
    note fr = issue_replacement_frame [OF this]
    have "books_ok d3"
      by (rule books_ok_frame [OF ok2]) (simp_all add: fr tx_sig_def acct_sig_def card_sig_def)
    then show ?thesis by (simp add: remediated_def fr holds_follow_refl)
  qed
  have "d3 = d'" using 1(4) by simp
  with remediated_trans [OF remediated_trans [OF a b] c] show ?case by simp
qed

text \<open>What follows the remediation changes messages, alerts, the outbox and the case action only.\<close>

lemma same_books_tail:
  "same_books d (snd (resolve_alert now i st d))" "same_books d (snd (mark_triaged now i m d))"
  "same_books d (snd (send_triage_secure_message w u al body d))"
proof -
  show "same_books d (snd (resolve_alert now i st d))" "same_books d (snd (mark_triaged now i m d))"
    by (auto simp: resolve_alert_def mark_triaged_def same_books_alert Let_def split: option.split)
  show "same_books d (snd (send_triage_secure_message w u al body d))"
    unfolding send_triage_secure_message_def by (rule same_books_message)
qed

lemma recognized_same_books: "same_books d (snd (triage_recognized w q alert action d))"
proof -
  obtain r d1 where s1: "resolve_alert (tw_clock w) (al_id alert) ''RESOLVED_CUSTOMER_RECOGNIZED'' d = (r, d1)" by force
  let ?a1 = "case r of Some a \<Rightarrow> a | None \<Rightarrow> alert"
  obtain m d2 where s2: "send_triage_secure_message w (tq_auth_provider_uid q) ?a1 (recognized_triage_message ?a1) d1 = (m, d2)" by force
  have 2: "same_books d d2"
    using same_books_trans [OF same_books_tail(1) [of d "tw_clock w" "al_id alert" "''RESOLVED_CUSTOMER_RECOGNIZED''"]]
      same_books_tail(3) [of d1 w "tq_auth_provider_uid q" ?a1 "recognized_triage_message ?a1"] by (simp add: s1 s2)
  define marks where "marks = \<lparr>tm_remediation_status = ''CUSTOMER_RECOGNIZED'',
             tm_triage_summary = Some ''Customer recognized all suspicious transactions.'',
             tm_disputed_authorization_ids = Some [], tm_disputed_transaction_ids = Some [],
             tm_provisional_credit_cents = Some 0, tm_replacement_card_id = None,
             tm_message_thread_id = Some (al_message_thread_id ?a1), tm_message_id = Some m\<rparr>"
  obtain k d3 where s3: "mark_triaged (tw_clock w) (al_id ?a1) marks d2 = (k, d3)" by force
  have 3: "same_books d d3"
    using same_books_trans [OF 2 same_books_tail(2) [of d2 "tw_clock w" "al_id ?a1" marks]] by (simp add: s3)
  show ?thesis
    unfolding triage_recognized_def Let_def s1 prod.case s2 marks_def [symmetric] s3 snd_conv message_sent_def
    by (intro same_books_trans [OF _ same_books_case_action(2)] same_books_trans [OF _ same_books_audit] 3)
qed

lemma disputed_steps:
  assumes "triage_disputed w q account alert action d = Inr (result, d')"
  obtains rr d1 where "remediate w q alert d = Inr (rr, d1)" "same_books d1 d'"
  using assms unfolding triage_disputed_def Let_def
proof (elim run_elims, goal_cases)
  case (1 rr d1 credit_total void_total body message_id d2 marked d3 void_money credit_money)
  have 2: "same_books d1 d2"
    using same_books_tail(3) [of d1 w "tq_auth_provider_uid q" alert body] by (simp add: 1(6))
  have "same_books d2 d3" using same_books_tail(2) [of d2 "tw_clock w" "al_id alert"] 1(7) by (metis snd_conv)
  then have 3: "same_books d1 d3" by (rule same_books_trans [OF 2])
  have "same_books d1 d'"
    using 1(10) unfolding message_sent_def
    by (auto intro!: same_books_trans [OF _ same_books_case_action(2)] same_books_trans [OF _ same_books_audit]
        same_books_trans [OF _ same_books_alert] 3)
  with 1(1,2) show ?case by blast
qed

lemma triage_disputed_runs:
  assumes "remediate w q alert d = Inr (rr, d1)" "total_of ''credited_amount'' (rr_credits rr) = Inr ct"
    "total_of ''voided_amount'' (rr_voided rr) = Inr vt" "pending_review_message q alert rr d1 = Inr body"
    "mk_money vt (ca_currency account) = Inr m1" "mk_money ct (ca_currency account) = Inr m2"
  shows "\<exists>result d'. triage_disputed w q account alert action d = Inr (result, d')"
  using assms by (simp add: triage_disputed_def Let_def split: prod.split)

lemma triage_cases:
  assumes "triage_fraud_case w q d = (d', r)"
  obtains (failed) e where "r = Inl e" "d' = d"
  | (unchanged) result where "r = Inr result" "d' = d"
  | (worked) result alert account action d1 where "r = Inr result"
      "get_alert_for_customer (tq_fraud_alert_id q) (Some (tq_auth_provider_uid q)) None d = Some alert"
      "require_fraud_account alert d = Inr account" "out_of_scope q alert = None" "same_books d d1"
      "if tq_disputed_authorization_ids q = [] \<and> tq_disputed_transaction_ids q = []
       then (result, d') = triage_recognized w q alert action d1
       else triage_disputed w q account alert action d1 = Inr (result, d')"
proof (cases "triage_fraud_case_in_transaction w q d")
  case (Inl e)
  with assms have "r = Inl e" "d' = d" by (simp_all add: triage_fraud_case_def atomically_Inl)
  then show thesis by (rule failed)
next
  case (Inr pair)
  obtain result s where pair: "pair = (result, s)" by force
  with Inr assms have s: "s = d'" "r = Inr result" by (simp_all add: triage_fraud_case_def atomically_Inr)
  have run: "triage_fraud_case_in_transaction w q d = Inr (result, d')" using Inr by (simp add: pair s)
  show thesis
  proof (cases "get_alert_for_customer (tq_fraud_alert_id q) (Some (tq_auth_provider_uid q)) None d")
    case None
    with run s unchanged show thesis by (simp add: triage_fraud_case_in_transaction_def)
  next
    case (Some alert)
    with run obtain account where acc: "require_fraud_account alert d = Inr account"
      by (auto simp: triage_fraud_case_in_transaction_def)
    show thesis
    proof (cases "succeeded_action (al_id alert) (workflow_key w q) d")
      case (Some action)
      with run s unchanged \<open>get_alert_for_customer _ _ _ d = Some alert\<close> acc show thesis
        by (auto simp: triage_fraud_case_in_transaction_def Let_def)
    next
      case None
      obtain action d1 where c: "create_case_action (tw_clock w) (al_id alert) ''FRAUD_CASE_TRIAGED'' ''PENDING'' (Some (workflow_key w q))
           (PDict [(''disputed_authorization_ids'', str_list (tq_disputed_authorization_ids q)),
                   (''disputed_transaction_ids'', str_list (tq_disputed_transaction_ids q)),
                   (''issue_replacement'', PBool (tq_issue_replacement q)),
                   (''escalate'', PBool (tq_escalate q))]) (PDict []) None d = (action, d1)" by force
      have "same_books d d1" using same_books_case_action(1) c by (metis snd_conv)
      with worked [OF s(2) Some acc _ this, of action] run None Some acc c show thesis
        by (auto simp: triage_fraud_case_in_transaction_def Let_def split: option.splits if_splits)
    qed
  qed
qed

lemma out_of_scope_None:
  assumes "out_of_scope q alert = None"
  shows "al_suspicious_authorization_ids alert \<noteq> [] \<Longrightarrow>
      set (tq_disputed_authorization_ids q) \<subseteq> set (al_suspicious_authorization_ids alert)"
    "set (tq_disputed_transaction_ids q) \<subseteq> set (alert_transaction_ids alert)"
proof -
  have nil: "sort (remdups (filter P xs)) = [] \<Longrightarrow> \<forall>x \<in> set xs. \<not> P x" for P and xs :: "string list"
    by (metis filter_empty_conv remdups_eq_nil_iff set_empty set_sort)
  show "al_suspicious_authorization_ids alert \<noteq> [] \<Longrightarrow>
      set (tq_disputed_authorization_ids q) \<subseteq> set (al_suspicious_authorization_ids alert)"
    "set (tq_disputed_transaction_ids q) \<subseteq> set (alert_transaction_ids alert)"
    using assms by (auto simp: out_of_scope_def Let_def split: if_splits dest!: nil)
qed

text \<open>C8. Triage stays inside the customer's alert and is atomic: a failed call leaves the state as it was; a
  successful one that changes anything acts on the alert the request names, of that customer, on the
  account the alert's customer owns; only items the alert lists are accepted (any authorization of the account
  when the alert lists none); only holds among the disputed ones end, only refunds of disputed debits
  are added to the statement, no other card account changes, and the books stay in order.\<close>

theorem triage_stays_in_scope:
  assumes run: "triage_fraud_case w q d = (d', r)" and ok: "books_ok d" "distinct (map ta_id (d_auths d))"
  shows "(isl r \<longrightarrow> d' = d) \<and> (d' = d \<or> (\<exists>alert \<in> set (d_alerts d). \<exists>account.
      al_id alert = tq_fraud_alert_id q
    \<and> (tq_auth_provider_uid q \<noteq> [] \<longrightarrow> al_auth_provider_uid alert = tq_auth_provider_uid q)
    \<and> get_credit_account (al_credit_account_id alert) d = Some account \<and> ca_customer_id account = al_customer_id alert
    \<and> (al_suspicious_authorization_ids alert \<noteq> [] \<longrightarrow>
         set (tq_disputed_authorization_ids q) \<subseteq> set (al_suspicious_authorization_ids alert))
    \<and> set (tq_disputed_transaction_ids q) \<subseteq> set (alert_transaction_ids alert)
    \<and> remediated (al_credit_account_id alert) (set (tq_disputed_authorization_ids q)) (set (tq_disputed_transaction_ids q)) d d'))"
  using run
proof (cases rule: triage_cases)
  case (worked result alert account action d1)
  let ?i = "al_credit_account_id alert"
  let ?A = "set (tq_disputed_authorization_ids q)" let ?T = "set (tq_disputed_transaction_ids q)"
  have al: "alert \<in> set (d_alerts d)" "al_id alert = tq_fraud_alert_id q"
    "tq_auth_provider_uid q \<noteq> [] \<longrightarrow> al_auth_provider_uid alert = tq_auth_provider_uid q"
    using worked(2) by (auto simp: get_alert_for_customer_def str_or_def dest!: find_Some_iff' split: if_splits)
  have acc: "get_credit_account ?i d = Some account" "ca_customer_id account = al_customer_id alert"
    using worked(3) by (auto simp: require_fraud_account_def split: option.splits if_splits)
  have ok1: "books_ok d1" "distinct (map ta_id (d_auths d1))"
    using same_books_ok [OF ok(1) worked(5)] worked(5) ok(2) by (simp_all add: same_books_def)
  have r1: "remediated ?i {} {} d d1" by (rule same_books_remediated [OF ok(1) worked(5)])
  have r2: "remediated ?i ?A ?T d1 d'"
  proof (cases "tq_disputed_authorization_ids q = [] \<and> tq_disputed_transaction_ids q = []")
    case True
    then have "(result, d') = triage_recognized w q alert action d1" using worked(6) by simp
    then have "same_books d1 d'" using recognized_same_books by (metis snd_conv)
    with True show ?thesis by (simp add: same_books_remediated [OF ok1(1)])
  next
    case False
    then have "triage_disputed w q account alert action d1 = Inr (result, d')" using worked(6) by argo
    then obtain rr d2 where m: "remediate w q alert d1 = Inr (rr, d2)" "same_books d2 d'" by (rule disputed_steps)
    have a: "remediated ?i ?A ?T d1 d2" by (rule remediate_remediated [OF m(1) ok1])
    then have "remediated ?i {} {} d2 d'" using m(2) by (intro same_books_remediated) (simp_all add: remediated_def)
    from remediated_trans [OF a this] show ?thesis by simp
  qed
  from remediated_trans [OF r1 r2] have "remediated ?i ?A ?T d d'" by simp
  with al acc out_of_scope_None [OF worked(4)] worked(1) show ?thesis by auto
qed auto

definition sample_triage_world :: triage_world where
  "sample_triage_world = \<lparr>tw_sha256 = (\<lambda>s. s), tw_clock = 400, tw_card_token = ''tok_2'', tw_last_four = ''7777''\<rparr>"

definition sample_triage :: triage_request where
  "sample_triage = \<lparr>tq_auth_provider_uid = ''uid-1'', tq_fraud_alert_id = ''A1'', tq_disputed_authorization_ids = [''H1''],
     tq_disputed_transaction_ids = [], tq_issue_replacement = True, tq_escalate = False, tq_idempotency_key = Some ''k''\<rparr>"

lemma sample_alert_books: "books_ok sample_alert_db" "distinct (map ta_id (d_auths sample_alert_db))"
proof -
  show "books_ok sample_alert_db"
    by (rule books_ok_frame [OF sample_books]) (simp_all add: sample_alert_db_def tx_sig_def acct_sig_def card_sig_def)
qed (simp add: sample_alert_db_def)

abbreviation sample_triaged :: "bank_db \<times> (string \<times> pyval) list res" where
  "sample_triaged \<equiv> triage_fraud_case sample_triage_world sample_triage sample_alert_db"

text \<open>The sample run, with the texts of the messages left as they are.\<close>

definition sample_opened :: "fraud_case_action \<times> bank_db" where
  "sample_opened = create_case_action 400 ''A1'' ''FRAUD_CASE_TRIAGED'' ''PENDING'' (Some ''k'')
     (PDict [(''disputed_authorization_ids'', str_list [''H1'']), (''disputed_transaction_ids'', str_list []),
             (''issue_replacement'', PBool True), (''escalate'', PBool False)]) (PDict []) None sample_alert_db"

lemma sample_remediated:
  "case remediate sample_triage_world sample_triage sample_alert (snd sample_opened) of
     Inl e \<Rightarrow> False
   | Inr (rr, d) \<Rightarrow> rr_credits rr = [] \<and> map (\<lambda>v. dict_get (PDict v) ''voided_amount'') (rr_voided rr)
        = [model_dump \<lparr>amount_minor = 4200, currency_code = ''USD''\<rparr>]
      \<and> get_credit_account ''CR1'' d = Some sample_card_account \<and> d_auths d = [sample_hold\<lparr>ta_status := ''REVERSED''\<rparr>]"
  by code_simp

lemma sample_triaged_runs: "d_auths (fst sample_triaged) = [sample_hold\<lparr>ta_status := ''REVERSED''\<rparr>]"
proof -
  obtain rr d where r: "remediate sample_triage_world sample_triage sample_alert (snd sample_opened) = Inr (rr, d)"
    using sample_remediated by (auto split: sum.splits)
  obtain v where v: "rr_credits rr = []" "rr_voided rr = [v]"
    "dict_get (PDict v) ''voided_amount'' = model_dump \<lparr>amount_minor = 4200, currency_code = ''USD''\<rparr>"
    "get_credit_account ''CR1'' d = Some sample_card_account" "d_auths d = [sample_hold\<lparr>ta_status := ''REVERSED''\<rparr>]"
    using sample_remediated by (auto simp: r)
  have auth: "get_authorization_by_id_for_account ''H1'' ''CR1'' d = Some (sample_hold\<lparr>ta_status := ''REVERSED''\<rparr>)"
    by (simp add: get_authorization_by_id_for_account_def v(5) sample_hold_def)
  have acc: "require_fraud_account sample_alert d = Inr sample_card_account"
    using v(4) by (simp add: require_fraud_account_def sample_alert_def sample_card_account_def)
  have ids: "ca_id sample_card_account = ''CR1''" "ca_currency sample_card_account = ''USD''"
    by (simp_all add: sample_card_account_def)
  have item: "dict_get (PDict [(''authorization_id'', PStr ''H1'')]) ''transaction_id'' = PNone"
    "dict_get (PDict [(''authorization_id'', PStr ''H1'')]) ''authorization_id'' = PStr ''H1''" by simp_all
  have ref: "fact_reference sample_card_account (PDict [(''authorization_id'', PStr ''H1'')]) d
      = Inr (None, Some (sample_hold\<lparr>ta_status := ''REVERSED''\<rparr>))"
    by (simp only: fact_reference_def item prod.case truthy.simps pyval.case ids auth option.case Let_def if_True if_False) simp
  have "\<exists>facts. fraud_money_facts sample_alert d = Inr facts"
    using acc ref ids by (simp add: fraud_money_facts_def sample_alert_def fraud_money_fact_def sample_hold_def mk_money_def
        CURRENCY_EXPONENTS_def MAX_MINOR_def del: bindR_Inr_iff)
  moreover have total: "total_of ''voided_amount'' [v] = Inr 4200"
    using v(3) by (simp add: model_dump_def)
  ultimately obtain body where body: "pending_review_message sample_triage sample_alert rr d = Inr body"
    using acc ids by (auto simp: pending_review_message_def v(1,2) shown_total_def mk_money_def CURRENCY_EXPONENTS_def MAX_MINOR_def
        Let_def simp del: bindR_Inr_iff total_of.simps)
  have money: "mk_money 4200 (ca_currency sample_card_account) = Inr \<lparr>amount_minor = 4200, currency_code = ''USD''\<rparr>"
    "mk_money 0 (ca_currency sample_card_account) = Inr \<lparr>amount_minor = 0, currency_code = ''USD''\<rparr>"
    by (simp_all add: ids mk_money_def CURRENCY_EXPONENTS_def MAX_MINOR_def)
  have credits: "total_of ''credited_amount'' (rr_credits rr) = Inr 0" by (simp add: v(1))
  obtain result d' where t: "triage_disputed sample_triage_world sample_triage sample_card_account sample_alert (fst sample_opened)
      (snd sample_opened) = Inr (result, d')"
    using triage_disputed_runs [OF r credits total [folded v(2)] body money] by blast
  have "d_auths d' = d_auths d"
    using disputed_steps [OF t] by (auto simp: r same_books_def)
  have key: "workflow_key sample_triage_world sample_triage = ''k''" by (simp add: workflow_key_def sample_triage_def str_or_def)
  have al: "get_alert_for_customer (tq_fraud_alert_id sample_triage) (Some (tq_auth_provider_uid sample_triage)) None sample_alert_db = Some sample_alert"
    by (simp add: get_alert_for_customer_def sample_alert_db_def sample_alert_def sample_triage_def str_or_def)
  have acc0: "require_fraud_account sample_alert sample_alert_db = Inr sample_card_account"
    by (simp add: require_fraud_account_def get_credit_account_def sample_alert_db_def sample_db_def sample_alert_def sample_card_account_def)
  have none: "succeeded_action ''A1'' ''k'' sample_alert_db = None"
    by (simp add: succeeded_action_def get_case_action_by_idempotency_key_def sample_alert_db_def sample_db_def)
  have scope: "out_of_scope sample_triage sample_alert = None"
    by (simp add: out_of_scope_def sample_triage_def sample_alert_def Let_def)
  have aid: "al_id sample_alert = ''A1''" by (simp add: sample_alert_def)
  have q: "tq_disputed_authorization_ids sample_triage = [''H1'']" "tq_disputed_transaction_ids sample_triage = []"
    "tq_issue_replacement sample_triage" "\<not> tq_escalate sample_triage" "tw_clock sample_triage_world = 400"
    by (simp_all add: sample_triage_def sample_triage_world_def)
  have "triage_fraud_case_in_transaction sample_triage_world sample_triage sample_alert_db = Inr (result, d')"
    using t by (simp add: triage_fraud_case_in_transaction_def al acc0 key none scope aid q sample_opened_def Let_def split: prod.splits) auto
  then show ?thesis using \<open>d_auths d' = d_auths d\<close> v(5) by (simp add: triage_fraud_case_def atomically_Inr)
qed

theorem triage_stays_in_scope_witness:
  "remediated ''CR1'' {''H1''} {} sample_alert_db (fst sample_triaged) \<and> fst sample_triaged \<noteq> sample_alert_db"
proof -
  have run: "sample_triaged = (fst sample_triaged, snd sample_triaged)" by simp
  have neq: "fst sample_triaged \<noteq> sample_alert_db"
  proof
    assume "fst sample_triaged = sample_alert_db"
    then have "d_auths sample_alert_db = [sample_hold\<lparr>ta_status := ''REVERSED''\<rparr>]" using sample_triaged_runs by simp
    then show False by (simp add: sample_alert_db_def sample_hold_def)
  qed
  with triage_stays_in_scope [OF run sample_alert_books] obtain alert where
    "alert \<in> set (d_alerts sample_alert_db)"
    "remediated (al_credit_account_id alert) (set (tq_disputed_authorization_ids sample_triage))
       (set (tq_disputed_transaction_ids sample_triage)) sample_alert_db (fst sample_triaged)" by blast
  then show ?thesis using neq by (simp add: sample_alert_db_def sample_alert_def sample_triage_def)
qed

end
