(* ===== verification/Decision_Contracts.thy ===== *)
theory Decision_Contracts
  imports Card_Service
begin

text \<open>
  The bank decision contracts of \<^verbatim>\<open>services/decisioning.py\<close>: what a decision request, a receipt and their
  parts are, which of them are well formed, and their wire form.  A pydantic model is a record with a
  well-formedness predicate (its field constraints and validators); \<open>..._dump\<close> is its
  \<open>model_dump(mode="json")\<close> and \<open>..._validate\<close> its \<open>model_validate\<close> on a dictionary, closed
  against unknown fields.  On the wire \<open>PTime\<close> is a timestamp that carries its zone, so a naive one is any other
  value, and a date is the timestamp of its midnight.
\<close>

section \<open>Reading closed objects\<close>

definition closed :: "string list \<Rightarrow> string list \<Rightarrow> pyval \<Rightarrow> (string \<times> pyval) list res" where
  "closed required optional v =
     (case v of
        PDict kvs \<Rightarrow>
          if set required \<subseteq> set (map fst kvs) \<and> set (map fst kvs) \<subseteq> set (required @ optional)
          then Inr kvs else Inl (ValidationError ''fields'')
      | _ \<Rightarrow> Inl (ValidationError ''object''))"

definition field :: "(string \<times> pyval) list \<Rightarrow> string \<Rightarrow> (pyval \<Rightarrow> 'a res) \<Rightarrow> 'a res" where
  "field kvs k reader = (case map_of kvs k of None \<Rightarrow> Inl (ValidationError k) | Some v \<Rightarrow> reader v)"

text \<open>A field whose type admits \<open>None\<close>; absent means \<open>None\<close>.\<close>

definition nullable :: "(pyval \<Rightarrow> 'a res) \<Rightarrow> pyval \<Rightarrow> 'a option res" where
  "nullable reader v = (case v of PNone \<Rightarrow> Inr None | _ \<Rightarrow> bindR (reader v) (\<lambda>x. Inr (Some x)))"

definition optional_field :: "(string \<times> pyval) list \<Rightarrow> string \<Rightarrow> (pyval \<Rightarrow> 'a res) \<Rightarrow> 'a option res" where
  "optional_field kvs k reader = (case map_of kvs k of None \<Rightarrow> Inr None | Some v \<Rightarrow> nullable reader v)"

definition plain_text :: "pyval \<Rightarrow> string res" where
  "plain_text v = (case v of PStr s \<Rightarrow> Inr s | _ \<Rightarrow> Inl (ValidationError ''string''))"

definition strict_int :: "pyval \<Rightarrow> int res" where
  "strict_int v = (case v of PInt n \<Rightarrow> Inr n | _ \<Rightarrow> Inl (ValidationError ''integer''))"

definition strict_bool :: "pyval \<Rightarrow> bool res" where
  "strict_bool v = (case v of PBool b \<Rightarrow> Inr b | _ \<Rightarrow> Inl (ValidationError ''boolean''))"

definition aware_time :: "pyval \<Rightarrow> int res" where
  "aware_time v = (case v of PTime t \<Rightarrow> Inr t | _ \<Rightarrow> Inl (ValidationError ''Decision timestamps must be timezone-aware.''))"

definition DAY :: int where
  "DAY = 86400000000"

definition calendar_date :: "pyval \<Rightarrow> int res" where
  "calendar_date v = (case v of PTime t \<Rightarrow> if t mod DAY = 0 then Inr (t div DAY) else Inl (ValidationError ''date'')
     | _ \<Rightarrow> Inl (ValidationError ''date''))"

definition literal :: "(string \<times> 'a) list \<Rightarrow> pyval \<Rightarrow> 'a res" where
  "literal table v =
     (case v of PStr s \<Rightarrow> (case map_of table s of Some x \<Rightarrow> Inr x | None \<Rightarrow> Inl (ValidationError ''literal''))
      | _ \<Rightarrow> Inl (ValidationError ''literal''))"

definition tuple_of :: "(pyval \<Rightarrow> 'a res) \<Rightarrow> pyval \<Rightarrow> 'a list res" where
  "tuple_of reader v = (case v of PList vs \<Rightarrow> mapR reader vs | _ \<Rightarrow> Inl (ValidationError ''list''))"

text \<open>The constraints of a model, of its fields and of its \<open>model_validator\<close>, once the fields have their types.\<close>

definition coherent :: "('a \<Rightarrow> bool) \<Rightarrow> 'a \<Rightarrow> 'a res" where
  "coherent p x = (if p x then Inr x else Inl (ValidationError ''coherence''))"

section \<open>Text patterns\<close>

definition hex64 :: "string \<Rightarrow> bool" where
  "hex64 s = (length s = 64 \<and> set s \<subseteq> set ''0123456789abcdef'')"

definition ident_char :: "char \<Rightarrow> bool" where
  "ident_char c = (let n = of_char c :: nat in
     (48 \<le> n \<and> n \<le> 57) \<or> (65 \<le> n \<and> n \<le> 90) \<or> (97 \<le> n \<and> n \<le> 122) \<or> c \<in> set ''_.-'')"

definition ident_text :: "nat \<Rightarrow> string \<Rightarrow> bool" where
  "ident_text high s = (s \<noteq> [] \<and> length s \<le> high \<and> list_all ident_char s)"

definition decision_ref :: "string \<Rightarrow> bool" where
  "decision_ref s =
     (let provider = takeWhile (\<lambda>c. c \<noteq> CHR '':'') s; rest = dropWhile (\<lambda>c. c \<noteq> CHR '':'') s
      in ident_text 64 provider \<and> rest \<noteq> [] \<and> ident_text 128 (tl rest))"

definition account_uuid :: "string \<Rightarrow> bool" where
  "account_uuid s = (length s = 36 \<and> set s \<subseteq> set ''0123456789abcdefABCDEF-'')"

definition version_digits :: "string \<Rightarrow> bool" where
  "version_digits s = (s \<noteq> [] \<and> length s \<le> 4 \<and> hd s \<noteq> CHR ''0'' \<and> set s \<subseteq> set ''0123456789'')"

definition disclosure_for :: "string \<Rightarrow> string \<Rightarrow> bool" where
  "disclosure_for tier s =
     (let p = tier @ ''-inquiry-disclosure.v'' in is_prefix_of p s \<and> version_digits (drop (length p) s))"

definition disclosure_version :: "string \<Rightarrow> bool" where
  "disclosure_version s = (disclosure_for ''soft'' s \<or> disclosure_for ''hard'' s)"

definition printable :: "char \<Rightarrow> bool" where
  "printable c = (let n = of_char c :: nat in 32 \<le> n \<and> \<not> (127 \<le> n \<and> n \<le> 159))"

definition product_text :: "string \<Rightarrow> bool" where
  "product_text s = (s \<noteq> [] \<and> length s \<le> 100 \<and> list_all printable s)"

section \<open>Closed vocabularies\<close>

datatype outcome = APPROVED | DECLINED | NEEDS_INFORMATION | REFER_FOR_REVIEW | COUNTEROFFER

datatype reason =
    APPROVED_BY_POLICY | LIMIT_CEILING_EXCEEDED | POLICY_DECLINED | INFORMATION_REQUIRED | REVIEW_REQUIRED
  | COUNTEROFFER_AVAILABLE | COOLING_OFF_ACTIVE | ABOVE_PRODUCT_MAXIMUM | INCOME_CONFIRMATION_REQUIRED
  | INQUIRY_CONSENT_REQUIRED | CREDIT_PROFILE_INELIGIBLE | BUREAU_DECLINED | INCOME_CAP_EXCEEDED

datatype inquiry = NO_INQUIRY | SOFT | HARD

datatype next_step =
    SPECIALIST_REVIEW | PRODUCT_UPGRADE | PROVIDE_INCOME | RETRY_AFTER_COOLING_OFF | ACCEPT_COUNTEROFFER
  | ACCEPT_PREAPPROVED_HEADROOM | ACCEPT_SOFT_TIER_CAP

fun outcome_text :: "outcome \<Rightarrow> string" where
  "outcome_text APPROVED = ''APPROVED''"
| "outcome_text DECLINED = ''DECLINED''"
| "outcome_text NEEDS_INFORMATION = ''NEEDS_INFORMATION''"
| "outcome_text REFER_FOR_REVIEW = ''REFER_FOR_REVIEW''"
| "outcome_text COUNTEROFFER = ''COUNTEROFFER''"

fun reason_text :: "reason \<Rightarrow> string" where
  "reason_text APPROVED_BY_POLICY = ''APPROVED_BY_POLICY''"
| "reason_text LIMIT_CEILING_EXCEEDED = ''LIMIT_CEILING_EXCEEDED''"
| "reason_text POLICY_DECLINED = ''POLICY_DECLINED''"
| "reason_text INFORMATION_REQUIRED = ''INFORMATION_REQUIRED''"
| "reason_text REVIEW_REQUIRED = ''REVIEW_REQUIRED''"
| "reason_text COUNTEROFFER_AVAILABLE = ''COUNTEROFFER_AVAILABLE''"
| "reason_text COOLING_OFF_ACTIVE = ''COOLING_OFF_ACTIVE''"
| "reason_text ABOVE_PRODUCT_MAXIMUM = ''ABOVE_PRODUCT_MAXIMUM''"
| "reason_text INCOME_CONFIRMATION_REQUIRED = ''INCOME_CONFIRMATION_REQUIRED''"
| "reason_text INQUIRY_CONSENT_REQUIRED = ''INQUIRY_CONSENT_REQUIRED''"
| "reason_text CREDIT_PROFILE_INELIGIBLE = ''CREDIT_PROFILE_INELIGIBLE''"
| "reason_text BUREAU_DECLINED = ''BUREAU_DECLINED''"
| "reason_text INCOME_CAP_EXCEEDED = ''INCOME_CAP_EXCEEDED''"

fun inquiry_text :: "inquiry \<Rightarrow> string" where
  "inquiry_text NO_INQUIRY = ''NONE''"
| "inquiry_text SOFT = ''SOFT''"
| "inquiry_text HARD = ''HARD''"

fun next_step_text :: "next_step \<Rightarrow> string" where
  "next_step_text SPECIALIST_REVIEW = ''SPECIALIST_REVIEW''"
| "next_step_text PRODUCT_UPGRADE = ''PRODUCT_UPGRADE''"
| "next_step_text PROVIDE_INCOME = ''PROVIDE_INCOME''"
| "next_step_text RETRY_AFTER_COOLING_OFF = ''RETRY_AFTER_COOLING_OFF''"
| "next_step_text ACCEPT_COUNTEROFFER = ''ACCEPT_COUNTEROFFER''"
| "next_step_text ACCEPT_PREAPPROVED_HEADROOM = ''ACCEPT_PREAPPROVED_HEADROOM''"
| "next_step_text ACCEPT_SOFT_TIER_CAP = ''ACCEPT_SOFT_TIER_CAP''"

text \<open>The literals of a type with their text, for reading.\<close>

definition spelled :: "('a \<Rightarrow> string) \<Rightarrow> 'a list \<Rightarrow> (string \<times> 'a) list" where
  "spelled f xs = map (\<lambda>x. (f x, x)) xs"

definition OUTCOMES :: "outcome list" where
  "OUTCOMES = [APPROVED, DECLINED, NEEDS_INFORMATION, REFER_FOR_REVIEW, COUNTEROFFER]"

definition REASONS :: "reason list" where
  "REASONS = [APPROVED_BY_POLICY, LIMIT_CEILING_EXCEEDED, POLICY_DECLINED, INFORMATION_REQUIRED, REVIEW_REQUIRED,
     COUNTEROFFER_AVAILABLE, COOLING_OFF_ACTIVE, ABOVE_PRODUCT_MAXIMUM, INCOME_CONFIRMATION_REQUIRED,
     INQUIRY_CONSENT_REQUIRED, CREDIT_PROFILE_INELIGIBLE, BUREAU_DECLINED, INCOME_CAP_EXCEEDED]"

definition INQUIRIES :: "inquiry list" where
  "INQUIRIES = [NO_INQUIRY, SOFT, HARD]"

definition CONSENTED_INQUIRIES :: "inquiry list" where
  "CONSENTED_INQUIRIES = [SOFT, HARD]"

definition NEXT_STEPS :: "next_step list" where
  "NEXT_STEPS = [SPECIALIST_REVIEW, PRODUCT_UPGRADE, PROVIDE_INCOME, RETRY_AFTER_COOLING_OFF, ACCEPT_COUNTEROFFER,
     ACCEPT_PREAPPROVED_HEADROOM, ACCEPT_SOFT_TIER_CAP]"

section \<open>The models\<close>

text \<open>A constraint of an optional field holds when the field is absent.\<close>

lemma pred_option_code [code]: "pred_option p None = True" "pred_option p (Some x) = p x"
  by simp_all

record decision_policy =
  dp_provider_id :: string
  dp_policy_id :: string
  dp_version :: int
  dp_digest :: string
  dp_approval_ttl_seconds :: int

definition policy_ok :: "decision_policy \<Rightarrow> bool" where
  "policy_ok p = (ident_text 64 (dp_provider_id p) \<and> ident_text 128 (dp_policy_id p) \<and> 1 \<le> dp_version p
     \<and> hex64 (dp_digest p) \<and> 1 \<le> dp_approval_ttl_seconds p \<and> dp_approval_ttl_seconds p \<le> 300)"

record checked_facts =
  cf_account_id :: string
  cf_account_status :: string
  cf_currency_code :: string
  cf_product_code :: string
  cf_current_limit_minor :: int
  cf_product_active :: bool
  cf_minimum_limit_minor :: int
  cf_maximum_limit_minor :: int

definition positive_minor :: "int \<Rightarrow> bool" where
  "positive_minor n = (0 < n \<and> n \<le> MAX_MINOR)"

definition facts_ok :: "checked_facts \<Rightarrow> bool" where
  "facts_ok f = (account_uuid (cf_account_id f) \<and> cf_account_status f = ''ACTIVE'' \<and> cf_currency_code f = ''USD''
     \<and> cf_product_code f \<noteq> [] \<and> length (cf_product_code f) \<le> 50 \<and> positive_minor (cf_current_limit_minor f)
     \<and> cf_product_active f \<and> positive_minor (cf_minimum_limit_minor f) \<and> positive_minor (cf_maximum_limit_minor f))"

record inquiry_consent =
  qc_inquiry_type :: inquiry
  qc_disclosure_version :: string
  qc_consent_ref :: string

definition tier_name :: "inquiry \<Rightarrow> string" where
  "tier_name t = (case t of NO_INQUIRY \<Rightarrow> ''none'' | SOFT \<Rightarrow> ''soft'' | HARD \<Rightarrow> ''hard'')"

definition consent_ok :: "inquiry_consent \<Rightarrow> bool" where
  "consent_ok c = (qc_inquiry_type c \<noteq> NO_INQUIRY \<and> disclosure_version (qc_disclosure_version c) \<and> hex64 (qc_consent_ref c)
     \<and> is_prefix_of (tier_name (qc_inquiry_type c) @ ''-'') (qc_disclosure_version c))"

record counteroffer_origin =
  oo_origin_request_ref :: string
  oo_origin_decision_ref :: string
  oo_origin_requested_limit :: money

definition origin_ok :: "counteroffer_origin \<Rightarrow> bool" where
  "origin_ok g = (hex64 (oo_origin_request_ref g) \<and> decision_ref (oo_origin_decision_ref g) \<and> money_ok (oo_origin_requested_limit g))"

record counteroffer_terms =
  ct_origin_request_ref :: string
  ct_requested_limit :: money

definition terms_ok :: "counteroffer_terms \<Rightarrow> bool" where
  "terms_ok c = (hex64 (ct_origin_request_ref c) \<and> money_ok (ct_requested_limit c))"

record refusal_facts =
  rf_reason_code :: reason
  rf_retryable :: bool
  rf_current_limit :: money
  rf_product_maximum :: money
  rf_max_instantly_approvable :: money
  rf_soft_tier_cap :: money
  rf_product_name :: string
  rf_next_steps :: "next_step list"
  rf_retry_after :: "int option"

definition refusal_limits :: "refusal_facts \<Rightarrow> money list" where
  "refusal_limits r = [rf_current_limit r, rf_max_instantly_approvable r, rf_soft_tier_cap r, rf_product_maximum r]"

definition refusal_ok :: "refusal_facts \<Rightarrow> bool" where
  "refusal_ok r =
     (list_all money_ok (refusal_limits r) \<and> product_text (rf_product_name r)
     \<and> rf_next_steps r \<noteq> [] \<and> length (rf_next_steps r) \<le> 4
     \<and> rf_product_name r = py_strip (rf_product_name r) \<and> distinct (rf_next_steps r)
     \<and> (let cooling = RETRY_AFTER_COOLING_OFF \<in> set (rf_next_steps r)
        in cooling = (rf_retry_after r \<noteq> None) \<and> \<not> (cooling \<and> \<not> rf_retryable r))
     \<and> length (remdups (map currency_code (refusal_limits r))) = 1
     \<and> \<not> (amount_minor (rf_current_limit r) \<le> 0 \<or> \<not> sorted (map amount_minor (refusal_limits r))))"

record limit_request =
  dr_request_ref :: string
  dr_scope_ref :: string
  dr_input_ref :: string
  dr_requested_limit :: money
  dr_facts :: checked_facts
  dr_inquiry_consent :: "inquiry_consent option"
  dr_origin :: "counteroffer_origin option"
  dr_signals_ref :: "string option"

definition request_ok :: "limit_request \<Rightarrow> bool" where
  "request_ok q =
     (hex64 (dr_request_ref q) \<and> hex64 (dr_scope_ref q) \<and> hex64 (dr_input_ref q) \<and> money_ok (dr_requested_limit q)
     \<and> facts_ok (dr_facts q) \<and> pred_option consent_ok (dr_inquiry_consent q) \<and> pred_option origin_ok (dr_origin q)
     \<and> pred_option hex64 (dr_signals_ref q)
     \<and> (case dr_origin q of None \<Rightarrow> True | Some g \<Rightarrow>
          \<not> (currency_code (oo_origin_requested_limit g) \<noteq> currency_code (dr_requested_limit q)
            \<or> amount_minor (oo_origin_requested_limit g) \<le> amount_minor (dr_requested_limit q))))"

record bank_decision =
  bd_decision_id :: string
  bd_provider_id :: string
  bd_outcome :: outcome
  bd_approved_limit :: "money option"
  bd_reason_codes :: "reason list"
  bd_policy :: decision_policy
  bd_evaluated_at :: int
  bd_expires_at :: int
  bd_request_ref :: string
  bd_scope_ref :: string
  bd_input_ref :: string
  bd_evidence_references :: "string list"
  bd_inquiry_type :: "inquiry option"
  bd_counteroffer :: "counteroffer_terms option"
  bd_refusal :: "refusal_facts option"

definition outcome_reasons :: "outcome \<Rightarrow> reason list" where
  "outcome_reasons oc =
     (case oc of
        APPROVED \<Rightarrow> [APPROVED_BY_POLICY]
      | DECLINED \<Rightarrow> [POLICY_DECLINED, LIMIT_CEILING_EXCEEDED, COOLING_OFF_ACTIVE, CREDIT_PROFILE_INELIGIBLE,
                     BUREAU_DECLINED, INCOME_CAP_EXCEEDED]
      | NEEDS_INFORMATION \<Rightarrow> [INFORMATION_REQUIRED, INCOME_CONFIRMATION_REQUIRED, INQUIRY_CONSENT_REQUIRED]
      | REFER_FOR_REVIEW \<Rightarrow> [REVIEW_REQUIRED, ABOVE_PRODUCT_MAXIMUM]
      | COUNTEROFFER \<Rightarrow> [COUNTEROFFER_AVAILABLE, LIMIT_CEILING_EXCEEDED, INCOME_CAP_EXCEEDED])"

text \<open>\<open>coherent_outcome\<close>.\<close>

definition coherent_outcome :: "bank_decision \<Rightarrow> bool" where
  "coherent_outcome d =
     ((bd_outcome d \<in> {APPROVED, COUNTEROFFER}) = (bd_approved_limit d \<noteq> None)
     \<and> set (bd_reason_codes d) \<subseteq> set (outcome_reasons (bd_outcome d))
     \<and> \<not> bd_expires_at d \<le> bd_evaluated_at d
     \<and> \<not> (bd_outcome d = COUNTEROFFER \<and> (COUNTEROFFER_AVAILABLE \<notin> set (bd_reason_codes d) \<or> bd_counteroffer d = None
            \<or> bd_refusal d = None \<or> bd_inquiry_type d = None))
     \<and> \<not> (bd_outcome d \<noteq> COUNTEROFFER \<and> bd_counteroffer d \<noteq> None)
     \<and> \<not> (INQUIRY_CONSENT_REQUIRED \<in> set (bd_reason_codes d) \<and> bd_inquiry_type d \<notin> {Some SOFT, Some HARD})
     \<and> (case bd_refusal d of None \<Rightarrow> True | Some r \<Rightarrow>
          \<not> bd_outcome d = APPROVED \<and> rf_reason_code r \<in> set (bd_reason_codes d)
          \<and> (ACCEPT_COUNTEROFFER \<in> set (rf_next_steps r)) = (bd_outcome d = COUNTEROFFER)))"

definition decision_ok :: "bank_decision \<Rightarrow> bool" where
  "decision_ok d =
     (ident_text 128 (bd_decision_id d) \<and> ident_text 64 (bd_provider_id d) \<and> pred_option money_ok (bd_approved_limit d)
     \<and> bd_reason_codes d \<noteq> [] \<and> length (bd_reason_codes d) \<le> 4 \<and> policy_ok (bd_policy d)
     \<and> hex64 (bd_request_ref d) \<and> hex64 (bd_scope_ref d) \<and> hex64 (bd_input_ref d)
     \<and> bd_evidence_references d \<noteq> [] \<and> length (bd_evidence_references d) \<le> 4 \<and> list_all hex64 (bd_evidence_references d)
     \<and> pred_option terms_ok (bd_counteroffer d) \<and> pred_option refusal_ok (bd_refusal d) \<and> coherent_outcome d)"

definition binding_ref :: "bank_decision \<Rightarrow> string" where
  "binding_ref d = bd_provider_id d @ '':'' @ bd_decision_id d"

section \<open>Wire form\<close>

definition opt_value :: "('a \<Rightarrow> pyval) \<Rightarrow> 'a option \<Rightarrow> pyval" where
  "opt_value f v = (case v of None \<Rightarrow> PNone | Some x \<Rightarrow> f x)"

definition date_value :: "int \<Rightarrow> pyval" where
  "date_value n = PTime (n * DAY)"

definition omit_absent :: "string list \<Rightarrow> (string \<times> pyval) list \<Rightarrow> (string \<times> pyval) list" where
  "omit_absent keys kvs = filter (\<lambda>(k, v). \<not> (k \<in> set keys \<and> v = PNone)) kvs"

definition policy_dump :: "decision_policy \<Rightarrow> pyval" where
  "policy_dump p = PDict [(''provider_id'', PStr (dp_provider_id p)), (''policy_id'', PStr (dp_policy_id p)),
     (''version'', PInt (dp_version p)), (''digest'', PStr (dp_digest p)),
     (''approval_ttl_seconds'', PInt (dp_approval_ttl_seconds p))]"

definition policy_validate :: "pyval \<Rightarrow> decision_policy res" where
  "policy_validate v =
     bindR (closed [''provider_id'', ''policy_id'', ''version'', ''digest'', ''approval_ttl_seconds''] [] v) (\<lambda>kvs.
     bindR (field kvs ''provider_id'' plain_text) (\<lambda>provider_id.
     bindR (field kvs ''policy_id'' plain_text) (\<lambda>policy_id.
     bindR (field kvs ''version'' strict_int) (\<lambda>version.
     bindR (field kvs ''digest'' plain_text) (\<lambda>digest.
     bindR (field kvs ''approval_ttl_seconds'' strict_int) (\<lambda>ttl.
       coherent policy_ok \<lparr>dp_provider_id = provider_id, dp_policy_id = policy_id, dp_version = version, dp_digest = digest,
         dp_approval_ttl_seconds = ttl\<rparr>))))))"

definition facts_dump :: "checked_facts \<Rightarrow> pyval" where
  "facts_dump f = PDict [(''account_id'', PStr (cf_account_id f)), (''account_status'', PStr (cf_account_status f)),
     (''currency_code'', PStr (cf_currency_code f)), (''product_code'', PStr (cf_product_code f)),
     (''current_limit_minor'', PInt (cf_current_limit_minor f)), (''product_active'', PBool (cf_product_active f)),
     (''minimum_limit_minor'', PInt (cf_minimum_limit_minor f)), (''maximum_limit_minor'', PInt (cf_maximum_limit_minor f))]"

definition facts_validate :: "pyval \<Rightarrow> checked_facts res" where
  "facts_validate v =
     bindR (closed [''account_id'', ''account_status'', ''currency_code'', ''product_code'', ''current_limit_minor'',
       ''product_active'', ''minimum_limit_minor'', ''maximum_limit_minor''] [] v) (\<lambda>kvs.
     bindR (field kvs ''account_id'' plain_text) (\<lambda>account_id.
     bindR (field kvs ''account_status'' plain_text) (\<lambda>status.
     bindR (field kvs ''currency_code'' plain_text) (\<lambda>currency.
     bindR (field kvs ''product_code'' plain_text) (\<lambda>product.
     bindR (field kvs ''current_limit_minor'' strict_int) (\<lambda>current.
     bindR (field kvs ''product_active'' strict_bool) (\<lambda>active.
     bindR (field kvs ''minimum_limit_minor'' strict_int) (\<lambda>low.
     bindR (field kvs ''maximum_limit_minor'' strict_int) (\<lambda>high.
       coherent facts_ok \<lparr>cf_account_id = account_id, cf_account_status = status, cf_currency_code = currency,
         cf_product_code = product, cf_current_limit_minor = current, cf_product_active = active,
         cf_minimum_limit_minor = low, cf_maximum_limit_minor = high\<rparr>)))))))))"

definition consent_dump :: "inquiry_consent \<Rightarrow> pyval" where
  "consent_dump c = PDict [(''inquiry_type'', PStr (inquiry_text (qc_inquiry_type c))),
     (''disclosure_version'', PStr (qc_disclosure_version c)), (''consent_ref'', PStr (qc_consent_ref c))]"

definition consent_validate :: "pyval \<Rightarrow> inquiry_consent res" where
  "consent_validate v =
     bindR (closed [''inquiry_type'', ''disclosure_version'', ''consent_ref''] [] v) (\<lambda>kvs.
     bindR (field kvs ''inquiry_type'' (literal (spelled inquiry_text CONSENTED_INQUIRIES))) (\<lambda>inquiry_type.
     bindR (field kvs ''disclosure_version'' plain_text) (\<lambda>disclosure.
     bindR (field kvs ''consent_ref'' plain_text) (\<lambda>consent_ref.
       coherent consent_ok \<lparr>qc_inquiry_type = inquiry_type, qc_disclosure_version = disclosure, qc_consent_ref = consent_ref\<rparr>))))"

definition origin_dump :: "counteroffer_origin \<Rightarrow> pyval" where
  "origin_dump g = PDict [(''origin_request_ref'', PStr (oo_origin_request_ref g)),
     (''origin_decision_ref'', PStr (oo_origin_decision_ref g)), (''origin_requested_limit'', model_dump (oo_origin_requested_limit g))]"

definition origin_validate :: "pyval \<Rightarrow> counteroffer_origin res" where
  "origin_validate v =
     bindR (closed [''origin_request_ref'', ''origin_decision_ref'', ''origin_requested_limit''] [] v) (\<lambda>kvs.
     bindR (field kvs ''origin_request_ref'' plain_text) (\<lambda>request_ref.
     bindR (field kvs ''origin_decision_ref'' plain_text) (\<lambda>decision.
     bindR (field kvs ''origin_requested_limit'' money_validate) (\<lambda>limit.
       coherent origin_ok \<lparr>oo_origin_request_ref = request_ref, oo_origin_decision_ref = decision,
         oo_origin_requested_limit = limit\<rparr>))))"

definition terms_dump :: "counteroffer_terms \<Rightarrow> pyval" where
  "terms_dump c = PDict [(''origin_request_ref'', PStr (ct_origin_request_ref c)), (''requested_limit'', model_dump (ct_requested_limit c))]"

definition terms_validate :: "pyval \<Rightarrow> counteroffer_terms res" where
  "terms_validate v =
     bindR (closed [''origin_request_ref'', ''requested_limit''] [] v) (\<lambda>kvs.
     bindR (field kvs ''origin_request_ref'' plain_text) (\<lambda>request_ref.
     bindR (field kvs ''requested_limit'' money_validate) (\<lambda>limit.
       coherent terms_ok \<lparr>ct_origin_request_ref = request_ref, ct_requested_limit = limit\<rparr>)))"

definition refusal_dump :: "refusal_facts \<Rightarrow> pyval" where
  "refusal_dump r = PDict [(''reason_code'', PStr (reason_text (rf_reason_code r))), (''retryable'', PBool (rf_retryable r)),
     (''current_limit'', model_dump (rf_current_limit r)), (''product_maximum'', model_dump (rf_product_maximum r)),
     (''max_instantly_approvable'', model_dump (rf_max_instantly_approvable r)), (''soft_tier_cap'', model_dump (rf_soft_tier_cap r)),
     (''product_name'', PStr (rf_product_name r)), (''next_steps'', PList (map (PStr \<circ> next_step_text) (rf_next_steps r))),
     (''retry_after'', opt_value date_value (rf_retry_after r))]"

definition refusal_validate :: "pyval \<Rightarrow> refusal_facts res" where
  "refusal_validate v =
     bindR (closed [''reason_code'', ''retryable'', ''current_limit'', ''product_maximum'', ''max_instantly_approvable'',
       ''soft_tier_cap'', ''product_name'', ''next_steps''] [''retry_after''] v) (\<lambda>kvs.
     bindR (field kvs ''reason_code'' (literal (spelled reason_text REASONS))) (\<lambda>reason_code.
     bindR (field kvs ''retryable'' strict_bool) (\<lambda>retryable.
     bindR (field kvs ''current_limit'' money_validate) (\<lambda>current.
     bindR (field kvs ''product_maximum'' money_validate) (\<lambda>maximum.
     bindR (field kvs ''max_instantly_approvable'' money_validate) (\<lambda>instant.
     bindR (field kvs ''soft_tier_cap'' money_validate) (\<lambda>soft.
     bindR (field kvs ''product_name'' plain_text) (\<lambda>product.
     bindR (field kvs ''next_steps'' (tuple_of (literal (spelled next_step_text NEXT_STEPS)))) (\<lambda>steps.
     bindR (optional_field kvs ''retry_after'' calendar_date) (\<lambda>retry_after.
       coherent refusal_ok \<lparr>rf_reason_code = reason_code, rf_retryable = retryable, rf_current_limit = current,
         rf_product_maximum = maximum, rf_max_instantly_approvable = instant, rf_soft_tier_cap = soft,
         rf_product_name = product, rf_next_steps = steps, rf_retry_after = retry_after\<rparr>))))))))))"

definition request_dump :: "limit_request \<Rightarrow> pyval" where
  "request_dump q = PDict (omit_absent [''inquiry_consent'', ''origin'', ''signals_ref'']
     [(''request_ref'', PStr (dr_request_ref q)), (''scope_ref'', PStr (dr_scope_ref q)), (''input_ref'', PStr (dr_input_ref q)),
      (''requested_limit'', model_dump (dr_requested_limit q)), (''facts'', facts_dump (dr_facts q)),
      (''inquiry_consent'', opt_value consent_dump (dr_inquiry_consent q)), (''origin'', opt_value origin_dump (dr_origin q)),
      (''signals_ref'', opt_value PStr (dr_signals_ref q))])"

definition request_validate :: "pyval \<Rightarrow> limit_request res" where
  "request_validate v =
     bindR (closed [''request_ref'', ''scope_ref'', ''input_ref'', ''requested_limit'', ''facts'']
       [''inquiry_consent'', ''origin'', ''signals_ref''] v) (\<lambda>kvs.
     bindR (field kvs ''request_ref'' plain_text) (\<lambda>request_ref.
     bindR (field kvs ''scope_ref'' plain_text) (\<lambda>scope_ref.
     bindR (field kvs ''input_ref'' plain_text) (\<lambda>input_ref.
     bindR (field kvs ''requested_limit'' money_validate) (\<lambda>limit.
     bindR (field kvs ''facts'' facts_validate) (\<lambda>facts.
     bindR (optional_field kvs ''inquiry_consent'' consent_validate) (\<lambda>consent.
     bindR (optional_field kvs ''origin'' origin_validate) (\<lambda>origin.
     bindR (optional_field kvs ''signals_ref'' plain_text) (\<lambda>signals_ref.
       coherent request_ok \<lparr>dr_request_ref = request_ref, dr_scope_ref = scope_ref, dr_input_ref = input_ref,
         dr_requested_limit = limit, dr_facts = facts, dr_inquiry_consent = consent, dr_origin = origin,
         dr_signals_ref = signals_ref\<rparr>)))))))))"

definition decision_dump :: "bank_decision \<Rightarrow> pyval" where
  "decision_dump d = PDict (omit_absent [''inquiry_type'', ''counteroffer'', ''refusal'']
     [(''decision_id'', PStr (bd_decision_id d)), (''provider_id'', PStr (bd_provider_id d)),
      (''outcome'', PStr (outcome_text (bd_outcome d))), (''approved_limit'', opt_value model_dump (bd_approved_limit d)),
      (''reason_codes'', PList (map (PStr \<circ> reason_text) (bd_reason_codes d))), (''policy'', policy_dump (bd_policy d)),
      (''evaluated_at'', PTime (bd_evaluated_at d)), (''expires_at'', PTime (bd_expires_at d)),
      (''request_ref'', PStr (bd_request_ref d)), (''scope_ref'', PStr (bd_scope_ref d)), (''input_ref'', PStr (bd_input_ref d)),
      (''evidence_references'', str_list (bd_evidence_references d)),
      (''inquiry_type'', opt_value (PStr \<circ> inquiry_text) (bd_inquiry_type d)),
      (''counteroffer'', opt_value terms_dump (bd_counteroffer d)), (''refusal'', opt_value refusal_dump (bd_refusal d))])"

definition decision_validate :: "pyval \<Rightarrow> bank_decision res" where
  "decision_validate v =
     bindR (closed [''decision_id'', ''provider_id'', ''outcome'', ''approved_limit'', ''reason_codes'', ''policy'', ''evaluated_at'',
       ''expires_at'', ''request_ref'', ''scope_ref'', ''input_ref'', ''evidence_references'']
       [''inquiry_type'', ''counteroffer'', ''refusal''] v) (\<lambda>kvs.
     bindR (field kvs ''decision_id'' plain_text) (\<lambda>decision_id.
     bindR (field kvs ''provider_id'' plain_text) (\<lambda>provider_id.
     bindR (field kvs ''outcome'' (literal (spelled outcome_text OUTCOMES))) (\<lambda>oc.
     bindR (field kvs ''approved_limit'' (nullable money_validate)) (\<lambda>approved.
     bindR (field kvs ''reason_codes'' (tuple_of (literal (spelled reason_text REASONS)))) (\<lambda>reasons.
     bindR (field kvs ''policy'' policy_validate) (\<lambda>policy.
     bindR (field kvs ''evaluated_at'' aware_time) (\<lambda>evaluated_at.
     bindR (field kvs ''expires_at'' aware_time) (\<lambda>expires_at.
     bindR (field kvs ''request_ref'' plain_text) (\<lambda>request_ref.
     bindR (field kvs ''scope_ref'' plain_text) (\<lambda>scope_ref.
     bindR (field kvs ''input_ref'' plain_text) (\<lambda>input_ref.
     bindR (field kvs ''evidence_references'' (tuple_of plain_text)) (\<lambda>evidence.
     bindR (optional_field kvs ''inquiry_type'' (literal (spelled inquiry_text INQUIRIES))) (\<lambda>inquiry_type.
     bindR (optional_field kvs ''counteroffer'' terms_validate) (\<lambda>counteroffer.
     bindR (optional_field kvs ''refusal'' refusal_validate) (\<lambda>refusal.
       coherent decision_ok \<lparr>bd_decision_id = decision_id, bd_provider_id = provider_id, bd_outcome = oc,
         bd_approved_limit = approved, bd_reason_codes = reasons, bd_policy = policy, bd_evaluated_at = evaluated_at,
         bd_expires_at = expires_at, bd_request_ref = request_ref, bd_scope_ref = scope_ref, bd_input_ref = input_ref,
         bd_evidence_references = evidence, bd_inquiry_type = inquiry_type, bd_counteroffer = counteroffer,
         bd_refusal = refusal\<rparr>))))))))))))))))"

section \<open>Round trips\<close>

lemma map_of_omit:
  "distinct (map fst kvs) \<Longrightarrow> map_of (omit_absent keys kvs) k =
     (if k \<in> set keys \<and> map_of kvs k = Some PNone then None else map_of kvs k)"
  by (induction kvs) (auto simp: omit_absent_def map_of_eq_None_iff[THEN iffD2] image_iff)

lemma closed_omit:
  assumes "set (map fst kvs) = set (required @ optional)" "set required \<inter> set optional = {}"
  shows "closed required optional (PDict (omit_absent optional kvs)) = Inr (omit_absent optional kvs)"
proof -
  have "set required \<subseteq> set (map fst (omit_absent optional kvs))"
  proof
    fix k assume k: "k \<in> set required"
    then have "k \<in> fst ` set kvs" using assms(1) by simp
    then obtain v where "(k, v) \<in> set kvs" by force
    moreover have "k \<notin> set optional" using k assms(2) by auto
    ultimately show "k \<in> set (map fst (omit_absent optional kvs))" by (force simp: omit_absent_def)
  qed
  moreover have "set (map fst (omit_absent optional kvs)) \<subseteq> set (required @ optional)"
    using assms(1) by (auto simp: omit_absent_def)
  ultimately show ?thesis by (simp add: closed_def)
qed

lemma field_omit: "distinct (map fst kvs) \<Longrightarrow> k \<notin> set keys \<Longrightarrow> field (omit_absent keys kvs) k r = field kvs k r"
  by (simp add: field_def map_of_omit)

lemma field_Some: "map_of kvs k = Some v \<Longrightarrow> field kvs k r = r v"
  by (simp add: field_def)

lemma optional_omit:
  assumes "distinct (map fst kvs)" "k \<in> set keys" "map_of kvs k = Some v"
  shows "optional_field (omit_absent keys kvs) k r = nullable r v"
  using assms by (simp add: optional_field_def map_of_omit nullable_def split: pyval.split)

text \<open>What the wire form of a model promises: reading what was written gives it back, and whatever was read is well formed.\<close>

locale codec =
  fixes dump :: "'a \<Rightarrow> pyval"
    and validate :: "pyval \<Rightarrow> 'a res"
    and ok :: "'a \<Rightarrow> bool"
  assumes validate_dump: "ok x \<Longrightarrow> validate (dump x) = Inr x"
    and validate_ok: "validate v = Inr x \<Longrightarrow> ok x"
    and dump_present: "dump x \<noteq> PNone"
begin

lemma nullable_dump: "ok x \<Longrightarrow> nullable validate (dump x) = Inr (Some x)"
  using dump_present [of x] by (cases "dump x") (simp_all add: nullable_def validate_dump [symmetric])

lemma nullable_opt: "pred_option ok v \<Longrightarrow> nullable validate (opt_value dump v) = Inr v"
  by (cases v) (simp_all add: opt_value_def nullable_dump, simp add: nullable_def)

lemma validate_dump_iff: "validate (dump x) = Inr x \<longleftrightarrow> ok x"
  using validate_dump validate_ok by blast

lemma revalidate: "validate v = Inr x \<Longrightarrow> validate (dump x) = Inr x"
  by (rule validate_dump) (rule validate_ok)

lemma dump_inject: "ok x \<Longrightarrow> ok y \<Longrightarrow> dump x = dump y \<longleftrightarrow> x = y"
  by (metis validate_dump sum.inject(2))

end

lemma reader_simps [simp]:
  "plain_text (PStr s) = Inr s" "strict_int (PInt n) = Inr n" "strict_bool (PBool b) = Inr b" "aware_time (PTime t) = Inr t"
  "calendar_date (date_value n) = Inr n"
  by (simp_all add: plain_text_def strict_int_def strict_bool_def aware_time_def calendar_date_def date_value_def DAY_def)

lemma literal_simps [simp]:
  "literal (spelled outcome_text OUTCOMES) (PStr (outcome_text oc)) = Inr oc"
  "literal (spelled reason_text REASONS) (PStr (reason_text rc)) = Inr rc"
  "literal (spelled inquiry_text INQUIRIES) (PStr (inquiry_text i)) = Inr i"
  "i \<noteq> NO_INQUIRY \<Longrightarrow> literal (spelled inquiry_text CONSENTED_INQUIRIES) (PStr (inquiry_text i)) = Inr i"
  "literal (spelled next_step_text NEXT_STEPS) (PStr (next_step_text n)) = Inr n"
proof -
  show "literal (spelled outcome_text OUTCOMES) (PStr (outcome_text oc)) = Inr oc"
    by (cases oc) (simp_all add: literal_def spelled_def OUTCOMES_def)
  show "literal (spelled reason_text REASONS) (PStr (reason_text rc)) = Inr rc"
    by (cases rc) (simp_all add: literal_def spelled_def REASONS_def)
  show "literal (spelled inquiry_text INQUIRIES) (PStr (inquiry_text i)) = Inr i"
    by (cases i) (simp_all add: literal_def spelled_def INQUIRIES_def)
  show "literal (spelled inquiry_text CONSENTED_INQUIRIES) (PStr (inquiry_text i)) = Inr i" if "i \<noteq> NO_INQUIRY"
    using that by (cases i) (simp_all add: literal_def spelled_def CONSENTED_INQUIRIES_def)
  show "literal (spelled next_step_text NEXT_STEPS) (PStr (next_step_text n)) = Inr n"
    by (cases n) (simp_all add: literal_def spelled_def NEXT_STEPS_def)
qed

lemma tuple_of_map: "(\<And>x. reader (f x) = Inr x) \<Longrightarrow> tuple_of reader (PList (map f xs)) = Inr xs"
  unfolding tuple_of_def by (induction xs) auto

lemma coherent_Inr [simp]: "coherent p x = Inr y \<longleftrightarrow> y = x \<and> p x"
  by (auto simp: coherent_def)

lemma opt_value_iff [simp]: "opt_value f v = PNone \<longleftrightarrow> (case v of None \<Rightarrow> True | Some x \<Rightarrow> f x = PNone)"
  by (simp add: opt_value_def split: option.split)

lemma money_codec: "codec model_dump money_validate money_ok"
proof
  show "money_validate (model_dump x) = Inr x" if "money_ok x" for x
    using that by (simp add: money_validate_dump mk_money_of_ok)
qed (simp_all add: money_validate_ok model_dump_def)

interpretation money_wire: codec model_dump money_validate money_ok
  by (rule money_codec)

text \<open>Writing then reading: each field is found under its key; reading only: the coherence check was passed.\<close>

lemmas wire_simps = closed_def field_def

lemmas additive_simps = closed_omit field_omit field_Some optional_omit

interpretation policy_wire: codec policy_dump policy_validate policy_ok
proof
  show "policy_validate (policy_dump x) = Inr x" if "policy_ok x" for x
    using that by (cases x) (simp add: policy_dump_def policy_validate_def wire_simps coherent_def del: bindR_Inr_iff)
qed (auto simp: policy_validate_def policy_dump_def)

interpretation facts_wire: codec facts_dump facts_validate facts_ok
proof
  show "facts_validate (facts_dump x) = Inr x" if "facts_ok x" for x
    using that by (cases x) (simp add: facts_dump_def facts_validate_def wire_simps coherent_def del: bindR_Inr_iff)
qed (auto simp: facts_validate_def facts_dump_def)

interpretation consent_wire: codec consent_dump consent_validate consent_ok
proof
  show "consent_validate (consent_dump x) = Inr x" if "consent_ok x" for x
  proof -
    from that have "qc_inquiry_type x \<noteq> NO_INQUIRY" by (simp add: consent_ok_def)
    with that show ?thesis
      by (cases x) (simp add: consent_dump_def consent_validate_def wire_simps coherent_def del: bindR_Inr_iff)
  qed
qed (auto simp: consent_validate_def consent_dump_def)

interpretation origin_wire: codec origin_dump origin_validate origin_ok
proof
  show "origin_validate (origin_dump x) = Inr x" if "origin_ok x" for x
  proof -
    from that have "money_ok (oo_origin_requested_limit x)" by (simp add: origin_ok_def)
    with that show ?thesis
      by (cases x) (simp add: origin_dump_def origin_validate_def wire_simps coherent_def money_wire.validate_dump del: bindR_Inr_iff)
  qed
qed (auto simp: origin_validate_def origin_dump_def)

interpretation terms_wire: codec terms_dump terms_validate terms_ok
proof
  show "terms_validate (terms_dump x) = Inr x" if "terms_ok x" for x
  proof -
    from that have "money_ok (ct_requested_limit x)" by (simp add: terms_ok_def)
    with that show ?thesis
      by (cases x) (simp add: terms_dump_def terms_validate_def wire_simps coherent_def money_wire.validate_dump del: bindR_Inr_iff)
  qed
qed (auto simp: terms_validate_def terms_dump_def)

lemma steps_read: "tuple_of (literal (spelled next_step_text NEXT_STEPS)) (PList (map (PStr \<circ> next_step_text) xs)) = Inr xs"
  by (rule tuple_of_map) simp

lemma reasons_read: "tuple_of (literal (spelled reason_text REASONS)) (PList (map (PStr \<circ> reason_text) xs)) = Inr xs"
  by (rule tuple_of_map) simp

lemma texts_read: "tuple_of plain_text (str_list xs) = Inr xs"
  unfolding str_list_def by (rule tuple_of_map) simp

lemma date_read: "optional_field kvs k calendar_date = Inr v" if "map_of kvs k = Some (opt_value date_value v)"
  using that by (cases v) (simp_all add: optional_field_def nullable_def opt_value_def date_value_def calendar_date_def DAY_def)

interpretation refusal_wire: codec refusal_dump refusal_validate refusal_ok
proof
  show "refusal_validate (refusal_dump x) = Inr x" if "refusal_ok x" for x
  proof -
    from that have "money_ok (rf_current_limit x)" "money_ok (rf_product_maximum x)"
      "money_ok (rf_max_instantly_approvable x)" "money_ok (rf_soft_tier_cap x)"
      by (simp_all add: refusal_ok_def refusal_limits_def)
    with that show ?thesis
      by (cases x) (simp add: refusal_dump_def refusal_validate_def wire_simps coherent_def money_wire.validate_dump steps_read
            date_read del: bindR_Inr_iff)
  qed
qed (auto simp: refusal_validate_def refusal_dump_def)

lemma signals_read: "nullable plain_text (opt_value PStr v) = Inr v"
  by (cases v) (simp_all add: nullable_def opt_value_def)

lemma inquiry_read: "nullable (literal (spelled inquiry_text INQUIRIES)) (opt_value (PStr \<circ> inquiry_text) v) = Inr v"
  by (cases v) (simp_all add: nullable_def opt_value_def)

lemma dump_not_none [simp]:
  "consent_dump c \<noteq> PNone" "origin_dump g \<noteq> PNone" "terms_dump t \<noteq> PNone" "refusal_dump r \<noteq> PNone" "model_dump m \<noteq> PNone"
  by (simp_all add: consent_dump_def origin_dump_def terms_dump_def refusal_dump_def model_dump_def)

interpretation request_wire: codec request_dump request_validate request_ok
proof
  show "request_validate (request_dump x) = Inr x" if "request_ok x" for x
  proof -
    have parts: "money_ok (dr_requested_limit x)" "facts_ok (dr_facts x)"
      "pred_option consent_ok (dr_inquiry_consent x)" "pred_option origin_ok (dr_origin x)"
      using that by (simp_all add: request_ok_def)
    then show ?thesis
      using that by (cases x) (simp add: request_dump_def request_validate_def additive_simps coherent_def money_wire.validate_dump
        facts_wire.validate_dump consent_wire.nullable_opt origin_wire.nullable_opt signals_read del: bindR_Inr_iff)
  qed
qed (auto simp: request_validate_def request_dump_def)

interpretation decision_wire: codec decision_dump decision_validate decision_ok
proof
  show "decision_validate (decision_dump x) = Inr x" if "decision_ok x" for x
  proof -
    have parts: "pred_option money_ok (bd_approved_limit x)" "policy_ok (bd_policy x)"
      "pred_option terms_ok (bd_counteroffer x)" "pred_option refusal_ok (bd_refusal x)"
      using that by (simp_all add: decision_ok_def)
    then show ?thesis
      using that by (cases x) (simp add: decision_dump_def decision_validate_def additive_simps coherent_def money_wire.nullable_opt
        policy_wire.validate_dump reasons_read texts_read terms_wire.nullable_opt refusal_wire.nullable_opt inquiry_read del: bindR_Inr_iff)
  qed
qed (auto simp: decision_validate_def decision_dump_def)

text \<open>C25. The wire form of requests and receipts: what a reader accepts is well formed and reads back from what it writes,
  exactly the well-formed values survive the trip, two different ones never share a wire form, and the additive fields of
  a receipt are on the wire only when they are present.\<close>

theorem wire_form_is_faithful:
  "(decision_validate v = Inr d \<longrightarrow> decision_ok d \<and> decision_validate (decision_dump d) = Inr d)
   \<and> (decision_validate (decision_dump d) = Inr d \<longleftrightarrow> decision_ok d)
   \<and> (request_validate v = Inr q \<longrightarrow> request_ok q \<and> request_validate (request_dump q) = Inr q)
   \<and> (request_validate (request_dump q) = Inr q \<longleftrightarrow> request_ok q)
   \<and> (decision_ok d \<and> decision_ok d' \<and> decision_dump d = decision_dump d' \<longrightarrow> d = d')
   \<and> (\<exists>kvs. decision_dump d = PDict kvs \<and> (''counteroffer'' \<in> fst ` set kvs \<longleftrightarrow> bd_counteroffer d \<noteq> None)
        \<and> (''refusal'' \<in> fst ` set kvs \<longleftrightarrow> bd_refusal d \<noteq> None) \<and> (''inquiry_type'' \<in> fst ` set kvs \<longleftrightarrow> bd_inquiry_type d \<noteq> None))"
proof -
  have "\<exists>kvs. decision_dump d = PDict kvs \<and> (''counteroffer'' \<in> fst ` set kvs \<longleftrightarrow> bd_counteroffer d \<noteq> None)
        \<and> (''refusal'' \<in> fst ` set kvs \<longleftrightarrow> bd_refusal d \<noteq> None) \<and> (''inquiry_type'' \<in> fst ` set kvs \<longleftrightarrow> bd_inquiry_type d \<noteq> None)"
    by (auto simp: decision_dump_def omit_absent_def split: option.splits)
  then show ?thesis
    using decision_wire.validate_dump_iff decision_wire.revalidate decision_wire.validate_ok decision_wire.dump_inject
      request_wire.validate_dump_iff request_wire.revalidate request_wire.validate_ok by blast
qed

definition sample_terms :: counteroffer_terms where
  "sample_terms = \<lparr>ct_origin_request_ref = replicate 64 CHR ''b'', ct_requested_limit = \<lparr>amount_minor = 900, currency_code = ''USD''\<rparr>\<rparr>"

definition sample_declined :: bank_decision where
  "sample_declined = \<lparr>bd_decision_id = ''d-9'', bd_provider_id = ''demo-bank'', bd_outcome = DECLINED, bd_approved_limit = None,
     bd_reason_codes = [POLICY_DECLINED],
     bd_policy = \<lparr>dp_provider_id = ''demo-bank'', dp_policy_id = ''p'', dp_version = 1, dp_digest = replicate 64 CHR ''a'',
       dp_approval_ttl_seconds = 180\<rparr>,
     bd_evaluated_at = 0, bd_expires_at = 180000000, bd_request_ref = replicate 64 CHR ''1'', bd_scope_ref = replicate 64 CHR ''2'',
     bd_input_ref = replicate 64 CHR ''3'', bd_evidence_references = [replicate 64 CHR ''3''], bd_inquiry_type = None,
     bd_counteroffer = None, bd_refusal = None\<rparr>"

lemma sample_declined_ok: "decision_validate (decision_dump sample_declined) = Inr sample_declined"
  by code_simp

theorem wire_form_is_faithful_witness:
  "decision_ok sample_declined \<and> decision_validate (decision_dump (sample_declined\<lparr>bd_counteroffer := Some sample_terms\<rparr>))
     \<noteq> Inr (sample_declined\<lparr>bd_counteroffer := Some sample_terms\<rparr>)"
proof -
  have "\<not> decision_ok (sample_declined\<lparr>bd_counteroffer := Some sample_terms\<rparr>)" by code_simp
  moreover have "decision_ok sample_declined"
    using wire_form_is_faithful [of "decision_dump sample_declined" sample_declined] sample_declined_ok by blast
  ultimately show ?thesis
    using wire_form_is_faithful [of PNone "sample_declined\<lparr>bd_counteroffer := Some sample_terms\<rparr>"] by blast
qed

end
