(* ===== verification/Decisioning.thy ===== *)
theory Decisioning
  imports Decision_Contracts
begin

text \<open>
  The deterministic bank decision of \<^verbatim>\<open>services/decisioning.py\<close>: the tier configuration, the customer signals,
  the gates and caps computed from them, the provider that answers a request with a receipt, and
  \<open>validate_decision\<close>, which binds a receipt to the request it answers.  Parameters: the digest of a canonical JSON
  document and \<open>uuid5\<close> in the URL name space.
\<close>

section \<open>Tier configuration\<close>

record tier_gates =
  tg_cooling_off_days :: int
  tg_income_confirmation_max_age_days :: int
  tg_minimum_credit_score :: int
  tg_minimum_tenure_months :: int
  tg_max_late_payments_12m :: int

record credit_tier_bps =
  tb_prime_excellent :: int
  tb_prime :: int
  tb_near_prime :: int
  tb_subprime :: int

record utilization_band =
  ub_max_bps :: int
  ub_factor_bps :: int

record tenure_band =
  nb_min_months :: int
  nb_factor_bps :: int

record tier_policy =
  tp_rounding_step_minor :: int
  tp_gates :: tier_gates
  tp_tier_bps :: credit_tier_bps
  tp_utilization_bands :: "utilization_band list"
  tp_tenure_bands :: "tenure_band list"
  tp_max_limit_to_income_bps :: int
  tp_max_multiple_of_current_bps :: int
  tp_soft_disclosure :: string
  tp_hard_disclosure :: string

definition between :: "int \<Rightarrow> int \<Rightarrow> int \<Rightarrow> bool" where
  "between low n high = (low \<le> n \<and> n \<le> high)"

definition gates_ok :: "tier_gates \<Rightarrow> bool" where
  "gates_ok g = (between 0 (tg_cooling_off_days g) 3650 \<and> between 1 (tg_income_confirmation_max_age_days g) 3650
     \<and> between 300 (tg_minimum_credit_score g) 850 \<and> between 0 (tg_minimum_tenure_months g) 600
     \<and> between 0 (tg_max_late_payments_12m g) 12)"

definition tier_bps_ok :: "credit_tier_bps \<Rightarrow> bool" where
  "tier_bps_ok b = list_all (\<lambda>n. between 0 n 10000) [tb_prime_excellent b, tb_prime b, tb_near_prime b, tb_subprime b]"

text \<open>\<open>any(a >= b for a, b in zip(values, values[1:]))\<close> refuses the bands.\<close>

definition ascending :: "int list \<Rightarrow> bool" where
  "ascending values = list_all (\<lambda>(a, b). a < b) (zip values (tl values))"

definition headroom_ok :: "tier_policy \<Rightarrow> bool" where
  "headroom_ok p =
     (tier_bps_ok (tp_tier_bps p)
     \<and> tp_utilization_bands p \<noteq> [] \<and> length (tp_utilization_bands p) \<le> 8
     \<and> list_all (\<lambda>b. between 0 (ub_max_bps b) 20000 \<and> between 0 (ub_factor_bps b) 10000) (tp_utilization_bands p)
     \<and> tp_tenure_bands p \<noteq> [] \<and> length (tp_tenure_bands p) \<le> 8
     \<and> list_all (\<lambda>b. between 0 (nb_min_months b) 600 \<and> between 0 (nb_factor_bps b) 10000) (tp_tenure_bands p)
     \<and> between 1 (tp_max_limit_to_income_bps p) 10000
     \<and> ascending (map ub_max_bps (tp_utilization_bands p)) \<and> ascending (map nb_min_months (tp_tenure_bands p)))"

definition tier_policy_ok :: "tier_policy \<Rightarrow> bool" where
  "tier_policy_ok p =
     (between 1 (tp_rounding_step_minor p) MAX_MINOR \<and> gates_ok (tp_gates p) \<and> headroom_ok p
     \<and> between 10000 (tp_max_multiple_of_current_bps p) 100000
     \<and> disclosure_for ''soft'' (tp_soft_disclosure p) \<and> disclosure_for ''hard'' (tp_hard_disclosure p)
     \<and> \<not> nb_min_months (hd (tp_tenure_bands p)) < tg_minimum_tenure_months (tp_gates p))"

record tier_config =
  tc_policy_id :: string
  tc_policy_version :: int
  tc_default :: tier_policy
  tc_product_overrides :: "(string \<times> tier_policy) list"

definition tier_config_ok :: "tier_config \<Rightarrow> bool" where
  "tier_config_ok c = (ident_text 128 (tc_policy_id c) \<and> 1 \<le> tc_policy_version c \<and> tier_policy_ok (tc_default c)
     \<and> list_all (\<lambda>(k, p). tier_policy_ok p) (tc_product_overrides c))"

definition policy_for :: "tier_config \<Rightarrow> string \<Rightarrow> tier_policy" where
  "policy_for c product_code = (case map_of (tc_product_overrides c) product_code of None \<Rightarrow> tc_default c | Some p \<Rightarrow> p)"

definition disclosure_of :: "tier_policy \<Rightarrow> inquiry \<Rightarrow> string" where
  "disclosure_of p t = (if t = HARD then tp_hard_disclosure p else tp_soft_disclosure p)"

section \<open>Customer signals\<close>

record credit_signals =
  cs_credit_score :: "int option"
  cs_credit_tier :: "string option"
  cs_annual_income_minor :: "int option"
  cs_income_confirmed_at :: "int option"
  cs_opened_at :: "int option"
  cs_last_limit_increase_at :: "int option"
  cs_balance_minor :: int
  cs_late_payment :: bool
  cs_product_name :: string

definition signals_ok :: "credit_signals \<Rightarrow> bool" where
  "signals_ok s =
     (pred_option (\<lambda>n. between 300 n 850) (cs_credit_score s)
     \<and> pred_option (\<lambda>t. t \<noteq> [] \<and> length t \<le> 50) (cs_credit_tier s)
     \<and> pred_option (\<lambda>n. between 0 n MAX_MINOR) (cs_annual_income_minor s)
     \<and> between (- MAX_MINOR) (cs_balance_minor s) MAX_MINOR \<and> product_text (cs_product_name s))"

definition signals_dump :: "credit_signals \<Rightarrow> pyval" where
  "signals_dump s =
     PDict [(''credit_score'', opt_int (cs_credit_score s)), (''credit_tier'', opt_str (cs_credit_tier s)),
       (''annual_income_minor'', opt_int (cs_annual_income_minor s)), (''income_confirmed_at'', opt_time (cs_income_confirmed_at s)),
       (''opened_at'', opt_time (cs_opened_at s)), (''last_limit_increase_at'', opt_time (cs_last_limit_increase_at s)),
       (''balance_minor'', PInt (cs_balance_minor s)), (''late_payment'', PBool (cs_late_payment s)),
       (''product_name'', PStr (cs_product_name s))]"

definition signals_ref :: "(pyval \<Rightarrow> string) \<Rightarrow> credit_signals \<Rightarrow> string" where
  "signals_ref digest s = digest (signals_dump s)"

section \<open>Gates and caps\<close>

record tier_caps =
  tk_gate :: "reason option"
  tk_retry_after :: "int option"
  tk_tenure_months :: int
  tk_current :: int
  tk_product_maximum :: int
  tk_headroom :: int
  tk_max_instantly_approvable :: int
  tk_soft_cap :: int
  tk_hard_cap :: int

definition floor_step :: "int \<Rightarrow> int \<Rightarrow> int" where
  "floor_step step v = (v div step) * step"

definition tenure_months :: "credit_signals \<Rightarrow> int \<Rightarrow> int" where
  "tenure_months s now = (case cs_opened_at s of None \<Rightarrow> 0 | Some opened \<Rightarrow> max 0 (((now - opened) div DAY) div 30))"

definition gate_of :: "credit_signals \<Rightarrow> tier_gates \<Rightarrow> int \<Rightarrow> reason option" where
  "gate_of s g now =
     (if (case cs_last_limit_increase_at s of None \<Rightarrow> False | Some previous \<Rightarrow> now - previous < tg_cooling_off_days g * DAY)
      then Some COOLING_OFF_ACTIVE
      else if cs_credit_score s = None \<or> cs_annual_income_minor s \<in> {None, Some 0}
        \<or> (case cs_income_confirmed_at s of None \<Rightarrow> True
           | Some confirmed \<Rightarrow> now - confirmed > tg_income_confirmation_max_age_days g * DAY)
      then Some INCOME_CONFIRMATION_REQUIRED
      else if the (cs_credit_score s) < tg_minimum_credit_score g \<or> tenure_months s now < tg_minimum_tenure_months g
      then Some CREDIT_PROFILE_INELIGIBLE
      else None)"

definition retry_after :: "credit_signals \<Rightarrow> tier_gates \<Rightarrow> int \<Rightarrow> int option" where
  "retry_after s g now =
     (if gate_of s g now = Some COOLING_OFF_ACTIVE
      then map_option (\<lambda>previous. (previous + tg_cooling_off_days g * DAY) div DAY) (cs_last_limit_increase_at s) else None)"

definition utilization :: "credit_signals \<Rightarrow> int \<Rightarrow> int" where
  "utilization s limit = (if limit > 0 then (cs_balance_minor s * 10000) div limit else 0)"

text \<open>The first band wide enough, and the last band reached.\<close>

definition utilization_factor :: "utilization_band list \<Rightarrow> int \<Rightarrow> int" where
  "utilization_factor bands u = (case List.find (\<lambda>b. u \<le> ub_max_bps b) bands of Some b \<Rightarrow> ub_factor_bps b | None \<Rightarrow> 0)"

definition tenure_factor :: "tenure_band list \<Rightarrow> int \<Rightarrow> int" where
  "tenure_factor bands months = fold (\<lambda>b t. if nb_min_months b \<le> months then nb_factor_bps b else t) bands 0"

definition tier_bps_of :: "credit_tier_bps \<Rightarrow> string option \<Rightarrow> int" where
  "tier_bps_of b tier =
     (case tier of None \<Rightarrow> 0
      | Some t \<Rightarrow> if t = ''PRIME_EXCELLENT'' then tb_prime_excellent b else if t = ''PRIME'' then tb_prime b
          else if t = ''NEAR_PRIME'' then tb_near_prime b else if t = ''SUBPRIME'' then tb_subprime b else 0)"

definition income_cap :: "checked_facts \<Rightarrow> credit_signals \<Rightarrow> tier_policy \<Rightarrow> int" where
  "income_cap f s p =
     (let income = (case cs_annual_income_minor s of None \<Rightarrow> 0 | Some n \<Rightarrow> n)
      in max (cf_current_limit_minor f)
           (min (cf_maximum_limit_minor f)
             (floor_step (tp_rounding_step_minor p) (income * tp_max_limit_to_income_bps p div 10000))))"

definition raw_headroom :: "checked_facts \<Rightarrow> credit_signals \<Rightarrow> tier_policy \<Rightarrow> int \<Rightarrow> int" where
  "raw_headroom f s p now =
     floor_step (tp_rounding_step_minor p)
       (cf_current_limit_minor f * tier_bps_of (tp_tier_bps p) (cs_credit_tier s)
        * utilization_factor (tp_utilization_bands p) (utilization s (cf_current_limit_minor f))
        * tenure_factor (tp_tenure_bands p) (tenure_months s now) div 10 ^ 12)"

definition tier_caps :: "checked_facts \<Rightarrow> credit_signals \<Rightarrow> tier_policy \<Rightarrow> int \<Rightarrow> tier_caps" where
  "tier_caps f s p now =
     (let L = cf_current_limit_minor f; P = cf_maximum_limit_minor f;
          gate = gate_of s (tp_gates p) now;
          cap = income_cap f s p;
          headroom = (if gate \<noteq> None \<or> cs_late_payment s then 0
                      else max 0 (min (raw_headroom f s p now) (cap - L)));
          instant = L + headroom;
          soft_cap = max instant (min P (min cap
            (floor_step (tp_rounding_step_minor p) (L * tp_max_multiple_of_current_bps p div 10000))));
          hard_cap = max soft_cap (min P cap)
      in \<lparr>tk_gate = gate, tk_retry_after = retry_after s (tp_gates p) now, tk_tenure_months = tenure_months s now,
          tk_current = L, tk_product_maximum = P, tk_headroom = headroom, tk_max_instantly_approvable = instant,
          tk_soft_cap = soft_cap, tk_hard_cap = hard_cap\<rparr>)"

section \<open>Checking a receipt\<close>

definition cites_current_disclosure :: "tier_config \<Rightarrow> limit_request \<Rightarrow> inquiry_consent \<Rightarrow> bool" where
  "cites_current_disclosure config q c =
     (qc_disclosure_version c = disclosure_of (policy_for config (cf_product_code (dr_facts q))) (qc_inquiry_type c))"

definition evidence_of :: "limit_request \<Rightarrow> string list" where
  "evidence_of q = dr_input_ref q # (case dr_inquiry_consent q of None \<Rightarrow> [] | Some c \<Rightarrow> [qc_consent_ref c])"

text \<open>The consent rules: the first that refuses.\<close>

definition consent_error :: "bank_decision \<Rightarrow> limit_request \<Rightarrow> tier_config option \<Rightarrow> string option" where
  "consent_error d q config =
     (let consent = dr_inquiry_consent q; held = map_option qc_inquiry_type consent in
      if INQUIRY_CONSENT_REQUIRED \<in> set (bd_reason_codes d) \<and> consent \<noteq> None \<and> held = bd_inquiry_type d
      then Some ''Decision requests consent the customer already gave.''
      else if INQUIRY_CONSENT_REQUIRED \<notin> set (bd_reason_codes d) \<and> consent \<noteq> None \<and> bd_inquiry_type d \<noteq> held
      then Some ''Inquiry consent does not authorize this inquiry type.''
      else if INQUIRY_CONSENT_REQUIRED \<notin> set (bd_reason_codes d) \<and> consent = None \<and> bd_inquiry_type d \<in> {Some SOFT, Some HARD}
      then Some ''A SOFT or HARD inquiry requires matching consent.''
      else (case consent of
          None \<Rightarrow> None
        | Some c \<Rightarrow>
            (case config of
               None \<Rightarrow> Some ''Consent cannot be checked without the tier configuration.''
             | Some tc \<Rightarrow>
                 if cites_current_disclosure tc q c then None
                 else Some ''Consent does not cite the current disclosure for its tier.'')))"

definition counteroffer_error :: "bank_decision \<Rightarrow> limit_request \<Rightarrow> string option" where
  "counteroffer_error d q =
     (let asked = dr_requested_limit q; facts = dr_facts q in
      case (bd_approved_limit d, bd_counteroffer d) of
        (Some offer, Some terms) \<Rightarrow>
          if dr_origin q \<noteq> None then Some ''A counteroffer request cannot itself be countered.''
          else if ct_origin_request_ref terms \<noteq> dr_request_ref q \<or> ct_requested_limit terms \<noteq> asked
          then Some ''Counteroffer is not linked to its originating request.''
          else if currency_code offer \<noteq> currency_code asked
            \<or> \<not> (cf_current_limit_minor facts < amount_minor offer \<and> amount_minor offer < amount_minor asked
                 \<and> amount_minor asked \<le> cf_maximum_limit_minor facts)
          then Some ''Counteroffer amount is outside the checked bounds.''
          else None
      | _ \<Rightarrow> Some ''A counteroffer requires its origin link, refusal facts and inquiry tier.'')"

definition facts_money :: "checked_facts \<Rightarrow> int \<Rightarrow> money" where
  "facts_money f n = \<lparr>amount_minor = n, currency_code = cf_currency_code f\<rparr>"

definition refusal_error :: "bank_decision \<Rightarrow> checked_facts \<Rightarrow> string option" where
  "refusal_error d f =
     (case bd_refusal d of
        None \<Rightarrow> None
      | Some r \<Rightarrow>
          if rf_current_limit r \<noteq> facts_money f (cf_current_limit_minor f)
            \<or> rf_product_maximum r \<noteq> facts_money f (cf_maximum_limit_minor f)
          then Some ''Refusal facts do not match the checked inputs.'' else None)"

definition validate_decision ::
    "pyval \<Rightarrow> limit_request \<Rightarrow> decision_policy \<Rightarrow> int \<Rightarrow> tier_config option \<Rightarrow> bank_decision res" where
  "validate_decision v q policy now config =
     bindR (decision_validate v) (\<lambda>d.
     if bd_provider_id d \<noteq> dp_provider_id policy \<or> bd_policy d \<noteq> policy
     then Inl (ValueError ''Decision provider/policy identity does not match.'')
     else if bd_request_ref d \<noteq> dr_request_ref q \<or> bd_scope_ref d \<noteq> dr_scope_ref q \<or> bd_input_ref d \<noteq> dr_input_ref q
     then Inl (ValueError ''Decision does not match the bank-owned request scope.'')
     else if bd_evidence_references d \<noteq> evidence_of q
     then Inl (ValueError ''Decision evidence is not bound to the checked inputs.'')
     else (case consent_error d q config of
       Some e \<Rightarrow> Inl (ValueError e)
     | None \<Rightarrow>
         if bd_outcome d = APPROVED \<and> bd_approved_limit d \<noteq> Some (dr_requested_limit q)
         then Inl (ValueError ''Counteroffers require a separate contract.'')
         else (case (if bd_outcome d = COUNTEROFFER then counteroffer_error d q else None) of
           Some e \<Rightarrow> Inl (ValueError e)
         | None \<Rightarrow>
             (case refusal_error d (dr_facts q) of
               Some e \<Rightarrow> Inl (ValueError e)
             | None \<Rightarrow>
                 if bd_evaluated_at d > now \<or> bd_expires_at d \<le> now
                 then Inl (ValueError ''Decision is future-dated or expired.'')
                 else if bd_expires_at d - bd_evaluated_at d > dp_approval_ttl_seconds policy * 1000000
                 then Inl (ValueError ''Decision exceeds its approved freshness contract.'')
                 else Inr d))))"

section \<open>The provider\<close>

datatype scenario = STANDARD | DECLINE | ASK_INFORMATION | REFER

definition scenario_text :: "scenario \<Rightarrow> string" where
  "scenario_text s = (case s of STANDARD \<Rightarrow> ''STANDARD'' | DECLINE \<Rightarrow> ''DECLINE'' | ASK_INFORMATION \<Rightarrow> ''NEEDS_INFORMATION''
     | REFER \<Rightarrow> ''REFER_FOR_REVIEW'')"

text \<open>The digest, \<open>uuid5\<close> of a name, and the two readings of the clock during one evaluation.\<close>

record decision_world =
  dw_digest :: "pyval \<Rightarrow> string"
  dw_uuid5 :: "string \<Rightarrow> string"
  dw_caps_at :: int
  dw_receipt_at :: int

record provider =
  pv_policy :: decision_policy
  pv_scenario :: scenario
  pv_tier_config :: tier_config

text \<open>What the tiered policy answers, before it is put into a receipt.\<close>

record refusal_answer =
  ra_reason :: reason
  ra_steps :: "next_step list"
  ra_retryable :: bool
  ra_retry_after :: "int option"

record answer =
  an_outcome :: outcome
  an_approved :: "int option"
  an_reasons :: "reason list"
  an_inquiry :: inquiry
  an_refusal :: "refusal_answer option"

definition approve :: "int \<Rightarrow> inquiry \<Rightarrow> answer" where
  "approve amount t = \<lparr>an_outcome = APPROVED, an_approved = Some amount, an_reasons = [APPROVED_BY_POLICY], an_inquiry = t,
     an_refusal = None\<rparr>"

definition refuse_with :: "outcome \<Rightarrow> reason \<Rightarrow> next_step list \<Rightarrow> inquiry \<Rightarrow> answer" where
  "refuse_with oc rc steps t = \<lparr>an_outcome = oc, an_approved = None, an_reasons = [rc], an_inquiry = t,
     an_refusal = Some \<lparr>ra_reason = rc, ra_steps = steps, ra_retryable = False, ra_retry_after = None\<rparr>\<rparr>"

definition refuse_for_now :: "int option \<Rightarrow> answer" where
  "refuse_for_now until = \<lparr>an_outcome = DECLINED, an_approved = None, an_reasons = [COOLING_OFF_ACTIVE], an_inquiry = NO_INQUIRY,
     an_refusal = Some \<lparr>ra_reason = COOLING_OFF_ACTIVE, ra_steps = [RETRY_AFTER_COOLING_OFF], ra_retryable = True,
       ra_retry_after = until\<rparr>\<rparr>"

definition counter :: "int \<Rightarrow> reason list \<Rightarrow> next_step list \<Rightarrow> inquiry \<Rightarrow> answer" where
  "counter offer rcs steps t = \<lparr>an_outcome = COUNTEROFFER, an_approved = Some offer, an_reasons = rcs, an_inquiry = t,
     an_refusal = Some \<lparr>ra_reason = last rcs, ra_steps = steps, ra_retryable = False, ra_retry_after = None\<rparr>\<rparr>"

definition SOFT_BUREAU_APPROVE_SCORE :: int where
  "SOFT_BUREAU_APPROVE_SCORE = 660"

definition HARD_BUREAU_APPROVE_SCORE :: int where
  "HARD_BUREAU_APPROVE_SCORE = 700"

definition HARD_BUREAU_COUNTER_SCORE :: int where
  "HARD_BUREAU_COUNTER_SCORE = 660"

definition tier_of :: "tier_caps \<Rightarrow> int \<Rightarrow> inquiry" where
  "tier_of caps amount = (if amount \<le> tk_soft_cap caps then SOFT else HARD)"

definition ask_consent :: "tier_caps \<Rightarrow> inquiry \<Rightarrow> answer" where
  "ask_consent caps t =
     refuse_with NEEDS_INFORMATION INQUIRY_CONSENT_REQUIRED
       (if t = SOFT
        then (if tk_max_instantly_approvable caps > tk_current caps then [ACCEPT_PREAPPROVED_HEADROOM] else [SPECIALIST_REVIEW])
        else (if tk_soft_cap caps > tk_current caps then [ACCEPT_SOFT_TIER_CAP] else [SPECIALIST_REVIEW]))
       t"

text \<open>The simulated bureau: what the consented inquiry leads to.\<close>

definition bureau_answer :: "tier_caps \<Rightarrow> int \<Rightarrow> int \<Rightarrow> inquiry \<Rightarrow> answer" where
  "bureau_answer caps score amount t =
     (if t = SOFT
      then (if score \<ge> SOFT_BUREAU_APPROVE_SCORE then approve amount SOFT
            else if tk_max_instantly_approvable caps > tk_current caps
            then counter (tk_max_instantly_approvable caps) [COUNTEROFFER_AVAILABLE] [ACCEPT_COUNTEROFFER, SPECIALIST_REVIEW] SOFT
            else refuse_with DECLINED BUREAU_DECLINED [SPECIALIST_REVIEW] SOFT)
      else if score \<ge> HARD_BUREAU_APPROVE_SCORE then approve amount HARD
      else if score \<ge> HARD_BUREAU_COUNTER_SCORE \<and> tk_soft_cap caps > tk_current caps
      then counter (tk_soft_cap caps) [COUNTEROFFER_AVAILABLE] [ACCEPT_COUNTEROFFER, SPECIALIST_REVIEW] HARD
      else refuse_with DECLINED BUREAU_DECLINED [SPECIALIST_REVIEW] HARD)"

definition tiered_answer :: "tier_caps \<Rightarrow> credit_signals \<Rightarrow> limit_request \<Rightarrow> answer" where
  "tiered_answer caps s q =
     (let amount = amount_minor (dr_requested_limit q); t = tier_of caps amount in
      if amount > tk_product_maximum caps
      then refuse_with REFER_FOR_REVIEW ABOVE_PRODUCT_MAXIMUM [PRODUCT_UPGRADE, SPECIALIST_REVIEW] NO_INQUIRY
      else if tk_gate caps = Some COOLING_OFF_ACTIVE then refuse_for_now (tk_retry_after caps)
      else if tk_gate caps = Some INCOME_CONFIRMATION_REQUIRED
      then refuse_with NEEDS_INFORMATION INCOME_CONFIRMATION_REQUIRED [PROVIDE_INCOME, SPECIALIST_REVIEW] NO_INQUIRY
      else if tk_gate caps = Some CREDIT_PROFILE_INELIGIBLE
      then refuse_with DECLINED CREDIT_PROFILE_INELIGIBLE [SPECIALIST_REVIEW] NO_INQUIRY
      else if dr_origin q \<noteq> None then approve amount NO_INQUIRY
      else if amount \<le> tk_max_instantly_approvable caps then approve amount NO_INQUIRY
      else if amount > tk_hard_cap caps
      then (if tk_hard_cap caps > tk_current caps
            then counter (tk_hard_cap caps) [COUNTEROFFER_AVAILABLE, INCOME_CAP_EXCEEDED]
                   [ACCEPT_COUNTEROFFER, PROVIDE_INCOME, SPECIALIST_REVIEW] NO_INQUIRY
            else refuse_with DECLINED LIMIT_CEILING_EXCEEDED [PROVIDE_INCOME, SPECIALIST_REVIEW] NO_INQUIRY)
      else if map_option qc_inquiry_type (dr_inquiry_consent q) \<noteq> Some t then ask_consent caps t
      else bureau_answer caps (the (cs_credit_score s)) amount t)"

text \<open>\<open>_decision\<close>: the receipt, refused by its own model when it is incoherent.\<close>

definition decision_name :: "decision_policy \<Rightarrow> limit_request \<Rightarrow> string" where
  "decision_name policy q = dp_digest policy @ '':'' @ dr_request_ref q
     @ (case dr_inquiry_consent q of None \<Rightarrow> [] | Some c \<Rightarrow> '':'' @ qc_consent_ref c)"

definition receipt ::
    "decision_world \<Rightarrow> decision_policy \<Rightarrow> limit_request \<Rightarrow> outcome \<Rightarrow> money option \<Rightarrow> reason list \<Rightarrow> inquiry option
     \<Rightarrow> counteroffer_terms option \<Rightarrow> refusal_facts option \<Rightarrow> bank_decision" where
  "receipt w policy q oc approved reasons t terms refusal =
     \<lparr>bd_decision_id = dw_uuid5 w (decision_name policy q), bd_provider_id = dp_provider_id policy, bd_outcome = oc,
      bd_approved_limit = approved, bd_reason_codes = reasons, bd_policy = policy, bd_evaluated_at = dw_receipt_at w,
      bd_expires_at = dw_receipt_at w + dp_approval_ttl_seconds policy * 1000000,
      bd_request_ref = dr_request_ref q, bd_scope_ref = dr_scope_ref q, bd_input_ref = dr_input_ref q,
      bd_evidence_references = evidence_of q, bd_inquiry_type = t, bd_counteroffer = terms, bd_refusal = refusal\<rparr>"

definition refusal_of :: "tier_caps \<Rightarrow> checked_facts \<Rightarrow> credit_signals \<Rightarrow> refusal_answer \<Rightarrow> refusal_facts" where
  "refusal_of caps f s r =
     \<lparr>rf_reason_code = ra_reason r, rf_retryable = ra_retryable r, rf_current_limit = facts_money f (tk_current caps),
      rf_product_maximum = facts_money f (tk_product_maximum caps),
      rf_max_instantly_approvable = facts_money f (tk_max_instantly_approvable caps),
      rf_soft_tier_cap = facts_money f (tk_soft_cap caps), rf_product_name = cs_product_name s, rf_next_steps = ra_steps r,
      rf_retry_after = ra_retry_after r\<rparr>"

definition issue_answer ::
    "decision_world \<Rightarrow> decision_policy \<Rightarrow> limit_request \<Rightarrow> tier_caps \<Rightarrow> credit_signals \<Rightarrow> answer \<Rightarrow> bank_decision res" where
  "issue_answer w policy q caps s a =
     (let f = dr_facts q; asked = dr_requested_limit q;
          approved = (if an_outcome a = APPROVED then Some asked else map_option (facts_money f) (an_approved a));
          terms = (if an_outcome a = COUNTEROFFER
                   then Some \<lparr>ct_origin_request_ref = dr_request_ref q, ct_requested_limit = asked\<rparr> else None)
      in bindR (case an_refusal a of None \<Rightarrow> Inr None
                | Some r \<Rightarrow> bindR (coherent refusal_ok (refusal_of caps f s r)) (\<lambda>x. Inr (Some x))) (\<lambda>refusal.
         coherent decision_ok (receipt w policy q (an_outcome a) approved (an_reasons a) (Some (an_inquiry a)) terms refusal)))"

definition evaluate_tiered :: "decision_world \<Rightarrow> provider \<Rightarrow> limit_request \<Rightarrow> credit_signals \<Rightarrow> bank_decision res" where
  "evaluate_tiered w pv q s =
     bindR (coherent signals_ok s) (\<lambda>s.
     if dr_signals_ref q \<noteq> Some (signals_ref (dw_digest w) s)
     then Inl (ValueError ''Customer signals are not bound to this request.'')
     else (let f = dr_facts q; caps = tier_caps f s (policy_for (pv_tier_config pv) (cf_product_code f)) (dw_caps_at w)
           in issue_answer w (pv_policy pv) q caps s (tiered_answer caps s q)))"

definition request_limit_facts :: "checked_facts \<Rightarrow> limit_facts" where
  "request_limit_facts f =
     \<lparr>lf_account_status = cf_account_status f, lf_currency_code = cf_currency_code f,
      lf_current_limit_minor = cf_current_limit_minor f, lf_product_active = Some (cf_product_active f),
      lf_minimum_limit_minor = Some (cf_minimum_limit_minor f), lf_maximum_limit_minor = Some (cf_maximum_limit_minor f)\<rparr>"

definition scenario_answer :: "scenario \<Rightarrow> outcome \<times> reason" where
  "scenario_answer s = (case s of STANDARD \<Rightarrow> (APPROVED, APPROVED_BY_POLICY) | DECLINE \<Rightarrow> (DECLINED, POLICY_DECLINED)
     | ASK_INFORMATION \<Rightarrow> (NEEDS_INFORMATION, INFORMATION_REQUIRED) | REFER \<Rightarrow> (REFER_FOR_REVIEW, REVIEW_REQUIRED))"

definition evaluate :: "decision_world \<Rightarrow> provider \<Rightarrow> limit_request \<Rightarrow> credit_signals option \<Rightarrow> bank_decision res" where
  "evaluate w pv q signals =
     (let asked = dr_requested_limit q in
      if evaluate_credit_limit (request_limit_facts (dr_facts q)) (amount_minor asked) (currency_code asked) \<noteq> None
      then Inl (ValueError ''Execution eligibility must be checked before decisioning.'')
      else (case (pv_scenario pv, signals) of
              (STANDARD, Some s) \<Rightarrow> evaluate_tiered w pv q s
            | _ \<Rightarrow>
                (let (oc, rc) = scenario_answer (pv_scenario pv)
                 in coherent decision_ok (receipt w (pv_policy pv) q oc (if oc = APPROVED then Some asked else None) [rc]
                      None None None))))"

section \<open>The operator's configuration\<close>

definition SCENARIOS :: "scenario list" where
  "SCENARIOS = [STANDARD, DECLINE, ASK_INFORMATION, REFER]"

definition gates_dump :: "tier_gates \<Rightarrow> pyval" where
  "gates_dump g = PDict [(''cooling_off_days'', PInt (tg_cooling_off_days g)),
     (''income_confirmation_max_age_days'', PInt (tg_income_confirmation_max_age_days g)),
     (''minimum_credit_score'', PInt (tg_minimum_credit_score g)), (''minimum_tenure_months'', PInt (tg_minimum_tenure_months g)),
     (''max_late_payments_12m'', PInt (tg_max_late_payments_12m g))]"

definition headroom_dump :: "tier_policy \<Rightarrow> pyval" where
  "headroom_dump p = PDict [
     (''tier_bps'', PDict [(''PRIME_EXCELLENT'', PInt (tb_prime_excellent (tp_tier_bps p))), (''PRIME'', PInt (tb_prime (tp_tier_bps p))),
        (''NEAR_PRIME'', PInt (tb_near_prime (tp_tier_bps p))), (''SUBPRIME'', PInt (tb_subprime (tp_tier_bps p)))]),
     (''utilization_bands'', PList (map (\<lambda>b. PDict [(''max_bps'', PInt (ub_max_bps b)), (''factor_bps'', PInt (ub_factor_bps b))])
        (tp_utilization_bands p))),
     (''tenure_bands'', PList (map (\<lambda>b. PDict [(''min_months'', PInt (nb_min_months b)), (''factor_bps'', PInt (nb_factor_bps b))])
        (tp_tenure_bands p))),
     (''max_limit_to_income_bps'', PInt (tp_max_limit_to_income_bps p))]"

definition tier_policy_dump :: "tier_policy \<Rightarrow> pyval" where
  "tier_policy_dump p = PDict [(''rounding_step_minor'', PInt (tp_rounding_step_minor p)), (''gates'', gates_dump (tp_gates p)),
     (''headroom'', headroom_dump p),
     (''soft_tier'', PDict [(''max_multiple_of_current_bps'', PInt (tp_max_multiple_of_current_bps p))]),
     (''disclosures'', PDict [(''SOFT'', PStr (tp_soft_disclosure p)), (''HARD'', PStr (tp_hard_disclosure p))])]"

definition tier_config_dump :: "tier_config \<Rightarrow> pyval" where
  "tier_config_dump c = PDict [(''schema_version'', PInt 1), (''policy_id'', PStr (tc_policy_id c)),
     (''policy_version'', PInt (tc_policy_version c)), (''default'', tier_policy_dump (tc_default c)),
     (''product_overrides'', PDict (map (\<lambda>(k, p). (k, tier_policy_dump p)) (tc_product_overrides c)))]"

text \<open>\<open>CREDIT_LIMIT_POLICY\<close> of \<^verbatim>\<open>services/credit_card.py\<close>, with the digest of its other fields.\<close>

definition credit_limit_policy_fields :: "(string \<times> pyval) list" where
  "credit_limit_policy_fields =
     [(''id'', PStr ''demo-credit-limit-increase''), (''revision'', PInt 2), (''currency_code'', PStr ''USD''),
      (''maximum_minor'', PInt MAX_MINOR), (''requires_active_account'', PBool True), (''requires_active_product'', PBool True),
      (''requires_strict_increase'', PBool True), (''requires_product_bounds'', PBool True),
      (''approval_semantics'', PStr ''DEMO_APPROVED_ON_CONFIRMATION'')]"

definition CREDIT_LIMIT_POLICY :: "(pyval \<Rightarrow> string) \<Rightarrow> pyval" where
  "CREDIT_LIMIT_POLICY digest =
     PDict (credit_limit_policy_fields @ [(''digest'', PStr (digest (PDict credit_limit_policy_fields)))])"

definition CONFIG_FIELDS :: "string list" where
  "CONFIG_FIELDS = [''schema_version'', ''provider_id'', ''policy_id'', ''policy_version'', ''approval_ttl_seconds'',
     ''default_scenario'', ''scenarios'']"

definition scenario_texts :: "string list" where
  "scenario_texts = map scenario_text SCENARIOS"

text \<open>The list of scenarios must be the closed operator contract.\<close>

definition scenarios_closed :: "(string \<times> pyval) list \<Rightarrow> bool" where
  "scenarios_closed config =
     ((case map_of config ''scenarios'' of
         Some (PList vs) \<Rightarrow> length vs = length SCENARIOS \<and> list_all (\<lambda>v. case v of PStr _ \<Rightarrow> True | _ \<Rightarrow> False) vs
           \<and> set vs = PStr ` set scenario_texts
       | _ \<Rightarrow> False)
     \<and> map_of config ''default_scenario'' \<in> Some ` PStr ` set scenario_texts)"

definition load_decisioning_provider ::
    "(pyval \<Rightarrow> string) \<Rightarrow> string option \<Rightarrow> string option \<Rightarrow> (string \<times> pyval) list \<Rightarrow> tier_config \<Rightarrow> provider res" where
  "load_decisioning_provider digest scenario environment config tiers =
     bindR (coherent tier_config_ok tiers) (\<lambda>tiers.
     if set (map fst config) \<noteq> set CONFIG_FIELDS \<or> map_of config ''schema_version'' \<noteq> Some (PInt 1)
     then Inl (ValueError ''Unsupported decisioning configuration.'')
     else if \<not> scenarios_closed config
     then Inl (ValueError ''Decisioning scenarios must be the closed operator contract.'')
     else
      (let text = (case map_of config ''default_scenario'' of Some (PStr s) \<Rightarrow> s | _ \<Rightarrow> []);
           selected = the (str_or scenario (str_or environment (Some text)))
       in case map_of (spelled scenario_text SCENARIOS) selected of
            None \<Rightarrow> Inl (ValueError ''Unknown operator decisioning scenario.'')
          | Some sc \<Rightarrow>
              bindR (policy_validate (PDict
                 [(''provider_id'', the (map_of config ''provider_id'')), (''policy_id'', the (map_of config ''policy_id'')),
                  (''version'', the (map_of config ''policy_version'')),
                  (''digest'', PStr (digest (PDict
                     [(''provider_id'', the (map_of config ''provider_id'')), (''policy_id'', the (map_of config ''policy_id'')),
                      (''version'', the (map_of config ''policy_version'')),
                      (''approval_ttl_seconds'', the (map_of config ''approval_ttl_seconds'')),
                      (''scenario'', PStr selected), (''execution_policy'', CREDIT_LIMIT_POLICY digest),
                      (''tier_policy'', PStr (digest (tier_config_dump tiers)))]))),
                  (''approval_ttl_seconds'', the (map_of config ''approval_ttl_seconds''))])) (\<lambda>policy.
                Inr \<lparr>pv_policy = policy, pv_scenario = sc, pv_tier_config = tiers\<rparr>)))"

section \<open>Caps\<close>

lemma floor_step_le: "0 < step \<Longrightarrow> floor_step step v \<le> v"
  unfolding floor_step_def using div_mult_mod_eq [of v step] pos_mod_sign [of step v] by linarith

lemma band_factor_range:
  "list_all (\<lambda>b. between 0 (ub_factor_bps b) 10000) us \<Longrightarrow> between 0 (utilization_factor us u) 10000"
  "list_all (\<lambda>b. between 0 (nb_factor_bps b) 10000) ts \<Longrightarrow> between 0 (tenure_factor ts m) 10000"
proof -
  show "between 0 (utilization_factor us u) 10000" if "list_all (\<lambda>b. between 0 (ub_factor_bps b) 10000) us"
    using that by (auto simp: utilization_factor_def between_def list_all_iff dest: find_Some_iff' split: option.split)
  have "between 0 (fold (\<lambda>b t. if nb_min_months b \<le> m then nb_factor_bps b else t) ts t) 10000"
    if "list_all (\<lambda>b. between 0 (nb_factor_bps b) 10000) ts" "between 0 t 10000" for t
    using that by (induction ts arbitrary: t) auto
  then show "between 0 (tenure_factor ts m) 10000" if "list_all (\<lambda>b. between 0 (nb_factor_bps b) 10000) ts"
    using that by (simp add: tenure_factor_def between_def)
qed

lemma raw_headroom_le:
  assumes p: "tier_policy_ok p" and L: "0 < cf_current_limit_minor f"
  shows "raw_headroom f s p now \<le> cf_current_limit_minor f"
proof -
  let ?L = "cf_current_limit_minor f" and ?t = "tier_bps_of (tp_tier_bps p) (cs_credit_tier s)"
  let ?u = "utilization_factor (tp_utilization_bands p) (utilization s ?L)"
  let ?m = "tenure_factor (tp_tenure_bands p) (tenure_months s now)"
  have u: "between 0 ?u 10000" and m: "between 0 ?m 10000" and t: "between 0 ?t 10000"
    using p by (auto simp: tier_policy_ok_def headroom_ok_def list_all_iff tier_bps_ok_def tier_bps_of_def between_def
      intro!: band_factor_range [unfolded between_def] split: option.split)
  have "?t * ?u \<le> 10000 * 10000" using t u by (intro mult_mono) (auto simp: between_def)
  then have "?t * ?u * ?m \<le> (10000 * 10000) * 10000" using t u m by (intro mult_mono) (auto simp: between_def)
  then have "?L * (?t * ?u * ?m) \<le> ?L * 10 ^ 12" using L by (intro mult_left_mono) auto
  then have "?L * ?t * ?u * ?m div 10 ^ 12 \<le> (?L * 10 ^ 12) div 10 ^ 12"
    by (intro zdiv_mono1) (simp_all add: mult.assoc)
  then have "?L * ?t * ?u * ?m div 10 ^ 12 \<le> ?L" by simp
  moreover have "0 < tp_rounding_step_minor p" using p by (simp add: tier_policy_ok_def between_def)
  ultimately show ?thesis unfolding raw_headroom_def using floor_step_le order_trans by blast
qed

text \<open>The order of the caps, from the facts alone.\<close>

definition caps_ordered :: "checked_facts \<Rightarrow> tier_caps \<Rightarrow> bool" where
  "caps_ordered f k = (tk_current k = cf_current_limit_minor f \<and> tk_product_maximum k = cf_maximum_limit_minor f
     \<and> tk_current k \<le> tk_max_instantly_approvable k \<and> tk_max_instantly_approvable k \<le> tk_soft_cap k
     \<and> tk_soft_cap k \<le> tk_hard_cap k \<and> tk_hard_cap k \<le> tk_product_maximum k)"

lemma income_cap_range:
  "cf_current_limit_minor f \<le> cf_maximum_limit_minor f \<Longrightarrow>
   cf_current_limit_minor f \<le> income_cap f s p \<and> income_cap f s p \<le> cf_maximum_limit_minor f"
  by (auto simp: income_cap_def Let_def)

lemma instant_cap:
  "tk_max_instantly_approvable (tier_caps f s p now) = cf_current_limit_minor f
     + (if gate_of s (tp_gates p) now \<noteq> None \<or> cs_late_payment s then 0
        else max 0 (min (raw_headroom f s p now) (income_cap f s p - cf_current_limit_minor f)))"
  by (simp only: tier_caps_def Let_def tier_caps.select_convs)

lemma caps_gate [simp]:
  "tk_gate (tier_caps f s p now) = gate_of s (tp_gates p) now"
  "tk_retry_after (tier_caps f s p now) = retry_after s (tp_gates p) now"
  "tk_current (tier_caps f s p now) = cf_current_limit_minor f"
  "tk_product_maximum (tier_caps f s p now) = cf_maximum_limit_minor f"
  by (simp_all only: tier_caps_def Let_def tier_caps.select_convs)

lemma tier_caps_order:
  assumes LP: "cf_current_limit_minor f \<le> cf_maximum_limit_minor f"
  shows "caps_ordered f (tier_caps f s p now)" "tk_hard_cap (tier_caps f s p now) = income_cap f s p"
proof -
  let ?k = "tier_caps f s p now" and ?C = "income_cap f s p" and ?P = "cf_maximum_limit_minor f" and ?L = "cf_current_limit_minor f"
  let ?i = "tk_max_instantly_approvable ?k"
  have soft: "tk_soft_cap ?k = max ?i (min ?P (min ?C
      (floor_step (tp_rounding_step_minor p) (?L * tp_max_multiple_of_current_bps p div 10000))))"
    and hard: "tk_hard_cap ?k = max (tk_soft_cap ?k) (min ?P ?C)"
    by (simp_all only: tier_caps_def Let_def tier_caps.select_convs)
  have C: "?L \<le> ?C" "?C \<le> ?P" using income_cap_range [OF LP] by auto
  have i: "?L \<le> ?i" "?i \<le> ?C" using C(1) unfolding instant_cap by (auto simp: min.coboundedI2)
  have s: "?i \<le> tk_soft_cap ?k" "tk_soft_cap ?k \<le> ?C" using i C unfolding soft by (auto simp: min.coboundedI1 min.coboundedI2)
  then show h: "tk_hard_cap ?k = ?C" using C by (simp add: hard)
  show "caps_ordered f ?k" using i s h C by (simp add: caps_ordered_def)
qed

lemma gate_reasons: "gate_of s g now \<in> {None, Some COOLING_OFF_ACTIVE, Some INCOME_CONFIRMATION_REQUIRED, Some CREDIT_PROFILE_INELIGIBLE}"
  by (simp add: gate_of_def)

lemma no_gate_facts:
  assumes "gate_of s g now = None"
  obtains score income confirmed where "cs_credit_score s = Some score" "cs_annual_income_minor s = Some income" "income \<noteq> 0"
    "cs_income_confirmed_at s = Some confirmed" "now - confirmed \<le> tg_income_confirmation_max_age_days g * DAY"
    "tg_minimum_credit_score g \<le> score" "tg_minimum_tenure_months g \<le> tenure_months s now"
    "pred_option (\<lambda>previous. tg_cooling_off_days g * DAY \<le> now - previous) (cs_last_limit_increase_at s)"
  using assms by (auto simp: gate_of_def not_less split: if_splits option.splits)

text \<open>Under a valid tier policy the caps are ordered as the refusal facts need them, the instant headroom at most
  doubles the limit, a gate or a late payment leaves no headroom, and the hard cap is the income cap: nothing above
  what the income supports (or the limit already held) can be reached, whatever inquiry is consented.\<close>

theorem caps_are_ordered:
  assumes "tier_policy_ok p" "0 < cf_current_limit_minor f" "cf_current_limit_minor f \<le> cf_maximum_limit_minor f"
  shows "let k = tier_caps f s p now in
      caps_ordered f k \<and> tk_max_instantly_approvable k \<le> 2 * cf_current_limit_minor f
    \<and> (tk_gate k \<noteq> None \<or> cs_late_payment s \<longrightarrow> tk_max_instantly_approvable k = cf_current_limit_minor f)
    \<and> tk_hard_cap k = income_cap f s p
    \<and> (cf_current_limit_minor f < tk_hard_cap k \<longrightarrow>
         tk_hard_cap k \<le> (case cs_annual_income_minor s of None \<Rightarrow> 0 | Some n \<Rightarrow> n) * tp_max_limit_to_income_bps p div 10000)"
proof -
  let ?k = "tier_caps f s p now" and ?L = "cf_current_limit_minor f"
  let ?i = "(case cs_annual_income_minor s of None \<Rightarrow> 0 | Some n \<Rightarrow> n) * tp_max_limit_to_income_bps p div 10000"
  have "max 0 (min (raw_headroom f s p now) (income_cap f s p - ?L)) \<le> ?L"
    using raw_headroom_le [OF assms(1,2), of s now] assms(2) by (intro max.boundedI min.coboundedI1) auto
  then have "tk_max_instantly_approvable ?k \<le> 2 * ?L"
    unfolding instant_cap using assms(2) by (simp split: if_split)
  moreover have "tk_gate ?k \<noteq> None \<or> cs_late_payment s \<longrightarrow> tk_max_instantly_approvable ?k = ?L"
    by (simp add: instant_cap)
  moreover have "income_cap f s p \<le> ?i" if "?L < income_cap f s p"
  proof -
    have "floor_step (tp_rounding_step_minor p) ?i \<le> ?i"
      using assms(1) by (intro floor_step_le) (simp add: tier_policy_ok_def between_def)
    with that show ?thesis by (auto simp: income_cap_def Let_def)
  qed
  ultimately show ?thesis using tier_caps_order [OF assms(3)] by (auto simp: Let_def)
qed

section \<open>Answers\<close>

lemmas answer_simps = approve_def refuse_with_def refuse_for_now_def counter_def

text \<open>The answers of the tiered policy, with what each one rests on.\<close>

lemma tiered_answer_cases:
  assumes a: "a = tiered_answer k s q" and k: "caps_ordered f k" and P: "amount_minor (dr_requested_limit q) \<le> cf_maximum_limit_minor f"
    and gate: "tk_gate k \<in> {None, Some COOLING_OFF_ACTIVE, Some INCOME_CONFIRMATION_REQUIRED, Some CREDIT_PROFILE_INELIGIBLE}"
  obtains
    (instant) t where "a = approve (amount_minor (dr_requested_limit q)) t" "tk_gate k = None" "t = NO_INQUIRY"
      "dr_origin q \<noteq> None \<or> amount_minor (dr_requested_limit q) \<le> tk_max_instantly_approvable k"
  | (bureau) t where "a = approve (amount_minor (dr_requested_limit q)) t" "tk_gate k = None" "dr_origin q = None"
      "t = tier_of k (amount_minor (dr_requested_limit q))" "map_option qc_inquiry_type (dr_inquiry_consent q) = Some t"
      "amount_minor (dr_requested_limit q) \<le> tk_hard_cap k"
      "(if t = SOFT then SOFT_BUREAU_APPROVE_SCORE else HARD_BUREAU_APPROVE_SCORE) \<le> the (cs_credit_score s)"
  | (later) "a = refuse_for_now (tk_retry_after k)" "tk_gate k = Some COOLING_OFF_ACTIVE"
  | (counter) offer rcs steps t where "a = counter offer rcs steps t" "dr_origin q = None" "cf_current_limit_minor f < offer"
      "offer < amount_minor (dr_requested_limit q)" "offer \<le> tk_hard_cap k"
      "rcs \<in> {[COUNTEROFFER_AVAILABLE], [COUNTEROFFER_AVAILABLE, INCOME_CAP_EXCEEDED]}"
      "steps \<in> {[ACCEPT_COUNTEROFFER, SPECIALIST_REVIEW], [ACCEPT_COUNTEROFFER, PROVIDE_INCOME, SPECIALIST_REVIEW]}"
      "t = NO_INQUIRY \<or> map_option qc_inquiry_type (dr_inquiry_consent q) = Some t"
  | (consent) t where "a = ask_consent k t" "t = tier_of k (amount_minor (dr_requested_limit q))"
      "map_option qc_inquiry_type (dr_inquiry_consent q) \<noteq> Some t" "dr_origin q = None"
  | (refuse_with) oc rc steps t where "a = refuse_with oc rc steps t" "oc \<in> {DECLINED, NEEDS_INFORMATION}" "rc \<in> set (outcome_reasons oc)"
      "rc \<notin> {INQUIRY_CONSENT_REQUIRED, COOLING_OFF_ACTIVE}"
      "steps \<in> {[PROVIDE_INCOME, SPECIALIST_REVIEW], [SPECIALIST_REVIEW]}"
      "t = NO_INQUIRY \<or> map_option qc_inquiry_type (dr_inquiry_consent q) = Some t"
proof -
  let ?n = "amount_minor (dr_requested_limit q)" let ?t = "tier_of k ?n"
  have max: "\<not> tk_product_maximum k < ?n" and L: "tk_current k = cf_current_limit_minor f"
    using P k by (auto simp: caps_ordered_def)
  show thesis
  proof (cases "tk_gate k")
    case (Some g)
    with gate a max later refuse_with show ?thesis
      by (auto simp: tiered_answer_def outcome_reasons_def)
  next
    case None
    note A = a [unfolded tiered_answer_def Let_def None, simplified]
    show ?thesis
    proof (cases "dr_origin q \<noteq> None \<or> ?n \<le> tk_max_instantly_approvable k")
      case True
      with A max None instant show ?thesis by (auto split: if_splits)
    next
      case no: False
      show ?thesis
      proof (cases "?n > tk_hard_cap k")
        case above: True
        show ?thesis
        proof (cases "tk_hard_cap k > tk_current k")
          case True
          with A max no above have "a = counter (tk_hard_cap k) [COUNTEROFFER_AVAILABLE, INCOME_CAP_EXCEEDED]
              [ACCEPT_COUNTEROFFER, PROVIDE_INCOME, SPECIALIST_REVIEW] NO_INQUIRY" by simp
          then show ?thesis using no True above L by (intro counter) auto
        next
          case False
          with A max no above have "a = refuse_with DECLINED LIMIT_CEILING_EXCEEDED [PROVIDE_INCOME, SPECIALIST_REVIEW] NO_INQUIRY"
            by simp
          then show ?thesis by (intro refuse_with) (auto simp: outcome_reasons_def)
        qed
      next
        case in_cap: False
        show ?thesis
        proof (cases "map_option qc_inquiry_type (dr_inquiry_consent q) = Some ?t")
          case False
          with A max no in_cap consent show ?thesis by (auto split: if_splits)
        next
          case True
          with A max no in_cap have b: "a = bureau_answer k (the (cs_credit_score s)) ?n ?t" by auto
          have t: "?t = SOFT \<longleftrightarrow> ?n \<le> tk_soft_cap k" by (simp add: tier_of_def)
          show ?thesis
          proof (cases "(if ?t = SOFT then SOFT_BUREAU_APPROVE_SCORE else HARD_BUREAU_APPROVE_SCORE) \<le> the (cs_credit_score s)")
            case pass: True
            with b have "a = approve ?n ?t" by (auto simp: bureau_answer_def tier_of_def split: if_splits)
            then show ?thesis using None no True in_cap pass by (intro bureau) auto
          next
            case fail: False
            let ?offer = "if ?t = SOFT then tk_max_instantly_approvable k else tk_soft_cap k"
            show ?thesis
            proof (cases "a = counter ?offer [COUNTEROFFER_AVAILABLE] [ACCEPT_COUNTEROFFER, SPECIALIST_REVIEW] ?t \<and> tk_current k < ?offer")
              case offered: True
              then show ?thesis using no k L t True
                by (intro counter [of ?offer _ _ ?t]) (auto simp: caps_ordered_def)
            next
              case False
              with b fail have "a = refuse_with DECLINED BUREAU_DECLINED [SPECIALIST_REVIEW] ?t"
                by (auto simp: bureau_answer_def tier_of_def split: if_splits)
              then show ?thesis using True by (intro refuse_with) (auto simp: outcome_reasons_def)
            qed
          qed
        qed
      qed
    qed
  qed
qed

section \<open>Receipts\<close>

lemma evidence_ok: "request_ok q \<Longrightarrow> list_all hex64 (evidence_of q) \<and> evidence_of q \<noteq> [] \<and> length (evidence_of q) \<le> 4"
  by (auto simp: evidence_of_def request_ok_def consent_ok_def split: option.split)

lemma receipt_fields [simp]:
  "bd_outcome (receipt w p q oc a rs t c r) = oc" "bd_approved_limit (receipt w p q oc a rs t c r) = a"
  "bd_reason_codes (receipt w p q oc a rs t c r) = rs" "bd_inquiry_type (receipt w p q oc a rs t c r) = t"
  "bd_counteroffer (receipt w p q oc a rs t c r) = c" "bd_refusal (receipt w p q oc a rs t c r) = r"
  "bd_policy (receipt w p q oc a rs t c r) = p" "bd_provider_id (receipt w p q oc a rs t c r) = dp_provider_id p"
  "bd_request_ref (receipt w p q oc a rs t c r) = dr_request_ref q" "bd_scope_ref (receipt w p q oc a rs t c r) = dr_scope_ref q"
  "bd_input_ref (receipt w p q oc a rs t c r) = dr_input_ref q" "bd_evidence_references (receipt w p q oc a rs t c r) = evidence_of q"
  "bd_evaluated_at (receipt w p q oc a rs t c r) = dw_receipt_at w"
  "bd_expires_at (receipt w p q oc a rs t c r) = dw_receipt_at w + dp_approval_ttl_seconds p * 1000000"
  "bd_decision_id (receipt w p q oc a rs t c r) = dw_uuid5 w (decision_name p q)"
  by (simp_all add: receipt_def)

text \<open>What every receipt of a provider has: identity, scope, evidence and freshness come from the request and the policy.\<close>

lemma receipt_ok:
  assumes "policy_ok p" "request_ok q" "ident_text 128 (dw_uuid5 w (decision_name p q))"
    and "pred_option money_ok a" "rs \<noteq> []" "length rs \<le> 4" "pred_option terms_ok c" "pred_option refusal_ok r"
    and "coherent_outcome (receipt w p q oc a rs t c r)"
  shows "decision_ok (receipt w p q oc a rs t c r)"
  using assms evidence_ok [OF assms(2)] by (simp add: decision_ok_def policy_ok_def request_ok_def)

lemma eligible:
  assumes "evaluate_credit_limit (request_limit_facts f) n cur = None"
  shows "cf_currency_code f = ''USD''" "cur = ''USD''" "0 < cf_current_limit_minor f" "cf_current_limit_minor f < n"
    "n \<le> cf_maximum_limit_minor f" "cf_maximum_limit_minor f \<le> MAX_MINOR"
  using assms by (auto simp: evaluate_credit_limit_def request_limit_facts_def split: if_splits option.splits bool.splits)

lemma facts_money_ok:
  "cf_currency_code f = ''USD'' \<Longrightarrow> 0 \<le> n \<Longrightarrow> n \<le> MAX_MINOR \<Longrightarrow> money_ok (facts_money f n)"
  by (simp add: facts_money_def money_ok_def CURRENCY_EXPONENTS_def)

lemma refusal_of_ok:
  assumes k: "caps_ordered f k" and f: "cf_currency_code f = ''USD''" "0 < cf_current_limit_minor f" "cf_maximum_limit_minor f \<le> MAX_MINOR"
    and s: "signals_ok s" "py_strip (cs_product_name s) = cs_product_name s"
    and r: "ra_steps r \<noteq> []" "length (ra_steps r) \<le> 4" "distinct (ra_steps r)"
      "(RETRY_AFTER_COOLING_OFF \<in> set (ra_steps r)) = (ra_retry_after r \<noteq> None)"
      "RETRY_AFTER_COOLING_OFF \<in> set (ra_steps r) \<longrightarrow> ra_retryable r"
  shows "refusal_ok (refusal_of k f s r)"
proof -
  have o: "0 < tk_current k" "tk_current k \<le> tk_max_instantly_approvable k" "tk_max_instantly_approvable k \<le> tk_soft_cap k"
    "tk_soft_cap k \<le> tk_product_maximum k" "tk_product_maximum k \<le> MAX_MINOR"
    using k f(2,3) by (auto simp: caps_ordered_def)
  have m: "money_ok (facts_money f (tk_current k))" "money_ok (facts_money f (tk_product_maximum k))"
    "money_ok (facts_money f (tk_max_instantly_approvable k))" "money_ok (facts_money f (tk_soft_cap k))"
    using o by (auto intro!: facts_money_ok [OF f(1)])
  from m o s r show ?thesis
    by (simp add: refusal_ok_def refusal_of_def refusal_limits_def facts_money_def signals_ok_def Let_def)
qed

definition bound_decision :: "bank_decision \<Rightarrow> limit_request \<Rightarrow> decision_policy \<Rightarrow> int \<Rightarrow> bool" where
  "bound_decision d q p t0 = (bd_provider_id d = dp_provider_id p \<and> bd_policy d = p \<and> bd_request_ref d = dr_request_ref q
     \<and> bd_scope_ref d = dr_scope_ref q \<and> bd_input_ref d = dr_input_ref q \<and> bd_evidence_references d = evidence_of q
     \<and> bd_evaluated_at d = t0 \<and> bd_expires_at d = t0 + dp_approval_ttl_seconds p * 1000000)"

lemma receipt_bound [simp]: "bound_decision (receipt w p q oc a rs t c r) q p (dw_receipt_at w)"
  by (simp add: bound_decision_def)

text \<open>The setting in which the provider answers: valid documents, an eligible request, valid signals.\<close>

definition answerable :: "decision_world \<Rightarrow> decision_policy \<Rightarrow> limit_request \<Rightarrow> credit_signals \<Rightarrow> tier_caps \<Rightarrow> bool" where
  "answerable w p q s k =
     (policy_ok p \<and> request_ok q \<and> ident_text 128 (dw_uuid5 w (decision_name p q))
     \<and> signals_ok s \<and> py_strip (cs_product_name s) = cs_product_name s
     \<and> evaluate_credit_limit (request_limit_facts (dr_facts q)) (amount_minor (dr_requested_limit q))
         (currency_code (dr_requested_limit q)) = None
     \<and> caps_ordered (dr_facts q) k)"

lemma answerableD:
  assumes "answerable w p q s k"
  shows "policy_ok p" "request_ok q" "ident_text 128 (dw_uuid5 w (decision_name p q))" "signals_ok s"
    "py_strip (cs_product_name s) = cs_product_name s" "caps_ordered (dr_facts q) k" "money_ok (dr_requested_limit q)"
    "0 < dp_approval_ttl_seconds p" "cf_currency_code (dr_facts q) = ''USD''" "0 < cf_current_limit_minor (dr_facts q)"
    "cf_current_limit_minor (dr_facts q) < amount_minor (dr_requested_limit q)"
    "amount_minor (dr_requested_limit q) \<le> cf_maximum_limit_minor (dr_facts q)" "cf_maximum_limit_minor (dr_facts q) \<le> MAX_MINOR"
    "currency_code (dr_requested_limit q) = ''USD''"
  using assms eligible [of "dr_facts q" "amount_minor (dr_requested_limit q)" "currency_code (dr_requested_limit q)"]
  by (auto simp: answerable_def policy_ok_def request_ok_def)

lemma refusal_fits:
  assumes "answerable w p q s k" and "ra_steps r \<noteq> []" "length (ra_steps r) \<le> 4" "distinct (ra_steps r)"
    "(RETRY_AFTER_COOLING_OFF \<in> set (ra_steps r)) = (ra_retry_after r \<noteq> None)"
    "RETRY_AFTER_COOLING_OFF \<in> set (ra_steps r) \<longrightarrow> ra_retryable r"
  shows "refusal_ok (refusal_of k (dr_facts q) s r)"
  using answerableD [OF assms(1)] assms(2-) by (intro refusal_of_ok)

lemma issue_approve:
  assumes A: "answerable w p q s k"
  shows "issue_answer w p q k s (approve n t) =
    Inr (receipt w p q APPROVED (Some (dr_requested_limit q)) [APPROVED_BY_POLICY] (Some t) None None)"
proof -
  have "decision_ok (receipt w p q APPROVED (Some (dr_requested_limit q)) [APPROVED_BY_POLICY] (Some t) None None)"
    using answerableD [OF A] by (intro receipt_ok) (simp_all add: coherent_outcome_def outcome_reasons_def)
  then show ?thesis by (simp add: issue_answer_def approve_def coherent_def Let_def del: bindR_Inr_iff)
qed

lemma issue_refusal:
  assumes A: "answerable w p q s k"
    and a: "a = \<lparr>an_outcome = oc, an_approved = None, an_reasons = [rc], an_inquiry = t, an_refusal = Some r\<rparr>"
    and oc: "oc \<notin> {APPROVED, COUNTEROFFER}" "rc \<in> set (outcome_reasons oc)" "rc = INQUIRY_CONSENT_REQUIRED \<longrightarrow> t \<in> {SOFT, HARD}"
    and r: "ra_reason r = rc" "refusal_ok (refusal_of k (dr_facts q) s r)" "ACCEPT_COUNTEROFFER \<notin> set (ra_steps r)"
  shows "issue_answer w p q k s a = Inr (receipt w p q oc None [rc] (Some t) None (Some (refusal_of k (dr_facts q) s r)))"
proof -
  have "decision_ok (receipt w p q oc None [rc] (Some t) None (Some (refusal_of k (dr_facts q) s r)))"
    using oc r answerableD [OF A] by (intro receipt_ok) (auto simp: coherent_outcome_def refusal_of_def)
  then show ?thesis using r(2) oc(1) by (simp add: a issue_answer_def coherent_def Let_def del: bindR_Inr_iff)
qed

lemma issue_counter:
  assumes A: "answerable w p q s k" and offer: "cf_current_limit_minor (dr_facts q) < offer" "offer < amount_minor (dr_requested_limit q)"
    and rcs: "rcs \<in> {[COUNTEROFFER_AVAILABLE], [COUNTEROFFER_AVAILABLE, INCOME_CAP_EXCEEDED]}"
    and steps: "steps \<in> {[ACCEPT_COUNTEROFFER, SPECIALIST_REVIEW], [ACCEPT_COUNTEROFFER, PROVIDE_INCOME, SPECIALIST_REVIEW]}"
  shows "\<exists>r. issue_answer w p q k s (counter offer rcs steps t) =
      Inr (receipt w p q COUNTEROFFER (Some (facts_money (dr_facts q) offer)) rcs (Some t)
        (Some \<lparr>ct_origin_request_ref = dr_request_ref q, ct_requested_limit = dr_requested_limit q\<rparr>)
        (Some (refusal_of k (dr_facts q) s r)))"
proof
  let ?r = "\<lparr>ra_reason = last rcs, ra_steps = steps, ra_retryable = False, ra_retry_after = None\<rparr>"
  let ?d = "receipt w p q COUNTEROFFER (Some (facts_money (dr_facts q) offer)) rcs (Some t)
        (Some \<lparr>ct_origin_request_ref = dr_request_ref q, ct_requested_limit = dr_requested_limit q\<rparr>)
        (Some (refusal_of k (dr_facts q) s ?r))"
  have r: "refusal_ok (refusal_of k (dr_facts q) s ?r)" using steps by (intro refusal_fits [OF A]) auto
  have m: "money_ok (facts_money (dr_facts q) offer)" using answerableD [OF A] offer by (intro facts_money_ok) auto
  have c: "terms_ok \<lparr>ct_origin_request_ref = dr_request_ref q, ct_requested_limit = dr_requested_limit q\<rparr>"
    using answerableD [OF A] by (simp add: terms_ok_def request_ok_def)
  have "decision_ok ?d"
    using rcs steps r m c answerableD [OF A] by (intro receipt_ok) (auto simp: coherent_outcome_def refusal_of_def outcome_reasons_def)
  then show "issue_answer w p q k s (counter offer rcs steps t) = Inr ?d"
    using r by (simp add: counter_def issue_answer_def coherent_def Let_def del: bindR_Inr_iff)
qed

text \<open>What a receipt of the tiered policy rests on.\<close>

definition held_tier :: "limit_request \<Rightarrow> inquiry option" where
  "held_tier q = map_option qc_inquiry_type (dr_inquiry_consent q)"

definition approval_basis :: "limit_request \<Rightarrow> tier_caps \<Rightarrow> credit_signals \<Rightarrow> inquiry option \<Rightarrow> bool" where
  "approval_basis q k s t =
     (let n = amount_minor (dr_requested_limit q) in tk_gate k = None \<and>
      (t = Some NO_INQUIRY \<and> (dr_origin q \<noteq> None \<or> n \<le> tk_max_instantly_approvable k)
       \<or> t = Some (tier_of k n) \<and> held_tier q = t \<and> dr_origin q = None \<and> n \<le> tk_hard_cap k
         \<and> (if t = Some SOFT then SOFT_BUREAU_APPROVE_SCORE else HARD_BUREAU_APPROVE_SCORE) \<le> the (cs_credit_score s)))"

definition offer_basis :: "limit_request \<Rightarrow> tier_caps \<Rightarrow> bank_decision \<Rightarrow> bool" where
  "offer_basis q k d =
     (dr_origin q = None \<and> (\<exists>offer. bd_approved_limit d = Some (facts_money (dr_facts q) offer)
        \<and> cf_current_limit_minor (dr_facts q) < offer \<and> offer < amount_minor (dr_requested_limit q) \<and> offer \<le> tk_hard_cap k)
      \<and> bd_counteroffer d = Some \<lparr>ct_origin_request_ref = dr_request_ref q, ct_requested_limit = dr_requested_limit q\<rparr>)"

definition receipt_contract :: "limit_request \<Rightarrow> tier_caps \<Rightarrow> credit_signals \<Rightarrow> bank_decision \<Rightarrow> bool" where
  "receipt_contract q k s d =
     ((bd_outcome d = APPROVED \<longrightarrow> bd_approved_limit d = Some (dr_requested_limit q) \<and> approval_basis q k s (bd_inquiry_type d))
     \<and> (bd_outcome d = COUNTEROFFER \<longrightarrow> offer_basis q k d)
     \<and> (INQUIRY_CONSENT_REQUIRED \<in> set (bd_reason_codes d) \<longrightarrow> held_tier q \<noteq> bd_inquiry_type d)
     \<and> (INQUIRY_CONSENT_REQUIRED \<notin> set (bd_reason_codes d) \<longrightarrow> bd_inquiry_type d \<in> {Some NO_INQUIRY, held_tier q})
     \<and> refusal_error d (dr_facts q) = None)"

lemma refusal_matches:
  "caps_ordered f k \<Longrightarrow> refusal_error (receipt w p q oc a rs t c (Some (refusal_of k f s r))) f = None"
  "refusal_error (receipt w p q oc a rs t c None) f = None"
  by (simp_all add: refusal_error_def refusal_of_def caps_ordered_def)

lemma tiered_receipt:
  assumes A: "answerable w p q s k"
    and gate: "tk_gate k \<in> {None, Some COOLING_OFF_ACTIVE, Some INCOME_CONFIRMATION_REQUIRED, Some CREDIT_PROFILE_INELIGIBLE}"
    and retry: "tk_gate k = Some COOLING_OFF_ACTIVE \<longrightarrow> tk_retry_after k \<noteq> None"
  shows "\<exists>d. issue_answer w p q k s (tiered_answer k s q) = Inr d \<and> receipt_contract q k s d
    \<and> bound_decision d q p (dw_receipt_at w)"
proof -
  note D = answerableD [OF A]
  obtain a where a: "a = tiered_answer k s q" by simp
  have "\<exists>d. issue_answer w p q k s a = Inr d \<and> receipt_contract q k s d \<and> bound_decision d q p (dw_receipt_at w)"
    using a D(6,12) gate
  proof (cases rule: tiered_answer_cases)
    case (instant t)
    then show ?thesis
      using issue_approve [OF A] by (auto simp: receipt_contract_def approval_basis_def refusal_matches)
  next
    case (bureau t)
    then show ?thesis
      using issue_approve [OF A] by (auto simp: receipt_contract_def approval_basis_def held_tier_def refusal_matches)
  next
    case later
    have "refusal_ok (refusal_of k (dr_facts q) s \<lparr>ra_reason = COOLING_OFF_ACTIVE, ra_steps = [RETRY_AFTER_COOLING_OFF],
        ra_retryable = True, ra_retry_after = tk_retry_after k\<rparr>)"
      using retry later(2) by (intro refusal_fits [OF A]) auto
    with later show ?thesis
      by (subst issue_refusal [OF A]) (auto simp: refuse_for_now_def outcome_reasons_def receipt_contract_def refusal_matches D(6))
  next
    case (counter offer rcs steps t)
    with issue_counter [OF A, of offer rcs steps t] show ?thesis
      by (fastforce simp: receipt_contract_def offer_basis_def held_tier_def refusal_matches D(6))
  next
    case (consent t)
    let ?r = "\<lparr>ra_reason = INQUIRY_CONSENT_REQUIRED, ra_steps = the (map_option ra_steps (an_refusal a)), ra_retryable = False,
        ra_retry_after = None\<rparr>"
    have steps: "ra_steps ?r \<in> {[ACCEPT_PREAPPROVED_HEADROOM], [SPECIALIST_REVIEW], [ACCEPT_SOFT_TIER_CAP]}"
      by (auto simp: consent(1) ask_consent_def refuse_with_def)
    then have "refusal_ok (refusal_of k (dr_facts q) s ?r)" by (intro refusal_fits [OF A]) auto
    moreover have "t \<in> {SOFT, HARD}" by (simp add: consent(2) tier_of_def)
    moreover have "a = \<lparr>an_outcome = NEEDS_INFORMATION, an_approved = None, an_reasons = [INQUIRY_CONSENT_REQUIRED],
        an_inquiry = t, an_refusal = Some ?r\<rparr>" by (simp add: consent(1) ask_consent_def refuse_with_def)
    ultimately have "issue_answer w p q k s a = Inr (receipt w p q NEEDS_INFORMATION None [INQUIRY_CONSENT_REQUIRED] (Some t) None
        (Some (refusal_of k (dr_facts q) s ?r)))"
      using steps by (intro issue_refusal [OF A]) (auto simp: outcome_reasons_def)
    with consent show ?thesis
      by (simp add: receipt_contract_def held_tier_def refusal_matches D(6))
  next
    case (refuse_with oc rc steps t)
    let ?r = "\<lparr>ra_reason = rc, ra_steps = steps, ra_retryable = False, ra_retry_after = None\<rparr>"
    have "refusal_ok (refusal_of k (dr_facts q) s ?r)" using refuse_with(5) by (intro refusal_fits [OF A]) auto
    then have "issue_answer w p q k s a = Inr (receipt w p q oc None [rc] (Some t) None (Some (refusal_of k (dr_facts q) s ?r)))"
      using refuse_with by (intro issue_refusal [OF A]) (auto simp: refuse_with_def)
    with refuse_with show ?thesis by (auto simp: receipt_contract_def held_tier_def refusal_matches D(6))
  qed
  with a show ?thesis by simp
qed

lemma issue_answer_ok: "issue_answer w p q k s a = Inr d \<Longrightarrow> decision_ok d"
  by (auto simp: issue_answer_def Let_def)

text \<open>What the checks of \<open>validate_decision\<close> come to on a receipt that is bound to its request.\<close>

definition consent_settled :: "bank_decision \<Rightarrow> limit_request \<Rightarrow> tier_config \<Rightarrow> bool" where
  "consent_settled d q config =
     (case dr_inquiry_consent q of
        None \<Rightarrow> True
      | Some c \<Rightarrow> cites_current_disclosure config q c
          \<and> (INQUIRY_CONSENT_REQUIRED \<in> set (bd_reason_codes d) \<or> bd_inquiry_type d = Some (qc_inquiry_type c)))"

lemma consent_error_None:
  assumes "receipt_contract q k s d"
  shows "consent_error d q (Some config) = None \<longleftrightarrow> consent_settled d q config"
  using assms by (auto simp: consent_error_def consent_settled_def receipt_contract_def held_tier_def Let_def split: option.split)

lemma counteroffer_error_None:
  assumes "receipt_contract q k s d" "answerable w p q s k" "bd_outcome d = COUNTEROFFER"
  shows "counteroffer_error d q = None"
  using assms answerableD [OF assms(2)]
  by (auto simp: receipt_contract_def offer_basis_def counteroffer_error_def facts_money_def Let_def)

lemma bound_receipt_validates:
  assumes "decision_ok d" "receipt_contract q k s d" "bound_decision d q p t0" "answerable w p q s k"
    and "t0 \<le> now" "now < t0 + dp_approval_ttl_seconds p * 1000000"
  shows "validate_decision (decision_dump d) q p now (Some config) = Inr d \<longleftrightarrow> consent_settled d q config"
proof -
  have "bd_outcome d = APPROVED \<longrightarrow> bd_approved_limit d = Some (dr_requested_limit q)" "refusal_error d (dr_facts q) = None"
    using assms(2) by (auto simp: receipt_contract_def)
  moreover have "(if bd_outcome d = COUNTEROFFER then counteroffer_error d q else None) = None"
    using counteroffer_error_None [OF assms(2,4)] by simp
  ultimately show ?thesis
    using assms(3,5,6) consent_error_None [OF assms(2), of config]
    by (auto simp: validate_decision_def decision_wire.validate_dump [OF assms(1)] bound_decision_def split: option.split
        simp del: bindR_Inr_iff)
qed

lemma tiered_evaluation:
  assumes valid: "policy_ok (pv_policy pv)" "request_ok q" "\<forall>name. ident_text 128 (dw_uuid5 w name)"
    and signals: "signals_ok s" "py_strip (cs_product_name s) = cs_product_name s" "dr_signals_ref q = Some (signals_ref (dw_digest w) s)"
    and passes: "evaluate_credit_limit (request_limit_facts (dr_facts q)) (amount_minor (dr_requested_limit q))
      (currency_code (dr_requested_limit q)) = None"
    and scenario: "pv_scenario pv = STANDARD"
  shows "\<exists>d. evaluate w pv q (Some s) = Inr d \<and> decision_ok d \<and> bound_decision d q (pv_policy pv) (dw_receipt_at w)
    \<and> receipt_contract q (tier_caps (dr_facts q) s (policy_for (pv_tier_config pv) (cf_product_code (dr_facts q))) (dw_caps_at w)) s d"
    and "answerable w (pv_policy pv) q s
      (tier_caps (dr_facts q) s (policy_for (pv_tier_config pv) (cf_product_code (dr_facts q))) (dw_caps_at w))"
proof -
  let ?k = "tier_caps (dr_facts q) s (policy_for (pv_tier_config pv) (cf_product_code (dr_facts q))) (dw_caps_at w)"
  have LP: "cf_current_limit_minor (dr_facts q) \<le> cf_maximum_limit_minor (dr_facts q)"
    using eligible [OF passes] by simp
  show A: "answerable w (pv_policy pv) q s ?k"
    using valid signals(1,2) passes tier_caps_order(1) [OF LP] by (simp add: answerable_def)
  have "gate_of s g now = Some COOLING_OFF_ACTIVE \<longrightarrow> retry_after s g now \<noteq> None" for g now
    by (auto simp: retry_after_def gate_of_def split: if_splits option.splits)
  then obtain d where d: "issue_answer w (pv_policy pv) q ?k s (tiered_answer ?k s q) = Inr d"
    "receipt_contract q ?k s d" "bound_decision d q (pv_policy pv) (dw_receipt_at w)"
    using tiered_receipt [OF A] gate_reasons [of s] by auto
  have "evaluate w pv q (Some s) = Inr d"
    using d(1) passes scenario signals by (simp add: evaluate_def evaluate_tiered_def coherent_def Let_def del: bindR_Inr_iff)
  then show "\<exists>d. evaluate w pv q (Some s) = Inr d \<and> decision_ok d \<and> bound_decision d q (pv_policy pv) (dw_receipt_at w)
    \<and> receipt_contract q ?k s d"
    using d issue_answer_ok by blast
qed

text \<open>C22. On a valid, eligible request with its customer's signals the provider always answers, with a well-formed
  receipt bound to the request; every reader of its wire form accepts it while it is fresh, unless the request holds a
  consent the answer neither uses nor asks to replace (or a consent that cites an outdated disclosure).\<close>

theorem provider_receipt_accepted:
  assumes "policy_ok (pv_policy pv)" "request_ok q" "\<forall>name. ident_text 128 (dw_uuid5 w name)"
    and "signals_ok s" "py_strip (cs_product_name s) = cs_product_name s" "dr_signals_ref q = Some (signals_ref (dw_digest w) s)"
    and "evaluate_credit_limit (request_limit_facts (dr_facts q)) (amount_minor (dr_requested_limit q))
      (currency_code (dr_requested_limit q)) = None" and "pv_scenario pv = STANDARD"
  shows "\<exists>d. evaluate w pv q (Some s) = Inr d \<and> decision_ok d
    \<and> (\<forall>now config. dw_receipt_at w \<le> now \<and> now < dw_receipt_at w + dp_approval_ttl_seconds (pv_policy pv) * 1000000 \<longrightarrow>
         (validate_decision (decision_dump d) q (pv_policy pv) now (Some config) = Inr d \<longleftrightarrow> consent_settled d q config))"
proof -
  from tiered_evaluation [OF assms] obtain d k where d: "evaluate w pv q (Some s) = Inr d" "decision_ok d"
    "bound_decision d q (pv_policy pv) (dw_receipt_at w)" "receipt_contract q k s d" "answerable w (pv_policy pv) q s k"
    by blast
  from bound_receipt_validates [OF d(2,4,3,5)] d(1,2) show ?thesis by blast
qed

text \<open>C23. The provider approves exactly what was asked and only with a basis: no gate is active, and either the amount is
  within the instant headroom, or it is a counteroffer's follow-up, or the customer consented to the very inquiry the
  amount needs, the simulated score reaches the threshold of that inquiry and the amount is within the income cap.  A
  counteroffer lies strictly between the current limit and the request and within the income cap.\<close>

theorem approvals_have_a_basis:
  assumes "policy_ok (pv_policy pv)" "request_ok q" "\<forall>name. ident_text 128 (dw_uuid5 w name)"
    and "signals_ok s" "py_strip (cs_product_name s) = cs_product_name s" "dr_signals_ref q = Some (signals_ref (dw_digest w) s)"
    and "evaluate_credit_limit (request_limit_facts (dr_facts q)) (amount_minor (dr_requested_limit q))
      (currency_code (dr_requested_limit q)) = None" and "pv_scenario pv = STANDARD"
    and run: "evaluate w pv q (Some s) = Inr d"
  shows "let f = dr_facts q; policy = policy_for (pv_tier_config pv) (cf_product_code f); k = tier_caps f s policy (dw_caps_at w);
      cap = income_cap f s policy; n = amount_minor (dr_requested_limit q) in
    (bd_outcome d = APPROVED \<longrightarrow> bd_approved_limit d = Some (dr_requested_limit q) \<and> gate_of s (tp_gates policy) (dw_caps_at w) = None
       \<and> (dr_origin q = None \<longrightarrow> n \<le> cap)
       \<and> (bd_inquiry_type d = Some NO_INQUIRY \<and> (dr_origin q \<noteq> None \<or> n \<le> tk_max_instantly_approvable k)
          \<or> held_tier q = bd_inquiry_type d \<and> bd_inquiry_type d = Some SOFT \<and> n \<le> tk_soft_cap k \<and> 660 \<le> the (cs_credit_score s)
          \<or> held_tier q = bd_inquiry_type d \<and> bd_inquiry_type d = Some HARD \<and> 700 \<le> the (cs_credit_score s)))
    \<and> (bd_outcome d = COUNTEROFFER \<longrightarrow> (\<exists>offer. bd_approved_limit d = Some (facts_money f offer)
       \<and> cf_current_limit_minor f < offer \<and> offer < n \<and> offer \<le> cap))"
proof -
  let ?policy = "policy_for (pv_tier_config pv) (cf_product_code (dr_facts q))"
  let ?k = "tier_caps (dr_facts q) s ?policy (dw_caps_at w)"
  from tiered_evaluation [OF assms(1-8)] run have c: "receipt_contract q ?k s d" and A: "answerable w (pv_policy pv) q s ?k"
    by auto
  have LP: "cf_current_limit_minor (dr_facts q) \<le> cf_maximum_limit_minor (dr_facts q)" using answerableD [OF A] by simp
  note o = tier_caps_order [OF LP, of s ?policy "dw_caps_at w"]
  show ?thesis using c o
    by (auto simp: receipt_contract_def approval_basis_def offer_basis_def caps_ordered_def tier_of_def Let_def
        SOFT_BUREAU_APPROVE_SCORE_def HARD_BUREAU_APPROVE_SCORE_def split: if_splits)
qed

text \<open>What each guard of \<open>validate_decision\<close> leaves.\<close>

lemma validate_decision_parts:
  assumes run: "validate_decision v q p now config = Inr d"
  shows "decision_ok d" "bd_policy d = p" "bd_request_ref d = dr_request_ref q" "bd_scope_ref d = dr_scope_ref q"
    "bd_evidence_references d = evidence_of q" "consent_error d q config = None"
    "bd_outcome d = APPROVED \<longrightarrow> bd_approved_limit d = Some (dr_requested_limit q)"
    "bd_outcome d = COUNTEROFFER \<longrightarrow> counteroffer_error d q = None"
    "bd_evaluated_at d \<le> now" "now < bd_expires_at d" "bd_expires_at d - bd_evaluated_at d \<le> dp_approval_ttl_seconds p * 1000000"
    "decision_validate v = Inr d"
proof -
  from run obtain x where x: "decision_validate v = Inr x" by (auto simp: validate_decision_def)
  note R = run [unfolded validate_decision_def x bindR_simps]
  from R have "x = d" by (auto split: if_splits option.splits)
  with x show "decision_ok d" "decision_validate v = Inr d" using decision_wire.validate_ok by blast+
  show "bd_policy d = p" "bd_request_ref d = dr_request_ref q" "bd_scope_ref d = dr_scope_ref q"
    "bd_evidence_references d = evidence_of q" "consent_error d q config = None"
    "bd_outcome d = APPROVED \<longrightarrow> bd_approved_limit d = Some (dr_requested_limit q)"
    "bd_outcome d = COUNTEROFFER \<longrightarrow> counteroffer_error d q = None"
    "bd_evaluated_at d \<le> now" "now < bd_expires_at d" "bd_expires_at d - bd_evaluated_at d \<le> dp_approval_ttl_seconds p * 1000000"
    using R unfolding \<open>x = d\<close> by (simp_all split: if_splits option.splits)
qed

text \<open>C24. Whatever a receipt claims, one that \<open>validate_decision\<close> lets through is well formed, comes from the policy in force
  for this very request, is fresh, never grants more than was asked (exactly that when it approves, strictly between
  the current limit and the request when it counters), and reports a SOFT or HARD inquiry only when it asks for that
  consent or the request holds it with the current disclosure.\<close>

theorem validated_receipt_is_bound:
  assumes run: "validate_decision v q p now config = Inr d"
  shows "decision_ok d \<and> bd_policy d = p \<and> bd_request_ref d = dr_request_ref q \<and> bd_scope_ref d = dr_scope_ref q
    \<and> bd_evidence_references d = evidence_of q
    \<and> bd_evaluated_at d \<le> now \<and> now < bd_expires_at d \<and> bd_expires_at d \<le> bd_evaluated_at d + dp_approval_ttl_seconds p * 1000000
    \<and> (bd_outcome d = APPROVED \<longrightarrow> bd_approved_limit d = Some (dr_requested_limit q))
    \<and> (\<forall>m. bd_approved_limit d = Some m \<and> bd_outcome d \<noteq> APPROVED \<longrightarrow> dr_origin q = None
         \<and> currency_code m = currency_code (dr_requested_limit q) \<and> cf_current_limit_minor (dr_facts q) < amount_minor m
         \<and> amount_minor m < amount_minor (dr_requested_limit q) \<and> amount_minor (dr_requested_limit q) \<le> cf_maximum_limit_minor (dr_facts q))
    \<and> (bd_inquiry_type d \<in> {Some SOFT, Some HARD} \<and> INQUIRY_CONSENT_REQUIRED \<notin> set (bd_reason_codes d) \<longrightarrow>
         (\<exists>c tc. dr_inquiry_consent q = Some c \<and> config = Some tc \<and> bd_inquiry_type d = Some (qc_inquiry_type c)
            \<and> cites_current_disclosure tc q c))"
proof -
  note ok = validate_decision_parts(1) [OF run] and parts = validate_decision_parts(2-) [OF run]
  have "bd_outcome d = COUNTEROFFER" if "bd_approved_limit d = Some m" "bd_outcome d \<noteq> APPROVED" for m
    using ok that by (auto simp: decision_ok_def coherent_outcome_def)
  then have offer: "dr_origin q = None \<and> currency_code m = currency_code (dr_requested_limit q)
      \<and> cf_current_limit_minor (dr_facts q) < amount_minor m \<and> amount_minor m < amount_minor (dr_requested_limit q)
      \<and> amount_minor (dr_requested_limit q) \<le> cf_maximum_limit_minor (dr_facts q)"
    if "bd_approved_limit d = Some m" "bd_outcome d \<noteq> APPROVED" for m
    using that parts(7) by (auto simp: counteroffer_error_def Let_def split: if_splits option.splits)
  have "\<exists>c tc. dr_inquiry_consent q = Some c \<and> config = Some tc \<and> bd_inquiry_type d = Some (qc_inquiry_type c)
      \<and> cites_current_disclosure tc q c"
    if "bd_inquiry_type d \<in> {Some SOFT, Some HARD}" "INQUIRY_CONSENT_REQUIRED \<notin> set (bd_reason_codes d)"
    using parts(5) that by (auto simp: consent_error_def Let_def split: if_splits option.splits)
  with ok parts offer show ?thesis by auto
qed

section \<open>A sample request\<close>

text \<open>The configuration shipped with the service (\<^verbatim>\<open>config/decisioning\<close>), with stand-ins for the digest and \<open>uuid5\<close>.\<close>

definition DEMO_TIERS :: tier_config where
  "DEMO_TIERS = \<lparr>tc_policy_id = ''demo-credit-limit-tiers'', tc_policy_version = 1,
     tc_default = \<lparr>tp_rounding_step_minor = 10000,
       tp_gates = \<lparr>tg_cooling_off_days = 180, tg_income_confirmation_max_age_days = 365, tg_minimum_credit_score = 620,
         tg_minimum_tenure_months = 6, tg_max_late_payments_12m = 0\<rparr>,
       tp_tier_bps = \<lparr>tb_prime_excellent = 5000, tb_prime = 3000, tb_near_prime = 1500, tb_subprime = 0\<rparr>,
       tp_utilization_bands = [\<lparr>ub_max_bps = 3000, ub_factor_bps = 10000\<rparr>, \<lparr>ub_max_bps = 7000, ub_factor_bps = 5000\<rparr>],
       tp_tenure_bands = [\<lparr>nb_min_months = 6, nb_factor_bps = 5000\<rparr>, \<lparr>nb_min_months = 24, nb_factor_bps = 10000\<rparr>],
       tp_max_limit_to_income_bps = 3000, tp_max_multiple_of_current_bps = 15000,
       tp_soft_disclosure = ''soft-inquiry-disclosure.v1'', tp_hard_disclosure = ''hard-inquiry-disclosure.v1''\<rparr>,
     tc_product_overrides = []\<rparr>"

definition DEMO_CONFIG :: "(string \<times> pyval) list" where
  "DEMO_CONFIG = [(''schema_version'', PInt 1), (''provider_id'', PStr ''demo-bank''),
     (''policy_id'', PStr ''demo-credit-limit-decision''), (''policy_version'', PInt 1), (''approval_ttl_seconds'', PInt 180),
     (''default_scenario'', PStr ''STANDARD''),
     (''scenarios'', PList [PStr ''STANDARD'', PStr ''DECLINE'', PStr ''NEEDS_INFORMATION'', PStr ''REFER_FOR_REVIEW''])]"

definition sample_hash :: "char \<Rightarrow> string" where
  "sample_hash c = replicate 64 c"

definition sample_digest :: "pyval \<Rightarrow> string" where
  "sample_digest v = sample_hash CHR ''a''"

definition sample_decision_world :: decision_world where
  "sample_decision_world = \<lparr>dw_digest = sample_digest, dw_uuid5 = (\<lambda>name. ''d-1''), dw_caps_at = 1000 * DAY, dw_receipt_at = 1000 * DAY\<rparr>"

definition sample_policy :: decision_policy where
  "sample_policy = \<lparr>dp_provider_id = ''demo-bank'', dp_policy_id = ''demo-credit-limit-decision'', dp_version = 1,
     dp_digest = sample_hash CHR ''a'', dp_approval_ttl_seconds = 180\<rparr>"

definition sample_provider :: provider where
  "sample_provider = \<lparr>pv_policy = sample_policy, pv_scenario = STANDARD, pv_tier_config = DEMO_TIERS\<rparr>"

definition sample_facts :: checked_facts where
  "sample_facts = \<lparr>cf_account_id = ''00000000-0000-0000-0000-00000000000c'', cf_account_status = ''ACTIVE'', cf_currency_code = ''USD'',
     cf_product_code = ''GOLD'', cf_current_limit_minor = 500000, cf_product_active = True, cf_minimum_limit_minor = 100000,
     cf_maximum_limit_minor = 2000000\<rparr>"

definition sample_signals :: credit_signals where
  "sample_signals = \<lparr>cs_credit_score = Some 720, cs_credit_tier = Some ''PRIME'', cs_annual_income_minor = Some 12000000,
     cs_income_confirmed_at = Some (900 * DAY), cs_opened_at = Some 0, cs_last_limit_increase_at = None, cs_balance_minor = 20000,
     cs_late_payment = False, cs_product_name = ''Gold''\<rparr>"

definition sample_request :: "int \<Rightarrow> limit_request" where
  "sample_request n = \<lparr>dr_request_ref = sample_hash CHR ''1'', dr_scope_ref = sample_hash CHR ''2'', dr_input_ref = sample_hash CHR ''3'',
     dr_requested_limit = \<lparr>amount_minor = n, currency_code = ''USD''\<rparr>, dr_facts = sample_facts, dr_inquiry_consent = None,
     dr_origin = None, dr_signals_ref = Some (sample_hash CHR ''a'')\<rparr>"

lemma sample_loads: "load_decisioning_provider sample_digest None None DEMO_CONFIG DEMO_TIERS = Inr sample_provider"
  by code_simp

lemma sample_setting:
  "policy_ok (pv_policy sample_provider)" "request_ok (sample_request 600000)" "request_ok (sample_request 900000)"
  "signals_ok sample_signals" "py_strip (cs_product_name sample_signals) = cs_product_name sample_signals"
  "tier_policy_ok (tc_default DEMO_TIERS)"
  by code_simp+

definition sample_receipt :: bank_decision where
  "sample_receipt = receipt sample_decision_world sample_policy (sample_request 600000) APPROVED
     (Some \<lparr>amount_minor = 600000, currency_code = ''USD''\<rparr>) [APPROVED_BY_POLICY] (Some NO_INQUIRY) None None"

lemma sample_validates:
  "validate_decision (decision_dump sample_receipt) (sample_request 600000) sample_policy (1000 * DAY) (Some DEMO_TIERS) = Inr sample_receipt"
  by code_simp

lemma sample_conditions:
  "\<forall>name. ident_text 128 (dw_uuid5 sample_decision_world name)"
  "dr_signals_ref (sample_request n) = Some (signals_ref (dw_digest sample_decision_world) sample_signals)"
  "evaluate_credit_limit (request_limit_facts (dr_facts (sample_request 600000))) (amount_minor (dr_requested_limit (sample_request 600000)))
      (currency_code (dr_requested_limit (sample_request 600000))) = None"
  "pv_scenario sample_provider = STANDARD"
  "evaluate_credit_limit (request_limit_facts (dr_facts (sample_request 900000))) (amount_minor (dr_requested_limit (sample_request 900000)))
      (currency_code (dr_requested_limit (sample_request 900000))) = None"
proof -
  show "\<forall>name. ident_text 128 (dw_uuid5 sample_decision_world name)"
    by (simp add: sample_decision_world_def ident_text_def ident_char_def Let_def)
  show "dr_signals_ref (sample_request n) = Some (signals_ref (dw_digest sample_decision_world) sample_signals)"
    by (simp add: sample_decision_world_def signals_ref_def sample_digest_def sample_request_def)
qed code_simp+

lemma sample_caps:
  "tier_caps sample_facts sample_signals (tc_default DEMO_TIERS) (1000 * DAY) =
     \<lparr>tk_gate = None, tk_retry_after = None, tk_tenure_months = 33, tk_current = 500000, tk_product_maximum = 2000000,
      tk_headroom = 150000, tk_max_instantly_approvable = 650000, tk_soft_cap = 750000, tk_hard_cap = 2000000\<rparr>"
  by code_simp

lemma sample_evaluates:
  "evaluate sample_decision_world sample_provider (sample_request 600000) (Some sample_signals) = Inr sample_receipt"
proof -
  let ?k = "tier_caps sample_facts sample_signals (tc_default DEMO_TIERS) (1000 * DAY)"
  have p: "dr_facts (sample_request 600000) = sample_facts" "pv_policy sample_provider = sample_policy"
    "dr_requested_limit (sample_request 600000) = \<lparr>amount_minor = 600000, currency_code = ''USD''\<rparr>"
    "policy_for (pv_tier_config sample_provider) (cf_product_code sample_facts) = tc_default DEMO_TIERS"
    "dw_caps_at sample_decision_world = 1000 * DAY"
    by (simp_all add: sample_request_def sample_provider_def policy_for_def DEMO_TIERS_def sample_decision_world_def)
  note E = tiered_evaluation [OF sample_setting(1,2) sample_conditions(1) sample_setting(4,5) sample_conditions(2,3,4), unfolded p]
  have "tiered_answer ?k sample_signals (sample_request 600000) = approve 600000 NO_INQUIRY"
    by (simp add: tiered_answer_def sample_caps p Let_def)
  then show ?thesis
    using issue_approve [OF E(2), of 600000 NO_INQUIRY] sample_setting(4) sample_conditions(2-4) p
    by (simp add: evaluate_def evaluate_tiered_def coherent_def Let_def sample_receipt_def del: bindR_Inr_iff)
qed

text \<open>A request above the soft cap: the provider asks for the consent the amount needs, and that receipt is accepted.\<close>

theorem provider_receipt_accepted_witness:
  "\<exists>d. evaluate sample_decision_world sample_provider (sample_request 900000) (Some sample_signals) = Inr d \<and> decision_ok d
     \<and> validate_decision (decision_dump d) (sample_request 900000) sample_policy (1000 * DAY) (Some DEMO_TIERS) = Inr d"
proof -
  have "dw_receipt_at sample_decision_world \<le> 1000 * DAY" "1000 * DAY < dw_receipt_at sample_decision_world
      + dp_approval_ttl_seconds (pv_policy sample_provider) * 1000000" "pv_policy sample_provider = sample_policy"
    by (simp_all add: sample_decision_world_def sample_provider_def sample_policy_def)
  then show ?thesis
    using provider_receipt_accepted [OF sample_setting(1,3) sample_conditions(1) sample_setting(4,5) sample_conditions(2,5,4)]
    by (auto simp: consent_settled_def sample_request_def)
qed

theorem approvals_have_a_basis_witness:
  "bd_outcome sample_receipt = APPROVED \<and> bd_approved_limit sample_receipt = Some (dr_requested_limit (sample_request 600000))
    \<and> 600000 \<le> income_cap sample_facts sample_signals (tc_default DEMO_TIERS)"
proof -
  have "bd_outcome sample_receipt = APPROVED" "dr_origin (sample_request 600000) = None" "dr_facts (sample_request 600000) = sample_facts"
    "policy_for (pv_tier_config sample_provider) (cf_product_code sample_facts) = tc_default DEMO_TIERS"
    "amount_minor (dr_requested_limit (sample_request 600000)) = 600000"
    by (simp_all add: sample_receipt_def sample_request_def sample_provider_def policy_for_def DEMO_TIERS_def)
  then show ?thesis
    using approvals_have_a_basis [OF sample_setting(1,2) sample_conditions(1) sample_setting(4,5) sample_conditions(2,3,4) sample_evaluates]
    by (simp add: Let_def)
qed

theorem validated_receipt_is_bound_witness:
  "decision_ok sample_receipt \<and> bd_policy sample_receipt = sample_policy
    \<and> bd_approved_limit sample_receipt = Some (dr_requested_limit (sample_request 600000)) \<and> 1000 * DAY < bd_expires_at sample_receipt"
  using validated_receipt_is_bound [OF sample_validates] by (simp add: sample_receipt_def sample_request_def)

theorem caps_are_ordered_witness:
  "caps_ordered sample_facts (tier_caps sample_facts sample_signals (tc_default DEMO_TIERS) (1000 * DAY))
    \<and> tk_max_instantly_approvable (tier_caps sample_facts sample_signals (tc_default DEMO_TIERS) (1000 * DAY)) \<le> 1000000"
  using caps_are_ordered [OF sample_setting(6), of sample_facts sample_signals "1000 * DAY"] by (simp add: sample_facts_def Let_def)

end
