(* ===== verification/Proposal_Protocol.thy ===== *)
theory Proposal_Protocol
  imports Bank_State
begin

text \<open>
  The contracts of the action-proposal protocol: the trusted runtime context
  (\<^verbatim>\<open>services/action_proposal_context.py\<close>), the proposal row (\<^verbatim>\<open>models/action_proposal.py\<close>), authorization
  policies, the evidence validator, action specifications and their registry
  (\<^verbatim>\<open>services/proposal_protocol.py\<close>).  A frozen dataclass is a record; its \<open>__post_init__\<close> is a
  \<open>..._check\<close>.  The handler of a specification is a type parameter.
\<close>

section \<open>The trusted runtime context\<close>

record runtime_context =
  rt_support_session_id :: string
  rt_runtime_name :: string
  rt_runtime_session_id :: string
  rt_customer_turn_id :: string
  rt_reset_generation :: string
  rt_catalog_snapshot_id :: "string option"
  rt_presentation_turn_id :: "string option"
  rt_confirmation_turn_id :: "string option"
  rt_confirmation_method :: "string option"
  rt_confirmation_source :: "string option"

definition header_text :: "(string \<times> string) list \<Rightarrow> string \<Rightarrow> string" where
  "header_text headers name = py_strip (case map_of headers name of Some v \<Rightarrow> v | None \<Rightarrow> [])"

definition required_header :: "(string \<times> string) list \<Rightarrow> string \<Rightarrow> nat \<Rightarrow> string res" where
  "required_header headers name max_length =
     (let value = header_text headers name
      in if value = [] then Inl (RuntimeContextError ''Missing trusted runtime header.'')
         else if max_length < length value \<or> CHR 0x0D \<in> set value \<or> CHR 0x0A \<in> set value
         then Inl (RuntimeContextError ''Invalid trusted runtime header.'')
         else Inr value)"

definition optional_header :: "(string \<times> string) list \<Rightarrow> string \<Rightarrow> string option" where
  "optional_header headers name = (let value = header_text headers name in if value = [] then None else Some value)"

definition lowercase_headers :: "(string \<times> string) list \<Rightarrow> (string \<times> string) list" where
  "lowercase_headers headers = foldl (\<lambda>acc (k, v). dict_put (py_lower k) v acc) [] headers"

definition from_headers :: "(string \<times> string) list \<Rightarrow> runtime_context res" where
  "from_headers headers =
     (let h = lowercase_headers headers in
      bindR (required_header h ''x-support-session-id'' 255) (\<lambda>support_session.
      bindR (required_header h ''x-runtime-name'' 64) (\<lambda>runtime.
      bindR (required_header h ''x-runtime-session-id'' 255) (\<lambda>runtime_session.
      bindR (required_header h ''x-customer-turn-id'' 255) (\<lambda>turn.
      bindR (required_header h ''x-reset-generation'' 64) (\<lambda>generation.
      Inr \<lparr>rt_support_session_id = support_session, rt_runtime_name = runtime,
           rt_runtime_session_id = runtime_session, rt_customer_turn_id = turn,
           rt_reset_generation = generation,
           rt_catalog_snapshot_id = optional_header h ''x-catalog-snapshot-id'',
           rt_presentation_turn_id = optional_header h ''x-proposal-presentation-turn-id'',
           rt_confirmation_turn_id = optional_header h ''x-proposal-confirmation-turn-id'',
           rt_confirmation_method = optional_header h ''x-proposal-confirmation-method'',
           rt_confirmation_source = optional_header h ''x-proposal-confirmation-source''\<rparr>))))))"

text \<open>\<open>not value\<close> on an optional string.\<close>

definition blank :: "string option \<Rightarrow> bool" where
  "blank v = (v = None \<or> v = Some [])"

definition require_customer_turn :: "runtime_context \<Rightarrow> unit res" where
  "require_customer_turn c =
     (if rt_customer_turn_id c = ''unknown-turn''
      then Inl (RuntimeContextError ''A real customer turn id is required for proposal operations.'')
      else Inr ())"

definition require_confirmation :: "runtime_context \<Rightarrow> unit res" where
  "require_confirmation c =
     bindR (require_customer_turn c) (\<lambda>_.
     if blank (rt_presentation_turn_id c) \<or> blank (rt_confirmation_turn_id c)
     then Inl (RuntimeContextError ''Protected presentation and confirmation turn evidence is required.'')
     else if rt_confirmation_turn_id c = rt_presentation_turn_id c
     then Inl (RuntimeContextError ''Confirmation must come from a later customer turn.'')
     else if Some (rt_customer_turn_id c) \<noteq> rt_confirmation_turn_id c
     then Inl (RuntimeContextError ''Current customer turn does not match the protected confirmation turn.'')
     else if rt_confirmation_method c \<noteq> Some ''EXPLICIT_VERBAL''
     then Inl (RuntimeContextError ''Explicit verbal confirmation is required.'')
     else if rt_confirmation_source c \<noteq> Some ''MODEL_TOOL_INTENT''
     then Inl (RuntimeContextError ''The customer decision must be bound to the model's typed tool choice.'')
     else Inr ())"

section \<open>Policies\<close>

datatype presentation_policy =
  FLEXIBLE_SUMMARY | REQUIRED_FACT_RESTATEMENT | VERBATIM_DISCLOSURE | DETERMINISTIC_UI
| TRUSTED_RENDER_ACKNOWLEDGMENT

fun presentation_policy_text :: "presentation_policy \<Rightarrow> string" where
  "presentation_policy_text FLEXIBLE_SUMMARY = ''FLEXIBLE_SUMMARY''"
| "presentation_policy_text REQUIRED_FACT_RESTATEMENT = ''REQUIRED_FACT_RESTATEMENT''"
| "presentation_policy_text VERBATIM_DISCLOSURE = ''VERBATIM_DISCLOSURE''"
| "presentation_policy_text DETERMINISTIC_UI = ''DETERMINISTIC_UI''"
| "presentation_policy_text TRUSTED_RENDER_ACKNOWLEDGMENT = ''TRUSTED_RENDER_ACKNOWLEDGMENT''"

datatype risk_tier = INFORMATIONAL | BOUNDED_SERVICING | ELEVATED_RISK | HUMAN_OWNED

fun risk_value :: "risk_tier \<Rightarrow> nat" where
  "risk_value INFORMATIONAL = 0"
| "risk_value BOUNDED_SERVICING = 1"
| "risk_value ELEVATED_RISK = 2"
| "risk_value HUMAN_OWNED = 3"

fun risk_tier_text :: "risk_tier \<Rightarrow> string" where
  "risk_tier_text INFORMATIONAL = ''INFORMATIONAL''"
| "risk_tier_text BOUNDED_SERVICING = ''BOUNDED_SERVICING''"
| "risk_tier_text ELEVATED_RISK = ''ELEVATED_RISK''"
| "risk_tier_text HUMAN_OWNED = ''HUMAN_OWNED''"

lemma risk_value_inject: "risk_value a = risk_value b \<Longrightarrow> a = b"
  by (cases a; cases b; simp)

text \<open>An \<open>IntEnum\<close> compares by its values.\<close>

instantiation risk_tier :: linorder
begin

definition less_eq_risk_tier :: "risk_tier \<Rightarrow> risk_tier \<Rightarrow> bool" where
  "less_eq_risk_tier a b = (risk_value a \<le> risk_value b)"

definition less_risk_tier :: "risk_tier \<Rightarrow> risk_tier \<Rightarrow> bool" where
  "less_risk_tier a b = (risk_value a < risk_value b)"

instance
  by standard (auto simp: less_eq_risk_tier_def less_risk_tier_def risk_value_inject)

end

datatype quality_gate = RELEASE_EVALUATION | DETERMINISTIC_ACKNOWLEDGMENT

fun quality_gate_text :: "quality_gate \<Rightarrow> string" where
  "quality_gate_text RELEASE_EVALUATION = ''RELEASE_EVALUATION''"
| "quality_gate_text DETERMINISTIC_ACKNOWLEDGMENT = ''DETERMINISTIC_ACKNOWLEDGMENT''"

text \<open>\<open>DecisionPolicy\<close>; its value \<open>NONE\<close> is \<open>NO_DECISION\<close>.\<close>

datatype confirmation_kind = NO_DECISION | EXPLICIT_VERBAL | EXPLICIT_UI | STEP_UP | HUMAN_APPROVAL

fun confirmation_text :: "confirmation_kind \<Rightarrow> string" where
  "confirmation_text NO_DECISION = ''NONE''"
| "confirmation_text EXPLICIT_VERBAL = ''EXPLICIT_VERBAL''"
| "confirmation_text EXPLICIT_UI = ''EXPLICIT_UI''"
| "confirmation_text STEP_UP = ''STEP_UP''"
| "confirmation_text HUMAN_APPROVAL = ''HUMAN_APPROVAL''"

datatype recovery_policy =
  RETRY_SAME_PROPOSAL | REPRESENT_AND_RECONFIRM | REPLACE_AFTER_DISPOSITION | ESCALATE

fun recovery_policy_text :: "recovery_policy \<Rightarrow> string" where
  "recovery_policy_text RETRY_SAME_PROPOSAL = ''RETRY_SAME_PROPOSAL''"
| "recovery_policy_text REPRESENT_AND_RECONFIRM = ''REPRESENT_AND_RECONFIRM''"
| "recovery_policy_text REPLACE_AFTER_DISPOSITION = ''REPLACE_AFTER_DISPOSITION''"
| "recovery_policy_text ESCALATE = ''ESCALATE''"

text \<open>The recovery actions of the boundary; those that share a name with a policy are qualified.\<close>

datatype recovery_class =
  CORRECT_REQUEST | RETRY_SAME_PROPOSAL | RESOLVE_ACTIVE_PROPOSAL | REPRESENT_AND_RECONFIRM
| CREATE_NEW_PROPOSAL | REFRESH_SESSION | ESCALATE

fun recovery_class_text :: "recovery_class \<Rightarrow> string" where
  "recovery_class_text CORRECT_REQUEST = ''CORRECT_REQUEST''"
| "recovery_class_text RETRY_SAME_PROPOSAL = ''RETRY_SAME_PROPOSAL''"
| "recovery_class_text RESOLVE_ACTIVE_PROPOSAL = ''RESOLVE_ACTIVE_PROPOSAL''"
| "recovery_class_text REPRESENT_AND_RECONFIRM = ''REPRESENT_AND_RECONFIRM''"
| "recovery_class_text CREATE_NEW_PROPOSAL = ''CREATE_NEW_PROPOSAL''"
| "recovery_class_text REFRESH_SESSION = ''REFRESH_SESSION''"
| "recovery_class_text ESCALATE = ''ESCALATE''"

record evidence_policy =
  vp_accepted_sources :: "string set"
  vp_require_later_customer_turn :: bool
  vp_required_presentation_acknowledgment :: "string option"
  vp_accepted_presentation_acknowledgment_sources :: "string set"

record presentation_requirement =
  pq_required_fact_keys :: "string set"
  pq_quality_gate :: quality_gate
  pq_natural_language_allowed :: bool
  pq_disclosure_reference :: "string option"

definition presentation_requirement_check :: "presentation_requirement \<Rightarrow> unit res" where
  "presentation_requirement_check r =
     (if pq_required_fact_keys r = {}
      then Inl (ValueError ''Consequential actions must declare presentation facts.'')
      else if \<not> blank (pq_disclosure_reference r) \<and> pq_natural_language_allowed r
      then Inl (ValueError ''Referenced disclosures cannot allow natural paraphrase.'')
      else Inr ())"

record acknowledgment =
  ak_acknowledgment_type :: string
  ak_source :: string
  ak_acknowledged_fact_keys :: "string set"
  ak_artifact_id :: string

definition as_evidence :: "acknowledgment \<Rightarrow> (string \<times> pyval) list" where
  "as_evidence a =
     [(''presentation_acknowledgment'', PStr (ak_acknowledgment_type a)),
      (''presentation_acknowledgment_source'', PStr (ak_source a)),
      (''acknowledged_fact_keys'', str_list (sorted_list_of_set (ak_acknowledged_fact_keys a))),
      (''presentation_artifact_id'', PStr (ak_artifact_id a))]"

record authorization_policy =
  az_name :: string
  az_risk_tier :: risk_tier
  az_presentation_policy :: presentation_policy
  az_decision_policy :: confirmation_kind
  az_evidence_policy :: evidence_policy
  az_recovery_policy :: recovery_policy

definition deterministic_presentations :: "presentation_policy set" where
  "deterministic_presentations =
     {REQUIRED_FACT_RESTATEMENT, VERBATIM_DISCLOSURE, DETERMINISTIC_UI, TRUSTED_RENDER_ACKNOWLEDGMENT}"

fun required_source :: "confirmation_kind \<Rightarrow> string option" where
  "required_source NO_DECISION = None"
| "required_source EXPLICIT_VERBAL = Some ''MODEL_TOOL_INTENT''"
| "required_source EXPLICIT_UI = Some ''TRUSTED_UI_INTENT''"
| "required_source STEP_UP = Some ''TRUSTED_STEP_UP_ASSERTION''"
| "required_source HUMAN_APPROVAL = Some ''TRUSTED_HUMAN_APPROVAL''"

definition authorization_policy_check :: "authorization_policy \<Rightarrow> unit res" where
  "authorization_policy_check p =
     (let e = az_evidence_policy p; ack = vp_required_presentation_acknowledgment e
      in if az_presentation_policy p \<in> deterministic_presentations \<and> blank ack
         then Inl (ValueError ''Deterministic presentation policies require typed acknowledgment.'')
         else if \<not> blank ack \<and> vp_accepted_presentation_acknowledgment_sources e = {}
         then Inl (ValueError ''Deterministic presentation policies require a trusted renderer source.'')
         else if az_decision_policy p = NO_DECISION \<and> az_risk_tier p \<noteq> INFORMATIONAL
         then Inl (ValueError ''Only informational policies may omit a decision.'')
         else if az_decision_policy p \<noteq> NO_DECISION \<and> vp_accepted_sources e = {}
         then Inl (ValueError ''Decision policies require an accepted evidence source.'')
         else if (case required_source (az_decision_policy p) of None \<Rightarrow> False | Some s \<Rightarrow> s \<notin> vp_accepted_sources e)
         then Inl (ValueError ''The decision policy requires its protected evidence.'')
         else if az_presentation_policy p = FLEXIBLE_SUMMARY \<and> BOUNDED_SERVICING < az_risk_tier p
         then Inl (ValueError ''Elevated-risk actions cannot use flexible summaries.'')
         else if az_decision_policy p = HUMAN_APPROVAL \<and> az_risk_tier p \<noteq> HUMAN_OWNED
         then Inl (ValueError ''Human approval is a Tier 3 authorization policy.'')
         else Inr ())"

definition durable_confirmation_policy :: "authorization_policy \<Rightarrow> string" where
  "durable_confirmation_policy p = confirmation_text (az_decision_policy p)"

definition GENERAL_ACKNOWLEDGMENT_POLICY :: authorization_policy where
  "GENERAL_ACKNOWLEDGMENT_POLICY =
     \<lparr>az_name = ''GENERAL_ACKNOWLEDGMENT'', az_risk_tier = BOUNDED_SERVICING,
      az_presentation_policy = FLEXIBLE_SUMMARY, az_decision_policy = EXPLICIT_VERBAL,
      az_evidence_policy = \<lparr>vp_accepted_sources = {''MODEL_TOOL_INTENT''}, vp_require_later_customer_turn = True,
        vp_required_presentation_acknowledgment = None, vp_accepted_presentation_acknowledgment_sources = {}\<rparr>,
      az_recovery_policy = recovery_policy.RETRY_SAME_PROPOSAL\<rparr>"

definition REQUIRED_RESTATEMENT_POLICY :: authorization_policy where
  "REQUIRED_RESTATEMENT_POLICY =
     \<lparr>az_name = ''REQUIRED_RESTATEMENT'', az_risk_tier = ELEVATED_RISK,
      az_presentation_policy = REQUIRED_FACT_RESTATEMENT, az_decision_policy = EXPLICIT_VERBAL,
      az_evidence_policy = \<lparr>vp_accepted_sources = {''MODEL_TOOL_INTENT''}, vp_require_later_customer_turn = True,
        vp_required_presentation_acknowledgment = Some ''DETERMINISTIC_REQUIRED_FACTS_RENDERED'',
        vp_accepted_presentation_acknowledgment_sources = {''TRUSTED_RENDERER''}\<rparr>,
      az_recovery_policy = recovery_policy.REPRESENT_AND_RECONFIRM\<rparr>"

section \<open>The evidence validator\<close>

record validated_evidence =
  ve_customer_turn_id :: string
  ve_presentation_turn_id :: string
  ve_decision_turn_id :: string
  ve_protected_evidence :: "(string \<times> pyval) list"

text \<open>What a policy with a required acknowledgment asks beyond the turns.\<close>

definition acknowledgment_error ::
    "evidence_policy \<Rightarrow> presentation_requirement option \<Rightarrow> acknowledgment option \<Rightarrow> py_error option" where
  "acknowledgment_error e requirement ack =
     (if blank (vp_required_presentation_acknowledgment e) then None
      else if (case requirement of None \<Rightarrow> True | Some r \<Rightarrow> pq_quality_gate r \<noteq> DETERMINISTIC_ACKNOWLEDGMENT)
      then Some (RuntimeContextError ''A deterministic presentation contract is required by policy.'')
      else if (case ack of None \<Rightarrow> True
               | Some a \<Rightarrow> Some (ak_acknowledgment_type a) \<noteq> vp_required_presentation_acknowledgment e \<or> ak_artifact_id a = [])
      then Some (RuntimeContextError ''Deterministic presentation acknowledgment is required by policy.'')
      else if ak_source (the ack) \<notin> vp_accepted_presentation_acknowledgment_sources e
      then Some (RuntimeContextError ''Presentation acknowledgment is not from an accepted trusted source.'')
      else if pq_required_fact_keys (the requirement) - ak_acknowledged_fact_keys (the ack) \<noteq> {}
      then Some (RuntimeContextError ''Presentation acknowledgment is missing required facts.'')
      else None)"

definition protected_evidence :: "runtime_context \<Rightarrow> acknowledgment option \<Rightarrow> (string \<times> pyval) list" where
  "protected_evidence c ack =
     [(''method'', opt_str (rt_confirmation_method c)), (''source'', opt_str (rt_confirmation_source c)),
      (''runtime_name'', PStr (rt_runtime_name c)), (''runtime_session_id'', PStr (rt_runtime_session_id c)),
      (''presentation_turn_id'', opt_str (rt_presentation_turn_id c)),
      (''confirmation_turn_id'', opt_str (rt_confirmation_turn_id c))]
     @ (case ack of None \<Rightarrow> [] | Some a \<Rightarrow> as_evidence a)"

text \<open>\<open>RuntimeEvidenceValidator.validate_decision\<close>.\<close>

definition validate_evidence ::
    "runtime_context \<Rightarrow> authorization_policy \<Rightarrow> presentation_requirement option \<Rightarrow> acknowledgment option
     \<Rightarrow> validated_evidence res" where
  "validate_evidence c policy requirement ack =
     bindR (require_customer_turn c) (\<lambda>_.
     let e = az_evidence_policy policy in
     if blank (rt_presentation_turn_id c) \<or> blank (rt_confirmation_turn_id c)
     then Inl (RuntimeContextError ''Protected presentation and confirmation turn evidence is required.'')
     else if rt_confirmation_turn_id c = rt_presentation_turn_id c
     then Inl (RuntimeContextError ''Confirmation must come from a later customer turn.'')
     else if Some (rt_customer_turn_id c) \<noteq> rt_confirmation_turn_id c
     then Inl (RuntimeContextError ''Current customer turn does not match the protected confirmation turn.'')
     else if rt_confirmation_method c \<noteq> Some (confirmation_text (az_decision_policy policy))
     then Inl (RuntimeContextError
            (if az_decision_policy policy = EXPLICIT_VERBAL then ''Explicit verbal confirmation is required.''
             else ''The confirmation of the policy is required.''))
     else if (case rt_confirmation_source c of None \<Rightarrow> True | Some s \<Rightarrow> s \<notin> vp_accepted_sources e)
     then Inl (RuntimeContextError
            (if vp_accepted_sources e = {''MODEL_TOOL_INTENT''}
             then ''The customer decision must be bound to the model's typed tool choice.''
             else ''The customer decision is not bound to an accepted protected source.''))
     else (case acknowledgment_error e requirement ack of
             Some err \<Rightarrow> Inl err
           | None \<Rightarrow> Inr \<lparr>ve_customer_turn_id = rt_customer_turn_id c,
               ve_presentation_turn_id = the (rt_presentation_turn_id c),
               ve_decision_turn_id = the (rt_confirmation_turn_id c),
               ve_protected_evidence = protected_evidence c ack\<rparr>))"

section \<open>The proposal row\<close>

datatype proposal_status =
  PROPOSED | PRESENTED | CONFIRMED | COMMITTING | COMMITTED | DECLINED | INVALIDATED | EXPIRED

fun status_text :: "proposal_status \<Rightarrow> string" where
  "status_text PROPOSED = ''PROPOSED''"
| "status_text PRESENTED = ''PRESENTED''"
| "status_text CONFIRMED = ''CONFIRMED''"
| "status_text COMMITTING = ''COMMITTING''"
| "status_text COMMITTED = ''COMMITTED''"
| "status_text DECLINED = ''DECLINED''"
| "status_text INVALIDATED = ''INVALIDATED''"
| "status_text EXPIRED = ''EXPIRED''"

lemma status_text_inject [simp]: "status_text a = status_text b \<longleftrightarrow> a = b"
  by (cases a; cases b; simp)

text \<open>
  The columns that never change after creation, the payload and its scope, are \<open>proposal_terms\<close>; the
  others are the status, evidence, outcome and timestamps of the row.  \<open>updated_at\<close> is written by the
  database layer and read by nobody.
\<close>

record proposal_terms =
  tm_id :: string
  tm_bank_decision_ref :: "string option"
  tm_definition_id :: string
  tm_definition_revision :: int
  tm_definition_digest :: string
  tm_contract_version :: string
  tm_action_type :: string
  tm_customer_id :: string
  tm_account_id :: "string option"
  tm_support_session_id :: string
  tm_runtime_name :: string
  tm_runtime_session_id :: string
  tm_originating_customer_turn_id :: string
  tm_reset_generation :: string
  tm_confirmation_policy :: string
  tm_action_payload :: "(string \<times> pyval) list"
  tm_payload_fingerprint :: string
  tm_customer_safe_summary :: string
  tm_catalog_snapshot_id :: "string option"
  tm_idempotency_key :: string
  tm_expires_at :: int
  tm_created_at :: int

record action_proposal =
  pp_terms :: proposal_terms
  pp_status :: proposal_status
  pp_presented_assistant_turn_id :: "string option"
  pp_confirmation_customer_turn_id :: "string option"
  pp_confirmation_evidence :: "(string \<times> pyval) list option"
  pp_result_payload :: "(string \<times> pyval) list option"
  pp_invalidation_reason :: "string option"
  pp_presented_at :: "int option"
  pp_confirmed_at :: "int option"
  pp_commit_started_at :: "int option"
  pp_completed_at :: "int option"

abbreviation pp_id :: "action_proposal \<Rightarrow> string" where
  "pp_id p \<equiv> tm_id (pp_terms p)"

section \<open>Action specifications\<close>

datatype py_type = T_str | T_int | T_bool | T_float | T_list | T_dict | T_NoneType

datatype field_type = One py_type | AnyOf "py_type list"

text \<open>\<open>isinstance\<close>: a boolean is an instance of \<open>int\<close>.\<close>

fun is_instance :: "pyval \<Rightarrow> py_type \<Rightarrow> bool" where
  "is_instance (PStr _) t = (t = T_str)"
| "is_instance (PInt _) t = (t = T_int)"
| "is_instance (PBool _) t = (t = T_bool \<or> t = T_int)"
| "is_instance (PFloat _) t = (t = T_float)"
| "is_instance (PList _) t = (t = T_list)"
| "is_instance (PDict _) t = (t = T_dict)"
| "is_instance PNone t = (t = T_NoneType)"
| "is_instance (PTime _) t = False"

fun instance_of :: "pyval \<Rightarrow> field_type \<Rightarrow> bool" where
  "instance_of v (One t) = is_instance v t"
| "instance_of v (AnyOf ts) = list_ex (is_instance v) ts"

text \<open>\<open>expected_type is int and type(value) is not int\<close> refuses a boolean where an \<open>int\<close> is declared.\<close>

definition strict_instance :: "pyval \<Rightarrow> field_type \<Rightarrow> bool" where
  "strict_instance v t = (instance_of v t \<and> (t = One T_int \<longrightarrow> (\<exists>n. v = PInt n)))"

lemma strict_instance_code [code]:
  "strict_instance v t = (instance_of v t \<and> (if t = One T_int then (case v of PInt n \<Rightarrow> True | _ \<Rightarrow> False) else True))"
  by (auto simp: strict_instance_def split: pyval.splits)

record 'h action_specification =
  sp_action_type :: string
  sp_contract_version :: string
  sp_payload_schema :: "(string \<times> field_type) list"
  sp_scope_resolver :: "action_proposal \<Rightarrow> string \<times> string option"
  sp_authorization_policy :: authorization_policy
  sp_presentation_requirement :: presentation_requirement
  sp_handler :: 'h
  sp_definition_id :: string
  sp_definition_revision :: int
  sp_definition_digest :: string
  sp_result_schema :: "(string \<times> field_type) list"

definition specification_check :: "'h action_specification \<Rightarrow> unit res" where
  "specification_check s =
     (let policy = sp_authorization_policy s; requirement = sp_presentation_requirement s;
          deterministic = (vp_required_presentation_acknowledgment (az_evidence_policy policy) \<noteq> None)
      in if deterministic \<noteq> (pq_quality_gate requirement = DETERMINISTIC_ACKNOWLEDGMENT)
         then Inl (ValueError ''Presentation assurance must match the authorization policy.'')
         else if az_presentation_policy policy = FLEXIBLE_SUMMARY \<and> \<not> pq_natural_language_allowed requirement
         then Inl (ValueError ''Flexible summaries must allow natural language.'')
         else if az_presentation_policy policy \<noteq> FLEXIBLE_SUMMARY \<and> pq_natural_language_allowed requirement
         then Inl (ValueError ''Deterministic presentation policies cannot allow paraphrase.'')
         else if az_presentation_policy policy = VERBATIM_DISCLOSURE \<and> blank (pq_disclosure_reference requirement)
         then Inl (ValueError ''Verbatim disclosure requires a governed reference.'')
         else Inr ())"

definition fields_present :: "(string \<times> field_type) list \<Rightarrow> (string \<times> pyval) list \<Rightarrow> bool" where
  "fields_present schema kvs = (set (map fst schema) \<subseteq> set (map fst kvs))"

definition validate_payload :: "'h action_specification \<Rightarrow> (string \<times> pyval) list \<Rightarrow> unit res" where
  "validate_payload s payload =
     (if \<not> fields_present (sp_payload_schema s) payload then Inl (ValueError ''The payload is missing fields.'')
      else if \<not> list_all (\<lambda>(name, t). strict_instance (the (map_of payload name)) t) (sp_payload_schema s)
      then Inl (ValueError ''A payload field is invalid.'')
      else Inr ())"

definition validate_result :: "'h action_specification \<Rightarrow> (string \<times> pyval) list \<Rightarrow> unit res" where
  "validate_result s outcome =
     (if \<not> fields_present (sp_result_schema s) outcome then Inl (ValueError ''The result is missing fields.'')
      else if \<not> list_all (\<lambda>(name, t). instance_of (the (map_of outcome name)) t) (sp_result_schema s)
      then Inl (ValueError ''A result field is invalid.'')
      else Inr ())"

section \<open>The registry\<close>

record 'h action_registry =
  rg_versions :: "((string \<times> int) \<times> 'h action_specification) list"
  rg_specifications :: "(string \<times> 'h action_specification) list"

definition spec_key :: "'h action_specification \<Rightarrow> string \<times> int" where
  "spec_key s = (sp_definition_id s, sp_definition_revision s)"

text \<open>
  One round of the constructor's loop; \<open>published\<close> are the keys the repository publishes.  Whether the
  specification becomes the one its action type is served with:
\<close>

definition serve_item :: "(string \<times> int) list option \<Rightarrow> 'h action_registry \<Rightarrow> 'h action_specification \<Rightarrow> bool" where
  "serve_item published r item =
     (case published of Some keys \<Rightarrow> spec_key item \<in> set keys
      | None \<Rightarrow> (case map_of (rg_specifications r) (sp_action_type item) of
                   None \<Rightarrow> True | Some c \<Rightarrow> sp_definition_revision c < sp_definition_revision item))"

definition register :: "(string \<times> int) list option \<Rightarrow> 'h action_registry \<Rightarrow> 'h action_specification \<Rightarrow> 'h action_registry res" where
  "register published r item =
     (if spec_key item \<in> fst ` set (rg_versions r)
      then Inl (ValueError ''Definition revision must be registered exactly once.'')
      else if (case map_of (rg_specifications r) (sp_action_type item) of
                 None \<Rightarrow> False | Some c \<Rightarrow> sp_definition_id c \<noteq> sp_definition_id item)
      then Inl (ValueError ''Action type cannot refer to multiple definition IDs.'')
      else Inr \<lparr>rg_versions = rg_versions r @ [(spec_key item, item)],
             rg_specifications = (if serve_item published r item
               then dict_put (sp_action_type item) item (rg_specifications r) else rg_specifications r)\<rparr>)"

fun register_all :: "(string \<times> int) list option \<Rightarrow> 'h action_registry \<Rightarrow> 'h action_specification list \<Rightarrow> 'h action_registry res" where
  "register_all published r [] = Inr r"
| "register_all published r (s # ss) = bindR (register published r s) (\<lambda>r'. register_all published r' ss)"

definition build_registry :: "(string \<times> int) list option \<Rightarrow> 'h action_specification list \<Rightarrow> 'h action_registry res" where
  "build_registry published specs = register_all published \<lparr>rg_versions = [], rg_specifications = []\<rparr> specs"

definition require_action :: "'h action_registry \<Rightarrow> string \<Rightarrow> 'h action_specification res" where
  "require_action r action_type =
     (case map_of (rg_specifications r) action_type of
        Some s \<Rightarrow> Inr s | None \<Rightarrow> Inl (ValueError ''Action type is not registered.''))"

definition published_action :: "'h action_registry \<Rightarrow> string \<Rightarrow> 'h action_specification res" where
  "published_action r definition_id =
     (case filter (\<lambda>s. sp_definition_id s = definition_id) (map snd (rg_specifications r)) of
        [s] \<Rightarrow> Inr s | _ \<Rightarrow> Inl (ValueError ''Unknown published playbook.''))"

definition resolve_action :: "'h action_registry \<Rightarrow> string \<Rightarrow> int \<Rightarrow> string \<Rightarrow> 'h action_specification res" where
  "resolve_action r definition_id revision digest =
     (case map_of (rg_versions r) (definition_id, revision) of
        Some s \<Rightarrow> if sp_definition_digest s = digest then Inr s
                  else Inl (ValueError ''Unknown or changed action definition revision.'')
      | None \<Rightarrow> Inl (ValueError ''Unknown or changed action definition revision.''))"

definition for_proposal :: "'h action_registry \<Rightarrow> action_proposal \<Rightarrow> 'h action_specification res" where
  "for_proposal r p =
     (let t = pp_terms p in
      bindR (resolve_action r (tm_definition_id t) (tm_definition_revision t) (tm_definition_digest t)) (\<lambda>s.
      if sp_action_type s \<noteq> tm_action_type t \<or> sp_contract_version s \<noteq> tm_contract_version t
      then Inl (ValueError ''Proposal definition does not match its action contract.'')
      else Inr s))"

section \<open>What the validator guarantees\<close>

lemma general_policy_checked: "authorization_policy_check GENERAL_ACKNOWLEDGMENT_POLICY = Inr ()"
  by (simp add: authorization_policy_check_def GENERAL_ACKNOWLEDGMENT_POLICY_def deterministic_presentations_def
      blank_def less_risk_tier_def)

lemma restatement_policy_checked: "authorization_policy_check REQUIRED_RESTATEMENT_POLICY = Inr ()"
  by (simp add: authorization_policy_check_def REQUIRED_RESTATEMENT_POLICY_def deterministic_presentations_def blank_def)

lemma acknowledgment_error_None:
  assumes "acknowledgment_error e requirement ack = None" "\<not> blank (vp_required_presentation_acknowledgment e)"
  obtains r a where "requirement = Some r" "ack = Some a" "pq_quality_gate r = DETERMINISTIC_ACKNOWLEDGMENT"
    "vp_required_presentation_acknowledgment e = Some (ak_acknowledgment_type a)" "ak_artifact_id a \<noteq> []"
    "ak_source a \<in> vp_accepted_presentation_acknowledgment_sources e"
    "pq_required_fact_keys r \<subseteq> ak_acknowledged_fact_keys a"
  using assms by (cases requirement; cases ack) (auto simp: acknowledgment_error_def split: if_splits)

lemma validate_evidence_Inr:
  assumes "validate_evidence c policy requirement ack = Inr v"
  obtains pres where "rt_customer_turn_id c \<noteq> ''unknown-turn''" "rt_presentation_turn_id c = Some pres" "pres \<noteq> []"
    "rt_confirmation_turn_id c = Some (rt_customer_turn_id c)" "rt_customer_turn_id c \<noteq> []" "pres \<noteq> rt_customer_turn_id c"
    "rt_confirmation_method c = Some (confirmation_text (az_decision_policy policy))"
    "\<exists>s. rt_confirmation_source c = Some s \<and> s \<in> vp_accepted_sources (az_evidence_policy policy)"
    "acknowledgment_error (az_evidence_policy policy) requirement ack = None"
    "v = \<lparr>ve_customer_turn_id = rt_customer_turn_id c, ve_presentation_turn_id = pres,
          ve_decision_turn_id = rt_customer_turn_id c, ve_protected_evidence = protected_evidence c ack\<rparr>"
proof -
  have a: "rt_customer_turn_id c \<noteq> ''unknown-turn'' \<and> \<not> blank (rt_presentation_turn_id c) \<and> \<not> blank (rt_confirmation_turn_id c)
    \<and> rt_confirmation_turn_id c \<noteq> rt_presentation_turn_id c \<and> rt_confirmation_turn_id c = Some (rt_customer_turn_id c)
    \<and> rt_confirmation_method c = Some (confirmation_text (az_decision_policy policy))
    \<and> (\<exists>s. rt_confirmation_source c = Some s \<and> s \<in> vp_accepted_sources (az_evidence_policy policy))
    \<and> acknowledgment_error (az_evidence_policy policy) requirement ack = None
    \<and> v = \<lparr>ve_customer_turn_id = rt_customer_turn_id c, ve_presentation_turn_id = the (rt_presentation_turn_id c),
          ve_decision_turn_id = the (rt_confirmation_turn_id c), ve_protected_evidence = protected_evidence c ack\<rparr>"
    using assms by (auto simp: validate_evidence_def require_customer_turn_def Let_def split: if_splits option.splits)
  then obtain pres where "rt_presentation_turn_id c = Some pres" by (auto simp: blank_def)
  with a that show thesis by (auto simp: blank_def)
qed

text \<open>The compatibility check of the runtime context is the evidence validator under the general
  acknowledgment policy: same accepted contexts, same exception on every refusal, whatever presentation
  contract or acknowledgment is supplied.\<close>

theorem verbal_confirmation_equivalent:
  "bindR (validate_evidence c GENERAL_ACKNOWLEDGMENT_POLICY requirement ack) (\<lambda>_. Inr ()) = require_confirmation c"
  by (auto simp: validate_evidence_def require_confirmation_def require_customer_turn_def Let_def
      GENERAL_ACKNOWLEDGMENT_POLICY_def acknowledgment_error_def blank_def split: option.splits)

lemma required_header_Inr:
  "required_header h name n = Inr v \<Longrightarrow> v = header_text h name \<and> v \<noteq> [] \<and> length v \<le> n"
  by (auto simp: required_header_def Let_def split: if_splits)

lemma from_headers_fields:
  assumes "from_headers headers = Inr c"
  shows "rt_customer_turn_id c = header_text (lowercase_headers headers) ''x-customer-turn-id''"
    "rt_presentation_turn_id c = optional_header (lowercase_headers headers) ''x-proposal-presentation-turn-id''"
    "rt_confirmation_source c = optional_header (lowercase_headers headers) ''x-proposal-confirmation-source''"
  using assms unfolding from_headers_def Let_def
  by (elim run_elims; auto dest: required_header_Inr)+

lemma protected_parts:
  assumes headers: "from_headers headers = Inr c"
    and policy: "authorization_policy_check policy = Inr ()"
    and ok: "validate_evidence c policy requirement ack = Inr v"
  shows "ve_decision_turn_id v = header_text (lowercase_headers headers) ''x-customer-turn-id''
      \<and> ve_presentation_turn_id v = header_text (lowercase_headers headers) ''x-proposal-presentation-turn-id''"
    and "ve_decision_turn_id v \<noteq> ''unknown-turn'' \<and> ve_decision_turn_id v \<noteq> []
      \<and> ve_presentation_turn_id v \<noteq> [] \<and> ve_presentation_turn_id v \<noteq> ve_decision_turn_id v"
    and "header_text (lowercase_headers headers) ''x-proposal-confirmation-source''
      \<in> vp_accepted_sources (az_evidence_policy policy)"
    and "az_presentation_policy policy \<noteq> FLEXIBLE_SUMMARY \<longrightarrow>
      (\<exists>r a. requirement = Some r \<and> ack = Some a \<and> pq_required_fact_keys r \<subseteq> ak_acknowledged_fact_keys a
        \<and> ak_source a \<in> vp_accepted_presentation_acknowledgment_sources (az_evidence_policy policy))"
proof -
  obtain pres where v: "rt_customer_turn_id c \<noteq> ''unknown-turn''" "rt_presentation_turn_id c = Some pres" "pres \<noteq> []"
      "rt_customer_turn_id c \<noteq> []" "pres \<noteq> rt_customer_turn_id c"
      "\<exists>s. rt_confirmation_source c = Some s \<and> s \<in> vp_accepted_sources (az_evidence_policy policy)"
      "acknowledgment_error (az_evidence_policy policy) requirement ack = None"
      "ve_decision_turn_id v = rt_customer_turn_id c" "ve_presentation_turn_id v = pres"
    using validate_evidence_Inr [OF ok] by (metis validated_evidence.select_convs(2,3))
  note h = from_headers_fields [OF headers]
  show "ve_decision_turn_id v = header_text (lowercase_headers headers) ''x-customer-turn-id''
      \<and> ve_presentation_turn_id v = header_text (lowercase_headers headers) ''x-proposal-presentation-turn-id''"
    using v h by (simp add: optional_header_def Let_def split: if_splits)
  show "ve_decision_turn_id v \<noteq> ''unknown-turn'' \<and> ve_decision_turn_id v \<noteq> []
      \<and> ve_presentation_turn_id v \<noteq> [] \<and> ve_presentation_turn_id v \<noteq> ve_decision_turn_id v"
    using v by simp
  show "header_text (lowercase_headers headers) ''x-proposal-confirmation-source''
      \<in> vp_accepted_sources (az_evidence_policy policy)"
    using v(6) h(3) by (auto simp: optional_header_def Let_def split: if_splits)
  show "az_presentation_policy policy \<noteq> FLEXIBLE_SUMMARY \<longrightarrow>
      (\<exists>r a. requirement = Some r \<and> ack = Some a \<and> pq_required_fact_keys r \<subseteq> ak_acknowledged_fact_keys a
        \<and> ak_source a \<in> vp_accepted_presentation_acknowledgment_sources (az_evidence_policy policy))"
  proof
    assume "az_presentation_policy policy \<noteq> FLEXIBLE_SUMMARY"
    then have "az_presentation_policy policy \<in> deterministic_presentations"
      by (cases "az_presentation_policy policy") (auto simp: deterministic_presentations_def)
    with policy have "\<not> blank (vp_required_presentation_acknowledgment (az_evidence_policy policy))"
      by (auto simp: authorization_policy_check_def Let_def split: if_splits)
    from acknowledgment_error_None [OF v(7) this]
    show "\<exists>r a. requirement = Some r \<and> ack = Some a \<and> pq_required_fact_keys r \<subseteq> ak_acknowledged_fact_keys a
        \<and> ak_source a \<in> vp_accepted_presentation_acknowledgment_sources (az_evidence_policy policy)"
      by metis
  qed
qed

text \<open>C17. Evidence accepted under a checked policy comes from the transport headers alone: the decision turn is
  the current, real customer turn, the presentation turn is another one, the source is one the policy
  accepts, and a deterministic presentation was acknowledged by a trusted renderer for every fact its
  contract requires.\<close>

theorem evidence_is_protected:
  assumes "from_headers headers = Inr c" "authorization_policy_check policy = Inr ()"
    and "validate_evidence c policy requirement ack = Inr v"
  shows "ve_decision_turn_id v = header_text (lowercase_headers headers) ''x-customer-turn-id''
      \<and> ve_presentation_turn_id v = header_text (lowercase_headers headers) ''x-proposal-presentation-turn-id''
      \<and> ve_decision_turn_id v \<noteq> ''unknown-turn'' \<and> ve_decision_turn_id v \<noteq> []
      \<and> ve_presentation_turn_id v \<noteq> [] \<and> ve_presentation_turn_id v \<noteq> ve_decision_turn_id v
      \<and> header_text (lowercase_headers headers) ''x-proposal-confirmation-source'' \<in> vp_accepted_sources (az_evidence_policy policy)
      \<and> (az_presentation_policy policy \<noteq> FLEXIBLE_SUMMARY \<longrightarrow>
          (\<exists>r a. requirement = Some r \<and> ack = Some a \<and> pq_required_fact_keys r \<subseteq> ak_acknowledged_fact_keys a
            \<and> ak_source a \<in> vp_accepted_presentation_acknowledgment_sources (az_evidence_policy policy)))"
  using protected_parts [OF assms] by blast

definition sample_headers :: "(string \<times> string) list" where
  "sample_headers =
     [(''X-Support-Session-Id'', ''S1''), (''X-Runtime-Name'', ''ces''), (''X-Runtime-Session-Id'', ''R1''),
      (''X-Customer-Turn-Id'', '' turn-2 ''), (''X-Reset-Generation'', ''1''),
      (''x-proposal-presentation-turn-id'', ''turn-1''), (''x-proposal-confirmation-turn-id'', ''turn-2''),
      (''x-proposal-confirmation-method'', ''EXPLICIT_VERBAL''), (''x-proposal-confirmation-source'', ''MODEL_TOOL_INTENT'')]"

definition sample_runtime :: runtime_context where
  "sample_runtime =
     \<lparr>rt_support_session_id = ''S1'', rt_runtime_name = ''ces'', rt_runtime_session_id = ''R1'',
      rt_customer_turn_id = ''turn-2'', rt_reset_generation = ''1'', rt_catalog_snapshot_id = None,
      rt_presentation_turn_id = Some ''turn-1'', rt_confirmation_turn_id = Some ''turn-2'',
      rt_confirmation_method = Some ''EXPLICIT_VERBAL'', rt_confirmation_source = Some ''MODEL_TOOL_INTENT''\<rparr>"

definition sample_requirement :: presentation_requirement where
  "sample_requirement = \<lparr>pq_required_fact_keys = {''amount''}, pq_quality_gate = DETERMINISTIC_ACKNOWLEDGMENT,
     pq_natural_language_allowed = False, pq_disclosure_reference = None\<rparr>"

definition sample_acknowledgment :: acknowledgment where
  "sample_acknowledgment = \<lparr>ak_acknowledgment_type = ''DETERMINISTIC_REQUIRED_FACTS_RENDERED'',
     ak_source = ''TRUSTED_RENDERER'', ak_acknowledged_fact_keys = {''amount''}, ak_artifact_id = ''A1''\<rparr>"

lemma sample_headers_read: "from_headers sample_headers = Inr sample_runtime"
  by code_simp

lemma sample_evidence:
  "\<exists>v. validate_evidence sample_runtime REQUIRED_RESTATEMENT_POLICY (Some sample_requirement) (Some sample_acknowledgment) = Inr v"
  by (simp add: validate_evidence_def require_customer_turn_def sample_runtime_def REQUIRED_RESTATEMENT_POLICY_def
      sample_requirement_def sample_acknowledgment_def acknowledgment_error_def blank_def)

lemma evidence_is_protected_witness:
  "\<exists>v. validate_evidence sample_runtime REQUIRED_RESTATEMENT_POLICY (Some sample_requirement) (Some sample_acknowledgment) = Inr v
     \<and> ve_presentation_turn_id v \<noteq> ve_decision_turn_id v"
  using sample_evidence evidence_is_protected [OF sample_headers_read restatement_policy_checked] by blast

section \<open>What the registry serves\<close>

definition not_after :: "'h action_specification \<Rightarrow> 'h action_specification \<Rightarrow> bool" where
  "not_after s' s \<longleftrightarrow> sp_definition_id s' = sp_definition_id s \<and> sp_definition_revision s' \<le> sp_definition_revision s"

text \<open>Why a specification may be the one its action type is served with.\<close>

definition served_ok :: "(string \<times> int) list option \<Rightarrow> 'h action_specification list \<Rightarrow> string \<Rightarrow> 'h action_specification \<Rightarrow> bool" where
  "served_ok published seen t s \<longleftrightarrow> s \<in> set seen \<and> sp_action_type s = t
     \<and> (case published of
          Some keys \<Rightarrow> spec_key s \<in> set keys
        | None \<Rightarrow> (\<forall>s'\<in>set seen. sp_action_type s' = t \<longrightarrow> not_after s' s))"

definition serves :: "(string \<times> int) list option \<Rightarrow> 'h action_specification list \<Rightarrow> 'h action_registry \<Rightarrow> bool" where
  "serves published seen r \<longleftrightarrow>
     rg_versions r = map (\<lambda>s. (spec_key s, s)) seen \<and> distinct (map spec_key seen)
     \<and> (\<forall>t s. map_of (rg_specifications r) t = Some s \<longrightarrow> served_ok published seen t s)
     \<and> (published = None \<longrightarrow> (\<forall>s\<in>set seen. map_of (rg_specifications r) (sp_action_type s) \<noteq> None))"

lemma serves_served_ok: "serves published seen r \<Longrightarrow> map_of (rg_specifications r) t = Some s \<Longrightarrow> served_ok published seen t s"
  by (simp add: serves_def)

lemma register_Inr:
  assumes "register published r item = Inr r'"
  shows "spec_key item \<notin> fst ` set (rg_versions r)"
    and "\<And>c. map_of (rg_specifications r) (sp_action_type item) = Some c \<Longrightarrow> sp_definition_id c = sp_definition_id item"
    and "rg_versions r' = rg_versions r @ [(spec_key item, item)]"
    and "map_of (rg_specifications r') = (if serve_item published r item
           then (map_of (rg_specifications r))(sp_action_type item \<mapsto> item) else map_of (rg_specifications r))"
  using assms unfolding register_def by (auto split: if_split_asm option.split_asm simp del: fun_upd_apply)

lemma serves_latest:
  "serves None seen r \<Longrightarrow> s \<in> set seen \<Longrightarrow> \<exists>c. map_of (rg_specifications r) (sp_action_type s) = Some c"
  "serves None seen r \<Longrightarrow> map_of (rg_specifications r) t = Some c \<Longrightarrow> s' \<in> set seen \<Longrightarrow> sp_action_type s' = t \<Longrightarrow> not_after s' c"
  unfolding serves_def served_ok_def by (simp_all only: option.case) blast+

lemma serves_own:
  "serves published seen r \<Longrightarrow> map_of (rg_specifications r) t = Some s \<Longrightarrow> s \<in> set seen \<and> sp_action_type s = t"
  "serves (Some keys) seen r \<Longrightarrow> map_of (rg_specifications r) t = Some s \<Longrightarrow> spec_key s \<in> set keys"
  by (drule (1) serves_served_ok, simp add: served_ok_def)+

lemma require_action_Inr [simp]: "require_action r t = Inr s \<longleftrightarrow> map_of (rg_specifications r) t = Some s"
  by (simp add: require_action_def split: option.split)

lemma register_serves:
  assumes r: "serves published seen r" and reg: "register published r item = Inr r'"
  shows "serves published (seen @ [item]) r'"
proof -
  note new = register_Inr [OF reg]
  have vs: "rg_versions r = map (\<lambda>s. (spec_key s, s)) seen" and dist: "distinct (map spec_key seen)"
    using r by (simp_all add: serves_def)
  have served: "served_ok published (seen @ [item]) t s" if m: "map_of (rg_specifications r') t = Some s" for t s
  proof (cases "serve_item published r item \<and> sp_action_type item = t")
    case True
    then have s: "s = item" using m new(4) by simp
    have older: "not_after s' item"
      if s': "published = None" "s' \<in> set seen" "sp_action_type s' = t" for s'
    proof -
      have rN: "serves None seen r" using r s'(1) by simp
      obtain c where c: "map_of (rg_specifications r) t = Some c"
        using serves_latest(1) [OF rN s'(2)] s'(3) by auto
      note serves_latest(2) [OF rN c s'(2,3)]
      moreover have "sp_definition_id c = sp_definition_id item" using new(2) c True by simp
      moreover have "sp_definition_revision c < sp_definition_revision item"
        using True s'(1) c by (auto simp: serve_item_def)
      ultimately show ?thesis by (simp add: not_after_def)
    qed
    moreover have "not_after item item" by (simp add: not_after_def)
    ultimately show ?thesis using s True by (cases published) (auto simp: served_ok_def serve_item_def)
  next
    case False
    then have m': "map_of (rg_specifications r) t = Some s" using m new(4) by (auto split: if_splits)
    note old = serves_served_ok [OF r m']
    have "not_after item s" if "published = None" "sp_action_type item = t"
      using that False m' new(2) by (auto simp: serve_item_def not_after_def)
    with old show ?thesis by (cases published) (auto simp: served_ok_def)
  qed
  have "map_of (rg_specifications r') (sp_action_type s) \<noteq> None"
    if p: "published = None" and s: "s \<in> set (seen @ [item])" for s
  proof (cases "s \<in> set seen")
    case True
    then have "map_of (rg_specifications r) (sp_action_type s) \<noteq> None" using r p by (simp add: serves_def)
    then show ?thesis using new(4) by (auto split: if_splits)
  next
    case False
    with s have "s = item" by simp
    then show ?thesis using new(4) p by (auto simp: serve_item_def split: option.splits if_splits)
  qed
  moreover have "distinct (map spec_key (seen @ [item]))"
    using dist new(1) vs by (simp add: image_image)
  ultimately show ?thesis
    using served new(3) vs unfolding serves_def by simp
qed

lemma register_all_serves:
  "serves published seen r \<Longrightarrow> register_all published r specs = Inr r' \<Longrightarrow> serves published (seen @ specs) r'"
proof (induction specs arbitrary: seen r)
  case (Cons s ss)
  from Cons.prems(2) obtain r1 where r1: "register published r s = Inr r1" "register_all published r1 ss = Inr r'"
    by auto
  have "serves published (seen @ [s]) r1" using Cons.prems(1) r1(1) by (rule register_serves)
  from Cons.IH [OF this r1(2)] show ?case by simp
qed simp

lemma build_registry_serves: "build_registry published specs = Inr r \<Longrightarrow> serves published specs r"
  using register_all_serves [of published "[]" "\<lparr>rg_versions = [], rg_specifications = []\<rparr>" specs r]
  by (simp add: build_registry_def serves_def)

lemma map_of_spec_key:
  "distinct (map spec_key specs) \<Longrightarrow>
   map_of (map (\<lambda>s. (spec_key s, s)) specs) k = Some s \<longleftrightarrow> s \<in> set specs \<and> spec_key s = k"
  by (induction specs) (auto simp: image_iff)

lemma registry_parts:
  assumes built: "build_registry published specs = Inr r"
  shows "resolve_action r i v g = Inr s \<longleftrightarrow>
      s \<in> set specs \<and> sp_definition_id s = i \<and> sp_definition_revision s = v \<and> sp_definition_digest s = g"
    and "for_proposal r p = Inr s \<longleftrightarrow>
      s \<in> set specs \<and> sp_definition_id s = tm_definition_id (pp_terms p)
      \<and> sp_definition_revision s = tm_definition_revision (pp_terms p)
      \<and> sp_definition_digest s = tm_definition_digest (pp_terms p)
      \<and> sp_action_type s = tm_action_type (pp_terms p) \<and> sp_contract_version s = tm_contract_version (pp_terms p)"
    and "require_action r t = Inr s \<Longrightarrow> s \<in> set specs \<and> sp_action_type s = t"
    and "published = Some keys \<Longrightarrow> require_action r t = Inr s \<Longrightarrow> (sp_definition_id s, sp_definition_revision s) \<in> set keys"
    and "published = None \<Longrightarrow> require_action r t = Inr s \<Longrightarrow> s' \<in> set specs \<Longrightarrow> sp_action_type s' = t \<Longrightarrow>
      sp_definition_id s' = sp_definition_id s \<and> sp_definition_revision s' \<le> sp_definition_revision s"
proof -
  have r: "serves published specs r" using built by (rule build_registry_serves)
  show res: "resolve_action r i v g = Inr s \<longleftrightarrow>
      s \<in> set specs \<and> sp_definition_id s = i \<and> sp_definition_revision s = v \<and> sp_definition_digest s = g" for i v g
  proof -
    have "map_of (rg_versions r) (i, v) = Some s \<longleftrightarrow> s \<in> set specs \<and> spec_key s = (i, v)"
      using r by (simp add: serves_def map_of_spec_key)
    moreover have "resolve_action r i v g = Inr s \<longleftrightarrow> map_of (rg_versions r) (i, v) = Some s \<and> sp_definition_digest s = g"
      by (auto simp: resolve_action_def split: option.split)
    ultimately show ?thesis by (auto simp: spec_key_def)
  qed
  show "for_proposal r p = Inr s \<longleftrightarrow>
      s \<in> set specs \<and> sp_definition_id s = tm_definition_id (pp_terms p)
      \<and> sp_definition_revision s = tm_definition_revision (pp_terms p)
      \<and> sp_definition_digest s = tm_definition_digest (pp_terms p)
      \<and> sp_action_type s = tm_action_type (pp_terms p) \<and> sp_contract_version s = tm_contract_version (pp_terms p)"
    unfolding for_proposal_def Let_def by (auto simp: res split: if_splits)
  show "require_action r t = Inr s \<Longrightarrow> s \<in> set specs \<and> sp_action_type s = t"
    using serves_own(1) [OF r] by simp
  show "published = Some keys \<Longrightarrow> require_action r t = Inr s \<Longrightarrow> (sp_definition_id s, sp_definition_revision s) \<in> set keys"
    using serves_own(2) [of keys specs r t s] r by (simp add: spec_key_def)
  show "published = None \<Longrightarrow> require_action r t = Inr s \<Longrightarrow> s' \<in> set specs \<Longrightarrow> sp_action_type s' = t \<Longrightarrow>
      sp_definition_id s' = sp_definition_id s \<and> sp_definition_revision s' \<le> sp_definition_revision s"
    using serves_latest(2) [of specs r t s s'] r by (simp add: not_after_def)
qed

text \<open>A built registry resolves exactly the specifications it was built from, each under its own id,
  revision and digest, so a pinned proposal is served its own version or refused; a new proposal gets a
  published version of its action type and, without a publication list, the latest revision.\<close>

theorem registry_pins_versions:
  assumes "build_registry published specs = Inr r"
  shows "(resolve_action r i v g = Inr s \<longleftrightarrow>
      s \<in> set specs \<and> sp_definition_id s = i \<and> sp_definition_revision s = v \<and> sp_definition_digest s = g)
    \<and> (for_proposal r p = Inr s \<longleftrightarrow>
      s \<in> set specs \<and> sp_definition_id s = tm_definition_id (pp_terms p)
      \<and> sp_definition_revision s = tm_definition_revision (pp_terms p)
      \<and> sp_definition_digest s = tm_definition_digest (pp_terms p)
      \<and> sp_action_type s = tm_action_type (pp_terms p) \<and> sp_contract_version s = tm_contract_version (pp_terms p))
    \<and> (require_action r t = Inr s \<longrightarrow> s \<in> set specs \<and> sp_action_type s = t
      \<and> (\<forall>keys. published = Some keys \<longrightarrow> (sp_definition_id s, sp_definition_revision s) \<in> set keys)
      \<and> (published = None \<longrightarrow> (\<forall>s' \<in> set specs. sp_action_type s' = t \<longrightarrow>
          sp_definition_id s' = sp_definition_id s \<and> sp_definition_revision s' \<le> sp_definition_revision s)))"
proof (intro conjI impI allI ballI)
  show "resolve_action r i v g = Inr s \<longleftrightarrow>
      s \<in> set specs \<and> sp_definition_id s = i \<and> sp_definition_revision s = v \<and> sp_definition_digest s = g"
    by (rule registry_parts(1) [OF assms])
  show "for_proposal r p = Inr s \<longleftrightarrow>
      s \<in> set specs \<and> sp_definition_id s = tm_definition_id (pp_terms p)
      \<and> sp_definition_revision s = tm_definition_revision (pp_terms p)
      \<and> sp_definition_digest s = tm_definition_digest (pp_terms p)
      \<and> sp_action_type s = tm_action_type (pp_terms p) \<and> sp_contract_version s = tm_contract_version (pp_terms p)"
    by (rule registry_parts(2) [OF assms])
qed (use registry_parts(3-5) [OF assms] in blast)+

definition sample_specification :: "int \<Rightarrow> unit action_specification" where
  "sample_specification revision =
     \<lparr>sp_action_type = ''REISSUE_CARD'', sp_contract_version = ''card-reissue.v1'', sp_payload_schema = [],
      sp_scope_resolver = (\<lambda>p. (tm_customer_id (pp_terms p), tm_account_id (pp_terms p))),
      sp_authorization_policy = GENERAL_ACKNOWLEDGMENT_POLICY,
      sp_presentation_requirement = \<lparr>pq_required_fact_keys = {''card_last_four''}, pq_quality_gate = RELEASE_EVALUATION,
        pq_natural_language_allowed = True, pq_disclosure_reference = None\<rparr>,
      sp_handler = (), sp_definition_id = ''card-reissue'', sp_definition_revision = revision,
      sp_definition_digest = (if revision = 1 then ''d1'' else ''d2''), sp_result_schema = []\<rparr>"

definition sample_registry :: "unit action_registry" where
  "sample_registry = \<lparr>rg_versions = [((''card-reissue'', 1), sample_specification 1), ((''card-reissue'', 2), sample_specification 2)],
     rg_specifications = [(''REISSUE_CARD'', sample_specification 2)]\<rparr>"

lemma sample_registry_built: "build_registry None [sample_specification 1, sample_specification 2] = Inr sample_registry"
  by (simp add: build_registry_def register_def serve_item_def spec_key_def sample_registry_def)
    (simp add: sample_specification_def)

lemma registry_pins_versions_witness:
  "resolve_action sample_registry ''card-reissue'' 1 ''d1'' = Inr (sample_specification 1)
   \<and> resolve_action sample_registry ''card-reissue'' 1 ''d2'' \<noteq> Inr (sample_specification 1)
   \<and> require_action sample_registry ''REISSUE_CARD'' = Inr (sample_specification 2)"
  using registry_pins_versions [OF sample_registry_built, of "''card-reissue''" 1 "''d1''" "sample_specification 1"]
    registry_pins_versions [OF sample_registry_built, of "''card-reissue''" 1 "''d2''" "sample_specification 1"]
  by (simp add: sample_specification_def sample_registry_def)

end
