(* ===== verification/Proposal_Errors.thy ===== *)
theory Proposal_Errors
  imports Proposal_Protocol Decisioning
begin

text \<open>
  The failures of the proposal boundary (\<^verbatim>\<open>services/proposal_lifecycle.py\<close>): the exception classes with
  their stable code, recovery class and customer message, the structured refusal metadata of a credit
  decision, and the customer-safe result of a failure.  A failure is either one of these or an exception of
  the code below (\<open>Raised\<close>).
\<close>

section \<open>Texts\<close>

text \<open>\<open>date.isoformat()\<close> of a day count since the epoch (proleptic Gregorian calendar).\<close>

definition civil_date :: "int \<Rightarrow> int \<times> int \<times> int" where
  "civil_date days =
     (let z = days + 719468; era = z div 146097; doe = z mod 146097;
          yoe = (doe - doe div 1460 + doe div 36524 - doe div 146096) div 365;
          doy = doe - (365 * yoe + yoe div 4 - yoe div 100);
          mp = (5 * doy + 2) div 153;
          month = (if mp < 10 then mp + 3 else mp - 9)
      in (yoe + era * 400 + (if month \<le> 2 then 1 else 0), month, doy - (153 * mp + 2) div 5 + 1))"

definition iso_date :: "int \<Rightarrow> string" where
  "iso_date days = (case civil_date days of (y, m, d) \<Rightarrow>
     zero_pad 4 (nat y) @ ''-'' @ zero_pad 2 (nat m) @ ''-'' @ zero_pad 2 (nat d))"

lemma iso_date_examples:
  "iso_date 0 = ''1970-01-01''" "iso_date 11016 = ''2000-02-29''" "iso_date 20453 = ''2025-12-31''"
  by code_simp+

definition usd :: "int \<Rightarrow> string" where
  "usd amount = (if amount < 0 then ''-'' else []) @ ''$'' @ with_commas (nat (\<bar>amount\<bar> div 100)) @ ''.''
     @ zero_pad 2 (nat (\<bar>amount\<bar> mod 100))"

text \<open>The amount of Money in a dictionary; the callers pass a dumped Money.\<close>

definition minor_of :: "pyval \<Rightarrow> int" where
  "minor_of v = (case dict_get v ''amount_minor'' of PInt n \<Rightarrow> n | _ \<Rightarrow> 0)"

text \<open>
  \<open>credit_refusal_message\<close>: a function of the bounded refusal facts, the outcome, the amount asked for and the
  amount offered.
\<close>

definition credit_refusal_message :: "refusal_facts \<Rightarrow> pyval \<Rightarrow> pyval \<Rightarrow> pyval \<Rightarrow> string" where
  "credit_refusal_message r oc requested offer =
     (let name = rf_product_name r;
          current = usd (amount_minor (rf_current_limit r));
          maximum = usd (amount_minor (rf_product_maximum r));
          instant = rf_max_instantly_approvable r;
          preapproved = (if amount_minor (rf_current_limit r) < amount_minor instant
            then '' You're pre-approved for a limit of up to '' @ usd (amount_minor instant) @ '' without a credit check.'' else []);
          unchanged = '' No limit has changed.'';
          asked = (if truthy requested then usd (minor_of requested) @ '' '' else [])
      in case rf_reason_code r of
        ABOVE_PRODUCT_MAXIMUM \<Rightarrow>
          ''A '' @ asked @ ''limit is above the maximum for your '' @ name @ '' card. The card's current limit is ''
          @ current @ '' and its maximum credit limit is '' @ maximum @ ''.''
          @ (if rf_current_limit r = rf_product_maximum r then '' The card is already at its maximum limit.'' else [])
          @ preapproved @ '' A higher limit would need a different card; a specialist can review upgrade options.'' @ unchanged
      | COOLING_OFF_ACTIVE \<Rightarrow>
          ''The limit on your '' @ name @ '' card was increased recently. You can request another increase on or after ''
          @ (case rf_retry_after r of Some day \<Rightarrow> iso_date day | None \<Rightarrow> ''later'') @ ''.'' @ unchanged
      | INCOME_CONFIRMATION_REQUIRED \<Rightarrow>
          ''Before we can review a higher limit on your '' @ name
          @ '' card, we need to confirm your current income. A specialist can help.'' @ unchanged
      | CREDIT_PROFILE_INELIGIBLE \<Rightarrow>
          ''We can't approve a higher limit on your '' @ name @ '' card right now. A specialist can review your account.'' @ unchanged
      | INQUIRY_CONSENT_REQUIRED \<Rightarrow>
          ''A '' @ asked @ ''limit on your '' @ name
          @ '' card needs a credit check that requires your consent. Prepare the request again to review the disclosure.''
          @ preapproved @ unchanged
      | code \<Rightarrow>
          (if oc = PStr ''COUNTEROFFER'' \<and> offer \<noteq> PNone
           then ''We can't approve a '' @ asked @ ''limit on your '' @ name @ '' card, but we can offer a limit of ''
             @ usd (minor_of offer) @ ''. If you'd like it, ask for the '' @ usd (minor_of offer) @ '' limit and confirm it.'' @ unchanged
           else if code = BUREAU_DECLINED
           then ''Based on the credit check, we can't approve a higher limit on your '' @ name
             @ '' card right now. A notice with the reasons is in your secure inbox.'' @ unchanged
           else if code \<in> {LIMIT_CEILING_EXCEEDED, INCOME_CAP_EXCEEDED}
           then ''Based on the income we have on file, we can't raise the limit on your '' @ name @ '' card above '' @ current
             @ ''. You can update your income or ask a specialist for a review.'' @ unchanged
           else ''We can't approve a higher limit on your '' @ name @ '' card right now.'' @ preapproved @ unchanged))"

section \<open>Failures\<close>

text \<open>\<open>PolicyEvaluationEvidence\<close>: dictionaries, or \<open>PNone\<close>.\<close>

record policy_evidence =
  pe_policy :: pyval
  pe_facts :: pyval
  pe_requested_limit :: pyval
  pe_reason_code :: string
  pe_definition :: pyval
  pe_approved_facts :: pyval
  pe_bank_decision :: pyval
  pe_decision_failure :: "string option"
  pe_decision_policy :: pyval
  pe_decision_request :: pyval

record adverse_notice =
  an_key :: string
  an_subject :: string
  an_body :: string

record refusal_details =
  rd_refusal_facts :: "refusal_facts option"
  rd_inquiry_type :: pyval
  rd_counteroffer :: "counteroffer_terms option"
  rd_offered_limit :: pyval
  rd_retryable :: bool
  rd_adverse_action :: "adverse_notice option"

datatype failure_class =
  ProposalError | ProposalConflictError | ProposalTransitionError | ProposalScopeError
| ActiveProposalExistsError | ProposalPolicyError | ActionPreconditionError

record proposal_failure =
  pf_class :: failure_class
  pf_message :: string
  pf_code :: string
  pf_recovery_class :: recovery_class
  pf_customer_message :: string
  pf_proposal :: "action_proposal option"
  pf_reason :: string
  pf_details :: "refusal_details option"
  pf_policy_evidence :: "policy_evidence option"

datatype failure = Rejected proposal_failure | Raised py_error

type_synonym 'a attempt = "failure + 'a"

text \<open>The class attributes \<open>default_code\<close>, \<open>default_recovery_class\<close> and \<open>default_customer_message\<close>.\<close>

fun default_code :: "failure_class \<Rightarrow> string" where
  "default_code ProposalConflictError = ''PROPOSAL_CONFLICT''"
| "default_code ProposalTransitionError = ''PROPOSAL_STATE_INVALID''"
| "default_code ActionPreconditionError = ''PROPOSAL_STATE_INVALID''"
| "default_code ProposalScopeError = ''PROPOSAL_SCOPE_MISMATCH''"
| "default_code ActiveProposalExistsError = ''ACTIVE_PROPOSAL_EXISTS''"
| "default_code _ = ''PROPOSAL_REJECTED''"

fun default_recovery :: "failure_class \<Rightarrow> recovery_class" where
  "default_recovery ProposalScopeError = REFRESH_SESSION"
| "default_recovery ActiveProposalExistsError = RESOLVE_ACTIVE_PROPOSAL"
| "default_recovery _ = CORRECT_REQUEST"

fun default_customer_message :: "failure_class \<Rightarrow> string" where
  "default_customer_message ProposalScopeError = ''The action proposal is not available in this customer support session.''"
| "default_customer_message ActiveProposalExistsError = ''Resolve the current action proposal before proposing another action.''"
| "default_customer_message _ = ''The action proposal request was rejected.''"

definition new_failure :: "failure_class \<Rightarrow> string \<Rightarrow> proposal_failure" where
  "new_failure c message =
     \<lparr>pf_class = c, pf_message = message, pf_code = default_code c, pf_recovery_class = default_recovery c,
      pf_customer_message = default_customer_message c, pf_proposal = None, pf_reason = [], pf_details = None,
      pf_policy_evidence = None\<rparr>"

abbreviation fail :: "failure_class \<Rightarrow> string \<Rightarrow> failure" where
  "fail c message \<equiv> Rejected (new_failure c message)"

text \<open>Raising with an explicit code, recovery class and customer message.\<close>

definition coded_failure ::
    "failure_class \<Rightarrow> string \<Rightarrow> string \<Rightarrow> recovery_class \<Rightarrow> string \<Rightarrow> action_proposal option \<Rightarrow> failure" where
  "coded_failure c message code recovery customer_message p =
     Rejected ((new_failure c message)\<lparr>pf_code := code, pf_recovery_class := recovery,
       pf_customer_message := customer_message, pf_proposal := p\<rparr>)"

text \<open>
  \<open>_RefusalDetails._set_refusal\<close>: explicit facts win over those of the bank decision; metadata that does not
  validate is dropped altogether.
\<close>

definition set_refusal ::
    "pyval \<Rightarrow> refusal_facts option \<Rightarrow> pyval \<Rightarrow> counteroffer_terms option \<Rightarrow> bool option \<Rightarrow> adverse_notice option \<Rightarrow> refusal_details" where
  "set_refusal decision facts inquiry_type counteroffer retryable adverse_action =
     (let bd = (case decision of PDict kvs \<Rightarrow> PDict kvs | _ \<Rightarrow> PDict []);
          refusal = (case facts of Some r \<Rightarrow> Inr (Some r) | None \<Rightarrow> nullable refusal_validate (dict_get bd ''refusal''));
          counter = (case counteroffer of Some c \<Rightarrow> Inr (Some c) | None \<Rightarrow> nullable terms_validate (dict_get bd ''counteroffer''));
          (rf, co) = (case (refusal, counter) of (Inr rf, Inr co) \<Rightarrow> (rf, co) | _ \<Rightarrow> (None, None))
      in \<lparr>rd_refusal_facts = rf, rd_inquiry_type = py_or inquiry_type (dict_get bd ''inquiry_type''),
          rd_counteroffer = co,
          rd_offered_limit = (if co \<noteq> None then dict_get bd ''approved_limit'' else PNone),
          rd_retryable = (case retryable of Some b \<Rightarrow> b | None \<Rightarrow> (case rf of Some r \<Rightarrow> rf_retryable r | None \<Rightarrow> False)),
          rd_adverse_action = adverse_action\<rparr>)"

definition outcome_message :: "pyval \<Rightarrow> string" where
  "outcome_message oc =
     (if oc = PStr ''DECLINED'' then ''The bank decision declined this demo increase; no limit has changed.''
      else if oc = PStr ''NEEDS_INFORMATION''
      then ''The bank decision requires more information before approval; no increase has been approved or applied.''
      else if oc = PStr ''REFER_FOR_REVIEW''
      then ''The bank decision cannot approve this increase automatically. No review has been submitted and no limit has changed.''
      else ''This requested credit-limit increase is not eligible under the demo policy.'')"

text \<open>\<open>ProposalPolicyError(evidence, refusal_facts=, adverse_action=)\<close>.\<close>

definition policy_error :: "policy_evidence \<Rightarrow> refusal_facts option \<Rightarrow> adverse_notice option \<Rightarrow> failure" where
  "policy_error e facts adverse_action =
     (let oc = dict_get (pe_bank_decision e) ''outcome'';
          details = set_refusal (pe_bank_decision e) facts PNone None None adverse_action;
          message = (case rd_refusal_facts details of
              None \<Rightarrow> outcome_message oc
            | Some r \<Rightarrow> credit_refusal_message r oc (pe_requested_limit e) (rd_offered_limit details))
      in Rejected ((new_failure ProposalPolicyError ''Credit-limit demo policy refused the request.'')
           \<lparr>pf_code := pe_reason_code e,
            pf_customer_message := (if \<not> blank (pe_decision_failure e)
              then ''The bank approval could not be validated; no increase has been approved or applied.'' else message),
            pf_details := Some details, pf_policy_evidence := Some e\<rparr>))"

text \<open>\<open>ActionPreconditionError(message, reason=, policy_evidence=, refusal_facts=, inquiry_type=, counteroffer=, adverse_action=)\<close>.\<close>

definition precondition_error ::
    "string \<Rightarrow> string \<Rightarrow> policy_evidence option \<Rightarrow> refusal_facts option \<Rightarrow> pyval \<Rightarrow> counteroffer_terms option
     \<Rightarrow> adverse_notice option \<Rightarrow> failure" where
  "precondition_error message reason evidence facts inquiry_type counteroffer adverse_action =
     (let decision = (if facts \<noteq> None \<or> counteroffer \<noteq> None \<or> truthy inquiry_type
                      then (case evidence of Some e \<Rightarrow> pe_bank_decision e | None \<Rightarrow> PNone) else PNone);
          details = set_refusal decision facts inquiry_type counteroffer None adverse_action;
          customer_message = (case rd_refusal_facts details of
              None \<Rightarrow> ''The underlying account state changed. Review current information before creating a new proposal.''
            | Some r \<Rightarrow> credit_refusal_message r (dict_get decision ''outcome'')
                (case evidence of Some e \<Rightarrow> pe_requested_limit e | None \<Rightarrow> PNone) (rd_offered_limit details))
      in Rejected ((new_failure ActionPreconditionError message)
           \<lparr>pf_code := ''ACTION_PRECONDITION_CHANGED'', pf_recovery_class := CREATE_NEW_PROPOSAL,
            pf_customer_message := customer_message, pf_reason := reason, pf_details := Some details,
            pf_policy_evidence := evidence\<rparr>))"

section \<open>The customer-safe result\<close>

definition refusal_fields :: "refusal_details \<Rightarrow> (string \<times> pyval) list" where
  "refusal_fields rd =
     [(''retryable'', PBool (rd_retryable rd))]
     @ (case rd_refusal_facts rd of Some r \<Rightarrow> [(''refusal_facts'', refusal_dump r)] | None \<Rightarrow> [])
     @ (if rd_inquiry_type rd \<noteq> PNone then [(''inquiry_type'', rd_inquiry_type rd)] else [])
     @ (case rd_counteroffer rd of
          Some c \<Rightarrow> [(''counteroffer'', (case terms_dump c of
             PDict kvs \<Rightarrow> PDict (kvs @ [(''offered_limit'', rd_offered_limit rd)]) | v \<Rightarrow> v))]
        | None \<Rightarrow> [])"

definition safe_result :: "proposal_failure \<Rightarrow> (string \<times> pyval) list" where
  "safe_result f =
     [(''success'', PBool False), (''error'', PStr (pf_code f)),
      (''recovery_class'', PStr (recovery_class_text (pf_recovery_class f))),
      (''message'', PStr (pf_customer_message f))]
     @ (case pf_proposal f of
          Some p \<Rightarrow> [(''proposal_id'', PStr (pp_id p)), (''action_type'', PStr (tm_action_type (pp_terms p))),
                     (''status'', PStr (status_text (pp_status p)))]
        | None \<Rightarrow> [])
     @ (case (pf_class f, pf_details f) of
          (ProposalPolicyError, Some rd) \<Rightarrow> refusal_fields rd
        | (ActionPreconditionError, Some rd) \<Rightarrow>
            (if rd_refusal_facts rd \<noteq> None then (''reason_code'', PStr (pf_reason f)) # refusal_fields rd else [])
        | _ \<Rightarrow> [])"

text \<open>\<open>isinstance(exc, ValueError)\<close>: the proposal errors, \<open>RuntimeContextError\<close> and pydantic's error are.\<close>

fun is_value_error :: "failure \<Rightarrow> bool" where
  "is_value_error (Rejected f) = True"
| "is_value_error (Raised (ValueError _)) = True"
| "is_value_error (Raised (ValidationError _)) = True"
| "is_value_error (Raised (RuntimeContextError _)) = True"
| "is_value_error (Raised _) = False"

text \<open>Sequencing: an exception of the code below is a failure.\<close>

definition raised :: "'a res \<Rightarrow> 'a attempt" where
  "raised m = (case m of Inl e \<Rightarrow> Inl (Raised e) | Inr x \<Rightarrow> Inr x)"

lemma raised_simps [simp]: "raised (Inl e) = Inl (Raised e)" "raised (Inr x) = Inr x"
  by (simp_all add: raised_def)

lemma raised_Inr_iff [simp]: "raised m = Inr x \<longleftrightarrow> m = Inr x"
  by (cases m) auto

end
