(* ===== verification/Proposal_Evidence.thy ===== *)
theory Proposal_Evidence
  imports Proposal_Errors
begin

text \<open>
  Allow-listed evidence (\<^verbatim>\<open>services/proposal_evidence.py\<close>) and the audit events of the proposal protocol
  (\<^verbatim>\<open>services/proposal_audit.py\<close>).  A schema names the fields a snapshot may carry; \<open>project\<close> copies those and
  nothing else.  The digest, \<open>uuid5\<close>, the log salt, the build stamp and the clock are the record
  \<open>proposal_world\<close>; \<open>pw_json\<close> is the JSON text of a value in its own key order, so that \<open>json.dumps(sort_keys=True)\<close>
  is \<open>pw_json\<close> of the canonical value.  The source writes some of these texts with and some without escapes
  for non-ASCII characters; the model's text is one function, which is exact for ASCII content.  A \<open>PTime\<close> in a JSON value stands for the text of that timestamp, so every
  value of the model can be serialised.
\<close>

section \<open>Canonical values\<close>

primrec canonical :: "pyval \<Rightarrow> pyval" where
  "canonical PNone = PNone"
| "canonical (PBool b) = PBool b"
| "canonical (PInt n) = PInt n"
| "canonical (PFloat x) = PFloat x"
| "canonical (PStr s) = PStr s"
| "canonical (PTime t) = PTime t"
| "canonical (PList vs) = PList (map canonical vs)"
| "canonical (PDict kvs) = PDict (sort_key fst (map (map_prod id canonical) kvs))"

lemma sort_key_map_same: "(\<And>x. f (g x) = f x) \<Longrightarrow> sort_key f (map g xs) = map g (sort_key f xs)"
proof (induction xs)
  case (Cons x xs)
  have "insort_key f (g x) (map g ys) = map g (insort_key f x ys)" for ys
    by (induction ys) (auto simp: Cons.prems)
  with Cons show ?case by simp
qed simp

lemma sort_key_idem: "sort_key f (sort_key f xs) = sort_key f xs"
  by (rule sort_key_id_if_sorted) simp

lemma canonical_idem [simp]: "canonical (canonical v) = canonical v"
proof (induction v)
  case (PList vs)
  then show ?case by simp
next
  case (PDict kvs)
  have "map (map_prod id canonical) (map (map_prod id canonical) kvs) = map (map_prod id canonical) kvs"
    using PDict by (auto simp: map_prod_def split: prod.splits)
  then show ?case by (simp add: sort_key_map_same sort_key_idem)
qed simp_all

record proposal_world =
  pw_json :: "pyval \<Rightarrow> string"
  pw_sha256 :: "string \<Rightarrow> string"
  pw_uuid5 :: "string \<Rightarrow> string"
  pw_salt :: string
  pw_build_version :: string
  pw_build_commit :: string
  pw_now :: int

definition json_text :: "proposal_world \<Rightarrow> pyval \<Rightarrow> string" where
  "json_text w v = pw_json w (canonical v)"

definition fingerprint :: "proposal_world \<Rightarrow> pyval \<Rightarrow> string" where
  "fingerprint w v = pw_sha256 w (json_text w v)"

text \<open>\<open>stable_log_reference\<close> (\<^verbatim>\<open>utils/log_safety.py\<close>).\<close>

definition stable_log_reference :: "proposal_world \<Rightarrow> string option \<Rightarrow> string \<Rightarrow> string" where
  "stable_log_reference w v kind =
     (case v of
        None \<Rightarrow> kind @ '':none''
      | Some s \<Rightarrow> if py_strip s = [] then kind @ '':none''
                  else kind @ '':'' @ take 12 (pw_sha256 w (pw_salt w @ '':'' @ s)))"

section \<open>Schemas and projection\<close>

datatype schema = Scalar | ListOf schema | Fields "(string \<times> schema) list"

fun is_scalar :: "pyval \<Rightarrow> bool" where
  "is_scalar (PStr _) = True"
| "is_scalar (PInt _) = True"
| "is_scalar (PFloat _) = True"
| "is_scalar (PBool _) = True"
| "is_scalar (PTime _) = True"
| "is_scalar _ = False"

fun project :: "schema \<Rightarrow> pyval \<Rightarrow> pyval res"
and project_fields :: "(string \<times> schema) list \<Rightarrow> (string \<times> pyval) list \<Rightarrow> (string \<times> pyval) list res" where
  "project Scalar v =
     (if v = PNone \<or> is_scalar v then Inr v else Inl (ValueError ''Evidence facts must be scalar values.''))"
| "project (ListOf s) v =
     (case v of PNone \<Rightarrow> Inr PNone
      | PList vs \<Rightarrow> bindR (mapR (project s) vs) (\<lambda>ws. Inr (PList ws))
      | _ \<Rightarrow> Inl (ValueError ''Evidence facts must be a list.''))"
| "project (Fields fs) v =
     (case v of PNone \<Rightarrow> Inr PNone
      | PDict kvs \<Rightarrow> bindR (project_fields fs kvs) (\<lambda>ws. Inr (PDict ws))
      | _ \<Rightarrow> Inl (ValueError ''Evidence facts must be an object.''))"
| "project_fields [] kvs = Inr []"
| "project_fields ((k, s) # fs) kvs =
     (case map_of kvs k of
        None \<Rightarrow> project_fields fs kvs
      | Some v \<Rightarrow> bindR (project s v) (\<lambda>v'. bindR (project_fields fs kvs) (\<lambda>ws. Inr ((k, v') # ws))))"

definition scalars :: "string list \<Rightarrow> (string \<times> schema) list" where
  "scalars ks = map (\<lambda>k. (k, Scalar)) ks"

definition MONEY :: schema where
  "MONEY = Fields (scalars [''amount_minor'', ''currency_code''])"

definition FACT :: schema where
  "FACT = Fields (scalars [''authorization_id'', ''transaction_id'', ''merchant_name'', ''merchant_category_code'',
     ''card_network'', ''created_at'', ''pending'', ''source''] @ [(''money'', MONEY), (''billing_money'', MONEY)])"

definition CARD :: schema where
  "CARD = Fields (scalars [''account_id'', ''old_card_id'', ''new_card_id'', ''new_last_four'', ''status'',
     ''replacement_status'', ''is_virtual'', ''fraud_alert_id'', ''compromised_card_id''])"

definition REMEDIATION :: schema where
  "REMEDIATION = Fields (scalars [''success'', ''account_id'', ''authorization_id'', ''transaction_id'', ''fraud_alert_id'',
     ''status'', ''authorization_status'', ''ledger_entry_id'', ''provisional_credit_id'',
     ''provisional_credit_transaction_id'', ''journal_transaction_id'']
     @ [(''voided_amount'', MONEY), (''credited_amount'', MONEY), (''available_credit'', MONEY), (''cleared_balance'', MONEY)])"

definition LIMIT_POLICY :: schema where
  "LIMIT_POLICY = Fields (scalars [''id'', ''revision'', ''digest'', ''currency_code'', ''maximum_current_limit_multiple'',
     ''maximum_minor'', ''requires_active_account'', ''requires_active_product'', ''requires_strict_increase'',
     ''requires_product_bounds'', ''approval_semantics''])"

definition LIMIT_FACTS :: schema where
  "LIMIT_FACTS = Fields (scalars [''account_id'', ''account_status'', ''currency_code'', ''product_code'',
     ''current_limit_minor'', ''product_active'', ''minimum_limit_minor'', ''maximum_limit_minor'',
     ''available_credit_minor'', ''projected_available_credit_minor''])"

definition DECISION_POLICY :: schema where
  "DECISION_POLICY = Fields (scalars [''provider_id'', ''policy_id'', ''version'', ''digest'', ''approval_ttl_seconds''])"

definition REFUSAL_FACTS :: schema where
  "REFUSAL_FACTS = Fields (scalars [''reason_code'', ''retryable'', ''product_name'', ''retry_after'']
     @ [(''current_limit'', MONEY), (''product_maximum'', MONEY), (''max_instantly_approvable'', MONEY),
        (''soft_tier_cap'', MONEY), (''next_steps'', ListOf Scalar)])"

definition COUNTEROFFER_ORIGIN :: schema where
  "COUNTEROFFER_ORIGIN = Fields (scalars [''origin_request_ref'', ''origin_decision_ref''] @ [(''origin_requested_limit'', MONEY)])"

definition BANK_DECISION :: schema where
  "BANK_DECISION = Fields (scalars [''decision_id'', ''provider_id'', ''outcome'', ''evaluated_at'', ''expires_at'',
     ''request_ref'', ''scope_ref'', ''input_ref'']
     @ [(''approved_limit'', MONEY), (''reason_codes'', ListOf Scalar), (''policy'', DECISION_POLICY),
        (''evidence_references'', ListOf Scalar), (''inquiry_type'', Scalar),
        (''counteroffer'', Fields [(''origin_request_ref'', Scalar), (''requested_limit'', MONEY)]),
        (''refusal'', REFUSAL_FACTS)])"

definition DECISION_REQUEST :: schema where
  "DECISION_REQUEST = Fields
     [(''request_ref'', Scalar), (''scope_ref'', Scalar), (''input_ref'', Scalar), (''requested_limit'', MONEY),
      (''facts'', LIMIT_FACTS),
      (''inquiry_consent'', Fields (scalars [''inquiry_type'', ''disclosure_version'', ''consent_ref''])),
      (''origin'', COUNTEROFFER_ORIGIN)]"

definition RESULT :: schema where
  "RESULT = Fields (scalars [''success'', ''outcome'', ''status'', ''card_status'', ''wallet_provider'',
     ''wallet_provisioning_status'', ''account_id'', ''fraud_alert_id'', ''escalated'']
     @ [(''replacement_card'', CARD),
        (''fraud_alert'', Fields (scalars [''id'', ''fraud_alert_id'', ''status'', ''remediation_status''])),
        (''voided_authorizations'', ListOf REMEDIATION), (''provisional_credits'', ListOf REMEDIATION),
        (''secure_message'', Fields (scalars [''thread_id'', ''message_id''])),
        (''previous_credit_limit'', MONEY), (''credit_limit'', MONEY), (''increase_amount'', MONEY),
        (''available_credit'', MONEY), (''approval_semantics'', Scalar)])"

definition PAYLOAD :: schema where
  "PAYLOAD = Fields (scalars [''account_id'', ''card_id'', ''compromised_card_id'', ''card_last_four'', ''reason'',
     ''wallet_provider'', ''fraud_alert_id'', ''issue_replacement'', ''issue_virtual_card'', ''escalate'']
     @ [(''disputed_authorization_ids'', ListOf Scalar), (''disputed_transaction_ids'', ListOf Scalar),
        (''money_facts'', ListOf FACT), (''bank_decision'', BANK_DECISION), (''decision_request'', DECISION_REQUEST),
        (''current_limit'', MONEY), (''proposed_limit'', MONEY), (''increase_amount'', MONEY),
        (''credit_limit_policy'', LIMIT_POLICY), (''eligibility_facts'', LIMIT_FACTS), (''approval_semantics'', Scalar),
        (''prepared_arithmetic'', Fields (scalars [''available_credit_minor'', ''projected_available_credit_minor''])),
        (''inquiry_type'', Scalar), (''disclosure_version'', Scalar), (''score_impact'', Scalar),
        (''origin_request_ref'', Scalar), (''origin'', COUNTEROFFER_ORIGIN)])"

definition CONSENT_FIELDS :: "string list" where
  "CONSENT_FIELDS = [''inquiry_type'', ''disclosure_version'', ''consent_turn_id'']"

definition EVIDENCE :: schema where
  "EVIDENCE = Fields (scalars [''method'', ''source'', ''runtime_name'', ''runtime_session_id'', ''presentation_turn_id'',
     ''confirmation_turn_id'', ''presentation_acknowledgment'', ''presentation_acknowledgment_source'',
     ''presentation_artifact_id'']
     @ [(''acknowledged_fact_keys'', ListOf Scalar), (''inquiry_consent'', Fields (scalars CONSENT_FIELDS))])"

text \<open>\<open>consent_evidence_ref\<close>: consent is bound to one tier, one customer turn and one originating request.\<close>

definition consent_evidence_ref :: "proposal_world \<Rightarrow> (string \<times> pyval) list \<Rightarrow> pyval \<Rightarrow> string res" where
  "consent_evidence_ref w evidence origin_request_ref =
     (let consent = dict_get (PDict evidence) ''inquiry_consent'';
          runtime_session_id = dict_get (PDict evidence) ''runtime_session_id'';
          bounded = (\<lambda>v. case v of PStr s \<Rightarrow> s \<noteq> [] \<and> length s \<le> 256 | _ \<Rightarrow> False)
      in if \<not> (case origin_request_ref of PStr s \<Rightarrow> hex64 s | _ \<Rightarrow> False)
         then Inl (ValueError ''Consent must be bound to a checked originating request.'')
         else (case consent of
           PDict kvs \<Rightarrow>
             if set (map fst kvs) \<noteq> set CONSENT_FIELDS
             then Inl (ValueError ''Consent evidence requires exactly the consent fields.'')
             else if (case consent_validate (PDict
                       [(''inquiry_type'', dict_get consent ''inquiry_type''),
                        (''disclosure_version'', dict_get consent ''disclosure_version''),
                        (''consent_ref'', PStr (replicate 64 (CHR ''0'')))]) of Inl e \<Rightarrow> True | Inr c \<Rightarrow> False)
             then Inl (ValueError ''Consent disclosure does not match its inquiry type.'')
             else if \<not> bounded (dict_get consent ''consent_turn_id'') \<or> \<not> bounded runtime_session_id
             then Inl (ValueError ''Consent must name its customer turn and runtime session.'')
             else Inr (fingerprint w (PDict (kvs @ [(''runtime_session_id'', runtime_session_id),
                                                     (''origin_request_ref'', origin_request_ref)])))
         | _ \<Rightarrow> Inl (ValueError ''Consent evidence requires exactly the consent fields.'')))"

section \<open>What a projection keeps\<close>

fun wf_schema :: "schema \<Rightarrow> bool"
and wf_fields :: "(string \<times> schema) list \<Rightarrow> bool" where
  "wf_schema Scalar = True"
| "wf_schema (ListOf s) = wf_schema s"
| "wf_schema (Fields fs) = (distinct (map fst fs) \<and> wf_fields fs)"
| "wf_fields [] = True"
| "wf_fields ((k, s) # fs) = (wf_schema s \<and> wf_fields fs)"

text \<open>A value with no field, at any depth, that the schema does not name.\<close>

fun conforms :: "schema \<Rightarrow> pyval \<Rightarrow> bool"
and conforms_fields :: "(string \<times> schema) list \<Rightarrow> (string \<times> pyval) list \<Rightarrow> bool" where
  "conforms Scalar v = (v = PNone \<or> is_scalar v)"
| "conforms (ListOf s) v = (case v of PNone \<Rightarrow> True | PList vs \<Rightarrow> list_all (conforms s) vs | _ \<Rightarrow> False)"
| "conforms (Fields fs) v =
     (case v of PNone \<Rightarrow> True
      | PDict kvs \<Rightarrow> set (map fst kvs) \<subseteq> set (map fst fs) \<and> conforms_fields fs kvs
      | _ \<Rightarrow> False)"
| "conforms_fields [] kvs = True"
| "conforms_fields ((k, s) # fs) kvs =
     ((case map_of kvs k of None \<Rightarrow> True | Some v \<Rightarrow> conforms s v) \<and> conforms_fields fs kvs)"

lemma project_fields_keys: "project_fields fs kvs = Inr ws \<Longrightarrow> fst ` set ws \<subseteq> fst ` set fs"
proof (induction fs arbitrary: ws)
  case (Cons f fs)
  obtain k s where f: "f = (k, s)" by (cases f)
  show ?case
  proof (cases "map_of kvs k")
    case None
    with Cons.prems f have "project_fields fs kvs = Inr ws" by simp
    from Cons.IH [OF this] show ?thesis by auto
  next
    case (Some v)
    then obtain y us where us: "project_fields fs kvs = Inr us" "ws = (k, y) # us" using Cons.prems f by auto
    with Cons.IH [OF us(1)] f show ?thesis by auto
  qed
qed simp

lemma project_fields_skip: "k \<notin> fst ` set fs \<Longrightarrow> project_fields fs ((k, v) # kvs) = project_fields fs kvs"
proof (induction fs)
  case (Cons f fs)
  obtain k' s where f: "f = (k', s)" by (cases f)
  with Cons have ih: "project_fields fs ((k, v) # kvs) = project_fields fs kvs" and "k \<noteq> k'" by auto
  with f show ?case by (simp split: option.split)
qed simp

lemma conforms_fields_skip: "k \<notin> fst ` set fs \<Longrightarrow> conforms_fields fs ((k, v) # kvs) = conforms_fields fs kvs"
  by (induction fs) auto

lemma mapR_Inr_iff: "mapR f xs = Inr ys \<longleftrightarrow> list_all2 (\<lambda>x y. f x = Inr y) xs ys"
  by (induction xs arbitrary: ys) (auto simp: list_all2_Cons1)

lemma project_closed:
  "wf_schema s \<Longrightarrow> project s v = Inr w \<Longrightarrow> conforms s w \<and> project s w = Inr w"
  "wf_fields fs \<Longrightarrow> distinct (map fst fs) \<Longrightarrow> project_fields fs kvs = Inr ws \<Longrightarrow>
     conforms_fields fs ws \<and> project_fields fs ws = Inr ws"
proof (induction s v and fs kvs arbitrary: w and ws rule: project_project_fields.induct)
  case (1 v)
  then show ?case by (auto split: if_splits)
next
  case (2 s v)
  show ?case
  proof (cases v)
    case (PList vs)
    then obtain us where us: "mapR (project s) vs = Inr us" "w = PList us" using 2 by auto
    have "conforms s u \<and> project s u = Inr u" if "u \<in> set us" for u
    proof -
      have all: "list_all2 (\<lambda>x y. project s x = Inr y) vs us" using us(1) by (simp add: mapR_Inr_iff)
      from that obtain i where "i < length us" "u = us ! i" by (auto simp: in_set_conv_nth)
      then have x: "vs ! i \<in> set vs" "project s (vs ! i) = Inr u" using all by (auto simp: list_all2_conv_all_nth)
      then show ?thesis using 2 PList by simp
    qed
    then show ?thesis using us(2) by (auto simp: mapR_Inr_iff list_all_iff list_all2_same)
  qed (use 2 in auto)
next
  case (3 fs v)
  then show ?case
  proof (cases v)
    case (PDict kvs)
    then obtain ws where ws: "project_fields fs kvs = Inr ws" "w = PDict ws" using 3 by auto
    have "wf_fields fs" "distinct (map fst fs)" using 3(2) by simp_all
    from 3(1) [OF PDict this ws(1)] show ?thesis using ws(2) project_fields_keys [OF ws(1)] by simp
  qed (use 3(2,3) in auto)
next
  case (4 kvs)
  then show ?case by simp
next
  case (5 k s fs kvs)
  have wf: "wf_schema s" "wf_fields fs" "distinct (map fst fs)" "k \<notin> fst ` set fs" using 5(4,5) by auto
  show ?case
  proof (cases "map_of kvs k")
    case None
    then have p: "project_fields fs kvs = Inr ws" using 5(6) by simp
    have "map_of ws k = None" using project_fields_keys [OF p] wf(4) by (auto simp: map_of_eq_None_iff)
    with 5(1) [OF None wf(2,3) p] show ?thesis by simp
  next
    case (Some x)
    then obtain y us where y: "project s x = Inr y" "project_fields fs kvs = Inr us" "ws = (k, y) # us"
      using 5(6) by auto
    have "conforms s y \<and> project s y = Inr y" by (rule 5(2) [OF Some wf(1) y(1)])
    moreover have "conforms_fields fs us \<and> project_fields fs us = Inr us" by (rule 5(3) [OF Some y(1) wf(2,3) y(2)])
    ultimately show ?thesis using y(3) wf(4) by (simp add: project_fields_skip conforms_fields_skip)
  qed
qed

lemma project_fields_lookup:
  assumes "distinct (map fst fs)" "project_fields fs kvs = Inr ws"
  shows "map_of fs k = Some s \<Longrightarrow>
    (case map_of kvs k of None \<Rightarrow> map_of ws k = None | Some v \<Rightarrow> (\<exists>u. project s v = Inr u \<and> map_of ws k = Some u))"
  using assms
proof (induction fs arbitrary: ws)
  case (Cons f fs)
  obtain k' s' where f: "f = (k', s')" by (cases f)
  show ?case
  proof (cases "map_of kvs k'")
    case None
    then have p: "project_fields fs kvs = Inr ws" using Cons.prems f by simp
    show ?thesis
    proof (cases "k = k'")
      case True
      have "k' \<notin> fst ` set ws" using project_fields_keys [OF p] Cons.prems(2) f by auto
      then have "map_of ws k = None" using True by (simp add: map_of_eq_None_iff)
      with True None show ?thesis by simp
    qed (use Cons f p in simp)
  next
    case (Some v)
    then obtain y us where y: "project s' v = Inr y" "project_fields fs kvs = Inr us" "ws = (k', y) # us"
      using Cons.prems f by auto
    show ?thesis
    proof (cases "k = k'")
      case True
      with Cons.prems(1) f have "s = s'" by simp
      with True Some y show ?thesis by simp
    next
      case False
      with Cons.prems f have m: "map_of fs k = Some s" "distinct (map fst fs)" by auto
      from Cons.IH [OF m y(2)] y(3) False show ?thesis by (cases "map_of kvs k") simp_all
    qed
  qed
qed simp

lemma project_fields_unlisted: "k \<notin> fst ` set fs \<Longrightarrow> project_fields fs kvs = Inr ws \<Longrightarrow> map_of ws k = None"
  using project_fields_keys [of fs kvs ws] by (auto simp: map_of_eq_None_iff)

text \<open>The schemas name each field once.\<close>

lemma schemas_wf: "wf_schema PAYLOAD" "wf_schema RESULT" "wf_schema EVIDENCE" "wf_schema BANK_DECISION" "wf_schema DECISION_REQUEST"
  by code_simp+

lemma project_parts:
  assumes "wf_schema s" "project s v = Inr w"
  shows "conforms s w" and "project s w = Inr w"
    and "s = Fields fs \<Longrightarrow> v = PDict kvs \<Longrightarrow> (k, Scalar) \<in> set fs \<Longrightarrow> dict_get w k = dict_get v k"
    and "s = PAYLOAD \<Longrightarrow> dict_get w ''card_token'' = PNone"
proof -
  show "conforms s w" "project s w = Inr w" using project_closed(1) [OF assms] by simp_all
  show "dict_get w k = dict_get v k" if f: "s = Fields fs" "v = PDict kvs" "(k, Scalar) \<in> set fs"
  proof -
    from assms f obtain ws where ws: "project_fields fs kvs = Inr ws" "w = PDict ws" by auto
    have d: "distinct (map fst fs)" using assms f by simp
    have "map_of fs k = Some Scalar" using d f(3) by simp
    from project_fields_lookup [OF d ws(1) this] show ?thesis
      using f(2) ws(2) by (auto split: option.splits if_splits)
  qed
  show "dict_get w ''card_token'' = PNone" if p: "s = PAYLOAD"
  proof -
    from p obtain fs where fs: "s = Fields fs" "''card_token'' \<notin> fst ` set fs"
      by (auto simp: PAYLOAD_def scalars_def)
    show ?thesis
      using assms(2) fs project_fields_unlisted [OF fs(2)] by (cases v) auto
  qed
qed

text \<open>C20. A projected snapshot carries only fields its schema names, at every depth, with scalar leaves; projecting
  it again changes nothing; a scalar field the schema names is copied as it is; and no snapshot of a
  proposal's payload carries the card token.\<close>

theorem projection_is_closed:
  assumes "wf_schema s" "project s v = Inr w"
  shows "conforms s w \<and> project s w = Inr w
    \<and> (\<forall>fs kvs k. s = Fields fs \<and> v = PDict kvs \<and> (k, Scalar) \<in> set fs \<longrightarrow> dict_get w k = dict_get v k)
    \<and> (s = PAYLOAD \<longrightarrow> dict_get w ''card_token'' = PNone)"
  using project_parts [OF assms] by blast

lemma projection_is_closed_witness:
  "dict_get (PDict [(''card_id'', PStr ''K1'')]) ''card_token'' = PNone
   \<and> project PAYLOAD (PDict [(''card_token'', PStr ''tok_1''), (''card_id'', PStr ''K1'')]) = Inr (PDict [(''card_id'', PStr ''K1'')])"
proof -
  have p: "project PAYLOAD (PDict [(''card_token'', PStr ''tok_1''), (''card_id'', PStr ''K1'')]) = Inr (PDict [(''card_id'', PStr ''K1'')])"
    by code_simp
  from projection_is_closed [OF schemas_wf(1) p] p show ?thesis by simp
qed

end
