(* ===== verification/Proposal_Audit.thy ===== *)
theory Proposal_Audit
  imports Proposal_Evidence
begin

text \<open>
  The audit events of the proposal protocol (\<^verbatim>\<open>services/proposal_audit.py\<close>) with their archived snapshots
  (\<^verbatim>\<open>services/proposal_evidence.py\<close>): one event per proposal and stage, and one event per refused request.
  An event and its snapshot are two rows of the outbox, written in the transaction of the change they report.
\<close>

section \<open>Handlers\<close>

text \<open>
  \<open>TypedActionHandler\<close>: what the lifecycle engine calls.  The handler works on the banking tables alone;
  preparation and validation may also read the proposals.  The operation's input contract, which
  \<open>propose_action\<close> reads through \<open>handler.operation\<close>, is part of the record.
\<close>

record action_handler =
  ah_definition :: "pyval option"
  ah_input_schema :: "(string \<times> field_type) list"
  ah_public_input_schema :: "(string \<times> field_type) list"
  ah_normalize_public_inputs :: "string \<Rightarrow> (string \<times> pyval) list \<Rightarrow> bank_db \<Rightarrow> (string \<times> pyval) list attempt"
  ah_normalize_business_inputs :: "(string \<times> pyval) list \<Rightarrow> (string \<times> pyval) list"
  ah_prepare :: "action_proposal list \<Rightarrow> string \<Rightarrow> (string \<times> pyval) list \<Rightarrow> (string \<times> pyval) list \<Rightarrow> bank_db
     \<Rightarrow> (string option \<times> (string \<times> pyval) list \<times> string) attempt"
  ah_display_selection :: "action_proposal \<Rightarrow> (string \<times> pyval) list attempt"
  ah_public_projection :: "action_proposal \<Rightarrow> (string \<times> pyval) list attempt"
  ah_validate_current_preconditions :: "action_proposal list \<Rightarrow> action_proposal \<Rightarrow> bank_db \<Rightarrow> unit attempt"
  ah_execute :: "action_proposal \<Rightarrow> bank_db \<Rightarrow> ((string \<times> pyval) list \<times> bank_db) attempt"
  ah_reconcile :: "action_proposal \<Rightarrow> bank_db \<Rightarrow> (string \<times> pyval) list option attempt"
  ah_commit_pending_message :: "action_proposal \<Rightarrow> string"
  ah_record_commit_started :: "action_proposal \<Rightarrow> bank_db \<Rightarrow> bank_db attempt"
  ah_record_committed :: "action_proposal \<Rightarrow> (string \<times> pyval) list \<Rightarrow> bank_db \<Rightarrow> bank_db attempt"
  ah_record_reconciled :: "action_proposal \<Rightarrow> (string \<times> pyval) list \<Rightarrow> bank_db \<Rightarrow> bank_db attempt"

type_synonym spec = "action_handler action_specification"

section \<open>Snapshots\<close>

definition sorted_text :: "string set \<Rightarrow> pyval" where
  "sorted_text ss = str_list (sorted_list_of_set ss)"

definition policy_snapshot :: "spec \<Rightarrow> pyval" where
  "policy_snapshot s =
     (let p = sp_authorization_policy s; e = az_evidence_policy p; r = sp_presentation_requirement s
      in PDict [(''authorization'', PDict
           [(''name'', PStr (az_name p)), (''risk_tier'', PStr (risk_tier_text (az_risk_tier p))),
            (''presentation_policy'', PStr (presentation_policy_text (az_presentation_policy p))),
            (''decision_policy'', PStr (confirmation_text (az_decision_policy p))),
            (''evidence_policy'', PDict
               [(''accepted_sources'', sorted_text (vp_accepted_sources e)),
                (''require_later_customer_turn'', PBool (vp_require_later_customer_turn e)),
                (''required_presentation_acknowledgment'', opt_str (vp_required_presentation_acknowledgment e)),
                (''accepted_presentation_acknowledgment_sources'', sorted_text (vp_accepted_presentation_acknowledgment_sources e))]),
            (''recovery_policy'', PStr (recovery_policy_text (az_recovery_policy p)))]),
         (''presentation'', PDict
           [(''required_fact_keys'', sorted_text (pq_required_fact_keys r)),
            (''quality_gate'', PStr (quality_gate_text (pq_quality_gate r))),
            (''natural_language_allowed'', PBool (pq_natural_language_allowed r)),
            (''disclosure_reference'', opt_str (pq_disclosure_reference r))])])"

definition definition_snapshot :: "spec \<Rightarrow> pyval" where
  "definition_snapshot s =
     (case ah_definition (sp_handler s) of
        Some document \<Rightarrow> document
      | None \<Rightarrow> PDict [(''id'', PStr (sp_definition_id s)), (''revision'', PInt (sp_definition_revision s)),
          (''digest'', PStr (sp_definition_digest s)), (''action_type'', PStr (sp_action_type s)),
          (''contract_version'', PStr (sp_contract_version s))])"

definition opt_dict :: "(string \<times> pyval) list option \<Rightarrow> pyval" where
  "opt_dict v = (case v of None \<Rightarrow> PNone | Some kvs \<Rightarrow> PDict kvs)"

definition transition_snapshot :: "action_proposal \<Rightarrow> spec \<Rightarrow> string \<Rightarrow> pyval res" where
  "transition_snapshot p s stage =
     (let t = pp_terms p in
      bindR (project PAYLOAD (PDict (tm_action_payload t))) (\<lambda>facts.
      bindR (project EVIDENCE (opt_dict (pp_confirmation_evidence p))) (\<lambda>accepted.
      bindR (project RESULT (opt_dict (pp_result_payload p))) (\<lambda>outcome.
      Inr (PDict
        [(''kind'', PStr ''PROPOSAL_TRANSITION''), (''stage'', PStr stage), (''proposal_id'', PStr (tm_id t)),
         (''state'', PStr (status_text (pp_status p))), (''reason_code'', opt_str (pp_invalidation_reason p)),
         (''definition'', definition_snapshot s), (''policy'', policy_snapshot s),
         (''scope'', PDict
           [(''customer_id'', PStr (tm_customer_id t)), (''account_id'', opt_str (str_or (tm_account_id t) None)),
            (''support_session_id'', PStr (tm_support_session_id t)), (''runtime_name'', PStr (tm_runtime_name t)),
            (''runtime_session_id'', PStr (tm_runtime_session_id t)), (''reset_generation'', PStr (tm_reset_generation t)),
            (''originating_customer_turn_id'', PStr (tm_originating_customer_turn_id t)),
            (''catalog_snapshot_id'', opt_str (tm_catalog_snapshot_id t))]),
         (''offer'', PDict
           [(''summary'', PStr (tm_customer_safe_summary t)), (''facts'', facts),
            (''payload_fingerprint'', PStr (tm_payload_fingerprint t))]),
         (''accepted_evidence'', accepted), (''outcome'', outcome),
         (''timestamps'', PDict
           [(''created_at'', PTime (tm_created_at t)), (''expires_at'', PTime (tm_expires_at t)),
            (''presented_at'', opt_time (pp_presented_at p)), (''confirmed_at'', opt_time (pp_confirmed_at p)),
            (''commit_started_at'', opt_time (pp_commit_started_at p)), (''completed_at'', opt_time (pp_completed_at p))])])))))"

definition policy_evaluation_snapshot :: "policy_evidence \<Rightarrow> pyval res" where
  "policy_evaluation_snapshot e =
     bindR (project BANK_DECISION (pe_bank_decision e)) (\<lambda>decision.
     bindR (project DECISION_POLICY (pe_decision_policy e)) (\<lambda>policy.
     bindR (project DECISION_REQUEST (pe_decision_request e)) (\<lambda>request.
     bindR (project LIMIT_POLICY (pe_policy e)) (\<lambda>limit_policy.
     bindR (project MONEY (pe_requested_limit e)) (\<lambda>requested.
     bindR (project LIMIT_FACTS (pe_facts e)) (\<lambda>facts.
     bindR (project LIMIT_FACTS (pe_approved_facts e)) (\<lambda>approved.
     Inr (PDict
       [(''kind'', PStr (if truthy (pe_bank_decision e) \<or> \<not> blank (pe_decision_failure e)
                         then ''BANK_DECISION'' else ''POLICY_EVALUATION'')),
        (''decision'', (case pe_bank_decision e of
            PDict kvs \<Rightarrow> (case map_of kvs ''outcome'' of Some v \<Rightarrow> v | None \<Rightarrow> PStr ''REFUSED'') | _ \<Rightarrow> PStr ''REFUSED'')),
        (''bank_decision'', decision), (''decision_failure'', opt_str (pe_decision_failure e)),
        (''decision_policy'', policy), (''decision_request'', request), (''reason_code'', PStr (pe_reason_code e)),
        (''definition'', pe_definition e), (''credit_limit_policy'', limit_policy), (''requested_limit'', requested),
        (''evaluated_facts'', facts), (''approved_facts'', approved)]))))))))"

section \<open>Emission\<close>

definition EVIDENCE_CONTRACT :: string where
  "EVIDENCE_CONTRACT = ''proposal-evidence.v1''"

definition AUDIT_CONTRACT :: string where
  "AUDIT_CONTRACT = ''proposal-audit.v2''"

definition artifact_id_for :: "proposal_world \<Rightarrow> string \<Rightarrow> string" where
  "artifact_id_for w audit_event_id = pw_uuid5 w (EVIDENCE_CONTRACT @ '':'' @ audit_event_id)"

definition archive :: "proposal_world \<Rightarrow> string \<Rightarrow> pyval \<Rightarrow> bank_db \<Rightarrow> pyval \<times> bank_db" where
  "archive w audit_event_id snapshot d =
     (let artifact_id = artifact_id_for w audit_event_id;
          snapshot_json = json_text w snapshot;
          digest = pw_sha256 w snapshot_json;
          d' = record_audit_event (pw_now w) ''PROPOSAL_EVIDENCE_SNAPSHOT''
                 (PDict [(''evidence_contract'', PStr EVIDENCE_CONTRACT), (''artifact_id'', PStr artifact_id),
                         (''audit_event_id'', PStr audit_event_id), (''snapshot_digest'', PStr digest),
                         (''snapshot_json'', PStr snapshot_json)])
                 (Some artifact_id) 1 d
      in (PDict [(''id'', PStr artifact_id), (''digest'', PStr digest), (''contract'', PStr EVIDENCE_CONTRACT)], d'))"

text \<open>\<open>emit\<close>; a snapshot is archived first, and the event names the artifact.\<close>

definition emit ::
    "proposal_world \<Rightarrow> string \<Rightarrow> (string \<times> pyval) list \<Rightarrow> string option \<Rightarrow> pyval option \<Rightarrow> bank_db \<Rightarrow> string \<times> bank_db" where
  "emit w event_type payload event_id snapshot d =
     (let (eid, d1) = (case event_id of Some e \<Rightarrow> (e, d) | None \<Rightarrow> uuid4 d);
          (artifact, d2) = (case snapshot of
              Some sn \<Rightarrow> (case archive w eid sn d1 of (a, d') \<Rightarrow> ([(''evidence_artifact'', a)], d')) | None \<Rightarrow> ([], d1))
      in (eid, record_audit_event (pw_now w) event_type
            (PDict ([(''audit_contract'', PStr AUDIT_CONTRACT),
               (''banking_build'', PDict [(''version'', PStr (pw_build_version w)), (''commit'', PStr (pw_build_commit w))])]
               @ payload @ artifact))
            (Some eid) 2 d2))"

definition context_fields :: "proposal_world \<Rightarrow> runtime_context \<Rightarrow> (string \<times> pyval) list" where
  "context_fields w c =
     [(''support_session_ref'', PStr (stable_log_reference w (Some (rt_support_session_id c)) ''session'')),
      (''runtime_name'', PStr (rt_runtime_name c)),
      (''runtime_session_ref'', PStr (stable_log_reference w (Some (rt_runtime_session_id c)) ''runtime-session'')),
      (''customer_turn_ref'', PStr (stable_log_reference w (Some (rt_customer_turn_id c)) ''turn'')),
      (''reset_generation_ref'', PStr (stable_log_reference w (Some (rt_reset_generation c)) ''reset'')),
      (''catalog_snapshot_ref'', (if blank (rt_catalog_snapshot_id c) then PNone
         else PStr (stable_log_reference w (rt_catalog_snapshot_id c) ''catalog'')))]"

definition definition_fields :: "spec \<Rightarrow> pyval" where
  "definition_fields s =
     (let document = (case ah_definition (sp_handler s) of Some v \<Rightarrow> v | None \<Rightarrow> PDict [])
      in PDict [(''id'', PStr (sp_definition_id s)), (''revision'', PInt (sp_definition_revision s)),
           (''digest'', PStr (sp_definition_digest s)), (''action_type'', PStr (sp_action_type s)),
           (''contract_version'', PStr (sp_contract_version s)), (''operation'', dict_get document ''operation''),
           (''authorization_policy'', dict_get document ''authorization_policy'')])"

definition outcome_code :: "pyval \<Rightarrow> bool" where
  "outcome_code v =
     (case v of PStr s \<Rightarrow> length s \<le> 64 \<and> s \<noteq> [] \<and> is_upper (hd s)
        \<and> list_all (\<lambda>c. is_upper c \<or> is_digit c \<or> c = CHR ''_'') s
      | _ \<Rightarrow> False)"

definition banking_outcome :: "pyval \<Rightarrow> pyval" where
  "banking_outcome r =
     (case List.find outcome_code [dict_get r ''outcome'', dict_get r ''wallet_provisioning_status'', dict_get r ''status''] of
        Some v \<Rightarrow> v | None \<Rightarrow> PNone)"

definition optional_reference :: "proposal_world \<Rightarrow> string option \<Rightarrow> string \<Rightarrow> pyval" where
  "optional_reference w v kind = (if blank v then PNone else PStr (stable_log_reference w v kind))"

definition transition_event_id :: "proposal_world \<Rightarrow> action_proposal \<Rightarrow> string \<Rightarrow> string" where
  "transition_event_id w p stage = pw_uuid5 w (AUDIT_CONTRACT @ '':'' @ pp_id p @ '':'' @ stage)"

definition transition_payload :: "proposal_world \<Rightarrow> action_proposal \<Rightarrow> spec \<Rightarrow> (string \<times> pyval) list" where
  "transition_payload w p s =
     (let t = pp_terms p; ref = (\<lambda>v kind. PStr (stable_log_reference w (Some v) kind));
          policy = sp_authorization_policy s; requirement = sp_presentation_requirement s;
          evidence = PDict (case pp_confirmation_evidence p of Some e \<Rightarrow> e | None \<Rightarrow> []);
          outcome = PDict (case pp_result_payload p of Some r \<Rightarrow> r | None \<Rightarrow> [])
      in [(''proposal_ref'', ref (tm_id t) ''proposal''), (''proposal_id'', PStr (tm_id t)),
          (''correlation_id'', PStr (tm_id t)), (''action_type'', PStr (tm_action_type t)),
          (''contract_version'', PStr (tm_contract_version t)), (''definition'', definition_fields s),
          (''customer_ref'', ref (tm_customer_id t) ''customer''),
          (''account_ref'', optional_reference w (tm_account_id t) ''account''),
          (''support_session_ref'', ref (tm_support_session_id t) ''session''),
          (''runtime_name'', PStr (tm_runtime_name t)),
          (''runtime_session_ref'', ref (tm_runtime_session_id t) ''runtime-session''),
          (''reset_generation_ref'', ref (tm_reset_generation t) ''reset''),
          (''originating_turn_ref'', ref (tm_originating_customer_turn_id t) ''turn''),
          (''catalog_snapshot_ref'', optional_reference w (tm_catalog_snapshot_id t) ''catalog''),
          (''payload_fingerprint'', PStr (tm_payload_fingerprint t)),
          (''presentation_fingerprint'', PStr (fingerprint w (PStr (tm_customer_safe_summary t)))),
          (''result_fingerprint'', (case pp_result_payload p of None \<Rightarrow> PNone | Some r \<Rightarrow> PStr (fingerprint w (PDict r)))),
          (''state'', PStr (status_text (pp_status p))), (''reason_code'', opt_str (pp_invalidation_reason p)),
          (''result_success'', (case dict_get outcome ''success'' of PBool b \<Rightarrow> PBool b | _ \<Rightarrow> PNone)),
          (''banking_outcome'', banking_outcome outcome),
          (''policy'', PDict
             [(''name'', PStr (az_name policy)), (''risk_tier'', PStr (risk_tier_text (az_risk_tier policy))),
              (''presentation'', PStr (presentation_policy_text (az_presentation_policy policy))),
              (''decision'', PStr (confirmation_text (az_decision_policy policy))),
              (''required_fact_keys'', sorted_text (pq_required_fact_keys requirement)),
              (''presentation_quality_gate'', PStr (quality_gate_text (pq_quality_gate requirement)))]),
          (''evidence'', PDict
             [(''presentation_turn_ref'', optional_reference w (pp_presented_assistant_turn_id p) ''turn''),
              (''decision_turn_ref'', optional_reference w (pp_confirmation_customer_turn_id p) ''turn''),
              (''source'', dict_get evidence ''source''), (''method'', dict_get evidence ''method''),
              (''fingerprint'', (if truthy evidence then PStr (fingerprint w evidence) else PNone))])])"

text \<open>
  \<open>record_transition\<close>: at most one event per proposal and stage, whatever is replayed.  The event id is
  derived from both; an existing event or artifact row ends the call.
\<close>

definition record_transition :: "proposal_world \<Rightarrow> action_proposal \<Rightarrow> spec \<Rightarrow> string \<Rightarrow> bank_db \<Rightarrow> bank_db res" where
  "record_transition w p s stage d =
     (let event_id = transition_event_id w p stage
      in if \<exists>row \<in> set (d_outbox d). ob_event_id row \<in> {event_id, artifact_id_for w event_id} then Inr d
         else bindR (transition_snapshot p s stage) (\<lambda>snapshot.
           Inr (snd (emit w (''ACTION_PROPOSAL_'' @ stage) (transition_payload w p s) (Some event_id) (Some snapshot) d))))"

end
