(* ===== verification/Proposal_Lifecycle.thy ===== *)
theory Proposal_Lifecycle
  imports Proposal_Audit
begin

text \<open>
  The lifecycle engine (\<^verbatim>\<open>services/proposal_lifecycle.py\<close>, class \<open>ProposalLifecycleEngine\<close>): creating a
  proposal, attesting a decision on it, and executing it through one transaction pipeline.

  A database session is what is committed and what the transaction has flushed so far (\<open>session\<close>).  A method
  that neither commits nor rolls back is a \<open>step\<close> on the flushed state; it keeps what it flushed when it
  raises, because the callers decide between commit and rollback.  The clock is read once per request.
\<close>

section \<open>State and sequencing\<close>

record proposal_db =
  pd_bank :: bank_db
  pd_proposals :: "action_proposal list"

interpretation proposals: row_table pd_proposals "\<lambda>rs d. d\<lparr>pd_proposals := rs\<rparr>" pp_id
  by unfold_locales simp_all

type_synonym 'a step = "proposal_db \<Rightarrow> proposal_db \<times> 'a attempt"

definition ret :: "'a \<Rightarrow> 's \<Rightarrow> 's \<times> 'a attempt" where
  "ret x db = (db, Inr x)"

definition stop :: "failure \<Rightarrow> 's \<Rightarrow> 's \<times> 'a attempt" where
  "stop e db = (db, Inl e)"

definition bindS :: "('s \<Rightarrow> 's \<times> 'a attempt) \<Rightarrow> ('a \<Rightarrow> 's \<Rightarrow> 's \<times> 'b attempt) \<Rightarrow> 's \<Rightarrow> 's \<times> 'b attempt" where
  "bindS m f db = (case m db of (db', Inl e) \<Rightarrow> (db', Inl e) | (db', Inr x) \<Rightarrow> f x db')"

definition lift_step :: "'a attempt \<Rightarrow> 's \<Rightarrow> 's \<times> 'a attempt" where
  "lift_step r db = (db, r)"

lemma step_simps [simp]:
  "bindS (ret x) f db = f x db"
  "bindS (stop e) f db = (db, Inl e)"
  by (simp_all add: bindS_def ret_def stop_def)

lemma bindS_E:
  assumes "bindS m f db = (db', Inr y)"
  obtains db1 x where "m db = (db1, Inr x)" "f x db1 = (db', Inr y)"
  using assms by (auto simp: bindS_def split: prod.splits sum.splits)

lemma bindS_split:
  "P (bindS m f db) \<longleftrightarrow>
   (\<forall>db' e. m db = (db', Inl e) \<longrightarrow> P (db', Inl e)) \<and> (\<forall>db' x. m db = (db', Inr x) \<longrightarrow> P (f x db'))"
  by (auto simp: bindS_def split: prod.splits sum.splits)

section \<open>Rows\<close>

definition ACTIVE_PROPOSAL_STATUSES :: "proposal_status list" where
  "ACTIVE_PROPOSAL_STATUSES = [PROPOSED, PRESENTED, CONFIRMED, COMMITTING]"

definition TERMINAL_STATUSES :: "proposal_status list" where
  "TERMINAL_STATUSES = [COMMITTED, proposal_status.DECLINED, INVALIDATED, EXPIRED]"

lemma active_or_terminal: "st \<in> set ACTIVE_PROPOSAL_STATUSES \<longleftrightarrow> st \<notin> set TERMINAL_STATUSES"
  by (cases st) (simp_all add: ACTIVE_PROPOSAL_STATUSES_def TERMINAL_STATUSES_def)

definition put_proposal :: "action_proposal \<Rightarrow> proposal_db \<Rightarrow> proposal_db" where
  "put_proposal p db = db\<lparr>pd_proposals := put_row pp_id p (pd_proposals db)\<rparr>"

definition get_proposal :: "string \<Rightarrow> proposal_db \<Rightarrow> action_proposal option" where
  "get_proposal pid db = List.find (\<lambda>p. pp_id p = pid) (pd_proposals db)"

text \<open>\<open>_get_locked\<close>.\<close>

definition NOT_AVAILABLE :: string where
  "NOT_AVAILABLE = ''The action proposal is not available in this customer support session.''"

definition get_locked :: "string \<Rightarrow> action_proposal step" where
  "get_locked pid db =
     (case get_proposal pid db of
        Some p \<Rightarrow> (db, Inr p)
      | None \<Rightarrow> (db, Inl (coded_failure ProposalScopeError ''Action proposal was not found.'' ''PROPOSAL_SCOPE_MISMATCH''
                   REFRESH_SESSION NOT_AVAILABLE None)))"

text \<open>The unique constraints of the table, checked when a row is flushed.\<close>

definition same_scope_key :: "action_proposal \<Rightarrow> action_proposal \<Rightarrow> bool" where
  "same_scope_key p q =
     (let t = pp_terms p; u = pp_terms q
      in tm_customer_id t = tm_customer_id u \<and> tm_support_session_id t = tm_support_session_id u
         \<and> tm_action_type t = tm_action_type u \<and> tm_idempotency_key t = tm_idempotency_key u)"

definition in_session :: "string \<Rightarrow> string \<Rightarrow> action_proposal \<Rightarrow> bool" where
  "in_session customer_id support_session_id p =
     (tm_customer_id (pp_terms p) = customer_id \<and> tm_support_session_id (pp_terms p) = support_session_id)"

definition active :: "action_proposal \<Rightarrow> bool" where
  "active p = (pp_status p \<in> set ACTIVE_PROPOSAL_STATUSES)"

definition insert_proposal :: "action_proposal \<Rightarrow> proposal_db \<Rightarrow> proposal_db res" where
  "insert_proposal p db =
     (let rows = pd_proposals db; t = pp_terms p
      in if \<exists>q \<in> set rows. pp_id q = pp_id p then Inl (IntegrityError ''action_proposals_pkey'')
         else if tm_bank_decision_ref t \<noteq> None \<and> (\<exists>q \<in> set rows. tm_bank_decision_ref (pp_terms q) = tm_bank_decision_ref t)
         then Inl (IntegrityError ''uq_action_proposals_bank_decision_ref'')
         else if \<exists>q \<in> set rows. same_scope_key q p
         then Inl (IntegrityError ''uq_action_proposals_scope_idempotency'')
         else if active p \<and> (\<exists>q \<in> set rows. active q \<and> in_session (tm_customer_id t) (tm_support_session_id t) q)
         then Inl (IntegrityError ''uq_action_proposals_active_session'')
         else Inr (db\<lparr>pd_proposals := rows @ [p]\<rparr>))"

section \<open>Guards\<close>

text \<open>\<open>_record_transition\<close>, and \<open>_record_disposition_event\<close> for the status as stage.\<close>

definition record_stage :: "proposal_world \<Rightarrow> action_handler action_registry \<Rightarrow> action_proposal \<Rightarrow> string \<Rightarrow> unit step" where
  "record_stage w reg p stage db =
     (case bindR (for_proposal reg p) (\<lambda>s. record_transition w p s stage (pd_bank db)) of
        Inl e \<Rightarrow> (db, Inl (Raised e))
      | Inr b \<Rightarrow> (db\<lparr>pd_bank := b\<rparr>, Inr ()))"

definition record_disposition :: "proposal_world \<Rightarrow> action_handler action_registry \<Rightarrow> action_proposal \<Rightarrow> unit step" where
  "record_disposition w reg p = record_stage w reg p (status_text (pp_status p))"

definition expired_row :: "int \<Rightarrow> action_proposal \<Rightarrow> action_proposal" where
  "expired_row now p =
     p\<lparr>pp_status := EXPIRED, pp_invalidation_reason := Some ''PROPOSAL_EXPIRED'', pp_completed_at := Some now\<rparr>"

definition overdue :: "int \<Rightarrow> action_proposal \<Rightarrow> bool" where
  "overdue now p = (tm_expires_at (pp_terms p) \<le> now)"

definition expire_if_needed :: "int \<Rightarrow> action_proposal \<Rightarrow> unit step" where
  "expire_if_needed now p db =
     (if pp_status p \<notin> set TERMINAL_STATUSES \<and> overdue now p
      then (let p' = expired_row now p
            in (put_proposal p' db, Inl (coded_failure ProposalTransitionError ''Action proposal has expired.''
                 ''PROPOSAL_EXPIRED'' CREATE_NEW_PROPOSAL
                 ''The action proposal expired. Review current information before creating a new proposal.'' (Some p'))))
      else (db, Inr ()))"

definition require_status :: "action_proposal \<Rightarrow> proposal_status \<Rightarrow> unit step" where
  "require_status p required db =
     (if pp_status p = required then (db, Inr ())
      else (db, Inl (Rejected ((new_failure ProposalTransitionError ''Cannot move the proposal from its status.'')
                      \<lparr>pf_proposal := Some p\<rparr>))))"

record commit_scope =
  cs_customer_id :: string
  cs_support_session_id :: string
  cs_runtime_name :: string
  cs_runtime_session_id :: string
  cs_reset_generation :: string

definition validate_scope :: "action_proposal \<Rightarrow> commit_scope \<Rightarrow> string \<Rightarrow> unit step" where
  "validate_scope p scope expected_action_type db =
     (let t = pp_terms p
      in if (tm_customer_id t, tm_support_session_id t, tm_runtime_name t, tm_runtime_session_id t, tm_action_type t)
            = (cs_customer_id scope, cs_support_session_id scope, cs_runtime_name scope, cs_runtime_session_id scope, expected_action_type)
         then (db, Inr ())
         else (db, Inl (coded_failure ProposalScopeError ''Action proposal does not belong to this customer and runtime session.''
                ''PROPOSAL_SCOPE_MISMATCH'' REFRESH_SESSION NOT_AVAILABLE (Some p))))"

definition represent :: "failure_class \<Rightarrow> string \<Rightarrow> action_proposal \<Rightarrow> failure" where
  "represent c message p =
     coded_failure c message ''PRESENTATION_EVIDENCE_REQUIRED'' REPRESENT_AND_RECONFIRM
       ''Present the current proposal again and obtain a later explicit customer decision.'' (Some p)"

definition represent_later :: "failure_class \<Rightarrow> string \<Rightarrow> action_proposal \<Rightarrow> failure" where
  "represent_later c message p =
     coded_failure c message ''PRESENTATION_EVIDENCE_REQUIRED'' REPRESENT_AND_RECONFIRM
       ''Present the current proposal and obtain a later explicit customer decision.'' (Some p)"

section \<open>Creation\<close>

record proposal_values =
  nv_bank_decision_ref :: "string option"
  nv_action_type :: string
  nv_contract_version :: string
  nv_definition :: "(string \<times> int \<times> string) option"
  nv_customer_id :: string
  nv_account_id :: "string option"
  nv_confirmation_policy :: string
  nv_action_payload :: "(string \<times> pyval) list"
  nv_customer_safe_summary :: string
  nv_support_session_id :: string
  nv_runtime_name :: string
  nv_runtime_session_id :: string
  nv_originating_customer_turn_id :: string
  nv_reset_generation :: string
  nv_catalog_snapshot_id :: "string option"
  nv_idempotency_key :: string
  nv_expires_at :: "int option"

definition DEFAULT_PROPOSAL_TTL :: int where
  "DEFAULT_PROPOSAL_TTL = 180 * 1000000"

text \<open>\<open>canonical_payload\<close>: the sorted object and its fingerprint.\<close>

definition canonical_object :: "(string \<times> pyval) list \<Rightarrow> (string \<times> pyval) list" where
  "canonical_object kvs = sort_key fst (map (map_prod id canonical) kvs)"

definition canonical_payload :: "proposal_world \<Rightarrow> (string \<times> pyval) list \<Rightarrow> (string \<times> pyval) list \<times> string" where
  "canonical_payload w kvs = (canonical_object kvs, fingerprint w (PDict kvs))"

lemma canonical_object_eq: "PDict (canonical_object kvs) = canonical (PDict kvs)"
  by (simp add: canonical_object_def)

lemma canonical_object_idem [simp]: "canonical_object (canonical_object kvs) = canonical_object kvs"
  using canonical_idem [of "PDict kvs"] by (metis canonical_object_eq pyval.inject(7))

lemma fingerprint_canonical [simp]: "fingerprint w (PDict (canonical_object kvs)) = fingerprint w (PDict kvs)"
  by (simp add: fingerprint_def json_text_def canonical_object_eq del: canonical.simps)

definition find_idempotent :: "string \<Rightarrow> string \<Rightarrow> string \<Rightarrow> string \<Rightarrow> proposal_db \<Rightarrow> action_proposal option" where
  "find_idempotent customer_id support_session_id action_type key db =
     List.find (\<lambda>p. in_session customer_id support_session_id p \<and> tm_action_type (pp_terms p) = action_type
        \<and> tm_idempotency_key (pp_terms p) = key) (pd_proposals db)"

definition required_strings :: "proposal_values \<Rightarrow> string list" where
  "required_strings v =
     [nv_contract_version v, nv_action_type v, nv_support_session_id v, nv_runtime_name v, nv_runtime_session_id v,
      nv_originating_customer_turn_id v, nv_reset_generation v, nv_confirmation_policy v, nv_customer_safe_summary v,
      nv_idempotency_key v]"

definition same_text :: "string option \<Rightarrow> string option \<Rightarrow> bool" where
  "same_text a b = (the (str_or a (Some [])) = the (str_or b (Some [])))"

definition validate_idempotent_replay ::
    "action_proposal \<Rightarrow> proposal_values \<Rightarrow> string \<times> int \<times> string \<Rightarrow> string \<Rightarrow> action_proposal attempt" where
  "validate_idempotent_replay p v pinned digest =
     (let t = pp_terms p
      in if tm_payload_fingerprint t = digest
            \<and> (tm_definition_id t, tm_definition_revision t, tm_definition_digest t) = pinned
            \<and> same_text (tm_account_id t) (nv_account_id v)
            \<and> tm_contract_version t = nv_contract_version v
            \<and> tm_runtime_name t = nv_runtime_name v
            \<and> tm_runtime_session_id t = nv_runtime_session_id v
            \<and> tm_originating_customer_turn_id t = nv_originating_customer_turn_id v
            \<and> tm_reset_generation t = nv_reset_generation v
            \<and> tm_confirmation_policy t = nv_confirmation_policy v
            \<and> tm_customer_safe_summary t = nv_customer_safe_summary v
            \<and> tm_catalog_snapshot_id t = nv_catalog_snapshot_id v
         then Inr p
         else Inl (fail ProposalConflictError ''Idempotency key is already bound to a different proposal.''))"

text \<open>\<open>order_by(created_at, id)\<close>\<close>

definition by_age :: "action_proposal list \<Rightarrow> action_proposal list" where
  "by_age ps = sort_key (\<lambda>p. tm_created_at (pp_terms p)) (sort_key pp_id ps)"

definition active_rows :: "string \<Rightarrow> string \<Rightarrow> proposal_db \<Rightarrow> action_proposal list" where
  "active_rows customer_id support_session_id db =
     by_age (filter (\<lambda>p. in_session customer_id support_session_id p \<and> active p) (pd_proposals db))"

text \<open>The loop of \<open>_lock_and_find_active_proposal\<close>: overdue rows expire, the first other row is the active one.\<close>

fun expire_loop ::
    "proposal_world \<Rightarrow> action_handler action_registry \<Rightarrow> action_proposal list \<Rightarrow> action_proposal option \<Rightarrow> action_proposal option step" where
  "expire_loop w reg [] found = ret found"
| "expire_loop w reg (p # ps) found =
     (if pp_status p \<noteq> COMMITTING \<and> overdue (pw_now w) p
      then (\<lambda>db. bindS (record_disposition w reg (expired_row (pw_now w) p)) (\<lambda>_. expire_loop w reg ps found)
                   (put_proposal (expired_row (pw_now w) p) db))
      else expire_loop w reg ps (case found of None \<Rightarrow> Some p | Some q \<Rightarrow> Some q))"

definition lock_and_find_active ::
    "proposal_world \<Rightarrow> action_handler action_registry \<Rightarrow> string \<Rightarrow> string \<Rightarrow> action_proposal option step" where
  "lock_and_find_active w reg customer_id support_session_id db =
     expire_loop w reg (active_rows customer_id support_session_id db) None db"

definition active_exists :: "string \<Rightarrow> action_proposal \<Rightarrow> failure" where
  "active_exists message p =
     Rejected ((new_failure ActiveProposalExistsError message)\<lparr>pf_proposal := Some p\<rparr>)"

definition new_proposal :: "string \<Rightarrow> int \<Rightarrow> proposal_values \<Rightarrow> string \<times> int \<times> string \<Rightarrow> (string \<times> pyval) list \<Rightarrow> string \<Rightarrow> int \<Rightarrow> action_proposal" where
  "new_proposal pid now v pinned payload digest expires_at =
     \<lparr>pp_terms = \<lparr>tm_id = pid, tm_bank_decision_ref = nv_bank_decision_ref v, tm_definition_id = fst pinned,
        tm_definition_revision = fst (snd pinned), tm_definition_digest = snd (snd pinned),
        tm_contract_version = nv_contract_version v, tm_action_type = nv_action_type v, tm_customer_id = nv_customer_id v,
        tm_account_id = nv_account_id v, tm_support_session_id = nv_support_session_id v,
        tm_runtime_name = nv_runtime_name v, tm_runtime_session_id = nv_runtime_session_id v,
        tm_originating_customer_turn_id = nv_originating_customer_turn_id v, tm_reset_generation = nv_reset_generation v,
        tm_confirmation_policy = nv_confirmation_policy v, tm_action_payload = payload, tm_payload_fingerprint = digest,
        tm_customer_safe_summary = nv_customer_safe_summary v, tm_catalog_snapshot_id = nv_catalog_snapshot_id v,
        tm_idempotency_key = nv_idempotency_key v, tm_expires_at = expires_at, tm_created_at = now\<rparr>,
      pp_status = PROPOSED, pp_presented_assistant_turn_id = None, pp_confirmation_customer_turn_id = None,
      pp_confirmation_evidence = None, pp_result_payload = None, pp_invalidation_reason = None, pp_presented_at = None,
      pp_confirmed_at = None, pp_commit_started_at = None, pp_completed_at = None\<rparr>"

text \<open>
  The nested transaction of the insert: a constraint violation rolls the savepoint back and the winner of the
  race, if there is one, decides the answer.
\<close>

definition flush_new ::
    "proposal_world \<Rightarrow> action_handler action_registry \<Rightarrow> proposal_values \<Rightarrow> string \<times> int \<times> string \<Rightarrow> string \<Rightarrow> action_proposal
     \<Rightarrow> action_proposal step" where
  "flush_new w reg v pinned digest p db =
     (case insert_proposal p db of
        Inr db1 \<Rightarrow> bindS (record_stage w reg p ''PROPOSED'') (\<lambda>_. ret p) db1
      | Inl e \<Rightarrow>
         (case find_idempotent (nv_customer_id v) (nv_support_session_id v) (nv_action_type v) (nv_idempotency_key v) db of
            Some q \<Rightarrow> lift_step (validate_idempotent_replay q v pinned digest) db
          | None \<Rightarrow>
             (case active_rows (nv_customer_id v) (nv_support_session_id v) db of
                q # _ \<Rightarrow> (db, Inl (active_exists ''Concurrent active proposal won this session scope.'' q))
              | [] \<Rightarrow> (db, Inl (Raised e)))))"

text \<open>The specification \<open>create\<close> works with, and its checks of the values.\<close>

definition creation_spec :: "action_handler action_registry \<Rightarrow> proposal_values \<Rightarrow> spec attempt" where
  "creation_spec reg v =
     (if \<not> list_all (\<lambda>s. py_strip s \<noteq> []) (required_strings v)
      then Inl (fail ProposalError ''A field is required.'')
      else bindR (raised (case nv_definition v of
               Some (i, r, g) \<Rightarrow> resolve_action reg i r g | None \<Rightarrow> require_action reg (nv_action_type v))) (\<lambda>s.
      if nv_action_type v \<noteq> sp_action_type s then Inl (fail ProposalError ''Action type does not match definition.'')
      else if nv_contract_version v \<noteq> sp_contract_version s
      then Inl (fail ProposalError ''Action contract version does not match registration.'')
      else if nv_confirmation_policy v \<noteq> durable_confirmation_policy (sp_authorization_policy s)
      then Inl (fail ProposalError ''Confirmation policy does not match registration.'')
      else (case validate_payload s (nv_action_payload v) of
              Inl e \<Rightarrow> Inl (fail ProposalError ''The payload does not match its schema.'') | Inr _ \<Rightarrow> Inr s)))"

text \<open>\<open>create\<close> from the lock of the session on: nothing else may be active in it.\<close>

definition create_new ::
    "proposal_world \<Rightarrow> action_handler action_registry \<Rightarrow> proposal_values \<Rightarrow> string \<times> int \<times> string \<Rightarrow> action_proposal step" where
  "create_new w reg v pinned =
     bindS (lock_and_find_active w reg (nv_customer_id v) (nv_support_session_id v)) (\<lambda>found db.
     case found of
       Some q \<Rightarrow> (db, Inl (active_exists ''An active proposal blocks replacement in this session.'' q))
     | None \<Rightarrow>
        (let expires_at = (case nv_expires_at v of Some t \<Rightarrow> t | None \<Rightarrow> pw_now w + DEFAULT_PROPOSAL_TTL);
             (payload, digest) = canonical_payload w (nv_action_payload v);
             (pid, b) = uuid4 (pd_bank db)
         in if expires_at \<le> pw_now w
            then (db, Inl (fail ProposalError ''Proposal expiration must be in the future.''))
            else flush_new w reg v pinned digest (new_proposal pid (pw_now w) v pinned payload digest expires_at)
                   (db\<lparr>pd_bank := b\<rparr>)))"

definition create :: "proposal_world \<Rightarrow> action_handler action_registry \<Rightarrow> proposal_values \<Rightarrow> action_proposal step" where
  "create w reg v =
     bindS (lift_step (creation_spec reg v)) (\<lambda>s db.
     let pinned = (sp_definition_id s, sp_definition_revision s, sp_definition_digest s)
     in case find_idempotent (nv_customer_id v) (nv_support_session_id v) (nv_action_type v) (nv_idempotency_key v) db of
          Some p \<Rightarrow> lift_step (validate_idempotent_replay p v pinned (snd (canonical_payload w (nv_action_payload v)))) db
        | None \<Rightarrow> create_new w reg v pinned db)"

section \<open>Decisions\<close>

definition presented_row :: "int \<Rightarrow> string \<Rightarrow> action_proposal \<Rightarrow> action_proposal" where
  "presented_row now turn p =
     p\<lparr>pp_status := PRESENTED, pp_presented_assistant_turn_id := Some turn, pp_presented_at := Some now\<rparr>"

definition mark_presented :: "proposal_world \<Rightarrow> action_handler action_registry \<Rightarrow> string \<Rightarrow> string \<Rightarrow> action_proposal step" where
  "mark_presented w reg pid turn =
     bindS (get_locked pid) (\<lambda>p.
     bindS (expire_if_needed (pw_now w) p) (\<lambda>_.
     if pp_status p = PRESENTED
     then (if pp_presented_assistant_turn_id p \<noteq> Some turn
           then stop (represent ProposalConflictError ''Proposal was already presented on a different assistant turn.'' p)
           else ret p)
     else bindS (require_status p PROPOSED) (\<lambda>_ db.
       let p' = presented_row (pw_now w) turn p
       in bindS (record_stage w reg p' ''PRESENTED'') (\<lambda>_. ret p') (put_proposal p' db))))"

definition confirmed_row :: "int \<Rightarrow> string \<Rightarrow> (string \<times> pyval) list \<Rightarrow> action_proposal \<Rightarrow> action_proposal" where
  "confirmed_row now turn evidence p =
     p\<lparr>pp_status := CONFIRMED, pp_confirmation_customer_turn_id := Some turn, pp_confirmation_evidence := Some evidence,
       pp_confirmed_at := Some now\<rparr>"

definition confirm :: "proposal_world \<Rightarrow> action_handler action_registry \<Rightarrow> string \<Rightarrow> string \<Rightarrow> (string \<times> pyval) list \<Rightarrow> action_proposal step" where
  "confirm w reg pid turn evidence =
     bindS (get_locked pid) (\<lambda>p.
     bindS (expire_if_needed (pw_now w) p) (\<lambda>_.
     if pp_status p = CONFIRMED
     then (if pp_confirmation_customer_turn_id p \<noteq> Some turn
           then stop (represent ProposalConflictError ''Proposal was already confirmed on a different customer turn.'' p)
           else ret p)
     else bindS (require_status p PRESENTED) (\<lambda>_.
       if turn = [] \<or> turn = tm_originating_customer_turn_id (pp_terms p)
       then stop (represent_later ProposalTransitionError ''Confirmation must come from a later real customer turn.'' p)
       else if evidence = []
       then stop (represent_later ProposalError ''Protected confirmation evidence is required.'' p)
       else (\<lambda>db. let p' = confirmed_row (pw_now w) turn (canonical_object evidence) p
                   in bindS (record_stage w reg p' ''CONFIRMED'') (\<lambda>_. ret p') (put_proposal p' db)))))"

definition declined_row :: "int \<Rightarrow> string \<Rightarrow> action_proposal \<Rightarrow> action_proposal" where
  "declined_row now turn p =
     p\<lparr>pp_status := proposal_status.DECLINED, pp_confirmation_customer_turn_id := Some turn,
       pp_invalidation_reason := Some ''CUSTOMER_DECLINED'', pp_completed_at := Some now\<rparr>"

definition decline :: "proposal_world \<Rightarrow> action_handler action_registry \<Rightarrow> string \<Rightarrow> string \<Rightarrow> action_proposal step" where
  "decline w reg pid turn =
     bindS (get_locked pid) (\<lambda>p.
     bindS (expire_if_needed (pw_now w) p) (\<lambda>_.
     if pp_status p = proposal_status.DECLINED then ret p
     else bindS (require_status p PRESENTED) (\<lambda>_ db.
       let p' = declined_row (pw_now w) turn p
       in bindS (record_disposition w reg p') (\<lambda>_. ret p') (put_proposal p' db))))"

definition invalidated_row :: "int \<Rightarrow> string \<Rightarrow> action_proposal \<Rightarrow> action_proposal" where
  "invalidated_row now reason p =
     p\<lparr>pp_status := INVALIDATED, pp_invalidation_reason := Some reason, pp_completed_at := Some now\<rparr>"

definition invalidate :: "proposal_world \<Rightarrow> action_handler action_registry \<Rightarrow> string \<Rightarrow> string \<Rightarrow> action_proposal step" where
  "invalidate w reg pid reason =
     bindS (get_locked pid) (\<lambda>p.
     if pp_status p = INVALIDATED then ret p
     else if pp_status p \<in> set TERMINAL_STATUSES \<or> pp_status p = COMMITTING
     then stop (fail ProposalTransitionError ''Cannot invalidate proposal in its status.'')
     else (\<lambda>db. let p' = invalidated_row (pw_now w) reason p
                 in bindS (record_disposition w reg p') (\<lambda>_. ret p') (put_proposal p' db)))"

definition validate_decision_evidence ::
    "action_handler action_registry \<Rightarrow> action_proposal \<Rightarrow> runtime_context \<Rightarrow> validated_evidence step" where
  "validate_decision_evidence reg p c =
     bindS (lift_step (raised (for_proposal reg p))) (\<lambda>s.
     case validate_evidence c (sp_authorization_policy s) (Some (sp_presentation_requirement s)) None of
       Inr v \<Rightarrow> ret v
     | Inl (RuntimeContextError message) \<Rightarrow> stop (represent ProposalTransitionError message p)
     | Inl e \<Rightarrow> stop (Raised e))"

text \<open>The row object follows the updates of the calls, so each status is read from the table again.\<close>

definition attest_decision ::
    "proposal_world \<Rightarrow> action_handler action_registry \<Rightarrow> action_proposal \<Rightarrow> runtime_context \<Rightarrow> validated_evidence step" where
  "attest_decision w reg p c =
     bindS (validate_decision_evidence reg p c) (\<lambda>v.
     bindS (if pp_status p = PROPOSED then mark_presented w reg (pp_id p) (ve_presentation_turn_id v) else ret p) (\<lambda>p1.
     bindS (if pp_status p1 = PRESENTED then confirm w reg (pp_id p) (ve_decision_turn_id v) (ve_protected_evidence v) else ret p1) (\<lambda>_.
     ret v)))"

section \<open>Commit\<close>

definition committing_row :: "int \<Rightarrow> action_proposal \<Rightarrow> action_proposal" where
  "committing_row now p = p\<lparr>pp_status := COMMITTING, pp_commit_started_at := Some now\<rparr>"

text \<open>The second component is \<open>should_execute\<close>.\<close>

definition claim_commit ::
    "proposal_world \<Rightarrow> action_handler action_registry \<Rightarrow> string \<Rightarrow> commit_scope \<Rightarrow> string \<Rightarrow> (action_proposal \<times> bool) step" where
  "claim_commit w reg pid scope expected_action_type =
     bindS (get_locked pid) (\<lambda>p.
     bindS (validate_scope p scope expected_action_type) (\<lambda>_.
     if pp_status p \<in> {COMMITTED, COMMITTING} then ret (p, False)
     else bindS (expire_if_needed (pw_now w) p) (\<lambda>_ db.
       if tm_reset_generation (pp_terms p) \<noteq> cs_reset_generation scope
       then (let (p', db') = (if pp_status p \<notin> set TERMINAL_STATUSES
                       then (let q = invalidated_row (pw_now w) ''RESET_GENERATION_CHANGED'' p in (q, put_proposal q db))
                       else (p, db))
             in (db', Inl (coded_failure ProposalScopeError ''Proposal was invalidated by a session reset.''
                  ''RESET_GENERATION_CHANGED'' CREATE_NEW_PROPOSAL
                  ''The support session was reset. Review current information before creating a new proposal.'' (Some p'))))
       else bindS (require_status p CONFIRMED) (\<lambda>_ db.
         let p' = committing_row (pw_now w) p
         in bindS (record_stage w reg p' ''COMMIT_STARTED'') (\<lambda>_. ret (p', True)) (put_proposal p' db)) db)))"

definition committed_row :: "int \<Rightarrow> (string \<times> pyval) list \<Rightarrow> action_proposal \<Rightarrow> action_proposal" where
  "committed_row now result p =
     p\<lparr>pp_status := COMMITTED, pp_result_payload := Some result, pp_completed_at := Some now\<rparr>"

definition mark_committed ::
    "proposal_world \<Rightarrow> action_handler action_registry \<Rightarrow> string \<Rightarrow> (string \<times> pyval) list \<Rightarrow> action_proposal step" where
  "mark_committed w reg pid outcome =
     bindS (get_locked pid) (\<lambda>p.
     let result = canonical_object outcome
     in if pp_status p = COMMITTED
        then (if pp_result_payload p \<noteq> Some result
              then stop (fail ProposalConflictError ''Committed proposal already has a different result.'')
              else ret p)
        else bindS (require_status p COMMITTING) (\<lambda>_ db.
          let p' = committed_row (pw_now w) result p
          in bindS (record_stage w reg p' ''COMMITTED'') (\<lambda>_. ret p') (put_proposal p' db)))"

definition dict_update :: "(string \<times> pyval) list \<Rightarrow> (string \<times> pyval) list \<Rightarrow> (string \<times> pyval) list" where
  "dict_update kvs extra = foldl (\<lambda>acc (k, v). dict_put k v acc) kvs extra"

definition proposal_result :: "action_proposal \<Rightarrow> bool \<Rightarrow> (string \<times> pyval) list" where
  "proposal_result p idempotent_replay =
     dict_update (case pp_result_payload p of Some r \<Rightarrow> r | None \<Rightarrow> [])
       [(''proposal_id'', PStr (pp_id p)), (''action_type'', PStr (tm_action_type (pp_terms p))),
        (''contract_version'', PStr (tm_contract_version (pp_terms p))), (''status'', PStr (status_text (pp_status p))),
        (''idempotent_replay'', PBool idempotent_replay)]"

definition proposal_view :: "action_handler action_registry \<Rightarrow> action_proposal \<Rightarrow> (string \<times> pyval) list attempt" where
  "proposal_view reg p =
     bindR (raised (for_proposal reg p)) (\<lambda>s.
     bindR (ah_display_selection (sp_handler s) p) (\<lambda>selection.
     let t = pp_terms p in
     Inr [(''success'', PBool True), (''proposal_id'', PStr (tm_id t)), (''action_type'', PStr (tm_action_type t)),
          (''contract_version'', PStr (tm_contract_version t)), (''status'', PStr (status_text (pp_status p))),
          (''confirmation_policy'', PStr (tm_confirmation_policy t)),
          (''customer_safe_summary'', PStr (tm_customer_safe_summary t)), (''display_selection'', PDict selection),
          (''expires_at'', PTime (tm_expires_at t))]))"

end
