(* ===== verification/Action_Proposals.thy ===== *)
theory Action_Proposals
  imports Proposal_Lifecycle
begin

text \<open>
  The proposal service (\<^verbatim>\<open>services/action_proposals.py\<close>), the execution pipeline of the lifecycle engine
  (\<open>execute_registered_commit\<close>) and the request frame (\<open>audited_request\<close>, \<open>record_rejection\<close> of
  \<^verbatim>\<open>services/proposal_audit.py\<close>).  These are the methods that commit and roll back, so they work on a
  \<open>session\<close>; \<open>run_request\<close> is what a request leaves in the database when its session closes.

  The published revision of a playbook (\<open>SqlPlaybookRepository.lock_published\<close>) is the argument
  \<open>publication\<close>: \<open>None\<close> where the repository raises.
\<close>

section \<open>Sessions\<close>

record session =
  ss_committed :: proposal_db
  ss_working :: proposal_db

type_synonym 'a act = "session \<Rightarrow> session \<times> 'a attempt"

definition on_working :: "'a step \<Rightarrow> 'a act" where
  "on_working m ss = (case m (ss_working ss) of (db, r) \<Rightarrow> (ss\<lparr>ss_working := db\<rparr>, r))"

definition on_bank :: "(bank_db \<Rightarrow> ('a \<times> bank_db) attempt) \<Rightarrow> 'a step" where
  "on_bank f db = (case f (pd_bank db) of Inl e \<Rightarrow> (db, Inl e) | Inr (x, b) \<Rightarrow> (db\<lparr>pd_bank := b\<rparr>, Inr x))"

definition hook :: "(bank_db \<Rightarrow> bank_db attempt) \<Rightarrow> unit step" where
  "hook f db = (case f (pd_bank db) of Inl e \<Rightarrow> (db, Inl e) | Inr b \<Rightarrow> (db\<lparr>pd_bank := b\<rparr>, Inr ()))"

definition commit_session :: "session \<Rightarrow> session" where
  "commit_session ss = ss\<lparr>ss_committed := ss_working ss\<rparr>"

definition rollback_session :: "session \<Rightarrow> session" where
  "rollback_session ss = ss\<lparr>ss_working := ss_committed ss\<rparr>"

text \<open>\<open>try: ... except Exception: db.rollback(); raise\<close> around a body that ends with \<open>db.commit()\<close>.\<close>

definition commit_or_rollback :: "'a step \<Rightarrow> 'a act" where
  "commit_or_rollback m ss =
     (case on_working m ss of
        (ss', Inl e) \<Rightarrow> (rollback_session ss', Inl e)
      | (ss', Inr x) \<Rightarrow> (commit_session ss', Inr x))"

definition run_request :: "'a act \<Rightarrow> proposal_db \<Rightarrow> proposal_db \<times> 'a attempt" where
  "run_request m db =
     (case m \<lparr>ss_committed = db, ss_working = db\<rparr> of (ss, r) \<Rightarrow> (ss_committed ss, r))"

section \<open>The execution pipeline\<close>

definition scope_or_transition :: "failure \<Rightarrow> bool" where
  "scope_or_transition e =
     (case e of Rejected f \<Rightarrow> pf_class f \<in> {ProposalScopeError, ProposalTransitionError, ActionPreconditionError} | Raised _ \<Rightarrow> False)"

text \<open>A refused claim: a row the claim expired or invalidated is kept, everything else is undone.\<close>

definition claim_refused :: "proposal_world \<Rightarrow> action_handler action_registry \<Rightarrow> string \<Rightarrow> failure \<Rightarrow> 'a act" where
  "claim_refused w reg pid e ss =
     (if \<not> scope_or_transition e then (ss, Inl e)
      else (case get_proposal pid (ss_working ss) of
          Some p \<Rightarrow>
            if pp_status p \<in> {INVALIDATED, EXPIRED}
            then bindS (commit_or_rollback (record_disposition w reg p)) (\<lambda>_. stop e) ss
            else (rollback_session ss, Inl e)
        | None \<Rightarrow> (rollback_session ss, Inl e)))"

definition reconcile_commit ::
    "proposal_world \<Rightarrow> action_handler action_registry \<Rightarrow> spec \<Rightarrow> action_proposal \<Rightarrow> (string \<times> pyval) list act" where
  "reconcile_commit w reg s p ss =
     (let h = sp_handler s in
      case ah_reconcile h p (pd_bank (ss_working ss)) of
        Inl e \<Rightarrow> (rollback_session ss, Inl e)
      | Inr (Some outcome) \<Rightarrow>
          commit_or_rollback
            (bindS (lift_step (raised (validate_result s outcome))) (\<lambda>_.
             bindS (mark_committed w reg (pp_id p) outcome) (\<lambda>p'.
             bindS (record_stage w reg p' ''COMMIT_RECONCILED'') (\<lambda>_.
             bindS (hook (ah_record_reconciled h p' outcome)) (\<lambda>_.
             ret (proposal_result p' True)))))) ss
      | Inr None \<Rightarrow>
          (ss, Inr [(''success'', PBool False), (''error'', PStr ''COMMIT_RESULT_PENDING''),
                    (''recovery_class'', PStr (recovery_class_text RETRY_SAME_PROPOSAL)), (''proposal_id'', PStr (pp_id p)),
                    (''action_type'', PStr (tm_action_type (pp_terms p))), (''status'', PStr ''COMMITTING''),
                    (''idempotent_replay'', PBool True), (''message'', PStr (ah_commit_pending_message h p))]))"

text \<open>The domain state no longer supports the proposal: it is invalidated with the handler's reason.\<close>

definition precondition_failed ::
    "proposal_world \<Rightarrow> action_handler action_registry \<Rightarrow> action_proposal \<Rightarrow> proposal_failure \<Rightarrow> 'a act" where
  "precondition_failed w reg p f =
     (let p' = invalidated_row (pw_now w) (pf_reason f) p in
      bindS (commit_or_rollback (\<lambda>db. record_disposition w reg p' (put_proposal p' db))) (\<lambda>_.
      stop (Rejected (f\<lparr>pf_proposal := Some p'\<rparr>))))"

definition execute_claimed ::
    "proposal_world \<Rightarrow> action_handler action_registry \<Rightarrow> spec \<Rightarrow> action_proposal \<Rightarrow> (string \<times> pyval) list act" where
  "execute_claimed w reg s p ss =
     (let h = sp_handler s in
      case ah_validate_current_preconditions h (pd_proposals (ss_working ss)) p (pd_bank (ss_working ss)) of
        Inl (Rejected f) \<Rightarrow>
          (if pf_class f = ActionPreconditionError then precondition_failed w reg p f ss else (ss, Inl (Rejected f)))
      | Inl e \<Rightarrow> (ss, Inl e)
      | Inr _ \<Rightarrow>
          commit_or_rollback
            (bindS (hook (ah_record_commit_started h p)) (\<lambda>_.
             bindS (on_bank (ah_execute h p)) (\<lambda>outcome.
             bindS (lift_step (raised (validate_result s outcome))) (\<lambda>_.
             bindS (mark_committed w reg (pp_id p) outcome) (\<lambda>p'.
             bindS (hook (ah_record_committed h p' outcome)) (\<lambda>_.
             ret (proposal_result p' False))))))) ss)"

definition execute_registered_commit ::
    "proposal_world \<Rightarrow> action_handler action_registry \<Rightarrow> string \<Rightarrow> commit_scope \<Rightarrow> string \<Rightarrow> (string \<times> pyval) list act" where
  "execute_registered_commit w reg pid scope expected_action_type =
     bindS (on_working (get_locked pid)) (\<lambda>p.
     bindS (lift_step (raised (for_proposal reg p))) (\<lambda>s ss.
     case on_working (claim_commit w reg pid scope expected_action_type) ss of
       (ss1, Inl e) \<Rightarrow> claim_refused w reg pid e ss1
     | (ss1, Inr (p1, should_execute)) \<Rightarrow>
         if should_execute then execute_claimed w reg s p1 ss1
         else if pp_status p1 = COMMITTED then (ss1, Inr (proposal_result p1 True))
         else reconcile_commit w reg s p1 ss1))"

section \<open>Identity\<close>

definition matches_identity :: "string \<Rightarrow> user \<Rightarrow> bool" where
  "matches_identity identity u =
     (u_auth_provider_uid u = identity \<or> u_email u = Some identity \<or> py_uuid identity = Some (u_id u))"

definition resolve_customer_id :: "string \<Rightarrow> bank_db \<Rightarrow> string attempt" where
  "resolve_customer_id identity b =
     (case List.find (matches_identity (py_strip identity)) (d_users b) of
        Some u \<Rightarrow> Inr (u_id u)
      | None \<Rightarrow> Inl (fail ProposalScopeError ''Authenticated customer identity does not resolve to a banking customer.''))"

definition resolve_step :: "string \<Rightarrow> string step" where
  "resolve_step identity db = (db, resolve_customer_id identity (pd_bank db))"

definition context_scope :: "string \<Rightarrow> runtime_context \<Rightarrow> commit_scope" where
  "context_scope customer_id c =
     \<lparr>cs_customer_id = customer_id, cs_support_session_id = rt_support_session_id c, cs_runtime_name = rt_runtime_name c,
      cs_runtime_session_id = rt_runtime_session_id c, cs_reset_generation = rt_reset_generation c\<rparr>"

section \<open>Rejected requests\<close>

definition in_runtime_scope :: "string \<Rightarrow> runtime_context \<Rightarrow> action_proposal \<Rightarrow> bool" where
  "in_runtime_scope customer_id c p =
     (let t = pp_terms p
      in tm_customer_id t = customer_id \<and> tm_support_session_id t = rt_support_session_id c
         \<and> tm_runtime_name t = rt_runtime_name c \<and> tm_runtime_session_id t = rt_runtime_session_id c)"

definition failure_code :: "failure \<Rightarrow> string option" where
  "failure_code e = (case e of Rejected f \<Rightarrow> Some (pf_code f) | Raised _ \<Rightarrow> None)"

text \<open>A real expiry survives the rollback of the failed request, inside the authenticated scope.\<close>

definition retain_expiry ::
    "proposal_world \<Rightarrow> action_handler action_registry \<Rightarrow> string option \<Rightarrow> runtime_context \<Rightarrow> failure \<Rightarrow> (string \<times> pyval) list \<Rightarrow> unit step" where
  "retain_expiry w reg customer c e request db =
     (case (customer, map_of request ''proposal_id'') of
        (Some customer_id, Some (PStr pid)) \<Rightarrow>
          if customer_id \<noteq> [] \<and> failure_code e = Some ''PROPOSAL_EXPIRED'' \<and> pid \<noteq> []
          then (case get_proposal pid db of
              Some p \<Rightarrow>
                if in_runtime_scope customer_id c p \<and> pp_status p \<notin> set TERMINAL_STATUSES
                   \<and> pp_status p \<noteq> COMMITTING \<and> overdue (pw_now w) p
                then record_disposition w reg (expired_row (pw_now w) p) (put_proposal (expired_row (pw_now w) p) db)
                else (db, Inr ())
            | None \<Rightarrow> (db, Inr ()))
          else (db, Inr ())
      | _ \<Rightarrow> (db, Inr ()))"

definition adverse_action_of :: "failure \<Rightarrow> adverse_notice option" where
  "adverse_action_of e =
     (case e of Rejected f \<Rightarrow> (case pf_details f of Some rd \<Rightarrow> rd_adverse_action rd | None \<Rightarrow> None) | Raised _ \<Rightarrow> None)"

definition notice_id :: "proposal_world \<Rightarrow> adverse_notice \<Rightarrow> string" where
  "notice_id w n = pw_uuid5 w (''credit-limit-notice:'' @ an_key n)"

definition record_adverse_action_notice :: "proposal_world \<Rightarrow> string \<Rightarrow> adverse_notice \<Rightarrow> bank_db \<Rightarrow> bank_db" where
  "record_adverse_action_notice w customer_id n b =
     (let message_id = notice_id w n
      in if \<exists>m \<in> set (d_messages b). sm_message_id m = message_id then b
         else (let (row_id, b1) = uuid4 b
               in b1\<lparr>d_messages := d_messages b1 @
                    [\<lparr>sm_id = row_id, sm_message_id = message_id, sm_user_id = customer_id, sm_sender = ''bank'',
                      sm_category = Some ''CREDIT_LIMIT_DECISION'', sm_message = an_subject n @ NEWLINE @ NEWLINE @ an_body n,
                      sm_thread_id = ''credit-limit-decision-'' @ message_id, sm_is_user_read = False,
                      sm_is_agent_read = True\<rparr>]\<rparr>))"

text \<open>The evaluation a rejection archives, pinned to its definition; none without one.\<close>

definition rejection_snapshot ::
    "action_handler action_registry \<Rightarrow> string option \<Rightarrow> runtime_context \<Rightarrow> failure \<Rightarrow> pyval option res" where
  "rejection_snapshot reg customer c e =
     (case (customer, e) of
        (Some customer_id, Rejected f) \<Rightarrow>
          (case (if pf_class f \<in> {ProposalPolicyError, ActionPreconditionError} then pf_policy_evidence f else None) of
             None \<Rightarrow> Inr None
           | Some ev \<Rightarrow>
               bindR (case (if pf_class f = ActionPreconditionError then pf_proposal f else None) of
                        Some p \<Rightarrow> (if in_runtime_scope customer_id c p
                                   then bindR (for_proposal reg p) (\<lambda>s. Inr (ev\<lparr>pe_definition := definition_snapshot s\<rparr>))
                                   else Inr ev)
                      | None \<Rightarrow> Inr ev) (\<lambda>ev'.
               if pe_definition ev' = PNone then Inr None
               else bindR (policy_evaluation_snapshot ev') (\<lambda>snapshot. Inr (Some snapshot))))
      | _ \<Rightarrow> Inr None)"

definition rejection_payload ::
    "proposal_world \<Rightarrow> string \<Rightarrow> string option \<Rightarrow> runtime_context \<Rightarrow> string \<Rightarrow> failure \<Rightarrow> (string \<times> pyval) list \<Rightarrow> (string \<times> pyval) list" where
  "rejection_payload w identity customer c operation e request =
     context_fields w c @
     [(''customer_ref'', optional_reference w customer ''customer''),
      (''identity_ref'', PStr (stable_log_reference w (Some identity) ''identity'')),
      (''operation'', PStr operation),
      (''reason_code'', PStr (case str_or (failure_code e) None of Some code \<Rightarrow> code
         | None \<Rightarrow> if is_value_error e then ''INVALID_REQUEST'' else ''INTERNAL_FAILURE'')),
      (''request_fingerprint'', PStr (fingerprint w (PDict request))),
      (''attempted_proposal_ref'', (case map_of request ''proposal_id'' of
           Some (PStr pid) \<Rightarrow> optional_reference w (Some pid) ''proposal'' | _ \<Rightarrow> PNone)),
      (''evidence_validated'', PNone),
      (''outcome_certainty'', PStr (if is_value_error e then ''REJECTED_REQUEST'' else ''UNKNOWN''))]"

definition record_rejection ::
    "proposal_world \<Rightarrow> action_handler action_registry \<Rightarrow> string \<Rightarrow> string option \<Rightarrow> runtime_context \<Rightarrow> string \<Rightarrow> failure
     \<Rightarrow> (string \<times> pyval) list \<Rightarrow> unit step" where
  "record_rejection w reg identity customer c operation e request =
     bindS (lift_step (raised (rejection_snapshot reg customer c e))) (\<lambda>snapshot db.
     (db\<lparr>pd_bank := snd (emit w
        (if is_value_error e then ''ACTION_PROPOSAL_REQUEST_REJECTED'' else ''ACTION_PROPOSAL_REQUEST_FAILED'')
        (rejection_payload w identity customer c operation e request) None snapshot (pd_bank db))\<rparr>, Inr ()))"

definition record_request_rejection ::
    "proposal_world \<Rightarrow> action_handler action_registry \<Rightarrow> string \<Rightarrow> runtime_context \<Rightarrow> string \<Rightarrow> failure \<Rightarrow> (string \<times> pyval) list \<Rightarrow> unit step" where
  "record_request_rejection w reg identity c operation e request db =
     (let customer = (case resolve_customer_id identity (pd_bank db) of Inr i \<Rightarrow> Some i | Inl _ \<Rightarrow> None) in
      bindS (retain_expiry w reg customer c e request) (\<lambda>_ db1.
      let b = (case (customer, adverse_action_of e) of
                 (Some customer_id, Some n) \<Rightarrow> record_adverse_action_notice w customer_id n (pd_bank db1)
               | _ \<Rightarrow> pd_bank db1)
      in record_rejection w reg identity customer c operation e request (db1\<lparr>pd_bank := b\<rparr>)) db)"

text \<open>
  \<open>audited_request\<close>: a request that raises is rolled back and its rejection committed.  An exception carries the
  row object of its proposal, which shows the row as the database has it afterwards.
\<close>

definition refreshed :: "proposal_db \<Rightarrow> failure \<Rightarrow> failure" where
  "refreshed db e =
     (case e of
        Rejected f \<Rightarrow> Rejected (f\<lparr>pf_proposal := (case pf_proposal f of
            Some p \<Rightarrow> (case get_proposal (pp_id p) db of Some q \<Rightarrow> Some q | None \<Rightarrow> Some p) | None \<Rightarrow> None)\<rparr>)
      | Raised x \<Rightarrow> Raised x)"

definition audited_request ::
    "proposal_world \<Rightarrow> action_handler action_registry \<Rightarrow> string \<Rightarrow> runtime_context \<Rightarrow> string \<Rightarrow> (string \<times> pyval) list \<Rightarrow> 'a act \<Rightarrow> 'a act" where
  "audited_request w reg identity c operation request body ss =
     (case body ss of
        (ss1, Inr x) \<Rightarrow> (ss1, Inr x)
      | (ss1, Inl e) \<Rightarrow>
          (let ss2 = rollback_session ss1
           in if identity = [] then (ss2, Inl (refreshed (ss_committed ss2) e))
              else (case on_working (record_request_rejection w reg identity c operation e request) ss2 of
                      (ss3, Inr _) \<Rightarrow> (commit_session ss3, Inl (refreshed (ss_working ss3) e))
                    | (ss3, Inl e') \<Rightarrow> (ss3, Inl e'))))"

section \<open>Commit and decision requests\<close>

text \<open>\<open>_commit_for_identity\<close>; without an expected action type, that of the proposal.\<close>

definition commit_body ::
    "proposal_world \<Rightarrow> action_handler action_registry \<Rightarrow> string \<Rightarrow> string \<Rightarrow> runtime_context \<Rightarrow> string option \<Rightarrow> (string \<times> pyval) list act" where
  "commit_body w reg pid identity c expected =
     bindS (on_working (resolve_step identity)) (\<lambda>customer_id.
     bindS (on_working (get_locked pid)) (\<lambda>p.
     let action_type = the (str_or expected (Some (tm_action_type (pp_terms p)))) in
     bindS (on_working (validate_scope p (context_scope customer_id c) action_type)) (\<lambda>_.
     bindS (on_working (attest_decision w reg p c)) (\<lambda>_.
     execute_registered_commit w reg pid (context_scope customer_id c) action_type))))"

definition commit_request :: "string \<Rightarrow> string option \<Rightarrow> (string \<times> pyval) list" where
  "commit_request pid expected =
     (''proposal_id'', PStr pid) # (case expected of Some t \<Rightarrow> [(''expected_action_type'', PStr t)] | None \<Rightarrow> [])"

definition commit_for_identity ::
    "proposal_world \<Rightarrow> action_handler action_registry \<Rightarrow> string \<Rightarrow> string \<Rightarrow> runtime_context \<Rightarrow> string option \<Rightarrow> (string \<times> pyval) list act" where
  "commit_for_identity w reg pid identity c expected =
     audited_request w reg identity c ''COMMIT'' (commit_request pid expected) (commit_body w reg pid identity c expected)"

text \<open>\<open>commit_fraud_triage_for_identity\<close> has the same body with the triage action type, and only logs besides.\<close>

definition commit_fraud_triage_for_identity ::
    "proposal_world \<Rightarrow> action_handler action_registry \<Rightarrow> string \<Rightarrow> string \<Rightarrow> runtime_context \<Rightarrow> (string \<times> pyval) list act" where
  "commit_fraud_triage_for_identity w reg pid identity c =
     audited_request w reg identity c ''COMMIT'' [(''proposal_id'', PStr pid)]
       (commit_body w reg pid identity c (Some ''TRIAGE_FRAUD_CASE''))"

datatype non_commit_decision = DECLINE | REVISE | CANCEL

definition read_decision :: "string \<Rightarrow> non_commit_decision option" where
  "read_decision s = (let d = py_upper (py_strip s) in
     if d = ''DECLINE'' then Some DECLINE else if d = ''REVISE'' then Some REVISE
     else if d = ''CANCEL'' then Some CANCEL else None)"

fun decision_text :: "non_commit_decision \<Rightarrow> string" where
  "decision_text DECLINE = ''DECLINE''"
| "decision_text REVISE = ''REVISE''"
| "decision_text CANCEL = ''CANCEL''"

fun decision_reason :: "non_commit_decision \<Rightarrow> string" where
  "decision_reason DECLINE = ''CUSTOMER_DECLINED''"
| "decision_reason REVISE = ''CUSTOMER_REVISED''"
| "decision_reason CANCEL = ''CUSTOMER_CANCELLED''"

definition decision_status :: "non_commit_decision \<Rightarrow> proposal_status" where
  "decision_status d = (if d = DECLINE then proposal_status.DECLINED else INVALIDATED)"

text \<open>\<open>ActionProposalService.proposal_view\<close> adds the public projection of the handler.\<close>

definition service_view :: "action_handler action_registry \<Rightarrow> action_proposal \<Rightarrow> (string \<times> pyval) list attempt" where
  "service_view reg p =
     bindR (proposal_view reg p) (\<lambda>view.
     bindR (raised (for_proposal reg p)) (\<lambda>s.
     bindR (ah_public_projection (sp_handler s) p) (\<lambda>projection.
     Inr (dict_update view projection))))"

definition decision_view :: "action_handler action_registry \<Rightarrow> non_commit_decision \<Rightarrow> bool \<Rightarrow> action_proposal \<Rightarrow> (string \<times> pyval) list attempt" where
  "decision_view reg d replay p =
     bindR (service_view reg p) (\<lambda>view.
     Inr (dict_update view [(''decision'', PStr (decision_text d)), (''idempotent_replay'', PBool replay)]))"

text \<open>A decision on a proposal of another generation: the proposal is invalidated, and that is committed.\<close>

definition reset_changed :: "proposal_world \<Rightarrow> action_handler action_registry \<Rightarrow> action_proposal \<Rightarrow> 'a act" where
  "reset_changed w reg p =
     bindS (if pp_status p \<notin> set TERMINAL_STATUSES
            then (\<lambda>ss. case on_working (invalidate w reg (pp_id p) ''RESET_GENERATION_CHANGED'') ss of
                    (ss', Inl e) \<Rightarrow> (ss', Inl e) | (ss', Inr q) \<Rightarrow> (commit_session ss', Inr q))
            else ret p) (\<lambda>q.
     stop (coded_failure ProposalScopeError ''Proposal was invalidated by a session reset.'' ''RESET_GENERATION_CHANGED''
       CREATE_NEW_PROPOSAL ''The support session was reset. Review current information before creating a new proposal.'' (Some q)))"

text \<open>The writes of a fresh decision: the evidence, then the disposition.\<close>

definition apply_decision ::
    "proposal_world \<Rightarrow> action_handler action_registry \<Rightarrow> action_proposal \<Rightarrow> validated_evidence \<Rightarrow> non_commit_decision \<Rightarrow> action_proposal step" where
  "apply_decision w reg p v d db =
     (let turn = ve_decision_turn_id v;
          p' = p\<lparr>pp_confirmation_evidence := Some (ve_protected_evidence v), pp_confirmation_customer_turn_id := Some turn\<rparr>;
          db' = put_proposal p' db
      in if d = DECLINE then decline w reg (pp_id p) turn db'
         else bindS (invalidate w reg (pp_id p) (decision_reason d)) (\<lambda>q db2.
           let q' = q\<lparr>pp_confirmation_customer_turn_id := Some turn\<rparr> in (put_proposal q' db2, Inr q')) db')"

text \<open>The rest of \<open>decide_for_identity\<close>, once the proposal shows its presentation, and once the evidence is validated.\<close>

definition decide_presented ::
    "proposal_world \<Rightarrow> action_handler action_registry \<Rightarrow> non_commit_decision \<Rightarrow> validated_evidence \<Rightarrow> action_proposal
     \<Rightarrow> (string \<times> pyval) list act" where
  "decide_presented w reg d v p ss =
     (if pp_presented_assistant_turn_id p \<noteq> Some (ve_presentation_turn_id v)
      then stop (represent ProposalScopeError ''Proposal presentation does not belong to the protected turn.'' p) ss
      else if ve_decision_turn_id v = tm_originating_customer_turn_id (pp_terms p)
      then stop (represent_later ProposalTransitionError ''A proposal decision must come from a later customer turn.'' p) ss
      else if pp_status p \<in> {proposal_status.DECLINED, INVALIDATED}
      then (if pp_status p = decision_status d \<and> pp_invalidation_reason p = Some (decision_reason d)
            then lift_step (decision_view reg d True p) ss
            else stop (fail ProposalTransitionError ''Proposal is already terminal.'') ss)
      else (case on_working (apply_decision w reg p v d) ss of
              (ss', Inl e) \<Rightarrow> (ss', Inl e)
            | (ss', Inr q) \<Rightarrow> (commit_session ss', decision_view reg d False q)))"

definition decide_attested ::
    "proposal_world \<Rightarrow> action_handler action_registry \<Rightarrow> non_commit_decision \<Rightarrow> runtime_context \<Rightarrow> action_proposal
     \<Rightarrow> validated_evidence \<Rightarrow> (string \<times> pyval) list act" where
  "decide_attested w reg d c p v =
     (if tm_reset_generation (pp_terms p) \<noteq> rt_reset_generation c then reset_changed w reg p
      else bindS (on_working (if pp_status p = PROPOSED then mark_presented w reg (pp_id p) (ve_presentation_turn_id v) else ret p))
             (decide_presented w reg d v))"

definition decide_body ::
    "proposal_world \<Rightarrow> action_handler action_registry \<Rightarrow> string \<Rightarrow> string \<Rightarrow> string \<Rightarrow> runtime_context \<Rightarrow> (string \<times> pyval) list act" where
  "decide_body w reg pid decision identity c =
     (case read_decision decision of
        None \<Rightarrow> stop (fail ProposalError ''Proposal decision must be DECLINE, REVISE, or CANCEL.'')
      | Some d \<Rightarrow>
         bindS (on_working (resolve_step identity)) (\<lambda>customer_id.
         bindS (on_working (get_locked pid)) (\<lambda>p.
         bindS (on_working (validate_scope p (context_scope customer_id c) (tm_action_type (pp_terms p)))) (\<lambda>_.
         bindS (on_working (validate_decision_evidence reg p c)) (decide_attested w reg d c p)))))"

definition decide_for_identity ::
    "proposal_world \<Rightarrow> action_handler action_registry \<Rightarrow> string \<Rightarrow> string \<Rightarrow> string \<Rightarrow> runtime_context \<Rightarrow> (string \<times> pyval) list act" where
  "decide_for_identity w reg pid decision identity c =
     audited_request w reg identity c ''DECIDE'' [(''proposal_id'', PStr pid), (''decision'', PStr decision)]
       (decide_body w reg pid decision identity c)"

section \<open>Preparation requests\<close>

text \<open>\<open>validate_inputs\<close> of \<^verbatim>\<open>services/proposal_capabilities.py\<close>.\<close>

definition string_list :: "pyval \<Rightarrow> bool" where
  "string_list v = (case v of PList vs \<Rightarrow> list_all (\<lambda>x. is_instance x T_str) vs | _ \<Rightarrow> True)"

definition validate_inputs :: "(string \<times> pyval) list \<Rightarrow> (string \<times> field_type) list \<Rightarrow> unit attempt" where
  "validate_inputs inputs schema =
     (if set (map fst inputs) \<noteq> set (map fst schema)
      then Inl (fail ProposalError ''Business inputs do not match the operation contract.'')
      else if \<not> list_all (\<lambda>(k, t). strict_instance (the (map_of inputs k)) t \<and> string_list (the (map_of inputs k))) schema
      then Inl (fail ProposalError ''Invalid business input.'')
      else Inr ())"

type_synonym publication = "string \<Rightarrow> (int \<times> string) option"

definition require_current_publication :: "publication \<Rightarrow> spec \<Rightarrow> unit attempt" where
  "require_current_publication published s =
     (case published (sp_definition_id s) of
        None \<Rightarrow> Inl (fail ProposalError ''The published playbook is unavailable; discover again.'')
      | Some current \<Rightarrow>
          if current = (sp_definition_revision s, sp_definition_digest s) then Inr ()
          else Inl (fail ProposalError ''The published playbook changed; discover again.''))"

definition FINGERPRINT_KEY :: string where
  "FINGERPRINT_KEY = ''_business_input_fingerprint''"

text \<open>What a retry must share with the proposal its key belongs to.\<close>

definition same_preparation :: "proposal_world \<Rightarrow> runtime_context \<Rightarrow> (string \<times> pyval) list \<Rightarrow> action_proposal \<Rightarrow> bool" where
  "same_preparation w c inputs p =
     (let t = pp_terms p
      in tm_support_session_id t = rt_support_session_id c \<and> tm_runtime_name t = rt_runtime_name c
         \<and> tm_runtime_session_id t = rt_runtime_session_id c \<and> tm_originating_customer_turn_id t = rt_customer_turn_id c
         \<and> tm_reset_generation t = rt_reset_generation c \<and> tm_catalog_snapshot_id t = rt_catalog_snapshot_id c
         \<and> dict_get (PDict (tm_action_payload t)) FINGERPRINT_KEY = PStr (fingerprint w (PDict inputs)))"

definition preparation_context ::
    "proposal_world \<Rightarrow> string \<Rightarrow> spec \<Rightarrow> runtime_context \<Rightarrow> string \<Rightarrow> (string \<times> pyval) list \<Rightarrow> (string \<times> pyval) list" where
  "preparation_context w customer_id s c key inputs =
     [(''customer_id'', PStr customer_id), (''definition_digest'', PStr (sp_definition_digest s)),
      (''support_session_id'', PStr (rt_support_session_id c)), (''runtime_name'', PStr (rt_runtime_name c)),
      (''runtime_session_id'', PStr (rt_runtime_session_id c)),
      (''originating_customer_turn_id'', PStr (rt_customer_turn_id c)),
      (''reset_generation'', PStr (rt_reset_generation c)), (''idempotency_key'', PStr key),
      (''input_fingerprint'', PStr (fingerprint w (PDict inputs)))]"

definition pin_policy_error :: "spec \<Rightarrow> failure \<Rightarrow> failure" where
  "pin_policy_error s e =
     (case e of
        Rejected f \<Rightarrow>
          if pf_class f = ProposalPolicyError
          then Rejected (f\<lparr>pf_policy_evidence := map_option (\<lambda>ev. ev\<lparr>pe_definition := definition_snapshot s\<rparr>) (pf_policy_evidence f)\<rparr>)
          else e
      | Raised _ \<Rightarrow> e)"

definition decision_binding :: "(string \<times> pyval) list \<Rightarrow> string option res" where
  "decision_binding payload =
     (case map_of payload ''bank_decision'' of
        None \<Rightarrow> Inr None
      | Some v \<Rightarrow> bindR (decision_validate v) (\<lambda>d. Inr (Some (binding_ref d))))"

definition already_bound :: "spec \<Rightarrow> (string \<times> pyval) list \<Rightarrow> failure" where
  "already_bound s payload =
     (let get = dict_get (PDict payload) in
      policy_error \<lparr>pe_policy = get ''credit_limit_policy'', pe_facts = get ''eligibility_facts'',
        pe_requested_limit = get ''proposed_limit'', pe_reason_code = ''BANK_DECISION_ALREADY_BOUND'',
        pe_definition = definition_snapshot s, pe_approved_facts = PNone, pe_bank_decision = get ''bank_decision'',
        pe_decision_failure = Some ''APPROVAL_ALREADY_BOUND'', pe_decision_policy = PNone, pe_decision_request = PNone\<rparr>
        None None)"

definition creation_values ::
    "string \<Rightarrow> spec \<Rightarrow> runtime_context \<Rightarrow> string \<Rightarrow> int option \<Rightarrow> string option \<Rightarrow> string option \<Rightarrow> (string \<times> pyval) list
     \<Rightarrow> string \<Rightarrow> string \<Rightarrow> proposal_values" where
  "creation_values customer_id s c key expires_at bank_decision_ref account_id payload summary action_type =
     \<lparr>nv_bank_decision_ref = bank_decision_ref, nv_action_type = action_type,
      nv_contract_version = sp_contract_version s,
      nv_definition = Some (sp_definition_id s, sp_definition_revision s, sp_definition_digest s),
      nv_customer_id = customer_id, nv_account_id = account_id,
      nv_confirmation_policy = durable_confirmation_policy (sp_authorization_policy s), nv_action_payload = payload,
      nv_customer_safe_summary = summary, nv_support_session_id = rt_support_session_id c,
      nv_runtime_name = rt_runtime_name c, nv_runtime_session_id = rt_runtime_session_id c,
      nv_originating_customer_turn_id = rt_customer_turn_id c, nv_reset_generation = rt_reset_generation c,
      nv_catalog_snapshot_id = rt_catalog_snapshot_id c, nv_idempotency_key = key, nv_expires_at = expires_at\<rparr>"

text \<open>The creation of \<open>propose_action\<close>: only the binding of the bank decision has an answer of its own.\<close>

definition create_bound ::
    "proposal_world \<Rightarrow> action_handler action_registry \<Rightarrow> spec \<Rightarrow> proposal_values \<Rightarrow> action_proposal step" where
  "create_bound w reg s v db =
     (case create w reg v db of
        (db', Inl (Raised (IntegrityError name))) \<Rightarrow>
          if nv_bank_decision_ref v \<noteq> None \<and> name = ''uq_action_proposals_bank_decision_ref''
          then (db', Inl (already_bound s (nv_action_payload v)))
          else (db', Inl (Raised (IntegrityError name)))
      | r \<Rightarrow> r)"

definition propose_action ::
    "proposal_world \<Rightarrow> action_handler action_registry \<Rightarrow> publication \<Rightarrow> string \<Rightarrow> string \<Rightarrow> (string \<times> pyval) list \<Rightarrow> spec option
     \<Rightarrow> runtime_context \<Rightarrow> string \<Rightarrow> int option \<Rightarrow> action_proposal step" where
  "propose_action w reg published action_type customer_id inputs specification c key expires_at db =
     (let existing = find_idempotent customer_id (rt_support_session_id c) action_type key db in
      bindS (lift_step (raised (case existing of
               Some p \<Rightarrow> for_proposal reg p
             | None \<Rightarrow> (case specification of Some s \<Rightarrow> Inr s | None \<Rightarrow> require_action reg action_type)))) (\<lambda>s.
      let h = sp_handler s; inputs' = ah_normalize_business_inputs h inputs in
      bindS (lift_step (validate_inputs inputs (ah_input_schema h))) (\<lambda>_.
      case existing of
        Some p \<Rightarrow>
          if same_preparation w c inputs' p then ret p
          else stop (fail ProposalConflictError ''Retry inputs or trusted scope changed for a different proposal.'')
      | None \<Rightarrow>
          bindS (lift_step (require_current_publication published s)) (\<lambda>_ db1.
          case ah_prepare h (pd_proposals db1) customer_id inputs' (preparation_context w customer_id s c key inputs') (pd_bank db1) of
            Inl e \<Rightarrow> (db1, Inl (pin_policy_error s e))
          | Inr (account_id, payload0, summary) \<Rightarrow>
              (let payload = dict_put FINGERPRINT_KEY (PStr (fingerprint w (PDict inputs'))) payload0 in
               bindS (lift_step (raised (decision_binding payload))) (\<lambda>bank_decision_ref.
               create_bound w reg s (creation_values customer_id s c key expires_at bank_decision_ref account_id payload summary action_type))
                 db1)))) db)"

definition commit_and_view :: "action_handler action_registry \<Rightarrow> action_proposal step \<Rightarrow> (string \<times> pyval) list act" where
  "commit_and_view reg m ss =
     (case on_working m ss of
        (ss', Inl e) \<Rightarrow> (ss', Inl e)
      | (ss', Inr p) \<Rightarrow> (commit_session ss', service_view reg p))"

text \<open>\<open>_propose_for_identity\<close> and \<open>propose_fraud_triage_for_identity\<close>, whose inputs are the triage fields.\<close>

definition propose_body ::
    "proposal_world \<Rightarrow> action_handler action_registry \<Rightarrow> publication \<Rightarrow> string \<Rightarrow> string \<Rightarrow> runtime_context \<Rightarrow> (string \<times> pyval) list
     \<Rightarrow> string \<Rightarrow> (string \<times> pyval) list act" where
  "propose_body w reg published action_type identity c inputs key =
     bindS (lift_step (raised (require_customer_turn c))) (\<lambda>_.
     bindS (on_working (resolve_step identity)) (\<lambda>customer_id.
     commit_and_view reg (propose_action w reg published action_type customer_id inputs None c key None)))"

definition propose_for_identity ::
    "proposal_world \<Rightarrow> action_handler action_registry \<Rightarrow> publication \<Rightarrow> string \<Rightarrow> string \<Rightarrow> runtime_context \<Rightarrow> (string \<times> pyval) list
     \<Rightarrow> string \<Rightarrow> (string \<times> pyval) list act" where
  "propose_for_identity w reg published action_type identity c inputs key =
     audited_request w reg identity c ''PREPARE''
       [(''action_type'', PStr action_type), (''inputs'', PDict inputs), (''key'', PStr key)]
       (propose_body w reg published action_type identity c inputs key)"

definition propose_fraud_triage_for_identity ::
    "proposal_world \<Rightarrow> action_handler action_registry \<Rightarrow> publication \<Rightarrow> string \<Rightarrow> runtime_context \<Rightarrow> (string \<times> pyval) list
     \<Rightarrow> string \<Rightarrow> (string \<times> pyval) list act" where
  "propose_fraud_triage_for_identity w reg published identity c inputs key =
     audited_request w reg identity c ''PREPARE'' (inputs @ [(''idempotency_key'', PStr key)])
       (propose_body w reg published ''TRIAGE_FRAUD_CASE'' identity c inputs key)"

text \<open>\<open>prepare_playbook_for_identity\<close>: a pinned revision, serialised with its publication unless it is a retry.\<close>

definition prepare_playbook_body ::
    "proposal_world \<Rightarrow> action_handler action_registry \<Rightarrow> publication \<Rightarrow> string \<Rightarrow> int \<Rightarrow> string \<Rightarrow> (string \<times> pyval) list
     \<Rightarrow> string \<Rightarrow> runtime_context \<Rightarrow> string \<Rightarrow> (string \<times> pyval) list act" where
  "prepare_playbook_body w reg published playbook_id revision digest inputs identity c key =
     bindS (lift_step (raised (require_customer_turn c))) (\<lambda>_.
     bindS (on_working (resolve_step identity)) (\<lambda>customer_id.
     bindS (lift_step (case resolve_action reg playbook_id revision digest of
              Inr s \<Rightarrow> Inr s
            | Inl _ \<Rightarrow> Inl (fail ProposalError ''The discovered playbook revision is unavailable; discover again.''))) (\<lambda>s.
     let h = sp_handler s in
     bindS (\<lambda>ss. case find_idempotent customer_id (rt_support_session_id c) (sp_action_type s) key (ss_working ss) of
              Some p \<Rightarrow> bindS (lift_step (raised (for_proposal reg p))) (\<lambda>pinned.
                if sp_definition_digest pinned \<noteq> digest then stop (fail ProposalError ''Retry the original proposal revision.'')
                else ret ()) ss
            | None \<Rightarrow> lift_step (require_current_publication published s) ss) (\<lambda>_.
     bindS (lift_step (validate_inputs inputs (ah_public_input_schema h))) (\<lambda>_.
     bindS (\<lambda>ss. (ss, ah_normalize_public_inputs h identity inputs (pd_bank (ss_working ss)))) (\<lambda>normalized.
     commit_and_view reg (propose_action w reg published (sp_action_type s) customer_id normalized (Some s) c key None)))))))"

definition prepare_playbook_for_identity ::
    "proposal_world \<Rightarrow> action_handler action_registry \<Rightarrow> publication \<Rightarrow> string \<Rightarrow> int \<Rightarrow> string \<Rightarrow> (string \<times> pyval) list
     \<Rightarrow> string \<Rightarrow> runtime_context \<Rightarrow> string \<Rightarrow> (string \<times> pyval) list act" where
  "prepare_playbook_for_identity w reg published playbook_id revision digest inputs identity c key =
     audited_request w reg identity c ''PREPARE''
       [(''playbook_id'', PStr playbook_id), (''revision'', PInt revision), (''digest'', PStr digest),
        (''inputs'', PDict inputs), (''idempotency_key'', PStr key)]
       (prepare_playbook_body w reg published playbook_id revision digest inputs identity c key)"

section \<open>Read-only requests\<close>

definition proposal_disposition_for_identity ::
    "string \<Rightarrow> string \<Rightarrow> runtime_context \<Rightarrow> (string \<times> pyval) list act" where
  "proposal_disposition_for_identity pid identity c =
     bindS (on_working (resolve_step identity)) (\<lambda>customer_id.
     bindS (on_working (get_locked pid)) (\<lambda>p.
     bindS (on_working (validate_scope p (context_scope customer_id c) ''TRIAGE_FRAUD_CASE'')) (\<lambda>_.
     let t = pp_terms p in
     ret [(''proposal_id'', PStr (tm_id t)), (''action_type'', PStr (tm_action_type t)),
          (''contract_version'', PStr (tm_contract_version t)), (''status'', PStr (status_text (pp_status p))),
          (''invalidation_reason'', opt_str (pp_invalidation_reason p))])))"

definition proposal_trace_view :: "proposal_world \<Rightarrow> action_proposal \<Rightarrow> pyval" where
  "proposal_trace_view w p =
     (let t = pp_terms p in
      PDict [(''proposal_ref'', PStr (stable_log_reference w (Some (tm_id t)) ''proposal'')),
        (''action_type'', PStr (tm_action_type t)), (''contract_version'', PStr (tm_contract_version t)),
        (''status'', PStr (status_text (pp_status p))), (''customer_safe_summary'', PStr (tm_customer_safe_summary t)),
        (''catalog_snapshot_ref'', optional_reference w (tm_catalog_snapshot_id t) ''catalog-snapshot''),
        (''presentation_verified'', PBool (\<not> blank (pp_presented_assistant_turn_id p))),
        (''confirmation_verified'', PBool (\<not> blank (pp_confirmation_customer_turn_id p))),
        (''commit_started'', PBool (pp_commit_started_at p \<noteq> None)), (''created_at'', PTime (tm_created_at t)),
        (''completed_at'', opt_time (pp_completed_at p)), (''invalidation_reason'', opt_str (pp_invalidation_reason p))])"

definition proposal_trace_for_identity :: "proposal_world \<Rightarrow> string \<Rightarrow> string \<Rightarrow> pyval list act" where
  "proposal_trace_for_identity w identity support_session_id =
     bindS (on_working (resolve_step identity)) (\<lambda>customer_id ss.
     (ss, Inr (map (proposal_trace_view w)
       (by_age (filter (in_session customer_id support_session_id) (pd_proposals (ss_working ss)))))))"

end
