(* ===== verification/Proposal_Safety.thy ===== *)
theory Proposal_Safety
  imports Action_Proposals
begin

text \<open>
  What the proposal service guarantees, for every registry and every handler: a request leaves each
  proposal either untouched, still open, or in a terminal status with the evidence that status needs; a
  banking operation runs in exactly the request that commits its proposal.
\<close>

section \<open>Changes outside the proposals\<close>

text \<open>A change of the banking tables that only appends audit rows.\<close>

definition audit_only :: "bank_db \<Rightarrow> bank_db \<Rightarrow> bool" where
  "audit_only b b' \<longleftrightarrow>
     b' = b\<lparr>d_outbox := d_outbox b', d_draws := d_draws b'\<rparr> \<and> (\<exists>rows. d_outbox b' = d_outbox b @ rows) \<and> d_draws b \<le> d_draws b'"

lemma audit_only_refl [simp]: "audit_only b b"
  by (simp add: audit_only_def)

lemma audit_only_trans [trans]:
  assumes "audit_only a b" "audit_only b c"
  shows "audit_only a c"
proof -
  from assms have b: "b = a\<lparr>d_outbox := d_outbox b, d_draws := d_draws b\<rparr>" and c: "c = b\<lparr>d_outbox := d_outbox c, d_draws := d_draws c\<rparr>"
    by (simp_all add: audit_only_def)
  have "c = a\<lparr>d_outbox := d_outbox c, d_draws := d_draws c\<rparr>"
    by (subst c, subst b) simp
  with assms show ?thesis by (auto simp: audit_only_def)
qed

lemma audit_only_uuid4: "uuid4 b = (u, b') \<Longrightarrow> audit_only b b'"
  by (auto simp: uuid4_def audit_only_def)

lemma audit_only_record: "audit_only b (record_audit_event now t v i n b)"
  by (auto simp: record_audit_event_def uuid4_def audit_only_def Let_def split: option.split)

lemma audit_only_emit: "audit_only b (snd (emit w t payload i snapshot b))"
proof -
  obtain e b1 where e: "(case i of Some e \<Rightarrow> (e, b) | None \<Rightarrow> uuid4 b) = (e, b1)" by (cases "case i of Some e \<Rightarrow> (e, b) | None \<Rightarrow> uuid4 b")
  have 1: "audit_only b b1" using e by (cases i) (auto dest: audit_only_uuid4)
  have 2: "audit_only b1 (snd (case snapshot of Some sn \<Rightarrow> (case archive w e sn b1 of (a, d') \<Rightarrow> ([(''evidence_artifact'', a)], d')) | None \<Rightarrow> ([], b1)))"
    by (cases snapshot) (auto simp: archive_def Let_def intro: audit_only_record)
  obtain x1 x2 where x: "(case snapshot of Some sn \<Rightarrow> (case archive w e sn b1 of (a, d') \<Rightarrow> ([(''evidence_artifact'', a)], d')) | None \<Rightarrow> ([], b1)) = (x1, x2)"
    by fastforce
  with 2 have 3: "audit_only b1 x2" by simp
  show ?thesis
    using audit_only_trans [OF 1 audit_only_trans [OF 3 audit_only_record]] by (simp add: emit_def e x Let_def)
qed

lemma record_transition_audit: "record_transition w p s stage b = Inr b' \<Longrightarrow> audit_only b b'"
  by (auto simp: record_transition_def Let_def intro: audit_only_emit split: if_splits)

lemma record_stage_effect:
  assumes "record_stage w reg p stage db = (db', r)"
  shows "pd_proposals db' = pd_proposals db" "audit_only (pd_bank db) (pd_bank db')" "r = Inl e \<Longrightarrow> db' = db"
    "r = Inl e \<Longrightarrow> \<exists>x. e = Raised x"
  using assms by (auto simp: record_stage_def dest: record_transition_audit split: sum.splits)

section \<open>One row replaced\<close>

text \<open>The proposals with one row replaced, and audit rows.\<close>

definition updates :: "proposal_db \<Rightarrow> action_proposal \<Rightarrow> proposal_db \<Rightarrow> bool" where
  "updates db p db' \<longleftrightarrow> pd_proposals db' = put_row pp_id p (pd_proposals db) \<and> audit_only (pd_bank db) (pd_bank db')"

lemma put_row_put_row: "key r = key r' \<Longrightarrow> put_row key r' (put_row key r rs) = put_row key r' rs"
  by (auto simp: put_row_def)

lemma updates_trans: "updates db p db1 \<Longrightarrow> updates db1 q db2 \<Longrightarrow> pp_id p = pp_id q \<Longrightarrow> updates db q db2"
  by (auto simp: updates_def put_row_put_row intro: audit_only_trans)

lemma updates_audit:
  "updates db p db1 \<Longrightarrow> pd_proposals db2 = pd_proposals db1 \<Longrightarrow> audit_only (pd_bank db1) (pd_bank db2) \<Longrightarrow> updates db p db2"
  by (auto simp: updates_def intro: audit_only_trans)

lemma updates_put: "updates db p (put_proposal p db)"
  by (simp add: updates_def put_proposal_def)

lemma put_then_record:
  assumes "record_stage w reg q stage (put_proposal p db) = (db', r)"
  shows "updates db p db'"
  using updates_audit [OF updates_put] record_stage_effect(1,2) [OF assms] by blast

lemma put_then_dispose:
  assumes "record_disposition w reg q (put_proposal p db) = (db', r)"
  shows "updates db p db'"
  using assms put_then_record by (auto simp: record_disposition_def)

lemma get_proposal_id: "get_proposal pid db = Some p \<Longrightarrow> pp_id p = pid \<and> p \<in> set (pd_proposals db)"
  unfolding get_proposal_def by (auto dest: find_Some_iff')

lemma get_updates:
  assumes "updates db p' db'" "get_proposal (pp_id p') db = Some p"
  shows "get_proposal (pp_id p') db' = Some p'"
proof -
  have "pp_id p' \<in> pp_id ` set (pd_proposals db)" using get_proposal_id [OF assms(2)] by (metis image_eqI)
  then show ?thesis using assms(1) by (simp add: get_proposal_def updates_def find_put_row_same)
qed

section \<open>Steps on one row\<close>

lemma get_locked_Inr: "get_locked pid db = (db', Inr p) \<longleftrightarrow> db' = db \<and> get_proposal pid db = Some p"
  by (auto simp: get_locked_def split: option.splits)

lemma get_locked_Some [simp]: "get_proposal pid db = Some p \<Longrightarrow> get_locked pid db = (db, Inr p)"
  by (simp add: get_locked_def)

lemma expire_if_needed_Inr:
  "expire_if_needed now p db = (db', Inr x) \<longleftrightarrow> db' = db \<and> (pp_status p \<in> set TERMINAL_STATUSES \<or> \<not> overdue now p)"
  by (auto simp: expire_if_needed_def Let_def)

lemma require_status_Inr: "require_status p st db = (db', Inr x) \<longleftrightarrow> db' = db \<and> pp_status p = st"
  by (auto simp: require_status_def)

lemma record_then_ret:
  assumes "bindS (record_stage w reg q stage) (\<lambda>_. ret x) (put_proposal p db) = (db', Inr y)"
  shows "y = x \<and> updates db p db'"
proof -
  from assms obtain db1 u where r: "record_stage w reg q stage (put_proposal p db) = (db1, Inr u)" "(db1, Inr x) = (db', Inr y :: _ attempt)"
    by (auto elim: bindS_E simp: ret_def)
  with put_then_record [OF r(1)] show ?thesis by simp
qed

lemma mark_presented_fresh:
  assumes p: "get_proposal pid db = Some p" "pp_status p = PROPOSED" and m: "mark_presented w reg pid turn db = (db', Inr q)"
  shows "q = presented_row (pw_now w) turn p \<and> \<not> overdue (pw_now w) p \<and> updates db q db'"
proof -
  have o: "\<not> overdue (pw_now w) p"
    using m p by (auto simp: mark_presented_def bindS_def expire_if_needed_def Let_def TERMINAL_STATUSES_def)
  have "bindS (record_stage w reg (presented_row (pw_now w) turn p) ''PRESENTED'') (\<lambda>_. ret (presented_row (pw_now w) turn p))
     (put_proposal (presented_row (pw_now w) turn p) db) = (db', Inr q)"
    using m p o by (simp add: mark_presented_def bindS_def [of "get_locked pid"] bindS_def [of "expire_if_needed (pw_now w) p"]
      bindS_def [of "require_status p PROPOSED"] expire_if_needed_def require_status_def Let_def)
  from record_then_ret [OF this] o show ?thesis by simp
qed

lemma confirm_presented:
  assumes p: "get_proposal pid db = Some p" "pp_status p = PRESENTED" and m: "confirm w reg pid turn ev db = (db', Inr q)"
  shows "q = confirmed_row (pw_now w) turn (canonical_object ev) p \<and> \<not> overdue (pw_now w) p \<and> updates db q db'
    \<and> turn \<noteq> [] \<and> turn \<noteq> tm_originating_customer_turn_id (pp_terms p) \<and> ev \<noteq> []"
proof -
  let ?q = "confirmed_row (pw_now w) turn (canonical_object ev) p"
  have o: "\<not> overdue (pw_now w) p"
    using m p by (auto simp: confirm_def bindS_def expire_if_needed_def Let_def TERMINAL_STATUSES_def)
  have e: "turn \<noteq> [] \<and> turn \<noteq> tm_originating_customer_turn_id (pp_terms p) \<and> ev \<noteq> []"
    using m p o by (auto simp: confirm_def bindS_def [of "get_locked pid"] bindS_def [of "expire_if_needed (pw_now w) p"]
      bindS_def [of "require_status p PRESENTED"] expire_if_needed_def require_status_def stop_def Let_def split: if_splits)
  have "bindS (record_stage w reg ?q ''CONFIRMED'') (\<lambda>_. ret ?q) (put_proposal ?q db) = (db', Inr q)"
    using m p o e by (simp add: confirm_def bindS_def [of "get_locked pid"] bindS_def [of "expire_if_needed (pw_now w) p"]
      bindS_def [of "require_status p PRESENTED"] expire_if_needed_def require_status_def Let_def)
  from record_then_ret [OF this] o e show ?thesis by simp
qed

lemma validate_decision_evidence_Inr:
  "validate_decision_evidence reg p c db = (db', Inr v) \<longleftrightarrow> db' = db
     \<and> (\<exists>s. for_proposal reg p = Inr s
          \<and> validate_evidence c (sp_authorization_policy s) (Some (sp_presentation_requirement s)) None = Inr v)"
  by (auto simp: validate_decision_evidence_def bindS_def lift_step_def ret_def stop_def raised_def
      split: sum.splits py_error.splits)

lemma for_proposal_terms: "pp_terms q = pp_terms p \<Longrightarrow> for_proposal reg q = for_proposal reg p"
  by (simp add: for_proposal_def)

text \<open>The row after an accepted decision, and after the claim.\<close>

definition attested_row :: "int \<Rightarrow> validated_evidence \<Rightarrow> action_proposal \<Rightarrow> action_proposal" where
  "attested_row now v p =
     confirmed_row now (ve_decision_turn_id v) (canonical_object (ve_protected_evidence v))
       (presented_row now (ve_presentation_turn_id v) p)"

definition claimed_row :: "int \<Rightarrow> validated_evidence \<Rightarrow> action_proposal \<Rightarrow> action_proposal" where
  "claimed_row now v p = committing_row now (attested_row now v p)"

lemma row_terms [simp]:
  "pp_terms (presented_row now t p) = pp_terms p" "pp_terms (confirmed_row now t e p) = pp_terms p"
  "pp_terms (expired_row now p) = pp_terms p" "pp_terms (invalidated_row now r p) = pp_terms p"
  "pp_terms (declined_row now t p) = pp_terms p" "pp_terms (committing_row now p) = pp_terms p"
  "pp_terms (committed_row now x p) = pp_terms p" "pp_terms (attested_row now v p) = pp_terms p"
  "pp_terms (claimed_row now v p) = pp_terms p"
  by (simp_all add: presented_row_def confirmed_row_def expired_row_def invalidated_row_def declined_row_def
      committing_row_def committed_row_def attested_row_def claimed_row_def)

lemma row_status [simp]:
  "pp_status (presented_row now t p) = PRESENTED" "pp_status (confirmed_row now t e p) = CONFIRMED"
  "pp_status (expired_row now p) = EXPIRED" "pp_status (invalidated_row now r p) = INVALIDATED"
  "pp_status (declined_row now t p) = proposal_status.DECLINED" "pp_status (committing_row now p) = COMMITTING"
  "pp_status (committed_row now x p) = COMMITTED" "pp_status (attested_row now v p) = CONFIRMED"
  "pp_status (claimed_row now v p) = COMMITTING"
  by (simp_all add: presented_row_def confirmed_row_def expired_row_def invalidated_row_def declined_row_def
      committing_row_def committed_row_def attested_row_def claimed_row_def)

lemma overdue_terms [simp]: "overdue now (presented_row now' t p) = overdue now p"
  by (simp add: overdue_def)

definition evidence_for :: "action_handler action_registry \<Rightarrow> action_proposal \<Rightarrow> runtime_context \<Rightarrow> validated_evidence \<Rightarrow> bool" where
  "evidence_for reg p c v \<longleftrightarrow> (\<exists>s. for_proposal reg p = Inr s
     \<and> validate_evidence c (sp_authorization_policy s) (Some (sp_presentation_requirement s)) None = Inr v)"

lemma attest_open:
  assumes p: "get_proposal pid db = Some p" "pp_status p = PROPOSED"
    and a: "attest_decision w reg p c db = (db', Inr v)"
  shows "evidence_for reg p c v \<and> \<not> overdue (pw_now w) p \<and> updates db (attested_row (pw_now w) v p) db'
    \<and> get_proposal pid db' = Some (attested_row (pw_now w) v p)
    \<and> ve_decision_turn_id v \<noteq> tm_originating_customer_turn_id (pp_terms p)"
proof -
  have pid: "pp_id p = pid" using get_proposal_id [OF p(1)] by simp
  from a [unfolded attest_decision_def] obtain db0 v0 where e0: "validate_decision_evidence reg p c db = (db0, Inr v0)"
      and r0: "bindS (if pp_status p = PROPOSED then mark_presented w reg (pp_id p) (ve_presentation_turn_id v0) else ret p)
        (\<lambda>p1. bindS (if pp_status p1 = PRESENTED then confirm w reg (pp_id p) (ve_decision_turn_id v0) (ve_protected_evidence v0) else ret p1)
          (\<lambda>_. ret v0)) db0 = (db', Inr v)"
    by (rule bindS_E)
  from r0 obtain db1 q1 where m0: "(if pp_status p = PROPOSED then mark_presented w reg (pp_id p) (ve_presentation_turn_id v0) else ret p) db0 = (db1, Inr q1)"
      and r1: "bindS (if pp_status q1 = PRESENTED then confirm w reg (pp_id p) (ve_decision_turn_id v0) (ve_protected_evidence v0) else ret q1)
          (\<lambda>_. ret v0) db1 = (db', Inr v)"
    by (rule bindS_E)
  from r1 have v0: "v0 = v" by (auto elim: bindS_E simp: ret_def)
  have e: "evidence_for reg p c v" and db0: "db0 = db"
    using e0 v0 by (auto simp: validate_decision_evidence_Inr evidence_for_def)
  have m: "mark_presented w reg pid (ve_presentation_turn_id v) db = (db1, Inr q1)" using m0 p(2) pid v0 db0 by simp
  have rest: "bindS (if pp_status q1 = PRESENTED then confirm w reg pid (ve_decision_turn_id v) (ve_protected_evidence v) else ret q1)
          (\<lambda>_. ret v) db1 = (db', Inr v)" using r1 unfolding v0 pid .
  note m' = mark_presented_fresh [OF p m]
  then have q1: "q1 = presented_row (pw_now w) (ve_presentation_turn_id v) p" "updates db q1 db1" "\<not> overdue (pw_now w) p" by (blast+)
  have idq: "pp_id q1 = pid" using q1(1) pid by simp
  have g1: "get_proposal pid db1 = Some q1" using get_updates [OF q1(2)] p(1) idq by simp
  from rest q1(1) idq obtain q2 where c: "confirm w reg pid (ve_decision_turn_id v) (ve_protected_evidence v) db1 = (db', Inr q2)"
    by (auto elim!: bindS_E simp: ret_def)
  have "pp_status q1 = PRESENTED" using q1(1) by simp
  note c' = confirm_presented [OF g1 this c]
  from c' have "q2 = confirmed_row (pw_now w) (ve_decision_turn_id v) (canonical_object (ve_protected_evidence v)) q1"
      and u2: "updates db1 q2 db'" by blast+
  then have q2: "q2 = attested_row (pw_now w) v p" by (simp add: attested_row_def q1(1))
  have "pp_id q1 = pp_id q2" using q2 idq pid by simp
  from updates_trans [OF q1(2) u2 this] have u: "updates db (attested_row (pw_now w) v p) db'" using q2 by simp
  have "get_proposal pid db' = Some (attested_row (pw_now w) v p)"
    using get_updates [OF u] p(1) pid by simp
  moreover have "ve_decision_turn_id v \<noteq> tm_originating_customer_turn_id (pp_terms p)" using c' q1(1) by simp
  ultimately show ?thesis using e u q1(3) by blast
qed

lemma attest_closed:
  assumes p: "pp_status p \<in> set TERMINAL_STATUSES" and a: "attest_decision w reg p c db = (db', Inr v)"
  shows "db' = db \<and> evidence_for reg p c v"
proof -
  have n: "pp_status p \<noteq> PROPOSED" "pp_status p \<noteq> PRESENTED" using p by (auto simp: TERMINAL_STATUSES_def)
  with a show ?thesis
    unfolding attest_decision_def by (auto elim!: bindS_E simp: validate_decision_evidence_Inr ret_def evidence_for_def)
qed

definition in_scope :: "action_proposal \<Rightarrow> commit_scope \<Rightarrow> string \<Rightarrow> bool" where
  "in_scope p scope t \<longleftrightarrow>
     (tm_customer_id (pp_terms p), tm_support_session_id (pp_terms p), tm_runtime_name (pp_terms p),
      tm_runtime_session_id (pp_terms p), tm_action_type (pp_terms p))
     = (cs_customer_id scope, cs_support_session_id scope, cs_runtime_name scope, cs_runtime_session_id scope, t)"

lemma validate_scope_Inr: "validate_scope p scope t db = (db', Inr x) \<longleftrightarrow> db' = db \<and> in_scope p scope t"
  by (auto simp: validate_scope_def in_scope_def Let_def)

lemma validate_scope_ok: "in_scope p scope t \<Longrightarrow> validate_scope p scope t db = (db, Inr ())"
  by (simp add: validate_scope_def in_scope_def Let_def)

lemma claim_confirmed:
  assumes p: "get_proposal pid db = Some p" "pp_status p = CONFIRMED" "\<not> overdue (pw_now w) p" "in_scope p scope t"
    and c: "claim_commit w reg pid scope t db = (db', r)"
  obtains
    (claimed) "r = Inr (committing_row (pw_now w) p, True)" "updates db (committing_row (pw_now w) p) db'"
      "tm_reset_generation (pp_terms p) = cs_reset_generation scope"
  | (reset) e where "r = Inl e" "scope_or_transition e" "updates db (invalidated_row (pw_now w) ''RESET_GENERATION_CHANGED'' p) db'"
      "tm_reset_generation (pp_terms p) \<noteq> cs_reset_generation scope"
  | (audit) x where "r = Inl (Raised x)"
proof (cases "tm_reset_generation (pp_terms p) = cs_reset_generation scope")
  case False
  with c p reset show thesis
    by (auto simp: claim_commit_def bindS_def validate_scope_ok expire_if_needed_def Let_def TERMINAL_STATUSES_def
        scope_or_transition_def coded_failure_def new_failure_def updates_put)
next
  case True
  let ?q = "committing_row (pw_now w) p"
  have "bindS (record_stage w reg ?q ''COMMIT_STARTED'') (\<lambda>_. ret (?q, True)) (put_proposal ?q db) = (db', r)"
    using c p True by (simp add: claim_commit_def bindS_def [of "get_locked pid"] bindS_def [of "validate_scope p scope t"]
      bindS_def [of "expire_if_needed (pw_now w) p"] bindS_def [of "require_status p CONFIRMED"] validate_scope_ok
      expire_if_needed_def require_status_def Let_def)
  then show thesis
  proof (cases "record_stage w reg ?q ''COMMIT_STARTED'' (put_proposal ?q db)")
    case (Pair db1 x)
    note pair = Pair and eff = record_stage_effect [OF Pair] put_then_record [OF Pair]
    show ?thesis
    proof (cases x)
      case (Inl e)
      with eff(4) obtain y where "e = Raised y" by blast
      with audit Inl Pair \<open>bindS _ _ _ = _\<close> show ?thesis by (auto simp: bindS_def)
    next
      case (Inr u)
      with claimed True eff(5) Pair \<open>bindS _ _ _ = _\<close> show ?thesis by (auto simp: bindS_def ret_def)
    qed
  qed
qed

lemma claim_closed:
  assumes p: "get_proposal pid db = Some p" "pp_status p \<in> set TERMINAL_STATUSES" "in_scope p scope t"
    and c: "claim_commit w reg pid scope t db = (db', r)"
  shows "pd_proposals db' = pd_proposals db \<and> pd_bank db' = pd_bank db
    \<and> (if pp_status p = COMMITTED then db' = db \<and> r = Inr (p, False) else (\<exists>e. r = Inl e \<and> scope_or_transition e))"
proof (cases "pp_status p = COMMITTED")
  case True
  with c p show ?thesis by (auto simp: claim_commit_def bindS_def validate_scope_ok ret_def)
next
  case False
  from False p(2) have "pp_status p \<noteq> COMMITTING" "pp_status p \<noteq> CONFIRMED" by (auto simp: TERMINAL_STATUSES_def)
  with False c p show ?thesis
    by (auto simp: claim_commit_def bindS_def validate_scope_ok expire_if_needed_def require_status_def Let_def
        scope_or_transition_def coded_failure_def new_failure_def split: if_splits)
qed

section \<open>What a commit request leaves behind\<close>

lemma commit_or_rollback_cases:
  assumes "commit_or_rollback m ss = (ss', r)"
  obtains (undone) e where "r = Inl e" "ss_committed ss' = ss_committed ss"
  | (kept) x where "r = Inr x" "m (ss_working ss) = (ss_committed ss', Inr x)"
  using assms
  by (auto simp: commit_or_rollback_def on_working_def rollback_session_def commit_session_def split: prod.splits sum.splits)

text \<open>The banking operation of a claimed proposal ran once, and its result was recorded.\<close>

definition executed ::
    "proposal_world \<Rightarrow> spec \<Rightarrow> action_proposal \<Rightarrow> proposal_db \<Rightarrow> (string \<times> pyval) list \<Rightarrow> proposal_db \<Rightarrow> bool" where
  "executed w s q db outcome db' \<longleftrightarrow> (\<exists>b2 b3 b4.
     ah_validate_current_preconditions (sp_handler s) (pd_proposals db) q (pd_bank db) = Inr ()
     \<and> ah_record_commit_started (sp_handler s) q (pd_bank db) = Inr b2
     \<and> ah_execute (sp_handler s) q b2 = Inr (outcome, b3)
     \<and> validate_result s outcome = Inr () \<and> audit_only b3 b4
     \<and> ah_record_committed (sp_handler s) (committed_row (pw_now w) (canonical_object outcome) q) outcome b4 = Inr (pd_bank db')
     \<and> pd_proposals db' = put_row pp_id (committed_row (pw_now w) (canonical_object outcome) q) (pd_proposals db))"

lemma hook_Inr: "hook f db = (db', Inr x) \<longleftrightarrow> (\<exists>b. f (pd_bank db) = Inr b \<and> db' = db\<lparr>pd_bank := b\<rparr>)"
  by (auto simp: hook_def split: sum.splits)

lemma on_bank_Inr: "on_bank f db = (db', Inr x) \<longleftrightarrow> (\<exists>b. f (pd_bank db) = Inr (x, b) \<and> db' = db\<lparr>pd_bank := b\<rparr>)"
  by (auto simp: on_bank_def split: sum.splits)

lemma mark_committed_claimed:
  assumes p: "get_proposal pid db = Some q" "pp_status q = COMMITTING" and m: "mark_committed w reg pid outcome db = (db', Inr p')"
  shows "p' = committed_row (pw_now w) (canonical_object outcome) q \<and> updates db p' db'"
proof -
  let ?p' = "committed_row (pw_now w) (canonical_object outcome) q"
  have "bindS (record_stage w reg ?p' ''COMMITTED'') (\<lambda>_. ret ?p') (put_proposal ?p' db) = (db', Inr p')"
    using m p by (simp add: mark_committed_def bindS_def [of "get_locked pid"] bindS_def [of "require_status q COMMITTING"]
      require_status_def Let_def)
  from record_then_ret [OF this] show ?thesis by simp
qed

lemma get_proposal_bank [simp]: "get_proposal pid (db\<lparr>pd_bank := b\<rparr>) = get_proposal pid db"
  by (simp add: get_proposal_def)

lemma execute_claimed_cases:
  assumes q: "get_proposal pid (ss_working ss) = Some q" "pp_status q = COMMITTING"
    and x: "execute_claimed w reg s q ss = (ss', r)"
  obtains (failed) e where "r = Inl e" "ss_committed ss' = ss_committed ss"
  | (refused) f where "r = Inl (Rejected (f\<lparr>pf_proposal := Some (invalidated_row (pw_now w) (pf_reason f) q)\<rparr>))"
      "pf_class f = ActionPreconditionError"
      "ah_validate_current_preconditions (sp_handler s) (pd_proposals (ss_working ss)) q (pd_bank (ss_working ss)) = Inl (Rejected f)"
      "updates (ss_working ss) (invalidated_row (pw_now w) (pf_reason f) q) (ss_committed ss')"
  | (ran) outcome where "r = Inr (proposal_result (committed_row (pw_now w) (canonical_object outcome) q) False)"
      "executed w s q (ss_working ss) outcome (ss_committed ss')"
proof (cases "ah_validate_current_preconditions (sp_handler s) (pd_proposals (ss_working ss)) q (pd_bank (ss_working ss))")
  case (Inl e)
  show thesis
  proof (cases "\<exists>f. e = Rejected f \<and> pf_class f = ActionPreconditionError")
    case False
    then have "r = Inl e \<and> ss' = ss" using x Inl by (cases e) (auto simp: execute_claimed_def Let_def)
    with failed show thesis by simp
  next
    case True
    then obtain f where f: "e = Rejected f" "pf_class f = ActionPreconditionError" by blast
    let ?p' = "invalidated_row (pw_now w) (pf_reason f) q"
    have pre: "precondition_failed w reg q f ss = (ss', r)" using x Inl f by (simp add: execute_claimed_def Let_def)
    obtain ss1 r1 where c: "commit_or_rollback (\<lambda>db. record_disposition w reg ?p' (put_proposal ?p' db)) ss = (ss1, r1)"
      by fastforce
    from c show thesis
    proof (cases rule: commit_or_rollback_cases)
      case (undone e)
      with pre c failed show thesis by (auto simp: precondition_failed_def bindS_def Let_def)
    next
      case (kept u)
      with pre c have "ss' = ss1" "r = Inl (Rejected (f\<lparr>pf_proposal := Some ?p'\<rparr>))"
        by (auto simp: precondition_failed_def bindS_def stop_def Let_def)
      with refused f Inl put_then_dispose [OF kept(2)] show thesis by blast
    qed
  qed
next
  case (Inr u)
  let ?h = "sp_handler s"
  let ?m = "bindS (hook (ah_record_commit_started ?h q)) (\<lambda>_.
      bindS (on_bank (ah_execute ?h q)) (\<lambda>outcome.
      bindS (lift_step (raised (validate_result s outcome))) (\<lambda>_.
      bindS (mark_committed w reg (pp_id q) outcome) (\<lambda>p'.
      bindS (hook (ah_record_committed ?h p' outcome)) (\<lambda>_.
      ret (proposal_result p' False))))))"
  have c: "commit_or_rollback ?m ss = (ss', r)" using x Inr by (simp add: execute_claimed_def Let_def)
  from c show thesis
  proof (cases rule: commit_or_rollback_cases)
    case (undone e)
    with failed show thesis by blast
  next
    case (kept y)
    let ?db = "ss_working ss"
    have pid: "pp_id q = pid" using get_proposal_id [OF q(1)] by simp
    from kept(2) obtain b2 where b2: "ah_record_commit_started ?h q (pd_bank ?db) = Inr b2"
        and k2: "bindS (on_bank (ah_execute ?h q)) (\<lambda>outcome.
          bindS (lift_step (raised (validate_result s outcome))) (\<lambda>_.
          bindS (mark_committed w reg (pp_id q) outcome) (\<lambda>p'.
          bindS (hook (ah_record_committed ?h p' outcome)) (\<lambda>_. ret (proposal_result p' False))))) (?db\<lparr>pd_bank := b2\<rparr>)
          = (ss_committed ss', Inr y)"
      by (auto elim!: bindS_E [of "hook (ah_record_commit_started ?h q)"] simp: hook_Inr)
    from k2 obtain outcome b3 where b3: "ah_execute ?h q b2 = Inr (outcome, b3)"
        and k3: "bindS (lift_step (raised (validate_result s outcome))) (\<lambda>_.
          bindS (mark_committed w reg (pp_id q) outcome) (\<lambda>p'.
          bindS (hook (ah_record_committed ?h p' outcome)) (\<lambda>_. ret (proposal_result p' False)))) (?db\<lparr>pd_bank := b3\<rparr>)
          = (ss_committed ss', Inr y)"
      by (auto elim!: bindS_E [of "on_bank (ah_execute ?h q)"] simp: on_bank_Inr)
    from k3 obtain vr: "validate_result s outcome = Inr ()"
        and k4: "bindS (mark_committed w reg (pp_id q) outcome) (\<lambda>p'.
          bindS (hook (ah_record_committed ?h p' outcome)) (\<lambda>_. ret (proposal_result p' False))) (?db\<lparr>pd_bank := b3\<rparr>)
          = (ss_committed ss', Inr y)"
      by (auto elim!: bindS_E [of "lift_step (raised (validate_result s outcome))"] simp: lift_step_def)
    from k4 obtain db4 p' where m: "mark_committed w reg (pp_id q) outcome (?db\<lparr>pd_bank := b3\<rparr>) = (db4, Inr p')"
        and k5: "bindS (hook (ah_record_committed ?h p' outcome)) (\<lambda>_. ret (proposal_result p' False)) db4 = (ss_committed ss', Inr y)"
      by (rule bindS_E)
    have "get_proposal (pp_id q) (?db\<lparr>pd_bank := b3\<rparr>) = Some q" using q(1) pid by simp
    from mark_committed_claimed [OF this q(2) m]
    have p': "p' = committed_row (pw_now w) (canonical_object outcome) q" and u: "updates (?db\<lparr>pd_bank := b3\<rparr>) p' db4" by blast+
    from k5 obtain b5 where b5: "ah_record_committed ?h p' outcome (pd_bank db4) = Inr b5" "ss_committed ss' = db4\<lparr>pd_bank := b5\<rparr>"
        "y = proposal_result p' False"
      by (auto elim!: bindS_E simp: hook_Inr ret_def)
    have "executed w s q ?db outcome (ss_committed ss')"
      unfolding executed_def using Inr b2 b3 vr u b5 p' by (auto simp: updates_def)
    with ran kept(1) b5(3) p' show thesis by blast
  qed
qed

abbreviation fresh_session :: "proposal_db \<Rightarrow> session" where
  "fresh_session db \<equiv> \<lparr>ss_committed = db, ss_working = db\<rparr>"

lemma on_working_fresh: "on_working m (ss\<lparr>ss_working := db\<rparr>) = (case m db of (db', r) \<Rightarrow> (ss\<lparr>ss_working := db'\<rparr>, r))"
  by (auto simp: on_working_def split: prod.split)

lemma on_working_committed: "on_working m ss = (ss', r) \<Longrightarrow> ss_committed ss' = ss_committed ss"
  by (auto simp: on_working_def split: prod.splits)

lemma on_working_Inr: "on_working m ss = (ss', Inr x) \<longleftrightarrow> (\<exists>db'. m (ss_working ss) = (db', Inr x) \<and> ss' = ss\<lparr>ss_working := db'\<rparr>)"
  by (auto simp: on_working_def split: prod.splits)

text \<open>The customer behind the identity owns the proposal, and the protected evidence is a later decision on it.\<close>

definition authorized ::
    "proposal_world \<Rightarrow> action_handler action_registry \<Rightarrow> proposal_db \<Rightarrow> action_proposal \<Rightarrow> string \<Rightarrow> runtime_context \<Rightarrow> validated_evidence \<Rightarrow> bool" where
  "authorized w reg db p identity c v \<longleftrightarrow>
     (\<exists>customer_id. resolve_customer_id identity (pd_bank db) = Inr customer_id \<and> in_runtime_scope customer_id c p)
     \<and> evidence_for reg p c v \<and> \<not> overdue (pw_now w) p
     \<and> ve_decision_turn_id v \<noteq> tm_originating_customer_turn_id (pp_terms p)"

lemma in_scope_context: "in_scope p (context_scope i c) t \<longleftrightarrow> in_runtime_scope i c p \<and> tm_action_type (pp_terms p) = t"
  by (auto simp: in_scope_def context_scope_def in_runtime_scope_def Let_def)

lemma in_scope_terms: "pp_terms q = pp_terms p \<Longrightarrow> in_scope q scope t = in_scope p scope t"
  by (simp add: in_scope_def)

lemma commit_body_failed:
  assumes "commit_body w reg pid identity c expected (fresh_session db) = (ss', r)"
    and "\<And>cid p. resolve_customer_id identity (pd_bank db) = Inr cid \<Longrightarrow> get_proposal pid db = Some p \<Longrightarrow>
       in_scope p (context_scope cid c) (the (str_or expected (Some (tm_action_type (pp_terms p))))) \<Longrightarrow>
       bindS (on_working (attest_decision w reg p c)) (\<lambda>_.
         execute_registered_commit w reg pid (context_scope cid c) (the (str_or expected (Some (tm_action_type (pp_terms p))))))
         (fresh_session db) = (ss', r) \<Longrightarrow> thesis"
    and "\<And>e. r = Inl e \<Longrightarrow> ss_committed ss' = db \<Longrightarrow> thesis"
  shows thesis
proof (cases "resolve_customer_id identity (pd_bank db)")
  case (Inl e)
  with assms(1,3) show thesis by (auto simp: commit_body_def bindS_def on_working_def resolve_step_def)
next
  case (Inr cid)
  show thesis
  proof (cases "get_proposal pid db")
    case None
    with assms(1,3) Inr show thesis by (auto simp: commit_body_def bindS_def on_working_def resolve_step_def get_locked_def)
  next
    case (Some p)
    let ?t = "the (str_or expected (Some (tm_action_type (pp_terms p))))"
    show thesis
    proof (cases "in_scope p (context_scope cid c) ?t")
      case True
      note assms(2) [OF Inr Some True]
      with assms(1) show thesis
        unfolding commit_body_def Let_def
        by (simp add: bindS_def [of "on_working (resolve_step identity)"] bindS_def [of "on_working (get_locked pid)"]
            bindS_def [of "on_working (validate_scope p (context_scope cid c) ?t)"] on_working_def [of "resolve_step identity"]
            on_working_def [of "get_locked pid"] on_working_def [of "validate_scope p (context_scope cid c) ?t"]
            resolve_step_def Inr Some validate_scope_ok True)
    next
      case False
      then have "\<exists>e. validate_scope p (context_scope cid c) ?t db = (db, Inl e)"
        by (auto simp: validate_scope_def in_scope_def Let_def)
      with assms(1,3) Inr Some show thesis
        by (auto simp: commit_body_def bindS_def on_working_def resolve_step_def Let_def)
    qed
  qed
qed

lemma claim_refused_kept:
  assumes "get_proposal pid (ss_working ss) = Some p" "claim_refused w reg pid e ss = (ss', r)"
  shows "(\<exists>e'. r = Inl e') \<and> (ss_committed ss' = ss_committed ss
    \<or> (pp_status p \<in> {INVALIDATED, EXPIRED} \<and> pd_proposals (ss_committed ss') = pd_proposals (ss_working ss)
       \<and> audit_only (pd_bank (ss_working ss)) (pd_bank (ss_committed ss'))))"
proof (cases "scope_or_transition e \<and> pp_status p \<in> {INVALIDATED, EXPIRED}")
  case False
  with assms show ?thesis by (auto simp: claim_refused_def rollback_session_def split: if_splits)
next
  case True
  obtain ss1 r1 where c: "commit_or_rollback (record_disposition w reg p) ss = (ss1, r1)" by fastforce
  from c show ?thesis
  proof (cases rule: commit_or_rollback_cases)
    case (undone e)
    with assms True c show ?thesis by (auto simp: claim_refused_def bindS_def)
  next
    case (kept x)
    with assms True c have "ss' = ss1" "r = Inl e" by (auto simp: claim_refused_def bindS_def stop_def)
    with kept(2) True show ?thesis using record_stage_effect(1,2) by (auto simp: record_disposition_def)
  qed
qed

lemma execute_registered_unfold:
  assumes "get_proposal pid (ss_working ss) = Some q" "for_proposal reg q = Inr s"
  shows "execute_registered_commit w reg pid scope t ss =
    (case on_working (claim_commit w reg pid scope t) ss of
       (ss1, Inl e) \<Rightarrow> claim_refused w reg pid e ss1
     | (ss1, Inr (p1, should_execute)) \<Rightarrow>
         if should_execute then execute_claimed w reg s p1 ss1
         else if pp_status p1 = COMMITTED then (ss1, Inr (proposal_result p1 True))
         else reconcile_commit w reg s p1 ss1)"
  using assms by (simp add: execute_registered_commit_def bindS_def on_working_def [of "get_locked pid"] lift_step_def)

lemma commit_body_open:
  assumes p: "get_proposal pid db = Some p" "pp_status p = PROPOSED"
    and run: "commit_body w reg pid identity c expected (fresh_session db) = (ss', r)"
  obtains (kept) e where "r = Inl e" "ss_committed ss' = db"
  | (invalid) e v reason q where "r = Inl e" "authorized w reg db p identity c v"
      "q \<in> {attested_row (pw_now w) v p, claimed_row (pw_now w) v p}"
      "updates db (invalidated_row (pw_now w) reason q) (ss_committed ss')"
  | (ok) v s outcome db1 where "authorized w reg db p identity c v" "for_proposal reg p = Inr s"
      "tm_reset_generation (pp_terms p) = rt_reset_generation c"
      "updates db (claimed_row (pw_now w) v p) db1"
      "executed w s (claimed_row (pw_now w) v p) db1 outcome (ss_committed ss')"
      "r = Inr (proposal_result (committed_row (pw_now w) (canonical_object outcome) (claimed_row (pw_now w) v p)) False)"
  using run
proof (rule commit_body_failed)
  fix e assume "r = Inl e" "ss_committed ss' = db"
  with kept show thesis .
next
  fix cid p0
  assume cid: "resolve_customer_id identity (pd_bank db) = Inr cid" and "get_proposal pid db = Some p0"
  then have p0: "p0 = p" using p(1) by simp
  define t where "t = the (str_or expected (Some (tm_action_type (pp_terms p))))"
  assume "in_scope p0 (context_scope cid c) (the (str_or expected (Some (tm_action_type (pp_terms p0)))))"
  then have scope: "in_scope p (context_scope cid c) t" by (simp add: p0 t_def)
  assume "bindS (on_working (attest_decision w reg p0 c)) (\<lambda>_.
         execute_registered_commit w reg pid (context_scope cid c) (the (str_or expected (Some (tm_action_type (pp_terms p0))))))
         (fresh_session db) = (ss', r)"
  then have body: "bindS (on_working (attest_decision w reg p c)) (\<lambda>_. execute_registered_commit w reg pid (context_scope cid c) t)
         (fresh_session db) = (ss', r)" by (simp add: p0 t_def)
  obtain db1 a where att: "attest_decision w reg p c db = (db1, a)" by fastforce
  show thesis
  proof (cases a)
    case (Inl e)
    with att body have "r = Inl e \<and> ss_committed ss' = db" by (auto simp: bindS_def on_working_def)
    with kept show thesis by blast
  next
    case (Inr v)
    let ?q = "attested_row (pw_now w) v p" and ?now = "pw_now w"
    note o = attest_open [OF p att [unfolded Inr]]
    have auth: "authorized w reg db p identity c v"
      using o cid scope by (auto simp: authorized_def in_scope_context)
    obtain s where s: "for_proposal reg p = Inr s" using o by (auto simp: evidence_for_def)
    then have sq: "for_proposal reg ?q = Inr s" using for_proposal_terms [of ?q p reg] by simp
    have gq: "get_proposal pid db1 = Some ?q" using o by blast
    let ?ss = "\<lparr>ss_committed = db, ss_working = db1\<rparr>"
    have ex: "execute_registered_commit w reg pid (context_scope cid c) t ?ss = (ss', r)"
      using body att Inr by (simp add: bindS_def on_working_def)
    obtain db2 cr where claim: "claim_commit w reg pid (context_scope cid c) t db1 = (db2, cr)" by fastforce
    have ex': "(case cr of
        Inl e \<Rightarrow> claim_refused w reg pid e \<lparr>ss_committed = db, ss_working = db2\<rparr>
      | Inr (p1, should_execute) \<Rightarrow>
         if should_execute then execute_claimed w reg s p1 \<lparr>ss_committed = db, ss_working = db2\<rparr>
         else if pp_status p1 = COMMITTED then (\<lparr>ss_committed = db, ss_working = db2\<rparr>, Inr (proposal_result p1 True))
         else reconcile_commit w reg s p1 \<lparr>ss_committed = db, ss_working = db2\<rparr>) = (ss', r)"
      using ex claim by (simp add: execute_registered_unfold [of pid ?ss ?q, OF _ sq] gq on_working_def split: sum.splits prod.splits)
    have st: "pp_status ?q = CONFIRMED" "\<not> overdue ?now ?q" "in_scope ?q (context_scope cid c) t"
      using o scope by (simp_all add: overdue_def in_scope_def)
    have u1: "updates db ?q db1" using o by blast
    have pid: "pp_id p = pid" using get_proposal_id [OF p(1)] by simp
    from gq st claim show thesis
    proof (cases rule: claim_confirmed)
      case (audit x)
      with ex' have "r = Inl (Raised x) \<and> ss_committed ss' = db" by (auto simp: claim_refused_def scope_or_transition_def)
      with kept show thesis by blast
    next
      case (reset e)
      let ?i = "invalidated_row ?now ''RESET_GENERATION_CHANGED'' ?q"
      have u2: "updates db ?i db2" using updates_trans [OF u1 reset(3)] by simp
      have gi: "get_proposal pid (ss_working \<lparr>ss_committed = db, ss_working = db2\<rparr>) = Some ?i"
        using get_updates [OF u2] p(1) pid by simp
      have cr: "claim_refused w reg pid e \<lparr>ss_committed = db, ss_working = db2\<rparr> = (ss', r)" using ex' reset(1) by simp
      have k: "(\<exists>e'. r = Inl e') \<and> (ss_committed ss' = db \<or> (pd_proposals (ss_committed ss') = pd_proposals db2
         \<and> audit_only (pd_bank db2) (pd_bank (ss_committed ss'))))"
        using claim_refused_kept [OF gi cr] by auto
      with kept invalid [OF _ auth, of _ ?q] updates_audit [OF u2] show thesis by blast
    next
      case claimed
      let ?k = "claimed_row ?now v p"
      have k: "committing_row ?now ?q = ?k" by (simp add: claimed_row_def)
      have u2: "updates db ?k db2" using updates_trans [OF u1 claimed(2)] k by simp
      have gk: "get_proposal pid db2 = Some ?k" using get_updates [OF u2] p(1) pid by simp
      have exc: "execute_claimed w reg s ?k \<lparr>ss_committed = db, ss_working = db2\<rparr> = (ss', r)" using ex' claimed(1) k by simp
      have gk': "get_proposal pid (ss_working \<lparr>ss_committed = db, ss_working = db2\<rparr>) = Some ?k" "pp_status ?k = COMMITTING"
        using gk by simp_all
      from gk' exc show thesis
      proof (cases rule: execute_claimed_cases)
        case (failed e)
        with kept show thesis by simp
      next
        case (refused f)
        have "updates db (invalidated_row ?now (pf_reason f) ?k) (ss_committed ss')"
          using updates_trans [OF u2] refused(4) by simp
        with invalid [OF refused(1) auth, of ?k] show thesis by blast
      next
        case (ran outcome)
        have "tm_reset_generation (pp_terms p) = rt_reset_generation c"
          using claimed(3) by (simp add: context_scope_def)
        with ok [OF auth s _ u2] ran show thesis by simp
      qed
    qed
  qed
qed

lemma commit_body_closed:
  assumes p: "get_proposal pid db = Some p" "pp_status p \<in> set TERMINAL_STATUSES"
    and run: "commit_body w reg pid identity c expected (fresh_session db) = (ss', r)"
  shows "pd_proposals (ss_committed ss') = pd_proposals db \<and> audit_only (pd_bank db) (pd_bank (ss_committed ss'))
    \<and> (\<forall>y. r = Inr y \<longrightarrow> ss_committed ss' = db \<and> pp_status p = COMMITTED \<and> y = proposal_result p True)"
  using run
proof (rule commit_body_failed)
  fix e assume "r = Inl e" "ss_committed ss' = db"
  then show ?thesis by simp
next
  fix cid p0
  assume "get_proposal pid db = Some p0"
  then have p0: "p0 = p" using p(1) by simp
  define t where "t = the (str_or expected (Some (tm_action_type (pp_terms p))))"
  assume "in_scope p0 (context_scope cid c) (the (str_or expected (Some (tm_action_type (pp_terms p0)))))"
  then have scope: "in_scope p (context_scope cid c) t" by (simp add: p0 t_def)
  assume "bindS (on_working (attest_decision w reg p0 c)) (\<lambda>_.
         execute_registered_commit w reg pid (context_scope cid c) (the (str_or expected (Some (tm_action_type (pp_terms p0))))))
         (fresh_session db) = (ss', r)"
  then have body: "bindS (on_working (attest_decision w reg p c)) (\<lambda>_. execute_registered_commit w reg pid (context_scope cid c) t)
         (fresh_session db) = (ss', r)" by (simp add: p0 t_def)
  obtain db1 a where att: "attest_decision w reg p c db = (db1, a)" by fastforce
  show ?thesis
  proof (cases a)
    case (Inl e)
    with att body show ?thesis by (auto simp: bindS_def on_working_def)
  next
    case (Inr v)
    note closed = attest_closed [OF p(2) att [unfolded Inr]]
    then obtain s where s: "for_proposal reg p = Inr s" by (auto simp: evidence_for_def)
    have ex: "execute_registered_commit w reg pid (context_scope cid c) t (fresh_session db) = (ss', r)"
      using body att Inr closed by (simp add: bindS_def on_working_def)
    obtain db2 cr where claim: "claim_commit w reg pid (context_scope cid c) t db = (db2, cr)" by fastforce
    note cc = claim_closed [OF p scope claim]
    show ?thesis
    proof (cases "pp_status p = COMMITTED")
      case True
      with cc ex claim s p(1) show ?thesis
        by (auto simp: execute_registered_unfold [of pid _ p] on_working_def)
    next
      case False
      with cc obtain e where e: "cr = Inl e" by auto
      have g: "get_proposal pid (ss_working \<lparr>ss_committed = db, ss_working = db2\<rparr>) = Some p"
        using cc p(1) by (simp add: get_proposal_def)
      have cr: "claim_refused w reg pid e \<lparr>ss_committed = db, ss_working = db2\<rparr> = (ss', r)"
        using ex claim e s p(1) by (simp add: execute_registered_unfold [of pid _ p] on_working_def)
      show ?thesis using claim_refused_kept [OF g cr] cc by auto
    qed
  qed
qed

lemma commit_body_missing:
  assumes "get_proposal pid db = None" "commit_body w reg pid identity c expected (fresh_session db) = (ss', r)"
  shows "ss_committed ss' = db \<and> (\<exists>e. r = Inl e)"
  using assms(2) by (rule commit_body_failed) (use assms(1) in auto)

section \<open>Rejected requests\<close>

text \<open>Audit rows and at most one notice to the customer.\<close>

definition noted :: "bank_db \<Rightarrow> bank_db \<Rightarrow> bool" where
  "noted b b' \<longleftrightarrow>
     b' = b\<lparr>d_outbox := d_outbox b', d_draws := d_draws b', d_messages := d_messages b'\<rparr>
     \<and> (\<exists>rows. d_outbox b' = d_outbox b @ rows) \<and> (\<exists>ms. d_messages b' = d_messages b @ ms \<and> length ms \<le> 1)"

lemma noted_audit: "audit_only a b \<Longrightarrow> noted b c \<Longrightarrow> noted a c"
proof -
  assume a: "audit_only a b" and n: "noted b c"
  have b: "b = a\<lparr>d_outbox := d_outbox b, d_draws := d_draws b\<rparr>" using a by (simp add: audit_only_def)
  have m: "d_messages b = d_messages a" by (subst b) simp
  have "c = b\<lparr>d_outbox := d_outbox c, d_draws := d_draws c, d_messages := d_messages c\<rparr>" using n by (simp add: noted_def)
  then have "c = a\<lparr>d_outbox := d_outbox c, d_draws := d_draws c, d_messages := d_messages c\<rparr>" by (subst (asm) b) simp
  with a n m show ?thesis by (auto simp: noted_def audit_only_def)
qed

lemma noted_audit': "noted a b \<Longrightarrow> audit_only b c \<Longrightarrow> noted a c"
proof -
  assume n: "noted a b" and a: "audit_only b c"
  have c: "c = b\<lparr>d_outbox := d_outbox c, d_draws := d_draws c\<rparr>" using a by (simp add: audit_only_def)
  have m: "d_messages c = d_messages b" by (subst c) simp
  have b: "b = a\<lparr>d_outbox := d_outbox b, d_draws := d_draws b, d_messages := d_messages b\<rparr>" using n by (simp add: noted_def)
  have "c = a\<lparr>d_outbox := d_outbox c, d_draws := d_draws c, d_messages := d_messages b\<rparr>" by (subst c, subst b) simp
  with a n m show ?thesis by (auto simp: noted_def audit_only_def)
qed

lemma noted_refl [simp]: "noted b b"
  by (simp add: noted_def)

lemma noted_notice: "noted b (record_adverse_action_notice w i n b)"
  by (auto simp: record_adverse_action_notice_def noted_def uuid4_def Let_def)

lemma audit_noted: "audit_only a b \<Longrightarrow> noted a b"
  using noted_audit [of a b b] by simp

lemma retain_expiry_cases:
  assumes "retain_expiry w reg customer c e request db = (db', r)"
  obtains "db' = db"
  | p where "p \<in> set (pd_proposals db)" "pp_status p \<notin> set TERMINAL_STATUSES" "pp_status p \<noteq> COMMITTING" "overdue (pw_now w) p"
      "map_of request ''proposal_id'' = Some (PStr (pp_id p))"
      "updates db (expired_row (pw_now w) p) db'"
  using assms
  by (auto simp: retain_expiry_def split: option.splits pyval.splits if_splits dest: put_then_dispose get_proposal_id)

lemma record_request_rejection_effect:
  assumes "record_request_rejection w reg identity c operation e request db = (db', r)"
  obtains (same) "pd_proposals db' = pd_proposals db" "noted (pd_bank db) (pd_bank db')"
  | (expired) p where "p \<in> set (pd_proposals db)" "pp_status p \<notin> set TERMINAL_STATUSES" "pp_status p \<noteq> COMMITTING"
      "overdue (pw_now w) p" "map_of request ''proposal_id'' = Some (PStr (pp_id p))"
      "pd_proposals db' = put_row pp_id (expired_row (pw_now w) p) (pd_proposals db)" "noted (pd_bank db) (pd_bank db')"
proof -
  obtain customer where cu: "customer = (case resolve_customer_id identity (pd_bank db) of Inr i \<Rightarrow> Some i | Inl _ \<Rightarrow> None)" by blast
  obtain db1 r1 where k: "retain_expiry w reg customer c e request db = (db1, r1)" by fastforce
  have rest: "pd_proposals db' = pd_proposals db1 \<and> noted (pd_bank db1) (pd_bank db')"
  proof (cases r1)
    case (Inl x)
    with assms k cu show ?thesis by (simp add: record_request_rejection_def bindS_def Let_def)
  next
    case (Inr u)
    define b where "b = (case (customer, adverse_action_of e) of
                 (Some customer_id, Some n) \<Rightarrow> record_adverse_action_notice w customer_id n (pd_bank db1) | _ \<Rightarrow> pd_bank db1)"
    have nb: "noted (pd_bank db1) b" by (auto simp: b_def noted_notice split: option.split)
    have "record_rejection w reg identity customer c operation e request (db1\<lparr>pd_bank := b\<rparr>) = (db', r)"
      using assms k Inr cu by (simp add: record_request_rejection_def bindS_def b_def Let_def)
    then show ?thesis
      by (cases "rejection_snapshot reg customer c e")
        (auto simp: record_rejection_def bindS_def lift_step_def nb intro: noted_audit' [OF nb audit_only_emit])
  qed
  from k show thesis
  proof (cases rule: retain_expiry_cases)
    case 1
    with rest same show thesis by simp
  next
    case (2 p)
    moreover have "noted (pd_bank db) (pd_bank db')" using 2(6) rest by (auto simp: updates_def intro: noted_audit)
    ultimately show thesis using expired [of p] rest by (simp add: updates_def)
  qed
qed

end
