(* ===== verification/Proposal_Life_Cycle.thy ===== *)
theory Proposal_Life_Cycle
  imports Proposal_Safety
begin

text \<open>
  The abstract life cycle of proposals and its refinement by the requests.  Seen from outside a request, a
  proposal is offered once and closed once: the statuses in between never rest.  The invariants of the table
  follow by rule induction over the two abstract steps.
\<close>

section \<open>The abstract life cycle\<close>

definition untouched :: "action_proposal \<Rightarrow> bool" where
  "untouched p \<longleftrightarrow> pp_status p = PROPOSED \<and> pp_presented_assistant_turn_id p = None
     \<and> pp_confirmation_customer_turn_id p = None \<and> pp_confirmation_evidence p = None \<and> pp_result_payload p = None
     \<and> pp_invalidation_reason p = None \<and> pp_completed_at p = None"

text \<open>A decision of the customer on another turn than the presentation and than the request itself.\<close>

definition decided_later :: "action_proposal \<Rightarrow> bool" where
  "decided_later p \<longleftrightarrow> (\<exists>pres turn evidence. pp_presented_assistant_turn_id p = Some pres \<and> pres \<noteq> []
     \<and> pp_confirmation_customer_turn_id p = Some turn \<and> turn \<noteq> [] \<and> turn \<noteq> pres
     \<and> turn \<noteq> tm_originating_customer_turn_id (pp_terms p) \<and> pp_confirmation_evidence p = Some evidence)"

definition closed_ok :: "action_proposal \<Rightarrow> bool" where
  "closed_ok p \<longleftrightarrow> pp_completed_at p \<noteq> None
     \<and> (case pp_status p of
          COMMITTED \<Rightarrow> decided_later p \<and> pp_result_payload p \<noteq> None
            \<and> (\<exists>t. pp_completed_at p = Some t \<and> t < tm_expires_at (pp_terms p))
        | proposal_status.DECLINED \<Rightarrow> decided_later p \<and> pp_result_payload p = None \<and> pp_invalidation_reason p = Some ''CUSTOMER_DECLINED''
        | INVALIDATED \<Rightarrow> pp_result_payload p = None \<and> pp_invalidation_reason p \<noteq> None
        | EXPIRED \<Rightarrow> pp_result_payload p = None \<and> (\<exists>t. pp_completed_at p = Some t \<and> tm_expires_at (pp_terms p) \<le> t)
        | _ \<Rightarrow> False)"

inductive life_cycle :: "action_proposal list \<Rightarrow> action_proposal list \<Rightarrow> bool" where
  offer: "untouched p \<Longrightarrow> pp_id p \<notin> pp_id ` set rows \<Longrightarrow> \<not> (\<exists>q \<in> set rows. same_scope_key q p) \<Longrightarrow>
    (tm_bank_decision_ref (pp_terms p) \<noteq> None \<Longrightarrow>
      tm_bank_decision_ref (pp_terms p) \<notin> (\<lambda>q. tm_bank_decision_ref (pp_terms q)) ` set rows) \<Longrightarrow>
    \<not> (\<exists>q \<in> set rows. active q \<and> in_session (tm_customer_id (pp_terms p)) (tm_support_session_id (pp_terms p)) q) \<Longrightarrow>
    life_cycle rows (rows @ [p])"
| closing: "p \<in> set rows \<Longrightarrow> pp_status p = PROPOSED \<Longrightarrow> pp_terms p' = pp_terms p \<Longrightarrow> closed_ok p' \<Longrightarrow>
    life_cycle rows (put_row pp_id p' rows)"

abbreviation life_cycles :: "action_proposal list \<Rightarrow> action_proposal list \<Rightarrow> bool" where
  "life_cycles \<equiv> life_cycle\<^sup>*\<^sup>*"

lemma closed_ok_terminal: "closed_ok p \<Longrightarrow> pp_status p \<in> set TERMINAL_STATUSES"
  by (auto simp: closed_ok_def TERMINAL_STATUSES_def split: proposal_status.splits)

lemma terminal_not_active: "pp_status p \<in> set TERMINAL_STATUSES \<longleftrightarrow> \<not> active p"
  by (simp add: active_def active_or_terminal)

section \<open>The table at rest\<close>

definition same_decision :: "action_proposal \<Rightarrow> action_proposal \<Rightarrow> bool" where
  "same_decision p q \<longleftrightarrow> tm_bank_decision_ref (pp_terms p) \<noteq> None
     \<and> tm_bank_decision_ref (pp_terms p) = tm_bank_decision_ref (pp_terms q)"

lemma same_sym: "same_scope_key p q \<longleftrightarrow> same_scope_key q p" "same_decision p q \<longleftrightarrow> same_decision q p"
  unfolding same_scope_key_def same_decision_def Let_def by metis+

lemma same_terms:
  "pp_terms p' = pp_terms p \<Longrightarrow> same_scope_key p' q = same_scope_key p q"
  "pp_terms p' = pp_terms p \<Longrightarrow> same_scope_key q p' = same_scope_key q p"
  "pp_terms p' = pp_terms p \<Longrightarrow> same_decision p' q = same_decision p q"
  "pp_terms p' = pp_terms p \<Longrightarrow> same_decision q p' = same_decision q p"
  by (simp_all add: same_scope_key_def same_decision_def Let_def)

definition rest :: "action_proposal list \<Rightarrow> bool" where
  "rest rows \<longleftrightarrow> distinct (map pp_id rows) \<and> (\<forall>p \<in> set rows. untouched p \<or> closed_ok p)
     \<and> (\<forall>p \<in> set rows. \<forall>q \<in> set rows. pp_id p \<noteq> pp_id q \<longrightarrow> \<not> same_scope_key p q \<and> \<not> same_decision p q)
     \<and> (\<forall>p \<in> set rows. \<forall>q \<in> set rows. active p \<longrightarrow> active q \<longrightarrow>
          in_session (tm_customer_id (pp_terms p)) (tm_support_session_id (pp_terms p)) q \<longrightarrow> p = q)"

lemma in_session_sym:
  "in_session (tm_customer_id (pp_terms p)) (tm_support_session_id (pp_terms p)) q \<longleftrightarrow>
   in_session (tm_customer_id (pp_terms q)) (tm_support_session_id (pp_terms q)) p"
  by (auto simp: in_session_def)

lemma life_cycle_rest:
  assumes "life_cycle rows rows'" "rest rows"
  shows "rest rows'"
  using assms(1)
proof cases
  case (offer p)
  have n: "\<not> in_session (tm_customer_id (pp_terms p)) (tm_support_session_id (pp_terms p)) q" if "q \<in> set rows" "active q" for q
    using offer(6) that by blast
  have k: "\<not> same_scope_key p q \<and> \<not> same_scope_key q p \<and> \<not> same_decision p q \<and> \<not> same_decision q p" if "q \<in> set rows" for q
    using offer(4,5) that same_sym [of p q] by (auto simp: same_decision_def)
  show ?thesis
    unfolding rest_def offer(1)
  proof (intro conjI ballI impI)
    show "distinct (map pp_id (rows @ [p]))" using assms(2) offer(3) by (simp add: rest_def)
    show "untouched q \<or> closed_ok q" if "q \<in> set (rows @ [p])" for q
      using that assms(2) offer(2) by (auto simp: rest_def)
    show "\<not> same_scope_key q q'" "\<not> same_decision q q'" if "q \<in> set (rows @ [p])" "q' \<in> set (rows @ [p])" "pp_id q \<noteq> pp_id q'" for q q'
      using that k [of q] k [of q'] assms(2) by (auto simp: rest_def)
    show "q = q'" if "q \<in> set (rows @ [p])" "q' \<in> set (rows @ [p])" "active q" "active q'"
      "in_session (tm_customer_id (pp_terms q)) (tm_support_session_id (pp_terms q)) q'" for q q'
      using that n [of q] n [of q'] in_session_sym [of p] assms(2) by (auto simp: rest_def)
  qed
next
  case (closing p p')
  have na: "\<not> active p'" using closing(5) closed_ok_terminal terminal_not_active by blast
  have sub: "q = p' \<or> q \<in> set rows" if "q \<in> set (put_row pp_id p' rows)" for q
    using that set_put_row [of pp_id p' rows] by blast
  have id: "pp_id p' = pp_id p" using closing(4) by simp
  show ?thesis
    unfolding rest_def closing(1)
  proof (intro conjI ballI impI)
    show "distinct (map pp_id (put_row pp_id p' rows))" using assms(2) by (simp add: rest_def)
    show "untouched q \<or> closed_ok q" if "q \<in> set (put_row pp_id p' rows)" for q
      using sub [of q] that closing(5) assms(2) by (auto simp: rest_def)
    show "\<not> same_scope_key q q'" "\<not> same_decision q q'"
      if "q \<in> set (put_row pp_id p' rows)" "q' \<in> set (put_row pp_id p' rows)" "pp_id q \<noteq> pp_id q'" for q q'
      using sub [of q] sub [of q'] that closing(2) assms(2) id same_terms [OF closing(4)] unfolding rest_def by metis+
    show "q = q'" if "q \<in> set (put_row pp_id p' rows)" "q' \<in> set (put_row pp_id p' rows)" "active q" "active q'"
      "in_session (tm_customer_id (pp_terms q)) (tm_support_session_id (pp_terms q)) q'" for q q'
      using sub [of q] sub [of q'] that na assms(2) by (auto simp: rest_def)
  qed
qed

lemma life_cycles_rest: "life_cycles rows rows' \<Longrightarrow> rest rows \<Longrightarrow> rest rows'"
  by (induction rule: rtranclp_induct) (auto intro: life_cycle_rest)

lemma rest_row: "rest rows \<Longrightarrow> p \<in> set rows \<Longrightarrow> untouched p \<or> closed_ok p"
  by (simp add: rest_def)

lemma rest_status: "rest rows \<Longrightarrow> p \<in> set rows \<Longrightarrow> pp_status p = PROPOSED \<or> pp_status p \<in> set TERMINAL_STATUSES"
  using rest_row closed_ok_terminal by (fastforce simp: untouched_def)

lemma rest_get: "rest (pd_proposals db) \<Longrightarrow> p \<in> set (pd_proposals db) \<Longrightarrow> get_proposal (pp_id p) db = Some p"
  by (simp add: rest_def get_proposal_def find_key_distinct [of pp_id])

text \<open>What an abstract run keeps of one row.\<close>

lemma life_cycle_row:
  assumes "life_cycle rows rows'" "rest rows" "p \<in> set rows"
  shows "\<exists>p' \<in> set rows'. pp_terms p' = pp_terms p \<and> (p' = p \<or> (pp_status p = PROPOSED \<and> closed_ok p'))"
  using assms(1)
proof cases
  case (offer q)
  with assms(3) show ?thesis by auto
next
  case (closing q q')
  show ?thesis
  proof (cases "pp_id p = pp_id q'")
    case True
    then have "p = q" using closing(2,4) assms(2,3) by (auto simp: rest_def distinct_map inj_on_def)
    moreover have "q' \<in> set rows'" using True assms(3) closing(1) by (auto simp: put_row_def)
    ultimately show ?thesis using closing by auto
  next
    case False
    with assms(3) closing(1) have "p \<in> set rows'" by (auto simp: put_row_def)
    then show ?thesis by auto
  qed
qed

lemma life_cycles_row:
  assumes "life_cycles rows rows'" "rest rows" "p \<in> set rows"
  shows "\<exists>p' \<in> set rows'. pp_terms p' = pp_terms p \<and> (p' = p \<or> (pp_status p = PROPOSED \<and> closed_ok p'))"
  using assms(1)
proof (induction rule: rtranclp_induct)
  case base
  then show ?case using assms(3) by blast
next
  case (step y z)
  then obtain p1 where p1: "p1 \<in> set y" "pp_terms p1 = pp_terms p" "p1 = p \<or> (pp_status p = PROPOSED \<and> closed_ok p1)" by blast
  have "rest y" using life_cycles_rest [OF step(1) assms(2)] .
  from life_cycle_row [OF step(2) this p1(1)] obtain p2 where p2: "p2 \<in> set z" "pp_terms p2 = pp_terms p1"
      "p2 = p1 \<or> (pp_status p1 = PROPOSED \<and> closed_ok p2)" by blast
  show ?case
    using p1 p2 closed_ok_terminal [of p1] by (auto simp: TERMINAL_STATUSES_def)
qed

section \<open>Closing rows\<close>

lemma closed_expired: "untouched p \<Longrightarrow> overdue now p \<Longrightarrow> closed_ok (expired_row now p)"
  by (simp add: closed_ok_def expired_row_def untouched_def overdue_def)

lemma closed_invalidated:
  "pp_result_payload q = None \<Longrightarrow> closed_ok (invalidated_row now reason q)"
  by (simp add: closed_ok_def invalidated_row_def)

lemma result_open:
  "untouched p \<Longrightarrow> q \<in> {attested_row now v p, claimed_row now v p} \<Longrightarrow> pp_result_payload q = None"
  by (auto simp: untouched_def attested_row_def claimed_row_def confirmed_row_def presented_row_def committing_row_def)

lemma evidence_turns:
  assumes "evidence_for reg p c v"
  shows "ve_presentation_turn_id v \<noteq> []" "ve_decision_turn_id v \<noteq> []" "ve_decision_turn_id v \<noteq> ve_presentation_turn_id v"
proof -
  from assms obtain s :: spec where "validate_evidence c (sp_authorization_policy s) (Some (sp_presentation_requirement s)) None = Inr v"
    unfolding evidence_for_def by blast
  from validate_evidence_Inr [OF this] obtain pres where "v = \<lparr>ve_customer_turn_id = rt_customer_turn_id c,
      ve_presentation_turn_id = pres, ve_decision_turn_id = rt_customer_turn_id c, ve_protected_evidence = protected_evidence c None\<rparr>"
      "pres \<noteq> []" "rt_customer_turn_id c \<noteq> []" "pres \<noteq> rt_customer_turn_id c" by metis
  then show "ve_presentation_turn_id v \<noteq> []" "ve_decision_turn_id v \<noteq> []" "ve_decision_turn_id v \<noteq> ve_presentation_turn_id v"
    by simp_all
qed

lemma closed_committed:
  assumes "authorized w reg db p identity c v"
  shows "closed_ok (committed_row (pw_now w) result (claimed_row (pw_now w) v p))"
  using assms evidence_turns [of reg p c v]
  by (auto simp: closed_ok_def decided_later_def committed_row_def claimed_row_def committing_row_def attested_row_def
      confirmed_row_def presented_row_def authorized_def overdue_def)


lemma rest_put:
  assumes "rest (pd_proposals db)" "p \<in> set (pd_proposals db)" "pp_status p = PROPOSED" "pp_terms p' = pp_terms p" "closed_ok p'"
    and "pd_proposals db' = put_row pp_id p' (pd_proposals db)"
  shows "life_cycles (pd_proposals db) (pd_proposals db')"
  using life_cycle.closing [OF assms(2-5)] assms(6) by auto

lemma rest_updates:
  "rest (pd_proposals db) \<Longrightarrow> p \<in> set (pd_proposals db) \<Longrightarrow> untouched p \<Longrightarrow> closed_ok p' \<Longrightarrow> updates db p' db' \<Longrightarrow>
   pp_terms p' = pp_terms p \<Longrightarrow> life_cycles (pd_proposals db) (pd_proposals db')"
  unfolding updates_def untouched_def by (blast intro: rest_put)

section \<open>Commit requests\<close>

lemma commit_body_life:
  assumes r: "rest (pd_proposals db)" and run: "commit_body w reg pid identity c expected (fresh_session db) = (ss', x)"
  shows "life_cycles (pd_proposals db) (pd_proposals (ss_committed ss'))"
proof (cases "get_proposal pid db")
  case None
  with commit_body_missing [OF None run] show ?thesis by simp
next
  case (Some p)
  then have m: "p \<in> set (pd_proposals db)" using get_proposal_id by blast
  from rest_row [OF r m] show ?thesis
  proof
    assume "closed_ok p"
    from commit_body_closed [OF Some closed_ok_terminal [OF this] run] show ?thesis by simp
  next
    assume u: "untouched p"
    then have st: "pp_status p = PROPOSED" by (simp add: untouched_def)
    from Some st run show ?thesis
    proof (cases rule: commit_body_open)
      case (kept e)
      then show ?thesis by simp
    next
      case (invalid e v reason q)
      have "closed_ok (invalidated_row (pw_now w) reason q)"
        using closed_invalidated [OF result_open [OF u invalid(3)]] .
      from rest_updates [OF r m u this invalid(4)] invalid(3) show ?thesis by auto
    next
      case (ok v s outcome db1)
      have "pd_proposals (ss_committed ss') =
          put_row pp_id (committed_row (pw_now w) (canonical_object outcome) (claimed_row (pw_now w) v p)) (pd_proposals db)"
        using ok(4,5) by (auto simp: updates_def executed_def put_row_put_row)
      from rest_put [OF r m st _ closed_committed [OF ok(1)] this] show ?thesis by simp
    qed
  qed
qed

section \<open>The request frame\<close>

lemma audited_life:
  assumes r: "rest (pd_proposals db)"
    and body: "\<And>ss x. body (fresh_session db) = (ss, x) \<Longrightarrow> life_cycles (pd_proposals db) (pd_proposals (ss_committed ss))"
    and run: "audited_request w reg identity c operation request body (fresh_session db) = (ss', y)"
  shows "life_cycles (pd_proposals db) (pd_proposals (ss_committed ss'))"
proof -
  obtain ss1 x where b: "body (fresh_session db) = (ss1, x)" by fastforce
  let ?mid = "ss_committed ss1"
  have l: "life_cycles (pd_proposals db) (pd_proposals ?mid)" using body [OF b] .
  have rm: "rest (pd_proposals ?mid)" using life_cycles_rest [OF l r] .
  show ?thesis
  proof (cases x)
    case (Inr v)
    with run b l show ?thesis by (simp add: audited_request_def)
  next
    case (Inl e)
    obtain db2 z where rej: "record_request_rejection w reg identity c operation e request ?mid = (db2, z)" by fastforce
    from rej have "life_cycles (pd_proposals ?mid) (pd_proposals db2)"
    proof (cases rule: record_request_rejection_effect)
      case same
      then show ?thesis by simp
    next
      case (expired p)
      have u: "untouched p" using rest_row [OF rm expired(1)] expired(2) closed_ok_terminal by blast
      then show ?thesis
        using rest_put [OF rm expired(1) _ _ closed_expired [OF u expired(4)] expired(6)] by (simp add: untouched_def)
    qed
    then have "life_cycles (pd_proposals db) (pd_proposals db2)" using l by simp
    then show ?thesis
      using run b Inl rej l
      by (auto simp: audited_request_def rollback_session_def on_working_def commit_session_def Let_def split: if_splits sum.splits)
  qed
qed

end
