(* ===== verification/Proposal_Requests.thy ===== *)
theory Proposal_Requests
  imports Proposal_Life_Cycle
begin

text \<open>
  Decision and preparation requests against the abstract life cycle, and the service as a whole: every request,
  with any registry, handlers, clock and publication, is a run of the abstract machine on the proposals.
\<close>

section \<open>Taking runs apart\<close>

lemma bindS_cases:
  assumes "bindS m f s = (s', r)"
  obtains (stopped) e where "m s = (s', Inl e)" "r = Inl e"
  | (went) x s1 where "m s = (s1, Inr x)" "f x s1 = (s', r)"
  using assms by (auto simp: bindS_def split: prod.splits sum.splits)

text \<open>A step on the working state never changes what is committed.\<close>

lemma on_working_cases:
  assumes "bindS (on_working m) f ss = (ss', r)"
  obtains (stopped) e where "r = Inl e" "ss_committed ss' = ss_committed ss"
  | (went) x db where "m (ss_working ss) = (db, Inr x)" "f x (ss\<lparr>ss_working := db\<rparr>) = (ss', r)"
  using assms by (auto simp: bindS_def on_working_def split: prod.splits sum.splits)

text \<open>The identity, the lock and the scope that every request on a proposal begins with.\<close>

lemma scoped_cases:
  assumes "bindS (on_working (resolve_step identity)) (\<lambda>cid. bindS (on_working (get_locked pid)) (\<lambda>p.
     bindS (on_working (validate_scope p (context_scope cid c) (t p))) (\<lambda>_. f cid p))) (fresh_session db) = (ss', r)"
  obtains (failed) e where "r = Inl e" "ss_committed ss' = db"
  | (scoped) cid p where "resolve_customer_id identity (pd_bank db) = Inr cid" "get_proposal pid db = Some p"
      "in_scope p (context_scope cid c) (t p)" "f cid p (fresh_session db) = (ss', r)"
  using assms
proof (cases rule: on_working_cases)
  case (stopped e)
  with failed show thesis by simp
next
  case (went cid db0)
  then have cid: "resolve_customer_id identity (pd_bank db) = Inr cid" and db0: "db0 = db" by (auto simp: resolve_step_def)
  from went(2) show thesis
  proof (cases rule: on_working_cases)
    case (stopped e)
    with failed show thesis by simp
  next
    case (went p db1)
    then have p: "get_proposal pid db = Some p" and db1: "db1 = db" by (auto simp: get_locked_Inr db0)
    from went(2) show thesis
    proof (cases rule: on_working_cases)
      case (stopped e)
      with failed show thesis by simp
    next
      case (went u db2)
      with scoped [OF cid p] show thesis by (auto simp: validate_scope_Inr db1)
    qed
  qed
qed

section \<open>Decision requests\<close>

definition decided_row :: "int \<Rightarrow> validated_evidence \<Rightarrow> non_commit_decision \<Rightarrow> action_proposal \<Rightarrow> action_proposal" where
  "decided_row now v d p =
     (let p' = (presented_row now (ve_presentation_turn_id v) p)
                 \<lparr>pp_confirmation_evidence := Some (ve_protected_evidence v),
                  pp_confirmation_customer_turn_id := Some (ve_decision_turn_id v)\<rparr>
      in if d = DECLINE then declined_row now (ve_decision_turn_id v) p' else invalidated_row now (decision_reason d) p')"

lemma decided_row_terms [simp]: "pp_terms (decided_row now v d p) = pp_terms p"
  by (simp add: decided_row_def Let_def)

lemma apply_decision_presented:
  assumes g: "get_proposal pid db = Some p1" "p1 = presented_row (pw_now w) (ve_presentation_turn_id v) p"
    and o: "\<not> overdue (pw_now w) p1" and a: "apply_decision w reg p1 v d db = (db', Inr q)"
  shows "q = decided_row (pw_now w) v d p \<and> updates db q db'"
proof -
  let ?p = "p1\<lparr>pp_confirmation_evidence := Some (ve_protected_evidence v), pp_confirmation_customer_turn_id := Some (ve_decision_turn_id v)\<rparr>"
  have id: "pp_id p1 = pid" "pp_id ?p = pid" using get_proposal_id [OF g(1)] by simp_all
  have u: "updates db ?p (put_proposal ?p db)" by (rule updates_put)
  have gp: "get_proposal pid (put_proposal ?p db) = Some ?p" using get_updates [OF u] g(1) id by simp
  have st: "pp_status ?p = PRESENTED" "\<not> overdue (pw_now w) ?p" using g(2) o by (simp_all add: overdue_def)
  show ?thesis
  proof (cases "d = DECLINE")
    case True
    let ?q = "declined_row (pw_now w) (ve_decision_turn_id v) ?p"
    have "bindS (record_stage w reg ?q (status_text (pp_status ?q))) (\<lambda>_. ret ?q) (put_proposal ?q (put_proposal ?p db)) = (db', Inr q)"
      using a True gp st id by (simp add: apply_decision_def decline_def Let_def bindS_def [of "get_locked pid"]
        bindS_def [of "expire_if_needed (pw_now w) ?p"] bindS_def [of "require_status ?p PRESENTED"] expire_if_needed_def
        require_status_def record_disposition_def)
    from record_then_ret [OF this] have "q = ?q" "updates (put_proposal ?p db) q db'" by simp_all
    moreover have "updates db q db'" using updates_trans [OF u, of q db'] calculation by simp
    ultimately show ?thesis using True g(2) by (simp add: decided_row_def Let_def)
  next
    case False
    let ?q = "invalidated_row (pw_now w) (decision_reason d) ?p"
    from a False id obtain db1 q1 where i: "invalidate w reg pid (decision_reason d) (put_proposal ?p db) = (db1, Inr q1)"
        and q: "q = q1\<lparr>pp_confirmation_customer_turn_id := Some (ve_decision_turn_id v)\<rparr>" "db' = put_proposal q db1"
      by (auto simp: apply_decision_def Let_def elim!: bindS_E)
    have "bindS (record_stage w reg ?q (status_text (pp_status ?q))) (\<lambda>_. ret ?q) (put_proposal ?q (put_proposal ?p db)) = (db1, Inr q1)"
      using i gp st by (simp add: invalidate_def Let_def bindS_def [of "get_locked pid"] TERMINAL_STATUSES_def record_disposition_def)
    from record_then_ret [OF this] have q1: "q1 = ?q" "updates (put_proposal ?p db) q1 db1" by simp_all
    have "q = ?q" using q(1) q1(1) by (simp add: invalidated_row_def)
    moreover have "updates db q1 db1" using updates_trans [OF u q1(2)] q1(1) by simp
    then have "updates db q db'" using updates_trans [OF _ updates_put, of db q1 db1 q] q q1(1) by simp
    ultimately show ?thesis using False g(2) by (simp add: decided_row_def Let_def)
  qed
qed

lemma apply_decision_closed:
  assumes g: "get_proposal pid db = Some p" and t: "pp_status p \<in> set TERMINAL_STATUSES"
    and n: "pp_status p \<notin> {proposal_status.DECLINED, INVALIDATED}"
  shows "\<exists>e. snd (apply_decision w reg p v d db) = Inl e"
proof -
  let ?p = "p\<lparr>pp_confirmation_evidence := Some (ve_protected_evidence v), pp_confirmation_customer_turn_id := Some (ve_decision_turn_id v)\<rparr>"
  have id: "pp_id ?p = pid" "pp_id p = pid" using get_proposal_id [OF g] by simp_all
  have gp: "get_proposal pid (put_proposal ?p db) = Some ?p" using get_updates [OF updates_put, of ?p db p] g id by simp
  have "pp_status p \<noteq> PRESENTED" using t by (auto simp: TERMINAL_STATUSES_def)
  with gp id t n show ?thesis
    by (simp add: apply_decision_def decline_def invalidate_def Let_def bindS_def expire_if_needed_def require_status_def stop_def)
qed

lemma reset_changed_open:
  assumes p: "get_proposal pid db = Some p" "pp_status p = PROPOSED"
    and run: "reset_changed w reg p (fresh_session db) = (ss', r)"
  shows "(\<exists>e. r = Inl e) \<and> (ss_committed ss' = db
    \<or> updates db (invalidated_row (pw_now w) ''RESET_GENERATION_CHANGED'' p) (ss_committed ss'))"
proof -
  let ?q = "invalidated_row (pw_now w) ''RESET_GENERATION_CHANGED'' p"
  have pid: "pp_id p = pid" using get_proposal_id [OF p(1)] by simp
  obtain db1 x where i: "invalidate w reg pid ''RESET_GENERATION_CHANGED'' db = (db1, x)" by fastforce
  show ?thesis
  proof (cases x)
    case (Inl e)
    with run p pid i show ?thesis by (auto simp: reset_changed_def TERMINAL_STATUSES_def bindS_def on_working_def)
  next
    case (Inr q)
    have "bindS (record_stage w reg ?q (status_text (pp_status ?q))) (\<lambda>_. ret ?q) (put_proposal ?q db) = (db1, Inr q)"
      using i Inr p by (simp add: invalidate_def Let_def bindS_def [of "get_locked pid"] TERMINAL_STATUSES_def record_disposition_def)
    from record_then_ret [OF this] have "updates db ?q db1" by simp
    with run p pid i Inr show ?thesis
      by (auto simp: reset_changed_def TERMINAL_STATUSES_def bindS_def on_working_def commit_session_def stop_def)
  qed
qed

lemma decide_body_open:
  assumes p: "get_proposal pid db = Some p" "pp_status p = PROPOSED"
    and run: "decide_body w reg pid decision identity c (fresh_session db) = (ss', r)"
  obtains (kept) e where "r = Inl e" "ss_committed ss' = db"
  | (reset) e where "r = Inl e" "tm_reset_generation (pp_terms p) \<noteq> rt_reset_generation c"
      "updates db (invalidated_row (pw_now w) ''RESET_GENERATION_CHANGED'' p) (ss_committed ss')"
  | (decided) d v where "read_decision decision = Some d" "authorized w reg db p identity c v"
      "tm_reset_generation (pp_terms p) = rt_reset_generation c"
      "updates db (decided_row (pw_now w) v d p) (ss_committed ss')" "r = decision_view reg d False (decided_row (pw_now w) v d p)"
proof (cases "read_decision decision")
  case None
  with run kept show thesis by (auto simp: decide_body_def stop_def)
next
  case (Some d)
  have pid: "pp_id p = pid" using get_proposal_id [OF p(1)] by simp
  from run [unfolded decide_body_def Some option.case] show thesis
  proof (cases rule: scoped_cases)
    case (failed e)
    with kept show thesis by simp
  next
    case (scoped cid p0)
    then have p0: "p0 = p" using p(1) by simp
    from scoped(4) [unfolded p0] show thesis
    proof (cases rule: on_working_cases)
      case (stopped e)
      with kept show thesis by simp
    next
      case (went v db0)
      then have ev: "evidence_for reg p c v" and run: "decide_attested w reg d c p v (fresh_session db) = (ss', r)"
        by (auto simp: validate_decision_evidence_Inr evidence_for_def)
      show thesis
      proof (cases "tm_reset_generation (pp_terms p) = rt_reset_generation c")
        case False
        with run have "reset_changed w reg p (fresh_session db) = (ss', r)" by (simp add: decide_attested_def)
        with reset_changed_open [OF p] kept reset False show thesis by blast
      next
        case True
        with run p(2) pid have "bindS (on_working (mark_presented w reg pid (ve_presentation_turn_id v)))
            (decide_presented w reg d v) (fresh_session db) = (ss', r)" by (simp add: decide_attested_def)
        then show thesis
        proof (cases rule: on_working_cases)
          case (stopped e)
          with kept show thesis by simp
        next
          case (went p1 db1)
          have w1: "mark_presented w reg pid (ve_presentation_turn_id v) db = (db1, Inr p1)" using went(1) by simp
          note m = mark_presented_fresh [OF p w1]
          then have p1: "p1 = presented_row (pw_now w) (ve_presentation_turn_id v) p" "\<not> overdue (pw_now w) p" "updates db p1 db1"
            by blast+
          have g1: "get_proposal pid db1 = Some p1" using get_updates [OF p1(3)] p(1) p1(1) pid by simp
          have o: "\<not> overdue (pw_now w) p1" using p1 by simp
          from went(2) have run: "decide_presented w reg d v p1 \<lparr>ss_committed = db, ss_working = db1\<rparr> = (ss', r)" by simp
          show thesis
          proof (cases "ve_decision_turn_id v = tm_originating_customer_turn_id (pp_terms p)")
            case same: True
            with run p1(1) have "(\<exists>e. r = Inl e) \<and> ss_committed ss' = db"
              by (auto simp: decide_presented_def stop_def split: if_splits)
            with kept show thesis by blast
          next
            case later: False
            with scoped(1,3) p0 ev p1(2) have auth: "authorized w reg db p identity c v"
              by (auto simp: authorized_def in_scope_context)
            have run: "(case on_working (apply_decision w reg p1 v d) \<lparr>ss_committed = db, ss_working = db1\<rparr> of
                (ss', Inl e) \<Rightarrow> (ss', Inl e) | (ss', Inr q) \<Rightarrow> (commit_session ss', decision_view reg d False q)) = (ss', r)"
              using run later p1(1) by (simp add: decide_presented_def presented_row_def)
            obtain db2 a where ad: "apply_decision w reg p1 v d db1 = (db2, a)" by fastforce
            show thesis
            proof (cases a)
              case (Inl e)
              with run ad kept show thesis by (auto simp: on_working_def)
            next
              case (Inr q)
              with ad have ad: "apply_decision w reg p1 v d db1 = (db2, Inr q)" by simp
              from apply_decision_presented [OF g1 p1(1) o ad] have q: "q = decided_row (pw_now w) v d p" "updates db1 q db2" by blast+
              have "updates db q db2" using updates_trans [OF p1(3) q(2)] p1(1) q(1) by simp
              with decided [OF Some auth True] run ad q(1) show thesis by (auto simp: on_working_def commit_session_def)
            qed
          qed
        qed
      qed
    qed
  qed
qed

lemma decide_body_closed:
  assumes p: "get_proposal pid db = Some p" "pp_status p \<in> set TERMINAL_STATUSES"
    and run: "decide_body w reg pid decision identity c (fresh_session db) = (ss', r)"
  shows "ss_committed ss' = db \<and> (\<forall>y. r = Inr y \<longrightarrow> (\<exists>d. read_decision decision = Some d
     \<and> pp_status p = decision_status d \<and> pp_invalidation_reason p = Some (decision_reason d) \<and> decision_view reg d True p = Inr y))"
proof (cases "read_decision decision")
  case None
  with run show ?thesis by (auto simp: decide_body_def stop_def)
next
  case (Some d)
  have pid: "pp_id p = pid" using get_proposal_id [OF p(1)] by simp
  from run [unfolded decide_body_def Some option.case] show ?thesis
  proof (cases rule: scoped_cases)
    case (failed e)
    then show ?thesis by simp
  next
    case (scoped cid p0)
    then have p0: "p0 = p" using p(1) by simp
    from scoped(4) [unfolded p0] show ?thesis
    proof (cases rule: on_working_cases)
      case (stopped e)
      then show ?thesis by simp
    next
      case (went v db0)
      then have run: "decide_attested w reg d c p v (fresh_session db) = (ss', r)" by (auto simp: validate_decision_evidence_Inr)
      show ?thesis
      proof (cases "tm_reset_generation (pp_terms p) = rt_reset_generation c")
        case False
        with run p show ?thesis by (auto simp: decide_attested_def reset_changed_def stop_def)
      next
        case True
        have "pp_status p \<noteq> PROPOSED" using p(2) by (auto simp: TERMINAL_STATUSES_def)
        with run True have run: "decide_presented w reg d v p (fresh_session db) = (ss', r)"
          by (simp add: decide_attested_def bindS_def on_working_def ret_def)
        show ?thesis
        proof (cases "pp_status p \<in> {proposal_status.DECLINED, INVALIDATED}")
          case True
          with run Some show ?thesis by (auto simp: decide_presented_def stop_def lift_step_def split: if_splits)
        next
          case False
          have "\<exists>e. snd (apply_decision w reg p v d db) = Inl e" using apply_decision_closed [OF p False] .
          with run False show ?thesis
            by (auto simp: decide_presented_def stop_def on_working_def split: if_splits prod.splits)
        qed
      qed
    qed
  qed
qed

lemma decide_body_missing:
  assumes "get_proposal pid db = None" "decide_body w reg pid decision identity c (fresh_session db) = (ss', r)"
  shows "ss_committed ss' = db \<and> (\<exists>e. r = Inl e)"
proof (cases "read_decision decision")
  case None
  with assms(2) show ?thesis by (auto simp: decide_body_def stop_def)
next
  case (Some d)
  from assms(2) [unfolded decide_body_def Some option.case] show ?thesis
    by (cases rule: scoped_cases) (use assms(1) in auto)
qed

lemma closed_decided:
  assumes u: "untouched p" and a: "authorized w reg db p identity c v"
  shows "closed_ok (decided_row (pw_now w) v d p)"
  using assms evidence_turns [of reg p c v]
  by (cases d) (auto simp: closed_ok_def decided_row_def declined_row_def invalidated_row_def decided_later_def presented_row_def
      untouched_def authorized_def Let_def)

lemma decide_body_life:
  assumes r: "rest (pd_proposals db)" and run: "decide_body w reg pid decision identity c (fresh_session db) = (ss', x)"
  shows "life_cycles (pd_proposals db) (pd_proposals (ss_committed ss'))"
proof (cases "get_proposal pid db")
  case None
  with decide_body_missing [OF None run] show ?thesis by simp
next
  case (Some p)
  then have m: "p \<in> set (pd_proposals db)" using get_proposal_id by blast
  from rest_row [OF r m] show ?thesis
  proof
    assume "closed_ok p"
    from decide_body_closed [OF Some closed_ok_terminal [OF this] run] show ?thesis by simp
  next
    assume u: "untouched p"
    then have st: "pp_status p = PROPOSED" by (simp add: untouched_def)
    from Some st run show ?thesis
    proof (cases rule: decide_body_open)
      case (kept e)
      then show ?thesis by simp
    next
      case (reset e)
      have "closed_ok (invalidated_row (pw_now w) ''RESET_GENERATION_CHANGED'' p)"
        using closed_invalidated u by (simp add: untouched_def)
      from rest_updates [OF r m u this reset(3)] show ?thesis by simp
    next
      case (decided d v)
      from rest_updates [OF r m u closed_decided [OF u decided(2)] decided(4)] show ?thesis by simp
    qed
  qed
qed

section \<open>Preparation requests\<close>

text \<open>An overdue proposal of the session expires; what stays active stops the loop from answering \<open>None\<close>.\<close>

lemma expire_loop_effect:
  assumes "expire_loop w reg ps found db = (db', Inr x)" "distinct (map pp_id ps)" "rest (pd_proposals db)"
    and "\<And>p. p \<in> set ps \<Longrightarrow> p \<in> set (pd_proposals db) \<and> active p"
  shows "life_cycles (pd_proposals db) (pd_proposals db') \<and> audit_only (pd_bank db) (pd_bank db')
    \<and> (x = None \<longrightarrow> found = None \<and> (\<forall>q \<in> set (pd_proposals db'). active q \<longrightarrow> q \<in> set (pd_proposals db) \<and> q \<notin> set ps))"
  using assms
proof (induction ps arbitrary: found db)
  case Nil
  then show ?case by (auto simp: ret_def)
next
  case (Cons p ps)
  show ?case
  proof (cases "pp_status p \<noteq> COMMITTING \<and> overdue (pw_now w) p")
    case False
    with Cons.prems(1) have "expire_loop w reg ps (case found of None \<Rightarrow> Some p | Some q \<Rightarrow> Some q) db = (db', Inr x)" by auto
    from Cons.IH [OF this] Cons.prems(2-4) show ?thesis by (auto split: option.splits)
  next
    case True
    let ?e = "expired_row (pw_now w) p"
    from True Cons.prems(1) obtain db1 u where d: "record_disposition w reg ?e (put_proposal ?e db) = (db1, Inr u)"
        and l: "expire_loop w reg ps found db1 = (db', Inr x)" by (auto elim: bindS_E)
    have u: "updates db ?e db1" using put_then_dispose [OF d] .
    have m: "p \<in> set (pd_proposals db)" "active p" using Cons.prems(4) [of p] by simp_all
    have o: "untouched p" using rest_row [OF Cons.prems(3) m(1)] closed_ok_terminal [of p] m(2) by (auto simp: terminal_not_active)
    have ce: "closed_ok ?e" using closed_expired [OF o] True by simp
    have l1: "life_cycles (pd_proposals db) (pd_proposals db1)"
      using rest_updates [OF Cons.prems(3) m(1) o ce u] by simp
    have r1: "rest (pd_proposals db1)" using life_cycles_rest [OF l1 Cons.prems(3)] .
    have a1: "q \<in> set (pd_proposals db) \<and> pp_id q \<noteq> pp_id p" if "q \<in> set (pd_proposals db1)" "active q" for q
    proof -
      have "\<not> active ?e" using closed_ok_terminal [OF ce] terminal_not_active by blast
      with that u show ?thesis by (auto simp: updates_def put_row_def split: if_splits)
    qed
    have s1: "q \<in> set (pd_proposals db1) \<and> active q" if "q \<in> set ps" for q
      using that Cons.prems(2,4) u by (force simp: updates_def put_row_def image_iff)
    from Cons.IH [OF l _ r1 s1] Cons.prems(2) have "life_cycles (pd_proposals db1) (pd_proposals db')" "audit_only (pd_bank db1) (pd_bank db')"
      "x = None \<longrightarrow> found = None \<and> (\<forall>q \<in> set (pd_proposals db'). active q \<longrightarrow> q \<in> set (pd_proposals db1) \<and> q \<notin> set ps)" by simp_all
    with l1 u a1 show ?thesis by (auto simp: updates_def intro: audit_only_trans)
  qed
qed

lemma active_rows_mem: "p \<in> set (active_rows cid sid db) \<longleftrightarrow> p \<in> set (pd_proposals db) \<and> in_session cid sid p \<and> active p"
  by (auto simp: active_rows_def by_age_def)

lemma active_rows_distinct: "distinct (map pp_id (pd_proposals db)) \<Longrightarrow> distinct (map pp_id (active_rows cid sid db))"
proof -
  assume d: "distinct (map pp_id (pd_proposals db))"
  have "inj_on pp_id (set (pd_proposals db))" "distinct (pd_proposals db)" using d by (simp_all add: distinct_map)
  then have "inj_on pp_id (set (active_rows cid sid db))" "distinct (active_rows cid sid db)"
    by (auto simp: active_rows_mem inj_on_def) (simp add: active_rows_def by_age_def)
  then show ?thesis by (simp add: distinct_map)
qed

lemma lock_and_find_active_None:
  assumes "lock_and_find_active w reg cid sid db = (db', Inr x)" "rest (pd_proposals db)"
  shows "life_cycles (pd_proposals db) (pd_proposals db') \<and> audit_only (pd_bank db) (pd_bank db')
    \<and> (x = None \<longrightarrow> (\<forall>q \<in> set (pd_proposals db'). active q \<longrightarrow> \<not> in_session cid sid q))"
proof -
  note e = expire_loop_effect [OF assms(1) [unfolded lock_and_find_active_def] active_rows_distinct assms(2)]
  have "distinct (map pp_id (pd_proposals db))" using assms(2) by (simp add: rest_def)
  from e [OF this] show ?thesis by (auto simp: active_rows_mem)
qed

lemma find_idempotent_Some:
  "find_idempotent cid sid t key db = Some p \<Longrightarrow> p \<in> set (pd_proposals db) \<and> in_session cid sid p
     \<and> tm_action_type (pp_terms p) = t \<and> tm_idempotency_key (pp_terms p) = key"
  unfolding find_idempotent_def by (auto dest: find_Some_iff')

text \<open>A new row enters the table only where the unique constraints let it.\<close>

lemma insert_proposal_Inr:
  assumes "insert_proposal p db = Inr db'" "untouched p"
  shows "life_cycle (pd_proposals db) (pd_proposals db') \<and> pd_bank db' = pd_bank db \<and> pd_proposals db' = pd_proposals db @ [p]"
proof -
  have a: "active p" using assms(2) by (simp add: untouched_def active_def ACTIVE_PROPOSAL_STATUSES_def)
  from assms(1) a have n: "\<not> (\<exists>q \<in> set (pd_proposals db). pp_id q = pp_id p)"
      "\<not> (tm_bank_decision_ref (pp_terms p) \<noteq> None \<and> (\<exists>q \<in> set (pd_proposals db). tm_bank_decision_ref (pp_terms q) = tm_bank_decision_ref (pp_terms p)))"
      "\<not> (\<exists>q \<in> set (pd_proposals db). same_scope_key q p)"
      "\<not> (\<exists>q \<in> set (pd_proposals db). active q \<and> in_session (tm_customer_id (pp_terms p)) (tm_support_session_id (pp_terms p)) q)"
      and d: "db' = db\<lparr>pd_proposals := pd_proposals db @ [p]\<rparr>"
    unfolding insert_proposal_def Let_def by (auto split: if_splits)
  have "life_cycle (pd_proposals db) (pd_proposals db @ [p])"
    by (rule life_cycle.offer [OF assms(2)]) (use n in \<open>force+\<close>)
  with d show ?thesis by simp
qed

lemma new_proposal_untouched: "untouched (new_proposal pid now v pinned payload digest t)"
  by (simp add: untouched_def new_proposal_def)

lemma flush_new_effect:
  assumes "flush_new w reg v pinned digest p db = (db', Inr q)" "untouched p"
  shows "life_cycles (pd_proposals db) (pd_proposals db') \<and> audit_only (pd_bank db) (pd_bank db') \<and> q \<in> set (pd_proposals db')"
proof (cases "insert_proposal p db")
  case (Inr db1)
  with assms(1) obtain u where "record_stage w reg p ''PROPOSED'' db1 = (db', Inr u)" "q = p"
    by (auto simp: flush_new_def ret_def elim: bindS_E)
  with record_stage_effect(1,2) [OF this(1)] insert_proposal_Inr [OF Inr assms(2)] show ?thesis by auto
next
  case (Inl e)
  with assms(1) show ?thesis
    by (auto simp: flush_new_def lift_step_def validate_idempotent_replay_def Let_def split: option.splits list.splits if_splits
        dest: find_idempotent_Some)
qed

lemma create_new_effect:
  assumes "create_new w reg v pinned db = (db', Inr p)" "rest (pd_proposals db)"
  shows "life_cycles (pd_proposals db) (pd_proposals db') \<and> audit_only (pd_bank db) (pd_bank db') \<and> p \<in> set (pd_proposals db')"
proof -
  obtain payload digest where cp: "canonical_payload w (nv_action_payload v) = (payload, digest)" by fastforce
  let ?t = "case nv_expires_at v of Some t \<Rightarrow> t | None \<Rightarrow> pw_now w + DEFAULT_PROPOSAL_TTL"
  from assms(1) obtain db1 found where l: "lock_and_find_active w reg (nv_customer_id v) (nv_support_session_id v) db = (db1, Inr found)"
      and k: "(case found of
       Some q \<Rightarrow> (db1, Inl (active_exists ''An active proposal blocks replacement in this session.'' q))
     | None \<Rightarrow>
        (let expires_at = ?t; (payload, digest) = canonical_payload w (nv_action_payload v); (pid, b) = uuid4 (pd_bank db1)
         in if expires_at \<le> pw_now w
            then (db1, Inl (fail ProposalError ''Proposal expiration must be in the future.''))
            else flush_new w reg v pinned digest (new_proposal pid (pw_now w) v pinned payload digest expires_at)
                   (db1\<lparr>pd_bank := b\<rparr>))) = (db', Inr p)"
    unfolding create_new_def by (rule bindS_E)
  obtain pid b where ub: "uuid4 (pd_bank db1) = (pid, b)" by fastforce
  from k ub cp have f: "flush_new w reg v pinned digest (new_proposal pid (pw_now w) v pinned payload digest ?t) (db1\<lparr>pd_bank := b\<rparr>) = (db', Inr p)"
    by (simp add: Let_def split: option.splits if_splits)
  from flush_new_effect [OF f new_proposal_untouched] lock_and_find_active_None [OF l assms(2)] audit_only_uuid4 [OF ub]
  show ?thesis by (auto intro: audit_only_trans)
qed

lemma create_effect:
  assumes "create w reg v db = (db', Inr p)" "rest (pd_proposals db)"
  shows "life_cycles (pd_proposals db) (pd_proposals db') \<and> audit_only (pd_bank db) (pd_bank db') \<and> p \<in> set (pd_proposals db')"
  using assms(1) [unfolded create_def]
proof (rule bindS_E)
  fix db1 s
  assume "lift_step (creation_spec reg v) db = (db1, Inr s)"
    and k: "(let pinned = (sp_definition_id s, sp_definition_revision s, sp_definition_digest s)
     in case find_idempotent (nv_customer_id v) (nv_support_session_id v) (nv_action_type v) (nv_idempotency_key v) db1 of
          Some p \<Rightarrow> lift_step (validate_idempotent_replay p v pinned (snd (canonical_payload w (nv_action_payload v)))) db1
        | None \<Rightarrow> create_new w reg v pinned db1) = (db', Inr p)"
  then have d: "db1 = db" by (simp add: lift_step_def)
  show ?thesis
  proof (cases "find_idempotent (nv_customer_id v) (nv_support_session_id v) (nv_action_type v) (nv_idempotency_key v) db")
    case (Some q)
    with k d show ?thesis
      by (auto simp: lift_step_def Let_def validate_idempotent_replay_def split: if_splits dest: find_idempotent_Some)
  next
    case None
    with k d show ?thesis using create_new_effect assms(2) by (simp add: Let_def)
  qed
qed

text \<open>What a preparation that succeeds leaves behind: a replayed row, or a run of the life cycle that offers one.\<close>

lemma propose_action_effect:
  assumes "propose_action w reg published t cid inputs sp c key until db = (db', Inr p)" "rest (pd_proposals db)"
  shows "life_cycles (pd_proposals db) (pd_proposals db') \<and> audit_only (pd_bank db) (pd_bank db') \<and> p \<in> set (pd_proposals db')
    \<and> (\<forall>q. find_idempotent cid (rt_support_session_id c) t key db = Some q \<longrightarrow> db' = db \<and> p = q)"
proof (cases "find_idempotent cid (rt_support_session_id c) t key db")
  case (Some q)
  with assms(1) show ?thesis
    by (auto simp: propose_action_def Let_def lift_step_def ret_def stop_def split: if_splits elim!: bindS_E dest: find_idempotent_Some)
next
  case None
  from assms(1) None obtain s :: spec and account_id payload0 summary bref where
      k: "create_bound w reg s (creation_values cid s c key until bref account_id
        (dict_put FINGERPRINT_KEY (PStr (fingerprint w (PDict (ah_normalize_business_inputs (sp_handler s) inputs)))) payload0) summary t) db
      = (db', Inr p)"
    by (auto simp: propose_action_def Let_def lift_step_def elim!: bindS_E split: sum.splits prod.splits)
  then have "create w reg (creation_values cid s c key until bref account_id
        (dict_put FINGERPRINT_KEY (PStr (fingerprint w (PDict (ah_normalize_business_inputs (sp_handler s) inputs)))) payload0) summary t) db
      = (db', Inr p)"
    unfolding create_bound_def by (auto split: prod.splits sum.splits failure.splits py_error.splits if_splits)
  from create_effect [OF this assms(2)] None show ?thesis by simp
qed

lemma commit_and_view_effect:
  assumes "commit_and_view reg m ss = (ss', r)"
  shows "(ss_committed ss' = ss_committed ss \<and> (\<exists>e. r = Inl e))
    \<or> (\<exists>p. m (ss_working ss) = (ss_committed ss', Inr p) \<and> r = service_view reg p)"
  using assms by (auto simp: commit_and_view_def on_working_def commit_session_def split: prod.splits sum.splits)

lemma lifted_cases:
  assumes "bindS (lift_step a) f ss = (ss', r)"
  obtains (stopped) e where "r = Inl e" "ss_committed ss' = ss_committed ss" | (went) x where "a = Inr x" "f x ss = (ss', r)"
  using assms by (auto simp: bindS_def lift_step_def split: sum.splits)

definition prepared :: "proposal_db \<Rightarrow> proposal_db \<Rightarrow> bool" where
  "prepared db db' \<longleftrightarrow> life_cycles (pd_proposals db) (pd_proposals db') \<and> audit_only (pd_bank db) (pd_bank db')"

lemma prepared_refl [simp]: "prepared db db"
  by (simp add: prepared_def)

lemma propose_body_prepared:
  assumes "propose_body w reg published t identity c inputs key (fresh_session db) = (ss', r)" "rest (pd_proposals db)"
  shows "prepared db (ss_committed ss')"
  using assms(1) [unfolded propose_body_def]
proof (cases rule: lifted_cases)
  case (stopped e)
  then show ?thesis by simp
next
  case (went u)
  from went(2) show ?thesis
  proof (cases rule: on_working_cases)
    case (stopped e)
    then show ?thesis by simp
  next
    case (went cid db0)
    then have "db0 = db" by (simp add: resolve_step_def)
    with commit_and_view_effect [OF went(2)] propose_action_effect assms(2) show ?thesis
      by (fastforce simp: prepared_def)
  qed
qed

lemma pinned_retry_session:
  assumes "(case found of
      Some p \<Rightarrow> bindS (lift_step (raised (for_proposal reg p))) (\<lambda>pinned.
        if sp_definition_digest pinned \<noteq> digest then stop (fail ProposalError m) else ret ()) ss
    | None \<Rightarrow> lift_step (require_current_publication published s) ss) = (ss', r)"
  shows "ss' = ss"
  using assms by (auto simp: lift_step_def bindS_def ret_def stop_def split: option.splits sum.splits if_splits)

lemma prepare_playbook_body_prepared:
  assumes "prepare_playbook_body w reg published playbook revision digest inputs identity c key (fresh_session db) = (ss', r)"
    and rst: "rest (pd_proposals db)"
  shows "prepared db (ss_committed ss')"
  using assms(1) [unfolded prepare_playbook_body_def]
proof (cases rule: lifted_cases)
  case (stopped e)
  then show ?thesis by simp
next
  case (went u)
  from went(2) show ?thesis
  proof (cases rule: on_working_cases)
    case (stopped e)
    then show ?thesis by simp
  next
    case (went cid db0)
    then have db0: "db0 = db" by (simp add: resolve_step_def)
    from went(2) [unfolded db0] show ?thesis
    proof (cases rule: lifted_cases)
      case (stopped e)
      then show ?thesis by simp
    next
      case (went s)
      from went(2) [unfolded Let_def] show ?thesis
      proof (cases rule: bindS_cases)
        case (stopped e)
        from pinned_retry_session [OF stopped(1)] show ?thesis by simp
      next
        case (went u ss1)
        from pinned_retry_session [OF went(1)] have "ss1 = fresh_session db" by simp
        with went(2) have run: "bindS (lift_step (validate_inputs inputs (ah_public_input_schema (sp_handler s)))) (\<lambda>_.
          bindS (\<lambda>ss. (ss, ah_normalize_public_inputs (sp_handler s) identity inputs (pd_bank (ss_working ss)))) (\<lambda>normalized.
          commit_and_view reg (propose_action w reg published (sp_action_type s) cid normalized (Some s) c key None)))
          (fresh_session db) = (ss', r)" by simp
        from run show ?thesis
        proof (cases rule: lifted_cases)
          case (stopped e)
          then show ?thesis by simp
        next
          case (went u)
          from went(2) show ?thesis
          proof (cases rule: bindS_cases)
            case (stopped e)
            then show ?thesis by auto
          next
            case (went normalized ss2)
            then have "ss2 = fresh_session db" by simp
            with commit_and_view_effect [OF went(2)] propose_action_effect rst show ?thesis
              by (fastforce simp: prepared_def)
          qed
        qed
      qed
    qed
  qed
qed

end
