(* ===== verification/Proposal_Service.thy ===== *)
theory Proposal_Service
  imports Proposal_Requests
begin

text \<open>
  The proposal service as a whole: any sequence of requests, each with a clock, registry and publication of its
  own, between which the banking tables may change in any way.
\<close>

section \<open>Requests\<close>

datatype request =
    Propose string string runtime_context "(string \<times> pyval) list" string
  | ProposeFraudTriage string runtime_context "(string \<times> pyval) list" string
  | PreparePlaybook string int string "(string \<times> pyval) list" string runtime_context string
  | Commit string string runtime_context "string option"
  | CommitFraudTriage string string runtime_context
  | Decide string string string runtime_context

fun request_act ::
    "proposal_world \<Rightarrow> action_handler action_registry \<Rightarrow> publication \<Rightarrow> request \<Rightarrow> (string \<times> pyval) list act" where
  "request_act w reg published (Propose action_type identity c inputs key) =
     propose_for_identity w reg published action_type identity c inputs key"
| "request_act w reg published (ProposeFraudTriage identity c inputs key) =
     propose_fraud_triage_for_identity w reg published identity c inputs key"
| "request_act w reg published (PreparePlaybook playbook revision digest inputs identity c key) =
     prepare_playbook_for_identity w reg published playbook revision digest inputs identity c key"
| "request_act w reg published (Commit pid identity c expected) = commit_for_identity w reg pid identity c expected"
| "request_act w reg published (CommitFraudTriage pid identity c) = commit_fraud_triage_for_identity w reg pid identity c"
| "request_act w reg published (Decide pid decision identity c) = decide_for_identity w reg pid decision identity c"

definition perform ::
    "proposal_world \<Rightarrow> action_handler action_registry \<Rightarrow> publication \<Rightarrow> request \<Rightarrow> proposal_db \<Rightarrow> proposal_db \<times> (string \<times> pyval) list attempt" where
  "perform w reg published req = run_request (request_act w reg published req)"

inductive reachable :: "proposal_db \<Rightarrow> bool" where
  no_proposals: "pd_proposals db = [] \<Longrightarrow> reachable db"
| banking: "reachable db \<Longrightarrow> reachable (db\<lparr>pd_bank := b\<rparr>)"
| request: "reachable db \<Longrightarrow> perform w reg published req db = (db', r) \<Longrightarrow> reachable db'"

lemma perform_session:
  "perform w reg published req db = (db', r) \<longleftrightarrow>
   (\<exists>ss. request_act w reg published req (fresh_session db) = (ss, r) \<and> ss_committed ss = db')"
  by (auto simp: perform_def run_request_def split: prod.splits)

text \<open>The commit behind a request: proposal, identity, context and expected action type.\<close>

fun commit_of :: "request \<Rightarrow> (string \<times> string \<times> runtime_context \<times> string option) option" where
  "commit_of (Commit pid identity c expected) = Some (pid, identity, c, expected)"
| "commit_of (CommitFraudTriage pid identity c) = Some (pid, identity, c, Some ''TRIAGE_FRAUD_CASE'')"
| "commit_of _ = None"

section \<open>What the request frame keeps\<close>

definition runs_life :: "'a act \<Rightarrow> bool" where
  "runs_life body \<longleftrightarrow> (\<forall>db ss x. rest (pd_proposals db) \<longrightarrow> body (fresh_session db) = (ss, x) \<longrightarrow>
     life_cycles (pd_proposals db) (pd_proposals (ss_committed ss)))"

definition refusals_audited :: "'a act \<Rightarrow> bool" where
  "refusals_audited body \<longleftrightarrow> (\<forall>db ss e. rest (pd_proposals db) \<longrightarrow> body (fresh_session db) = (ss, Inl e) \<longrightarrow>
     audit_only (pd_bank db) (pd_bank (ss_committed ss)))"

definition answers_audited :: "'a act \<Rightarrow> bool" where
  "answers_audited body \<longleftrightarrow> (\<forall>db ss y. rest (pd_proposals db) \<longrightarrow> body (fresh_session db) = (ss, Inr y) \<longrightarrow>
     audit_only (pd_bank db) (pd_bank (ss_committed ss)))"

lemma runs_life_audited: "runs_life body \<Longrightarrow> runs_life (audited_request w reg identity c operation request body)"
  unfolding runs_life_def by (blast intro: audited_life)

text \<open>A request that is refused leaves audit rows and at most one notice in the banking tables.\<close>

lemma audited_cases:
  assumes "audited_request w reg identity c operation request body (fresh_session db) = (ss', y)"
    and "refusals_audited body" "rest (pd_proposals db)"
  obtains (answered) z where "y = Inr z" "body (fresh_session db) = (ss', Inr z)"
  | (refused) e where "y = Inl e" "noted (pd_bank db) (pd_bank (ss_committed ss'))"
proof -
  obtain ss1 x where body: "body (fresh_session db) = (ss1, x)" by fastforce
  show thesis
  proof (cases x)
    case (Inr v)
    with assms(1) body answered show thesis by (auto simp: audited_request_def)
  next
    case (Inl e)
    let ?mid = "ss_committed ss1"
    obtain db2 z where rej: "record_request_rejection w reg identity c operation e request ?mid = (db2, z)" by fastforce
    have "noted (pd_bank ?mid) (pd_bank db2)" using rej by (cases rule: record_request_rejection_effect) simp_all
    moreover have "audit_only (pd_bank db) (pd_bank ?mid)"
      using assms(2,3) body unfolding Inl refusals_audited_def by blast
    ultimately have "noted (pd_bank db) (pd_bank db2)" "noted (pd_bank db) (pd_bank ?mid)"
      using noted_audit audit_noted by blast+
    with assms(1) body Inl rej refused show thesis
      by (auto simp: audited_request_def rollback_session_def on_working_def commit_session_def Let_def split: if_splits sum.splits)
  qed
qed

section \<open>The bodies of the requests\<close>

lemma propose_life: "runs_life (propose_body w reg published t identity c inputs key)"
  and propose_audits: "refusals_audited (propose_body w reg published t identity c inputs key)"
    "answers_audited (propose_body w reg published t identity c inputs key)"
  using propose_body_prepared [of w reg published t identity c inputs key]
  unfolding runs_life_def refusals_audited_def answers_audited_def prepared_def by blast+

lemma prepare_life: "runs_life (prepare_playbook_body w reg published playbook revision digest inputs identity c key)"
  and prepare_audits: "refusals_audited (prepare_playbook_body w reg published playbook revision digest inputs identity c key)"
    "answers_audited (prepare_playbook_body w reg published playbook revision digest inputs identity c key)"
  using prepare_playbook_body_prepared [of w reg published playbook revision digest inputs identity c key]
  unfolding runs_life_def refusals_audited_def answers_audited_def prepared_def by blast+

lemma commit_life: "runs_life (commit_body w reg pid identity c expected)"
  unfolding runs_life_def by (blast intro: commit_body_life)

lemma decide_life: "runs_life (decide_body w reg pid decision identity c)"
  unfolding runs_life_def by (blast intro: decide_body_life)

lemma decide_body_audits:
  assumes "decide_body w reg pid decision identity c (fresh_session db) = (ss, x)" "rest (pd_proposals db)"
  shows "audit_only (pd_bank db) (pd_bank (ss_committed ss))"
proof (cases "get_proposal pid db")
  case None
  with decide_body_missing [OF None assms(1)] show ?thesis by simp
next
  case (Some p)
  show ?thesis
  proof (cases "closed_ok p")
    case True
    from decide_body_closed [OF Some closed_ok_terminal [OF True] assms(1)] show ?thesis by simp
  next
    case False
    with rest_row [OF assms(2)] get_proposal_id [OF Some] have "pp_status p = PROPOSED" by (auto simp: untouched_def)
    from Some this assms(1) show ?thesis by (cases rule: decide_body_open) (simp_all add: updates_def)
  qed
qed

lemma decide_audits: "refusals_audited (decide_body w reg pid decision identity c)"
    "answers_audited (decide_body w reg pid decision identity c)"
  unfolding refusals_audited_def answers_audited_def by (blast intro: decide_body_audits)+

lemma commit_audits: "refusals_audited (commit_body w reg pid identity c expected)"
  unfolding refusals_audited_def
proof (intro allI impI)
  fix db ss e
  assume r: "rest (pd_proposals db)" and run: "commit_body w reg pid identity c expected (fresh_session db) = (ss, Inl e)"
  show "audit_only (pd_bank db) (pd_bank (ss_committed ss))"
  proof (cases "get_proposal pid db")
    case None
    with commit_body_missing [OF None run] show ?thesis by simp
  next
    case (Some p)
    show ?thesis
    proof (cases "closed_ok p")
      case True
      from commit_body_closed [OF Some closed_ok_terminal [OF True] run] show ?thesis by simp
    next
      case False
      with rest_row [OF r] get_proposal_id [OF Some] have "pp_status p = PROPOSED" by (auto simp: untouched_def)
      from Some this run show ?thesis by (cases rule: commit_body_open) (simp_all add: updates_def)
    qed
  qed
qed

section \<open>Every request runs the life cycle\<close>

lemma request_life: "runs_life (request_act w reg published req)"
  by (cases req) (simp_all add: propose_for_identity_def propose_fraud_triage_for_identity_def prepare_playbook_for_identity_def
      commit_for_identity_def commit_fraud_triage_for_identity_def decide_for_identity_def runs_life_audited propose_life
      prepare_life commit_life decide_life)

lemma perform_life:
  "rest (pd_proposals db) \<Longrightarrow> perform w reg published req db = (db', r) \<Longrightarrow> life_cycles (pd_proposals db) (pd_proposals db')"
  using request_life unfolding runs_life_def perform_session by blast

lemma reachable_rest: "reachable db \<Longrightarrow> rest (pd_proposals db)"
proof (induction rule: reachable.induct)
  case (no_proposals db)
  then show ?case by (simp add: rest_def)
next
  case (banking db b)
  then show ?case by simp
next
  case (request db w reg published req db' r)
  then show ?case using perform_life life_cycles_rest by blast
qed

lemma reachable_life: "reachable db \<Longrightarrow> life_cycles (pd_proposals db) (pd_proposals (fst (perform w reg published req db)))"
  using perform_life [OF reachable_rest] by (metis prod.collapse)

lemma get_rest: "rest (pd_proposals db) \<Longrightarrow> get_proposal pid db = Some p \<Longrightarrow> untouched p \<or> closed_ok p"
  using rest_row get_proposal_id by blast

text \<open>A closed proposal is never changed again.\<close>

lemma closed_stays:
  assumes "reachable db" "get_proposal pid db = Some p" "pp_status p \<in> set TERMINAL_STATUSES"
  shows "get_proposal pid (fst (perform w reg published req db)) = Some p"
proof -
  let ?db = "fst (perform w reg published req db)"
  note l = reachable_life [OF assms(1), of w reg published req]
  have m: "p \<in> set (pd_proposals db)" "pp_id p = pid" using get_proposal_id [OF assms(2)] by simp_all
  have "pp_status p \<noteq> PROPOSED" using assms(3) by (auto simp: TERMINAL_STATUSES_def)
  with life_cycles_row [OF l reachable_rest [OF assms(1)] m(1)] have "p \<in> set (pd_proposals ?db)" by blast
  from rest_get [OF life_cycles_rest [OF l reachable_rest [OF assms(1)]] this] m(2) show ?thesis by simp
qed

section \<open>Only a decided commit reaches the banking tables\<close>

lemma perform_bank:
  assumes r: "rest (pd_proposals db)" and run: "perform w reg published req db = (db', x)"
  obtains (noted) "noted (pd_bank db) (pd_bank db')"
  | (commit) pid identity c expected y ss where "commit_of req = Some (pid, identity, c, expected)" "x = Inr y"
      "commit_body w reg pid identity c expected (fresh_session db) = (ss, Inr y)" "ss_committed ss = db'"
proof -
  from run obtain ss where ss: "request_act w reg published req (fresh_session db) = (ss, x)" "ss_committed ss = db'"
    by (auto simp: perform_session)
  have a: "noted (pd_bank db) (pd_bank db')" if "audited_request w reg i c op rq body (fresh_session db) = (ss, x)"
    "refusals_audited body" "answers_audited body" for i c op rq and body :: "(string \<times> pyval) list act"
    using that(1,2) r
  proof (cases rule: audited_cases)
    case (answered z)
    with that(3) r ss(2) show ?thesis unfolding answers_audited_def by (blast intro: audit_noted)
  next
    case (refused e)
    with ss(2) show ?thesis by simp
  qed
  have k: thesis if "audited_request w reg identity c op rq (commit_body w reg pid identity c expected) (fresh_session db) = (ss, x)"
    "commit_of req = Some (pid, identity, c, expected)" for pid identity c expected op rq
    using that(1) commit_audits r
  proof (cases rule: audited_cases)
    case (answered z)
    with commit that(2) ss(2) show thesis by blast
  next
    case (refused e)
    with noted ss(2) show thesis by simp
  qed
  show thesis
  proof (cases req)
    case (Propose t identity c inputs key)
    from a [OF ss(1) [unfolded Propose request_act.simps propose_for_identity_def] propose_audits] noted show thesis by blast
  next
    case (ProposeFraudTriage identity c inputs key)
    from a [OF ss(1) [unfolded ProposeFraudTriage request_act.simps propose_fraud_triage_for_identity_def] propose_audits] noted show thesis by blast
  next
    case (PreparePlaybook playbook revision digest inputs identity c key)
    from a [OF ss(1) [unfolded PreparePlaybook request_act.simps prepare_playbook_for_identity_def] prepare_audits] noted show thesis by blast
  next
    case (Commit pid identity c expected)
    with ss(1) k show thesis by (simp add: commit_for_identity_def)
  next
    case (CommitFraudTriage pid identity c)
    with ss(1) k show thesis by (simp add: commit_fraud_triage_for_identity_def)
  next
    case (Decide pid decision identity c)
    from a [OF ss(1) [unfolded Decide request_act.simps decide_for_identity_def] decide_audits] noted show thesis by blast
  qed
qed

section \<open>Commits\<close>

text \<open>A first commit: the proposal stood open, the decision was authorized, and its handler ran to a valid result.\<close>

definition first_commit ::
    "proposal_world \<Rightarrow> action_handler action_registry \<Rightarrow> string \<Rightarrow> string \<Rightarrow> runtime_context \<Rightarrow> proposal_db
     \<Rightarrow> (string \<times> pyval) list \<Rightarrow> proposal_db \<Rightarrow> bool" where
  "first_commit w reg pid identity c db y db' \<longleftrightarrow> (\<exists>p v s outcome db1.
     get_proposal pid db = Some p \<and> pp_status p = PROPOSED \<and> authorized w reg db p identity c v
     \<and> tm_reset_generation (pp_terms p) = rt_reset_generation c \<and> for_proposal reg p = Inr s
     \<and> updates db (claimed_row (pw_now w) v p) db1
     \<and> executed w s (claimed_row (pw_now w) v p) db1 outcome db'
     \<and> y = proposal_result (committed_row (pw_now w) (canonical_object outcome) (claimed_row (pw_now w) v p)) False)"

lemma commit_answer:
  assumes r: "rest (pd_proposals db)" and run: "commit_body w reg pid identity c expected (fresh_session db) = (ss, Inr y)"
  obtains (replayed) p where "get_proposal pid db = Some p" "pp_status p = COMMITTED" "ss_committed ss = db" "y = proposal_result p True"
  | (first) "first_commit w reg pid identity c db y (ss_committed ss)"
proof (cases "get_proposal pid db")
  case None
  with commit_body_missing [OF None run] show thesis by simp
next
  case (Some p)
  from get_rest [OF r Some] show thesis
  proof
    assume "closed_ok p"
    from commit_body_closed [OF Some closed_ok_terminal [OF this] run] replayed Some show thesis by simp
  next
    assume "untouched p"
    then have st: "pp_status p = PROPOSED" by (simp add: untouched_def)
    from Some st run show thesis
    proof (cases rule: commit_body_open)
      case (ok v s outcome db1)
      with Some st first show thesis unfolding first_commit_def by blast
    qed simp_all
  qed
qed

lemma perform_commit:
  assumes "perform w reg published req db = (db', Inr y)" "commit_of req = Some (pid, identity, c, expected)"
  obtains ss where "commit_body w reg pid identity c expected (fresh_session db) = (ss, Inr y)" "ss_committed ss = db'"
proof -
  from assms obtain rq ss where "audited_request w reg identity c ''COMMIT'' rq (commit_body w reg pid identity c expected) (fresh_session db)
      = (ss, Inr y)" "ss_committed ss = db'"
    by (cases req) (auto simp: perform_session commit_for_identity_def commit_fraud_triage_for_identity_def)
  with that show thesis
    by (auto simp: audited_request_def Let_def split: prod.splits sum.splits if_splits)
qed

lemma replay_flag [simp]: "map_of (proposal_result p b) ''idempotent_replay'' = Some (PBool b)"
  by (simp add: proposal_result_def dict_update_def)

lemma first_commit_closes:
  assumes "first_commit w reg pid identity c db y db'"
  shows "\<exists>p. get_proposal pid db' = Some p \<and> pp_status p = COMMITTED \<and> y = proposal_result p False"
proof -
  from assms obtain p v s outcome db1 where f: "get_proposal pid db = Some p" "updates db (claimed_row (pw_now w) v p) db1"
     "executed w s (claimed_row (pw_now w) v p) db1 outcome db'"
     "y = proposal_result (committed_row (pw_now w) (canonical_object outcome) (claimed_row (pw_now w) v p)) False"
    unfolding first_commit_def by blast
  let ?q = "committed_row (pw_now w) (canonical_object outcome) (claimed_row (pw_now w) v p)"
  have pid: "pp_id p = pid" "pp_id ?q = pid" using get_proposal_id [OF f(1)] by simp_all
  have "pd_proposals db' = put_row pp_id ?q (pd_proposals db)"
    using f(2,3) by (auto simp: updates_def executed_def put_row_put_row)
  then have "get_proposal pid db' = Some ?q"
    using pid get_proposal_id [OF f(1)] find_put_row_same [where key = pp_id and r = ?q and rs = "pd_proposals db"]
    by (auto simp: get_proposal_def image_iff)
  with f(4) show ?thesis by auto
qed

lemma commit_body_checks:
  assumes "commit_body w reg pid identity c expected (fresh_session db) = (ss, Inr y)"
  obtains cid p v where "resolve_customer_id identity (pd_bank db) = Inr cid" "get_proposal pid db = Some p"
    "in_scope p (context_scope cid c) (the (str_or expected (Some (tm_action_type (pp_terms p)))))" "evidence_for reg p c v"
proof -
  note that' = that
  from assms show thesis
  proof (rule commit_body_failed)
    fix cid p
    assume k: "resolve_customer_id identity (pd_bank db) = Inr cid" "get_proposal pid db = Some p"
      "in_scope p (context_scope cid c) (the (str_or expected (Some (tm_action_type (pp_terms p)))))"
    assume "bindS (on_working (attest_decision w reg p c)) (\<lambda>_. execute_registered_commit w reg pid (context_scope cid c)
        (the (str_or expected (Some (tm_action_type (pp_terms p)))))) (fresh_session db) = (ss, Inr y)"
    then obtain db1 v where "attest_decision w reg p c db = (db1, Inr v)" by (auto elim!: bindS_E simp: on_working_Inr)
    then obtain db2 v2 where "validate_decision_evidence reg p c db = (db2, Inr v2)"
      unfolding attest_decision_def by (auto elim: bindS_E)
    then have "evidence_for reg p c v2" by (auto simp: validate_decision_evidence_Inr evidence_for_def)
    with that' k show thesis by blast
  qed simp
qed

text \<open>A committed proposal answers its authenticated owner with the recorded result, at any later time.\<close>

lemma commit_body_replay:
  assumes p: "get_proposal pid db = Some p" "pp_status p = COMMITTED"
    and ok: "resolve_customer_id identity (pd_bank db) = Inr cid"
      "in_scope p (context_scope cid c) (the (str_or expected (Some (tm_action_type (pp_terms p)))))" "evidence_for reg p c v"
  shows "commit_body w reg pid identity c expected (fresh_session db) = (fresh_session db, Inr (proposal_result p True))"
proof -
  let ?t = "the (str_or expected (Some (tm_action_type (pp_terms p))))"
  from ok(3) obtain s where s: "for_proposal reg p = Inr s"
      "validate_evidence c (sp_authorization_policy s) (Some (sp_presentation_requirement s)) None = Inr v"
    unfolding evidence_for_def by blast
  have att: "attest_decision w reg p c db = (db, Inr v)"
    using s p(2) by (simp add: attest_decision_def bindS_def validate_decision_evidence_def lift_step_def ret_def)
  have claim: "claim_commit w reg pid (context_scope cid c) ?t db = (db, Inr (p, False))"
    using p ok(2) by (simp add: claim_commit_def bindS_def validate_scope_ok ret_def)
  have "execute_registered_commit w reg pid (context_scope cid c) ?t (fresh_session db)
      = (fresh_session db, Inr (proposal_result p True))"
    using claim p by (simp add: execute_registered_unfold [of pid "fresh_session db" p, OF _ s(1)] on_working_def)
  with att p ok(1,2) show ?thesis
    by (simp add: commit_body_def bindS_def on_working_def resolve_step_def validate_scope_ok Let_def)
qed

section \<open>Histories\<close>

type_synonym answer = "(string \<times> pyval) list attempt"

inductive requests :: "proposal_db \<Rightarrow> (request \<times> answer) list \<Rightarrow> proposal_db \<Rightarrow> bool" where
  no_more: "requests db [] db"
| meanwhile: "requests (db\<lparr>pd_bank := b\<rparr>) h db' \<Longrightarrow> requests db h db'"
| next_request: "perform w reg published req db = (db1, r) \<Longrightarrow> requests db1 h db' \<Longrightarrow> requests db ((req, r) # h) db'"

fun first_execution :: "string \<Rightarrow> request \<times> answer \<Rightarrow> bool" where
  "first_execution pid (req, Inr y) =
     (map_option fst (commit_of req) = Some pid \<and> map_of y ''idempotent_replay'' = Some (PBool False))"
| "first_execution pid (req, Inl e) = False"

lemma first_execution_closes:
  assumes "reachable db" "perform w reg published req db = (db', r)" "first_execution pid (req, r)"
  shows "(\<exists>p. get_proposal pid db' = Some p \<and> pp_status p = COMMITTED)
    \<and> (\<forall>p. get_proposal pid db = Some p \<longrightarrow> pp_status p \<notin> set TERMINAL_STATUSES)"
proof -
  from assms(3) obtain y where r: "r = Inr y" "map_option fst (commit_of req) = Some pid" "map_of y ''idempotent_replay'' = Some (PBool False)"
    by (cases r) auto
  then obtain identity c expected where co: "commit_of req = Some (pid, identity, c, expected)" by (auto simp: map_option_eq_Some)
  from perform_commit [OF assms(2) [unfolded r(1)] co] obtain ss
    where b: "commit_body w reg pid identity c expected (fresh_session db) = (ss, Inr y)" "ss_committed ss = db'" by blast
  from reachable_rest [OF assms(1)] b(1) show ?thesis
  proof (cases rule: commit_answer)
    case (replayed p)
    with r(3) show ?thesis by simp
  next
    case first
    with first_commit_closes b(2) show ?thesis
      by (fastforce simp: first_commit_def TERMINAL_STATUSES_def)
  qed
qed

lemma closed_no_execution:
  assumes "requests db h db'" "reachable db" "get_proposal pid db = Some p" "pp_status p \<in> set TERMINAL_STATUSES"
  shows "filter (first_execution pid) h = []"
  using assms
proof (induction arbitrary: p rule: requests.induct)
  case (no_more db)
  then show ?case by simp
next
  case (meanwhile db b h db')
  then show ?case using reachable.banking [OF meanwhile.prems(1)] by simp
next
  case (next_request w reg published req db db1 r h db')
  have "\<not> first_execution pid (req, r)"
    using first_execution_closes [OF next_request.prems(1) next_request.hyps(1)] next_request.prems(2,3) by blast
  moreover have "get_proposal pid db1 = Some p"
    using closed_stays [OF next_request.prems] next_request.hyps(1) by (metis fst_conv)
  ultimately show ?case
    using next_request.IH [OF reachable.request [OF next_request.prems(1) next_request.hyps(1)]] next_request.prems(3) by simp
qed

section \<open>Properties\<close>

text \<open>C14. Whatever the registry, its handlers, the clock and the published playbooks are, and however the banking tables
  changed in between, every request of the proposal service is a run of the abstract machine: proposals are only
  offered, unbound and alone in their session, or closed, from the open status and with what the closing status
  requires (a later decision and a result for a commit, an overdue offer for an expiry).\<close>

theorem requests_refine_life_cycle:
  assumes "reachable db"
  shows "life_cycles (pd_proposals db) (pd_proposals (fst (perform w reg published req db)))"
  using assms by (rule reachable_life)

text \<open>C15. Between requests no proposal is presented, confirmed or committing: each is untouched or closed, ids are
  unique, a session has at most one open proposal, a bank decision backs at most one proposal, and an idempotency
  key of a session and action type belongs to at most one.\<close>

theorem proposals_settle:
  assumes "reachable db"
  shows "distinct (map pp_id (pd_proposals db))
    \<and> (\<forall>p \<in> set (pd_proposals db). untouched p \<or> closed_ok p)
    \<and> (\<forall>p \<in> set (pd_proposals db). \<forall>q \<in> set (pd_proposals db). active p \<longrightarrow> active q \<longrightarrow>
        in_session (tm_customer_id (pp_terms p)) (tm_support_session_id (pp_terms p)) q \<longrightarrow> p = q)
    \<and> (\<forall>p \<in> set (pd_proposals db). \<forall>q \<in> set (pd_proposals db). pp_id p \<noteq> pp_id q \<longrightarrow>
        \<not> same_scope_key p q \<and> \<not> same_decision p q)"
  using reachable_rest [OF assms] unfolding rest_def by blast

text \<open>C12. A request changes the banking tables beyond audit rows and one notice only if it is a commit of an open,
  unexpired proposal of the caller's own session and reset generation, with protected evidence of a later decision
  on it under its registered policy, whose preconditions still hold; then the handler ran once and its valid result
  is the answer and the recorded result.\<close>

theorem banking_needs_decision:
  assumes "reachable db" "perform w reg published req db = (db', r)" "\<not> noted (pd_bank db) (pd_bank db')"
  shows "\<exists>pid identity c expected y. commit_of req = Some (pid, identity, c, expected) \<and> r = Inr y
    \<and> first_commit w reg pid identity c db y db'"
  using reachable_rest [OF assms(1)] assms(2)
proof (cases rule: perform_bank)
  case noted
  with assms(3) show ?thesis by simp
next
  case (commit pid identity c expected y ss)
  from reachable_rest [OF assms(1)] commit(3) show ?thesis
  proof (cases rule: commit_answer)
    case (replayed p)
    with commit(4) assms(3) show ?thesis by simp
  next
    case first
    with commit show ?thesis by blast
  qed
qed

text \<open>C13. In any sequence of requests, with any change of the banking tables between them, at most one commit of a
  proposal answers with a first execution; all later ones replay or are refused.\<close>

theorem executes_at_most_once:
  assumes "reachable db" "requests db h db'"
  shows "length (filter (first_execution pid) h) \<le> 1"
  using assms(2,1)
proof (induction rule: requests.induct)
  case (no_more db)
  then show ?case by simp
next
  case (meanwhile db b h db')
  then show ?case using reachable.banking by blast
next
  case (next_request w reg published req db db1 r h db')
  have r1: "reachable db1" using reachable.request [OF next_request.prems next_request.hyps(1)] .
  show ?case
  proof (cases "first_execution pid (req, r)")
    case False
    with next_request.IH [OF r1] show ?thesis by simp
  next
    case True
    from first_execution_closes [OF next_request.prems next_request.hyps(1) True]
    obtain p where "get_proposal pid db1 = Some p" "pp_status p \<in> set TERMINAL_STATUSES" by (auto simp: TERMINAL_STATUSES_def)
    from closed_no_execution [OF next_request.hyps(2) r1 this] True show ?thesis by simp
  qed
qed

text \<open>C16. A commit that answered answers the same retry again, with the recorded result and without another effect:
  at any later time, with any published playbooks, whatever happened to the banking tables, as long as the identity
  still resolves to the customer.\<close>

theorem commit_replays:
  assumes "reachable db" "perform w reg published (Commit pid identity c expected) db = (db', Inr y)"
    and "resolve_customer_id identity b = resolve_customer_id identity (pd_bank db)"
  shows "\<exists>p. get_proposal pid db' = Some p \<and> pp_status p = COMMITTED \<and> (\<exists>again. y = proposal_result p again)
    \<and> perform w' reg published' (Commit pid identity c expected) (db'\<lparr>pd_bank := b\<rparr>)
      = (db'\<lparr>pd_bank := b\<rparr>, Inr (proposal_result p True))"
proof -
  obtain ss where body: "commit_body w reg pid identity c expected (fresh_session db) = (ss, Inr y)" "ss_committed ss = db'"
    using perform_commit [OF assms(2)] by (metis commit_of.simps(1))
  from commit_body_checks [OF body(1)] obtain cid p0 v where k: "resolve_customer_id identity (pd_bank db) = Inr cid"
    "get_proposal pid db = Some p0" "evidence_for reg p0 c v"
    "in_scope p0 (context_scope cid c) (the (str_or expected (Some (tm_action_type (pp_terms p0)))))" by blast
  obtain p where p: "get_proposal pid db' = Some p" "pp_status p = COMMITTED" "\<exists>again. y = proposal_result p again" "pp_terms p = pp_terms p0"
    using reachable_rest [OF assms(1)] body(1)
  proof (cases rule: commit_answer)
    case (replayed q)
    with that [of q] body(2) k(2) show ?thesis by auto
  next
    case first
    with body(2) obtain q where q: "get_proposal pid db' = Some q" "pp_status q = COMMITTED" "y = proposal_result q False"
      using first_commit_closes by blast
    have "rest (pd_proposals db)" using reachable_rest [OF assms(1)] .
    from life_cycles_row [OF commit_body_life [OF this body(1)] this, of p0] get_proposal_id [OF k(2)] body(2)
    obtain q' where q': "q' \<in> set (pd_proposals db')" "pp_terms q' = pp_terms p0" by blast
    have "rest (pd_proposals db')" using life_cycles_rest [OF commit_body_life [OF \<open>rest (pd_proposals db)\<close> body(1)] \<open>rest (pd_proposals db)\<close>] body(2) by simp
    from rest_get [OF this q'(1)] q'(2) get_proposal_id [OF k(2)] q(1) have "q' = q" by simp
    with that [of q] q q'(2) show ?thesis by blast
  qed
  have e: "evidence_for reg p c v" using k(3) unfolding evidence_for_def for_proposal_terms [OF p(4)] .
  have i: "in_scope p (context_scope cid c) (the (str_or expected (Some (tm_action_type (pp_terms p)))))"
    using k(4) in_scope_terms [OF p(4)] p(4) by simp
  have g: "get_proposal pid (db'\<lparr>pd_bank := b\<rparr>) = Some p" "resolve_customer_id identity (pd_bank (db'\<lparr>pd_bank := b\<rparr>)) = Inr cid"
    using p(1) k(1) assms(3) by simp_all
  have "perform w' reg published' (Commit pid identity c expected) (db'\<lparr>pd_bank := b\<rparr>)
      = (db'\<lparr>pd_bank := b\<rparr>, Inr (proposal_result p True))"
    using commit_body_replay [OF g(1) p(2) g(2) i e]
    by (simp add: perform_def run_request_def commit_for_identity_def audited_request_def)
  with p show ?thesis by blast
qed

section \<open>A sample service\<close>

text \<open>A handler that closes the cards of the bank, offered under the general acknowledgment policy.\<close>

definition sample_handler :: action_handler where
  "sample_handler =
     \<lparr>ah_definition = None, ah_input_schema = [(''account_id'', One T_str)], ah_public_input_schema = [(''account_id'', One T_str)],
      ah_normalize_public_inputs = (\<lambda>identity inputs b. Inr inputs), ah_normalize_business_inputs = (\<lambda>inputs. inputs),
      ah_prepare = (\<lambda>rows customer_id inputs context b. Inr (Some ''CR1'', inputs, ''Close the card'')),
      ah_display_selection = (\<lambda>p. Inr []), ah_public_projection = (\<lambda>p. Inr []),
      ah_validate_current_preconditions = (\<lambda>rows p b. Inr ()),
      ah_execute = (\<lambda>p b. Inr ([(''success'', PBool True)], b\<lparr>d_cards := []\<rparr>)),
      ah_reconcile = (\<lambda>p b. Inr None), ah_commit_pending_message = (\<lambda>p. ''Pending''),
      ah_record_commit_started = (\<lambda>p b. Inr b), ah_record_committed = (\<lambda>p outcome b. Inr b),
      ah_record_reconciled = (\<lambda>p outcome b. Inr b)\<rparr>"

definition sample_spec :: spec where
  "sample_spec =
     \<lparr>sp_action_type = ''CLOSE_CARD'', sp_contract_version = ''v1'', sp_payload_schema = [(''account_id'', One T_str)],
      sp_scope_resolver = (\<lambda>p. (tm_customer_id (pp_terms p), tm_account_id (pp_terms p))),
      sp_authorization_policy = GENERAL_ACKNOWLEDGMENT_POLICY,
      sp_presentation_requirement = \<lparr>pq_required_fact_keys = {''account_id''}, pq_quality_gate = RELEASE_EVALUATION,
        pq_natural_language_allowed = True, pq_disclosure_reference = None\<rparr>,
      sp_handler = sample_handler, sp_definition_id = ''close-card'', sp_definition_revision = 1,
      sp_definition_digest = ''d1'', sp_result_schema = [(''success'', One T_bool)]\<rparr>"

definition sample_actions :: "action_handler action_registry" where
  "sample_actions = \<lparr>rg_versions = [((''close-card'', 1), sample_spec)], rg_specifications = [(''CLOSE_CARD'', sample_spec)]\<rparr>"

definition sample_world :: "int \<Rightarrow> proposal_world" where
  "sample_world now =
     \<lparr>pw_json = (\<lambda>v. ''json''), pw_sha256 = (\<lambda>s. s), pw_uuid5 = (\<lambda>s. s), pw_salt = ''salt'', pw_build_version = ''1'',
      pw_build_commit = ''c'', pw_now = now\<rparr>"

definition sample_published :: publication where
  "sample_published i = (if i = ''close-card'' then Some (1, ''d1'') else None)"

definition earlier_context :: runtime_context where
  "earlier_context = sample_runtime\<lparr>rt_customer_turn_id := ''turn-0'', rt_presentation_turn_id := None,
     rt_confirmation_turn_id := None, rt_confirmation_method := None, rt_confirmation_source := None\<rparr>"

definition sample_start :: proposal_db where
  "sample_start = \<lparr>pd_bank = sample_db, pd_proposals = []\<rparr>"

definition sample_commit_request :: request where
  "sample_commit_request = Commit ''u-'' ''uid-1'' sample_runtime None"

definition sample_proposal :: "proposal_db \<times> answer" where
  "sample_proposal = perform (sample_world 10) sample_actions sample_published
     (Propose ''CLOSE_CARD'' ''uid-1'' earlier_context [(''account_id'', PStr ''CR1'')] ''key'') sample_start"

definition sample_commit :: "proposal_db \<times> answer" where
  "sample_commit = perform (sample_world 20) sample_actions sample_published sample_commit_request (fst sample_proposal)"

text \<open>The offer, its commit and its effect, evaluated in one pass.\<close>

lemma sample_run:
  "(case sample_proposal of (db1, r1) \<Rightarrow>
     case perform (sample_world 20) sample_actions sample_published sample_commit_request db1 of (db2, r2) \<Rightarrow>
       map pp_status (pd_proposals db1) = [PROPOSED] \<and> map pp_id (pd_proposals db1) = [''u-'']
       \<and> map u_id (d_users (pd_bank db1)) = [''U1''] \<and> length (d_cards (pd_bank db1)) = 1 \<and> d_cards (pd_bank db2) = []
       \<and> map pp_status (pd_proposals db2) = [COMMITTED]
       \<and> (case r2 of Inr y \<Rightarrow> first_execution ''u-'' (sample_commit_request, r2) | Inl e \<Rightarrow> False))"
  by code_simp

lemma sample_values:
  "map pp_status (pd_proposals (fst sample_proposal)) = [PROPOSED]" "map pp_id (pd_proposals (fst sample_proposal)) = [''u-'']"
  "length (d_cards (pd_bank (fst sample_proposal))) = 1" "d_cards (pd_bank (fst sample_commit)) = []"
  "map pp_status (pd_proposals (fst sample_commit)) = [COMMITTED]" "first_execution ''u-'' (sample_commit_request, snd sample_commit)"
  using sample_run unfolding sample_commit_def by (simp_all add: case_prod_beta split: sum.splits)

lemma sample_reachable: "reachable (fst sample_proposal)"
  using reachable.request [OF reachable.no_proposals] unfolding sample_proposal_def
  by (metis prod.collapse proposal_db.select_convs(2) sample_start_def)

text \<open>The commit changed the banking tables.\<close>

lemma noted_cards:
  assumes "noted b b'"
  shows "d_cards b' = d_cards b"
proof -
  from assms have e: "b' = b\<lparr>d_outbox := d_outbox b', d_draws := d_draws b', d_messages := d_messages b'\<rparr>" by (simp add: noted_def)
  show ?thesis by (subst e) simp
qed

lemma sample_not_noted: "\<not> noted (pd_bank (fst sample_proposal)) (pd_bank (fst sample_commit))"
proof
  assume "noted (pd_bank (fst sample_proposal)) (pd_bank (fst sample_commit))"
  from noted_cards [OF this] have "d_cards (pd_bank (fst sample_commit)) = d_cards (pd_bank (fst sample_proposal))" .
  with sample_values(3,4) show False by simp
qed

lemma sample_step: "perform (sample_world 20) sample_actions sample_published sample_commit_request (fst sample_proposal)
    = (fst sample_commit, snd sample_commit)"
  by (simp add: sample_commit_def)

lemma sample_commit_reachable: "reachable (fst sample_commit)"
  using reachable.request [OF sample_reachable sample_step] .

lemma requests_refine_life_cycle_witness:
  "life_cycles (pd_proposals (fst sample_proposal)) (pd_proposals (fst sample_commit))
   \<and> pd_proposals (fst sample_proposal) \<noteq> pd_proposals (fst sample_commit)"
proof
  show "life_cycles (pd_proposals (fst sample_proposal)) (pd_proposals (fst sample_commit))"
    using requests_refine_life_cycle [OF sample_reachable, of "sample_world 20" sample_actions sample_published sample_commit_request]
    by (simp add: sample_commit_def)
  show "pd_proposals (fst sample_proposal) \<noteq> pd_proposals (fst sample_commit)"
    using sample_values(1,5) by auto
qed

lemma proposals_settle_witness: "\<exists>p. pd_proposals (fst sample_commit) = [p] \<and> pp_status p = COMMITTED \<and> closed_ok p"
proof -
  from sample_values(5) obtain p where p: "pd_proposals (fst sample_commit) = [p]" "pp_status p = COMMITTED" by auto
  with proposals_settle [OF sample_commit_reachable] show ?thesis by (simp add: untouched_def)
qed

lemma banking_needs_decision_witness:
  "\<exists>y. snd sample_commit = Inr y \<and> first_commit (sample_world 20) sample_actions ''u-'' ''uid-1'' sample_runtime (fst sample_proposal) y (fst sample_commit)"
  using banking_needs_decision [OF sample_reachable sample_step sample_not_noted] by (simp add: sample_commit_request_def)

definition sample_retry :: "proposal_db \<times> answer" where
  "sample_retry = perform (sample_world 30) sample_actions sample_published sample_commit_request (fst sample_commit)"

lemma executes_at_most_once_witness:
  "length (filter (first_execution ''u-'') [(sample_commit_request, snd sample_commit), (sample_commit_request, snd sample_retry)]) \<le> 1
   \<and> first_execution ''u-'' (sample_commit_request, snd sample_commit)"
proof
  have "perform (sample_world 30) sample_actions sample_published sample_commit_request (fst sample_commit)
      = (fst sample_retry, snd sample_retry)" by (simp add: sample_retry_def)
  from requests.next_request [OF sample_step requests.next_request [OF this requests.no_more]]
  show "length (filter (first_execution ''u-'') [(sample_commit_request, snd sample_commit), (sample_commit_request, snd sample_retry)]) \<le> 1"
    by (rule executes_at_most_once [OF sample_reachable])
qed (rule sample_values(6))

lemma commit_replays_witness:
  "\<exists>p. pp_status p = COMMITTED
     \<and> snd (perform (sample_world 900000000) sample_actions sample_published sample_commit_request
         (fst sample_commit\<lparr>pd_bank := pd_bank (fst sample_proposal)\<rparr>)) = Inr (proposal_result p True)"
proof -
  obtain y where "snd sample_commit = Inr y" using sample_values(6) by (cases "snd sample_commit") auto
  with sample_step have "perform (sample_world 20) sample_actions sample_published (Commit ''u-'' ''uid-1'' sample_runtime None) (fst sample_proposal)
      = (fst sample_commit, Inr y)" by (simp add: sample_commit_request_def)
  from commit_replays [OF sample_reachable this refl, of "sample_world 900000000" sample_published] show ?thesis
    unfolding sample_commit_request_def by auto
qed

end
