(* ===== verification/Banking_Operations.thy ===== *)
theory Banking_Operations
  imports Proposal_Service Fraud_Triage Card_Service
begin

text \<open>
  The banking capabilities behind the registered actions (\<^verbatim>\<open>services/proposal_capabilities.py\<close>): card replacement,
  wallet provisioning and fraud triage, with the hooks a capability does not define
  (\<^verbatim>\<open>services/fraud_presentation.py\<close> for the text of a dispute).  The credit-limit capability is in
  \<open>Credit_Limit_Offers\<close> and \<open>Credit_Limit_Commit\<close>.

  An \<open>operation\<close> works on the banking tables; the clock, the digest and the random digits of a new card are the
  record \<open>triage_world\<close> it shares with the triage service.
\<close>

section \<open>The operation contract\<close>

record operation =
  op_execute :: "action_proposal \<Rightarrow> bank_db \<Rightarrow> ((string \<times> pyval) list \<times> bank_db) attempt"
  op_prepare :: "action_proposal list \<Rightarrow> string \<Rightarrow> (string \<times> pyval) list \<Rightarrow> (string \<times> pyval) list \<Rightarrow> (string \<times> pyval) list \<Rightarrow> bank_db
     \<Rightarrow> (string \<times> (string \<times> pyval) list \<times> string option) attempt"
  op_payload_schema :: "(string \<times> field_type) list"
  op_input_schema :: "(string \<times> field_type) list"
  op_parameters :: "(string \<times> pyval) list"
  op_literal_bindings :: "(string \<times> pyval) list"
  op_template_fields :: "string list"
  op_public_fields :: "string list"
  op_required_facts :: "string list"
  op_public_input_schema :: "(string \<times> field_type) list option"
  op_normalize_public_inputs :: "string \<Rightarrow> (string \<times> pyval) list \<Rightarrow> bank_db \<Rightarrow> (string \<times> pyval) list attempt"
  op_normalize_business_inputs :: "(string \<times> pyval) list \<Rightarrow> (string \<times> pyval) list"
  op_validate :: "action_proposal list \<Rightarrow> action_proposal \<Rightarrow> bank_db \<Rightarrow> unit attempt"
  op_reconcile :: "action_proposal \<Rightarrow> bank_db \<Rightarrow> (string \<times> pyval) list option attempt"
  op_started :: "action_proposal \<Rightarrow> bank_db \<Rightarrow> bank_db attempt"
  op_committed :: "action_proposal \<Rightarrow> (string \<times> pyval) list \<Rightarrow> bank_db \<Rightarrow> bank_db attempt"
  op_reconciled :: "action_proposal \<Rightarrow> (string \<times> pyval) list \<Rightarrow> bank_db \<Rightarrow> bank_db attempt"
  op_pending :: "action_proposal \<Rightarrow> string"

text \<open>The hooks of an operation that does not define its own.\<close>

definition default_reconcile :: "action_proposal \<Rightarrow> bank_db \<Rightarrow> (string \<times> pyval) list option attempt" where
  "default_reconcile p d = Inr None"

definition default_commit_pending_message :: "action_proposal \<Rightarrow> string" where
  "default_commit_pending_message p = ''Action proposal commit is already in progress.''"

definition default_validate_current_preconditions :: "action_proposal list \<Rightarrow> action_proposal \<Rightarrow> bank_db \<Rightarrow> unit attempt" where
  "default_validate_current_preconditions rows p d = Inr ()"

definition default_record_commit_started :: "action_proposal \<Rightarrow> bank_db \<Rightarrow> bank_db attempt" where
  "default_record_commit_started p d = Inr d"

definition default_record_reconciled :: "action_proposal \<Rightarrow> (string \<times> pyval) list \<Rightarrow> bank_db \<Rightarrow> bank_db attempt" where
  "default_record_reconciled p outcome d = Inr d"

definition default_record_committed :: "action_proposal \<Rightarrow> (string \<times> pyval) list \<Rightarrow> bank_db \<Rightarrow> bank_db attempt" where
  "default_record_committed p outcome d = Inr d"

definition public_inputs_unchanged :: "string \<Rightarrow> (string \<times> pyval) list \<Rightarrow> bank_db \<Rightarrow> (string \<times> pyval) list attempt" where
  "public_inputs_unchanged identity inputs d = Inr inputs"

definition business_inputs_unchanged :: "(string \<times> pyval) list \<Rightarrow> (string \<times> pyval) list" where
  "business_inputs_unchanged inputs = inputs"

definition action_payload :: "action_proposal \<Rightarrow> pyval" where
  "action_payload p = PDict (tm_action_payload (pp_terms p))"

text \<open>\<open>str(proposal.account_id)\<close>: the text of an absent account names no row.\<close>

definition account_text :: "action_proposal \<Rightarrow> string" where
  "account_text p = (case tm_account_id (pp_terms p) of Some i \<Rightarrow> i | None \<Rightarrow> ''None'')"

section \<open>Replacing a card\<close>

definition card_request :: "action_proposal \<Rightarrow> replacement_request" where
  "card_request p =
     (let payload = action_payload p in
      \<lparr>rq_account_id = account_text p, rq_reason = ''CUSTOMER_REPORTED_'' @ text_of (dict_get payload ''reason''),
       rq_issue_virtual_card = truthy (dict_get_default payload ''issue_virtual_card'' (PBool True)),
       rq_fraud_alert_id = None,
       rq_compromised_card_id = Some (if truthy (dict_get payload ''compromised_card_id'')
         then text_of (dict_get payload ''compromised_card_id'') else [])\<rparr>)"

definition replacement_reply :: "replacement_request \<Rightarrow> issued_card \<times> issued_card \<Rightarrow> pyval" where
  "replacement_reply rq cards =
     (let (old, new) = cards in
      PDict [(''account_id'', PStr (rq_account_id rq)), (''old_card_id'', PStr (ic_id old)),
             (''old_card_token'', PStr (ic_card_token old)), (''new_card_id'', PStr (ic_id new)),
             (''new_card_token'', PStr (ic_card_token new)), (''new_last_four'', PStr (ic_last_four new)),
             (''status'', PStr (ic_status new)), (''replacement_status'', PStr ''ISSUED''),
             (''is_virtual'', PBool (ic_is_virtual new)), (''fraud_alert_id'', opt_str (rq_fraud_alert_id rq)),
             (''compromised_card_id'', opt_str (str_or (rq_compromised_card_id rq) None)),
             (''message'', PStr ''Replacement virtual card issued.'')])"

definition card_execute :: "triage_world \<Rightarrow> action_proposal \<Rightarrow> bank_db \<Rightarrow> ((string \<times> pyval) list \<times> bank_db) attempt" where
  "card_execute w p d =
     (let rq = card_request p in
      bindR (raised (issue_replacement_card (tw_clock w) (tw_card_token w) (tw_last_four w) rq d)) (\<lambda>(cards, d').
      Inr ([(''success'', PBool True), (''message'', dict_get (replacement_reply rq cards) ''message''),
            (''replacement_card'', replacement_reply rq cards), (''card_status'', PStr ''BLOCKED'')], d')))"

section \<open>Provisioning a wallet\<close>

text \<open>\<open>**wallet\<close> adds the reply's fields; a field the result already has keeps its place.\<close>

definition wallet_execute :: "triage_world \<Rightarrow> action_proposal \<Rightarrow> bank_db \<Rightarrow> ((string \<times> pyval) list \<times> bank_db) attempt" where
  "wallet_execute w p d =
     (let payload = action_payload p;
          token = (if truthy (dict_get payload ''card_token'') then text_of (dict_get payload ''card_token'') else []) in
      if map_of (tm_action_payload (pp_terms p)) ''wallet_provider'' = None then Inl (Raised (KeyError ''wallet_provider''))
      else bindR (raised (queue_wallet_provisioning (tw_clock w) (account_text p) token
                   (text_of (dict_get payload ''wallet_provider'')) ''CUSTOMER_VOICE_SUPPORT'' None d)) (\<lambda>(wallet, d').
        Inr (dict_update [(''success'', PBool True), (''message'', dict_get wallet ''message'')]
               (case wallet of PDict kvs \<Rightarrow> kvs | _ \<Rightarrow> []), d')))"

section \<open>Preparing a card action\<close>

definition CARD_REASONS :: "string list" where
  "CARD_REASONS = [''LOST'', ''STOLEN'', ''DAMAGED'']"

definition eligible_card :: "bool \<Rightarrow> issued_card \<Rightarrow> bool" where
  "eligible_card require_virtual c = (ic_is_active c \<and> ic_status c = ''ACTIVE'' \<and> (\<not> require_virtual \<or> ic_is_virtual c))"

definition card_facts :: "credit_account \<Rightarrow> issued_card \<Rightarrow> (string \<times> pyval) list" where
  "card_facts account c =
     [(''account_id'', PStr (ca_id account)), (''card_id'', PStr (ic_id c)), (''compromised_card_id'', PStr (ic_id c)),
      (''card_token'', PStr (ic_card_token c)), (''card_last_four'', PStr (ic_last_four c))]"

definition prepare_card ::
    "action_proposal list \<Rightarrow> string \<Rightarrow> (string \<times> pyval) list \<Rightarrow> (string \<times> pyval) list \<Rightarrow> (string \<times> pyval) list \<Rightarrow> bank_db
     \<Rightarrow> (string \<times> (string \<times> pyval) list \<times> string option) attempt" where
  "prepare_card rows customer_id inputs parameters context d =
     (case get_account_by_customer customer_id d of
        None \<Rightarrow> Inl (fail ProposalScopeError ''Active credit-card account was not found.'')
      | Some account \<Rightarrow>
          (case List.find (eligible_card (truthy (dict_get (PDict parameters) ''require_virtual'')))
                  (list_cards_by_account (ca_id account) d) of
             None \<Rightarrow> Inl (fail ProposalError ''No active card is eligible for the requested action.'')
           | Some c \<Rightarrow>
               (case map_of inputs ''reason'' of
                  None \<Rightarrow> Inr (ca_id account, card_facts account c, None)
                | Some v \<Rightarrow>
                    (let reason = py_upper (py_strip (if truthy v then text_of v else []))
                     in if reason \<notin> set CARD_REASONS
                        then Inl (fail ProposalError ''Card reissue reason must be LOST, STOLEN, or DAMAGED.'')
                        else Inr (ca_id account, card_facts account c @ [(''reason'', PStr reason)], None)))))"

section \<open>Fraud triage\<close>

definition fraud_commit_pending_message :: "action_proposal \<Rightarrow> string" where
  "fraud_commit_pending_message p = ''Fraud proposal commit is already in progress.''"

definition fraud_workflow_key :: "action_proposal \<Rightarrow> string" where
  "fraud_workflow_key p = ''proposal:'' @ pp_id p @ '':'' @ take 48 (tm_payload_fingerprint (pp_terms p))"

definition fraud_locked_alert :: "action_proposal \<Rightarrow> bank_db \<Rightarrow> fraud_alert option" where
  "fraud_locked_alert p d =
     List.find (\<lambda>a. PStr (al_id a) = dict_get (action_payload p) ''fraud_alert_id''
         \<and> al_customer_id a = tm_customer_id (pp_terms p) \<and> Some (al_credit_account_id a) = tm_account_id (pp_terms p))
       (d_alerts d)"

definition fraud_validate_current_preconditions :: "action_proposal list \<Rightarrow> action_proposal \<Rightarrow> bank_db \<Rightarrow> unit attempt" where
  "fraud_validate_current_preconditions rows p d =
     (if (case fraud_locked_alert p d of None \<Rightarrow> True | Some alert \<Rightarrow> al_status alert \<noteq> ''OPEN'')
      then Inl (precondition_error ''Fraud alert is no longer open; create a new proposal from current state.''
        ''FRAUD_ALERT_NO_LONGER_OPEN'' None None PNone None None)
      else Inr ())"

definition payload_ids :: "action_proposal \<Rightarrow> string \<Rightarrow> string list" where
  "payload_ids p k = (case dict_get (action_payload p) k of PList vs \<Rightarrow> map text_of vs | _ \<Rightarrow> [])"

definition fraud_request :: "action_proposal \<Rightarrow> fraud_alert \<Rightarrow> triage_request" where
  "fraud_request p alert =
     \<lparr>tq_auth_provider_uid = al_auth_provider_uid alert, tq_fraud_alert_id = al_id alert,
      tq_disputed_authorization_ids = payload_ids p ''disputed_authorization_ids'',
      tq_disputed_transaction_ids = payload_ids p ''disputed_transaction_ids'',
      tq_issue_replacement = truthy (dict_get (action_payload p) ''issue_replacement''),
      tq_escalate = truthy (dict_get (action_payload p) ''escalate''),
      tq_idempotency_key = Some (fraud_workflow_key p)\<rparr>"

definition fraud_execute :: "triage_world \<Rightarrow> action_proposal \<Rightarrow> bank_db \<Rightarrow> ((string \<times> pyval) list \<times> bank_db) attempt" where
  "fraud_execute w p d =
     (case fraud_locked_alert p d of
        None \<Rightarrow> Inl (Raised (TypeError ''auth_provider_uid''))
      | Some alert \<Rightarrow> raised (triage_fraud_case_in_transaction w (fraud_request p alert) d))"

definition fraud_reconcile :: "action_proposal \<Rightarrow> bank_db \<Rightarrow> (string \<times> pyval) list option attempt" where
  "fraud_reconcile p d =
     (let fraud_alert_id = dict_get (action_payload p) ''fraud_alert_id'' in
      if \<not> truthy fraud_alert_id then Inr None
      else (case get_case_action_by_idempotency_key (text_of fraud_alert_id) (fraud_workflow_key p) d of
              None \<Rightarrow> Inr None
            | Some action \<Rightarrow> Inr (if fa_status action \<noteq> ''SUCCEEDED'' then None
                else Some (case fa_result_payload action of PDict kvs \<Rightarrow> kvs | _ \<Rightarrow> []))))"

text \<open>\<open>normalized_ids(values or [])\<close> on a value of the inputs.\<close>

definition normalized_value_ids :: "pyval \<Rightarrow> string list" where
  "normalized_value_ids v = normalized_ids (case v of PList vs \<Rightarrow> map text_of vs | _ \<Rightarrow> [])"

text \<open>\<open>fraud_proposal_summary\<close>.  The first error of a stored amount ends the text.\<close>

definition fact_description :: "pyval \<Rightarrow> string res" where
  "fact_description v =
     bindR (money_validate (dict_get v ''money'')) (\<lambda>t.
     bindR (money_validate (dict_get v ''billing_money'')) (\<lambda>b.
     Inr (display_text t @ '' at '' @ text_of (dict_get v ''merchant_name'')
       @ (if t \<noteq> b then ''; billed to your account as '' @ display_text b else []))))"

definition fraud_proposal_summary :: "string \<Rightarrow> pyval list \<Rightarrow> bool \<Rightarrow> bool \<Rightarrow> string res" where
  "fraud_proposal_summary card_last_four facts issue_replacement escalate =
     (if facts = []
      then Inr (''Recognize all reviewed activity on card ending in '' @ card_last_four
             @ ''. No fraud dispute or replacement card will be opened.'')
      else bindR (mapR fact_description facts) (\<lambda>descriptions.
        Inr (''Dispute '' @ join_with ''; '' descriptions @ '' on card ending in '' @ card_last_four @ ''.''
          @ (if issue_replacement then '' Block the current card and issue a replacement virtual card.'' else [])
          @ (if escalate then '' Request specialist review.'' else []))))"

definition selected_fact :: "string list \<Rightarrow> string list \<Rightarrow> pyval \<Rightarrow> bool" where
  "selected_fact authorization_ids transaction_ids v =
     (text_of (dict_get v ''authorization_id'') \<in> set authorization_ids
     \<or> text_of (dict_get v ''transaction_id'') \<in> set transaction_ids)"

definition unexpected_ids :: "string list \<Rightarrow> string list \<Rightarrow> string list" where
  "unexpected_ids ids allowed = filter (\<lambda>i. i \<notin> set allowed) ids"

definition fraud_payload :: "fraud_alert \<Rightarrow> pyval list \<Rightarrow> string list \<Rightarrow> string list \<Rightarrow> bool \<Rightarrow> bool \<Rightarrow> (string \<times> pyval) list" where
  "fraud_payload alert facts authorization_ids transaction_ids issue_replacement escalate =
     [(''money_facts'', PList facts), (''card_last_four'', PStr (al_card_last_four alert)),
      (''fraud_alert_id'', PStr (al_id alert)), (''disputed_authorization_ids'', str_list authorization_ids),
      (''disputed_transaction_ids'', str_list transaction_ids), (''issue_replacement'', PBool issue_replacement),
      (''escalate'', PBool escalate)]"

text \<open>The offer on a selection inside the alert.\<close>

definition fraud_offer ::
    "fraud_alert \<Rightarrow> string list \<Rightarrow> string list \<Rightarrow> bool \<Rightarrow> bool \<Rightarrow> bank_db
     \<Rightarrow> (string \<times> (string \<times> pyval) list \<times> string option) attempt" where
  "fraud_offer alert authorization_ids transaction_ids issue_replacement escalate d =
     bindR (raised (fraud_money_facts alert d)) (\<lambda>all_facts.
     let facts = filter (selected_fact authorization_ids transaction_ids) all_facts in
     bindR (raised (fraud_proposal_summary (al_card_last_four alert) facts issue_replacement escalate)) (\<lambda>summary.
     Inr (al_credit_account_id alert, fraud_payload alert facts authorization_ids transaction_ids issue_replacement escalate,
          Some summary)))"

definition prepare_fraud ::
    "action_proposal list \<Rightarrow> string \<Rightarrow> (string \<times> pyval) list \<Rightarrow> (string \<times> pyval) list \<Rightarrow> (string \<times> pyval) list \<Rightarrow> bank_db
     \<Rightarrow> (string \<times> (string \<times> pyval) list \<times> string option) attempt" where
  "prepare_fraud rows customer_id inputs parameters context d =
     (let get = dict_get (PDict inputs);
          authorization_ids = normalized_value_ids (get ''disputed_authorization_ids'');
          transaction_ids = normalized_value_ids (get ''disputed_transaction_ids'')
      in case List.find (\<lambda>a. PStr (al_id a) = get ''fraud_alert_id'' \<and> al_customer_id a = customer_id) (d_alerts d) of
           None \<Rightarrow> Inl (fail ProposalScopeError ''Fraud alert was not found for this customer.'')
         | Some alert \<Rightarrow>
             if al_status alert \<noteq> ''OPEN'' then Inl (fail ProposalError ''Fraud alert is no longer open.'')
             else if unexpected_ids authorization_ids (al_suspicious_authorization_ids alert) \<noteq> []
             then Inl (fail ProposalScopeError (''Authorization ids are not part of this fraud alert: ''
                    @ join_with '', '' (unexpected_ids authorization_ids (al_suspicious_authorization_ids alert))))
             else if unexpected_ids transaction_ids (alert_transaction_ids alert) \<noteq> []
             then Inl (fail ProposalScopeError (''Transaction ids are not part of this fraud alert: ''
                    @ join_with '', '' (unexpected_ids transaction_ids (alert_transaction_ids alert))))
             else fraud_offer alert authorization_ids transaction_ids
                    (truthy (get ''issue_replacement'')) (truthy (get ''escalate'')) d)"

text \<open>
  \<open>public_fraud_inputs\<close>: a public request must have reviewed every flagged item; the review fields are dropped.
\<close>

definition REVIEW_ONLY :: "string list" where
  "REVIEW_ONLY = [''selection_status'', ''recognized_authorization_ids'', ''recognized_transaction_ids'']"

definition input_ids :: "(string \<times> pyval) list \<Rightarrow> string \<Rightarrow> string list" where
  "input_ids inputs k = (case dict_get (PDict inputs) k of PList vs \<Rightarrow> map text_of vs | _ \<Rightarrow> [])"

definition input_selection :: "(string \<times> pyval) list \<Rightarrow> alert_selection" where
  "input_selection inputs =
     \<lparr>as_disputed_authorizations = input_ids inputs ''disputed_authorization_ids'',
      as_disputed_transactions = input_ids inputs ''disputed_transaction_ids'',
      as_recognized_authorizations = input_ids inputs ''recognized_authorization_ids'',
      as_recognized_transactions = input_ids inputs ''recognized_transaction_ids''\<rparr>"

text \<open>The message of a refused review.\<close>

definition review_message :: "string \<Rightarrow> string" where
  "review_message code =
     (if code = ''ACTIVE_FRAUD_ALERT_REQUIRED'' then ''The selected fraud alert is not open for this customer.''
      else if code = ''INVALID_SELECTION_STATUS'' then ''Selection status must be UNCERTAIN, PARTIAL, or COMPLETE.''
      else if code = ''CONFLICTING_FRAUD_SELECTION'' then ''The same activity cannot be both recognized and disputed.''
      else if code = ''FRAUD_SELECTION_OUT_OF_SCOPE'' then ''The selection contains activity outside the open fraud alert.''
      else ''Every flagged item must be recognized or disputed before proposing an action.'')"

definition public_fraud_inputs ::
    "(pyval \<Rightarrow> string) \<Rightarrow> string \<Rightarrow> (string \<times> pyval) list \<Rightarrow> bank_db \<Rightarrow> (string \<times> pyval) list attempt" where
  "public_fraud_inputs sha256_json identity inputs d =
     (case review_open_alert_selection sha256_json identity (text_of (dict_get (PDict inputs) ''fraud_alert_id''))
             (text_of (dict_get (PDict inputs) ''selection_status'')) (input_selection inputs) d of
        Inl code \<Rightarrow> Inl (fail ProposalError (review_message code))
      | Inr review \<Rightarrow>
          if \<not> sr_ready_to_propose review then Inl (fail ProposalError ''Complete the fraud selection first.'')
          else Inr (filter (\<lambda>(k, v). k \<notin> set REVIEW_ONLY) inputs))"

definition fraud_business_inputs :: "(string \<times> pyval) list \<Rightarrow> (string \<times> pyval) list" where
  "fraud_business_inputs inputs =
     dict_update inputs (map (\<lambda>k. (k, str_list (normalized_value_ids (dict_get (PDict inputs) k))))
       [''disputed_authorization_ids'', ''disputed_transaction_ids''])"

section \<open>The operations\<close>

definition CARD_REPLACEMENT :: "triage_world \<Rightarrow> operation" where
  "CARD_REPLACEMENT w =
     \<lparr>op_execute = card_execute w, op_prepare = prepare_card,
      op_payload_schema = [(''account_id'', One T_str), (''compromised_card_id'', One T_str), (''reason'', One T_str),
        (''issue_virtual_card'', One T_bool)],
      op_input_schema = [(''reason'', One T_str)], op_parameters = [(''require_virtual'', PBool False)],
      op_literal_bindings = [(''issue_virtual_card'', PBool True)], op_template_fields = [''card_last_four''],
      op_public_fields = [''reason'', ''issue_virtual_card''],
      op_required_facts = [''card_last_four'', ''current_card_blocking'', ''replacement_card_form''],
      op_public_input_schema = None, op_normalize_public_inputs = public_inputs_unchanged,
      op_normalize_business_inputs = business_inputs_unchanged, op_validate = default_validate_current_preconditions,
      op_reconcile = default_reconcile, op_started = default_record_commit_started, op_committed = default_record_committed,
      op_reconciled = default_record_reconciled, op_pending = default_commit_pending_message\<rparr>"

definition WALLET_QUEUE :: "triage_world \<Rightarrow> operation" where
  "WALLET_QUEUE w =
     \<lparr>op_execute = wallet_execute w, op_prepare = prepare_card,
      op_payload_schema = [(''account_id'', One T_str), (''card_id'', One T_str), (''card_token'', One T_str),
        (''wallet_provider'', One T_str)],
      op_input_schema = [], op_parameters = [(''require_virtual'', PBool True)],
      op_literal_bindings = [(''wallet_provider'', PStr ''GOOGLE_WALLET'')], op_template_fields = [''card_last_four''],
      op_public_fields = [''wallet_provider''],
      op_required_facts = [''card_last_four'', ''provisioning_is_queued'', ''wallet_provider''],
      op_public_input_schema = None, op_normalize_public_inputs = public_inputs_unchanged,
      op_normalize_business_inputs = business_inputs_unchanged, op_validate = default_validate_current_preconditions,
      op_reconcile = default_reconcile, op_started = default_record_commit_started, op_committed = default_record_committed,
      op_reconciled = default_record_reconciled, op_pending = default_commit_pending_message\<rparr>"

definition FRAUD_TRIAGE :: "(pyval \<Rightarrow> string) \<Rightarrow> triage_world \<Rightarrow> operation" where
  "FRAUD_TRIAGE sha256_json w =
     \<lparr>op_execute = fraud_execute w, op_prepare = prepare_fraud,
      op_payload_schema = [(''fraud_alert_id'', One T_str), (''disputed_authorization_ids'', One T_list),
        (''disputed_transaction_ids'', One T_list), (''issue_replacement'', One T_bool), (''escalate'', One T_bool),
        (''money_facts'', One T_list), (''card_last_four'', One T_str)],
      op_input_schema = [(''fraud_alert_id'', One T_str), (''issue_replacement'', One T_bool), (''escalate'', One T_bool),
        (''disputed_authorization_ids'', AnyOf [T_list, T_NoneType]), (''disputed_transaction_ids'', AnyOf [T_list, T_NoneType])],
      op_parameters = [], op_literal_bindings = [], op_template_fields = [],
      op_public_fields = [''fraud_alert_id'', ''disputed_authorization_ids'', ''disputed_transaction_ids'',
        ''issue_replacement'', ''escalate'', ''money_facts'', ''card_last_four''],
      op_required_facts = [''card_last_four'', ''proposed_disposition'', ''replacement_and_escalation_consequences'',
        ''reviewed_activity_selection''],
      op_public_input_schema = Some [(''fraud_alert_id'', One T_str), (''selection_status'', One T_str),
        (''disputed_authorization_ids'', One T_list), (''disputed_transaction_ids'', One T_list),
        (''recognized_authorization_ids'', One T_list), (''recognized_transaction_ids'', One T_list),
        (''issue_replacement'', One T_bool), (''escalate'', One T_bool)],
      op_normalize_public_inputs = public_fraud_inputs sha256_json,
      op_normalize_business_inputs = fraud_business_inputs, op_validate = fraud_validate_current_preconditions,
      op_reconcile = fraud_reconcile, op_started = default_record_commit_started, op_committed = default_record_committed,
      op_reconciled = default_record_reconciled, op_pending = fraud_commit_pending_message\<rparr>"

end
