(* ===== verification/Counteroffers.thy ===== *)
theory Counteroffers
  imports Decisioning
begin

text \<open>
  The typed payloads of the tiered credit-limit flow and the link of a counteroffer to the decision that offered it
  (second half of \<^verbatim>\<open>services/proposal_definitions.py\<close>), with the contracts that declare the two payloads
  (\<^verbatim>\<open>config/decision_proposal_contracts\<close>).
\<close>

section \<open>Consent payload\<close>

record consent_payload =
  cy_account_id :: string
  cy_inquiry_type :: inquiry
  cy_disclosure_version :: string
  cy_score_impact :: string
  cy_origin_request_ref :: string

definition score_impact_of :: "inquiry \<Rightarrow> string" where
  "score_impact_of t = (if t = SOFT then ''NONE'' else ''MAY_AFFECT_SCORE'')"

definition consent_payload_ok :: "consent_payload \<Rightarrow> bool" where
  "consent_payload_ok c =
     (account_uuid (cy_account_id c) \<and> disclosure_version (cy_disclosure_version c) \<and> hex64 (cy_origin_request_ref c)
     \<and> cy_score_impact c = score_impact_of (cy_inquiry_type c)
     \<and> is_prefix_of (tier_name (cy_inquiry_type c) @ ''-'') (cy_disclosure_version c))"

definition consent_payload_validate :: "pyval \<Rightarrow> consent_payload res" where
  "consent_payload_validate v =
     bindR (closed [''account_id'', ''inquiry_type'', ''disclosure_version'', ''score_impact'', ''origin_request_ref''] [] v) (\<lambda>kvs.
     bindR (field kvs ''account_id'' plain_text) (\<lambda>account_id.
     bindR (field kvs ''inquiry_type'' (literal (spelled inquiry_text CONSENTED_INQUIRIES))) (\<lambda>inquiry_type.
     bindR (field kvs ''disclosure_version'' plain_text) (\<lambda>disclosure.
     bindR (field kvs ''score_impact'' (literal [(''NONE'', ''NONE''), (''MAY_AFFECT_SCORE'', ''MAY_AFFECT_SCORE'')])) (\<lambda>impact.
     bindR (field kvs ''origin_request_ref'' plain_text) (\<lambda>request_ref.
       coherent consent_payload_ok \<lparr>cy_account_id = account_id, cy_inquiry_type = inquiry_type,
         cy_disclosure_version = disclosure, cy_score_impact = impact, cy_origin_request_ref = request_ref\<rparr>))))))"

section \<open>Counteroffer payload\<close>

definition INSTANT_APPROVAL_SEMANTICS :: string where
  "INSTANT_APPROVAL_SEMANTICS = ''DEMO_APPROVED_ON_CONFIRMATION''"

record counteroffer_payload =
  co_account_id :: string
  co_current_limit :: money
  co_proposed_limit :: money
  co_increase_amount :: money
  co_origin :: counteroffer_origin
  co_bank_decision :: bank_decision
  co_decision_request :: limit_request
  co_approval_semantics :: string

text \<open>\<open>bound_to_origin_and_own_decision\<close>: the first of its three guards that refuses.\<close>

definition counteroffer_payload_ok :: "counteroffer_payload \<Rightarrow> bool" where
  "counteroffer_payload_ok c =
     (let q = co_decision_request c; d = co_bank_decision c;
          increase = amount_minor (co_increase_amount c) in
      account_uuid (co_account_id c)
      \<and> \<not> (length (remdups (map currency_code [co_current_limit c, co_proposed_limit c, co_increase_amount c])) \<noteq> 1
          \<or> increase \<noteq> amount_minor (co_proposed_limit c) - amount_minor (co_current_limit c) \<or> increase \<le> 0)
      \<and> \<not> (dr_origin q \<noteq> Some (co_origin c) \<or> dr_requested_limit q \<noteq> co_proposed_limit c
          \<or> cf_account_id (dr_facts q) \<noteq> co_account_id c
          \<or> cf_current_limit_minor (dr_facts q) \<noteq> amount_minor (co_current_limit c))
      \<and> \<not> (bd_outcome d \<noteq> APPROVED \<or> bd_approved_limit d \<noteq> Some (co_proposed_limit c)
          \<or> bd_request_ref d \<noteq> dr_request_ref q))"

definition counteroffer_payload_validate :: "pyval \<Rightarrow> counteroffer_payload res" where
  "counteroffer_payload_validate v =
     bindR (closed [''account_id'', ''current_limit'', ''proposed_limit'', ''increase_amount'', ''origin'', ''bank_decision'',
       ''decision_request'', ''approval_semantics''] [] v) (\<lambda>kvs.
     bindR (field kvs ''account_id'' plain_text) (\<lambda>account_id.
     bindR (field kvs ''current_limit'' money_validate) (\<lambda>current.
     bindR (field kvs ''proposed_limit'' money_validate) (\<lambda>proposed.
     bindR (field kvs ''increase_amount'' money_validate) (\<lambda>increase.
     bindR (field kvs ''origin'' origin_validate) (\<lambda>origin.
     bindR (field kvs ''bank_decision'' decision_validate) (\<lambda>decision.
     bindR (field kvs ''decision_request'' request_validate) (\<lambda>q.
     bindR (field kvs ''approval_semantics'' (literal [(INSTANT_APPROVAL_SEMANTICS, INSTANT_APPROVAL_SEMANTICS)])) (\<lambda>semantics.
       coherent counteroffer_payload_ok \<lparr>co_account_id = account_id, co_current_limit = current, co_proposed_limit = proposed,
         co_increase_amount = increase, co_origin = origin, co_bank_decision = decision, co_decision_request = q,
         co_approval_semantics = semantics\<rparr>)))))))))"

text \<open>
  \<open>validate_counteroffer_origin\<close>: the payload, the origin's request and its decision must fit together.
  The origin decision arrives as its wire form.
\<close>

definition validate_counteroffer_origin ::
    "pyval \<Rightarrow> pyval \<Rightarrow> pyval \<Rightarrow> decision_policy \<Rightarrow> int \<Rightarrow> tier_config option \<Rightarrow> counteroffer_payload res" where
  "validate_counteroffer_origin payload origin_decision origin_request policy now config =
     bindR (counteroffer_payload_validate payload) (\<lambda>c.
     bindR (request_validate origin_request) (\<lambda>oq.
     bindR (validate_decision origin_decision oq policy now config) (\<lambda>d.
     let origin = co_origin c; q = co_decision_request c in
     if bd_outcome d \<noteq> COUNTEROFFER \<or> binding_ref d \<noteq> oo_origin_decision_ref origin
       \<or> dr_request_ref oq \<noteq> oo_origin_request_ref origin \<or> dr_requested_limit oq \<noteq> oo_origin_requested_limit origin
       \<or> bd_approved_limit d \<noteq> Some (co_proposed_limit c)
     then Inl (ValueError ''Counteroffer is not linked to its originating decision.'')
     else if dr_scope_ref oq \<noteq> dr_scope_ref q \<or> cf_account_id (dr_facts oq) \<noteq> co_account_id c
     then Inl (ValueError ''Counteroffer origin belongs to another scope or account.'')
     else Inr c)))"

section \<open>Contracts\<close>

record decision_contract =
  dk_id :: string
  dk_revision :: int
  dk_action_type :: string
  dk_contract_version :: string
  dk_payload_fields :: "string list"
  dk_public_payload_fields :: "string list"
  dk_required_facts :: "string list"

text \<open>\<open>DECISION_PAYLOAD_MODELS\<close>: the fields of the typed payload of an action type.\<close>

definition DECISION_PAYLOAD_MODELS :: "(string \<times> string list) list" where
  "DECISION_PAYLOAD_MODELS =
     [(''CREDIT_INQUIRY_CONSENT'', [''account_id'', ''inquiry_type'', ''disclosure_version'', ''score_impact'', ''origin_request_ref'']),
      (''CREDIT_LIMIT_COUNTEROFFER'', [''account_id'', ''current_limit'', ''proposed_limit'', ''increase_amount'', ''origin'',
         ''bank_decision'', ''decision_request'', ''approval_semantics''])]"

definition is_lower :: "char \<Rightarrow> bool" where
  "is_lower c = (let n = of_char c :: nat in 97 \<le> n \<and> n \<le> 122)"

definition lower_digit_dash :: "char \<Rightarrow> bool" where
  "lower_digit_dash c = (is_lower c \<or> is_digit c \<or> c = CHR ''-'')"

definition contract_id_text :: "string \<Rightarrow> bool" where
  "contract_id_text s = (s \<noteq> [] \<and> length s \<le> 128 \<and> list_all lower_digit_dash s)"

definition action_type_text :: "string \<Rightarrow> bool" where
  "action_type_text s = (s \<noteq> [] \<and> length s \<le> 64 \<and> list_all (\<lambda>c. is_upper c \<or> c = CHR ''_'') s)"

text \<open>\<open>^[a-z0-9-]+\.v[1-9][0-9]{0,3}$\<close>\<close>

definition contract_version_text :: "string \<Rightarrow> bool" where
  "contract_version_text s =
     (let name = takeWhile (\<lambda>c. c \<noteq> CHR ''.'') s; tail = dropWhile (\<lambda>c. c \<noteq> CHR ''.'') s; digits = drop 2 tail in
      length s \<le> 32 \<and> name \<noteq> [] \<and> list_all lower_digit_dash name \<and> take 2 tail = ''.v''
      \<and> digits \<noteq> [] \<and> length digits \<le> 4 \<and> list_all is_digit digits \<and> hd digits \<noteq> CHR ''0'')"

definition bounded_fields :: "string list \<Rightarrow> bool" where
  "bounded_fields fs = (fs \<noteq> [] \<and> length fs \<le> 32)"

definition contract_ok :: "decision_contract \<Rightarrow> bool" where
  "contract_ok k =
     (contract_id_text (dk_id k) \<and> 1 \<le> dk_revision k \<and> action_type_text (dk_action_type k)
     \<and> contract_version_text (dk_contract_version k)
     \<and> bounded_fields (dk_payload_fields k) \<and> bounded_fields (dk_public_payload_fields k) \<and> bounded_fields (dk_required_facts k)
     \<and> (case map_of DECISION_PAYLOAD_MODELS (dk_action_type k) of
          None \<Rightarrow> False | Some names \<Rightarrow> set (dk_payload_fields k) = set names)
     \<and> distinct (dk_payload_fields k) \<and> distinct (dk_public_payload_fields k) \<and> distinct (dk_required_facts k)
     \<and> set (dk_required_facts k) \<subseteq> set (dk_public_payload_fields k)
     \<and> set (dk_public_payload_fields k) \<subseteq> set (dk_payload_fields k)
     \<and> is_prefix_of (dk_id k @ ''.v'') (dk_contract_version k))"

definition contract_validate :: "pyval \<Rightarrow> decision_contract res" where
  "contract_validate v =
     bindR (closed [''schema_version'', ''id'', ''revision'', ''action_type'', ''contract_version'', ''status'', ''authorization_policy'',
       ''payload_fields'', ''public_payload_fields'', ''required_facts''] [] v) (\<lambda>kvs.
     bindR (field kvs ''schema_version'' strict_int) (\<lambda>version.
     if version \<noteq> 1 then Inl (ValidationError ''schema_version'') else
     bindR (field kvs ''id'' plain_text) (\<lambda>i.
     bindR (field kvs ''revision'' strict_int) (\<lambda>revision.
     bindR (field kvs ''action_type'' plain_text) (\<lambda>action_type.
     bindR (field kvs ''contract_version'' plain_text) (\<lambda>contract_version.
     bindR (field kvs ''status'' (literal [(''CONTRACT_ONLY'', ())])) (\<lambda>_.
     bindR (field kvs ''authorization_policy'' (literal [(''general_acknowledgment.v1'', ())])) (\<lambda>_.
     bindR (field kvs ''payload_fields'' (tuple_of plain_text)) (\<lambda>payload_fields.
     bindR (field kvs ''public_payload_fields'' (tuple_of plain_text)) (\<lambda>public_fields.
     bindR (field kvs ''required_facts'' (tuple_of plain_text)) (\<lambda>required.
       coherent contract_ok \<lparr>dk_id = i, dk_revision = revision, dk_action_type = action_type, dk_contract_version = contract_version,
         dk_payload_fields = payload_fields, dk_public_payload_fields = public_fields, dk_required_facts = required\<rparr>)))))))))))"

text \<open>\<open>load_decision_proposal_contracts\<close>: the files as names with documents, sorted by name.\<close>

fun load_contracts :: "(string \<times> pyval) list \<Rightarrow> (string \<times> decision_contract) list \<Rightarrow> (string \<times> decision_contract) list res" where
  "load_contracts [] contracts = Inr contracts"
| "load_contracts ((name, document) # files) contracts =
     bindR (contract_validate document) (\<lambda>k.
     if name \<noteq> dk_id k @ ''.v'' @ show_int (dk_revision k) @ ''.json''
     then Inl (ValueError ''Contract file name must match its identity.'')
     else if map_of contracts (dk_id k) \<noteq> None
     then Inl (ValueError ''Each contract id must be declared exactly once.'')
     else load_contracts files (contracts @ [(dk_id k, k)]))"

definition load_decision_proposal_contracts :: "(string \<times> pyval) list \<Rightarrow> (string \<times> decision_contract) list res" where
  "load_decision_proposal_contracts files = load_contracts (sort_key fst files) []"

section \<open>A counteroffer is bound to its origin\<close>

lemma field_E:
  assumes "bindR (field kvs k reader) f = Inr y"
  obtains v x where "map_of kvs k = Some v" "reader v = Inr x" "f x = Inr y"
  using assms by (auto simp: field_def split: option.splits)

lemma counteroffer_payload_fields:
  assumes "counteroffer_payload_validate v = Inr c"
  shows "counteroffer_payload_ok c \<and> request_ok (co_decision_request c) \<and> decision_ok (co_bank_decision c)"
  using assms unfolding counteroffer_payload_validate_def
  by (elim bindR_E [of "closed _ _ _"] field_E)
    (auto dest: request_wire.validate_ok decision_wire.validate_ok simp del: bindR_Inr_iff)

lemma linked_counteroffer:
  assumes "validate_counteroffer_origin payload od oq policy now config = Inr c"
  obtains q d where "counteroffer_payload_validate payload = Inr c" "request_validate oq = Inr q"
    "validate_decision od q policy now config = Inr d" "bd_outcome d = COUNTEROFFER"
    "binding_ref d = oo_origin_decision_ref (co_origin c)" "dr_request_ref q = oo_origin_request_ref (co_origin c)"
    "dr_requested_limit q = oo_origin_requested_limit (co_origin c)" "bd_approved_limit d = Some (co_proposed_limit c)"
    "dr_scope_ref q = dr_scope_ref (co_decision_request c)" "cf_account_id (dr_facts q) = co_account_id c"
  using assms by (auto simp: validate_counteroffer_origin_def Let_def split: if_splits)

text \<open>C11. An accepted counteroffer payload is bound to the decision that offered it: its own receipt approves exactly the
  proposed limit for a request that names the origin's request, decision and amount; the origin's receipt is a fresh
  COUNTEROFFER of exactly the proposed limit, under the policy in force, for a request of the same scope and account
  that was not itself a counteroffer; the proposed limit lies strictly between the current limit and the amount first asked for, and the
  increase is the difference.\<close>

theorem counteroffer_is_bound:
  assumes "validate_counteroffer_origin payload od oq policy now config = Inr c"
  shows "\<exists>q d. request_validate oq = Inr q \<and> decision_validate od = Inr d
    \<and> bd_outcome d = COUNTEROFFER \<and> bd_approved_limit d = Some (co_proposed_limit c) \<and> bd_policy d = policy \<and> bd_evaluated_at d \<le> now \<and> now < bd_expires_at d
    \<and> bd_request_ref d = dr_request_ref q \<and> dr_origin q = None
    \<and> dr_scope_ref (co_decision_request c) = dr_scope_ref q \<and> cf_account_id (dr_facts q) = co_account_id c
    \<and> dr_origin (co_decision_request c) = Some \<lparr>oo_origin_request_ref = dr_request_ref q,
         oo_origin_decision_ref = binding_ref d, oo_origin_requested_limit = dr_requested_limit q\<rparr>
    \<and> bd_outcome (co_bank_decision c) = APPROVED \<and> bd_approved_limit (co_bank_decision c) = Some (co_proposed_limit c)
    \<and> bd_request_ref (co_bank_decision c) = dr_request_ref (co_decision_request c)
    \<and> amount_minor (co_current_limit c) < amount_minor (co_proposed_limit c)
    \<and> amount_minor (co_proposed_limit c) < amount_minor (dr_requested_limit q)
    \<and> amount_minor (co_increase_amount c) = amount_minor (co_proposed_limit c) - amount_minor (co_current_limit c)"
proof -
  obtain q d where l: "counteroffer_payload_validate payload = Inr c" "request_validate oq = Inr q"
    "validate_decision od q policy now config = Inr d" "bd_outcome d = COUNTEROFFER"
    "binding_ref d = oo_origin_decision_ref (co_origin c)" "dr_request_ref q = oo_origin_request_ref (co_origin c)"
    "dr_requested_limit q = oo_origin_requested_limit (co_origin c)" "bd_approved_limit d = Some (co_proposed_limit c)"
    "dr_scope_ref q = dr_scope_ref (co_decision_request c)" "cf_account_id (dr_facts q) = co_account_id c"
    using assms by (rule linked_counteroffer)
  note v = validate_decision_parts [OF l(3)]
  have counter: "dr_origin q = None" "amount_minor (co_proposed_limit c) < amount_minor (dr_requested_limit q)"
    using v(8) l(4,8) by (auto simp: counteroffer_error_def Let_def split: option.splits if_splits)
  have "counteroffer_payload_ok c" using counteroffer_payload_fields [OF l(1)] by blast
  then have own: "dr_origin (co_decision_request c) = Some (co_origin c)" "bd_outcome (co_bank_decision c) = APPROVED"
    "bd_approved_limit (co_bank_decision c) = Some (co_proposed_limit c)"
    "bd_request_ref (co_bank_decision c) = dr_request_ref (co_decision_request c)"
    "amount_minor (co_current_limit c) < amount_minor (co_proposed_limit c)"
    "amount_minor (co_increase_amount c) = amount_minor (co_proposed_limit c) - amount_minor (co_current_limit c)"
    by (auto simp: counteroffer_payload_ok_def Let_def)
  have link: "dr_origin (co_decision_request c) = Some \<lparr>oo_origin_request_ref = dr_request_ref q,
      oo_origin_decision_ref = binding_ref d, oo_origin_requested_limit = dr_requested_limit q\<rparr>"
    unfolding own(1) l(5,6,7) by simp
  show ?thesis
    by (intro exI [of _ q] exI [of _ d] conjI l(2,4,8,10) v(2,3,9,10,12) counter link l(9) [symmetric] own(2-))
qed

section \<open>A sample counteroffer\<close>

definition sample_counter :: bank_decision where
  "sample_counter = receipt sample_decision_world sample_policy (sample_request 900000) COUNTEROFFER
     (Some \<lparr>amount_minor = 650000, currency_code = ''USD''\<rparr>) [COUNTEROFFER_AVAILABLE] (Some NO_INQUIRY)
     (Some \<lparr>ct_origin_request_ref = dr_request_ref (sample_request 900000),
            ct_requested_limit = \<lparr>amount_minor = 900000, currency_code = ''USD''\<rparr>\<rparr>)
     (Some \<lparr>rf_reason_code = COUNTEROFFER_AVAILABLE, rf_retryable = False,
        rf_current_limit = \<lparr>amount_minor = 500000, currency_code = ''USD''\<rparr>,
        rf_product_maximum = \<lparr>amount_minor = 2000000, currency_code = ''USD''\<rparr>,
        rf_max_instantly_approvable = \<lparr>amount_minor = 650000, currency_code = ''USD''\<rparr>,
        rf_soft_tier_cap = \<lparr>amount_minor = 750000, currency_code = ''USD''\<rparr>, rf_product_name = ''Gold'',
        rf_next_steps = [ACCEPT_COUNTEROFFER, SPECIALIST_REVIEW], rf_retry_after = None\<rparr>)"

definition sample_origin :: counteroffer_origin where
  "sample_origin = \<lparr>oo_origin_request_ref = dr_request_ref (sample_request 900000), oo_origin_decision_ref = binding_ref sample_counter,
     oo_origin_requested_limit = \<lparr>amount_minor = 900000, currency_code = ''USD''\<rparr>\<rparr>"

definition sample_follow_up :: limit_request where
  "sample_follow_up = (sample_request 650000)\<lparr>dr_request_ref := sample_hash CHR ''4'', dr_origin := Some sample_origin\<rparr>"

definition sample_follow_up_receipt :: bank_decision where
  "sample_follow_up_receipt = receipt sample_decision_world sample_policy sample_follow_up APPROVED
     (Some \<lparr>amount_minor = 650000, currency_code = ''USD''\<rparr>) [APPROVED_BY_POLICY] (Some NO_INQUIRY) None None"

definition sample_counteroffer_value :: pyval where
  "sample_counteroffer_value = PDict
     [(''account_id'', PStr (cf_account_id sample_facts)),
      (''current_limit'', model_dump \<lparr>amount_minor = 500000, currency_code = ''USD''\<rparr>),
      (''proposed_limit'', model_dump \<lparr>amount_minor = 650000, currency_code = ''USD''\<rparr>),
      (''increase_amount'', model_dump \<lparr>amount_minor = 150000, currency_code = ''USD''\<rparr>),
      (''bank_decision'', decision_dump sample_follow_up_receipt), (''decision_request'', request_dump sample_follow_up),
      (''approval_semantics'', PStr INSTANT_APPROVAL_SEMANTICS), (''origin'', origin_dump sample_origin)]"

lemma sample_counteroffer_runs:
  "\<not> isl (validate_counteroffer_origin sample_counteroffer_value (decision_dump sample_counter) (request_dump (sample_request 900000))
     sample_policy (1000 * DAY) (Some DEMO_TIERS))"
  by code_simp

theorem counteroffer_is_bound_witness:
  "\<exists>c. validate_counteroffer_origin sample_counteroffer_value (decision_dump sample_counter) (request_dump (sample_request 900000))
       sample_policy (1000 * DAY) (Some DEMO_TIERS) = Inr c
     \<and> amount_minor (co_current_limit c) < amount_minor (co_proposed_limit c)"
proof -
  obtain c where c: "validate_counteroffer_origin sample_counteroffer_value (decision_dump sample_counter)
      (request_dump (sample_request 900000)) sample_policy (1000 * DAY) (Some DEMO_TIERS) = Inr c"
    using sample_counteroffer_runs by (auto simp: isl_def) (metis sum.exhaust)
  then show ?thesis using counteroffer_is_bound [OF c] by blast
qed

end
