(* ===== verification/Credit_Limit_Offers.thy ===== *)
theory Credit_Limit_Offers
  imports Banking_Operations Counteroffers
begin

text \<open>
  Preparing a credit-limit offer (\<^verbatim>\<open>services/proposal_capabilities.py\<close>, \<open>credit_limit_facts\<close> to
  \<open>prepare_credit_limit\<close>): the facts the policy is evaluated on, the customer's signals, the search for a
  counteroffer made earlier in the same session, the notice that goes with a refusal, and the offer itself.

  The decisioning provider is the record \<open>decisioning\<close>: the code takes it as an argument, so what it answers is
  not assumed to be anything.  The clock is read again at every step; each reading has a name.
\<close>

section \<open>The provider as the capability sees it\<close>

datatype reading = AT_START | AT_ORIGIN_ROW nat | AT_CHECK | AT_ORIGIN | AT_BUREAU | AT_LOCKS | AT_LOCKS_BUREAU

text \<open>
  \<open>dc_policy\<close>: loading the provider and reading its current policy, \<open>dc_tier_config\<close>: \<open>_tier_config\<close>,
  \<open>dc_evaluate\<close>: \<open>_provider_evaluate\<close>, whose answer is a receipt on the wire, \<open>dc_clock\<close>: \<open>_clock\<close>.
\<close>

record decisioning =
  dc_policy :: "decision_policy res"
  dc_tier_config :: "tier_config res"
  dc_evaluate :: "limit_request \<Rightarrow> credit_signals \<Rightarrow> pyval res"
  dc_clock :: "reading \<Rightarrow> int"

text \<open>The provider of \<^verbatim>\<open>services/decisioning.py\<close>.\<close>

definition demo_decisioning :: "decision_world \<Rightarrow> provider \<Rightarrow> (reading \<Rightarrow> int) \<Rightarrow> decisioning" where
  "demo_decisioning w pv clock =
     \<lparr>dc_policy = Inr (pv_policy pv), dc_tier_config = Inr (pv_tier_config pv),
      dc_evaluate = (\<lambda>q s. bindR (evaluate w pv q (Some s)) (\<lambda>d. Inr (decision_dump d))), dc_clock = clock\<rparr>"

section \<open>Facts and signals\<close>

definition usd_limit_text :: "money \<Rightarrow> string" where
  "usd_limit_text m = ''$'' @ (if is_prefix_of ''USD '' (display_text m) then drop 4 (display_text m) else display_text m)"

definition opt_bool :: "bool option \<Rightarrow> pyval" where
  "opt_bool v = (case v of None \<Rightarrow> PNone | Some b \<Rightarrow> PBool b)"

definition credit_limit_facts :: "credit_account \<Rightarrow> credit_product option \<Rightarrow> (string \<times> pyval) list" where
  "credit_limit_facts account product =
     [(''account_id'', PStr (ca_id account)), (''account_status'', PStr (ca_status account)),
      (''currency_code'', PStr (ca_currency account)), (''product_code'', PStr (ca_product_code account)),
      (''current_limit_minor'', PInt (ca_credit_limit_cents account)),
      (''product_active'', opt_bool (map_option cp_is_active product)),
      (''minimum_limit_minor'', opt_int (map_option cp_min_credit_limit_cents product)),
      (''maximum_limit_minor'', opt_int (map_option cp_max_credit_limit_cents product))]"

definition credit_limit_arithmetic :: "credit_account \<Rightarrow> int \<Rightarrow> (string \<times> pyval) list" where
  "credit_limit_arithmetic account amount =
     [(''available_credit_minor'', PInt (ca_available_credit_cents account)),
      (''projected_available_credit_minor'',
         PInt (ca_available_credit_cents account + amount - ca_credit_limit_cents account))]"

definition CONSENT_APPROVAL_SEMANTICS :: "inquiry \<Rightarrow> string option" where
  "CONSENT_APPROVAL_SEMANTICS t =
     (case t of SOFT \<Rightarrow> Some ''SOFT_INQUIRY_CONSENT_ON_CONFIRMATION'' | HARD \<Rightarrow> Some ''HARD_INQUIRY_CONSENT_ON_CONFIRMATION''
      | NO_INQUIRY \<Rightarrow> None)"

definition ADVERSE_ACTION_OUTCOMES :: "outcome list" where
  "ADVERSE_ACTION_OUTCOMES = [DECLINED, COUNTEROFFER]"

text \<open>\<open>_late_payment\<close>.\<close>

definition late_payment :: "credit_account \<Rightarrow> int \<Rightarrow> bool" where
  "late_payment account now =
     (case ca_payment_due_date account of
        None \<Rightarrow> False
      | Some due \<Rightarrow> due < now \<and> (case ca_last_payment_date account of None \<Rightarrow> True | Some paid \<Rightarrow> paid < due))"

text \<open>\<open>credit_signals\<close>; a missing product has no name to read.\<close>

definition credit_signals_of :: "string \<Rightarrow> credit_account \<Rightarrow> credit_product option \<Rightarrow> int \<Rightarrow> bank_db \<Rightarrow> credit_signals res" where
  "credit_signals_of customer_id account product now d =
     bindR (one_or_none (\<lambda>r. uc_user_id r = customer_id) (d_profiles d)) (\<lambda>profile.
     bindR (case profile of None \<Rightarrow> Inr None
            | Some p \<Rightarrow> bindR (from_legacy_usd (uc_stated_annual_income_cents p)) (\<lambda>m. Inr (Some (max 0 (amount_minor m))))) (\<lambda>income.
     case product of
       None \<Rightarrow> Inl (TypeError ''product_name'')
     | Some pr \<Rightarrow> coherent signals_ok
         \<lparr>cs_credit_score = map_option uc_credit_score profile, cs_credit_tier = map_option uc_credit_tier profile,
          cs_annual_income_minor = income,
          cs_income_confirmed_at = (case profile of None \<Rightarrow> None | Some p \<Rightarrow> uc_income_confirmed_at p),
          cs_opened_at = ca_opened_at account, cs_last_limit_increase_at = ca_last_limit_increase_at account,
          cs_balance_minor = ca_cleared_balance_cents account, cs_late_payment = late_payment account now,
          cs_product_name = cp_product_name pr\<rparr>))"

section \<open>Consent\<close>

text \<open>\<open>derive_inquiry_consent\<close>: from the recorded confirmation of the consent offer alone.\<close>

definition derive_inquiry_consent ::
    "proposal_world \<Rightarrow> action_proposal \<Rightarrow> limit_request \<Rightarrow> inquiry option \<Rightarrow> tier_config \<Rightarrow> inquiry_consent res" where
  "derive_inquiry_consent w p q inquiry_type config =
     (case inquiry_type of
        None \<Rightarrow> Inl (ValueError ''No bank-recorded consent confirmation for this inquiry.'')
      | Some t \<Rightarrow>
          if CONSENT_APPROVAL_SEMANTICS t = None
            \<or> dict_get (action_payload p) ''approval_semantics'' \<noteq> opt_str (CONSENT_APPROVAL_SEMANTICS t)
            \<or> blank (pp_confirmation_customer_turn_id p)
            \<or> (case pp_confirmation_evidence p of None \<Rightarrow> True | Some e \<Rightarrow> e = [])
            \<or> pp_confirmed_at p = None
          then Inl (ValueError ''No bank-recorded consent confirmation for this inquiry.'')
          else (let disclosure = disclosure_of (policy_for config (cf_product_code (dr_facts q))) t
                in bindR (consent_evidence_ref w
                     [(''runtime_session_id'', PStr (tm_runtime_session_id (pp_terms p))),
                      (''inquiry_consent'', PDict [(''inquiry_type'', PStr (inquiry_text t)),
                         (''disclosure_version'', PStr disclosure),
                         (''consent_turn_id'', opt_str (pp_confirmation_customer_turn_id p))])]
                     (PStr (dr_request_ref q))) (\<lambda>consent_ref.
                   coherent consent_ok \<lparr>qc_inquiry_type = t, qc_disclosure_version = disclosure, qc_consent_ref = consent_ref\<rparr>)))"

text \<open>\<open>_with_consent\<close>.\<close>

definition with_consent :: "limit_request \<Rightarrow> inquiry_consent \<Rightarrow> limit_request res" where
  "with_consent q c = coherent request_ok (q\<lparr>dr_inquiry_consent := Some c\<rparr>)"

section \<open>The counteroffer made earlier\<close>

definition in_context :: "(string \<times> pyval) list \<Rightarrow> action_proposal \<Rightarrow> bool" where
  "in_context scope p =
     (let t = pp_terms p; get = dict_get (PDict scope) in
      PStr (tm_support_session_id t) = get ''support_session_id'' \<and> PStr (tm_runtime_name t) = get ''runtime_name''
      \<and> PStr (tm_runtime_session_id t) = get ''runtime_session_id'' \<and> PStr (tm_reset_generation t) = get ''reset_generation'')"

text \<open>Newest first, at most five; rows without a completion time come first, as in a descending SQL order.\<close>

definition counteroffer_rows ::
    "string \<Rightarrow> string \<Rightarrow> (string \<times> pyval) list \<Rightarrow> action_proposal list \<Rightarrow> action_proposal list" where
  "counteroffer_rows customer_id account_id scope rows =
     (let found = filter (\<lambda>p. tm_customer_id (pp_terms p) = customer_id \<and> tm_account_id (pp_terms p) = Some account_id
            \<and> in_context scope p \<and> tm_action_type (pp_terms p) = ''CREDIT_LIMIT_INCREASE''
            \<and> pp_status p = INVALIDATED \<and> pp_invalidation_reason p = Some ''COUNTEROFFER_AVAILABLE'') rows
      in take 5 (filter (\<lambda>p. pp_completed_at p = None) found
           @ sort_key (\<lambda>p. - the (pp_completed_at p)) (filter (\<lambda>p. pp_completed_at p \<noteq> None) found)))"

record origin_search =
  os_scope :: "(string \<times> pyval) list"
  os_policy :: decision_policy
  os_tier_config :: tier_config
  os_signals :: credit_signals
  os_now :: int
  os_requested :: "money option"
  os_origin_request_ref :: "string option"
  os_within_ttl :: bool

definition recent_enough :: "origin_search \<Rightarrow> action_proposal \<Rightarrow> bool" where
  "recent_enough s p =
     (\<not> (os_within_ttl s \<and> (case pp_completed_at p of None \<Rightarrow> True
        | Some t \<Rightarrow> t < os_now s - dp_approval_ttl_seconds (os_policy s) * 1000000)))"

text \<open>The body of the \<open>try\<close> for the \<open>i\<close>-th row; \<open>None\<close> is \<open>continue\<close>.\<close>

definition origin_of_row ::
    "proposal_world \<Rightarrow> decision_world \<Rightarrow> decisioning \<Rightarrow> origin_search \<Rightarrow> nat \<Rightarrow> action_proposal
     \<Rightarrow> (limit_request \<times> bank_decision) option res" where
  "origin_of_row w dw dc s i p =
     bindR (request_validate (dict_get (action_payload p) ''decision_request'')) (\<lambda>origin_request.
     if os_origin_request_ref s \<noteq> None \<and> os_origin_request_ref s \<noteq> Some (dr_request_ref origin_request)
       \<or> dr_signals_ref origin_request \<noteq> Some (signals_ref (dw_digest dw) (os_signals s))
     then Inr None
     else
       bindR (decision_validate (dict_get (action_payload p) ''bank_decision'')) (\<lambda>pinned.
       bindR (derive_inquiry_consent w p origin_request (bd_inquiry_type pinned) (os_tier_config s)) (\<lambda>consent.
       bindR (with_consent origin_request consent) (\<lambda>bureau_request.
       bindR (dc_evaluate dc bureau_request (os_signals s)) (\<lambda>returned.
       bindR (validate_decision returned bureau_request (os_policy s) (dc_clock dc (AT_ORIGIN_ROW i)) (Some (os_tier_config s))) (\<lambda>d.
       if bd_outcome d = COUNTEROFFER \<and> (os_requested s = None \<or> bd_approved_limit d = os_requested s)
       then Inr (Some (bureau_request, d)) else Inr None))))))"

fun first_origin ::
    "proposal_world \<Rightarrow> decision_world \<Rightarrow> decisioning \<Rightarrow> origin_search \<Rightarrow> nat \<Rightarrow> action_proposal list
     \<Rightarrow> (limit_request \<times> bank_decision) option" where
  "first_origin w dw dc s i [] = None"
| "first_origin w dw dc s i (p # ps) =
     (if \<not> recent_enough s p then first_origin w dw dc s (Suc i) ps
      else (case origin_of_row w dw dc s i p of
              Inr (Some found) \<Rightarrow> Some found
            | _ \<Rightarrow> first_origin w dw dc s (Suc i) ps))"

definition find_counteroffer_origin ::
    "proposal_world \<Rightarrow> decision_world \<Rightarrow> decisioning \<Rightarrow> origin_search \<Rightarrow> string \<Rightarrow> string \<Rightarrow> action_proposal list
     \<Rightarrow> (limit_request \<times> bank_decision) option" where
  "find_counteroffer_origin w dw dc s customer_id account_id rows =
     first_origin w dw dc s 0 (counteroffer_rows customer_id account_id (os_scope s) rows)"

text \<open>\<open>_counteroffer_payload\<close>.\<close>

definition COUNTEROFFER_KEYS :: "string list" where
  "COUNTEROFFER_KEYS = [''account_id'', ''current_limit'', ''proposed_limit'', ''increase_amount'', ''bank_decision'',
     ''decision_request'', ''approval_semantics'']"

definition counteroffer_payload_value :: "(string \<times> pyval) list \<Rightarrow> pyval" where
  "counteroffer_payload_value payload =
     PDict (map (\<lambda>k. (k, dict_get (PDict payload) k)) COUNTEROFFER_KEYS
       @ [(''origin'', dict_get (dict_get (PDict payload) ''decision_request'') ''origin'')])"

section \<open>Notices\<close>

definition ADVERSE_REASONS :: "reason \<Rightarrow> string" where
  "ADVERSE_REASONS code =
     (case code of
        ABOVE_PRODUCT_MAXIMUM \<Rightarrow> ''The requested limit exceeds the maximum credit limit for this card product.''
      | LIMIT_CEILING_EXCEEDED \<Rightarrow> ''Income insufficient for the amount of credit requested.''
      | INCOME_CAP_EXCEEDED \<Rightarrow> ''Income insufficient for the amount of credit requested.''
      | CREDIT_PROFILE_INELIGIBLE \<Rightarrow> ''Length of account relationship or credit profile does not meet our requirements.''
      | COOLING_OFF_ACTIVE \<Rightarrow> ''A credit limit increase was granted recently.''
      | BUREAU_DECLINED \<Rightarrow> ''Information obtained in a report from a consumer reporting agency.''
      | COUNTEROFFER_AVAILABLE \<Rightarrow> ''Information obtained in a report from a consumer reporting agency.''
      | _ \<Rightarrow> ''The request does not meet our credit policy.'')"

definition ECOA_NOTICE :: string where
  "ECOA_NOTICE =
     ''The federal Equal Credit Opportunity Act prohibits creditors from discriminating ''
     @ ''against credit applicants on the basis of race, color, religion, national origin, ''
     @ ''sex, marital status, age (provided the applicant has the capacity to enter into a ''
     @ ''binding contract); because all or part of the applicant's income derives from any ''
     @ ''public assistance program; or because the applicant has in good faith exercised any ''
     @ ''right under the Consumer Credit Protection Act. The federal agency that administers ''
     @ ''compliance with this law concerning this creditor is the Consumer Financial ''
     @ ''Protection Bureau.''"

definition FCRA_NOTICE :: string where
  "FCRA_NOTICE =
     ''Our decision was based in whole or in part on information obtained in a report ''
     @ ''from a consumer reporting agency (simulated for this demonstration). The agency ''
     @ ''did not make this decision and cannot explain why it was made. You have the right ''
     @ ''to obtain a free copy of your report from the agency within 60 days and to dispute ''
     @ ''the accuracy or completeness of any information in it.''"

text \<open>The dash of the subject is U+2014 in UTF-8.\<close>

definition EM_DASH :: string where
  "EM_DASH = [CHR 0xE2, CHR 0x80, CHR 0x94]"

definition consented :: "inquiry option \<Rightarrow> bool" where
  "consented t = (case t of None \<Rightarrow> False | Some i \<Rightarrow> CONSENT_APPROVAL_SEMANTICS i \<noteq> None)"

definition adverse_reasons :: "refusal_facts \<Rightarrow> outcome \<Rightarrow> inquiry option \<Rightarrow> string list" where
  "adverse_reasons r oc t =
     map ADVERSE_REASONS (rf_reason_code r #
       (if oc = COUNTEROFFER \<and> consented t \<and> rf_reason_code r \<noteq> COUNTEROFFER_AVAILABLE then [COUNTEROFFER_AVAILABLE] else []))
     @ (case rf_retry_after r of
          Some day \<Rightarrow> if rf_reason_code r = COOLING_OFF_ACTIVE
            then [''Another increase can be considered on or after '' @ iso_date day @ ''.''] else []
        | None \<Rightarrow> [])"

definition adverse_action_notice ::
    "refusal_facts \<Rightarrow> string \<Rightarrow> outcome \<Rightarrow> int \<Rightarrow> money option \<Rightarrow> inquiry option \<Rightarrow> adverse_notice" where
  "adverse_action_notice r key oc requested offer t =
     (let decision = (case offer of
            Some m \<Rightarrow> if oc = COUNTEROFFER
              then ''We can't approve the amount requested, but we can offer a credit limit of '' @ usd (amount_minor m) @ ''.''
              else ''We can't approve this request.''
          | None \<Rightarrow> ''We can't approve this request.'');
          lines = [''We reviewed your request to increase the credit limit on your '' @ rf_product_name r @ '' card from ''
                     @ usd (amount_minor (rf_current_limit r)) @ '' to '' @ usd requested @ ''.'',
                   decision, ''Principal reason(s): '' @ join_with '' '' (adverse_reasons r oc t)]
            @ (if consented t then [FCRA_NOTICE] else [])
            @ [ECOA_NOTICE, ''This is a demonstration notice; no real credit report was obtained.'']
      in \<lparr>an_key = key, an_subject = ''Credit Limit Request Decision '' @ EM_DASH @ '' '' @ rf_product_name r,
          an_body = join_with (NEWLINE @ NEWLINE) lines\<rparr>)"

definition consent_summary :: "money \<Rightarrow> money \<Rightarrow> inquiry \<Rightarrow> string \<Rightarrow> string \<Rightarrow> string" where
  "consent_summary current proposed t disclosure product_name =
     ''Request an increase of your '' @ product_name @ '' credit limit from '' @ usd_limit_text current @ '' to ''
     @ usd_limit_text proposed @ ''. Confirming authorizes ''
     @ (if t = SOFT then ''a soft credit inquiry, which does not affect your credit score''
        else ''a hard credit inquiry, which may affect your credit score'')
     @ '' (disclosure '' @ disclosure @ ''). If the bank approves after the inquiry, the new limit takes effect immediately; ''
     @ ''otherwise no limit changes and the bank may offer a different amount.''"

section \<open>The offer\<close>

text \<open>What is asked for, on which account, in which preparation context.\<close>

record limit_ask =
  lk_customer_id :: string
  lk_account :: credit_account
  lk_product :: "credit_product option"
  lk_amount :: int
  lk_currency :: string
  lk_context :: "(string \<times> pyval) list"

definition limit_value :: "int \<Rightarrow> string \<Rightarrow> pyval" where
  "limit_value amount currency = PDict [(''amount_minor'', PInt amount), (''currency_code'', PStr currency)]"

definition ask_facts :: "limit_ask \<Rightarrow> (string \<times> pyval) list" where
  "ask_facts k = credit_limit_facts (lk_account k) (lk_product k)"

definition ask_eligibility :: "limit_ask \<Rightarrow> string option" where
  "ask_eligibility k = evaluate_credit_limit (limit_facts_of (lk_account k) (lk_product k)) (lk_amount k) (lk_currency k)"

definition available_in_range :: "credit_account \<Rightarrow> int \<Rightarrow> bool" where
  "available_in_range account amount =
     (let available = ca_available_credit_cents account; delta = amount - ca_credit_limit_cents account
      in - MAX_MINOR \<le> available \<and> available \<le> MAX_MINOR \<and> - MAX_MINOR \<le> available + delta \<and> available + delta \<le> MAX_MINOR)"

definition ask_refusal :: "limit_ask \<Rightarrow> string option" where
  "ask_refusal k =
     (case ask_eligibility k of
        Some reason \<Rightarrow> Some reason
      | None \<Rightarrow> if available_in_range (lk_account k) (lk_amount k) then None else Some ''AVAILABLE_CREDIT_OUT_OF_RANGE'')"

text \<open>The evidence of a refused offer.\<close>

definition ask_evidence ::
    "decision_world \<Rightarrow> limit_ask \<Rightarrow> (string \<times> pyval) list \<Rightarrow> string \<Rightarrow> pyval \<Rightarrow> string option \<Rightarrow> decision_policy option
     \<Rightarrow> limit_request option \<Rightarrow> policy_evidence" where
  "ask_evidence dw k facts reason decision failure policy q =
     \<lparr>pe_policy = CREDIT_LIMIT_POLICY (dw_digest dw), pe_facts = PDict facts,
      pe_requested_limit = limit_value (lk_amount k) (lk_currency k), pe_reason_code = reason, pe_definition = PNone,
      pe_approved_facts = PNone, pe_bank_decision = decision, pe_decision_failure = failure,
      pe_decision_policy = opt_value policy_dump policy, pe_decision_request = opt_value request_dump q\<rparr>"

definition digest_of :: "decision_world \<Rightarrow> pyval \<Rightarrow> string" where
  "digest_of dw v = dw_digest dw (canonical v)"

text \<open>Above the product maximum the refusal comes with the caps and a notice, where they can be computed.\<close>

definition above_maximum ::
    "decision_world \<Rightarrow> decisioning \<Rightarrow> limit_ask \<Rightarrow> string \<Rightarrow> bank_db \<Rightarrow> (refusal_facts \<times> adverse_notice) res" where
  "above_maximum dw dc k reason d =
     bindR (dc_tier_config dc) (\<lambda>config.
     let now = dc_clock dc AT_START in
     bindR (facts_validate (PDict (ask_facts k))) (\<lambda>checked.
     bindR (credit_signals_of (lk_customer_id k) (lk_account k) (lk_product k) now d) (\<lambda>signals.
     let caps = tier_caps checked signals (policy_for config (cf_product_code checked)) now;
         dollars = (\<lambda>v. \<lparr>amount_minor = v, currency_code = ''USD''\<rparr>) in
     bindR (coherent refusal_ok
       \<lparr>rf_reason_code = ABOVE_PRODUCT_MAXIMUM, rf_retryable = False, rf_current_limit = dollars (tk_current caps),
        rf_product_maximum = dollars (tk_product_maximum caps),
        rf_max_instantly_approvable = dollars (tk_max_instantly_approvable caps), rf_soft_tier_cap = dollars (tk_soft_cap caps),
        rf_product_name = (case lk_product k of Some pr \<Rightarrow> cp_product_name pr | None \<Rightarrow> []),
        rf_next_steps = [PRODUCT_UPGRADE, SPECIALIST_REVIEW], rf_retry_after = None\<rparr>) (\<lambda>refusal.
     Inr (refusal, adverse_action_notice refusal
       (digest_of dw (PDict [(''request'', PStr (digest_of dw (PDict (lk_context k)))), (''reason'', PStr reason)]))
       DECLINED (lk_amount k) None None)))))"

definition ineligible :: "decision_world \<Rightarrow> decisioning \<Rightarrow> limit_ask \<Rightarrow> string \<Rightarrow> bank_db \<Rightarrow> failure" where
  "ineligible dw dc k reason d =
     (let high = map_option cp_max_credit_limit_cents (lk_product k);
          found = (if reason = ''PRODUCT_LIMIT_OUT_OF_BOUNDS'' \<and> (case high of Some h \<Rightarrow> lk_amount k > h | None \<Rightarrow> False)
            then (case above_maximum dw dc k reason d of Inr (r, n) \<Rightarrow> Some (r, n) | Inl _ \<Rightarrow> None) else None)
      in policy_error (ask_evidence dw k (ask_facts k @ credit_limit_arithmetic (lk_account k) (lk_amount k)) reason PNone None None None)
           (map_option fst found) (map_option snd found))"

text \<open>The request to the bank, bound to the preparation context by its digests (of key-sorted JSON).\<close>

definition scope_digest :: "decision_world \<Rightarrow> (string \<times> pyval) list \<Rightarrow> string" where
  "scope_digest dw context = digest_of dw (PDict (filter (\<lambda>(key, v). key \<noteq> ''input_fingerprint'') context))"

definition input_digest :: "decision_world \<Rightarrow> pyval \<Rightarrow> pyval \<Rightarrow> pyval \<Rightarrow> string" where
  "input_digest dw facts requested signals =
     digest_of dw (PDict [(''facts'', facts), (''requested_limit'', requested), (''signals_ref'', signals)])"

definition origin_link :: "(limit_request \<times> bank_decision) \<Rightarrow> counteroffer_origin" where
  "origin_link g = \<lparr>oo_origin_request_ref = dr_request_ref (fst g), oo_origin_decision_ref = binding_ref (snd g),
     oo_origin_requested_limit = dr_requested_limit (fst g)\<rparr>"

definition ask_request ::
    "decision_world \<Rightarrow> limit_ask \<Rightarrow> money \<Rightarrow> credit_signals \<Rightarrow> (limit_request \<times> bank_decision) option \<Rightarrow> limit_request res" where
  "ask_request dw k requested signals origin =
     bindR (facts_validate (PDict (ask_facts k))) (\<lambda>facts.
     let ref = signals_ref (dw_digest dw) signals in
     coherent request_ok
       \<lparr>dr_request_ref = digest_of dw (PDict (lk_context k)),
        dr_scope_ref = (case origin of Some g \<Rightarrow> dr_scope_ref (fst g) | None \<Rightarrow> scope_digest dw (lk_context k)),
        dr_input_ref = input_digest dw (PDict (ask_facts k)) (limit_value (lk_amount k) (lk_currency k)) (PStr ref),
        dr_requested_limit = requested, dr_facts = facts, dr_inquiry_consent = None,
        dr_origin = map_option origin_link origin, dr_signals_ref = Some ref\<rparr>)"

text \<open>
  Asking the provider.  An exception at any point ends the preparation with what had been assigned by then:
  the policy and the request.
\<close>

type_synonym asked = "decision_policy option \<times> limit_request option"

record bank_answer =
  ba_policy :: decision_policy
  ba_tier_config :: tier_config
  ba_request :: limit_request
  ba_origin :: "(limit_request \<times> bank_decision) option"
  ba_returned :: pyval

definition or_else :: "'e \<Rightarrow> 'a res \<Rightarrow> 'e + 'a" where
  "or_else e m = (case m of Inl _ \<Rightarrow> Inl e | Inr x \<Rightarrow> Inr x)"

definition ask_provider ::
    "proposal_world \<Rightarrow> decision_world \<Rightarrow> decisioning \<Rightarrow> limit_ask \<Rightarrow> action_proposal list \<Rightarrow> bank_db \<Rightarrow> asked + bank_answer" where
  "ask_provider w dw dc k rows d =
     (let now = dc_clock dc AT_START in
      bindR (or_else (None, None) (credit_signals_of (lk_customer_id k) (lk_account k) (lk_product k) now d)) (\<lambda>signals.
      bindR (or_else (None, None) (mk_money (lk_amount k) (lk_currency k))) (\<lambda>requested.
      bindR (or_else (None, None) (ask_request dw k requested signals None)) (\<lambda>q.
      bindR (or_else (None, Some q) (dc_policy dc)) (\<lambda>policy.
      bindR (or_else (Some policy, Some q) (dc_tier_config dc)) (\<lambda>config.
      let origin = find_counteroffer_origin w dw dc
            \<lparr>os_scope = lk_context k, os_policy = policy, os_tier_config = config, os_signals = signals, os_now = now,
             os_requested = Some requested, os_origin_request_ref = None, os_within_ttl = True\<rparr>
            (lk_customer_id k) (ca_id (lk_account k)) rows in
      bindR (or_else (Some policy, Some q) (if origin = None then Inr q else ask_request dw k requested signals origin)) (\<lambda>q'.
      bindR (or_else (Some policy, Some q') (dc_evaluate dc q' signals)) (\<lambda>returned.
      Inr \<lparr>ba_policy = policy, ba_tier_config = config, ba_request = q', ba_origin = origin, ba_returned = returned\<rparr>))))))))"

definition is_consent_offer :: "limit_request \<Rightarrow> bank_decision \<Rightarrow> bool" where
  "is_consent_offer q dec =
     (bd_outcome dec = NEEDS_INFORMATION \<and> INQUIRY_CONSENT_REQUIRED \<in> set (bd_reason_codes dec)
     \<and> consented (bd_inquiry_type dec) \<and> dr_origin q = None)"

text \<open>A decision that is no offer; the notice goes with a decline or a counteroffer.\<close>

definition decision_notice :: "bank_decision \<Rightarrow> int \<Rightarrow> adverse_notice option" where
  "decision_notice dec requested =
     (case bd_refusal dec of
        Some r \<Rightarrow> if bd_outcome dec \<in> set ADVERSE_ACTION_OUTCOMES
          then Some (adverse_action_notice r (binding_ref dec) (bd_outcome dec) requested (bd_approved_limit dec) (bd_inquiry_type dec))
          else None
      | None \<Rightarrow> None)"

definition decision_refused :: "decision_world \<Rightarrow> limit_ask \<Rightarrow> bank_answer \<Rightarrow> bank_decision \<Rightarrow> failure" where
  "decision_refused dw k a dec =
     policy_error (ask_evidence dw k (ask_facts k)
         (case ask_eligibility k of Some reason \<Rightarrow> reason | None \<Rightarrow> reason_text (hd (bd_reason_codes dec)))
         (decision_dump dec) None (Some (ba_policy a)) (Some (ba_request a)))
       None (decision_notice dec (lk_amount k))"

definition offer_payload :: "decision_world \<Rightarrow> limit_ask \<Rightarrow> bank_answer \<Rightarrow> bank_decision \<Rightarrow> money \<Rightarrow> money \<Rightarrow> money \<Rightarrow> (string \<times> pyval) list" where
  "offer_payload dw k a dec current proposed increase =
     [(''account_id'', PStr (ca_id (lk_account k))), (''current_limit'', model_dump current),
      (''proposed_limit'', model_dump proposed), (''increase_amount'', model_dump increase),
      (''credit_limit_policy'', CREDIT_LIMIT_POLICY (dw_digest dw)), (''eligibility_facts'', PDict (ask_facts k)),
      (''prepared_arithmetic'', PDict (credit_limit_arithmetic (lk_account k) (lk_amount k))),
      (''bank_decision'', decision_dump dec), (''decision_request'', request_dump (ba_request a)),
      (''approval_semantics'', (if is_consent_offer (ba_request a) dec
         then opt_str (CONSENT_APPROVAL_SEMANTICS (the (bd_inquiry_type dec))) else PStr INSTANT_APPROVAL_SEMANTICS))]"

definition offer_summary :: "limit_ask \<Rightarrow> bank_answer \<Rightarrow> bank_decision \<Rightarrow> money \<Rightarrow> money \<Rightarrow> money \<Rightarrow> string" where
  "offer_summary k a dec current proposed increase =
     (if is_consent_offer (ba_request a) dec
      then (let t = the (bd_inquiry_type dec) in
        consent_summary current proposed t (disclosure_of (policy_for (ba_tier_config a) (ca_product_code (lk_account k))) t)
          (case lk_product k of Some pr \<Rightarrow> cp_product_name pr | None \<Rightarrow> []))
      else ''Increase your credit limit from '' @ usd_limit_text current @ '' to '' @ usd_limit_text proposed
        @ '', an increase of '' @ usd_limit_text increase @ ''. This eligible demo increase takes effect after you confirm; ''
        @ ''it is not a submission for underwriting review.'')"

definition origin_check ::
    "decisioning \<Rightarrow> bank_answer \<Rightarrow> (string \<times> pyval) list \<Rightarrow> unit res" where
  "origin_check dc a payload =
     (case ba_origin a of
        None \<Rightarrow> Inr ()
      | Some g \<Rightarrow> bindR (validate_counteroffer_origin (counteroffer_payload_value payload) (decision_dump (snd g))
            (request_dump (fst g)) (ba_policy a) (dc_clock dc AT_ORIGIN) (Some (ba_tier_config a))) (\<lambda>_. Inr ()))"

definition conclude_offer ::
    "decision_world \<Rightarrow> decisioning \<Rightarrow> limit_ask \<Rightarrow> bank_answer \<Rightarrow> bank_decision
     \<Rightarrow> (string \<times> (string \<times> pyval) list \<times> string option) attempt" where
  "conclude_offer dw dc k a dec =
     (if bd_outcome dec \<noteq> APPROVED \<and> \<not> is_consent_offer (ba_request a) dec \<or> ask_eligibility k \<noteq> None
      then Inl (decision_refused dw k a dec)
      else
        bindR (raised (mk_money (ca_credit_limit_cents (lk_account k)) ''USD'')) (\<lambda>current.
        bindR (raised (mk_money (lk_amount k) (lk_currency k))) (\<lambda>proposed.
        bindR (raised (mk_money (amount_minor proposed - amount_minor current) ''USD'')) (\<lambda>increase.
        let payload = offer_payload dw k a dec current proposed increase in
        case origin_check dc a payload of
          Inl _ \<Rightarrow> Inl (policy_error (ask_evidence dw k (ask_facts k) ''COUNTEROFFER_ORIGIN_INVALID'' PNone
                     (Some ''INVALID_PROVIDER_RESPONSE'') (Some (ba_policy a)) (Some (ba_request a))) None None)
        | Inr _ \<Rightarrow> Inr (ca_id (lk_account k), payload, Some (offer_summary k a dec current proposed increase))))))"

definition offer_for ::
    "proposal_world \<Rightarrow> decision_world \<Rightarrow> decisioning \<Rightarrow> limit_ask \<Rightarrow> action_proposal list \<Rightarrow> bank_db
     \<Rightarrow> (string \<times> (string \<times> pyval) list \<times> string option) attempt" where
  "offer_for w dw dc k rows d =
     (case ask_refusal k of
        Some reason \<Rightarrow> Inl (ineligible dw dc k reason d)
      | None \<Rightarrow>
          (case ask_provider w dw dc k rows d of
             Inl (policy, q) \<Rightarrow> Inl (policy_error (ask_evidence dw k (ask_facts k) ''BANK_DECISION_UNAVAILABLE'' PNone
                 (Some ''PROVIDER_UNAVAILABLE'') policy q) None None)
           | Inr a \<Rightarrow>
               (case validate_decision (ba_returned a) (ba_request a) (ba_policy a) (dc_clock dc AT_CHECK) (Some (ba_tier_config a)) of
                  Inl _ \<Rightarrow> Inl (policy_error (ask_evidence dw k (ask_facts k) ''BANK_DECISION_INVALID'' PNone
                      (Some ''INVALID_PROVIDER_RESPONSE'') (Some (ba_policy a)) (Some (ba_request a))) None None)
                | Inr dec \<Rightarrow> conclude_offer dw dc k a dec)))"

definition SUPPORTED_CURRENCIES :: "string list" where
  "SUPPORTED_CURRENCIES = [''USD'', ''MXN'', ''JPY'', ''BHD'']"

definition several_accounts :: failure where
  "several_accounts =
     coded_failure ProposalScopeError ''Exactly one owned open credit account is required.'' ''MULTIPLE_OPEN_CREDIT_ACCOUNTS''
       ESCALATE
       (''More than one open credit card account is on file, so this limit change can't be completed here. ''
        @ ''A specialist can help.'') None"

definition int_input :: "(string \<times> pyval) list \<Rightarrow> string \<Rightarrow> int" where
  "int_input inputs key = (case dict_get (PDict inputs) key of PInt n \<Rightarrow> n | _ \<Rightarrow> 0)"

text \<open>The inputs have passed \<open>validate_inputs\<close>: an integer and a string.\<close>

definition prepare_credit_limit ::
    "proposal_world \<Rightarrow> decision_world \<Rightarrow> decisioning \<Rightarrow> action_proposal list \<Rightarrow> string \<Rightarrow> (string \<times> pyval) list \<Rightarrow> (string \<times> pyval) list
     \<Rightarrow> (string \<times> pyval) list \<Rightarrow> bank_db \<Rightarrow> (string \<times> (string \<times> pyval) list \<times> string option) attempt" where
  "prepare_credit_limit w dw dc rows customer_id inputs parameters context d =
     (let currency = text_of (dict_get (PDict inputs) ''currency_code'') in
      if currency \<notin> set SUPPORTED_CURRENCIES then Inl (fail ProposalError ''Use a supported canonical currency code.'')
      else (case filter (\<lambda>a. ca_customer_id a = customer_id \<and> ca_status a \<noteq> ''CLOSED'') (d_credit_accounts d) of
              [account] \<Rightarrow> offer_for w dw dc
                \<lparr>lk_customer_id = customer_id, lk_account = account,
                 lk_product = get_credit_product (ca_product_code account) d,
                 lk_amount = int_input inputs ''requested_limit_minor'', lk_currency = currency, lk_context = context\<rparr> rows d
            | [] \<Rightarrow> Inl (fail ProposalScopeError ''Exactly one owned open credit account is required.'')
            | _ \<Rightarrow> Inl several_accounts))"

section \<open>What an offer rests on\<close>

lemma eligible_limit:
  assumes "evaluate_credit_limit (limit_facts_of account product) amount currency = None"
  obtains pr where "product = Some pr" "cp_is_active pr" "ca_status account = ''ACTIVE''" "ca_currency account = ''USD''"
    "currency = ''USD''" "0 < ca_credit_limit_cents account" "ca_credit_limit_cents account < amount"
    "cp_min_credit_limit_cents pr \<le> amount" "amount \<le> cp_max_credit_limit_cents pr" "amount \<le> MAX_MINOR"
  using assms
  by (auto simp: evaluate_credit_limit_def limit_facts_of_def split: if_splits option.splits bool.splits)

lemma or_else_Inr [simp]: "or_else e m = Inr x \<longleftrightarrow> m = Inr x"
  by (cases m) (simp_all add: or_else_def)

lemma ask_provider_answer:
  assumes "ask_provider w dw dc k rows d = Inr a"
  obtains requested signals where "mk_money (lk_amount k) (lk_currency k) = Inr requested" "dc_policy dc = Inr (ba_policy a)"
    "ask_request dw k requested signals (ba_origin a) = Inr (ba_request a)" "dc_evaluate dc (ba_request a) signals = Inr (ba_returned a)"
  using assms by (auto simp: ask_provider_def Let_def simp del: not_None_eq split: if_splits)

lemma ask_request_fields:
  assumes "ask_request dw k requested signals origin = Inr q"
  shows "dr_request_ref q = digest_of dw (PDict (lk_context k))" "dr_requested_limit q = requested"
    "dr_inquiry_consent q = None" "facts_validate (PDict (ask_facts k)) = Inr (dr_facts q)" "request_ok q"
  using assms by (auto simp: ask_request_def Let_def)

lemma mk_money_Inr: "mk_money n c = Inr m \<Longrightarrow> m = \<lparr>amount_minor = n, currency_code = c\<rparr>"
  by (auto simp: mk_money_def split: if_splits)

lemma offer_for_Inr:
  assumes "offer_for w dw dc k rows d = Inr r"
  obtains a dec where "ask_refusal k = None" "ask_provider w dw dc k rows d = Inr a"
    "validate_decision (ba_returned a) (ba_request a) (ba_policy a) (dc_clock dc AT_CHECK) (Some (ba_tier_config a)) = Inr dec"
    "conclude_offer dw dc k a dec = Inr r"
  using assms by (auto simp: offer_for_def split: option.splits sum.splits)

lemma conclude_offer_Inr:
  assumes "conclude_offer dw dc k a dec = Inr (aid, payload, summary)"
  obtains current proposed increase where "bd_outcome dec = APPROVED \<or> is_consent_offer (ba_request a) dec" "ask_eligibility k = None"
    "mk_money (lk_amount k) (lk_currency k) = Inr proposed" "aid = ca_id (lk_account k)"
    "payload = offer_payload dw k a dec current proposed increase"
    "summary = Some (offer_summary k a dec current proposed increase)" "origin_check dc a payload = Inr ()"
proof -
  have e: "(case m of Inl x \<Rightarrow> Inl f | Inr u \<Rightarrow> Inr y) = Inr z \<Longrightarrow> m = Inr () \<and> z = y" for m :: "unit res" and f :: failure and y z :: 'z
    by (cases m) auto
  show ?thesis
    using assms unfolding conclude_offer_def Let_def
    by (elim if_Inl_E bindR_E) (auto dest!: e intro: that simp del: bindR_Inr_iff)
qed

text \<open>A receipt for a request without consent, validated, reports no inquiry unless it asks for the consent.\<close>

lemma no_silent_inquiry:
  assumes "validate_decision v q p now config = Inr d" "dr_inquiry_consent q = None" "INQUIRY_CONSENT_REQUIRED \<notin> set (bd_reason_codes d)"
  shows "bd_inquiry_type d \<notin> {Some SOFT, Some HARD}"
  using validate_decision_parts(6) [OF assms(1)] assms(2,3) by (auto simp: consent_error_def split: if_splits)

lemma approval_asks_nothing: "decision_ok d \<Longrightarrow> bd_outcome d = APPROVED \<Longrightarrow> INQUIRY_CONSENT_REQUIRED \<notin> set (bd_reason_codes d)"
  by (auto simp: decision_ok_def coherent_outcome_def outcome_reasons_def)

text \<open>What the customer is offered: the approved amount, or the inquiry the bank asks consent for.\<close>

definition offered :: "limit_request \<Rightarrow> bank_decision \<Rightarrow> money \<Rightarrow> (string \<times> pyval) list \<Rightarrow> bool" where
  "offered q dec proposed payload \<longleftrightarrow>
     (bd_outcome dec = APPROVED \<and> bd_approved_limit dec = Some proposed \<and> bd_inquiry_type dec \<notin> {Some SOFT, Some HARD}
       \<and> map_of payload ''approval_semantics'' = Some (PStr INSTANT_APPROVAL_SEMANTICS))
   \<or> (bd_outcome dec = NEEDS_INFORMATION \<and> dr_origin q = None \<and> (\<exists>t semantics. bd_inquiry_type dec = Some t
       \<and> CONSENT_APPROVAL_SEMANTICS t = Some semantics \<and> map_of payload ''approval_semantics'' = Some (PStr semantics)))"

lemma payload_offered:
  assumes v: "validate_decision r q policy now config = Inr dec" "dr_inquiry_consent q = None" "dr_requested_limit q = proposed"
    and o: "bd_outcome dec = APPROVED \<or> is_consent_offer q dec" and q: "ba_request a = q"
  shows "offered q dec proposed (offer_payload dw k a dec current proposed increase)"
proof (cases "is_consent_offer q dec")
  case True
  then obtain t s where t: "bd_inquiry_type dec = Some t" "CONSENT_APPROVAL_SEMANTICS t = Some s"
    by (auto simp: is_consent_offer_def consented_def split: option.splits)
  then show ?thesis using True by (simp add: offered_def offer_payload_def q is_consent_offer_def opt_str_def)
next
  case False
  then have "bd_outcome dec = APPROVED" using o by simp
  moreover have "bd_inquiry_type dec \<notin> {Some SOFT, Some HARD}"
    using no_silent_inquiry [OF v(1,2)] approval_asks_nothing validate_decision_parts(1) [OF v(1)] calculation by blast
  ultimately show ?thesis
    using False validate_decision_parts(7) [OF v(1)] v(3) by (auto simp: offered_def offer_payload_def q)
qed

text \<open>C10. A credit-limit offer that is prepared is for the customer's one open account, active and in US dollars, and
  proposes exactly the limit asked for, above the current limit and within the bounds of the active product; the stored
  request is bound to the preparation context and asks for that amount without consent; the stored receipt is the
  provider's answer to it, validated under the policy in force and fresh; and it either approves exactly that
  amount without a SOFT or HARD inquiry, or is the bank's demand for the consent of the tier the offer names.\<close>

theorem limit_offer_is_bound:
  assumes run: "prepare_credit_limit w dw dc rows customer_id inputs parameters context d = Inr (account_id, payload, summary)"
  shows "\<exists>account pr q dec. let n = int_input inputs ''requested_limit_minor''; proposed = \<lparr>amount_minor = n, currency_code = ''USD''\<rparr> in
     filter (\<lambda>a. ca_customer_id a = customer_id \<and> ca_status a \<noteq> ''CLOSED'') (d_credit_accounts d) = [account]
     \<and> account_id = ca_id account \<and> ca_status account = ''ACTIVE'' \<and> ca_currency account = ''USD''
     \<and> get_credit_product (ca_product_code account) d = Some pr \<and> cp_is_active pr
     \<and> ca_credit_limit_cents account < n \<and> cp_min_credit_limit_cents pr \<le> n \<and> n \<le> cp_max_credit_limit_cents pr
     \<and> map_of payload ''proposed_limit'' = Some (model_dump proposed)
     \<and> map_of payload ''decision_request'' = Some (request_dump q) \<and> map_of payload ''bank_decision'' = Some (decision_dump dec)
     \<and> dr_request_ref q = digest_of dw (PDict context) \<and> dr_requested_limit q = proposed \<and> dr_inquiry_consent q = None
     \<and> dc_policy dc = Inr (bd_policy dec) \<and> bd_request_ref dec = dr_request_ref q \<and> decision_ok dec
     \<and> bd_evaluated_at dec \<le> dc_clock dc AT_CHECK \<and> dc_clock dc AT_CHECK < bd_expires_at dec
     \<and> (\<exists>signals answer. dc_evaluate dc q signals = Inr answer \<and> decision_validate answer = Inr dec)
     \<and> offered q dec proposed payload"
proof -
  let ?k = "\<lambda>account. \<lparr>lk_customer_id = customer_id, lk_account = account,
     lk_product = get_credit_product (ca_product_code account) d, lk_amount = int_input inputs ''requested_limit_minor'',
     lk_currency = text_of (dict_get (PDict inputs) ''currency_code''), lk_context = context\<rparr>"
  obtain account where account: "filter (\<lambda>a. ca_customer_id a = customer_id \<and> ca_status a \<noteq> ''CLOSED'') (d_credit_accounts d) = [account]"
    and offer: "offer_for w dw dc (?k account) rows d = Inr (account_id, payload, summary)"
    using run by (auto simp: prepare_credit_limit_def Let_def split: if_splits list.splits)
  obtain a dec where a: "ask_refusal (?k account) = None" "ask_provider w dw dc (?k account) rows d = Inr a"
    and v: "validate_decision (ba_returned a) (ba_request a) (ba_policy a) (dc_clock dc AT_CHECK) (Some (ba_tier_config a)) = Inr dec"
    and c: "conclude_offer dw dc (?k account) a dec = Inr (account_id, payload, summary)"
    using offer by (rule offer_for_Inr)
  obtain requested signals where r: "mk_money (lk_amount (?k account)) (lk_currency (?k account)) = Inr requested"
    "dc_policy dc = Inr (ba_policy a)" "ask_request dw (?k account) requested signals (ba_origin a) = Inr (ba_request a)"
    "dc_evaluate dc (ba_request a) signals = Inr (ba_returned a)"
    using a(2) by (rule ask_provider_answer)
  obtain current proposed increase where o: "bd_outcome dec = APPROVED \<or> is_consent_offer (ba_request a) dec"
    "ask_eligibility (?k account) = None" "mk_money (lk_amount (?k account)) (lk_currency (?k account)) = Inr proposed"
    "account_id = ca_id (lk_account (?k account))" "payload = offer_payload dw (?k account) a dec current proposed increase"
    using c by (rule conclude_offer_Inr)
  from o(2) [unfolded ask_eligibility_def] obtain pr where e: "lk_product (?k account) = Some pr" "cp_is_active pr"
    "ca_status (lk_account (?k account)) = ''ACTIVE''" "ca_currency (lk_account (?k account)) = ''USD''"
    "lk_currency (?k account) = ''USD''" "ca_credit_limit_cents (lk_account (?k account)) < lk_amount (?k account)"
    "cp_min_credit_limit_cents pr \<le> lk_amount (?k account)" "lk_amount (?k account) \<le> cp_max_credit_limit_cents pr"
    by (rule eligible_limit)
  note f = ask_request_fields [OF r(3)] and parts = validate_decision_parts [OF v]
  have p: "proposed = \<lparr>amount_minor = lk_amount (?k account), currency_code = ''USD''\<rparr>" "requested = proposed"
    using mk_money_Inr [OF o(3)] o(3) r(1) e(5) by simp_all
  have off: "offered (ba_request a) dec proposed payload"
    unfolding o(5) by (rule payload_offered [OF v f(3) _ o(1) refl]) (simp add: f(2) p)
  have answer: "\<exists>signals answer. dc_evaluate dc (ba_request a) signals = Inr answer \<and> decision_validate answer = Inr dec"
    using r(4) parts(12) by blast
  show ?thesis
    unfolding Let_def
    by (intro exI [of _ account] exI [of _ pr] exI [of _ "ba_request a"] exI [of _ dec])
      (use account o(4) e f p off parts r(2) answer in \<open>simp add: o(5) offer_payload_def\<close>)
qed

section \<open>A sample offer\<close>

definition sample_limit_account :: credit_account where
  "sample_limit_account = sample_card_account\<lparr>ca_id := cf_account_id sample_facts, ca_customer_id := ''u1'', ca_product_code := ''GOLD'',
     ca_status := ''ACTIVE'', ca_currency := ''USD'', ca_credit_limit_cents := 500000, ca_cleared_balance_cents := 20000,
     ca_available_credit_cents := 480000, ca_payment_due_date := None, ca_opened_at := Some 0, ca_last_limit_increase_at := None\<rparr>"

definition sample_limit_db :: bank_db where
  "sample_limit_db = sample_db\<lparr>d_credit_accounts := [sample_limit_account],
     d_products := [\<lparr>cp_product_code = ''GOLD'', cp_product_name = ''Gold'', cp_min_credit_limit_cents = 100000,
       cp_max_credit_limit_cents = 2000000, cp_is_active = True\<rparr>],
     d_profiles := [\<lparr>uc_user_id = ''u1'', uc_credit_score = 720, uc_credit_tier = ''PRIME'',
       uc_stated_annual_income_cents = 12000000, uc_income_confirmed_at = Some (900 * DAY)\<rparr>]\<rparr>"

text \<open>A provider that approves what it is asked.\<close>

definition sample_decisioning :: decisioning where
  "sample_decisioning =
     \<lparr>dc_policy = Inr sample_policy, dc_tier_config = Inr DEMO_TIERS,
      dc_evaluate = (\<lambda>q s. Inr (decision_dump (receipt sample_decision_world sample_policy q APPROVED (Some (dr_requested_limit q))
         [APPROVED_BY_POLICY] (Some NO_INQUIRY) None None))),
      dc_clock = (\<lambda>r. 1000 * DAY)\<rparr>"

definition sample_limit_inputs :: "int \<Rightarrow> (string \<times> pyval) list" where
  "sample_limit_inputs n = [(''requested_limit_minor'', PInt n), (''currency_code'', PStr ''USD'')]"

definition sample_limit_context :: "(string \<times> pyval) list" where
  "sample_limit_context = [(''customer_id'', PStr ''u1'')]"

text \<open>Without earlier counteroffers in the session the provider is asked once.\<close>

lemma ask_provider_first:
  assumes "credit_signals_of (lk_customer_id k) (lk_account k) (lk_product k) (dc_clock dc AT_START) d = Inr s"
    "mk_money (lk_amount k) (lk_currency k) = Inr m" "ask_request dw k m s None = Inr q" "dc_policy dc = Inr policy"
    "dc_tier_config dc = Inr config" "dc_evaluate dc q s = Inr v"
  shows "ask_provider w dw dc k [] d
    = Inr \<lparr>ba_policy = policy, ba_tier_config = config, ba_request = q, ba_origin = None, ba_returned = v\<rparr>"
  using assms by (simp add: ask_provider_def or_else_def Let_def find_counteroffer_origin_def counteroffer_rows_def del: bindR_Inr_iff)

definition sample_ask :: limit_ask where
  "sample_ask = \<lparr>lk_customer_id = ''u1'', lk_account = sample_limit_account,
     lk_product = get_credit_product (ca_product_code sample_limit_account) sample_limit_db, lk_amount = 600000,
     lk_currency = ''USD'', lk_context = sample_limit_context\<rparr>"

definition sample_limit_request :: limit_request where
  "sample_limit_request = (sample_request 600000)\<lparr>dr_request_ref := sample_hash CHR ''a'', dr_scope_ref := sample_hash CHR ''a'',
     dr_input_ref := sample_hash CHR ''a''\<rparr>"

definition sample_limit_receipt :: bank_decision where
  "sample_limit_receipt = receipt sample_decision_world sample_policy sample_limit_request APPROVED
     (Some \<lparr>amount_minor = 600000, currency_code = ''USD''\<rparr>) [APPROVED_BY_POLICY] (Some NO_INQUIRY) None None"

definition sample_answer :: bank_answer where
  "sample_answer = \<lparr>ba_policy = sample_policy, ba_tier_config = DEMO_TIERS, ba_request = sample_limit_request, ba_origin = None,
     ba_returned = decision_dump sample_limit_receipt\<rparr>"

lemma sample_limit_step1:
  "ask_refusal sample_ask = None"
  by code_simp

lemma sample_limit_step2:
  "credit_signals_of ''u1'' sample_limit_account (lk_product sample_ask) (1000 * DAY) sample_limit_db = Inr sample_signals"
  by code_simp

lemma sample_limit_step3:
  "mk_money 600000 ''USD'' = Inr \<lparr>amount_minor = 600000, currency_code = ''USD''\<rparr>"
  by code_simp

lemma sample_limit_step4:
  "ask_request sample_decision_world sample_ask \<lparr>amount_minor = 600000, currency_code = ''USD''\<rparr> sample_signals None = Inr sample_limit_request"
  by code_simp

lemma sample_limit_step5:
  "validate_decision (decision_dump sample_limit_receipt) sample_limit_request sample_policy (1000 * DAY) (Some DEMO_TIERS)
     = Inr sample_limit_receipt"
  by code_simp

lemma conclude_offer_runs:
  assumes "bd_outcome dec = APPROVED" "ask_eligibility k = None" "mk_money (ca_credit_limit_cents (lk_account k)) ''USD'' = Inr current"
    "mk_money (lk_amount k) (lk_currency k) = Inr proposed" "mk_money (amount_minor proposed - amount_minor current) ''USD'' = Inr increase"
    "ba_origin a = None"
  shows "\<not> isl (conclude_offer dw dc k a dec)"
  using assms by (simp add: conclude_offer_def origin_check_def Let_def del: bindR_Inr_iff)

lemma sample_limit_step6:
  "\<not> isl (conclude_offer sample_decision_world sample_decisioning sample_ask sample_answer sample_limit_receipt)"
proof (rule conclude_offer_runs)
  show "ask_eligibility sample_ask = None" by code_simp
  show "mk_money (ca_credit_limit_cents (lk_account sample_ask)) ''USD'' = Inr \<lparr>amount_minor = 500000, currency_code = ''USD''\<rparr>"
    "mk_money (lk_amount sample_ask) (lk_currency sample_ask) = Inr \<lparr>amount_minor = 600000, currency_code = ''USD''\<rparr>"
    "mk_money (amount_minor \<lparr>amount_minor = 600000, currency_code = ''USD''\<rparr> - amount_minor \<lparr>amount_minor = 500000, currency_code = ''USD''\<rparr>) ''USD''
       = Inr \<lparr>amount_minor = 100000, currency_code = ''USD''\<rparr>"
    by code_simp+
qed (simp_all add: sample_limit_receipt_def sample_answer_def)

lemmas sample_limit_steps = sample_limit_step1 sample_limit_step2 sample_limit_step3 sample_limit_step4 sample_limit_step5 sample_limit_step6

lemma sample_limit_offer_runs:
  "\<not> isl (prepare_credit_limit (sample_world 10) sample_decision_world sample_decisioning [] ''u1'' (sample_limit_inputs 600000) []
     sample_limit_context sample_limit_db)"
proof -
  have dc: "dc_policy sample_decisioning = Inr sample_policy" "dc_tier_config sample_decisioning = Inr DEMO_TIERS"
    "dc_clock sample_decisioning r = 1000 * DAY"
    "dc_evaluate sample_decisioning sample_limit_request sample_signals = Inr (decision_dump sample_limit_receipt)" for r
    by (simp_all add: sample_decisioning_def sample_limit_receipt_def sample_limit_request_def sample_request_def)
  have k: "lk_customer_id sample_ask = ''u1''" "lk_account sample_ask = sample_limit_account" "lk_amount sample_ask = 600000"
    "lk_currency sample_ask = ''USD''"
    by (simp_all add: sample_ask_def)
  have "ask_provider (sample_world 10) sample_decision_world sample_decisioning sample_ask [] sample_limit_db = Inr sample_answer"
    unfolding sample_answer_def
    by (rule ask_provider_first) (use sample_limit_steps(2,3,4) dc in \<open>simp_all only: k\<close>)
  then have "offer_for (sample_world 10) sample_decision_world sample_decisioning sample_ask [] sample_limit_db
      = conclude_offer sample_decision_world sample_decisioning sample_ask sample_answer sample_limit_receipt"
    using sample_limit_steps(1,5) by (simp add: offer_for_def dc sample_answer_def)
  moreover have "prepare_credit_limit (sample_world 10) sample_decision_world sample_decisioning [] ''u1'' (sample_limit_inputs 600000) []
      sample_limit_context sample_limit_db = offer_for (sample_world 10) sample_decision_world sample_decisioning sample_ask [] sample_limit_db"
  proof -
    have "filter (\<lambda>a. ca_customer_id a = ''u1'' \<and> ca_status a \<noteq> ''CLOSED'') (d_credit_accounts sample_limit_db) = [sample_limit_account]"
      by (simp add: sample_limit_db_def sample_limit_account_def)
    moreover have "text_of (dict_get (PDict (sample_limit_inputs 600000)) ''currency_code'') = ''USD''"
      "int_input (sample_limit_inputs 600000) ''requested_limit_minor'' = 600000" "''USD'' \<in> set SUPPORTED_CURRENCIES"
      by (simp_all add: sample_limit_inputs_def int_input_def text_of_def SUPPORTED_CURRENCIES_def)
    ultimately show ?thesis
      unfolding prepare_credit_limit_def Let_def by (simp only: sample_ask_def if_True not_True_eq_False if_False list.case)
  qed
  ultimately show ?thesis using sample_limit_steps(6) by simp
qed

theorem limit_offer_is_bound_witness:
  "\<exists>account_id payload summary. prepare_credit_limit (sample_world 10) sample_decision_world sample_decisioning [] ''u1''
       (sample_limit_inputs 600000) [] sample_limit_context sample_limit_db = Inr (account_id, payload, summary)
     \<and> map_of payload ''proposed_limit'' = Some (model_dump \<lparr>amount_minor = 600000, currency_code = ''USD''\<rparr>)"
proof -
  obtain account_id payload summary where r: "prepare_credit_limit (sample_world 10) sample_decision_world sample_decisioning [] ''u1''
       (sample_limit_inputs 600000) [] sample_limit_context sample_limit_db = Inr (account_id, payload, summary)"
    using sample_limit_offer_runs by (auto simp: isl_def) (metis sum.exhaust prod_cases3)
  have "int_input (sample_limit_inputs 600000) ''requested_limit_minor'' = 600000"
    by (simp add: int_input_def sample_limit_inputs_def)
  with limit_offer_is_bound [OF r] r show ?thesis by (auto simp: Let_def)
qed

end
