(* ===== verification/Credit_Limit_Commit.thy ===== *)
theory Credit_Limit_Commit
  imports Credit_Limit_Offers
begin

text \<open>
  Committing a credit-limit offer (\<^verbatim>\<open>services/proposal_capabilities.py\<close>, \<open>validate_credit_limit\<close> and
  \<open>execute_credit_limit\<close>): the stored approval is bound to its proposal again, a consented inquiry is put to the
  bank, the account and its product are read under lock, and only then the limit moves.

  The payload was checked against its schema when the proposal was created, so a field the code indexes is there;
  an absent one reads as \<open>None\<close> here.
\<close>

section \<open>What the proposal says\<close>

definition offer_field :: "action_proposal \<Rightarrow> string \<Rightarrow> pyval" where
  "offer_field p key = dict_get (action_payload p) key"

text \<open>Equality of dictionaries, whatever the order of their keys.\<close>

definition same_value :: "pyval \<Rightarrow> pyval \<Rightarrow> bool" where
  "same_value a b = (canonical a = canonical b)"

definition commit_evidence ::
    "decision_world \<Rightarrow> action_proposal \<Rightarrow> string \<Rightarrow> pyval \<Rightarrow> string option \<Rightarrow> pyval \<Rightarrow> policy_evidence" where
  "commit_evidence dw p reason decision failure q =
     \<lparr>pe_policy = CREDIT_LIMIT_POLICY (dw_digest dw), pe_facts = offer_field p ''eligibility_facts'',
      pe_requested_limit = offer_field p ''proposed_limit'', pe_reason_code = reason, pe_definition = PNone,
      pe_approved_facts = PNone, pe_bank_decision = decision, pe_decision_failure = failure, pe_decision_policy = PNone,
      pe_decision_request = q\<rparr>"

definition no_longer_valid :: "decision_world \<Rightarrow> action_proposal \<Rightarrow> failure" where
  "no_longer_valid dw p =
     precondition_error ''The bank approval is no longer applicable; prepare a new offer.'' ''BANK_DECISION_NO_LONGER_VALID''
       (Some (commit_evidence dw p ''BANK_DECISION_NO_LONGER_VALID'' (offer_field p ''bank_decision'')
          (Some ''APPROVAL_NO_LONGER_VALID'') PNone)) None PNone None None"

definition signals_changed :: "decision_world \<Rightarrow> action_proposal \<Rightarrow> failure" where
  "signals_changed dw p =
     precondition_error ''Customer credit signals changed after the offer was prepared.'' ''CREDIT_SIGNALS_CHANGED''
       (Some (commit_evidence dw p ''CREDIT_SIGNALS_CHANGED'' (offer_field p ''bank_decision'')
          (Some ''APPROVAL_NO_LONGER_VALID'') PNone)) None PNone None None"

section \<open>The state the offer meets\<close>

record commit_state =
  ck_policy :: decision_policy
  ck_tier_config :: tier_config
  ck_now :: int
  ck_request :: limit_request
  ck_signals :: "credit_signals option"

definition owned_account_of :: "action_proposal \<Rightarrow> bank_db \<Rightarrow> credit_account option res" where
  "owned_account_of p d =
     one_or_none (\<lambda>a. Some (ca_id a) = tm_account_id (pp_terms p) \<and> ca_customer_id a = tm_customer_id (pp_terms p))
       (d_credit_accounts d)"

definition product_of :: "credit_account \<Rightarrow> bank_db \<Rightarrow> credit_product option res" where
  "product_of account d = one_or_none (\<lambda>pr. cp_product_code pr = ca_product_code account) (d_products d)"

definition current_signals :: "action_proposal \<Rightarrow> int \<Rightarrow> bank_db \<Rightarrow> credit_signals option res" where
  "current_signals p now d =
     bindR (owned_account_of p d) (\<lambda>account.
     case account of
       None \<Rightarrow> Inr None
     | Some a \<Rightarrow> bindR (product_of a d) (\<lambda>product.
         if product = None then Inr None
         else bindR (credit_signals_of (tm_customer_id (pp_terms p)) a product now d) (\<lambda>s. Inr (Some s))))"

definition commit_start :: "decisioning \<Rightarrow> action_proposal \<Rightarrow> bank_db \<Rightarrow> commit_state res" where
  "commit_start dc p d =
     bindR (dc_policy dc) (\<lambda>policy.
     bindR (dc_tier_config dc) (\<lambda>config.
     let now = dc_clock dc AT_START in
     bindR (request_validate (offer_field p ''decision_request'')) (\<lambda>q.
     bindR (current_signals p now d) (\<lambda>signals.
     Inr \<lparr>ck_policy = policy, ck_tier_config = config, ck_now = now, ck_request = q, ck_signals = signals\<rparr>))))"

section \<open>Binding the approval to the proposal\<close>

definition commit_context :: "action_proposal \<Rightarrow> (string \<times> pyval) list" where
  "commit_context p =
     (let t = pp_terms p in
      [(''customer_id'', PStr (tm_customer_id t)), (''definition_digest'', PStr (tm_definition_digest t)),
       (''support_session_id'', PStr (tm_support_session_id t)), (''runtime_name'', PStr (tm_runtime_name t)),
       (''runtime_session_id'', PStr (tm_runtime_session_id t)),
       (''originating_customer_turn_id'', PStr (tm_originating_customer_turn_id t)),
       (''reset_generation'', PStr (tm_reset_generation t)), (''idempotency_key'', PStr (tm_idempotency_key t)),
       (''input_fingerprint'', offer_field p FINGERPRINT_KEY)])"

definition expected_request :: "decision_world \<Rightarrow> action_proposal \<Rightarrow> limit_request \<Rightarrow> limit_request res" where
  "expected_request dw p q =
     bindR (money_validate (offer_field p ''proposed_limit'')) (\<lambda>proposed.
     bindR (facts_validate (offer_field p ''eligibility_facts'')) (\<lambda>facts.
     coherent request_ok
       \<lparr>dr_request_ref = digest_of dw (PDict (commit_context p)),
        dr_scope_ref = (if dr_origin q \<noteq> None then dr_scope_ref q else scope_digest dw (commit_context p)),
        dr_input_ref = input_digest dw (offer_field p ''eligibility_facts'') (offer_field p ''proposed_limit'')
          (opt_str (dr_signals_ref q)),
        dr_requested_limit = proposed, dr_facts = facts, dr_inquiry_consent = None, dr_origin = dr_origin q,
        dr_signals_ref = dr_signals_ref q\<rparr>))"

text \<open>The offer is one for consent, and names the semantics of its tier.\<close>

definition consent_semantics :: "action_proposal \<Rightarrow> limit_request \<Rightarrow> bank_decision \<Rightarrow> bool" where
  "consent_semantics p q dec =
     (bd_outcome dec = NEEDS_INFORMATION \<and> INQUIRY_CONSENT_REQUIRED \<in> set (bd_reason_codes dec) \<and> dr_origin q = None
     \<and> offer_field p ''approval_semantics''
        = (case bd_inquiry_type dec of Some t \<Rightarrow> opt_str (CONSENT_APPROVAL_SEMANTICS t) | None \<Rightarrow> PNone))"

definition approval_semantics :: "action_proposal \<Rightarrow> bank_decision \<Rightarrow> bool" where
  "approval_semantics p dec =
     (bd_outcome dec = APPROVED \<and> offer_field p ''approval_semantics'' = PStr INSTANT_APPROVAL_SEMANTICS
     \<and> same_value (opt_value model_dump (bd_approved_limit dec)) (offer_field p ''proposed_limit''))"

definition check_origin ::
    "proposal_world \<Rightarrow> decision_world \<Rightarrow> decisioning \<Rightarrow> action_proposal \<Rightarrow> commit_state \<Rightarrow> action_proposal list \<Rightarrow> unit res" where
  "check_origin w dw dc p ck rows =
     (case (dr_origin (ck_request ck), ck_signals ck) of
        (Some link, Some signals) \<Rightarrow>
          bindR (money_validate (offer_field p ''proposed_limit'')) (\<lambda>proposed.
          case find_counteroffer_origin w dw dc
              \<lparr>os_scope = commit_context p, os_policy = ck_policy ck, os_tier_config = ck_tier_config ck, os_signals = signals,
               os_now = ck_now ck, os_requested = Some proposed, os_origin_request_ref = Some (oo_origin_request_ref link),
               os_within_ttl = False\<rparr> (tm_customer_id (pp_terms p)) (account_text p) rows of
            None \<Rightarrow> Inl (ValueError ''Counteroffer origin is unavailable in this scope.'')
          | Some g \<Rightarrow> bindR (validate_counteroffer_origin (counteroffer_payload_value (tm_action_payload (pp_terms p)))
                (decision_dump (snd g)) (request_dump (fst g)) (ck_policy ck) (dc_clock dc AT_ORIGIN) (Some (ck_tier_config ck)))
                (\<lambda>_. Inr ()))
      | _ \<Rightarrow> Inr ())"

text \<open>The bound decision, and the request that carries the customer's consent when the offer asks for it.\<close>

definition bind_offer ::
    "proposal_world \<Rightarrow> decision_world \<Rightarrow> decisioning \<Rightarrow> action_proposal \<Rightarrow> commit_state \<Rightarrow> action_proposal list
     \<Rightarrow> (bank_decision \<times> limit_request option) res" where
  "bind_offer w dw dc p ck rows =
     (let q = ck_request ck in
      bindR (expected_request dw p q) (\<lambda>expected.
      if q \<noteq> expected \<or> snd (canonical_payload w (tm_action_payload (pp_terms p))) \<noteq> tm_payload_fingerprint (pp_terms p)
      then Inl (ValueError ''The checked approval request no longer matches its proposal.'')
      else
        bindR (validate_decision (offer_field p ''bank_decision'') q (ck_policy ck) (ck_now ck) (Some (ck_tier_config ck))) (\<lambda>dec.
        let consent_offer = consent_semantics p q dec in
        if \<not> consent_offer \<and> \<not> approval_semantics p dec
          \<or> Some (binding_ref dec) \<noteq> tm_bank_decision_ref (pp_terms p) \<or> cf_account_id (dr_facts q) \<noteq> account_text p
        then Inl (ValueError ''Approval does not match the proposal binding.'')
        else if dr_signals_ref q = None then Inl (ValueError ''The offer is not bound to customer signals.'')
        else
          bindR (check_origin w dw dc p ck rows) (\<lambda>_.
          if \<not> consent_offer then Inr (dec, None)
          else bindR (derive_inquiry_consent w p q (bd_inquiry_type dec) (ck_tier_config ck)) (\<lambda>consent.
               bindR (with_consent q consent) (\<lambda>bureau_request. Inr (dec, Some bureau_request)))))))"

section \<open>The consented inquiry\<close>

definition inquiry_unavailable :: "decision_world \<Rightarrow> action_proposal \<Rightarrow> limit_request \<Rightarrow> failure" where
  "inquiry_unavailable dw p q =
     precondition_error ''The bank decision is unavailable after the credit inquiry consent.'' ''BANK_DECISION_UNAVAILABLE''
       (Some (commit_evidence dw p ''BANK_DECISION_UNAVAILABLE'' (offer_field p ''bank_decision'')
          (Some ''PROVIDER_UNAVAILABLE'') (request_dump q))) None PNone None None"

definition inquiry_refused :: "decision_world \<Rightarrow> action_proposal \<Rightarrow> limit_request \<Rightarrow> bank_decision \<Rightarrow> failure" where
  "inquiry_refused dw p q bureau =
     (let reason = (if bd_outcome bureau = COUNTEROFFER then ''COUNTEROFFER_AVAILABLE''
            else reason_text (hd (bd_reason_codes bureau)))
      in precondition_error ''The bank decision after the credit inquiry did not approve this amount.'' reason
           (Some (commit_evidence dw p reason (decision_dump bureau) None (request_dump q)))
           (bd_refusal bureau) (opt_value (PStr \<circ> inquiry_text) (bd_inquiry_type bureau)) (bd_counteroffer bureau)
           (decision_notice bureau (minor_of (offer_field p ''proposed_limit''))))"

definition bureau_decision ::
    "decision_world \<Rightarrow> decisioning \<Rightarrow> action_proposal \<Rightarrow> commit_state \<Rightarrow> limit_request option \<Rightarrow> (limit_request \<times> bank_decision) option attempt" where
  "bureau_decision dw dc p ck bureau_request =
     (case (bureau_request, ck_signals ck) of
        (Some q, Some signals) \<Rightarrow>
          (case bindR (dc_evaluate dc q signals) (\<lambda>returned.
                  validate_decision returned q (ck_policy ck) (dc_clock dc AT_BUREAU) (Some (ck_tier_config ck))) of
             Inl _ \<Rightarrow> Inl (inquiry_unavailable dw p q)
           | Inr bureau \<Rightarrow>
               if bd_outcome bureau = APPROVED
                 \<and> same_value (opt_value model_dump (bd_approved_limit bureau)) (offer_field p ''proposed_limit'')
               then Inr (Some (q, bureau)) else Inl (inquiry_refused dw p q bureau))
      | _ \<Rightarrow> Inr None)"

section \<open>Under the locks\<close>

definition expired_at_locks :: "decision_world \<Rightarrow> action_proposal \<Rightarrow> (string \<times> pyval) list \<Rightarrow> failure" where
  "expired_at_locks dw p observed =
     precondition_error ''The bank approval expired or changed while awaiting execution.'' ''BANK_DECISION_NO_LONGER_VALID''
       (Some ((commit_evidence dw p ''BANK_DECISION_NO_LONGER_VALID'' (offer_field p ''bank_decision'')
          (Some ''APPROVAL_NO_LONGER_VALID'') (offer_field p ''decision_request''))
          \<lparr>pe_facts := PDict observed, pe_approved_facts := offer_field p ''eligibility_facts''\<rparr>)) None PNone None None"

definition eligibility_changed ::
    "decision_world \<Rightarrow> action_proposal \<Rightarrow> credit_account \<Rightarrow> (string \<times> pyval) list \<Rightarrow> string \<Rightarrow> failure" where
  "eligibility_changed dw p account observed reason =
     precondition_error ''Credit-limit eligibility changed; prepare a new offer.'' reason
       (Some ((commit_evidence dw p reason PNone None PNone)
          \<lparr>pe_facts := PDict (observed @ credit_limit_arithmetic account (minor_of (offer_field p ''proposed_limit''))),
           pe_approved_facts := offer_field p ''eligibility_facts''\<rparr>)) None PNone None None"

definition still_fresh ::
    "decisioning \<Rightarrow> action_proposal \<Rightarrow> commit_state \<Rightarrow> (limit_request \<times> bank_decision) option \<Rightarrow> bool" where
  "still_fresh dc p ck bureau =
     (\<not> isl (validate_decision (offer_field p ''bank_decision'') (ck_request ck) (ck_policy ck) (dc_clock dc AT_LOCKS)
               (Some (ck_tier_config ck)))
     \<and> (case bureau of None \<Rightarrow> True
        | Some (q, b) \<Rightarrow> \<not> isl (validate_decision (decision_dump b) q (ck_policy ck) (dc_clock dc AT_LOCKS_BUREAU)
               (Some (ck_tier_config ck)))))"

text \<open>The reason that refuses the locked rows; an amount out of range wins over any other.\<close>

definition locked_refusal ::
    "decision_world \<Rightarrow> action_proposal \<Rightarrow> credit_account \<Rightarrow> credit_product option \<Rightarrow> string option" where
  "locked_refusal dw p account product =
     (let proposed = offer_field p ''proposed_limit'';
          reason = evaluate_credit_limit (limit_facts_of account product) (minor_of proposed)
            (text_of (dict_get proposed ''currency_code''));
          changed = \<not> same_value (offer_field p ''credit_limit_policy'') (CREDIT_LIMIT_POLICY (dw_digest dw))
            \<or> \<not> same_value (PDict (credit_limit_facts account product)) (offer_field p ''eligibility_facts'')
      in if \<not> available_in_range account (minor_of proposed) then Some ''AVAILABLE_CREDIT_OUT_OF_RANGE''
         else if reason \<noteq> None then reason
         else if changed then Some ''CREDIT_LIMIT_POLICY_CHANGED'' else None)"

definition validate_locked ::
    "decision_world \<Rightarrow> decisioning \<Rightarrow> action_proposal \<Rightarrow> commit_state \<Rightarrow> limit_request option
     \<Rightarrow> (limit_request \<times> bank_decision) option \<Rightarrow> bank_db \<Rightarrow> unit attempt" where
  "validate_locked dw dc p ck bureau_request bureau d =
     bindR (raised (owned_account_of p d)) (\<lambda>found.
     case found of
       None \<Rightarrow> Inl (precondition_error ''Owned account is unavailable.'' ''ACCOUNT_UNAVAILABLE'' None None PNone None None)
     | Some account \<Rightarrow>
         bindR (raised (product_of account d)) (\<lambda>product.
         let observed = credit_limit_facts account product in
         if \<not> still_fresh dc p ck bureau then Inl (expired_at_locks dw p observed)
         else (case locked_refusal dw p account product of
                 Some reason \<Rightarrow> Inl (eligibility_changed dw p account observed reason)
               | None \<Rightarrow>
                   if bureau_request \<noteq> None \<and> bureau = None \<or> dr_origin (ck_request ck) \<noteq> None \<and> ck_signals ck = None
                   then Inl (no_longer_valid dw p) else Inr ())))"

definition validate_credit_limit ::
    "proposal_world \<Rightarrow> decision_world \<Rightarrow> decisioning \<Rightarrow> action_proposal list \<Rightarrow> action_proposal \<Rightarrow> bank_db \<Rightarrow> unit attempt" where
  "validate_credit_limit w dw dc rows p d =
     (case commit_start dc p d of
        Inl _ \<Rightarrow> Inl (no_longer_valid dw p)
      | Inr ck \<Rightarrow>
          if (case ck_signals ck of None \<Rightarrow> False
              | Some s \<Rightarrow> dr_signals_ref (ck_request ck) \<noteq> Some (signals_ref (dw_digest dw) s))
          then Inl (signals_changed dw p)
          else (case bind_offer w dw dc p ck rows of
                  Inl _ \<Rightarrow> Inl (no_longer_valid dw p)
                | Inr (dec, bureau_request) \<Rightarrow>
                    bindR (bureau_decision dw dc p ck bureau_request) (\<lambda>bureau.
                    validate_locked dw dc p ck bureau_request bureau d)))"

section \<open>Execution\<close>

definition limit_result :: "action_proposal \<Rightarrow> pyval \<Rightarrow> string option \<Rightarrow> money \<Rightarrow> money option \<Rightarrow> money \<Rightarrow> (string \<times> pyval) list" where
  "limit_result p product_code product_name proposed maximum available =
     [(''success'', PBool True), (''message'', PStr (''Your credit limit is now '' @ usd_limit_text proposed @ ''.'')),
      (''account_id'', PStr (account_text p)), (''product_code'', product_code),
      (''product_name'', (case product_name of Some n \<Rightarrow> PStr n | None \<Rightarrow> product_code)),
      (''approval_semantics'', offer_field p ''approval_semantics''),
      (''previous_credit_limit'', offer_field p ''current_limit''), (''credit_limit'', offer_field p ''proposed_limit''),
      (''increase_amount'', offer_field p ''increase_amount''), (''product_maximum'', opt_value model_dump maximum),
      (''available_credit'', model_dump available)]"

definition execute_credit_limit :: "triage_world \<Rightarrow> action_proposal \<Rightarrow> bank_db \<Rightarrow> ((string \<times> pyval) list \<times> bank_db) attempt" where
  "execute_credit_limit tw p d =
     (let facts = offer_field p ''eligibility_facts''; product_code = dict_get facts ''product_code'';
          product = (if truthy product_code then get_credit_product (text_of product_code) d else None) in
      bindR (raised (apply_limit_increase (tw_clock tw) (account_text p) (minor_of (offer_field p ''proposed_limit'')) d)) (\<lambda>(account, d').
      bindR (raised (money_validate (offer_field p ''proposed_limit''))) (\<lambda>proposed.
      bindR (raised (case dict_get facts ''maximum_limit_minor'' of
               PInt n \<Rightarrow> bindR (mk_money n ''USD'') (\<lambda>m. Inr (Some m)) | _ \<Rightarrow> Inr None)) (\<lambda>maximum.
      bindR (raised (mk_money (ca_available_credit_cents account) ''USD'')) (\<lambda>available.
      Inr (limit_result p product_code (map_option cp_product_name product) proposed maximum available, d'))))))"

section \<open>The operation\<close>

definition CREDIT_LIMIT :: "proposal_world \<Rightarrow> decision_world \<Rightarrow> decisioning \<Rightarrow> triage_world \<Rightarrow> operation" where
  "CREDIT_LIMIT w dw dc tw =
     \<lparr>op_execute = execute_credit_limit tw, op_prepare = prepare_credit_limit w dw dc,
      op_payload_schema = [(''account_id'', One T_str), (''current_limit'', One T_dict), (''proposed_limit'', One T_dict),
        (''increase_amount'', One T_dict), (''credit_limit_policy'', One T_dict), (''eligibility_facts'', One T_dict),
        (''prepared_arithmetic'', One T_dict), (''bank_decision'', One T_dict), (''decision_request'', One T_dict),
        (''approval_semantics'', One T_str)],
      op_input_schema = [(''requested_limit_minor'', One T_int), (''currency_code'', One T_str)],
      op_parameters = [], op_literal_bindings = [], op_template_fields = [],
      op_public_fields = [''current_limit'', ''proposed_limit'', ''increase_amount'', ''approval_semantics''],
      op_required_facts = [''current_limit'', ''proposed_limit'', ''increase_amount'', ''approval_semantics''],
      op_public_input_schema = None, op_normalize_public_inputs = public_inputs_unchanged,
      op_normalize_business_inputs = business_inputs_unchanged, op_validate = validate_credit_limit w dw dc,
      op_reconcile = default_reconcile, op_started = default_record_commit_started, op_committed = default_record_committed,
      op_reconciled = default_record_reconciled, op_pending = default_commit_pending_message\<rparr>"

definition OPERATIONS ::
    "proposal_world \<Rightarrow> decision_world \<Rightarrow> decisioning \<Rightarrow> (pyval \<Rightarrow> string) \<Rightarrow> triage_world \<Rightarrow> (string \<times> operation) list" where
  "OPERATIONS w dw dc sha256_json tw =
     [(''credit.adjust_limit.v1'', CREDIT_LIMIT w dw dc tw), (''fraud.triage.v1'', FRAUD_TRIAGE sha256_json tw),
      (''cards.issue_replacement.v1'', CARD_REPLACEMENT tw), (''cards.queue_wallet.v1'', WALLET_QUEUE tw)]"

section \<open>What a commit rests on\<close>

lemma find_filter: "filter P xs = x # ys \<Longrightarrow> List.find P xs = Some x"
  by (induction xs) (auto split: if_splits)

lemma one_or_none_Some: "one_or_none P rs = Inr (Some r) \<Longrightarrow> List.find P rs = Some r \<and> r \<in> set rs \<and> P r"
  using find_Some_iff' [of P rs r] by (auto simp: one_or_none_def dest: find_filter split: list.splits)

lemma money_value:
  assumes "money_validate v = Inr m"
  shows "minor_of v = amount_minor m" "text_of (dict_get v ''currency_code'') = currency_code m"
proof -
  obtain kvs n c where "v = PDict kvs" "map_of kvs ''amount_minor'' = Some (PInt n)" "map_of kvs ''currency_code'' = Some (PStr c)"
    "mk_money n c = Inr m"
    using assms by (auto simp: money_validate_def split: pyval.splits option.splits if_splits)
  then show "minor_of v = amount_minor m" "text_of (dict_get v ''currency_code'') = currency_code m"
    using mk_money_Inr [of n c m] by (simp_all add: minor_of_def text_of_def)
qed

lemma commit_start_Inr:
  assumes "commit_start dc p d = Inr ck"
  shows "dc_policy dc = Inr (ck_policy ck)" "request_validate (offer_field p ''decision_request'') = Inr (ck_request ck)"
    and "dc_tier_config dc = Inr (ck_tier_config ck)" "current_signals p (dc_clock dc AT_START) d = Inr (ck_signals ck)"
  using assms by (auto simp: commit_start_def Let_def)

lemma expected_request_Inr:
  assumes "expected_request dw p q = Inr q"
  obtains proposed where "money_validate (offer_field p ''proposed_limit'') = Inr proposed" "dr_requested_limit q = proposed"
    "dr_request_ref q = digest_of dw (PDict (commit_context p))" "dr_inquiry_consent q = None"
proof -
  obtain m f where m: "money_validate (offer_field p ''proposed_limit'') = Inr m"
    and q: "q = \<lparr>dr_request_ref = digest_of dw (PDict (commit_context p)),
        dr_scope_ref = (if dr_origin q \<noteq> None then dr_scope_ref q else scope_digest dw (commit_context p)),
        dr_input_ref = input_digest dw (offer_field p ''eligibility_facts'') (offer_field p ''proposed_limit'')
          (opt_str (dr_signals_ref q)),
        dr_requested_limit = m, dr_facts = f, dr_inquiry_consent = None, dr_origin = dr_origin q,
        dr_signals_ref = dr_signals_ref q\<rparr>"
    using assms unfolding expected_request_def by (elim bindR_E) (simp only: coherent_Inr, blast)
  show ?thesis
    by (rule that [OF m]) (subst q, simp)+
qed

text \<open>What \<open>bind_offer\<close> establishes of the offer, with the request for the bureau when it asks for consent.\<close>

lemma bind_offer_Inr:
  assumes "bind_offer w dw dc p ck rows = Inr (dec, bq)"
  obtains proposed where "money_validate (offer_field p ''proposed_limit'') = Inr proposed" "dr_requested_limit (ck_request ck) = proposed"
    "dr_request_ref (ck_request ck) = digest_of dw (PDict (commit_context p))"
    "snd (canonical_payload w (tm_action_payload (pp_terms p))) = tm_payload_fingerprint (pp_terms p)"
    "validate_decision (offer_field p ''bank_decision'') (ck_request ck) (ck_policy ck) (ck_now ck) (Some (ck_tier_config ck)) = Inr dec"
    "tm_bank_decision_ref (pp_terms p) = Some (binding_ref dec)" "dr_signals_ref (ck_request ck) \<noteq> None"
    "bq = None \<and> approval_semantics p dec
     \<or> consent_semantics p (ck_request ck) dec \<and> (\<exists>consent r. bq = Some r \<and> with_consent (ck_request ck) consent = Inr r
         \<and> derive_inquiry_consent w p (ck_request ck) (bd_inquiry_type dec) (ck_tier_config ck) = Inr consent)"
proof -
  let ?q = "ck_request ck"
  obtain expected where e: "expected_request dw p ?q = Inr expected"
    "?q = expected" "snd (canonical_payload w (tm_action_payload (pp_terms p))) = tm_payload_fingerprint (pp_terms p)"
    and v: "validate_decision (offer_field p ''bank_decision'') ?q (ck_policy ck) (ck_now ck) (Some (ck_tier_config ck)) = Inr dec"
    and c: "consent_semantics p ?q dec \<or> approval_semantics p dec" "Some (binding_ref dec) = tm_bank_decision_ref (pp_terms p)"
      "dr_signals_ref ?q \<noteq> None"
    and b: "(if \<not> consent_semantics p ?q dec then Inr (dec, None)
       else bindR (derive_inquiry_consent w p ?q (bd_inquiry_type dec) (ck_tier_config ck)) (\<lambda>consent.
            bindR (with_consent ?q consent) (\<lambda>r. Inr (dec, Some r)))) = Inr (dec, bq)"
    using assms unfolding bind_offer_def Let_def
    by (elim bindR_E if_Inl_E) (auto simp del: canonical_payload_def split: if_splits)
  obtain proposed where m: "money_validate (offer_field p ''proposed_limit'') = Inr proposed" "dr_requested_limit ?q = proposed"
    "dr_request_ref ?q = digest_of dw (PDict (commit_context p))"
    using expected_request_Inr [of dw p ?q] e(1) by (metis e(2))
  show ?thesis
    by (rule that [OF m e(3) v c(2) [symmetric] c(3)]) (use b c(1) in \<open>auto split: if_splits\<close>)
qed

lemma validate_locked_Inr:
  assumes "validate_locked dw dc p ck bq bureau d = Inr ()"
  obtains account product where "owned_account_of p d = Inr (Some account)" "product_of account d = Inr product"
    "still_fresh dc p ck bureau" "locked_refusal dw p account product = None" "bq \<noteq> None \<longrightarrow> bureau \<noteq> None"
  using assms by (auto simp: validate_locked_def Let_def split: option.splits if_splits)

lemma bureau_decision_Inr:
  assumes "bureau_decision dw dc p ck bq = Inr (Some (q, b))"
  obtains returned signals where "bq = Some q" "ck_signals ck = Some signals" "dc_evaluate dc q signals = Inr returned"
    "bd_outcome b = APPROVED" "same_value (opt_value model_dump (bd_approved_limit b)) (offer_field p ''proposed_limit'')"
    "validate_decision returned q (ck_policy ck) (dc_clock dc AT_BUREAU) (Some (ck_tier_config ck)) = Inr b"
  using assms by (auto simp: bureau_decision_def split: option.splits sum.splits if_splits)

text \<open>What lets a limit change: an approval of exactly this amount, or, after an offer for consent, the provider's own
  answer to the stored request with the consent the customer gave in the recorded confirmation of this very proposal,
  asked about the signals the account shows at the commit: it must be a receipt that approves exactly this amount.\<close>

definition inquiry_approves ::
    "decision_world \<Rightarrow> decisioning \<Rightarrow> action_proposal \<Rightarrow> bank_db \<Rightarrow> limit_request \<Rightarrow> inquiry_consent \<Rightarrow> bool" where
  "inquiry_approves dw dc p d q consent \<longleftrightarrow>
     (\<exists>signals returned bureau. current_signals p (dc_clock dc AT_START) d = Inr (Some signals)
       \<and> dr_signals_ref q = Some (signals_ref (dw_digest dw) signals)
       \<and> dc_evaluate dc (q\<lparr>dr_inquiry_consent := Some consent\<rparr>) signals = Inr returned \<and> decision_validate returned = Inr bureau
       \<and> bd_outcome bureau = APPROVED \<and> bd_approved_limit bureau = Some (dr_requested_limit q)
       \<and> dc_policy dc = Inr (bd_policy bureau) \<and> bd_request_ref bureau = dr_request_ref q
       \<and> bd_evidence_references bureau = [dr_input_ref q, qc_consent_ref consent]
       \<and> bd_evaluated_at bureau \<le> dc_clock dc AT_LOCKS_BUREAU \<and> dc_clock dc AT_LOCKS_BUREAU < bd_expires_at bureau)"

definition authorized ::
    "proposal_world \<Rightarrow> decision_world \<Rightarrow> decisioning \<Rightarrow> action_proposal \<Rightarrow> bank_db \<Rightarrow> limit_request \<Rightarrow> bank_decision \<Rightarrow> bool" where
  "authorized w dw dc p d q dec \<longleftrightarrow>
     (bd_outcome dec = APPROVED \<and> bd_approved_limit dec = Some (dr_requested_limit q)
       \<and> offer_field p ''approval_semantics'' = PStr INSTANT_APPROVAL_SEMANTICS)
   \<or> (bd_outcome dec = NEEDS_INFORMATION \<and> pp_confirmed_at p \<noteq> None \<and> (\<exists>t config consent.
       bd_inquiry_type dec = Some t \<and> offer_field p ''approval_semantics'' = opt_str (CONSENT_APPROVAL_SEMANTICS t)
       \<and> dc_tier_config dc = Inr config \<and> derive_inquiry_consent w p q (Some t) config = Inr consent
       \<and> qc_inquiry_type consent = t \<and> inquiry_approves dw dc p d q consent))"

lemma derived_consent:
  assumes "derive_inquiry_consent w p q t config = Inr consent"
  shows "pp_confirmed_at p \<noteq> None" "t = Some (qc_inquiry_type consent)"
  using assms by (auto simp: derive_inquiry_consent_def Let_def split: option.splits if_splits)

lemma fresh_receipt:
  assumes "still_fresh dc p ck bureau" "\<And>q b. bureau = Some (q, b) \<Longrightarrow> decision_ok b"
  shows "\<exists>dec. validate_decision (offer_field p ''bank_decision'') (ck_request ck) (ck_policy ck) (dc_clock dc AT_LOCKS)
      (Some (ck_tier_config ck)) = Inr dec
    \<and> (\<forall>q b. bureau = Some (q, b) \<longrightarrow> validate_decision (decision_dump b) q (ck_policy ck) (dc_clock dc AT_LOCKS_BUREAU)
      (Some (ck_tier_config ck)) = Inr b)"
proof -
  have n: "\<not> isl m \<Longrightarrow> \<exists>x. m = Inr x" for m :: "bank_decision res" by (cases m) auto
  obtain dec where d: "validate_decision (offer_field p ''bank_decision'') (ck_request ck) (ck_policy ck) (dc_clock dc AT_LOCKS)
      (Some (ck_tier_config ck)) = Inr dec"
    using assms(1) n unfolding still_fresh_def by blast
  have "validate_decision (decision_dump b) q (ck_policy ck) (dc_clock dc AT_LOCKS_BUREAU) (Some (ck_tier_config ck)) = Inr b"
    if "bureau = Some (q, b)" for q b
  proof -
    have "\<not> isl (validate_decision (decision_dump b) q (ck_policy ck) (dc_clock dc AT_LOCKS_BUREAU) (Some (ck_tier_config ck)))"
      using assms(1) that by (simp add: still_fresh_def)
    then obtain x where x: "validate_decision (decision_dump b) q (ck_policy ck) (dc_clock dc AT_LOCKS_BUREAU) (Some (ck_tier_config ck)) = Inr x"
      using n by blast
    have "decision_validate (decision_dump b) = Inr x" by (rule validate_decision_parts(12) [OF x])
    then have "x = b" using decision_wire.validate_dump [OF assms(2) [OF that]] by simp
    with x show ?thesis by simp
  qed
  with d show ?thesis by blast
qed

lemma bind_offer_authorized:
  assumes b: "bind_offer w dw dc p ck rows = Inr (dec, bq)" and u: "bureau_decision dw dc p ck bq = Inr bureau"
    and f: "still_fresh dc p ck bureau" and l: "bq \<noteq> None \<longrightarrow> bureau \<noteq> None"
    and start: "commit_start dc p d = Inr ck"
    and current: "\<And>s. ck_signals ck = Some s \<Longrightarrow> dr_signals_ref (ck_request ck) = Some (signals_ref (dw_digest dw) s)"
  obtains proposed where "money_validate (offer_field p ''proposed_limit'') = Inr proposed" "dr_requested_limit (ck_request ck) = proposed"
    "dr_request_ref (ck_request ck) = digest_of dw (PDict (commit_context p))"
    "snd (canonical_payload w (tm_action_payload (pp_terms p))) = tm_payload_fingerprint (pp_terms p)"
    "decision_validate (offer_field p ''bank_decision'') = Inr dec" "decision_ok dec" "bd_policy dec = ck_policy ck"
    "bd_request_ref dec = dr_request_ref (ck_request ck)"
    "bd_evaluated_at dec \<le> dc_clock dc AT_LOCKS" "dc_clock dc AT_LOCKS < bd_expires_at dec"
    "tm_bank_decision_ref (pp_terms p) = Some (binding_ref dec)" "authorized w dw dc p d (ck_request ck) dec"
proof -
  let ?q = "ck_request ck"
  obtain proposed where o: "money_validate (offer_field p ''proposed_limit'') = Inr proposed" "dr_requested_limit ?q = proposed"
    "dr_request_ref ?q = digest_of dw (PDict (commit_context p))"
    "snd (canonical_payload w (tm_action_payload (pp_terms p))) = tm_payload_fingerprint (pp_terms p)"
    and v: "validate_decision (offer_field p ''bank_decision'') ?q (ck_policy ck) (ck_now ck) (Some (ck_tier_config ck)) = Inr dec"
    and r: "tm_bank_decision_ref (pp_terms p) = Some (binding_ref dec)"
    and c: "bq = None \<and> approval_semantics p dec
     \<or> consent_semantics p ?q dec \<and> (\<exists>consent r. bq = Some r \<and> with_consent ?q consent = Inr r
         \<and> derive_inquiry_consent w p ?q (bd_inquiry_type dec) (ck_tier_config ck) = Inr consent)"
    using b by (rule bind_offer_Inr)
  note parts = validate_decision_parts [OF v]
  have bok: "decision_ok x" if x: "bureau = Some (y, x)" for y x
    using bureau_decision_Inr [of dw dc p ck bq y x] u x validate_decision_parts(1) by metis
  obtain dec' where fresh: "validate_decision (offer_field p ''bank_decision'') ?q (ck_policy ck) (dc_clock dc AT_LOCKS) (Some (ck_tier_config ck)) = Inr dec'"
    "\<And>q x. bureau = Some (q, x) \<Longrightarrow> validate_decision (decision_dump x) q (ck_policy ck) (dc_clock dc AT_LOCKS_BUREAU)
      (Some (ck_tier_config ck)) = Inr x"
    using fresh_receipt [OF f] bok by metis
  have same: "dec' = dec" using validate_decision_parts(12) [OF fresh(1)] parts(12) by simp
  note late = validate_decision_parts(9,10) [OF fresh(1), unfolded same]
  note started = commit_start_Inr [OF start]
  have "authorized w dw dc p d ?q dec"
    using c
  proof (elim disjE conjE exE)
    assume "approval_semantics p dec"
    then show ?thesis using parts(7) by (simp add: authorized_def approval_semantics_def)
  next
    fix consent rq
    assume k: "consent_semantics p ?q dec" "bq = Some rq" "with_consent ?q consent = Inr rq"
      "derive_inquiry_consent w p ?q (bd_inquiry_type dec) (ck_tier_config ck) = Inr consent"
    then obtain y x where bu: "bureau = Some (y, x)" using l by auto
    obtain returned signals where x: "bq = Some y" "ck_signals ck = Some signals" "dc_evaluate dc y signals = Inr returned"
      "bd_outcome x = APPROVED" and xv: "validate_decision returned y (ck_policy ck) (dc_clock dc AT_BUREAU) (Some (ck_tier_config ck)) = Inr x"
      using u [unfolded bu] by (rule bureau_decision_Inr)
    have y: "y = ?q\<lparr>dr_inquiry_consent := Some consent\<rparr>" using k(2,3) x(1) by (simp add: with_consent_def)
    note xp = validate_decision_parts [OF xv] and xl = validate_decision_parts(9,10) [OF fresh(2) [OF bu]]
    have "bd_evidence_references x = [dr_input_ref ?q, qc_consent_ref consent]"
      using xp(5) by (simp add: y evidence_of_def)
    then have "inquiry_approves dw dc p d ?q consent"
      using x started(1,4) current xp xl unfolding inquiry_approves_def
      by (intro exI [of _ signals] exI [of _ returned] exI [of _ x] conjI) (simp_all add: y)
    then show ?thesis
      using k(1,4) derived_consent [OF k(4)] started(3) unfolding authorized_def consent_semantics_def
      by (intro disjI2 conjI exI [of _ "qc_inquiry_type consent"] exI [of _ "ck_tier_config ck"] exI [of _ consent]) simp_all
  qed
  with o r parts late show ?thesis by (intro that) simp_all
qed

text \<open>C9. A credit limit changes only on the bank's word and the customer's: when a commit's validation passes and its
  execution succeeds, the proposal's account belongs to the proposal's customer and is active, the new limit is the
  proposed one, above the old limit and within the bounds of the active product, the account and product are those the
  customer was shown; the stored request is bound to the proposal's session, turn, key and inputs, the payload is
  the one fingerprinted at creation, the stored receipt is the one the proposal is bound to, from the policy in force
  and still fresh under the locks; it approves exactly this limit, or the provider's own answer to the same request, with
  the consent of the proposal's recorded confirmation and on the signals the account shows now, approves exactly this
  limit.  The one account moves to the new
  limit, its available credit by the difference, and no other account, card, hold or journal row changes.\<close>

theorem limit_change_is_authorized:
  assumes v: "validate_credit_limit w dw dc rows p d = Inr ()" and x: "execute_credit_limit tw p d = Inr (outcome, d')"
    and ids: "distinct (map ca_id (d_credit_accounts d))"
  shows "\<exists>a pr q dec. let t = pp_terms p; proposed = dr_requested_limit q; n = amount_minor proposed in
     a \<in> set (d_credit_accounts d) \<and> tm_account_id t = Some (ca_id a) \<and> ca_customer_id a = tm_customer_id t
     \<and> ca_status a = ''ACTIVE'' \<and> cp_is_active pr \<and> get_credit_product (ca_product_code a) d = Some pr
     \<and> ca_credit_limit_cents a < n \<and> cp_min_credit_limit_cents pr \<le> n \<and> n \<le> cp_max_credit_limit_cents pr
     \<and> same_value (PDict (credit_limit_facts a (Some pr))) (offer_field p ''eligibility_facts'')
     \<and> request_validate (offer_field p ''decision_request'') = Inr q \<and> dr_request_ref q = digest_of dw (PDict (commit_context p))
     \<and> money_validate (offer_field p ''proposed_limit'') = Inr proposed \<and> currency_code proposed = ''USD''
     \<and> snd (canonical_payload w (tm_action_payload t)) = tm_payload_fingerprint t
     \<and> decision_validate (offer_field p ''bank_decision'') = Inr dec \<and> tm_bank_decision_ref t = Some (binding_ref dec)
     \<and> bd_request_ref dec = dr_request_ref q \<and> dc_policy dc = Inr (bd_policy dec)
     \<and> bd_evaluated_at dec \<le> dc_clock dc AT_LOCKS \<and> dc_clock dc AT_LOCKS < bd_expires_at dec
     \<and> authorized w dw dc p d q dec
     \<and> d_credit_accounts d' = put_row ca_id (a\<lparr>ca_credit_limit_cents := n,
          ca_available_credit_cents := ca_available_credit_cents a + (n - ca_credit_limit_cents a),
          ca_last_limit_increase_at := Some (tw_clock tw)\<rparr>) (d_credit_accounts d)
     \<and> d_cards d' = d_cards d \<and> d_auths d' = d_auths d \<and> d_accounts d' = d_accounts d \<and> d_entries d' = d_entries d
     \<and> d_posted d' = d_posted d"
proof -
  obtain ck dec bq bureau where ck: "commit_start dc p d = Inr ck" and b: "bind_offer w dw dc p ck rows = Inr (dec, bq)"
    and u: "bureau_decision dw dc p ck bq = Inr bureau" and l: "validate_locked dw dc p ck bq bureau d = Inr ()"
    and bound: "\<not> (case ck_signals ck of None \<Rightarrow> False
      | Some s \<Rightarrow> dr_signals_ref (ck_request ck) \<noteq> Some (signals_ref (dw_digest dw) s))"
    using v by (auto simp: validate_credit_limit_def split: sum.splits if_splits)
  have sg: "dr_signals_ref (ck_request ck) = Some (signals_ref (dw_digest dw) s)" if "ck_signals ck = Some s" for s
    using bound that by simp
  obtain a product where a: "owned_account_of p d = Inr (Some a)" "product_of a d = Inr product"
    "still_fresh dc p ck bureau" "locked_refusal dw p a product = None" "bq \<noteq> None \<longrightarrow> bureau \<noteq> None"
    using l by (rule validate_locked_Inr)
  obtain proposed where o: "money_validate (offer_field p ''proposed_limit'') = Inr proposed" "dr_requested_limit (ck_request ck) = proposed"
    "dr_request_ref (ck_request ck) = digest_of dw (PDict (commit_context p))"
    "snd (canonical_payload w (tm_action_payload (pp_terms p))) = tm_payload_fingerprint (pp_terms p)"
    "decision_validate (offer_field p ''bank_decision'') = Inr dec" "decision_ok dec" "bd_policy dec = ck_policy ck"
    "bd_request_ref dec = dr_request_ref (ck_request ck)"
    "bd_evaluated_at dec \<le> dc_clock dc AT_LOCKS" "dc_clock dc AT_LOCKS < bd_expires_at dec"
    "tm_bank_decision_ref (pp_terms p) = Some (binding_ref dec)" "authorized w dw dc p d (ck_request ck) dec"
    using b u a(3,5) ck sg by (rule bind_offer_authorized)
  note ck' = commit_start_Inr [OF ck]
  have own: "a \<in> set (d_credit_accounts d)" "tm_account_id (pp_terms p) = Some (ca_id a)" "ca_customer_id a = tm_customer_id (pp_terms p)"
    using one_or_none_Some [OF a(1) [unfolded owned_account_of_def]] by auto
  have loc: "evaluate_credit_limit (limit_facts_of a product) (amount_minor proposed) (currency_code proposed) = None"
    "same_value (PDict (credit_limit_facts a product)) (offer_field p ''eligibility_facts'')"
    using a(4) by (auto simp: locked_refusal_def Let_def money_value [OF o(1)] split: if_splits)
  obtain pr where e: "product = Some pr" "cp_is_active pr" "ca_status a = ''ACTIVE''" "currency_code proposed = ''USD''"
    "ca_credit_limit_cents a < amount_minor proposed" "cp_min_credit_limit_cents pr \<le> amount_minor proposed"
    "amount_minor proposed \<le> cp_max_credit_limit_cents pr"
    using loc(1) by (rule eligible_limit)
  have pr: "get_credit_product (ca_product_code a) d = Some pr"
    using one_or_none_Some [OF a(2) [unfolded product_of_def e(1)]] by (simp add: get_credit_product_def)
  obtain a' where run: "apply_limit_increase (tw_clock tw) (ca_id a) (amount_minor proposed) d = Inr (a', d')"
    using x by (auto simp: execute_credit_limit_def Let_def account_text_def own(2) money_value [OF o(1)] split: prod.splits)
  have found: "get_credit_account (ca_id a) d = Some a"
    unfolding get_credit_account_def by (rule find_key_distinct [OF ids own(1)])
  have "d_credit_accounts d' = put_row ca_id (a\<lparr>ca_credit_limit_cents := amount_minor proposed,
          ca_available_credit_cents := ca_available_credit_cents a + (amount_minor proposed - ca_credit_limit_cents a),
          ca_last_limit_increase_at := Some (tw_clock tw)\<rparr>) (d_credit_accounts d)
     \<and> d_cards d' = d_cards d \<and> d_auths d' = d_auths d \<and> d_accounts d' = d_accounts d \<and> d_entries d' = d_entries d
     \<and> d_posted d' = d_posted d"
    by (rule limit_increase_steps [OF run]) (simp add: found frame_simps put_credit_account_def)
  with own e pr loc(2) o ck' show ?thesis
    unfolding Let_def by (intro exI [of _ a] exI [of _ pr] exI [of _ "ck_request ck"] exI [of _ dec]) simp
qed

section \<open>A sample commit\<close>

definition sample_limit_payload :: "(string \<times> pyval) list" where
  "sample_limit_payload = dict_put FINGERPRINT_KEY (PStr ''f'')
     (offer_payload sample_decision_world sample_ask sample_answer sample_limit_receipt
        \<lparr>amount_minor = 500000, currency_code = ''USD''\<rparr> \<lparr>amount_minor = 600000, currency_code = ''USD''\<rparr>
        \<lparr>amount_minor = 100000, currency_code = ''USD''\<rparr>)"

definition sample_limit_proposal :: action_proposal where
  "sample_limit_proposal =
     \<lparr>pp_terms = \<lparr>tm_id = ''p1'', tm_bank_decision_ref = Some ''demo-bank:d-1'', tm_definition_id = ''credit-limit-increase'',
        tm_definition_revision = 1, tm_definition_digest = ''d'', tm_contract_version = ''credit-limit-increase.v1'',
        tm_action_type = ''CREDIT_LIMIT_INCREASE'', tm_customer_id = ''u1'', tm_account_id = Some (cf_account_id sample_facts),
        tm_support_session_id = ''s'', tm_runtime_name = ''rt'', tm_runtime_session_id = ''rs'',
        tm_originating_customer_turn_id = ''turn-0'', tm_reset_generation = ''g'', tm_confirmation_policy = ''c'',
        tm_action_payload = sample_limit_payload, tm_payload_fingerprint = ''json'', tm_customer_safe_summary = ''Increase'',
        tm_catalog_snapshot_id = None, tm_idempotency_key = ''k'', tm_expires_at = 100, tm_created_at = 0\<rparr>,
      pp_status = COMMITTING, pp_presented_assistant_turn_id = Some ''turn-1'', pp_confirmation_customer_turn_id = Some ''turn-2'',
      pp_confirmation_evidence = Some [(''source'', PStr ''s'')], pp_result_payload = None, pp_invalidation_reason = None,
      pp_presented_at = Some 1, pp_confirmed_at = Some 2, pp_commit_started_at = Some 2, pp_completed_at = None\<rparr>"

definition sample_commit_state :: commit_state where
  "sample_commit_state = \<lparr>ck_policy = sample_policy, ck_tier_config = DEMO_TIERS, ck_now = 1000 * DAY,
     ck_request = sample_limit_request, ck_signals = Some sample_signals\<rparr>"

lemma sample_payload_fields:
  "offer_field sample_limit_proposal ''decision_request'' = request_dump sample_limit_request"
  "offer_field sample_limit_proposal ''bank_decision'' = decision_dump sample_limit_receipt"
  "offer_field sample_limit_proposal ''proposed_limit'' = model_dump \<lparr>amount_minor = 600000, currency_code = ''USD''\<rparr>"
  "offer_field sample_limit_proposal ''eligibility_facts'' = PDict (ask_facts sample_ask)"
  "offer_field sample_limit_proposal ''credit_limit_policy'' = CREDIT_LIMIT_POLICY sample_digest"
  by (simp_all add: offer_field_def action_payload_def sample_limit_proposal_def sample_limit_payload_def offer_payload_def
      FINGERPRINT_KEY_def sample_answer_def sample_decision_world_def)

lemma sample_request_read: "request_validate (request_dump sample_limit_request) = Inr sample_limit_request"
  by (rule request_wire.validate_dump) code_simp

lemma sample_commit_signals: "current_signals sample_limit_proposal (1000 * DAY) sample_limit_db = Inr (Some sample_signals)"
  by code_simp

lemma sample_expected: "expected_request sample_decision_world sample_limit_proposal sample_limit_request = Inr sample_limit_request"
  by code_simp

lemma sample_locked: "locked_refusal sample_decision_world sample_limit_proposal sample_limit_account (lk_product sample_ask) = None"
  by code_simp

lemma sample_rows: "owned_account_of sample_limit_proposal sample_limit_db = Inr (Some sample_limit_account)"
  "product_of sample_limit_account sample_limit_db = Inr (lk_product sample_ask)"
  by code_simp+

lemma sample_limit_moves: "\<not> isl (apply_limit_increase 400 (cf_account_id sample_facts) 600000 sample_limit_db)"
  by code_simp

lemma sample_executes:
  obtains outcome d' where "execute_credit_limit sample_triage_world sample_limit_proposal sample_limit_db = Inr (outcome, d')"
proof -
  obtain a' d' where m: "apply_limit_increase 400 (cf_account_id sample_facts) 600000 sample_limit_db = Inr (a', d')"
    using sample_limit_moves by (cases "apply_limit_increase 400 (cf_account_id sample_facts) 600000 sample_limit_db") auto
  obtain a p where st: "get_credit_account (cf_account_id sample_facts) sample_limit_db = Some a"
    "a' = a\<lparr>ca_credit_limit_cents := 600000, ca_available_credit_cents := ca_available_credit_cents a + (600000 - ca_credit_limit_cents a),
       ca_last_limit_increase_at := Some 400\<rparr>"
    using limit_increase_steps [OF m] by blast
  have "a = sample_limit_account" using st(1) by (simp add: get_credit_account_def sample_limit_db_def sample_limit_account_def)
  then have av: "ca_available_credit_cents a' = 580000" by (simp add: st(2) sample_limit_account_def)
  have f: "dict_get (PDict (ask_facts sample_ask)) ''maximum_limit_minor'' = PInt 2000000"
    "minor_of (model_dump \<lparr>amount_minor = 600000, currency_code = ''USD''\<rparr>) = 600000"
    "money_validate (model_dump \<lparr>amount_minor = 600000, currency_code = ''USD''\<rparr>) = Inr \<lparr>amount_minor = 600000, currency_code = ''USD''\<rparr>"
    "mk_money 2000000 ''USD'' = Inr \<lparr>amount_minor = 2000000, currency_code = ''USD''\<rparr>"
    "mk_money 580000 ''USD'' = Inr \<lparr>amount_minor = 580000, currency_code = ''USD''\<rparr>"
    by code_simp+
  have c: "tw_clock sample_triage_world = 400" "account_text sample_limit_proposal = cf_account_id sample_facts"
    by (simp_all add: sample_triage_world_def account_text_def sample_limit_proposal_def)
  show ?thesis
    by (rule that) (simp only: execute_credit_limit_def Let_def sample_payload_fields f c m raised_simps bindR_simps prod.case av pyval.case)
qed

lemma sample_commit_valid:
  "validate_credit_limit (sample_world 10) sample_decision_world sample_decisioning [] sample_limit_proposal sample_limit_db = Inr ()"
proof -
  have dc: "dc_policy sample_decisioning = Inr sample_policy" "dc_tier_config sample_decisioning = Inr DEMO_TIERS"
    "dc_clock sample_decisioning r = 1000 * DAY" for r
    by (simp_all add: sample_decisioning_def)
  have start: "commit_start sample_decisioning sample_limit_proposal sample_limit_db = Inr sample_commit_state"
    by (simp add: commit_start_def dc sample_payload_fields sample_request_read sample_commit_signals sample_commit_state_def Let_def
        del: bindR_Inr_iff)
  have ck: "ck_policy sample_commit_state = sample_policy" "ck_tier_config sample_commit_state = DEMO_TIERS"
    "ck_now sample_commit_state = 1000 * DAY" "ck_request sample_commit_state = sample_limit_request"
    "ck_signals sample_commit_state = Some sample_signals"
    by (simp_all add: sample_commit_state_def)
  have sig: "dr_signals_ref sample_limit_request = Some (signals_ref (dw_digest sample_decision_world) sample_signals)"
    "dr_origin sample_limit_request = None" "cf_account_id (dr_facts sample_limit_request) = account_text sample_limit_proposal"
    by (simp_all add: sample_limit_request_def sample_request_def sample_decision_world_def signals_ref_def sample_digest_def
        account_text_def sample_limit_proposal_def)
  have dec: "bd_outcome sample_limit_receipt = APPROVED" "binding_ref sample_limit_receipt = ''demo-bank:d-1''"
    "bd_approved_limit sample_limit_receipt = Some \<lparr>amount_minor = 600000, currency_code = ''USD''\<rparr>"
    by (simp_all add: sample_limit_receipt_def binding_ref_def sample_policy_def receipt_def sample_decision_world_def)
  have p: "offer_field sample_limit_proposal ''approval_semantics'' = PStr INSTANT_APPROVAL_SEMANTICS"
    by (simp add: offer_field_def action_payload_def sample_limit_proposal_def sample_limit_payload_def offer_payload_def
        FINGERPRINT_KEY_def is_consent_offer_def dec)
  have "tm_bank_decision_ref (pp_terms sample_limit_proposal) = Some ''demo-bank:d-1''"
    "tm_payload_fingerprint (pp_terms sample_limit_proposal) = ''json''"
    "snd (canonical_payload (sample_world 10) kvs) = ''json''" for kvs
    by (simp_all add: sample_limit_proposal_def canonical_payload_def fingerprint_def json_text_def sample_world_def)
  note pt = this
  have bound: "bind_offer (sample_world 10) sample_decision_world sample_decisioning sample_limit_proposal sample_commit_state []
      = Inr (sample_limit_receipt, None)"
    by (simp add: bind_offer_def ck sample_expected pt sample_payload_fields sample_limit_step5 approval_semantics_def
        consent_semantics_def dec p sig check_origin_def Let_def same_value_def opt_value_def del: bindR_Inr_iff)
  have bureau: "bureau_decision sample_decision_world sample_decisioning sample_limit_proposal sample_commit_state None = Inr None"
    by (simp add: bureau_decision_def)
  have fresh: "still_fresh sample_decisioning sample_limit_proposal sample_commit_state None"
    by (simp add: still_fresh_def ck dc sample_payload_fields sample_limit_step5)
  have "validate_locked sample_decision_world sample_decisioning sample_limit_proposal sample_commit_state None None sample_limit_db = Inr ()"
    by (simp add: validate_locked_def sample_rows fresh sample_locked ck sig Let_def del: bindR_Inr_iff)
  then show ?thesis
    by (simp add: validate_credit_limit_def start ck sig bound bureau del: bindR_Inr_iff)
qed

theorem limit_change_is_authorized_witness:
  "\<exists>outcome d'. execute_credit_limit sample_triage_world sample_limit_proposal sample_limit_db = Inr (outcome, d')
     \<and> map ca_credit_limit_cents (d_credit_accounts d') = [600000]"
proof -
  obtain outcome d' where x: "execute_credit_limit sample_triage_world sample_limit_proposal sample_limit_db = Inr (outcome, d')"
    by (rule sample_executes)
  have ids: "distinct (map ca_id (d_credit_accounts sample_limit_db))" by (simp add: sample_limit_db_def)
  have q: "request_validate (offer_field sample_limit_proposal ''decision_request'') = Inr sample_limit_request"
    "amount_minor (dr_requested_limit sample_limit_request) = 600000"
    by (simp add: sample_payload_fields sample_request_read) (simp add: sample_limit_request_def sample_request_def)
  have "map ca_credit_limit_cents (d_credit_accounts d') = [600000]"
    using limit_change_is_authorized [OF sample_commit_valid x ids] q
    by (auto simp: Let_def sample_limit_db_def)
  with x show ?thesis by (intro exI conjI)
qed

end
