(* ===== verification/Action_Definitions.thy ===== *)
theory Action_Definitions
  imports Credit_Limit_Commit
begin

text \<open>
  The declarative catalogue of service actions (first half of \<^verbatim>\<open>services/proposal_definitions.py\<close>): the validation
  of a definition document against the registered operations, the one handler that runs every definition, and the
  registry loaded from a list of documents.  The documents the repository publishes come from
  \<^verbatim>\<open>services/playbook_repository.py\<close> as an argument; those of the release are in \<open>Bundled_Catalogue\<close>.
\<close>

section \<open>Format strings\<close>

text \<open>
  \<open>string.Formatter().parse\<close>: literal text, and replacement fields with a name, a format specification and a
  conversion.  The parser follows the library's: doubled braces stand for themselves, a field name runs to the next
  closing brace, colon or exclamation mark (brackets shield them), a specification to the matching brace.
\<close>

datatype part = Verbatim string | Placeholder string string "string option"

definition format_error :: "string \<Rightarrow> py_error" where
  "format_error message = ValueError message"

text \<open>The name of a field with the character that ends it; \<open>shielded\<close> inside brackets.\<close>

fun field_name :: "bool \<Rightarrow> string \<Rightarrow> (string \<times> char \<times> string) res" where
  "field_name shielded [] = Inl (format_error ''expected closing brace before end of string'')"
| "field_name shielded (c # cs) =
     (if shielded then bindR (field_name (c \<noteq> CHR '']'') cs) (\<lambda>(name, e, cs_left). Inr (c # name, e, cs_left))
      else if c = CHR 0x7B then Inl (format_error ''unexpected brace in field name'')
      else if c = CHR 0x7D \<or> c = CHR '':'' \<or> c = CHR ''!'' then Inr ([], c, cs)
      else bindR (field_name (c = CHR ''['') cs) (\<lambda>(name, e, cs_left). Inr (c # name, e, cs_left)))"

fun format_spec :: "nat \<Rightarrow> string \<Rightarrow> (string \<times> string) res" where
  "format_spec depth [] = Inl (format_error ''unmatched brace in format spec'')"
| "format_spec depth (c # cs) =
     (if c = CHR 0x7D \<and> depth = 0 then Inr ([], cs)
      else bindR (format_spec (if c = CHR 0x7B then Suc depth else if c = CHR 0x7D then depth - 1 else depth) cs)
             (\<lambda>(spec, cs_left). Inr (c # spec, cs_left)))"

definition conversion_tail :: "string \<Rightarrow> (string option \<times> string \<times> string) res" where
  "conversion_tail cs =
     (case cs of
        [] \<Rightarrow> Inl (format_error ''end of string while looking for conversion specifier'')
      | c # cs' \<Rightarrow>
          (case cs' of
             [] \<Rightarrow> Inl (format_error ''unmatched brace in format spec'')
           | e # cs_left \<Rightarrow>
               if e = CHR 0x7D then Inr (Some [c], [], cs_left)
               else if e \<noteq> CHR '':'' then Inl (format_error ''expected colon after conversion specifier'')
               else bindR (format_spec 0 cs_left) (\<lambda>(spec, cs_left'). Inr (Some [c], spec, cs_left'))))"

definition parse_field :: "string \<Rightarrow> (part \<times> string) res" where
  "parse_field cs =
     bindR (field_name False cs) (\<lambda>(name, e, cs_left).
     if e = CHR 0x7D then Inr (Placeholder name [] None, cs_left)
     else if e = CHR '':'' then bindR (format_spec 0 cs_left) (\<lambda>(spec, cs_left'). Inr (Placeholder name spec None, cs_left'))
     else bindR (conversion_tail cs_left) (\<lambda>(conversion, spec, cs_left'). Inr (Placeholder name spec conversion, cs_left')))"

lemma field_name_shorter: "field_name b cs = Inr (name, e, cs_left) \<Longrightarrow> length cs_left < length cs"
  by (induction b cs arbitrary: name e cs_left rule: field_name.induct) (fastforce split: if_splits)+

lemma format_spec_shorter: "format_spec n cs = Inr (spec, cs_left) \<Longrightarrow> length cs_left < length cs"
  by (induction n cs arbitrary: spec cs_left rule: format_spec.induct) (fastforce split: if_splits)+

lemma parse_field_shorter:
  assumes "parse_field cs = Inr (p, cs_left)"
  shows "length cs_left < length cs"
proof -
  obtain name e r where n: "field_name False cs = Inr (name, e, r)" using assms by (auto simp: parse_field_def)
  have "length cs_left \<le> length r"
    using assms n by (auto simp: parse_field_def conversion_tail_def split: if_splits list.splits dest!: format_spec_shorter)
  with field_name_shorter [OF n] show ?thesis by simp
qed

text \<open>One markup character begins a field, doubled it is literal; literals are collected character by character.\<close>

function parse_template :: "string \<Rightarrow> part list res" where
  "parse_template cs =
     (case cs of
        [] \<Rightarrow> Inr []
      | c # cs_left \<Rightarrow>
          if c = CHR 0x7B then
            (case cs_left of
               [] \<Rightarrow> Inl (format_error ''single opening brace encountered in format string'')
             | c' # cs_left' \<Rightarrow>
                 if c' = CHR 0x7B then bindR (parse_template cs_left') (\<lambda>ps. Inr (Verbatim [c] # ps))
                 else (case parse_field cs_left of
                         Inl e \<Rightarrow> Inl e
                       | Inr (p, after) \<Rightarrow> bindR (parse_template after) (\<lambda>ps. Inr (p # ps))))
          else if c = CHR 0x7D then
            (case cs_left of
               c' # cs_left' \<Rightarrow> if c' = CHR 0x7D then bindR (parse_template cs_left') (\<lambda>ps. Inr (Verbatim [c] # ps))
                 else Inl (format_error ''single closing brace encountered in format string'')
             | [] \<Rightarrow> Inl (format_error ''single closing brace encountered in format string''))
          else bindR (parse_template cs_left) (\<lambda>ps. Inr (Verbatim [c] # ps)))"
  by pat_completeness auto

termination
  by (relation "measure length") (auto dest: parse_field_shorter)

declare parse_template.simps [simp del]

definition placeholders :: "part list \<Rightarrow> part list" where
  "placeholders ps = filter (\<lambda>p. case p of Placeholder _ _ _ \<Rightarrow> True | Verbatim _ \<Rightarrow> False) ps"

fun part_name :: "part \<Rightarrow> string" where
  "part_name (Placeholder name spec conversion) = name"
| "part_name (Verbatim s) = s"

fun plain_placeholder :: "part \<Rightarrow> bool" where
  "plain_placeholder (Placeholder name spec conversion) = (spec = [] \<and> (case conversion of None \<Rightarrow> True | Some c \<Rightarrow> c = []))"
| "plain_placeholder (Verbatim s) = False"

text \<open>\<open>template.format(**values)\<close> on plain placeholders.\<close>

fun part_text :: "(string \<times> pyval) list \<Rightarrow> part \<Rightarrow> string" where
  "part_text values (Verbatim s) = s"
| "part_text values (Placeholder name spec conversion) = text_of (dict_get (PDict values) name)"

definition format_parts :: "(string \<times> pyval) list \<Rightarrow> part list \<Rightarrow> string" where
  "format_parts values ps = concat (map (part_text values) ps)"


section \<open>Validating a definition\<close>

text \<open>Equality of JSON values as Python compares them: numbers by value (\<open>0 == False\<close>), dictionaries by key.\<close>

primrec numeric :: "pyval \<Rightarrow> pyval" where
  "numeric PNone = PNone"
| "numeric (PBool b) = PFloat (if b then 1 else 0)"
| "numeric (PInt n) = PFloat (of_int n)"
| "numeric (PFloat x) = PFloat x"
| "numeric (PStr s) = PStr s"
| "numeric (PTime t) = PTime t"
| "numeric (PList vs) = PList (map numeric vs)"
| "numeric (PDict kvs) = PDict (map (map_prod id numeric) kvs)"

definition py_eq :: "pyval \<Rightarrow> pyval \<Rightarrow> bool" where
  "py_eq a b = (canonical (numeric a) = canonical (numeric b))"

text \<open>\<open>type(value) is t\<close>.\<close>

fun exact_type :: "pyval \<Rightarrow> field_type \<Rightarrow> bool" where
  "exact_type (PBool b) t = (t = One T_bool)"
| "exact_type v (One t) = is_instance v t"
| "exact_type v (AnyOf ts) = False"

definition require :: "bool \<Rightarrow> string \<Rightarrow> unit res" where
  "require ok message = (if ok then Inr () else Inl (ValueError message))"

text \<open>\<open>_keys\<close>: a dictionary with exactly these keys.\<close>

definition keys_are :: "string list \<Rightarrow> pyval \<Rightarrow> bool" where
  "keys_are expected v = (case v of PDict kvs \<Rightarrow> set (map fst kvs) = set expected | _ \<Rightarrow> False)"

definition require_keys :: "string list \<Rightarrow> pyval \<Rightarrow> unit res" where
  "require_keys expected v = require (keys_are expected v) ''Definition requires exactly these fields.''"

definition DEFINITION_KEYS :: "string list" where
  "DEFINITION_KEYS = [''schema_version'', ''id'', ''revision'', ''action_type'', ''contract_version'', ''type'', ''operation'',
     ''authorization_policy'', ''parameters'', ''payload'', ''presentation'']"

definition text_field :: "nat \<Rightarrow> pyval \<Rightarrow> bool" where
  "text_field limit v = (case v of PStr s \<Rightarrow> py_strip s \<noteq> [] \<and> length s \<le> limit | _ \<Rightarrow> False)"

definition int_at_least :: "int \<Rightarrow> pyval \<Rightarrow> bool" where
  "int_at_least low v = (case v of PInt n \<Rightarrow> low \<le> n | _ \<Rightarrow> False)"

definition check_identity :: "pyval \<Rightarrow> unit res" where
  "check_identity d =
     (let get = dict_get d in
      bindR (require ((get ''schema_version'' = PInt 1 \<or> get ''schema_version'' = PInt 2) \<and> get ''type'' = PStr ''service_action'')
               ''Unsupported definition schema or execution type.'') (\<lambda>_.
      bindR (require (int_at_least 1 (get ''revision'')) ''Definition revision must be a positive integer.'') (\<lambda>_.
      bindR (require (text_field 128 (get ''id'')) ''Invalid definition id.'') (\<lambda>_.
      bindR (require (text_field 64 (get ''action_type'')) ''Invalid definition action_type.'') (\<lambda>_.
      bindR (require (text_field 32 (get ''contract_version'')) ''Invalid definition contract_version.'') (\<lambda>_.
      require (get ''authorization_policy'' = PStr ''general_acknowledgment.v1'') ''Unsupported authorization policy.''))))))"

definition registered_operation :: "(string \<times> operation) list \<Rightarrow> pyval \<Rightarrow> operation res" where
  "registered_operation ops v =
     (case v of
        PStr name \<Rightarrow> (case map_of ops name of Some op \<Rightarrow> Inr op | None \<Rightarrow> Inl (ValueError ''Unknown registered operation.''))
      | _ \<Rightarrow> Inl (ValueError ''Unknown registered operation.''))"

text \<open>The types of the two values at hand agree (a boolean is not an integer).\<close>

fun same_type :: "pyval \<Rightarrow> pyval \<Rightarrow> bool" where
  "same_type PNone v = (v = PNone)"
| "same_type (PBool a) v = (case v of PBool b \<Rightarrow> True | _ \<Rightarrow> False)"
| "same_type (PInt a) v = (case v of PInt b \<Rightarrow> True | _ \<Rightarrow> False)"
| "same_type (PFloat a) v = (case v of PFloat b \<Rightarrow> True | _ \<Rightarrow> False)"
| "same_type (PStr a) v = (case v of PStr b \<Rightarrow> True | _ \<Rightarrow> False)"
| "same_type (PTime a) v = (case v of PTime b \<Rightarrow> True | _ \<Rightarrow> False)"
| "same_type (PList a) v = (case v of PList b \<Rightarrow> True | _ \<Rightarrow> False)"
| "same_type (PDict a) v = (case v of PDict b \<Rightarrow> True | _ \<Rightarrow> False)"

definition check_parameters :: "operation \<Rightarrow> pyval \<Rightarrow> unit res" where
  "check_parameters op v =
     bindR (require (py_eq v (PDict (op_parameters op))) ''Parameters do not match the operation contract.'') (\<lambda>_.
     bindR (require_keys (map fst (op_parameters op)) v) (\<lambda>_.
     require (list_all (\<lambda>(k, x). same_type (dict_get v k) x) (op_parameters op)) ''Invalid parameter type.''))"

text \<open>The one binding a payload field may have: its literal, or the operation's fact of the same name.\<close>

definition expected_binding :: "operation \<Rightarrow> string \<Rightarrow> pyval" where
  "expected_binding op key =
     (case map_of (op_literal_bindings op) key of
        Some v \<Rightarrow> PDict [(''literal'', v)] | None \<Rightarrow> PDict [(''from'', PStr key)])"

definition binding_ok :: "operation \<Rightarrow> string \<Rightarrow> pyval \<Rightarrow> bool" where
  "binding_ok op key binding =
     (py_eq binding (expected_binding op key)
     \<and> (map_of (op_literal_bindings op) key \<noteq> None
        \<longrightarrow> (case map_of (op_payload_schema op) key of
              Some t \<Rightarrow> exact_type (dict_get binding ''literal'') t | None \<Rightarrow> False)))"

definition dict_items :: "pyval \<Rightarrow> (string \<times> pyval) list" where
  "dict_items v = (case v of PDict kvs \<Rightarrow> kvs | _ \<Rightarrow> [])"

definition check_payload :: "operation \<Rightarrow> pyval \<Rightarrow> unit res" where
  "check_payload op v =
     bindR (require_keys (map fst (op_payload_schema op)) v) (\<lambda>_.
     require (list_all (\<lambda>(k, b). binding_ok op k b) (dict_items v)) ''Payload binding does not match the operation contract.'')"

definition unique_texts :: "pyval \<Rightarrow> bool" where
  "unique_texts v = (case v of PList vs \<Rightarrow> list_all (\<lambda>x. is_instance x T_str) vs \<and> distinct vs | _ \<Rightarrow> False)"

definition texts :: "pyval \<Rightarrow> string list" where
  "texts v = (case v of PList vs \<Rightarrow> map text_of vs | _ \<Rightarrow> [])"

definition check_template :: "operation \<Rightarrow> pyval \<Rightarrow> unit res" where
  "check_template op v =
     (if op_template_fields op = []
      then require (v = PNone) ''This operation uses its registered money renderer.''
      else (case v of
              PStr t \<Rightarrow>
                if py_strip t = [] then Inl (ValueError ''This operation requires a presentation template.'')
                else bindR (parse_template t) (\<lambda>parts.
                  bindR (require (list_all (\<lambda>p. part_name p \<in> set (op_template_fields op) \<and> plain_placeholder p) (placeholders parts))
                           ''Template references an unsupported public fact.'') (\<lambda>_.
                  require (set (op_template_fields op) \<subseteq> set (map part_name (placeholders parts)))
                    ''Template must include all required template facts.''))
            | _ \<Rightarrow> Inl (ValueError ''This operation requires a presentation template.'')))"

definition check_presentation :: "operation \<Rightarrow> pyval \<Rightarrow> unit res" where
  "check_presentation op v =
     (let get = dict_get v in
      bindR (require_keys [''required_facts'', ''display_selection'', ''public_payload_fields'', ''template''] v) (\<lambda>_.
      bindR (require (list_all (\<lambda>k. unique_texts (get k)) [''required_facts'', ''display_selection'', ''public_payload_fields''])
               ''Presentation fields must be unique string lists.'') (\<lambda>_.
      bindR (require (set (texts (get ''required_facts'')) = set (op_required_facts op))
               ''Presentation must include the operation required facts.'') (\<lambda>_.
      bindR (require (set (texts (get ''display_selection'') @ texts (get ''public_payload_fields'')) \<subseteq> set (op_public_fields op))
               ''Presentation projects private or unknown fields.'') (\<lambda>_.
      check_template op (get ''template''))))))"

definition DISCOVERY_TEXTS :: "string list" where
  "DISCOVERY_TEXTS = [''title'', ''purpose'', ''input_guidance'']"

definition DISCOVERY_LISTS :: "string list" where
  "DISCOVERY_LISTS = [''when_to_use'', ''when_not_to_use'', ''prerequisites'', ''examples'']"

definition bounded_texts :: "pyval \<Rightarrow> bool" where
  "bounded_texts v =
     (case v of PList vs \<Rightarrow> vs \<noteq> [] \<and> length vs \<le> 12 \<and> list_all (text_field 1000) vs | _ \<Rightarrow> False)"

definition check_discovery :: "pyval \<Rightarrow> unit res" where
  "check_discovery v =
     bindR (require_keys (DISCOVERY_TEXTS @ DISCOVERY_LISTS) v) (\<lambda>_.
     bindR (require (list_all (\<lambda>k. text_field 2000 (dict_get v k)) DISCOVERY_TEXTS) ''Discovery text must be nonempty and bounded.'') (\<lambda>_.
     require (list_all (\<lambda>k. bounded_texts (dict_get v k)) DISCOVERY_LISTS) ''Discovery lists must contain bounded nonempty text.''))"

definition validate_definition :: "(string \<times> operation) list \<Rightarrow> pyval \<Rightarrow> pyval res" where
  "validate_definition ops d =
     (let get = dict_get d in
      bindR (case d of PDict kvs \<Rightarrow> Inr () | _ \<Rightarrow> Inl (TypeError ''get'')) (\<lambda>_.
      bindR (require_keys (DEFINITION_KEYS @ (if py_eq (get ''schema_version'') (PInt 2) then [''discovery''] else [])) d) (\<lambda>_.
      bindR (check_identity d) (\<lambda>_.
      bindR (registered_operation ops (get ''operation'')) (\<lambda>op.
      bindR (check_parameters op (get ''parameters'')) (\<lambda>_.
      bindR (check_payload op (get ''payload'')) (\<lambda>_.
      bindR (check_presentation op (get ''presentation'')) (\<lambda>_.
      bindR (if get ''schema_version'' = PInt 2 then check_discovery (get ''discovery'') else Inr ()) (\<lambda>_. Inr d)))))))))"


section \<open>The handler of a definition\<close>

definition item_of :: "(string \<times> pyval) list \<Rightarrow> string \<Rightarrow> pyval res" where
  "item_of kvs k = (case map_of kvs k of None \<Rightarrow> Inl (KeyError k) | Some v \<Rightarrow> Inr v)"

text \<open>\<open>{key: kvs[key] for key in keys}\<close>\<close>

definition pick :: "(string \<times> pyval) list \<Rightarrow> string list \<Rightarrow> (string \<times> pyval) list res" where
  "pick kvs keys = mapR (\<lambda>k. bindR (item_of kvs k) (\<lambda>v. Inr (k, v))) keys"

definition bound_value :: "(string \<times> pyval) list \<Rightarrow> pyval \<Rightarrow> pyval res" where
  "bound_value facts binding =
     (case map_of (dict_items binding) ''literal'' of
        Some v \<Rightarrow> Inr v | None \<Rightarrow> item_of facts (text_of (dict_get binding ''from'')))"

definition bound_payload :: "pyval \<Rightarrow> (string \<times> pyval) list \<Rightarrow> (string \<times> pyval) list res" where
  "bound_payload bindings facts =
     mapR (\<lambda>(k, b). bindR (bound_value facts b) (\<lambda>v. Inr (k, v))) (dict_items bindings)"

text \<open>The template filled from its own facts; without a template the operation's text.\<close>

definition bound_summary :: "operation \<Rightarrow> pyval \<Rightarrow> (string \<times> pyval) list \<Rightarrow> string option \<Rightarrow> string res" where
  "bound_summary op template facts summary =
     (case template of
        PStr t \<Rightarrow> bindR (pick facts (op_template_fields op)) (\<lambda>values.
                  bindR (parse_template t) (\<lambda>parts. Inr (format_parts values parts)))
      | _ \<Rightarrow> Inr (case summary of Some s \<Rightarrow> s | None \<Rightarrow> ''None''))"

definition presentation_of :: "pyval \<Rightarrow> string \<Rightarrow> pyval" where
  "presentation_of d key = dict_get (dict_get d ''presentation'') key"

definition service_prepare ::
    "operation \<Rightarrow> pyval \<Rightarrow> action_proposal list \<Rightarrow> string \<Rightarrow> (string \<times> pyval) list \<Rightarrow> (string \<times> pyval) list \<Rightarrow> bank_db
     \<Rightarrow> (string option \<times> (string \<times> pyval) list \<times> string) attempt" where
  "service_prepare op d rows customer_id inputs context db =
     bindR (validate_inputs inputs (op_input_schema op)) (\<lambda>_.
     bindR (op_prepare op rows customer_id inputs (dict_items (dict_get d ''parameters'')) context db) (\<lambda>(account_id, facts, summary).
     bindR (raised (bound_payload (dict_get d ''payload'') facts)) (\<lambda>payload.
     bindR (raised (bound_summary op (presentation_of d ''template'') facts summary)) (\<lambda>text.
     Inr (Some account_id, payload, text)))))"

definition service_handler :: "operation \<Rightarrow> pyval \<Rightarrow> action_handler" where
  "service_handler op d =
     \<lparr>ah_definition = Some d, ah_input_schema = op_input_schema op,
      ah_public_input_schema = (case op_public_input_schema op of None \<Rightarrow> op_input_schema op
        | Some schema \<Rightarrow> if schema = [] then op_input_schema op else schema),
      ah_normalize_public_inputs = op_normalize_public_inputs op,
      ah_normalize_business_inputs = op_normalize_business_inputs op,
      ah_prepare = service_prepare op d,
      ah_display_selection = (\<lambda>p. raised (pick (tm_action_payload (pp_terms p)) (texts (presentation_of d ''display_selection'')))),
      ah_public_projection = (\<lambda>p. raised (pick (tm_action_payload (pp_terms p)) (texts (presentation_of d ''public_payload_fields'')))),
      ah_validate_current_preconditions = op_validate op, ah_execute = op_execute op, ah_reconcile = op_reconcile op,
      ah_commit_pending_message = op_pending op, ah_record_commit_started = op_started op,
      ah_record_committed = op_committed op, ah_record_reconciled = op_reconciled op\<rparr>"

text \<open>\<open>discovery_view\<close>: public catalogue text, where the definition has it.\<close>

definition discovery_view :: "action_handler \<Rightarrow> pyval option" where
  "discovery_view h = (case ah_definition h of None \<Rightarrow> None | Some d \<Rightarrow> map_of (dict_items d) ''discovery'')"

section \<open>The registry of a catalogue\<close>

definition definition_digest :: "(pyval \<Rightarrow> string) \<Rightarrow> pyval \<Rightarrow> string" where
  "definition_digest digest document = digest (canonical document)"

definition scope_of_proposal :: "action_proposal \<Rightarrow> string \<times> string option" where
  "scope_of_proposal p =
     (tm_customer_id (pp_terms p),
      (case tm_account_id (pp_terms p) of Some i \<Rightarrow> if i = [] then None else Some i | None \<Rightarrow> None))"

definition release_requirement :: "pyval \<Rightarrow> presentation_requirement" where
  "release_requirement d =
     \<lparr>pq_required_fact_keys = set (texts (presentation_of d ''required_facts'')), pq_quality_gate = RELEASE_EVALUATION,
      pq_natural_language_allowed = True, pq_disclosure_reference = None\<rparr>"

definition service_specification :: "(pyval \<Rightarrow> string) \<Rightarrow> operation \<Rightarrow> pyval \<Rightarrow> spec" where
  "service_specification digest op d =
     \<lparr>sp_action_type = text_of (dict_get d ''action_type''), sp_contract_version = text_of (dict_get d ''contract_version''),
      sp_payload_schema = op_payload_schema op, sp_scope_resolver = scope_of_proposal,
      sp_authorization_policy = GENERAL_ACKNOWLEDGMENT_POLICY, sp_presentation_requirement = release_requirement d,
      sp_handler = service_handler op d, sp_definition_id = text_of (dict_get d ''id''),
      sp_definition_revision = (case dict_get d ''revision'' of PInt n \<Rightarrow> n | _ \<Rightarrow> 0),
      sp_definition_digest = definition_digest digest d, sp_result_schema = [(''success'', One T_bool)]\<rparr>"

definition specification_of :: "(pyval \<Rightarrow> string) \<Rightarrow> (string \<times> operation) list \<Rightarrow> pyval \<Rightarrow> spec res" where
  "specification_of digest ops document =
     bindR (validate_definition ops document) (\<lambda>d.
     bindR (registered_operation ops (dict_get d ''operation'')) (\<lambda>op.
     let s = service_specification digest op d in
     bindR (presentation_requirement_check (sp_presentation_requirement s)) (\<lambda>_.
     bindR (specification_check s) (\<lambda>_. Inr s))))"

text \<open>
  Where the documents come from: given by the caller, the files of the release, or the playbook repository with the
  revisions it publishes.
\<close>

datatype catalogue = Given "pyval list" | Bundled "pyval list" | Repository "pyval list" "(string \<times> int) list"

fun catalogue_documents :: "catalogue \<Rightarrow> pyval list" where
  "catalogue_documents (Given docs) = docs"
| "catalogue_documents (Bundled docs) = docs"
| "catalogue_documents (Repository docs keys) = docs"

fun catalogue_published :: "catalogue \<Rightarrow> (string \<times> int) list option" where
  "catalogue_published (Repository docs keys) = Some keys"
| "catalogue_published c = None"

fun repository_catalogue :: "catalogue \<Rightarrow> bool" where
  "repository_catalogue (Given docs) = False"
| "repository_catalogue c = True"

definition load_action_registry ::
    "(pyval \<Rightarrow> string) \<Rightarrow> (string \<times> operation) list \<Rightarrow> catalogue \<Rightarrow> action_handler action_registry res" where
  "load_action_registry digest ops c =
     bindR (mapR (specification_of digest ops) (catalogue_documents c)) (\<lambda>specs.
     if specs = [] then Inl (ValueError ''Action catalog is empty.'')
     else bindR (build_registry (catalogue_published c) specs) (\<lambda>reg.
       if repository_catalogue c \<and> list_ex (\<lambda>(k, s). discovery_view (sp_handler s) = None) (rg_specifications reg)
       then Inl (ValueError ''Every published repository playbook requires discovery metadata.'')
       else Inr reg))"

text \<open>\<open>action_contract\<close> reads the files of the release.\<close>

definition action_contract ::
    "(pyval \<Rightarrow> string) \<Rightarrow> (string \<times> operation) list \<Rightarrow> pyval list \<Rightarrow> string \<Rightarrow> (string \<times> string) res" where
  "action_contract digest ops bundled definition_id =
     bindR (load_action_registry digest ops (Bundled bundled)) (\<lambda>reg.
     case filter (\<lambda>s. sp_definition_id s = definition_id) (map snd (rg_specifications reg)) of
       [s] \<Rightarrow> Inr (sp_action_type s, sp_contract_version s)
     | _ \<Rightarrow> Inl (ValueError (''No active action for definition '' @ definition_id @ ''.'')))"

section \<open>A document cannot widen its operation\<close>

lemma require_Inr [simp]: "require ok m = Inr u \<longleftrightarrow> ok"
  by (simp add: require_def)

lemma require_keys_Inr [simp]: "require_keys ks v = Inr u \<longleftrightarrow> keys_are ks v"
  by (simp add: require_keys_def)

lemma mapR_list_all2: "mapR f xs = Inr ys \<Longrightarrow> list_all2 (\<lambda>x y. f x = Inr y) xs ys"
  by (induction xs arbitrary: ys) auto

lemma pick_Inr:
  assumes "pick kvs keys = Inr r"
  shows "map fst r = keys" "(k, v) \<in> set r \<Longrightarrow> map_of kvs k = Some v"
proof -
  have a: "list_all2 (\<lambda>k' (k, v). k = k' \<and> map_of kvs k = Some v) keys r"
    by (rule list_all2_mono [OF mapR_list_all2 [OF assms [unfolded pick_def]]]) (auto simp: item_of_def split: option.splits)
  then show "map fst r = keys" by (induction keys r rule: list_all2_induct) auto
  from a show "(k, v) \<in> set r \<Longrightarrow> map_of kvs k = Some v" by (induction keys r rule: list_all2_induct) auto
qed

lemma pick_runs: "set keys \<subseteq> set (map fst kvs) \<Longrightarrow> \<exists>r. pick kvs keys = Inr r"
proof (induction keys)
  case (Cons k ks)
  then obtain r where "pick kvs ks = Inr r" by auto
  moreover obtain v where "map_of kvs k = Some v" using Cons.prems by (cases "map_of kvs k") (auto simp: map_of_eq_None_iff)
  ultimately show ?case by (simp add: pick_def item_of_def)
qed (simp add: pick_def)

text \<open>The comparison with an expected binding leaves no room: a text is compared exactly, a dictionary by its keys.\<close>

lemma py_eq_text: "py_eq v (PStr s) \<Longrightarrow> v = PStr s"
  by (cases v) (simp_all add: py_eq_def)

lemma py_eq_single:
  assumes "py_eq b (PDict [(k, v)])"
  obtains v' where "b = PDict [(k, v')]" "py_eq v' v"
proof -
  obtain kvs where b: "b = PDict kvs" using assms by (cases b) (simp_all add: py_eq_def)
  then have "length kvs = 1" using assms by (auto simp: py_eq_def dest: arg_cong [of _ _ length])
  then obtain x where "kvs = [x]" by (cases kvs) auto
  then show ?thesis using assms b by (cases x) (auto simp: py_eq_def intro!: that)
qed

definition bound_as :: "operation \<Rightarrow> (string \<times> pyval) list \<Rightarrow> string \<Rightarrow> pyval \<Rightarrow> bool" where
  "bound_as op facts k v \<longleftrightarrow>
     (case map_of (op_literal_bindings op) k of
        Some lit \<Rightarrow> py_eq v lit \<and> (\<exists>t. map_of (op_payload_schema op) k = Some t \<and> exact_type v t)
      | None \<Rightarrow> map_of facts k = Some v)"

lemma binding_value:
  assumes "binding_ok op k b" "bound_value facts b = Inr v"
  shows "bound_as op facts k v"
proof (cases "map_of (op_literal_bindings op) k")
  case None
  then obtain f where "b = PDict [(''from'', f)]" "f = PStr k"
    using assms(1) py_eq_single [of b "''from''" "PStr k"] py_eq_text by (metis binding_ok_def expected_binding_def option.case(1))
  then show ?thesis
    using assms(2) None by (auto simp: bound_value_def dict_items_def item_of_def bound_as_def text_of_def split: option.splits)
next
  case (Some lit)
  then obtain f where "b = PDict [(''literal'', f)]" "py_eq f lit"
    using assms(1) py_eq_single [of b "''literal''" lit] by (metis binding_ok_def expected_binding_def option.case(2))
  then show ?thesis
    using assms Some by (auto simp: bound_value_def dict_items_def bound_as_def binding_ok_def split: option.splits)
qed

lemma bound_payload_Inr:
  assumes c: "check_payload op b = Inr u" and p: "bound_payload b facts = Inr payload"
  shows "set (map fst payload) = set (map fst (op_payload_schema op))" "(k, v) \<in> set payload \<Longrightarrow> bound_as op facts k v"
proof -
  have ok: "set (map fst (dict_items b)) = set (map fst (op_payload_schema op))" "\<And>k x. (k, x) \<in> set (dict_items b) \<Longrightarrow> binding_ok op k x"
    using c by (auto simp: check_payload_def keys_are_def dict_items_def list_all_iff split: pyval.splits)
  have a: "list_all2 (\<lambda>(k', x) (k, v). k = k' \<and> bound_value facts x = Inr v) (dict_items b) payload"
    by (rule list_all2_mono [OF mapR_list_all2 [OF p [unfolded bound_payload_def]]]) auto
  then have "map fst payload = map fst (dict_items b)" by (induction rule: list_all2_induct) auto
  with ok(1) show "set (map fst payload) = set (map fst (op_payload_schema op))" by simp
  show "bound_as op facts k v" if "(k, v) \<in> set payload"
  proof -
    have "\<exists>x. (k, x) \<in> set (dict_items b) \<and> bound_value facts x = Inr v"
      using a that by (induction rule: list_all2_induct) auto
    then show ?thesis using ok(2) binding_value by blast
  qed
qed

text \<open>What the checks of a definition establish.\<close>

lemma validated_definition:
  assumes "validate_definition ops doc = Inr d"
  obtains op where "d = doc" "registered_operation ops (dict_get d ''operation'') = Inr op" "check_identity d = Inr ()"
    "check_parameters op (dict_get d ''parameters'') = Inr ()" "check_payload op (dict_get d ''payload'') = Inr ()"
    "check_presentation op (dict_get d ''presentation'') = Inr ()"
  using assms by (auto simp: validate_definition_def Let_def)

lemma checked_template:
  assumes "check_template op v = Inr u" "op_template_fields op \<noteq> []"
  obtains t parts where "v = PStr t" "parse_template t = Inr parts"
    "set (map part_name (placeholders parts)) = set (op_template_fields op)"
  using assms by (auto simp: check_template_def list_all_iff split: pyval.splits if_splits)


lemma checked_presentation:
  assumes "check_presentation op v = Inr u"
  shows "set (texts (dict_get v ''display_selection'')) \<subseteq> set (op_public_fields op)"
    "set (texts (dict_get v ''public_payload_fields'')) \<subseteq> set (op_public_fields op)"
    "set (texts (dict_get v ''required_facts'')) = set (op_required_facts op)" "check_template op (dict_get v ''template'') = Inr ()"
  using assms by (auto simp: check_presentation_def Let_def)

lemma picked_fields:
  assumes "raised (pick (tm_action_payload (pp_terms p)) keys) = Inr kvs" "set keys \<subseteq> F"
  shows "set (map fst kvs) \<subseteq> F \<and> (\<forall>(k, v)\<in>set kvs. dict_get (action_payload p) k = v)"
  using assms pick_Inr [of "tm_action_payload (pp_terms p)" keys kvs]
  by (auto simp: action_payload_def simp del: set_map)

lemma prepared_payload:
  assumes r: "service_prepare op d rows customer_id inputs context db = Inr (account_id, payload, text)"
    and c: "check_payload op (dict_get d ''payload'') = Inr u"
  obtains i facts summary where "op_prepare op rows customer_id inputs (dict_items (dict_get d ''parameters'')) context db = Inr (i, facts, summary)"
    "account_id = Some i" "set (map fst payload) = set (map fst (op_payload_schema op))"
    "\<forall>(k, v)\<in>set payload. bound_as op facts k v"
proof -
  obtain i facts summary where f: "op_prepare op rows customer_id inputs (dict_items (dict_get d ''parameters'')) context db = Inr (i, facts, summary)"
    "bound_payload (dict_get d ''payload'') facts = Inr payload" "account_id = Some i"
    using r by (auto simp: service_prepare_def)
  show ?thesis
    by (rule that [OF f(1,3) bound_payload_Inr(1) [OF c f(2)]]) (use bound_payload_Inr(2) [OF c f(2)] in blast)
qed

lemma handler_parts:
  "ah_public_projection (service_handler op d) p
     = raised (pick (tm_action_payload (pp_terms p)) (texts (presentation_of d ''public_payload_fields'')))"
  "ah_display_selection (service_handler op d) p
     = raised (pick (tm_action_payload (pp_terms p)) (texts (presentation_of d ''display_selection'')))"
  "ah_prepare (service_handler op d) = service_prepare op d"
  "ah_execute (service_handler op d) = op_execute op" "ah_validate_current_preconditions (service_handler op d) = op_validate op"
  by (simp_all add: service_handler_def)

text \<open>C18. A definition cannot widen the operation it names.  Whatever document passes validation, the handler it yields
  runs a registered operation and that operation's own validation and execution; what it shows of a proposal are
  public fields of the operation with the values of the payload; a payload it prepares has exactly the fields of the
  operation's schema, each bound to the operation's literal, in value and type, or to the fact of the same name that
  the operation established from its own parameters; and a template names exactly the operation's template facts, so it
  can be filled whenever the operation provides them.\<close>

theorem definition_is_closed:
  assumes "validate_definition ops doc = Inr d"
  shows "\<exists>op. registered_operation ops (dict_get d ''operation'') = Inr op \<and> d = doc
    \<and> ah_execute (service_handler op d) = op_execute op
    \<and> ah_validate_current_preconditions (service_handler op d) = op_validate op
    \<and> py_eq (dict_get d ''parameters'') (PDict (op_parameters op))
    \<and> (\<forall>p kvs. ah_public_projection (service_handler op d) p = Inr kvs \<or> ah_display_selection (service_handler op d) p = Inr kvs
         \<longrightarrow> set (map fst kvs) \<subseteq> set (op_public_fields op) \<and> (\<forall>(k, v)\<in>set kvs. dict_get (action_payload p) k = v))
    \<and> (\<forall>rows customer_id inputs context db account_id payload text.
         ah_prepare (service_handler op d) rows customer_id inputs context db = Inr (account_id, payload, text)
         \<longrightarrow> (\<exists>i facts summary. account_id = Some i
               \<and> op_prepare op rows customer_id inputs (dict_items (dict_get d ''parameters'')) context db = Inr (i, facts, summary)
               \<and> set (map fst payload) = set (map fst (op_payload_schema op)) \<and> (\<forall>(k, v)\<in>set payload. bound_as op facts k v)))
    \<and> (op_template_fields op \<noteq> [] \<longrightarrow> (\<forall>facts summary. set (op_template_fields op) \<subseteq> set (map fst facts)
         \<longrightarrow> (\<exists>text. bound_summary op (presentation_of d ''template'') facts summary = Inr text)))"
proof -
  obtain op where op: "d = doc" "registered_operation ops (dict_get d ''operation'') = Inr op"
    "check_parameters op (dict_get d ''parameters'') = Inr ()" "check_payload op (dict_get d ''payload'') = Inr ()"
    "check_presentation op (dict_get d ''presentation'') = Inr ()"
    using assms by (rule validated_definition)
  note shown = checked_presentation [OF op(5), folded presentation_of_def]
  have params: "py_eq (dict_get d ''parameters'') (PDict (op_parameters op))" using op(3) by (auto simp: check_parameters_def)
  have project: "set (map fst kvs) \<subseteq> set (op_public_fields op) \<and> (\<forall>(k, v)\<in>set kvs. dict_get (action_payload p) k = v)"
    if "ah_public_projection (service_handler op d) p = Inr kvs \<or> ah_display_selection (service_handler op d) p = Inr kvs" for p kvs
    using that unfolding handler_parts by (elim disjE) (erule picked_fields [OF _ shown(2)], erule picked_fields [OF _ shown(1)])
  have prepare: "\<exists>i facts summary. account_id = Some i
       \<and> op_prepare op rows customer_id inputs (dict_items (dict_get d ''parameters'')) ctx db = Inr (i, facts, summary)
       \<and> set (map fst payload) = set (map fst (op_payload_schema op)) \<and> (\<forall>(k, v)\<in>set payload. bound_as op facts k v)"
    if "ah_prepare (service_handler op d) rows customer_id inputs ctx db = Inr (account_id, payload, msg)"
    for rows customer_id inputs ctx db account_id payload msg
    using that unfolding handler_parts by (rule prepared_payload [OF _ op(4)]) blast
  have fill: "\<exists>text. bound_summary op (presentation_of d ''template'') facts summary = Inr text"
    if ne: "op_template_fields op \<noteq> []" and f: "set (op_template_fields op) \<subseteq> set (map fst facts)" for facts summary
  proof -
    obtain t parts where "presentation_of d ''template'' = PStr t" "parse_template t = Inr parts"
      using checked_template [OF shown(4) ne] by blast
    with pick_runs [OF f] show ?thesis by (auto simp: bound_summary_def)
  qed
  show ?thesis
    by (intro exI [of _ op] conjI op(1,2) params handler_parts(4,5) allI impI; (rule project [THEN conjunct1] project [THEN conjunct2] prepare fill, assumption+)?)
qed

section \<open>What a loaded catalogue serves\<close>

lemma general_specification_checks:
  "specification_check (service_specification digest op d) = Inr ()"
  by (simp add: specification_check_def service_specification_def release_requirement_def GENERAL_ACKNOWLEDGMENT_POLICY_def)

lemma specification_of_Inr:
  assumes "specification_of digest ops doc = Inr s"
  obtains op where "validate_definition ops doc = Inr doc" "registered_operation ops (dict_get doc ''operation'') = Inr op"
    "s = service_specification digest op doc"
proof -
  obtain d op where d: "validate_definition ops doc = Inr d" "registered_operation ops (dict_get d ''operation'') = Inr op"
    "s = service_specification digest op d"
    using assms by (auto simp: specification_of_def Let_def)
  moreover have "d = doc" using d(1) by (rule validated_definition)
  ultimately show ?thesis using that by simp
qed

lemma mapR_members:
  assumes "mapR f xs = Inr ys"
  shows "y \<in> set ys \<Longrightarrow> \<exists>x\<in>set xs. f x = Inr y" "x \<in> set xs \<Longrightarrow> \<exists>y\<in>set ys. f x = Inr y"
proof -
  have a: "list_all2 (\<lambda>x y. f x = Inr y) xs ys" using assms by (rule mapR_list_all2)
  then show "y \<in> set ys \<Longrightarrow> \<exists>x\<in>set xs. f x = Inr y" by (induction rule: list_all2_induct) auto
  from a show "x \<in> set xs \<Longrightarrow> \<exists>y\<in>set ys. f x = Inr y" by (induction rule: list_all2_induct) auto
qed

text \<open>C19. A registry loaded from a catalogue holds its documents and nothing else.  Every revision it can resolve is a
  validated document of the catalogue, under its own digest, run by the handler of the registered operation the document
  names and authorized by the general acknowledgment policy; every document of the catalogue can be resolved by its
  id, revision and digest; what is served for an action type is the newest revision among the documents, or one the
  repository publishes, and a document of the release or the repository is served only with its discovery text.\<close>

theorem catalogue_serves_validated:
  assumes "load_action_registry digest ops c = Inr reg"
  shows "(\<forall>key s. map_of (rg_versions reg) key = Some s
           \<longrightarrow> (\<exists>doc\<in>set (catalogue_documents c). \<exists>op. validate_definition ops doc = Inr doc
                 \<and> registered_operation ops (dict_get doc ''operation'') = Inr op \<and> s = service_specification digest op doc))
    \<and> (\<forall>doc\<in>set (catalogue_documents c). \<exists>s.
           resolve_action reg (text_of (dict_get doc ''id'')) (case dict_get doc ''revision'' of PInt n \<Rightarrow> n | _ \<Rightarrow> 0)
             (definition_digest digest doc) = Inr s
           \<and> ah_definition (sp_handler s) = Some doc \<and> sp_authorization_policy s = GENERAL_ACKNOWLEDGMENT_POLICY)
    \<and> (\<forall>t s. require_action reg t = Inr s
           \<longrightarrow> sp_action_type s = t \<and> map_of (rg_versions reg) (spec_key s) = Some s
             \<and> (repository_catalogue c \<longrightarrow> discovery_view (sp_handler s) \<noteq> None)
             \<and> (case catalogue_published c of Some keys \<Rightarrow> spec_key s \<in> set keys
                | None \<Rightarrow> \<forall>key s'. map_of (rg_versions reg) key = Some s' \<and> sp_action_type s' = t
                    \<longrightarrow> sp_definition_id s' = sp_definition_id s \<and> sp_definition_revision s' \<le> sp_definition_revision s))"
proof -
  obtain specs where specs: "mapR (specification_of digest ops) (catalogue_documents c) = Inr specs"
    and built: "build_registry (catalogue_published c) specs = Inr reg"
    and view: "repository_catalogue c \<Longrightarrow> \<not> list_ex (\<lambda>(k, s). discovery_view (sp_handler s) = None) (rg_specifications reg)"
    using assms by (auto simp: load_action_registry_def split: if_splits)
  note r = build_registry_serves [OF built]
  have vs: "rg_versions reg = map (\<lambda>s. (spec_key s, s)) specs" and dist: "distinct (map spec_key specs)"
    using r by (simp_all add: serves_def)
  have found: "map_of (rg_versions reg) (spec_key s) = Some s" if "s \<in> set specs" for s
    using that dist by (auto simp: vs intro!: map_of_is_SomeI simp: comp_def)
  have known: "s \<in> set specs" if "map_of (rg_versions reg) key = Some s" for key s
    using map_of_SomeD [OF that] by (auto simp: vs)
  have doc: "\<exists>doc\<in>set (catalogue_documents c). \<exists>op. validate_definition ops doc = Inr doc
       \<and> registered_operation ops (dict_get doc ''operation'') = Inr op \<and> s = service_specification digest op doc"
    if "s \<in> set specs" for s
    using mapR_members(1) [OF specs that] specification_of_Inr by (metis (no_types))
  have resolved: "\<exists>s. resolve_action reg (text_of (dict_get doc ''id'')) (case dict_get doc ''revision'' of PInt n \<Rightarrow> n | _ \<Rightarrow> 0)
        (definition_digest digest doc) = Inr s
      \<and> ah_definition (sp_handler s) = Some doc \<and> sp_authorization_policy s = GENERAL_ACKNOWLEDGMENT_POLICY"
    if d: "doc \<in> set (catalogue_documents c)" for doc
  proof -
    obtain s where s: "s \<in> set specs" "specification_of digest ops doc = Inr s" using mapR_members(2) [OF specs d] by blast
    obtain op where "s = service_specification digest op doc" using s(2) by (rule specification_of_Inr)
    then show ?thesis
      using found [OF s(1)] by (simp add: resolve_action_def spec_key_def service_specification_def service_handler_def)
  qed
  have served: "sp_action_type s = t \<and> map_of (rg_versions reg) (spec_key s) = Some s
      \<and> (repository_catalogue c \<longrightarrow> discovery_view (sp_handler s) \<noteq> None)
      \<and> (case catalogue_published c of Some keys \<Rightarrow> spec_key s \<in> set keys
         | None \<Rightarrow> \<forall>key s'. map_of (rg_versions reg) key = Some s' \<and> sp_action_type s' = t
             \<longrightarrow> sp_definition_id s' = sp_definition_id s \<and> sp_definition_revision s' \<le> sp_definition_revision s)"
    if m: "require_action reg t = Inr s" for t s
  proof -
    have m': "map_of (rg_specifications reg) t = Some s" using m by simp
    have ok: "served_ok (catalogue_published c) specs t s" using r m' by (rule serves_served_ok)
    then have s: "s \<in> set specs" "sp_action_type s = t" by (simp_all add: served_ok_def)
    have d: "repository_catalogue c \<longrightarrow> discovery_view (sp_handler s) \<noteq> None"
      using view map_of_SomeD [OF m'] by (auto simp: list_ex_iff)
    have "case catalogue_published c of Some keys \<Rightarrow> spec_key s \<in> set keys
         | None \<Rightarrow> \<forall>key s'. map_of (rg_versions reg) key = Some s' \<and> sp_action_type s' = t
             \<longrightarrow> sp_definition_id s' = sp_definition_id s \<and> sp_definition_revision s' \<le> sp_definition_revision s"
    proof (cases "catalogue_published c")
      case None
      then have "\<forall>s'\<in>set specs. sp_action_type s' = t \<longrightarrow> not_after s' s" using ok by (simp add: served_ok_def)
      then show ?thesis unfolding None option.case not_after_def using known by blast
    next
      case (Some keys)
      then show ?thesis using ok by (simp add: served_ok_def)
    qed
    with s(2) found [OF s(1)] d show ?thesis by (intro conjI)
  qed
  have all: "\<forall>key s. map_of (rg_versions reg) key = Some s
      \<longrightarrow> (\<exists>doc\<in>set (catalogue_documents c). \<exists>op. validate_definition ops doc = Inr doc
            \<and> registered_operation ops (dict_get doc ''operation'') = Inr op \<and> s = service_specification digest op doc)"
    by (intro allI impI doc known)
  show ?thesis
    by (rule conjI [OF all conjI]) (rule ballI, erule resolved, intro allI impI, erule served)
qed

end
