(* ===== verification/Bundled_Catalogue.thy ===== *)
theory Bundled_Catalogue
  imports Action_Definitions
begin

text \<open>
  The catalogue of a release (\<^verbatim>\<open>config/action_definitions\<close>): the seven definition documents as JSON values, and
  what loading any catalogue establishes.
\<close>

section \<open>The documents\<close>

text \<open>\<^verbatim>\<open>config/action_definitions/card-reissue.v1.json\<close>\<close>

definition CARD_REISSUE_V1 :: pyval where
  "CARD_REISSUE_V1 =
    PDict [(''schema_version'', PInt 1),
     (''id'', PStr ''card-reissue''),
     (''revision'', PInt 1),
     (''action_type'', PStr ''REISSUE_CARD''),
     (''contract_version'', PStr ''card-reissue.v1''),
     (''type'', PStr ''service_action''),
     (''operation'', PStr ''cards.issue_replacement.v1''),
     (''authorization_policy'', PStr ''general_acknowledgment.v1''),
     (''parameters'', PDict [(''require_virtual'', PBool False)]),
     (''payload'', PDict [(''account_id'', PDict [(''from'', PStr ''account_id'')]),
      (''compromised_card_id'', PDict [(''from'', PStr ''compromised_card_id'')]),
      (''reason'', PDict [(''from'', PStr ''reason'')]),
      (''issue_virtual_card'', PDict [(''literal'', PBool True)])]),
     (''presentation'', PDict [(''required_facts'', PList [PStr ''card_last_four'', PStr ''current_card_blocking'', PStr ''replacement_card_form'']),
      (''display_selection'', PList [PStr ''reason'', PStr ''issue_virtual_card'']),
      (''public_payload_fields'', PList []),
      (''template'', PStr (''Confirm that you want to block the card ending {card_last_four} and issue a replacement virtual ''
      @ ''card.''))])]"

text \<open>\<^verbatim>\<open>config/action_definitions/card-reissue.v2.json\<close>\<close>

definition CARD_REISSUE_V2 :: pyval where
  "CARD_REISSUE_V2 =
    PDict [(''schema_version'', PInt 2),
     (''id'', PStr ''card-reissue''),
     (''revision'', PInt 2),
     (''action_type'', PStr ''REISSUE_CARD''),
     (''contract_version'', PStr ''card-reissue.v1''),
     (''type'', PStr ''service_action''),
     (''operation'', PStr ''cards.issue_replacement.v1''),
     (''authorization_policy'', PStr ''general_acknowledgment.v1''),
     (''parameters'', PDict [(''require_virtual'', PBool False)]),
     (''payload'', PDict [(''account_id'', PDict [(''from'', PStr ''account_id'')]),
      (''compromised_card_id'', PDict [(''from'', PStr ''compromised_card_id'')]),
      (''reason'', PDict [(''from'', PStr ''reason'')]),
      (''issue_virtual_card'', PDict [(''literal'', PBool True)])]),
     (''presentation'', PDict [(''required_facts'', PList [PStr ''card_last_four'', PStr ''current_card_blocking'', PStr ''replacement_card_form'']),
      (''display_selection'', PList [PStr ''reason'', PStr ''issue_virtual_card'']),
      (''public_payload_fields'', PList []),
      (''template'', PStr (''Confirm that you want to block the card ending {card_last_four} and issue a replacement virtual ''
      @ ''card.''))]),
     (''discovery'', PDict [(''title'', PStr ''Replace a lost, stolen, or damaged card''),
      (''purpose'', PStr ''Block the affected active card and issue a virtual replacement.''),
      (''when_to_use'', PList [PStr ''The customer reports a lost, stolen, or damaged card and needs a replacement.'']),
      (''when_not_to_use'', PList [PStr ''A replacement already exists and the customer needs help using it.'',
       PStr ''An open fraud alert needs review and triage first.'']),
      (''prerequisites'', PList [PStr ''An owned active card eligible for replacement.'']),
      (''input_guidance'', PStr ''Provide reason LOST, STOLEN, or DAMAGED based on the customer request.''),
      (''examples'', PList [PStr ''My card went missing.'', PStr ''The chip on my card is damaged.''])])]"

text \<open>\<^verbatim>\<open>config/action_definitions/credit-limit-increase.v1.json\<close>\<close>

definition CREDIT_LIMIT_INCREASE_V1 :: pyval where
  "CREDIT_LIMIT_INCREASE_V1 =
    PDict [(''schema_version'', PInt 2),
     (''id'', PStr ''credit-limit-increase''),
     (''revision'', PInt 1),
     (''action_type'', PStr ''CREDIT_LIMIT_INCREASE''),
     (''contract_version'', PStr ''credit-limit-increase.v1''),
     (''type'', PStr ''service_action''),
     (''operation'', PStr ''credit.adjust_limit.v1''),
     (''authorization_policy'', PStr ''general_acknowledgment.v1''),
     (''parameters'', PDict []),
     (''payload'', PDict [(''account_id'', PDict [(''from'', PStr ''account_id'')]),
      (''current_limit'', PDict [(''from'', PStr ''current_limit'')]),
      (''proposed_limit'', PDict [(''from'', PStr ''proposed_limit'')]),
      (''increase_amount'', PDict [(''from'', PStr ''increase_amount'')]),
      (''credit_limit_policy'', PDict [(''from'', PStr ''credit_limit_policy'')]),
      (''eligibility_facts'', PDict [(''from'', PStr ''eligibility_facts'')]),
      (''approval_semantics'', PDict [(''from'', PStr ''approval_semantics'')]),
      (''prepared_arithmetic'', PDict [(''from'', PStr ''prepared_arithmetic'')]),
      (''bank_decision'', PDict [(''from'', PStr ''bank_decision'')]),
      (''decision_request'', PDict [(''from'', PStr ''decision_request'')])]),
     (''presentation'', PDict [(''required_facts'', PList [PStr ''current_limit'', PStr ''proposed_limit'', PStr ''increase_amount'', PStr ''approval_semantics'']),
      (''display_selection'', PList [PStr ''current_limit'', PStr ''proposed_limit'', PStr ''increase_amount'', PStr ''approval_semantics'']),
      (''public_payload_fields'', PList [PStr ''current_limit'', PStr ''proposed_limit'', PStr ''increase_amount'', PStr ''approval_semantics'']),
      (''template'', PNone)]),
     (''discovery'', PDict [(''title'', PStr ''Increase an eligible credit-card limit''),
      (''purpose'', PStr (''Apply a bounded demo credit-limit increase after presentation and later explicit confirmation. ''
      @ ''This is not real underwriting or a review submission.'')),
      (''when_to_use'', PList [PStr ''The customer asks to raise their credit-card limit to a specified new total.'',
       PStr (''The customer needs more credit capacity and wants to request a higher limit; clarify the ''
      @ ''desired new total first.'')]),
      (''when_not_to_use'', PList [PStr ''The customer asks only about their current limit or available balance.'',
       PStr ''The customer wants to decrease a limit or increase a deposit balance.'',
       PStr ''The customer asks for a loan, underwriting review or unsupported currency.'']),
      (''prerequisites'', PList [PStr (''Exactly one owned active USD credit-card account and an active credit product with valid limit ''
      @ ''bounds.''),
       PStr (''An explicit requested new total limit and currency; an increase amount alone requires ''
      @ ''clarification.'')]),
      (''input_guidance'', PStr (''Provide requested_limit_minor as an integer new total in USD cents, and currency_code as USD. ''
      @ ''For $7,500.00 use 750000. Do not send floats, assume a percentage or select an amount. ''
      @ ''Preparation evaluates product bounds and the demo ceiling of twice the current limit. Present ''
      @ ''returned current/proposed limits and increase amount, explain confirmation applies an eligible ''
      @ ''demo increase, then await later explicit confirmation.'')),
      (''examples'', PList [PStr ''Can you raise my credit limit to $7,500.00?'', PStr ''I need more room on my card for a purchase.''])])]"

text \<open>\<^verbatim>\<open>config/action_definitions/fraud-triage.v1.json\<close>\<close>

definition FRAUD_TRIAGE_V1 :: pyval where
  "FRAUD_TRIAGE_V1 =
    PDict [(''schema_version'', PInt 1),
     (''id'', PStr ''fraud-triage''),
     (''revision'', PInt 1),
     (''action_type'', PStr ''TRIAGE_FRAUD_CASE''),
     (''contract_version'', PStr ''fraud-triage.v1''),
     (''type'', PStr ''service_action''),
     (''operation'', PStr ''fraud.triage.v1''),
     (''authorization_policy'', PStr ''general_acknowledgment.v1''),
     (''parameters'', PDict []),
     (''payload'', PDict [(''fraud_alert_id'', PDict [(''from'', PStr ''fraud_alert_id'')]),
      (''disputed_authorization_ids'', PDict [(''from'', PStr ''disputed_authorization_ids'')]),
      (''disputed_transaction_ids'', PDict [(''from'', PStr ''disputed_transaction_ids'')]),
      (''issue_replacement'', PDict [(''from'', PStr ''issue_replacement'')]),
      (''escalate'', PDict [(''from'', PStr ''escalate'')]),
      (''money_facts'', PDict [(''from'', PStr ''money_facts'')]),
      (''card_last_four'', PDict [(''from'', PStr ''card_last_four'')])]),
     (''presentation'', PDict [(''required_facts'', PList [PStr ''card_last_four'', PStr ''proposed_disposition'', PStr ''replacement_and_escalation_consequences'', PStr ''reviewed_activity_selection'']),
      (''display_selection'', PList [PStr ''fraud_alert_id'', PStr ''disputed_authorization_ids'', PStr ''disputed_transaction_ids'', PStr ''issue_replacement'', PStr ''escalate'']),
      (''public_payload_fields'', PList [PStr ''money_facts'', PStr ''card_last_four'', PStr ''issue_replacement'', PStr ''escalate'']),
      (''template'', PNone)])]"

text \<open>\<^verbatim>\<open>config/action_definitions/fraud-triage.v2.json\<close>\<close>

definition FRAUD_TRIAGE_V2 :: pyval where
  "FRAUD_TRIAGE_V2 =
    PDict [(''schema_version'', PInt 2),
     (''id'', PStr ''fraud-triage''),
     (''revision'', PInt 2),
     (''action_type'', PStr ''TRIAGE_FRAUD_CASE''),
     (''contract_version'', PStr ''fraud-triage.v1''),
     (''type'', PStr ''service_action''),
     (''operation'', PStr ''fraud.triage.v1''),
     (''authorization_policy'', PStr ''general_acknowledgment.v1''),
     (''parameters'', PDict []),
     (''payload'', PDict [(''fraud_alert_id'', PDict [(''from'', PStr ''fraud_alert_id'')]),
      (''disputed_authorization_ids'', PDict [(''from'', PStr ''disputed_authorization_ids'')]),
      (''disputed_transaction_ids'', PDict [(''from'', PStr ''disputed_transaction_ids'')]),
      (''issue_replacement'', PDict [(''from'', PStr ''issue_replacement'')]),
      (''escalate'', PDict [(''from'', PStr ''escalate'')]),
      (''money_facts'', PDict [(''from'', PStr ''money_facts'')]),
      (''card_last_four'', PDict [(''from'', PStr ''card_last_four'')])]),
     (''presentation'', PDict [(''required_facts'', PList [PStr ''card_last_four'', PStr ''proposed_disposition'', PStr ''replacement_and_escalation_consequences'', PStr ''reviewed_activity_selection'']),
      (''display_selection'', PList [PStr ''fraud_alert_id'', PStr ''disputed_authorization_ids'', PStr ''disputed_transaction_ids'', PStr ''issue_replacement'', PStr ''escalate'']),
      (''public_payload_fields'', PList [PStr ''money_facts'', PStr ''card_last_four'', PStr ''issue_replacement'', PStr ''escalate'']),
      (''template'', PNone)]),
     (''discovery'', PDict [(''title'', PStr ''Review and resolve fraud-alert activity''),
      (''purpose'', PStr (''Resolve a reviewed fraud alert: close recognized activity or release eligible disputed holds, ''
      @ ''credit eligible posted charges, and optionally replace the affected card.'')),
      (''when_to_use'', PList [PStr (''The customer disputes specific transactions from an open fraud alert after reviewing all ''
      @ ''flagged activity.''),
       PStr (''The customer explicitly recognizes all flagged activity and wants the alert resolved without ''
      @ ''card action.'')]),
      (''when_not_to_use'', PList [PStr ''There is no open alert; use the customer-reported fraud intake flow.'',
       PStr ''The selection is uncertain or incomplete.'']),
      (''prerequisites'', PList [PStr ''An owned open fraud alert.'',
       PStr ''Every flagged item explicitly classified as disputed or recognized.'']),
      (''input_guidance'', PStr (''Use exact IDs from get_open_fraud_alert and review_fraud_selection. Include selection_status ''
      @ ''COMPLETE, all four disputed/recognized ID lists, issue_replacement and escalate. Never infer a ''
      @ ''disputed selection. If all activity is recognized, disputed lists are empty and ''
      @ ''issue_replacement is false.'')),
      (''examples'', PList [PStr ''I do not recognize any of those five charges.'', PStr ''The first one is mine, but the other two are not.'', PStr ''Those are all mine; please close the alert.''])])]"

text \<open>\<^verbatim>\<open>config/action_definitions/google-wallet-provisioning.v1.json\<close>\<close>

definition GOOGLE_WALLET_PROVISIONING_V1 :: pyval where
  "GOOGLE_WALLET_PROVISIONING_V1 =
    PDict [(''schema_version'', PInt 1),
     (''id'', PStr ''google-wallet-provisioning''),
     (''revision'', PInt 1),
     (''action_type'', PStr ''PROVISION_GOOGLE_WALLET''),
     (''contract_version'', PStr ''wallet-provisioning.v1''),
     (''type'', PStr ''service_action''),
     (''operation'', PStr ''cards.queue_wallet.v1''),
     (''authorization_policy'', PStr ''general_acknowledgment.v1''),
     (''parameters'', PDict [(''require_virtual'', PBool True)]),
     (''payload'', PDict [(''account_id'', PDict [(''from'', PStr ''account_id'')]),
      (''card_id'', PDict [(''from'', PStr ''card_id'')]),
      (''card_token'', PDict [(''from'', PStr ''card_token'')]),
      (''wallet_provider'', PDict [(''literal'', PStr ''GOOGLE_WALLET'')])]),
     (''presentation'', PDict [(''required_facts'', PList [PStr ''card_last_four'', PStr ''provisioning_is_queued'', PStr ''wallet_provider'']),
      (''display_selection'', PList [PStr ''wallet_provider'']),
      (''public_payload_fields'', PList []),
      (''template'', PStr ''Confirm that you want to queue the virtual card ending {card_last_four} for Google Wallet.'')])]"

text \<open>\<^verbatim>\<open>config/action_definitions/google-wallet-provisioning.v2.json\<close>\<close>

definition GOOGLE_WALLET_PROVISIONING_V2 :: pyval where
  "GOOGLE_WALLET_PROVISIONING_V2 =
    PDict [(''schema_version'', PInt 2),
     (''id'', PStr ''google-wallet-provisioning''),
     (''revision'', PInt 2),
     (''action_type'', PStr ''PROVISION_GOOGLE_WALLET''),
     (''contract_version'', PStr ''wallet-provisioning.v1''),
     (''type'', PStr ''service_action''),
     (''operation'', PStr ''cards.queue_wallet.v1''),
     (''authorization_policy'', PStr ''general_acknowledgment.v1''),
     (''parameters'', PDict [(''require_virtual'', PBool True)]),
     (''payload'', PDict [(''account_id'', PDict [(''from'', PStr ''account_id'')]),
      (''card_id'', PDict [(''from'', PStr ''card_id'')]),
      (''card_token'', PDict [(''from'', PStr ''card_token'')]),
      (''wallet_provider'', PDict [(''literal'', PStr ''GOOGLE_WALLET'')])]),
     (''presentation'', PDict [(''required_facts'', PList [PStr ''card_last_four'', PStr ''provisioning_is_queued'', PStr ''wallet_provider'']),
      (''display_selection'', PList [PStr ''wallet_provider'']),
      (''public_payload_fields'', PList []),
      (''template'', PStr ''Confirm that you want to queue the virtual card ending {card_last_four} for Google Wallet.'')]),
     (''discovery'', PDict [(''title'', PStr ''Enable replacement-card access through Google Wallet''),
      (''purpose'', PStr (''Queue an eligible active virtual card for Google Wallet so the customer can continue using ''
      @ ''their card.'')),
      (''when_to_use'', PList [PStr (''The customer needs to pay with a replacement virtual card, including an upcoming in-person ''
      @ ''expense, without needing to name a wallet.''),
       PStr ''The customer asks to add their eligible virtual card to Google Wallet.'']),
      (''when_not_to_use'', PList [PStr ''Provisioning is already pending or completed for this card.'',
       PStr ''The customer is only asking about existing wallet status.'',
       PStr ''A replacement exists but the customer has expressed no payment or wallet need.'',
       PStr ''The customer needs an unsupported wallet provider.'']),
      (''prerequisites'', PList [PStr ''An owned active virtual card.'',
       PStr ''Google Wallet is appropriate for the customer; clarify the provider if uncertain.'']),
      (''input_guidance'', PStr (''No business inputs: use an empty object. Preparing checks card eligibility and creates an ''
      @ ''offer; it does not queue provisioning. Present the offer before seeking later confirmation. ''
      @ ''Queued does not mean installed or ready for contactless payment.'')),
      (''examples'', PList [PStr ''I have an important client dinner tonight. How am I going to pay now?'',
       PStr ''Can you add the new card to Google Wallet?''])])]"

definition bundled_documents :: "pyval list" where
  "bundled_documents = [CARD_REISSUE_V1, CARD_REISSUE_V2, CREDIT_LIMIT_INCREASE_V1, FRAUD_TRIAGE_V1, FRAUD_TRIAGE_V2, GOOGLE_WALLET_PROVISIONING_V1, GOOGLE_WALLET_PROVISIONING_V2]"

section \<open>They are valid\<close>

lemma valid_CARD_REISSUE_V1: "validate_definition (OPERATIONS w dw dc sha256_json tw) CARD_REISSUE_V1 = Inr CARD_REISSUE_V1"
  by code_simp

lemma valid_CARD_REISSUE_V2: "validate_definition (OPERATIONS w dw dc sha256_json tw) CARD_REISSUE_V2 = Inr CARD_REISSUE_V2"
  by code_simp

lemma valid_CREDIT_LIMIT_INCREASE_V1: "validate_definition (OPERATIONS w dw dc sha256_json tw) CREDIT_LIMIT_INCREASE_V1 = Inr CREDIT_LIMIT_INCREASE_V1"
  by code_simp

lemma valid_FRAUD_TRIAGE_V1: "validate_definition (OPERATIONS w dw dc sha256_json tw) FRAUD_TRIAGE_V1 = Inr FRAUD_TRIAGE_V1"
  by code_simp

lemma valid_FRAUD_TRIAGE_V2: "validate_definition (OPERATIONS w dw dc sha256_json tw) FRAUD_TRIAGE_V2 = Inr FRAUD_TRIAGE_V2"
  by code_simp

lemma valid_GOOGLE_WALLET_PROVISIONING_V1: "validate_definition (OPERATIONS w dw dc sha256_json tw) GOOGLE_WALLET_PROVISIONING_V1 = Inr GOOGLE_WALLET_PROVISIONING_V1"
  by code_simp

lemma valid_GOOGLE_WALLET_PROVISIONING_V2: "validate_definition (OPERATIONS w dw dc sha256_json tw) GOOGLE_WALLET_PROVISIONING_V2 = Inr GOOGLE_WALLET_PROVISIONING_V2"
  by code_simp

lemmas valid_documents = valid_CARD_REISSUE_V1 valid_CARD_REISSUE_V2 valid_CREDIT_LIMIT_INCREASE_V1 valid_FRAUD_TRIAGE_V1
  valid_FRAUD_TRIAGE_V2 valid_GOOGLE_WALLET_PROVISIONING_V1 valid_GOOGLE_WALLET_PROVISIONING_V2

text \<open>The identity of each document, with which the registry works.\<close>

lemma document_fields [simp]:
  "dict_get CARD_REISSUE_V1 ''id'' = PStr ''card-reissue''" "dict_get CARD_REISSUE_V1 ''revision'' = PInt 1"
  "dict_get CARD_REISSUE_V1 ''action_type'' = PStr ''REISSUE_CARD''" "dict_get CARD_REISSUE_V1 ''operation'' = PStr ''cards.issue_replacement.v1''"
  "dict_get CARD_REISSUE_V2 ''id'' = PStr ''card-reissue''" "dict_get CARD_REISSUE_V2 ''revision'' = PInt 2"
  "dict_get CARD_REISSUE_V2 ''action_type'' = PStr ''REISSUE_CARD''" "dict_get CARD_REISSUE_V2 ''operation'' = PStr ''cards.issue_replacement.v1''"
  "dict_get CREDIT_LIMIT_INCREASE_V1 ''id'' = PStr ''credit-limit-increase''" "dict_get CREDIT_LIMIT_INCREASE_V1 ''revision'' = PInt 1"
  "dict_get CREDIT_LIMIT_INCREASE_V1 ''action_type'' = PStr ''CREDIT_LIMIT_INCREASE''" "dict_get CREDIT_LIMIT_INCREASE_V1 ''operation'' = PStr ''credit.adjust_limit.v1''"
  "dict_get FRAUD_TRIAGE_V1 ''id'' = PStr ''fraud-triage''" "dict_get FRAUD_TRIAGE_V1 ''revision'' = PInt 1"
  "dict_get FRAUD_TRIAGE_V1 ''action_type'' = PStr ''TRIAGE_FRAUD_CASE''" "dict_get FRAUD_TRIAGE_V1 ''operation'' = PStr ''fraud.triage.v1''"
  "dict_get FRAUD_TRIAGE_V2 ''id'' = PStr ''fraud-triage''" "dict_get FRAUD_TRIAGE_V2 ''revision'' = PInt 2"
  "dict_get FRAUD_TRIAGE_V2 ''action_type'' = PStr ''TRIAGE_FRAUD_CASE''" "dict_get FRAUD_TRIAGE_V2 ''operation'' = PStr ''fraud.triage.v1''"
  "dict_get GOOGLE_WALLET_PROVISIONING_V1 ''id'' = PStr ''google-wallet-provisioning''" "dict_get GOOGLE_WALLET_PROVISIONING_V1 ''revision'' = PInt 1"
  "dict_get GOOGLE_WALLET_PROVISIONING_V1 ''action_type'' = PStr ''PROVISION_GOOGLE_WALLET''" "dict_get GOOGLE_WALLET_PROVISIONING_V1 ''operation'' = PStr ''cards.queue_wallet.v1''"
  "dict_get GOOGLE_WALLET_PROVISIONING_V2 ''id'' = PStr ''google-wallet-provisioning''" "dict_get GOOGLE_WALLET_PROVISIONING_V2 ''revision'' = PInt 2"
  "dict_get GOOGLE_WALLET_PROVISIONING_V2 ''action_type'' = PStr ''PROVISION_GOOGLE_WALLET''" "dict_get GOOGLE_WALLET_PROVISIONING_V2 ''operation'' = PStr ''cards.queue_wallet.v1''"
  by (simp_all add: CARD_REISSUE_V1_def CARD_REISSUE_V2_def CREDIT_LIMIT_INCREASE_V1_def FRAUD_TRIAGE_V1_def FRAUD_TRIAGE_V2_def GOOGLE_WALLET_PROVISIONING_V1_def GOOGLE_WALLET_PROVISIONING_V2_def)

lemma document_facts [simp]:
  "texts (presentation_of CARD_REISSUE_V1 ''required_facts'') \<noteq> []"
  "texts (presentation_of CARD_REISSUE_V2 ''required_facts'') \<noteq> []"
  "texts (presentation_of CREDIT_LIMIT_INCREASE_V1 ''required_facts'') \<noteq> []"
  "texts (presentation_of FRAUD_TRIAGE_V1 ''required_facts'') \<noteq> []"
  "texts (presentation_of FRAUD_TRIAGE_V2 ''required_facts'') \<noteq> []"
  "texts (presentation_of GOOGLE_WALLET_PROVISIONING_V1 ''required_facts'') \<noteq> []"
  "texts (presentation_of GOOGLE_WALLET_PROVISIONING_V2 ''required_facts'') \<noteq> []"
  by (simp_all add: presentation_of_def texts_def CARD_REISSUE_V1_def CARD_REISSUE_V2_def CREDIT_LIMIT_INCREASE_V1_def FRAUD_TRIAGE_V1_def FRAUD_TRIAGE_V2_def GOOGLE_WALLET_PROVISIONING_V1_def GOOGLE_WALLET_PROVISIONING_V2_def)

lemma document_discovery [simp]:
  "map_of (dict_items CARD_REISSUE_V2) ''discovery'' \<noteq> None"
  "map_of (dict_items CREDIT_LIMIT_INCREASE_V1) ''discovery'' \<noteq> None"
  "map_of (dict_items FRAUD_TRIAGE_V2) ''discovery'' \<noteq> None"
  "map_of (dict_items GOOGLE_WALLET_PROVISIONING_V2) ''discovery'' \<noteq> None"
  by (simp_all add: dict_items_def CARD_REISSUE_V2_def CREDIT_LIMIT_INCREASE_V1_def FRAUD_TRIAGE_V2_def GOOGLE_WALLET_PROVISIONING_V2_def)

lemma specification_runs:
  assumes "validate_definition ops doc = Inr doc" "registered_operation ops (dict_get doc ''operation'') = Inr op"
    "texts (presentation_of doc ''required_facts'') \<noteq> []"
  shows "specification_of digest ops doc = Inr (service_specification digest op doc)"
  using assms general_specification_checks [of digest op doc]
  by (simp add: specification_of_def Let_def presentation_requirement_check_def service_specification_def release_requirement_def blank_def)

section \<open>The registry of the release\<close>

definition sample_operations :: "(string \<times> operation) list" where
  "sample_operations = OPERATIONS (sample_world 0) sample_decision_world sample_decisioning (\<lambda>v. ''d'') sample_triage_world"

definition sample_digest_of :: "pyval \<Rightarrow> string" where
  "sample_digest_of v = ''d''"

lemma registered [simp]:
  "registered_operation sample_operations (PStr ''cards.issue_replacement.v1'') = Inr (CARD_REPLACEMENT sample_triage_world)"
  "registered_operation sample_operations (PStr ''cards.queue_wallet.v1'') = Inr (WALLET_QUEUE sample_triage_world)"
  "registered_operation sample_operations (PStr ''fraud.triage.v1'') = Inr (FRAUD_TRIAGE (\<lambda>v. ''d'') sample_triage_world)"
  "registered_operation sample_operations (PStr ''credit.adjust_limit.v1'')
     = Inr (CREDIT_LIMIT (sample_world 0) sample_decision_world sample_decisioning sample_triage_world)"
  by (simp_all add: registered_operation_def sample_operations_def OPERATIONS_def)

definition release_specification :: "operation \<Rightarrow> pyval \<Rightarrow> spec" where
  "release_specification op d = service_specification sample_digest_of op d"

definition release_specifications :: "spec list" where
  "release_specifications =
     [release_specification (CARD_REPLACEMENT sample_triage_world) CARD_REISSUE_V1,
      release_specification (CARD_REPLACEMENT sample_triage_world) CARD_REISSUE_V2,
      release_specification (CREDIT_LIMIT (sample_world 0) sample_decision_world sample_decisioning sample_triage_world) CREDIT_LIMIT_INCREASE_V1,
      release_specification (FRAUD_TRIAGE (\<lambda>v. ''d'') sample_triage_world) FRAUD_TRIAGE_V1,
      release_specification (FRAUD_TRIAGE (\<lambda>v. ''d'') sample_triage_world) FRAUD_TRIAGE_V2,
      release_specification (WALLET_QUEUE sample_triage_world) GOOGLE_WALLET_PROVISIONING_V1,
      release_specification (WALLET_QUEUE sample_triage_world) GOOGLE_WALLET_PROVISIONING_V2]"

lemma release_specifications_read: "mapR (specification_of sample_digest_of sample_operations) bundled_documents = Inr release_specifications"
  using valid_documents [of "sample_world 0" sample_decision_world sample_decisioning "\<lambda>v. ''d''" sample_triage_world,
    folded sample_operations_def]
  by (simp add: bundled_documents_def specification_runs release_specifications_def release_specification_def del: bindR_Inr_iff)

lemma release_fields [simp]:
  "sp_action_type (release_specification op d) = text_of (dict_get d ''action_type'')"
  "sp_definition_id (release_specification op d) = text_of (dict_get d ''id'')"
  "sp_definition_revision (release_specification op d) = (case dict_get d ''revision'' of PInt n \<Rightarrow> n | _ \<Rightarrow> 0)"
  "discovery_view (sp_handler (release_specification op d)) = map_of (dict_items d) ''discovery''"
  by (simp_all add: release_specification_def service_specification_def discovery_view_def service_handler_def)

definition release_served :: "(string \<times> spec) list" where
  "release_served =
     [(''REISSUE_CARD'', release_specification (CARD_REPLACEMENT sample_triage_world) CARD_REISSUE_V2),
      (''CREDIT_LIMIT_INCREASE'', release_specification (CREDIT_LIMIT (sample_world 0) sample_decision_world sample_decisioning sample_triage_world) CREDIT_LIMIT_INCREASE_V1),
      (''TRIAGE_FRAUD_CASE'', release_specification (FRAUD_TRIAGE (\<lambda>v. ''d'') sample_triage_world) FRAUD_TRIAGE_V2),
      (''PROVISION_GOOGLE_WALLET'', release_specification (WALLET_QUEUE sample_triage_world) GOOGLE_WALLET_PROVISIONING_V2)]"

lemma release_registry_built:
  "build_registry None release_specifications
     = Inr \<lparr>rg_versions = map (\<lambda>s. (spec_key s, s)) release_specifications, rg_specifications = release_served\<rparr>"
  by (simp add: build_registry_def release_specifications_def release_served_def register_def serve_item_def spec_key_def text_of_def
      del: bindR_Inr_iff)

lemma release_catalogue_loads:
  "load_action_registry sample_digest_of sample_operations (Bundled bundled_documents)
     = Inr \<lparr>rg_versions = map (\<lambda>s. (spec_key s, s)) release_specifications, rg_specifications = release_served\<rparr>"
proof -
  have "release_specifications \<noteq> []" "\<not> list_ex (\<lambda>(k, s). discovery_view (sp_handler s) = None) release_served"
    by (simp_all add: release_specifications_def release_served_def)
  then show ?thesis
    by (simp add: load_action_registry_def release_specifications_read release_registry_built del: bindR_Inr_iff)
qed

theorem definition_is_closed_witness:
  "\<exists>op. registered_operation sample_operations (dict_get CARD_REISSUE_V2 ''operation'') = Inr op
     \<and> py_eq (dict_get CARD_REISSUE_V2 ''parameters'') (PDict (op_parameters op))"
  using definition_is_closed [OF valid_CARD_REISSUE_V2 [of "sample_world 0" sample_decision_world sample_decisioning "\<lambda>v. ''d''"
      sample_triage_world, folded sample_operations_def]] by blast

theorem catalogue_serves_validated_witness:
  "\<exists>reg. load_action_registry sample_digest_of sample_operations (Bundled bundled_documents) = Inr reg
     \<and> (\<forall>t s. require_action reg t = Inr s \<longrightarrow> sp_action_type s = t \<and> discovery_view (sp_handler s) \<noteq> None)"
proof -
  obtain reg where reg: "load_action_registry sample_digest_of sample_operations (Bundled bundled_documents) = Inr reg"
    using release_catalogue_loads by blast
  have "\<forall>t s. require_action reg t = Inr s \<longrightarrow> sp_action_type s = t \<and> discovery_view (sp_handler s) \<noteq> None"
    using catalogue_serves_validated [OF reg, THEN conjunct2, THEN conjunct2] by (simp only: repository_catalogue.simps simp_thms) blast
  with reg show ?thesis by blast
qed

end
