(* ===== verification/Deposit_Opening.thy ===== *)
theory Deposit_Opening
  imports Accounts
begin

text \<open>
  Opening a deposit account (\<open>AccountsService.create_deposit_account\<close> of \<^verbatim>\<open>services/accounts.py\<close>), with the
  provisioning of a customer it may start with (\<open>get_or_provision_profile\<close> of \<^verbatim>\<open>services/profile.py\<close>,
  \<open>create_customer\<close> of \<^verbatim>\<open>repositories/identity.py\<close>) and the application it records
  (\<^verbatim>\<open>models/origination.py\<close>).  The random digits of an account number are a stream \<open>draws\<close>, as
  \<open>random.randint(10000000, 99999999)\<close> returns them; the loop that draws until a number is unused need not end, so
  the operation is an option.
\<close>

section \<open>State\<close>

record application =
  ap_id :: string
  ap_application_id :: string
  ap_user_id :: string
  ap_product_category :: string
  ap_status :: string

record deposit_application =
  da_id :: string
  da_application_id :: string
  da_deposit_product_name :: "string option"
  da_initial_deposit_cents :: "int option"

record opening_db =
  og_bank :: bank_db
  og_applications :: "application list"
  og_deposit_applications :: "deposit_application list"

record validated_token =
  vt_user_id :: string
  vt_email :: "string option"
  vt_name :: "string option"
  vt_phone_number :: "string option"

record deposit_request =
  dq_account_type :: string
  dq_product_name :: string
  dq_initial_deposit_cents :: int

text \<open>\<open>DepositAccountCreateRequest\<close>: the deposit is not negative (\<open>Field(0, ge=0)\<close>).\<close>

definition deposit_request_ok :: "deposit_request \<Rightarrow> bool" where
  "deposit_request_ok q = (0 \<le> dq_initial_deposit_cents q)"

section \<open>Provisioning a customer\<close>

definition get_customer :: "string \<Rightarrow> bank_db \<Rightarrow> user option" where
  "get_customer auth_provider_uid d = get_user_by_auth_provider_uid auth_provider_uid d"

text \<open>\<open>name.strip().split(" ", 1)\<close>\<close>

definition name_parts :: "string \<Rightarrow> string \<times> string" where
  "name_parts name =
     (let s = py_strip name; c = (\<lambda>x. x \<noteq> CHR '' '') in (takeWhile c s, drop 1 (dropWhile c s)))"

definition create_customer ::
    "int \<Rightarrow> string \<Rightarrow> string \<Rightarrow> string \<Rightarrow> string option \<Rightarrow> string option \<Rightarrow> bank_db \<Rightarrow> bank_db res" where
  "create_customer now auth_provider_uid first_name last_name email phone_number d =
     (if auth_provider_uid \<in> u_auth_provider_uid ` set (d_users d) then Inl (IntegrityError ''users.auth_provider_uid'')
      else
        (let (i, d1) = uuid4 d;
             d2 = d1\<lparr>d_users := d_users d1 @ [\<lparr>u_id = i, u_auth_provider_uid = auth_provider_uid, u_email = email\<rparr>]\<rparr>
         in Inr (audit now ''USER_CREATED''
               [(''user_id'', PStr auth_provider_uid), (''email'', opt_str email), (''first_name'', PStr first_name),
                (''last_name'', PStr last_name)] d2)))"

definition or_blank :: "string option \<Rightarrow> string" where
  "or_blank s = (case s of Some t \<Rightarrow> t | None \<Rightarrow> [])"

text \<open>A provisioned customer is committed at once.\<close>

definition get_or_provision_profile :: "int \<Rightarrow> validated_token \<Rightarrow> bank_db \<Rightarrow> bank_db res" where
  "get_or_provision_profile now token d =
     (if vt_user_id token = [] then Inl (HTTPException 401 ''Invalid user ID in token'')
      else (case get_customer (vt_user_id token) d of
              Some customer \<Rightarrow> Inr d
            | None \<Rightarrow>
                (let (first_name, last_name) = name_parts (or_blank (vt_name token)) in
                 case create_customer now (vt_user_id token) first_name last_name (Some (or_blank (vt_email token)))
                        (vt_phone_number token) d of
                   Inl e \<Rightarrow> Inl (HTTPException 500 ''Failed to auto-provision user profile'')
                 | Inr d' \<Rightarrow> Inr d')))"

text \<open>The owner: an existing user, or the one provisioned from the token.\<close>

definition resolve_owner :: "int \<Rightarrow> validated_token \<Rightarrow> bank_db \<Rightarrow> (user \<times> bank_db) res" where
  "resolve_owner now token d =
     (case get_user_by_auth_provider_uid (vt_user_id token) d of
        Some user \<Rightarrow> Inr (user, d)
      | None \<Rightarrow>
          bindR (get_or_provision_profile now token d) (\<lambda>d1.
          case get_user_by_auth_provider_uid (vt_user_id token) d1 of
            Some user \<Rightarrow> Inr (user, d1)
          | None \<Rightarrow> Inl (HTTPException 404 ''User profile could not be resolved.'')))"

section \<open>An unused account number\<close>

definition account_number_of :: "string \<Rightarrow> int \<Rightarrow> string" where
  "account_number_of head n = head @ ''-'' @ show_int n"

definition number_taken :: "bank_db \<Rightarrow> string \<Rightarrow> bool" where
  "number_taken d number = (number \<in> ac_account_number ` set (d_accounts d))"

text \<open>The \<open>while\<close> loop: the first draw from the \<open>n\<close>-th on whose number is unused, and how many were drawn.\<close>

partial_function (option) draw_number :: "string \<Rightarrow> (nat \<Rightarrow> int) \<Rightarrow> bank_db \<Rightarrow> nat \<Rightarrow> (string \<times> nat) option" where
  "draw_number head draws d n =
     (if number_taken d (account_number_of head (draws n)) then draw_number head draws d (Suc n)
      else Some (account_number_of head (draws n), Suc n))"

declare draw_number.simps [code]

section \<open>Opening the account\<close>

definition deposit_prefix :: "string \<Rightarrow> string" where
  "deposit_prefix acc_type = (if acc_type = ''CHECKING'' then ''CHK'' else ''SAV'')"

definition new_deposit_account :: "string \<Rightarrow> string \<Rightarrow> string \<Rightarrow> string \<Rightarrow> deposit_request \<Rightarrow> account" where
  "new_deposit_account i user_id number acc_type q =
     \<lparr>ac_id = i, ac_user_id = Some user_id, ac_account_number = number, ac_account_type = acc_type,
      ac_product_name = dq_product_name q, ac_product_code = Some ''CHECKING_EVERYDAY'', ac_credit_account_id = None,
      ac_status = ''ACTIVE'', ac_credit_limit_cents = 0, ac_cleared_balance_cents = dq_initial_deposit_cents q,
      ac_available_credit_cents = 0, ac_currency = ''USD''\<rparr>"

text \<open>\<open>uuid4().hex\<close>\<close>

definition hex_of :: "string \<Rightarrow> string" where
  "hex_of u = filter (\<lambda>c. c \<noteq> CHR ''-'') u"

text \<open>
  The application with its deposit detail: the constructor's \<open>requested_amount_cents\<close> creates the detail, which is
  then completed.
\<close>

definition record_application :: "string \<Rightarrow> deposit_request \<Rightarrow> opening_db \<Rightarrow> application \<times> opening_db" where
  "record_application user_id q s =
     (let (u, d1) = uuid4 (og_bank s); (i, d2) = uuid4 d1; (j, d3) = uuid4 d2;
          app = \<lparr>ap_id = i, ap_application_id = ''APP-DEP-'' @ take 12 (hex_of u), ap_user_id = user_id,
            ap_product_category = ''DEPOSIT'', ap_status = ''APPROVED''\<rparr>
      in (app, \<lparr>og_bank = d3, og_applications = og_applications s @ [app],
                og_deposit_applications = og_deposit_applications s
                  @ [\<lparr>da_id = j, da_application_id = i, da_deposit_product_name = Some (dq_product_name q),
                      da_initial_deposit_cents = Some (dq_initial_deposit_cents q)\<rparr>]\<rparr>))"

definition FUNDING_ACCOUNT :: string where
  "FUNDING_ACCOUNT = ''SYSTEM_EXTERNAL_FUNDING''"

definition funding_posting :: "string \<Rightarrow> string \<Rightarrow> application \<Rightarrow> account \<Rightarrow> account \<Rightarrow> deposit_request \<Rightarrow> posting_request" where
  "funding_posting key user_id app sys_acc new_acc q =
     \<lparr>pr_idempotency_key = key, pr_description = ''Initial deposit funding for '' @ dq_product_name q,
      pr_entries = two_lines (ac_id sys_acc) (ac_id new_acc)
        \<lparr>amount_minor = dq_initial_deposit_cents q, currency_code = ac_currency new_acc\<rparr>,
      pr_source_type = ''INITIAL_DEPOSIT_FUNDING'', pr_currency = ac_currency new_acc,
      pr_source_references = [(''account_id'', PStr (ac_id new_acc)), (''application_id'', PStr (ap_id app))],
      pr_user_id = Some user_id, pr_posted_at = None\<rparr>"

text \<open>\<open>idempotency_key or f"IDEMP-DEP-{uuid4().hex}"\<close>\<close>

definition funding_key :: "string option \<Rightarrow> bank_db \<Rightarrow> string \<times> bank_db" where
  "funding_key idempotency_key d =
     (case str_or idempotency_key None of
        Some k \<Rightarrow> (k, d) | None \<Rightarrow> (let (u, d') = uuid4 d in (''IDEMP-DEP-'' @ hex_of u, d')))"

text \<open>
  The initial funding: the clearing account is debited and the new account credited, and the clearing account's
  cached balance is raised by the amount.
\<close>

definition fund_account ::
    "int \<Rightarrow> string option \<Rightarrow> string \<Rightarrow> application \<Rightarrow> account \<Rightarrow> deposit_request \<Rightarrow> bank_db \<Rightarrow> bank_db res" where
  "fund_account now idempotency_key user_id app new_acc q d =
     (let amount = dq_initial_deposit_cents q in
      if amount \<le> 0 then Inr d
      else
        bindR (ensure_system_journal_account FUNDING_ACCOUNT ''External funding clearing counterparty'' (ac_currency new_acc) d)
          (\<lambda>(sys_acc, d1).
        let (key, d2) = funding_key idempotency_key d1
        in bindR (mk_money amount (ac_currency new_acc)) (\<lambda>_.
           bindR (post_financial_transaction now (funding_posting key user_id app sys_acc new_acc q) d2) (\<lambda>(posting, d3).
           Inr (update_account (\<lambda>a. a\<lparr>ac_cleared_balance_cents := ac_cleared_balance_cents a + amount\<rparr>) (ac_id sys_acc) d3)))))"

definition opened_view :: "int \<Rightarrow> account \<Rightarrow> pyval" where
  "opened_view now a =
     PDict [(''account_id'', PStr (ac_id a)), (''account_number'', PStr (ac_account_number a)), (''status'', PStr (ac_status a)),
            (''opened_at'', PTime now)]"

text \<open>From the insertion of the account to the final commit; an exception leaves nothing of it.\<close>

definition open_account ::
    "int \<Rightarrow> string option \<Rightarrow> user \<Rightarrow> string \<Rightarrow> string \<Rightarrow> deposit_request \<Rightarrow> opening_db \<Rightarrow> (pyval \<times> opening_db) res" where
  "open_account now idempotency_key user acc_type number q s =
     (let (i, d1) = uuid4 (og_bank s); new_acc = new_deposit_account i (u_id user) number acc_type q;
          (app, s2) = record_application (u_id user) q (s\<lparr>og_bank := add_account new_acc d1\<rparr>)
      in bindR (fund_account now idempotency_key (u_id user) app new_acc q (og_bank s2)) (\<lambda>d3.
         Inr (opened_view now new_acc, s2\<lparr>og_bank := d3\<rparr>)))"

definition create_deposit_account ::
    "int \<Rightarrow> (nat \<Rightarrow> int) \<Rightarrow> deposit_request \<Rightarrow> validated_token \<Rightarrow> string option \<Rightarrow> opening_db \<Rightarrow> (opening_db \<times> pyval res) option" where
  "create_deposit_account now draws q token idempotency_key s =
     (let acc_type = py_upper (dq_account_type q) in
      if acc_type \<notin> {''CHECKING'', ''SAVINGS''}
      then Some (s, Inl (HTTPException 400 ''Invalid account_type. Must be CHECKING or SAVINGS.''))
      else (case resolve_owner now token (og_bank s) of
              Inl e \<Rightarrow> Some (s, Inl e)
            | Inr (user, d) \<Rightarrow>
                (case draw_number (deposit_prefix acc_type) draws d 0 of
                   None \<Rightarrow> None
                 | Some (number, n) \<Rightarrow>
                     (let s1 = s\<lparr>og_bank := d\<rparr> in
                      case open_account now idempotency_key user acc_type number q s1 of
                        Inl e \<Rightarrow> Some (s1, Inl e)
                      | Inr (view, s2) \<Rightarrow> Some (s2, Inr view)))))"

section \<open>The loop ends\<close>

lemma draw_number_first:
  assumes free: "\<not> number_taken d (account_number_of head (draws m))" and "n \<le> m"
  shows "\<exists>k. n \<le> k \<and> k \<le> m \<and> draw_number head draws d n = Some (account_number_of head (draws k), Suc k)
    \<and> \<not> number_taken d (account_number_of head (draws k)) \<and> (\<forall>j. n \<le> j \<and> j < k \<longrightarrow> number_taken d (account_number_of head (draws j)))"
  using assms(2)
proof (induction "m - n" arbitrary: n)
  case 0
  then have "n = m" by simp
  then show ?case using free by (subst draw_number.simps) auto
next
  case (Suc i)
  show ?case
  proof (cases "number_taken d (account_number_of head (draws n))")
    case True
    then have "n \<noteq> m" using free by metis
    then have "Suc n \<le> m" "i = m - Suc n" using Suc.prems Suc.hyps(2) by auto
    then obtain k where k: "Suc n \<le> k" "k \<le> m" "draw_number head draws d (Suc n) = Some (account_number_of head (draws k), Suc k)"
      "\<not> number_taken d (account_number_of head (draws k))" "\<forall>j. Suc n \<le> j \<and> j < k \<longrightarrow> number_taken d (account_number_of head (draws j))"
      using Suc.hyps(1) by blast
    have "draw_number head draws d n = Some (account_number_of head (draws k), Suc k)"
      using True k(3) by (subst draw_number.simps) simp
    moreover have "\<forall>j. n \<le> j \<and> j < k \<longrightarrow> number_taken d (account_number_of head (draws j))"
      using True k(5) by (metis le_neq_implies_less Suc_leI)
    ultimately show ?thesis using k(1,2,4) by (intro exI [of _ k]) simp
  next
    case False
    then show ?thesis using Suc.prems by (intro exI [of _ n]) (subst draw_number.simps, auto)
  qed
qed

text \<open>Different draws are different numbers, so among more draws than there are accounts one is unused.\<close>

lemma unused_draw:
  assumes inj: "inj_on (\<lambda>k. account_number_of head (draws k)) {..length (d_accounts d)}"
  shows "\<exists>m \<le> length (d_accounts d). \<not> number_taken d (account_number_of head (draws m))"
proof (rule ccontr)
  assume "\<not> ?thesis"
  then have "(\<lambda>k. account_number_of head (draws k)) ` {..length (d_accounts d)} \<subseteq> ac_account_number ` set (d_accounts d)"
    by (auto simp: number_taken_def)
  then have "card {..length (d_accounts d)} \<le> card (ac_account_number ` set (d_accounts d))"
    using card_mono [OF finite_imageI [OF finite_set]] card_image [OF inj] by metis
  also have "\<dots> \<le> length (d_accounts d)" using card_image_le card_length le_trans by blast
  finally show False by simp
qed

lemma show_int_inject: "0 \<le> m \<Longrightarrow> 0 \<le> n \<Longrightarrow> show_int m = show_int n \<Longrightarrow> m = n"
  by (auto simp: show_int_def dest: show_nat_inject)

lemma draws_numbers: "inj_on draws A \<Longrightarrow> (\<And>k. 0 \<le> draws k) \<Longrightarrow> inj_on (\<lambda>k. account_number_of head (draws k)) A"
  unfolding inj_on_def account_number_of_def by (metis append_same_eq same_append_eq show_int_inject)

lemma draw_number_sound:
  assumes "draw_number head draws d n = Some r"
  shows "\<not> number_taken d (fst r) \<and> (\<exists>k. fst r = account_number_of head (draws k))"
  by (rule draw_number.raw_induct [OF _ assms]) (auto split: if_splits)

section \<open>What opening an account does\<close>

lemma create_customer_frame:
  assumes "create_customer now uid first_name last_name email phone d = Inr d'"
  shows "d_accounts d' = d_accounts d" "d_entries d' = d_entries d" "d_transactions d' = d_transactions d"
    "books_ok d \<Longrightarrow> books_ok d'" "\<exists>u. get_user_by_auth_provider_uid uid d' = Some u \<and> u_auth_provider_uid u = uid"
proof -
  obtain i d1 where u: "uuid4 d = (i, d1)" by fastforce
  let ?d2 = "d1\<lparr>d_users := d_users d1 @ [\<lparr>u_id = i, u_auth_provider_uid = uid, u_email = email\<rparr>]\<rparr>"
  obtain payload where d': "d' = audit now ''USER_CREATED'' payload ?d2"
    using assms u by (auto simp: create_customer_def split: if_splits)
  note f = uuid4_frame [OF u]
  show "d_accounts d' = d_accounts d" "d_entries d' = d_entries d" "d_transactions d' = d_transactions d"
    by (simp_all add: d' frame_simps f)
  have "d_uuid d1 = d_uuid d" "d_draws d \<le> d_draws d1" using u by (auto simp: uuid4_def)
  then show "books_ok d'" if "books_ok d"
    unfolding d' by (intro books_audit books_ok_frame [OF that]) (simp_all add: tx_sig_def acct_sig_def card_sig_def f)
  have "uid \<notin> u_auth_provider_uid ` set (d_users d1)"
    using assms u by (auto simp: create_customer_def uuid4_def split: if_splits)
  then have "List.find (\<lambda>u. u_auth_provider_uid u = uid) (d_users d1) = None" by (auto simp: find_None_iff')
  then show "\<exists>u. get_user_by_auth_provider_uid uid d' = Some u \<and> u_auth_provider_uid u = uid"
    by (simp add: d' get_user_by_auth_provider_uid_def frame_simps find_append)
qed

lemma resolve_owner_frame:
  assumes "resolve_owner now token d = Inr (user, d')"
  shows "d_accounts d' = d_accounts d" "d_entries d' = d_entries d" "d_transactions d' = d_transactions d"
    "books_ok d \<Longrightarrow> books_ok d'" "get_user_by_auth_provider_uid (vt_user_id token) d' = Some user"
  using assms create_customer_frame
  by (auto simp: resolve_owner_def get_or_provision_profile_def get_customer_def split: option.splits if_splits sum.splits prod.splits)

lemma ensure_system_number:
  "ensure_system_journal_account n desc c d = Inr (a, d') \<Longrightarrow> ac_account_number a = system_account_number n c
     \<and> (get_account (ac_id a) d = None \<longrightarrow> ac_cleared_balance_cents a = 0)"
  by (auto simp: ensure_system_journal_account_def Let_def uuid4_def get_account_def find_None_iff'
      dest: find_Some_iff' split: option.splits if_splits)

text \<open>A posting to an account that has no entries yet is new, whatever its key.\<close>

lemma post_untouched:
  assumes post: "post_financial_transaction now r d = Inr (p, d')" and lines: "pr_entries r = two_lines a b m"
    and new: "b \<notin> le_account_id ` set (d_entries d)"
  shows "List.find (\<lambda>t. tx_idempotency_key t = pr_idempotency_key r) (d_transactions d) = None"
  using post
proof (cases rule: post_cases)
  case (replay ns existing)
  have ns: "ns = two_lines a b m" using normalize_two_lines_Inr replay(1) lines by metis
  let ?es = "entries_of (tx_id existing) (d_entries d)"
  have "requested_signature ns = existing_signature ?es"
    using replay(3) by (auto simp: replay_posting_def Let_def split: if_splits)
  moreover have "(b, ''CREDIT'', amount_minor m) \<in># requested_signature ns"
    by (simp add: ns two_lines_def requested_signature_def)
  ultimately have "(b, ''CREDIT'', amount_minor m) \<in># existing_signature ?es" by simp
  then have "b \<in> le_account_id ` set ?es" by (auto simp: existing_signature_def)
  moreover have "set ?es \<subseteq> set (d_entries d)" by (auto simp: entries_of_def)
  ultimately show ?thesis using new by blast
qed simp

text \<open>The funding: the two positions move against each other, the cached balance of the clearing account moves up.\<close>

lemma key_draw:
  assumes "funding_key idempotency_key d1 = (key, d2)"
  shows "d_entries d2 = d_entries d1" "get_account i d2 = get_account i d1" "books_ok d1 \<Longrightarrow> books_ok d2"
  using assms books_uuid4 [of d1] by (auto simp: funding_key_def uuid4_def get_account_def split: option.splits)

lemma fund_account_effect:
  assumes ok: "books_ok d" and a: "get_account (ac_id a) d = Some a" "ac_currency a = ''USD''" "ac_account_number a \<noteq> FUNDING_ACCOUNT"
    and new: "ac_id a \<notin> le_account_id ` set (d_entries d)" and amount: "0 < dq_initial_deposit_cents q"
    and run: "fund_account now idempotency_key user_id app a q d = Inr d'"
  obtains f where "books_ok d'" "ac_account_number f = FUNDING_ACCOUNT" "ac_id f \<noteq> ac_id a"
    "get_account (ac_id f) d' = Some (f\<lparr>ac_cleared_balance_cents := ac_cleared_balance_cents f + dq_initial_deposit_cents q\<rparr>)"
    "get_account (ac_id f) d = Some f \<or> get_account (ac_id f) d = None \<and> ac_cleared_balance_cents f = 0"
    "\<And>i b. get_account i d = Some b \<Longrightarrow> i \<noteq> ac_id f \<Longrightarrow> get_account i d' = Some b"
    "\<And>i. position i (d_entries d') = position i (d_entries d)
       + ((if i = ac_id a then dq_initial_deposit_cents q else 0) - (if i = ac_id f then dq_initial_deposit_cents q else 0))"
proof -
  let ?n = "dq_initial_deposit_cents q"
  obtain f d1 where f: "ensure_system_journal_account FUNDING_ACCOUNT ''External funding clearing counterparty'' (ac_currency a) d = Inr (f, d1)"
    and rest: "(case funding_key idempotency_key d1 of (key, d2) \<Rightarrow> bindR (mk_money ?n (ac_currency a)) (\<lambda>_.
        bindR (post_financial_transaction now (funding_posting key user_id app f a q) d2) (\<lambda>(posting, d3).
        Inr (update_account (\<lambda>x. x\<lparr>ac_cleared_balance_cents := ac_cleared_balance_cents x + ?n\<rparr>) (ac_id f) d3)))) = Inr d'"
    using run amount unfolding fund_account_def Let_def by (auto elim!: bindR_pairE simp del: bindR_Inr_iff)
  obtain key d2 where key: "funding_key idempotency_key d1 = (key, d2)" by fastforce
  obtain posting d3 where post: "post_financial_transaction now (funding_posting key user_id app f a q) d2 = Inr (posting, d3)"
    and d': "d' = update_account (\<lambda>x. x\<lparr>ac_cleared_balance_cents := ac_cleared_balance_cents x + ?n\<rparr>) (ac_id f) d3"
    using rest by (auto simp: key)
  note sys = ensure_system_facts [OF ok f] and k = key_draw [OF key]
  have number: "ac_account_number f = FUNDING_ACCOUNT" "get_account (ac_id f) d = None \<longrightarrow> ac_cleared_balance_cents f = 0"
    using ensure_system_number [OF f] a(2) by (simp_all add: system_account_number_def)
  have a2: "get_account (ac_id a) d2 = Some a" using sys(7) [OF a(1)] by (simp add: k)
  have f2: "get_account (ac_id f) d2 = Some f" using sys(2) by (simp add: k)
  have ne: "ac_id f \<noteq> ac_id a" using a2 f2 number(1) a(3) by auto
  have ok2: "books_ok d2" by (rule k(3) [OF sys(1)])
  have fresh: "ac_id a \<notin> le_account_id ` set (d_entries d2)" using new by (simp add: k sys(4))
  have lines: "pr_entries (funding_posting key user_id app f a q) = two_lines (ac_id f) (ac_id a) \<lparr>amount_minor = ?n, currency_code = ac_currency a\<rparr>"
    by (simp add: funding_posting_def)
  note none = post_untouched [OF post lines fresh]
  note eff = post_two_lines_effect [OF post lines none]
  have acc3: "d_accounts d3 = d_accounts d2" using append_posting_effect(5) [OF eff(1)] .
  have ok3: "books_ok d3" by (rule books_post [OF ok2 post])
  have get3: "get_account i d3 = get_account i d2" for i by (simp add: get_account_def acc3)
  have upd: "get_account i d' = (if i = ac_id f then Some (f\<lparr>ac_cleared_balance_cents := ac_cleared_balance_cents f + ?n\<rparr>) else get_account i d2)" for i
    using update_account_get [of "\<lambda>x. x\<lparr>ac_cleared_balance_cents := ac_cleared_balance_cents x + ?n\<rparr>" i "ac_id f" d3] f2
    by (simp add: d' get3)
  show ?thesis
  proof (rule that [OF _ number(1) ne])
    show "books_ok d'" unfolding d' by (rule update_account_books [OF ok3]) simp_all
    show "get_account (ac_id f) d' = Some (f\<lparr>ac_cleared_balance_cents := ac_cleared_balance_cents f + ?n\<rparr>)" by (simp add: upd)
    show "get_account (ac_id f) d = Some f \<or> get_account (ac_id f) d = None \<and> ac_cleared_balance_cents f = 0"
      using number(2) sys(2) sys(7) [of "ac_id f"] by (cases "get_account (ac_id f) d") auto
    show "get_account i d' = Some b" if "get_account i d = Some b" "i \<noteq> ac_id f" for i b
      using that sys(7) [OF that(1)] by (simp add: upd k)
    show "position i (d_entries d') = position i (d_entries d)
       + ((if i = ac_id a then ?n else 0) - (if i = ac_id f then ?n else 0))" for i
      using eff(4) [of i] by (simp add: d' frame_simps k sys(4))
  qed
qed

lemma record_application_frame:
  assumes "record_application user_id q s = (app, s')"
  shows "d_entries (og_bank s') = d_entries (og_bank s)" "get_account i (og_bank s') = get_account i (og_bank s)"
    "books_ok (og_bank s) \<Longrightarrow> books_ok (og_bank s')" "d_accounts (og_bank s') = d_accounts (og_bank s)"
    "og_applications s' = og_applications s @ [app]" "ap_user_id app = user_id" "ap_status app = ''APPROVED''"
proof -
  obtain u d1 i1 d2 j d3 where u: "uuid4 (og_bank s) = (u, d1)" "uuid4 d1 = (i1, d2)" "uuid4 d2 = (j, d3)" by (metis surj_pair)
  show "d_entries (og_bank s') = d_entries (og_bank s)" "get_account i (og_bank s') = get_account i (og_bank s)"
    "books_ok (og_bank s) \<Longrightarrow> books_ok (og_bank s')" "d_accounts (og_bank s') = d_accounts (og_bank s)"
    "og_applications s' = og_applications s @ [app]" "ap_user_id app = user_id" "ap_status app = ''APPROVED''"
    using assms uuid4_frame [OF u(1)] uuid4_frame [OF u(2)] uuid4_frame [OF u(3)] by (auto simp: record_application_def u Let_def)
qed

text \<open>The state in which the funding starts: the new account is there, and no entry names it.\<close>

lemma account_added:
  assumes ok: "books_ok d" and u: "uuid4 d = (i, d1)" and a: "a = new_deposit_account i user_id number acc_type q"
  shows "books_ok (add_account a d1)" "get_account (ac_id a) (add_account a d1) = Some a" "get_account (ac_id a) d = None"
    "d_entries (add_account a d1) = d_entries d" "ac_id a \<notin> le_account_id ` set (d_entries d)"
    "\<And>k b. get_account k d = Some b \<Longrightarrow> get_account k (add_account a d1) = Some b"
    "\<And>k. k \<noteq> ac_id a \<Longrightarrow> get_account k (add_account a d1) = get_account k d"
proof -
  have i: "ac_id a = fst (uuid4 d)" "d1 = snd (uuid4 d)" by (simp_all add: a u new_deposit_account_def)
  show "books_ok (add_account a d1)"
    unfolding i(2) by (rule books_add_account [OF ok i(1)]) (simp_all add: a new_deposit_account_def SUPPORTED_def mirror_conflict_def)
  show "get_account (ac_id a) (add_account a d1) = Some a" unfolding i(2) by (rule get_added_account [OF ok i(1)])
  have "ac_id a \<notin> ac_id ` set (d_accounts d)" using ok i(1) by (simp add: books_ok_def uuid_fresh_def uuid4_def)
  then show none: "get_account (ac_id a) d = None" unfolding get_account_def find_None_iff' by (metis imageI)
  show "d_entries (add_account a d1) = d_entries d" using uuid4_frame [OF u] by (simp add: add_account_def)
  have "map_option ac_currency (get_account (le_account_id e) d) \<noteq> None" if "e \<in> set (d_entries d)" for e
    using ok that by (auto simp: books_ok_def journal_ok_def entry_ok_def)
  then show "ac_id a \<notin> le_account_id ` set (d_entries d)" using none by fastforce
  show "get_account k (add_account a d1) = Some b" if "get_account k d = Some b" for k b
    using that uuid4_frame [OF u] by (simp add: get_account_def add_account_def find_append)
  show "get_account k (add_account a d1) = get_account k d" if "k \<noteq> ac_id a" for k
    using that uuid4_frame [OF u] by (simp add: get_account_def add_account_def find_append split: option.split)
qed

lemma position_untouched: "i \<notin> le_account_id ` set es \<Longrightarrow> position i es = 0"
proof -
  assume "i \<notin> le_account_id ` set es"
  then have "filter (\<lambda>e. le_account_id e = i) es = []" by (auto simp: filter_empty_conv)
  then show ?thesis by (simp add: position_def)
qed

text \<open>What one opening leaves: the account, the books, every other account, and the clearing account.\<close>

lemma open_account_effect:
  assumes ok: "books_ok (og_bank s)" and q: "deposit_request_ok q" and number: "number \<noteq> FUNDING_ACCOUNT"
    and run: "open_account now key user acc_type number q s = Inr (view, s')"
  obtains a where "view = opened_view now a" "ac_user_id a = Some (u_id user)" "ac_account_number a = number"
    "ac_account_type a = acc_type" "ac_status a = ''ACTIVE''" "ac_cleared_balance_cents a = dq_initial_deposit_cents q"
    "get_account (ac_id a) (og_bank s) = None" "get_account (ac_id a) (og_bank s') = Some a" "books_ok (og_bank s')"
    "position (ac_id a) (d_entries (og_bank s')) = dq_initial_deposit_cents q"
    "\<And>i b. get_account i (og_bank s) = Some b \<Longrightarrow> ac_account_number b \<noteq> FUNDING_ACCOUNT \<Longrightarrow>
       get_account i (og_bank s') = Some b \<and> position i (d_entries (og_bank s')) = position i (d_entries (og_bank s))"
    "\<exists>app. og_applications s' = og_applications s @ [app] \<and> ap_user_id app = u_id user \<and> ap_status app = ''APPROVED''"
    "0 < dq_initial_deposit_cents q \<Longrightarrow> \<exists>f. get_account (ac_id f) (og_bank s') = Some f \<and> ac_account_number f = FUNDING_ACCOUNT
       \<and> ac_cleared_balance_cents f = (case get_account (ac_id f) (og_bank s) of Some f0 \<Rightarrow> ac_cleared_balance_cents f0 | None \<Rightarrow> 0)
           + dq_initial_deposit_cents q
       \<and> position (ac_id f) (d_entries (og_bank s')) = position (ac_id f) (d_entries (og_bank s)) - dq_initial_deposit_cents q"
proof -
  let ?n = "dq_initial_deposit_cents q"
  obtain i d1 where u: "uuid4 (og_bank s) = (i, d1)" by fastforce
  define a where "a = new_deposit_account i (u_id user) number acc_type q"
  obtain app s2 where app: "record_application (u_id user) q (s\<lparr>og_bank := add_account a d1\<rparr>) = (app, s2)" by fastforce
  obtain d3 where fund: "fund_account now key (u_id user) app a q (og_bank s2) = Inr d3" and s': "s' = s2\<lparr>og_bank := d3\<rparr>"
    and view: "view = opened_view now a"
    using run by (auto simp: open_account_def u a_def [symmetric] app Let_def)
  note add = account_added [OF ok u a_def] and rec = record_application_frame [OF app, simplified]
  have a: "ac_user_id a = Some (u_id user)" "ac_account_number a = number" "ac_account_type a = acc_type" "ac_status a = ''ACTIVE''"
    "ac_cleared_balance_cents a = ?n" "ac_currency a = ''USD''"
    by (simp_all add: a_def new_deposit_account_def)
  have ok2: "books_ok (og_bank s2)" by (rule rec(3) [OF add(1)])
  have a2: "get_account (ac_id a) (og_bank s2) = Some a" using rec(2) add(2) by simp
  have e2: "d_entries (og_bank s2) = d_entries (og_bank s)" using rec(1) add(4) by simp
  have new2: "ac_id a \<notin> le_account_id ` set (d_entries (og_bank s2))" using add(5) by (simp add: e2)
  have keep: "get_account k (og_bank s2) = Some b" if "get_account k (og_bank s) = Some b" for k b using rec(2) add(6) [OF that] by simp
  have apps: "\<exists>app. og_applications s' = og_applications s @ [app] \<and> ap_user_id app = u_id user \<and> ap_status app = ''APPROVED''"
    using rec(5-7) by (simp add: s')
  show ?thesis
  proof (cases "0 < ?n")
    case False
    then have "?n = 0" using q by (simp add: deposit_request_ok_def)
    moreover from this have "d3 = og_bank s2" using fund by (simp add: fund_account_def)
    ultimately show ?thesis
      by (intro that [OF view a(1-5) add(3) _ _ _ _ apps]) (use a2 ok2 new2 keep in \<open>simp_all add: s' e2 position_untouched\<close>)
  next
    case True
    have nf: "ac_account_number a \<noteq> FUNDING_ACCOUNT" using a(2) number by simp
    obtain f where f: "books_ok d3" "ac_account_number f = FUNDING_ACCOUNT" "ac_id f \<noteq> ac_id a"
      "get_account (ac_id f) d3 = Some (f\<lparr>ac_cleared_balance_cents := ac_cleared_balance_cents f + ?n\<rparr>)"
      "get_account (ac_id f) (og_bank s2) = Some f \<or> get_account (ac_id f) (og_bank s2) = None \<and> ac_cleared_balance_cents f = 0"
      "\<And>i b. get_account i (og_bank s2) = Some b \<Longrightarrow> i \<noteq> ac_id f \<Longrightarrow> get_account i d3 = Some b"
      "\<And>i. position i (d_entries d3) = position i (d_entries (og_bank s2)) + ((if i = ac_id a then ?n else 0) - (if i = ac_id f then ?n else 0))"
      by (rule fund_account_effect [OF ok2 a2 a(6) nf new2 True fund]) (rule that, assumption+)
    have other: "i \<noteq> ac_id f \<and> i \<noteq> ac_id a" if "get_account i (og_bank s) = Some b" "ac_account_number b \<noteq> FUNDING_ACCOUNT" for i b
      using that f(2,5) keep [OF that(1)] add(3) by auto
    have old: "(case get_account (ac_id f) (og_bank s) of Some f0 \<Rightarrow> ac_cleared_balance_cents f0 | None \<Rightarrow> 0) = ac_cleared_balance_cents f"
    proof (cases "get_account (ac_id f) (og_bank s)")
      case None
      then have "get_account (ac_id f) (og_bank s2) = None" using rec(2) add(7) [OF f(3)] by simp
      with f(5) None show ?thesis by simp
    next
      case (Some f0)
      with f(5) keep [OF Some] show ?thesis by auto
    qed
    show ?thesis
    proof (rule that [OF view a(1-5) add(3) _ _ _ _ apps])
      show "get_account (ac_id a) (og_bank s') = Some a" using f(6) [OF a2] f(3) by (simp add: s')
      show "books_ok (og_bank s')" by (simp add: s' f(1))
      show "position (ac_id a) (d_entries (og_bank s')) = ?n"
        using f(3) new2 by (simp add: s' f(7) position_untouched)
      show "get_account i (og_bank s') = Some b \<and> position i (d_entries (og_bank s')) = position i (d_entries (og_bank s))"
        if "get_account i (og_bank s) = Some b" "ac_account_number b \<noteq> FUNDING_ACCOUNT" for i b
        using f(6) [OF keep [OF that(1)]] other [OF that] by (simp add: s' f(7) e2)
      show "\<exists>f. get_account (ac_id f) (og_bank s') = Some f \<and> ac_account_number f = FUNDING_ACCOUNT
         \<and> ac_cleared_balance_cents f = (case get_account (ac_id f) (og_bank s) of Some f0 \<Rightarrow> ac_cleared_balance_cents f0 | None \<Rightarrow> 0) + ?n
         \<and> position (ac_id f) (d_entries (og_bank s')) = position (ac_id f) (d_entries (og_bank s)) - ?n"
        using f(2,3,4) old
        by (intro exI [of _ "f\<lparr>ac_cleared_balance_cents := ac_cleared_balance_cents f + ?n\<rparr>"]) (simp add: s' f(7) e2)
    qed
  qed
qed

text \<open>C33. Opening an account returns.  Although the loop that draws an account number has no bound in the code, it ends after
  at most one draw more than there are accounts, with a number no account has, as soon as that many draws are
  different; the request then always comes to an outcome, an account or an error.\<close>

theorem deposit_opening_ends:
  assumes different: "inj_on draws {..length (d_accounts (og_bank s))}" and range: "\<And>k. 10000000 \<le> draws k \<and> draws k \<le> 99999999"
  shows "create_deposit_account now draws q token key s \<noteq> None
    \<and> (\<forall>head. \<exists>number n. draw_number head draws (og_bank s) 0 = Some (number, n) \<and> n \<le> Suc (length (d_accounts (og_bank s)))
         \<and> \<not> number_taken (og_bank s) number)"
proof -
  have nonneg: "0 \<le> draws k" for k using range [of k] by linarith
  have ends: "\<exists>number n. draw_number head draws d 0 = Some (number, n) \<and> n \<le> Suc (length (d_accounts (og_bank s))) \<and> \<not> number_taken d number"
    if acc: "d_accounts d = d_accounts (og_bank s)" for head d
  proof -
    have "inj_on (\<lambda>k. account_number_of head (draws k)) {..length (d_accounts d)}"
      unfolding acc by (rule draws_numbers [OF different nonneg])
    then obtain m where m: "m \<le> length (d_accounts d)" "\<not> number_taken d (account_number_of head (draws m))"
      using unused_draw by blast
    obtain k where "k \<le> m" "draw_number head draws d 0 = Some (account_number_of head (draws k), Suc k)"
      "\<not> number_taken d (account_number_of head (draws k))"
      using draw_number_first [where m = m and head = head and draws = draws and n = 0, OF m(2)] by blast
    then show ?thesis using m(1) acc by (intro exI [of _ "account_number_of head (draws k)"] exI [of _ "Suc k"]) simp
  qed
  have "create_deposit_account now draws q token key s \<noteq> None"
  proof (cases "resolve_owner now token (og_bank s)")
    case (Inr r)
    obtain user d where r: "r = (user, d)" by fastforce
    obtain number n where "draw_number (deposit_prefix (py_upper (dq_account_type q))) draws d 0 = Some (number, n)"
      using ends [of d] resolve_owner_frame(1) [OF Inr [unfolded r]] by blast
    then show ?thesis by (simp add: create_deposit_account_def Let_def Inr r split: sum.split)
  qed (simp add: create_deposit_account_def Let_def)
  with ends show ?thesis by blast
qed

text \<open>C32. An opened account is what was asked for, and the books stay in order.  The new account belongs to the token's
  user, who is provisioned if unknown; it is active, of the requested type, under a number and an id no account had; its
  cached balance is the initial deposit and so is what the journal says it holds; an approved application is
  recorded; every other account keeps its row and its position, except the external funding clearing account: its
  position falls by the deposit while its cached balance rises by it, so the two come to differ by twice the amount.\<close>

theorem deposit_account_opened:
  assumes run: "create_deposit_account now draws q token key s = Some (s', Inr view)"
    and ok: "books_ok (og_bank s)" and q: "deposit_request_ok q"
  shows "\<exists>user d a. resolve_owner now token (og_bank s) = Inr (user, d) \<and> u_auth_provider_uid user = vt_user_id token
    \<and> view = opened_view now a \<and> ac_user_id a = Some (u_id user) \<and> ac_account_type a = py_upper (dq_account_type q)
    \<and> ac_account_type a \<in> {''CHECKING'', ''SAVINGS''} \<and> ac_status a = ''ACTIVE'' \<and> \<not> number_taken (og_bank s) (ac_account_number a)
    \<and> get_account (ac_id a) (og_bank s) = None \<and> get_account (ac_id a) (og_bank s') = Some a \<and> books_ok (og_bank s')
    \<and> ac_cleared_balance_cents a = dq_initial_deposit_cents q
    \<and> position (ac_id a) (d_entries (og_bank s')) = dq_initial_deposit_cents q
    \<and> (\<exists>app. og_applications s' = og_applications s @ [app] \<and> ap_user_id app = u_id user \<and> ap_status app = ''APPROVED'')
    \<and> (\<forall>i b. get_account i (og_bank s) = Some b \<and> ac_account_number b \<noteq> FUNDING_ACCOUNT \<longrightarrow>
         get_account i (og_bank s') = Some b \<and> position i (d_entries (og_bank s')) = position i (d_entries (og_bank s)))
    \<and> (0 < dq_initial_deposit_cents q \<longrightarrow> (\<exists>f. get_account (ac_id f) (og_bank s') = Some f \<and> ac_account_number f = FUNDING_ACCOUNT
       \<and> ac_cleared_balance_cents f = (case get_account (ac_id f) (og_bank s) of Some f0 \<Rightarrow> ac_cleared_balance_cents f0 | None \<Rightarrow> 0)
           + dq_initial_deposit_cents q
       \<and> position (ac_id f) (d_entries (og_bank s')) = position (ac_id f) (d_entries (og_bank s)) - dq_initial_deposit_cents q))"
proof -
  let ?t = "py_upper (dq_account_type q)"
  obtain user d number n where t: "?t \<in> {''CHECKING'', ''SAVINGS''}" and r: "resolve_owner now token (og_bank s) = Inr (user, d)"
    and num: "draw_number (deposit_prefix ?t) draws d 0 = Some (number, n)"
    and o: "open_account now key user ?t number q (s\<lparr>og_bank := d\<rparr>) = Inr (view, s')"
    using run by (auto simp: create_deposit_account_def Let_def split: if_splits sum.splits option.splits)
  note owner = resolve_owner_frame [OF r]
  have uid: "u_auth_provider_uid user = vt_user_id token"
    using owner(5) by (auto simp: get_user_by_auth_provider_uid_def dest: find_Some_iff')
  obtain k where k: "number = account_number_of (deposit_prefix ?t) (draws k)" and free: "\<not> number_taken d number"
    using draw_number_sound [OF num] by auto
  have nf: "number \<noteq> FUNDING_ACCOUNT" by (simp add: k account_number_of_def deposit_prefix_def FUNDING_ACCOUNT_def)
  have get: "get_account i d = get_account i (og_bank s)" for i using owner(1) by (simp add: get_account_def)
  have free': "\<not> number_taken (og_bank s) number" using free owner(1) by (simp add: number_taken_def)
  show ?thesis
  proof (rule open_account_effect [OF _ q nf o], goal_cases)
    case 1
    show ?case using owner(4) [OF ok] by simp
  next
    case (2 a)
    show ?case
      by (intro exI [of _ user] exI [of _ d] exI [of _ a])
        (use 2 r uid t free' owner(2) get in \<open>simp add: ex_simps [symmetric] del: ex_simps\<close>)
  qed
qed

section \<open>A sample opening\<close>

definition sample_draws :: "nat \<Rightarrow> int" where
  "sample_draws k = 10000000 + int (k mod 90000000)"

definition sample_opening :: opening_db where
  "sample_opening = \<lparr>og_bank = sample_db, og_applications = [], og_deposit_applications = []\<rparr>"

definition sample_token :: validated_token where
  "sample_token = \<lparr>vt_user_id = ''uid-2'', vt_email = None, vt_name = Some ''Ada B'', vt_phone_number = None\<rparr>"

definition sample_deposit_request :: deposit_request where
  "sample_deposit_request = \<lparr>dq_account_type = ''savings'', dq_product_name = ''Saver'', dq_initial_deposit_cents = 5000\<rparr>"

theorem deposit_opening_ends_witness:
  "create_deposit_account 7 sample_draws sample_deposit_request sample_token None sample_opening \<noteq> None"
proof -
  have "inj_on sample_draws {..length (d_accounts (og_bank sample_opening))}"
    by (rule inj_onI) (simp add: sample_draws_def sample_opening_def sample_db_def)
  moreover have "10000000 \<le> sample_draws k \<and> sample_draws k \<le> 99999999" for k
    using mod_less_divisor [of 90000000 k] by (simp add: sample_draws_def)
  ultimately show ?thesis using deposit_opening_ends [of sample_draws sample_opening 7 sample_deposit_request sample_token None] by blast
qed

definition sample_owner :: user where
  "sample_owner = \<lparr>u_id = sample_uuid 0, u_auth_provider_uid = ''uid-2'', u_email = Some []\<rparr>"

definition sample_owned_db :: bank_db where
  "sample_owned_db = (case resolve_owner 7 sample_token sample_db of Inr (user, d) \<Rightarrow> d | Inl e \<Rightarrow> sample_db)"

lemma sample_owner_resolved: "resolve_owner 7 sample_token sample_db = Inr (sample_owner, sample_owned_db)"
proof -
  have "map_sum id fst (resolve_owner 7 sample_token sample_db) = Inr sample_owner" by code_simp
  then show ?thesis by (auto simp: sample_owned_db_def split: sum.split prod.split)
qed

lemma sample_number: "draw_number ''SAV'' sample_draws sample_owned_db 0 = Some (''SAV-'' @ show_int 10000000, 1)"
proof -
  have "\<not> number_taken sample_owned_db (''SAV-'' @ x)" for x by code_simp
  then show ?thesis by (subst draw_number.simps) (simp add: account_number_of_def sample_draws_def)
qed

lemma sample_opens:
  obtains s' view where "create_deposit_account 7 sample_draws sample_deposit_request sample_token None sample_opening = Some (s', Inr view)"
proof -
  let ?o = "open_account 7 None sample_owner ''SAVINGS'' (''SAV-'' @ show_int 10000000) sample_deposit_request
      (sample_opening\<lparr>og_bank := sample_owned_db\<rparr>)"
  have "\<not> isl (open_account 7 None sample_owner ''SAVINGS'' (''SAV-'' @ x) sample_deposit_request (sample_opening\<lparr>og_bank := sample_owned_db\<rparr>))" for x
    by code_simp
  then have "\<not> isl ?o" .
  then obtain view s' where o: "?o = Inr (view, s')" by (cases ?o) auto
  have t: "py_upper (dq_account_type sample_deposit_request) = ''SAVINGS''" by code_simp
  have "resolve_owner 7 sample_token (og_bank sample_opening) = Inr (sample_owner, sample_owned_db)"
    by (simp add: sample_opening_def sample_owner_resolved)
  then have "create_deposit_account 7 sample_draws sample_deposit_request sample_token None sample_opening = Some (s', Inr view)"
    using o sample_number by (simp add: create_deposit_account_def t deposit_prefix_def)
  then show ?thesis by (rule that)
qed

theorem deposit_account_opened_witness:
  "\<exists>s' view a. create_deposit_account 7 sample_draws sample_deposit_request sample_token None sample_opening = Some (s', Inr view)
     \<and> get_account (ac_id a) (og_bank s') = Some a \<and> ac_cleared_balance_cents a = 5000 \<and> books_ok (og_bank s')"
proof -
  obtain s' view where run: "create_deposit_account 7 sample_draws sample_deposit_request sample_token None sample_opening = Some (s', Inr view)"
    by (rule sample_opens)
  have ok: "books_ok (og_bank sample_opening)" "deposit_request_ok sample_deposit_request"
    using sample_books by (simp_all add: sample_opening_def deposit_request_ok_def sample_deposit_request_def)
  obtain a where "get_account (ac_id a) (og_bank s') = Some a" "ac_cleared_balance_cents a = dq_initial_deposit_cents sample_deposit_request"
    "books_ok (og_bank s')"
    using deposit_account_opened [OF run ok] by blast
  with run show ?thesis by (auto simp: sample_deposit_request_def)
qed

end
