(* ===== verification/Playbook_Store.thy ===== *)
theory Playbook_Store
  imports Action_Definitions
begin

text \<open>
  The versioned store of playbooks (\<^verbatim>\<open>models/playbook.py\<close> and the SQL adapter of
  \<^verbatim>\<open>services/playbook_repository.py\<close>).  A playbook has a head, revisions of its document, and one change request per
  draft; the tables are lists in insertion order.  An operation answers a \<open>repository_error\<close>, after which the caller's
  transaction rolls back, or the value of the Python method and the written tables.  \<open>UPDATE ... WHERE\<close> is
  \<open>update_where\<close> with its row count, by which the code detects concurrent changes.  Instants stand for the texts
  \<open>timestamp\<close> renders them as.  \<open>digest\<close> is the digest of \<open>definition_digest\<close>.
\<close>

section \<open>Errors\<close>

datatype repository_error =
    RepositoryError string
  | PlaybookNotFound string
  | PlaybookConflict string
  | ChangeRequestNotFound string
  | ChangeRequestNotOpen string
  | BehindHead string
  | NotBehindHead string
  | OtherError py_error

type_synonym 'a pres = "repository_error + 'a"

definition from_py :: "'a res \<Rightarrow> 'a pres" where
  "from_py r = (case r of Inl e \<Rightarrow> Inl (OtherError e) | Inr x \<Rightarrow> Inr x)"

section \<open>The tables\<close>

datatype revision_status = DRAFT | PUBLISHED
datatype request_status = CR_OPEN | CR_PUBLISHED | CR_CLOSED
datatype request_origin = CR_CREATE | CR_DRAFT | CR_RESTORE | CR_RECREATE | CR_LEGACY

definition CHANGE_REQUEST_TITLE_MAX :: nat where "CHANGE_REQUEST_TITLE_MAX = 200"
definition CHANGE_REQUEST_DESCRIPTION_MAX :: nat where "CHANGE_REQUEST_DESCRIPTION_MAX = 4000"

record playbook =
  pb_id :: string
  pb_action_type :: string
  pb_contract_version :: string
  pb_operation :: string
  pb_published_revision :: "int option"
  pb_generation :: int

record playbook_revision =
  rv_playbook_id :: string
  rv_revision :: int
  rv_status :: revision_status
  rv_document :: pyval
  rv_digest :: "string option"
  rv_draft_version :: int
  rv_created_by :: string
  rv_updated_by :: string
  rv_created_at :: int
  rv_updated_at :: int
  rv_published_at :: "int option"
  rv_base_revision :: "int option"

record change_request =
  cr_id :: int
  cr_playbook_id :: string
  cr_revision :: int
  cr_base_revision :: "int option"
  cr_origin :: request_origin
  cr_previous_base_revision :: "int option"
  cr_title :: string
  cr_description :: string
  cr_status :: request_status
  cr_version :: int
  cr_opened_by :: string
  cr_opened_at :: int
  cr_closed_by :: "string option"
  cr_closed_at :: "int option"
  cr_published_revision :: "int option"

record playbook_db =
  pt_playbooks :: "playbook list"
  pt_revisions :: "playbook_revision list"
  pt_requests :: "change_request list"

definition rv_key :: "'a playbook_revision_scheme \<Rightarrow> string \<times> int" where
  "rv_key r = (rv_playbook_id r, rv_revision r)"

definition cr_key :: "'a change_request_scheme \<Rightarrow> string \<times> int" where
  "cr_key c = (cr_playbook_id c, cr_revision c)"

text \<open>The check constraints of the two tables.\<close>

definition revision_ok :: "playbook_revision \<Rightarrow> bool" where
  "revision_ok r \<longleftrightarrow> 0 < rv_revision r \<and> 0 < rv_draft_version r
     \<and> (rv_status r \<noteq> PUBLISHED \<or> (rv_digest r \<noteq> None \<and> rv_published_at r \<noteq> None))"

definition change_request_ok :: "change_request \<Rightarrow> bool" where
  "change_request_ok c \<longleftrightarrow>
     (if cr_status c = CR_OPEN then cr_closed_by c = None \<and> cr_closed_at c = None
      else cr_closed_by c \<noteq> None \<and> cr_closed_at c \<noteq> None)
     \<and> (if cr_status c = CR_PUBLISHED then cr_published_revision c = Some (cr_revision c) else cr_published_revision c = None)
     \<and> 1 \<le> length (cr_title c) \<and> length (cr_title c) \<le> CHANGE_REQUEST_TITLE_MAX
     \<and> length (cr_description c) \<le> CHANGE_REQUEST_DESCRIPTION_MAX \<and> 0 < cr_version c"

section \<open>Statements\<close>

definition update_where :: "('r \<Rightarrow> bool) \<Rightarrow> ('r \<Rightarrow> 'r) \<Rightarrow> 'r list \<Rightarrow> nat \<times> 'r list" where
  "update_where p f rows = (length (filter p rows), map (\<lambda>r. if p r then f r else r) rows)"

text \<open>Inserts are refused when they break a key, a foreign key or a check constraint.\<close>

definition insert_playbook :: "playbook \<Rightarrow> playbook_db \<Rightarrow> playbook_db res" where
  "insert_playbook h d =
     (if pb_id h \<in> pb_id ` set (pt_playbooks d) \<or> pb_action_type h \<in> pb_action_type ` set (pt_playbooks d)
      then Inl (IntegrityError ''admin.playbooks'')
      else Inr (d\<lparr>pt_playbooks := pt_playbooks d @ [h]\<rparr>))"

definition insert_revision :: "playbook_revision \<Rightarrow> playbook_db \<Rightarrow> playbook_db res" where
  "insert_revision r d =
     (if rv_key r \<in> rv_key ` set (pt_revisions d) \<or> rv_playbook_id r \<notin> pb_id ` set (pt_playbooks d) \<or> \<not> revision_ok r
      then Inl (IntegrityError ''admin.playbook_revisions'')
      else Inr (d\<lparr>pt_revisions := pt_revisions d @ [r]\<rparr>))"

text \<open>The next id of a change request; rows are never deleted.\<close>

definition next_request_id :: "playbook_db \<Rightarrow> int" where
  "next_request_id d = 1 + fold max (map cr_id (pt_requests d)) 0"

definition insert_request :: "change_request \<Rightarrow> playbook_db \<Rightarrow> change_request pres" where
  "insert_request c d =
     (if cr_key c \<in> cr_key ` set (pt_requests d) \<or> cr_key c \<notin> rv_key ` set (pt_revisions d) \<or> \<not> change_request_ok c
      then Inl (OtherError (IntegrityError ''admin.playbook_change_requests''))
      else Inr (c\<lparr>cr_id := next_request_id d\<rparr>))"

section \<open>Views\<close>

record viewed_revision = playbook_revision +
  rw_generation :: int

definition revision_view :: "playbook_revision \<Rightarrow> int \<Rightarrow> viewed_revision" where
  "revision_view row generation = playbook_revision.extend row \<lparr>rw_generation = generation\<rparr>"

definition default_title :: "request_origin \<Rightarrow> string \<Rightarrow> int option \<Rightarrow> string" where
  "default_title origin playbook_id source_revision =
     (case origin of
        CR_CREATE \<Rightarrow> ''Create '' @ playbook_id
      | CR_RESTORE \<Rightarrow> ''Restore revision '' @ (case source_revision of Some n \<Rightarrow> show_int n | None \<Rightarrow> ''None'')
      | _ \<Rightarrow> ''Update '' @ playbook_id)"

record viewed_request = change_request +
  cv_behind :: bool
  cv_behind_by :: int
  cv_draft_version :: int
  cv_updated_by :: string
  cv_updated_at :: int

text \<open>\<open>(base or 0)\<close>\<close>

definition base_number :: "int option \<Rightarrow> int" where
  "base_number base = (case base of None \<Rightarrow> 0 | Some n \<Rightarrow> n)"

definition change_request_view :: "change_request \<Rightarrow> viewed_revision \<Rightarrow> int option \<Rightarrow> int set \<Rightarrow> viewed_request" where
  "change_request_view c draft head_published published_revisions =
     (let behind = (cr_status c = CR_OPEN \<and> cr_base_revision c \<noteq> head_published) in
      change_request.extend c
        \<lparr>cv_behind = behind,
         cv_behind_by = (if behind then int (card {rev \<in> published_revisions. base_number (cr_base_revision c) < rev}) else 0),
         cv_draft_version = rv_draft_version draft, cv_updated_by = rv_updated_by draft, cv_updated_at = rv_updated_at draft\<rparr>)"

definition opt_number :: "string \<Rightarrow> int option \<Rightarrow> string" where
  "opt_number none n = (case n of None \<Rightarrow> none | Some i \<Rightarrow> show_int i)"

definition behind_message :: "int option \<Rightarrow> int option \<Rightarrow> string" where
  "behind_message base head =
     ''This change request is based on revision '' @ (if base_number base = 0 then ''none'' else opt_number ''none'' base)
     @ '', but revision '' @ opt_number ''None'' head
     @ '' is now published. Start a new change request from the current revision.''"

section \<open>Reading\<close>

definition sql_head :: "string \<Rightarrow> playbook_db \<Rightarrow> playbook pres" where
  "sql_head playbook_id d =
     (case List.find (\<lambda>h. pb_id h = playbook_id) (pt_playbooks d) of
        None \<Rightarrow> Inl (PlaybookNotFound ''Playbook not found.'') | Some h \<Rightarrow> Inr h)"

definition sql_row :: "string \<Rightarrow> int \<Rightarrow> playbook_db \<Rightarrow> playbook_revision pres" where
  "sql_row playbook_id revision d =
     (case List.find (\<lambda>r. rv_key r = (playbook_id, revision)) (pt_revisions d) of
        None \<Rightarrow> Inl (PlaybookNotFound ''Playbook revision not found.'') | Some r \<Rightarrow> Inr r)"

definition sql_get :: "string \<Rightarrow> int \<Rightarrow> playbook_db \<Rightarrow> viewed_revision pres" where
  "sql_get playbook_id revision d =
     bindR (sql_head playbook_id d) (\<lambda>head.
     bindR (sql_row playbook_id revision d) (\<lambda>row. Inr (revision_view row (pb_generation head))))"

definition sql_published_revisions :: "string \<Rightarrow> playbook_db \<Rightarrow> int set" where
  "sql_published_revisions playbook_id d =
     rv_revision ` set (filter (\<lambda>r. rv_playbook_id r = playbook_id \<and> rv_status r = PUBLISHED) (pt_revisions d))"

definition sql_cr_view :: "change_request \<Rightarrow> playbook \<Rightarrow> playbook_db \<Rightarrow> viewed_request pres" where
  "sql_cr_view c head d =
     bindR (sql_row (cr_playbook_id c) (cr_revision c) d) (\<lambda>row.
     Inr (change_request_view c (revision_view row (pb_generation head)) (pb_published_revision head)
            (sql_published_revisions (cr_playbook_id c) d)))"

definition sql_cr_row :: "string \<Rightarrow> int \<Rightarrow> playbook_db \<Rightarrow> change_request pres" where
  "sql_cr_row playbook_id change_request_id d =
     (case List.find (\<lambda>c. cr_id c = change_request_id \<and> cr_playbook_id c = playbook_id) (pt_requests d) of
        None \<Rightarrow> Inl (ChangeRequestNotFound ''Change request not found.'') | Some c \<Rightarrow> Inr c)"

definition sql_open_cr_for :: "string \<Rightarrow> int \<Rightarrow> playbook_db \<Rightarrow> change_request pres" where
  "sql_open_cr_for playbook_id revision d =
     (case List.find (\<lambda>c. cr_key c = (playbook_id, revision)) (pt_requests d) of
        Some c \<Rightarrow> if cr_status c \<noteq> CR_OPEN
                  then Inl (ChangeRequestNotOpen ''This draft has no open change request; it cannot be changed or published.'')
                  else Inr c
      | None \<Rightarrow> Inl (ChangeRequestNotOpen ''This draft has no open change request; it cannot be changed or published.''))"

section \<open>Writing\<close>

text \<open>\<open>document["revision"] = revision\<close>\<close>

definition set_revision :: "int \<Rightarrow> pyval \<Rightarrow> pyval" where
  "set_revision revision document =
     (case document of PDict kvs \<Rightarrow> PDict (dict_put ''revision'' (PInt revision) kvs) | _ \<Rightarrow> document)"

definition new_draft :: "string \<Rightarrow> int \<Rightarrow> pyval \<Rightarrow> int option \<Rightarrow> string \<Rightarrow> int \<Rightarrow> playbook_revision" where
  "new_draft playbook_id revision document base actor now =
     \<lparr>rv_playbook_id = playbook_id, rv_revision = revision, rv_status = DRAFT, rv_document = document, rv_digest = None,
      rv_draft_version = 1, rv_created_by = actor, rv_updated_by = actor, rv_created_at = now, rv_updated_at = now,
      rv_published_at = None, rv_base_revision = base\<rparr>"

definition max_revision :: "int list \<Rightarrow> int" where
  "max_revision revisions = (case revisions of [] \<Rightarrow> 0 | r # rs \<Rightarrow> fold max rs r)"

definition revisions_of :: "string \<Rightarrow> playbook_db \<Rightarrow> playbook_revision list" where
  "revisions_of playbook_id d = filter (\<lambda>r. rv_playbook_id r = playbook_id) (pt_revisions d)"

definition sql_allocate :: "playbook \<Rightarrow> pyval \<Rightarrow> string \<Rightarrow> int \<Rightarrow> playbook_db \<Rightarrow> (playbook_revision \<times> playbook_db) pres" where
  "sql_allocate head source_document actor now d =
     (let revision = max_revision (map rv_revision (revisions_of (pb_id head) d)) + 1;
          row = new_draft (pb_id head) revision (set_revision revision source_document) (pb_published_revision head) actor now
      in bindR (from_py (insert_revision row d)) (\<lambda>d'. Inr (row, d')))"

definition new_request ::
    "playbook_revision \<Rightarrow> request_origin \<Rightarrow> int option \<Rightarrow> string \<Rightarrow> string \<Rightarrow> string \<Rightarrow> int \<Rightarrow> int \<Rightarrow> change_request" where
  "new_request row origin previous_base title description actor now i =
     \<lparr>cr_id = i, cr_playbook_id = rv_playbook_id row, cr_revision = rv_revision row, cr_base_revision = rv_base_revision row,
      cr_origin = origin, cr_previous_base_revision = previous_base, cr_title = title, cr_description = description,
      cr_status = CR_OPEN, cr_version = 1, cr_opened_by = actor, cr_opened_at = now, cr_closed_by = None, cr_closed_at = None,
      cr_published_revision = None\<rparr>"

definition sql_open ::
    "playbook \<Rightarrow> playbook_revision \<Rightarrow> request_origin \<Rightarrow> int option \<Rightarrow> string \<Rightarrow> string \<Rightarrow> string \<Rightarrow> int \<Rightarrow> playbook_db
     \<Rightarrow> ((viewed_revision \<times> viewed_request) \<times> playbook_db) pres" where
  "sql_open head row origin previous_base title description actor now d =
     bindR (insert_request (new_request row origin previous_base title description actor now 0) d) (\<lambda>c.
     let d' = d\<lparr>pt_requests := pt_requests d @ [c]\<rparr> in
     bindR (sql_cr_view c head d') (\<lambda>v. Inr ((revision_view row (pb_generation head), v), d')))"

definition finished :: "request_status \<Rightarrow> string \<Rightarrow> int \<Rightarrow> change_request \<Rightarrow> change_request" where
  "finished status actor now c =
     c\<lparr>cr_status := status, cr_closed_by := Some actor, cr_closed_at := Some now,
       cr_published_revision := (if status = CR_PUBLISHED then Some (cr_revision c) else None), cr_version := cr_version c + 1\<rparr>"

definition sql_finish :: "change_request \<Rightarrow> request_status \<Rightarrow> string \<Rightarrow> int \<Rightarrow> playbook_db \<Rightarrow> playbook_db pres" where
  "sql_finish c status actor now d =
     (let (changed, rows) = update_where (\<lambda>x. cr_id x = cr_id c \<and> cr_status x = CR_OPEN) (finished status actor now) (pt_requests d)
      in if changed \<noteq> 1 then Inl (ChangeRequestNotOpen ''The change request is no longer open; refresh before continuing.'')
         else Inr (d\<lparr>pt_requests := rows\<rparr>))"

text \<open>The compare-and-set of the head's generation; the head as it is afterwards.\<close>

definition sql_generation :: "playbook \<Rightarrow> int \<Rightarrow> playbook_db \<Rightarrow> (playbook \<times> playbook_db) pres" where
  "sql_generation head expected d =
     (let (changed, rows) = update_where (\<lambda>h. pb_id h = pb_id head \<and> pb_generation h = expected)
            (\<lambda>h. h\<lparr>pb_generation := expected + 1\<rparr>) (pt_playbooks d)
      in if changed \<noteq> 1 then Inl (PlaybookConflict ''The playbook changed; refresh before continuing.'')
         else Inr (head\<lparr>pb_generation := expected + 1\<rparr>, d\<lparr>pt_playbooks := rows\<rparr>))"

definition require_draft :: "playbook_revision \<Rightarrow> int \<Rightarrow> unit pres" where
  "require_draft row expected =
     (if rv_status row \<noteq> DRAFT \<or> rv_draft_version row \<noteq> expected
      then Inl (PlaybookConflict ''Draft changed or already published; refresh before continuing.'') else Inr ())"

definition current_base :: "change_request \<Rightarrow> playbook \<Rightarrow> unit pres" where
  "current_base c head =
     (if cr_base_revision c \<noteq> pb_published_revision head
      then Inl (BehindHead (behind_message (cr_base_revision c) (pb_published_revision head))) else Inr ())"

definition title_or :: "string option \<Rightarrow> string \<Rightarrow> string" where
  "title_or title fallback = (case str_or title None of Some t \<Rightarrow> t | None \<Rightarrow> fallback)"

type_synonym draft_answer = "(viewed_revision \<times> viewed_request) \<times> playbook_db"

definition text_item :: "pyval \<Rightarrow> string \<Rightarrow> string pres" where
  "text_item document key =
     (case map_of (dict_items document) key of
        None \<Rightarrow> Inl (OtherError (KeyError key)) | Some v \<Rightarrow> Inr (text_of v))"

definition head_of_document :: "pyval \<Rightarrow> playbook pres" where
  "head_of_document document =
     bindR (text_item document ''id'') (\<lambda>i. bindR (text_item document ''action_type'') (\<lambda>t.
     bindR (text_item document ''contract_version'') (\<lambda>v. bindR (text_item document ''operation'') (\<lambda>op.
     Inr \<lparr>pb_id = i, pb_action_type = t, pb_contract_version = v, pb_operation = op, pb_published_revision = None,
          pb_generation = 1\<rparr>))))"

text \<open>The administration has bounded the document: its identity fields are texts.\<close>

definition sql_create :: "pyval \<Rightarrow> string \<Rightarrow> int \<Rightarrow> string option \<Rightarrow> string \<Rightarrow> playbook_db \<Rightarrow> draft_answer pres" where
  "sql_create document actor now title description d =
     bindR (head_of_document document) (\<lambda>head.
     let row = new_draft (pb_id head) 1 document None actor now in
     case bindR (insert_playbook head d) (insert_revision row) of
       Inl e \<Rightarrow> Inl (PlaybookConflict ''Playbook id or action type already exists.'')
     | Inr d1 \<Rightarrow> sql_open head row CR_CREATE None (title_or title (default_title CR_CREATE (pb_id head) None)) description actor now d1)"

definition sql_create_draft ::
    "string \<Rightarrow> int \<Rightarrow> int \<Rightarrow> string \<Rightarrow> int \<Rightarrow> string option \<Rightarrow> string \<Rightarrow> playbook_db \<Rightarrow> draft_answer pres" where
  "sql_create_draft playbook_id source_revision expected_generation actor now title description d =
     bindR (sql_head playbook_id d) (\<lambda>head.
     bindR (sql_row playbook_id source_revision d) (\<lambda>source.
     if pb_published_revision head \<notin> {None, Some source_revision}
     then Inl (PlaybookConflict ''New change requests start from the published revision; restore historical revisions explicitly.'')
     else bindR (sql_generation head expected_generation d) (\<lambda>(head1, d1).
          bindR (sql_allocate head1 (rv_document source) actor now d1) (\<lambda>(row, d2).
          sql_open head1 row CR_DRAFT None (title_or title (default_title CR_DRAFT playbook_id None)) description actor now d2))))"

definition sql_restore ::
    "string \<Rightarrow> int \<Rightarrow> int \<Rightarrow> string \<Rightarrow> int \<Rightarrow> string option \<Rightarrow> string \<Rightarrow> playbook_db \<Rightarrow> draft_answer pres" where
  "sql_restore playbook_id source_revision expected_generation actor now title description d =
     bindR (sql_head playbook_id d) (\<lambda>head.
     bindR (sql_row playbook_id source_revision d) (\<lambda>source.
     if rv_status source \<noteq> PUBLISHED then Inl (PlaybookConflict ''Only published revisions can be restored.'')
     else bindR (sql_generation head expected_generation d) (\<lambda>(head1, d1).
          bindR (sql_allocate head1 (rv_document source) actor now d1) (\<lambda>(row, d2).
          sql_open head1 row CR_RESTORE (Some source_revision)
            (title_or title (default_title CR_RESTORE playbook_id (Some source_revision))) description actor now d2))))"

definition sql_recreate_from_head ::
    "string \<Rightarrow> int \<Rightarrow> int \<Rightarrow> int \<Rightarrow> string \<Rightarrow> int \<Rightarrow> playbook_db \<Rightarrow> draft_answer pres" where
  "sql_recreate_from_head playbook_id change_request_id expected_draft_version expected_generation actor now d =
     bindR (sql_head playbook_id d) (\<lambda>head.
     bindR (sql_cr_row playbook_id change_request_id d) (\<lambda>old.
     if cr_status old \<noteq> CR_OPEN then Inl (ChangeRequestNotOpen ''The change request is no longer open.'')
     else bindR (sql_row playbook_id (cr_revision old) d) (\<lambda>draft.
          bindR (require_draft draft expected_draft_version) (\<lambda>_.
          if cr_base_revision old = pb_published_revision head
          then Inl (NotBehindHead ''The change request already targets the published revision.'')
          else bindR (sql_generation head expected_generation d) (\<lambda>(head1, d1).
               bindR (sql_allocate head1 (rv_document draft) actor now d1) (\<lambda>(row, d2).
               bindR (sql_open head1 row CR_RECREATE (cr_base_revision old) (cr_title old) (cr_description old) actor now d2)
                 (\<lambda>(view, d3).
               bindR (sql_finish old CR_CLOSED actor now d3) (\<lambda>d4. Inr (view, d4)))))))))"

definition IDENTITY_FIELDS :: "string list" where
  "IDENTITY_FIELDS = [''id'', ''revision'', ''action_type'', ''contract_version'', ''operation'']"

definition same_identity :: "pyval \<Rightarrow> pyval \<Rightarrow> bool" where
  "same_identity document row_document = list_all (\<lambda>f. py_eq (dict_get document f) (dict_get row_document f)) IDENTITY_FIELDS"

definition sql_edit :: "string \<Rightarrow> int \<Rightarrow> pyval \<Rightarrow> int \<Rightarrow> string \<Rightarrow> int \<Rightarrow> playbook_db \<Rightarrow> draft_answer pres" where
  "sql_edit playbook_id revision document expected_draft_version actor now d =
     bindR (sql_head playbook_id d) (\<lambda>head.
     bindR (sql_row playbook_id revision d) (\<lambda>row.
     bindR (sql_open_cr_for playbook_id revision d) (\<lambda>c.
     bindR (require_draft row expected_draft_version) (\<lambda>_.
     if \<not> same_identity document (rv_document row)
     then Inl (RepositoryError ''Definition identity and capability are immutable.'')
     else
       (let (changed, rows) = update_where
              (\<lambda>r. rv_key r = (playbook_id, revision) \<and> rv_status r = DRAFT \<and> rv_draft_version r = expected_draft_version
                 \<and> list_ex (\<lambda>x. cr_key x = (playbook_id, revision) \<and> cr_status x = CR_OPEN) (pt_requests d))
              (\<lambda>r. r\<lparr>rv_document := document, rv_draft_version := expected_draft_version + 1, rv_updated_by := actor,
                     rv_updated_at := now\<rparr>) (pt_revisions d)
        in if changed \<noteq> 1 then Inl (PlaybookConflict ''Draft changed; refresh before editing.'')
           else (let d' = d\<lparr>pt_revisions := rows\<rparr> in
                 bindR (sql_row playbook_id revision d') (\<lambda>row'.
                 bindR (sql_cr_view c head d') (\<lambda>v. Inr ((revision_view row' (pb_generation head), v), d')))))))))"

definition sql_publishable :: "string \<Rightarrow> int \<Rightarrow> playbook_db \<Rightarrow> viewed_request pres" where
  "sql_publishable playbook_id revision d =
     bindR (sql_head playbook_id d) (\<lambda>head.
     bindR (sql_row playbook_id revision d) (\<lambda>row.
     bindR (sql_open_cr_for playbook_id revision d) (\<lambda>c.
     bindR (current_base c head) (\<lambda>_. sql_cr_view c head d))))"

definition published_row :: "string \<Rightarrow> string \<Rightarrow> int \<Rightarrow> playbook_revision \<Rightarrow> playbook_revision" where
  "published_row digest actor now row =
     row\<lparr>rv_status := PUBLISHED, rv_digest := Some digest, rv_published_at := Some now, rv_updated_by := actor, rv_updated_at := now\<rparr>"

definition sql_publish :: "string \<Rightarrow> int \<Rightarrow> string \<Rightarrow> int \<Rightarrow> int \<Rightarrow> string \<Rightarrow> int \<Rightarrow> playbook_db \<Rightarrow> draft_answer pres" where
  "sql_publish playbook_id revision digest expected_draft_version expected_generation actor now d =
     bindR (sql_head playbook_id d) (\<lambda>head.
     bindR (sql_row playbook_id revision d) (\<lambda>row.
     bindR (sql_open_cr_for playbook_id revision d) (\<lambda>c.
     bindR (current_base c head) (\<lambda>_.
     bindR (require_draft row expected_draft_version) (\<lambda>_.
     bindR (sql_generation head expected_generation d) (\<lambda>(head1, d1).
     let row1 = published_row digest actor now row; head2 = head1\<lparr>pb_published_revision := Some revision\<rparr>;
         d2 = d1\<lparr>pt_revisions := put_row rv_key row1 (pt_revisions d1), pt_playbooks := put_row pb_id head2 (pt_playbooks d1)\<rparr>
     in bindR (sql_finish c CR_PUBLISHED actor now d2) (\<lambda>d3.
        bindR (sql_cr_row playbook_id (cr_id c) d3) (\<lambda>c'.
        bindR (sql_cr_view c' head2 d3) (\<lambda>v. Inr ((revision_view row1 (pb_generation head2), v), d3))))))))))"

definition sql_update_change_request ::
    "string \<Rightarrow> int \<Rightarrow> int \<Rightarrow> string option \<Rightarrow> string option \<Rightarrow> playbook_db \<Rightarrow> (viewed_request \<times> playbook_db) pres" where
  "sql_update_change_request playbook_id change_request_id expected_version title description d =
     bindR (sql_head playbook_id d) (\<lambda>head.
     bindR (sql_cr_row playbook_id change_request_id d) (\<lambda>c.
     if cr_status c \<noteq> CR_OPEN then Inl (ChangeRequestNotOpen ''Only open change requests can be edited.'')
     else
       (let f = (\<lambda>x. x\<lparr>cr_version := expected_version + 1, cr_title := (case title of Some t \<Rightarrow> t | None \<Rightarrow> cr_title x),
                       cr_description := (case description of Some t \<Rightarrow> t | None \<Rightarrow> cr_description x)\<rparr>);
            p = (\<lambda>x. cr_id x = cr_id c \<and> cr_status x = CR_OPEN \<and> cr_version x = expected_version);
            (changed, rows) = update_where p f (pt_requests d)
        in if list_ex (\<lambda>x. p x \<and> \<not> change_request_ok (f x)) (pt_requests d) then Inl (OtherError (IntegrityError ''admin.playbook_change_requests''))
           else if changed \<noteq> 1 then Inl (PlaybookConflict ''Change request changed; refresh before editing.'')
           else (let d' = d\<lparr>pt_requests := rows\<rparr> in
                 bindR (sql_cr_row playbook_id change_request_id d') (\<lambda>c'.
                 bindR (sql_cr_view c' head d') (\<lambda>v. Inr (v, d')))))))"

definition sql_close_change_request ::
    "string \<Rightarrow> int \<Rightarrow> string \<Rightarrow> int \<Rightarrow> playbook_db \<Rightarrow> (viewed_request \<times> playbook_db) pres" where
  "sql_close_change_request playbook_id change_request_id actor now d =
     bindR (sql_head playbook_id d) (\<lambda>head.
     bindR (sql_cr_row playbook_id change_request_id d) (\<lambda>c.
     if cr_status c \<noteq> CR_OPEN then Inl (ChangeRequestNotOpen ''Only open change requests can be closed.'')
     else bindR (sql_finish c CR_CLOSED actor now d) (\<lambda>d'.
          bindR (sql_cr_row playbook_id change_request_id d') (\<lambda>c'.
          bindR (sql_cr_view c' head d') (\<lambda>v. Inr (v, d'))))))"

end
