(* ===== verification/Playbook_Memory.thy ===== *)
theory Playbook_Memory
  imports Playbook_Store "HOL-Library.AList"
begin

text \<open>
  The in-memory adapter \<open>MemoryPlaybookRepository\<close> of \<^verbatim>\<open>services/playbook_repository.py\<close>: three dictionaries in
  insertion order, changed in place.  A method is a function of the store with its answer and the store afterwards, so
  that what a refused call leaves behind is part of the model.
\<close>

section \<open>The dictionaries and their methods\<close>

record memory_store =
  mm_heads :: "(string \<times> playbook) list"
  mm_revisions :: "((string \<times> int) \<times> playbook_revision) list"
  mm_requests :: "(int \<times> change_request) list"

type_synonym 'a mem_op = "memory_store \<Rightarrow> 'a pres \<times> memory_store"

definition askM :: "(memory_store \<Rightarrow> 'a pres) \<Rightarrow> 'a mem_op" where
  "askM r m = (r m, m)"

definition writeM :: "(memory_store \<Rightarrow> memory_store) \<Rightarrow> unit mem_op" where
  "writeM f m = (Inr (), f m)"

definition andM :: "'a mem_op \<Rightarrow> ('a \<Rightarrow> 'b mem_op) \<Rightarrow> 'b mem_op" where
  "andM a f m = (case a m of (Inl e, m') \<Rightarrow> (Inl e, m') | (Inr x, m') \<Rightarrow> f x m')"

definition checkM :: "bool \<Rightarrow> repository_error \<Rightarrow> unit mem_op" where
  "checkM ok e m = (if ok then Inr () else Inl e, m)"

definition mem_head :: "string \<Rightarrow> memory_store \<Rightarrow> playbook pres" where
  "mem_head playbook_id m =
     (case map_of (mm_heads m) playbook_id of None \<Rightarrow> Inl (PlaybookNotFound ''Playbook not found.'') | Some h \<Rightarrow> Inr h)"

definition mem_get :: "string \<Rightarrow> int \<Rightarrow> memory_store \<Rightarrow> viewed_revision pres" where
  "mem_get playbook_id revision m =
     bindR (mem_head playbook_id m) (\<lambda>head.
     case map_of (mm_revisions m) (playbook_id, revision) of
       None \<Rightarrow> Inl (PlaybookNotFound ''Playbook revision not found.'')
     | Some row \<Rightarrow> Inr (revision_view row (pb_generation head)))"

definition mem_published_revisions :: "string \<Rightarrow> memory_store \<Rightarrow> int set" where
  "mem_published_revisions playbook_id m =
     {rev. \<exists>((pid, rev'), row) \<in> set (mm_revisions m). pid = playbook_id \<and> rev' = rev \<and> rv_status row = PUBLISHED}"

definition mem_cr_view :: "change_request \<Rightarrow> memory_store \<Rightarrow> viewed_request pres" where
  "mem_cr_view c m =
     bindR (mem_head (cr_playbook_id c) m) (\<lambda>head.
     bindR (mem_get (cr_playbook_id c) (cr_revision c) m) (\<lambda>draft.
     Inr (change_request_view c draft (pb_published_revision head) (mem_published_revisions (cr_playbook_id c) m))))"

definition mem_cr :: "string \<Rightarrow> int \<Rightarrow> memory_store \<Rightarrow> change_request pres" where
  "mem_cr playbook_id change_request_id m =
     (case map_of (mm_requests m) change_request_id of
        None \<Rightarrow> Inl (ChangeRequestNotFound ''Change request not found.'')
      | Some c \<Rightarrow> if cr_playbook_id c \<noteq> playbook_id then Inl (ChangeRequestNotFound ''Change request not found.'') else Inr c)"

definition mem_open_cr_for :: "string \<Rightarrow> int \<Rightarrow> memory_store \<Rightarrow> change_request pres" where
  "mem_open_cr_for playbook_id revision m =
     (case List.find (\<lambda>c. cr_playbook_id c = playbook_id \<and> cr_revision c = revision) (map snd (mm_requests m)) of
        Some c \<Rightarrow> if cr_status c \<noteq> CR_OPEN
                  then Inl (ChangeRequestNotOpen ''This draft has no open change request; it cannot be changed or published.'')
                  else Inr c
      | None \<Rightarrow> Inl (ChangeRequestNotOpen ''This draft has no open change request; it cannot be changed or published.''))"

definition int_item :: "pyval \<Rightarrow> string \<Rightarrow> int pres" where
  "int_item document key =
     (case map_of (dict_items document) key of
        Some (PInt n) \<Rightarrow> Inr n | Some v \<Rightarrow> Inl (OtherError (TypeError key)) | None \<Rightarrow> Inl (OtherError (KeyError key)))"

text \<open>\<open>_draft\<close>: the row's key is read from the document.\<close>

definition mem_draft :: "pyval \<Rightarrow> string \<Rightarrow> int \<Rightarrow> int option \<Rightarrow> playbook_revision mem_op" where
  "mem_draft document actor now base =
     andM (askM (\<lambda>m. text_item document ''id'')) (\<lambda>i.
     andM (askM (\<lambda>m. int_item document ''revision'')) (\<lambda>revision.
     let row = new_draft i revision document base actor now in
     andM (writeM (\<lambda>m. m\<lparr>mm_revisions := AList.update (i, revision) row (mm_revisions m)\<rparr>)) (\<lambda>_. askM (\<lambda>m. Inr row))))"

definition mem_open ::
    "playbook_revision \<Rightarrow> request_origin \<Rightarrow> int option \<Rightarrow> string \<Rightarrow> string \<Rightarrow> string \<Rightarrow> int \<Rightarrow> (viewed_revision \<times> viewed_request) mem_op" where
  "mem_open row origin previous_base title description actor now =
     andM (askM (\<lambda>m. Inr (new_request row origin previous_base title description actor now (int (length (mm_requests m)) + 1)))) (\<lambda>c.
     andM (writeM (\<lambda>m. m\<lparr>mm_requests := AList.update (cr_id c) c (mm_requests m)\<rparr>)) (\<lambda>_.
     andM (askM (mem_get (rv_playbook_id row) (rv_revision row))) (\<lambda>view.
     andM (askM (mem_cr_view c)) (\<lambda>v. askM (\<lambda>m. Inr (view, v))))))"

definition mem_finish :: "change_request \<Rightarrow> request_status \<Rightarrow> string \<Rightarrow> int \<Rightarrow> change_request mem_op" where
  "mem_finish c status actor now =
     andM (checkM (cr_status c = CR_OPEN) (ChangeRequestNotOpen ''The change request is no longer open; refresh before continuing.'')) (\<lambda>_.
     andM (writeM (\<lambda>m. m\<lparr>mm_requests := AList.update (cr_id c) (finished status actor now c) (mm_requests m)\<rparr>)) (\<lambda>_.
     askM (\<lambda>m. Inr (finished status actor now c))))"

definition mem_allocate :: "playbook \<Rightarrow> pyval \<Rightarrow> string \<Rightarrow> int \<Rightarrow> playbook_revision mem_op" where
  "mem_allocate head source_document actor now =
     andM (askM (\<lambda>m. Inr (1 + max_revision (map snd (filter (\<lambda>k. fst k = pb_id head) (map fst (mm_revisions m))))))) (\<lambda>revision.
     mem_draft (set_revision revision source_document) actor now (pb_published_revision head))"

definition mem_generation :: "playbook \<Rightarrow> int \<Rightarrow> unit mem_op" where
  "mem_generation head expected =
     andM (checkM (pb_generation head = expected) (PlaybookConflict ''The playbook changed; refresh before continuing.'')) (\<lambda>_.
     writeM (\<lambda>m. m\<lparr>mm_heads := AList.update (pb_id head) (head\<lparr>pb_generation := pb_generation head + 1\<rparr>) (mm_heads m)\<rparr>))"

definition mem_editable :: "string \<Rightarrow> int \<Rightarrow> int \<Rightarrow> memory_store \<Rightarrow> playbook_revision pres" where
  "mem_editable playbook_id revision expected m =
     bindR (mem_get playbook_id revision m) (\<lambda>row.
     if rv_status row \<noteq> DRAFT \<or> rv_draft_version row \<noteq> expected
     then Inl (PlaybookConflict ''Draft changed or already published; refresh before continuing.'')
     else Inr (playbook_revision.truncate row))"

definition mem_current_base :: "change_request \<Rightarrow> memory_store \<Rightarrow> unit pres" where
  "mem_current_base c m = bindR (mem_head (cr_playbook_id c) m) (current_base c)"

section \<open>The operations\<close>

definition mem_create :: "pyval \<Rightarrow> string \<Rightarrow> int \<Rightarrow> string option \<Rightarrow> string \<Rightarrow> (viewed_revision \<times> viewed_request) mem_op" where
  "mem_create document actor now title description =
     andM (askM (\<lambda>m. head_of_document document)) (\<lambda>head.
     andM (askM (\<lambda>m. if pb_id head \<in> fst ` set (mm_heads m)
                        \<or> list_ex (\<lambda>h. pb_action_type h = pb_action_type head) (map snd (mm_heads m))
                      then Inl (PlaybookConflict ''Playbook id or action type already exists.'') else Inr ())) (\<lambda>_.
     andM (writeM (\<lambda>m. m\<lparr>mm_heads := AList.update (pb_id head) head (mm_heads m)\<rparr>)) (\<lambda>_.
     andM (mem_draft document actor now None) (\<lambda>row.
     mem_open row CR_CREATE None (title_or title (default_title CR_CREATE (pb_id head) None)) description actor now))))"

definition mem_create_draft ::
    "string \<Rightarrow> int \<Rightarrow> int \<Rightarrow> string \<Rightarrow> int \<Rightarrow> string option \<Rightarrow> string \<Rightarrow> (viewed_revision \<times> viewed_request) mem_op" where
  "mem_create_draft playbook_id source_revision expected_generation actor now title description =
     andM (askM (mem_head playbook_id)) (\<lambda>head.
     andM (askM (mem_get playbook_id source_revision)) (\<lambda>source.
     andM (checkM (pb_published_revision head \<in> {None, Some source_revision})
       (PlaybookConflict ''New change requests start from the published revision; restore historical revisions explicitly.'')) (\<lambda>_.
     andM (mem_generation head expected_generation) (\<lambda>_.
     andM (mem_allocate head (rv_document source) actor now) (\<lambda>row.
     mem_open row CR_DRAFT None (title_or title (default_title CR_DRAFT playbook_id None)) description actor now)))))"

definition mem_restore ::
    "string \<Rightarrow> int \<Rightarrow> int \<Rightarrow> string \<Rightarrow> int \<Rightarrow> string option \<Rightarrow> string \<Rightarrow> (viewed_revision \<times> viewed_request) mem_op" where
  "mem_restore playbook_id source_revision expected_generation actor now title description =
     andM (askM (mem_head playbook_id)) (\<lambda>head.
     andM (askM (mem_get playbook_id source_revision)) (\<lambda>source.
     andM (checkM (rv_status source = PUBLISHED) (PlaybookConflict ''Only published revisions can be restored.'')) (\<lambda>_.
     andM (mem_generation head expected_generation) (\<lambda>_.
     andM (mem_allocate head (rv_document source) actor now) (\<lambda>row.
     mem_open row CR_RESTORE (Some source_revision)
       (title_or title (default_title CR_RESTORE playbook_id (Some source_revision))) description actor now)))))"

definition mem_recreate_from_head ::
    "string \<Rightarrow> int \<Rightarrow> int \<Rightarrow> int \<Rightarrow> string \<Rightarrow> int \<Rightarrow> (viewed_revision \<times> viewed_request) mem_op" where
  "mem_recreate_from_head playbook_id change_request_id expected_draft_version expected_generation actor now =
     andM (askM (mem_head playbook_id)) (\<lambda>head.
     andM (askM (mem_cr playbook_id change_request_id)) (\<lambda>old.
     andM (checkM (cr_status old = CR_OPEN) (ChangeRequestNotOpen ''The change request is no longer open.'')) (\<lambda>_.
     andM (askM (mem_editable playbook_id (cr_revision old) expected_draft_version)) (\<lambda>draft.
     andM (checkM (cr_base_revision old \<noteq> pb_published_revision head)
       (NotBehindHead ''The change request already targets the published revision.'')) (\<lambda>_.
     andM (mem_generation head expected_generation) (\<lambda>_.
     andM (mem_allocate head (rv_document draft) actor now) (\<lambda>row.
     andM (mem_open row CR_RECREATE (cr_base_revision old) (cr_title old) (cr_description old) actor now) (\<lambda>view.
     andM (mem_finish old CR_CLOSED actor now) (\<lambda>_. askM (\<lambda>m. Inr view))))))))))"

definition mem_edit :: "string \<Rightarrow> int \<Rightarrow> pyval \<Rightarrow> int \<Rightarrow> string \<Rightarrow> int \<Rightarrow> (viewed_revision \<times> viewed_request) mem_op" where
  "mem_edit playbook_id revision document expected_draft_version actor now =
     andM (askM (mem_get playbook_id revision)) (\<lambda>_.
     andM (askM (mem_open_cr_for playbook_id revision)) (\<lambda>c.
     andM (askM (mem_editable playbook_id revision expected_draft_version)) (\<lambda>row.
     andM (checkM (same_identity document (rv_document row))
       (RepositoryError ''Definition identity and capability are immutable.'')) (\<lambda>_.
     let row' = row\<lparr>rv_document := document, rv_draft_version := expected_draft_version + 1, rv_updated_by := actor,
                    rv_updated_at := now\<rparr> in
     andM (writeM (\<lambda>m. m\<lparr>mm_revisions := AList.update (playbook_id, revision) row' (mm_revisions m)\<rparr>)) (\<lambda>_.
     andM (askM (mem_get playbook_id revision)) (\<lambda>view.
     andM (askM (mem_cr_view c)) (\<lambda>v. askM (\<lambda>m. Inr (view, v)))))))))"

definition mem_publishable :: "string \<Rightarrow> int \<Rightarrow> memory_store \<Rightarrow> viewed_request pres" where
  "mem_publishable playbook_id revision m =
     bindR (mem_get playbook_id revision m) (\<lambda>_.
     bindR (mem_open_cr_for playbook_id revision m) (\<lambda>c.
     bindR (mem_current_base c m) (\<lambda>_. mem_cr_view c m)))"

definition mem_publish ::
    "string \<Rightarrow> int \<Rightarrow> string \<Rightarrow> int \<Rightarrow> int \<Rightarrow> string \<Rightarrow> int \<Rightarrow> (viewed_revision \<times> viewed_request) mem_op" where
  "mem_publish playbook_id revision digest expected_draft_version expected_generation actor now =
     andM (askM (mem_get playbook_id revision)) (\<lambda>_.
     andM (askM (mem_open_cr_for playbook_id revision)) (\<lambda>c.
     andM (askM (mem_current_base c)) (\<lambda>_.
     andM (askM (mem_editable playbook_id revision expected_draft_version)) (\<lambda>row.
     andM (askM (mem_head playbook_id)) (\<lambda>head.
     andM (mem_generation head expected_generation) (\<lambda>_.
     andM (writeM (\<lambda>m. m\<lparr>mm_revisions := AList.update (playbook_id, revision) (published_row digest actor now row) (mm_revisions m)\<rparr>)) (\<lambda>_.
     andM (askM (mem_head playbook_id)) (\<lambda>head1.
     andM (writeM (\<lambda>m. m\<lparr>mm_heads := AList.update playbook_id (head1\<lparr>pb_published_revision := Some revision\<rparr>) (mm_heads m)\<rparr>)) (\<lambda>_.
     andM (mem_finish c CR_PUBLISHED actor now) (\<lambda>c'.
     andM (askM (mem_get playbook_id revision)) (\<lambda>view.
     andM (askM (mem_cr_view c')) (\<lambda>v. askM (\<lambda>m. Inr (view, v))))))))))))))"

definition mem_update_change_request ::
    "string \<Rightarrow> int \<Rightarrow> int \<Rightarrow> string option \<Rightarrow> string option \<Rightarrow> viewed_request mem_op" where
  "mem_update_change_request playbook_id change_request_id expected_version title description =
     andM (askM (mem_head playbook_id)) (\<lambda>_.
     andM (askM (mem_cr playbook_id change_request_id)) (\<lambda>c.
     andM (checkM (cr_status c = CR_OPEN) (ChangeRequestNotOpen ''Only open change requests can be edited.'')) (\<lambda>_.
     andM (checkM (cr_version c = expected_version) (PlaybookConflict ''Change request changed; refresh before editing.'')) (\<lambda>_.
     let c' = c\<lparr>cr_title := (case title of Some t \<Rightarrow> t | None \<Rightarrow> cr_title c),
                cr_description := (case description of Some t \<Rightarrow> t | None \<Rightarrow> cr_description c), cr_version := cr_version c + 1\<rparr> in
     andM (writeM (\<lambda>m. m\<lparr>mm_requests := AList.update (cr_id c) c' (mm_requests m)\<rparr>)) (\<lambda>_.
     askM (mem_cr_view c'))))))"

definition mem_close_change_request :: "string \<Rightarrow> int \<Rightarrow> string \<Rightarrow> int \<Rightarrow> viewed_request mem_op" where
  "mem_close_change_request playbook_id change_request_id actor now =
     andM (askM (mem_head playbook_id)) (\<lambda>_.
     andM (askM (mem_cr playbook_id change_request_id)) (\<lambda>c.
     andM (checkM (cr_status c = CR_OPEN) (ChangeRequestNotOpen ''Only open change requests can be closed.'')) (\<lambda>_.
     andM (mem_finish c CR_CLOSED actor now) (\<lambda>c'. askM (mem_cr_view c')))))"

end
