(* ===== verification/Playbook_Adapters.thy ===== *)
theory Playbook_Adapters
  imports Playbook_Memory
begin

text \<open>
  The two adapters side by side: one type of requests, a step of each adapter, the invariant of the tables, and the
  simulation between them.
\<close>

section \<open>Requests\<close>

datatype playbook_request =
    Create pyval "string option" string
  | Create_Draft string int int "string option" string
  | Restore string int int "string option" string
  | Recreate string int int int
  | Edit string int pyval int
  | Publish string int string int int
  | Update_Request string int int "string option" "string option"
  | Close_Request string int

datatype playbook_reply = Draft_View viewed_revision viewed_request | Request_View viewed_request

definition draft_reply :: "draft_answer pres \<Rightarrow> (playbook_reply \<times> playbook_db) pres" where
  "draft_reply r = map_sum id (map_prod (\<lambda>(v, c). Draft_View v c) id) r"

definition request_reply :: "(viewed_request \<times> playbook_db) pres \<Rightarrow> (playbook_reply \<times> playbook_db) pres" where
  "request_reply r = map_sum id (map_prod Request_View id) r"

fun sql_call :: "string \<Rightarrow> int \<Rightarrow> playbook_request \<Rightarrow> playbook_db \<Rightarrow> (playbook_reply \<times> playbook_db) pres" where
  "sql_call actor now (Create doc t s) d = draft_reply (sql_create doc actor now t s d)"
| "sql_call actor now (Create_Draft i n g t s) d = draft_reply (sql_create_draft i n g actor now t s d)"
| "sql_call actor now (Restore i n g t s) d = draft_reply (sql_restore i n g actor now t s d)"
| "sql_call actor now (Recreate i c v g) d = draft_reply (sql_recreate_from_head i c v g actor now d)"
| "sql_call actor now (Edit i n doc v) d = draft_reply (sql_edit i n doc v actor now d)"
| "sql_call actor now (Publish i n x v g) d = draft_reply (sql_publish i n x v g actor now d)"
| "sql_call actor now (Update_Request i c v t s) d = request_reply (sql_update_change_request i c v t s d)"
| "sql_call actor now (Close_Request i c) d = request_reply (sql_close_change_request i c actor now d)"

text \<open>The caller's transaction: an error rolls back.\<close>

definition sql_step :: "string \<Rightarrow> int \<Rightarrow> playbook_request \<Rightarrow> playbook_db \<Rightarrow> playbook_reply pres \<times> playbook_db" where
  "sql_step actor now q d = (case sql_call actor now q d of Inl e \<Rightarrow> (Inl e, d) | Inr (v, d') \<Rightarrow> (Inr v, d'))"

definition as_draft :: "(viewed_revision \<times> viewed_request) mem_op \<Rightarrow> playbook_reply mem_op" where
  "as_draft a = andM a (\<lambda>(v, c). askM (\<lambda>m. Inr (Draft_View v c)))"

definition as_request :: "viewed_request mem_op \<Rightarrow> playbook_reply mem_op" where
  "as_request a = andM a (\<lambda>c. askM (\<lambda>m. Inr (Request_View c)))"

fun mem_step :: "string \<Rightarrow> int \<Rightarrow> playbook_request \<Rightarrow> playbook_reply mem_op" where
  "mem_step actor now (Create doc t s) = as_draft (mem_create doc actor now t s)"
| "mem_step actor now (Create_Draft i n g t s) = as_draft (mem_create_draft i n g actor now t s)"
| "mem_step actor now (Restore i n g t s) = as_draft (mem_restore i n g actor now t s)"
| "mem_step actor now (Recreate i c v g) = as_draft (mem_recreate_from_head i c v g actor now)"
| "mem_step actor now (Edit i n doc v) = as_draft (mem_edit i n doc v actor now)"
| "mem_step actor now (Publish i n x v g) = as_draft (mem_publish i n x v g actor now)"
| "mem_step actor now (Update_Request i c v t s) = as_request (mem_update_change_request i c v t s)"
| "mem_step actor now (Close_Request i c) = as_request (mem_close_change_request i c actor now)"

section \<open>The invariant of the tables\<close>

definition document_of :: "string \<Rightarrow> int \<Rightarrow> pyval \<Rightarrow> bool" where
  "document_of playbook_id revision document \<longleftrightarrow>
     dict_get document ''id'' = PStr playbook_id \<and> py_eq (dict_get document ''revision'') (PInt revision)"

definition store_ok :: "playbook_db \<Rightarrow> bool" where
  "store_ok d \<longleftrightarrow>
     distinct (map pb_id (pt_playbooks d)) \<and> distinct (map pb_action_type (pt_playbooks d))
     \<and> distinct (map rv_key (pt_revisions d))
     \<and> (\<forall>r\<in>set (pt_revisions d). revision_ok r \<and> rv_playbook_id r \<in> pb_id ` set (pt_playbooks d)
          \<and> document_of (rv_playbook_id r) (rv_revision r) (rv_document r))
     \<and> map cr_id (pt_requests d) = map int [1..<Suc (length (pt_requests d))]
     \<and> distinct (map cr_key (pt_requests d))
     \<and> (\<forall>c\<in>set (pt_requests d). change_request_ok c \<and> cr_key c \<in> rv_key ` set (pt_revisions d))"

text \<open>What the administration has checked of a request before the repository sees it: the identity of a new document
  and the size of a title and a description, which the tables bound and the dictionaries do not.\<close>

definition text_fits :: "string \<Rightarrow> string \<Rightarrow> bool" where
  "text_fits title description \<longleftrightarrow> 1 \<le> length title \<and> length title \<le> CHANGE_REQUEST_TITLE_MAX
     \<and> length description \<le> CHANGE_REQUEST_DESCRIPTION_MAX"

fun request_wf :: "playbook_request \<Rightarrow> bool" where
  "request_wf (Create doc t s) = (\<exists>i. dict_get doc ''id'' = PStr i \<and> dict_get doc ''revision'' = PInt 1
     \<and> text_fits (title_or t (default_title CR_CREATE i None)) s)"
| "request_wf (Create_Draft i n g t s) = text_fits (title_or t (default_title CR_DRAFT i None)) s"
| "request_wf (Restore i n g t s) = text_fits (title_or t (default_title CR_RESTORE i (Some n))) s"
| "request_wf (Update_Request i k v t s) = ((\<forall>x. t = Some x \<longrightarrow> text_fits x []) \<and> (\<forall>x. s = Some x \<longrightarrow> text_fits ''t'' x))"
| "request_wf q = True"

definition as_memory :: "playbook_db \<Rightarrow> memory_store" where
  "as_memory d =
     \<lparr>mm_heads = map (\<lambda>h. (pb_id h, h)) (pt_playbooks d), mm_revisions = map (\<lambda>r. (rv_key r, r)) (pt_revisions d),
      mm_requests = map (\<lambda>c. (cr_id c, c)) (pt_requests d)\<rparr>"

section \<open>Dictionaries as keyed tables\<close>

lemma map_of_keyed: "map_of (map (\<lambda>r. (key r, r)) rows) k = List.find (\<lambda>r. key r = k) rows"
  by (induction rows) auto

lemma update_keyed:
  "distinct (map key rows) \<Longrightarrow> k \<in> key ` set rows \<Longrightarrow> key v = k \<Longrightarrow>
   AList.update k v (map (\<lambda>r. (key r, r)) rows) = map (\<lambda>r. (key r, r)) (put_row key v rows)"
proof (induction rows)
  case (Cons x xs)
  have same: "put_row key v xs = xs" if "k \<notin> key ` set xs" using that Cons.prems(3) by (simp add: put_row_absent)
  show ?case using Cons same by (cases "key x = k") auto
qed simp

lemma update_keyed_new:
  "k \<notin> key ` set rows \<Longrightarrow> key v = k \<Longrightarrow>
   AList.update k v (map (\<lambda>r. (key r, r)) rows) = map (\<lambda>r. (key r, r)) (rows @ [v])"
  by (induction rows) auto

lemma update_where_key:
  assumes "distinct (map key rows)" "List.find (\<lambda>r. key r = k) rows = Some r" "key (f r) = k"
  shows "update_where (\<lambda>x. key x = k \<and> P x) f rows = (if P r then (1, put_row key (f r) rows) else (0, rows))"
  using assms
proof (induction rows)
  case (Cons x xs)
  show ?case
  proof (cases "key x = k")
    case True
    then have x: "x = r" using Cons.prems(2) by simp
    have "filter (\<lambda>y. key y = k \<and> P y) xs = []" "map (\<lambda>y. if key y = k \<and> P y then f y else y) xs = xs"
      "put_row key (f r) xs = xs"
      using Cons.prems(1,3) True by (auto simp: filter_empty_conv image_iff intro!: map_idI put_row_absent)
    then show ?thesis using True x Cons.prems(3) by (auto simp: update_where_def)
  next
    case False
    then have "update_where (\<lambda>y. key y = k \<and> P y) f xs = (if P r then (1, put_row key (f r) xs) else (0, xs))"
      using Cons by simp
    then show ?thesis using False Cons.prems(3) by (auto simp: update_where_def split: if_splits)
  qed
qed simp

lemma put_row_same_key_set: "key v = k \<Longrightarrow> k \<in> key ` set rows \<Longrightarrow> v \<in> set (put_row key v rows)"
  by (auto simp: put_row_def)


section \<open>Reading through the abstraction\<close>

lemma mem_head_as [simp]: "mem_head i (as_memory d) = sql_head i d"
  by (simp add: mem_head_def sql_head_def as_memory_def map_of_keyed)

lemma mem_get_as [simp]: "mem_get i n (as_memory d) = sql_get i n d"
  unfolding mem_get_def sql_get_def mem_head_as
  by (rule bindR_cong) (simp_all add: sql_row_def as_memory_def map_of_keyed split: option.split)

lemma mem_published_as [simp]: "mem_published_revisions i (as_memory d) = sql_published_revisions i d"
  by (force simp: mem_published_revisions_def sql_published_revisions_def as_memory_def rv_key_def)

lemma mem_cr_view_as: "sql_head (cr_playbook_id c) d = Inr h \<Longrightarrow> mem_cr_view c (as_memory d) = sql_cr_view c h d"
  by (cases "sql_row (cr_playbook_id c) (cr_revision c) d") (simp_all add: mem_cr_view_def sql_cr_view_def sql_get_def)

lemma mem_open_cr_for_as [simp]: "mem_open_cr_for i n (as_memory d) = sql_open_cr_for i n d"
  by (simp add: mem_open_cr_for_def sql_open_cr_for_def as_memory_def o_def cr_key_def)

lemma mem_current_base_as: "sql_head (cr_playbook_id c) d = Inr h \<Longrightarrow> mem_current_base c (as_memory d) = current_base c h"
  by (simp add: mem_current_base_def)

lemma sql_head_Inr: "sql_head i d = Inr h \<Longrightarrow> h \<in> set (pt_playbooks d) \<and> pb_id h = i"
  by (auto simp: sql_head_def split: option.splits dest: find_Some_iff')

lemma sql_head_find: "sql_head i d = Inr h \<longleftrightarrow> List.find (\<lambda>h. pb_id h = i) (pt_playbooks d) = Some h"
  by (auto simp: sql_head_def split: option.splits)

lemma sql_row_find: "sql_row i n d = Inr r \<longleftrightarrow> List.find (\<lambda>r. rv_key r = (i, n)) (pt_revisions d) = Some r"
  by (auto simp: sql_row_def split: option.splits)

lemma sql_row_Inr: "sql_row i n d = Inr r \<Longrightarrow> r \<in> set (pt_revisions d) \<and> rv_playbook_id r = i \<and> rv_revision r = n"
  by (auto simp: sql_row_find rv_key_def dest!: find_Some_iff')

lemma sql_row_mem:
  "distinct (map rv_key (pt_revisions d)) \<Longrightarrow> r \<in> set (pt_revisions d) \<Longrightarrow> rv_key r = (i, n) \<Longrightarrow> sql_row i n d = Inr r"
  using find_key_distinct [of rv_key "pt_revisions d" r] by (simp add: sql_row_find)

lemma sql_open_cr_for_Inr:
  "sql_open_cr_for i n d = Inr c \<Longrightarrow> c \<in> set (pt_requests d) \<and> cr_playbook_id c = i \<and> cr_revision c = n \<and> cr_status c = CR_OPEN"
  by (auto simp: sql_open_cr_for_def cr_key_def split: option.splits if_splits dest!: find_Some_iff')

lemma sql_cr_row_Inr:
  "sql_cr_row i k d = Inr c \<Longrightarrow> c \<in> set (pt_requests d) \<and> cr_playbook_id c = i \<and> cr_id c = k"
  by (auto simp: sql_cr_row_def split: option.splits dest!: find_Some_iff')

text \<open>The ids of the change requests are unique, so looking one up by id finds it.\<close>

lemma request_ids:
  assumes "store_ok d"
  shows "distinct (map cr_id (pt_requests d))" "next_request_id d = int (length (pt_requests d)) + 1"
proof -
  have ids: "map cr_id (pt_requests d) = map int [1..<Suc (length (pt_requests d))]" using assms by (simp add: store_ok_def)
  show "distinct (map cr_id (pt_requests d))" unfolding ids by (simp add: distinct_map del: upt_Suc)
  have "fold max (map int [1..<Suc n]) 0 = int n" for n by (induction n) auto
  then show "next_request_id d = int (length (pt_requests d)) + 1" by (simp add: next_request_id_def ids del: upt_Suc)
qed

lemma mem_cr_as: 
  assumes "store_ok d"
  shows "mem_cr i k (as_memory d) = sql_cr_row i k d"
proof -
  have "List.find (\<lambda>c. cr_id c = k \<and> cr_playbook_id c = i) rows
      = (case List.find (\<lambda>c. cr_id c = k) rows of None \<Rightarrow> None | Some c \<Rightarrow> if cr_playbook_id c \<noteq> i then None else Some c)"
    if "distinct (map cr_id rows)" for rows
    using that
  proof (induction rows)
    case (Cons x xs)
    have "List.find (\<lambda>c. cr_id c = cr_id x \<and> cr_playbook_id c = i) xs = None" using Cons.prems
      unfolding find_None_iff' by (auto simp: image_iff)
    then show ?case using Cons by auto
  qed simp
  from this [OF request_ids(1) [OF assms]] show ?thesis
    by (simp add: mem_cr_def sql_cr_row_def as_memory_def map_of_keyed split: option.split)
qed

lemma mem_editable_as:
  assumes "sql_head i d = Inr h"
  shows "mem_editable i n v (as_memory d)
       = bindR (sql_row i n d) (\<lambda>row. bindR (require_draft row v) (\<lambda>_. Inr row))"
proof -
  have "playbook_revision.truncate (revision_view row g) = row" for row g
    by (simp add: revision_view_def playbook_revision.defs)
  moreover have "rv_status (revision_view row g) = rv_status row" "rv_draft_version (revision_view row g) = rv_draft_version row" for row g
    by (simp_all add: revision_view_def playbook_revision.defs)
  ultimately show ?thesis using assms
    by (cases "sql_row i n d") (simp_all add: mem_editable_def sql_get_def require_draft_def)
qed

section \<open>Writing through the abstraction\<close>

lemma opM_simps [simp]:
  "askM r m = (r m, m)" "writeM f m = (Inr (), f m)" "checkM ok e m = (if ok then Inr () else Inl e, m)"
  "andM a g m = (case a m of (Inl e, m') \<Rightarrow> (Inl e, m') | (Inr x, m') \<Rightarrow> g x m')"
  by (simp_all add: askM_def writeM_def checkM_def andM_def)

definition keep_head :: "playbook \<Rightarrow> playbook_db \<Rightarrow> playbook_db" where
  "keep_head h d = d\<lparr>pt_playbooks := put_row pb_id h (pt_playbooks d)\<rparr>"

definition keep_row :: "playbook_revision \<Rightarrow> playbook_db \<Rightarrow> playbook_db" where
  "keep_row r d = d\<lparr>pt_revisions := put_row rv_key r (pt_revisions d)\<rparr>"

definition keep_request :: "change_request \<Rightarrow> playbook_db \<Rightarrow> playbook_db" where
  "keep_request c d = d\<lparr>pt_requests := put_row cr_id c (pt_requests d)\<rparr>"

lemma as_memory_keep:
  assumes "store_ok d"
  shows "h0 \<in> set (pt_playbooks d) \<Longrightarrow> pb_id h = pb_id h0 \<Longrightarrow>
      (as_memory d)\<lparr>mm_heads := AList.update (pb_id h0) h (mm_heads (as_memory d))\<rparr> = as_memory (keep_head h d)"
    and "r0 \<in> set (pt_revisions d) \<Longrightarrow> rv_key r0 = k \<Longrightarrow> rv_key r = k \<Longrightarrow>
      (as_memory d)\<lparr>mm_revisions := AList.update k r (mm_revisions (as_memory d))\<rparr> = as_memory (keep_row r d)"
    and "c0 \<in> set (pt_requests d) \<Longrightarrow> cr_id c = cr_id c0 \<Longrightarrow>
      (as_memory d)\<lparr>mm_requests := AList.update (cr_id c0) c (mm_requests (as_memory d))\<rparr> = as_memory (keep_request c d)"
  using assms request_ids(1) [OF assms]
  by (auto simp: as_memory_def keep_head_def keep_row_def keep_request_def store_ok_def update_keyed)

lemma sql_generation_eq:
  assumes ok: "store_ok d" and h: "sql_head i d = Inr h"
  shows "sql_generation h g d = (if pb_generation h = g
      then Inr (h\<lparr>pb_generation := g + 1\<rparr>, keep_head (h\<lparr>pb_generation := g + 1\<rparr>) d)
      else Inl (PlaybookConflict ''The playbook changed; refresh before continuing.''))"
proof -
  have "pb_id h = i" "List.find (\<lambda>x. pb_id x = i) (pt_playbooks d) = Some h" using h sql_head_Inr sql_head_find by blast+
  then show ?thesis using ok
    by (subst sql_generation_def, subst update_where_key [of pb_id _ _ h "\<lambda>h. h\<lparr>pb_generation := g + 1\<rparr>"])
      (simp_all add: store_ok_def keep_head_def)
qed

lemma mem_generation_as:
  assumes ok: "store_ok d" and h: "sql_head i d = Inr h"
  shows "mem_generation h g (as_memory d) = (if pb_generation h = g
      then (Inr (), as_memory (keep_head (h\<lparr>pb_generation := g + 1\<rparr>) d))
      else (Inl (PlaybookConflict ''The playbook changed; refresh before continuing.''), as_memory d))"
  using as_memory_keep(1) [OF ok, of h "h\<lparr>pb_generation := pb_generation h + 1\<rparr>"] sql_head_Inr [OF h]
  by (auto simp: mem_generation_def)

lemma sql_finish_eq:
  assumes ok: "store_ok d" and c: "c \<in> set (pt_requests d)"
  shows "sql_finish c s actor now d = (if cr_status c = CR_OPEN then Inr (keep_request (finished s actor now c) d)
      else Inl (ChangeRequestNotOpen ''The change request is no longer open; refresh before continuing.''))"
proof -
  have "List.find (\<lambda>x. cr_id x = cr_id c) (pt_requests d) = Some c"
    using find_key_distinct [OF request_ids(1) [OF ok] c] .
  then show ?thesis using request_ids(1) [OF ok]
    by (subst sql_finish_def, subst update_where_key [of cr_id _ _ c "finished s actor now"])
      (simp_all add: keep_request_def finished_def)
qed

lemma mem_finish_as:
  assumes ok: "store_ok d" and c: "c \<in> set (pt_requests d)"
  shows "mem_finish c s actor now (as_memory d) = (if cr_status c = CR_OPEN
      then (Inr (finished s actor now c), as_memory (keep_request (finished s actor now c) d))
      else (Inl (ChangeRequestNotOpen ''The change request is no longer open; refresh before continuing.''), as_memory d))"
  using as_memory_keep(3) [OF ok c, of "finished s actor now c"] by (simp add: mem_finish_def finished_def)


definition add_row :: "playbook_revision \<Rightarrow> playbook_db \<Rightarrow> playbook_db" where
  "add_row r d = d\<lparr>pt_revisions := pt_revisions d @ [r]\<rparr>"

definition add_request :: "change_request \<Rightarrow> playbook_db \<Rightarrow> playbook_db" where
  "add_request c d = d\<lparr>pt_requests := pt_requests d @ [c]\<rparr>"

lemma fold_max_upper: "a \<le> fold max xs (a :: int) \<and> (\<forall>x\<in>set xs. x \<le> fold max xs a)"
  by (induction xs arbitrary: a) (auto, (metis max.bounded_iff)+)

lemma max_revision_upper: "x \<in> set xs \<Longrightarrow> x \<le> max_revision xs"
  using fold_max_upper by (cases xs) (auto simp: max_revision_def)

lemma max_revision_positive: "\<forall>x\<in>set xs. 0 < x \<Longrightarrow> 0 \<le> max_revision xs"
  using max_revision_upper [of "hd xs" xs] by (cases xs) (auto simp: max_revision_def)

definition draft_of :: "playbook \<Rightarrow> pyval \<Rightarrow> string \<Rightarrow> int \<Rightarrow> playbook_db \<Rightarrow> playbook_revision" where
  "draft_of h document actor now d =
     (let n = max_revision (map rv_revision (revisions_of (pb_id h) d)) + 1 in
      new_draft (pb_id h) n (set_revision n document) (pb_published_revision h) actor now)"

lemma document_of_set_revision:
  assumes "document_of i m document"
  shows "document_of i n (set_revision n document)"
    and "text_item (set_revision n document) ''id'' = Inr i" and "int_item (set_revision n document) ''revision'' = Inr n"
proof -
  obtain kvs where kvs: "document = PDict kvs" "map_of kvs ''id'' = Some (PStr i)"
    using assms by (cases document) (auto simp: document_of_def split: option.splits)
  then show "document_of i n (set_revision n document)"
    and "text_item (set_revision n document) ''id'' = Inr i" and "int_item (set_revision n document) ''revision'' = Inr n"
    by (simp_all add: document_of_def set_revision_def text_item_def int_item_def dict_items_def text_of_def py_eq_def)
qed

lemma draft_fresh:
  assumes ok: "store_ok d"
  shows "rv_key (draft_of h document actor now d) \<notin> rv_key ` set (pt_revisions d)" "0 < rv_revision (draft_of h document actor now d)"
proof -
  let ?n = "max_revision (map rv_revision (revisions_of (pb_id h) d))"
  have "rv_revision r \<le> ?n" if "r \<in> set (pt_revisions d)" "rv_playbook_id r = pb_id h" for r
    using that by (intro max_revision_upper) (auto simp: revisions_of_def)
  then show "rv_key (draft_of h document actor now d) \<notin> rv_key ` set (pt_revisions d)"
    by (force simp: draft_of_def Let_def new_draft_def rv_key_def)
  have "0 \<le> ?n" using ok by (intro max_revision_positive) (auto simp: revisions_of_def store_ok_def revision_ok_def)
  then show "0 < rv_revision (draft_of h document actor now d)" by (simp add: draft_of_def Let_def new_draft_def)
qed

lemma store_ok_add_row:
  assumes "store_ok d" "rv_key r \<notin> rv_key ` set (pt_revisions d)" "revision_ok r" "rv_playbook_id r \<in> pb_id ` set (pt_playbooks d)"
    and "document_of (rv_playbook_id r) (rv_revision r) (rv_document r)"
  shows "store_ok (add_row r d)"
  using assms by (auto simp: store_ok_def add_row_def)

lemma store_ok_add_request:
  assumes "store_ok d" "cr_id c = int (length (pt_requests d)) + 1" "change_request_ok c"
    and "cr_key c \<notin> cr_key ` set (pt_requests d)" "cr_key c \<in> rv_key ` set (pt_revisions d)"
  shows "store_ok (add_request c d)"
  using assms by (auto simp: store_ok_def add_request_def)

lemma store_ok_keep_head:
  assumes "store_ok d" "h0 \<in> set (pt_playbooks d)" "pb_id h = pb_id h0" "pb_action_type h = pb_action_type h0"
  shows "store_ok (keep_head h d)"
proof -
  have "map pb_action_type (put_row pb_id h (pt_playbooks d)) = map pb_action_type (pt_playbooks d)"
    using assms find_key_distinct [of pb_id "pt_playbooks d" h0] by (intro map_put_row) (auto simp: store_ok_def)
  moreover have "pb_id ` set (put_row pb_id h (pt_playbooks d)) = pb_id ` set (pt_playbooks d)"
    by (metis keys_put_row set_map)
  ultimately show ?thesis using assms(1) by (simp add: store_ok_def keep_head_def)
qed

lemma store_ok_keep_row:
  assumes "store_ok d" "r0 \<in> set (pt_revisions d)" "rv_key r = rv_key r0" "revision_ok r"
    and "document_of (rv_playbook_id r) (rv_revision r) (rv_document r)"
  shows "store_ok (keep_row r d)"
proof -
  have "rv_key ` set (put_row rv_key r (pt_revisions d)) = rv_key ` set (pt_revisions d)"
    by (metis keys_put_row set_map)
  moreover have "rv_playbook_id r \<in> pb_id ` set (pt_playbooks d)"
    using assms(1-3) by (auto simp: store_ok_def rv_key_def)
  ultimately show ?thesis using assms set_put_row [of rv_key r "pt_revisions d"] by (auto simp: store_ok_def keep_row_def)
qed

lemma store_ok_keep_request:
  assumes "store_ok d" "c0 \<in> set (pt_requests d)" "cr_id c = cr_id c0" "cr_key c = cr_key c0" "change_request_ok c"
  shows "store_ok (keep_request c d)"
proof -
  have "map cr_key (put_row cr_id c (pt_requests d)) = map cr_key (pt_requests d)"
    using assms request_ids(1) [OF assms(1)] find_key_distinct [of cr_id "pt_requests d" c0] by (intro map_put_row) auto
  moreover have "cr_key c \<in> rv_key ` set (pt_revisions d)" using assms by (auto simp: store_ok_def)
  ultimately show ?thesis using assms set_put_row [of cr_id c "pt_requests d"] by (auto simp: store_ok_def keep_request_def)
qed

lemma allocate_eq:
  assumes ok: "store_ok d" and h: "h \<in> set (pt_playbooks d)" and doc: "document_of (pb_id h) m document"
    and h': "pb_id h' = pb_id h" "pb_published_revision h' = pb_published_revision h"
    and row_def: "row = draft_of h document actor now d"
  shows "sql_allocate h' document actor now d = Inr (row, add_row row d)"
    and "mem_allocate h' document actor now (as_memory d) = (Inr row, as_memory (add_row row d))"
    and "store_ok (add_row row d)" and "rv_key row \<notin> rv_key ` set (pt_revisions d)"
proof -
  define n where "n = max_revision (map rv_revision (revisions_of (pb_id h) d)) + 1"
  have row: "new_draft (pb_id h) n (set_revision n document) (pb_published_revision h) actor now = row"
    by (simp add: row_def draft_of_def Let_def n_def)
  have parts: "rv_playbook_id row = pb_id h" "rv_revision row = n" "rv_document row = set_revision n document"
    "rv_key row = (pb_id h, n)" by (simp_all add: row [symmetric] new_draft_def rv_key_def)
  have fresh: "rv_key row \<notin> rv_key ` set (pt_revisions d)" "0 < rv_revision row" unfolding row_def by (rule draft_fresh [OF ok])+
  then have fit: "revision_ok row" "rv_playbook_id row \<in> pb_id ` set (pt_playbooks d)"
    using h by (simp_all add: row [symmetric] new_draft_def revision_ok_def)
  note doc_n = document_of_set_revision [OF doc, of n]
  show "sql_allocate h' document actor now d = Inr (row, add_row row d)"
    using fresh(1) fit by (simp add: sql_allocate_def h' n_def [symmetric] row insert_revision_def from_py_def add_row_def)
  show "store_ok (add_row row d)"
    using doc_n(1) by (intro store_ok_add_row [OF ok fresh(1) fit]) (simp add: parts)
  have keys: "1 + max_revision (map snd (filter (\<lambda>k. fst k = pb_id h) (map fst (mm_revisions (as_memory d))))) = n"
    by (simp add: as_memory_def revisions_of_def filter_map o_def rv_key_def n_def)
  have "(as_memory d)\<lparr>mm_revisions := AList.update (pb_id h, n) row (mm_revisions (as_memory d))\<rparr> = as_memory (add_row row d)"
    using fresh(1) parts(4) by (simp add: as_memory_def add_row_def update_keyed_new)
  then show "mem_allocate h' document actor now (as_memory d) = (Inr row, as_memory (add_row row d))"
    using doc_n(2,3) keys by (simp add: mem_allocate_def mem_draft_def h' row Let_def)
  show "rv_key row \<notin> rv_key ` set (pt_revisions d)" by (rule fresh(1))
qed

lemma open_eq:
  assumes ok: "store_ok d" and h: "sql_head (rv_playbook_id row) d = Inr h" and row: "row \<in> set (pt_revisions d)"
    and new: "rv_key row \<notin> cr_key ` set (pt_requests d)" and g: "pb_generation h' = pb_generation h"
      "pb_published_revision h' = pb_published_revision h"
    and c_def: "c = new_request row origin previous_base title description actor now (int (length (pt_requests d)) + 1)"
  shows "sql_open h' row origin previous_base title description actor now d = (if change_request_ok c
      then Inr ((revision_view row (pb_generation h),
        change_request_view c (revision_view row (pb_generation h)) (pb_published_revision h)
          (sql_published_revisions (rv_playbook_id row) d)), add_request c d)
      else Inl (OtherError (IntegrityError ''admin.playbook_change_requests'')))"
    and "mem_open row origin previous_base title description actor now (as_memory d) =
      (Inr (revision_view row (pb_generation h),
        change_request_view c (revision_view row (pb_generation h)) (pb_published_revision h)
          (sql_published_revisions (rv_playbook_id row) d)), as_memory (add_request c d))"
    and "change_request_ok c \<Longrightarrow> store_ok (add_request c d)"
proof -
  have c: "cr_key c = rv_key row" "cr_playbook_id c = rv_playbook_id row" "cr_revision c = rv_revision row"
    "cr_id c = int (length (pt_requests d)) + 1" "rv_key row \<in> rv_key ` set (pt_revisions d)"
    using row by (simp_all add: c_def new_request_def cr_key_def rv_key_def)
  have r: "sql_row (rv_playbook_id row) (rv_revision row) d = Inr row"
    using ok row by (intro sql_row_mem) (auto simp: store_ok_def rv_key_def)
  have frame: "sql_row i n (add_request c d) = sql_row i n d" "sql_head i (add_request c d) = sql_head i d"
    "sql_published_revisions i (add_request c d) = sql_published_revisions i d" for i n
    by (simp_all add: sql_row_def sql_head_def sql_published_revisions_def add_request_def)
  have view: "sql_cr_view c h' (add_request c d) = Inr (change_request_view c (revision_view row (pb_generation h))
      (pb_published_revision h) (sql_published_revisions (rv_playbook_id row) d))"
    by (simp add: sql_cr_view_def c frame r g)
  have ins: "insert_request (new_request row origin previous_base title description actor now 0) d
      = (if change_request_ok c then Inr c else Inl (OtherError (IntegrityError ''admin.playbook_change_requests'')))"
    using new c(5) request_ids(2) [OF ok]
    by (simp add: insert_request_def c_def new_request_def cr_key_def rv_key_def change_request_ok_def)
  show "sql_open h' row origin previous_base title description actor now d = (if change_request_ok c
      then Inr ((revision_view row (pb_generation h),
        change_request_view c (revision_view row (pb_generation h)) (pb_published_revision h)
          (sql_published_revisions (rv_playbook_id row) d)), add_request c d)
      else Inl (OtherError (IntegrityError ''admin.playbook_change_requests'')))"
    using view by (simp add: sql_open_def ins add_request_def [symmetric] g)
  have "cr_id c \<notin> cr_id ` set (pt_requests d)"
  proof
    assume "cr_id c \<in> cr_id ` set (pt_requests d)"
    then have "cr_id c \<in> set (map int [1..<Suc (length (pt_requests d))])" using ok by (metis store_ok_def set_map)
    then show False using c(4) by auto
  qed
  then have m: "(as_memory d)\<lparr>mm_requests := AList.update (cr_id c) c (mm_requests (as_memory d))\<rparr> = as_memory (add_request c d)"
    by (simp add: as_memory_def add_request_def update_keyed_new)
  have len: "length (mm_requests (as_memory d)) = length (pt_requests d)" by (simp add: as_memory_def)
  have v: "mem_cr_view c (as_memory (add_request c d)) = sql_cr_view c h (add_request c d)"
    using h by (intro mem_cr_view_as) (simp add: frame c)
  show "mem_open row origin previous_base title description actor now (as_memory d) =
      (Inr (revision_view row (pb_generation h),
        change_request_view c (revision_view row (pb_generation h)) (pb_published_revision h)
          (sql_published_revisions (rv_playbook_id row) d)), as_memory (add_request c d))"
    using h r by (simp add: mem_open_def c_def [symmetric] len m [unfolded c(4)] v sql_cr_view_def c frame sql_get_def)
  show "change_request_ok c \<Longrightarrow> store_ok (add_request c d)"
    using new c by (intro store_ok_add_request [OF ok]) auto
qed


section \<open>A new draft on a playbook\<close>

text \<open>What create-draft, restore and recreate do alike: the head's generation, a row, its change request.\<close>

definition branch_head :: "playbook \<Rightarrow> playbook" where
  "branch_head h = h\<lparr>pb_generation := pb_generation h + 1\<rparr>"

definition branch_row :: "playbook \<Rightarrow> pyval \<Rightarrow> string \<Rightarrow> int \<Rightarrow> playbook_db \<Rightarrow> playbook_revision" where
  "branch_row h document actor now d = draft_of (branch_head h) document actor now (keep_head (branch_head h) d)"

definition branch_request ::
    "playbook_revision \<Rightarrow> request_origin \<Rightarrow> int option \<Rightarrow> string \<Rightarrow> string \<Rightarrow> string \<Rightarrow> int \<Rightarrow> playbook_db \<Rightarrow> change_request" where
  "branch_request row origin previous_base title description actor now d =
     new_request row origin previous_base title description actor now (int (length (pt_requests d)) + 1)"

definition branch :: "playbook \<Rightarrow> playbook_revision \<Rightarrow> change_request \<Rightarrow> playbook_db \<Rightarrow> playbook_db" where
  "branch h row c d = add_request c (add_row row (keep_head (branch_head h) d))"

definition branch_reply :: "playbook \<Rightarrow> playbook_revision \<Rightarrow> change_request \<Rightarrow> playbook_db \<Rightarrow> viewed_revision \<times> viewed_request" where
  "branch_reply h row c d =
     (revision_view row (pb_generation h + 1),
      change_request_view c (revision_view row (pb_generation h + 1)) (pb_published_revision h)
        (sql_published_revisions (rv_playbook_id row) (add_row row (keep_head (branch_head h) d))))"

lemma keep_head_frame [simp]:
  "pt_revisions (keep_head h d) = pt_revisions d" "pt_requests (keep_head h d) = pt_requests d"
  "pt_playbooks (add_row r d) = pt_playbooks d" "pt_requests (add_row r d) = pt_requests d"
  "pt_playbooks (add_request c d) = pt_playbooks d" "pt_revisions (add_request c d) = pt_revisions d"
  "pt_playbooks (keep_row r d) = pt_playbooks d" "pt_requests (keep_row r d) = pt_requests d"
  "pt_playbooks (keep_request c d) = pt_playbooks d" "pt_revisions (keep_request c d) = pt_revisions d"
  "pt_playbooks (keep_head h d) = put_row pb_id h (pt_playbooks d)" "pt_revisions (add_row r d) = pt_revisions d @ [r]"
  "pt_requests (add_request c d) = pt_requests d @ [c]" "pt_revisions (keep_row r d) = put_row rv_key r (pt_revisions d)"
  "pt_requests (keep_request c d) = put_row cr_id c (pt_requests d)"
  by (simp_all add: keep_head_def add_row_def add_request_def keep_row_def keep_request_def)

lemma sql_head_keep:
  "sql_head i d = Inr h0 \<Longrightarrow> pb_id h = i \<Longrightarrow> sql_head i (keep_head h d) = Inr h"
  using sql_head_Inr [of i d h0] unfolding sql_head_find keep_head_frame by (intro find_put_row_same) (auto intro: image_eqI [of _ _ h0])

lemma branch_parts:
  assumes ok: "store_ok d" and h: "sql_head i d = Inr h" and doc: "document_of i m document"
    and row: "row = branch_row h document actor now d" and c: "c = branch_request row origin previous_base title description actor now d"
  shows "bindR (sql_generation h g d) (\<lambda>(h1, d1). bindR (sql_allocate h1 document actor now d1) (\<lambda>(row, d2).
           sql_open h1 row origin previous_base title description actor now d2))
       = (if pb_generation h \<noteq> g then Inl (PlaybookConflict ''The playbook changed; refresh before continuing.'')
          else if change_request_ok c then Inr (branch_reply h row c d, branch h row c d)
          else Inl (OtherError (IntegrityError ''admin.playbook_change_requests'')))"
    and "andM (mem_generation h g) (\<lambda>_. andM (mem_allocate h document actor now) (\<lambda>row.
           mem_open row origin previous_base title description actor now)) (as_memory d)
       = (if pb_generation h \<noteq> g
          then (Inl (PlaybookConflict ''The playbook changed; refresh before continuing.''), as_memory d)
          else (Inr (branch_reply h row c d), as_memory (branch h row c d)))"
    and "change_request_ok c \<Longrightarrow> store_ok (branch h row c d)" and "rv_key row \<notin> rv_key ` set (pt_revisions d)"
proof -
  let ?h = "branch_head h" and ?d1 = "keep_head (branch_head h) d"
  have hi: "h \<in> set (pt_playbooks d)" "pb_id h = i" using sql_head_Inr [OF h] by auto
  have ok1: "store_ok ?d1" using hi by (intro store_ok_keep_head [OF ok hi(1)]) (simp_all add: branch_head_def)
  have h1: "sql_head i ?d1 = Inr ?h" using hi(2) by (intro sql_head_keep [OF h]) (simp add: branch_head_def)
  have "?h \<in> set (pt_playbooks ?d1)" using sql_head_Inr [OF h1] by simp
  note alloc = allocate_eq [OF ok1 this _ _ _ row [unfolded branch_row_def], of m]
  have doc': "document_of (pb_id ?h) m document" using doc hi(2) by (simp add: branch_head_def)
  let ?d2 = "add_row row ?d1"
  have ok2: "store_ok ?d2" using alloc(3) doc' by simp
  have rowi: "rv_playbook_id row = i" using hi(2) by (simp add: row branch_row_def draft_of_def Let_def new_draft_def branch_head_def)
  have h2: "sql_head (rv_playbook_id row) ?d2 = Inr ?h" using h1 by (simp add: rowi sql_head_def add_row_def)
  have "rv_key row \<notin> rv_key ` set (pt_revisions ?d1)" by (rule alloc(4)) (use doc' in simp_all)
  then show fresh: "rv_key row \<notin> rv_key ` set (pt_revisions d)" by simp
  then have new: "rv_key row \<notin> cr_key ` set (pt_requests ?d2)" using ok by (auto simp: store_ok_def)
  have mem: "row \<in> set (pt_revisions ?d2)" by simp
  note opened = open_eq [OF ok2 h2 mem new, where c = c and origin = origin and previous_base = previous_base and title = title
      and description = description and actor = actor and now = now]
  have c': "c = new_request row origin previous_base title description actor now (int (length (pt_requests ?d2)) + 1)"
    by (simp add: c branch_request_def)
  have g: "pb_generation ?h = pb_generation h + 1" "pb_published_revision ?h = pb_published_revision h" "pb_id ?h = pb_id h"
    by (simp_all add: branch_head_def)
  have head': "h\<lparr>pb_generation := pb_generation h + 1\<rparr> = ?h" by (simp add: branch_head_def)
  show "bindR (sql_generation h g d) (\<lambda>(h1, d1). bindR (sql_allocate h1 document actor now d1) (\<lambda>(row, d2).
           sql_open h1 row origin previous_base title description actor now d2))
       = (if pb_generation h \<noteq> g then Inl (PlaybookConflict ''The playbook changed; refresh before continuing.'')
          else if change_request_ok c then Inr (branch_reply h row c d, branch h row c d)
          else Inl (OtherError (IntegrityError ''admin.playbook_change_requests'')))"
    using alloc(1) [OF doc' refl refl] opened(1) [OF refl refl c']
    by (auto simp: sql_generation_eq [OF ok h] head' g branch_reply_def branch_def)
  show "andM (mem_generation h g) (\<lambda>_. andM (mem_allocate h document actor now) (\<lambda>row.
           mem_open row origin previous_base title description actor now)) (as_memory d)
       = (if pb_generation h \<noteq> g
          then (Inl (PlaybookConflict ''The playbook changed; refresh before continuing.''), as_memory d)
          else (Inr (branch_reply h row c d), as_memory (branch h row c d)))"
    using alloc(2) [OF doc' g(3) [symmetric] g(2) [symmetric]] opened(2) [OF refl refl c']
    by (auto simp: mem_generation_as [OF ok h] head' g branch_reply_def branch_def)
  show "change_request_ok c \<Longrightarrow> store_ok (branch h row c d)"
    unfolding branch_def by (rule opened(3) [OF refl refl c'])
qed


section \<open>One request\<close>

text \<open>What no request changes: published revisions and closed change requests.\<close>

definition final :: "playbook_db \<Rightarrow> playbook_db \<Rightarrow> bool" where
  "final d d' \<longleftrightarrow>
     (\<forall>r\<in>set (pt_revisions d). rv_status r = PUBLISHED \<longrightarrow> r \<in> set (pt_revisions d'))
     \<and> (\<forall>c\<in>set (pt_requests d). cr_status c \<noteq> CR_OPEN \<longrightarrow> c \<in> set (pt_requests d'))"

text \<open>How a head moves: its generation does not fall, and its published revision changes only to a draft whose open
  change request was based on the revision it replaces, with the document the draft had.\<close>

definition head_moves :: "playbook_db \<Rightarrow> playbook_db \<Rightarrow> bool" where
  "head_moves d d' \<longleftrightarrow>
     (\<forall>i h. sql_head i d = Inr h \<longrightarrow> (\<exists>h'. sql_head i d' = Inr h' \<and> pb_generation h \<le> pb_generation h'
       \<and> (pb_published_revision h' = pb_published_revision h
          \<or> (\<exists>n r r' c. pb_published_revision h' = Some n \<and> sql_row i n d = Inr r \<and> rv_status r = DRAFT
               \<and> sql_row i n d' = Inr r' \<and> rv_status r' = PUBLISHED \<and> rv_document r' = rv_document r
               \<and> c \<in> set (pt_requests d) \<and> cr_key c = (i, n) \<and> cr_status c = CR_OPEN
               \<and> cr_base_revision c = pb_published_revision h))))"

lemma final_refl [simp]: "final d d"
  by (simp add: final_def)

lemma final_trans: "final d d' \<Longrightarrow> final d' d'' \<Longrightarrow> final d d''"
  by (auto simp: final_def)

lemma final_add [simp]: "final d (add_row r d)" "final d (add_request c d)" "final d (keep_head h d)"
  by (simp_all add: final_def)

lemma final_branch [simp]: "final d (branch h r c d)"
  unfolding branch_def by (intro final_trans [OF _ final_add(2)] final_trans [OF _ final_add(1)] final_add(3))

lemma final_keep_row:
  assumes "store_ok d" "r0 \<in> set (pt_revisions d)" "rv_status r0 = DRAFT" "rv_key r = rv_key r0"
  shows "final d (keep_row r d)"
proof -
  have "x = r0" if "x \<in> set (pt_revisions d)" "rv_key x = rv_key r" for x
    using assms that by (metis store_ok_def find_key_distinct option.inject)
  with assms(3) show ?thesis by (auto simp: final_def put_row_def image_iff)
qed

lemma final_keep_request:
  assumes "store_ok d" "c0 \<in> set (pt_requests d)" "cr_status c0 = CR_OPEN" "cr_id c = cr_id c0"
  shows "final d (keep_request c d)"
proof -
  have "x = c0" if "x \<in> set (pt_requests d)" "cr_id x = cr_id c" for x
    using assms that request_ids(1) [OF assms(1)] by (metis find_key_distinct option.inject)
  with assms(3) show ?thesis by (auto simp: final_def put_row_def image_iff)
qed

lemma sql_head_frame [simp]:
  "sql_head i (add_row r d) = sql_head i d" "sql_head i (add_request c d) = sql_head i d"
  "sql_head i (keep_row r d) = sql_head i d" "sql_head i (keep_request c d) = sql_head i d"
  by (simp_all add: sql_head_def)

lemma sql_head_kept:
  assumes "sql_head j d = Inr h" "pb_id h' = j"
  shows "sql_head i (keep_head h' d) = (if i = j then Inr h' else sql_head i d)"
  using assms sql_head_keep [OF assms] by (auto simp: sql_head_def find_put_row_other)

lemma head_moves_none: "(\<And>i. sql_head i d' = sql_head i d) \<Longrightarrow> head_moves d d'"
  by (simp add: head_moves_def)

lemma head_moves_branch:
  assumes "sql_head j d = Inr h"
  shows "head_moves d (branch h r c d)" "head_moves d (keep_request c' (branch h r c d))"
  using assms sql_head_Inr [OF assms] by (auto simp: head_moves_def branch_def sql_head_kept [OF assms] branch_head_def)

text \<open>What the in-memory adapter does beside a call of the SQL adapter: the same answer and the same tables, or the same
  error and an unchanged store.\<close>

definition tracks :: "('a pres \<times> memory_store) \<Rightarrow> ('a \<times> playbook_db) pres \<Rightarrow> playbook_db \<Rightarrow> bool" where
  "tracks a r d \<longleftrightarrow>
     (case r of
        Inr (v, d') \<Rightarrow> a = (Inr v, as_memory d') \<and> store_ok d' \<and> final d d' \<and> head_moves d d'
      | Inl e \<Rightarrow> a = (Inl e, as_memory d))"

lemma new_request_ok: "change_request_ok (new_request row origin b title description actor now k) \<longleftrightarrow> text_fits title description"
  by (simp add: change_request_ok_def new_request_def text_fits_def)

lemma tracks_Inl [simp]: "tracks (Inl e, as_memory d) (Inl e) d"
  by (simp add: tracks_def)

lemma branch_tracks:
  assumes ok: "store_ok d" and h: "sql_head i d = Inr h" and doc: "document_of i m document" and fits: "text_fits title description"
  shows "tracks (andM (mem_generation h g) (\<lambda>_. andM (mem_allocate h document actor now) (\<lambda>row.
           mem_open row origin previous_base title description actor now)) (as_memory d))
     (bindR (sql_generation h g d) (\<lambda>(h1, d1). bindR (sql_allocate h1 document actor now d1) (\<lambda>(row, d2).
           sql_open h1 row origin previous_base title description actor now d2))) d"
  unfolding branch_parts(1) [OF ok h doc refl refl] branch_parts(2) [OF ok h doc refl refl]
  using branch_parts(3) [OF ok h doc refl refl] head_moves_branch [OF h] fits by (simp add: tracks_def branch_request_def new_request_ok)

lemma row_document: "store_ok d \<Longrightarrow> sql_row i n d = Inr r \<Longrightarrow> document_of i n (rv_document r)"
  by (auto simp: store_ok_def dest!: sql_row_Inr)

lemma create_draft_tracks:
  assumes ok: "store_ok d" and fits: "text_fits (title_or t (default_title CR_DRAFT i None)) s"
  shows "tracks (mem_create_draft i n g actor now t s (as_memory d)) (sql_create_draft i n g actor now t s d) d"
proof (cases "sql_head i d")
  case (Inr h)
  show ?thesis
  proof (cases "sql_row i n d")
    case (Inr r)
    note branch_tracks [OF ok \<open>sql_head i d = Inr h\<close> row_document [OF ok Inr] fits, of g actor now CR_DRAFT None]
    with \<open>sql_head i d = Inr h\<close> Inr show ?thesis
      by (simp add: mem_create_draft_def sql_create_draft_def sql_get_def revision_view_def playbook_revision.defs)
  qed (simp add: mem_create_draft_def sql_create_draft_def sql_get_def \<open>sql_head i d = Inr h\<close>)
qed (simp add: mem_create_draft_def sql_create_draft_def)

lemma restore_tracks:
  assumes ok: "store_ok d" and fits: "text_fits (title_or t (default_title CR_RESTORE i (Some n))) s"
  shows "tracks (mem_restore i n g actor now t s (as_memory d)) (sql_restore i n g actor now t s d) d"
proof (cases "sql_head i d")
  case (Inr h)
  show ?thesis
  proof (cases "sql_row i n d")
    case (Inr r)
    note branch_tracks [OF ok \<open>sql_head i d = Inr h\<close> row_document [OF ok Inr] fits, of g actor now CR_RESTORE "Some n"]
    with \<open>sql_head i d = Inr h\<close> Inr show ?thesis
      by (simp add: mem_restore_def sql_restore_def sql_get_def revision_view_def playbook_revision.defs)
  qed (simp add: mem_restore_def sql_restore_def sql_get_def \<open>sql_head i d = Inr h\<close>)
qed (simp add: mem_restore_def sql_restore_def)


lemma change_request_ok_finished:
  "change_request_ok c \<Longrightarrow> cr_status c = CR_OPEN \<Longrightarrow> s \<noteq> CR_OPEN \<Longrightarrow> change_request_ok (finished s actor now c)"
  by (simp add: change_request_ok_def finished_def)

lemma store_ok_finished:
  assumes "store_ok d" "c \<in> set (pt_requests d)" "cr_status c = CR_OPEN" "s \<noteq> CR_OPEN"
  shows "store_ok (keep_request (finished s actor now c) d)"
  using assms by (intro store_ok_keep_request [OF assms(1,2)] change_request_ok_finished)
    (simp_all add: finished_def cr_key_def store_ok_def)

lemma bindR_three:
  "bindR gen (\<lambda>(h, d1). bindR (alloc h d1) (\<lambda>(row, d2). bindR (opn h row d2) k))
 = bindR (bindR gen (\<lambda>(h, d1). bindR (alloc h d1) (\<lambda>(row, d2). opn h row d2))) k"
  by (simp add: bindR_def split: sum.split prod.split)

lemma andM_three: "andM a (\<lambda>_. andM b (\<lambda>row. andM (f row) k)) m = andM (andM a (\<lambda>_. andM b f)) k m"
  by (auto split: sum.split prod.split)

lemma andM_first:
  "andM (askM r) f m = (case r m of Inl e \<Rightarrow> (Inl e, m) | Inr x \<Rightarrow> f x m)"
  "andM (checkM b e) g m = (if b then g () m else (Inl e, m))"
  by (simp_all split: sum.split)

lemma andM_result: "a m = r \<Longrightarrow> andM a f m = (case r of (Inl e, m') \<Rightarrow> (Inl e, m') | (Inr x, m') \<Rightarrow> f x m')"
  by simp

lemma recreate_tracks:
  assumes ok: "store_ok d"
  shows "tracks (mem_recreate_from_head i k v g actor now (as_memory d)) (sql_recreate_from_head i k v g actor now d) d"
proof (cases "sql_head i d")
  case (Inr h)
  note head = this
  show ?thesis
  proof (cases "sql_cr_row i k d")
    case (Inr old)
    note old = this sql_cr_row_Inr [OF this]
    let ?row = "sql_row i (cr_revision old) d"
    show ?thesis
    proof (cases "cr_status old = CR_OPEN \<and> \<not> isl ?row \<and> bindR ?row (\<lambda>row. require_draft row v) = Inr ()
        \<and> cr_base_revision old \<noteq> pb_published_revision h")
      case True
      then obtain draft where draft: "?row = Inr draft" "require_draft draft v = Inr ()" by (cases ?row) auto
      let ?r = "branch_row h (rv_document draft) actor now d"
      let ?c = "branch_request ?r CR_RECREATE (cr_base_revision old) (cr_title old) (cr_description old) actor now d"
      note parts = branch_parts(1,2) [where g = g and actor = actor and now = now and origin = CR_RECREATE
        and previous_base = "cr_base_revision old" and title = "cr_title old" and description = "cr_description old",
        OF ok head row_document [OF ok draft(1)] refl refl]
      note kept = branch_parts(3) [where actor = actor and now = now and origin = CR_RECREATE
        and previous_base = "cr_base_revision old" and title = "cr_title old" and description = "cr_description old",
        OF ok head row_document [OF ok draft(1)] refl refl]
      let ?d = "branch h ?r ?c d"
      have mem: "old \<in> set (pt_requests ?d)" using old(2) by (simp add: branch_def)
      have run: "sql_recreate_from_head i k v g actor now d
          = bindR (if pb_generation h \<noteq> g then Inl (PlaybookConflict ''The playbook changed; refresh before continuing.'')
             else if change_request_ok ?c then Inr (branch_reply h ?r ?c d, ?d)
             else Inl (OtherError (IntegrityError ''admin.playbook_change_requests'')))
             (\<lambda>(view, d3). bindR (sql_finish old CR_CLOSED actor now d3) (\<lambda>d4. Inr (view, d4)))"
        using True draft by (simp add: sql_recreate_from_head_def head old(1) bindR_three parts(1))
      have mrun: "mem_recreate_from_head i k v g actor now (as_memory d)
          = (case (if pb_generation h \<noteq> g
              then (Inl (PlaybookConflict ''The playbook changed; refresh before continuing.''), as_memory d)
              else (Inr (branch_reply h ?r ?c d), as_memory ?d)) of (Inl e, m') \<Rightarrow> (Inl e, m')
             | (Inr view, m') \<Rightarrow> andM (mem_finish old CR_CLOSED actor now) (\<lambda>_. askM (\<lambda>m. Inr view)) m')"
      proof -
        have "mem_recreate_from_head i k v g actor now (as_memory d)
          = andM (andM (mem_generation h g) (\<lambda>_. andM (mem_allocate h (rv_document draft) actor now) (\<lambda>row.
              mem_open row CR_RECREATE (cr_base_revision old) (cr_title old) (cr_description old) actor now)))
              (\<lambda>view. andM (mem_finish old CR_CLOSED actor now) (\<lambda>_. askM (\<lambda>m. Inr view))) (as_memory d)"
          using True draft by (simp add: mem_recreate_from_head_def andM_first mem_cr_as [OF ok] mem_editable_as [OF head] head old(1)
            andM_three [symmetric] del: opM_simps)
        then show ?thesis by (simp only:) (rule andM_result, rule parts(2))
      qed
      have "final d (keep_request (finished CR_CLOSED actor now old) ?d)" if "store_ok ?d"
        using True by (intro final_trans [OF final_branch final_keep_request [OF that mem]]) (simp_all add: finished_def)
      moreover have "text_fits (cr_title old) (cr_description old)" using ok old(2)
        by (auto simp: store_ok_def change_request_ok_def text_fits_def)
      then have "change_request_ok ?c" by (simp add: branch_request_def new_request_ok)
      ultimately show ?thesis
        using True mem kept store_ok_finished [of ?d old CR_CLOSED actor now] sql_finish_eq [of ?d old CR_CLOSED actor now]
          mem_finish_as [of ?d old CR_CLOSED actor now] head_moves_branch(2) [OF head]
        unfolding run mrun by (simp add: tracks_def)
    next
      case False
      then show ?thesis
        by (cases ?row) (auto simp: mem_recreate_from_head_def sql_recreate_from_head_def mem_cr_as [OF ok]
          mem_editable_as [OF head] head old(1) require_draft_def split: if_splits)
    qed
  qed (simp add: mem_recreate_from_head_def sql_recreate_from_head_def head mem_cr_as [OF ok])
qed (simp add: mem_recreate_from_head_def sql_recreate_from_head_def)

lemma sql_row_keep: "sql_row i n d = Inr r0 \<Longrightarrow> rv_key r = (i, n) \<Longrightarrow> sql_row i n (keep_row r d) = Inr r"
  unfolding sql_row_find keep_head_frame
  by (intro find_put_row_same) (auto dest!: find_Some_iff' intro: image_eqI [of _ _ r0])

lemma find_key_also:
  "distinct (map key rs) \<Longrightarrow> r \<in> set rs \<Longrightarrow> P r \<Longrightarrow> List.find (\<lambda>x. key x = key r \<and> P x) rs = Some r"
  by (induction rs) (auto simp: image_iff)

lemma sql_cr_row_keep:
  assumes "store_ok d" "c0 \<in> set (pt_requests d)" "cr_id c = cr_id c0" "cr_playbook_id c = i"
  shows "sql_cr_row i (cr_id c0) (keep_request c d) = Inr c"
proof -
  have "c \<in> set (put_row cr_id c (pt_requests d))" using assms(2,3) by (auto simp: put_row_def intro: rev_image_eqI)
  then have "List.find (\<lambda>x. cr_id x = cr_id c \<and> cr_playbook_id x = i) (put_row cr_id c (pt_requests d)) = Some c"
    using request_ids(1) [OF assms(1)] assms(4) by (intro find_key_also) simp_all
  then show ?thesis by (simp add: sql_cr_row_def assms(3))
qed


lemma same_identity_document: "same_identity document old \<Longrightarrow> document_of i n old \<Longrightarrow> document_of i n document"
  by (auto simp: same_identity_def document_of_def IDENTITY_FIELDS_def py_eq_text) (simp add: py_eq_def)

definition edited_row :: "pyval \<Rightarrow> int \<Rightarrow> string \<Rightarrow> int \<Rightarrow> playbook_revision \<Rightarrow> playbook_revision" where
  "edited_row document version actor now r =
     r\<lparr>rv_document := document, rv_draft_version := version + 1, rv_updated_by := actor, rv_updated_at := now\<rparr>"

text \<open>A row replaced by one with its key: the tables stay in order, and reading finds the new row.\<close>

lemma keep_row_parts:
  assumes ok: "store_ok d" and row: "sql_row i n d = Inr r" and new: "rv_key r' = (i, n)" "revision_ok r'"
    "document_of i n (rv_document r')"
  shows "store_ok (keep_row r' d)" "sql_row i n (keep_row r' d) = Inr r'" "sql_head j (keep_row r' d) = sql_head j d"
proof -
  have "r \<in> set (pt_revisions d)" "rv_key r = (i, n)" "rv_playbook_id r' = i" "rv_revision r' = n"
    using sql_row_Inr [OF row] new(1) by (auto simp: rv_key_def)
  then show "store_ok (keep_row r' d)" using new store_ok_keep_row [OF ok, of r r'] by simp
  show "sql_row i n (keep_row r' d) = Inr r'" by (rule sql_row_keep [OF row new(1)])
  show "sql_head j (keep_row r' d) = sql_head j d" by (simp add: sql_head_def)
qed

lemma edit_eq:
  assumes ok: "store_ok d" and h: "sql_head i d = Inr h" and row: "sql_row i n d = Inr r" and c: "sql_open_cr_for i n d = Inr c"
    and draft: "require_draft r v = Inr ()" and same: "same_identity document (rv_document r)"
    and d'_def: "d' = keep_row (edited_row document v actor now r) d"
  shows "sql_edit i n document v actor now d = bindR (sql_cr_view c h d') (\<lambda>w.
      Inr ((revision_view (edited_row document v actor now r) (pb_generation h), w), d'))"
    and "store_ok d'" and "sql_row i n d' = Inr (edited_row document v actor now r)" and "sql_head j d' = sql_head j d"
proof -
  let ?r = "edited_row document v actor now r"
  have mem: "r \<in> set (pt_revisions d)" "rv_key r = (i, n)" "revision_ok r"
    using sql_row_Inr [OF row] ok by (auto simp: rv_key_def store_ok_def)
  have st: "rv_status r = DRAFT" "rv_draft_version r = v" using draft by (auto simp: require_draft_def split: if_splits)
  have new: "rv_key ?r = (i, n)" "revision_ok ?r" "document_of i n (rv_document ?r)"
    using mem st same_identity_document [OF same row_document [OF ok row]]
    by (simp_all add: edited_row_def rv_key_def revision_ok_def)
  note parts = keep_row_parts [OF ok row new, folded d'_def]
  show "store_ok d'" "sql_row i n d' = Inr ?r" "sql_head j d' = sql_head j d" by (rule parts)+
  have open_cr: "list_ex (\<lambda>x. cr_key x = (i, n) \<and> cr_status x = CR_OPEN) (pt_requests d)"
    using sql_open_cr_for_Inr [OF c] by (auto simp: list_ex_iff cr_key_def)
  have upd: "update_where (\<lambda>x. rv_key x = (i, n) \<and> rv_status x = DRAFT \<and> rv_draft_version x = v
        \<and> list_ex (\<lambda>x. cr_key x = (i, n) \<and> cr_status x = CR_OPEN) (pt_requests d))
      (\<lambda>r. r\<lparr>rv_document := document, rv_draft_version := v + 1, rv_updated_by := actor, rv_updated_at := now\<rparr>) (pt_revisions d)
    = (1, put_row rv_key ?r (pt_revisions d))"
    using ok row st open_cr new(1)
    by (subst update_where_key [where r = r]) (simp_all add: store_ok_def sql_row_find edited_row_def)
  have d': "d\<lparr>pt_revisions := put_row rv_key ?r (pt_revisions d)\<rparr> = d'" by (simp add: d'_def keep_row_def)
  show "sql_edit i n document v actor now d = bindR (sql_cr_view c h d') (\<lambda>w.
      Inr ((revision_view ?r (pb_generation h), w), d'))"
    using same parts(2) by (simp add: sql_edit_def h row c draft upd d')
qed

lemma edit_tracks:
  assumes ok: "store_ok d"
  shows "tracks (mem_edit i n document v actor now (as_memory d)) (sql_edit i n document v actor now d) d"
proof (cases "sql_head i d")
  case (Inr h)
  note head = this
  show ?thesis
  proof (cases "sql_row i n d")
    case (Inr r)
    note row = this
    show ?thesis
    proof (cases "sql_open_cr_for i n d")
      case (Inr c)
      note cr = this sql_open_cr_for_Inr [OF this]
      show ?thesis
      proof (cases "require_draft r v = Inr () \<and> same_identity document (rv_document r)")
        case True
        let ?r = "edited_row document v actor now r" and ?d = "keep_row (edited_row document v actor now r) d"
        note parts = edit_eq [OF ok head row cr(1), where v = v and document = document and actor = actor and now = now]
        have key: "rv_key r = (i, n)" "rv_key ?r = (i, n)" "r \<in> set (pt_revisions d)"
          using sql_row_Inr [OF row] by (simp_all add: rv_key_def edited_row_def)
        have m: "(as_memory d)\<lparr>mm_revisions := AList.update (i, n) ?r (mm_revisions (as_memory d))\<rparr> = as_memory ?d"
          by (rule as_memory_keep(2) [OF ok key(3,1,2)])
        have hd: "sql_head i ?d = Inr h" "sql_row i n ?d = Inr ?r" using parts(3,4) [OF _ _ refl] True head by simp_all
        have v: "mem_cr_view c (as_memory ?d) = sql_cr_view c h ?d" using cr(2) hd(1) by (intro mem_cr_view_as) simp
        obtain w where w: "sql_cr_view c h ?d = Inr w" using cr(2) hd(2) by (simp add: sql_cr_view_def)
        have "mem_edit i n document v actor now (as_memory d) = (Inr (revision_view ?r (pb_generation h), w), as_memory ?d)"
          using True by (simp add: mem_edit_def mem_editable_as [OF head] sql_get_def head row cr(1) Let_def
              edited_row_def [symmetric] m hd v w)
        moreover have "rv_status r = DRAFT" using True by (auto simp: require_draft_def split: if_splits)
        then have "final d ?d" using key by (intro final_keep_row [OF ok key(3)]) simp_all
        moreover have "head_moves d ?d" by (rule head_moves_none) simp
        ultimately show ?thesis using parts(1,2) [OF _ _ refl] True w by (simp add: tracks_def)
      next
        case False
        then show ?thesis
          by (cases "require_draft r v") (auto simp: mem_edit_def sql_edit_def mem_editable_as [OF head] sql_get_def head row cr(1))
      qed
    qed (simp add: mem_edit_def sql_edit_def sql_get_def head row)
  qed (simp add: mem_edit_def sql_edit_def sql_get_def head)
qed (simp add: mem_edit_def sql_edit_def sql_get_def)


definition published_head :: "int \<Rightarrow> playbook \<Rightarrow> playbook" where
  "published_head n h = h\<lparr>pb_generation := pb_generation h + 1, pb_published_revision := Some n\<rparr>"

definition publication_of :: "string \<Rightarrow> string \<Rightarrow> int \<Rightarrow> playbook \<Rightarrow> playbook_revision \<Rightarrow> change_request \<Rightarrow> playbook_db \<Rightarrow> playbook_db" where
  "publication_of x actor now h r c d =
     keep_request (finished CR_PUBLISHED actor now c) (keep_head (published_head (rv_revision r) h) (keep_row (published_row x actor now r) d))"

lemma keep_head_again:
  "pb_id h' = pb_id h \<Longrightarrow> keep_head h' (keep_row r (keep_head h d)) = keep_head h' (keep_row r d)"
  "pb_id h' = pb_id h \<Longrightarrow> keep_head h' (keep_head h d) = keep_head h' d"
  by (simp_all add: keep_head_def keep_row_def put_row_def)

lemma publication_parts:
  assumes ok: "store_ok d" and h: "sql_head i d = Inr h" and row: "sql_row i n d = Inr r" and c: "sql_open_cr_for i n d = Inr c"
    and draft: "rv_status r = DRAFT" and d': "d' = publication_of x actor now h r c d"
  shows "store_ok d'" and "sql_head i d' = Inr (published_head n h)" and "sql_row i n d' = Inr (published_row x actor now r)"
    and "sql_cr_row i (cr_id c) d' = Inr (finished CR_PUBLISHED actor now c)"
    and "sql_finish c CR_PUBLISHED actor now (keep_head (published_head n h) (keep_row (published_row x actor now r) d)) = Inr d'"
    and "mem_finish c CR_PUBLISHED actor now (as_memory (keep_head (published_head n h) (keep_row (published_row x actor now r) d)))
      = (Inr (finished CR_PUBLISHED actor now c), as_memory d')"
    and "final d d'" and "cr_base_revision c = pb_published_revision h \<Longrightarrow> head_moves d d'"
proof -
  let ?r = "published_row x actor now r" and ?h = "published_head n h" and ?c = "finished CR_PUBLISHED actor now c"
  let ?d2 = "keep_head ?h (keep_row ?r d)"
  have n: "rv_revision r = n" "rv_key r = (i, n)" "r \<in> set (pt_revisions d)" using sql_row_Inr [OF row] by (auto simp: rv_key_def)
  have d'': "d' = keep_request ?c ?d2" by (simp add: d' publication_of_def n(1))
  have new: "rv_key ?r = (i, n)" "revision_ok ?r" "document_of i n (rv_document ?r)"
    using n ok row_document [OF ok row] by (auto simp: published_row_def rv_key_def revision_ok_def store_ok_def)
  note kr = keep_row_parts [OF ok row new]
  have h1: "sql_head i (keep_row ?r d) = Inr h" using kr(3) h by simp
  have ids: "pb_id h = i" "pb_id ?h = i" "pb_action_type ?h = pb_action_type h"
    using sql_head_Inr [OF h] by (simp_all add: published_head_def)
  have ok2: "store_ok ?d2" using sql_head_Inr [OF h1] ids by (intro store_ok_keep_head [OF kr(1)]) auto
  have h2: "sql_head i ?d2 = Inr ?h" by (rule sql_head_keep [OF h1 ids(2)])
  have r2: "sql_row i n ?d2 = Inr ?r" using kr(2) by (simp add: sql_row_def)
  note cr = sql_open_cr_for_Inr [OF c]
  have mem: "c \<in> set (pt_requests ?d2)" using cr by simp
  show "store_ok d'" unfolding d'' using cr by (intro store_ok_finished [OF ok2 mem]) auto
  show head: "sql_head i d' = Inr ?h" and pub: "sql_row i n d' = Inr ?r" using h2 r2 by (simp_all add: d'' sql_row_def)
  have "final d (keep_row ?r d)" using draft n new(1) by (intro final_keep_row [OF ok n(3)]) simp_all
  moreover have "final ?d2 d'" unfolding d'' using cr by (intro final_keep_request [OF ok2 mem]) (simp_all add: finished_def)
  ultimately show "final d d'" using final_trans final_add(3) by blast
  show "head_moves d d'" if "cr_base_revision c = pb_published_revision h"
    unfolding head_moves_def
  proof (intro allI impI)
    fix j hj assume j: "sql_head j d = Inr hj"
    show "\<exists>h'. sql_head j d' = Inr h' \<and> pb_generation hj \<le> pb_generation h'
       \<and> (pb_published_revision h' = pb_published_revision hj
          \<or> (\<exists>n r r' c. pb_published_revision h' = Some n \<and> sql_row j n d = Inr r \<and> rv_status r = DRAFT
               \<and> sql_row j n d' = Inr r' \<and> rv_status r' = PUBLISHED \<and> rv_document r' = rv_document r
               \<and> c \<in> set (pt_requests d) \<and> cr_key c = (j, n) \<and> cr_status c = CR_OPEN
               \<and> cr_base_revision c = pb_published_revision hj))"
    proof (cases "j = i")
      case True
      then show ?thesis using j h head row pub draft cr that
        by (intro exI [of _ ?h]) (auto simp: published_head_def published_row_def cr_key_def)
    next
      case False
      then have "sql_head j d' = sql_head j d" unfolding d'' using sql_head_kept [OF h1 ids(2)] by simp
      with j show ?thesis by simp
    qed
  qed
  show "sql_cr_row i (cr_id c) d' = Inr ?c"
    unfolding d'' using cr by (intro sql_cr_row_keep [OF ok2 mem]) (simp_all add: finished_def)
  show "sql_finish c CR_PUBLISHED actor now ?d2 = Inr d'" using sql_finish_eq [OF ok2 mem] cr d'' by simp
  show "mem_finish c CR_PUBLISHED actor now (as_memory ?d2) = (Inr ?c, as_memory d')" using mem_finish_as [OF ok2 mem] cr d'' by simp
qed

lemma publish_tracks:
  assumes ok: "store_ok d"
  shows "tracks (mem_publish i n x v g actor now (as_memory d)) (sql_publish i n x v g actor now d) d"
proof (cases "sql_head i d")
  case (Inr h)
  note head = this
  show ?thesis
  proof (cases "sql_row i n d")
    case (Inr r)
    note row = this
    show ?thesis
    proof (cases "sql_open_cr_for i n d")
      case (Inr c)
      note cr = this sql_open_cr_for_Inr [OF this]
      have base: "mem_current_base c (as_memory d) = current_base c h" using cr(2) head by (intro mem_current_base_as) simp
      show ?thesis
      proof (cases "current_base c h = Inr () \<and> require_draft r v = Inr () \<and> pb_generation h = g")
        case True
        let ?r = "published_row x actor now r" and ?h = "published_head n h" and ?h1 = "h\<lparr>pb_generation := g + 1\<rparr>"
        let ?d = "publication_of x actor now h r c d"
        have st: "rv_status r = DRAFT" using True by (auto simp: require_draft_def split: if_splits)
        note parts = publication_parts [OF ok head row cr(1) st refl, where x = x and actor = actor and now = now]
        have key: "rv_key r = (i, n)" "rv_key ?r = (i, n)" "r \<in> set (pt_revisions d)" "pb_id h = i" "h \<in> set (pt_playbooks d)"
          using sql_row_Inr [OF row] sql_head_Inr [OF head] by (simp_all add: rv_key_def published_row_def)
        have hh: "?h1\<lparr>pb_published_revision := Some n\<rparr> = ?h" using True by (simp add: published_head_def)
        have ids: "pb_id ?h1 = i" "pb_id ?h = i" "pb_generation ?h = g + 1" using key(4) True by (simp_all add: published_head_def)
        have okh: "store_ok (keep_head ?h1 d)" using key(4,5) by (intro store_ok_keep_head [OF ok]) simp_all
        have m1: "(as_memory (keep_head ?h1 d))\<lparr>mm_revisions := AList.update (i, n) ?r (mm_revisions (as_memory (keep_head ?h1 d)))\<rparr>
            = as_memory (keep_row ?r (keep_head ?h1 d))"
          by (rule as_memory_keep(2) [OF okh _ key(1,2)]) (simp add: key(3))
        have okr: "store_ok (keep_row ?r (keep_head ?h1 d))"
        proof (rule keep_row_parts(1) [OF okh])
          show "sql_row i n (keep_head ?h1 d) = Inr r" using row by (simp add: sql_row_def)
        qed (use key ok row_document [OF ok row] in \<open>auto simp: published_row_def revision_ok_def store_ok_def rv_key_def\<close>)
        have hd1: "sql_head i (keep_row ?r (keep_head ?h1 d)) = Inr ?h1"
          using sql_head_keep [OF head ids(1)] by (simp add: sql_head_def)
        have m2: "(as_memory (keep_row ?r (keep_head ?h1 d)))\<lparr>mm_heads := AList.update i ?h
              (mm_heads (as_memory (keep_row ?r (keep_head ?h1 d))))\<rparr> = as_memory (keep_head ?h (keep_row ?r d))"
          using as_memory_keep(1) [OF okr, of ?h1 ?h] sql_head_Inr [OF hd1] ids keep_head_again(1) [of ?h ?h1 ?r d] by simp
        obtain w where w: "sql_cr_view (finished CR_PUBLISHED actor now c) ?h ?d = Inr w"
          using cr(2) parts(3) by (simp add: sql_cr_view_def finished_def)
        have v: "mem_cr_view (finished CR_PUBLISHED actor now c) (as_memory ?d) = Inr w"
          using mem_cr_view_as [of "finished CR_PUBLISHED actor now c" ?d ?h] parts(2) cr(2) w by (simp add: finished_def)
        have d2: "(keep_head ?h1 d)\<lparr>pt_revisions := put_row rv_key ?r (pt_revisions (keep_head ?h1 d)),
            pt_playbooks := put_row pb_id ?h (pt_playbooks (keep_head ?h1 d))\<rparr> = keep_head ?h (keep_row ?r d)"
          using ids by (simp add: keep_head_def keep_row_def put_row_def)
        have "sql_publish i n x v g actor now d = Inr ((revision_view ?r (g + 1), w), ?d)"
          using True w by (simp add: sql_publish_def head row cr(1) sql_generation_eq [OF ok head] Let_def hh d2 [simplified] parts ids)
        moreover have "mem_publish i n x v g actor now (as_memory d) = (Inr (revision_view ?r (g + 1), w), as_memory ?d)"
          using True by (simp add: mem_publish_def mem_editable_as [OF head] sql_get_def head row cr(1) base
              mem_generation_as [OF ok head] m1 hd1 hd1 [simplified] hh m2 parts v ids)
        moreover have "cr_base_revision c = pb_published_revision h" using True by (auto simp: current_base_def split: if_splits)
        ultimately show ?thesis using parts(1,7,8) by (simp add: tracks_def)
      next
        case False
        then show ?thesis
          by (cases "current_base c h"; cases "require_draft r v")
            (auto simp: mem_publish_def sql_publish_def mem_editable_as [OF head] sql_get_def head row cr(1) base
              mem_generation_as [OF ok head] sql_generation_eq [OF ok head])
      qed
    qed (simp add: mem_publish_def sql_publish_def sql_get_def head row)
  qed (simp add: mem_publish_def sql_publish_def sql_get_def head)
qed (simp add: mem_publish_def sql_publish_def sql_get_def)


text \<open>A change request replaced by one with its id and key.\<close>

lemma keep_request_parts:
  assumes ok: "store_ok d" and c: "sql_cr_row i k d = Inr c" and h: "sql_head i d = Inr h"
    and c': "cr_id c' = k" "cr_key c' = cr_key c" "change_request_ok c'"
  defines "d' \<equiv> keep_request c' d"
  shows "store_ok d'" and "sql_cr_row i k d' = Inr c'" and "sql_head i d' = Inr h"
    and "(as_memory d)\<lparr>mm_requests := AList.update k c' (mm_requests (as_memory d))\<rparr> = as_memory d'"
    and "mem_cr_view c' (as_memory d') = sql_cr_view c' h d'" and "\<exists>w. sql_cr_view c' h d' = Inr w"
proof -
  have m: "c \<in> set (pt_requests d)" "cr_id c = k" "cr_playbook_id c = i" "cr_playbook_id c' = i"
    using sql_cr_row_Inr [OF c] c'(2) by (auto simp: cr_key_def)
  show "store_ok d'" unfolding d'_def using m c' by (intro store_ok_keep_request [OF ok m(1)]) simp_all
  show "sql_cr_row i k d' = Inr c'" using sql_cr_row_keep [OF ok m(1), of c'] m c' by (simp add: d'_def)
  show h': "sql_head i d' = Inr h" using h by (simp add: d'_def sql_head_def)
  show "(as_memory d)\<lparr>mm_requests := AList.update k c' (mm_requests (as_memory d))\<rparr> = as_memory d'"
    using as_memory_keep(3) [OF ok m(1), of c'] m c' by (simp add: d'_def)
  show "mem_cr_view c' (as_memory d') = sql_cr_view c' h d'" using h' m by (intro mem_cr_view_as) simp
  obtain r where "r \<in> set (pt_revisions d)" "rv_key r = cr_key c" using ok m(1) by (force simp: store_ok_def)
  then have "sql_row i (cr_revision c') d = Inr r" using ok m c'(2) by (intro sql_row_mem) (auto simp: store_ok_def cr_key_def)
  then show "\<exists>w. sql_cr_view c' h d' = Inr w" by (simp add: sql_cr_view_def m d'_def sql_row_def)
qed

lemma close_tracks:
  assumes ok: "store_ok d"
  shows "tracks (mem_close_change_request i k actor now (as_memory d)) (sql_close_change_request i k actor now d) d"
proof (cases "sql_head i d")
  case (Inr h)
  note head = this
  show ?thesis
  proof (cases "sql_cr_row i k d")
    case (Inr c)
    note c = this sql_cr_row_Inr [OF this]
    show ?thesis
    proof (cases "cr_status c = CR_OPEN")
      case True
      let ?c = "finished CR_CLOSED actor now c"
      have "change_request_ok ?c" using ok c True by (intro change_request_ok_finished) (auto simp: store_ok_def)
      then have new: "cr_id ?c = k" "cr_key ?c = cr_key c" "change_request_ok ?c" using c by (simp_all add: finished_def cr_key_def)
      note parts = keep_request_parts [OF ok c(1) head new]
      obtain w where w: "sql_cr_view ?c h (keep_request ?c d) = Inr w" using parts(6) by blast
      have f: "sql_finish c CR_CLOSED actor now d = Inr (keep_request ?c d)"
        "mem_finish c CR_CLOSED actor now (as_memory d) = (Inr ?c, as_memory (keep_request ?c d))"
        using sql_finish_eq [OF ok] mem_finish_as [OF ok] c True by auto
      show ?thesis
        using True parts(1,2,5) w final_keep_request [OF ok, of c ?c] c(2) new(1) head_moves_none [of "keep_request ?c d" d]
        by (simp add: tracks_def mem_close_change_request_def sql_close_change_request_def head c(1) mem_cr_as [OF ok] f)
    qed (simp add: mem_close_change_request_def sql_close_change_request_def head c(1) mem_cr_as [OF ok])
  qed (simp add: mem_close_change_request_def sql_close_change_request_def head mem_cr_as [OF ok])
qed (simp add: mem_close_change_request_def sql_close_change_request_def)

definition retitled :: "int \<Rightarrow> string option \<Rightarrow> string option \<Rightarrow> change_request \<Rightarrow> change_request" where
  "retitled v title description c =
     c\<lparr>cr_version := v + 1, cr_title := (case title of Some t \<Rightarrow> t | None \<Rightarrow> cr_title c),
       cr_description := (case description of Some t \<Rightarrow> t | None \<Rightarrow> cr_description c)\<rparr>"

lemma sql_update_eq:
  assumes ok: "store_ok d" and head: "sql_head i d = Inr h" and c: "sql_cr_row i k d = Inr c" and op: "cr_status c = CR_OPEN"
  shows "sql_update_change_request i k v t s d =
     (if cr_version c \<noteq> v then Inl (PlaybookConflict ''Change request changed; refresh before editing.'')
      else if \<not> change_request_ok (retitled v t s c) then Inl (OtherError (IntegrityError ''admin.playbook_change_requests''))
      else (let d' = keep_request (retitled v t s c) d in
        bindR (sql_cr_row i k d') (\<lambda>c'. bindR (sql_cr_view c' h d') (\<lambda>w. Inr (w, d')))))"
proof -
  have m: "c \<in> set (pt_requests d)" "cr_id c = k" using sql_cr_row_Inr [OF c] by auto
  have ids: "distinct (map cr_id (pt_requests d))" by (rule request_ids(1) [OF ok])
  have only: "x = c" if "x \<in> set (pt_requests d)" "cr_id x = cr_id c" for x
    using that m(1) ids by (metis find_key_distinct option.inject)
  have find: "List.find (\<lambda>x. cr_id x = cr_id c) (pt_requests d) = Some c" using find_key_distinct [OF ids m(1)] .
  have upd: "update_where (\<lambda>x. cr_id x = cr_id c \<and> (cr_status x = CR_OPEN \<and> cr_version x = v)) (retitled v t s) (pt_requests d)
      = (if cr_status c = CR_OPEN \<and> cr_version c = v then (1, put_row cr_id (retitled v t s c) (pt_requests d)) else (0, pt_requests d))"
    by (rule update_where_key [OF ids find]) (simp add: retitled_def)
  have bad: "list_ex (\<lambda>x. (cr_id x = cr_id c \<and> cr_status x = CR_OPEN \<and> cr_version x = v) \<and> \<not> change_request_ok (retitled v t s x)) (pt_requests d)
      \<longleftrightarrow> cr_version c = v \<and> \<not> change_request_ok (retitled v t s c)"
    using m(1) op only by (auto simp: list_ex_iff)
  have f: "(\<lambda>x. x\<lparr>cr_version := v + 1, cr_title := (case t of Some t \<Rightarrow> t | None \<Rightarrow> cr_title x),
       cr_description := (case s of Some t \<Rightarrow> t | None \<Rightarrow> cr_description x)\<rparr>) = retitled v t s"
    by (rule ext) (simp add: retitled_def)
  show ?thesis
    using upd bad op by (auto simp: sql_update_change_request_def head c f Let_def keep_request_def split: option.splits)
qed

lemma update_tracks:
  assumes ok: "store_ok d" and fits: "request_wf (Update_Request i k v t s)"
  shows "tracks (mem_update_change_request i k v t s (as_memory d)) (sql_update_change_request i k v t s d) d"
proof (cases "sql_head i d")
  case (Inr h)
  note head = this
  show ?thesis
  proof (cases "sql_cr_row i k d")
    case (Inr c)
    note c = this sql_cr_row_Inr [OF this]
    have retitled_ok: "change_request_ok (retitled v t s c)" if "cr_version c = v"
      using ok c fits that by (auto simp: store_ok_def change_request_ok_def retitled_def text_fits_def split: option.split)
    show ?thesis
    proof (cases "cr_status c = CR_OPEN \<and> cr_version c = v \<and> change_request_ok (retitled v t s c)")
      case True
      let ?c = "retitled v t s c"
      have new: "cr_id ?c = k" "cr_key ?c = cr_key c" "change_request_ok ?c" using c True by (simp_all add: retitled_def cr_key_def)
      note parts = keep_request_parts [OF ok c(1) head new]
      obtain w where w: "sql_cr_view ?c h (keep_request ?c d) = Inr w" using parts(6) by blast
      have same: "c\<lparr>cr_title := (case t of Some t \<Rightarrow> t | None \<Rightarrow> cr_title c),
          cr_description := (case s of Some t \<Rightarrow> t | None \<Rightarrow> cr_description c), cr_version := v + 1\<rparr> = ?c"
        by (simp add: retitled_def)
      have "mem_update_change_request i k v t s (as_memory d) = (Inr w, as_memory (keep_request ?c d))"
        using True parts(4,5) w c(2) by (simp add: mem_update_change_request_def head c(1) mem_cr_as [OF ok] Let_def same)
      then show ?thesis
        using True parts(1,2) w final_keep_request [OF ok, of c ?c] c(2) new(1) head_moves_none [of "keep_request ?c d" d]
        by (simp add: tracks_def sql_update_eq [OF ok head c(1)] Let_def)
    next
      case False
      then show ?thesis
        using sql_update_eq [OF ok head c(1), of v t s] retitled_ok
        by (cases "cr_status c = CR_OPEN")
          (auto simp: tracks_def mem_update_change_request_def sql_update_change_request_def head c(1) mem_cr_as [OF ok] Let_def)
    qed
  qed (simp add: mem_update_change_request_def sql_update_change_request_def head mem_cr_as [OF ok])
qed (simp add: mem_update_change_request_def sql_update_change_request_def)


definition add_playbook :: "playbook \<Rightarrow> playbook_db \<Rightarrow> playbook_db" where
  "add_playbook h d = d\<lparr>pt_playbooks := pt_playbooks d @ [h]\<rparr>"

lemma add_playbook_frame [simp]:
  "pt_playbooks (add_playbook h d) = pt_playbooks d @ [h]" "pt_revisions (add_playbook h d) = pt_revisions d"
  "pt_requests (add_playbook h d) = pt_requests d"
  by (simp_all add: add_playbook_def)

definition name_taken :: "playbook \<Rightarrow> playbook_db \<Rightarrow> bool" where
  "name_taken h d \<longleftrightarrow> pb_id h \<in> pb_id ` set (pt_playbooks d) \<or> pb_action_type h \<in> pb_action_type ` set (pt_playbooks d)"

lemma head_of_document_Inr:
  assumes "head_of_document document = Inr h"
  shows "pb_published_revision h = None" "pb_generation h = 1" "dict_get document ''id'' = PStr i \<Longrightarrow> pb_id h = i"
proof -
  show "pb_published_revision h = None" "pb_generation h = 1" using assms by (auto simp: head_of_document_def)
  show "pb_id h = i" if "dict_get document ''id'' = PStr i"
    using assms that by (cases document) (auto simp: head_of_document_def text_item_def dict_items_def text_of_def split: option.splits)
qed

text \<open>A new playbook with its first draft.\<close>

lemma added_playbook:
  assumes ok: "store_ok d" and h: "head_of_document document = Inr h" "\<not> name_taken h d"
    and wf: "dict_get document ''id'' = PStr i" "dict_get document ''revision'' = PInt 1"
    and row_def: "row = new_draft (pb_id h) 1 document None actor now" and d'_def: "d' = add_row row (add_playbook h d)"
  shows "bindR (insert_playbook h d) (insert_revision row) = Inr d'" and "store_ok d'" and "sql_head i d' = Inr h"
    and "pb_id h = i" and "rv_key row \<notin> rv_key ` set (pt_revisions d)"
    and "(as_memory d)\<lparr>mm_heads := AList.update i h (mm_heads (as_memory d))\<rparr> = as_memory (add_playbook h d)"
    and "mem_draft document actor now None (as_memory (add_playbook h d)) = (Inr row, as_memory d')"
proof -
  note hd = head_of_document_Inr [OF h(1)]
  show i: "pb_id h = i" by (rule hd(3) [OF wf(1)])
  have none: "i \<notin> rv_playbook_id ` set (pt_revisions d)" using ok h(2) i by (auto simp: store_ok_def name_taken_def)
  have key: "rv_key row = (i, 1)" "rv_playbook_id row = i" "rv_revision row = 1" "rv_document row = document" "revision_ok row"
    by (simp_all add: row_def new_draft_def rv_key_def i revision_ok_def)
  show fresh: "rv_key row \<notin> rv_key ` set (pt_revisions d)" using none unfolding key(1) by (force simp: rv_key_def)
  have ok1: "store_ok (add_playbook h d)" using ok h(2) by (auto simp: store_ok_def name_taken_def)
  show "store_ok d'" unfolding d'_def
    by (rule store_ok_add_row [OF ok1]) (use fresh key i wf in \<open>simp_all add: document_of_def py_eq_def\<close>)
  show "bindR (insert_playbook h d) (insert_revision row) = Inr d'"
    using h(2) fresh key i unfolding d'_def
    by (simp add: insert_playbook_def name_taken_def insert_revision_def add_row_def add_playbook_def)
  have "List.find (\<lambda>x. pb_id x = i) (pt_playbooks d) = None"
    using h(2) i unfolding find_None_iff' name_taken_def by (metis image_eqI)
  then show "sql_head i d' = Inr h" using i by (simp add: sql_head_find d'_def find_append)
  show "(as_memory d)\<lparr>mm_heads := AList.update i h (mm_heads (as_memory d))\<rparr> = as_memory (add_playbook h d)"
    using h(2) i by (simp add: as_memory_def update_keyed_new name_taken_def)
  have items: "text_item document ''id'' = Inr i" "int_item document ''revision'' = Inr 1"
    using wf by (cases document; auto simp: text_item_def int_item_def dict_items_def text_of_def split: option.splits)+
  have "(as_memory (add_playbook h d))\<lparr>mm_revisions := AList.update (i, 1) row (mm_revisions (as_memory (add_playbook h d)))\<rparr> = as_memory d'"
    using fresh key(1) unfolding d'_def by (simp add: as_memory_def update_keyed_new)
  then show "mem_draft document actor now None (as_memory (add_playbook h d)) = (Inr row, as_memory d')"
    using row_def i by (simp add: mem_draft_def items Let_def)
qed

lemma create_tracks:
  assumes ok: "store_ok d" and wf: "dict_get document ''id'' = PStr i" "dict_get document ''revision'' = PInt 1"
    and fits: "text_fits (title_or t (default_title CR_CREATE i None)) s"
  shows "tracks (mem_create document actor now t s (as_memory d)) (sql_create document actor now t s d) d"
proof (cases "head_of_document document")
  case (Inr h)
  note head = this
  show ?thesis
  proof (cases "name_taken h d")
    case True
    then have "pb_id h \<in> fst ` set (mm_heads (as_memory d))
        \<or> list_ex (\<lambda>x. pb_action_type x = pb_action_type h) (map snd (mm_heads (as_memory d)))"
      by (auto simp: name_taken_def as_memory_def list_ex_iff image_image)
    moreover have "insert_playbook h d = Inl (IntegrityError ''admin.playbooks'')" using True by (auto simp: insert_playbook_def name_taken_def)
    ultimately show ?thesis by (simp add: mem_create_def sql_create_def head Let_def)
  next
    case False
    note new = added_playbook(1,2,3,5,7) [OF ok head False wf refl refl, where actor = actor and now = now]
      and named = added_playbook(4,6) [OF ok head False wf refl refl]
    note hd = head_of_document_Inr(1,2) [OF head]
    let ?row = "new_draft (pb_id h) 1 document None actor now" and ?t = "title_or t (default_title CR_CREATE (pb_id h) None)"
    let ?d = "add_row ?row (add_playbook h d)"
    have free: "\<not> (pb_id h \<in> fst ` set (mm_heads (as_memory d))
        \<or> list_ex (\<lambda>x. pb_action_type x = pb_action_type h) (map snd (mm_heads (as_memory d))))"
      using False by (auto simp: name_taken_def as_memory_def list_ex_iff image_iff)
    have rowi: "rv_playbook_id ?row = i" by (simp add: new_draft_def named(1))
    have cr: "rv_key ?row \<notin> cr_key ` set (pt_requests ?d)" using new(4) ok by (auto simp: store_ok_def)
    note opened = open_eq [OF new(2) new(3) [folded rowi] _ cr refl refl refl, of CR_CREATE None ?t s actor now]
    have sql: "sql_create document actor now t s d = sql_open h ?row CR_CREATE None ?t s actor now ?d"
      by (simp add: sql_create_def head Let_def new(1) del: bindR_Inr_iff)
    have mem: "mem_create document actor now t s (as_memory d) = mem_open ?row CR_CREATE None ?t s actor now (as_memory ?d)"
      using free new(5) named by (simp add: mem_create_def head)
    have moves: "final d (add_request c ?d)" "head_moves d (add_request c ?d)" for c
      by (auto simp: final_def head_moves_def sql_head_find find_append split: option.split)
    show ?thesis unfolding sql mem using opened moves fits by (simp add: tracks_def new_request_ok named(1))
  qed
qed (simp add: mem_create_def sql_create_def)


section \<open>Sequences of requests\<close>

lemma tracks_replies:
  "tracks (a (as_memory d)) r d \<Longrightarrow> tracks (as_draft a (as_memory d)) (draft_reply r) d"
  "tracks (b (as_memory d)) r' d \<Longrightarrow> tracks (as_request b (as_memory d)) (request_reply r') d"
  by (auto simp: tracks_def as_draft_def as_request_def draft_reply_def request_reply_def split: sum.splits prod.splits)

lemma call_tracks:
  assumes "store_ok d" "request_wf q"
  shows "tracks (mem_step actor now q (as_memory d)) (sql_call actor now q d) d"
  using assms
  by (cases q) (auto intro!: tracks_replies create_tracks create_draft_tracks restore_tracks recreate_tracks edit_tracks publish_tracks
      update_tracks close_tracks)

type_synonym playbook_call = "string \<times> int \<times> playbook_request"

definition call_wf :: "playbook_call \<Rightarrow> bool" where
  "call_wf q = request_wf (snd (snd q))"

definition sql_serve :: "playbook_call \<Rightarrow> playbook_db \<Rightarrow> playbook_reply pres \<times> playbook_db" where
  "sql_serve q d = (case q of (actor, now, request) \<Rightarrow> sql_step actor now request d)"

definition mem_serve :: "playbook_call \<Rightarrow> playbook_reply mem_op" where
  "mem_serve q m = (case q of (actor, now, request) \<Rightarrow> mem_step actor now request m)"

fun serve_all :: "(playbook_call \<Rightarrow> 's \<Rightarrow> playbook_reply pres \<times> 's) \<Rightarrow> playbook_call list \<Rightarrow> 's \<Rightarrow> playbook_reply pres list \<times> 's" where
  "serve_all serve [] s = ([], s)"
| "serve_all serve (q # qs) s = (let (r, s1) = serve q s; (rs, s2) = serve_all serve qs s1 in (r # rs, s2))"

lemma serve_all_Cons [simp]:
  "serve_all serve (q # qs) s =
     (fst (serve q s) # fst (serve_all serve qs (snd (serve q s))), snd (serve_all serve qs (snd (serve q s))))"
  by (simp add: Let_def case_prod_unfold)

declare serve_all.simps(2) [simp del]

lemma serve_parts:
  assumes ok: "store_ok d" and wf: "call_wf q"
  shows "mem_serve q (as_memory d) = (fst (sql_serve q d), as_memory (snd (sql_serve q d)))"
    and "store_ok (snd (sql_serve q d))" and "final d (snd (sql_serve q d))" and "head_moves d (snd (sql_serve q d))"
proof -
  obtain actor now request where q: "q = (actor, now, request)" by (cases q)
  have "tracks (mem_step actor now request (as_memory d)) (sql_call actor now request d) d"
    using wf by (intro call_tracks [OF ok]) (simp add: q call_wf_def)
  then show "mem_serve q (as_memory d) = (fst (sql_serve q d), as_memory (snd (sql_serve q d)))"
    "store_ok (snd (sql_serve q d))" "final d (snd (sql_serve q d))" "head_moves d (snd (sql_serve q d))"
    using ok head_moves_none [of d d]
    by (cases "sql_call actor now request d"; auto simp: tracks_def q mem_serve_def sql_serve_def sql_step_def)+
qed

text \<open>The contract both adapters implement, and what their clients may rely on over any sequence of requests.\<close>

locale playbook_adapter =
  fixes serve :: "playbook_call \<Rightarrow> 's \<Rightarrow> playbook_reply pres \<times> 's"
    and valid :: "'s \<Rightarrow> bool"
    and revisions :: "'s \<Rightarrow> playbook_revision list"
    and requests :: "'s \<Rightarrow> change_request list"
  assumes serve_valid: "valid s \<Longrightarrow> call_wf q \<Longrightarrow> valid (snd (serve q s))"
    and serve_revision: "valid s \<Longrightarrow> call_wf q \<Longrightarrow> r \<in> set (revisions s) \<Longrightarrow> rv_status r = PUBLISHED \<Longrightarrow>
      r \<in> set (revisions (snd (serve q s)))"
    and serve_request: "valid s \<Longrightarrow> call_wf q \<Longrightarrow> c \<in> set (requests s) \<Longrightarrow> cr_status c \<noteq> CR_OPEN \<Longrightarrow>
      c \<in> set (requests (snd (serve q s)))"
    and serve_refused: "valid s \<Longrightarrow> call_wf q \<Longrightarrow> fst (serve q s) = Inl e \<Longrightarrow> snd (serve q s) = s"
begin

lemma run_valid: "list_all call_wf qs \<Longrightarrow> valid s \<Longrightarrow> valid (snd (serve_all serve qs s))"
  by (induction qs arbitrary: s) (simp_all add: serve_valid)

lemma run_keeps:
  assumes "list_all call_wf qs" "valid s"
  shows "r \<in> set (revisions s) \<Longrightarrow> rv_status r = PUBLISHED \<Longrightarrow> r \<in> set (revisions (snd (serve_all serve qs s)))"
    and "c \<in> set (requests s) \<Longrightarrow> cr_status c \<noteq> CR_OPEN \<Longrightarrow> c \<in> set (requests (snd (serve_all serve qs s)))"
  using assms
proof (induction qs arbitrary: s)
  case (Cons q qs)
  {
    case 1
    with Cons.IH(1) [of "snd (serve q s)"] serve_revision [of s q r] serve_valid [of s q]
    show ?case by simp
  next
    case 2
    with Cons.IH(2) [of "snd (serve q s)"] serve_request [of s q c] serve_valid [of s q]
    show ?case by simp
  }
qed simp_all

end

interpretation sql: playbook_adapter sql_serve store_ok pt_revisions pt_requests
proof
  fix s q e assume "fst (sql_serve q s) = Inl e"
  then show "snd (sql_serve q s) = s" by (auto simp: sql_serve_def sql_step_def split: prod.splits sum.splits)
qed (use serve_parts in \<open>auto simp: final_def\<close>)

definition memory_ok :: "memory_store \<Rightarrow> bool" where
  "memory_ok m \<longleftrightarrow> (\<exists>d. store_ok d \<and> m = as_memory d)"

lemma as_memory_rows: "map snd (mm_revisions (as_memory d)) = pt_revisions d" "map snd (mm_requests (as_memory d)) = pt_requests d"
  by (simp_all add: as_memory_def o_def)

interpretation memory: playbook_adapter mem_serve memory_ok "\<lambda>m. map snd (mm_revisions m)" "\<lambda>m. map snd (mm_requests m)"
proof
  fix m q e assume "memory_ok m" and q: "call_wf q" and e: "fst (mem_serve q m) = Inl e"
  then obtain d where d: "store_ok d" "m = as_memory d" by (auto simp: memory_ok_def)
  with e serve_parts(1) [OF d(1) q] sql.serve_refused [OF d(1) q] show "snd (mem_serve q m) = m" by simp
next
  fix m q r c assume "memory_ok m" and q: "call_wf q"
  then obtain d where d: "store_ok d" "m = as_memory d" by (auto simp: memory_ok_def)
  have after: "snd (mem_serve q m) = as_memory (snd (sql_serve q d))" using serve_parts(1) [OF d(1) q] d(2) by simp
  show "memory_ok (snd (mem_serve q m))" unfolding after memory_ok_def using serve_parts(2) [OF d(1) q] by blast
  show "r \<in> set (map snd (mm_revisions m)) \<Longrightarrow> rv_status r = PUBLISHED \<Longrightarrow> r \<in> set (map snd (mm_revisions (snd (mem_serve q m))))"
    "c \<in> set (map snd (mm_requests m)) \<Longrightarrow> cr_status c \<noteq> CR_OPEN \<Longrightarrow> c \<in> set (map snd (mm_requests (snd (mem_serve q m))))"
    using sql.serve_revision [OF d(1) q, of r] sql.serve_request [OF d(1) q, of c] unfolding after as_memory_rows
    by (simp_all add: d(2) as_memory_rows del: list.set_map)
qed

lemma serve_all_agree:
  assumes "list_all call_wf qs" "store_ok d"
  shows "serve_all mem_serve qs (as_memory d) = (fst (serve_all sql_serve qs d), as_memory (snd (serve_all sql_serve qs d)))"
  using assms by (induction qs arbitrary: d) (simp_all add: serve_parts)

end
