(* ===== verification/Playbook_Catalogue.thy ===== *)
theory Playbook_Catalogue
  imports Playbook_Adapters
begin

text \<open>
  Reading the store: the snapshot from which the action registry is loaded, the listings of the administration, and the
  bootstrap of an empty store from the documents of the release, for both adapters of
  \<^verbatim>\<open>services/playbook_repository.py\<close>; then the property of the store over sequences of requests.
\<close>

section \<open>The snapshot\<close>









section \<open>Listings\<close>


record revision_summary =
  rs_revision :: int
  rs_status :: revision_status
  rs_digest :: "string option"
  rs_draft_version :: int
  rs_base_revision :: "int option"
  rs_updated_at :: int

definition summary_of :: "'a playbook_revision_scheme \<Rightarrow> revision_summary" where
  "summary_of r =
     \<lparr>rs_revision = rv_revision r, rs_status = rv_status r, rs_digest = rv_digest r, rs_draft_version = rv_draft_version r,
      rs_base_revision = rv_base_revision r, rs_updated_at = rv_updated_at r\<rparr>"













definition sql_lock :: "string \<Rightarrow> playbook_db \<Rightarrow> int pres" where
  "sql_lock playbook_id d = bindR (sql_head playbook_id d) (\<lambda>head. Inr (pb_generation head))"

definition sql_lock_published :: "string \<Rightarrow> playbook_db \<Rightarrow> (int \<times> string option) pres" where
  "sql_lock_published playbook_id d =
     bindR (sql_head playbook_id d) (\<lambda>head.
     case pb_published_revision head of
       None \<Rightarrow> Inl (PlaybookNotFound ''No published playbook revision.'')
     | Some n \<Rightarrow> bindR (sql_row playbook_id n d) (\<lambda>row. Inr (rv_revision row, rv_digest row)))"

definition mem_lock :: "string \<Rightarrow> memory_store \<Rightarrow> int pres" where
  "mem_lock playbook_id m = bindR (mem_head playbook_id m) (\<lambda>head. Inr (pb_generation head))"

definition mem_lock_published :: "string \<Rightarrow> memory_store \<Rightarrow> (int \<times> string option) pres" where
  "mem_lock_published playbook_id m =
     bindR (mem_head playbook_id m) (\<lambda>head.
     case pb_published_revision head of
       None \<Rightarrow> Inl (PlaybookNotFound ''No published playbook revision.'')
     | Some n \<Rightarrow> bindR (mem_get playbook_id n m) (\<lambda>row. Inr (n, rv_digest row)))"

section \<open>Bootstrap\<close>

fun each :: "('a \<Rightarrow> 's \<Rightarrow> 's pres) \<Rightarrow> 'a list \<Rightarrow> 's \<Rightarrow> 's pres" where
  "each f [] s = Inr s"
| "each f (x # xs) s = bindR (f x s) (each f xs)"

definition document_revision :: "pyval \<Rightarrow> int" where
  "document_revision document = (case dict_get document ''revision'' of PInt n \<Rightarrow> n | _ \<Rightarrow> 0)"

definition document_id :: "pyval \<Rightarrow> string" where
  "document_id document = text_of (dict_get document ''id'')"

definition bootstrap_row :: "(pyval \<Rightarrow> string) \<Rightarrow> string \<Rightarrow> int \<Rightarrow> pyval \<Rightarrow> playbook_revision" where
  "bootstrap_row digest actor now document =
     \<lparr>rv_playbook_id = document_id document, rv_revision = document_revision document, rv_status = PUBLISHED,
      rv_document = document, rv_digest = Some (definition_digest digest document), rv_draft_version = 1, rv_created_by = actor,
      rv_updated_by = actor, rv_created_at = now, rv_updated_at = now, rv_published_at = Some now, rv_base_revision = None\<rparr>"

text \<open>\<open>max(versions, key=...)\<close>: the first of the largest.\<close>

fun latest_version :: "pyval list \<Rightarrow> pyval" where
  "latest_version [] = PNone"
| "latest_version [doc] = doc"
| "latest_version (doc # doc' # docs) = latest_version ((if document_revision doc < document_revision doc' then doc' else doc) # docs)"

definition bootstrap_head :: "pyval \<Rightarrow> playbook" where
  "bootstrap_head document =
     \<lparr>pb_id = document_id document, pb_action_type = text_of (dict_get document ''action_type''),
      pb_contract_version = text_of (dict_get document ''contract_version''),
      pb_operation = text_of (dict_get document ''operation''), pb_published_revision = Some (document_revision document),
      pb_generation = 1\<rparr>"

definition bootstrap_group :: "(pyval \<Rightarrow> string) \<Rightarrow> string \<Rightarrow> int \<Rightarrow> pyval list \<Rightarrow> playbook_db \<Rightarrow> playbook_db pres" where
  "bootstrap_group digest actor now versions d =
     bindR (from_py (insert_playbook (bootstrap_head (latest_version versions)) d))
       (each (\<lambda>doc d. from_py (insert_revision (bootstrap_row digest actor now doc) d)) versions)"

text \<open>\<open>groups.setdefault(document["id"], []).append(document)\<close>\<close>

definition groups_of :: "pyval list \<Rightarrow> pyval list list" where
  "groups_of documents =
     map (\<lambda>i. filter (\<lambda>doc. document_id doc = i) documents) (rev (remdups (rev (map document_id documents))))"

definition bootstrap_catalog ::
    "(pyval \<Rightarrow> string) \<Rightarrow> (string \<times> operation) list \<Rightarrow> pyval list \<Rightarrow> int \<Rightarrow> string \<Rightarrow> playbook_db \<Rightarrow> playbook_db pres" where
  "bootstrap_catalog digest ops documents now actor d =
     (if pt_playbooks d \<noteq> [] then Inr d
      else bindR (from_py (mapR (validate_definition ops) documents)) (\<lambda>docs.
           each (bootstrap_group digest actor now) (groups_of docs) d))"

section \<open>The adapters read alike\<close>



lemma reads_lock [simp]: "mem_lock i (as_memory d) = sql_lock i d"
  by (simp add: mem_lock_def sql_lock_def)

lemma summary_of_view [simp]: "summary_of (revision_view r g) = summary_of r"
  by (simp add: summary_of_def revision_view_def playbook_revision.defs)

lemma reads_lock_published [simp]: "mem_lock_published i (as_memory d) = sql_lock_published i d"
proof (cases "sql_head i d")
  case (Inr h)
  have "bindR (sql_get i n d) (\<lambda>row. Inr (n, rv_digest row)) = bindR (sql_row i n d) (\<lambda>row. Inr (rv_revision row, rv_digest row))" for n
    using Inr by (cases "sql_row i n d") (auto simp: sql_get_def revision_view_def playbook_revision.defs dest!: sql_row_Inr)
  then show ?thesis using Inr by (auto simp: mem_lock_published_def sql_lock_published_def split: option.split)
qed (simp add: mem_lock_published_def sql_lock_published_def)











section \<open>A bootstrapped store\<close>

lemma each_inv: "each f xs s = Inr s' \<Longrightarrow> P s \<Longrightarrow> (\<And>x s s'. x \<in> set xs \<Longrightarrow> P s \<Longrightarrow> f x s = Inr s' \<Longrightarrow> P s') \<Longrightarrow> P s'"
proof (induction xs arbitrary: s)
  case (Cons x xs)
  then obtain s1 where s1: "f x s = Inr s1" "each f xs s1 = Inr s'" by auto
  show ?case by (rule Cons.IH [OF s1(2)]) (use Cons.prems s1(1) in \<open>auto intro: Cons.prems(3)\<close>)
qed simp

lemma document_of_identity:
  assumes "check_identity doc = Inr ()"
  shows "document_of (document_id doc) (document_revision doc) doc"
proof -
  have "int_at_least 1 (dict_get doc ''revision'')" "text_field 128 (dict_get doc ''id'')"
    using assms unfolding check_identity_def Let_def require_def by (simp_all split: if_splits)
  then obtain n i where "dict_get doc ''revision'' = PInt n" "dict_get doc ''id'' = PStr i"
    by (auto simp: int_at_least_def text_field_def split: pyval.splits)
  then show ?thesis by (simp add: document_of_def document_id_def document_revision_def text_of_def py_eq_def)
qed

lemma bootstrap_store_ok:
  assumes "bootstrap_catalog digest ops documents now actor d = Inr d'" "store_ok d"
  shows "store_ok d'"
proof (cases "pt_playbooks d = []")
  case True
  obtain docs where docs: "mapR (validate_definition ops) documents = Inr docs"
    and run: "each (bootstrap_group digest actor now) (groups_of docs) d = Inr d'"
    using assms(1) True by (auto simp: bootstrap_catalog_def from_py_def split: sum.splits)
  show ?thesis
  proof (rule each_inv [where P = store_ok, OF run assms(2)])
    fix versions s s' assume v: "versions \<in> set (groups_of docs)" and "store_ok s" and g: "bootstrap_group digest actor now versions s = Inr s'"
    have ids: "document_of (document_id doc) (document_revision doc) doc" if "doc \<in> set versions" for doc
    proof -
      have "doc \<in> set docs" using that v by (auto simp: groups_of_def)
      then obtain doc' where "validate_definition ops doc' = Inr doc" using mapR_list_all2 [OF docs] by (force simp: list_all2_conv_all_nth in_set_conv_nth)
      then show ?thesis by (rule validated_definition) (rule document_of_identity)
    qed
    let ?h = "bootstrap_head (latest_version versions)"
    obtain s1 where s1: "insert_playbook ?h s = Inr s1"
      and rows: "each (\<lambda>doc d. from_py (insert_revision (bootstrap_row digest actor now doc) d)) versions s1 = Inr s'"
      using g by (auto simp: bootstrap_group_def from_py_def split: sum.splits)
    have ok1: "store_ok s1" using s1 \<open>store_ok s\<close> by (auto simp: insert_playbook_def store_ok_def split: if_splits)
    show "store_ok s'"
    proof (rule each_inv [where P = store_ok, OF rows ok1])
      fix doc t t' assume "doc \<in> set versions" and t: "store_ok t" "from_py (insert_revision (bootstrap_row digest actor now doc) t) = Inr t'"
      let ?r = "bootstrap_row digest actor now doc"
      have "document_of (rv_playbook_id ?r) (rv_revision ?r) (rv_document ?r)"
        using ids \<open>doc \<in> set versions\<close> by (simp add: bootstrap_row_def)
      then show "store_ok t'"
        using t store_ok_add_row [OF t(1), of ?r] by (auto simp: insert_revision_def add_row_def from_py_def split: if_splits)
    qed
  qed
qed (use assms in \<open>simp add: bootstrap_catalog_def\<close>)


section \<open>The store over sequences of requests\<close>








end
