(* ===== verification/Spec2Isabelle.thy ===== *)
theory Spec2Isabelle
  imports Ledger Accounts Fraud_Scoring Fraud_Store Card_Network Card_Views Fraud_Triage Decisioning
    Proposal_Service Bundled_Catalogue Deposit_Opening Playbook_Catalogue
begin

text \<open>
  \<^bold>\<open>A model of the banking service of the FSI GECX bundle.\<close>

  The repository is a demonstration bank.  Its core is \<^verbatim>\<open>src/banking-service\<close>, a Python service over a
  relational database: a double-entry journal, credit cards with a card network in front of them, deposit
  accounts, fraud detection with a customer-driven triage, and a deterministic credit decision for limit
  increases.  Agents, web client, data generators and deployment scripts are callers of this service.

  \<^bold>\<open>State.\<close>  One record per ORM row and one list per table; all tables together are \<open>bank_db\<close>
  (theory \<open>Bank_State\<close>).  A service function takes the database and returns \<open>py_error + (result \<times> database)\<close>;
  the transaction frame \<open>atomically\<close> rolls back on an exception.  Identifiers are the text of their UUIDs and
  \<open>uuid4()\<close> draws from the stream \<open>d_uuid\<close>.  Times are microseconds, money is an integer count of minor units
  (Python integers do not overflow), floats are the rationals they denote with rounding \<open>fl\<close> after every
  operation.  Rows locked by another transaction are the field \<open>d_locked\<close>, which \<open>FOR UPDATE NOWAIT\<close> refuses.

  \<^bold>\<open>Theories and the code they model\<close> (paths under \<^verbatim>\<open>src/banking-service\<close>).
  \<^item> \<open>Prelude\<close>: Python values, exceptions, sequencing, tables, strings.  \<open>Floats\<close>: double rounding.
  \<^item> \<open>Money\<close>: \<^verbatim>\<open>models/money.py\<close>, \<^verbatim>\<open>services/money_presentation.py\<close>, \<^verbatim>\<open>utils/support_locale.py\<close>.
  \<^item> \<open>Bank_State\<close>: the tables of \<^verbatim>\<open>models/\<close> and \<^verbatim>\<open>utils/audit.py\<close> (the transactional outbox).
  \<^item> \<open>Journal\<close>: \<^verbatim>\<open>services/financial_journal.py\<close>; \<open>Reconciliation\<close>: \<^verbatim>\<open>services/money_reconciliation.py\<close>;
    \<open>Ledger\<close>: \<^verbatim>\<open>services/ledger.py\<close>; \<open>Accounts\<close>: \<^verbatim>\<open>services/accounts.py\<close> and \<^verbatim>\<open>models/payment.py\<close>.
  \<^item> \<open>Card_Repository\<close>: \<^verbatim>\<open>repositories/credit_card.py\<close>, \<^verbatim>\<open>repositories/accounts.py\<close>.  \<open>Card_Posting\<close>: the
    journal step shared by the card services.  \<open>Card_Network\<close>: \<^verbatim>\<open>services/card_network.py\<close>.
    \<open>Card_Service\<close>, \<open>Card_Refunds\<close>, \<open>Card_Views\<close>: \<^verbatim>\<open>services/credit_card.py\<close>, \<^verbatim>\<open>services/taxonomy_service.py\<close>.
  \<^item> \<open>Merchants\<close>: \<^verbatim>\<open>services/merchant_service.py\<close>, \<^verbatim>\<open>services/merchant_intelligence_service.py\<close>.
    \<open>Fraud_Scoring\<close>: \<^verbatim>\<open>services/fraud_scoring.py\<close>.  \<open>Fraud_Store\<close>: \<^verbatim>\<open>repositories/fraud.py\<close>,
    \<^verbatim>\<open>services/fraud_money.py\<close>.  \<open>Fraud_Alerts\<close>, \<open>Fraud_Triage\<close>: \<^verbatim>\<open>services/fraud_alerts.py\<close>.
  \<^item> \<open>Decision_Contracts\<close>, \<open>Decisioning\<close>: \<^verbatim>\<open>services/decisioning.py\<close> and its two JSON resources.
  \<^item> \<open>Proposal_Protocol\<close>: \<^verbatim>\<open>services/action_proposal_context.py\<close>, \<^verbatim>\<open>services/proposal_protocol.py\<close>,
    \<^verbatim>\<open>models/action_proposal.py\<close>.  \<open>Proposal_Errors\<close>, \<open>Proposal_Lifecycle\<close>: \<^verbatim>\<open>services/proposal_lifecycle.py\<close>.
    \<open>Proposal_Evidence\<close>, \<open>Proposal_Audit\<close>: \<^verbatim>\<open>services/proposal_evidence.py\<close>, \<^verbatim>\<open>services/proposal_audit.py\<close>.
    \<open>Action_Proposals\<close>: \<^verbatim>\<open>services/action_proposals.py\<close>.  \<open>Proposal_Safety\<close> (effects of a commit),
    \<open>Proposal_Life_Cycle\<close> (the abstract machine), \<open>Proposal_Requests\<close> (the refinement of each request) and
    \<open>Proposal_Service\<close> (sequences of requests) hold the proofs.
  \<^item> \<open>Banking_Operations\<close>, \<open>Credit_Limit_Offers\<close>, \<open>Credit_Limit_Commit\<close>: the operations a proposal may carry out,
    \<^verbatim>\<open>services/proposal_capabilities.py\<close>, and the wording of fraud proposals, \<^verbatim>\<open>services/fraud_presentation.py\<close>.
    \<open>Counteroffers\<close>, \<open>Action_Definitions\<close>: \<^verbatim>\<open>services/proposal_definitions.py\<close>.  \<open>Bundled_Catalogue\<close>: the documents of
    \<^verbatim>\<open>config/action_definitions\<close> and \<^verbatim>\<open>config/decision_proposal_contracts\<close>.
  \<^item> \<open>Playbook_Store\<close>, \<open>Playbook_Memory\<close>: \<^verbatim>\<open>models/playbook.py\<close> and the SQL and in-memory repositories of
    \<^verbatim>\<open>services/playbook_repository.py\<close>; \<open>Playbook_Adapters\<close>: the simulation between them; \<open>Playbook_Catalogue\<close>:
    their snapshots and listings and the bootstrap.
  \<^item> \<open>Deposit_Opening\<close>: \<open>create_deposit_account\<close> of \<^verbatim>\<open>services/accounts.py\<close> with \<^verbatim>\<open>services/profile.py\<close>,
    \<^verbatim>\<open>repositories/identity.py\<close> and \<^verbatim>\<open>models/origination.py\<close>.

  \<^bold>\<open>How the parts interact.\<close>  Every money movement posts a balanced journal transaction and updates cached
  balances: a transfer moves two deposit accounts, a bill payment a deposit account and a card account with its
  mirror account, a settlement a card account and its mirror against a clearing account.  An authorization places
  a hold, asks the scoring model for a verdict and opens or extends the fraud alert of the account; triage voids
  holds, refunds charges and replaces the card.  An agent runtime reaches such an operation through a proposal: it
  is prepared on one customer turn, presented, and executed by the commit of a later turn, through the handler of
  its registered action; the session of a request (\<open>session\<close>) is what is committed and what is flushed so far.
  The registry of actions is loaded from definition documents, the bundled ones or a snapshot of the playbook store;
  \<open>service_handler\<close> turns a validated document into the handler that runs the registered operation (\<open>OPERATIONS\<close>).
  The operations on the credit limit ask the credit decision of \<open>Decisioning\<close> through the record \<open>decisioning\<close>.

  \<^bold>\<open>What the lemmas show.\<close>  For the books: posting, transfers, bill payments, settlements and refunds keep
  \<open>books_ok\<close> (no reconciliation blocker), are append-only and move exactly their amount; \<open>settled_exactly_once\<close>
  lifts this to every sequence of network messages as a refinement of the hold life cycle.  For idempotency:
  repeating a posting, transfer, payment, authorization, credit or void changes nothing.  For the card: credit
  stays within its limit, a replaced card is refused.  For fraud: scores are explained by their reasons, the
  window counters agree with reference definitions, an account has one open alert, triage stays inside the
  account and the authorizations an alert lists.  For decisions: approvals have a basis, a receipt accepted by \<open>validate_decision\<close> is bound
  to its request, and the wire form is faithful (locale \<open>codec\<close>).
  For proposals, whatever the registry, its handlers and the clock are: every request is a run of an abstract
  machine that offers and closes proposals (\<open>life_cycle\<close>), a banking operation runs only in the first commit of an
  open proposal with later-turn evidence, at most once, and a retried commit replays its recorded result.
  For the operations: an offered limit comes from a fresh receipt of the provider, a committed limit is the one the
  customer was shown and, where the bureau was asked, the one its answer approves, a counteroffer is exactly what its
  origin offered.  For the catalogue: every served action is a validated document, bound to the functions of a
  registered operation.  For the playbook store: both repositories answer alike over every sequence of requests (locale
  \<open>playbook_adapter\<close>), published revisions and closed change requests are final, and a head moves only to a draft based
  on the revision it replaces.  For deposit accounts: opening one ends, credits exactly the initial deposit and keeps
  the books; only the cached balance of the funding clearing account drifts.

  \<^bold>\<open>Parameters.\<close>  Digests, \<open>uuid5\<close>, clocks, random authorization codes, the great-circle distance and
  resource files are arguments (\<open>network\<close>, \<open>triage_world\<close>, \<open>decision_world\<close>, \<open>proposal_world\<close>, \<open>decisioning\<close>; the
  clock readings of one operation are indexed by \<open>reading\<close>), as is the stream of account numbers drawn.  The theorems
  on proposals hold for every action handler and registry; the ones of the code are \<open>service_handler\<close> and
  \<open>OPERATIONS\<close>.  Recursions are structural except decimal printing, whose fuel is one more than the number, the
  template parser, which ends by a measure, and the drawing of account numbers, a \<open>partial_function\<close> whose result is
  proved to exist for distinct draws.

  \<^bold>\<open>Not modelled.\<close>  HTTP routers and MCP tools (argument parsing and serialisation around the services), logging,
  Redis and Pub/Sub publication, database engine set-up, seeding and simulation, playbook authoring and discovery, loan
  underwriting, voice sessions, the agents and the web client.  Concurrent transactions appear where the code handles
  them: as rows locked by another one, as a commit that fails, and as changes of the bank between two requests.
\<close>

end
